(* ===== verification/Prelude.thy ===== *)
theory Prelude
  imports Main "HOL-Library.Word"
begin

unbundle bit_operations_syntax

text \<open>
  The vocabulary the component theories share.

  The C++ code throws exceptions, reads through raw pointers and loops without a syntactic bound.
  A computation is therefore a function from a state to a result that is one of:
  \<^item> \<open>Ok (a, s)\<close>: the call returned \<open>a\<close> and left the state \<open>s\<close>;
  \<^item> \<open>Throw e\<close>: the code threw the exception \<open>e\<close>;
  \<^item> \<open>Undefined\<close>: the code read memory outside the buffer it walks (undefined behaviour in C++);
  \<^item> \<open>NoFuel\<close>: the iteration bound given to a loop was used up, i.e. the loop did not end
    within the bound.
  \<open>wpM F m s Q\<close> is the weakest-precondition reading of a computation.  Every operation of a
  scanner has one rule in the collection \<open>wp\<close>, in continuation form: to show a postcondition \<open>Q\<close>
  of the operation, show \<open>Q\<close> of everything the operation may return.  A composed operation is then
  proved by resolving with the collection.
\<close>

section \<open>Machine types\<close>

type_synonym byte = "8 word"
type_synonym char32 = "32 word"
type_synonym u16 = "16 word"
type_synonym u32 = "32 word"
type_synonym u64 = "64 word"

section \<open>Results and computations\<close>

datatype ('e, 'a) res = Ok 'a | Throw 'e | Undefined | NoFuel

type_synonym ('s, 'e, 'a) comp = "'s \<Rightarrow> ('e, 'a \<times> 's) res"

named_theorems wp \<open>weakest-precondition rules, in continuation form\<close>
named_theorems defs \<open>definitions unfolded when a computation is stepped through\<close>

definition ret :: "'a \<Rightarrow> ('s, 'e, 'a) comp" where
  "ret a s = Ok (a, s)"

definition raise :: "'e \<Rightarrow> ('s, 'e, 'a) comp" where
  "raise e s = Throw e"

definition bindM :: "('s, 'e, 'a) comp \<Rightarrow> ('a \<Rightarrow> ('s, 'e, 'b) comp) \<Rightarrow> ('s, 'e, 'b) comp" where
  "bindM m f s = (case m s of Ok (a, s') \<Rightarrow> f a s' | Throw e \<Rightarrow> Throw e
                  | Undefined \<Rightarrow> Undefined | NoFuel \<Rightarrow> NoFuel)"

definition thenM :: "('s, 'e, 'a) comp \<Rightarrow> ('s, 'e, 'b) comp \<Rightarrow> ('s, 'e, 'b) comp" where
  "thenM m k = bindM m (\<lambda>_. k)"

definition getM :: "('s \<Rightarrow> 'a) \<Rightarrow> ('s, 'e, 'a) comp" where
  "getM f s = Ok (f s, s)"

definition modifyM :: "('s \<Rightarrow> 's) \<Rightarrow> ('s, 'e, unit) comp" where
  "modifyM f s = Ok ((), f s)"

definition out_of_fuel :: "('s, 'e, 'a) comp" where
  "out_of_fuel s = NoFuel"

text \<open>A read that may leave the buffer: \<open>None\<close> is undefined behaviour.\<close>

definition readM :: "('s \<Rightarrow> 'a option) \<Rightarrow> ('s, 'e, 'a) comp" where
  "readM f s = (case f s of None \<Rightarrow> Undefined | Some a \<Rightarrow> Ok (a, s))"

lemma bindM_cong [fundef_cong]:
  assumes "m s = m' s'" and "\<And>a t. m' s' = Ok (a, t) \<Longrightarrow> f a t = f' a t" and "s = s'"
  shows "bindM m f s = bindM m' f' s'"
  using assms by (cases "m' s'") (auto simp: bindM_def)

section \<open>Weakest preconditions\<close>

text \<open>
  \<open>wpM F m s Q\<close>: run from \<open>s\<close>, the computation \<open>m\<close> does not run into undefined behaviour, and if it
  returns \<open>a\<close> in state \<open>t\<close> then \<open>Q a t\<close>.  Throwing is allowed.  Using up the fuel is allowed only if
  \<open>F\<close>: with \<open>F = False\<close> the statement is a termination proof, with \<open>F = True\<close> only a safety proof.
\<close>

definition wpM :: "bool \<Rightarrow> ('s, 'e, 'a) comp \<Rightarrow> 's \<Rightarrow> ('a \<Rightarrow> 's \<Rightarrow> bool) \<Rightarrow> bool" where
  "wpM F m s Q = (case m s of Ok (a, t) \<Rightarrow> Q a t | Throw _ \<Rightarrow> True | Undefined \<Rightarrow> False | NoFuel \<Rightarrow> F)"

lemma wpM_mono: "wpM F m s P \<Longrightarrow> (\<And>a t. P a t \<Longrightarrow> Q a t) \<Longrightarrow> wpM F m s Q"
  by (auto simp: wpM_def split: res.splits)

lemma wpM_Ok: "wpM F m s Q \<Longrightarrow> m s = Ok (a, t) \<Longrightarrow> Q a t"
  by (simp add: wpM_def)

lemma wpM_total: "wpM False m s Q \<Longrightarrow> (\<exists>a t. m s = Ok (a, t) \<and> Q a t) \<or> (\<exists>e. m s = Throw e)"
  by (auto simp: wpM_def split: res.splits)

lemma wpM_safe: "wpM F m s Q \<Longrightarrow> m s \<noteq> Undefined"
  by (auto simp: wpM_def)

lemma wp_ret [wp]: "Q a s \<Longrightarrow> wpM F (ret a) s Q"
  by (simp add: wpM_def ret_def)

lemma wp_raise [wp]: "wpM F (raise e) s Q"
  by (simp add: wpM_def raise_def)

lemma wp_bind [wp]: "wpM F m s (\<lambda>a t. wpM F (f a) t Q) \<Longrightarrow> wpM F (bindM m f) s Q"
  by (auto simp: wpM_def bindM_def split: res.splits)

lemma wp_then [wp]: "wpM F m s (\<lambda>_ t. wpM F k t Q) \<Longrightarrow> wpM F (thenM m k) s Q"
  by (simp add: thenM_def wp_bind)

lemma wp_get [wp]: "Q (f s) s \<Longrightarrow> wpM F (getM f) s Q"
  by (simp add: wpM_def getM_def)

lemma wp_modify [wp]: "Q () (f s) \<Longrightarrow> wpM F (modifyM f) s Q"
  by (simp add: wpM_def modifyM_def)

lemma wp_fuel [wp]: "F \<Longrightarrow> wpM F out_of_fuel s Q"
  by (simp add: wpM_def out_of_fuel_def)

lemma wp_if [wp]: "(b \<Longrightarrow> wpM F m s Q) \<Longrightarrow> (\<not> b \<Longrightarrow> wpM F k s Q) \<Longrightarrow> wpM F (if b then m else k) s Q"
  by simp

text \<open>Evaluating a composed computation on a concrete state.\<close>

lemmas run_defs = bindM_def thenM_def ret_def raise_def getM_def modifyM_def readM_def out_of_fuel_def

section \<open>Bits of machine words\<close>

text \<open>A word below \<open>2 ^ k\<close> has no bit at position \<open>k\<close> or above.\<close>

lemma bit_below:
  fixes w :: "'a::len word"
  assumes "unat w < 2 ^ k" and "k \<le> n"
  shows "\<not> bit w n"
proof
  assume b: "bit w n"
  then have n: "n < LENGTH('a)" by (rule bit_imp_le_length)
  have "bit (unat w) n" using b n by (simp add: bit_unsigned_iff)
  then have "odd (unat w div 2 ^ n)" by (simp add: bit_iff_odd)
  then have "2 ^ n \<le> unat w" by (metis div_less even_zero not_less)
  moreover have "(2::nat) ^ k \<le> 2 ^ n" using assms(2) by simp
  ultimately show False using assms(1) by linarith
qed

end
