(* ===== verification/UString.thy ===== *)
theory UString
  imports Prelude
begin

text \<open>
  \<open>util/ustring.h\<close> and \<open>util/ustring.cpp\<close>: views of UTF-8 text, the forward iterator the scanners
  walk them with, and the UTF-8 and modified UTF-8 encoders.

  A \<open>StringView\<close> is the list of its bytes.  An \<open>Iterator\<close> is the view and an offset; C++ only
  compares the offset with the end of the view, so an offset beyond the end is representable and
  a read there is \<open>Undefined\<close>.  \<open>Peek\<close> returns the raw \<open>char\<close> converted to \<open>char32_t\<close>; \<open>char\<close> is
  signed on the hosts the tool runs on (x86-64), so a byte from 0x80 up is sign extended.
\<close>

section \<open>Constants\<close>

abbreviation INVALID_CP :: char32 where "INVALID_CP \<equiv> 0xFFFFFFFF"
abbreviation UTF8_1BYTE_LIMIT :: char32 where "UTF8_1BYTE_LIMIT \<equiv> 0x80"
abbreviation UTF8_2BYTE_LIMIT :: char32 where "UTF8_2BYTE_LIMIT \<equiv> 0x800"
abbreviation UTF8_3BYTE_LIMIT :: char32 where "UTF8_3BYTE_LIMIT \<equiv> 0x10000"
abbreviation UTF8_2BYTE_MASK :: char32 where "UTF8_2BYTE_MASK \<equiv> 0x1F"
abbreviation UTF8_3BYTE_MASK :: char32 where "UTF8_3BYTE_MASK \<equiv> 0x0F"
abbreviation UTF8_4BYTE_MASK :: char32 where "UTF8_4BYTE_MASK \<equiv> 0x07"
abbreviation UTF8_DECODE_4BYTE_MASK :: char32 where "UTF8_DECODE_4BYTE_MASK \<equiv> 0xF8"
abbreviation UTF8_DECODE_4BYTE_LIMIT :: char32 where "UTF8_DECODE_4BYTE_LIMIT \<equiv> 0xF4"
abbreviation UTF8_2BYTE_HEADER :: char32 where "UTF8_2BYTE_HEADER \<equiv> 0xC0"
abbreviation UTF8_3BYTE_HEADER :: char32 where "UTF8_3BYTE_HEADER \<equiv> 0xE0"
abbreviation UTF8_4BYTE_HEADER :: char32 where "UTF8_4BYTE_HEADER \<equiv> 0xF0"
abbreviation UTF8_CONT_MASK :: char32 where "UTF8_CONT_MASK \<equiv> 0x3F"
abbreviation UTF8_CONT_HEADER :: char32 where "UTF8_CONT_HEADER \<equiv> 0x80"
abbreviation SURROGATE_HIGH_MIN :: char32 where "SURROGATE_HIGH_MIN \<equiv> 0xD800"
abbreviation SURROGATE_HIGH_MAX :: char32 where "SURROGATE_HIGH_MAX \<equiv> 0xDC00"
abbreviation SURROGATE_LOW_MIN :: char32 where "SURROGATE_LOW_MIN \<equiv> 0xDC00"
abbreviation SURROGATE_LOW_MAX :: char32 where "SURROGATE_LOW_MAX \<equiv> 0xE000"
abbreviation SURROGATE_LOW_MARKER :: char32 where "SURROGATE_LOW_MARKER \<equiv> 0x3FF"
abbreviation CELESTIAL_OFFSET :: char32 where "CELESTIAL_OFFSET \<equiv> UTF8_3BYTE_LIMIT"

text \<open>The shift amounts \<open>UTF8_2BYTE_SHIFT\<close>, \<open>UTF8_3BYTE_SHIFT\<close> and \<open>UTF8_4BYTE_SHIFT\<close> are 6, 12, 18.\<close>

section \<open>Surrogates\<close>

definition IsHighSurrogate :: "char32 \<Rightarrow> bool" where
  "IsHighSurrogate cp \<longleftrightarrow> SURROGATE_HIGH_MIN \<le> cp \<and> cp < SURROGATE_HIGH_MAX"

definition IsLowSurrogate :: "char32 \<Rightarrow> bool" where
  "IsLowSurrogate cp \<longleftrightarrow> SURROGATE_LOW_MIN \<le> cp \<and> cp < SURROGATE_LOW_MAX"

definition DecodeSurrogates :: "char32 \<Rightarrow> char32 \<Rightarrow> char32" where
  "DecodeSurrogates high low =
    (let result = push_bit 10 (high - SURROGATE_HIGH_MIN);
         result = result + (low - SURROGATE_LOW_MAX);
         result = result + CELESTIAL_OFFSET
     in result)"

definition EncodeSurrogate :: "char32 \<Rightarrow> char32 \<times> char32" where
  "EncodeSurrogate cp =
    (let cu1 = drop_bit 10 (cp - CELESTIAL_OFFSET) OR SURROGATE_HIGH_MIN;
         cu2 = (cp AND SURROGATE_LOW_MARKER) OR SURROGATE_HIGH_MAX
     in (cu1, cu2))"

section \<open>The iterator\<close>

record iter =
  sv :: "byte list"
  ipos :: nat

definition HasNext :: "iter \<Rightarrow> bool" where
  "HasNext it \<longleftrightarrow> ipos it \<noteq> length (sv it)"

text \<open>The byte \<open>k\<close> places ahead; \<open>None\<close> when that is not a byte of the view.\<close>

definition byteAt :: "iter \<Rightarrow> nat \<Rightarrow> byte option" where
  "byteAt it k = (if ipos it + k < length (sv it) then Some (sv it ! (ipos it + k)) else None)"

definition Peek :: "iter \<Rightarrow> char32 option" where
  "Peek it = (if HasNext it then map_option scast (byteAt it 0) else Some INVALID_CP)"

definition codeUnit :: "iter \<Rightarrow> nat \<Rightarrow> char32 option" where
  "codeUnit it k = map_option ucast (byteAt it k)"

text \<open>
  \<open>DecodeCP\<close>: the code point at the iterator and the number of bytes it takes.  At the end of the
  view the C++ leaves \<open>cpSize\<close> as it was; the callers initialise it to 0, which the model returns.
\<close>

definition DecodeCP :: "iter \<Rightarrow> (char32 \<times> nat) option" where
  "DecodeCP it =
    (if \<not> HasNext it then Some (INVALID_CP, 0)
     else Option.bind (codeUnit it 0) (\<lambda>cu0.
       if cu0 < UTF8_1BYTE_LIMIT then Some (cu0, 1)
       else if cu0 AND UTF8_3BYTE_HEADER = UTF8_2BYTE_HEADER then
         Option.bind (codeUnit it 1) (\<lambda>cu1.
           Some (push_bit 6 (cu0 AND UTF8_2BYTE_MASK) OR (cu1 AND UTF8_CONT_MASK), 2))
       else if cu0 AND UTF8_4BYTE_HEADER = UTF8_3BYTE_HEADER then
         Option.bind (codeUnit it 1) (\<lambda>cu1. Option.bind (codeUnit it 2) (\<lambda>cu2.
           Some (push_bit 12 (cu0 AND UTF8_3BYTE_MASK) OR push_bit 6 (cu1 AND UTF8_CONT_MASK)
                 OR (cu2 AND UTF8_CONT_MASK), 3)))
       else if cu0 AND UTF8_DECODE_4BYTE_MASK = UTF8_4BYTE_HEADER \<and> cu0 \<le> UTF8_DECODE_4BYTE_LIMIT then
         Option.bind (codeUnit it 1) (\<lambda>cu1. Option.bind (codeUnit it 2) (\<lambda>cu2. Option.bind (codeUnit it 3) (\<lambda>cu3.
           Some (push_bit 18 (cu0 AND UTF8_4BYTE_MASK) OR push_bit 12 (cu1 AND UTF8_CONT_MASK)
                 OR push_bit 6 (cu2 AND UTF8_CONT_MASK) OR (cu3 AND UTF8_CONT_MASK), 4))))
       else Some (INVALID_CP, 1)))"

definition Next :: "iter \<Rightarrow> (char32 \<times> iter) option" where
  "Next it = map_option (\<lambda>(cp, n). (cp, it\<lparr>ipos := ipos it + n\<rparr>)) (DecodeCP it)"

definition PeekCp :: "iter \<Rightarrow> char32 option" where
  "PeekCp it = map_option fst (DecodeCP it)"

definition PeekCpSize :: "iter \<Rightarrow> (char32 \<times> nat) option" where
  "PeekCpSize it = DecodeCP it"

definition Forward :: "nat \<Rightarrow> iter \<Rightarrow> iter" where
  "Forward offset it = it\<lparr>ipos := ipos it + offset\<rparr>"

text \<open>\<open>Backward\<close> before the first byte of the view is undefined.\<close>

definition Backward :: "nat \<Rightarrow> iter \<Rightarrow> iter option" where
  "Backward offset it = (if offset \<le> ipos it then Some (it\<lparr>ipos := ipos it - offset\<rparr>) else None)"

definition Reset :: "nat \<Rightarrow> iter \<Rightarrow> iter" where
  "Reset offset it = it\<lparr>ipos := offset\<rparr>"

definition Index :: "iter \<Rightarrow> nat" where
  "Index it = ipos it"

definition SkipCp :: "iter \<Rightarrow> iter option" where
  "SkipCp it =
    (if \<not> HasNext it then Some it
     else Option.bind (codeUnit it 0) (\<lambda>cu0.
       let it = it\<lparr>ipos := ipos it + 1\<rparr> in
       if cu0 < UTF8_1BYTE_LIMIT then Some it
       else if cu0 AND UTF8_3BYTE_HEADER = UTF8_2BYTE_HEADER then Some (it\<lparr>ipos := ipos it + 1\<rparr>)
       else if cu0 AND UTF8_4BYTE_HEADER = UTF8_3BYTE_HEADER then Some (it\<lparr>ipos := ipos it + 2\<rparr>)
       else if cu0 AND UTF8_DECODE_4BYTE_MASK = UTF8_4BYTE_HEADER \<and> cu0 \<le> UTF8_DECODE_4BYTE_LIMIT
         then Some (it\<lparr>ipos := ipos it + 3\<rparr>)
       else Some it))"

definition Substr :: "byte list \<Rightarrow> nat \<Rightarrow> nat \<Rightarrow> byte list" where
  "Substr s b e = take (e - b) (drop b s)"

section \<open>Encoders\<close>

definition chr8 :: "char32 \<Rightarrow> byte" where
  "chr8 w = ucast w"

definition Utf8Encode :: "char32 \<Rightarrow> byte list" where
  "Utf8Encode cu =
    (if cu < UTF8_1BYTE_LIMIT then [chr8 cu]
     else if cu < UTF8_2BYTE_LIMIT then
       [chr8 ((drop_bit 6 cu AND UTF8_2BYTE_MASK) OR UTF8_2BYTE_HEADER),
        chr8 ((cu AND UTF8_CONT_MASK) OR UTF8_CONT_HEADER)]
     else if cu < UTF8_3BYTE_LIMIT then
       [chr8 ((drop_bit 12 cu AND UTF8_3BYTE_MASK) OR UTF8_3BYTE_HEADER),
        chr8 ((drop_bit 6 cu AND UTF8_CONT_MASK) OR UTF8_CONT_HEADER),
        chr8 ((cu AND UTF8_CONT_MASK) OR UTF8_CONT_HEADER)]
     else
       [chr8 ((drop_bit 18 cu AND UTF8_4BYTE_MASK) OR UTF8_4BYTE_HEADER),
        chr8 ((drop_bit 12 cu AND UTF8_CONT_MASK) OR UTF8_CONT_HEADER),
        chr8 ((drop_bit 6 cu AND UTF8_CONT_MASK) OR UTF8_CONT_HEADER),
        chr8 ((cu AND UTF8_CONT_MASK) OR UTF8_CONT_HEADER)])"

lemma unat_or_le: "unat (a OR b :: 'a::len word) \<le> unat a + unat b"
proof -
  have "uint (a OR b) = uint a OR uint b" by (simp add: unsigned_or_eq)
  moreover have "0 \<le> uint a AND uint b" by simp
  ultimately have "uint (a OR b) \<le> uint a + uint b"
    using plus_and_or [of "uint a" "uint b"] by linarith
  then show ?thesis unfolding uint_nat by linarith
qed

lemma unat_minus_below: "\<not> a < b \<Longrightarrow> unat (a - b) = unat a - unat b" for a b :: "'a::len word"
  by (simp add: unat_sub not_less)

lemma EncodeSurrogate_smaller:
  assumes "\<not> c < UTF8_3BYTE_LIMIT"
  shows "unat (fst (EncodeSurrogate c)) < unat c" "unat (snd (EncodeSurrogate c)) < unat c"
proof -
  have c: "65536 \<le> unat c" using assms by (simp add: word_less_nat_alt)
  have "unat (drop_bit 10 (c - CELESTIAL_OFFSET)) = (unat c - 65536) div 1024"
    unfolding unat_drop_bit_eq unat_minus_below [OF assms] by (simp add: drop_bit_eq_div)
  then have "unat (fst (EncodeSurrogate c)) \<le> (unat c - 65536) div 1024 + 55296"
    using unat_or_le [of "drop_bit 10 (c - CELESTIAL_OFFSET)" SURROGATE_HIGH_MIN]
    by (simp add: EncodeSurrogate_def Let_def)
  with c show "unat (fst (EncodeSurrogate c)) < unat c" by linarith
  have "unat (c AND SURROGATE_LOW_MARKER) \<le> 1023"
    using word_and_le1 [of c SURROGATE_LOW_MARKER] by (simp add: word_le_nat_alt)
  then have "unat (snd (EncodeSurrogate c)) \<le> 1023 + 56320"
    using unat_or_le [of "c AND SURROGATE_LOW_MARKER" SURROGATE_HIGH_MAX]
    by (simp add: EncodeSurrogate_def Let_def)
  with c show "unat (snd (EncodeSurrogate c)) < unat c" by linarith
qed

function Mutf8Encode :: "char32 \<Rightarrow> byte list" where
  "Mutf8Encode c =
    (if c = 0 then [chr8 UTF8_2BYTE_HEADER, chr8 UTF8_CONT_HEADER]
     else if c < UTF8_1BYTE_LIMIT then [chr8 c]
     else if c < UTF8_2BYTE_LIMIT then
       [chr8 (drop_bit 6 c OR UTF8_2BYTE_HEADER), chr8 ((c AND UTF8_CONT_MASK) OR UTF8_CONT_HEADER)]
     else if c < UTF8_3BYTE_LIMIT then
       [chr8 (drop_bit 12 c OR UTF8_3BYTE_HEADER),
        chr8 ((drop_bit 6 c AND UTF8_CONT_MASK) OR UTF8_CONT_HEADER),
        chr8 ((c AND UTF8_CONT_MASK) OR UTF8_CONT_HEADER)]
     else Mutf8Encode (fst (EncodeSurrogate c)) @ Mutf8Encode (snd (EncodeSurrogate c)))"
  by pat_completeness auto
termination
  by (relation "measure unat") (simp_all add: EncodeSurrogate_smaller)

declare Mutf8Encode.simps [simp del]

section \<open>Loops over a whole view\<close>

text \<open>
  \<open>Mutf8\<close> and \<open>EscapeSymbol<encoder>\<close> walk the view once.  Every iteration calls \<open>Next\<close>, which
  advances by at least one byte before the end of the view, so a bound of one more than the length
  of the view is never used up (\<open>Mutf8_total\<close>).
\<close>

fun Mutf8_loop :: "nat \<Rightarrow> iter \<Rightarrow> byte list \<Rightarrow> (unit, byte list) res" where
  "Mutf8_loop 0 it acc = NoFuel"
| "Mutf8_loop (Suc n) it acc =
    (if HasNext it then
       (case Next it of None \<Rightarrow> Undefined
        | Some (cp, it) \<Rightarrow> Mutf8_loop n it (acc @ Mutf8Encode cp))
     else Ok acc)"

definition Mutf8 :: "byte list \<Rightarrow> (unit, byte list) res" where
  "Mutf8 s = Mutf8_loop (Suc (length s)) \<lparr>sv = s, ipos = 0\<rparr> []"

text \<open>A line feed right after a carriage return is swallowed.\<close>

definition Escape_afterCR :: "iter \<Rightarrow> iter option" where
  "Escape_afterCR it =
    (if HasNext it then
       let it' = Forward 1 it in
       Option.bind (Peek it') (\<lambda>c. if c \<noteq> 0x0A then Backward 1 it' else Some it')
     else Some it)"

fun EscapeSymbol_loop :: "(char32 \<Rightarrow> byte list) \<Rightarrow> nat \<Rightarrow> iter \<Rightarrow> byte list \<Rightarrow> (unit, byte list) res" where
  "EscapeSymbol_loop encoder 0 it str = NoFuel"
| "EscapeSymbol_loop encoder (Suc n) it str =
    (if HasNext it then
       (case Next it of None \<Rightarrow> Undefined
        | Some (cp, it) \<Rightarrow>
           if cp = 0x0D then
             (case Escape_afterCR it of None \<Rightarrow> Undefined
              | Some it \<Rightarrow> EscapeSymbol_loop encoder n it (str @ [0x5C, 0x6E]))
           else if cp = 0x0A then EscapeSymbol_loop encoder n it (str @ [0x5C, 0x6E])
           else if cp = 0x08 then EscapeSymbol_loop encoder n it (str @ [0x5C, 0x62])
           else if cp = 0x09 then EscapeSymbol_loop encoder n it (str @ [0x5C, 0x74])
           else if cp = 0x0C then EscapeSymbol_loop encoder n it (str @ [0x5C, 0x66])
           else if cp = 0x22 then EscapeSymbol_loop encoder n it (str @ [0x5C, 0x22])
           else if cp = 0x5C then EscapeSymbol_loop encoder n it (str @ [0x5C, 0x5C])
           else EscapeSymbol_loop encoder n it (str @ encoder cp))
     else Ok str)"

definition EscapeSymbol :: "(char32 \<Rightarrow> byte list) \<Rightarrow> byte list \<Rightarrow> (unit, byte list) res" where
  "EscapeSymbol encoder s = EscapeSymbol_loop encoder (Suc (length s)) \<lparr>sv = s, ipos = 0\<rparr> []"

section \<open>Well-formed UTF-8\<close>

text \<open>
  \<open>seqLen\<close> is the length of the sequence a lead byte announces, as \<open>DecodeCP\<close> classifies it (0 for
  a byte that is not a lead byte).  A byte string is well formed when it splits into sequences that
  are complete and whose further bytes are continuation bytes, and none is longer than its code point
  needs (\<open>shortest\<close>).  (Encoded surrogates are not excluded: nothing below needs that.)
\<close>

definition seqLen :: "byte \<Rightarrow> nat" where
  "seqLen b = (let c = ucast b :: char32 in
     if c < UTF8_1BYTE_LIMIT then 1
     else if c AND UTF8_3BYTE_HEADER = UTF8_2BYTE_HEADER then 2
     else if c AND UTF8_4BYTE_HEADER = UTF8_3BYTE_HEADER then 3
     else if c AND UTF8_DECODE_4BYTE_MASK = UTF8_4BYTE_HEADER \<and> c \<le> UTF8_DECODE_4BYTE_LIMIT then 4
     else 0)"

definition isCont :: "byte \<Rightarrow> bool" where
  "isCont b \<longleftrightarrow> b AND 0xC0 = 0x80"

definition shortest :: "byte \<Rightarrow> byte list \<Rightarrow> bool" where
  "shortest b bs \<longleftrightarrow> b \<notin> {0xC0, 0xC1} \<and> (b = 0xE0 \<longrightarrow> 0xA0 \<le> hd bs) \<and> (b = 0xF0 \<longrightarrow> 0x90 \<le> hd bs)"

function wf_utf8 :: "byte list \<Rightarrow> bool" where
  "wf_utf8 [] = True"
| "wf_utf8 (b # bs) =
    (0 < seqLen b \<and> seqLen b - 1 \<le> length bs \<and> list_all isCont (take (seqLen b - 1) bs) \<and> shortest b bs
     \<and> wf_utf8 (drop (seqLen b - 1) bs))"
  by pat_completeness auto
termination
  by (relation "measure length") (auto simp: less_Suc_eq_le)

text \<open>The iterator stands on a code-point boundary of a well-formed text (or at its end).\<close>

definition wf_at :: "iter \<Rightarrow> bool" where
  "wf_at it \<longleftrightarrow> ipos it \<le> length (sv it) \<and> wf_utf8 (drop (ipos it) (sv it))"

definition left :: "iter \<Rightarrow> nat" where
  "left it = length (sv it) - ipos it"

section \<open>Lemmas on words and bytes\<close>

lemma unat_push_mask_le: "unat (push_bit k (x AND m) :: char32) \<le> unat m * 2 ^ k"
proof -
  have "unat (push_bit k (x AND m)) \<le> push_bit k (unat (x AND m))"
    unfolding unsigned_push_bit_eq by (rule take_bit_nat_less_eq_self)
  also have "\<dots> = unat (x AND m) * 2 ^ k" by (simp add: push_bit_eq_mult)
  also have "\<dots> \<le> unat m * 2 ^ k"
    using word_and_le1 [of x m] by (simp add: word_le_nat_alt)
  finally show ?thesis .
qed

lemma unat_mask_le: "unat (x AND m :: char32) \<le> unat m"
  using word_and_le1 [of x m] by (simp add: word_le_nat_alt)

lemma unat_ucast8: "unat (ucast (b :: byte) :: char32) = unat b"
proof -
  have "unat b < 2 ^ 8" using unsigned_less [of b] by simp
  then show ?thesis by (simp add: unsigned_ucast_eq take_bit_nat_eq_self)
qed

lemma ucast8_less: "(ucast (b :: byte) :: char32) < 0x100"
  using unsigned_less [of b, where ?'a = nat] by (simp add: word_less_nat_alt unat_ucast8)

lemma scast8_ascii:
  assumes "unat (b :: byte) < 0x80"
  shows "(scast b :: char32) = ucast b"
proof (rule bit_word_eqI)
  fix n assume "n < LENGTH(32)"
  have hi: "\<not> bit b k" if "7 \<le> k" for k
    using bit_below [of b 7 k] assms that by simp
  show "bit (scast b :: char32) n \<longleftrightarrow> bit (ucast b :: char32) n"
    using hi [of n] hi [of 7] by (cases "n < 7") (auto simp: bit_signed_iff bit_unsigned_iff min_def)
qed

lemma bit7_high: "bit (b :: byte) 7" if "0x80 \<le> unat b"
proof (rule ccontr)
  assume "\<not> bit b 7"
  then have "take_bit 7 b = b"
    by (intro bit_word_eqI) (auto simp: bit_take_bit_iff less_Suc_eq numeral_eq_Suc)
  then have "unat b = take_bit 7 (unat b)" by (metis unsigned_take_bit_eq)
  then have "unat b < 2 ^ 7" by (metis take_bit_nat_less_exp)
  with that show False by simp
qed

lemma scast8_high:
  assumes "0x80 \<le> unat (b :: byte)"
  shows "0xFFFFFF80 \<le> (scast b :: char32)"
proof -
  have "(scast b :: char32) AND 0xFFFFFF80 = 0xFFFFFF80"
  proof (rule bit_word_eqI)
    fix n assume n: "n < LENGTH(32)"
    have "bit (0xFFFFFF80 :: char32) n \<longleftrightarrow> 7 \<le> n"
    proof -
      have eq: "(0xFFFFFF80 :: char32) = NOT (mask 7)" by (simp add: mask_eq_exp_minus_1)
      show ?thesis unfolding eq using n by (simp only: bit_not_iff bit_mask_iff) auto
    qed
    then show "bit ((scast b :: char32) AND 0xFFFFFF80) n \<longleftrightarrow> bit (0xFFFFFF80 :: char32) n"
      using n bit7_high [OF assms] by (auto simp: bit_and_iff bit_signed_iff min_def)
  qed
  then show ?thesis using word_and_le2 [of "scast b" "0xFFFFFF80 :: char32"] by simp
qed

section \<open>Reading a well-formed view\<close>

lemma seqLen_le: "seqLen b \<le> 4"
  by (simp add: seqLen_def Let_def)

lemma seqLen_ascii: "unat b < 0x80 \<Longrightarrow> seqLen b = 1"
  by (simp add: seqLen_def word_less_nat_alt unat_ucast8)

lemma wf_utf8_drop:
  assumes "wf_utf8 (drop p s)" and "p < length s"
  shows "0 < seqLen (s ! p)" "p + seqLen (s ! p) \<le> length s" "wf_utf8 (drop (p + seqLen (s ! p)) s)"
proof -
  have d: "drop p s = s ! p # drop (Suc p) s" using assms(2) by (rule Cons_nth_drop_Suc [symmetric])
  from assms(1) have w: "0 < seqLen (s ! p)" "seqLen (s ! p) - 1 \<le> length s - Suc p"
    "wf_utf8 (drop (seqLen (s ! p) - 1 + Suc p) s)"
    unfolding d by (auto simp: add.commute)
  then show "0 < seqLen (s ! p)" "p + seqLen (s ! p) \<le> length s" using assms(2) by linarith+
  from w show "wf_utf8 (drop (p + seqLen (s ! p)) s)" by (simp add: add.commute)
qed

lemma wf_atD:
  assumes "wf_at it" and "HasNext it"
  shows "ipos it < length (sv it)" "0 < seqLen (sv it ! ipos it)"
    "ipos it + seqLen (sv it ! ipos it) \<le> length (sv it)"
    "wf_at (it\<lparr>ipos := ipos it + seqLen (sv it ! ipos it)\<rparr>)"
proof -
  show p: "ipos it < length (sv it)" using assms by (auto simp: wf_at_def HasNext_def)
  have w: "wf_utf8 (drop (ipos it) (sv it))" using assms(1) by (simp add: wf_at_def)
  note d = wf_utf8_drop [OF w p]
  show "0 < seqLen (sv it ! ipos it)" "ipos it + seqLen (sv it ! ipos it) \<le> length (sv it)"
    using d by blast+
  show "wf_at (it\<lparr>ipos := ipos it + seqLen (sv it ! ipos it)\<rparr>)" using d by (simp add: wf_at_def)
qed

lemma codeUnit_Some: "ipos it + k < length (sv it) \<Longrightarrow> codeUnit it k = Some (ucast (sv it ! (ipos it + k)))"
  by (simp add: codeUnit_def byteAt_def)

text \<open>
  What \<open>DecodeCP\<close> does on a boundary before the end: it reads only bytes of the view, consumes the
  announced sequence, and the value is a 21-bit number, in particular never \<open>INVALID_CP\<close>.
\<close>

lemma DecodeCP_wf:
  assumes "wf_at it" and "HasNext it"
  shows "\<exists>cp. DecodeCP it = Some (cp, seqLen (sv it ! ipos it)) \<and> unat cp < 0x200000"
proof -
  note w = wf_atD [OF assms]
  define c where "c = (ucast (sv it ! ipos it) :: char32)"
  have c: "unat c < 256" using ucast8_less [of "sv it ! ipos it"]
    by (simp add: c_def word_less_nat_alt)
  have cu0: "codeUnit it 0 = Some c" using codeUnit_Some [of it 0] w(1) by (simp add: c_def)
  have cuk: "codeUnit it k = Some (ucast (sv it ! (ipos it + k)))" if "k < seqLen (sv it ! ipos it)" for k
    using that w(3) by (intro codeUnit_Some) linarith
  have len: "seqLen (sv it ! ipos it) = (if c < UTF8_1BYTE_LIMIT then 1
     else if c AND UTF8_3BYTE_HEADER = UTF8_2BYTE_HEADER then 2
     else if c AND UTF8_4BYTE_HEADER = UTF8_3BYTE_HEADER then 3
     else if c AND UTF8_DECODE_4BYTE_MASK = UTF8_4BYTE_HEADER \<and> c \<le> UTF8_DECODE_4BYTE_LIMIT then 4
     else 0)" by (simp add: seqLen_def c_def Let_def)
  have b2: "unat (push_bit 6 (x AND 0x1F) OR (y AND 0x3F)) < 0x200000" for x y :: char32
    using unat_or_le [of "push_bit 6 (x AND 0x1F)" "y AND 0x3F"]
      unat_push_mask_le [of 6 x "0x1F"] unat_mask_le [of y "0x3F"] by (simp del: push_bit_and)
  have b3: "unat (push_bit 12 (x AND 0x0F) OR push_bit 6 (y AND 0x3F) OR (z AND 0x3F)) < 0x200000"
    for x y z :: char32
    using unat_or_le [of "push_bit 12 (x AND 0x0F)" "push_bit 6 (y AND 0x3F) OR (z AND 0x3F)"]
      unat_or_le [of "push_bit 6 (y AND 0x3F)" "z AND 0x3F"]
      unat_push_mask_le [of 12 x "0x0F"] unat_push_mask_le [of 6 y "0x3F"] unat_mask_le [of z "0x3F"]
    by (simp add: or.assoc del: push_bit_and)
  have b4: "unat (push_bit 18 (x AND 0x07) OR push_bit 12 (y AND 0x3F) OR push_bit 6 (z AND 0x3F)
      OR (u AND 0x3F)) < 0x200000" for x y z u :: char32
    using unat_or_le [of "push_bit 18 (x AND 0x07)"
        "push_bit 12 (y AND 0x3F) OR (push_bit 6 (z AND 0x3F) OR (u AND 0x3F))"]
      unat_or_le [of "push_bit 12 (y AND 0x3F)" "push_bit 6 (z AND 0x3F) OR (u AND 0x3F)"]
      unat_or_le [of "push_bit 6 (z AND 0x3F)" "u AND 0x3F"]
      unat_push_mask_le [of 18 x "0x07"] unat_push_mask_le [of 12 y "0x3F"]
      unat_push_mask_le [of 6 z "0x3F"] unat_mask_le [of u "0x3F"]
    by (simp add: or.assoc del: push_bit_and)
  show ?thesis
    using w(2) cuk c assms(2) unfolding len DecodeCP_def cu0
    by (auto simp: b2 b3 b4 simp del: push_bit_and split: if_splits)
qed

lemma DecodeCP_end: "\<not> HasNext it \<Longrightarrow> DecodeCP it = Some (INVALID_CP, 0)"
  by (simp add: DecodeCP_def)

lemma Peek_wf: "wf_at it \<Longrightarrow> \<exists>v. Peek it = Some v"
  by (auto simp: Peek_def wf_at_def HasNext_def byteAt_def)

lemma Peek_bounds: "ipos it \<le> length (sv it) \<Longrightarrow> \<exists>v. Peek it = Some v"
  by (auto simp: Peek_def HasNext_def byteAt_def)

text \<open>A peeked value below 0x80 is the byte at the iterator, which is then a whole code point.\<close>

lemma Peek_ascii:
  assumes "Peek it = Some v" and "v < 0x80"
  shows "ipos it < length (sv it)" "unat (sv it ! ipos it) < 0x80" "v = ucast (sv it ! ipos it)"
    "HasNext it"
proof -
  have n: "HasNext it" using assms by (auto simp: Peek_def split: if_splits)
  then have p: "ipos it < length (sv it)" and v: "v = scast (sv it ! ipos it)"
    using assms(1) by (auto simp: Peek_def byteAt_def split: if_splits)
  have u: "unat (sv it ! ipos it) < 0x80"
  proof (rule ccontr)
    assume "\<not> unat (sv it ! ipos it) < 0x80"
    then have "0xFFFFFF80 \<le> v" unfolding v by (intro scast8_high) simp
    with assms(2) show False by (simp add: word_less_nat_alt word_le_nat_alt)
  qed
  show "ipos it < length (sv it)" "unat (sv it ! ipos it) < 0x80" "HasNext it" by fact+
  show "v = ucast (sv it ! ipos it)" using v scast8_ascii [OF u] by simp
qed

lemma DecodeCP_ascii:
  assumes "Peek it = Some v" and "v < 0x80"
  shows "DecodeCP it = Some (v, 1)"
  using Peek_ascii [OF assms] assms(2)
  by (simp add: DecodeCP_def codeUnit_Some [of it 0, simplified])

lemma wf_at_forward_ascii:
  assumes "wf_at it" and "Peek it = Some v" and "v < 0x80"
  shows "wf_at (Forward 1 it)"
  using wf_atD(4) [OF assms(1) Peek_ascii(4) [OF assms(2,3)]] seqLen_ascii [OF Peek_ascii(2) [OF assms(2,3)]]
  by (simp add: Forward_def)

section \<open>The iterator as an interface\<close>

text \<open>
  What the scanners rely on: on a boundary of a well-formed view \<open>peek\<close> and \<open>advance\<close> read
  only the view, \<open>advance\<close> stays on boundaries and moves unless the end is reached, and stepping
  one byte over an ASCII character is the same as decoding it.
\<close>

locale cursor =
  fixes wf :: "'c \<Rightarrow> bool" and rest :: "'c \<Rightarrow> nat"
    and peek :: "'c \<Rightarrow> char32 option" and advance :: "'c \<Rightarrow> (char32 \<times> 'c) option"
    and forward1 :: "'c \<Rightarrow> 'c"
  assumes peek_total: "wf c \<Longrightarrow> \<exists>v. peek c = Some v"
    and peek_end: "wf c \<Longrightarrow> peek c = Some INVALID_CP \<longleftrightarrow> rest c = 0"
    and advance_total: "wf c \<Longrightarrow> \<exists>v d. advance c = Some (v, d) \<and> wf d
          \<and> (if v = INVALID_CP then d = c \<and> rest c = 0 else rest d < rest c)"
    and advance_ascii: "wf c \<Longrightarrow> peek c = Some v \<Longrightarrow> v < 0x80 \<Longrightarrow> advance c = Some (v, forward1 c)"
begin

lemma forward_ascii:
  assumes "wf c" and "peek c = Some v" and "v < 0x80"
  shows "wf (forward1 c)" "rest (forward1 c) < rest c"
proof -
  have "v \<noteq> INVALID_CP" using assms(3) by auto
  with advance_total [OF assms(1)] advance_ascii [OF assms]
  show "wf (forward1 c)" "rest (forward1 c) < rest c" by auto
qed

lemma advance_le:
  assumes "wf c" and "advance c = Some (v, d)"
  shows "wf d" "rest d \<le> rest c" "v \<noteq> INVALID_CP \<Longrightarrow> rest d < rest c" "v = INVALID_CP \<Longrightarrow> rest c = 0"
  using advance_total [OF assms(1)] assms(2) by (auto split: if_splits)

lemma advance_moves:
  assumes "wf c" and "peek c = Some v" and "v \<noteq> INVALID_CP" and "advance c = Some (w, d)"
  shows "rest d < rest c"
proof -
  have "rest c \<noteq> 0" using peek_end [OF assms(1)] assms(2,3) by auto
  then show ?thesis using advance_total [OF assms(1)] assms(4) by (auto split: if_splits)
qed

end

lemma scast8_FF: "(scast (b :: byte) :: char32) = INVALID_CP \<Longrightarrow> b = 0xFF"
proof -
  assume a: "(scast b :: char32) = INVALID_CP"
  have "b = ucast (scast b :: char32)"
  proof (rule bit_word_eqI)
    fix n assume n: "n < LENGTH(8)"
    then have "min 7 n = n" by simp
    with n show "bit b n \<longleftrightarrow> bit (ucast (scast b :: char32) :: byte) n"
      by (auto simp: bit_unsigned_iff bit_signed_iff)
  qed
  then show "b = 0xFF" by (simp add: a)
qed

interpretation it: cursor wf_at left Peek Next "Forward 1"
proof unfold_locales
  fix c :: iter assume w: "wf_at c"
  show "\<exists>v. Peek c = Some v" by (rule Peek_wf [OF w])
  show "Peek c = Some INVALID_CP \<longleftrightarrow> left c = 0"
  proof (cases "HasNext c")
    case True
    note d = wf_atD [OF w True]
    have "seqLen 0xFF = 0" by (simp add: seqLen_def)
    then have "sv c ! ipos c \<noteq> 0xFF" using d(2) by auto
    then have "Peek c \<noteq> Some INVALID_CP" using d(1) True scast8_FF by (auto simp: Peek_def byteAt_def)
    then show ?thesis using d(1) by (simp add: left_def)
  next
    case False then show ?thesis by (simp add: Peek_def HasNext_def left_def)
  qed
  show "\<exists>v d. Next c = Some (v, d) \<and> wf_at d
      \<and> (if v = INVALID_CP then d = c \<and> left c = 0 else left d < left c)"
  proof (cases "HasNext c")
    case True
    note d = wf_atD [OF w True]
    obtain cp where cp: "DecodeCP c = Some (cp, seqLen (sv c ! ipos c))" "unat cp < 0x200000"
      using DecodeCP_wf [OF w True] by blast
    have "cp \<noteq> INVALID_CP" using cp(2) by auto
    then show ?thesis using d cp(1) by (auto simp: Next_def left_def)
  next
    case False then show ?thesis using w by (cases c) (simp add: Next_def DecodeCP_end HasNext_def left_def)
  qed
  fix v assume "Peek c = Some v" "v < 0x80"
  then show "Next c = Some (v, Forward 1 c)" using DecodeCP_ascii by (simp add: Next_def Forward_def)
qed

section \<open>Round trip of the UTF-8 encoder and decoder\<close>

lemma and_masks:
  "x AND 0x3F = take_bit 6 x" "x AND 0x1F = take_bit 5 x" "x AND 0x0F = take_bit 4 x"
  "x AND 0x07 = take_bit 3 x" for x :: char32
  by (simp_all add: take_bit_eq_mask mask_eq_exp_minus_1)

lemma join_bits:
  "push_bit k (take_bit j (drop_bit k w)) OR take_bit k w = take_bit (k + j) w" for w :: "'a::len word"
  by (rule bit_word_eqI) (auto simp: bit_simps)

lemma take_bit_below: "unat w < 2 ^ k \<Longrightarrow> take_bit k w = w" for w :: "'a::len word"
proof -
  assume "unat w < 2 ^ k"
  then have "n < k" if "bit w n" for n using bit_below [of w k n] that by (auto simp: not_less [symmetric])
  then show ?thesis by (intro bit_word_eqI) (auto simp: bit_take_bit_iff)
qed

lemma ucast_chr8: "unat w < 256 \<Longrightarrow> (ucast (chr8 w) :: char32) = w"
proof -
  assume "unat w < 256"
  then have "n < 8" if "bit w n" for n using bit_below [of w 8 n] that by (auto simp: not_less [symmetric])
  then show ?thesis unfolding chr8_def
    by (intro bit_word_eqI) (auto simp: bit_unsigned_iff intro: leI)
qed

lemma header_byte: "unat (take_bit j x OR h :: char32) < 256" if "2 ^ j + unat h \<le> 256"
proof -
  have "unat (take_bit j x) < 2 ^ j" by (simp add: unsigned_take_bit_eq)
  then show ?thesis using unat_or_le [of "take_bit j x" h] that by linarith
qed

lemma or_ge: "unat h \<le> unat (x OR h :: char32)"
proof -
  have "(x OR h) AND h = h" by (rule bit_word_eqI) (auto simp: bit_simps)
  then show ?thesis using word_and_le2 [of "x OR h" h] by (simp add: word_le_nat_alt)
qed

lemma or_not_less: "l \<le> h \<Longrightarrow> \<not> (x OR h) < (l :: char32)"
  using or_ge [of h x] by (simp add: word_le_nat_alt word_less_nat_alt)

lemma cont_payload: "((x AND 0x3F) OR 0x80) AND 0x3F = (x AND 0x3F :: char32)"
  by (simp add: bit.conj_disj_distrib2 and.assoc)

lemma unat_and_or: "unat m + unat h < 256 \<Longrightarrow> unat ((x AND m) OR h :: char32) < 256"
  using unat_or_le [of "x AND m" h] unat_mask_le [of x m] by linarith

lemma codeUnit_append:
  "k < length e \<Longrightarrow> codeUnit \<lparr>sv = pre @ e @ post, ipos = length pre\<rparr> k = Some (ucast (e ! k))"
  by (simp add: codeUnit_def byteAt_def nth_append)

lemma HasNext_append: "e \<noteq> [] \<Longrightarrow> HasNext \<lparr>sv = pre @ e @ post, ipos = length pre\<rparr>"
  by (simp add: HasNext_def)

lemmas lead_bits = bit.conj_disj_distrib2 and.assoc or_not_less unat_and_or ucast_chr8

lemma decode2:
  assumes "\<not> c < 0x80" and "c < 0x800"
  shows "DecodeCP \<lparr>sv = pre @ Utf8Encode c @ post, ipos = length pre\<rparr> = Some (c, 2)"
proof -
  have e: "Utf8Encode c = [chr8 ((drop_bit 6 c AND 0x1F) OR 0xC0), chr8 ((c AND 0x3F) OR 0x80)]"
    using assms by (simp add: Utf8Encode_def)
  have "unat c < 2 ^ 11" using assms(2) by (simp add: word_less_nat_alt)
  then have v: "push_bit 6 (drop_bit 6 c AND 0x1F) OR (c AND 0x3F) = c"
    unfolding and_masks join_bits by (simp add: take_bit_below)
  note unit = codeUnit_append [of _ "Utf8Encode c" pre post]
  have h: "HasNext \<lparr>sv = pre @ Utf8Encode c @ post, ipos = length pre\<rparr>"
    by (rule HasNext_append) (simp add: e)
  show ?thesis
    using unit [of 0] unit [of 1] h
    by (simp add: DecodeCP_def e lead_bits cont_payload v del: push_bit_and)
qed

lemma decode3:
  assumes "\<not> c < 0x800" and "c < 0x10000"
  shows "DecodeCP \<lparr>sv = pre @ Utf8Encode c @ post, ipos = length pre\<rparr> = Some (c, 3)"
proof -
  have "\<not> c < 0x80" using assms(1) by (simp add: word_less_nat_alt)
  then have e: "Utf8Encode c = [chr8 ((drop_bit 12 c AND 0x0F) OR 0xE0),
      chr8 ((drop_bit 6 c AND 0x3F) OR 0x80), chr8 ((c AND 0x3F) OR 0x80)]"
    using assms by (simp add: Utf8Encode_def)
  have "unat c < 2 ^ 16" using assms(2) by (simp add: word_less_nat_alt)
  then have v: "push_bit 12 (drop_bit 12 c AND 0x0F) OR push_bit 6 (drop_bit 6 c AND 0x3F) OR (c AND 0x3F) = c"
    using join_bits [of 6 6 c] join_bits [of 12 4 c]
    unfolding and_masks by (simp add: take_bit_below or.assoc)
  note unit = codeUnit_append [of _ "Utf8Encode c" pre post]
  have h: "HasNext \<lparr>sv = pre @ Utf8Encode c @ post, ipos = length pre\<rparr>"
    by (rule HasNext_append) (simp add: e)
  show ?thesis
    using unit [of 0] unit [of 1] unit [of 2] h
    by (simp add: DecodeCP_def e lead_bits cont_payload v del: push_bit_and)
qed

lemma decode4:
  assumes "\<not> c < 0x10000" and "c < 0x110000"
  shows "DecodeCP \<lparr>sv = pre @ Utf8Encode c @ post, ipos = length pre\<rparr> = Some (c, 4)"
proof -
  have n: "\<not> c < 0x80" "\<not> c < 0x800" using assms(1) by (simp_all add: word_less_nat_alt)
  then have e: "Utf8Encode c = [chr8 ((drop_bit 18 c AND 0x07) OR 0xF0),
      chr8 ((drop_bit 12 c AND 0x3F) OR 0x80), chr8 ((drop_bit 6 c AND 0x3F) OR 0x80),
      chr8 ((c AND 0x3F) OR 0x80)]"
    using assms by (simp add: Utf8Encode_def)
  have c: "unat c < 0x110000" using assms(2) by (simp add: word_less_nat_alt)
  then have "unat c < 2 ^ 24" by simp
  then have t: "take_bit 24 c = c" by (rule take_bit_below)
  have c21: "unat c < 2 ^ 21" using c by simp
  then have v: "push_bit 18 (drop_bit 18 c AND 0x07) OR push_bit 12 (drop_bit 12 c AND 0x3F)
      OR push_bit 6 (drop_bit 6 c AND 0x3F) OR (c AND 0x3F) = c"
    using join_bits [of 6 6 c] join_bits [of 12 6 c] join_bits [of 18 3 c]
    unfolding and_masks by (simp add: take_bit_below or.assoc)
  have "unat (drop_bit 18 c) \<le> 4"
    using c unfolding unat_drop_bit_eq by (simp add: drop_bit_eq_div)
  then have "unat (drop_bit 18 c AND 0x07) \<le> 4"
    using word_and_le2 [of "drop_bit 18 c" "0x07"] by (simp add: word_le_nat_alt)
  then have l: "(drop_bit 18 c AND 0x07) OR 0xF0 \<le> 0xF4"
    using unat_or_le [of "drop_bit 18 c AND 0x07" "0xF0"] by (simp add: word_le_nat_alt)
  note unit = codeUnit_append [of _ "Utf8Encode c" pre post]
  have h: "HasNext \<lparr>sv = pre @ Utf8Encode c @ post, ipos = length pre\<rparr>"
    by (rule HasNext_append) (simp add: e)
  show ?thesis
    using unit [of 0] unit [of 1] unit [of 2] unit [of 3] h
    by (simp add: DecodeCP_def e lead_bits cont_payload v l del: push_bit_and)
qed

lemma decode_encode:
  assumes "c < 0x110000"
  shows "DecodeCP \<lparr>sv = pre @ Utf8Encode c @ post, ipos = length pre\<rparr> = Some (c, length (Utf8Encode c))"
proof (cases "c < 0x80")
  case True
  then have e: "Utf8Encode c = [chr8 c]" by (simp add: Utf8Encode_def)
  have "unat c < 256" using True by (simp add: word_less_nat_alt)
  then have u: "(ucast (chr8 c) :: char32) = c" by (rule ucast_chr8)
  have "HasNext \<lparr>sv = pre @ Utf8Encode c @ post, ipos = length pre\<rparr>"
    by (rule HasNext_append) (simp add: e)
  then show ?thesis using codeUnit_append [of 0 "Utf8Encode c" pre post]
    by (simp add: DecodeCP_def e u True)
next
  case False
  consider "c < 0x800" | "\<not> c < 0x800" "c < 0x10000" | "\<not> c < 0x10000" "\<not> c < 0x800" by blast
  then show ?thesis
  proof cases
    case 1 then show ?thesis using decode2 [OF False 1] False by (simp add: Utf8Encode_def)
  next
    case 2 then show ?thesis using decode3 [OF 2] False by (simp add: Utf8Encode_def)
  next
    case 3 then show ?thesis using decode4 [OF 3(1) assms] False by (simp add: Utf8Encode_def)
  qed
qed

section \<open>Surrogate pairs\<close>

lemma or_disjoint: "x AND h = 0 \<Longrightarrow> x OR h = x + (h :: char32)"
  by (rule disjunctive_add_eq_or [symmetric])

lemma surrogate_halves:
  assumes "unat x < 0x400"
  shows "x OR 0xD800 = x + (0xD800 :: char32)" "x OR 0xDC00 = x + (0xDC00 :: char32)"
proof -
  have "unat x < 2 ^ 10" using assms by simp
  then have x: "x = x AND 0x3FF" using take_bit_below [of x 10] by (simp add: take_bit_eq_mask mask_eq_exp_minus_1)
  have "(x AND 0x3FF) AND 0xD800 = 0" "(x AND 0x3FF) AND 0xDC00 = 0" by (simp_all add: and.assoc)
  then show "x OR 0xD800 = x + (0xD800 :: char32)" "x OR 0xDC00 = x + (0xDC00 :: char32)"
    using x by (simp_all add: or_disjoint)
qed

lemma EncodeSurrogate_parts:
  assumes "\<not> c < 0x10000" and "c < 0x110000"
  shows "unat (drop_bit 10 (c - 0x10000)) < 0x400" "unat (c AND 0x3FF) < 0x400"
    "EncodeSurrogate c = (drop_bit 10 (c - 0x10000) + 0xD800, (c AND 0x3FF) + 0xDC00)"
proof -
  have "unat c < 0x110000" using assms(2) by (simp add: word_less_nat_alt)
  then have "unat (c - 0x10000) < 0x100000" using unat_minus_below [OF assms(1)] by simp
  then show a: "unat (drop_bit 10 (c - 0x10000)) < 0x400"
    unfolding unat_drop_bit_eq by (simp add: drop_bit_eq_div)
  show b: "unat (c AND 0x3FF) < 0x400" using unat_mask_le [of c "0x3FF"] by simp
  show "EncodeSurrogate c = (drop_bit 10 (c - 0x10000) + 0xD800, (c AND 0x3FF) + 0xDC00)"
    by (simp add: EncodeSurrogate_def surrogate_halves [OF a] surrogate_halves [OF b])
qed

lemma Decode_halves:
  assumes "\<not> c < 0x10000"
  shows "DecodeSurrogates (drop_bit 10 (c - 0x10000) + 0xD800) ((c AND 0x3FF) + 0xDC00) = c - 0x400"
proof -
  have low: "c AND 0x3FF = take_bit 10 (c - 0x10000)"
  proof -
    have "65536 \<le> unat c" using assms by (simp add: word_less_nat_alt)
    then have k: "unat c = (unat c - 65536) + 64 * 1024" by simp
    have "((unat c - 65536) + 64 * 1024) mod 1024 = (unat c - 65536) mod 1024"
      by (rule mod_mult_self1)
    then have "(unat c - 65536) mod 1024 = unat c mod 1024" using k by argo
    then have "unat (take_bit 10 (c - 0x10000)) = unat (take_bit 10 c)"
      unfolding unsigned_take_bit_eq unat_minus_below [OF assms] by (simp add: take_bit_eq_mod)
    then have "take_bit 10 (c - 0x10000) = take_bit 10 c" by (simp add: word_unat_eq_iff)
    then show ?thesis by (simp add: take_bit_eq_mask mask_eq_exp_minus_1)
  qed
  have "push_bit 10 (drop_bit 10 (c - 0x10000)) + take_bit 10 (c - 0x10000) = c - 0x10000"
    by (rule bits_ident)
  then show ?thesis unfolding DecodeSurrogates_def Let_def low by (simp add: algebra_simps)
qed

section \<open>Whole-view loops\<close>

lemma chr8_bit7: "bit w 7 \<Longrightarrow> chr8 w \<noteq> 0"
proof
  assume "bit w 7" "chr8 w = 0"
  moreover have "bit (chr8 w) 7 = bit w 7" by (simp add: chr8_def bit_unsigned_iff)
  ultimately show False by simp
qed

lemma chr8_or_nonzero: "chr8 (x OR 0xC0) \<noteq> 0" "chr8 (x OR 0xE0) \<noteq> 0" "chr8 (x OR 0x80) \<noteq> 0" "chr8 0xC0 \<noteq> 0" "chr8 0x80 \<noteq> 0"
  by (rule chr8_bit7, simp add: bit_or_iff)+

lemma Mutf8Encode_nonzero: "0 \<notin> set (Mutf8Encode c)"
proof (induction c rule: Mutf8Encode.induct)
  case (1 c)
  have "chr8 c \<noteq> 0" if "c \<noteq> 0" "c < 0x80"
  proof
    assume z: "chr8 c = 0"
    have "unat c < 256" using that(2) by (simp add: word_less_nat_alt)
    from ucast_chr8 [OF this] that(1) show False by (simp add: z)
  qed
  with 1 show ?case
    by (subst Mutf8Encode.simps) (auto simp: chr8_or_nonzero [symmetric] chr8_or_nonzero)
qed

lemma Next_HasNext:
  assumes "wf_at i" and "HasNext i"
  shows "\<exists>v d. Next i = Some (v, d) \<and> wf_at d \<and> left d < left i"
proof -
  have "left i \<noteq> 0" using wf_atD(1) [OF assms] by (simp add: left_def)
  then show ?thesis using it.advance_total [OF assms(1)] by (auto split: if_splits)
qed

lemma Mutf8_loop_total:
  "wf_at i \<Longrightarrow> left i < n \<Longrightarrow> 0 \<notin> set acc \<Longrightarrow> \<exists>out. Mutf8_loop n i acc = Ok out \<and> 0 \<notin> set out"
proof (induction n arbitrary: i acc)
  case 0 then show ?case by simp
next
  case (Suc n)
  show ?case
  proof (cases "HasNext i")
    case True
    obtain v d where d: "Next i = Some (v, d)" "wf_at d" "left d < left i"
      using Next_HasNext [OF Suc.prems(1) True] by blast
    have "left d < n" "0 \<notin> set (acc @ Mutf8Encode v)"
      using d(3) Suc.prems Mutf8Encode_nonzero by auto
    with Suc.IH [OF d(2)] True d(1) show ?thesis by simp
  next
    case False then show ?thesis using Suc.prems by simp
  qed
qed

lemma wf_at_start: "wf_utf8 s \<Longrightarrow> wf_at \<lparr>sv = s, ipos = 0\<rparr>"
  by (simp add: wf_at_def)

lemma seqLen_before_ascii:
  assumes "wf_at i" and "ipos i < length (sv i)" and "Peek (Forward 1 i) = Some 0x0A"
  shows "seqLen (sv i ! ipos i) = 1"
proof (rule ccontr)
  let ?s = "sv i" and ?p = "ipos i"
  assume n: "seqLen (?s ! ?p) \<noteq> 1"
  have q: "Suc ?p < length ?s" "(0x0A :: char32) = ucast (?s ! Suc ?p)"
    using Peek_ascii [OF assms(3)] by (simp_all add: Forward_def)
  have "unat (?s ! Suc ?p) = 0x0A" using unat_ucast8 [of "?s ! Suc ?p"] q(2) by simp
  then have x: "?s ! Suc ?p = 0x0A" by (intro word_unat_eq_iff [THEN iffD2]) simp
  have d: "drop ?p ?s = ?s ! ?p # ?s ! Suc ?p # drop (Suc (Suc ?p)) ?s"
    using assms(2) q(1) by (simp add: Cons_nth_drop_Suc)
  have "0 < seqLen (?s ! ?p)" "list_all isCont (take (seqLen (?s ! ?p) - 1) (?s ! Suc ?p # drop (Suc (Suc ?p)) ?s))"
    using assms(1) unfolding wf_at_def d by simp_all
  with n have "isCont (?s ! Suc ?p)" by (cases "seqLen (?s ! ?p) - 1") auto
  then show False by (simp add: x isCont_def)
qed

lemma Escape_afterCR_total:
  assumes "wf_at i"
  shows "\<exists>d. Escape_afterCR i = Some d \<and> wf_at d \<and> left d \<le> left i"
proof (cases "HasNext i")
  case True
  have p: "ipos i < length (sv i)" using wf_atD(1) [OF assms True] .
  obtain c where c: "Peek (Forward 1 i) = Some c"
    using Peek_bounds [of "Forward 1 i"] p by (auto simp: Forward_def)
  show ?thesis
  proof (cases "c = 0x0A")
    case lf: True
    have one: "seqLen (sv i ! ipos i) = 1"
      by (rule seqLen_before_ascii [OF assms p]) (use c lf in simp)
    have "wf_at (Forward 1 i)" "left (Forward 1 i) \<le> left i"
      using wf_atD(4) [OF assms True] by (simp_all add: one Forward_def left_def)
    then show ?thesis using True c lf by (simp add: Escape_afterCR_def Let_def)
  next
    case False
    have "Backward 1 (Forward 1 i) = Some i" by (cases i) (simp add: Backward_def Forward_def)
    then show ?thesis using True c False assms by (simp add: Escape_afterCR_def Let_def)
  qed
next
  case False then show ?thesis using assms by (simp add: Escape_afterCR_def)
qed

lemma Utf8Encode_clean:
  assumes "c \<notin> {0x08, 0x09, 0x0A, 0x0C, 0x0D}"
  shows "set (Utf8Encode c) \<inter> {0x08, 0x09, 0x0A, 0x0C, 0x0D} = {}"
proof -
  have hi: "chr8 w \<notin> {0x08, 0x09, 0x0A, 0x0C, 0x0D}" if "bit w 7" for w
  proof -
    have "bit (chr8 w) 7" using that by (simp add: chr8_def bit_unsigned_iff)
    then show ?thesis by auto
  qed
  have lo: "chr8 c \<notin> {0x08, 0x09, 0x0A, 0x0C, 0x0D}" if "c < 0x80"
  proof -
    have "unat c < 256" using that by (simp add: word_less_nat_alt)
    then have "(ucast (chr8 c) :: char32) = c" by (rule ucast_chr8)
    then show ?thesis using assms by auto
  qed
  have "chr8 (x OR 0xC0) \<notin> {0x08, 0x09, 0x0A, 0x0C, 0x0D}" "chr8 (x OR 0xE0) \<notin> {0x08, 0x09, 0x0A, 0x0C, 0x0D}"
    "chr8 (x OR 0xF0) \<notin> {0x08, 0x09, 0x0A, 0x0C, 0x0D}" "chr8 (x OR 0x80) \<notin> {0x08, 0x09, 0x0A, 0x0C, 0x0D}" for x
    by (rule hi, simp add: bit_or_iff)+
  note hi_bytes = this
  define C where "C = {0x08, 0x09, 0x0A, 0x0C, 0x0D :: byte}"
  show ?thesis using lo hi_bytes unfolding Utf8Encode_def C_def [symmetric] by auto
qed

text \<open>The control characters that must not appear in an escaped string.\<close>

lemma EscapeSymbol_loop_total:
  assumes enc: "\<And>c. c \<notin> {0x08, 0x09, 0x0A, 0x0C, 0x0D} \<Longrightarrow> set (encoder c) \<inter> C = {}"
    and C: "C \<inter> {0x5C, 0x6E, 0x62, 0x74, 0x66, 0x22} = {}"
  shows "wf_at i \<Longrightarrow> left i < n \<Longrightarrow> set acc \<inter> C = {} \<Longrightarrow>
    \<exists>out. EscapeSymbol_loop encoder n i acc = Ok out \<and> set out \<inter> C = {}"
proof (induction n arbitrary: i acc)
  case 0 then show ?case by simp
next
  case (Suc n)
  show ?case
  proof (cases "HasNext i")
    case True
    obtain v d where d: "Next i = Some (v, d)" "wf_at d" "left d < left i"
      using Next_HasNext [OF Suc.prems(1) True] by blast
    have dn: "left d < n" using d(3) Suc.prems(2) by simp
    obtain e where e: "Escape_afterCR d = Some e" "wf_at e" "left e \<le> left d"
      using Escape_afterCR_total [OF d(2)] by blast
    have en: "left e < n" using e(3) dn by simp
    have esc: "set (acc @ [0x5C, x]) \<inter> C = {}" if "x \<in> {0x5C, 0x6E, 0x62, 0x74, 0x66, 0x22}" for x
      using that C Suc.prems(3) by auto
    have raw: "set (acc @ encoder v) \<inter> C = {}" if "v \<notin> {0x08, 0x09, 0x0A, 0x0C, 0x0D}"
      using enc [OF that] Suc.prems(3) by auto
    show ?thesis
      using True d(1) e(1) Suc.IH [OF d(2) dn] Suc.IH [OF e(2) en] esc raw
      by (simp del: set_append)
  next
    case False then show ?thesis using Suc.prems by simp
  qed
qed

lemma SkipCp_Next:
  assumes "wf_at i"
  shows "SkipCp i = map_option snd (Next i)"
proof (cases "HasNext i")
  case True
  obtain cp where cp: "DecodeCP i = Some (cp, seqLen (sv i ! ipos i))"
    using DecodeCP_wf [OF assms True] by blast
  have u: "codeUnit i 0 = Some (ucast (sv i ! ipos i))"
    using codeUnit_Some [of i 0] wf_atD(1) [OF assms True] by simp
  show ?thesis using True wf_atD(2) [OF assms True]
    by (auto simp: SkipCp_def u Next_def cp seqLen_def Let_def split: if_splits)
next
  case False then show ?thesis by (cases i) (simp add: SkipCp_def Next_def DecodeCP_end)
qed

section \<open>Decoded ASCII\<close>

text \<open>A decoded value below 0x80 was a single byte: longer forms are not the shortest.\<close>

lemma two_parts:
  fixes b :: byte
  assumes "ucast b AND h = (H :: char32)" and "h OR m = 0xFF"
  shows "(ucast b :: char32) = H OR (ucast b AND m)"
proof -
  have "(ucast b :: char32) AND 0xFF = ucast b"
  proof -
    have m: "(0xFF :: char32) = mask 8" by (simp add: mask_eq_exp_minus_1)
    have "unat (take_bit 8 (ucast b :: char32)) = unat (ucast b :: char32)"
      using ucast8_less [of b] by (simp add: unsigned_take_bit_eq take_bit_nat_eq_self word_less_nat_alt)
    then have "take_bit 8 (ucast b :: char32) = ucast b" by (simp add: word_unat_eq_iff)
    then show ?thesis by (simp only: m take_bit_eq_mask)
  qed
  then have "(ucast b :: char32) = (ucast b AND h) OR (ucast b AND m)"
    using assms(2) by (simp flip: bit.conj_disj_distrib)
  then show ?thesis using assms(1) by simp
qed

lemma push_ge:
  fixes x :: char32
  assumes "unat x < 0x40" and "k \<le> 18" and "l \<le> unat x * 2 ^ k" 
  shows "l \<le> unat (push_bit k x)"
proof -
  have "(2::nat) ^ k \<le> 2 ^ 18" using assms(2) by (intro power_increasing) auto
  then have "unat x * 2 ^ k < 0x40 * 2 ^ 18" using assms(1) by (intro mult_less_le_imp_less) auto
  then have "unat (push_bit k x) = unat x * 2 ^ k"
    by (subst unsigned_push_bit_eq) (simp add: push_bit_eq_mult take_bit_nat_eq_self)
  then show ?thesis using assms(3) by simp
qed

lemma long_form:
  fixes b :: byte
  assumes "ucast b AND h = (H :: char32)" and "h OR m = 0xFF" and "unat m < 0x40" and "k \<le> 18"
    and "\<And>x. x < j \<Longrightarrow> ucast b \<noteq> H OR word_of_nat x" and "l \<le> j * 2 ^ k"
  shows "l \<le> unat (push_bit k (ucast b AND m :: char32))"
proof (rule push_ge)
  show "unat (ucast b AND m :: char32) < 0x40" using unat_mask_le [of "ucast b" m] assms(3) by linarith
  have "j \<le> unat (ucast b AND m :: char32)"
  proof (rule ccontr)
    assume "\<not> ?thesis"
    then show False using two_parts [OF assms(1,2)] assms(5) [of "unat (ucast b AND m :: char32)"] by simp
  qed
  then show "l \<le> unat (ucast b AND m :: char32) * 2 ^ k"
    using assms(6) by (meson le_trans mult_le_mono1)
qed (rule assms(4))

lemma ucast8_eq: "(ucast (b :: byte) :: char32) = ucast (c :: byte) \<longleftrightarrow> b = c"
  by (metis unat_ucast8 word_unat_eq_iff)

lemma long_form2: "seqLen b = 2 \<Longrightarrow> b \<notin> {0xC0, 0xC1} \<Longrightarrow> 0x80 \<le> unat (push_bit 6 (ucast b AND 0x1F :: char32))"
  by (rule long_form [of b "0xE0" "0xC0" _ _ 2])
    (use ucast8_eq [of b "0xC0"] ucast8_eq [of b "0xC1"] in \<open>auto simp: seqLen_def Let_def less_2_cases_iff split: if_splits\<close>)

lemma long_form3: "seqLen b = 3 \<Longrightarrow> b \<noteq> 0xE0 \<Longrightarrow> 0x80 \<le> unat (push_bit 12 (ucast b AND 0x0F :: char32))"
  by (rule long_form [of b "0xF0" "0xE0" _ _ 1])
    (use ucast8_eq [of b "0xE0"] in \<open>auto simp: seqLen_def Let_def split: if_splits\<close>)

lemma long_form4: "seqLen b = 4 \<Longrightarrow> b \<noteq> 0xF0 \<Longrightarrow> 0x80 \<le> unat (push_bit 18 (ucast b AND 0x07 :: char32))"
  by (rule long_form [of b "0xF8" "0xF0" _ _ 1])
    (use ucast8_eq [of b "0xF0"] in \<open>auto simp: seqLen_def Let_def split: if_splits\<close>)

lemma cont_char32: "isCont b \<longleftrightarrow> (ucast b AND 0xC0 :: char32) = 0x80"
  using ucast8_eq [of "b AND 0xC0" "0x80"] by (simp add: isCont_def unsigned_and_eq)

lemma long_next:
  assumes "isCont b" and "0x90 \<le> b"
  shows "0x80 \<le> unat (push_bit 6 (ucast b AND 0x3F :: char32))" "0x80 \<le> unat (push_bit 12 (ucast b AND 0x3F :: char32))"
proof -
  have c: "(ucast b AND 0xC0 :: char32) = 0x80" using assms(1) by (simp add: cont_char32)
  have "(ucast b :: char32) \<noteq> 0x80" "(ucast b :: char32) \<noteq> 0x81"
    using assms(2) ucast8_eq [of b "0x80"] ucast8_eq [of b "0x81"] by auto
  then show "0x80 \<le> unat (push_bit 6 (ucast b AND 0x3F :: char32))" "0x80 \<le> unat (push_bit 12 (ucast b AND 0x3F :: char32))"
    using c by (intro long_form [of b "0xC0" "0x80" _ _ 2]; auto simp: less_2_cases_iff)+
qed

lemma DecodeCP_below:
  assumes "wf_at it" and "DecodeCP it = Some (v, k)" and "v < 0x80"
  shows "Peek it = Some v"
proof -
  have h: "HasNext it" using assms(2,3) by (cases "HasNext it") (auto simp: DecodeCP_def)
  note w = wf_atD [OF assms(1) h]
  define b where "b = sv it ! ipos it"
  define bs where "bs = drop (Suc (ipos it)) (sv it)"
  have d: "drop (ipos it) (sv it) = b # bs"
    unfolding b_def bs_def using w(1) by (rule Cons_nth_drop_Suc [symmetric])
  have wf: "list_all isCont (take (seqLen b - 1) bs)" "shortest b bs"
    using assms(1) unfolding wf_at_def d by simp_all
  have cu: "codeUnit it j = Some (ucast (sv it ! (ipos it + j)))" if "j < seqLen b" for j
    using that w(3) unfolding b_def by (intro codeUnit_Some) linarith
  have c1: "sv it ! (ipos it + 1) = hd bs" "isCont (hd bs)" if "1 < seqLen b"
  proof -
    have "bs \<noteq> []" using that w(3) unfolding bs_def b_def by simp
    then show "sv it ! (ipos it + 1) = hd bs" unfolding bs_def by (simp add: hd_drop_conv_nth)
    from \<open>bs \<noteq> []\<close> have "hd bs \<in> set (take (seqLen b - 1) bs)"
      using that by (cases bs; cases "seqLen b - 1") auto
    then show "isCont (hd bs)" using wf(1) by (simp add: list_all_iff)
  qed
  have big: False if "0x80 \<le> unat x" "v = x OR y \<or> v = y OR x \<or> v = y OR x OR z" for x y z :: char32
  proof -
    have "unat x \<le> unat v"
      using that(2) or_ge [of x y] or_ge [of x "y OR z"] by (auto simp: or.commute or.left_commute)
    then show False using that(1) assms(3) by (simp add: word_less_nat_alt)
  qed
  consider "seqLen b = 1" | "seqLen b = 2" | "seqLen b = 3" | "seqLen b = 4"
    using w(2) seqLen_le [of b] unfolding b_def by linarith
  then show ?thesis
  proof cases
    case 1
    then have "unat b < 0x80" by (auto simp: seqLen_def Let_def word_less_nat_alt unat_ucast8 split: if_splits)
    then show ?thesis using assms(2) cu [of 0] 1 h w(1)
      by (simp add: DecodeCP_def Peek_def byteAt_def b_def scast8_ascii word_less_nat_alt unat_ucast8)
  next
    case 2
    have "v = push_bit 6 (ucast b AND 0x1F) OR (ucast (hd bs) AND 0x3F)"
      using assms(2) 2 cu [of 0] cu [of 1] c1 h
      by (auto simp: DecodeCP_def b_def seqLen_def Let_def simp del: push_bit_and split: if_splits)
    then show ?thesis using big long_form2 [OF 2] wf(2) unfolding shortest_def by blast
  next
    case 3
    have v: "v = push_bit 12 (ucast b AND 0x0F) OR push_bit 6 (ucast (hd bs) AND 0x3F)
        OR (ucast (sv it ! (ipos it + 2)) AND 0x3F)"
      using assms(2) 3 cu [of 0] cu [of 1] cu [of 2] c1 h
      by (auto simp: DecodeCP_def b_def seqLen_def Let_def simp del: push_bit_and split: if_splits)
    show ?thesis
    proof (cases "b = 0xE0")
      case True
      then have "0xA0 \<le> hd bs" using wf(2) by (simp add: shortest_def)
      then have "0x90 \<le> hd bs" by (simp add: word_le_nat_alt)
      then show ?thesis using big [OF long_next(1) [OF c1(2)]] 3 v by auto
    next
      case False
      then show ?thesis using big [OF long_form3 [OF 3], OF False] v unfolding or.assoc by blast
    qed
  next
    case 4
    have v: "v = push_bit 18 (ucast b AND 0x07) OR push_bit 12 (ucast (hd bs) AND 0x3F)
        OR (push_bit 6 (ucast (sv it ! (ipos it + 2)) AND 0x3F) OR (ucast (sv it ! (ipos it + 3)) AND 0x3F))"
      using assms(2) 4 cu [of 0] cu [of 1] cu [of 2] cu [of 3] c1 h
      by (auto simp: DecodeCP_def b_def seqLen_def Let_def or.assoc simp del: push_bit_and split: if_splits)
    show ?thesis
    proof (cases "b = 0xF0")
      case True
      then have "0x90 \<le> hd bs" using wf(2) by (simp add: shortest_def)
      then show ?thesis using big [OF long_next(2) [OF c1(2)]] 4 v by auto
    next
      case False
      then show ?thesis using big [OF long_form4 [OF 4], OF False] v unfolding or.assoc by blast
    qed
  qed
qed

section \<open>Properties\<close>

text \<open>C27: The UTF-8 encoder and the iterator agree: for every code point below 0x110000, wherever its
  encoding stands in a view, \<open>Next\<close> on its first byte returns that code point and moves exactly
  over its encoding.\<close>

theorem utf8_roundtrip:
  assumes "c < 0x110000"
  shows "Next \<lparr>sv = pre @ Utf8Encode c @ post, ipos = length pre\<rparr>
    = Some (c, \<lparr>sv = pre @ Utf8Encode c @ post, ipos = length (pre @ Utf8Encode c)\<rparr>)"
  by (simp add: Next_def decode_encode [OF assms])

theorem utf8_roundtrip_witness:
  "Next \<lparr>sv = [0x61] @ Utf8Encode 0x1F600 @ [0x62], ipos = length [0x61 :: byte]\<rparr>
    = Some (0x1F600, \<lparr>sv = [0x61] @ Utf8Encode 0x1F600 @ [0x62], ipos = length ([0x61] @ Utf8Encode 0x1F600)\<rparr>)"
  by (rule utf8_roundtrip) simp

text \<open>C30: A surrogate pair does not decode to the code point it was made from: for every supplementary
  code point, \<open>EncodeSurrogate\<close> yields a high and a low surrogate, but \<open>DecodeSurrogates\<close> of the
  pair is the code point minus 0x400, because it subtracts the exclusive end of the low surrogate
  range instead of its start.\<close>

theorem surrogate_decode_off_by_0x400:
  assumes "0x10000 \<le> c" and "c < 0x110000"
  shows "IsHighSurrogate (fst (EncodeSurrogate c)) \<and> IsLowSurrogate (snd (EncodeSurrogate c))
    \<and> DecodeSurrogates (fst (EncodeSurrogate c)) (snd (EncodeSurrogate c)) = c - 0x400"
proof -
  have c: "\<not> c < 0x10000" using assms(1) by simp
  note p = EncodeSurrogate_parts [OF c assms(2)]
  have "unat (drop_bit 10 (c - 0x10000) + 0xD800) = unat (drop_bit 10 (c - 0x10000)) + 0xD800"
    "unat ((c AND 0x3FF) + 0xDC00) = unat (c AND 0x3FF) + 0xDC00"
    using p(1,2) by (simp_all add: unat_word_ariths)
  then show ?thesis using p(1,2)
    by (simp add: p(3) Decode_halves [OF c] IsHighSurrogate_def IsLowSurrogate_def word_le_nat_alt word_less_nat_alt)
qed

theorem surrogate_decode_off_by_0x400_witness:
  "IsHighSurrogate (fst (EncodeSurrogate 0x1F600)) \<and> IsLowSurrogate (snd (EncodeSurrogate 0x1F600))
    \<and> DecodeSurrogates (fst (EncodeSurrogate 0x1F600)) (snd (EncodeSurrogate 0x1F600)) = 0x1F600 - 0x400"
  by (rule surrogate_decode_off_by_0x400) simp_all

text \<open>Conversion to modified UTF-8 is total on well-formed text and its output has no NUL byte, so
  it can be stored as a NUL-terminated string in the bytecode file.\<close>

theorem mutf8_no_nul:
  assumes "wf_utf8 s"
  shows "\<exists>out. Mutf8 s = Ok out \<and> 0 \<notin> set out"
  unfolding Mutf8_def
  by (rule Mutf8_loop_total) (simp_all add: wf_at_start [OF assms] left_def)

theorem mutf8_no_nul_witness: "\<exists>out. Mutf8 [0x00, 0x41, 0xE2, 0x80, 0xA8] = Ok out \<and> 0 \<notin> set out"
  by (rule mutf8_no_nul) (simp add: seqLen_def isCont_def shortest_def)



text \<open>C29: Escaping mishandles a carriage return: after decoding it the loop steps over the next byte
  before looking for the line feed, so a CR LF pair is escaped as two line breaks, and in the
  sequence CR, x, LF the ASCII character x is dropped.\<close>

theorem escape_symbol_drops_character:
  assumes "x < 0x80"
  shows "EscapeSymbol encoder [0x0D, x, 0x0A] = Ok [0x5C, 0x6E, 0x5C, 0x6E]
    \<and> EscapeSymbol encoder [0x0D, 0x0A] = Ok [0x5C, 0x6E, 0x5C, 0x6E]"
  by (simp add: EscapeSymbol_def Next_def DecodeCP_def HasNext_def codeUnit_def byteAt_def
      Escape_afterCR_def Peek_def Forward_def Backward_def)

theorem escape_symbol_drops_character_witness:
  "EscapeSymbol Utf8Encode [0x0D, 0x41, 0x0A] = Ok [0x5C, 0x6E, 0x5C, 0x6E]
    \<and> EscapeSymbol Utf8Encode [0x0D, 0x0A] = Ok [0x5C, 0x6E, 0x5C, 0x6E]"
  by (rule escape_symbol_drops_character) simp

end
