(* ===== verification/Letters.thy ===== *)
theory Letters
  imports UString
begin

text \<open>
  \<open>lexer/token/letters.h\<close>: the code points the scanners name, as abbreviations (so they evaluate as
  the numerals they are), and the two libraries the scanners call: ICU's identifier predicates.
\<close>

section \<open>Code points\<close>

abbreviation (input) LEX_ASCII_MAX_BITS :: char32 where "LEX_ASCII_MAX_BITS \<equiv> 128"
abbreviation (input) UNICODE_CODE_POINT_MAX :: nat where "UNICODE_CODE_POINT_MAX \<equiv> 0x10FFFF"
abbreviation (input) LEX_CHAR_NULL :: char32 where "LEX_CHAR_NULL \<equiv> 0x00"
abbreviation (input) LEX_CHAR_LF :: char32 where "LEX_CHAR_LF \<equiv> 0x0A"
abbreviation (input) LEX_CHAR_CR :: char32 where "LEX_CHAR_CR \<equiv> 0x0D"
abbreviation (input) LEX_CHAR_LS :: char32 where "LEX_CHAR_LS \<equiv> 0x2028"
abbreviation (input) LEX_CHAR_PS :: char32 where "LEX_CHAR_PS \<equiv> 0x2029"
abbreviation (input) LEX_CHAR_LOWERCASE_A :: char32 where "LEX_CHAR_LOWERCASE_A \<equiv> 0x61"
abbreviation (input) LEX_CHAR_LOWERCASE_B :: char32 where "LEX_CHAR_LOWERCASE_B \<equiv> 0x62"
abbreviation (input) LEX_CHAR_LOWERCASE_C :: char32 where "LEX_CHAR_LOWERCASE_C \<equiv> 0x63"
abbreviation (input) LEX_CHAR_LOWERCASE_D :: char32 where "LEX_CHAR_LOWERCASE_D \<equiv> 0x64"
abbreviation (input) LEX_CHAR_LOWERCASE_E :: char32 where "LEX_CHAR_LOWERCASE_E \<equiv> 0x65"
abbreviation (input) LEX_CHAR_LOWERCASE_F :: char32 where "LEX_CHAR_LOWERCASE_F \<equiv> 0x66"
abbreviation (input) LEX_CHAR_LOWERCASE_G :: char32 where "LEX_CHAR_LOWERCASE_G \<equiv> 0x67"
abbreviation (input) LEX_CHAR_LOWERCASE_H :: char32 where "LEX_CHAR_LOWERCASE_H \<equiv> 0x68"
abbreviation (input) LEX_CHAR_LOWERCASE_I :: char32 where "LEX_CHAR_LOWERCASE_I \<equiv> 0x69"
abbreviation (input) LEX_CHAR_LOWERCASE_J :: char32 where "LEX_CHAR_LOWERCASE_J \<equiv> 0x6A"
abbreviation (input) LEX_CHAR_LOWERCASE_K :: char32 where "LEX_CHAR_LOWERCASE_K \<equiv> 0x6B"
abbreviation (input) LEX_CHAR_LOWERCASE_L :: char32 where "LEX_CHAR_LOWERCASE_L \<equiv> 0x6C"
abbreviation (input) LEX_CHAR_LOWERCASE_M :: char32 where "LEX_CHAR_LOWERCASE_M \<equiv> 0x6D"
abbreviation (input) LEX_CHAR_LOWERCASE_N :: char32 where "LEX_CHAR_LOWERCASE_N \<equiv> 0x6E"
abbreviation (input) LEX_CHAR_LOWERCASE_O :: char32 where "LEX_CHAR_LOWERCASE_O \<equiv> 0x6F"
abbreviation (input) LEX_CHAR_LOWERCASE_P :: char32 where "LEX_CHAR_LOWERCASE_P \<equiv> 0x70"
abbreviation (input) LEX_CHAR_LOWERCASE_Q :: char32 where "LEX_CHAR_LOWERCASE_Q \<equiv> 0x71"
abbreviation (input) LEX_CHAR_LOWERCASE_R :: char32 where "LEX_CHAR_LOWERCASE_R \<equiv> 0x72"
abbreviation (input) LEX_CHAR_LOWERCASE_S :: char32 where "LEX_CHAR_LOWERCASE_S \<equiv> 0x73"
abbreviation (input) LEX_CHAR_LOWERCASE_T :: char32 where "LEX_CHAR_LOWERCASE_T \<equiv> 0x74"
abbreviation (input) LEX_CHAR_LOWERCASE_U :: char32 where "LEX_CHAR_LOWERCASE_U \<equiv> 0x75"
abbreviation (input) LEX_CHAR_LOWERCASE_V :: char32 where "LEX_CHAR_LOWERCASE_V \<equiv> 0x76"
abbreviation (input) LEX_CHAR_LOWERCASE_W :: char32 where "LEX_CHAR_LOWERCASE_W \<equiv> 0x77"
abbreviation (input) LEX_CHAR_LOWERCASE_X :: char32 where "LEX_CHAR_LOWERCASE_X \<equiv> 0x78"
abbreviation (input) LEX_CHAR_LOWERCASE_Y :: char32 where "LEX_CHAR_LOWERCASE_Y \<equiv> 0x79"
abbreviation (input) LEX_CHAR_LOWERCASE_Z :: char32 where "LEX_CHAR_LOWERCASE_Z \<equiv> 0x7A"
abbreviation (input) LEX_CHAR_UPPERCASE_A :: char32 where "LEX_CHAR_UPPERCASE_A \<equiv> 0x41"
abbreviation (input) LEX_CHAR_UPPERCASE_B :: char32 where "LEX_CHAR_UPPERCASE_B \<equiv> 0x42"
abbreviation (input) LEX_CHAR_UPPERCASE_C :: char32 where "LEX_CHAR_UPPERCASE_C \<equiv> 0x43"
abbreviation (input) LEX_CHAR_UPPERCASE_D :: char32 where "LEX_CHAR_UPPERCASE_D \<equiv> 0x44"
abbreviation (input) LEX_CHAR_UPPERCASE_E :: char32 where "LEX_CHAR_UPPERCASE_E \<equiv> 0x45"
abbreviation (input) LEX_CHAR_UPPERCASE_F :: char32 where "LEX_CHAR_UPPERCASE_F \<equiv> 0x46"
abbreviation (input) LEX_CHAR_UPPERCASE_G :: char32 where "LEX_CHAR_UPPERCASE_G \<equiv> 0x47"
abbreviation (input) LEX_CHAR_UPPERCASE_H :: char32 where "LEX_CHAR_UPPERCASE_H \<equiv> 0x48"
abbreviation (input) LEX_CHAR_UPPERCASE_I :: char32 where "LEX_CHAR_UPPERCASE_I \<equiv> 0x49"
abbreviation (input) LEX_CHAR_UPPERCASE_J :: char32 where "LEX_CHAR_UPPERCASE_J \<equiv> 0x4A"
abbreviation (input) LEX_CHAR_UPPERCASE_K :: char32 where "LEX_CHAR_UPPERCASE_K \<equiv> 0x4B"
abbreviation (input) LEX_CHAR_UPPERCASE_L :: char32 where "LEX_CHAR_UPPERCASE_L \<equiv> 0x4C"
abbreviation (input) LEX_CHAR_UPPERCASE_M :: char32 where "LEX_CHAR_UPPERCASE_M \<equiv> 0x4D"
abbreviation (input) LEX_CHAR_UPPERCASE_N :: char32 where "LEX_CHAR_UPPERCASE_N \<equiv> 0x4E"
abbreviation (input) LEX_CHAR_UPPERCASE_O :: char32 where "LEX_CHAR_UPPERCASE_O \<equiv> 0x4F"
abbreviation (input) LEX_CHAR_UPPERCASE_P :: char32 where "LEX_CHAR_UPPERCASE_P \<equiv> 0x50"
abbreviation (input) LEX_CHAR_UPPERCASE_Q :: char32 where "LEX_CHAR_UPPERCASE_Q \<equiv> 0x51"
abbreviation (input) LEX_CHAR_UPPERCASE_R :: char32 where "LEX_CHAR_UPPERCASE_R \<equiv> 0x52"
abbreviation (input) LEX_CHAR_UPPERCASE_S :: char32 where "LEX_CHAR_UPPERCASE_S \<equiv> 0x53"
abbreviation (input) LEX_CHAR_UPPERCASE_T :: char32 where "LEX_CHAR_UPPERCASE_T \<equiv> 0x54"
abbreviation (input) LEX_CHAR_UPPERCASE_U :: char32 where "LEX_CHAR_UPPERCASE_U \<equiv> 0x55"
abbreviation (input) LEX_CHAR_UPPERCASE_V :: char32 where "LEX_CHAR_UPPERCASE_V \<equiv> 0x56"
abbreviation (input) LEX_CHAR_UPPERCASE_W :: char32 where "LEX_CHAR_UPPERCASE_W \<equiv> 0x57"
abbreviation (input) LEX_CHAR_UPPERCASE_X :: char32 where "LEX_CHAR_UPPERCASE_X \<equiv> 0x58"
abbreviation (input) LEX_CHAR_UPPERCASE_Y :: char32 where "LEX_CHAR_UPPERCASE_Y \<equiv> 0x59"
abbreviation (input) LEX_CHAR_UPPERCASE_Z :: char32 where "LEX_CHAR_UPPERCASE_Z \<equiv> 0x5A"
abbreviation (input) LEX_CHAR_BS :: char32 where "LEX_CHAR_BS \<equiv> 0x08"
abbreviation (input) LEX_CHAR_TAB :: char32 where "LEX_CHAR_TAB \<equiv> 0x09"
abbreviation (input) LEX_CHAR_VT :: char32 where "LEX_CHAR_VT \<equiv> 0x0B"
abbreviation (input) LEX_CHAR_FF :: char32 where "LEX_CHAR_FF \<equiv> 0x0C"
abbreviation (input) LEX_CHAR_SP :: char32 where "LEX_CHAR_SP \<equiv> 0x20"
abbreviation (input) LEX_CHAR_NBSP :: char32 where "LEX_CHAR_NBSP \<equiv> 0xA0"
abbreviation (input) LEX_CHAR_ZWNBSP :: char32 where "LEX_CHAR_ZWNBSP \<equiv> 0xFEFF"
abbreviation (input) LEX_CHAR_MVS :: char32 where "LEX_CHAR_MVS \<equiv> 0x180E"
abbreviation (input) LEX_CHAR_DOUBLE_QUOTE :: char32 where "LEX_CHAR_DOUBLE_QUOTE \<equiv> 0x22"
abbreviation (input) LEX_CHAR_DOLLAR_SIGN :: char32 where "LEX_CHAR_DOLLAR_SIGN \<equiv> 0x24"
abbreviation (input) LEX_CHAR_SINGLE_QUOTE :: char32 where "LEX_CHAR_SINGLE_QUOTE \<equiv> 0x27"
abbreviation (input) LEX_CHAR_DOT :: char32 where "LEX_CHAR_DOT \<equiv> 0x2E"
abbreviation (input) LEX_CHAR_0 :: char32 where "LEX_CHAR_0 \<equiv> 0x30"
abbreviation (input) LEX_CHAR_1 :: char32 where "LEX_CHAR_1 \<equiv> 0x31"
abbreviation (input) LEX_CHAR_2 :: char32 where "LEX_CHAR_2 \<equiv> 0x32"
abbreviation (input) LEX_CHAR_3 :: char32 where "LEX_CHAR_3 \<equiv> 0x33"
abbreviation (input) LEX_CHAR_4 :: char32 where "LEX_CHAR_4 \<equiv> 0x34"
abbreviation (input) LEX_CHAR_5 :: char32 where "LEX_CHAR_5 \<equiv> 0x35"
abbreviation (input) LEX_CHAR_6 :: char32 where "LEX_CHAR_6 \<equiv> 0x36"
abbreviation (input) LEX_CHAR_7 :: char32 where "LEX_CHAR_7 \<equiv> 0x37"
abbreviation (input) LEX_CHAR_8 :: char32 where "LEX_CHAR_8 \<equiv> 0x38"
abbreviation (input) LEX_CHAR_9 :: char32 where "LEX_CHAR_9 \<equiv> 0x39"
abbreviation (input) LEX_CHAR_BACKSLASH :: char32 where "LEX_CHAR_BACKSLASH \<equiv> 0x5C"
abbreviation (input) LEX_CHAR_UNDERSCORE :: char32 where "LEX_CHAR_UNDERSCORE \<equiv> 0x5F"
abbreviation (input) LEX_CHAR_EXCLAMATION :: char32 where "LEX_CHAR_EXCLAMATION \<equiv> 0x21"
abbreviation (input) LEX_CHAR_PERCENT :: char32 where "LEX_CHAR_PERCENT \<equiv> 0x25"
abbreviation (input) LEX_CHAR_AMPERSAND :: char32 where "LEX_CHAR_AMPERSAND \<equiv> 0x26"
abbreviation (input) LEX_CHAR_LEFT_PAREN :: char32 where "LEX_CHAR_LEFT_PAREN \<equiv> 0x28"
abbreviation (input) LEX_CHAR_RIGHT_PAREN :: char32 where "LEX_CHAR_RIGHT_PAREN \<equiv> 0x29"
abbreviation (input) LEX_CHAR_ASTERISK :: char32 where "LEX_CHAR_ASTERISK \<equiv> 0x2A"
abbreviation (input) LEX_CHAR_PLUS :: char32 where "LEX_CHAR_PLUS \<equiv> 0x2B"
abbreviation (input) LEX_CHAR_COMMA :: char32 where "LEX_CHAR_COMMA \<equiv> 0x2C"
abbreviation (input) LEX_CHAR_MINUS :: char32 where "LEX_CHAR_MINUS \<equiv> 0x2D"
abbreviation (input) LEX_CHAR_SLASH :: char32 where "LEX_CHAR_SLASH \<equiv> 0x2F"
abbreviation (input) LEX_CHAR_COLON :: char32 where "LEX_CHAR_COLON \<equiv> 0x3A"
abbreviation (input) LEX_CHAR_SEMICOLON :: char32 where "LEX_CHAR_SEMICOLON \<equiv> 0x3B"
abbreviation (input) LEX_CHAR_LESS_THAN :: char32 where "LEX_CHAR_LESS_THAN \<equiv> 0x3C"
abbreviation (input) LEX_CHAR_EQUALS :: char32 where "LEX_CHAR_EQUALS \<equiv> 0x3D"
abbreviation (input) LEX_CHAR_GREATER_THAN :: char32 where "LEX_CHAR_GREATER_THAN \<equiv> 0x3E"
abbreviation (input) LEX_CHAR_QUESTION :: char32 where "LEX_CHAR_QUESTION \<equiv> 0x3F"
abbreviation (input) LEX_CHAR_LEFT_SQUARE :: char32 where "LEX_CHAR_LEFT_SQUARE \<equiv> 0x5B"
abbreviation (input) LEX_CHAR_RIGHT_SQUARE :: char32 where "LEX_CHAR_RIGHT_SQUARE \<equiv> 0x5D"
abbreviation (input) LEX_CHAR_CIRCUMFLEX :: char32 where "LEX_CHAR_CIRCUMFLEX \<equiv> 0x5E"
abbreviation (input) LEX_CHAR_LEFT_BRACE :: char32 where "LEX_CHAR_LEFT_BRACE \<equiv> 0x7B"
abbreviation (input) LEX_CHAR_VLINE :: char32 where "LEX_CHAR_VLINE \<equiv> 0x7C"
abbreviation (input) LEX_CHAR_RIGHT_BRACE :: char32 where "LEX_CHAR_RIGHT_BRACE \<equiv> 0x7D"
abbreviation (input) LEX_CHAR_TILDE :: char32 where "LEX_CHAR_TILDE \<equiv> 0x7E"
abbreviation (input) LEX_CHAR_BACK_TICK :: char32 where "LEX_CHAR_BACK_TICK \<equiv> 0x60"
abbreviation (input) LEX_CHAR_HASH_MARK :: char32 where "LEX_CHAR_HASH_MARK \<equiv> 0x23"
abbreviation (input) LEX_CHAR_AT :: char32 where "LEX_CHAR_AT \<equiv> 0x40"
abbreviation (input) LEX_CHAR_ZWNJ :: char32 where "LEX_CHAR_ZWNJ \<equiv> 0x200C"
abbreviation (input) LEX_CHAR_ZWJ :: char32 where "LEX_CHAR_ZWJ \<equiv> 0x200D"
abbreviation (input) LEX_CHAR_EOS :: char32 where "LEX_CHAR_EOS \<equiv> 0xFFFF"

section \<open>ICU\<close>

text \<open>
  The Unicode predicates \<open>u_isIDStart\<close>, \<open>u_isIDPart\<close> and \<open>u_hasBinaryProperty\<close> are functions of the ICU
  library.  They are parameters of the model, called the way the code calls them: on a \<open>UChar\<close>, i.e.
  the code point truncated to 16 bits.
\<close>

record icu =
  u_isIDStart :: "u16 \<Rightarrow> bool"
  u_isIDPart :: "u16 \<Rightarrow> bool"
  u_hasIDStart :: "u16 \<Rightarrow> bool"
  u_hasIDContinue :: "u16 \<Rightarrow> bool"

end
