(* ===== verification/RegExp.thy ===== *)
theory RegExp
  imports Letters
begin

text \<open>
  \<open>lexer/regexp/regexp.cpp\<close>: the recursive-descent validator for regular expression patterns.

  A \<open>RegExpParser\<close> is the record \<open>rx\<close>: the iterator, the number of capturing groups seen so far, the
  group names and the flags of the literal.  Every method is a computation on it; \<open>ThrowError\<close>
  throws the message.  A loop that reads digits or names is bounded by the bytes that are left
  (\<open>bounded\<close>), which is never used up.  The mutually recursive methods and the character class loop
  carry an explicit bound \<open>n\<close>: an unterminated character class makes the code loop forever
  (\<open>unterminated_class_diverges\<close> in \<open>RegExpProps\<close>).
\<close>

section \<open>The parser object\<close>

record rx =
  rit :: iter
  rgroups :: u32
  rnames :: "byte list list"
  rflags :: u32
  ricu :: icu

type_synonym 'a rxM = "(rx, string, 'a) comp"

text \<open>\<open>RegExpFlags\<close>\<close>

abbreviation (input) RE_EMPTY :: u32 where "RE_EMPTY \<equiv> 0"
abbreviation (input) RE_GLOBAL :: u32 where "RE_GLOBAL \<equiv> 1"
abbreviation (input) RE_IGNORE_CASE :: u32 where "RE_IGNORE_CASE \<equiv> 2"
abbreviation (input) RE_MULTILINE :: u32 where "RE_MULTILINE \<equiv> 4"
abbreviation (input) RE_STICKY :: u32 where "RE_STICKY \<equiv> 8"
abbreviation (input) RE_UNICODE :: u32 where "RE_UNICODE \<equiv> 16"
abbreviation (input) RE_DOTALL :: u32 where "RE_DOTALL \<equiv> 32"

definition RegExpParser :: "icu \<Rightarrow> byte list \<Rightarrow> u32 \<Rightarrow> rx" where
  "RegExpParser ic pattern flags =
    \<lparr>rit = \<lparr>sv = pattern, ipos = 0\<rparr>, rgroups = 0, rnames = [], rflags = flags, ricu = ic\<rparr>"

definition isUnicode :: "rx \<Rightarrow> bool" where
  "isUnicode s \<longleftrightarrow> rflags s AND RE_UNICODE \<noteq> 0"

definition Unicode :: "bool rxM" where
  "Unicode = getM isUnicode"

definition rxPeek :: "char32 rxM" where
  "rxPeek = readM (\<lambda>s. Peek (rit s))"

definition rxNext :: "char32 rxM" where
  "rxNext s = (case Next (rit s) of None \<Rightarrow> Undefined | Some (cp, i) \<Rightarrow> Ok (cp, s\<lparr>rit := i\<rparr>))"

definition rxSave :: "iter rxM" where
  "rxSave = getM rit"

definition rxRestore :: "iter \<Rightarrow> unit rxM" where
  "rxRestore i = modifyM (\<lambda>s. s\<lparr>rit := i\<rparr>)"

definition bounded :: "(nat \<Rightarrow> 'a rxM) \<Rightarrow> 'a rxM" where
  "bounded loop s = loop (Suc (left (rit s))) s"

section \<open>Digits\<close>

definition IsDecimalDigit :: "char32 \<Rightarrow> bool" where
  "IsDecimalDigit cp \<longleftrightarrow> LEX_CHAR_0 \<le> cp \<and> cp \<le> LEX_CHAR_9"

definition IsOctalDigit :: "char32 \<Rightarrow> bool" where
  "IsOctalDigit cp \<longleftrightarrow> LEX_CHAR_0 \<le> cp \<and> cp \<le> LEX_CHAR_7"

definition IsHexDigit :: "char32 \<Rightarrow> bool" where
  "IsHexDigit cp \<longleftrightarrow> IsDecimalDigit cp \<or> (LEX_CHAR_LOWERCASE_A \<le> cp \<and> cp \<le> LEX_CHAR_LOWERCASE_F)
     \<or> (LEX_CHAR_UPPERCASE_A \<le> cp \<and> cp \<le> LEX_CHAR_UPPERCASE_F)"

definition DigitValue :: "char32 \<Rightarrow> u32" where
  "DigitValue cp = cp - LEX_CHAR_0"

definition HexValue :: "char32 \<Rightarrow> u32" where
  "HexValue cp =
    (if IsDecimalDigit cp then DigitValue cp
     else if cp < LEX_CHAR_LOWERCASE_A then cp - LEX_CHAR_UPPERCASE_A + 10
     else cp - LEX_CHAR_LOWERCASE_A + 10)"

section \<open>Escapes\<close>

definition IsSyntaxCharacter :: "bool \<Rightarrow> char32 \<Rightarrow> bool" where
  "IsSyntaxCharacter unicode cp \<longleftrightarrow>
    (if cp \<in> {LEX_CHAR_RIGHT_SQUARE, LEX_CHAR_LEFT_BRACE, LEX_CHAR_RIGHT_BRACE} then unicode
     else cp \<in> {LEX_CHAR_CIRCUMFLEX, LEX_CHAR_DOLLAR_SIGN, LEX_CHAR_BACKSLASH, LEX_CHAR_DOT,
                LEX_CHAR_ASTERISK, LEX_CHAR_PLUS, LEX_CHAR_QUESTION, LEX_CHAR_LEFT_PAREN,
                LEX_CHAR_RIGHT_PAREN, LEX_CHAR_LEFT_SQUARE, LEX_CHAR_VLINE})"

text \<open>The test both control escapes make: neither a lower-case nor an upper-case ASCII letter.\<close>

definition notLetter :: "char32 \<Rightarrow> bool" where
  "notLetter cp \<longleftrightarrow> (cp < LEX_CHAR_LOWERCASE_A \<or> LEX_CHAR_LOWERCASE_Z < cp)
     \<and> (cp < LEX_CHAR_UPPERCASE_A \<or> LEX_CHAR_UPPERCASE_Z < cp)"

definition ParseControlEscape :: "u32 rxM" where
  "ParseControlEscape =
    bindM rxPeek (\<lambda>cp. bindM Unicode (\<lambda>unicode.
      if notLetter cp \<and> unicode then raise ''Invalid control escape''
      else if notLetter cp \<and> (cp < LEX_CHAR_0 \<or> LEX_CHAR_9 < cp) then ret LEX_CHAR_LOWERCASE_C
      else thenM rxNext (ret (cp mod 32))))"

definition ParseLegacyOctalEscape :: "u32 rxM" where
  "ParseLegacyOctalEscape =
    bindM rxNext (\<lambda>d. let octalValue = DigitValue d in
    bindM rxPeek (\<lambda>p1.
      if \<not> IsOctalDigit p1 then ret octalValue
      else bindM rxNext (\<lambda>d. let octalValue = octalValue * 8 + DigitValue d in
      bindM rxPeek (\<lambda>p2.
        if \<not> IsOctalDigit p2 then ret octalValue
        else let newValue = octalValue * 8 + DigitValue p2 in
          if newValue \<le> 0xFF then thenM rxNext (ret newValue) else ret octalValue))))"

fun DecimalDigits_loop :: "nat \<Rightarrow> u32 \<Rightarrow> u32 rxM" where
  "DecimalDigits_loop 0 decimalValue = out_of_fuel"
| "DecimalDigits_loop (Suc n) decimalValue =
    bindM rxPeek (\<lambda>p.
      if IsDecimalDigit p then
        bindM rxNext (\<lambda>d. let newValue = decimalValue * 10 + DigitValue d in
          if newValue < decimalValue then raise ''Invalid decimal escape''
          else DecimalDigits_loop n newValue)
      else ret decimalValue)"

definition ParseDecimalEscape :: "u32 rxM" where
  "ParseDecimalEscape =
    bindM rxSave (\<lambda>digitStart. bindM Unicode (\<lambda>unicode.
    bindM rxNext (\<lambda>d. let decimalValue = DigitValue d in
      if decimalValue = 0 then
        bindM rxPeek (\<lambda>p.
          if \<not> IsDecimalDigit p then ret decimalValue
          else if unicode then raise ''Invalid decimal escape''
          else thenM (rxRestore digitStart) ParseLegacyOctalEscape)
      else
        bindM (bounded (\<lambda>n. DecimalDigits_loop n decimalValue)) (\<lambda>decimalValue.
        bindM (getM rgroups) (\<lambda>capturingGroupCount.
          if decimalValue \<le> capturingGroupCount then ret decimalValue
          else if unicode then raise ''Invalid decimal escape''
          else thenM (rxRestore digitStart) (bindM rxPeek (\<lambda>p.
            if \<not> IsOctalDigit p then bindM rxNext (\<lambda>d. ret (DigitValue d))
            else ParseLegacyOctalEscape)))))))"

definition ParseHexEscape :: "u32 rxM" where
  "ParseHexEscape =
    bindM rxNext (\<lambda>digit.
      if \<not> IsHexDigit digit then raise ''Invalid hex escape''
      else let cpValue = HexValue digit * 16 in
      bindM rxNext (\<lambda>digit.
        if \<not> IsHexDigit digit then raise ''Invalid hex escape''
        else ret (cpValue + HexValue digit)))"

fun UnicodeDigits_loop :: "nat \<Rightarrow> u32 \<Rightarrow> u32 rxM" where
  "UnicodeDigits_loop 0 value = ret value"
| "UnicodeDigits_loop (Suc count) value =
    bindM rxNext (\<lambda>digit.
      if \<not> IsHexDigit digit then raise ''Invalid Unicode escape''
      else UnicodeDigits_loop count (value * 16 + HexValue digit))"

definition ParseUnicodeDigits :: "u32 rxM" where
  "ParseUnicodeDigits = UnicodeDigits_loop 4 0"

fun BracedDigits_loop :: "nat \<Rightarrow> u32 \<Rightarrow> u32 rxM" where
  "BracedDigits_loop 0 value = out_of_fuel"
| "BracedDigits_loop (Suc n) value =
    bindM rxPeek (\<lambda>p.
      if IsHexDigit p then
        bindM rxNext (\<lambda>d. let value = value * 16 + HexValue d in
          if value > 0x10FFFF then raise ''Invalid Unicode escape'' else BracedDigits_loop n value)
      else ret value)"

text \<open>After a high surrogate: take a following \<open>\u\<close> escape if it is a low surrogate, else back up.\<close>

definition LowSurrogate_tail :: "u32 \<Rightarrow> u32 rxM" where
  "LowSurrogate_tail value =
    bindM rxSave (\<lambda>pos. bindM rxNext (\<lambda>c1.
      if c1 = LEX_CHAR_BACKSLASH then
        bindM rxNext (\<lambda>c2.
          if c2 = LEX_CHAR_LOWERCASE_U then
            bindM ParseUnicodeDigits (\<lambda>nxt.
              if IsLowSurrogate nxt then ret (DecodeSurrogates value nxt)
              else thenM (rxRestore pos) (ret value))
          else thenM (rxRestore pos) (ret value))
      else thenM (rxRestore pos) (ret value)))"

definition ParseUnicodeEscape :: "u32 rxM" where
  "ParseUnicodeEscape =
    bindM rxPeek (\<lambda>p.
      if p = LEX_CHAR_LEFT_BRACE then
        thenM rxNext (bindM rxPeek (\<lambda>p.
          if \<not> IsHexDigit p then raise ''Invalid Unicode escape''
          else bindM (bounded (\<lambda>n. BracedDigits_loop n 0)) (\<lambda>value.
            bindM rxPeek (\<lambda>p.
              if p \<noteq> LEX_CHAR_RIGHT_BRACE then raise ''Invalid Unicode escape''
              else thenM rxNext (ret value)))))
      else
        bindM ParseUnicodeDigits (\<lambda>value.
          if IsHighSurrogate value then LowSurrogate_tail value else ret value))"

fun PropertyEscape_loop :: "nat \<Rightarrow> unit rxM" where
  "PropertyEscape_loop 0 = out_of_fuel"
| "PropertyEscape_loop (Suc n) =
    bindM (getM (\<lambda>s. HasNext (rit s))) (\<lambda>more.
      if \<not> more then raise ''Unterminated Unicode property escape''
      else bindM rxNext (\<lambda>ch. if ch = LEX_CHAR_LEFT_BRACE then ret () else PropertyEscape_loop n))"

definition ParseUnicodePropertyEscape :: "unit rxM" where
  "ParseUnicodePropertyEscape =
    bindM Unicode (\<lambda>unicode.
      if \<not> unicode then ret ()
      else bindM rxPeek (\<lambda>p.
        if p \<noteq> LEX_CHAR_LEFT_BRACE then raise ''Invalid Unicode property escape''
        else thenM rxNext (bounded PropertyEscape_loop)))"

section \<open>Group names\<close>

definition IsIdStart :: "icu \<Rightarrow> u32 \<Rightarrow> bool" where
  "IsIdStart ic cp \<longleftrightarrow> u_isIDStart ic (ucast cp) \<or> cp = LEX_CHAR_DOLLAR_SIGN \<or> cp = LEX_CHAR_UNDERSCORE"

definition IsIdCont :: "icu \<Rightarrow> u32 \<Rightarrow> bool" where
  "IsIdCont ic cp \<longleftrightarrow> u_isIDPart ic (ucast cp) \<or> cp = LEX_CHAR_DOLLAR_SIGN
     \<or> cp = LEX_CHAR_ZWNJ \<or> cp = LEX_CHAR_ZWJ"

text \<open>An escape in a name: the backslash is read; returns the code point it denotes.\<close>

definition IdentEscape :: "u32 rxM" where
  "IdentEscape =
    bindM Unicode (\<lambda>unicode. bindM rxNext (\<lambda>c.
      if c \<noteq> LEX_CHAR_LOWERCASE_U then raise ''Invalid group name''
      else bindM rxPeek (\<lambda>p.
        if \<not> unicode \<and> p = LEX_CHAR_LEFT_BRACE then raise ''Invalid Unicode escape''
        else ParseUnicodeEscape)))"

fun IdentParts_loop :: "nat \<Rightarrow> byte list \<Rightarrow> byte list rxM" where
  "IdentParts_loop 0 ident = out_of_fuel"
| "IdentParts_loop (Suc n) ident =
    bindM rxNext (\<lambda>cp.
      if cp = LEX_CHAR_GREATER_THAN then ret ident
      else bindM (if cp = LEX_CHAR_BACKSLASH then IdentEscape else ret cp) (\<lambda>cp.
        bindM (getM ricu) (\<lambda>ic.
          if \<not> IsIdCont ic cp then raise ''Invalid group name''
          else IdentParts_loop n (ident @ Utf8Encode cp))))"

definition ParseIdent :: "byte list rxM" where
  "ParseIdent =
    bindM rxNext (\<lambda>cp.
    bindM (if cp = LEX_CHAR_BACKSLASH then IdentEscape else ret cp) (\<lambda>cp.
    bindM (getM ricu) (\<lambda>ic.
      if \<not> IsIdStart ic cp then raise ''Invalid group name''
      else bounded (\<lambda>n. IdentParts_loop n (Utf8Encode cp)))))"

definition ParseNamedBackreference :: "unit rxM" where
  "ParseNamedBackreference =
    bindM (getM rnames) (\<lambda>groupNames.
      if groupNames = [] then ret ()
      else bindM rxNext (\<lambda>c.
        if c \<noteq> LEX_CHAR_LESS_THAN then raise ''Invalid named backreference''
        else bindM ParseIdent (\<lambda>name.
          if name \<notin> set groupNames then raise ''Invalid named capture referenced'' else ret ())))"

section \<open>Character classes\<close>

text \<open>\<open>numeric_limits<uint32_t>::max()\<close> marks an atom that stands for a set of characters.\<close>

abbreviation (input) CLASS_ESCAPE :: u32 where "CLASS_ESCAPE \<equiv> 0xFFFFFFFF"

definition IsClassEscape :: "u32 \<Rightarrow> bool" where
  "IsClassEscape cp \<longleftrightarrow> cp = CLASS_ESCAPE"

definition ClassAtom_escape :: "char32 \<Rightarrow> char32 rxM" where
  "ClassAtom_escape cp =
    bindM Unicode (\<lambda>unicode.
      if cp = LEX_CHAR_LOWERCASE_C then ParseControlEscape
      else if cp = LEX_CHAR_LOWERCASE_X then ParseHexEscape
      else if cp = LEX_CHAR_LOWERCASE_U then
        bindM rxPeek (\<lambda>p.
          if \<not> unicode \<and> p = LEX_CHAR_LEFT_BRACE then ret cp else ParseUnicodeEscape)
      else if cp \<in> {LEX_CHAR_LOWERCASE_P, LEX_CHAR_UPPERCASE_P} then
        (if \<not> unicode then ret cp else thenM ParseUnicodePropertyEscape (ret CLASS_ESCAPE))
      else if cp \<in> {LEX_CHAR_LOWERCASE_D, LEX_CHAR_UPPERCASE_D, LEX_CHAR_LOWERCASE_S,
                     LEX_CHAR_UPPERCASE_S, LEX_CHAR_LOWERCASE_W, LEX_CHAR_UPPERCASE_W} then ret CLASS_ESCAPE
      else if cp = LEX_CHAR_LOWERCASE_B then ret LEX_CHAR_BS
      else if cp = LEX_CHAR_LOWERCASE_F then ret LEX_CHAR_FF
      else if cp = LEX_CHAR_LOWERCASE_N then ret LEX_CHAR_LF
      else if cp = LEX_CHAR_LOWERCASE_R then ret LEX_CHAR_CR
      else if cp = LEX_CHAR_LOWERCASE_T then ret LEX_CHAR_TAB
      else if cp = LEX_CHAR_LOWERCASE_V then ret LEX_CHAR_VT
      else if cp = LEX_CHAR_MINUS then ret cp
      else if unicode \<and> \<not> IsSyntaxCharacter unicode cp \<and> cp \<noteq> LEX_CHAR_SLASH then raise ''Invalid escape''
      else ret cp)"

definition ParseClassAtom :: "char32 rxM" where
  "ParseClassAtom =
    bindM rxNext (\<lambda>cp.
      if cp \<noteq> LEX_CHAR_BACKSLASH then ret cp
      else bindM rxPeek (\<lambda>cp. bindM Unicode (\<lambda>unicode.
        if cp = LEX_CHAR_0 then
          (if \<not> unicode then ParseDecimalEscape
           else thenM rxNext (bindM rxPeek (\<lambda>p.
             if IsDecimalDigit p then raise ''Invalid class escape'' else ret LEX_CHAR_NULL)))
        else thenM rxNext (ClassAtom_escape cp))))"

text \<open>The loop of \<open>ParseCharacterClass\<close>, after the optional circumflex.\<close>

fun CharacterClass_loop :: "nat \<Rightarrow> unit rxM" where
  "CharacterClass_loop 0 = out_of_fuel"
| "CharacterClass_loop (Suc n) =
    bindM rxPeek (\<lambda>p.
      if p = LEX_CHAR_RIGHT_SQUARE then thenM rxNext (ret ())
      else bindM ParseClassAtom (\<lambda>lft. bindM rxPeek (\<lambda>p.
        if p \<noteq> LEX_CHAR_MINUS then CharacterClass_loop n
        else thenM rxNext (bindM rxPeek (\<lambda>p.
          if p = LEX_CHAR_RIGHT_SQUARE then thenM rxNext (ret ())
          else bindM ParseClassAtom (\<lambda>rght. bindM Unicode (\<lambda>unicode.
            if IsClassEscape lft \<or> IsClassEscape rght then
              (if unicode then raise ''Invalid character class'' else CharacterClass_loop n)
            else if lft > rght then raise ''Class range out of order''
            else CharacterClass_loop n)))))))"

definition ParseCharacterClass :: "nat \<Rightarrow> unit rxM" where
  "ParseCharacterClass n =
    bindM rxPeek (\<lambda>p.
      if p = LEX_CHAR_CIRCUMFLEX then thenM rxNext (CharacterClass_loop n) else CharacterClass_loop n)"

section \<open>Atoms and quantifiers\<close>

definition ParseAtomEscape :: "unit rxM" where
  "ParseAtomEscape =
    bindM rxPeek (\<lambda>cp. bindM Unicode (\<lambda>unicode.
      if IsDecimalDigit cp then thenM ParseDecimalEscape (ret ())
      else thenM rxNext (
        if cp = LEX_CHAR_LOWERCASE_X then thenM ParseHexEscape (ret ())
        else if cp = LEX_CHAR_LOWERCASE_U then thenM ParseUnicodeEscape (ret ())
        else if cp = LEX_CHAR_LOWERCASE_K then ParseNamedBackreference
        else if cp \<in> {LEX_CHAR_LOWERCASE_F, LEX_CHAR_LOWERCASE_N, LEX_CHAR_LOWERCASE_R,
                      LEX_CHAR_LOWERCASE_T, LEX_CHAR_LOWERCASE_V, LEX_CHAR_LOWERCASE_D,
                      LEX_CHAR_UPPERCASE_D, LEX_CHAR_LOWERCASE_S, LEX_CHAR_UPPERCASE_S,
                      LEX_CHAR_LOWERCASE_W, LEX_CHAR_UPPERCASE_W} then ret ()
        else if cp \<in> {LEX_CHAR_LOWERCASE_P, LEX_CHAR_UPPERCASE_P} then ParseUnicodePropertyEscape
        else if cp = LEX_CHAR_LOWERCASE_C then
          bindM rxPeek (\<lambda>cp.
            if notLetter cp then raise ''Invalid control escape'' else thenM rxNext (ret ()))
        else if unicode \<and> \<not> IsSyntaxCharacter unicode cp \<and> cp \<noteq> LEX_CHAR_SLASH then raise ''Invalid escape''
        else ret ())))"

text \<open>The digit loops of the braced quantifier; on a detected overflow the value becomes the maximum.\<close>

definition QuantifierStep :: "u32 \<Rightarrow> char32 \<Rightarrow> u32" where
  "QuantifierStep value d =
    (let newValue = value * 10 + DigitValue d in if newValue < value then 0xFFFFFFFF else newValue)"

fun QuantifierDigits_loop :: "nat \<Rightarrow> u32 \<Rightarrow> u32 rxM" where
  "QuantifierDigits_loop 0 value = out_of_fuel"
| "QuantifierDigits_loop (Suc n) value =
    bindM rxPeek (\<lambda>p.
      if IsDecimalDigit p then bindM rxNext (\<lambda>d. QuantifierDigits_loop n (QuantifierStep value d))
      else ret value)"

definition BracedQuantifier_right :: "iter \<Rightarrow> u32 \<Rightarrow> bool rxM" where
  "BracedQuantifier_right startPos leftValue =
    bindM rxPeek (\<lambda>p.
      if p = LEX_CHAR_RIGHT_BRACE then thenM rxNext (ret True)
      else if IsDecimalDigit p then
        bindM (bounded (\<lambda>n. QuantifierDigits_loop n 0)) (\<lambda>rightValue.
        bindM rxPeek (\<lambda>p.
          if p = LEX_CHAR_RIGHT_BRACE then
            (if rightValue < leftValue then raise ''Quantifier range out of order''
             else thenM rxNext (ret True))
          else thenM (rxRestore startPos) (ret False)))
      else thenM (rxRestore startPos) (ret False))"

definition ParseBracedQuantifier :: "bool rxM" where
  "ParseBracedQuantifier =
    bindM rxPeek (\<lambda>p.
      if p \<noteq> LEX_CHAR_LEFT_BRACE then ret False
      else bindM rxSave (\<lambda>startPos. thenM rxNext (bindM rxPeek (\<lambda>p.
        if \<not> IsDecimalDigit p then thenM (rxRestore startPos) (ret False)
        else bindM (bounded (\<lambda>n. QuantifierDigits_loop n 0)) (\<lambda>leftValue.
          bindM rxPeek (\<lambda>p.
            if p = LEX_CHAR_COMMA then thenM rxNext (BracedQuantifier_right startPos leftValue)
            else BracedQuantifier_right startPos leftValue))))))"

definition Quantifier_lazy :: "unit rxM" where
  "Quantifier_lazy = bindM rxPeek (\<lambda>p. if p = LEX_CHAR_QUESTION then thenM rxNext (ret ()) else ret ())"

definition ParseQuantifier :: "unit rxM" where
  "ParseQuantifier =
    bindM rxPeek (\<lambda>p.
      if p \<in> {LEX_CHAR_ASTERISK, LEX_CHAR_PLUS, LEX_CHAR_QUESTION} then thenM rxNext Quantifier_lazy
      else if p = LEX_CHAR_LEFT_BRACE then
        bindM ParseBracedQuantifier (\<lambda>ok. if \<not> ok then ret () else Quantifier_lazy)
      else ret ())"

definition ParsePatternCharacter :: "bool rxM" where
  "ParsePatternCharacter =
    bindM rxPeek (\<lambda>cp. bindM Unicode (\<lambda>unicode.
      if IsSyntaxCharacter unicode cp then ret False else thenM rxNext (ret True)))"

section \<open>Alternatives, groups and disjunctions\<close>

definition AddGroupName :: "byte list \<Rightarrow> unit rxM" where
  "AddGroupName name =
    bindM (getM rnames) (\<lambda>groupNames.
      if name \<in> set groupNames then raise ''Duplicate group name''
      else modifyM (\<lambda>s. s\<lparr>rnames := name # groupNames\<rparr>))"

definition CloseGroup :: "string \<Rightarrow> unit rxM" where
  "CloseGroup message =
    bindM rxPeek (\<lambda>p. if p \<noteq> LEX_CHAR_RIGHT_PAREN then raise message else thenM rxNext (ret ()))"

fun ParseDisjunction :: "nat \<Rightarrow> unit rxM"
and ParseAlternatives :: "nat \<Rightarrow> unit rxM"
and ParseAlternative :: "nat \<Rightarrow> unit rxM"
and ParseNonCapturingGroup :: "nat \<Rightarrow> unit rxM"
and ParseNamedCapturingGroup :: "nat \<Rightarrow> unit rxM"
and ParseCapturingGroup :: "nat \<Rightarrow> unit rxM"
and ParseAssertion :: "nat \<Rightarrow> unit rxM"
where
  "ParseDisjunction 0 = out_of_fuel"
| "ParseDisjunction (Suc n) =
    thenM (ParseAlternatives n) (bindM rxPeek (\<lambda>p.
      if p \<noteq> LEX_CHAR_VLINE then ret () else thenM rxNext (ParseDisjunction n)))"
| "ParseAlternatives 0 = out_of_fuel"
| "ParseAlternatives (Suc n) =
    bindM rxPeek (\<lambda>p.
      if p \<in> {INVALID_CP, LEX_CHAR_RIGHT_PAREN, LEX_CHAR_VLINE} then ret ()
      else thenM (ParseAlternative n) (ParseAlternatives n))"
| "ParseAlternative 0 = out_of_fuel"
| "ParseAlternative (Suc n) =
    bindM rxPeek (\<lambda>p.
      if p = LEX_CHAR_BACKSLASH then
        thenM rxNext (bindM rxPeek (\<lambda>cp.
          if cp = LEX_CHAR_LOWERCASE_B \<or> cp = LEX_CHAR_UPPERCASE_B then thenM rxNext (ret ())
          else thenM ParseAtomEscape ParseQuantifier))
      else if p \<in> {LEX_CHAR_CIRCUMFLEX, LEX_CHAR_DOLLAR_SIGN} then thenM rxNext (ret ())
      else if p = LEX_CHAR_LEFT_PAREN then
        thenM rxNext (bindM rxPeek (\<lambda>p.
          if p \<noteq> LEX_CHAR_QUESTION then thenM (ParseCapturingGroup n) ParseQuantifier
          else thenM rxNext (bindM rxNext (\<lambda>cp.
            if cp = LEX_CHAR_COLON then thenM (ParseNonCapturingGroup n) ParseQuantifier
            else if cp = LEX_CHAR_EQUALS \<or> cp = LEX_CHAR_EXCLAMATION then
              thenM (ParseAssertion n) (bindM Unicode (\<lambda>unicode.
                if unicode then ret () else ParseQuantifier))
            else if cp \<noteq> LEX_CHAR_LESS_THAN then raise ''Invalid group''
            else bindM rxPeek (\<lambda>cp.
              if cp = LEX_CHAR_EQUALS \<or> cp = LEX_CHAR_EXCLAMATION then thenM rxNext (ParseAssertion n)
              else thenM (ParseNamedCapturingGroup n) ParseQuantifier)))))
      else if p = LEX_CHAR_LEFT_SQUARE then
        thenM rxNext (thenM (ParseCharacterClass n) ParseQuantifier)
      else if p = LEX_CHAR_DOT then thenM rxNext ParseQuantifier
      else
        bindM ParseBracedQuantifier (\<lambda>braced.
          if braced then raise ''Invalid quantifier, nothing to repeat''
          else bindM ParsePatternCharacter (\<lambda>ok.
            if \<not> ok then raise ''Invalid character'' else ParseQuantifier)))"
| "ParseNonCapturingGroup 0 = out_of_fuel"
| "ParseNonCapturingGroup (Suc n) =
    thenM (ParseDisjunction n) (CloseGroup ''Invalid non-capturing group'')"
| "ParseNamedCapturingGroup 0 = out_of_fuel"
| "ParseNamedCapturingGroup (Suc n) =
    bindM ParseIdent (\<lambda>name. thenM (AddGroupName name) (ParseCapturingGroup n))"
| "ParseCapturingGroup 0 = out_of_fuel"
| "ParseCapturingGroup (Suc n) =
    thenM (modifyM (\<lambda>s. s\<lparr>rgroups := rgroups s + 1\<rparr>))
      (thenM (ParseDisjunction n) (CloseGroup ''Invalid capturing group''))"
| "ParseAssertion 0 = out_of_fuel"
| "ParseAssertion (Suc n) = thenM (ParseDisjunction n) (CloseGroup ''Invalid assertion'')"

definition ParsePattern :: "nat \<Rightarrow> unit rxM" where
  "ParsePattern n =
    thenM (ParseDisjunction n) (bindM (getM (\<lambda>s. HasNext (rit s))) (\<lambda>more.
      if more then raise ''Invalid closing parenthesis'' else ret ()))"

end
