(* ===== verification/RegExpProps.thy ===== *)
theory RegExpProps
  imports RegExp
begin

text \<open>
  Safety, termination and behaviour of the regular expression validator.

  \<open>rinv F s\<close>: the parser stands on a code-point boundary of a well-formed pattern and, unless running
  out of fuel is allowed (\<open>F\<close>), the pattern has no character class and ICU does not count the
  noncharacter U+FFFF (what \<open>INVALID_CP\<close> becomes as a \<open>UChar\<close>) as an identifier part.  Every operation keeps it and
  never moves backwards (\<open>rleft\<close> does not grow); the lemmas state that in continuation form.
\<close>

section \<open>Invariant\<close>

definition rinv :: "bool \<Rightarrow> rx \<Rightarrow> bool" where
  "rinv F s \<longleftrightarrow> wf_at (rit s)
     \<and> (F \<or> 0x5B \<notin> set (sv (rit s)) \<and> \<not> u_isIDPart (ricu s) 0xFFFF)"

definition rleft :: "rx \<Rightarrow> nat" where
  "rleft s = left (rit s)"

lemma rinv_restore [simp, intro!]: "rinv F s \<Longrightarrow> rinv F t \<Longrightarrow> rinv F (t\<lparr>rit := rit s\<rparr>)"
  by (auto simp: rinv_def)

lemma rleft_restore [simp]: "rleft (t\<lparr>rit := rit s\<rparr>) = rleft s"
  by (simp_all add: rleft_def)

lemma rinv_frame [simp]:
  "rinv F (s\<lparr>rgroups := g\<rparr>) = rinv F s" "rinv F (s\<lparr>rnames := ns\<rparr>) = rinv F s"
  "rleft (s\<lparr>rgroups := g\<rparr>) = rleft s" "rleft (s\<lparr>rnames := ns\<rparr>) = rleft s"
  by (simp_all add: rinv_def rleft_def)

section \<open>Rules for the primitive operations\<close>

lemma wp_rxPeek [wp]:
  assumes "rinv F s" and "\<And>v. Peek (rit s) = Some v \<Longrightarrow> Q v s"
  shows "wpM F rxPeek s Q"
  using it.peek_total [of "rit s"] assms by (auto simp: wpM_def rxPeek_def readM_def rinv_def)

lemma wp_rxNext [wp]:
  assumes "rinv F s"
    and "\<And>v t. rinv F t \<Longrightarrow> rleft t \<le> rleft s \<Longrightarrow> v \<noteq> INVALID_CP \<longrightarrow> rleft t < rleft s \<Longrightarrow>
      (\<forall>p. Peek (rit s) = Some p \<and> p \<noteq> INVALID_CP \<longrightarrow> rleft t < rleft s) \<Longrightarrow> Q v t"
  shows "wpM F rxNext s Q"
proof -
  have w: "wf_at (rit s)" using assms(1) by (simp add: rinv_def)
  obtain v i where n: "Next (rit s) = Some (v, i)" using it.advance_total [OF w] by blast
  note l = it.advance_le [OF w n]
  have "sv i = sv (rit s)" using n by (auto simp: Next_def)
  then have "rinv F (s\<lparr>rit := i\<rparr>)" using assms(1) l(1) by (simp add: rinv_def)
  then have "Q v (s\<lparr>rit := i\<rparr>)"
    by (rule assms(2)) (use l it.advance_moves [OF w _ _ n] in \<open>auto simp: rleft_def\<close>)
  then show ?thesis by (simp add: wpM_def rxNext_def n)
qed

lemma wp_Unicode [wp]: "Q (isUnicode s) s \<Longrightarrow> wpM F Unicode s Q"
  unfolding Unicode_def by (rule wp_get)

lemma wp_rxSave [wp]: "Q (rit s) s \<Longrightarrow> wpM F rxSave s Q"
  unfolding rxSave_def by (rule wp_get)

lemma wp_rxRestore [wp]: "Q () (s\<lparr>rit := i\<rparr>) \<Longrightarrow> wpM F (rxRestore i) s Q"
  unfolding rxRestore_def by (rule wp_modify)

lemma wp_bounded [wp]: "wpM F (loop (Suc (rleft s))) s Q \<Longrightarrow> wpM F (bounded loop) s Q"
  by (simp add: wpM_def bounded_def rleft_def)

section \<open>Rules for the escapes\<close>

lemma wp_ParseControlEscape [wp]:
  assumes "rinv F s" and "\<And>v t. rinv F t \<Longrightarrow> rleft t \<le> rleft s \<Longrightarrow> Q v t"
  shows "wpM F ParseControlEscape s Q"
  unfolding ParseControlEscape_def using assms by (intro wp) auto

lemma wp_ParseLegacyOctalEscape [wp]:
  assumes "rinv F s" and "\<And>v t. rinv F t \<Longrightarrow> rleft t \<le> rleft s \<Longrightarrow> Q v t"
  shows "wpM F ParseLegacyOctalEscape s Q"
  unfolding ParseLegacyOctalEscape_def Let_def using assms by (intro wp) auto

lemma digits_not_end [simp]:
  "\<not> IsDecimalDigit INVALID_CP" "\<not> IsOctalDigit INVALID_CP" "\<not> IsHexDigit INVALID_CP"
  by (simp_all add: IsDecimalDigit_def IsOctalDigit_def IsHexDigit_def)

lemma digit_inside [dest]:
  "IsDecimalDigit p \<Longrightarrow> p \<noteq> INVALID_CP" "IsOctalDigit p \<Longrightarrow> p \<noteq> INVALID_CP" "IsHexDigit p \<Longrightarrow> p \<noteq> INVALID_CP"
  by auto

lemma wp_DecimalDigits_loop [wp]:
  assumes "rinv F s" and "rleft s < n" and "\<And>v t. rinv F t \<Longrightarrow> rleft t \<le> rleft s \<Longrightarrow> Q v t"
  shows "wpM F (DecimalDigits_loop n d) s Q"
  using assms
proof (induction n arbitrary: s d)
  case 0 then show ?case by simp
next
  case (Suc n)
  show ?case unfolding DecimalDigits_loop.simps Let_def
    by (intro wp Suc.IH) (use Suc.prems in \<open>auto dest!: digit_inside\<close>)
qed

lemma wp_ParseDecimalEscape [wp]:
  assumes "rinv F s" and "\<And>v t. rinv F t \<Longrightarrow> rleft t \<le> rleft s \<Longrightarrow> Q v t"
  shows "wpM F ParseDecimalEscape s Q"
  unfolding ParseDecimalEscape_def Let_def using assms by (intro wp) auto

lemma wp_ParseHexEscape [wp]:
  assumes "rinv F s" and "\<And>v t. rinv F t \<Longrightarrow> rleft t \<le> rleft s \<Longrightarrow> Q v t"
  shows "wpM F ParseHexEscape s Q"
  unfolding ParseHexEscape_def Let_def using assms by (intro wp) auto

lemma wp_UnicodeDigits_loop [wp]:
  assumes "rinv F s" and "\<And>v t. rinv F t \<Longrightarrow> rleft t \<le> rleft s \<Longrightarrow> Q v t"
  shows "wpM F (UnicodeDigits_loop n d) s Q"
  using assms
proof (induction n arbitrary: s d)
  case 0 then show ?case by (simp add: wp_ret)
next
  case (Suc n)
  show ?case unfolding UnicodeDigits_loop.simps by (intro wp Suc.IH) (use Suc.prems in auto)
qed

lemma wp_ParseUnicodeDigits [wp]:
  assumes "rinv F s" and "\<And>v t. rinv F t \<Longrightarrow> rleft t \<le> rleft s \<Longrightarrow> Q v t"
  shows "wpM F ParseUnicodeDigits s Q"
  unfolding ParseUnicodeDigits_def using assms by (intro wp)

lemma wp_BracedDigits_loop [wp]:
  assumes "rinv F s" and "rleft s < n" and "\<And>v t. rinv F t \<Longrightarrow> rleft t \<le> rleft s \<Longrightarrow> Q v t"
  shows "wpM F (BracedDigits_loop n d) s Q"
  using assms
proof (induction n arbitrary: s d)
  case 0 then show ?case by simp
next
  case (Suc n)
  show ?case unfolding BracedDigits_loop.simps Let_def
    by (intro wp Suc.IH) (use Suc.prems in \<open>auto dest!: digit_inside\<close>)
qed

lemma wp_LowSurrogate_tail [wp]:
  assumes "rinv F s" and "\<And>v t. rinv F t \<Longrightarrow> rleft t \<le> rleft s \<Longrightarrow> Q v t"
  shows "wpM F (LowSurrogate_tail w) s Q"
  unfolding LowSurrogate_tail_def using assms by (intro wp) auto

lemma wp_ParseUnicodeEscape [wp]:
  assumes "rinv F s" and "\<And>v t. rinv F t \<Longrightarrow> rleft t \<le> rleft s \<Longrightarrow> Q v t"
  shows "wpM F ParseUnicodeEscape s Q"
  unfolding ParseUnicodeEscape_def using assms by (intro wp) auto

lemma HasNext_rleft: "rinv F s \<Longrightarrow> HasNext (rit s) \<Longrightarrow> 0 < rleft s"
  using wf_atD(1) [of "rit s"] by (auto simp: rinv_def rleft_def left_def)

lemma Peek_inside: "rinv F s \<Longrightarrow> 0 < rleft s \<Longrightarrow> \<exists>p. Peek (rit s) = Some p \<and> p \<noteq> INVALID_CP"
  using it.peek_total [of "rit s"] it.peek_end [of "rit s"] by (auto simp: rinv_def rleft_def)

lemma wp_PropertyEscape_loop [wp]:
  assumes "rinv F s" and "rleft s < n" and "\<And>v t. rinv F t \<Longrightarrow> rleft t \<le> rleft s \<Longrightarrow> Q v t"
  shows "wpM F (PropertyEscape_loop n) s Q"
  using assms
proof (induction n arbitrary: s)
  case 0 then show ?case by simp
next
  case (Suc n)
  show ?case unfolding PropertyEscape_loop.simps
    by (intro wp Suc.IH) (use Suc.prems HasNext_rleft [OF Suc.prems(1)] Peek_inside [OF Suc.prems(1)] in auto)
qed

lemma wp_ParseUnicodePropertyEscape [wp]:
  assumes "rinv F s" and "\<And>v t. rinv F t \<Longrightarrow> rleft t \<le> rleft s \<Longrightarrow> Q v t"
  shows "wpM F ParseUnicodePropertyEscape s Q"
  unfolding ParseUnicodePropertyEscape_def using assms by (intro wp) auto

lemma wp_IdentEscape [wp]:
  assumes "rinv F s" and "\<And>v t. rinv F t \<Longrightarrow> rleft t \<le> rleft s \<Longrightarrow> Q v t"
  shows "wpM F IdentEscape s Q"
  unfolding IdentEscape_def using assms by (intro wp) auto

lemma IdCont_end: "rinv F s \<Longrightarrow> \<not> F \<Longrightarrow> \<not> IsIdCont (ricu s) INVALID_CP"
proof -
  have "u_isIDPart ic (0xFFFFFFFF :: u16) = u_isIDPart ic 0xFFFF" for ic :: icu
    by (rule arg_cong [where f = "u_isIDPart ic"]) simp
  then show "rinv F s \<Longrightarrow> \<not> F \<Longrightarrow> \<not> IsIdCont (ricu s) INVALID_CP"
    by (simp add: rinv_def IsIdCont_def)
qed

lemma wp_IdentParts_loop [wp]:
  assumes "rinv F s" and "F \<or> rleft s < n" and "\<And>v t. rinv F t \<Longrightarrow> rleft t \<le> rleft s \<Longrightarrow> Q v t"
  shows "wpM F (IdentParts_loop n d) s Q"
  using assms
proof (induction n arbitrary: s d)
  case 0 then show ?case by (auto intro: wp)
next
  case (Suc n)
  show ?case unfolding IdentParts_loop.simps
    by (intro wp Suc.IH) (use Suc.prems IdCont_end in fastforce)+
qed

lemma wp_ParseIdent [wp]:
  assumes "rinv F s" and "\<And>v t. rinv F t \<Longrightarrow> rleft t \<le> rleft s \<Longrightarrow> Q v t"
  shows "wpM F ParseIdent s Q"
  unfolding ParseIdent_def using assms by (intro wp) auto

lemma wp_ParseNamedBackreference [wp]:
  assumes "rinv F s" and "\<And>v t. rinv F t \<Longrightarrow> rleft t \<le> rleft s \<Longrightarrow> Q v t"
  shows "wpM F ParseNamedBackreference s Q"
  unfolding ParseNamedBackreference_def using assms by (intro wp) auto

text \<open>Iterators at the same position leave the same number of bytes.\<close>

lemma rit_rleft: "rit t = rit s \<Longrightarrow> rleft t = rleft s"
  by (simp add: rleft_def)

section \<open>Rules for classes, atoms and quantifiers\<close>

lemma wp_ClassAtom_escape [wp]:
  assumes "rinv F s" and "\<And>v t. rinv F t \<Longrightarrow> rleft t \<le> rleft s \<Longrightarrow> Q v t"
  shows "wpM F (ClassAtom_escape cp) s Q"
  unfolding ClassAtom_escape_def by (intro wp assms; (assumption | linarith))

lemma wp_ParseClassAtom [wp]:
  assumes "rinv F s" and "\<And>v t. rinv F t \<Longrightarrow> rleft t \<le> rleft s \<Longrightarrow> Q v t"
  shows "wpM F ParseClassAtom s Q"
  unfolding ParseClassAtom_def by (intro wp assms; (assumption | linarith))

lemma wp_CharacterClass_loop [wp]:
  assumes "rinv F s" and "F" and "\<And>v t. rinv F t \<Longrightarrow> rleft t \<le> rleft s \<Longrightarrow> Q v t"
  shows "wpM F (CharacterClass_loop n) s Q"
  using assms
proof (induction n arbitrary: s)
  case 0 then show ?case by (auto intro: wp)
next
  case (Suc n)
  show ?case unfolding CharacterClass_loop.simps by (intro wp Suc.IH) (use Suc.prems in auto)
qed

lemma wp_ParseCharacterClass [wp]:
  assumes "rinv F s" and "F" and "\<And>v t. rinv F t \<Longrightarrow> rleft t \<le> rleft s \<Longrightarrow> Q v t"
  shows "wpM F (ParseCharacterClass n) s Q"
  unfolding ParseCharacterClass_def using assms by (intro wp) auto

lemma wp_ParseAtomEscape [wp]:
  assumes "rinv F s" and "\<And>v t. rinv F t \<Longrightarrow> rleft t \<le> rleft s \<Longrightarrow> Q v t"
  shows "wpM F ParseAtomEscape s Q"
  unfolding ParseAtomEscape_def by (intro wp assms; (assumption | linarith))

lemma wp_QuantifierDigits_loop [wp]:
  assumes "rinv F s" and "rleft s < n" and "\<And>v t. rinv F t \<Longrightarrow> rleft t \<le> rleft s \<Longrightarrow> Q v t"
  shows "wpM F (QuantifierDigits_loop n d) s Q"
  using assms
proof (induction n arbitrary: s d)
  case 0 then show ?case by simp
next
  case (Suc n)
  show ?case unfolding QuantifierDigits_loop.simps
    by (intro wp Suc.IH) (use Suc.prems in \<open>auto dest!: digit_inside\<close>)
qed

lemma wp_BracedQuantifier_right [wp]:
  assumes "rinv F s" and "rinv F s0" and "\<And>t. rinv F t \<Longrightarrow> rleft t \<le> rleft s \<Longrightarrow> Q True t"
    and "\<And>t. rinv F t \<Longrightarrow> rit t = rit s0 \<Longrightarrow> Q False t"
  shows "wpM F (BracedQuantifier_right (rit s0) l) s Q"
  unfolding BracedQuantifier_right_def using assms by (intro wp) auto

lemma wp_ParseBracedQuantifier [wp]:
  assumes "rinv F s" and "\<And>t. rinv F t \<Longrightarrow> rleft t \<le> rleft s \<Longrightarrow> Q True t"
    and "\<And>t. rinv F t \<Longrightarrow> rit t = rit s \<Longrightarrow> Q False t"
  shows "wpM F ParseBracedQuantifier s Q"
  unfolding ParseBracedQuantifier_def using assms by (intro wp) auto

lemma wp_Quantifier_lazy [wp]:
  assumes "rinv F s" and "\<And>v t. rinv F t \<Longrightarrow> rleft t \<le> rleft s \<Longrightarrow> Q v t"
  shows "wpM F Quantifier_lazy s Q"
  unfolding Quantifier_lazy_def using assms by (intro wp) auto

lemma wp_ParseQuantifier [wp]:
  assumes "rinv F s" and "\<And>v t. rinv F t \<Longrightarrow> rleft t \<le> rleft s \<Longrightarrow> Q v t"
  shows "wpM F ParseQuantifier s Q"
  unfolding ParseQuantifier_def
  by (intro wp assms; (assumption | drule rit_rleft, linarith | linarith))

lemma wp_ParsePatternCharacter [wp]:
  assumes "rinv F s" and "Peek (rit s) = Some p" and "p \<noteq> INVALID_CP"
    and "\<And>t. rinv F t \<Longrightarrow> rleft t < rleft s \<Longrightarrow> Q True t" and "rinv F s \<Longrightarrow> Q False s"
  shows "wpM F ParsePatternCharacter s Q"
  unfolding ParsePatternCharacter_def using assms by (intro wp) auto

lemma wp_AddGroupName [wp]:
  assumes "rinv F s" and "\<And>v t. rinv F t \<Longrightarrow> rleft t \<le> rleft s \<Longrightarrow> Q v t"
  shows "wpM F (AddGroupName nm) s Q"
  unfolding AddGroupName_def using assms by (intro wp) auto

lemma wp_CloseGroup [wp]:
  assumes "rinv F s" and "\<And>v t. rinv F t \<Longrightarrow> rleft t \<le> rleft s \<Longrightarrow> Q v t"
  shows "wpM F (CloseGroup msg) s Q"
  unfolding CloseGroup_def using assms by (intro wp) auto

section \<open>Rules for groups, alternatives and disjunctions\<close>

text \<open>A read that is known to stand inside the pattern makes progress.\<close>

lemma wp_rxNext_inside:
  assumes "rinv F s" and "Peek (rit s) = Some p" and "p \<noteq> INVALID_CP"
    and "\<And>v t. rinv F t \<Longrightarrow> rleft t < rleft s \<Longrightarrow> Q v t"
  shows "wpM F rxNext s Q"
  using assms by (intro wp_rxNext) auto

lemma no_class_inside:
  assumes "rinv F s" and "Peek (rit s) = Some LEX_CHAR_LEFT_SQUARE"
  shows F
proof (rule ccontr)
  assume "\<not> F"
  note a = Peek_ascii [OF assms(2)]
  have "unat (sv (rit s) ! ipos (rit s)) = 0x5B"
    using a(3) by (simp flip: unat_ucast8)
  then have "sv (rit s) ! ipos (rit s) = 0x5B" by (simp add: word_unat_eq_iff)
  moreover have "sv (rit s) ! ipos (rit s) \<in> set (sv (rit s))" using a(1) by simp
  ultimately show False using assms(1) \<open>\<not> F\<close> by (simp add: rinv_def)
qed

text \<open>
  \<open>parses F P b n\<close>: run with the bound \<open>n\<close>, the method \<open>P\<close> keeps the invariant and does not move
  backwards, and if it may not run out of fuel, \<open>5 * rleft s + b < n\<close> is enough for it to end.
\<close>

definition parses :: "bool \<Rightarrow> (nat \<Rightarrow> unit rxM) \<Rightarrow> nat \<Rightarrow> nat \<Rightarrow> bool" where
  "parses F P b n \<longleftrightarrow> (\<forall>s Q. rinv F s \<longrightarrow> F \<or> 5 * rleft s + b < n \<longrightarrow>
     (\<forall>v t. rinv F t \<longrightarrow> rleft t \<le> rleft s \<longrightarrow> Q v t) \<longrightarrow> wpM F (P n) s Q)"

text \<open>\<open>ParseAlternative\<close> is called where a term starts, and consumes some of it.\<close>

definition parses_term :: "bool \<Rightarrow> nat \<Rightarrow> bool" where
  "parses_term F n \<longleftrightarrow> (\<forall>s p Q. rinv F s \<longrightarrow> Peek (rit s) = Some p \<longrightarrow> p \<noteq> INVALID_CP \<longrightarrow>
     F \<or> 5 * rleft s + 1 < n \<longrightarrow>
     (\<forall>v t. rinv F t \<longrightarrow> rleft t < rleft s \<longrightarrow> Q v t) \<longrightarrow> wpM F (ParseAlternative n) s Q)"

lemma parsesI:
  "(\<And>s Q. rinv F s \<Longrightarrow> F \<or> 5 * rleft s + b < n \<Longrightarrow>
     (\<And>v t. rinv F t \<Longrightarrow> rleft t \<le> rleft s \<Longrightarrow> Q v t) \<Longrightarrow> wpM F (P n) s Q) \<Longrightarrow> parses F P b n"
  by (auto simp: parses_def)

lemma parsesD:
  "parses F P b n \<Longrightarrow> rinv F s \<Longrightarrow> F \<or> 5 * rleft s + b < n \<Longrightarrow>
     (\<And>v t. rinv F t \<Longrightarrow> rleft t \<le> rleft s \<Longrightarrow> Q v t) \<Longrightarrow> wpM F (P n) s Q"
  by (auto simp: parses_def)

lemma parses_termD:
  "parses_term F n \<Longrightarrow> rinv F s \<Longrightarrow> Peek (rit s) = Some p \<Longrightarrow> p \<noteq> INVALID_CP \<Longrightarrow>
     F \<or> 5 * rleft s + 1 < n \<Longrightarrow>
     (\<And>v t. rinv F t \<Longrightarrow> rleft t < rleft s \<Longrightarrow> Q v t) \<Longrightarrow> wpM F (ParseAlternative n) s Q"
  by (auto simp: parses_term_def)

lemma fuel_less: "F \<or> a < Suc n \<Longrightarrow> b < a \<Longrightarrow> F \<or> b < (n :: nat)"
  by auto

lemma fuel_le: "F \<or> a < n \<Longrightarrow> b \<le> a \<Longrightarrow> F \<or> b < (n :: nat)"
  by auto

lemma parses_Disjunction:
  assumes "parses F ParseAlternatives 2 n" and "parses F ParseDisjunction 3 n"
  shows "parses F ParseDisjunction 3 (Suc n)"
proof (rule parsesI)
  fix s and Q :: "unit \<Rightarrow> rx \<Rightarrow> bool"
  assume s: "rinv F s" "F \<or> 5 * rleft s + 3 < Suc n"
    and Q: "\<And>v t. rinv F t \<Longrightarrow> rleft t \<le> rleft s \<Longrightarrow> Q v t"
  show "wpM F (ParseDisjunction (Suc n)) s Q"
    unfolding ParseDisjunction.simps
    by (intro wp_then wp_bind wp_if wp_ret wp_rxPeek wp_rxNext_inside parsesD [OF assms(1)]
        parsesD [OF assms(2)] s(1);
        (assumption | rule fuel_less [OF s(2)], linarith | rule Q, assumption, linarith)?) simp_all
qed

lemma parses_Alternatives:
  assumes "parses_term F n" and "parses F ParseAlternatives 2 n"
  shows "parses F ParseAlternatives 2 (Suc n)"
proof (rule parsesI)
  fix s and Q :: "unit \<Rightarrow> rx \<Rightarrow> bool"
  assume s: "rinv F s" "F \<or> 5 * rleft s + 2 < Suc n"
    and Q: "\<And>v t. rinv F t \<Longrightarrow> rleft t \<le> rleft s \<Longrightarrow> Q v t"
  show "wpM F (ParseAlternatives (Suc n)) s Q"
    unfolding ParseAlternatives.simps
    by (intro wp_then wp_bind wp_if wp_ret wp_rxPeek parses_termD [OF assms(1)]
        parsesD [OF assms(2)] s(1);
        (assumption | rule fuel_less [OF s(2)], linarith | rule Q, assumption, linarith | rule Q [OF s(1)], simp)?) simp
qed

lemma parses_closing:
  assumes "parses F ParseDisjunction 3 n"
  shows "parses F (\<lambda>n. thenM (ParseDisjunction n) (CloseGroup msg)) 3 n"
proof (rule parsesI)
  fix s and Q :: "unit \<Rightarrow> rx \<Rightarrow> bool"
  assume s: "rinv F s" "F \<or> 5 * rleft s + 3 < n"
    and Q: "\<And>v t. rinv F t \<Longrightarrow> rleft t \<le> rleft s \<Longrightarrow> Q v t"
  show "wpM F (thenM (ParseDisjunction n) (CloseGroup msg)) s Q"
    by (intro wp parsesD [OF assms] s(1) s(2); (rule Q, assumption, linarith | assumption))
qed

lemma parses_groups:
  assumes "parses F ParseDisjunction 3 n"
  shows "parses F ParseNonCapturingGroup 4 (Suc n)" "parses F ParseCapturingGroup 4 (Suc n)"
    "parses F ParseAssertion 4 (Suc n)"
proof -
  show "parses F ParseNonCapturingGroup 4 (Suc n)"
    by (rule parsesI) (simp, erule parsesD [OF parses_closing [OF assms]]; auto)
  show "parses F ParseAssertion 4 (Suc n)"
    by (rule parsesI) (simp, erule parsesD [OF parses_closing [OF assms]]; auto)
  show "parses F ParseCapturingGroup 4 (Suc n)"
    by (rule parsesI) (simp, intro wp_then [where m = "modifyM _"] wp_modify
        parsesD [OF parses_closing [OF assms]]; auto)
qed

lemma parses_NamedCapturingGroup:
  assumes "parses F ParseCapturingGroup 4 n"
  shows "parses F ParseNamedCapturingGroup 5 (Suc n)"
proof (rule parsesI)
  fix s and Q :: "unit \<Rightarrow> rx \<Rightarrow> bool"
  assume s: "rinv F s" "F \<or> 5 * rleft s + 5 < Suc n"
    and Q: "\<And>v t. rinv F t \<Longrightarrow> rleft t \<le> rleft s \<Longrightarrow> Q v t"
  show "wpM F (ParseNamedCapturingGroup (Suc n)) s Q"
    unfolding ParseNamedCapturingGroup.simps
    by (intro wp parsesD [OF assms] s(1);
        (assumption | rule fuel_less [OF s(2)], linarith | rule Q, assumption, linarith))
qed


lemma parses_Alternative:
  assumes "parses F ParseNonCapturingGroup 4 n" and "parses F ParseCapturingGroup 4 n"
    and "parses F ParseAssertion 4 n" and "parses F ParseNamedCapturingGroup 5 n"
  shows "parses_term F (Suc n)"
  unfolding parses_term_def
proof (intro allI impI)
  fix s p and Q :: "unit \<Rightarrow> rx \<Rightarrow> bool"
  assume s: "rinv F s" "Peek (rit s) = Some p" "p \<noteq> INVALID_CP" "F \<or> 5 * rleft s + 1 < Suc n"
    and "\<forall>v t. rinv F t \<longrightarrow> rleft t < rleft s \<longrightarrow> Q v t"
  then have Q: "\<And>v t. rinv F t \<Longrightarrow> rleft t < rleft s \<Longrightarrow> Q v t" by blast
  have peek: "Q v s \<Longrightarrow> wpM F rxPeek s Q" if "v = p" for v and Q :: "char32 \<Rightarrow> rx \<Rightarrow> bool"
    using that s by (intro wp_rxPeek) auto
  have cls: "p = LEX_CHAR_LEFT_SQUARE \<Longrightarrow> F" using no_class_inside [OF s(1)] s(2) by simp
  note move = wp_rxNext_inside [OF s(1,2,3)]
  note group = parsesD [OF assms(1)] parsesD [OF assms(2)] parsesD [OF assms(3)] parsesD [OF assms(4)]
  show "wpM F (ParseAlternative (Suc n)) s Q"
    unfolding ParseAlternative.simps
    apply (rule wp_bind, rule peek [OF refl])
    apply (intro wp_if)
    subgoal \<comment> \<open>escape\<close>
      apply (rule wp_then, rule move)
      apply (intro wp; (assumption | rule Q, assumption, linarith))
      done
    subgoal
      by (rule wp_then, rule move, rule wp_ret, rule Q, assumption)
    subgoal
      apply (rule wp_then, rule move)
      apply (intro wp group; (assumption | rule fuel_less [OF s(4)], linarith | rule Q, assumption, linarith))
      done
    subgoal
      apply (rule wp_then, rule move)
      apply (intro wp group; (assumption | rule cls, assumption | rule Q, assumption, linarith))
      done
    subgoal
      apply (rule wp_then, rule move)
      apply (intro wp ; (assumption  | rule Q, assumption, linarith))
      done
    subgoal
      by (intro wp s(1); (assumption | drule rit_rleft, rule Q, assumption, linarith | simp add: s(2))?)
        (rule s(3))
    done
qed

lemma parses_all:
  "parses F ParseDisjunction 3 n \<and> parses F ParseAlternatives 2 n \<and> parses_term F n \<and>
   parses F ParseNonCapturingGroup 4 n \<and> parses F ParseCapturingGroup 4 n \<and>
   parses F ParseAssertion 4 n \<and> parses F ParseNamedCapturingGroup 5 n"
proof (induction n)
  case 0
  show ?case by (auto simp: parses_def parses_term_def intro: wp_fuel)
next
  case (Suc n)
  then show ?case
    by (simp add: parses_Disjunction parses_Alternatives parses_groups parses_NamedCapturingGroup
        parses_Alternative)
qed

lemma wp_ParsePattern:
  assumes "rinv F s" and "F \<or> 5 * rleft s + 3 < n"
  shows "wpM F (ParsePattern n) s (\<lambda>_ t. rinv F t \<and> \<not> HasNext (rit t))"
  unfolding ParsePattern_def
  by (intro wp_then parsesD [of F ParseDisjunction 3] wp_bind wp_get wp_if wp_raise wp_ret)
     (use parses_all assms in auto)

end
