(* ===== verification/Ascii.thy ===== *)
theory Ascii
  imports Letters
begin

text \<open>
  Reading ASCII text: what \<open>Peek\<close> and \<open>Next\<close> return is determined by the bytes ahead of the iterator.
  The functional lemmas about the scanners are stated over \<open>ahead\<close>.
\<close>

definition ahead :: "iter \<Rightarrow> byte list" where
  "ahead i = drop (ipos i) (sv i)"

abbreviation ascii :: "byte \<Rightarrow> bool" where
  "ascii b \<equiv> unat b < 0x80"

lemma ahead_ConsD:
  assumes "ahead i = b # bs"
  shows "ipos i < length (sv i)" and "sv i ! ipos i = b" and "ahead (Forward 1 i) = bs"
proof -
  show l: "ipos i < length (sv i)"
    using assms by (metis ahead_def drop_all linorder_not_less neq_Nil_conv)
  have "drop (ipos i) (sv i) = sv i ! ipos i # drop (Suc (ipos i)) (sv i)"
    by (rule Cons_nth_drop_Suc [OF l, symmetric])
  then show "sv i ! ipos i = b" "ahead (Forward 1 i) = bs"
    using assms by (simp_all add: ahead_def Forward_def)
qed

lemma Forward_Forward [simp]: "Forward a (Forward b i) = Forward (b + a) i"
  by (simp add: Forward_def)

lemma Forward_0 [simp]: "Forward 0 i = i"
  by (simp add: Forward_def)

lemma sv_Forward [simp]: "sv (Forward n i) = sv i"
  by (simp add: Forward_def)

lemma Peek_ahead:
  assumes "ahead i = b # bs" and "ascii b"
  shows "Peek i = Some (ucast b)"
  using ahead_ConsD [OF assms(1)] assms(2) by (simp add: Peek_def HasNext_def byteAt_def scast8_ascii)

lemma Next_ahead:
  assumes "ahead i = b # bs" and "ascii b"
  shows "Next i = Some (ucast b, Forward 1 i)"
proof -
  have "(ucast b :: char32) < 0x80" using assms(2) by (simp add: word_less_nat_alt unat_ucast8)
  from DecodeCP_ascii [OF Peek_ahead [OF assms] this] show ?thesis by (simp add: Next_def Forward_def)
qed

text \<open>At the end of the text.\<close>

lemma Peek_ahead_end: "ipos i = length (sv i) \<Longrightarrow> Peek i = Some INVALID_CP"
  by (simp add: Peek_def HasNext_def)

lemma Next_ahead_end: "ipos i = length (sv i) \<Longrightarrow> Next i = Some (INVALID_CP, i)"
  by (simp add: Next_def DecodeCP_def HasNext_def)

lemma ahead_append:
  "ahead i = as @ bs \<Longrightarrow> ahead (Forward (length as) i) = bs"
  by (simp add: ahead_def Forward_def add.commute [of "ipos i"] flip: drop_drop)

lemma ahead_Nil_end: "ahead i = [] \<Longrightarrow> ipos i \<le> length (sv i) \<Longrightarrow> ipos i = length (sv i)"
  by (simp add: ahead_def)

lemma left_ahead: "left i = length (ahead i)"
  by (simp add: left_def ahead_def)

section \<open>Decimal numbers\<close>

definition isDigit :: "byte \<Rightarrow> bool" where
  "isDigit b \<longleftrightarrow> 0x30 \<le> unat b \<and> unat b \<le> 0x39"

text \<open>The number a digit string denotes, continued from \<open>a\<close>.\<close>

definition decimalFrom :: "nat \<Rightarrow> byte list \<Rightarrow> nat" where
  "decimalFrom a ds = foldl (\<lambda>v d. v * 10 + (unat d - 0x30)) a ds"

lemma decimalFrom_simps [simp]:
  "decimalFrom a [] = a" "decimalFrom a (d # ds) = decimalFrom (a * 10 + (unat d - 0x30)) ds"
  by (simp_all add: decimalFrom_def)

lemma decimalFrom_ge: "a \<le> decimalFrom a ds"
proof (induction ds arbitrary: a)
  case (Cons d ds)
  have "a \<le> a * 10 + (unat d - 0x30)" by simp
  also have "\<dots> \<le> decimalFrom a (d # ds)" using Cons.IH by simp
  finally show ?case .
qed simp

abbreviation decimal :: "byte list \<Rightarrow> nat" where
  "decimal \<equiv> decimalFrom 0"

lemma isDigit_ascii: "isDigit b \<Longrightarrow> ascii b"
  by (simp add: isDigit_def)

lemma ucast8_digit_range:
  "(0x30 :: char32) \<le> ucast (b :: byte) \<and> ucast b \<le> (0x39 :: char32) \<longleftrightarrow> isDigit b"
  by (simp add: word_le_nat_alt unat_ucast8 isDigit_def)

end
