(* ===== verification/RegExpSpec.thy ===== *)
theory RegExpSpec
  imports RegExpProps Ascii
begin

text \<open>
  What the validator does with a pattern: it never leaves the buffer and, without character classes,
  it always ends; the braced quantifier of a number that fits is read and compared exactly; and three
  places where the code does not do what the grammar asks for.
\<close>

section \<open>Concrete runs\<close>

text \<open>An ICU that knows the ASCII letters and digits, for the concrete runs below.\<close>

definition ascii_letter :: "u16 \<Rightarrow> bool" where
  "ascii_letter c \<longleftrightarrow> (0x41 \<le> c \<and> c \<le> 0x5A) \<or> (0x61 \<le> c \<and> c \<le> 0x7A)"

definition ascii_icu :: icu where
  "ascii_icu = \<lparr>u_isIDStart = ascii_letter, u_isIDPart = (\<lambda>c. ascii_letter c \<or> (0x30 \<le> c \<and> c \<le> 0x39)),
    u_hasIDStart = ascii_letter, u_hasIDContinue = (\<lambda>c. ascii_letter c \<or> (0x30 \<le> c \<and> c \<le> 0x39))\<rparr>"

section \<open>Unterminated character classes\<close>

text \<open>Bytes that a class reads as themselves: ASCII, no backslash, bracket or minus.\<close>

definition plainByte :: "byte \<Rightarrow> bool" where
  "plainByte b \<longleftrightarrow> unat b < 0x80 \<and> b \<notin> {0x5C, 0x5D, 0x2D}"

lemma plain_cases:
  assumes "ipos i \<le> length (sv i)" and "\<forall>b \<in> set (ahead i). plainByte b"
  obtains v j where "Peek i = Some v" "Next i = Some (v, j)" "v \<notin> {0x5C, 0x5D, 0x2D}"
    "ipos j \<le> length (sv j)" "\<forall>b \<in> set (ahead j). plainByte b"
proof (cases "ahead i")
  case Nil
  then have e: "ipos i = length (sv i)" using assms(1) by (rule ahead_Nil_end)
  then show ?thesis using Peek_ahead_end [OF e] Next_ahead_end [OF e] assms
    by (intro that [of INVALID_CP i]) auto
next
  case (Cons b bs)
  then have b: "plainByte b" "ascii b" using assms(2) by (auto simp: plainByte_def)
  then have "(ucast b :: char32) \<notin> {0x5C, 0x5D, 0x2D}"
    by (auto simp: plainByte_def word_unat_eq_iff unat_ucast8)
  then show ?thesis
    using b Peek_ahead [OF Cons] Next_ahead [OF Cons] ahead_ConsD [OF Cons] Cons assms(2)
    by (intro that [of "ucast b" "Forward 1 i"]) (auto simp: Forward_def)
qed

lemma CharacterClass_loop_diverges:
  assumes "ipos (rit s) \<le> length (sv (rit s))" and "\<forall>b \<in> set (ahead (rit s)). plainByte b"
  shows "CharacterClass_loop n s = NoFuel"
  using assms
proof (induction n arbitrary: s)
  case 0 then show ?case by (simp add: out_of_fuel_def)
next
  case (Suc n)
  obtain v j where v: "Peek (rit s) = Some v" "Next (rit s) = Some (v, j)" "v \<notin> {0x5C, 0x5D, 0x2D}"
    and j: "ipos j \<le> length (sv j)" "\<forall>b \<in> set (ahead j). plainByte b"
    using plain_cases [OF Suc.prems] by blast
  obtain w where w: "Peek j = Some w" "w \<noteq> 0x2D"
    using plain_cases [OF j] by (metis insertCI)
  have "CharacterClass_loop n (s\<lparr>rit := j\<rparr>) = NoFuel"
    using j by (intro Suc.IH) auto
  then show ?case using v w
    by (simp add: run_defs rxPeek_def rxNext_def ParseClassAtom_def)
qed

lemma ParseCharacterClass_diverges:
  assumes "ipos (rit s) \<le> length (sv (rit s))" and "\<forall>b \<in> set (ahead (rit s)). plainByte b"
  shows "ParseCharacterClass n s = NoFuel"
proof -
  obtain v j where v: "Peek (rit s) = Some v" "Next (rit s) = Some (v, j)"
    and j: "ipos j \<le> length (sv j)" "\<forall>b \<in> set (ahead j). plainByte b"
    using plain_cases [OF assms] by blast
  have "CharacterClass_loop n (s\<lparr>rit := j\<rparr>) = NoFuel"
    using j by (intro CharacterClass_loop_diverges) auto
  then show ?thesis
    using v CharacterClass_loop_diverges [OF assms, of n]
    by (simp add: ParseCharacterClass_def run_defs rxPeek_def rxNext_def)
qed



section \<open>Safety and termination\<close>

lemma rinv_start:
  "wf_utf8 p \<Longrightarrow> F \<or> 0x5B \<notin> set p \<and> \<not> u_isIDPart ic 0xFFFF \<Longrightarrow> rinv F (RegExpParser ic p flags)"
  by (simp add: rinv_def RegExpParser_def wf_at_start)

lemma rleft_start: "rleft (RegExpParser ic p flags) = length p"
  by (simp add: rleft_def RegExpParser_def left_def)

text \<open>
  C19: on a well-formed UTF-8 pattern the validator never reads outside the pattern, whatever the
  pattern, the flags and the bound.
\<close>

theorem regexp_never_out_of_bounds:
  assumes "wf_utf8 p"
  shows "ParsePattern n (RegExpParser ic p flags) \<noteq> Undefined"
  by (rule wpM_safe [OF wp_ParsePattern [of True]]) (simp_all add: rinv_start assms)

theorem regexp_never_out_of_bounds_witness:
  "wf_utf8 [0x5B, 0xC3, 0xA9] \<and> ParsePattern 7 (RegExpParser ascii_icu [0x5B, 0xC3, 0xA9] 16) \<noteq> Undefined"
  using regexp_never_out_of_bounds [of "[0x5B, 0xC3, 0xA9]" 7 ascii_icu 16]
  by (simp add: seqLen_def isCont_def shortest_def)

text \<open>
  C20: the validator ends on every well-formed pattern without a character class: with a bound linear in
  the length of the pattern it throws an error or accepts, and when it accepts it has read the whole
  pattern.  (\<open>u_isIDPart\<close> must not hold of U+FFFF, which is a noncharacter.)
\<close>

theorem regexp_terminates:
  assumes "wf_utf8 p" and "0x5B \<notin> set p" and "\<not> u_isIDPart ic 0xFFFF" and "5 * length p + 3 < n"
  shows "(\<exists>t. ParsePattern n (RegExpParser ic p flags) = Ok ((), t) \<and> \<not> HasNext (rit t))
    \<or> (\<exists>e. ParsePattern n (RegExpParser ic p flags) = Throw e)"
  using wpM_total [OF wp_ParsePattern [of False "RegExpParser ic p flags" n]] rinv_start [of p False ic flags]
    assms by (auto simp: rleft_start)

theorem regexp_terminates_witness:
  "wf_utf8 [0x61, 0x2B] \<and> (0x5B :: byte) \<notin> set [0x61, 0x2B] \<and> \<not> u_isIDPart ascii_icu 0xFFFF
   \<and> ((\<exists>t. ParsePattern 14 (RegExpParser ascii_icu [0x61, 0x2B] 0) = Ok ((), t) \<and> \<not> HasNext (rit t))
    \<or> (\<exists>e. ParsePattern 14 (RegExpParser ascii_icu [0x61, 0x2B] 0) = Throw e))"
  using regexp_terminates [of "[0x61, 0x2B]" ascii_icu 14 0]
  by (simp add: seqLen_def shortest_def ascii_icu_def ascii_letter_def)

section \<open>Unicode property escapes\<close>

lemma PropertyEscape_loop_unterminated:
  assumes "ipos (rit s) \<le> length (sv (rit s))"
    and "\<forall>b \<in> set (ahead (rit s)). ascii b \<and> b \<noteq> 0x7B" and "length (ahead (rit s)) < n"
  shows "PropertyEscape_loop n s = Throw ''Unterminated Unicode property escape''"
  using assms
proof (induction n arbitrary: s)
  case 0 then show ?case by simp
next
  case (Suc n)
  show ?case
  proof (cases "ahead (rit s)")
    case Nil
    then show ?thesis using ahead_Nil_end [OF Nil Suc.prems(1)] by (simp add: run_defs HasNext_def)
  next
    case (Cons b bs)
    then have b: "ascii b" "b \<noteq> 0x7B" using Suc.prems(2) by auto
    have "(ucast b :: char32) \<noteq> 0x7B" using b(2) ucast8_eq [of b "0x7B"] by auto
    moreover have "PropertyEscape_loop n (s\<lparr>rit := Forward 1 (rit s)\<rparr>)
        = Throw ''Unterminated Unicode property escape''"
      by (rule Suc.IH) (use Suc.prems Cons ahead_ConsD [OF Cons] in \<open>auto simp: Forward_def\<close>)
    ultimately show ?thesis
      using Next_ahead [OF Cons b(1)] ahead_ConsD(1) [OF Cons]
      by (simp add: run_defs HasNext_def rxNext_def)
  qed
qed

abbreviation unterminatedProperty :: "(string, unit \<times> rx) res" where
  "unterminatedProperty \<equiv> Throw ''Unterminated Unicode property escape''"

lemma isUnicode_rit [simp]: "isUnicode (s\<lparr>rit := i\<rparr>) = isUnicode s"
  by (simp add: isUnicode_def)

lemma ParseUnicodePropertyEscape_unterminated:
  assumes "isUnicode s" and a: "ahead (rit s) = 0x7B # cs" and "\<forall>b \<in> set cs. ascii b \<and> b \<noteq> 0x7B"
  shows "ParseUnicodePropertyEscape s = unterminatedProperty"
proof -
  note f = ahead_ConsD [OF a]
  have "bounded PropertyEscape_loop (s\<lparr>rit := Forward 1 (rit s)\<rparr>) = unterminatedProperty"
    unfolding bounded_def
    by (rule PropertyEscape_loop_unterminated)
       (use f assms(3) in \<open>simp_all add: left_ahead, simp add: Forward_def\<close>)
  then show ?thesis
    using Peek_ahead [OF a] Next_ahead [OF a] assms(1)
    by (simp add: ParseUnicodePropertyEscape_def run_defs Unicode_def rxPeek_def rxNext_def)
qed

lemma ParseAtomEscape_unterminated:
  assumes "isUnicode s" and a: "ahead (rit s) = 0x70 # 0x7B # cs" and "\<forall>b \<in> set cs. ascii b \<and> b \<noteq> 0x7B"
  shows "ParseAtomEscape s = unterminatedProperty"
proof -
  have "ParseUnicodePropertyEscape (s\<lparr>rit := Forward 1 (rit s)\<rparr>) = unterminatedProperty"
    by (rule ParseUnicodePropertyEscape_unterminated) (use assms ahead_ConsD [OF a] in auto)
  then show ?thesis
    using Peek_ahead [OF a] Next_ahead [OF a] assms(1)
    by (simp add: ParseAtomEscape_def run_defs Unicode_def rxPeek_def rxNext_def IsDecimalDigit_def)
qed

lemma ParseAlternative_unterminated:
  assumes "isUnicode s" and a: "ahead (rit s) = 0x5C # 0x70 # 0x7B # cs"
    and "\<forall>b \<in> set cs. ascii b \<and> b \<noteq> 0x7B"
  shows "ParseAlternative (Suc n) s = unterminatedProperty"
proof -
  note f = ahead_ConsD [OF a]
  have "ParseAtomEscape (s\<lparr>rit := Forward 1 (rit s)\<rparr>) = unterminatedProperty"
    by (rule ParseAtomEscape_unterminated) (use assms f in auto)
  then show ?thesis
    using Peek_ahead [OF a] Next_ahead [OF a] Peek_ahead [OF f(3)]
    by (simp add: run_defs rxPeek_def rxNext_def)
qed

text \<open>
  With the unicode flag a property escape \<open>\p{...}\<close> is never accepted: unless a second opening brace
  follows, the validator reports the escape as unterminated, because the loop that skips the property
  looks for \<open>{\<close> where the closing brace is meant.
\<close>

theorem property_escape_rejected:
  assumes "flags AND 16 \<noteq> 0" and "\<forall>b \<in> set cs. ascii b \<and> b \<noteq> 0x7B" and "3 \<le> n"
  shows "ParsePattern n (RegExpParser ic (0x5C # 0x70 # 0x7B # cs) flags)
    = Throw ''Unterminated Unicode property escape''"
proof -
  let ?s = "RegExpParser ic (0x5C # 0x70 # 0x7B # cs) flags"
  have a: "ahead (rit ?s) = 0x5C # 0x70 # 0x7B # cs" by (simp add: RegExpParser_def ahead_def)
  have "isUnicode ?s" using assms(1) by (simp add: isUnicode_def RegExpParser_def)
  note alt = ParseAlternative_unterminated [OF this a assms(2)]
  have "ParseAlternatives (Suc (Suc m)) ?s = unterminatedProperty" for m
    using Peek_ahead [OF a] alt by (simp add: run_defs rxPeek_def del: ParseAlternative.simps)
  then have "ParseDisjunction (Suc (Suc (Suc m))) ?s = unterminatedProperty" for m
    by (simp add: run_defs del: ParseAlternatives.simps)
  moreover obtain m where "n = Suc (Suc (Suc m))"
    using assms(3) by (metis numeral_3_eq_3 Suc_le_D Suc_le_mono)
  ultimately show ?thesis by (simp add: ParsePattern_def run_defs del: ParseDisjunction.simps)
qed

theorem property_escape_rejected_witness:
  "ParsePattern 3 (RegExpParser ascii_icu [0x5C, 0x70, 0x7B, 0x4C, 0x75, 0x7D] 16)
    = Throw ''Unterminated Unicode property escape''"
  using property_escape_rejected [of 16 "[0x4C, 0x75, 0x7D]" 3 ascii_icu] by simp

section \<open>Braced quantifiers\<close>

lemma digit_value: "isDigit b \<Longrightarrow> unat (DigitValue (ucast b)) = unat b - 0x30"
  by (simp add: DigitValue_def isDigit_def unat_sub word_le_nat_alt unat_ucast8)

lemma IsDecimalDigit_ucast: "IsDecimalDigit (ucast b) = isDigit b"
  by (simp add: IsDecimalDigit_def ucast8_digit_range)

lemma QuantifierStep_exact:
  assumes "isDigit b" and "unat v * 10 + (unat b - 0x30) < 0x100000000"
  shows "unat (QuantifierStep v (ucast b)) = unat v * 10 + (unat b - 0x30)"
proof -
  have m: "unat (v * 10) = unat v * 10" using assms(2) by (subst unat_mult_lem [THEN iffD1]) auto
  have "unat (v * 10 + DigitValue (ucast b)) = unat v * 10 + (unat b - 0x30)"
    using assms m digit_value [OF assms(1)] by (subst unat_add_lem [THEN iffD1]) auto
  then show ?thesis by (simp add: QuantifierStep_def Let_def word_less_nat_alt)
qed

lemma QuantifierDigits_exact:
  assumes "ahead (rit s) = ds @ b # bs" and "\<forall>d \<in> set ds. isDigit d" and "ascii b" and "\<not> isDigit b"
    and "decimalFrom (unat v) ds < 0x100000000" and "length ds < n"
  shows "\<exists>w. QuantifierDigits_loop n v s = Ok (w, s\<lparr>rit := Forward (length ds) (rit s)\<rparr>)
    \<and> unat w = decimalFrom (unat v) ds"
  using assms
proof (induction n arbitrary: s v ds)
  case 0 then show ?case by simp
next
  case (Suc n)
  show ?case
  proof (cases ds)
    case Nil
    then have a: "ahead (rit s) = b # bs" using Suc.prems(1) by simp
    show ?thesis
      using Peek_ahead [OF a] Suc.prems(3,4) Nil
      by (simp add: run_defs rxPeek_def IsDecimalDigit_ucast)
  next
    case (Cons d es)
    then have a: "ahead (rit s) = d # es @ b # bs" and d: "isDigit d" "ascii d"
      using Suc.prems(1,2) isDigit_ascii by auto
    have le: "unat v * 10 + (unat d - 0x30) < 0x100000000"
      using decimalFrom_ge [of "unat v * 10 + (unat d - 0x30)" es] Suc.prems(5) Cons by simp
    note st = QuantifierStep_exact [OF d(1) le]
    have "\<exists>w. QuantifierDigits_loop n (QuantifierStep v (ucast d)) (s\<lparr>rit := Forward 1 (rit s)\<rparr>)
        = Ok (w, s\<lparr>rit := Forward 1 (rit s), rit := Forward (length es) (Forward 1 (rit s))\<rparr>)
      \<and> unat w = decimalFrom (unat (QuantifierStep v (ucast d))) es"
      using Suc.IH [of "s\<lparr>rit := Forward 1 (rit s)\<rparr>" es "QuantifierStep v (ucast d)"]
        ahead_ConsD(3) [OF a] Suc.prems Cons st by simp
    then show ?thesis
      using Peek_ahead [OF a d(2)] Next_ahead [OF a d(2)] Cons d st
      by (simp add: run_defs rxPeek_def rxNext_def IsDecimalDigit_ucast)
  qed
qed

lemma bounded_digits:
  assumes "ahead (rit s) = ds @ b # bs" and "\<forall>d \<in> set ds. isDigit d" and "ascii b" and "\<not> isDigit b"
    and "decimal ds < 0x100000000"
  obtains w where "bounded (\<lambda>n. QuantifierDigits_loop n 0) s = Ok (w, s\<lparr>rit := Forward (length ds) (rit s)\<rparr>)"
    and "unat w = decimal ds"
  using QuantifierDigits_exact [OF assms(1-4), of 0 "Suc (left (rit s))"] assms(1,5)
  by (auto simp: bounded_def left_ahead simp del: QuantifierDigits_loop.simps)

text \<open>
  C31: a braced quantifier \<open>{l,r}\<close> whose bounds fit in 32 bits is read as the numbers it denotes: it is
  accepted, and consumed whole, exactly when \<open>l \<le> r\<close>, and reported as out of order otherwise.
\<close>

theorem braced_quantifier_range:
  assumes "ahead (rit s) = 0x7B # l @ 0x2C # r @ 0x7D # rest"
    and "\<forall>d \<in> set l. isDigit d" and "\<forall>d \<in> set r. isDigit d" and "l \<noteq> []" and "r \<noteq> []"
    and "decimal l < 0x100000000" and "decimal r < 0x100000000"
  shows "ParseBracedQuantifier s =
    (if decimal r < decimal l then Throw ''Quantifier range out of order''
     else Ok (True, s\<lparr>rit := Forward (length l + length r + 3) (rit s)\<rparr>))"
proof -
  note a = assms(1)
  note a1 = ahead_ConsD(3) [OF a]
  let ?s1 = "s\<lparr>rit := Forward 1 (rit s)\<rparr>"
  obtain x where x: "bounded (\<lambda>n. QuantifierDigits_loop n 0) ?s1
      = Ok (x, s\<lparr>rit := Forward (length l) (Forward 1 (rit s))\<rparr>)" "unat x = decimal l"
    using bounded_digits [of ?s1 l "0x2C" "r @ 0x7D # rest"] a1 assms(2,6) by (auto simp: isDigit_def)
  define i2 where "i2 = Forward (length l) (Forward 1 (rit s))"
  have a2: "ahead i2 = 0x2C # r @ 0x7D # rest" unfolding i2_def by (rule ahead_append) (rule a1)
  note a3 = ahead_ConsD(3) [OF a2]
  let ?s3 = "s\<lparr>rit := Forward 1 i2\<rparr>"
  obtain y where y: "bounded (\<lambda>n. QuantifierDigits_loop n 0) ?s3
      = Ok (y, s\<lparr>rit := Forward (length r) (Forward 1 i2)\<rparr>)" "unat y = decimal r"
    using bounded_digits [of ?s3 r "0x7D" rest] a3 assms(3,7) by (auto simp: isDigit_def)
  define i4 where "i4 = Forward (length r) (Forward 1 i2)"
  have a4: "ahead i4 = 0x7D # rest" unfolding i4_def by (rule ahead_append) (rule a3)
  obtain d l' e r' where lr: "l = d # l'" "r = e # r'" using assms(4,5) by (meson neq_Nil_conv)
  have de: "isDigit d" "isDigit e" "ascii d" "ascii e" using lr assms(2,3) isDigit_ascii by auto
  have p1: "Peek (Forward 1 (rit s)) = Some (ucast d)" using a1 lr by (intro Peek_ahead) (use de in auto)
  have p3: "Peek (Forward 1 i2) = Some (ucast e)" using a3 lr by (intro Peek_ahead) (use de in auto)
  have ne: "(ucast e :: char32) \<noteq> 0x7D" using de(2) ucast8_eq [of e "0x7D"] by (auto simp: isDigit_def)
  have right: "BracedQuantifier_right (rit s) x ?s3 = (if decimal r < decimal l
      then Throw ''Quantifier range out of order'' else Ok (True, s\<lparr>rit := Forward 1 i4\<rparr>))"
    unfolding BracedQuantifier_right_def bindM_def rxPeek_def readM_def
    using p3 ne de(2) y [folded i4_def] Peek_ahead [OF a4] Next_ahead [OF a4] x(2)
    by (simp add: thenM_def bindM_def raise_def ret_def rxNext_def IsDecimalDigit_ucast word_less_nat_alt)
  have "ParseBracedQuantifier s = BracedQuantifier_right (rit s) x ?s3"
    using Peek_ahead [OF a] Next_ahead [OF a] p1 de(1) x(1) [folded i2_def] Peek_ahead [OF a2] Next_ahead [OF a2]
    by (simp add: ParseBracedQuantifier_def run_defs rxPeek_def rxNext_def rxSave_def IsDecimalDigit_ucast)
  moreover have "Forward 1 i4 = Forward (length l + length r + 3) (rit s)"
    by (simp add: i4_def i2_def numeral_3_eq_3)
  ultimately show ?thesis using right by simp
qed

theorem braced_quantifier_range_witness:
  "ParseBracedQuantifier (RegExpParser ascii_icu [0x7B, 0x32, 0x2C, 0x31, 0x30, 0x7D] 0)
    = Ok (True, RegExpParser ascii_icu [0x7B, 0x32, 0x2C, 0x31, 0x30, 0x7D] 0
        \<lparr>rit := \<lparr>sv = [0x7B, 0x32, 0x2C, 0x31, 0x30, 0x7D], ipos = 6\<rparr>\<rparr>)"
  using braced_quantifier_range [of "RegExpParser ascii_icu [0x7B, 0x32, 0x2C, 0x31, 0x30, 0x7D] 0"
      "[0x32]" "[0x31, 0x30]" "[]"]
  by (simp add: RegExpParser_def ahead_def isDigit_def Forward_def)

text \<open>
  Beyond 32 bits the overflow test of the digit loop is not reliable: \<open>a{5000000000,800000000}\<close>,
  a range out of order, is accepted.  (The test compares the new value with the old one; multiplying
  by ten can wrap around to a larger number.)
\<close>

theorem quantifier_overflow_accepted:
  "case ParsePattern 10 (RegExpParser ic
      ([0x61, 0x7B] @ [0x35, 0x30, 0x30, 0x30, 0x30, 0x30, 0x30, 0x30, 0x30, 0x30] @ [0x2C]
       @ [0x38, 0x30, 0x30, 0x30, 0x30, 0x30, 0x30, 0x30, 0x30] @ [0x7D]) 0) of
     Ok (_, t) \<Rightarrow> \<not> HasNext (rit t)
   | _ \<Rightarrow> False"
  by code_simp

section \<open>Values of unicode escapes\<close>

lemma HexValue_bound: "IsHexDigit d \<Longrightarrow> unat (HexValue d) < 16"
  by (auto simp: IsHexDigit_def IsDecimalDigit_def HexValue_def DigitValue_def word_le_nat_alt
      word_less_nat_alt unat_sub unat_word_ariths)

lemma hex_step:
  assumes "unat v < k" and "IsHexDigit d" and "k \<le> 0x1000000"
  shows "unat (v * 16 + HexValue d) < 16 * k"
proof -
  have m: "unat (v * 16) = unat v * 16" using assms(1,3) by (subst unat_mult_lem [THEN iffD1]) auto
  have "unat (v * 16 + HexValue d) = unat v * 16 + unat (HexValue d)"
    using assms m HexValue_bound [OF assms(2)] by (subst unat_add_lem [THEN iffD1]) auto
  then show ?thesis using assms(1) HexValue_bound [OF assms(2)] by linarith
qed

lemma wp_UnicodeDigits_value:
  assumes "rinv F s" and "unat v < k" and "k * 16 ^ n \<le> 0x1000000"
    and "\<And>w t. rinv F t \<Longrightarrow> unat w < k * 16 ^ n \<Longrightarrow> Q w t"
  shows "wpM F (UnicodeDigits_loop n v) s Q"
  using assms
proof (induction n arbitrary: s v k)
  case 0 then show ?case by (simp add: wp_ret)
next
  case (Suc n)
  have "(1::nat) \<le> 16 ^ n" by simp
  then have "k * 1 \<le> k * 16 ^ n" by (rule mult_le_mono2)
  moreover have "k * 16 ^ n * 16 \<le> 0x1000000" using Suc.prems(3) by (simp add: algebra_simps)
  ultimately have "k \<le> 0x1000000" by linarith
  then show ?case unfolding UnicodeDigits_loop.simps
    using hex_step [OF Suc.prems(2)] Suc.prems(3,4)
    by (intro wp_bind wp_if wp_raise wp_rxNext Suc.prems(1) Suc.IH [of _ _ "16 * k"])
      (auto simp: mult.assoc mult.left_commute [of k 16])
qed

lemma wp_ParseUnicodeDigits_value:
  assumes "rinv F s" and "\<And>w t. rinv F t \<Longrightarrow> unat w < 0x10000 \<Longrightarrow> Q w t"
  shows "wpM F ParseUnicodeDigits s Q"
  unfolding ParseUnicodeDigits_def
  by (rule wp_UnicodeDigits_value [where k = 1]) (use assms in auto)

lemma surrogate_sum_bound:
  fixes a b :: char32
  assumes "unat a < 0x400" and "unat b < 0x400"
  shows "unat (a * 0x400 + b + 0xFC00) \<le> 0x10FFFF"
  using assms by (simp add: unat_word_ariths)

lemma DecodeSurrogates_bound:
  assumes "IsHighSurrogate h" and "IsLowSurrogate l"
  shows "unat (DecodeSurrogates h l) \<le> 0x10FFFF"
proof -
  have hl: "0xD800 \<le> unat h" "unat h < 0xDC00" "0xDC00 \<le> unat l" "unat l < 0xE000"
    using assms by (auto simp: IsHighSurrogate_def IsLowSurrogate_def word_le_nat_alt word_less_nat_alt)
  have "DecodeSurrogates h l = (h - 0xD800) * 0x400 + (l - 0xDC00) + 0xFC00"
    by (simp add: DecodeSurrogates_def push_bit_eq_mult)
  moreover have "unat (h - 0xD800) = unat h - 0xD800" "unat (l - 0xDC00) = unat l - 0xDC00"
    using hl by (simp_all add: unat_sub word_le_nat_alt)
  ultimately show ?thesis using surrogate_sum_bound [of "h - 0xD800" "l - 0xDC00"] hl by simp
qed

lemma wp_LowSurrogate_value:
  assumes "rinv F s" and "IsHighSurrogate h" and "unat h < 0x10000"
    and "\<And>w t. rinv F t \<Longrightarrow> unat w \<le> 0x10FFFF \<Longrightarrow> Q w t"
  shows "wpM F (LowSurrogate_tail h) s Q"
  unfolding LowSurrogate_tail_def
  by (intro wp_bind wp_rxSave wp_rxNext wp_if wp_then wp_rxRestore wp_ret wp_ParseUnicodeDigits_value
      assms(1,4) DecodeSurrogates_bound assms(2) rinv_restore; (assumption | use assms(3) in simp))

lemma wp_BracedDigits_value:
  assumes "rinv F s" and "rleft s < n" and "unat v \<le> 0x10FFFF"
    and "\<And>w t. rinv F t \<Longrightarrow> unat w \<le> 0x10FFFF \<Longrightarrow> Q w t"
  shows "wpM F (BracedDigits_loop n v) s Q"
  using assms
proof (induction n arbitrary: s v)
  case 0 then show ?case by simp
next
  case (Suc n)
  show ?case unfolding BracedDigits_loop.simps Let_def
    by (intro wp_bind wp_rxPeek wp_if wp_ret wp_rxNext wp_raise Suc.IH)
      (use Suc.prems in \<open>auto dest!: digit_inside simp: word_less_nat_alt\<close>)
qed

lemma wp_ParseUnicodeEscape_value:
  assumes "rinv F s"
  shows "wpM F ParseUnicodeEscape s (\<lambda>v _. unat v \<le> 0x10FFFF)"
  unfolding ParseUnicodeEscape_def
  by (intro wp_bind wp_rxPeek wp_if wp_then wp_rxNext wp_raise wp_bounded wp_BracedDigits_value wp_ret
      wp_ParseUnicodeDigits_value wp_LowSurrogate_value assms; (assumption | simp)?)

text \<open>
  The value of every unicode escape the validator accepts, braced or not, surrogate pairs
  included, is a code point: at most U+10FFFF.
\<close>

theorem unicode_escape_is_code_point:
  assumes "wf_at (rit s)" and "ParseUnicodeEscape s = Ok (v, t)"
  shows "unat v \<le> 0x10FFFF"
proof -
  have "rinv True s" using assms(1) by (simp add: rinv_def)
  then show ?thesis using wpM_Ok [OF wp_ParseUnicodeEscape_value assms(2)] by blast
qed

text \<open>The run on \<open>{1F600}\<close>.\<close>

lemma unicode_escape_run:
  "\<exists>t. ParseUnicodeEscape (RegExpParser ascii_icu [0x7B, 0x31, 0x46, 0x36, 0x30, 0x30, 0x7D] 16) = Ok (0x1F600, t)"
proof -
  have "case ParseUnicodeEscape (RegExpParser ascii_icu [0x7B, 0x31, 0x46, 0x36, 0x30, 0x30, 0x7D] 16) of
      Ok (v, t) \<Rightarrow> v = 0x1F600 | _ \<Rightarrow> False"
    by code_simp
  then show ?thesis by (auto split: res.splits)
qed

theorem unicode_escape_is_code_point_witness:
  "\<exists>t. ParseUnicodeEscape (RegExpParser ascii_icu [0x7B, 0x31, 0x46, 0x36, 0x30, 0x30, 0x7D] 16) = Ok (0x1F600, t)
     \<and> unat (0x1F600 :: u32) \<le> 0x10FFFF"
proof -
  have "wf_at (rit (RegExpParser ascii_icu [0x7B, 0x31, 0x46, 0x36, 0x30, 0x30, 0x7D] 16))"
    by (simp add: RegExpParser_def wf_at_def seqLen_def shortest_def)
  then show ?thesis using unicode_escape_run unicode_escape_is_code_point by blast
qed

end
