(* ===== verification/SourceLoc.thy ===== *)
theory SourceLoc
  imports Ascii
begin

text \<open>
  \<open>lexer/token/sourceLocation.cpp\<close>: the line table the lexer and the parser use to turn a byte offset
  into a line and a column for error messages and debug information.

  \<open>size_t\<close> is a 64-bit word.  \<open>LineIndex\<close> walks the source once; the lemmas show that it ends on every
  well-formed text, that for ASCII texts its table is the line structure (\<open>lineLayout\<close>) and every
  column is exact, and that columns are wrong on lines with a run of multi-byte characters.
\<close>

section \<open>The table\<close>

record sourcePosition =
  pindex :: u64
  pline :: u64

record sourceLocation =
  slLine :: u64
  slCol :: u64

record range =
  byteSize :: u64
  cnt :: u64

record offsetEntry =
  ranges :: "range list"
  lineStart :: u64
  lastOffset :: u64

definition newRange :: "u64 \<Rightarrow> range" where
  "newRange bS = \<lparr>byteSize = bS, cnt = 1\<rparr>"

definition newEntry :: "u64 \<Rightarrow> offsetEntry" where
  "newEntry l = \<lparr>ranges = [], lineStart = l, lastOffset = l\<rparr>"

definition AddCol :: "offsetEntry \<Rightarrow> u64 \<Rightarrow> offsetEntry" where
  "AddCol e offset =
    (let diff = offset - lastOffset e; e = e\<lparr>lastOffset := offset\<rparr> in
     if ranges e = [] then e\<lparr>ranges := [newRange diff]\<rparr>
     else let r = last (ranges e) in
       if diff = byteSize r then e\<lparr>ranges := butlast (ranges e) @ [r\<lparr>cnt := cnt r + 1\<rparr>]\<rparr>
       else e\<lparr>ranges := ranges e @ [newRange diff]\<rparr>)"

definition addToLast :: "offsetEntry list \<Rightarrow> u64 \<Rightarrow> offsetEntry list" where
  "addToLast es offset = butlast es @ [AddCol (last es) offset]"

definition offsetOf :: "iter \<Rightarrow> u64" where
  "offsetOf i = of_nat (Index i)"

text \<open>The case for CR: a line feed right after it belongs to the same line break.\<close>

definition skipLF :: "iter \<Rightarrow> iter option" where
  "skipLF i = (if HasNext i then
     Option.bind (Peek i) (\<lambda>p. Some (if p = LEX_CHAR_LF then Forward 1 i else i)) else Some i)"

fun LineIndex_loop :: "nat \<Rightarrow> iter \<Rightarrow> offsetEntry list \<Rightarrow> (unit, offsetEntry list) res" where
  "LineIndex_loop 0 i es = NoFuel"
| "LineIndex_loop (Suc n) i es =
    (case Next i of
       None \<Rightarrow> Undefined
     | Some (cp, i) \<Rightarrow>
         if cp = INVALID_CP then Ok es
         else if cp = LEX_CHAR_CR then
           (case skipLF i of
              None \<Rightarrow> Undefined
            | Some i \<Rightarrow> LineIndex_loop n i (es @ [newEntry (offsetOf i)]))
         else if cp \<in> {LEX_CHAR_LF, LEX_CHAR_PS, LEX_CHAR_LS} then
           LineIndex_loop n i (es @ [newEntry (offsetOf i)])
         else LineIndex_loop n i (addToLast es (offsetOf i)))"

definition LineIndex :: "byte list \<Rightarrow> (unit, offsetEntry list) res" where
  "LineIndex source = LineIndex_loop (Suc (length source)) \<lparr>sv = source, ipos = 0\<rparr> [newEntry 0]"

text \<open>\<open>GetLocation\<close>: reading past the table is undefined behaviour (\<open>None\<close>).\<close>

fun Column_loop :: "range list \<Rightarrow> u64 \<Rightarrow> u64 \<Rightarrow> u64" where
  "Column_loop [] diff c = c"
| "Column_loop (r # rs) diff c =
    (if diff < cnt r then c + diff
     else Column_loop rs (diff - cnt r * byteSize r) (c + cnt r))"

definition GetLocation :: "offsetEntry list \<Rightarrow> sourcePosition \<Rightarrow> sourceLocation option" where
  "GetLocation entrys pos =
    (if unat (pline pos) < length entrys then
       let entry = entrys ! unat (pline pos); diff = pindex pos - lineStart entry;
           c = Column_loop (ranges entry) diff 0
       in Some \<lparr>slLine = pline pos + 1, slCol = c + 1\<rparr>
     else None)"

section \<open>Termination\<close>

lemma skipLF_wf:
  assumes "wf_at i"
  shows "\<exists>j. skipLF i = Some j \<and> wf_at j \<and> left j \<le> left i"
proof (cases "HasNext i \<and> Peek i = Some LEX_CHAR_LF")
  case True
  then show ?thesis
    using it.forward_ascii [OF assms, of LEX_CHAR_LF] by (auto simp: skipLF_def)
next
  case False
  then show ?thesis using it.peek_total [OF assms] assms by (auto simp: skipLF_def)
qed

lemma LineIndex_loop_total:
  assumes "wf_at i" and "left i < n"
  shows "\<exists>es'. LineIndex_loop n i es = Ok es'"
  using assms
proof (induction n arbitrary: i es)
  case 0 then show ?case by simp
next
  case (Suc n)
  obtain cp j where n: "Next i = Some (cp, j)" using it.advance_total [OF Suc.prems(1)] by blast
  note j = it.advance_le [OF Suc.prems(1) n]
  obtain k where k: "skipLF j = Some k" "wf_at k" "left k \<le> left j" using skipLF_wf [OF j(1)] by blast
  show ?case using n k j Suc.IH [OF k(2)] Suc.IH [OF j(1)] Suc.prems(2)
    by (cases "cp = INVALID_CP") auto
qed

text \<open>Building the line table of a well-formed source ends and never reads outside the source.\<close>

theorem line_index_total:
  assumes "wf_utf8 source"
  shows "\<exists>es. LineIndex source = Ok es"
  unfolding LineIndex_def
  by (rule LineIndex_loop_total) (use assms in \<open>simp_all add: wf_at_start left_def\<close>)

theorem line_index_total_witness:
  "wf_utf8 [0xC3, 0xA9, 0x0A, 0x3B] \<and> (\<exists>es. LineIndex [0xC3, 0xA9, 0x0A, 0x3B] = Ok es)"
  using line_index_total [of "[0xC3, 0xA9, 0x0A, 0x3B]"] by (simp add: seqLen_def isCont_def shortest_def)

section \<open>Exact columns for ASCII sources\<close>

text \<open>
  The line structure of an ASCII text: the offset at which each line starts and the number of
  characters before its terminator (CR LF, CR, LF or the end of the text).
\<close>

definition lfLength :: "byte list \<Rightarrow> nat" where
  "lfLength bs = (if bs \<noteq> [] \<and> hd bs = 0x0A then 1 else 0)"

function lineLayout :: "nat \<Rightarrow> nat \<Rightarrow> byte list \<Rightarrow> (nat \<times> nat) list" where
  "lineLayout st k [] = [(st, k)]"
| "lineLayout st k (b # bs) =
    (if b = 0x0D then (st, k) # lineLayout (st + k + 1 + lfLength bs) 0 (drop (lfLength bs) bs)
     else if b = 0x0A then (st, k) # lineLayout (st + k + 1) 0 bs
     else lineLayout st (k + 1) bs)"
  by pat_completeness auto
termination
  by (relation "measure (\<lambda>(st, k, bs). length bs)") auto

definition asciiEntry :: "nat \<times> nat \<Rightarrow> offsetEntry" where
  "asciiEntry = (\<lambda>(st, k). \<lparr>ranges = (if k = 0 then [] else [\<lparr>byteSize = 1, cnt = of_nat k\<rparr>]),
     lineStart = of_nat st, lastOffset = of_nat (st + k)\<rparr>)"

lemma AddCol_ascii: "AddCol (asciiEntry (st, k)) (of_nat (Suc (st + k))) = asciiEntry (st, Suc k)"
  by (simp add: AddCol_def asciiEntry_def newRange_def Let_def algebra_simps)

lemma newEntry_ascii: "newEntry (of_nat st) = asciiEntry (st, 0)"
  by (simp add: newEntry_def asciiEntry_def)

lemma skipLF_ascii:
  assumes "ipos i \<le> length (sv i)" and "\<forall>b \<in> set (ahead i). ascii b"
  shows "skipLF i = Some (Forward (lfLength (ahead i)) i)"
proof (cases "ahead i")
  case Nil
  then show ?thesis using ahead_Nil_end [OF Nil assms(1)] by (simp add: skipLF_def HasNext_def lfLength_def)
next
  case (Cons c cs)
  have "ascii c" using Cons assms(2) by simp
  moreover have "(ucast c = (0x0A :: char32)) \<longleftrightarrow> c = 0x0A" using ucast8_eq [of c "0x0A"] by simp
  ultimately show ?thesis
    using Peek_ahead [OF Cons] ahead_ConsD(1) [OF Cons] Cons
    by (simp add: skipLF_def HasNext_def lfLength_def)
qed

lemma ahead_Forward: "ahead (Forward n i) = drop n (ahead i)"
  by (simp add: ahead_def Forward_def add.commute)

lemma lfLength_le: "lfLength bs \<le> length bs"
  by (cases bs) (simp_all add: lfLength_def)

lemma ascii_not_special:
  assumes "ascii b"
  shows "(ucast b :: char32) \<noteq> INVALID_CP" "(ucast b :: char32) \<noteq> LEX_CHAR_PS" "(ucast b :: char32) \<noteq> LEX_CHAR_LS"
    "(ucast b :: char32) = LEX_CHAR_CR \<longleftrightarrow> b = 0x0D" "(ucast b :: char32) = LEX_CHAR_LF \<longleftrightarrow> b = 0x0A"
  using assms ucast8_eq [of b "0x0D"] ucast8_eq [of b "0x0A"]
  by (auto simp: word_unat_eq_iff unat_ucast8)

lemma LineIndex_loop_ascii:
  assumes "\<forall>b \<in> set (ahead i). ascii b" and "length (ahead i) < n" and "ipos i = st + k"
    and "ipos i \<le> length (sv i)"
  shows "LineIndex_loop n i (es @ [asciiEntry (st, k)]) = Ok (es @ map asciiEntry (lineLayout st k (ahead i)))"
  using assms
proof (induction n arbitrary: i st k es)
  case 0 then show ?case by simp
next
  case (Suc n)
  show ?case
  proof (cases "ahead i")
    case Nil
    then show ?thesis using ahead_Nil_end [OF Nil Suc.prems(4)] by (simp add: Next_ahead_end)
  next
    case (Cons b bs)
    let ?j = "Forward 1 i"
    have b: "ascii b" "\<forall>c \<in> set bs. ascii c" using Cons Suc.prems(1) by auto
    note f = ahead_ConsD [OF Cons]
    have j: "ahead ?j = bs" "ipos ?j = st + k + 1" "ipos ?j \<le> length (sv ?j)" "length bs < n"
      using f Suc.prems(2,3) Cons by (auto simp: Forward_def)
    have nxt: "Next i = Some (ucast b, ?j)" by (rule Next_ahead [OF Cons b(1)])
    have off: "newEntry (offsetOf ?j) = asciiEntry (st + k + 1, 0)"
      using newEntry_ascii [of "st + k + 1"] j(2) by (simp add: offsetOf_def Index_def)
    have col: "AddCol (asciiEntry (st, k)) (offsetOf ?j) = asciiEntry (st, Suc k)"
      using AddCol_ascii [of st k] j(2) by (simp add: offsetOf_def Index_def)
    have brk: "LineIndex_loop n ?j (es @ [asciiEntry (st, k), asciiEntry (st + k + 1, 0)])
        = Ok (es @ asciiEntry (st, k) # map asciiEntry (lineLayout (st + k + 1) 0 bs))"
      using Suc.IH [of ?j "st + k + 1" 0 "es @ [asciiEntry (st, k)]"] j b by simp
    have cont: "LineIndex_loop n ?j (es @ [asciiEntry (st, Suc k)])
        = Ok (es @ map asciiEntry (lineLayout st (Suc k) bs))"
      using Suc.IH [of ?j st "Suc k" es] j b by simp
    let ?q = "Forward (lfLength bs) ?j"
    have q1: "ahead ?q = drop (lfLength bs) bs" by (subst ahead_Forward) (simp only: j(1))
    have q2: "ipos ?q = st + k + 1 + lfLength bs" using Suc.prems(3) by (simp add: Forward_def)
    have "length bs = length (sv i) - (st + k + 1)" using left_ahead [of ?j] j(1,2) by (simp add: left_def)
    then have q3: "ipos ?q \<le> length (sv ?q)" using q2 j(2,3) lfLength_le [of bs] by simp
    note q = q1 q2 q3
    have "newEntry (offsetOf ?q) = asciiEntry (st + k + 1 + lfLength bs, 0)"
      using newEntry_ascii [of "st + k + 1 + lfLength bs"] q(2) by (simp add: offsetOf_def Index_def)
    moreover have "\<forall>c \<in> set (drop (lfLength bs) bs). ascii c" using b(2) by (meson in_set_dropD)
    ultimately have crlf: "LineIndex_loop n ?q (es @ [asciiEntry (st, k), newEntry (offsetOf ?q)])
        = Ok (es @ asciiEntry (st, k) # map asciiEntry (lineLayout (st + k + 1 + lfLength bs) 0 (drop (lfLength bs) bs)))"
      using Suc.IH [of ?q "st + k + 1 + lfLength bs" 0 "es @ [asciiEntry (st, k)]"] q j(4) by simp
    have skip: "skipLF ?j = Some ?q" using skipLF_ascii [of ?j] j b by simp
    note special = ascii_not_special [OF b(1)]
    consider "b = 0x0D" | "b = 0x0A" | "b \<noteq> 0x0D" "b \<noteq> 0x0A" by blast
    then show ?thesis
    proof cases
      case 1
      then show ?thesis using nxt special skip crlf Cons by simp
    next
      case 2
      then show ?thesis using nxt special off brk Cons by simp
    next
      case 3
      then show ?thesis using nxt special col cont Cons by (simp add: addToLast_def)
    qed
  qed
qed

theorem line_index_ascii_table:
  assumes "\<forall>b \<in> set source. ascii b"
  shows "LineIndex source = Ok (map asciiEntry (lineLayout 0 0 source))"
  using LineIndex_loop_ascii [of "\<lparr>sv = source, ipos = 0\<rparr>" "Suc (length source)" 0 0 "[]"] assms
  by (simp add: LineIndex_def ahead_def newEntry_ascii [of 0, simplified])

lemma lineLayout_bounds:
  "(a, b) \<in> set (lineLayout st k bs) \<Longrightarrow> a + b \<le> st + k + length bs"
proof (induction st k bs rule: lineLayout.induct)
  case (2 st k b bs)
  show ?case
    using 2 lfLength_le [of bs] by (cases "b = 0x0D"; cases "b = 0x0A") (simp; linarith)+
qed simp

lemma lineLayout_length: "length (lineLayout st k bs) \<le> Suc (length bs)"
  by (induction st k bs rule: lineLayout.induct) auto

text \<open>
  C35: for an ASCII source the location of a position is exact: the \<open>j\<close>-th character of line \<open>l\<close> (both
  from 0), and the end of the line, is reported as line \<open>l + 1\<close>, column \<open>j + 1\<close>.
\<close>

theorem ascii_location_exact:
  assumes "\<forall>b \<in> set source. ascii b" and "length source < 2 ^ 63"
    and "l < length (lineLayout 0 0 source)" and "lineLayout 0 0 source ! l = (st, k)" and "j \<le> k"
  shows "\<exists>es. LineIndex source = Ok es
    \<and> GetLocation es \<lparr>pindex = of_nat (st + j), pline = of_nat l\<rparr>
      = Some \<lparr>slLine = of_nat (l + 1), slCol = of_nat (j + 1)\<rparr>"
proof -
  have "(st, k) \<in> set (lineLayout 0 0 source)" using assms(3,4) nth_mem by force
  then have k: "k < 2 ^ 63" using lineLayout_bounds [of st k 0 0 source] assms(2) by simp
  have l: "l < 2 ^ 64" using assms(2,3) lineLayout_length [of 0 0 source] by simp
  then have ul: "unat (of_nat l :: u64) = l" by (simp add: unat_of_nat take_bit_nat_eq_self)
  have lt: "(of_nat j :: u64) < of_nat k \<longleftrightarrow> j < k"
    using k assms(5) by (simp add: word_less_nat_alt unat_of_nat take_bit_nat_eq_self)
  have "Column_loop (ranges (asciiEntry (st, k))) (of_nat j) 0 = of_nat j"
    using lt assms(5) by (cases "j = k") (auto simp: asciiEntry_def)
  then show ?thesis
    using line_index_ascii_table [OF assms(1)] assms(3,4) ul
    by (simp add: GetLocation_def Let_def asciiEntry_def)
qed

theorem ascii_location_exact_witness:
  "\<exists>es. LineIndex [0x61, 0x0D, 0x0A, 0x62, 0x3B] = Ok es
    \<and> GetLocation es \<lparr>pindex = 4, pline = 1\<rparr> = Some \<lparr>slLine = 2, slCol = 2\<rparr>"
  using ascii_location_exact [of "[0x61, 0x0D, 0x0A, 0x62, 0x3B]" 1 3 2 1]
  by (simp add: lfLength_def)

section \<open>Columns after multi-byte characters\<close>

lemma unat_of_nat64: "n < 2 ^ 63 \<Longrightarrow> unat (of_nat n :: u64) = n"
  by (simp add: unat_of_nat take_bit_nat_eq_self)

definition wideEntry :: "nat \<Rightarrow> nat \<Rightarrow> offsetEntry" where
  "wideEntry w k = \<lparr>ranges = (if k = 0 then [] else [\<lparr>byteSize = of_nat w, cnt = of_nat k\<rparr>]),
     lineStart = 0, lastOffset = of_nat (k * w)\<rparr>"

lemma AddCol_wide: "AddCol (wideEntry w k) (of_nat (Suc k * w)) = wideEntry w (Suc k)"
  by (simp add: AddCol_def wideEntry_def newRange_def Let_def algebra_simps)

lemma length_concat_replicate: "length (concat (replicate k xs)) = k * length xs"
  by (induction k) simp_all

lemma replicate_split: "concat (replicate (k + Suc r) e) = concat (replicate k e) @ e @ concat (replicate r e)"
  by (induction k) simp_all

lemma LineIndex_loop_wide:
  assumes "c < 0x110000" and "c \<notin> {LEX_CHAR_LF, LEX_CHAR_CR, LEX_CHAR_LS, LEX_CHAR_PS}"
    and "r < n"
  shows "LineIndex_loop n \<lparr>sv = concat (replicate (k + r) (Utf8Encode c)), ipos = k * length (Utf8Encode c)\<rparr>
      [wideEntry (length (Utf8Encode c)) k] = Ok [wideEntry (length (Utf8Encode c)) (k + r)]"
  using assms(3)
proof (induction r arbitrary: n k)
  case 0
  then obtain m where n: "n = Suc m" by (cases n) auto
  show ?case by (simp add: n Next_ahead_end length_concat_replicate)
next
  case (Suc r)
  then obtain m where n: "n = Suc m" and m: "r < m" by (cases n) auto
  let ?e = "Utf8Encode c" and ?src = "concat (replicate (k + Suc r) (Utf8Encode c))"
  have "c \<noteq> INVALID_CP" using assms(1) by (auto simp: word_less_nat_alt)
  moreover have "Next \<lparr>sv = ?src, ipos = k * length ?e\<rparr> = Some (c, \<lparr>sv = ?src, ipos = Suc k * length ?e\<rparr>)"
    using decode_encode [OF assms(1), of "concat (replicate k ?e)" "concat (replicate r ?e)"]
    unfolding replicate_split by (simp add: Next_def length_concat_replicate add.commute)
  moreover have "addToLast [wideEntry (length ?e) k] (offsetOf \<lparr>sv = ?src, ipos = Suc k * length ?e\<rparr>)
      = [wideEntry (length ?e) (Suc k)]"
    using AddCol_wide [of "length ?e" k] by (simp add: addToLast_def offsetOf_def Index_def)
  ultimately show ?case
    using assms(2) Suc.IH [OF m, of "Suc k"] n by simp
qed

text \<open>
  On a line of \<open>m\<close> equal characters that take \<open>w > 1\<close> bytes each, the column of the \<open>j\<close>-th of them
  is wrong as long as \<open>0 < j * w < m\<close>: \<open>GetLocation\<close> compares the byte distance with the number of
  characters of the range, and returns the byte distance as the column.
\<close>

theorem multibyte_column_wrong:
  assumes "c < 0x110000" and "c \<notin> {LEX_CHAR_LS, LEX_CHAR_PS}" and "w = length (Utf8Encode c)" and "1 < w"
    and "0 < j" and "j * w < m" and "m < 2 ^ 62"
  shows "\<exists>es. LineIndex (concat (replicate m (Utf8Encode c))) = Ok es
    \<and> GetLocation es \<lparr>pindex = of_nat (j * w), pline = 0\<rparr> = Some \<lparr>slLine = 1, slCol = of_nat (j * w + 1)\<rparr>
    \<and> (of_nat (j * w + 1) :: u64) \<noteq> of_nat (j + 1)"
proof -
  have nl: "c \<notin> {LEX_CHAR_LF, LEX_CHAR_CR, LEX_CHAR_LS, LEX_CHAR_PS}"
    using assms(2,3,4) by (auto simp: Utf8Encode_def)
  have "m < Suc (m * w)" using assms(4) by (simp add: less_Suc_eq_le)
  from LineIndex_loop_wide [OF assms(1) nl this, of 0]
  have es: "LineIndex (concat (replicate m (Utf8Encode c))) = Ok [wideEntry w m]"
    by (simp add: LineIndex_def length_concat_replicate newEntry_def wideEntry_def assms(3))
  have m: "m < 2 ^ 63" "j * w < 2 ^ 63" "j * w + 1 < 2 ^ 63" using assms(6,7) by simp_all
  have jw: "j < j * w" using assms(4,5) by simp
  then have "j + 1 < 2 ^ 63" using m(3) by linarith
  note u = unat_of_nat64 [OF m(2)] unat_of_nat64 [OF m(1)] unat_of_nat64 [OF m(3)] unat_of_nat64 [OF this]
  have "(of_nat (j * w) :: u64) < of_nat m" using u assms(6) by (simp only: word_less_nat_alt)
  then have "GetLocation [wideEntry w m] \<lparr>pindex = of_nat (j * w), pline = 0\<rparr>
      = Some \<lparr>slLine = 1, slCol = of_nat (j * w + 1)\<rparr>"
    using assms(6) by (simp add: GetLocation_def Let_def wideEntry_def del: of_nat_mult)
  moreover have "(of_nat (j * w + 1) :: u64) \<noteq> of_nat (j + 1)" using u jw by (metis add_right_cancel less_irrefl)
  ultimately show ?thesis using es by blast
qed

theorem multibyte_column_wrong_witness:
  "\<exists>es. LineIndex (concat (replicate 3 [0xC3, 0xA9])) = Ok es
    \<and> GetLocation es \<lparr>pindex = 2, pline = 0\<rparr> = Some \<lparr>slLine = 1, slCol = 3\<rparr> \<and> (3 :: u64) \<noteq> 2"
proof -
  have e: "Utf8Encode 0xE9 = [0xC3, 0xA9]" by code_simp
  have "\<exists>es. LineIndex (concat (replicate 3 (Utf8Encode 0xE9))) = Ok es
    \<and> GetLocation es \<lparr>pindex = of_nat (1 * 2), pline = 0\<rparr> = Some \<lparr>slLine = 1, slCol = of_nat (1 * 2 + 1)\<rparr>
    \<and> (of_nat (1 * 2 + 1) :: u64) \<noteq> of_nat (1 + 1)"
    by (rule multibyte_column_wrong) (simp_all add: e)
  then show ?thesis unfolding e by simp
qed

end
