(* ===== verification/Tokens.thy ===== *)
theory Tokens
  imports SourceLoc
begin

text \<open>
  \<open>lexer/token/tokenType.h\<close>, \<open>token.h\<close> and \<open>token.cpp\<close>: token types, tokens and their classification.

  A \<open>TokenType\<close> is its number in the enumeration: the code compares token types with \<open><=\<close>, so the order
  of the enumeration matters (\<open>allTokenTypes\<close> is that order).  \<open>TokenFlags\<close> is a bit set.
\<close>

section \<open>Token types\<close>

type_synonym tokenType = nat

abbreviation (input) EOS :: tokenType where "EOS \<equiv> 0"
abbreviation (input) LITERAL_IDENT :: tokenType where "LITERAL_IDENT \<equiv> 1"
abbreviation (input) LITERAL_STRING :: tokenType where "LITERAL_STRING \<equiv> 2"
abbreviation (input) LITERAL_NUMBER :: tokenType where "LITERAL_NUMBER \<equiv> 3"
abbreviation (input) LITERAL_REGEXP :: tokenType where "LITERAL_REGEXP \<equiv> 4"
abbreviation (input) LITERAL_TRUE :: tokenType where "LITERAL_TRUE \<equiv> 5"
abbreviation (input) LITERAL_FALSE :: tokenType where "LITERAL_FALSE \<equiv> 6"
abbreviation (input) LITERAL_NULL :: tokenType where "LITERAL_NULL \<equiv> 7"
abbreviation (input) PUNCTUATOR_NULLISH_COALESCING :: tokenType where "PUNCTUATOR_NULLISH_COALESCING \<equiv> 8"
abbreviation (input) PUNCTUATOR_LOGICAL_OR :: tokenType where "PUNCTUATOR_LOGICAL_OR \<equiv> 9"
abbreviation (input) PUNCTUATOR_LOGICAL_AND :: tokenType where "PUNCTUATOR_LOGICAL_AND \<equiv> 10"
abbreviation (input) PUNCTUATOR_BITWISE_OR :: tokenType where "PUNCTUATOR_BITWISE_OR \<equiv> 11"
abbreviation (input) PUNCTUATOR_BITWISE_XOR :: tokenType where "PUNCTUATOR_BITWISE_XOR \<equiv> 12"
abbreviation (input) PUNCTUATOR_BITWISE_AND :: tokenType where "PUNCTUATOR_BITWISE_AND \<equiv> 13"
abbreviation (input) PUNCTUATOR_EQUAL :: tokenType where "PUNCTUATOR_EQUAL \<equiv> 14"
abbreviation (input) PUNCTUATOR_NOT_EQUAL :: tokenType where "PUNCTUATOR_NOT_EQUAL \<equiv> 15"
abbreviation (input) PUNCTUATOR_STRICT_EQUAL :: tokenType where "PUNCTUATOR_STRICT_EQUAL \<equiv> 16"
abbreviation (input) PUNCTUATOR_NOT_STRICT_EQUAL :: tokenType where "PUNCTUATOR_NOT_STRICT_EQUAL \<equiv> 17"
abbreviation (input) PUNCTUATOR_LESS_THAN :: tokenType where "PUNCTUATOR_LESS_THAN \<equiv> 18"
abbreviation (input) PUNCTUATOR_LESS_THAN_EQUAL :: tokenType where "PUNCTUATOR_LESS_THAN_EQUAL \<equiv> 19"
abbreviation (input) PUNCTUATOR_GREATER_THAN :: tokenType where "PUNCTUATOR_GREATER_THAN \<equiv> 20"
abbreviation (input) PUNCTUATOR_GREATER_THAN_EQUAL :: tokenType where "PUNCTUATOR_GREATER_THAN_EQUAL \<equiv> 21"
abbreviation (input) PUNCTUATOR_LEFT_SHIFT :: tokenType where "PUNCTUATOR_LEFT_SHIFT \<equiv> 22"
abbreviation (input) PUNCTUATOR_RIGHT_SHIFT :: tokenType where "PUNCTUATOR_RIGHT_SHIFT \<equiv> 23"
abbreviation (input) PUNCTUATOR_UNSIGNED_RIGHT_SHIFT :: tokenType where "PUNCTUATOR_UNSIGNED_RIGHT_SHIFT \<equiv> 24"
abbreviation (input) PUNCTUATOR_PLUS :: tokenType where "PUNCTUATOR_PLUS \<equiv> 25"
abbreviation (input) PUNCTUATOR_MINUS :: tokenType where "PUNCTUATOR_MINUS \<equiv> 26"
abbreviation (input) PUNCTUATOR_MULTIPLY :: tokenType where "PUNCTUATOR_MULTIPLY \<equiv> 27"
abbreviation (input) PUNCTUATOR_DIVIDE :: tokenType where "PUNCTUATOR_DIVIDE \<equiv> 28"
abbreviation (input) PUNCTUATOR_MOD :: tokenType where "PUNCTUATOR_MOD \<equiv> 29"
abbreviation (input) KEYW_IN :: tokenType where "KEYW_IN \<equiv> 30"
abbreviation (input) KEYW_INSTANCEOF :: tokenType where "KEYW_INSTANCEOF \<equiv> 31"
abbreviation (input) PUNCTUATOR_EXPONENTIATION :: tokenType where "PUNCTUATOR_EXPONENTIATION \<equiv> 32"
abbreviation (input) PUNCTUATOR_LEFT_PARENTHESIS :: tokenType where "PUNCTUATOR_LEFT_PARENTHESIS \<equiv> 33"
abbreviation (input) PUNCTUATOR_RIGHT_PARENTHESIS :: tokenType where "PUNCTUATOR_RIGHT_PARENTHESIS \<equiv> 34"
abbreviation (input) PUNCTUATOR_LEFT_BRACE :: tokenType where "PUNCTUATOR_LEFT_BRACE \<equiv> 35"
abbreviation (input) PUNCTUATOR_RIGHT_BRACE :: tokenType where "PUNCTUATOR_RIGHT_BRACE \<equiv> 36"
abbreviation (input) PUNCTUATOR_PERIOD :: tokenType where "PUNCTUATOR_PERIOD \<equiv> 37"
abbreviation (input) PUNCTUATOR_PERIOD_PERIOD_PERIOD :: tokenType where "PUNCTUATOR_PERIOD_PERIOD_PERIOD \<equiv> 38"
abbreviation (input) PUNCTUATOR_PERIOD_QUESTION :: tokenType where "PUNCTUATOR_PERIOD_QUESTION \<equiv> 39"
abbreviation (input) PUNCTUATOR_COMMA :: tokenType where "PUNCTUATOR_COMMA \<equiv> 40"
abbreviation (input) PUNCTUATOR_COLON :: tokenType where "PUNCTUATOR_COLON \<equiv> 41"
abbreviation (input) PUNCTUATOR_SEMI_COLON :: tokenType where "PUNCTUATOR_SEMI_COLON \<equiv> 42"
abbreviation (input) PUNCTUATOR_LEFT_SQUARE_BRACKET :: tokenType where "PUNCTUATOR_LEFT_SQUARE_BRACKET \<equiv> 43"
abbreviation (input) PUNCTUATOR_RIGHT_SQUARE_BRACKET :: tokenType where "PUNCTUATOR_RIGHT_SQUARE_BRACKET \<equiv> 44"
abbreviation (input) PUNCTUATOR_QUESTION_MARK :: tokenType where "PUNCTUATOR_QUESTION_MARK \<equiv> 45"
abbreviation (input) PUNCTUATOR_QUESTION_DOT :: tokenType where "PUNCTUATOR_QUESTION_DOT \<equiv> 46"
abbreviation (input) PUNCTUATOR_TILDE :: tokenType where "PUNCTUATOR_TILDE \<equiv> 47"
abbreviation (input) PUNCTUATOR_EXCLAMATION_MARK :: tokenType where "PUNCTUATOR_EXCLAMATION_MARK \<equiv> 48"
abbreviation (input) PUNCTUATOR_PLUS_PLUS :: tokenType where "PUNCTUATOR_PLUS_PLUS \<equiv> 49"
abbreviation (input) PUNCTUATOR_MINUS_MINUS :: tokenType where "PUNCTUATOR_MINUS_MINUS \<equiv> 50"
abbreviation (input) PUNCTUATOR_SUBSTITUTION :: tokenType where "PUNCTUATOR_SUBSTITUTION \<equiv> 51"
abbreviation (input) PUNCTUATOR_UNSIGNED_RIGHT_SHIFT_EQUAL :: tokenType where "PUNCTUATOR_UNSIGNED_RIGHT_SHIFT_EQUAL \<equiv> 52"
abbreviation (input) PUNCTUATOR_RIGHT_SHIFT_EQUAL :: tokenType where "PUNCTUATOR_RIGHT_SHIFT_EQUAL \<equiv> 53"
abbreviation (input) PUNCTUATOR_LEFT_SHIFT_EQUAL :: tokenType where "PUNCTUATOR_LEFT_SHIFT_EQUAL \<equiv> 54"
abbreviation (input) PUNCTUATOR_PLUS_EQUAL :: tokenType where "PUNCTUATOR_PLUS_EQUAL \<equiv> 55"
abbreviation (input) PUNCTUATOR_MINUS_EQUAL :: tokenType where "PUNCTUATOR_MINUS_EQUAL \<equiv> 56"
abbreviation (input) PUNCTUATOR_MULTIPLY_EQUAL :: tokenType where "PUNCTUATOR_MULTIPLY_EQUAL \<equiv> 57"
abbreviation (input) PUNCTUATOR_DIVIDE_EQUAL :: tokenType where "PUNCTUATOR_DIVIDE_EQUAL \<equiv> 58"
abbreviation (input) PUNCTUATOR_MOD_EQUAL :: tokenType where "PUNCTUATOR_MOD_EQUAL \<equiv> 59"
abbreviation (input) PUNCTUATOR_BITWISE_AND_EQUAL :: tokenType where "PUNCTUATOR_BITWISE_AND_EQUAL \<equiv> 60"
abbreviation (input) PUNCTUATOR_BITWISE_OR_EQUAL :: tokenType where "PUNCTUATOR_BITWISE_OR_EQUAL \<equiv> 61"
abbreviation (input) PUNCTUATOR_BITWISE_XOR_EQUAL :: tokenType where "PUNCTUATOR_BITWISE_XOR_EQUAL \<equiv> 62"
abbreviation (input) PUNCTUATOR_LOGICAL_AND_EQUAL :: tokenType where "PUNCTUATOR_LOGICAL_AND_EQUAL \<equiv> 63"
abbreviation (input) PUNCTUATOR_LOGICAL_OR_EQUAL :: tokenType where "PUNCTUATOR_LOGICAL_OR_EQUAL \<equiv> 64"
abbreviation (input) PUNCTUATOR_LOGICAL_NULLISH_EQUAL :: tokenType where "PUNCTUATOR_LOGICAL_NULLISH_EQUAL \<equiv> 65"
abbreviation (input) PUNCTUATOR_EXPONENTIATION_EQUAL :: tokenType where "PUNCTUATOR_EXPONENTIATION_EQUAL \<equiv> 66"
abbreviation (input) PUNCTUATOR_ARROW :: tokenType where "PUNCTUATOR_ARROW \<equiv> 67"
abbreviation (input) PUNCTUATOR_BACK_TICK :: tokenType where "PUNCTUATOR_BACK_TICK \<equiv> 68"
abbreviation (input) PUNCTUATOR_HASH_MARK :: tokenType where "PUNCTUATOR_HASH_MARK \<equiv> 69"
abbreviation (input) PUNCTUATOR_AT :: tokenType where "PUNCTUATOR_AT \<equiv> 70"
abbreviation (input) KEYW_GET :: tokenType where "KEYW_GET \<equiv> 71"
abbreviation (input) KEYW_SET :: tokenType where "KEYW_SET \<equiv> 72"
abbreviation (input) KEYW_OF :: tokenType where "KEYW_OF \<equiv> 73"
abbreviation (input) KEYW_FROM :: tokenType where "KEYW_FROM \<equiv> 74"
abbreviation (input) KEYW_AS :: tokenType where "KEYW_AS \<equiv> 75"
abbreviation (input) KEYW_META :: tokenType where "KEYW_META \<equiv> 76"
abbreviation (input) KEYW_REQUIRE :: tokenType where "KEYW_REQUIRE \<equiv> 77"
abbreviation (input) KEYW_ABSTRACT :: tokenType where "KEYW_ABSTRACT \<equiv> 78"
abbreviation (input) FIRST_KEYW :: tokenType where "FIRST_KEYW \<equiv> 79"
abbreviation (input) KEYW_ANY :: tokenType where "KEYW_ANY \<equiv> 79"
abbreviation (input) KEYW_AWAIT :: tokenType where "KEYW_AWAIT \<equiv> 80"
abbreviation (input) KEYW_BIGINT :: tokenType where "KEYW_BIGINT \<equiv> 81"
abbreviation (input) KEYW_BOOLEAN :: tokenType where "KEYW_BOOLEAN \<equiv> 82"
abbreviation (input) KEYW_BREAK :: tokenType where "KEYW_BREAK \<equiv> 83"
abbreviation (input) KEYW_CASE :: tokenType where "KEYW_CASE \<equiv> 84"
abbreviation (input) KEYW_CATCH :: tokenType where "KEYW_CATCH \<equiv> 85"
abbreviation (input) KEYW_CLASS :: tokenType where "KEYW_CLASS \<equiv> 86"
abbreviation (input) KEYW_CONST :: tokenType where "KEYW_CONST \<equiv> 87"
abbreviation (input) KEYW_CONTINUE :: tokenType where "KEYW_CONTINUE \<equiv> 88"
abbreviation (input) KEYW_DEBUGGER :: tokenType where "KEYW_DEBUGGER \<equiv> 89"
abbreviation (input) KEYW_DEFAULT :: tokenType where "KEYW_DEFAULT \<equiv> 90"
abbreviation (input) KEYW_DELETE :: tokenType where "KEYW_DELETE \<equiv> 91"
abbreviation (input) KEYW_DO :: tokenType where "KEYW_DO \<equiv> 92"
abbreviation (input) KEYW_ELSE :: tokenType where "KEYW_ELSE \<equiv> 93"
abbreviation (input) KEYW_ENUM :: tokenType where "KEYW_ENUM \<equiv> 94"
abbreviation (input) KEYW_EXPORT :: tokenType where "KEYW_EXPORT \<equiv> 95"
abbreviation (input) KEYW_EXTENDS :: tokenType where "KEYW_EXTENDS \<equiv> 96"
abbreviation (input) KEYW_FINALLY :: tokenType where "KEYW_FINALLY \<equiv> 97"
abbreviation (input) KEYW_FOR :: tokenType where "KEYW_FOR \<equiv> 98"
abbreviation (input) KEYW_FUNCTION :: tokenType where "KEYW_FUNCTION \<equiv> 99"
abbreviation (input) KEYW_IF :: tokenType where "KEYW_IF \<equiv> 100"
abbreviation (input) KEYW_IMPORT :: tokenType where "KEYW_IMPORT \<equiv> 101"
abbreviation (input) KEYW_NEVER :: tokenType where "KEYW_NEVER \<equiv> 102"
abbreviation (input) KEYW_NEW :: tokenType where "KEYW_NEW \<equiv> 103"
abbreviation (input) KEYW_NULL :: tokenType where "KEYW_NULL \<equiv> 104"
abbreviation (input) KEYW_NUMBER :: tokenType where "KEYW_NUMBER \<equiv> 105"
abbreviation (input) KEYW_OBJECT :: tokenType where "KEYW_OBJECT \<equiv> 106"
abbreviation (input) KEYW_REGEXP :: tokenType where "KEYW_REGEXP \<equiv> 107"
abbreviation (input) KEYW_RETURN :: tokenType where "KEYW_RETURN \<equiv> 108"
abbreviation (input) KEYW_STRING :: tokenType where "KEYW_STRING \<equiv> 109"
abbreviation (input) KEYW_SUPER :: tokenType where "KEYW_SUPER \<equiv> 110"
abbreviation (input) KEYW_SWITCH :: tokenType where "KEYW_SWITCH \<equiv> 111"
abbreviation (input) KEYW_THIS :: tokenType where "KEYW_THIS \<equiv> 112"
abbreviation (input) KEYW_THROW :: tokenType where "KEYW_THROW \<equiv> 113"
abbreviation (input) KEYW_TYPE :: tokenType where "KEYW_TYPE \<equiv> 114"
abbreviation (input) KEYW_TRY :: tokenType where "KEYW_TRY \<equiv> 115"
abbreviation (input) KEYW_TYPEOF :: tokenType where "KEYW_TYPEOF \<equiv> 116"
abbreviation (input) KEYW_UNDEFINED :: tokenType where "KEYW_UNDEFINED \<equiv> 117"
abbreviation (input) KEYW_UNKNOWN :: tokenType where "KEYW_UNKNOWN \<equiv> 118"
abbreviation (input) KEYW_VAR :: tokenType where "KEYW_VAR \<equiv> 119"
abbreviation (input) KEYW_VOID :: tokenType where "KEYW_VOID \<equiv> 120"
abbreviation (input) KEYW_WHILE :: tokenType where "KEYW_WHILE \<equiv> 121"
abbreviation (input) KEYW_WITH :: tokenType where "KEYW_WITH \<equiv> 122"
abbreviation (input) KEYW_ASYNC :: tokenType where "KEYW_ASYNC \<equiv> 123"
abbreviation (input) KEYW_READONLY :: tokenType where "KEYW_READONLY \<equiv> 124"
abbreviation (input) KEYW_KEYOF :: tokenType where "KEYW_KEYOF \<equiv> 125"
abbreviation (input) KEYW_MODULE :: tokenType where "KEYW_MODULE \<equiv> 126"
abbreviation (input) KEYW_NAMESPACE :: tokenType where "KEYW_NAMESPACE \<equiv> 127"
abbreviation (input) KEYW_INFER :: tokenType where "KEYW_INFER \<equiv> 128"
abbreviation (input) KEYW_DECLARE :: tokenType where "KEYW_DECLARE \<equiv> 129"
abbreviation (input) KEYW_ARGUMENTS :: tokenType where "KEYW_ARGUMENTS \<equiv> 130"
abbreviation (input) KEYW_EVAL :: tokenType where "KEYW_EVAL \<equiv> 131"
abbreviation (input) KEYW_STATIC :: tokenType where "KEYW_STATIC \<equiv> 132"
abbreviation (input) KEYW_GLOBAL :: tokenType where "KEYW_GLOBAL \<equiv> 133"
abbreviation (input) KEYW_IS :: tokenType where "KEYW_IS \<equiv> 134"
abbreviation (input) KEYW_ASSERTS :: tokenType where "KEYW_ASSERTS \<equiv> 135"
abbreviation (input) KEYW_PRIVATE :: tokenType where "KEYW_PRIVATE \<equiv> 136"
abbreviation (input) KEYW_PROTECTED :: tokenType where "KEYW_PROTECTED \<equiv> 137"
abbreviation (input) KEYW_PUBLIC :: tokenType where "KEYW_PUBLIC \<equiv> 138"
abbreviation (input) KEYW_IMPLEMENTS :: tokenType where "KEYW_IMPLEMENTS \<equiv> 139"
abbreviation (input) KEYW_INTERFACE :: tokenType where "KEYW_INTERFACE \<equiv> 140"
abbreviation (input) KEYW_PACKAGE :: tokenType where "KEYW_PACKAGE \<equiv> 141"
abbreviation (input) KEYW_LET :: tokenType where "KEYW_LET \<equiv> 142"
abbreviation (input) KEYW_YIELD :: tokenType where "KEYW_YIELD \<equiv> 143"

text \<open>The enumeration in the order of the source.\<close>

definition allTokenTypes :: "tokenType list" where
  "allTokenTypes = [
      EOS, LITERAL_IDENT, LITERAL_STRING, LITERAL_NUMBER, LITERAL_REGEXP, LITERAL_TRUE,
      LITERAL_FALSE, LITERAL_NULL, PUNCTUATOR_NULLISH_COALESCING, PUNCTUATOR_LOGICAL_OR,
      PUNCTUATOR_LOGICAL_AND, PUNCTUATOR_BITWISE_OR, PUNCTUATOR_BITWISE_XOR,
      PUNCTUATOR_BITWISE_AND, PUNCTUATOR_EQUAL, PUNCTUATOR_NOT_EQUAL, PUNCTUATOR_STRICT_EQUAL,
      PUNCTUATOR_NOT_STRICT_EQUAL, PUNCTUATOR_LESS_THAN, PUNCTUATOR_LESS_THAN_EQUAL,
      PUNCTUATOR_GREATER_THAN, PUNCTUATOR_GREATER_THAN_EQUAL, PUNCTUATOR_LEFT_SHIFT,
      PUNCTUATOR_RIGHT_SHIFT, PUNCTUATOR_UNSIGNED_RIGHT_SHIFT, PUNCTUATOR_PLUS, PUNCTUATOR_MINUS,
      PUNCTUATOR_MULTIPLY, PUNCTUATOR_DIVIDE, PUNCTUATOR_MOD, KEYW_IN, KEYW_INSTANCEOF,
      PUNCTUATOR_EXPONENTIATION, PUNCTUATOR_LEFT_PARENTHESIS, PUNCTUATOR_RIGHT_PARENTHESIS,
      PUNCTUATOR_LEFT_BRACE, PUNCTUATOR_RIGHT_BRACE, PUNCTUATOR_PERIOD,
      PUNCTUATOR_PERIOD_PERIOD_PERIOD, PUNCTUATOR_PERIOD_QUESTION, PUNCTUATOR_COMMA,
      PUNCTUATOR_COLON, PUNCTUATOR_SEMI_COLON, PUNCTUATOR_LEFT_SQUARE_BRACKET,
      PUNCTUATOR_RIGHT_SQUARE_BRACKET, PUNCTUATOR_QUESTION_MARK, PUNCTUATOR_QUESTION_DOT,
      PUNCTUATOR_TILDE, PUNCTUATOR_EXCLAMATION_MARK, PUNCTUATOR_PLUS_PLUS,
      PUNCTUATOR_MINUS_MINUS, PUNCTUATOR_SUBSTITUTION, PUNCTUATOR_UNSIGNED_RIGHT_SHIFT_EQUAL,
      PUNCTUATOR_RIGHT_SHIFT_EQUAL, PUNCTUATOR_LEFT_SHIFT_EQUAL, PUNCTUATOR_PLUS_EQUAL,
      PUNCTUATOR_MINUS_EQUAL, PUNCTUATOR_MULTIPLY_EQUAL, PUNCTUATOR_DIVIDE_EQUAL,
      PUNCTUATOR_MOD_EQUAL, PUNCTUATOR_BITWISE_AND_EQUAL, PUNCTUATOR_BITWISE_OR_EQUAL,
      PUNCTUATOR_BITWISE_XOR_EQUAL, PUNCTUATOR_LOGICAL_AND_EQUAL, PUNCTUATOR_LOGICAL_OR_EQUAL,
      PUNCTUATOR_LOGICAL_NULLISH_EQUAL, PUNCTUATOR_EXPONENTIATION_EQUAL, PUNCTUATOR_ARROW,
      PUNCTUATOR_BACK_TICK, PUNCTUATOR_HASH_MARK, PUNCTUATOR_AT, KEYW_GET, KEYW_SET, KEYW_OF,
      KEYW_FROM, KEYW_AS, KEYW_META, KEYW_REQUIRE, KEYW_ABSTRACT, KEYW_ANY, KEYW_AWAIT,
      KEYW_BIGINT, KEYW_BOOLEAN, KEYW_BREAK, KEYW_CASE, KEYW_CATCH, KEYW_CLASS, KEYW_CONST,
      KEYW_CONTINUE, KEYW_DEBUGGER, KEYW_DEFAULT, KEYW_DELETE, KEYW_DO, KEYW_ELSE, KEYW_ENUM,
      KEYW_EXPORT, KEYW_EXTENDS, KEYW_FINALLY, KEYW_FOR, KEYW_FUNCTION, KEYW_IF, KEYW_IMPORT,
      KEYW_NEVER, KEYW_NEW, KEYW_NULL, KEYW_NUMBER, KEYW_OBJECT, KEYW_REGEXP, KEYW_RETURN,
      KEYW_STRING, KEYW_SUPER, KEYW_SWITCH, KEYW_THIS, KEYW_THROW, KEYW_TYPE, KEYW_TRY,
      KEYW_TYPEOF, KEYW_UNDEFINED, KEYW_UNKNOWN, KEYW_VAR, KEYW_VOID, KEYW_WHILE, KEYW_WITH,
      KEYW_ASYNC, KEYW_READONLY, KEYW_KEYOF, KEYW_MODULE, KEYW_NAMESPACE, KEYW_INFER,
      KEYW_DECLARE, KEYW_ARGUMENTS, KEYW_EVAL, KEYW_STATIC, KEYW_GLOBAL, KEYW_IS, KEYW_ASSERTS,
      KEYW_PRIVATE, KEYW_PROTECTED, KEYW_PUBLIC, KEYW_IMPLEMENTS, KEYW_INTERFACE, KEYW_PACKAGE,
      KEYW_LET, KEYW_YIELD]"

section \<open>Tokens\<close>

text \<open>\<open>TokenFlags\<close>\<close>

abbreviation (input) TF_NONE :: u32 where "TF_NONE \<equiv> 0"
abbreviation (input) TF_NEW_LINE :: u32 where "TF_NEW_LINE \<equiv> 1"
abbreviation (input) TF_HAS_ESCAPE :: u32 where "TF_HAS_ESCAPE \<equiv> 4"
abbreviation (input) TF_NUMBER_BIGINT :: u32 where "TF_NUMBER_BIGINT \<equiv> 8"
abbreviation (input) TF_NUMBER_HAS_UNDERSCORE :: u32 where "TF_NUMBER_HAS_UNDERSCORE \<equiv> 16"

text \<open>
  A \<open>double\<close> is kept as its 64-bit pattern (0 is \<open>0.0\<close>); the floating point unit is a parameter of the
  lexer.  A \<open>StringView\<close> is the bytes it shows.
\<close>

type_synonym double = u64

record token =
  tokType :: tokenType
  keywordType :: tokenType
  tokFlags :: u32
  locStart :: sourcePosition
  locEnd :: sourcePosition
  number :: double
  tokSrc :: "byte list"

definition noPosition :: sourcePosition where
  "noPosition = \<lparr>pindex = 0, pline = 0\<rparr>"

definition newToken :: token where
  "newToken = \<lparr>tokType = EOS, keywordType = EOS, tokFlags = TF_NONE, locStart = noPosition,
     locEnd = noPosition, number = 0, tokSrc = []\<rparr>"

definition hasFlag :: "token \<Rightarrow> u32 \<Rightarrow> bool" where
  "hasFlag t f \<longleftrightarrow> tokFlags t AND f \<noteq> 0"

definition NewLine :: "token \<Rightarrow> bool" where
  "NewLine t = hasFlag t TF_NEW_LINE"

section \<open>Classification\<close>

definition isModifier :: "token \<Rightarrow> tokenType set \<Rightarrow> bool" where
  "isModifier t ks \<longleftrightarrow> tokType t = LITERAL_IDENT \<and> keywordType t \<in> ks \<and> \<not> hasFlag t TF_HAS_ESCAPE"

definition IsAccessability :: "token \<Rightarrow> bool" where
  "IsAccessability t = isModifier t {KEYW_PUBLIC, KEYW_PROTECTED, KEYW_PRIVATE}"

definition IsAsyncModifier :: "token \<Rightarrow> bool" where
  "IsAsyncModifier t = isModifier t {KEYW_ASYNC}"

definition IsStaticModifier :: "token \<Rightarrow> bool" where
  "IsStaticModifier t = isModifier t {KEYW_STATIC}"

definition IsDeclareModifier :: "token \<Rightarrow> bool" where
  "IsDeclareModifier t = isModifier t {KEYW_DECLARE}"

definition IsReadonlyModifier :: "token \<Rightarrow> bool" where
  "IsReadonlyModifier t = isModifier t {KEYW_READONLY}"

definition IsUpdate :: "token \<Rightarrow> bool" where
  "IsUpdate t \<longleftrightarrow> tokType t = PUNCTUATOR_MINUS_MINUS \<or> tokType t = PUNCTUATOR_PLUS_PLUS"

definition IsUnary :: "token \<Rightarrow> bool" where
  "IsUnary t \<longleftrightarrow> tokType t \<in> {PUNCTUATOR_MINUS, PUNCTUATOR_PLUS, PUNCTUATOR_TILDE,
     PUNCTUATOR_EXCLAMATION_MARK, PUNCTUATOR_PLUS_PLUS, PUNCTUATOR_MINUS_MINUS, KEYW_TYPEOF, KEYW_VOID,
     KEYW_DELETE, KEYW_AWAIT}"

definition IsPropNameLiteral :: "token \<Rightarrow> bool" where
  "IsPropNameLiteral t \<longleftrightarrow> tokType t \<in> {LITERAL_STRING, LITERAL_NUMBER, LITERAL_TRUE, LITERAL_FALSE}"

definition IsKeyword :: "token \<Rightarrow> bool" where
  "IsKeyword t \<longleftrightarrow> FIRST_KEYW \<le> tokType t"

definition IsReservedTypeName :: "token \<Rightarrow> bool" where
  "IsReservedTypeName t \<longleftrightarrow> keywordType t \<in> {KEYW_ANY, KEYW_UNKNOWN, KEYW_NEVER, KEYW_NUMBER,
     KEYW_BIGINT, KEYW_BOOLEAN, KEYW_STRING, KEYW_VOID, KEYW_OBJECT}"

definition IsBinaryToken :: "tokenType \<Rightarrow> bool" where
  "IsBinaryToken t \<longleftrightarrow> PUNCTUATOR_NULLISH_COALESCING \<le> t \<and> t \<le> PUNCTUATOR_EXPONENTIATION"

definition IsBinaryLvalueToken :: "tokenType \<Rightarrow> bool" where
  "IsBinaryLvalueToken t \<longleftrightarrow> PUNCTUATOR_SUBSTITUTION \<le> t \<and> t \<le> PUNCTUATOR_EXPONENTIATION_EQUAL"

definition IsUpdateToken :: "tokenType \<Rightarrow> bool" where
  "IsUpdateToken t \<longleftrightarrow> t = PUNCTUATOR_MINUS_MINUS \<or> t = PUNCTUATOR_PLUS_PLUS"

definition IsPunctuatorToken :: "tokenType \<Rightarrow> bool" where
  "IsPunctuatorToken t \<longleftrightarrow> PUNCTUATOR_NULLISH_COALESCING \<le> t \<and> t \<le> PUNCTUATOR_ARROW"

definition IsTsParamToken :: "tokenType \<Rightarrow> bool" where
  "IsTsParamToken t \<longleftrightarrow> t = PUNCTUATOR_COLON \<or> t = PUNCTUATOR_QUESTION_MARK"

text \<open>\<open>TokenToString\<close>: \<open>None\<close> is the \<open>UNREACHABLE\<close> of the default case.\<close>

definition tokenStrings :: "(tokenType \<times> string) list" where
  "tokenStrings = [
     (PUNCTUATOR_BITWISE_AND, ''&''),
     (PUNCTUATOR_BITWISE_OR, ''|''),
     (PUNCTUATOR_MULTIPLY, ''*''),
     (PUNCTUATOR_DIVIDE, ''/''),
     (PUNCTUATOR_MINUS, ''-''),
     (PUNCTUATOR_EXCLAMATION_MARK, ''!''),
     (PUNCTUATOR_TILDE, ''~''),
     (PUNCTUATOR_MINUS_MINUS, ''--''),
     (PUNCTUATOR_LEFT_SHIFT, ''<<''),
     (PUNCTUATOR_RIGHT_SHIFT, ''>>''),
     (PUNCTUATOR_LESS_THAN_EQUAL, ''<=''),
     (PUNCTUATOR_GREATER_THAN_EQUAL, ''>=''),
     (PUNCTUATOR_MOD, ''%''),
     (PUNCTUATOR_BITWISE_XOR, ''^''),
     (PUNCTUATOR_EXPONENTIATION, ''**''),
     (PUNCTUATOR_MULTIPLY_EQUAL, ''*=''),
     (PUNCTUATOR_EXPONENTIATION_EQUAL, ''**=''),
     (PUNCTUATOR_DIVIDE_EQUAL, ''/=''),
     (PUNCTUATOR_MOD_EQUAL, ''%=''),
     (PUNCTUATOR_MINUS_EQUAL, ''-=''),
     (PUNCTUATOR_LEFT_SHIFT_EQUAL, ''<<=''),
     (PUNCTUATOR_RIGHT_SHIFT_EQUAL, ''>>=''),
     (PUNCTUATOR_UNSIGNED_RIGHT_SHIFT, ''>>>''),
     (PUNCTUATOR_UNSIGNED_RIGHT_SHIFT_EQUAL, ''>>>=''),
     (PUNCTUATOR_BITWISE_AND_EQUAL, ''&=''),
     (PUNCTUATOR_BITWISE_OR_EQUAL, ''|=''),
     (PUNCTUATOR_LOGICAL_AND_EQUAL, ''&&=''),
     (PUNCTUATOR_NULLISH_COALESCING, ''??''),
     (PUNCTUATOR_LOGICAL_OR_EQUAL, ''||=''),
     (PUNCTUATOR_LOGICAL_NULLISH_EQUAL, ''??=''),
     (PUNCTUATOR_BITWISE_XOR_EQUAL, ''^=''),
     (PUNCTUATOR_PLUS, ''+''),
     (PUNCTUATOR_PLUS_PLUS, ''++''),
     (PUNCTUATOR_PLUS_EQUAL, ''+=''),
     (PUNCTUATOR_LESS_THAN, ''<''),
     (PUNCTUATOR_GREATER_THAN, ''>''),
     (PUNCTUATOR_EQUAL, ''==''),
     (PUNCTUATOR_NOT_EQUAL, ''!=''),
     (PUNCTUATOR_STRICT_EQUAL, ''===''),
     (PUNCTUATOR_NOT_STRICT_EQUAL, ''!==''),
     (KEYW_INSTANCEOF, ''instanceof''),
     (KEYW_IN, ''in''),
     (PUNCTUATOR_LOGICAL_AND, ''&&''),
     (PUNCTUATOR_LOGICAL_OR, ''||''),
     (PUNCTUATOR_SUBSTITUTION, ''=''),
     (PUNCTUATOR_QUESTION_MARK, ''?''),
     (PUNCTUATOR_AT, ''@''),
     (KEYW_ANY, ''any''),
     (KEYW_UNKNOWN, ''unknown''),
     (KEYW_NEVER, ''never''),
     (KEYW_NUMBER, ''number''),
     (KEYW_BIGINT, ''bigint''),
     (KEYW_BOOLEAN, ''boolean''),
     (KEYW_STRING, ''string''),
     (KEYW_VOID, ''void''),
     (KEYW_OBJECT, ''object''),
     (KEYW_TYPEOF, ''typeof''),
     (KEYW_DELETE, ''delete'')]"

definition TokenToString :: "tokenType \<Rightarrow> string option" where
  "TokenToString t = map_of tokenStrings t"

section \<open>Properties\<close>

lemma allTokenTypes_order: "allTokenTypes = [0..<144]"
  by code_simp

text \<open>
  The tokens the parser may print in a diagnostic (\<open>TokenToString\<close>): every binary operator and every
  assignment operator has a text, and no two token types have the same text.
\<close>

theorem operator_texts:
  "(\<forall>t \<in> set allTokenTypes. IsBinaryToken t \<or> IsBinaryLvalueToken t \<longrightarrow> TokenToString t \<noteq> None)
   \<and> distinct (map snd tokenStrings) \<and> distinct (map fst tokenStrings)"
  by code_simp

theorem operator_texts_witness:
  "IsBinaryToken PUNCTUATOR_PLUS \<and> TokenToString PUNCTUATOR_PLUS \<noteq> None"
  using operator_texts by (simp add: allTokenTypes_order IsBinaryToken_def)

end
