(* ===== verification/LexerState.thy ===== *)
theory LexerState
  imports Tokens RegExp
begin

text \<open>
  \<open>lexer/lexer.h\<close> and the parts of \<open>lexer.cpp\<close> every scanner uses: the lexer object, its position, error
  reporting, token boundaries, white space and comments, and the escape sequences of strings and
  identifiers.

  \<open>lexer\<close> extends \<open>lexerPosition\<close> (what \<open>Save\<close> and \<open>Rewind\<close> copy) with the stack of template literal
  contexts and the environment.  The source is the text the iterator walks.  Every method is a
  computation on \<open>lexer\<close>; \<open>ThrowError\<close> throws the message with the line and the index.
\<close>

section \<open>Environment\<close>

datatype scriptExtension = JS | TS | AS

text \<open>What \<open>std::stold\<close> may do: return a value, or throw \<open>invalid_argument\<close> or \<open>out_of_range\<close>.\<close>

datatype stoldResult = StoldValue double | StoldInvalid | StoldRange

text \<open>
  What the lexer reads but does not own: the parser context, the program's extension, ICU and the
  floating point unit (\<open>eMulAdd x r d\<close> is \<open>x * r + d\<close> on doubles).
\<close>

record lexEnv =
  eIcu :: icu
  eIsAsync :: bool
  eDisallowAwait :: bool
  eAllowYield :: bool
  eExtension :: scriptExtension
  eMulAdd :: "double \<Rightarrow> nat \<Rightarrow> u32 \<Rightarrow> double"
  eStold :: "byte list \<Rightarrow> stoldResult"

abbreviation (input) infinity :: double where "infinity \<equiv> 0x7FF0000000000000"

section \<open>State\<close>

record lexerPosition =
  tok :: token
  iterator :: iter
  lline :: u64
  nextTokenLine :: u64

record lexer = lexerPosition +
  tlCtx :: "u64 list"
  env :: lexEnv

record lexError =
  errMessage :: string
  errLine :: u64
  errCol :: u64

type_synonym 'a lexM = "(lexer, lexError, 'a) comp"

definition ThrowError :: "string \<Rightarrow> 'a lexM" where
  "ThrowError message s =
    Throw \<lparr>errMessage = message, errLine = lline s, errCol = offsetOf (iterator s)\<rparr>"

section \<open>The iterator\<close>

definition lexPeek :: "char32 lexM" where
  "lexPeek = readM (\<lambda>s. Peek (iterator s))"

definition lexPeekCp :: "char32 lexM" where
  "lexPeekCp = readM (\<lambda>s. PeekCp (iterator s))"

definition lexPeekCpSize :: "(char32 \<times> nat) lexM" where
  "lexPeekCpSize = readM (\<lambda>s. PeekCpSize (iterator s))"

definition lexNext :: "char32 lexM" where
  "lexNext s = (case Next (iterator s) of None \<Rightarrow> Undefined | Some (cp, i) \<Rightarrow> Ok (cp, s\<lparr>iterator := i\<rparr>))"

definition lexSkipCp :: "unit lexM" where
  "lexSkipCp s = (case SkipCp (iterator s) of None \<Rightarrow> Undefined | Some i \<Rightarrow> Ok ((), s\<lparr>iterator := i\<rparr>))"

definition lexForward :: "nat \<Rightarrow> unit lexM" where
  "lexForward n = modifyM (\<lambda>s. s\<lparr>iterator := Forward n (iterator s)\<rparr>)"

definition lexBackward :: "nat \<Rightarrow> unit lexM" where
  "lexBackward n s = (case Backward n (iterator s) of None \<Rightarrow> Undefined | Some i \<Rightarrow> Ok ((), s\<lparr>iterator := i\<rparr>))"

definition lexIndex :: "nat lexM" where
  "lexIndex = getM (\<lambda>s. Index (iterator s))"

definition SourceView :: "nat \<Rightarrow> nat \<Rightarrow> byte list lexM" where
  "SourceView b e = getM (\<lambda>s. Substr (sv (iterator s)) b e)"

text \<open>A loop bounded by the bytes that are left.\<close>

definition lexBounded :: "(nat \<Rightarrow> 'a lexM) \<Rightarrow> 'a lexM" where
  "lexBounded loop s = loop (Suc (left (iterator s))) s"

section \<open>The token\<close>

definition modToken :: "(token \<Rightarrow> token) \<Rightarrow> unit lexM" where
  "modToken f = modifyM (\<lambda>s. s\<lparr>tok := f (tok s)\<rparr>)"

definition setType :: "tokenType \<Rightarrow> unit lexM" where
  "setType t = modToken (\<lambda>k. k\<lparr>tokType := t\<rparr>)"

definition setKeywordType :: "tokenType \<Rightarrow> unit lexM" where
  "setKeywordType t = modToken (\<lambda>k. k\<lparr>keywordType := t\<rparr>)"

definition addFlag :: "u32 \<Rightarrow> unit lexM" where
  "addFlag f = modToken (\<lambda>k. k\<lparr>tokFlags := tokFlags k OR f\<rparr>)"

definition setSrc :: "byte list \<Rightarrow> unit lexM" where
  "setSrc v = modToken (\<lambda>k. k\<lparr>tokSrc := v\<rparr>)"

definition setNumber :: "double \<Rightarrow> unit lexM" where
  "setNumber d = modToken (\<lambda>k. k\<lparr>number := d\<rparr>)"

definition tokenFlag :: "u32 \<Rightarrow> bool lexM" where
  "tokenFlag f = getM (\<lambda>s. hasFlag (tok s) f)"

definition startIndex :: "nat lexM" where
  "startIndex = getM (\<lambda>s. unat (pindex (locStart (tok s))))"

definition position :: "lexer \<Rightarrow> sourcePosition" where
  "position s = \<lparr>pindex = offsetOf (iterator s), pline = lline s\<rparr>"

definition SetTokenStart :: "unit lexM" where
  "SetTokenStart =
    thenM (modifyM (\<lambda>s.
      if nextTokenLine s \<noteq> 0 then
        s\<lparr>lline := lline s + nextTokenLine s, nextTokenLine := 0, tok := (tok s)\<lparr>tokFlags := TF_NEW_LINE\<rparr>\<rparr>
      else s\<lparr>tok := (tok s)\<lparr>tokFlags := TF_NONE\<rparr>\<rparr>))
    (modifyM (\<lambda>s. s\<lparr>tok := (tok s)\<lparr>locStart := position s\<rparr>\<rparr>))"

definition SetTokenEnd :: "unit lexM" where
  "SetTokenEnd = modifyM (\<lambda>s. s\<lparr>tok := (tok s)\<lparr>locEnd := position s\<rparr>\<rparr>)"

definition newLine :: "unit lexM" where
  "newLine = modifyM (\<lambda>s. s\<lparr>lline := lline s + 1\<rparr>)"

definition newTokenLine :: "unit lexM" where
  "newTokenLine = modifyM (\<lambda>s. s\<lparr>nextTokenLine := nextTokenLine s + 1\<rparr>)"

section \<open>White space and comments\<close>

text \<open>The iterator is on a CR; step over it if a LF follows.\<close>

definition skipCR :: "unit lexM" where
  "skipCR = thenM (lexForward 1) (bindM lexPeek (\<lambda>p. if p \<noteq> LEX_CHAR_LF then lexBackward 1 else ret ()))"

fun MultiLineComment_loop :: "nat \<Rightarrow> unit lexM" where
  "MultiLineComment_loop 0 = out_of_fuel"
| "MultiLineComment_loop (Suc n) =
    bindM lexNext (\<lambda>cp.
      if cp = INVALID_CP then ThrowError ''Unterminated multi-line comment''
      else if cp \<in> {LEX_CHAR_LF, LEX_CHAR_CR, LEX_CHAR_LS, LEX_CHAR_PS} then
        thenM newTokenLine (MultiLineComment_loop n)
      else if cp = LEX_CHAR_ASTERISK then
        bindM lexPeek (\<lambda>p. if p = LEX_CHAR_SLASH then lexForward 1 else MultiLineComment_loop n)
      else MultiLineComment_loop n)"

definition SkipMultiLineComment :: "unit lexM" where
  "SkipMultiLineComment = lexBounded MultiLineComment_loop"

fun SingleLineComment_loop :: "nat \<Rightarrow> unit lexM" where
  "SingleLineComment_loop 0 = out_of_fuel"
| "SingleLineComment_loop (Suc n) =
    bindM lexNext (\<lambda>cp.
      if cp \<in> {INVALID_CP, LEX_CHAR_CR} then
        thenM (bindM lexPeek (\<lambda>p. if p = LEX_CHAR_LF then lexForward 1 else ret ())) newTokenLine
      else if cp \<in> {LEX_CHAR_LF, LEX_CHAR_LS, LEX_CHAR_PS} then newTokenLine
      else SingleLineComment_loop n)"

definition SkipSingleLineComment :: "unit lexM" where
  "SkipSingleLineComment = lexBounded SingleLineComment_loop"

fun WhiteSpaces_loop :: "nat \<Rightarrow> unit lexM" where
  "WhiteSpaces_loop 0 = out_of_fuel"
| "WhiteSpaces_loop (Suc n) =
    bindM lexPeek (\<lambda>cp.
      if cp = LEX_CHAR_CR then
        thenM skipCR (thenM (lexForward 1) (thenM newTokenLine (WhiteSpaces_loop n)))
      else if cp = LEX_CHAR_LF then
        thenM (lexForward 1) (thenM newTokenLine (WhiteSpaces_loop n))
      else if cp \<in> {LEX_CHAR_VT, LEX_CHAR_FF, LEX_CHAR_SP, LEX_CHAR_TAB} then
        thenM (lexForward 1) (WhiteSpaces_loop n)
      else if cp = LEX_CHAR_SLASH then
        thenM (lexForward 1) (bindM lexPeek (\<lambda>cp.
          if cp = LEX_CHAR_SLASH then
            thenM (lexForward 1) (thenM SkipSingleLineComment (WhiteSpaces_loop n))
          else if cp = LEX_CHAR_ASTERISK then
            thenM (lexForward 1) (thenM SkipMultiLineComment (WhiteSpaces_loop n))
          else lexBackward 1))
      else if cp < LEX_ASCII_MAX_BITS then ret ()
      else bindM lexPeekCpSize (\<lambda>(cp, cpSize).
        if cp \<in> {LEX_CHAR_LS, LEX_CHAR_PS} then
          thenM newTokenLine (thenM (lexForward cpSize) (WhiteSpaces_loop n))
        else if cp \<in> {LEX_CHAR_NBSP, LEX_CHAR_ZWNBSP} then
          thenM (lexForward cpSize) (WhiteSpaces_loop n)
        else ret ()))"

definition SkipWhiteSpaces :: "unit lexM" where
  "SkipWhiteSpaces = lexBounded WhiteSpaces_loop"

section \<open>Construction and positions\<close>

definition LexerPosition :: "byte list \<Rightarrow> lexerPosition" where
  "LexerPosition source =
    \<lparr>tok = newToken, iterator = \<lparr>sv = source, ipos = 0\<rparr>, lline = 0, nextTokenLine = 0\<rparr>"

definition lexerAt :: "lexEnv \<Rightarrow> u64 list \<Rightarrow> lexerPosition \<Rightarrow> lexer" where
  "lexerAt e ctx p = lexerPosition.extend p \<lparr>tlCtx = ctx, env = e\<rparr>"

text \<open>The constructor of \<open>Lexer\<close>: the members, then \<open>SkipWhiteSpaces\<close>.\<close>

definition newLexer :: "lexEnv \<Rightarrow> byte list \<Rightarrow> (lexError, lexer) res" where
  "newLexer e source =
    (case SkipWhiteSpaces (lexerAt e [] (LexerPosition source)) of
       Ok (_, s) \<Rightarrow> Ok s | Throw x \<Rightarrow> Throw x | Undefined \<Rightarrow> Undefined | NoFuel \<Rightarrow> NoFuel)"

definition Save :: "lexerPosition lexM" where
  "Save = getM lexerPosition.truncate"

definition Rewind :: "lexerPosition \<Rightarrow> unit lexM" where
  "Rewind p = modifyM (\<lambda>s. lexerAt (env s) (tlCtx s) p)"

definition BackwardToken :: "tokenType \<Rightarrow> nat \<Rightarrow> unit lexM" where
  "BackwardToken t offset = modifyM (\<lambda>s.
    s\<lparr>tok := (tok s)\<lparr>tokType := t\<rparr>,
      iterator := Reset (unat (pindex (locEnd (tok s)) - of_nat offset)) (iterator s), nextTokenLine := 0\<rparr>)"

definition ForwardToken :: "tokenType \<Rightarrow> nat \<Rightarrow> unit lexM" where
  "ForwardToken t offset = thenM (setType t) (thenM (lexForward offset) SkipWhiteSpaces)"

definition ResetTokenEnd :: "unit lexM" where
  "ResetTokenEnd = thenM SetTokenStart (modifyM (\<lambda>s.
    s\<lparr>iterator := Reset (unat (pindex (locEnd (tok s)))) (iterator s), lline := pline (locEnd (tok s)),
      nextTokenLine := 0\<rparr>))"

definition CheckArrow :: "bool lexM" where
  "CheckArrow = bindM lexPeek (\<lambda>p.
    if p \<noteq> LEX_CHAR_EQUALS then ret False
    else thenM (lexForward 1) (bindM lexPeek (\<lambda>p.
      thenM (lexBackward 1) (ret (p = LEX_CHAR_GREATER_THAN)))))"

section \<open>Template literal contexts\<close>

text \<open>
  \<open>tlCtx\<close> is the chain of \<open>TemplateLiteralParserContext\<close>s, innermost first: each entry is its
  \<open>braceDepth_\<close>, the tail is \<open>prev_\<close>.  The constructor and \<open>PushTemplateContext\<close> push, the destructor pops.
\<close>

definition PushTemplateContext :: "unit lexM" where
  "PushTemplateContext = modifyM (\<lambda>s. s\<lparr>tlCtx := 1 # tlCtx s\<rparr>)"

definition PopTemplateContext :: "unit lexM" where
  "PopTemplateContext = modifyM (\<lambda>s. s\<lparr>tlCtx := tl (tlCtx s)\<rparr>)"

definition ConsumeLeftBrace :: "unit lexM" where
  "ConsumeLeftBrace = modifyM (\<lambda>s.
    case tlCtx s of [] \<Rightarrow> s | d # ds \<Rightarrow> s\<lparr>tlCtx := (d + 1) # ds\<rparr>)"

definition ConsumeRightBrace :: "bool lexM" where
  "ConsumeRightBrace s =
    (case tlCtx s of [] \<Rightarrow> Ok (False, s) | d # ds \<Rightarrow> Ok (d - 1 = 0, s\<lparr>tlCtx := (d - 1) # ds\<rparr>))"

section \<open>Escape sequences\<close>

text \<open>The lexer's own digit tests (\<open>IsHexDigit\<close> is \<open>std::isxdigit\<close> on ASCII).\<close>

definition lexHexValue :: "char32 \<Rightarrow> u32" where
  "lexHexValue ch = (if ch < LEX_CHAR_UPPERCASE_A then ch - LEX_CHAR_0
     else (ch - LEX_CHAR_UPPERCASE_A + 10) AND 0xF)"

definition lexIsHexDigit :: "char32 \<Rightarrow> bool" where
  "lexIsHexDigit ch \<longleftrightarrow> ch < LEX_ASCII_MAX_BITS \<and>
     ((LEX_CHAR_0 \<le> ch \<and> ch \<le> LEX_CHAR_9) \<or> (LEX_CHAR_UPPERCASE_A \<le> ch \<and> ch \<le> LEX_CHAR_UPPERCASE_F)
      \<or> (LEX_CHAR_LOWERCASE_A \<le> ch \<and> ch \<le> LEX_CHAR_LOWERCASE_F))"

definition IsBinaryDigit :: "char32 \<Rightarrow> bool" where
  "IsBinaryDigit ch \<longleftrightarrow> ch = LEX_CHAR_0 \<or> ch = LEX_CHAR_1"

text \<open>\<open>ScanHexEscape<N>\<close>: exactly \<open>N\<close> hexadecimal digits.\<close>

fun ScanHexEscape :: "nat \<Rightarrow> char32 \<Rightarrow> char32 lexM" where
  "ScanHexEscape 0 code = ret code"
| "ScanHexEscape (Suc n) code =
    bindM lexPeek (\<lambda>cp. thenM (lexForward 1) (
      if \<not> lexIsHexDigit cp then ThrowError ''Invalid unicode escape sequence''
      else ScanHexEscape n (code * 16 + lexHexValue cp)))"

text \<open>
  The code point of \<open>\u{...}\<close>.  The code computes it in a \<open>double\<close>; it never exceeds \<open>2 ^ 25\<close>, where
  doubles are exact.
\<close>

fun CodePointEscape_loop :: "nat \<Rightarrow> u32 \<Rightarrow> (u32 \<times> char32) lexM" where
  "CodePointEscape_loop 0 code = out_of_fuel"
| "CodePointEscape_loop (Suc n) code =
    bindM lexPeek (\<lambda>cp.
      if \<not> lexIsHexDigit cp then ret (code, cp)
      else thenM (lexForward 1) (let code = code * 16 + lexHexValue cp in
        if code > 0x10FFFF then ThrowError ''Invalid unicode escape sequence''
        else CodePointEscape_loop n code))"

definition ScanUnicodeCodePointEscape :: "char32 lexM" where
  "ScanUnicodeCodePointEscape =
    bindM (lexBounded (\<lambda>n. CodePointEscape_loop n 0)) (\<lambda>(code, cp).
      if cp \<noteq> LEX_CHAR_RIGHT_BRACE then ThrowError ''Invalid unicode escape sequence''
      else thenM (lexForward 1) (ret code))"

definition ScanUnicodeEscapeSequence :: "char32 lexM" where
  "ScanUnicodeEscapeSequence =
    thenM (lexForward 1) (bindM lexPeek (\<lambda>p.
      if p = LEX_CHAR_LEFT_BRACE then thenM (lexForward 1) ScanUnicodeCodePointEscape
      else ScanHexEscape 4 0))"

end
