(* ===== verification/LexerScan.thy ===== *)
theory LexerScan
  imports LexerState
begin

text \<open>
  The scanners of \<open>lexer/lexer.cpp\<close> and \<open>lexer.h\<close> for numbers, strings, template strings, regular
  expression literals and punctuators, and \<open>IsIdentifierStart\<close>/\<open>IsIdentifierPart\<close> of
  \<open>lexer/keywordsUtil.cpp\<close>, which the number and regular expression scanners call.
\<close>

section \<open>Identifier characters\<close>

text \<open>\<open>ASCII_FLAGS\<close>: the characters of the table with \<open>ID_START\<close> and with \<open>ID_CONTINUE\<close>.\<close>

definition asciiIdStart :: "char32 \<Rightarrow> bool" where
  "asciiIdStart cp \<longleftrightarrow> cp = LEX_CHAR_DOLLAR_SIGN \<or> cp = LEX_CHAR_UNDERSCORE
     \<or> (LEX_CHAR_UPPERCASE_A \<le> cp \<and> cp \<le> LEX_CHAR_UPPERCASE_Z)
     \<or> (LEX_CHAR_LOWERCASE_A \<le> cp \<and> cp \<le> LEX_CHAR_LOWERCASE_Z)"

definition asciiIdContinue :: "char32 \<Rightarrow> bool" where
  "asciiIdContinue cp \<longleftrightarrow> asciiIdStart cp \<or> (LEX_CHAR_0 \<le> cp \<and> cp \<le> LEX_CHAR_9)"

definition IsIdentifierStart :: "icu \<Rightarrow> char32 \<Rightarrow> bool" where
  "IsIdentifierStart ic cp \<longleftrightarrow>
    (if cp < LEX_ASCII_MAX_BITS then asciiIdStart cp else u_hasIDStart ic (ucast cp))"

definition IsIdentifierPart :: "icu \<Rightarrow> char32 \<Rightarrow> bool" where
  "IsIdentifierPart ic cp \<longleftrightarrow>
    (if cp < LEX_ASCII_MAX_BITS then asciiIdContinue cp
     else u_hasIDContinue ic (ucast cp) \<or> cp = LEX_CHAR_ZWNJ \<or> cp = LEX_CHAR_ZWJ)"

section \<open>Numbers\<close>

definition CheckNumberLiteralEnd :: "unit lexM" where
  "CheckNumberLiteralEnd =
    thenM (bindM lexPeek (\<lambda>p.
      if p = LEX_CHAR_LOWERCASE_N then thenM (lexForward 1) (addFlag TF_NUMBER_BIGINT) else ret ()))
    (bindM startIndex (\<lambda>b. bindM lexIndex (\<lambda>e. bindM (SourceView b e) (\<lambda>v. thenM (setSrc v)
    (bindM lexPeekCp (\<lambda>nextCp. bindM (getM (\<lambda>s. eIcu (env s))) (\<lambda>ic.
      if IsIdentifierStart ic nextCp \<or> IsDecimalDigit nextCp then ThrowError ''Invalid numeric literal''
      else ret ())))))))"

text \<open>\<open>ScanNumberRadix<rangeCheck, radix>\<close>; the loop carries \<open>number\<close> and \<open>allowNumericOnNext\<close>.\<close>

fun NumberRadix_loop :: "(char32 \<Rightarrow> bool) \<Rightarrow> nat \<Rightarrow> bool \<Rightarrow> nat \<Rightarrow> double \<Rightarrow> bool \<Rightarrow> double lexM" where
  "NumberRadix_loop rangeCheck radix allowNumericSeparator 0 num onNext = out_of_fuel"
| "NumberRadix_loop rangeCheck radix allowNumericSeparator (Suc n) num onNext =
    bindM lexPeek (\<lambda>cp.
      if rangeCheck cp then
        bindM (getM (\<lambda>s. eMulAdd (env s))) (\<lambda>mulAdd.
        thenM (lexForward 1)
          (NumberRadix_loop rangeCheck radix allowNumericSeparator n (mulAdd num radix (lexHexValue cp)) True))
      else if cp = LEX_CHAR_UNDERSCORE then
        (if \<not> allowNumericSeparator \<or> \<not> onNext then ThrowError ''Invalid numeric separator''
         else thenM (addFlag TF_NUMBER_HAS_UNDERSCORE) (thenM (lexForward 1)
           (NumberRadix_loop rangeCheck radix allowNumericSeparator n num False)))
      else if \<not> onNext then
        thenM (lexBackward 1)
          (ThrowError ''Numeric separators are not allowed at the end of numeric literals'')
      else ret num)"

definition ScanNumberRadix :: "(char32 \<Rightarrow> bool) \<Rightarrow> nat \<Rightarrow> bool \<Rightarrow> unit lexM" where
  "ScanNumberRadix rangeCheck radix allowNumericSeparator =
    bindM lexPeek (\<lambda>cp.
      if \<not> rangeCheck cp then ThrowError ''Invalid digit''
      else bindM (lexBounded (\<lambda>n. NumberRadix_loop rangeCheck radix allowNumericSeparator n 0 True)) setNumber)"

fun DecimalNumbers_loop :: "bool \<Rightarrow> nat \<Rightarrow> bool \<Rightarrow> unit lexM" where
  "DecimalNumbers_loop allowNumericSeparator 0 onNext = out_of_fuel"
| "DecimalNumbers_loop allowNumericSeparator (Suc n) onNext =
    bindM lexPeek (\<lambda>cp.
      if IsDecimalDigit cp then thenM (lexForward 1) (DecimalNumbers_loop allowNumericSeparator n True)
      else if cp = LEX_CHAR_UNDERSCORE then
        thenM (lexBackward 1) (bindM lexPeek (\<lambda>prev.
          if prev = LEX_CHAR_DOT \<or> \<not> allowNumericSeparator \<or> \<not> onNext then
            thenM (lexForward 1) (ThrowError ''Invalid numeric separator'')
          else thenM (addFlag TF_NUMBER_HAS_UNDERSCORE) (thenM (lexForward 2)
            (DecimalNumbers_loop allowNumericSeparator n False))))
      else if \<not> onNext then
        ThrowError ''Numeric separators are not allowed at the end of numeric literals''
      else ret ())"

definition ScanDecimalNumbers :: "bool \<Rightarrow> unit lexM" where
  "ScanDecimalNumbers allowNumericSeparator =
    lexBounded (\<lambda>n. DecimalNumbers_loop allowNumericSeparator n True)"

text \<open>
  The text handed to \<open>std::stold\<close>: a plus sign inserted where the exponent has no sign, underscores
  removed.  \<open>None\<close> stands for \<open>numeric_limits<size_t>::max()\<close>.
\<close>

definition convertText :: "nat option \<Rightarrow> bool \<Rightarrow> byte list \<Rightarrow> byte list" where
  "convertText exponentSignPos hasUnderscore v =
    (let utf8 = (case exponentSignPos of None \<Rightarrow> v | Some p \<Rightarrow> take p v @ [0x2B] @ drop p v)
     in if hasUnderscore then filter (\<lambda>b. b \<noteq> 0x5F) utf8 else utf8)"

definition ConvertNumber :: "nat option \<Rightarrow> unit lexM" where
  "ConvertNumber exponentSignPos =
    bindM startIndex (\<lambda>b. bindM lexIndex (\<lambda>e. bindM (SourceView b e) (\<lambda>v.
    bindM (tokenFlag TF_NUMBER_HAS_UNDERSCORE) (\<lambda>us.
    let utf8 = convertText exponentSignPos us v in
    thenM (setSrc utf8)
    (bindM (getM (\<lambda>s. eStold (env s) utf8)) (\<lambda>r. case r of
       StoldValue d \<Rightarrow> setNumber d
     | StoldInvalid \<Rightarrow> ThrowError ''Invalid number''
     | StoldRange \<Rightarrow> setNumber infinity))))))"

text \<open>The fraction of \<open>ScanNumber\<close>: returns \<open>parseExponent\<close> and the new \<open>allowBigInt\<close>.\<close>

definition ScanFraction :: "bool \<Rightarrow> bool \<Rightarrow> (bool \<times> bool) lexM" where
  "ScanFraction allowNumericSeparator allowBigInt =
    bindM lexPeek (\<lambda>p.
      if p = LEX_CHAR_DOT then
        thenM (lexForward 1) (bindM lexPeek (\<lambda>cp.
          if IsDecimalDigit cp \<or> cp = LEX_CHAR_LOWERCASE_E \<or> LEX_CHAR_UPPERCASE_E \<noteq> 0 then
            thenM (ScanDecimalNumbers allowNumericSeparator) (ret (True, False))
          else ret (False, False)))
      else ret (True, allowBigInt))"

text \<open>The exponent of \<open>ScanNumber\<close>: returns \<open>exponentSignPos\<close> and the new \<open>allowBigInt\<close>.\<close>

definition ScanExponent :: "bool \<Rightarrow> bool \<Rightarrow> bool \<Rightarrow> (nat option \<times> bool) lexM" where
  "ScanExponent allowNumericSeparator parseExponent allowBigInt =
    bindM lexPeek (\<lambda>p.
      if p \<in> {LEX_CHAR_LOWERCASE_E, LEX_CHAR_UPPERCASE_E} then
        (if \<not> parseExponent then ret (None, False)
         else thenM (lexForward 1) (bindM lexPeek (\<lambda>cp.
           bindM (if cp = LEX_CHAR_UNDERSCORE then ret None
                  else if cp \<in> {LEX_CHAR_PLUS, LEX_CHAR_MINUS} then thenM (lexForward 1) (ret None)
                  else bindM lexIndex (\<lambda>i. bindM startIndex (\<lambda>b. ret (Some (i - b))))) (\<lambda>signPos.
           bindM lexPeek (\<lambda>d.
             if \<not> IsDecimalDigit d then ThrowError ''Invalid numeric literal''
             else thenM (ScanDecimalNumbers allowNumericSeparator) (ret (signPos, False)))))))
      else ret (None, allowBigInt))"

definition ScanNumber :: "bool \<Rightarrow> bool \<Rightarrow> unit lexM" where
  "ScanNumber allowNumericSeparator allowBigInt =
    thenM (setType LITERAL_NUMBER)
    (thenM (ScanDecimalNumbers allowNumericSeparator)
    (bindM (ScanFraction allowNumericSeparator allowBigInt) (\<lambda>(parseExponent, allowBigInt).
    bindM (ScanExponent allowNumericSeparator parseExponent allowBigInt) (\<lambda>(exponentSignPos, allowBigInt).
    thenM CheckNumberLiteralEnd
    (bindM (tokenFlag TF_NUMBER_BIGINT) (\<lambda>big.
      if big then (if \<not> allowBigInt then ThrowError ''Invalid BigInt number'' else ret ())
      else ConvertNumber exponentSignPos))))))"

definition ScanNumberLeadingZero :: "unit lexM" where
  "ScanNumberLeadingZero =
    thenM (setType LITERAL_NUMBER)
    (bindM lexPeek (\<lambda>p.
      if p \<in> {LEX_CHAR_LOWERCASE_X, LEX_CHAR_UPPERCASE_X} then
        thenM (lexForward 1) (thenM (ScanNumberRadix lexIsHexDigit 16 True) CheckNumberLiteralEnd)
      else if p \<in> {LEX_CHAR_LOWERCASE_B, LEX_CHAR_UPPERCASE_B} then
        thenM (lexForward 1) (thenM (ScanNumberRadix IsBinaryDigit 2 True) CheckNumberLiteralEnd)
      else if p \<in> {LEX_CHAR_LOWERCASE_O, LEX_CHAR_UPPERCASE_O} then
        thenM (lexForward 1) (thenM (ScanNumberRadix IsOctalDigit 8 True)
          (bindM lexPeek (\<lambda>q.
            if q \<in> {LEX_CHAR_8, LEX_CHAR_9} then ThrowError ''Invalid octal digit''
            else CheckNumberLiteralEnd)))
      else if LEX_CHAR_0 \<le> p \<and> p \<le> LEX_CHAR_7 then ThrowError ''Implicit octal literal not allowed''
      else if p \<in> {LEX_CHAR_8, LEX_CHAR_9} then
        ThrowError ''NonOctalDecimalIntegerLiteral is not enabled in strict mode code''
      else ScanNumber (p = LEX_CHAR_0) True))"

section \<open>Strings\<close>

text \<open>\<open>ScanStringUnicodePart\<close>: the text an escape adds to \<open>str\<close>.\<close>

definition simpleEscape :: "char32 \<Rightarrow> char32 option" where
  "simpleEscape cp =
    (if cp = LEX_CHAR_LOWERCASE_B then Some LEX_CHAR_BS
     else if cp = LEX_CHAR_LOWERCASE_T then Some LEX_CHAR_TAB
     else if cp = LEX_CHAR_LOWERCASE_N then Some LEX_CHAR_LF
     else if cp = LEX_CHAR_LOWERCASE_V then Some LEX_CHAR_VT
     else if cp = LEX_CHAR_LOWERCASE_F then Some LEX_CHAR_FF
     else if cp = LEX_CHAR_LOWERCASE_R then Some LEX_CHAR_CR
     else None)"

definition plainEscape :: "char32 \<Rightarrow> nat \<Rightarrow> byte list lexM" where
  "plainEscape cp cpSize =
    bindM lexPeek (\<lambda>p.
      if IsDecimalDigit p then ThrowError ''Invalid character escape sequence in strict mode''
      else thenM (lexForward cpSize) (ret (Utf8Encode cp)))"

definition ScanStringUnicodePart :: "byte list lexM" where
  "ScanStringUnicodePart =
    bindM lexPeekCpSize (\<lambda>(cp, cpSize).
      if cp = INVALID_CP then ThrowError ''Unterminated string''
      else if cp = LEX_CHAR_CR then
        thenM skipCR (thenM newLine (thenM (lexForward cpSize) (ret [])))
      else if cp \<in> {LEX_CHAR_LS, LEX_CHAR_PS, LEX_CHAR_LF} then
        thenM newLine (thenM (lexForward cpSize) (ret []))
      else if cp = LEX_CHAR_LOWERCASE_X then
        thenM (lexForward 1) (bindM (ScanHexEscape 2 0) (\<lambda>c. ret (Utf8Encode c)))
      else if cp = LEX_CHAR_LOWERCASE_U then
        bindM ScanUnicodeEscapeSequence (\<lambda>c. ret (Utf8Encode c))
      else if cp = LEX_CHAR_0 then
        thenM (lexForward 1) (bindM lexPeek (\<lambda>d. thenM (lexBackward 1)
          (if \<not> IsDecimalDigit d then thenM (lexForward cpSize) (ret (Utf8Encode LEX_CHAR_NULL))
           else plainEscape cp cpSize)))
      else (case simpleEscape cp of
          Some c \<Rightarrow> thenM (lexForward cpSize) (ret (Utf8Encode c))
        | None \<Rightarrow> plainEscape cp cpSize))"

definition finishString :: "nat \<Rightarrow> byte list \<Rightarrow> nat \<Rightarrow> unit lexM" where
  "finishString startPos str escapeEnd =
    bindM (tokenFlag TF_HAS_ESCAPE) (\<lambda>escaped. bindM lexIndex (\<lambda>e.
      if escaped then bindM (SourceView escapeEnd e) (\<lambda>v. setSrc (str @ v))
      else bindM (SourceView startPos e) setSrc))"

fun ScanString_loop :: "char32 \<Rightarrow> nat \<Rightarrow> nat \<Rightarrow> byte list \<Rightarrow> nat \<Rightarrow> unit lexM" where
  "ScanString_loop quote startPos 0 str escapeEnd = out_of_fuel"
| "ScanString_loop quote startPos (Suc n) str escapeEnd =
    bindM lexPeek (\<lambda>cp.
      if cp = INVALID_CP then ThrowError ''Unterminated string''
      else if cp \<in> {LEX_CHAR_CR, LEX_CHAR_LF} then
        (if quote \<noteq> LEX_CHAR_BACK_TICK then ThrowError ''Newline is not allowed in strings''
         else thenM (addFlag TF_HAS_ESCAPE) (bindM lexIndex (\<lambda>e. bindM (SourceView escapeEnd e) (\<lambda>v.
           thenM (if cp = LEX_CHAR_CR then skipCR else ret ())
           (thenM newLine (thenM (lexForward 1) (bindM lexIndex (\<lambda>e.
             ScanString_loop quote startPos n (str @ v @ Utf8Encode LEX_CHAR_LF) e))))))))
      else if cp = LEX_CHAR_BACKSLASH then
        thenM (addFlag TF_HAS_ESCAPE) (bindM lexIndex (\<lambda>e. bindM (SourceView escapeEnd e) (\<lambda>v.
          thenM (lexForward 1) (bindM ScanStringUnicodePart (\<lambda>x. bindM lexIndex (\<lambda>e.
            ScanString_loop quote startPos n (str @ v @ x) e))))))
      else if cp \<in> {LEX_CHAR_BACK_TICK, LEX_CHAR_SINGLE_QUOTE, LEX_CHAR_DOUBLE_QUOTE} then
        (if quote = cp then finishString startPos str escapeEnd
         else thenM (lexForward 1) (ScanString_loop quote startPos n str escapeEnd))
      else if cp = LEX_CHAR_DOLLAR_SIGN then
        thenM (lexForward 1)
          (if quote = LEX_CHAR_BACK_TICK then
             bindM lexPeek (\<lambda>p.
               if p = LEX_CHAR_LEFT_BRACE then thenM (lexBackward 1) (finishString startPos str escapeEnd)
               else ScanString_loop quote startPos n str escapeEnd)
           else ScanString_loop quote startPos n str escapeEnd)
      else thenM lexSkipCp (ScanString_loop quote startPos n str escapeEnd))"

definition ScanString :: "char32 \<Rightarrow> unit lexM" where
  "ScanString quote =
    thenM (setType LITERAL_STRING) (bindM lexIndex (\<lambda>startPos.
    thenM (lexBounded (\<lambda>n. ScanString_loop quote startPos n [] startPos))
      (if quote \<noteq> LEX_CHAR_BACK_TICK then lexForward 1 else ret ())))"

section \<open>Template strings\<close>

record templateString =
  tstr :: "byte list"
  tend :: nat
  scanExpression :: bool

definition ScanTemplateStringEnd :: "unit lexM" where
  "ScanTemplateStringEnd = thenM (lexForward 1) (thenM SetTokenEnd SkipWhiteSpaces)"

definition templateResult :: "byte list \<Rightarrow> nat \<Rightarrow> bool \<Rightarrow> templateString" where
  "templateResult str e expr = \<lparr>tstr = str, tend = e, scanExpression = expr\<rparr>"

text \<open>The message quotes the two delimiters it expects.\<close>

definition unterminatedTemplate :: string where
  "unterminatedTemplate = ''Unexpected token, expected '' @ [CHR 0x27] @ ''${'' @ [CHR 0x27] @ '' or ''
     @ [CHR 0x27] @ ''`'' @ [CHR 0x27]"

text \<open>The octal check after a backslash: the iterator is on the character after it.\<close>

definition templateOctalCheck :: "char32 \<Rightarrow> unit lexM" where
  "templateOctalCheck nextCp =
    (if IsOctalDigit nextCp then
       thenM (lexForward 1) (bindM lexPeek (\<lambda>p.
         if p \<noteq> LEX_CHAR_BACK_TICK then
           ThrowError ''Octal escape sequences are not allowed in template strings''
         else lexBackward 1))
     else ret ())"

fun TemplateString_loop :: "nat \<Rightarrow> byte list \<Rightarrow> nat \<Rightarrow> templateString lexM" where
  "TemplateString_loop 0 str e = out_of_fuel"
| "TemplateString_loop (Suc n) str e =
    bindM lexPeekCpSize (\<lambda>(cp, cpSize).
      if cp = INVALID_CP then ThrowError unterminatedTemplate
      else if cp = LEX_CHAR_BACK_TICK then
        bindM lexIndex (\<lambda>e. ret (templateResult str e False))
      else if cp \<in> {LEX_CHAR_CR, LEX_CHAR_LF} then
        thenM (if cp = LEX_CHAR_CR then skipCR else ret ())
        (thenM newLine (thenM (lexForward 1) (TemplateString_loop n (str @ Utf8Encode LEX_CHAR_LF) e)))
      else if cp = LEX_CHAR_BACKSLASH then
        thenM (lexForward 1) (bindM lexPeek (\<lambda>nextCp.
          thenM (templateOctalCheck nextCp)
          (if nextCp \<in> {LEX_CHAR_BACK_TICK, LEX_CHAR_BACKSLASH} then
             thenM (lexForward 1) (TemplateString_loop n (str @ Utf8Encode cp @ Utf8Encode nextCp) e)
           else thenM (lexBackward 1) (thenM (lexForward cpSize)
             (TemplateString_loop n (str @ Utf8Encode cp) e)))))
      else if cp = LEX_CHAR_DOLLAR_SIGN then
        bindM lexIndex (\<lambda>e. thenM (lexForward 1) (bindM lexPeek (\<lambda>p.
          if p = LEX_CHAR_LEFT_BRACE then
            thenM (lexForward 1) (thenM SkipWhiteSpaces (ret (templateResult str e True)))
          else TemplateString_loop n (str @ Utf8Encode cp) e)))
      else thenM (lexForward cpSize) (TemplateString_loop n (str @ Utf8Encode cp) e))"

definition ScanTemplateString :: "templateString lexM" where
  "ScanTemplateString = lexBounded (\<lambda>n. TemplateString_loop n [] 0)"

section \<open>Regular expression literals\<close>

definition IsLineTerminatorOrEos :: "bool lexM" where
  "IsLineTerminatorOrEos = bindM lexPeekCp (\<lambda>cp.
    ret (cp \<in> {INVALID_CP, LEX_CHAR_LF, LEX_CHAR_CR, LEX_CHAR_LS, LEX_CHAR_PS}))"

fun RegExpPattern_loop :: "nat \<Rightarrow> bool \<Rightarrow> unit lexM" where
  "RegExpPattern_loop 0 isCharClass = out_of_fuel"
| "RegExpPattern_loop (Suc n) isCharClass =
    bindM lexPeekCpSize (\<lambda>(cp, cpSize).
      if cp \<in> {INVALID_CP, LEX_CHAR_LF, LEX_CHAR_CR, LEX_CHAR_LS, LEX_CHAR_PS} then
        ThrowError ''Unterminated RegExp''
      else if cp = LEX_CHAR_SLASH \<and> \<not> isCharClass then ret ()
      else if cp = LEX_CHAR_BACKSLASH then
        thenM (lexForward 1) (bindM IsLineTerminatorOrEos (\<lambda>eol.
          if eol then RegExpPattern_loop n isCharClass
          else thenM (lexForward cpSize) (RegExpPattern_loop n isCharClass)))
      else thenM (lexForward cpSize) (RegExpPattern_loop n
        (if cp = LEX_CHAR_LEFT_SQUARE then True
         else if cp = LEX_CHAR_RIGHT_SQUARE then False else isCharClass)))"

definition ScanRegExpPattern :: "unit lexM" where
  "ScanRegExpPattern = lexBounded (\<lambda>n. RegExpPattern_loop n False)"

definition regExpFlag :: "char32 \<Rightarrow> u32 option" where
  "regExpFlag cp =
    (if cp = LEX_CHAR_LOWERCASE_G then Some RE_GLOBAL
     else if cp = LEX_CHAR_LOWERCASE_I then Some RE_IGNORE_CASE
     else if cp = LEX_CHAR_LOWERCASE_M then Some RE_MULTILINE
     else if cp = LEX_CHAR_LOWERCASE_S then Some RE_DOTALL
     else if cp = LEX_CHAR_LOWERCASE_U then Some RE_UNICODE
     else if cp = LEX_CHAR_LOWERCASE_Y then Some RE_STICKY
     else None)"

fun RegExpFlags_loop :: "nat \<Rightarrow> u32 \<Rightarrow> u32 lexM" where
  "RegExpFlags_loop 0 resultFlags = out_of_fuel"
| "RegExpFlags_loop (Suc n) resultFlags =
    bindM lexPeekCpSize (\<lambda>(cp, cpSize). bindM (getM (\<lambda>s. eIcu (env s))) (\<lambda>ic.
      if \<not> IsIdentifierPart ic cp then ret resultFlags
      else thenM (lexForward cpSize) (case regExpFlag cp of
          None \<Rightarrow> ret resultFlags
        | Some flag \<Rightarrow>
            if flag = RE_EMPTY \<or> resultFlags AND flag \<noteq> 0 then ThrowError ''Invalid RegExp flag''
            else RegExpFlags_loop n (resultFlags OR flag))))"

definition ScanRegExpFlags :: "u32 lexM" where
  "ScanRegExpFlags = lexBounded (\<lambda>n. RegExpFlags_loop n RE_EMPTY)"

record regExp =
  rePattern :: "byte list"
  reFlagsStr :: "byte list"
  reFlags :: u32

definition ScanRegExp :: "regExp lexM" where
  "ScanRegExp =
    thenM (setType LITERAL_REGEXP) (bindM lexIndex (\<lambda>patternStart.
    thenM ScanRegExpPattern (bindM lexIndex (\<lambda>e. bindM (SourceView patternStart e) (\<lambda>pattern.
    thenM (lexForward 1) (bindM lexIndex (\<lambda>flagsStart.
    bindM ScanRegExpFlags (\<lambda>resultFlags. bindM lexIndex (\<lambda>e. bindM (SourceView flagsStart e) (\<lambda>flags.
    thenM SkipWhiteSpaces (thenM SetTokenEnd
      (ret \<lparr>rePattern = pattern, reFlagsStr = flags, reFlags = resultFlags\<rparr>))))))))))))"

section \<open>Punctuators\<close>

text \<open>
  \<open>opIf c m k\<close>: if the next byte is \<open>c\<close> continue with \<open>m\<close>, else with \<open>k\<close> (a \<open>case\<close> of the switches, which
  only peek); \<open>takeAs t\<close>: set the type to \<open>t\<close> and consume the byte.
\<close>

definition opIf :: "char32 \<Rightarrow> unit lexM \<Rightarrow> unit lexM \<Rightarrow> unit lexM" where
  "opIf c m k = bindM lexPeek (\<lambda>p. if p = c then m else k)"

definition takeAs :: "tokenType \<Rightarrow> unit lexM" where
  "takeAs t = thenM (setType t) (lexForward 1)"

definition ScanQuestionPunctuator :: "unit lexM" where
  "ScanQuestionPunctuator = thenM (setType PUNCTUATOR_QUESTION_MARK)
    (opIf LEX_CHAR_QUESTION
      (thenM (takeAs PUNCTUATOR_NULLISH_COALESCING)
        (opIf LEX_CHAR_EQUALS (takeAs PUNCTUATOR_LOGICAL_NULLISH_EQUAL) (ret ())))
    (opIf LEX_CHAR_DOT
      (thenM (lexForward 1) (bindM lexPeek (\<lambda>p.
        if \<not> IsDecimalDigit p then setType PUNCTUATOR_QUESTION_DOT else lexBackward 1)))
    (ret ())))"

definition ScanLessThanPunctuator :: "unit lexM" where
  "ScanLessThanPunctuator = thenM (setType PUNCTUATOR_LESS_THAN)
    (opIf LEX_CHAR_LESS_THAN
      (thenM (takeAs PUNCTUATOR_LEFT_SHIFT)
        (opIf LEX_CHAR_EQUALS (takeAs PUNCTUATOR_LEFT_SHIFT_EQUAL) (ret ())))
    (opIf LEX_CHAR_EQUALS (takeAs PUNCTUATOR_LESS_THAN_EQUAL) (ret ())))"

definition ScanGreaterThanPunctuator :: "unit lexM" where
  "ScanGreaterThanPunctuator = thenM (setType PUNCTUATOR_GREATER_THAN)
    (opIf LEX_CHAR_GREATER_THAN
      (thenM (takeAs PUNCTUATOR_RIGHT_SHIFT)
        (opIf LEX_CHAR_GREATER_THAN
          (thenM (takeAs PUNCTUATOR_UNSIGNED_RIGHT_SHIFT)
            (opIf LEX_CHAR_EQUALS (takeAs PUNCTUATOR_UNSIGNED_RIGHT_SHIFT_EQUAL) (ret ())))
        (opIf LEX_CHAR_EQUALS (takeAs PUNCTUATOR_RIGHT_SHIFT_EQUAL) (ret ()))))
    (opIf LEX_CHAR_EQUALS (takeAs PUNCTUATOR_GREATER_THAN_EQUAL) (ret ())))"

definition ScanEqualsPunctuator :: "unit lexM" where
  "ScanEqualsPunctuator = thenM (setType PUNCTUATOR_SUBSTITUTION)
    (opIf LEX_CHAR_EQUALS
      (thenM (takeAs PUNCTUATOR_EQUAL)
        (opIf LEX_CHAR_EQUALS (takeAs PUNCTUATOR_STRICT_EQUAL) (ret ())))
    (opIf LEX_CHAR_GREATER_THAN (takeAs PUNCTUATOR_ARROW) (ret ())))"

definition ScanExclamationPunctuator :: "unit lexM" where
  "ScanExclamationPunctuator = thenM (setType PUNCTUATOR_EXCLAMATION_MARK)
    (opIf LEX_CHAR_EQUALS
      (thenM (takeAs PUNCTUATOR_NOT_EQUAL)
        (opIf LEX_CHAR_EQUALS (takeAs PUNCTUATOR_NOT_STRICT_EQUAL) (ret ())))
    (ret ()))"

definition ScanAmpersandPunctuator :: "unit lexM" where
  "ScanAmpersandPunctuator = thenM (setType PUNCTUATOR_BITWISE_AND)
    (opIf LEX_CHAR_AMPERSAND
      (thenM (takeAs PUNCTUATOR_LOGICAL_AND)
        (opIf LEX_CHAR_EQUALS (takeAs PUNCTUATOR_LOGICAL_AND_EQUAL) (ret ())))
    (opIf LEX_CHAR_EQUALS (takeAs PUNCTUATOR_BITWISE_AND_EQUAL) (ret ())))"

definition ScanVLinePunctuator :: "unit lexM" where
  "ScanVLinePunctuator = thenM (setType PUNCTUATOR_BITWISE_OR)
    (opIf LEX_CHAR_VLINE
      (thenM (takeAs PUNCTUATOR_LOGICAL_OR)
        (opIf LEX_CHAR_EQUALS (takeAs PUNCTUATOR_LOGICAL_OR_EQUAL) (ret ())))
    (opIf LEX_CHAR_EQUALS (takeAs PUNCTUATOR_BITWISE_OR_EQUAL) (ret ())))"

definition ScanCircumflexPunctuator :: "unit lexM" where
  "ScanCircumflexPunctuator = thenM (setType PUNCTUATOR_BITWISE_XOR)
    (opIf LEX_CHAR_EQUALS (takeAs PUNCTUATOR_BITWISE_XOR_EQUAL) (ret ()))"

definition ScanPlusPunctuator :: "unit lexM" where
  "ScanPlusPunctuator = thenM (setType PUNCTUATOR_PLUS)
    (opIf LEX_CHAR_PLUS (takeAs PUNCTUATOR_PLUS_PLUS)
    (opIf LEX_CHAR_EQUALS (takeAs PUNCTUATOR_PLUS_EQUAL) (ret ())))"

definition ScanMinusPunctuator :: "unit lexM" where
  "ScanMinusPunctuator = thenM (setType PUNCTUATOR_MINUS)
    (opIf LEX_CHAR_MINUS (takeAs PUNCTUATOR_MINUS_MINUS)
    (opIf LEX_CHAR_EQUALS (takeAs PUNCTUATOR_MINUS_EQUAL) (ret ())))"

definition ScanSlashPunctuator :: "unit lexM" where
  "ScanSlashPunctuator = thenM (setType PUNCTUATOR_DIVIDE)
    (opIf LEX_CHAR_EQUALS (takeAs PUNCTUATOR_DIVIDE_EQUAL) (ret ()))"

definition ScanAsterixPunctuator :: "unit lexM" where
  "ScanAsterixPunctuator = thenM (setType PUNCTUATOR_MULTIPLY)
    (opIf LEX_CHAR_ASTERISK
      (thenM (takeAs PUNCTUATOR_EXPONENTIATION)
        (opIf LEX_CHAR_EQUALS (takeAs PUNCTUATOR_EXPONENTIATION_EQUAL) (ret ())))
    (opIf LEX_CHAR_EQUALS (takeAs PUNCTUATOR_MULTIPLY_EQUAL) (ret ())))"

definition ScanPercentPunctuator :: "unit lexM" where
  "ScanPercentPunctuator = thenM (setType PUNCTUATOR_MOD)
    (opIf LEX_CHAR_EQUALS (takeAs PUNCTUATOR_MOD_EQUAL) (ret ()))"

definition ScanDotPunctuator :: "unit lexM" where
  "ScanDotPunctuator = thenM (setType PUNCTUATOR_PERIOD)
    (bindM lexPeek (\<lambda>p.
      if IsDecimalDigit p then ScanNumber True True
      else if p = LEX_CHAR_QUESTION then takeAs PUNCTUATOR_PERIOD_QUESTION
      else if p = LEX_CHAR_DOT then
        thenM (lexForward 1)
          (opIf LEX_CHAR_DOT (takeAs PUNCTUATOR_PERIOD_PERIOD_PERIOD) (lexBackward 1))
      else ret ()))"

end
