(* ===== verification/Keywords.thy ===== *)
theory Keywords
  imports LexerScan
begin

text \<open>
  \<open>lexer/keywordsUtil.cpp\<close>, \<open>keywordsUtil.h\<close>, \<open>keywordString.h\<close>, the keyword checks of \<open>lexer.cpp\<close> and the code
  \<open>lexer/scripts/keywords.rb\<close> generates from \<open>lexer/templates/keywords.h.erb\<close> and \<open>keywordsMap.h.erb\<close>.

  The script emits one method \<open>Scan<PREFIX>\<close> for every prefix of a keyword; each is the template's body
  with the prefix filled in.  Here they are one function with the prefix as argument (\<open>ScanPrefix\<close>).
\<close>

section \<open>The keyword tables\<close>

record keywordString =
  kwStr :: "byte list"
  kwTokenType :: tokenType
  kwKeywordType :: tokenType

definition bytesOf :: "string \<Rightarrow> byte list" where
  "bytesOf s = map of_char s"

definition KeywordString :: "string \<Rightarrow> tokenType \<Rightarrow> tokenType \<Rightarrow> keywordString" where
  "KeywordString s t k = \<lparr>kwStr = bytesOf s, kwTokenType = t, kwKeywordType = k\<rparr>"

text \<open>The groups of \<open>keywords.rb\<close>, in its order; a group is filed under the first letter of its first key.\<close>

definition keywordGroups :: "keywordString list list" where
  "keywordGroups = [
    [KeywordString ''abstract'' LITERAL_IDENT KEYW_ABSTRACT,
     KeywordString ''any'' LITERAL_IDENT KEYW_ANY,
     KeywordString ''arguments'' LITERAL_IDENT KEYW_ARGUMENTS,
     KeywordString ''as'' LITERAL_IDENT KEYW_AS,
     KeywordString ''asserts'' LITERAL_IDENT KEYW_ASSERTS,
     KeywordString ''async'' LITERAL_IDENT KEYW_ASYNC,
     KeywordString ''await'' LITERAL_IDENT KEYW_AWAIT],
    [KeywordString ''bigint'' LITERAL_IDENT KEYW_BIGINT,
     KeywordString ''boolean'' LITERAL_IDENT KEYW_BOOLEAN,
     KeywordString ''break'' KEYW_BREAK KEYW_BREAK],
    [KeywordString ''case'' KEYW_CASE KEYW_CASE,
     KeywordString ''catch'' KEYW_CATCH KEYW_CATCH,
     KeywordString ''class'' KEYW_CLASS KEYW_CLASS,
     KeywordString ''const'' KEYW_CONST KEYW_CONST,
     KeywordString ''continue'' KEYW_CONTINUE KEYW_CONTINUE],
    [KeywordString ''debugger'' KEYW_DEBUGGER KEYW_DEBUGGER,
     KeywordString ''declare'' KEYW_DECLARE KEYW_DECLARE,
     KeywordString ''default'' KEYW_DEFAULT KEYW_DEFAULT,
     KeywordString ''delete'' KEYW_DELETE KEYW_DELETE,
     KeywordString ''do'' KEYW_DO KEYW_DO],
    [KeywordString ''else'' KEYW_ELSE KEYW_ELSE,
     KeywordString ''enum'' LITERAL_IDENT KEYW_ENUM,
     KeywordString ''eval'' LITERAL_IDENT KEYW_EVAL,
     KeywordString ''export'' KEYW_EXPORT KEYW_EXPORT,
     KeywordString ''extends'' KEYW_EXTENDS KEYW_EXTENDS],
    [KeywordString ''false'' LITERAL_FALSE LITERAL_FALSE,
     KeywordString ''finally'' KEYW_FINALLY KEYW_FINALLY,
     KeywordString ''for'' KEYW_FOR KEYW_FOR,
     KeywordString ''from'' LITERAL_IDENT KEYW_FROM,
     KeywordString ''function'' KEYW_FUNCTION KEYW_FUNCTION],
    [KeywordString ''get'' LITERAL_IDENT KEYW_GET,
     KeywordString ''global'' LITERAL_IDENT KEYW_GLOBAL],
    [KeywordString ''if'' KEYW_IF KEYW_IF,
     KeywordString ''implements'' KEYW_IMPLEMENTS KEYW_IMPLEMENTS,
     KeywordString ''import'' KEYW_IMPORT KEYW_IMPORT,
     KeywordString ''in'' KEYW_IN KEYW_IN,
     KeywordString ''infer'' LITERAL_IDENT KEYW_INFER,
     KeywordString ''instanceof'' KEYW_INSTANCEOF KEYW_INSTANCEOF,
     KeywordString ''interface'' LITERAL_IDENT KEYW_INTERFACE,
     KeywordString ''is'' LITERAL_IDENT KEYW_IS],
    [KeywordString ''keyof'' LITERAL_IDENT KEYW_KEYOF],
    [KeywordString ''let'' KEYW_LET KEYW_LET],
    [KeywordString ''meta'' LITERAL_IDENT KEYW_META,
     KeywordString ''module'' LITERAL_IDENT KEYW_MODULE,
     KeywordString ''namespace'' LITERAL_IDENT KEYW_NAMESPACE],
    [KeywordString ''never'' LITERAL_IDENT KEYW_NEVER,
     KeywordString ''new'' KEYW_NEW KEYW_NEW,
     KeywordString ''null'' LITERAL_NULL LITERAL_NULL,
     KeywordString ''number'' LITERAL_IDENT KEYW_NUMBER],
    [KeywordString ''object'' LITERAL_IDENT KEYW_OBJECT,
     KeywordString ''of'' LITERAL_IDENT KEYW_OF],
    [KeywordString ''package'' KEYW_PACKAGE KEYW_PACKAGE,
     KeywordString ''private'' KEYW_PRIVATE KEYW_PRIVATE,
     KeywordString ''protected'' KEYW_PROTECTED KEYW_PROTECTED,
     KeywordString ''public'' KEYW_PUBLIC KEYW_PUBLIC],
    [KeywordString ''readonly'' LITERAL_IDENT KEYW_READONLY,
     KeywordString ''return'' KEYW_RETURN KEYW_RETURN,
     KeywordString ''require'' LITERAL_IDENT KEYW_REQUIRE],
    [KeywordString ''set'' LITERAL_IDENT KEYW_SET,
     KeywordString ''static'' LITERAL_IDENT KEYW_STATIC,
     KeywordString ''string'' LITERAL_IDENT KEYW_STRING,
     KeywordString ''super'' KEYW_SUPER KEYW_SUPER,
     KeywordString ''switch'' KEYW_SWITCH KEYW_SWITCH],
    [KeywordString ''this'' KEYW_THIS KEYW_THIS,
     KeywordString ''throw'' KEYW_THROW KEYW_THROW,
     KeywordString ''true'' LITERAL_TRUE LITERAL_TRUE,
     KeywordString ''try'' KEYW_TRY KEYW_TRY,
     KeywordString ''type'' LITERAL_IDENT KEYW_TYPE,
     KeywordString ''typeof'' KEYW_TYPEOF KEYW_TYPEOF],
    [KeywordString ''undefined'' LITERAL_IDENT KEYW_UNDEFINED,
     KeywordString ''unknown'' LITERAL_IDENT KEYW_UNKNOWN],
    [KeywordString ''var'' KEYW_VAR KEYW_VAR,
     KeywordString ''void'' KEYW_VOID KEYW_VOID],
    [KeywordString ''while'' KEYW_WHILE KEYW_WHILE,
     KeywordString ''with'' KEYW_WITH KEYW_WITH],
    [KeywordString ''yield'' KEYW_YIELD KEYW_YIELD]]"

text \<open>The tables spelled out, for evaluation.\<close>

lemma keywordGroups_bytes [code]:
  "keywordGroups = [
    [\<lparr>kwStr = [0x61, 0x62, 0x73, 0x74, 0x72, 0x61, 0x63, 0x74], kwTokenType = LITERAL_IDENT, kwKeywordType = KEYW_ABSTRACT\<rparr>,
     \<lparr>kwStr = [0x61, 0x6E, 0x79], kwTokenType = LITERAL_IDENT, kwKeywordType = KEYW_ANY\<rparr>,
     \<lparr>kwStr = [0x61, 0x72, 0x67, 0x75, 0x6D, 0x65, 0x6E, 0x74, 0x73], kwTokenType = LITERAL_IDENT, kwKeywordType = KEYW_ARGUMENTS\<rparr>,
     \<lparr>kwStr = [0x61, 0x73], kwTokenType = LITERAL_IDENT, kwKeywordType = KEYW_AS\<rparr>,
     \<lparr>kwStr = [0x61, 0x73, 0x73, 0x65, 0x72, 0x74, 0x73], kwTokenType = LITERAL_IDENT, kwKeywordType = KEYW_ASSERTS\<rparr>,
     \<lparr>kwStr = [0x61, 0x73, 0x79, 0x6E, 0x63], kwTokenType = LITERAL_IDENT, kwKeywordType = KEYW_ASYNC\<rparr>,
     \<lparr>kwStr = [0x61, 0x77, 0x61, 0x69, 0x74], kwTokenType = LITERAL_IDENT, kwKeywordType = KEYW_AWAIT\<rparr>],
    [\<lparr>kwStr = [0x62, 0x69, 0x67, 0x69, 0x6E, 0x74], kwTokenType = LITERAL_IDENT, kwKeywordType = KEYW_BIGINT\<rparr>,
     \<lparr>kwStr = [0x62, 0x6F, 0x6F, 0x6C, 0x65, 0x61, 0x6E], kwTokenType = LITERAL_IDENT, kwKeywordType = KEYW_BOOLEAN\<rparr>,
     \<lparr>kwStr = [0x62, 0x72, 0x65, 0x61, 0x6B], kwTokenType = KEYW_BREAK, kwKeywordType = KEYW_BREAK\<rparr>],
    [\<lparr>kwStr = [0x63, 0x61, 0x73, 0x65], kwTokenType = KEYW_CASE, kwKeywordType = KEYW_CASE\<rparr>,
     \<lparr>kwStr = [0x63, 0x61, 0x74, 0x63, 0x68], kwTokenType = KEYW_CATCH, kwKeywordType = KEYW_CATCH\<rparr>,
     \<lparr>kwStr = [0x63, 0x6C, 0x61, 0x73, 0x73], kwTokenType = KEYW_CLASS, kwKeywordType = KEYW_CLASS\<rparr>,
     \<lparr>kwStr = [0x63, 0x6F, 0x6E, 0x73, 0x74], kwTokenType = KEYW_CONST, kwKeywordType = KEYW_CONST\<rparr>,
     \<lparr>kwStr = [0x63, 0x6F, 0x6E, 0x74, 0x69, 0x6E, 0x75, 0x65], kwTokenType = KEYW_CONTINUE, kwKeywordType = KEYW_CONTINUE\<rparr>],
    [\<lparr>kwStr = [0x64, 0x65, 0x62, 0x75, 0x67, 0x67, 0x65, 0x72], kwTokenType = KEYW_DEBUGGER, kwKeywordType = KEYW_DEBUGGER\<rparr>,
     \<lparr>kwStr = [0x64, 0x65, 0x63, 0x6C, 0x61, 0x72, 0x65], kwTokenType = KEYW_DECLARE, kwKeywordType = KEYW_DECLARE\<rparr>,
     \<lparr>kwStr = [0x64, 0x65, 0x66, 0x61, 0x75, 0x6C, 0x74], kwTokenType = KEYW_DEFAULT, kwKeywordType = KEYW_DEFAULT\<rparr>,
     \<lparr>kwStr = [0x64, 0x65, 0x6C, 0x65, 0x74, 0x65], kwTokenType = KEYW_DELETE, kwKeywordType = KEYW_DELETE\<rparr>,
     \<lparr>kwStr = [0x64, 0x6F], kwTokenType = KEYW_DO, kwKeywordType = KEYW_DO\<rparr>],
    [\<lparr>kwStr = [0x65, 0x6C, 0x73, 0x65], kwTokenType = KEYW_ELSE, kwKeywordType = KEYW_ELSE\<rparr>,
     \<lparr>kwStr = [0x65, 0x6E, 0x75, 0x6D], kwTokenType = LITERAL_IDENT, kwKeywordType = KEYW_ENUM\<rparr>,
     \<lparr>kwStr = [0x65, 0x76, 0x61, 0x6C], kwTokenType = LITERAL_IDENT, kwKeywordType = KEYW_EVAL\<rparr>,
     \<lparr>kwStr = [0x65, 0x78, 0x70, 0x6F, 0x72, 0x74], kwTokenType = KEYW_EXPORT, kwKeywordType = KEYW_EXPORT\<rparr>,
     \<lparr>kwStr = [0x65, 0x78, 0x74, 0x65, 0x6E, 0x64, 0x73], kwTokenType = KEYW_EXTENDS, kwKeywordType = KEYW_EXTENDS\<rparr>],
    [\<lparr>kwStr = [0x66, 0x61, 0x6C, 0x73, 0x65], kwTokenType = LITERAL_FALSE, kwKeywordType = LITERAL_FALSE\<rparr>,
     \<lparr>kwStr = [0x66, 0x69, 0x6E, 0x61, 0x6C, 0x6C, 0x79], kwTokenType = KEYW_FINALLY, kwKeywordType = KEYW_FINALLY\<rparr>,
     \<lparr>kwStr = [0x66, 0x6F, 0x72], kwTokenType = KEYW_FOR, kwKeywordType = KEYW_FOR\<rparr>,
     \<lparr>kwStr = [0x66, 0x72, 0x6F, 0x6D], kwTokenType = LITERAL_IDENT, kwKeywordType = KEYW_FROM\<rparr>,
     \<lparr>kwStr = [0x66, 0x75, 0x6E, 0x63, 0x74, 0x69, 0x6F, 0x6E], kwTokenType = KEYW_FUNCTION, kwKeywordType = KEYW_FUNCTION\<rparr>],
    [\<lparr>kwStr = [0x67, 0x65, 0x74], kwTokenType = LITERAL_IDENT, kwKeywordType = KEYW_GET\<rparr>,
     \<lparr>kwStr = [0x67, 0x6C, 0x6F, 0x62, 0x61, 0x6C], kwTokenType = LITERAL_IDENT, kwKeywordType = KEYW_GLOBAL\<rparr>],
    [\<lparr>kwStr = [0x69, 0x66], kwTokenType = KEYW_IF, kwKeywordType = KEYW_IF\<rparr>,
     \<lparr>kwStr = [0x69, 0x6D, 0x70, 0x6C, 0x65, 0x6D, 0x65, 0x6E, 0x74, 0x73], kwTokenType = KEYW_IMPLEMENTS, kwKeywordType = KEYW_IMPLEMENTS\<rparr>,
     \<lparr>kwStr = [0x69, 0x6D, 0x70, 0x6F, 0x72, 0x74], kwTokenType = KEYW_IMPORT, kwKeywordType = KEYW_IMPORT\<rparr>,
     \<lparr>kwStr = [0x69, 0x6E], kwTokenType = KEYW_IN, kwKeywordType = KEYW_IN\<rparr>,
     \<lparr>kwStr = [0x69, 0x6E, 0x66, 0x65, 0x72], kwTokenType = LITERAL_IDENT, kwKeywordType = KEYW_INFER\<rparr>,
     \<lparr>kwStr = [0x69, 0x6E, 0x73, 0x74, 0x61, 0x6E, 0x63, 0x65, 0x6F, 0x66], kwTokenType = KEYW_INSTANCEOF, kwKeywordType = KEYW_INSTANCEOF\<rparr>,
     \<lparr>kwStr = [0x69, 0x6E, 0x74, 0x65, 0x72, 0x66, 0x61, 0x63, 0x65], kwTokenType = LITERAL_IDENT, kwKeywordType = KEYW_INTERFACE\<rparr>,
     \<lparr>kwStr = [0x69, 0x73], kwTokenType = LITERAL_IDENT, kwKeywordType = KEYW_IS\<rparr>],
    [\<lparr>kwStr = [0x6B, 0x65, 0x79, 0x6F, 0x66], kwTokenType = LITERAL_IDENT, kwKeywordType = KEYW_KEYOF\<rparr>],
    [\<lparr>kwStr = [0x6C, 0x65, 0x74], kwTokenType = KEYW_LET, kwKeywordType = KEYW_LET\<rparr>],
    [\<lparr>kwStr = [0x6D, 0x65, 0x74, 0x61], kwTokenType = LITERAL_IDENT, kwKeywordType = KEYW_META\<rparr>,
     \<lparr>kwStr = [0x6D, 0x6F, 0x64, 0x75, 0x6C, 0x65], kwTokenType = LITERAL_IDENT, kwKeywordType = KEYW_MODULE\<rparr>,
     \<lparr>kwStr = [0x6E, 0x61, 0x6D, 0x65, 0x73, 0x70, 0x61, 0x63, 0x65], kwTokenType = LITERAL_IDENT, kwKeywordType = KEYW_NAMESPACE\<rparr>],
    [\<lparr>kwStr = [0x6E, 0x65, 0x76, 0x65, 0x72], kwTokenType = LITERAL_IDENT, kwKeywordType = KEYW_NEVER\<rparr>,
     \<lparr>kwStr = [0x6E, 0x65, 0x77], kwTokenType = KEYW_NEW, kwKeywordType = KEYW_NEW\<rparr>,
     \<lparr>kwStr = [0x6E, 0x75, 0x6C, 0x6C], kwTokenType = LITERAL_NULL, kwKeywordType = LITERAL_NULL\<rparr>,
     \<lparr>kwStr = [0x6E, 0x75, 0x6D, 0x62, 0x65, 0x72], kwTokenType = LITERAL_IDENT, kwKeywordType = KEYW_NUMBER\<rparr>],
    [\<lparr>kwStr = [0x6F, 0x62, 0x6A, 0x65, 0x63, 0x74], kwTokenType = LITERAL_IDENT, kwKeywordType = KEYW_OBJECT\<rparr>,
     \<lparr>kwStr = [0x6F, 0x66], kwTokenType = LITERAL_IDENT, kwKeywordType = KEYW_OF\<rparr>],
    [\<lparr>kwStr = [0x70, 0x61, 0x63, 0x6B, 0x61, 0x67, 0x65], kwTokenType = KEYW_PACKAGE, kwKeywordType = KEYW_PACKAGE\<rparr>,
     \<lparr>kwStr = [0x70, 0x72, 0x69, 0x76, 0x61, 0x74, 0x65], kwTokenType = KEYW_PRIVATE, kwKeywordType = KEYW_PRIVATE\<rparr>,
     \<lparr>kwStr = [0x70, 0x72, 0x6F, 0x74, 0x65, 0x63, 0x74, 0x65, 0x64], kwTokenType = KEYW_PROTECTED, kwKeywordType = KEYW_PROTECTED\<rparr>,
     \<lparr>kwStr = [0x70, 0x75, 0x62, 0x6C, 0x69, 0x63], kwTokenType = KEYW_PUBLIC, kwKeywordType = KEYW_PUBLIC\<rparr>],
    [\<lparr>kwStr = [0x72, 0x65, 0x61, 0x64, 0x6F, 0x6E, 0x6C, 0x79], kwTokenType = LITERAL_IDENT, kwKeywordType = KEYW_READONLY\<rparr>,
     \<lparr>kwStr = [0x72, 0x65, 0x74, 0x75, 0x72, 0x6E], kwTokenType = KEYW_RETURN, kwKeywordType = KEYW_RETURN\<rparr>,
     \<lparr>kwStr = [0x72, 0x65, 0x71, 0x75, 0x69, 0x72, 0x65], kwTokenType = LITERAL_IDENT, kwKeywordType = KEYW_REQUIRE\<rparr>],
    [\<lparr>kwStr = [0x73, 0x65, 0x74], kwTokenType = LITERAL_IDENT, kwKeywordType = KEYW_SET\<rparr>,
     \<lparr>kwStr = [0x73, 0x74, 0x61, 0x74, 0x69, 0x63], kwTokenType = LITERAL_IDENT, kwKeywordType = KEYW_STATIC\<rparr>,
     \<lparr>kwStr = [0x73, 0x74, 0x72, 0x69, 0x6E, 0x67], kwTokenType = LITERAL_IDENT, kwKeywordType = KEYW_STRING\<rparr>,
     \<lparr>kwStr = [0x73, 0x75, 0x70, 0x65, 0x72], kwTokenType = KEYW_SUPER, kwKeywordType = KEYW_SUPER\<rparr>,
     \<lparr>kwStr = [0x73, 0x77, 0x69, 0x74, 0x63, 0x68], kwTokenType = KEYW_SWITCH, kwKeywordType = KEYW_SWITCH\<rparr>],
    [\<lparr>kwStr = [0x74, 0x68, 0x69, 0x73], kwTokenType = KEYW_THIS, kwKeywordType = KEYW_THIS\<rparr>,
     \<lparr>kwStr = [0x74, 0x68, 0x72, 0x6F, 0x77], kwTokenType = KEYW_THROW, kwKeywordType = KEYW_THROW\<rparr>,
     \<lparr>kwStr = [0x74, 0x72, 0x75, 0x65], kwTokenType = LITERAL_TRUE, kwKeywordType = LITERAL_TRUE\<rparr>,
     \<lparr>kwStr = [0x74, 0x72, 0x79], kwTokenType = KEYW_TRY, kwKeywordType = KEYW_TRY\<rparr>,
     \<lparr>kwStr = [0x74, 0x79, 0x70, 0x65], kwTokenType = LITERAL_IDENT, kwKeywordType = KEYW_TYPE\<rparr>,
     \<lparr>kwStr = [0x74, 0x79, 0x70, 0x65, 0x6F, 0x66], kwTokenType = KEYW_TYPEOF, kwKeywordType = KEYW_TYPEOF\<rparr>],
    [\<lparr>kwStr = [0x75, 0x6E, 0x64, 0x65, 0x66, 0x69, 0x6E, 0x65, 0x64], kwTokenType = LITERAL_IDENT, kwKeywordType = KEYW_UNDEFINED\<rparr>,
     \<lparr>kwStr = [0x75, 0x6E, 0x6B, 0x6E, 0x6F, 0x77, 0x6E], kwTokenType = LITERAL_IDENT, kwKeywordType = KEYW_UNKNOWN\<rparr>],
    [\<lparr>kwStr = [0x76, 0x61, 0x72], kwTokenType = KEYW_VAR, kwKeywordType = KEYW_VAR\<rparr>,
     \<lparr>kwStr = [0x76, 0x6F, 0x69, 0x64], kwTokenType = KEYW_VOID, kwKeywordType = KEYW_VOID\<rparr>],
    [\<lparr>kwStr = [0x77, 0x68, 0x69, 0x6C, 0x65], kwTokenType = KEYW_WHILE, kwKeywordType = KEYW_WHILE\<rparr>,
     \<lparr>kwStr = [0x77, 0x69, 0x74, 0x68], kwTokenType = KEYW_WITH, kwKeywordType = KEYW_WITH\<rparr>],
    [\<lparr>kwStr = [0x79, 0x69, 0x65, 0x6C, 0x64], kwTokenType = KEYW_YIELD, kwKeywordType = KEYW_YIELD\<rparr>]]"
  by (simp add: keywordGroups_def KeywordString_def bytesOf_def)

definition allKeywords :: "keywordString list" where
  "allKeywords = concat keywordGroups"

text \<open>\<open>KeywordsMap::Map\<close>\<close>

definition groupKey :: "keywordString list \<Rightarrow> char32" where
  "groupKey g = ucast (hd (kwStr (hd g)))"

definition KeywordsMap :: "char32 \<Rightarrow> keywordString list" where
  "KeywordsMap cp = (case find (\<lambda>g. groupKey g = cp) keywordGroups of None \<Rightarrow> [] | Some g \<Rightarrow> g)"

text \<open>The cases of the generated method for a prefix: the letters that can follow, and the keyword it is.\<close>

definition extendsPrefix :: "byte list \<Rightarrow> char32 \<Rightarrow> bool" where
  "extendsPrefix key c \<longleftrightarrow> (\<exists>k \<in> set allKeywords. length key < length (kwStr k)
     \<and> take (length key) (kwStr k) = key \<and> ucast (kwStr k ! length key) = c)"

definition keywordOf :: "byte list \<Rightarrow> keywordString option" where
  "keywordOf key = find (\<lambda>k. kwStr k = key) allKeywords"

section \<open>Checks on keywords\<close>

definition hasEscape :: "bool lexM" where
  "hasEscape = tokenFlag TF_HAS_ESCAPE"

definition CheckAwaitKeyword :: "unit lexM" where
  "CheckAwaitKeyword = bindM (getM env) (\<lambda>e.
     if \<not> eIsAsync e then setType LITERAL_IDENT
     else if eDisallowAwait e then ThrowError (CHR 0x27 # ''await'' @ CHR 0x27 # '' is not allowed'')
     else setType KEYW_AWAIT)"

definition CheckKeywordEscape :: "tokenType \<Rightarrow> unit lexM" where
  "CheckKeywordEscape t = bindM hasEscape (\<lambda>esc.
     if esc then ThrowError ''Escape sequences are not allowed in keywords'' else setType t)"

definition CheckEnumKeyword :: "unit lexM" where
  "CheckEnumKeyword = bindM (getM env) (\<lambda>e. bindM hasEscape (\<lambda>esc.
     if eExtension e = JS then ThrowError ''Unexpected reserved keyword''
     else if esc then ThrowError ''Escape sequences are not allowed in keywords''
     else setType LITERAL_IDENT))"

definition CheckLetKeyword :: "unit lexM" where
  "CheckLetKeyword = setType KEYW_LET"

definition CheckYieldKeyword :: "unit lexM" where
  "CheckYieldKeyword = bindM (getM env) (\<lambda>e.
     if \<not> eAllowYield e then ThrowError (CHR 0x27 # ''yield'' @ CHR 0x27 # '' is not allowed'')
     else setType KEYW_YIELD)"

definition CheckFutureReservedKeyword :: "tokenType \<Rightarrow> unit lexM" where
  "CheckFutureReservedKeyword k = thenM (setType LITERAL_IDENT) (bindM (getM env) (\<lambda>e.
     if eExtension e = TS \<and> k \<le> KEYW_INTERFACE then ret ()
     else ThrowError ''Unexpected strict mode reserved keyword''))"

text \<open>\<open>CheckKeyword<keyword_type>\<close>: its \<open>if constexpr\<close> chain, which compares positions in the enumeration.\<close>

definition CheckKeyword :: "tokenType \<Rightarrow> tokenType \<Rightarrow> unit lexM" where
  "CheckKeyword k t =
    (if k = KEYW_AWAIT then CheckAwaitKeyword
     else if k = KEYW_ENUM then CheckEnumKeyword
     else if k = KEYW_YIELD then CheckYieldKeyword
     else if k = KEYW_LET then CheckLetKeyword
     else if k \<le> KEYW_ASYNC then CheckKeywordEscape t
     else if k \<ge> KEYW_PUBLIC then CheckFutureReservedKeyword k
     else setType LITERAL_IDENT)"

text \<open>\<open>LexerNextTokenFlags::KEYWORD_TO_IDENT\<close>\<close>

abbreviation (input) NTF_KEYWORD_TO_IDENT :: u32 where "NTF_KEYWORD_TO_IDENT \<equiv> 1"

definition SetKeyword :: "u32 \<Rightarrow> keywordString \<Rightarrow> unit lexM" where
  "SetKeyword flags kws =
    thenM (setSrc (kwStr kws)) (thenM (setKeywordType (kwKeywordType kws))
    (if flags AND NTF_KEYWORD_TO_IDENT \<noteq> 0 then setType LITERAL_IDENT
     else CheckKeyword (kwKeywordType kws) (kwTokenType kws)))"

section \<open>Identifiers\<close>

text \<open>\<open>KeywordsUtil::ScanUnicodeEscapeSequence\<close>: the iterator is on a backslash.\<close>

definition kwUnicodeEscape :: "char32 lexM" where
  "kwUnicodeEscape = thenM (addFlag TF_HAS_ESCAPE) (thenM (lexForward 1) (bindM lexPeek (\<lambda>p.
     if p \<noteq> LEX_CHAR_LOWERCASE_U then ret INVALID_CP else ScanUnicodeEscapeSequence)))"

fun IdContinue_loop :: "nat \<Rightarrow> byte list \<Rightarrow> nat \<Rightarrow> (byte list \<times> nat) lexM" where
  "IdContinue_loop 0 ident escapeEnd = out_of_fuel"
| "IdContinue_loop (Suc n) ident escapeEnd =
    bindM (getM (\<lambda>s. eIcu (env s))) (\<lambda>ic. bindM lexPeek (\<lambda>p.
      if p = LEX_CHAR_BACKSLASH then
        bindM lexIndex (\<lambda>e. bindM (SourceView escapeEnd e) (\<lambda>v. bindM kwUnicodeEscape (\<lambda>cp.
          if \<not> IsIdentifierPart ic cp then ThrowError ''Invalid identifier part''
          else bindM lexIndex (\<lambda>e. IdContinue_loop n (ident @ v @ Utf8Encode cp) e))))
      else bindM lexPeekCpSize (\<lambda>(cp, cpSize).
        if \<not> IsIdentifierPart ic cp then ret (ident, escapeEnd)
        else thenM (lexForward cpSize) (IdContinue_loop n ident escapeEnd))))"

definition ScanIdContinue :: "char32 \<Rightarrow> unit lexM" where
  "ScanIdContinue cp0 =
    bindM hasEscape (\<lambda>esc.
    bindM (if esc then lexIndex else startIndex) (\<lambda>startPos.
    bindM (lexBounded (\<lambda>n. IdContinue_loop n (if esc then Utf8Encode cp0 else []) startPos)) (\<lambda>(ident, escapeEnd).
    thenM (setType LITERAL_IDENT) (thenM (setKeywordType EOS)
    (bindM hasEscape (\<lambda>esc. bindM lexIndex (\<lambda>e.
      if esc then bindM (SourceView escapeEnd e) (\<lambda>v. setSrc (ident @ v))
      else bindM (SourceView startPos e) setSrc)))))))"

text \<open>\<open>std::string_view::compare\<close>: negative, zero or positive.\<close>

fun compareStr :: "byte list \<Rightarrow> byte list \<Rightarrow> int" where
  "compareStr [] [] = 0"
| "compareStr [] (y # ys) = -1"
| "compareStr (x # xs) [] = 1"
| "compareStr (x # xs) (y # ys) = (if x = y then compareStr xs ys else if x < y then -1 else 1)"

text \<open>
  The binary search of \<open>ScanIdContinueMaybeKeyword\<close>, with the action on a hit as an argument.  It does not
  stop at a hit.  Reading \<open>map[middle]\<close> past the table is undefined behaviour.
\<close>

function BinarySearch :: "(keywordString \<Rightarrow> ('s, 'e, unit) comp) \<Rightarrow> keywordString list \<Rightarrow> byte list \<Rightarrow> nat \<Rightarrow> nat \<Rightarrow>
    ('s, 'e, unit) comp" where
  "BinarySearch hit kmap str start stop =
    (let middle = (start + stop) div 2 in
     if length kmap \<le> middle then (\<lambda>s. Undefined)
     else let kws = kmap ! middle; relation = compareStr str (kwStr kws) in
       thenM (if relation = 0 then hit kws else ret ())
         (if relation > 0
          then (if stop \<le> middle + 1 then ret () else BinarySearch hit kmap str (middle + 1) stop)
          else (if middle \<le> start then ret () else BinarySearch hit kmap str start middle)))"
  by pat_completeness auto
termination
  by (relation "measure (\<lambda>(hit, kmap, str, start, stop). stop - start)") auto

declare BinarySearch.simps [simp del]

definition ScanIdContinueMaybeKeyword :: "u32 \<Rightarrow> char32 \<Rightarrow> keywordString list \<Rightarrow> unit lexM" where
  "ScanIdContinueMaybeKeyword flags cp0 kmap =
    thenM (ScanIdContinue cp0) (bindM hasEscape (\<lambda>esc.
      if \<not> esc \<or> kmap = [] then ret ()
      else bindM (getM (\<lambda>s. tokSrc (tok s))) (\<lambda>str.
        BinarySearch (SetKeyword flags) kmap str 0 (length kmap))))"

definition ScanIdentifierStart :: "u32 \<Rightarrow> char32 \<Rightarrow> unit lexM" where
  "ScanIdentifierStart flags cp =
    bindM (getM (\<lambda>s. eIcu (env s))) (\<lambda>ic.
      if \<not> IsIdentifierStart ic cp then ThrowError ''Expected an identifier''
      else ScanIdContinueMaybeKeyword flags cp (KeywordsMap cp))"

section \<open>The generated scanners\<close>

fun ScanPrefix_loop :: "u32 \<Rightarrow> nat \<Rightarrow> byte list \<Rightarrow> unit lexM" where
  "ScanPrefix_loop flags 0 key = out_of_fuel"
| "ScanPrefix_loop flags (Suc n) key =
    bindM lexPeek (\<lambda>p.
      if extendsPrefix key p then thenM (lexForward 1) (ScanPrefix_loop flags n (key @ [ucast p]))
      else let rest = ScanIdContinueMaybeKeyword flags INVALID_CP (KeywordsMap (ucast (hd key))) in
        (case keywordOf key of
           None \<Rightarrow> rest
         | Some kws \<Rightarrow> bindM (getM (\<lambda>s. eIcu (env s))) (\<lambda>ic. bindM lexPeekCp (\<lambda>c.
             if \<not> IsIdentifierPart ic c then SetKeyword flags kws else rest))))"

definition ScanPrefix :: "u32 \<Rightarrow> byte list \<Rightarrow> unit lexM" where
  "ScanPrefix flags key = lexBounded (\<lambda>n. ScanPrefix_loop flags n key)"

end
