(* ===== verification/Lexer.thy ===== *)
theory Lexer
  imports Keywords
begin

text \<open>
  \<open>Lexer::NextToken\<close>: the dispatch on the first code unit of a token.
\<close>

section \<open>The next token\<close>

text \<open>The characters whose case is \<open>kwu.ScanIdContinue()\<close>, and the letters that start a keyword.\<close>

definition plainIdentStart :: "char32 \<Rightarrow> bool" where
  "plainIdentStart cp \<longleftrightarrow> cp \<in> {LEX_CHAR_DOLLAR_SIGN, LEX_CHAR_UNDERSCORE, LEX_CHAR_LOWERCASE_H,
     LEX_CHAR_LOWERCASE_J, LEX_CHAR_LOWERCASE_Q, LEX_CHAR_LOWERCASE_X, LEX_CHAR_LOWERCASE_Z}
   \<or> (LEX_CHAR_UPPERCASE_A \<le> cp \<and> cp \<le> LEX_CHAR_UPPERCASE_Z)"

definition keywordStart :: "char32 \<Rightarrow> bool" where
  "keywordStart cp \<longleftrightarrow> LEX_CHAR_LOWERCASE_A \<le> cp \<and> cp \<le> LEX_CHAR_LOWERCASE_Z \<and> \<not> plainIdentStart cp"

text \<open>The punctuators that are one character whatever follows.\<close>

definition singlePunctuator :: "char32 \<Rightarrow> tokenType option" where
  "singlePunctuator cp =
    (if cp = LEX_CHAR_HASH_MARK then Some PUNCTUATOR_HASH_MARK
     else if cp = LEX_CHAR_LEFT_PAREN then Some PUNCTUATOR_LEFT_PARENTHESIS
     else if cp = LEX_CHAR_RIGHT_PAREN then Some PUNCTUATOR_RIGHT_PARENTHESIS
     else if cp = LEX_CHAR_COMMA then Some PUNCTUATOR_COMMA
     else if cp = LEX_CHAR_COLON then Some PUNCTUATOR_COLON
     else if cp = LEX_CHAR_SEMICOLON then Some PUNCTUATOR_SEMI_COLON
     else if cp = LEX_CHAR_AT then Some PUNCTUATOR_AT
     else if cp = LEX_CHAR_LEFT_SQUARE then Some PUNCTUATOR_LEFT_SQUARE_BRACKET
     else if cp = LEX_CHAR_RIGHT_SQUARE then Some PUNCTUATOR_RIGHT_SQUARE_BRACKET
     else if cp = LEX_CHAR_TILDE then Some PUNCTUATOR_TILDE
     else None)"

text \<open>The punctuators with a scanner of their own.\<close>

definition punctuatorScanner :: "char32 \<Rightarrow> unit lexM option" where
  "punctuatorScanner cp =
    (if cp = LEX_CHAR_EXCLAMATION then Some ScanExclamationPunctuator
     else if cp = LEX_CHAR_PERCENT then Some ScanPercentPunctuator
     else if cp = LEX_CHAR_AMPERSAND then Some ScanAmpersandPunctuator
     else if cp = LEX_CHAR_ASTERISK then Some ScanAsterixPunctuator
     else if cp = LEX_CHAR_PLUS then Some ScanPlusPunctuator
     else if cp = LEX_CHAR_MINUS then Some ScanMinusPunctuator
     else if cp = LEX_CHAR_DOT then Some ScanDotPunctuator
     else if cp = LEX_CHAR_SLASH then Some ScanSlashPunctuator
     else if cp = LEX_CHAR_LESS_THAN then Some ScanLessThanPunctuator
     else if cp = LEX_CHAR_EQUALS then Some ScanEqualsPunctuator
     else if cp = LEX_CHAR_GREATER_THAN then Some ScanGreaterThanPunctuator
     else if cp = LEX_CHAR_QUESTION then Some ScanQuestionPunctuator
     else if cp = LEX_CHAR_CIRCUMFLEX then Some ScanCircumflexPunctuator
     else if cp = LEX_CHAR_VLINE then Some ScanVLinePunctuator
     else None)"

text \<open>An identifier that starts with an escape: the backslash is read.\<close>

definition ScanEscapedIdentifier :: "u32 \<Rightarrow> unit lexM" where
  "ScanEscapedIdentifier flags =
    thenM (addFlag TF_HAS_ESCAPE) (bindM lexPeek (\<lambda>p.
      if p \<noteq> LEX_CHAR_LOWERCASE_U then ThrowError ''Invalid character''
      else bindM ScanUnicodeEscapeSequence (ScanIdentifierStart flags)))"

text \<open>The default case: the iterator is one past the first byte.\<close>

definition ScanOther :: "u32 \<Rightarrow> char32 \<Rightarrow> unit lexM" where
  "ScanOther flags cp =
    thenM (lexBackward 1)
      (if cp = INVALID_CP then setType EOS
       else bindM lexNext (ScanIdentifierStart flags))"

text \<open>
  The \<open>switch\<close> of \<open>NextToken\<close>; the first code unit \<open>cp\<close> is read.  The result says whether the method
  returns at once (after \<open>SetTokenEnd\<close>), i.e. without skipping white space.
\<close>

definition ScanToken :: "u32 \<Rightarrow> char32 \<Rightarrow> bool lexM" where
  "ScanToken flags cp =
    (case singlePunctuator cp of
       Some t \<Rightarrow> thenM (setType t) (ret False)
     | None \<Rightarrow>
    (case punctuatorScanner cp of
       Some scan \<Rightarrow> thenM scan (ret False)
     | None \<Rightarrow>
       if cp \<in> {LEX_CHAR_SINGLE_QUOTE, LEX_CHAR_DOUBLE_QUOTE} then thenM (ScanString cp) (ret False)
       else if cp = LEX_CHAR_0 then thenM ScanNumberLeadingZero (ret False)
       else if LEX_CHAR_1 \<le> cp \<and> cp \<le> LEX_CHAR_9 then thenM (ScanNumber True True) (ret False)
       else if plainIdentStart cp then thenM (ScanIdContinue INVALID_CP) (ret False)
       else if keywordStart cp then thenM (ScanPrefix flags [ucast cp]) (ret False)
       else if cp = LEX_CHAR_BACKSLASH then thenM (ScanEscapedIdentifier flags) (ret False)
       else if cp = LEX_CHAR_BACK_TICK then thenM (setType PUNCTUATOR_BACK_TICK) (ret True)
       else if cp = LEX_CHAR_LEFT_BRACE then
         thenM (setType PUNCTUATOR_LEFT_BRACE) (thenM ConsumeLeftBrace (ret False))
       else if cp = LEX_CHAR_RIGHT_BRACE then
         thenM (setType PUNCTUATOR_RIGHT_BRACE) ConsumeRightBrace
       else thenM (ScanOther flags cp) (ret False)))"

definition NextToken :: "u32 \<Rightarrow> unit lexM" where
  "NextToken flags =
    thenM SetTokenStart (bindM lexPeek (\<lambda>cp. thenM (lexForward 1)
    (bindM (ScanToken flags cp) (\<lambda>atOnce. thenM SetTokenEnd
      (if atOnce then ret () else SkipWhiteSpaces)))))"

end
