(* ===== verification/LexerWp.thy ===== *)
theory LexerWp
  imports Lexer
begin

text \<open>
  Weakest-precondition rules for the lexer: every scanner, run on a code-point boundary of a
  well-formed source, stays inside the source, ends, does not move backwards and leaves the environment
  alone (\<open>step\<close>).  The rules are in continuation form, one per method, in the order of the code.
\<close>

section \<open>Steps\<close>

definition step :: "lexer \<Rightarrow> lexer \<Rightarrow> bool" where
  "step s t \<longleftrightarrow> wf_at (iterator t) \<and> left (iterator t) \<le> left (iterator s) \<and> env t = env s"

text \<open>An ASCII character is ahead.\<close>

definition here :: "iter \<Rightarrow> bool" where
  "here i \<longleftrightarrow> (\<exists>p. Peek i = Some p \<and> p < 0x80)"

named_theorems lex \<open>simplification rules for positions\<close>

lemma here_left: "here i \<Longrightarrow> 0 < left i"
  unfolding here_def left_def by (metis Peek_ascii(1) zero_less_diff)

lemma wf_forward [lex]: "wf_at i \<Longrightarrow> here i \<Longrightarrow> wf_at (Forward (Suc 0) i)"
  unfolding here_def using wf_at_forward_ascii by (metis One_nat_def)

lemma left_forward [lex]: "left (Forward n i) = left i - n"
  by (simp add: left_def Forward_def)

lemma ipos_forward [lex]: "ipos (Forward n i) = ipos i + n"
  by (simp add: Forward_def)

lemma back_forward [lex]: "(Forward n i)\<lparr>ipos := ipos i\<rparr> = i"
  by (simp add: Forward_def)

lemma wf_inside [lex]: "wf_at i \<Longrightarrow> ipos i \<le> length (sv i)"
  by (simp add: wf_at_def)

lemma here_inside [lex]: "here i \<Longrightarrow> Suc (ipos i) \<le> length (sv i)"
  unfolding here_def by (metis Peek_ascii(1) Suc_leI)

lemma here2_inside [lex]: "Suc 0 < left i \<Longrightarrow> Suc (Suc (ipos i)) \<le> length (sv i)"
  by (simp add: left_def)

lemmas digit_tests = IsDecimalDigit_def IsOctalDigit_def lexIsHexDigit_def IsBinaryDigit_def

lemma digit_ascii [lex]:
  "IsDecimalDigit p \<Longrightarrow> p < 0x80" "IsOctalDigit p \<Longrightarrow> p < 0x80" "lexIsHexDigit p \<Longrightarrow> p < 0x80"
  "IsBinaryDigit p \<Longrightarrow> p < 0x80"
  by (auto simp: digit_tests word_le_nat_alt word_less_nat_alt)

section \<open>Primitive operations\<close>

lemma wp_lexPeek [wp]:
  assumes "ipos (iterator s) \<le> length (sv (iterator s))"
    and "\<And>v. Peek (iterator s) = Some v \<Longrightarrow> (v < 0x80 \<Longrightarrow> here (iterator s)) \<Longrightarrow>
      (v < 0x80 \<Longrightarrow> 0 < left (iterator s)) \<Longrightarrow> Q v s"
  shows "wpM F lexPeek s Q"
proof -
  obtain v where v: "Peek (iterator s) = Some v" using Peek_bounds [OF assms(1)] by blast
  then have "Q v s" using here_left by (intro assms(2)) (auto simp: here_def)
  then show ?thesis by (simp add: wpM_def lexPeek_def readM_def v)
qed

lemma wp_pair [wp]: "wpM F (f a b) s Q \<Longrightarrow> wpM F (case (a, b) of (x, y) \<Rightarrow> f x y) s Q"
  by simp

lemma wp_lexPeekCp [wp]:
  assumes "wf_at (iterator s)" and "\<And>v. PeekCp (iterator s) = Some v \<Longrightarrow> Q v s"
  shows "wpM F lexPeekCp s Q"
  using it.advance_total [OF assms(1)] assms(2)
  by (auto simp: wpM_def lexPeekCp_def readM_def PeekCp_def Next_def)

lemma wp_lexForward [wp]:
  "Q () (s\<lparr>iterator := Forward n (iterator s)\<rparr>) \<Longrightarrow> wpM F (lexForward n) s Q"
  unfolding lexForward_def by (rule wp_modify)

lemma wp_lexBackward [wp]:
  assumes "n \<le> ipos (iterator s)"
    and "Q () (s\<lparr>iterator := (iterator s)\<lparr>ipos := ipos (iterator s) - n\<rparr>\<rparr>)"
  shows "wpM F (lexBackward n) s Q"
  using assms by (simp add: wpM_def lexBackward_def Backward_def)

lemma wp_lexBackward_to:
  "Backward n (iterator s) = Some i \<Longrightarrow> Q () (s\<lparr>iterator := i\<rparr>) \<Longrightarrow> wpM F (lexBackward n) s Q"
  by (simp add: wpM_def lexBackward_def)

lemma wp_lexIndex [wp]: "Q (Index (iterator s)) s \<Longrightarrow> wpM F lexIndex s Q"
  unfolding lexIndex_def by (rule wp_get)

lemma wp_SourceView [wp]: "(\<And>v. Q v s) \<Longrightarrow> wpM F (SourceView b e) s Q"
  unfolding SourceView_def by (rule wp_get)

lemma wp_startIndex [wp]: "(\<And>v. Q v s) \<Longrightarrow> wpM F startIndex s Q"
  unfolding startIndex_def by (rule wp_get)

lemma wp_tokenFlag [wp]: "(\<And>v. Q v s) \<Longrightarrow> wpM F (tokenFlag f) s Q"
  unfolding tokenFlag_def by (rule wp_get)

lemma wp_hasEscape [wp]: "(\<And>v. Q v s) \<Longrightarrow> wpM F hasEscape s Q"
  unfolding hasEscape_def by (rule wp_tokenFlag)

lemma wp_modToken [wp]: "Q () (s\<lparr>tok := f (tok s)\<rparr>) \<Longrightarrow> wpM F (modToken f) s Q"
  unfolding modToken_def by (rule wp_modify)

lemma wp_token [wp]:
  "(\<And>k. Q () (s\<lparr>tok := k\<rparr>)) \<Longrightarrow> wpM F (setType t) s Q"
  "(\<And>k. Q () (s\<lparr>tok := k\<rparr>)) \<Longrightarrow> wpM F (setKeywordType t) s Q"
  "(\<And>k. Q () (s\<lparr>tok := k\<rparr>)) \<Longrightarrow> wpM F (addFlag fl) s Q"
  "(\<And>k. Q () (s\<lparr>tok := k\<rparr>)) \<Longrightarrow> wpM F (setSrc v) s Q"
  "(\<And>k. Q () (s\<lparr>tok := k\<rparr>)) \<Longrightarrow> wpM F (setNumber d) s Q"
  unfolding setType_def setKeywordType_def addFlag_def setSrc_def setNumber_def by (intro wp; assumption)+

lemma wp_ThrowError [wp]: "wpM F (ThrowError m) s Q"
  by (simp add: wpM_def ThrowError_def)

lemma wp_newLine [wp]: "(\<And>l. Q () (s\<lparr>lline := l\<rparr>)) \<Longrightarrow> wpM F newLine s Q"
  unfolding newLine_def by (rule wp_modify)

lemma wp_newTokenLine [wp]: "(\<And>l. Q () (s\<lparr>nextTokenLine := l\<rparr>)) \<Longrightarrow> wpM F newTokenLine s Q"
  unfolding newTokenLine_def by (rule wp_modify)

lemma wp_lexBounded [wp]: "wpM F (loop (Suc (left (iterator s)))) s Q \<Longrightarrow> wpM F (lexBounded loop) s Q"
  by (simp add: wpM_def lexBounded_def)

lemma wp_lexNext [wp]:
  assumes "wf_at (iterator s)"
    and "\<And>v t. step s t \<Longrightarrow> (v \<noteq> INVALID_CP \<Longrightarrow> left (iterator t) < left (iterator s)) \<Longrightarrow> Q v t"
  shows "wpM F lexNext s Q"
proof -
  obtain v i where n: "Next (iterator s) = Some (v, i)" using it.advance_total [OF assms(1)] by blast
  note l = it.advance_le [OF assms(1) n]
  have "Q v (s\<lparr>iterator := i\<rparr>)" by (rule assms(2)) (use l in \<open>auto simp: step_def\<close>)
  then show ?thesis by (simp add: wpM_def lexNext_def n)
qed

lemma wp_lexSkipCp [wp]:
  assumes "wf_at (iterator s)" and "Peek (iterator s) \<noteq> Some INVALID_CP"
    and "\<And>t. step s t \<Longrightarrow> left (iterator t) < left (iterator s) \<Longrightarrow> Q () t"
  shows "wpM F lexSkipCp s Q"
proof -
  obtain v i where n: "Next (iterator s) = Some (v, i)" using it.advance_total [OF assms(1)] by blast
  obtain p where p: "Peek (iterator s) = Some p" "p \<noteq> INVALID_CP"
    using it.peek_total [OF assms(1)] assms(2) by auto
  note l = it.advance_le [OF assms(1) n] it.advance_moves [OF assms(1) p n]
  have "Q () (s\<lparr>iterator := i\<rparr>)" by (rule assms(3)) (use l in \<open>auto simp: step_def\<close>)
  then show ?thesis using SkipCp_Next [OF assms(1)] n by (simp add: wpM_def lexSkipCp_def)
qed

text \<open>Reading a code point with its size: stepping over it keeps the boundary.\<close>

lemma wp_lexPeekCpSize [wp]:
  assumes "wf_at (iterator s)"
    and "\<And>v k. wf_at (Forward k (iterator s)) \<Longrightarrow> (v \<noteq> INVALID_CP \<Longrightarrow> 0 < k \<and> 0 < left (iterator s)) \<Longrightarrow>
      (v < 0x80 \<Longrightarrow> here (iterator s)) \<Longrightarrow> (v < 0x80 \<Longrightarrow> k = Suc 0) \<Longrightarrow>
      (v = INVALID_CP \<Longrightarrow> left (iterator s) = 0) \<Longrightarrow> Q (v, k) s"
  shows "wpM F lexPeekCpSize s Q"
proof -
  obtain v i where n: "Next (iterator s) = Some (v, i)" using it.advance_total [OF assms(1)] by blast
  then obtain k where k: "DecodeCP (iterator s) = Some (v, k)" "i = Forward k (iterator s)"
    by (auto simp: Next_def Forward_def)
  note l = it.advance_le [OF assms(1) n]
  have "Q (v, k) s" by (rule assms(2)) (use k l DecodeCP_below [OF assms(1) k(1)] DecodeCP_ascii [of "iterator s" v] in \<open>auto simp: here_def lex\<close>)
  then show ?thesis by (simp add: wpM_def lexPeekCpSize_def readM_def PeekCpSize_def k)
qed

section \<open>White space and comments\<close>

lemma wp_skipCR [wp]:
  assumes "here (iterator s)" and "wf_at (iterator s)"
    and "\<And>t. step s t \<Longrightarrow> here (iterator t) \<Longrightarrow> 0 < left (iterator t) \<Longrightarrow> Q () t"
  shows "wpM F skipCR s Q"
  unfolding skipCR_def
  by (intro wp assms(3)) (use assms(1,2) here_left [OF assms(1)] in \<open>auto simp: lex step_def simp del: Forward_Forward\<close>)

lemma wp_MultiLineComment_loop [wp]:
  assumes "wf_at (iterator s)" and "left (iterator s) < n" and "\<And>t. step s t \<Longrightarrow> Q () t"
  shows "wpM F (MultiLineComment_loop n) s Q"
  using assms
proof (induction n arbitrary: s)
  case 0 then show ?case by simp
next
  case (Suc n)
  show ?case unfolding MultiLineComment_loop.simps
    by (intro wp Suc.IH Suc.prems(3)) (use Suc.prems(1,2) in \<open>auto simp: lex step_def simp del: Forward_Forward\<close>)
qed

lemma wp_SkipMultiLineComment [wp]:
  assumes "wf_at (iterator s)" and "\<And>t. step s t \<Longrightarrow> Q () t"
  shows "wpM F SkipMultiLineComment s Q"
  unfolding SkipMultiLineComment_def by (intro wp assms) simp

lemma wp_SingleLineComment_loop [wp]:
  assumes "wf_at (iterator s)" and "left (iterator s) < n" and "\<And>t. step s t \<Longrightarrow> Q () t"
  shows "wpM F (SingleLineComment_loop n) s Q"
  using assms
proof (induction n arbitrary: s)
  case 0 then show ?case by simp
next
  case (Suc n)
  show ?case unfolding SingleLineComment_loop.simps
    by (intro wp Suc.IH Suc.prems(3)) (use Suc.prems(1,2) in \<open>auto simp: lex step_def simp del: Forward_Forward\<close>)
qed

lemma wp_SkipSingleLineComment [wp]:
  assumes "wf_at (iterator s)" and "\<And>t. step s t \<Longrightarrow> Q () t"
  shows "wpM F SkipSingleLineComment s Q"
  unfolding SkipSingleLineComment_def by (intro wp assms) simp

lemma wp_WhiteSpaces_loop [wp]:
  assumes "wf_at (iterator s)" and "left (iterator s) < n" and "\<And>t. step s t \<Longrightarrow> Q () t"
  shows "wpM F (WhiteSpaces_loop n) s Q"
  using assms
proof (induction n arbitrary: s)
  case 0 then show ?case by simp
next
  case (Suc n)
  show ?case unfolding WhiteSpaces_loop.simps
    by (intro wp Suc.IH Suc.prems(3)) (use Suc.prems(1,2) in \<open>auto simp: lex step_def simp del: Forward_Forward\<close>)
qed

lemma wp_SkipWhiteSpaces [wp]:
  assumes "wf_at (iterator s)" and "\<And>t. step s t \<Longrightarrow> Q () t"
  shows "wpM F SkipWhiteSpaces s Q"
  unfolding SkipWhiteSpaces_def by (intro wp assms) simp

section \<open>Escapes\<close>

lemma wp_ScanHexEscape [wp]:
  assumes "wf_at (iterator s)" and "\<And>v t. step s t \<Longrightarrow> Q v t"
  shows "wpM F (ScanHexEscape n c) s Q"
  using assms
proof (induction n arbitrary: s c)
  case 0 then show ?case by (auto intro!: wp simp: step_def)
next
  case (Suc n)
  show ?case unfolding ScanHexEscape.simps
    by (intro wp Suc.IH Suc.prems(2)) (use Suc.prems(1) in \<open>auto simp: lex step_def simp del: Forward_Forward\<close>)
qed

lemma wp_CodePointEscape_loop [wp]:
  assumes "wf_at (iterator s)" and "left (iterator s) < n"
    and "\<And>v p t. step s t \<Longrightarrow> (p < 0x80 \<Longrightarrow> here (iterator t)) \<Longrightarrow> Q (v, p) t"
  shows "wpM F (CodePointEscape_loop n c) s Q"
  using assms
proof (induction n arbitrary: s c)
  case 0 then show ?case by simp
next
  case (Suc n)
  show ?case unfolding CodePointEscape_loop.simps Let_def
    by (intro wp Suc.IH Suc.prems(3)) (use Suc.prems(1,2) in \<open>auto simp: lex step_def simp del: Forward_Forward\<close>)
qed

lemma wp_ScanUnicodeCodePointEscape [wp]:
  assumes "wf_at (iterator s)" and "\<And>v t. step s t \<Longrightarrow> Q v t"
  shows "wpM F ScanUnicodeCodePointEscape s Q"
  unfolding ScanUnicodeCodePointEscape_def
  by (intro wp assms(2)) (use assms(1) in \<open>auto simp: lex step_def simp del: Forward_Forward\<close>)

lemma wp_ScanUnicodeEscapeSequence [wp]:
  assumes "wf_at (iterator s)" and "here (iterator s)"
    and "\<And>v t. step s t \<Longrightarrow> left (iterator t) < left (iterator s) \<Longrightarrow> Q v t"
  shows "wpM F ScanUnicodeEscapeSequence s Q"
  unfolding ScanUnicodeEscapeSequence_def
  by (intro wp assms(3)) (use assms(1,2) here_left [OF assms(2)] in \<open>auto simp: lex step_def simp del: Forward_Forward\<close>)

section \<open>Numbers\<close>

text \<open>The number scanners run with at least one byte of the token behind them.\<close>

definition nstep :: "lexer \<Rightarrow> lexer \<Rightarrow> bool" where
  "nstep s t \<longleftrightarrow> step s t \<and> 0 < ipos (iterator t)"

lemma wp_CheckNumberLiteralEnd [wp]:
  assumes "wf_at (iterator s)" and "\<And>t. step s t \<Longrightarrow> Q () t"
  shows "wpM F CheckNumberLiteralEnd s Q"
  unfolding CheckNumberLiteralEnd_def
  by (intro wp assms(2)) (use assms(1) in \<open>auto simp: lex step_def simp del: Forward_Forward\<close>)

lemma wp_NumberRadix_loop [wp]:
  assumes "wf_at (iterator s)" and "left (iterator s) < n" and "0 < ipos (iterator s)"
    and "\<And>p. rc p \<Longrightarrow> p < 0x80" and "\<And>v t. step s t \<Longrightarrow> Q v t"
  shows "wpM F (NumberRadix_loop rc r sep n num onNext) s Q"
  using assms
proof (induction n arbitrary: s num onNext)
  case 0 then show ?case by simp
next
  case (Suc n)
  show ?case unfolding NumberRadix_loop.simps
    by (intro wp Suc.IH Suc.prems(5)) (use Suc.prems(1-4) in \<open>auto simp: lex step_def simp del: Forward_Forward\<close>)
qed

lemma wp_ScanNumberRadix [wp]:
  assumes "wf_at (iterator s)" and "0 < ipos (iterator s)"
    and "\<And>p. rc p \<Longrightarrow> p < 0x80" and "\<And>t. step s t \<Longrightarrow> Q () t"
  shows "wpM F (ScanNumberRadix rc r sep) s Q"
  unfolding ScanNumberRadix_def
  by (intro wp assms(3,4)) (use assms(1,2) in \<open>auto simp: lex step_def simp del: Forward_Forward\<close>)

lemma forward_back [lex]:
  "0 < ipos i \<Longrightarrow> Forward (Suc 0) (i\<lparr>ipos := ipos i - Suc 0\<rparr>) = i"
  "0 < ipos i \<Longrightarrow> Forward 2 (i\<lparr>ipos := ipos i - Suc 0\<rparr>) = Forward (Suc 0) i"
  by (simp_all add: Forward_def)

lemma wf_inside_back [lex]: "wf_at i \<Longrightarrow> ipos i - n \<le> length (sv i)"
  using wf_inside [of i] by simp

lemma wp_DecimalNumbers_loop [wp]:
  assumes "wf_at (iterator s)" and "left (iterator s) < n" and "0 < ipos (iterator s)"
    and "\<And>t. step s t \<Longrightarrow> 0 < ipos (iterator t) \<Longrightarrow> Q () t"
  shows "wpM F (DecimalNumbers_loop sep n onNext) s Q"
  using assms
proof (induction n arbitrary: s onNext)
  case 0 then show ?case by simp
next
  case (Suc n)
  show ?case unfolding DecimalNumbers_loop.simps
    by (intro wp Suc.IH Suc.prems(4)) (use Suc.prems(1-3) in \<open>auto simp: lex step_def simp del: Forward_Forward\<close>)
qed

lemma wp_ScanDecimalNumbers [wp]:
  assumes "wf_at (iterator s)" and "0 < ipos (iterator s)"
    and "\<And>t. step s t \<Longrightarrow> 0 < ipos (iterator t) \<Longrightarrow> Q () t"
  shows "wpM F (ScanDecimalNumbers sep) s Q"
  unfolding ScanDecimalNumbers_def by (intro wp assms) simp

lemma wp_ConvertNumber [wp]:
  assumes "wf_at (iterator s)" and "\<And>t. step s t \<Longrightarrow> Q () t"
  shows "wpM F (ConvertNumber e) s Q"
proof -
  have "wpM F (case r of StoldValue d \<Rightarrow> setNumber d | StoldInvalid \<Rightarrow> ThrowError m | StoldRange \<Rightarrow> setNumber d') t Q"
    if "step s t" for r t d' m
    using that by (cases r) (auto intro!: wp assms(2) simp: step_def)
  then show ?thesis
    unfolding ConvertNumber_def Let_def by (intro wp) (use assms(1) in \<open>auto simp: step_def\<close>)
qed

lemma wp_ScanFraction [wp]:
  assumes "wf_at (iterator s)" and "0 < ipos (iterator s)"
    and "\<And>a b t. step s t \<Longrightarrow> 0 < ipos (iterator t) \<Longrightarrow> Q (a, b) t"
  shows "wpM F (ScanFraction sep big) s Q"
  unfolding ScanFraction_def
  by (intro wp assms(3)) (use assms(1,2) in \<open>auto simp: lex step_def simp del: Forward_Forward\<close>)

lemma wp_ScanExponent [wp]:
  assumes "wf_at (iterator s)" and "0 < ipos (iterator s)"
    and "\<And>a b t. step s t \<Longrightarrow> 0 < ipos (iterator t) \<Longrightarrow> Q (a, b) t"
  shows "wpM F (ScanExponent sep pe big) s Q"
  unfolding ScanExponent_def
  by (intro wp assms(3)) (use assms(1,2) in \<open>auto simp: lex step_def simp del: Forward_Forward\<close>)

lemma wp_ScanNumber [wp]:
  assumes "wf_at (iterator s)" and "0 < ipos (iterator s)" and "\<And>t. step s t \<Longrightarrow> Q () t"
  shows "wpM F (ScanNumber sep big) s Q"
  unfolding ScanNumber_def
  by (intro wp assms(3)) (use assms(1,2) in \<open>auto simp: lex step_def simp del: Forward_Forward\<close>)

lemma wp_ScanNumberLeadingZero [wp]:
  assumes "wf_at (iterator s)" and "0 < ipos (iterator s)" and "\<And>t. step s t \<Longrightarrow> Q () t"
  shows "wpM F ScanNumberLeadingZero s Q"
  unfolding ScanNumberLeadingZero_def
  by (intro wp assms(3)) (use assms(1,2) in \<open>auto simp: lex step_def simp del: Forward_Forward\<close>)

section \<open>Strings and templates\<close>

lemma wp_plainEscape [wp]:
  assumes "wf_at (iterator s)" and "wf_at (Forward k (iterator s))"
    and "\<And>v t. step s t \<Longrightarrow> Q v t"
  shows "wpM F (plainEscape cp k) s Q"
  unfolding plainEscape_def
  by (intro wp assms(3)) (use assms(1,2) in \<open>auto simp: lex step_def simp del: Forward_Forward\<close>)

lemma wp_option_case [wp]:
  "(\<And>x. v = Some x \<Longrightarrow> wpM F (f x) s Q) \<Longrightarrow> (v = None \<Longrightarrow> wpM F m s Q) \<Longrightarrow>
   wpM F (case v of None \<Rightarrow> m | Some x \<Rightarrow> f x) s Q"
  by (cases v) auto

lemma wp_ScanStringUnicodePart [wp]:
  assumes "wf_at (iterator s)" and "\<And>v t. step s t \<Longrightarrow> Q v t"
  shows "wpM F ScanStringUnicodePart s Q"
  unfolding ScanStringUnicodePart_def
  by (intro wp assms(2)) (use assms(1) in \<open>auto simp: lex step_def simp del: Forward_Forward\<close>)

lemma wp_finishString [wp]:
  assumes "wf_at (iterator s)" and "\<And>t. iterator t = iterator s \<Longrightarrow> env t = env s \<Longrightarrow> Q () t"
  shows "wpM F (finishString b str e) s Q"
  unfolding finishString_def
  by (intro wp assms(2)) (use assms(1) in \<open>auto simp: step_def\<close>)

lemma wp_ScanString_loop [wp]:
  assumes "wf_at (iterator s)" and "left (iterator s) < n" and "q < 0x80"
    and "\<And>t. step s t \<Longrightarrow> (q \<noteq> LEX_CHAR_BACK_TICK \<Longrightarrow> here (iterator t)) \<Longrightarrow> Q () t"
  shows "wpM F (ScanString_loop q b n str e) s Q"
  using assms
proof (induction n arbitrary: s str e)
  case 0 then show ?case by simp
next
  case (Suc n)
  show ?case unfolding ScanString_loop.simps
    by (intro wp Suc.IH Suc.prems(3,4)) (use Suc.prems(1-3) in \<open>auto simp: lex step_def simp del: Forward_Forward\<close>)
qed

lemma wp_ScanString [wp]:
  assumes "wf_at (iterator s)" and "q < 0x80" and "\<And>t. step s t \<Longrightarrow> Q () t"
  shows "wpM F (ScanString q) s Q"
  unfolding ScanString_def
  by (intro wp assms(2,3)) (use assms(1) in \<open>auto simp: lex step_def simp del: Forward_Forward\<close>)

lemma wp_SetTokenEnd [wp]: "(\<And>k. Q () (s\<lparr>tok := k\<rparr>)) \<Longrightarrow> wpM F SetTokenEnd s Q"
  unfolding SetTokenEnd_def by (rule wp_modify)

lemma wp_templateOctalCheck [wp]:
  assumes "wf_at (iterator s)" and "IsOctalDigit c \<Longrightarrow> here (iterator s)"
    and "\<And>t. iterator t = iterator s \<Longrightarrow> env t = env s \<Longrightarrow> Q () t"
  shows "wpM F (templateOctalCheck c) s Q"
  unfolding templateOctalCheck_def
  by (intro wp assms(3)) (use assms(1,2) in \<open>auto simp: lex step_def simp del: Forward_Forward\<close>)

lemma wp_TemplateString_loop [wp]:
  assumes "wf_at (iterator s)" and "left (iterator s) < n" and "\<And>v t. step s t \<Longrightarrow> Q v t"
  shows "wpM F (TemplateString_loop n str e) s Q"
  using assms
proof (induction n arbitrary: s str e)
  case 0 then show ?case by simp
next
  case (Suc n)
  show ?case unfolding TemplateString_loop.simps
    by (intro wp Suc.IH Suc.prems(3)) (use Suc.prems(1,2) in \<open>auto simp: lex step_def simp del: Forward_Forward\<close>)
qed

lemma wp_ScanTemplateString [wp]:
  assumes "wf_at (iterator s)" and "\<And>v t. step s t \<Longrightarrow> Q v t"
  shows "wpM F ScanTemplateString s Q"
  unfolding ScanTemplateString_def by (intro wp assms) simp

lemma wp_ScanTemplateStringEnd [wp]:
  assumes "wf_at (iterator s)" and "here (iterator s)" and "\<And>t. step s t \<Longrightarrow> Q () t"
  shows "wpM F ScanTemplateStringEnd s Q"
  unfolding ScanTemplateStringEnd_def
  by (intro wp assms(3)) (use assms(1,2) in \<open>auto simp: lex step_def simp del: Forward_Forward\<close>)

section \<open>Punctuators\<close>

lemma wp_opIf [wp]:
  assumes "wf_at (iterator s)" and "c < 0x80"
    and "here (iterator s) \<Longrightarrow> wpM F m s Q" and "wpM F k s Q"
  shows "wpM F (opIf c m k) s Q"
  unfolding opIf_def by (intro wp) (use assms in \<open>auto simp: lex\<close>)

lemma wp_takeAs [wp]:
  assumes "wf_at (iterator s)" and "here (iterator s)" and "\<And>t. step s t \<Longrightarrow> Q () t"
  shows "wpM F (takeAs ty) s Q"
  unfolding takeAs_def
  by (intro wp assms(3)) (use assms(1,2) in \<open>auto simp: lex step_def simp del: Forward_Forward\<close>)

lemmas punctuator_defs = ScanQuestionPunctuator_def ScanLessThanPunctuator_def ScanGreaterThanPunctuator_def
  ScanEqualsPunctuator_def ScanExclamationPunctuator_def ScanAmpersandPunctuator_def
  ScanVLinePunctuator_def ScanCircumflexPunctuator_def ScanPlusPunctuator_def ScanMinusPunctuator_def
  ScanSlashPunctuator_def ScanAsterixPunctuator_def ScanPercentPunctuator_def ScanDotPunctuator_def

lemma wp_punctuatorScanner:
  assumes "wf_at (iterator s)" and "0 < ipos (iterator s)" and "punctuatorScanner cp = Some m"
    and "\<And>t. step s t \<Longrightarrow> Q () t"
  shows "wpM F m s Q"
proof -
  have "m \<in> {ScanExclamationPunctuator, ScanPercentPunctuator, ScanAmpersandPunctuator,
      ScanAsterixPunctuator, ScanPlusPunctuator, ScanMinusPunctuator, ScanDotPunctuator,
      ScanSlashPunctuator, ScanLessThanPunctuator, ScanEqualsPunctuator, ScanGreaterThanPunctuator,
      ScanQuestionPunctuator, ScanCircumflexPunctuator, ScanVLinePunctuator}"
    using assms(3) by (auto simp: punctuatorScanner_def split: if_splits)
  then show ?thesis
    by (elim insertE emptyE; simp only: punctuator_defs; intro wp assms(4))
      (use assms(1,2) in \<open>auto simp: lex step_def simp del: Forward_Forward\<close>)
qed

section \<open>Identifiers and keywords\<close>

text \<open>ICU does not count U+FFFF, which \<open>INVALID_CP\<close> becomes as a \<open>UChar\<close>, as an identifier character.\<close>

abbreviation icuOk :: "lexer \<Rightarrow> bool" where
  "icuOk s \<equiv> \<not> u_hasIDContinue (eIcu (env s)) 0xFFFF"

lemma IdPart_end [lex]: "\<not> u_hasIDContinue ic 0xFFFF \<Longrightarrow> \<not> IsIdentifierPart ic INVALID_CP"
proof -
  have "u_hasIDContinue ic (0xFFFFFFFF :: u16) = u_hasIDContinue ic 0xFFFF"
    by (rule arg_cong [where f = "u_hasIDContinue ic"]) simp
  then show "\<not> u_hasIDContinue ic 0xFFFF \<Longrightarrow> \<not> IsIdentifierPart ic INVALID_CP"
    by (simp add: IsIdentifierPart_def)
qed

lemma wp_kwUnicodeEscape [wp]:
  assumes "wf_at (iterator s)" and "here (iterator s)"
    and "\<And>v t. step s t \<Longrightarrow> left (iterator t) < left (iterator s) \<Longrightarrow> Q v t"
  shows "wpM F kwUnicodeEscape s Q"
  unfolding kwUnicodeEscape_def
  by (intro wp assms(3)) (use assms(1,2) here_left [OF assms(2)] in \<open>auto simp: lex step_def simp del: Forward_Forward\<close>)

lemma part_not_end:
  "\<not> u_hasIDContinue ic 0xFFFF \<Longrightarrow> IsIdentifierPart ic v \<Longrightarrow> v \<noteq> INVALID_CP"
  using IdPart_end by blast

lemma wp_IdContinue_loop [wp]:
  assumes "wf_at (iterator s)" and "left (iterator s) < n" and "icuOk s"
    and "\<And>a b t. step s t \<Longrightarrow> Q (a, b) t"
  shows "wpM F (IdContinue_loop n ident e) s Q"
  using assms
proof (induction n arbitrary: s ident e)
  case 0 then show ?case by simp
next
  case (Suc n)
  show ?case unfolding IdContinue_loop.simps
    by (intro wp Suc.IH Suc.prems(4))
      (use Suc.prems(1-3) part_not_end [OF Suc.prems(3)] in \<open>auto simp: lex step_def simp del: Forward_Forward\<close>)
qed

lemma wp_ScanIdContinue [wp]:
  assumes "wf_at (iterator s)" and "icuOk s" and "\<And>t. step s t \<Longrightarrow> Q () t"
  shows "wpM F (ScanIdContinue cp) s Q"
  unfolding ScanIdContinue_def
  by (intro wp assms(3)) (use assms(1,2) in \<open>auto simp: step_def\<close>)

lemmas keyword_checks = CheckKeyword_def CheckAwaitKeyword_def CheckEnumKeyword_def CheckYieldKeyword_def
  CheckLetKeyword_def CheckKeywordEscape_def CheckFutureReservedKeyword_def

lemma wp_SetKeyword [wp]:
  assumes "\<And>t. iterator t = iterator s \<Longrightarrow> env t = env s \<Longrightarrow> Q () t"
  shows "wpM F (SetKeyword flags kws) s Q"
  unfolding SetKeyword_def keyword_checks
  by (intro wp assms) simp_all

lemma wp_BinarySearch:
  assumes "\<And>k s Q. P s \<Longrightarrow> (\<And>t. P t \<Longrightarrow> Q () t) \<Longrightarrow> wpM F (hit k) s Q"
    and "start < stop" and "stop \<le> length kmap" and "P s" and "\<And>t. P t \<Longrightarrow> Q () t"
  shows "wpM F (BinarySearch hit kmap str start stop) s Q"
  using assms(2-)
proof (induction "stop - start" arbitrary: start stop s rule: less_induct)
  case less
  define middle where "middle = (start + stop) div 2"
  have m: "start \<le> middle" "middle < stop" using less.prems(1) by (auto simp: middle_def)
  have up: "wpM F (BinarySearch hit kmap str (middle + 1) stop) t Q" if "\<not> stop \<le> middle + 1" "P t" for t
    using that less.prems m by (intro less.hyps) auto
  have down: "wpM F (BinarySearch hit kmap str start middle) t Q" if "\<not> middle \<le> start" "P t" for t
    using that less.prems m by (intro less.hyps) auto
  have *: "wpM F (if c then (if stop \<le> middle + 1 then ret () else BinarySearch hit kmap str (middle + 1) stop)
      else (if middle \<le> start then ret () else BinarySearch hit kmap str start middle)) t Q" if "P t" for c t
    using that by (intro wp_if wp_ret up down less.prems(4)) auto
  show ?case
    unfolding BinarySearch.simps [of hit kmap str start stop] middle_def [symmetric] Let_def
    using m less.prems(2,3)
    by (simp only: if_not_P not_le) (rule wp_then, rule wp_if, erule assms(1), erule *, rule wp_ret, erule *)
qed

lemma wp_ScanIdContinueMaybeKeyword [wp]:
  assumes "wf_at (iterator s)" and "icuOk s" and "\<And>t. step s t \<Longrightarrow> Q () t"
  shows "wpM F (ScanIdContinueMaybeKeyword flags cp kmap) s Q"
proof -
  have "wpM F (BinarySearch (SetKeyword flags) kmap str 0 (length kmap)) t Q"
    if "kmap \<noteq> []" "step s t" for str t
    using that by (intro wp_BinarySearch [where P = "step s"] wp_SetKeyword assms(3)) (auto simp: step_def)
  then show ?thesis
    unfolding ScanIdContinueMaybeKeyword_def
    by (intro wp assms(3)) (use assms(1,2) in \<open>auto simp: step_def\<close>)
qed

lemma wp_ScanIdentifierStart [wp]:
  assumes "wf_at (iterator s)" and "icuOk s" and "\<And>t. step s t \<Longrightarrow> Q () t"
  shows "wpM F (ScanIdentifierStart flags cp) s Q"
  unfolding ScanIdentifierStart_def by (intro wp assms)

lemma extendsPrefix_ascii: "extendsPrefix key p \<Longrightarrow> p < 0x80"
proof -
  have "\<forall>k \<in> set allKeywords. \<forall>b \<in> set (kwStr k). (ucast b :: char32) < 0x80" by code_simp
  then show "extendsPrefix key p \<Longrightarrow> p < 0x80" by (auto simp: extendsPrefix_def)
qed

lemma wp_ScanPrefix_loop [wp]:
  assumes "wf_at (iterator s)" and "left (iterator s) < n" and "icuOk s" and "\<And>t. step s t \<Longrightarrow> Q () t"
  shows "wpM F (ScanPrefix_loop flags n key) s Q"
  using assms
proof (induction n arbitrary: s key)
  case 0 then show ?case by simp
next
  case (Suc n)
  show ?case unfolding ScanPrefix_loop.simps Let_def
    by (intro wp Suc.IH Suc.prems(4))
      (use Suc.prems(1-3) in \<open>auto simp: lex step_def dest!: extendsPrefix_ascii simp del: Forward_Forward\<close>)
qed

lemma wp_ScanPrefix [wp]:
  assumes "wf_at (iterator s)" and "icuOk s" and "\<And>t. step s t \<Longrightarrow> Q () t"
  shows "wpM F (ScanPrefix flags key) s Q"
  unfolding ScanPrefix_def by (intro wp assms) simp

section \<open>Tokens\<close>

lemma wp_SetTokenStart [wp]:
  assumes "\<And>t. iterator t = iterator s \<Longrightarrow> env t = env s \<Longrightarrow> Q () t"
  shows "wpM F SetTokenStart s Q"
  unfolding SetTokenStart_def by (intro wp assms) auto

lemma wp_ConsumeLeftBrace [wp]:
  assumes "\<And>t. iterator t = iterator s \<Longrightarrow> env t = env s \<Longrightarrow> Q () t"
  shows "wpM F ConsumeLeftBrace s Q"
  unfolding ConsumeLeftBrace_def by (intro wp assms) (auto split: list.splits)

lemma wp_ConsumeRightBrace [wp]:
  assumes "\<And>v t. iterator t = iterator s \<Longrightarrow> env t = env s \<Longrightarrow> Q v t"
  shows "wpM F ConsumeRightBrace s Q"
  using assms by (auto simp: wpM_def ConsumeRightBrace_def split: list.splits)

lemma wp_ScanEscapedIdentifier [wp]:
  assumes "wf_at (iterator s)" and "icuOk s" and "\<And>t. step s t \<Longrightarrow> Q () t"
  shows "wpM F (ScanEscapedIdentifier flags) s Q"
  unfolding ScanEscapedIdentifier_def
  by (intro wp assms(3)) (use assms(1,2) in \<open>auto simp: lex step_def simp del: Forward_Forward\<close>)

lemma wp_ScanOther:
  assumes "iterator s = Forward 1 i" and "wf_at i" and "Peek i = Some cp" and "icuOk s"
    and "\<And>t. wf_at (iterator t) \<Longrightarrow> left (iterator t) \<le> left i \<Longrightarrow> env t = env s \<Longrightarrow>
      (0 < left i \<Longrightarrow> left (iterator t) < left i) \<Longrightarrow> Q () t"
  shows "wpM F (ScanOther flags cp) s Q"
proof -
  have b: "Backward 1 (iterator s) = Some i" using assms(1) by (simp add: Backward_def Forward_def)
  let ?t = "s\<lparr>iterator := i\<rparr>"
  have e: "left i = 0" if "cp = INVALID_CP" using it.peek_end [OF assms(2)] assms(3) that by auto
  have "wpM F (if cp = INVALID_CP then setType EOS else bindM lexNext (ScanIdentifierStart flags)) ?t Q"
  proof (rule wp_if)
    assume "cp = INVALID_CP"
    then show "wpM F (setType EOS) ?t Q" using e assms(2) by (intro wp assms(5)) auto
  next
    assume ne: "cp \<noteq> INVALID_CP"
    obtain v j where n: "Next i = Some (v, j)" using it.advance_total [OF assms(2)] by blast
    note l = it.advance_le [OF assms(2) n] it.advance_moves [OF assms(2,3) ne n]
    have "wpM F (ScanIdentifierStart flags v) (s\<lparr>iterator := j\<rparr>) Q"
      using l assms(4) by (intro wp assms(5)) (auto simp: step_def)
    then show "wpM F (bindM lexNext (ScanIdentifierStart flags)) ?t Q"
      by (simp add: wpM_def bindM_def lexNext_def n)
  qed
  then show ?thesis unfolding ScanOther_def by (intro wp_then wp_lexBackward_to [OF b])
qed

lemma ScanToken_other:
  assumes "\<not> cp < 0x80"
  shows "ScanToken flags cp = thenM (ScanOther flags cp) (ret False)"
proof -
  have "cp \<notin> {0x21..0x7F}" using assms by (auto simp: word_le_nat_alt word_less_nat_alt)
  then have ne: "cp \<noteq> c" if "0x21 \<le> c" "c \<le> 0x7F" for c using that by auto
  have "\<not> cp \<le> c" if "c \<le> 0x7F" for c using that assms by (auto simp: word_le_nat_alt word_less_nat_alt)
  with ne show ?thesis
    by (simp add: ScanToken_def singlePunctuator_def punctuatorScanner_def plainIdentStart_def keywordStart_def)
qed

text \<open>The first character is ASCII and read: \<open>i\<close> is the position before it.\<close>

lemma wp_ScanToken:
  assumes "iterator s = Forward 1 i" and "wf_at i" and "Peek i = Some cp" and "icuOk s"
    and "\<And>v t. wf_at (iterator t) \<Longrightarrow> left (iterator t) \<le> left i \<Longrightarrow> env t = env s \<Longrightarrow>
      (0 < left i \<Longrightarrow> left (iterator t) < left i) \<Longrightarrow> Q v t"
  shows "wpM F (ScanToken flags cp) s Q"
proof (cases "cp < 0x80")
  case False
  show ?thesis unfolding ScanToken_other [OF False]
    by (intro wp_then wp_ScanOther [OF assms(1-4)] wp_ret assms(5))
next
  case True
  then have h: "here i" using assms(3) by (auto simp: here_def)
  note w = wf_forward [OF assms(2) h] here_left [OF h]
  have Q: "Q v t" if "step s t" for v t
    using that assms(1) w by (intro assms(5)) (auto simp: step_def lex)
  have p: "wpM F (thenM m (ret False)) s Q" if "punctuatorScanner cp = Some m" for m
    by (intro wp_then wp_punctuatorScanner [OF _ _ that] wp_ret Q) (use assms(1) w in \<open>auto simp: lex\<close>)
  have o: "wpM F (thenM (ScanOther flags cp) (ret False)) s Q"
    by (intro wp_then wp_ScanOther [OF assms(1-4)] wp_ret assms(5))
  have f: "wf_at (iterator s)" "0 < ipos (iterator s)" "icuOk s" using assms(1,4) w by (simp_all add: lex)
  show ?thesis
    unfolding ScanToken_def
    by (intro wp_option_case wp_if; (erule p | rule o)?;
        (intro wp_then wp_ret wp_token wp_ScanString wp_ScanNumber wp_ScanNumberLeadingZero
          wp_ScanIdContinue wp_ScanPrefix wp_ScanEscapedIdentifier wp_ConsumeLeftBrace wp_ConsumeRightBrace)?;
        (rule f True | assumption | rule Q, (assumption | simp add: step_def f))?)
qed

lemma wp_NextToken:
  assumes "wf_at (iterator s)" and "icuOk s"
    and "\<And>t. step s t \<Longrightarrow> (0 < left (iterator s) \<Longrightarrow> left (iterator t) < left (iterator s)) \<Longrightarrow> Q () t"
  shows "wpM F (NextToken flags) s Q"
proof -
  have scan: "wpM F (bindM (ScanToken flags cp) (\<lambda>atOnce. thenM SetTokenEnd (if atOnce then ret () else SkipWhiteSpaces)))
      (t\<lparr>iterator := Forward 1 (iterator t)\<rparr>) Q"
    if t: "iterator t = iterator s" "env t = env s" and "Peek (iterator t) = Some cp" for t cp
    by (rule wp_bind, rule wp_ScanToken [of _ "iterator t"])
      (use assms(1,2) that in \<open>auto intro!: wp assms(3) simp: step_def\<close>)
  show ?thesis
    unfolding NextToken_def
    by (intro wp_then wp_SetTokenStart wp_bind wp_lexPeek wp_lexForward scan)
      (use assms(1) in \<open>auto simp: lex\<close>)
qed

end
