(* ===== verification/LexerSpec.thy ===== *)
theory LexerSpec
  imports LexerWp RegExpSpec
begin

text \<open>
  What the lexer promises: it never reads outside a well-formed source, always ends, and makes
  progress until the end of the source; it recognises exactly the keywords of the tables, the longest
  operator, and the literals of the language; and the places where it does not.
\<close>

section \<open>Safety, termination and progress\<close>

text \<open>
  C1: on a code-point boundary of a well-formed source \<open>NextToken\<close> never reads outside the source and
  ends: it throws a syntax error, or it returns on a boundary, strictly further in the source unless it
  was already at the end.  (ICU must not count U+FFFF, a noncharacter, as an identifier character.)
\<close>

theorem next_token_total:
  assumes "wf_at (iterator s)" and "\<not> u_hasIDContinue (eIcu (env s)) 0xFFFF"
  shows "(\<exists>t. NextToken flags s = Ok ((), t) \<and> wf_at (iterator t) \<and> env t = env s
      \<and> left (iterator t) \<le> left (iterator s)
      \<and> (0 < left (iterator s) \<longrightarrow> left (iterator t) < left (iterator s)))
    \<or> (\<exists>e. NextToken flags s = Throw e)"
proof -
  have "wpM False (NextToken flags) s (\<lambda>_ t. step s t
      \<and> (0 < left (iterator s) \<longrightarrow> left (iterator t) < left (iterator s)))"
    using assms by (intro wp_NextToken) auto
  from wpM_total [OF this] show ?thesis by (auto simp: step_def)
qed

text \<open>An environment for the concrete runs: ICU knows ASCII, \<open>stold\<close> answers 1.0.\<close>

definition testEnv :: "scriptExtension \<Rightarrow> lexEnv" where
  "testEnv ext = \<lparr>eIcu = ascii_icu, eIsAsync = False, eDisallowAwait = False, eAllowYield = False,
     eExtension = ext, eMulAdd = (\<lambda>x r d. x * of_nat r + ucast d),
     eStold = (\<lambda>_. StoldValue 0x3FF0000000000000)\<rparr>"

definition startLexer :: "lexEnv \<Rightarrow> byte list \<Rightarrow> lexer" where
  "startLexer e src = lexerAt e [] (LexerPosition src)"

lemma startLexer_simps [simp]:
  "iterator (startLexer e src) = \<lparr>sv = src, ipos = 0\<rparr>" "env (startLexer e src) = e"
  by (simp_all add: startLexer_def lexerAt_def LexerPosition_def lexerPosition.defs)

lemma testEnv_icu [simp]: "eIcu (testEnv ext) = ascii_icu"
  by (simp add: testEnv_def)

lemma ascii_icu_end: "\<not> u_hasIDContinue ascii_icu 0xFFFF"
  by (simp add: ascii_icu_def ascii_letter_def)

theorem next_token_total_witness:
  "wf_at (iterator (startLexer (testEnv JS) [0x61, 0xC3, 0xA9])) \<and>
   ((\<exists>t. NextToken 0 (startLexer (testEnv JS) [0x61, 0xC3, 0xA9]) = Ok ((), t) \<and> wf_at (iterator t))
    \<or> (\<exists>e. NextToken 0 (startLexer (testEnv JS) [0x61, 0xC3, 0xA9]) = Throw e))"
proof -
  let ?s = "startLexer (testEnv JS) [0x61, 0xC3, 0xA9]"
  have w: "wf_at (iterator ?s)" by (simp add: wf_at_def seqLen_def isCont_def shortest_def)
  moreover have "\<not> u_hasIDContinue (eIcu (env ?s)) 0xFFFF" using ascii_icu_end by simp
  ultimately show ?thesis using next_token_total by blast
qed

text \<open>The parser pulls tokens until it sees the end of the source.\<close>

fun pullTokens :: "nat \<Rightarrow> token list lexM" where
  "pullTokens 0 = out_of_fuel"
| "pullTokens (Suc n) = thenM (NextToken 0) (bindM (getM tok) (\<lambda>t.
     if tokType t = EOS then ret [t] else bindM (pullTokens n) (\<lambda>ts. ret (t # ts))))"

lemma NextToken_end:
  assumes "wf_at (iterator s)" and "left (iterator s) = 0"
  shows "\<exists>t. NextToken flags s = Ok ((), t) \<and> tokType (tok t) = EOS \<and> iterator t = iterator s"
proof -
  have e: "ipos (iterator s) = length (sv (iterator s))" using assms by (simp add: wf_at_def left_def)
  have pk: "Peek (iterator s) = Some INVALID_CP" using e by (rule Peek_ahead_end)
  obtain s1 where s1: "SetTokenStart s = Ok ((), s1)" "iterator s1 = iterator s"
    by (auto simp: SetTokenStart_def run_defs)
  have bk: "Backward 1 (Forward 1 (iterator s)) = Some (iterator s)"
    by (simp add: Backward_def Forward_def)
  have ws: "SkipWhiteSpaces u = Ok ((), u)" if "iterator u = iterator s" for u
  proof -
    have "PeekCpSize (iterator s) = Some (INVALID_CP, 0)"
      using e by (simp add: PeekCpSize_def DecodeCP_def HasNext_def)
    then show ?thesis using pk that
      by (simp add: SkipWhiteSpaces_def lexBounded_def run_defs lexPeek_def lexPeekCpSize_def)
  qed
  have "\<not> (INVALID_CP :: char32) < 0x80" by simp
  from ScanToken_other [OF this, of flags] show ?thesis
    using s1 pk bk ws
    by (simp add: NextToken_def run_defs lexPeek_def lexForward_def ScanOther_def lexBackward_def setType_def
        modToken_def SetTokenEnd_def)
qed

lemma pullTokens_total:
  assumes "wf_at (iterator s)" and "\<not> u_hasIDContinue (eIcu (env s)) 0xFFFF" and "left (iterator s) < n"
  shows "(\<exists>ts t. pullTokens n s = Ok (ts, t) \<and> ts \<noteq> [] \<and> tokType (last ts) = EOS) \<or> (\<exists>e. pullTokens n s = Throw e)"
  using assms
proof (induction n arbitrary: s)
  case 0 then show ?case by simp
next
  case (Suc n)
  from wp_NextToken [of s "\<lambda>_ t. step s t \<and> (0 < left (iterator s) \<longrightarrow> left (iterator t) < left (iterator s))" False 0]
  have "wpM False (NextToken 0) s (\<lambda>_ t. step s t \<and> (0 < left (iterator s) \<longrightarrow> left (iterator t) < left (iterator s)))"
    using Suc.prems by auto
  from wpM_total [OF this] show ?case
  proof (elim disjE exE conjE)
    fix a t assume t: "NextToken 0 s = Ok (a, t)" "step s t"
      and l: "0 < left (iterator s) \<longrightarrow> left (iterator t) < left (iterator s)"
    show ?thesis
    proof (cases "tokType (tok t) = EOS")
      case True
      then show ?thesis using t by (simp add: run_defs)
    next
      case False
      then have "0 < left (iterator s)" using NextToken_end [OF Suc.prems(1), of 0] t by (cases "left (iterator s)") auto
      then have "left (iterator t) < n" using l Suc.prems(3) by simp
      then show ?thesis using Suc.IH [of t] t Suc.prems(2) False
        by (auto simp: run_defs step_def)
    qed
  next
    fix e assume "NextToken 0 s = Throw e"
    then show ?thesis by (simp add: run_defs)
  qed
qed

text \<open>
  C2: the lexer tokenises every well-formed source file: it can be constructed, and pulling tokens ends
  after at most one more token than the source has bytes, with the end-of-source token or with a syntax
  error, without ever reading outside the source.
\<close>

theorem tokenising_ends:
  assumes "wf_utf8 src" and "\<not> u_hasIDContinue (eIcu e) 0xFFFF"
  shows "(\<exists>x. newLexer e src = Throw x) \<or>
    (\<exists>s. newLexer e src = Ok s \<and>
      ((\<exists>ts t. pullTokens (Suc (length src)) s = Ok (ts, t) \<and> ts \<noteq> [] \<and> tokType (last ts) = EOS)
       \<or> (\<exists>x. pullTokens (Suc (length src)) s = Throw x)))"
proof -
  let ?s = "startLexer e src"
  have "wpM False SkipWhiteSpaces ?s (\<lambda>_ t. step ?s t)"
    using assms(1) by (intro wp_SkipWhiteSpaces) (simp_all add: wf_at_start)
  from wpM_total [OF this] show ?thesis
  proof (elim disjE exE conjE)
    fix a t assume t: "SkipWhiteSpaces ?s = Ok (a, t)" "step ?s t"
    have "left (iterator t) < Suc (length src)" using t(2) by (simp add: step_def left_def)
    then show ?thesis using pullTokens_total [of t "Suc (length src)"] t assms(2)
      by (simp add: newLexer_def step_def flip: startLexer_def)
  next
    fix x assume "SkipWhiteSpaces ?s = Throw x"
    then show ?thesis by (simp add: newLexer_def flip: startLexer_def)
  qed
qed

theorem tokenising_ends_witness:
  "wf_utf8 [0x61, 0x3B] \<and> ((\<exists>x. newLexer (testEnv JS) [0x61, 0x3B] = Throw x) \<or>
    (\<exists>s. newLexer (testEnv JS) [0x61, 0x3B] = Ok s))"
  using tokenising_ends [of "[0x61, 0x3B]" "testEnv JS"] ascii_icu_end by (auto simp: seqLen_def shortest_def)

end
