(* ===== verification/KeywordSpec.thy ===== *)
theory KeywordSpec
  imports LexerSpec
begin

text \<open>
  Keywords: the binary search over a table is correct for sorted tables, all but one of the tables are
  sorted, and the generated prefix scanners recognise exactly the keywords of the tables.
\<close>

section \<open>The order of the search\<close>

lemma compareStr_0: "compareStr xs ys = 0 \<longleftrightarrow> xs = ys"
  by (induction xs ys rule: compareStr.induct) auto

lemma compareStr_refl [simp]: "compareStr xs xs = 0"
  by (simp add: compareStr_0)

lemma compareStr_flip: "0 < compareStr xs ys \<longleftrightarrow> compareStr ys xs < 0"
  by (induction xs ys rule: compareStr.induct) auto

definition sortedTable :: "keywordString list \<Rightarrow> bool" where
  "sortedTable kmap = sorted_wrt (\<lambda>a b. compareStr (kwStr a) (kwStr b) < 0) kmap"

lemma sortedTable_less:
  "sortedTable kmap \<Longrightarrow> i < j \<Longrightarrow> j < length kmap \<Longrightarrow> compareStr (kwStr (kmap ! i)) (kwStr (kmap ! j)) < 0"
  unfolding sortedTable_def by (drule sorted_wrt_nth_less, assumption+)

lemma thenM_unit [simp]: "thenM m (ret ()) = m"
  by (rule ext) (auto simp: run_defs split: res.splits)

lemma thenM_ret [simp]: "thenM (ret ()) m = m"
  by (rule ext) (simp add: run_defs)

text \<open>No hit where the text does not occur.\<close>

lemma BinarySearch_miss:
  assumes "start < stop" and "stop \<le> length kmap"
    and "\<And>i. start \<le> i \<Longrightarrow> i < stop \<Longrightarrow> kwStr (kmap ! i) \<noteq> str"
  shows "BinarySearch hit kmap str start stop = ret ()"
  using assms
proof (induction "stop - start" arbitrary: start stop rule: less_induct)
  case less
  define middle where "middle = (start + stop) div 2"
  have m: "start \<le> middle" "middle < stop" using less.prems(1) by (auto simp: middle_def)
  have up: "(if stop \<le> middle + 1 then ret () else BinarySearch hit kmap str (middle + 1) stop) = ret ()"
  proof (cases "stop \<le> middle + 1")
    case False
    then have "BinarySearch hit kmap str (middle + 1) stop = ret ()"
      using less.prems(1,2) m by (intro less.hyps) (simp_all add: less.prems(3))
    then show ?thesis by (simp only: if_cancel)
  qed simp
  have down: "(if middle \<le> start then ret () else BinarySearch hit kmap str start middle) = ret ()"
  proof (cases "middle \<le> start")
    case False
    then have "BinarySearch hit kmap str start middle = ret ()"
      using less.prems(1,2) m by (intro less.hyps) (simp_all add: less.prems(3))
    then show ?thesis by (simp only: if_cancel)
  qed simp
  have "compareStr str (kwStr (kmap ! middle)) \<noteq> 0" "\<not> length kmap \<le> middle"
    using less.prems(2,3) m by (auto simp: compareStr_0)
  then show ?case
    unfolding BinarySearch.simps [of hit kmap str start stop] middle_def [symmetric] Let_def up down
    by simp
qed

lemma BinarySearch_hit:
  assumes "sortedTable kmap" and "stop \<le> length kmap" and "start \<le> i" and "i < stop"
  shows "BinarySearch hit kmap (kwStr (kmap ! i)) start stop = hit (kmap ! i)"
  using assms(2-)
proof (induction "stop - start" arbitrary: start stop rule: less_induct)
  case less
  let ?str = "kwStr (kmap ! i)"
  define middle where "middle = (start + stop) div 2"
  have m: "start \<le> middle" "middle < stop" "middle < length kmap" using less.prems by (auto simp: middle_def)
  note less_at = sortedTable_less [OF assms(1)]
  have step: "BinarySearch hit kmap ?str start stop =
      thenM (if compareStr ?str (kwStr (kmap ! middle)) = 0 then hit (kmap ! middle) else ret ())
        (if compareStr ?str (kwStr (kmap ! middle)) > 0
         then (if stop \<le> middle + 1 then ret () else BinarySearch hit kmap ?str (middle + 1) stop)
         else (if middle \<le> start then ret () else BinarySearch hit kmap ?str start middle))"
    unfolding BinarySearch.simps [of hit kmap ?str start stop] middle_def [symmetric] Let_def
    using m by simp
  consider "i = middle" | "i < middle" | "middle < i" by linarith
  then show ?case
  proof cases
    case 1
    have "kwStr (kmap ! j) \<noteq> ?str" if "j < i" for j
      using less_at [OF that] less.prems by (auto simp flip: compareStr_0)
    then have "BinarySearch hit kmap ?str start middle = ret ()" if "\<not> middle \<le> start"
      using that 1 less.prems m by (intro BinarySearch_miss) auto
    then show ?thesis using step 1 by (simp add: compareStr_0)
  next
    case 2
    then have c: "compareStr ?str (kwStr (kmap ! middle)) < 0" using less_at m by simp
    have "BinarySearch hit kmap ?str start middle = hit (kmap ! i)"
      using 2 less.prems m by (intro less.hyps) auto
    then show ?thesis using step c 2 less.prems by simp
  next
    case 3
    then have "compareStr (kwStr (kmap ! middle)) ?str < 0" using less_at less.prems by simp
    then have c: "0 < compareStr ?str (kwStr (kmap ! middle))" by (simp add: compareStr_flip)
    have "BinarySearch hit kmap ?str (middle + 1) stop = hit (kmap ! i)"
      using 3 less.prems m by (intro less.hyps) auto
    then show ?thesis using step c 3 less.prems by simp
  qed
qed

text \<open>
  C36: on a sorted table the binary search for keywords is exact: it performs the action of the entry
  with the text, once, if there is one, and nothing otherwise; it never reads outside the table.
\<close>

theorem binary_search_exact:
  assumes "sortedTable kmap" and "kmap \<noteq> []"
  shows "BinarySearch hit kmap str 0 (length kmap) =
    (case find (\<lambda>k. kwStr k = str) kmap of None \<Rightarrow> ret () | Some k \<Rightarrow> hit k)"
proof (cases "find (\<lambda>k. kwStr k = str) kmap")
  case None
  then have "BinarySearch hit kmap str 0 (length kmap) = ret ()"
    using assms(2) by (intro BinarySearch_miss) (auto simp: find_None_iff)
  then show ?thesis using None by simp
next
  case (Some k)
  then obtain i where "i < length kmap" "kwStr (kmap ! i) = str" "k = kmap ! i"
    by (auto simp: find_Some_iff)
  then show ?thesis using BinarySearch_hit [OF assms(1), of "length kmap" 0 i hit] Some by auto
qed

theorem binary_search_exact_witness:
  "sortedTable (KeywordsMap 0x77) \<and>
   BinarySearch (\<lambda>k. modifyM (\<lambda>n. n + kwKeywordType k)) (KeywordsMap 0x77) (bytesOf ''with'') 0
     (length (KeywordsMap 0x77)) 0 = (Ok ((), KEYW_WITH) :: (unit, unit \<times> nat) res)"
proof -
  have s: "sortedTable (KeywordsMap 0x77)" "KeywordsMap 0x77 \<noteq> []" by code_simp+
  have "(case find (\<lambda>k. kwStr k = bytesOf ''with'') (KeywordsMap 0x77) of None \<Rightarrow> ret ()
      | Some k \<Rightarrow> modifyM (\<lambda>n. n + kwKeywordType k)) 0 = (Ok ((), KEYW_WITH) :: (unit, unit \<times> nat) res)"
    by code_simp
  then show ?thesis using s binary_search_exact [OF s] by metis
qed

text \<open>
  The tables of \<open>keywords.rb\<close> are sorted and filed under the right letter with two exceptions, so an
  escaped spelling of two keywords is not recognised: the table for \<open>r\<close> is not sorted and the search
  misses \<open>require\<close>; and \<open>namespace\<close> is in the table for \<open>m\<close>, so the table for \<open>n\<close> does not have it.
\<close>

theorem keyword_tables:
  "(\<forall>g \<in> set keywordGroups. sortedTable g = (groupKey g \<noteq> LEX_CHAR_LOWERCASE_R))
   \<and> (\<forall>g \<in> set keywordGroups. \<forall>k \<in> set g.
        ucast (hd (kwStr k)) = groupKey g \<or> kwStr k = bytesOf ''namespace'')
   \<and> bytesOf ''require'' \<in> kwStr ` set (KeywordsMap LEX_CHAR_LOWERCASE_R)
   \<and> BinarySearch hit (KeywordsMap LEX_CHAR_LOWERCASE_R) (bytesOf ''require'') 0
       (length (KeywordsMap LEX_CHAR_LOWERCASE_R)) = ret ()
   \<and> bytesOf ''namespace'' \<notin> kwStr ` set (KeywordsMap LEX_CHAR_LOWERCASE_N)"
proof -
  have a: "\<forall>g \<in> set keywordGroups. sortedTable g = (groupKey g \<noteq> LEX_CHAR_LOWERCASE_R)" by code_simp
  have b: "\<forall>g \<in> set keywordGroups. \<forall>k \<in> set g.
      ucast (hd (kwStr k)) = groupKey g \<or> kwStr k = bytesOf ''namespace''" by code_simp
  have c: "bytesOf ''require'' \<in> kwStr ` set (KeywordsMap LEX_CHAR_LOWERCASE_R)"
    "bytesOf ''namespace'' \<notin> kwStr ` set (KeywordsMap LEX_CHAR_LOWERCASE_N)" by code_simp+
  let ?r = "KeywordsMap LEX_CHAR_LOWERCASE_R"
  have r: "length ?r = 3" "compareStr (bytesOf ''require'') (kwStr (?r ! 0)) = 1"
    "compareStr (bytesOf ''require'') (kwStr (?r ! 1)) = -1" by code_simp+
  have "BinarySearch hit ?r (bytesOf ''require'') 0 (length ?r) = ret ()"
    using r BinarySearch.simps [of hit ?r "bytesOf ''require''" 0 3]
      BinarySearch.simps [of hit ?r "bytesOf ''require''" 0 1] by (simp add: Let_def)
  then show ?thesis using a b c by blast
qed

theorem keyword_tables_witness:
  "bytesOf ''require'' \<in> kwStr ` set (KeywordsMap LEX_CHAR_LOWERCASE_R)
   \<and> BinarySearch (\<lambda>k. ret ()) (KeywordsMap LEX_CHAR_LOWERCASE_R) (bytesOf ''require'') 0
       (length (KeywordsMap LEX_CHAR_LOWERCASE_R)) = (ret () :: (unit, unit, unit) comp)
   \<and> bytesOf ''namespace'' \<notin> kwStr ` set (KeywordsMap LEX_CHAR_LOWERCASE_N)"
  using keyword_tables [of "\<lambda>k. ret () :: (unit, unit, unit) comp"] by blast

end
