(* ===== verification/Scope.thy ===== *)
theory Scope
  imports LexerState
begin

text \<open>
  \<open>binder/scope.h\<close>, \<open>scope.cpp\<close>, \<open>variable.h\<close>, \<open>variable.cpp\<close>, \<open>declaration.h\<close>, \<open>variableFlags.h\<close> and
  \<open>tsBinding.h\<close>: scopes, variables and declarations.

  The objects live in an arena and are never freed; they point at each other, and one variable may be
  bound in several scopes (a parameter is bound in the parameter scope and in the function scope).  The
  arena is the record \<open>heap\<close>: a pointer is a number, a pointer that may be null an option.  The class of
  a scope decides which override of a virtual method runs; its type may change (a loop scope becomes a
  variable scope when one of its variables is captured).  \<open>UnorderedMap\<close>s from names to variables are
  association lists whose \<open>insert\<close> keeps an existing entry.
\<close>

section \<open>Kinds and flags\<close>

datatype declType = DECL_NONE | DECL_VAR | DECL_LET | DECL_CONST | DECL_FUNC | DECL_PARAM | DECL_IMPORT
  | DECL_EXPORT | DECL_TYPE_ALIAS | DECL_NAMESPACE | DECL_INTERFACE | DECL_ENUM_LITERAL
  | DECL_TYPE_PARAMETER | DECL_ENUM

datatype scopeType = ST_PARAM | ST_CATCH_PARAM | ST_FUNCTION_PARAM | ST_CATCH | ST_LOCAL | ST_LOOP
  | ST_LOOP_DECL | ST_FUNCTION | ST_GLOBAL | ST_MODULE

text \<open>The enumeration is ordered, and the code compares scope types.\<close>

primrec scopeRank :: "scopeType \<Rightarrow> nat" where
  "scopeRank ST_PARAM = 0"
| "scopeRank ST_CATCH_PARAM = 1"
| "scopeRank ST_FUNCTION_PARAM = 2"
| "scopeRank ST_CATCH = 3"
| "scopeRank ST_LOCAL = 4"
| "scopeRank ST_LOOP = 5"
| "scopeRank ST_LOOP_DECL = 6"
| "scopeRank ST_FUNCTION = 7"
| "scopeRank ST_GLOBAL = 8"
| "scopeRank ST_MODULE = 9"

lemma scopeRank_inj: "scopeRank a = scopeRank b \<longleftrightarrow> a = b"
  by (cases a; cases b) simp_all

instantiation scopeType :: linorder
begin

definition less_eq_scopeType :: "scopeType \<Rightarrow> scopeType \<Rightarrow> bool" where
  "less_eq_scopeType a b \<longleftrightarrow> scopeRank a \<le> scopeRank b"

definition less_scopeType :: "scopeType \<Rightarrow> scopeType \<Rightarrow> bool" where
  "less_scopeType a b \<longleftrightarrow> scopeRank a < scopeRank b"

instance
  by standard (auto simp: less_eq_scopeType_def less_scopeType_def scopeRank_inj)

end

datatype variableType = VT_LOCAL | VT_GLOBAL | VT_MODULE | VT_ENUM

text \<open>\<open>ResolveBindingOptions\<close>\<close>

abbreviation (input) RB_BINDINGS :: u32 where "RB_BINDINGS \<equiv> 1"
abbreviation (input) RB_INTERFACES :: u32 where "RB_INTERFACES \<equiv> 2"
abbreviation (input) RB_ALL :: u32 where "RB_ALL \<equiv> 3"

text \<open>\<open>VariableFlags\<close>\<close>

abbreviation (input) VF_NONE :: u32 where "VF_NONE \<equiv> 0"
abbreviation (input) VF_INTERFACE :: u32 where "VF_INTERFACE \<equiv> 0x10"
abbreviation (input) VF_ENUM_LITERAL :: u32 where "VF_ENUM_LITERAL \<equiv> 0x20"
abbreviation (input) VF_READONLY :: u32 where "VF_READONLY \<equiv> 0x40"
abbreviation (input) VF_LOCAL_EXPORT :: u32 where "VF_LOCAL_EXPORT \<equiv> 0x1000"
abbreviation (input) VF_LOOP_DECL :: u32 where "VF_LOOP_DECL \<equiv> 0x2000000"
abbreviation (input) VF_PER_ITERATION :: u32 where "VF_PER_ITERATION \<equiv> 0x4000000"
abbreviation (input) VF_LEXICAL_VAR :: u32 where "VF_LEXICAL_VAR \<equiv> 0x8000000"
abbreviation (input) VF_HOIST :: u32 where "VF_HOIST \<equiv> 0x10000000"
abbreviation (input) VF_VAR :: u32 where "VF_VAR \<equiv> 0x20000000"
abbreviation (input) VF_INITIALIZED :: u32 where "VF_INITIALIZED \<equiv> 0x40000000"
abbreviation (input) VF_LEXICAL_BOUND :: u32 where "VF_LEXICAL_BOUND \<equiv> 0x80000000"
abbreviation (input) VF_HOIST_VAR :: u32 where "VF_HOIST_VAR \<equiv> 0x30000000"

text \<open>\<open>VariableScopeFlags\<close>\<close>

abbreviation (input) VSF_SET_LEXICAL_FUNCTION :: u32 where "VSF_SET_LEXICAL_FUNCTION \<equiv> 1"
abbreviation (input) VSF_USE_ARGS :: u32 where "VSF_USE_ARGS \<equiv> 4"
abbreviation (input) VSF_USE_SUPER :: u32 where "VSF_USE_SUPER \<equiv> 8"
abbreviation (input) VSF_INNER_ARROW :: u32 where "VSF_INNER_ARROW \<equiv> 16"

section \<open>Objects\<close>

type_synonym name = "byte list"
type_synonym scopeId = nat
type_synonym varId = nat
type_synonym declId = nat

text \<open>What the binder reads of the AST node a scope or declaration is bound to.\<close>

datatype astRef =
    ImportNamespaceSpecifier nat
  | ExportAllDeclaration nat "name option"
  | ExportNamedDeclaration nat bool
  | ScriptFunction nat bool
  | OtherNode nat

text \<open>
  \<open>Decl\<close> and its subclasses: \<open>dImport\<close> is the import name of an \<open>ImportDecl\<close>, \<open>dExport\<close> the export name of
  an \<open>ExportDecl\<close>, whose local name is the name of the declaration.
\<close>

record decl =
  dName :: name
  dType :: declType
  dNode :: "astRef option"
  dImport :: name
  dExport :: name
  dIsConst :: bool

text \<open>\<open>Variable\<close>: \<open>vreg\<close> is the register, or the slot in the lexical environment once the variable is
  bound lexically; \<open>exoticName\<close> belongs to \<open>ModuleVariable\<close> and \<open>backReference\<close> to \<open>EnumVariable\<close>.\<close>

record variable =
  vType :: variableType
  vDecl :: declId
  vFlags :: u32
  vreg :: u32
  exoticName :: name
  backReference :: bool

datatype scopeClass = ParamScope | FunctionParamScope | CatchParamScope | CatchScope | LocalScope
  | LoopScope | LoopDeclarationScope | FunctionScope | GlobalScope | ModuleScope

record scope =
  sClass :: scopeClass
  loopType :: scopeType
  sParent :: "scopeId option"
  sDecls :: "declId list"
  sBindings :: "(name \<times> varId option) list"
  sNode :: "astRef option"
  sFlags :: u32
  slotIndex :: u32
  sParams :: "varId list"
  paramScope :: "scopeId option"
  functionScope :: "scopeId option"
  nameVar :: "varId option"
  sName :: name
  internalName :: name
  declScope :: "scopeId option"
  loopScope :: "scopeId option"
  initScope :: "scopeId option"
  sImports :: "(astRef \<times> declId list) list"
  sExports :: "(astRef \<times> declId list) list"
  localExports :: "(varId \<times> name) list"

record heap =
  scopes :: "scopeId \<Rightarrow> scope"
  nScopes :: nat
  vars :: "varId \<Rightarrow> variable"
  nVars :: nat
  decls :: "declId \<Rightarrow> decl"
  nDecls :: nat

text \<open>The \<open>Error\<close> of a redeclaration: the message names the variable, the location is that of the declaration.\<close>

record binderError =
  beName :: name
  beLine :: u64
  beCol :: u64

type_synonym 'a heapM = "(heap, binderError, 'a) comp"

section \<open>Access to the arena\<close>

text \<open>Dereferencing null is undefined.\<close>

definition deref :: "'b option \<Rightarrow> ('s, 'e, 'b) comp" where
  "deref p = readM (\<lambda>_. p)"

definition getScope :: "scopeId \<Rightarrow> scope heapM" where
  "getScope s = getM (\<lambda>h. scopes h s)"

definition modScope :: "scopeId \<Rightarrow> (scope \<Rightarrow> scope) \<Rightarrow> unit heapM" where
  "modScope s f = modifyM (\<lambda>h. h\<lparr>scopes := (scopes h)(s := f (scopes h s))\<rparr>)"

definition getVar :: "varId \<Rightarrow> variable heapM" where
  "getVar v = getM (\<lambda>h. vars h v)"

definition modVar :: "varId \<Rightarrow> (variable \<Rightarrow> variable) \<Rightarrow> unit heapM" where
  "modVar v f = modifyM (\<lambda>h. h\<lparr>vars := (vars h)(v := f (vars h v))\<rparr>)"

definition getDecl :: "declId \<Rightarrow> decl heapM" where
  "getDecl d = getM (\<lambda>h. decls h d)"

definition allocVar :: "variable \<Rightarrow> varId heapM" where
  "allocVar v h = Ok (nVars h, h\<lparr>vars := (vars h)(nVars h := v), nVars := Suc (nVars h)\<rparr>)"

definition allocDecl :: "decl \<Rightarrow> declId heapM" where
  "allocDecl d h = Ok (nDecls h, h\<lparr>decls := (decls h)(nDecls h := d), nDecls := Suc (nDecls h)\<rparr>)"

definition allocScope :: "scope \<Rightarrow> scopeId heapM" where
  "allocScope s h = Ok (nScopes h, h\<lparr>scopes := (scopes h)(nScopes h := s), nScopes := Suc (nScopes h)\<rparr>)"

section \<open>Constructors\<close>

definition newDecl :: "declType \<Rightarrow> name \<Rightarrow> decl" where
  "newDecl t n = \<lparr>dName = n, dType = t, dNode = None, dImport = [], dExport = [], dIsConst = False\<rparr>"

definition IsLetOrConstDecl :: "decl \<Rightarrow> bool" where
  "IsLetOrConstDecl d \<longleftrightarrow> dType d = DECL_LET \<or> dType d = DECL_CONST"

definition bareVariable :: "variableType \<Rightarrow> declId \<Rightarrow> u32 \<Rightarrow> variable" where
  "bareVariable t d flags = \<lparr>vType = t, vDecl = d, vFlags = flags, vreg = 0, exoticName = [],
     backReference = False\<rparr>"

text \<open>The constructor of \<open>LocalVariable\<close> makes the variable of a \<open>const\<close> read-only.\<close>

definition LocalVariable :: "declId \<Rightarrow> u32 \<Rightarrow> varId heapM" where
  "LocalVariable d flags =
    bindM (getDecl d) (\<lambda>dc.
      allocVar (bareVariable VT_LOCAL d (if dType dc = DECL_CONST then flags OR VF_READONLY else flags)))"

definition GlobalVariable :: "declId \<Rightarrow> u32 \<Rightarrow> varId heapM" where
  "GlobalVariable d flags = allocVar (bareVariable VT_GLOBAL d flags)"

definition ModuleVariable :: "declId \<Rightarrow> u32 \<Rightarrow> varId heapM" where
  "ModuleVariable d flags = allocVar (bareVariable VT_MODULE d flags)"

definition EnumVariable :: "declId \<Rightarrow> bool \<Rightarrow> varId heapM" where
  "EnumVariable d backRef = allocVar ((bareVariable VT_ENUM d VF_NONE)\<lparr>backReference := backRef\<rparr>)"

definition newScope :: "scopeClass \<Rightarrow> scopeId option \<Rightarrow> scope" where
  "newScope c p = \<lparr>sClass = c, loopType = ST_LOCAL, sParent = p, sDecls = [], sBindings = [], sNode = None,
     sFlags = 0, slotIndex = 0, sParams = [], paramScope = None, functionScope = None, nameVar = None,
     sName = [], internalName = [], declScope = None, loopScope = None, initScope = None, sImports = [],
     sExports = [], localExports = []\<rparr>"

text \<open>\<open>GlobalScope\<close> (and \<open>ModuleScope\<close>) makes its own parameter scope.\<close>

definition newGlobalScope :: "scopeClass \<Rightarrow> scopeId heapM" where
  "newGlobalScope c =
    bindM (allocScope (newScope c None)) (\<lambda>s.
    bindM (allocScope (newScope FunctionParamScope (Some s))) (\<lambda>p.
    thenM (modScope s (\<lambda>sc. sc\<lparr>paramScope := Some p\<rparr>)) (ret s)))"

section \<open>Scope types\<close>

definition Type :: "scope \<Rightarrow> scopeType" where
  "Type sc = (case sClass sc of
      ParamScope \<Rightarrow> ST_PARAM
    | FunctionParamScope \<Rightarrow> ST_FUNCTION_PARAM
    | CatchParamScope \<Rightarrow> ST_CATCH_PARAM
    | CatchScope \<Rightarrow> ST_CATCH
    | LocalScope \<Rightarrow> ST_LOCAL
    | LoopScope \<Rightarrow> loopType sc
    | LoopDeclarationScope \<Rightarrow> loopType sc
    | FunctionScope \<Rightarrow> ST_FUNCTION
    | GlobalScope \<Rightarrow> ST_GLOBAL
    | ModuleScope \<Rightarrow> ST_MODULE)"

definition IsVariableScope :: "scope \<Rightarrow> bool" where
  "IsVariableScope sc \<longleftrightarrow> ST_LOCAL < Type sc"

definition IsFunctionVariableScope :: "scope \<Rightarrow> bool" where
  "IsFunctionVariableScope sc \<longleftrightarrow> ST_FUNCTION \<le> Type sc"

section \<open>Variables\<close>

definition HasFlag :: "u32 \<Rightarrow> variable \<Rightarrow> bool" where
  "HasFlag flag v \<longleftrightarrow> vFlags v AND flag \<noteq> 0"

definition AddFlag :: "varId \<Rightarrow> u32 \<Rightarrow> unit heapM" where
  "AddFlag v flag = modVar v (\<lambda>x. x\<lparr>vFlags := vFlags x OR flag\<rparr>)"

definition ResetVariable :: "varId \<Rightarrow> declId \<Rightarrow> u32 \<Rightarrow> unit heapM" where
  "ResetVariable v d flags = modVar v (\<lambda>x. x\<lparr>vDecl := d, vFlags := flags\<rparr>)"

definition LexicalBound :: "variable \<Rightarrow> bool" where
  "LexicalBound v \<longleftrightarrow> HasFlag VF_LEXICAL_BOUND v"

definition BindLexEnvSlot :: "varId \<Rightarrow> u32 \<Rightarrow> unit heapM" where
  "BindLexEnvSlot v slot = thenM (AddFlag v VF_LEXICAL_BOUND) (modVar v (\<lambda>x. x\<lparr>vreg := slot\<rparr>))"

text \<open>\<open>Copy\<close> goes through the constructor, with the same declaration type and flags.\<close>

definition Copy :: "varId \<Rightarrow> declId \<Rightarrow> varId heapM" where
  "Copy v d =
    bindM (getVar v) (\<lambda>x. bindM (LocalVariable d (vFlags x)) (\<lambda>w.
      thenM (modVar w (\<lambda>y. y\<lparr>vreg := vreg x\<rparr>)) (ret w)))"

section \<open>Bindings\<close>

text \<open>\<open>insert\<close> of the maps: an existing entry stays.\<close>

definition bindInsert :: "name \<Rightarrow> varId option \<Rightarrow> (name \<times> varId option) list \<Rightarrow> (name \<times> varId option) list" where
  "bindInsert n v bs = (if map_of bs n = None then bs @ [(n, v)] else bs)"

definition insertBinding :: "scopeId \<Rightarrow> name \<Rightarrow> varId option \<Rightarrow> unit heapM" where
  "insertBinding s n v = modScope s (\<lambda>sc. sc\<lparr>sBindings := bindInsert n v (sBindings sc)\<rparr>)"

definition ToTSBinding :: "name \<Rightarrow> name" where
  "ToTSBinding n = 0x23 # n"

definition lookup :: "scope \<Rightarrow> name \<Rightarrow> varId option" where
  "lookup sc n = (case map_of (sBindings sc) n of None \<Rightarrow> None | Some v \<Rightarrow> v)"

definition FindLocal :: "scope \<Rightarrow> name \<Rightarrow> u32 \<Rightarrow> varId option" where
  "FindLocal sc n options =
    (if options AND RB_INTERFACES \<noteq> 0 then
       (case map_of (sBindings sc) (ToTSBinding n) of
          Some v \<Rightarrow> v
        | None \<Rightarrow> if options AND RB_BINDINGS = 0 then None else lookup sc n)
     else lookup sc n)"

section \<open>Walking the scope chain\<close>

text \<open>A walk visits every scope at most once, so the number of scopes bounds it.\<close>

definition walk :: "(nat \<Rightarrow> 'a heapM) \<Rightarrow> 'a heapM" where
  "walk loop h = loop (Suc (nScopes h)) h"

fun EnclosingVariableScope_loop :: "nat \<Rightarrow> scopeId option \<Rightarrow> (scopeId option) heapM" where
  "EnclosingVariableScope_loop 0 it = out_of_fuel"
| "EnclosingVariableScope_loop (Suc n) it =
    (case it of
       None \<Rightarrow> ret None
     | Some s \<Rightarrow> bindM (getScope s) (\<lambda>sc.
         if IsVariableScope sc then ret (Some s)
         else EnclosingVariableScope_loop n (sParent sc)))"

definition EnclosingVariableScope :: "scopeId \<Rightarrow> (scopeId option) heapM" where
  "EnclosingVariableScope s = walk (\<lambda>n. EnclosingVariableScope_loop n (Some s))"

record scopeFindResult =
  frName :: name
  frScope :: "scopeId option"
  frLevel :: u32
  frLexLevel :: u32
  frVariable :: "varId option"

definition NeedLexEnv :: "scope \<Rightarrow> bool" where
  "NeedLexEnv sc \<longleftrightarrow> slotIndex sc \<noteq> 0"

fun Find_loop :: "nat \<Rightarrow> scopeId option \<Rightarrow> name \<Rightarrow> u32 \<Rightarrow> u32 \<Rightarrow> u32 \<Rightarrow> scopeFindResult heapM" where
  "Find_loop 0 it n options level lexLevel = out_of_fuel"
| "Find_loop (Suc k) it n options level lexLevel =
    (case it of
       None \<Rightarrow> ret \<lparr>frName = n, frScope = None, frLevel = 0, frLexLevel = 0, frVariable = None\<rparr>
     | Some s \<Rightarrow> bindM (getScope s) (\<lambda>sc.
         case FindLocal sc n options of
           Some v \<Rightarrow> ret \<lparr>frName = n, frScope = Some s, frLevel = level, frLexLevel = lexLevel,
                          frVariable = Some v\<rparr>
         | None \<Rightarrow>
             if IsVariableScope sc then
               Find_loop k (sParent sc) n options (level + 1)
                 (if NeedLexEnv sc then lexLevel + 1 else lexLevel)
             else Find_loop k (sParent sc) n options level lexLevel))"

definition Find :: "scopeId \<Rightarrow> name \<Rightarrow> u32 \<Rightarrow> scopeFindResult heapM" where
  "Find s n options = walk (\<lambda>k. Find_loop k (Some s) n options 0 0)"

definition FindDecl :: "scopeId \<Rightarrow> name \<Rightarrow> (declId option) heapM" where
  "FindDecl s n = getM (\<lambda>h. find (\<lambda>d. dName (decls h d) = n) (sDecls (scopes h s)))"

text \<open>\<open>while (true)\<close>: beyond the outermost scope the code reads through a null pointer.\<close>

fun IterateShadowedVariables_loop ::
  "nat \<Rightarrow> scopeId option \<Rightarrow> name \<Rightarrow> (variable \<Rightarrow> bool) \<Rightarrow> (scopeId \<times> bool) heapM" where
  "IterateShadowedVariables_loop 0 it n visitor = out_of_fuel"
| "IterateShadowedVariables_loop (Suc k) it n visitor =
    bindM (deref it) (\<lambda>s. bindM (getScope s) (\<lambda>sc. bindM (getM vars) (\<lambda>vs.
      if (case FindLocal sc n RB_BINDINGS of None \<Rightarrow> False | Some v \<Rightarrow> visitor (vs v)) then ret (s, True)
      else if IsFunctionVariableScope sc then ret (s, False)
      else IterateShadowedVariables_loop k (sParent sc) n visitor)))"

definition IterateShadowedVariables ::
  "scopeId \<Rightarrow> name \<Rightarrow> (variable \<Rightarrow> bool) \<Rightarrow> (scopeId \<times> bool) heapM" where
  "IterateShadowedVariables s n visitor = walk (\<lambda>k. IterateShadowedVariables_loop k (Some s) n visitor)"

section \<open>Adding bindings\<close>

text \<open>\<open>bindings_.insert({newDecl->Name(), New<T>(newDecl, flags)})\<close>, \<open>T\<close> given by its constructor.\<close>

definition insertNew :: "scopeId \<Rightarrow> declId \<Rightarrow> varId heapM \<Rightarrow> unit heapM" where
  "insertNew s d new =
    bindM (getDecl d) (\<lambda>dc. bindM new (\<lambda>v. insertBinding s (dName dc) (Some v)))"

definition PropagateBinding :: "scopeId \<Rightarrow> name \<Rightarrow> declId \<Rightarrow> u32 \<Rightarrow> unit heapM" where
  "PropagateBinding s n d flags =
    bindM (getScope s) (\<lambda>sc.
      case map_of (sBindings sc) n of
        None \<Rightarrow> bindM (LocalVariable d flags) (\<lambda>v. insertBinding s n (Some v))
      | Some p \<Rightarrow> bindM (deref p) (\<lambda>v. ResetVariable v d flags))"

definition AddLocal_var :: "scopeId \<Rightarrow> declId \<Rightarrow> name \<Rightarrow> bool heapM" where
  "AddLocal_var s d n =
    bindM (IterateShadowedVariables s n (\<lambda>v. \<not> HasFlag VF_VAR v)) (\<lambda>(target, shadowed).
      if shadowed then ret False
      else bindM (getScope target) (\<lambda>sc.
        thenM (if Type sc = ST_GLOBAL then insertNew target d (GlobalVariable d (VF_HOIST_VAR OR VF_LEXICAL_VAR))
               else PropagateBinding target n d (VF_HOIST_VAR OR VF_LEXICAL_VAR))
          (ret True)))"

definition AddLocal_lexical :: "scopeId \<Rightarrow> varId option \<Rightarrow> declId \<Rightarrow> name \<Rightarrow> u32 \<Rightarrow> bool heapM" where
  "AddLocal_lexical s currentVariable d n flags =
    (if currentVariable \<noteq> None then ret False
     else bindM (IterateShadowedVariables s n (HasFlag VF_LEXICAL_VAR)) (\<lambda>(_, shadowed).
       if shadowed then ret False
       else thenM (insertNew s d (LocalVariable d flags)) (ret True)))"

definition AddLocal :: "scopeId \<Rightarrow> varId option \<Rightarrow> declId \<Rightarrow> bool heapM" where
  "AddLocal s currentVariable d =
    bindM (getDecl d) (\<lambda>dc.
      case dType dc of
        DECL_VAR \<Rightarrow> AddLocal_var s d (dName dc)
      | DECL_ENUM \<Rightarrow> thenM (insertNew s d (EnumVariable d False)) (ret True)
      | DECL_ENUM_LITERAL \<Rightarrow> thenM (insertNew s d (LocalVariable d VF_ENUM_LITERAL)) (ret True)
      | DECL_INTERFACE \<Rightarrow> thenM (insertNew s d (LocalVariable d VF_INTERFACE)) (ret True)
      | DECL_FUNC \<Rightarrow> AddLocal_lexical s currentVariable d (dName dc) VF_HOIST
      | _ \<Rightarrow> AddLocal_lexical s currentVariable d (dName dc) VF_NONE)"

definition AddParam :: "scopeId \<Rightarrow> varId option \<Rightarrow> declId \<Rightarrow> u32 \<Rightarrow> bool heapM" where
  "AddParam s currentVariable d flags =
    (if currentVariable \<noteq> None then ret False
     else bindM (getDecl d) (\<lambda>dc. bindM (LocalVariable d flags) (\<lambda>v.
       thenM (modScope s (\<lambda>sc. sc\<lparr>sParams := sParams sc @ [v]\<rparr>))
       (thenM (insertBinding s (dName dc) (Some v)) (ret True)))))"

text \<open>The overrides below take the constructor of the variable class as an argument, where the code
  takes the class as a template argument.\<close>

definition AddVar :: "(declId \<Rightarrow> u32 \<Rightarrow> varId heapM) \<Rightarrow> scopeId \<Rightarrow> varId option \<Rightarrow> declId \<Rightarrow> bool heapM" where
  "AddVar new s currentVariable d =
    (case currentVariable of
       None \<Rightarrow> thenM (insertNew s d (new d VF_HOIST_VAR)) (ret True)
     | Some v \<Rightarrow> bindM (getVar v) (\<lambda>x. bindM (getDecl (vDecl x)) (\<lambda>dc.
         case dType dc of
           DECL_VAR \<Rightarrow> thenM (ResetVariable v d VF_HOIST_VAR) (ret True)
         | DECL_PARAM \<Rightarrow> ret True
         | DECL_FUNC \<Rightarrow> ret True
         | _ \<Rightarrow> ret False)))"

definition AddFunction :: "(declId \<Rightarrow> u32 \<Rightarrow> varId heapM) \<Rightarrow> scopeId \<Rightarrow> varId option \<Rightarrow> declId
    \<Rightarrow> scriptExtension \<Rightarrow> bool heapM" where
  "AddFunction new s currentVariable d extension =
    (case currentVariable of
       None \<Rightarrow> thenM (insertNew s d (new d (if extension = JS then VF_HOIST_VAR else VF_HOIST))) (ret True)
     | Some v \<Rightarrow> bindM (getScope s) (\<lambda>sc.
         if extension \<noteq> JS \<or> Type sc = ST_MODULE then ret False
         else bindM (getVar v) (\<lambda>x. bindM (getDecl (vDecl x)) (\<lambda>dc.
           if dType dc = DECL_VAR \<or> dType dc = DECL_FUNC
           then thenM (ResetVariable v d VF_HOIST_VAR) (ret True) else ret False))))"

definition AddTSBinding :: "scopeId \<Rightarrow> declId \<Rightarrow> u32 \<Rightarrow> bool heapM" where
  "AddTSBinding s d flags = thenM (insertNew s d (LocalVariable d flags)) (ret True)"

definition AddLexical :: "scopeId \<Rightarrow> varId option \<Rightarrow> declId \<Rightarrow> bool heapM" where
  "AddLexical s currentVariable d =
    (if currentVariable \<noteq> None then ret False
     else thenM (insertNew s d (LocalVariable d VF_NONE)) (ret True))"

definition isImportNamespace :: "astRef \<Rightarrow> bool" where
  "isImportNamespace node = (case node of ImportNamespaceSpecifier _ \<Rightarrow> True | _ \<Rightarrow> False)"

definition AddImport :: "scopeId \<Rightarrow> varId option \<Rightarrow> declId \<Rightarrow> bool heapM" where
  "AddImport s currentVariable d =
    bindM (getM (\<lambda>h. case currentVariable of None \<Rightarrow> False
                     | Some v \<Rightarrow> dType (decls h (vDecl (vars h v))) \<noteq> DECL_VAR)) (\<lambda>declared.
      if declared then ret False
      else bindM (getDecl d) (\<lambda>dc. bindM (deref (dNode dc)) (\<lambda>node.
        if isImportNamespace node then thenM (insertNew s d (LocalVariable d VF_READONLY)) (ret True)
        else bindM (ModuleVariable d VF_NONE) (\<lambda>v.
          thenM (modVar v (\<lambda>x. x\<lparr>exoticName := dImport dc\<rparr>))
          (thenM (insertBinding s (dName dc) (Some v)) (ret True))))))"

text \<open>\<open>AddBinding\<close> of \<open>FunctionScope\<close>, \<open>GlobalScope\<close> and \<open>ModuleScope\<close>: they differ in the class of a
  variable declared with \<open>var\<close> or \<open>function\<close>, and only modules treat imports and exports.\<close>

definition FunctionScope_AddBinding ::
  "(declId \<Rightarrow> u32 \<Rightarrow> varId heapM) \<Rightarrow> scopeId \<Rightarrow> varId option \<Rightarrow> declId \<Rightarrow> scriptExtension
    \<Rightarrow> bool heapM" where
  "FunctionScope_AddBinding new s currentVariable d extension =
    bindM (getDecl d) (\<lambda>dc.
      case dType dc of
        DECL_VAR \<Rightarrow> AddVar new s currentVariable d
      | DECL_FUNC \<Rightarrow> AddFunction new s currentVariable d extension
      | DECL_ENUM \<Rightarrow> thenM (insertNew s d (EnumVariable d False)) (ret True)
      | DECL_ENUM_LITERAL \<Rightarrow> AddTSBinding s d VF_ENUM_LITERAL
      | DECL_INTERFACE \<Rightarrow> AddTSBinding s d VF_INTERFACE
      | _ \<Rightarrow> AddLexical s currentVariable d)"

definition ModuleScope_AddBinding ::
  "scopeId \<Rightarrow> varId option \<Rightarrow> declId \<Rightarrow> scriptExtension \<Rightarrow> bool heapM" where
  "ModuleScope_AddBinding s currentVariable d extension =
    bindM (getDecl d) (\<lambda>dc.
      if dType dc = DECL_IMPORT then AddImport s currentVariable d
      else if dType dc = DECL_EXPORT then ret True
      else FunctionScope_AddBinding LocalVariable s currentVariable d extension)"

definition CatchScope_AddBinding :: "scopeId \<Rightarrow> varId option \<Rightarrow> declId \<Rightarrow> bool heapM" where
  "CatchScope_AddBinding s currentVariable d =
    bindM (getDecl d) (\<lambda>dc.
      if dType dc \<noteq> DECL_VAR then
        bindM (getScope s) (\<lambda>sc. bindM (deref (paramScope sc)) (\<lambda>p. bindM (getScope p) (\<lambda>pc.
          if FindLocal pc (dName dc) RB_BINDINGS \<noteq> None then ret False
          else AddLocal s currentVariable d)))
      else AddLocal s currentVariable d)"

text \<open>The virtual \<open>AddBinding\<close>.  \<open>ParamScope\<close> is abstract and \<open>FunctionParamScope::AddBinding\<close> is
  \<open>UNREACHABLE()\<close>.\<close>

definition AddBinding :: "scopeId \<Rightarrow> varId option \<Rightarrow> declId \<Rightarrow> scriptExtension \<Rightarrow> bool heapM" where
  "AddBinding s currentVariable d extension =
    bindM (getScope s) (\<lambda>sc.
      case sClass sc of
        ParamScope \<Rightarrow> (\<lambda>_. Undefined)
      | FunctionParamScope \<Rightarrow> (\<lambda>_. Undefined)
      | CatchParamScope \<Rightarrow> AddParam s currentVariable d VF_INITIALIZED
      | CatchScope \<Rightarrow> CatchScope_AddBinding s currentVariable d
      | LocalScope \<Rightarrow> AddLocal s currentVariable d
      | LoopScope \<Rightarrow> AddLocal s currentVariable d
      | LoopDeclarationScope \<Rightarrow> AddLocal s currentVariable d
      | FunctionScope \<Rightarrow> FunctionScope_AddBinding LocalVariable s currentVariable d extension
      | GlobalScope \<Rightarrow> FunctionScope_AddBinding GlobalVariable s currentVariable d extension
      | ModuleScope \<Rightarrow> ModuleScope_AddBinding s currentVariable d extension)"

definition pushDecl :: "scopeId \<Rightarrow> declId \<Rightarrow> unit heapM" where
  "pushDecl s d = modScope s (\<lambda>sc. sc\<lparr>sDecls := sDecls sc @ [d]\<rparr>)"

definition AddDeclWith :: "u32 \<Rightarrow> scopeId \<Rightarrow> declId \<Rightarrow> scriptExtension \<Rightarrow> bool heapM" where
  "AddDeclWith options s d extension =
    thenM (pushDecl s d) (bindM (getDecl d) (\<lambda>dc. bindM (getScope s) (\<lambda>sc.
      AddBinding s (FindLocal sc (dName dc) options) d extension)))"

definition AddDecl :: "scopeId \<Rightarrow> declId \<Rightarrow> scriptExtension \<Rightarrow> bool heapM" where
  "AddDecl s d extension = AddDeclWith RB_BINDINGS s d extension"

definition AddTsDecl :: "scopeId \<Rightarrow> declId \<Rightarrow> scriptExtension \<Rightarrow> bool heapM" where
  "AddTsDecl s d extension = AddDeclWith RB_ALL s d extension"

definition NewDecl :: "scopeId \<Rightarrow> decl \<Rightarrow> declId heapM" where
  "NewDecl s dc = bindM (allocDecl dc) (\<lambda>d. thenM (pushDecl s d) (ret d))"

text \<open>The template \<open>AddDecl<DeclType, VariableType>(name, flags)\<close>: null when the name is taken.\<close>

definition AddDeclVar :: "(declId \<Rightarrow> u32 \<Rightarrow> varId heapM) \<Rightarrow> scopeId \<Rightarrow> declType \<Rightarrow> name \<Rightarrow> u32
    \<Rightarrow> (varId option) heapM" where
  "AddDeclVar new s t n flags =
    bindM (getScope s) (\<lambda>sc.
      if FindLocal sc n RB_BINDINGS \<noteq> None then ret None
      else bindM (allocDecl (newDecl t n)) (\<lambda>d. bindM (new d flags) (\<lambda>v.
        thenM (pushDecl s d) (thenM (insertBinding s n (Some v)) (ret (Some v))))))"

section \<open>Parameters\<close>

text \<open>A binding name of a parameter pattern: the name and the identifier it is bound to.\<close>

fun AddParamDecl_bindings :: "scopeId \<Rightarrow> (name \<times> astRef) list \<Rightarrow> (astRef option) heapM" where
  "AddParamDecl_bindings s [] = ret None"
| "AddParamDecl_bindings s ((n, node) # bindings) =
    bindM (NewDecl s ((newDecl DECL_VAR n)\<lparr>dNode := Some node\<rparr>)) (\<lambda>d.
    bindM (getScope s) (\<lambda>sc.
      if FindLocal sc n RB_BINDINGS \<noteq> None then ret (Some node)
      else bindM (LocalVariable d VF_VAR) (\<lambda>v.
        thenM (insertBinding s n (Some v)) (AddParamDecl_bindings s bindings))))"

text \<open>\<open>name\<close> and \<open>pattern\<close> are the results of \<open>Helpers::ParamName\<close>, \<open>bindings\<close> that of
  \<open>Helpers::CollectBindingNames\<close>; the second component of the result is the node of a redeclaration.\<close>

definition AddParamDecl :: "scopeId \<Rightarrow> astRef \<Rightarrow> name \<Rightarrow> bool \<Rightarrow> (name \<times> astRef) list
    \<Rightarrow> (declId \<times> astRef option) heapM" where
  "AddParamDecl s param n pattern bindings =
    bindM (NewDecl s (newDecl DECL_PARAM n)) (\<lambda>d.
    bindM (getScope s) (\<lambda>sc.
    bindM (AddParam s (FindLocal sc n RB_BINDINGS) d VF_VAR) (\<lambda>added.
      if \<not> added then ret (d, Some param)
      else if \<not> pattern then ret (d, None)
      else bindM (AddParamDecl_bindings s bindings) (\<lambda>node. ret (d, node)))))"

definition BindParamScope :: "scopeId \<Rightarrow> scopeId \<Rightarrow> unit heapM" where
  "BindParamScope s p =
    bindM (getScope p) (\<lambda>pc. modScope s (\<lambda>sc. sc\<lparr>paramScope := Some p, sBindings := sBindings pc\<rparr>))"

definition AssignParamScope :: "scopeId \<Rightarrow> scopeId \<Rightarrow> unit heapM" where
  "AssignParamScope s p = modScope s (\<lambda>sc. sc\<lparr>paramScope := Some p\<rparr>)"

definition BindFunctionScope :: "scopeId \<Rightarrow> scopeId \<Rightarrow> unit heapM" where
  "BindFunctionScope p f = modScope p (\<lambda>sc. sc\<lparr>functionScope := Some f\<rparr>)"

text \<open>\<open>FunctionParamScope::BindName\<close>: the name of a function expression; the variable is null when a
  parameter has the name.\<close>

definition BindName :: "scopeId \<Rightarrow> name \<Rightarrow> unit heapM" where
  "BindName p n =
    bindM (AddDeclVar LocalVariable p DECL_CONST n VF_INITIALIZED) (\<lambda>v.
    thenM (modScope p (\<lambda>sc. sc\<lparr>nameVar := v\<rparr>))
    (bindM (getScope p) (\<lambda>pc. bindM (deref (functionScope pc)) (\<lambda>f. insertBinding f n v))))"

section \<open>Lexical environments\<close>

text \<open>\<open>NextSlot\<close>\<close>

definition NextSlot :: "scopeId \<Rightarrow> u32 heapM" where
  "NextSlot s =
    bindM (getScope s) (\<lambda>sc. thenM (modScope s (\<lambda>sc. sc\<lparr>slotIndex := slotIndex sc + 1\<rparr>)) (ret (slotIndex sc)))"

text \<open>\<open>SetLexical\<close> does something for local variables only.\<close>

definition SetLexical :: "varId \<Rightarrow> scopeId \<Rightarrow> unit heapM" where
  "SetLexical v s =
    bindM (getVar v) (\<lambda>x.
      if vType x \<noteq> VT_LOCAL \<or> LexicalBound x then ret ()
      else bindM (EnclosingVariableScope s) (\<lambda>e. bindM (deref e) (\<lambda>e.
        bindM (NextSlot e) (BindLexEnvSlot v))))"

text \<open>The loop over the bindings of \<open>LoopDeclarationScope::ConvertToVariableScope\<close>.\<close>

fun ConvertBindings_loop :: "scopeId \<Rightarrow> (name \<times> varId option) list \<Rightarrow> unit heapM" where
  "ConvertBindings_loop s [] = ret ()"
| "ConvertBindings_loop s ((n, p) # bs) =
    bindM (deref p) (\<lambda>v. bindM (getVar v) (\<lambda>x. bindM (getDecl (vDecl x)) (\<lambda>dc.
      if \<not> LexicalBound x \<or> \<not> IsLetOrConstDecl dc then ConvertBindings_loop s bs
      else thenM (modScope s (\<lambda>sc. sc\<lparr>slotIndex := slotIndex sc + 1, loopType := ST_LOOP_DECL\<rparr>))
        (bindM (Copy v (vDecl x)) (\<lambda>w.
         thenM (AddFlag w (VF_INITIALIZED OR VF_PER_ITERATION))
        (thenM (AddFlag v VF_LOOP_DECL)
        (bindM (getScope s) (\<lambda>sc. bindM (deref (loopScope sc)) (\<lambda>l.
         thenM (insertBinding l n (Some w)) (ConvertBindings_loop s bs))))))))))"

definition ConvertDeclScope :: "scopeId \<Rightarrow> unit heapM" where
  "ConvertDeclScope s =
    bindM (getScope s) (\<lambda>sc.
      if NeedLexEnv sc then ret ()
      else thenM (ConvertBindings_loop s (sBindings sc))
        (bindM (getScope s) (\<lambda>sc.
          if loopType sc \<noteq> ST_LOOP_DECL then ret ()
          else bindM (deref (sParent sc)) (\<lambda>p. bindM (EnclosingVariableScope p) (\<lambda>e. bindM (deref e) (\<lambda>e.
            bindM (getScope e) (\<lambda>ec.
            thenM (modScope s (\<lambda>sc. sc\<lparr>slotIndex := max (slotIndex sc) (slotIndex ec)\<rparr>))
            (bindM (allocScope ((newScope LocalScope (Some p))\<lparr>sNode := sNode sc, sBindings := sBindings sc\<rparr>)) (\<lambda>i.
             modScope s (\<lambda>sc. sc\<lparr>initScope := Some i\<rparr>))))))))))"

definition ConvertToVariableScope :: "scopeId \<Rightarrow> unit heapM" where
  "ConvertToVariableScope s =
    bindM (getScope s) (\<lambda>sc. bindM (deref (declScope sc)) (\<lambda>dscope.
    thenM (ConvertDeclScope dscope)
      (if loopType sc \<noteq> ST_LOCAL then ret ()
       else bindM (getM (\<lambda>h. list_ex (\<lambda>(_, p). case p of None \<Rightarrow> False
                | Some v \<Rightarrow> LexicalBound (vars h v) \<and> dType (decls h (vDecl (vars h v))) = DECL_LET)
              (sBindings (scopes h s)))) (\<lambda>captured.
         if captured then
           bindM (getScope dscope) (\<lambda>dsc. modScope s (\<lambda>sc.
             sc\<lparr>loopType := ST_LOOP, slotIndex := max (slotIndex sc) (slotIndex dsc)\<rparr>))
         else ret ()))))"

definition BindDecls :: "scopeId \<Rightarrow> scopeId \<Rightarrow> unit heapM" where
  "BindDecls s dscope =
    thenM (modScope s (\<lambda>sc. sc\<lparr>declScope := Some dscope\<rparr>))
      (modScope dscope (\<lambda>sc. sc\<lparr>loopScope := Some s\<rparr>))"

definition InitScope :: "scope \<Rightarrow> scopeId \<Rightarrow> scopeId option" where
  "InitScope sc self = (if NeedLexEnv sc then initScope sc else Some self)"

section \<open>Modules\<close>

definition bindNode :: "astRef \<Rightarrow> declId \<Rightarrow> unit heapM" where
  "bindNode node d = modifyM (\<lambda>h. h\<lparr>decls := (decls h)(d := (decls h d)\<lparr>dNode := Some node\<rparr>)\<rparr>)"

primrec bindNodes :: "astRef \<Rightarrow> declId list \<Rightarrow> unit heapM" where
  "bindNodes node [] = ret ()"
| "bindNodes node (d # ds) = thenM (bindNode node d) (bindNodes node ds)"

definition AddImportDecl :: "scopeId \<Rightarrow> astRef \<Rightarrow> declId list \<Rightarrow> unit heapM" where
  "AddImportDecl s importDecl ds =
    thenM (modScope s (\<lambda>sc. sc\<lparr>sImports := sImports sc @ [(importDecl, ds)]\<rparr>)) (bindNodes importDecl ds)"

definition AddExportDecls :: "scopeId \<Rightarrow> astRef \<Rightarrow> declId list \<Rightarrow> unit heapM" where
  "AddExportDecls s exportDecl ds =
    thenM (modScope s (\<lambda>sc. sc\<lparr>sExports := sExports sc @ [(exportDecl, ds)]\<rparr>)) (bindNodes exportDecl ds)"

definition AddExportDecl :: "scopeId \<Rightarrow> astRef \<Rightarrow> declId \<Rightarrow> unit heapM" where
  "AddExportDecl s exportDecl d = thenM (bindNode exportDecl d) (AddExportDecls s exportDecl [d])"

text \<open>The inner loop of \<open>ExportAnalysis\<close>: \<open>None\<close> when a name is exported twice.\<close>

fun ExportDecls_loop :: "scopeId \<Rightarrow> name set \<Rightarrow> declId list \<Rightarrow> (name set option) heapM" where
  "ExportDecls_loop s exported [] = ret (Some exported)"
| "ExportDecls_loop s exported (d # ds) =
    bindM (getDecl d) (\<lambda>dc. bindM (getScope s) (\<lambda>sc.
      case FindLocal sc (dName dc) RB_BINDINGS of
        None \<Rightarrow> ExportDecls_loop s exported ds
      | Some v \<Rightarrow>
          if dExport dc \<in> exported then ret None
          else bindM (getVar v) (\<lambda>x.
            thenM (if vType x = VT_MODULE then ret ()
                   else thenM (AddFlag v VF_LOCAL_EXPORT)
                     (modScope s (\<lambda>sc. sc\<lparr>localExports := localExports sc @ [(v, dExport dc)]\<rparr>)))
              (ExportDecls_loop s (insert (dExport dc) exported) ds))))"

fun Exports_loop :: "scopeId \<Rightarrow> name set \<Rightarrow> (astRef \<times> declId list) list \<Rightarrow> bool heapM" where
  "Exports_loop s exported [] = ret True"
| "Exports_loop s exported ((node, ds) # es) =
    (case node of
       ExportAllDeclaration _ None \<Rightarrow> Exports_loop s exported es
     | ExportAllDeclaration _ (Some n) \<Rightarrow>
         if n \<in> exported then ret False else Exports_loop s (insert n exported) es
     | ExportNamedDeclaration _ True \<Rightarrow> Exports_loop s exported es
     | _ \<Rightarrow> bindM (ExportDecls_loop s exported ds) (\<lambda>r.
         case r of None \<Rightarrow> ret False | Some exported \<Rightarrow> Exports_loop s exported es))"

definition ExportAnalysis :: "scopeId \<Rightarrow> bool heapM" where
  "ExportAnalysis s = bindM (getScope s) (\<lambda>sc. Exports_loop s {} (sExports sc))"

end
