(* ===== verification/Names.thy ===== *)
theory Names
  imports Scope
begin

text \<open>
  The names that the binder and the compiler share: ASCII texts and decimal numbers, the array indices
  of \<open>util/helpers.cpp\<close>, and the names of the hidden parameters of \<open>binder/binder.h\<close>.
\<close>

section \<open>Texts and numbers\<close>

definition asciiText :: "string \<Rightarrow> name" where
  "asciiText s = map of_char s"

text \<open>\<open>std::to_string\<close> of a number that is not negative.\<close>

function decimalBytes :: "nat \<Rightarrow> name" where
  "decimalBytes n = (if n < 10 then [of_nat (0x30 + n)] else decimalBytes (n div 10) @ [of_nat (0x30 + n mod 10)])"
  by auto
termination by (relation "measure id") auto

declare decimalBytes.simps [simp del]

definition INVALID_INDEX :: int where "INVALID_INDEX = 4294967295"

definition IsGlobalIdentifier :: "name \<Rightarrow> bool" where
  "IsGlobalIdentifier s \<longleftrightarrow> s = asciiText ''NaN'' \<or> s = asciiText ''undefined'' \<or> s = asciiText ''Infinity''"

definition isDigitByte :: "byte \<Rightarrow> bool" where
  "isDigitByte c \<longleftrightarrow> 0x30 \<le> c \<and> c \<le> 0x39"

text \<open>The loop of \<open>GetIndex\<close>; the value stays below \<open>10 * INVALID_INDEX + 10\<close>, so \<open>int64_t\<close> does not overflow.\<close>

fun GetIndex_loop :: "name \<Rightarrow> int \<Rightarrow> int" where
  "GetIndex_loop [] value = value"
| "GetIndex_loop (c # s) value =
    (if \<not> isDigitByte c then INVALID_INDEX
     else let value = value * 10 + int (unat c) - 48 in
       if INVALID_INDEX \<le> value then INVALID_INDEX else GetIndex_loop s value)"

definition GetIndex :: "name \<Rightarrow> int" where
  "GetIndex s = (if s = [] \<or> (hd s = 0x30 \<and> 1 < length s) then INVALID_INDEX else GetIndex_loop s 0)"

section \<open>Names of the hidden parameters\<close>

definition FUNCTION_ARGUMENTS :: name where "FUNCTION_ARGUMENTS = asciiText ''arguments''"
definition MANDATORY_PARAM_FUNC :: name where "MANDATORY_PARAM_FUNC = asciiText ''=f''"
definition MANDATORY_PARAM_NEW_TARGET :: name where "MANDATORY_PARAM_NEW_TARGET = asciiText ''=nt''"
definition MANDATORY_PARAM_THIS :: name where "MANDATORY_PARAM_THIS = asciiText ''=t''"
definition LEXICAL_MANDATORY_PARAM_FUNC :: name where "LEXICAL_MANDATORY_PARAM_FUNC = asciiText ''!f''"
definition LEXICAL_MANDATORY_PARAM_NEW_TARGET :: name where
  "LEXICAL_MANDATORY_PARAM_NEW_TARGET = asciiText ''!nt''"
definition LEXICAL_MANDATORY_PARAM_THIS :: name where "LEXICAL_MANDATORY_PARAM_THIS = asciiText ''!t''"

end
