(* ===== verification/Helpers.thy ===== *)
theory Helpers
  imports Names
begin

text \<open>
  The syntax tree as the binder sees it, and \<open>util/helpers.cpp\<close>.

  A node keeps what the binder and the helpers read of it; a node of any other kind is \<open>OtherAst\<close> with
  the children \<open>Iterate\<close> visits, in that order.  An identifier has a number, by which the binder's result
  for it is filed.  Parents are not stored: the functions that climb to them take the path of ancestors,
  innermost first.  Reading the parent of the root, or a node as a kind it is not, is undefined: \<open>None\<close>.
\<close>

section \<open>The syntax tree\<close>

datatype propertyKind = PK_INIT | PK_GET | PK_SET | PK_PROTO

datatype ast =
    Identifier nat (idName: name) bool "ast list"
  | StringLiteral name
  | NumberLiteral name
  | BooleanLiteral bool
  | NullLiteral
  | SuperExpression "ast list"
  | SpreadElement ast "ast list" \<comment> \<open>argument, type annotation\<close>
  | ScriptFunctionNode nat scopeId bool bool "name option" "ast list" ast
    \<comment> \<open>number, function scope, arrow, constructor, name, parameters, body\<close>
  | FunctionDeclaration ast
  | FunctionExpression ast
  | VariableDeclarator bool ast "ast option" \<comment> \<open>declared with \<open>var\<close>, id, initialiser\<close>
  | ClassDefinition scopeId "(nat \<times> name) option" "ast option" ast "ast list"
    \<comment> \<open>scope, name, super class, constructor, body\<close>
  | ClassDeclaration ast "ast list"
  | ClassProperty "ast list"
  | MethodDefinition ast ast "ast list" \<comment> \<open>key, value, overloads and decorators\<close>
  | BlockStatement scopeId "ast list"
  | SwitchStatement scopeId "ast list"
  | DoWhileStatement scopeId ast ast \<comment> \<open>loop scope, body, test\<close>
  | WhileStatement scopeId ast ast \<comment> \<open>loop scope, test, body\<close>
  | ForUpdateStatement scopeId "ast option" "ast option" "ast option" ast \<comment> \<open>loop scope, init, test, update, body\<close>
  | ForInOfStatement scopeId ast ast ast \<comment> \<open>loop scope, left, right, body\<close>
  | CatchClause scopeId "ast option" ast \<comment> \<open>catch scope, parameter, body\<close>
  | ObjectPattern "ast list" "ast list" \<comment> \<open>properties, type annotation\<close>
  | ArrayPattern "ast list" "ast list"
  | AssignmentPattern ast ast
  | AssignmentExpression ast ast
  | Property propertyKind bool ast ast \<comment> \<open>kind, computed, key, value\<close>
  | RestElement ast "ast list"
  | OtherAst "ast list"

section \<open>Kinds of nodes\<close>

definition ContainSpreadElement :: "ast list \<Rightarrow> bool" where
  "ContainSpreadElement args \<longleftrightarrow> list_ex (\<lambda>a. case a of SpreadElement _ _ \<Rightarrow> True | _ \<Rightarrow> False) args"

text \<open>Any other kind is \<open>UNREACHABLE()\<close>.\<close>

definition LiteralToPropName :: "ast \<Rightarrow> name option" where
  "LiteralToPropName lit =
    (case lit of
       Identifier _ n _ _ \<Rightarrow> Some n
     | StringLiteral s \<Rightarrow> Some s
     | NumberLiteral s \<Rightarrow> Some s
     | NullLiteral \<Rightarrow> Some (asciiText ''null'')
     | _ \<Rightarrow> None)"

definition IsSpecialPropertyKey :: "ast \<Rightarrow> bool" where
  "IsSpecialPropertyKey expr =
    (case expr of StringLiteral s \<Rightarrow> s = asciiText ''prototype'' \<or> s = asciiText ''constructor'' | _ \<Rightarrow> False)"

definition IsConstantExpr :: "ast \<Rightarrow> bool" where
  "IsConstantExpr expr =
    (case expr of NumberLiteral _ \<Rightarrow> True | StringLiteral _ \<Rightarrow> True | BooleanLiteral _ \<Rightarrow> True
     | NullLiteral \<Rightarrow> True | _ \<Rightarrow> False)"

definition IsConstantPropertyKey :: "ast \<Rightarrow> bool \<Rightarrow> bool" where
  "IsConstantPropertyKey expr isComputed =
    (case expr of Identifier _ _ _ _ \<Rightarrow> \<not> isComputed | NumberLiteral _ \<Rightarrow> True | StringLiteral _ \<Rightarrow> True
     | BooleanLiteral _ \<Rightarrow> True | NullLiteral \<Rightarrow> True | _ \<Rightarrow> False)"

definition IsBindingPattern :: "ast \<Rightarrow> bool" where
  "IsBindingPattern node = (case node of ArrayPattern _ _ \<Rightarrow> True | ObjectPattern _ _ \<Rightarrow> True | _ \<Rightarrow> False)"

definition IsPattern :: "ast \<Rightarrow> bool" where
  "IsPattern node = (IsBindingPattern node \<or> (case node of AssignmentPattern _ _ \<Rightarrow> True | _ \<Rightarrow> False))"

section \<open>Binding names\<close>

text \<open>The identifiers a pattern binds, but for the names of global constants.\<close>

fun CollectBindingNames :: "ast \<Rightarrow> (nat \<times> name) list" where
  "CollectBindingNames (Identifier i n _ _) = (if IsGlobalIdentifier n then [] else [(i, n)])"
| "CollectBindingNames (ObjectPattern props _) = concat (map CollectBindingNames props)"
| "CollectBindingNames (ArrayPattern elements _) = concat (map CollectBindingNames elements)"
| "CollectBindingNames (AssignmentPattern target _) = CollectBindingNames target"
| "CollectBindingNames (Property _ _ _ value) = CollectBindingNames value"
| "CollectBindingNames (RestElement arg _) = CollectBindingNames arg"
| "CollectBindingNames _ = []"

definition ParamName :: "ast \<Rightarrow> nat \<Rightarrow> name \<times> bool" where
  "ParamName param index =
    (case param of
       Identifier _ n _ _ \<Rightarrow> (n, False)
     | AssignmentPattern (Identifier _ n _ _) _ \<Rightarrow> (n, False)
     | RestElement (Identifier _ n _ _) _ \<Rightarrow> (n, False)
     | _ \<Rightarrow> (decimalBytes index, True))"

section \<open>Climbing the tree\<close>

text \<open>The innermost function on a path, with the path above it.\<close>

fun GetContainingFunction :: "ast list \<Rightarrow> (ast \<times> ast list) option" where
  "GetContainingFunction [] = None"
| "GetContainingFunction (node # path) =
    (case node of ScriptFunctionNode _ _ _ _ _ _ _ \<Rightarrow> Some (node, path) | _ \<Rightarrow> GetContainingFunction path)"

text \<open>The constructor around a node: arrow functions are looked through.\<close>

fun GetContainingConstructor :: "ast list \<Rightarrow> (ast \<times> ast list) option" where
  "GetContainingConstructor [] = None"
| "GetContainingConstructor (node # path) =
    (case node of
       ScriptFunctionNode _ _ arrow ctor _ _ _ \<Rightarrow>
         if ctor then Some (node, path) else if \<not> arrow then None else GetContainingConstructor path
     | _ \<Rightarrow> GetContainingConstructor path)"

definition functionOf :: "ast \<Rightarrow> ast option" where
  "functionOf node = (case node of MethodDefinition _ (FunctionExpression f) _ \<Rightarrow> Some f | _ \<Rightarrow> None)"

text \<open>The constructor of the innermost class on the path of a class property.\<close>

fun GetContainingConstructor_property :: "ast list \<Rightarrow> ast option" where
  "GetContainingConstructor_property [] = None"
| "GetContainingConstructor_property (node # path) =
    (case node of ClassDefinition _ _ _ ctor _ \<Rightarrow> functionOf ctor | _ \<Rightarrow> GetContainingConstructor_property path)"

text \<open>The class a constructor belongs to: three parents up.\<close>

definition GetClassDefinition :: "ast list \<Rightarrow> ast option" where
  "GetClassDefinition path =
    (case path of _ # _ # c # _ \<Rightarrow> (case c of ClassDefinition _ _ _ _ _ \<Rightarrow> Some c | _ \<Rightarrow> None) | _ \<Rightarrow> None)"

text \<open>The \<open>switch\<close> of \<open>FunctionName\<close> over the node the function is the value of.\<close>

definition nameFromContext :: "ast \<Rightarrow> name option" where
  "nameFromContext parent =
    (case parent of
       VariableDeclarator _ (Identifier _ n _ _) _ \<Rightarrow> Some n
     | MethodDefinition (Identifier _ n _ _) _ _ \<Rightarrow> Some n
     | AssignmentExpression (Identifier _ n _ _) _ \<Rightarrow> Some n
     | AssignmentPattern (Identifier _ n _ _) _ \<Rightarrow> Some n
     | Property kind computed key _ \<Rightarrow>
         if kind \<noteq> PK_PROTO \<and> IsConstantPropertyKey key computed then LiteralToPropName key else Some []
     | _ \<Rightarrow> Some [])"

definition nth_parent :: "ast list \<Rightarrow> nat \<Rightarrow> ast option" where
  "nth_parent path i = (if i < length path then Some (path ! i) else None)"

definition FunctionName :: "ast list \<Rightarrow> ast \<Rightarrow> name option" where
  "FunctionName path func =
    (case func of
       ScriptFunctionNode _ _ _ ctor ident _ _ \<Rightarrow>
         (case ident of
            Some n \<Rightarrow> Some n
          | None \<Rightarrow>
             (case path of
                FunctionDeclaration _ # _ \<Rightarrow> Some (asciiText ''*default*'')
              | _ # parent # outer \<Rightarrow>
                  if ctor then
                    (case outer of
                       ClassDefinition _ (Some (_, n)) _ _ _ # _ \<Rightarrow> Some n
                     | ClassDefinition _ None _ _ _ # _ # p # _ \<Rightarrow> nameFromContext p
                     | _ \<Rightarrow> None)
                  else nameFromContext parent
              | _ \<Rightarrow> None))
     | _ \<Rightarrow> None)"

end
