(* ===== verification/Binder.thy ===== *)
theory Binder
  imports Helpers
begin

text \<open>
  \<open>binder/binder.cpp\<close> and \<open>binder.h\<close>: the pass that resolves the identifiers of a program.

  \<open>Binder\<close> is the record \<open>binderState\<close>: the arena, the scope the pass is in, the functions in the order they
  were met (with their node and its path, where the code climbs parent pointers), and what the pass
  writes into identifiers: the variable and the TDZ mark.  \<open>LexicalScope\<close> enters a scope and its
  destructor restores the previous one (\<open>inScope\<close>).
\<close>

section \<open>State\<close>

record binderState =
  bHeap :: heap
  topScope :: scopeId
  bScope :: scopeId
  functionScopes :: "(scopeId \<times> (ast \<times> ast list) option) list"
  identVar :: "nat \<Rightarrow> varId option"
  identTdz :: "nat \<Rightarrow> bool"

type_synonym 'a bindM = "(binderState, binderError, 'a) comp"

text \<open>An operation on scopes.\<close>

definition onHeap :: "'a heapM \<Rightarrow> 'a bindM" where
  "onHeap m s = (case m (bHeap s) of Ok (a, h) \<Rightarrow> Ok (a, s\<lparr>bHeap := h\<rparr>) | Throw e \<Rightarrow> Throw e
                 | Undefined \<Rightarrow> Undefined | NoFuel \<Rightarrow> NoFuel)"

definition inScope :: "scopeId \<Rightarrow> 'a bindM \<Rightarrow> 'a bindM" where
  "inScope sc m =
    bindM (getM bScope) (\<lambda>prev. thenM (modifyM (\<lambda>s. s\<lparr>bScope := sc\<rparr>))
      (bindM m (\<lambda>a. thenM (modifyM (\<lambda>s. s\<lparr>bScope := prev\<rparr>)) (ret a))))"

definition scopeOf :: "scopeId \<Rightarrow> scope bindM" where
  "scopeOf sc = onHeap (getScope sc)"

definition enclosingScope :: "scopeId \<Rightarrow> scopeId bindM" where
  "enclosingScope sc = bindM (onHeap (EnclosingVariableScope sc)) deref"

definition addScopeFlag :: "scopeId \<Rightarrow> u32 \<Rightarrow> unit bindM" where
  "addScopeFlag sc flag = onHeap (modScope sc (\<lambda>x. x\<lparr>sFlags := sFlags x OR flag\<rparr>))"

section \<open>The hidden parameters\<close>

definition FUNCTION_MANDATORY_PARAMS :: "name list" where
  "FUNCTION_MANDATORY_PARAMS = [MANDATORY_PARAM_FUNC, MANDATORY_PARAM_NEW_TARGET, MANDATORY_PARAM_THIS]"
definition ARROW_MANDATORY_PARAMS :: "name list" where
  "ARROW_MANDATORY_PARAMS =
    [MANDATORY_PARAM_FUNC, LEXICAL_MANDATORY_PARAM_NEW_TARGET, LEXICAL_MANDATORY_PARAM_THIS]"
definition CTOR_ARROW_MANDATORY_PARAMS :: "name list" where
  "CTOR_ARROW_MANDATORY_PARAMS =
    [LEXICAL_MANDATORY_PARAM_FUNC, LEXICAL_MANDATORY_PARAM_NEW_TARGET, LEXICAL_MANDATORY_PARAM_THIS]"

section \<open>Declarations\<close>

definition InitTopScope :: "bool \<Rightarrow> unit bindM" where
  "InitTopScope isModule =
    bindM (onHeap (newGlobalScope (if isModule then ModuleScope else GlobalScope))) (\<lambda>sc.
      modifyM (\<lambda>s. s\<lparr>topScope := sc, bScope := sc\<rparr>))"

text \<open>The location of a redeclaration comes from the line table of the program's source.\<close>

definition ThrowRedeclaration :: "byte list \<Rightarrow> sourcePosition \<Rightarrow> name \<Rightarrow> 'a bindM" where
  "ThrowRedeclaration source pos n =
    (\<lambda>s. case LineIndex source of
       Ok es \<Rightarrow> (case GetLocation es pos of
           Some loc \<Rightarrow> Throw \<lparr>beName = n, beLine = slLine loc, beCol = slCol loc\<rparr>
         | None \<Rightarrow> Undefined)
     | NoFuel \<Rightarrow> NoFuel
     | _ \<Rightarrow> Undefined)"

definition Binder_AddDecl :: "byte list \<Rightarrow> scriptExtension \<Rightarrow> sourcePosition \<Rightarrow> decl \<Rightarrow> declId bindM" where
  "Binder_AddDecl source extension pos dc =
    bindM (onHeap (allocDecl dc)) (\<lambda>d. bindM (getM bScope) (\<lambda>sc.
    bindM (onHeap (AddDecl sc d extension)) (\<lambda>added.
      if added then ret d else ThrowRedeclaration source pos (dName dc))))"

definition Binder_AddTsDecl :: "byte list \<Rightarrow> scriptExtension \<Rightarrow> sourcePosition \<Rightarrow> decl \<Rightarrow> declId bindM" where
  "Binder_AddTsDecl source extension pos dc =
    bindM (onHeap (allocDecl dc)) (\<lambda>d. bindM (getM bScope) (\<lambda>sc.
    bindM (onHeap (AddTsDecl sc d extension)) (\<lambda>added.
      if added then ret d else ThrowRedeclaration source pos (dName dc))))"

text \<open>\<open>AddParamDecl\<close>; \<open>startOf\<close> gives the position of a node.\<close>

definition Binder_AddParamDecl :: "byte list \<Rightarrow> (astRef \<Rightarrow> sourcePosition) \<Rightarrow> astRef \<Rightarrow> ast \<Rightarrow> declId bindM" where
  "Binder_AddParamDecl source startOf ref param =
    bindM (getM bScope) (\<lambda>sc. bindM (scopeOf sc) (\<lambda>scope.
    let (n, pattern) = ParamName param (length (sParams scope));
        bindings = map (\<lambda>(i, x). (x, OtherNode i)) (CollectBindingNames param)
    in bindM (onHeap (AddParamDecl sc ref n pattern bindings)) (\<lambda>(d, node).
      case node of
        None \<Rightarrow> ret d
      | Some r \<Rightarrow> bindM (onHeap (getDecl d)) (\<lambda>dc. ThrowRedeclaration source (startOf r) (dName dc)))))"

section \<open>References\<close>

definition LookupReference :: "name \<Rightarrow> unit bindM" where
  "LookupReference n =
    bindM (getM bScope) (\<lambda>sc. bindM (onHeap (Find sc n RB_BINDINGS)) (\<lambda>res.
      if frLevel res = 0 then ret ()
      else bindM (deref (frVariable res)) (\<lambda>v. bindM (deref (frScope res)) (\<lambda>fs.
        onHeap (SetLexical v fs)))))"

definition isScriptFunctionRef :: "astRef \<Rightarrow> bool" where
  "isScriptFunctionRef node = (case node of ScriptFunction _ _ \<Rightarrow> True | _ \<Rightarrow> False)"

definition isArrowRef :: "astRef \<Rightarrow> bool" where
  "isArrowRef node = (case node of ScriptFunction _ arrow \<Rightarrow> arrow | _ \<Rightarrow> False)"

text \<open>The innermost function that is not an arrow function gets its \<open>arguments\<close>.\<close>

definition declareArguments :: "scopeId \<Rightarrow> scopeId \<Rightarrow> unit bindM" where
  "declareArguments it sc =
    bindM (onHeap (AddDeclVar LocalVariable sc DECL_CONST FUNCTION_ARGUMENTS VF_INITIALIZED)) (\<lambda>v.
    bindM (scopeOf it) (\<lambda>itScope.
      if Type itScope = ST_FUNCTION_PARAM then
        (case v of
           None \<Rightarrow> ret ()
         | Some w \<Rightarrow> bindM (deref (functionScope itScope)) (\<lambda>f.
             thenM (onHeap (insertBinding f FUNCTION_ARGUMENTS (Some w))) (addScopeFlag f VSF_USE_ARGS)))
      else addScopeFlag sc VSF_USE_ARGS))"

fun InstantiateArguments_loop :: "nat \<Rightarrow> scopeId option \<Rightarrow> unit bindM" where
  "InstantiateArguments_loop 0 it = out_of_fuel"
| "InstantiateArguments_loop (Suc n) it =
    bindM (deref it) (\<lambda>i. bindM (scopeOf i) (\<lambda>iScope.
    bindM (if Type iScope = ST_FUNCTION_PARAM then ret i else enclosingScope i) (\<lambda>sc.
    bindM (scopeOf sc) (\<lambda>scope.
      if Type scope = ST_LOOP then InstantiateArguments_loop n (sParent scope)
      else bindM (deref (sNode scope)) (\<lambda>node.
        if \<not> isScriptFunctionRef node then ret ()
        else if \<not> isArrowRef node then declareArguments i sc
        else InstantiateArguments_loop n (sParent scope))))))"

definition InstantiateArguments :: "unit bindM" where
  "InstantiateArguments =
    bindM (getM bScope) (\<lambda>sc. \<lambda>s. InstantiateArguments_loop (Suc (nScopes (bHeap s))) (Some sc) s)"

text \<open>Whether the reference is to a \<open>let\<close> or \<open>const\<close> that is not initialised yet.\<close>

definition needsTdz :: "heap \<Rightarrow> varId \<Rightarrow> bool" where
  "needsTdz h v \<longleftrightarrow> IsLetOrConstDecl (decls h (vDecl (vars h v))) \<and> \<not> HasFlag VF_INITIALIZED (vars h v)"

definition bindIdent :: "nat \<Rightarrow> varId \<Rightarrow> unit bindM" where
  "bindIdent ident v =
    modifyM (\<lambda>s. s\<lparr>identTdz := (identTdz s)(ident := identTdz s ident \<or> needsTdz (bHeap s) v),
                  identVar := (identVar s)(ident := Some v)\<rparr>)"

definition LookupIdentReference :: "nat \<Rightarrow> name \<Rightarrow> unit bindM" where
  "LookupIdentReference ident n =
    thenM (if n = FUNCTION_ARGUMENTS then InstantiateArguments else ret ())
    (bindM (getM bScope) (\<lambda>sc. bindM (onHeap (Find sc n RB_BINDINGS)) (\<lambda>res.
    thenM (if frLevel res \<noteq> 0 then
             bindM (deref (frVariable res)) (\<lambda>v. bindM (deref (frScope res)) (\<lambda>fs. onHeap (SetLexical v fs)))
           else ret ())
      (case frVariable res of None \<Rightarrow> ret () | Some v \<Rightarrow> bindIdent ident v))))"

section \<open>Functions\<close>

text \<open>\<open>"func_" << name << "_" << idx\<close>\<close>

definition internalFunctionName :: "name \<Rightarrow> nat \<Rightarrow> name" where
  "internalFunctionName n idx = asciiText ''func_'' @ n @ asciiText ''_'' @ decimalBytes idx"

definition BuildFunction :: "scopeId \<Rightarrow> (ast \<times> ast list) option \<Rightarrow> name \<Rightarrow> unit bindM" where
  "BuildFunction sc node n =
    bindM (getM (\<lambda>s. length (functionScopes s))) (\<lambda>idx.
    thenM (modifyM (\<lambda>s. s\<lparr>functionScopes := functionScopes s @ [(sc, node)]\<rparr>))
      (onHeap (modScope sc (\<lambda>x. x\<lparr>sName := n, internalName := internalFunctionName n idx\<rparr>))))"

definition BuildScriptFunction :: "scopeId \<Rightarrow> ast list \<Rightarrow> ast \<Rightarrow> bool \<Rightarrow> unit bindM" where
  "BuildScriptFunction outerScope path func arrow =
    thenM (if arrow then bindM (enclosingScope outerScope) (\<lambda>vs. addScopeFlag vs VSF_INNER_ARROW) else ret ())
    (bindM (getM bScope) (\<lambda>sc. bindM (deref (FunctionName path func)) (BuildFunction sc (Some (func, path)))))"

text \<open>Marking the variable a name is bound to in the current scope, or one found from it.\<close>

definition initLocal :: "name \<Rightarrow> unit bindM" where
  "initLocal n =
    bindM (getM bScope) (\<lambda>sc. bindM (scopeOf sc) (\<lambda>scope.
    bindM (deref (FindLocal scope n RB_BINDINGS)) (\<lambda>v. onHeap (AddFlag v VF_INITIALIZED))))"

definition initFound :: "name \<Rightarrow> unit bindM" where
  "initFound n =
    bindM (getM bScope) (\<lambda>sc. bindM (onHeap (Find sc n RB_BINDINGS)) (\<lambda>res.
    bindM (deref (frVariable res)) (\<lambda>v. onHeap (AddFlag v VF_INITIALIZED))))"

definition paramScopeOf :: "scopeId \<Rightarrow> scopeId bindM" where
  "paramScopeOf sc = bindM (scopeOf sc) (\<lambda>scope. deref (paramScope scope))"

definition declScopeOf :: "scopeId \<Rightarrow> scopeId bindM" where
  "declScopeOf sc = bindM (scopeOf sc) (\<lambda>scope. deref (declScope scope))"

definition isClassDeclaration :: "ast list \<Rightarrow> bool" where
  "isClassDeclaration path = (case path of ClassDeclaration _ _ # _ \<Rightarrow> True | _ \<Rightarrow> False)"

definition ctorScope :: "ast list \<Rightarrow> scopeId option" where
  "ctorScope path = (case GetContainingConstructor_property path of
     Some (ScriptFunctionNode _ sc _ _ _ _ _) \<Rightarrow> Some sc | _ \<Rightarrow> None)"


section \<open>The traversal\<close>

text \<open>
  \<open>ResolveReference\<close>, \<open>ResolveReferences\<close> (the children \<open>Iterate\<close> visits, in order), \<open>BuildVarDeclaratorId\<close>
  and the builders they call.  \<open>path\<close> is the path to the node, its parent first; \<open>ResolveReference\<close> sets
  the parent of a node before it looks at it, so the path is what the code reads through \<open>Parent\<close>.
  \<open>Resolve_opt\<close> is the guard on a child that may be absent.
\<close>

fun ResolveReference :: "ast list \<Rightarrow> ast \<Rightarrow> unit bindM"
and ResolveAll :: "ast list \<Rightarrow> ast list \<Rightarrow> unit bindM"
and Resolve_opt :: "ast list \<Rightarrow> ast option \<Rightarrow> unit bindM"
and BuildVarDeclaratorId :: "ast list \<Rightarrow> ast \<Rightarrow> unit bindM"
and BuildIds :: "ast list \<Rightarrow> ast list \<Rightarrow> unit bindM"
where
  "ResolveReference path (Identifier i n isRef cs) =
    thenM (if isRef then LookupIdentReference i n else ret ()) (ResolveAll (Identifier i n isRef cs # path) cs)"
| "ResolveReference path (SuperExpression cs) =
    bindM (getM bScope) (\<lambda>sc. bindM (enclosingScope sc) (\<lambda>vs.
    thenM (addScopeFlag vs VSF_USE_SUPER) (ResolveAll (SuperExpression cs # path) cs)))"
| "ResolveReference path (ScriptFunctionNode i sc arrow ctor ident params body) =
    bindM (getM bScope) (\<lambda>outerScope. bindM (paramScopeOf sc) (\<lambda>p.
    thenM (inScope p (ResolveAll (ScriptFunctionNode i sc arrow ctor ident params body # path) params))
      (inScope sc
        (thenM (BuildScriptFunction outerScope path (ScriptFunctionNode i sc arrow ctor ident params body) arrow)
          (ResolveReference (ScriptFunctionNode i sc arrow ctor ident params body # path) body)))))"
| "ResolveReference path (VariableDeclarator isVar ident init) =
    (if isVar then
       thenM (ResolveReference (VariableDeclarator isVar ident init # path) ident)
         (Resolve_opt (VariableDeclarator isVar ident init # path) init)
     else
       thenM (Resolve_opt (VariableDeclarator isVar ident init # path) init)
         (BuildVarDeclaratorId (VariableDeclarator isVar ident init # path) ident))"
| "ResolveReference path (ClassDefinition sc ident super ctor body) =
    thenM (if isClassDeclaration path then bindM (deref ident) (\<lambda>(_, n). initFound n) else ret ())
      (inScope sc
        (thenM (Resolve_opt (ClassDefinition sc ident super ctor body # path) super)
        (thenM (case ident of None \<Rightarrow> ret () | Some (_, n) \<Rightarrow> initFound n)
        (thenM (ResolveReference (ClassDefinition sc ident super ctor body # path) ctor)
          (ResolveAll (ClassDefinition sc ident super ctor body # path) body)))))"
| "ResolveReference path (ClassProperty cs) =
    bindM (deref (ctorScope path)) (\<lambda>sc. inScope sc (ResolveAll (ClassProperty cs # path) cs))"
| "ResolveReference path (BlockStatement sc cs) = inScope sc (ResolveAll (BlockStatement sc cs # path) cs)"
| "ResolveReference path (SwitchStatement sc cs) = inScope sc (ResolveAll (SwitchStatement sc cs # path) cs)"
| "ResolveReference path (DoWhileStatement sc body test) =
    thenM (inScope sc (ResolveReference (DoWhileStatement sc body test # path) body))
      (ResolveReference (DoWhileStatement sc body test # path) test)"
| "ResolveReference path (WhileStatement sc test body) =
    thenM (ResolveReference (WhileStatement sc test body # path) test)
      (inScope sc (ResolveReference (WhileStatement sc test body # path) body))"
| "ResolveReference path (ForUpdateStatement sc init test update body) =
    bindM (declScopeOf sc) (\<lambda>ds. inScope ds
      (thenM (Resolve_opt (ForUpdateStatement sc init test update body # path) init)
      (thenM (Resolve_opt (ForUpdateStatement sc init test update body # path) update)
        (inScope sc
          (thenM (Resolve_opt (ForUpdateStatement sc init test update body # path) test)
          (thenM (ResolveReference (ForUpdateStatement sc init test update body # path) body)
            (onHeap (ConvertToVariableScope sc))))))))"
| "ResolveReference path (ForInOfStatement sc lhs rhs body) =
    bindM (declScopeOf sc) (\<lambda>ds. inScope ds
      (thenM (ResolveReference (ForInOfStatement sc lhs rhs body # path) rhs)
      (thenM (ResolveReference (ForInOfStatement sc lhs rhs body # path) lhs)
        (inScope sc
          (thenM (ResolveReference (ForInOfStatement sc lhs rhs body # path) body)
            (onHeap (ConvertToVariableScope sc)))))))"
| "ResolveReference path (CatchClause sc param body) =
    thenM (case param of None \<Rightarrow> ret ()
           | Some p \<Rightarrow> bindM (paramScopeOf sc) (\<lambda>ps.
               inScope ps (ResolveReference (CatchClause sc param body # path) p)))
      (inScope sc (ResolveReference (CatchClause sc param body # path) body))"
| "ResolveReference path (SpreadElement arg ann) =
    thenM (ResolveReference (SpreadElement arg ann # path) arg) (ResolveAll (SpreadElement arg ann # path) ann)"
| "ResolveReference path (FunctionDeclaration f) = ResolveReference (FunctionDeclaration f # path) f"
| "ResolveReference path (FunctionExpression f) = ResolveReference (FunctionExpression f # path) f"
| "ResolveReference path (ClassDeclaration def cs) =
    thenM (ResolveReference (ClassDeclaration def cs # path) def) (ResolveAll (ClassDeclaration def cs # path) cs)"
| "ResolveReference path (MethodDefinition key val cs) =
    thenM (ResolveReference (MethodDefinition key val cs # path) key)
    (thenM (ResolveReference (MethodDefinition key val cs # path) val)
      (ResolveAll (MethodDefinition key val cs # path) cs))"
| "ResolveReference path (ObjectPattern props ann) =
    thenM (ResolveAll (ObjectPattern props ann # path) props) (ResolveAll (ObjectPattern props ann # path) ann)"
| "ResolveReference path (ArrayPattern els ann) =
    thenM (ResolveAll (ArrayPattern els ann # path) els) (ResolveAll (ArrayPattern els ann # path) ann)"
| "ResolveReference path (AssignmentPattern lhs rhs) =
    thenM (ResolveReference (AssignmentPattern lhs rhs # path) lhs) (ResolveReference (AssignmentPattern lhs rhs # path) rhs)"
| "ResolveReference path (AssignmentExpression lhs rhs) =
    thenM (ResolveReference (AssignmentExpression lhs rhs # path) lhs)
      (ResolveReference (AssignmentExpression lhs rhs # path) rhs)"
| "ResolveReference path (Property kind computed key val) =
    thenM (ResolveReference (Property kind computed key val # path) key)
      (ResolveReference (Property kind computed key val # path) val)"
| "ResolveReference path (RestElement arg ann) =
    thenM (ResolveReference (RestElement arg ann # path) arg) (ResolveAll (RestElement arg ann # path) ann)"
| "ResolveReference path (OtherAst cs) = ResolveAll (OtherAst cs # path) cs"
| "ResolveReference path (StringLiteral _) = ret ()"
| "ResolveReference path (NumberLiteral _) = ret ()"
| "ResolveReference path (BooleanLiteral _) = ret ()"
| "ResolveReference path NullLiteral = ret ()"
| "ResolveAll path [] = ret ()"
| "ResolveAll path (c # cs) = thenM (ResolveReference path c) (ResolveAll path cs)"
| "Resolve_opt path None = ret ()"
| "Resolve_opt path (Some c) = ResolveReference path c"
| "BuildVarDeclaratorId path (Identifier i n isRef cs) = (if IsGlobalIdentifier n then ret () else initLocal n)"
| "BuildVarDeclaratorId path (ObjectPattern props ann) = BuildIds (ObjectPattern props ann # path) props"
| "BuildVarDeclaratorId path (ArrayPattern els ann) = BuildIds (ArrayPattern els ann # path) els"
| "BuildVarDeclaratorId path (AssignmentPattern lhs rhs) =
    thenM (ResolveReference (AssignmentPattern lhs rhs # path) rhs)
      (BuildVarDeclaratorId (AssignmentPattern lhs rhs # path) lhs)"
| "BuildVarDeclaratorId path (Property kind computed key val) =
    thenM (ResolveReference (Property kind computed key val # path) key)
      (BuildVarDeclaratorId (Property kind computed key val # path) val)"
| "BuildVarDeclaratorId path (RestElement arg ann) = BuildVarDeclaratorId (RestElement arg ann # path) arg"
| "BuildVarDeclaratorId path _ = ret ()"
| "BuildIds path [] = ret ()"
| "BuildIds path (c # cs) = thenM (BuildVarDeclaratorId path c) (BuildIds path cs)"


section \<open>Hidden parameters\<close>

text \<open>\<open>AddMandatoryParam\<close> puts a parameter in front of the others; the list is walked backwards.\<close>

definition AddMandatoryParam :: "name \<Rightarrow> unit bindM" where
  "AddMandatoryParam n =
    bindM (onHeap (allocDecl (newDecl DECL_PARAM n))) (\<lambda>d.
    bindM (onHeap (LocalVariable d VF_VAR)) (\<lambda>v.
    bindM (getM bScope) (\<lambda>sc. bindM (paramScopeOf sc) (\<lambda>p.
    thenM (onHeap (modScope p (\<lambda>x. x\<lparr>sParams := v # sParams x\<rparr>)))
      (onHeap (insertBinding sc n (Some v)))))))"

primrec AddMandatoryParams_rev :: "name list \<Rightarrow> unit bindM" where
  "AddMandatoryParams_rev [] = ret ()"
| "AddMandatoryParams_rev (n # ns) = thenM (AddMandatoryParam n) (AddMandatoryParams_rev ns)"

definition AddMandatoryParams :: "name list \<Rightarrow> unit bindM" where
  "AddMandatoryParams params = AddMandatoryParams_rev (rev params)"

definition hasSuperClass :: "ast \<Rightarrow> bool" where
  "hasSuperClass cls = (case cls of ClassDefinition _ _ super _ _ \<Rightarrow> super \<noteq> None | _ \<Rightarrow> False)"

definition functionScopeOf :: "ast \<Rightarrow> scopeId option" where
  "functionScopeOf func = (case func of ScriptFunctionNode _ sc _ _ _ _ _ \<Rightarrow> Some sc | _ \<Rightarrow> None)"

definition isArrowNode :: "ast \<Rightarrow> bool" where
  "isArrowNode func = (case func of ScriptFunctionNode _ _ arrow _ _ _ _ \<Rightarrow> arrow | _ \<Rightarrow> False)"

text \<open>The body of the loop for an arrow function: an arrow function in a derived constructor that uses
  \<open>super\<close> captures the function object, and every arrow function captures \<open>new.target\<close> and \<open>this\<close>.\<close>

definition AddArrowParams :: "scopeId \<Rightarrow> ast list \<Rightarrow> unit bindM" where
  "AddArrowParams sc path =
    bindM (scopeOf sc) (\<lambda>scope.
    bindM (case GetContainingConstructor path of
             None \<Rightarrow> ret False
           | Some (ctor, ctorPath) \<Rightarrow>
               bindM (deref (GetClassDefinition ctorPath)) (\<lambda>cls.
                 if hasSuperClass cls \<and> sFlags scope AND VSF_USE_SUPER \<noteq> 0
                 then bindM (deref (functionScopeOf ctor)) (\<lambda>cs.
                   thenM (addScopeFlag cs VSF_SET_LEXICAL_FUNCTION) (ret True))
                 else ret False)) (\<lambda>lexicalFunctionObject.
    thenM (AddMandatoryParams (if lexicalFunctionObject then CTOR_ARROW_MANDATORY_PARAMS else ARROW_MANDATORY_PARAMS))
    (thenM (LookupReference MANDATORY_PARAM_NEW_TARGET)
    (thenM (LookupReference MANDATORY_PARAM_THIS)
    (bindM (scopeOf sc) (\<lambda>scope.
    thenM (if sFlags scope AND VSF_USE_ARGS \<noteq> 0 then LookupReference FUNCTION_ARGUMENTS else ret ())
      (if lexicalFunctionObject then LookupReference MANDATORY_PARAM_FUNC else ret ())))))))"

primrec AddAllMandatoryParams :: "(scopeId \<times> (ast \<times> ast list) option) list \<Rightarrow> unit bindM" where
  "AddAllMandatoryParams [] = ret ()"
| "AddAllMandatoryParams (f # fs) =
    thenM (bindM (deref (snd f)) (\<lambda>(func, path). inScope (fst f)
        (if isArrowNode func then AddArrowParams (fst f) path else AddMandatoryParams FUNCTION_MANDATORY_PARAMS)))
      (AddAllMandatoryParams fs)"

text \<open>The first function is the program itself.\<close>

definition AddProgramParams :: "unit bindM" where
  "AddProgramParams =
    bindM (getM functionScopes) (\<lambda>fs.
    thenM (AddMandatoryParams FUNCTION_MANDATORY_PARAMS) (AddAllMandatoryParams (tl fs)))"

text \<open>\<open>IdentifierAnalysis\<close>; the program is its root node, whose children are resolved.\<close>

definition IdentifierAnalysis :: "ast \<Rightarrow> ast list \<Rightarrow> unit bindM" where
  "IdentifierAnalysis root children =
    bindM (getM topScope) (\<lambda>top.
    thenM (BuildFunction top None (asciiText ''main''))
    (thenM (ResolveAll [root] children) AddProgramParams))"

end
