(* ===== verification/ScopeProps.thy ===== *)
theory ScopeProps
  imports Scope
begin

text \<open>
  What the scopes promise.  \<open>wfHeap\<close> is the invariant of the arena: parents are older than their
  children, the outermost scopes hold functions, every binding is filed under the name of its
  declaration and every name is bound once in a scope.  Every way of adding a declaration keeps it and
  runs to its end.  \<open>scopeChain\<close> is the abstract view of the nesting: a lookup is a search through it.
\<close>

section \<open>The maps from names to variables\<close>

text \<open>The interface of the map: \<open>insert\<close> keeps an existing entry, \<open>find\<close> sees the first one.\<close>

locale keeping_map =
  fixes get :: "'m \<Rightarrow> 'k \<Rightarrow> 'v option" and ins :: "'k \<Rightarrow> 'v \<Rightarrow> 'm \<Rightarrow> 'm"
  assumes get_ins: "get (ins k v m) n = (if n = k \<and> get m k = None then Some v else get m n)"
begin

lemma ins_new: "get m k = None \<Longrightarrow> get (ins k v m) k = Some v"
  by (simp add: get_ins)

lemma ins_old: "get m n = Some w \<Longrightarrow> get (ins k v m) n = Some w"
  by (auto simp: get_ins)

lemma ins_other: "n \<noteq> k \<Longrightarrow> get (ins k v m) n = get m n"
  by (simp add: get_ins)

lemma ins_twice: "get (ins k w (ins k v m)) n = get (ins k v m) n"
  by (auto simp: get_ins)

end

interpretation vm: keeping_map map_of bindInsert
proof unfold_locales
  fix k v n and m :: "(name \<times> varId option) list"
  show "map_of (bindInsert k v m) n = (if n = k \<and> map_of m k = None then Some v else map_of m n)"
    by (cases "map_of m n") (auto simp: bindInsert_def map_add_def)
qed

lemma bindInsert_set: "set (bindInsert n v bs) \<subseteq> insert (n, v) (set bs)"
  by (auto simp: bindInsert_def)

lemma bindInsert_distinct: "distinct (map fst bs) \<Longrightarrow> distinct (map fst (bindInsert n v bs))"
  by (auto simp: bindInsert_def map_of_eq_None_iff)

section \<open>Stepping through the arena\<close>

lemma wp_getScope [wp]: "Q (scopes h s) h \<Longrightarrow> wpM F (getScope s) h Q"
  by (simp add: getScope_def wp_get)

lemma wp_modScope [wp]: "Q () (h\<lparr>scopes := (scopes h)(s := f (scopes h s))\<rparr>) \<Longrightarrow> wpM F (modScope s f) h Q"
  by (simp add: modScope_def wp_modify)

lemma wp_getVar [wp]: "Q (vars h v) h \<Longrightarrow> wpM F (getVar v) h Q"
  by (simp add: getVar_def wp_get)

lemma wp_modVar [wp]: "Q () (h\<lparr>vars := (vars h)(v := f (vars h v))\<rparr>) \<Longrightarrow> wpM F (modVar v f) h Q"
  by (simp add: modVar_def wp_modify)

lemma wp_getDecl [wp]: "Q (decls h d) h \<Longrightarrow> wpM F (getDecl d) h Q"
  by (simp add: getDecl_def wp_get)

lemma wp_deref [wp]: "p \<noteq> None \<Longrightarrow> (\<And>a. p = Some a \<Longrightarrow> Q a h) \<Longrightarrow> wpM F (deref p) h Q"
  by (cases p) (simp_all add: deref_def readM_def wpM_def)

lemma wp_allocVar [wp]:
  "Q (nVars h) (h\<lparr>vars := (vars h)(nVars h := v), nVars := Suc (nVars h)\<rparr>) \<Longrightarrow> wpM F (allocVar v) h Q"
  by (simp add: allocVar_def wpM_def)

lemma wp_allocDecl [wp]:
  "Q (nDecls h) (h\<lparr>decls := (decls h)(nDecls h := d), nDecls := Suc (nDecls h)\<rparr>) \<Longrightarrow> wpM F (allocDecl d) h Q"
  by (simp add: allocDecl_def wpM_def)

lemma wp_case_option [wp]:
  "(x = None \<Longrightarrow> wpM F m s Q) \<Longrightarrow> (\<And>a. x = Some a \<Longrightarrow> wpM F (f a) s Q)
    \<Longrightarrow> wpM F (case x of None \<Rightarrow> m | Some a \<Rightarrow> f a) s Q"
  by (cases x) simp_all

lemma wp_case_prod [wp]:
  "(\<And>a b. x = (a, b) \<Longrightarrow> wpM F (f a b) s Q) \<Longrightarrow> wpM F (case x of (a, b) \<Rightarrow> f a b) s Q"
  by (cases x) simp

section \<open>The invariant\<close>

lemma Type_cong: "sClass a = sClass b \<Longrightarrow> loopType a = loopType b \<Longrightarrow> Type a = Type b"
  by (simp add: Type_def split: scopeClass.splits)

lemma Type_bindings [simp]: "Type (sc\<lparr>sBindings := bs\<rparr>) = Type sc"
  by (rule Type_cong) simp_all

definition wfBinding :: "heap \<Rightarrow> name \<times> varId option \<Rightarrow> bool" where
  "wfBinding h b \<longleftrightarrow> (case snd b of None \<Rightarrow> False
     | Some v \<Rightarrow> v < nVars h \<and> dName (decls h (vDecl (vars h v))) = fst b)"

definition wfScope :: "heap \<Rightarrow> scopeId \<Rightarrow> bool" where
  "wfScope h s \<longleftrightarrow> (let sc = scopes h s in
     (case sParent sc of None \<Rightarrow> IsFunctionVariableScope sc | Some p \<Rightarrow> p < s)
     \<and> distinct (map fst (sBindings sc))
     \<and> list_all (wfBinding h) (sBindings sc)
     \<and> (\<forall>d \<in> set (sDecls sc). d < nDecls h)
     \<and> (sClass sc = CatchScope \<longrightarrow> paramScope sc \<noteq> None))"

definition wfHeap :: "heap \<Rightarrow> bool" where
  "wfHeap h \<longleftrightarrow> (\<forall>s < nScopes h. wfScope h s) \<and> (\<forall>v < nVars h. vDecl (vars h v) < nDecls h)"


text \<open>What adding declarations may change: the shape of the scope tree stays, declarations stay.\<close>

definition sameTree :: "heap \<Rightarrow> heap \<Rightarrow> bool" where
  "sameTree h h' \<longleftrightarrow> nScopes h' = nScopes h \<and> nVars h \<le> nVars h' \<and> nDecls h \<le> nDecls h'
     \<and> (\<forall>d < nDecls h. decls h' d = decls h d)
     \<and> (\<forall>s. sParent (scopes h' s) = sParent (scopes h s) \<and> sClass (scopes h' s) = sClass (scopes h s)
          \<and> loopType (scopes h' s) = loopType (scopes h s) \<and> paramScope (scopes h' s) = paramScope (scopes h s))"

lemma sameTree_refl [simp]: "sameTree h h"
  by (simp add: sameTree_def)

lemma sameTree_trans: "sameTree h k \<Longrightarrow> sameTree k l \<Longrightarrow> sameTree h l"
  by (auto simp: sameTree_def)

lemma sameTree_Type: "sameTree h h' \<Longrightarrow> Type (scopes h' s) = Type (scopes h s)"
  by (rule Type_cong) (simp_all add: sameTree_def)

lemma wfHeapD:
  assumes "wfHeap h" and "s < nScopes h"
  shows "sParent (scopes h s) = Some p \<Longrightarrow> p < s"
    and "sParent (scopes h s) = None \<Longrightarrow> IsFunctionVariableScope (scopes h s)"
    and "map_of (sBindings (scopes h s)) n = Some q
      \<Longrightarrow> \<exists>v. q = Some v \<and> v < nVars h \<and> dName (decls h (vDecl (vars h v))) = n"
    and "sClass (scopes h s) = CatchScope \<Longrightarrow> paramScope (scopes h s) \<noteq> None"
proof -
  have w: "wfScope h s" using assms by (simp add: wfHeap_def)
  show "sParent (scopes h s) = Some p \<Longrightarrow> p < s"
    and "sParent (scopes h s) = None \<Longrightarrow> IsFunctionVariableScope (scopes h s)"
    and "sClass (scopes h s) = CatchScope \<Longrightarrow> paramScope (scopes h s) \<noteq> None"
    using w by (auto simp: wfScope_def Let_def)
  assume "map_of (sBindings (scopes h s)) n = Some q"
  then have "(n, q) \<in> set (sBindings (scopes h s))" by (rule map_of_SomeD)
  then show "\<exists>v. q = Some v \<and> v < nVars h \<and> dName (decls h (vDecl (vars h v))) = n"
    using w by (auto simp: wfScope_def Let_def list_all_iff wfBinding_def split: option.splits)
qed

lemma wfHeap_decl: "wfHeap h \<Longrightarrow> v < nVars h \<Longrightarrow> vDecl (vars h v) < nDecls h"
  by (simp add: wfHeap_def)

lemma FindLocal_bindings: "FindLocal sc n RB_BINDINGS = lookup sc n"
  by (simp add: FindLocal_def)

lemma wfHeap_lookup:
  assumes "wfHeap h" and "s < nScopes h" and "lookup (scopes h s) n = Some v"
  shows "v < nVars h \<and> dName (decls h (vDecl (vars h v))) = n"
proof -
  obtain p where "map_of (sBindings (scopes h s)) n = Some p" "p = Some v"
    using assms(3) by (auto simp: lookup_def split: option.splits)
  then show ?thesis using wfHeapD(3) [OF assms(1,2)] by blast
qed

lemma wf_bind:
  assumes w: "wfHeap h" and v: "v < nVars h" "dName (decls h (vDecl (vars h v))) = n"
  shows "wfHeap (h\<lparr>scopes := (scopes h)(s := (scopes h s)
    \<lparr>sBindings := bindInsert n (Some v) (sBindings (scopes h s))\<rparr>)\<rparr>)"
proof -
  let ?h = "h\<lparr>scopes := (scopes h)(s := (scopes h s)
    \<lparr>sBindings := bindInsert n (Some v) (sBindings (scopes h s))\<rparr>)\<rparr>"
  have b: "wfBinding ?h = wfBinding h" by (rule ext) (simp add: wfBinding_def cong: option.case_cong)
  have "wfBinding h (n, Some v)" using v by (simp add: wfBinding_def)
  then have "list_all (wfBinding h) (sBindings (scopes h s))
      \<Longrightarrow> list_all (wfBinding h) (bindInsert n (Some v) (sBindings (scopes h s)))"
    by (simp add: bindInsert_def)
  then have "wfScope h t \<Longrightarrow> wfScope ?h t" for t
    using bindInsert_distinct [of "sBindings (scopes h s)" n "Some v"]
    by (auto simp: wfScope_def Let_def IsFunctionVariableScope_def b cong: option.case_cong)
  then show ?thesis using w by (auto simp: wfHeap_def)
qed

text \<open>Changing parts of a scope the invariant does not read.\<close>

lemma wf_modScope:
  assumes "wfHeap h"
    and "\<And>sc. sClass (f sc) = sClass sc \<and> loopType (f sc) = loopType sc \<and> sParent (f sc) = sParent sc
      \<and> sBindings (f sc) = sBindings sc \<and> paramScope (f sc) = paramScope sc"
    and "\<forall>d \<in> set (sDecls (f (scopes h s))). d < nDecls h"
  shows "wfHeap (h\<lparr>scopes := (scopes h)(s := f (scopes h s))\<rparr>)"
proof -
  have "wfBinding (h\<lparr>scopes := (scopes h)(s := f (scopes h s))\<rparr>) = wfBinding h"
    by (rule ext) (simp add: wfBinding_def cong: option.case_cong)
  moreover have "Type (f sc) = Type sc" for sc using assms(2) by (intro Type_cong) simp_all
  ultimately have "wfScope h t \<Longrightarrow> wfScope (h\<lparr>scopes := (scopes h)(s := f (scopes h s))\<rparr>) t" for t
    using assms(2,3) by (auto simp: wfScope_def Let_def IsFunctionVariableScope_def cong: option.case_cong)
  then show ?thesis using assms(1) by (auto simp: wfHeap_def)
qed

lemma wf_newVar:
  assumes w: "wfHeap h" and d: "vDecl x < nDecls h"
  shows "wfHeap (h\<lparr>vars := (vars h)(nVars h := x), nVars := Suc (nVars h)\<rparr>)"
proof -
  have "wfBinding h b \<Longrightarrow> wfBinding (h\<lparr>vars := (vars h)(nVars h := x), nVars := Suc (nVars h)\<rparr>) b" for b
    by (auto simp: wfBinding_def split: option.splits)
  then have "wfScope h t \<Longrightarrow> wfScope (h\<lparr>vars := (vars h)(nVars h := x), nVars := Suc (nVars h)\<rparr>) t" for t
    by (auto simp: wfScope_def Let_def list_all_iff split: option.splits)
  then show ?thesis using assms by (auto simp: wfHeap_def less_Suc_eq)
qed

lemma wf_modVar:
  assumes w: "wfHeap h" and v: "v < nVars h"
    and d: "vDecl x < nDecls h" "dName (decls h (vDecl x)) = dName (decls h (vDecl (vars h v)))"
  shows "wfHeap (h\<lparr>vars := (vars h)(v := x)\<rparr>)"
proof -
  have "wfBinding h b \<Longrightarrow> wfBinding (h\<lparr>vars := (vars h)(v := x)\<rparr>) b" for b
    using d by (auto simp: wfBinding_def split: option.splits)
  then have "wfScope h t \<Longrightarrow> wfScope (h\<lparr>vars := (vars h)(v := x)\<rparr>) t" for t
    by (auto simp: wfScope_def Let_def list_all_iff split: option.splits)
  then show ?thesis using w d by (auto simp: wfHeap_def)
qed

lemma wf_newDecl:
  assumes w: "wfHeap h"
  shows "wfHeap (h\<lparr>decls := (decls h)(nDecls h := d), nDecls := Suc (nDecls h)\<rparr>)"
proof -
  have "wfBinding h b \<Longrightarrow> wfBinding (h\<lparr>decls := (decls h)(nDecls h := d), nDecls := Suc (nDecls h)\<rparr>) b" for b
    using wfHeap_decl [OF w] by (fastforce simp: wfBinding_def split: option.splits)
  then have "wfScope h t \<Longrightarrow> wfScope (h\<lparr>decls := (decls h)(nDecls h := d), nDecls := Suc (nDecls h)\<rparr>) t" for t
    by (auto simp: wfScope_def Let_def list_all_iff split: option.splits)
  then show ?thesis using w by (auto simp: wfHeap_def less_Suc_eq)
qed

section \<open>Walks end\<close>

lemma function_is_variable: "IsFunctionVariableScope sc \<Longrightarrow> IsVariableScope sc"
  by (simp add: IsVariableScope_def IsFunctionVariableScope_def less_eq_scopeType_def less_scopeType_def)

text \<open>Parents are older, so a walk that starts at \<open>s\<close> needs at most \<open>s + 1\<close> steps.\<close>

lemma wp_EnclosingVariableScope_loop:
  assumes "wfHeap h" and "\<And>s. it = Some s \<Longrightarrow> s < nScopes h \<and> s < n" and "0 < n"
    and "\<And>e. (it \<noteq> None \<Longrightarrow> \<exists>s. e = Some s \<and> s < nScopes h \<and> IsVariableScope (scopes h s)) \<Longrightarrow> Q e h"
  shows "wpM F (EnclosingVariableScope_loop n it) h Q"
  using assms
proof (induction n arbitrary: it)
  case (Suc n)
  show ?case
  proof (cases it)
    case (Some s)
    note s = Suc.prems(2) [OF Some]
    have root: "sParent (scopes h s) = None \<Longrightarrow> IsVariableScope (scopes h s)"
      using wfHeapD(2) [OF Suc.prems(1)] s function_is_variable by blast
    have "wpM F (EnclosingVariableScope_loop n (sParent (scopes h s))) h Q"
      if nv: "\<not> IsVariableScope (scopes h s)"
    proof -
      obtain p where p: "sParent (scopes h s) = Some p" using root nv by auto
      then have "p < s" using wfHeapD(1) [OF Suc.prems(1)] s by blast
      then show ?thesis using p s Suc.prems(1,4) Some by (auto intro!: Suc.IH)
    qed
    then show ?thesis using Some s Suc.prems(4) [of "Some s"]
      by (auto intro!: wp)
  next
    case None
    then show ?thesis using Suc.prems(4) [of None] by (auto intro!: wp)
  qed
qed simp

lemma wp_EnclosingVariableScope [wp]:
  assumes "wfHeap h" and "s < nScopes h"
    and "\<And>e. e < nScopes h \<Longrightarrow> IsVariableScope (scopes h e) \<Longrightarrow> Q (Some e) h"
  shows "wpM F (EnclosingVariableScope s) h Q"
proof -
  have "wpM F (EnclosingVariableScope_loop (Suc (nScopes h)) (Some s)) h Q"
    by (rule wp_EnclosingVariableScope_loop) (use assms in auto)
  then show ?thesis by (simp add: EnclosingVariableScope_def walk_def wpM_def)
qed

lemma wp_IterateShadowedVariables_loop:
  assumes "wfHeap h" and "it = Some s" and "s < nScopes h" and "s < n"
    and "\<And>t b. t < nScopes h \<Longrightarrow> (b \<longleftrightarrow> (\<exists>v. lookup (scopes h t) x = Some v \<and> visitor (vars h v)))
      \<Longrightarrow> \<not> b \<longrightarrow> IsFunctionVariableScope (scopes h t) \<Longrightarrow> Q (t, b) h"
  shows "wpM F (IterateShadowedVariables_loop n it x visitor) h Q"
  using assms
proof (induction n arbitrary: it s)
  case (Suc n)
  have "wpM F (IterateShadowedVariables_loop n (sParent (scopes h s)) x visitor) h Q"
    if nf: "\<not> IsFunctionVariableScope (scopes h s)"
  proof -
    obtain p where p: "sParent (scopes h s) = Some p" using wfHeapD(2) [OF Suc.prems(1,3)] nf by (cases "sParent (scopes h s)") simp_all
    then have "p < s" using wfHeapD(1) [OF Suc.prems(1,3)] by blast
    then show ?thesis using p Suc.prems(3,4) by (intro Suc.IH [of _ p] Suc.prems) auto
  qed
  then show ?case using Suc.prems(2,3) Suc.prems(5) [of s]
    by (auto intro!: wp simp: FindLocal_bindings split: option.splits)
qed simp

lemma wp_IterateShadowedVariables:
  assumes "wfHeap h" and "s < nScopes h"
    and "\<And>t b. t < nScopes h \<Longrightarrow> (b \<longleftrightarrow> (\<exists>v. lookup (scopes h t) x = Some v \<and> visitor (vars h v)))
      \<Longrightarrow> \<not> b \<longrightarrow> IsFunctionVariableScope (scopes h t) \<Longrightarrow> Q (t, b) h"
  shows "wpM F (IterateShadowedVariables s x visitor) h Q"
proof -
  have "wpM F (IterateShadowedVariables_loop (Suc (nScopes h)) (Some s) x visitor) h Q"
    by (rule wp_IterateShadowedVariables_loop) (use assms in auto)
  then show ?thesis by (simp add: IterateShadowedVariables_def walk_def wpM_def)
qed

section \<open>Adding declarations keeps the invariant\<close>

definition grown :: "heap \<Rightarrow> heap \<Rightarrow> bool" where
  "grown h h' \<longleftrightarrow> wfHeap h' \<and> sameTree h h'"

lemma grown_trans: "grown h k \<Longrightarrow> grown k l \<Longrightarrow> grown h l"
  by (auto simp: grown_def intro: sameTree_trans)

lemma grown_refl: "wfHeap h \<Longrightarrow> grown h h"
  by (simp add: grown_def)

text \<open>What the rules below need to know of the state they run in.\<close>

definition ready :: "heap \<Rightarrow> scopeId \<Rightarrow> declId \<Rightarrow> bool" where
  "ready h s d \<longleftrightarrow> wfHeap h \<and> s < nScopes h \<and> d < nDecls h"

lemma ready_grown: "ready h s d \<Longrightarrow> grown h k \<Longrightarrow> ready k s d"
  by (auto simp: ready_def grown_def sameTree_def)

lemma grown_decl: "grown h k \<Longrightarrow> d < nDecls h \<Longrightarrow> decls k d = decls h d"
  by (simp add: grown_def sameTree_def)

text \<open>The constructors of variables, by what they promise.\<close>

definition constructs :: "varId heapM \<Rightarrow> declId \<Rightarrow> bool" where
  "constructs new d \<longleftrightarrow> (\<forall>F h Q. wfHeap h \<longrightarrow> d < nDecls h \<longrightarrow>
     (\<forall>v k. grown h k \<longrightarrow> v < nVars k \<longrightarrow> vDecl (vars k v) = d \<longrightarrow> Q v k) \<longrightarrow> wpM F new h Q)"

lemma wp_constructs:
  assumes "constructs new d" and "wfHeap h" and "d < nDecls h"
    and "\<And>v k. grown h k \<Longrightarrow> v < nVars k \<Longrightarrow> vDecl (vars k v) = d \<Longrightarrow> Q v k"
  shows "wpM F new h Q"
  using assms by (simp add: constructs_def)

lemma alloc_grown:
  assumes "wfHeap h" and "vDecl x < nDecls h"
  shows "grown h (h\<lparr>vars := (vars h)(nVars h := x), nVars := Suc (nVars h)\<rparr>)"
  using wf_newVar [OF assms] by (simp add: grown_def sameTree_def)

lemma constructs_alloc: "vDecl x = d \<Longrightarrow> constructs (allocVar x) d"
  unfolding constructs_def by (auto intro!: wp simp: alloc_grown)

lemma constructs_variables [simp, intro]:
  "constructs (LocalVariable d flags) d" "constructs (GlobalVariable d flags) d"
  "constructs (ModuleVariable d flags) d" "constructs (EnumVariable d b) d"
  unfolding constructs_def LocalVariable_def GlobalVariable_def ModuleVariable_def EnumVariable_def
  by (auto intro!: wp simp: alloc_grown bareVariable_def)

lemma bind_grown:
  assumes "wfHeap h" and "v < nVars h" and "dName (decls h (vDecl (vars h v))) = n"
  shows "grown h (h\<lparr>scopes := (scopes h)(s := (scopes h s)
    \<lparr>sBindings := bindInsert n (Some v) (sBindings (scopes h s))\<rparr>)\<rparr>)"
  using wf_bind [OF assms] by (simp add: grown_def sameTree_def)

lemma wp_insertBinding:
  assumes "wfHeap h" and "v < nVars h" and "dName (decls h (vDecl (vars h v))) = n"
    and "\<And>k. grown h k \<Longrightarrow> Q () k"
  shows "wpM F (insertBinding s n (Some v)) h Q"
  unfolding insertBinding_def by (intro wp assms(4) bind_grown assms(1-3))

lemma wp_insertNew:
  assumes "constructs new d" and "wfHeap h" and "d < nDecls h" and "\<And>k. grown h k \<Longrightarrow> Q () k"
  shows "wpM F (insertNew s d new) h Q"
  unfolding insertNew_def
proof (intro wp wp_constructs [OF assms(1-3)])
  fix v k
  assume k: "grown h k" "v < nVars k" "vDecl (vars k v) = d"
  then have "dName (decls k (vDecl (vars k v))) = dName (decls h d)"
    using grown_decl [OF k(1) assms(3)] by simp
  then show "wpM F (insertBinding s (dName (decls h d)) (Some v)) k Q"
    using k(1,2) by (intro wp_insertBinding assms(4)) (auto simp: grown_def intro: sameTree_trans)
qed

text \<open>A computation that only grows the heap.\<close>

definition grows :: "heap \<Rightarrow> bool heapM \<Rightarrow> bool" where
  "grows h m \<longleftrightarrow> wpM False m h (\<lambda>_ k. grown h k)"

lemma reset_grown:
  assumes "wfHeap h" and "v < nVars h" and "d < nDecls h"
    and "dName (decls h (vDecl (vars h v))) = dName (decls h d)"
  shows "grown h (h\<lparr>vars := (vars h)(v := (vars h v)\<lparr>vDecl := d, vFlags := fl\<rparr>)\<rparr>)"
proof -
  have "wfHeap (h\<lparr>vars := (vars h)(v := (vars h v)\<lparr>vDecl := d, vFlags := fl\<rparr>)\<rparr>)"
    by (rule wf_modVar [OF assms(1,2)]) (use assms(3,4) in auto)
  then show ?thesis by (simp add: grown_def sameTree_def)
qed

lemma wp_ResetVariable:
  assumes "wfHeap h" and "v < nVars h" and "d < nDecls h"
    and "dName (decls h (vDecl (vars h v))) = dName (decls h d)" and "\<And>k. grown h k \<Longrightarrow> Q () k"
  shows "wpM F (ResetVariable v d fl) h Q"
  unfolding ResetVariable_def by (intro wp assms(5) reset_grown assms(1-4))

lemma wp_PropagateBinding:
  assumes "ready h s d" and "dName (decls h d) = n" and "\<And>k. grown h k \<Longrightarrow> Q () k"
  shows "wpM F (PropagateBinding s n d fl) h Q"
proof -
  have r: "wfHeap h" "s < nScopes h" "d < nDecls h" using assms(1) by (simp_all add: ready_def)
  have new: "wpM F (bindM (LocalVariable d fl) (\<lambda>v. insertBinding s n (Some v))) h Q"
  proof (intro wp wp_constructs [OF constructs_variables(1) r(1,3)])
    fix v k
    assume k: "grown h k" "v < nVars k" "vDecl (vars k v) = d"
    then show "wpM F (insertBinding s n (Some v)) k Q"
      using grown_decl [OF k(1) r(3)] assms(2)
      by (intro wp_insertBinding assms(3)) (auto simp: grown_def intro: sameTree_trans)
  qed
  have old: "wpM F (bindM (deref q) (\<lambda>v. ResetVariable v d fl)) h Q"
    if q: "map_of (sBindings (scopes h s)) n = Some q" for q
  proof -
    obtain v where "q = Some v" "v < nVars h" "dName (decls h (vDecl (vars h v))) = n"
      using wfHeapD(3) [OF r(1,2) q] by blast
    then show ?thesis using assms(2,3) by (auto intro!: wp wp_ResetVariable r)
  qed
  show ?thesis unfolding PropagateBinding_def
    by (rule wp_bind, rule wp_getScope, rule wp_case_option) (simp_all add: new old)
qed

text \<open>The variable \<open>AddBinding\<close> is told about is bound to the name of the declaration.\<close>

definition current :: "heap \<Rightarrow> declId \<Rightarrow> varId option \<Rightarrow> bool" where
  "current h d cur \<longleftrightarrow> (\<forall>v. cur = Some v \<longrightarrow> v < nVars h \<and> dName (decls h (vDecl (vars h v))) = dName (decls h d))"

lemma wp_insertTrue:
  assumes "constructs new d" and "ready h s d" and "\<And>k. grown h k \<Longrightarrow> Q True k"
  shows "wpM F (thenM (insertNew s' d new) (ret True)) h Q"
  using assms(2) by (intro wp wp_insertNew [OF assms(1)] assms(3)) (simp_all add: ready_def)

lemma wp_AddLocal_var:
  assumes "ready h s d" and "n = dName (decls h d)" and "\<And>b k. grown h k \<Longrightarrow> Q b k"
  shows "wpM F (AddLocal_var s d n) h Q"
proof -
  have r: "wfHeap h" "s < nScopes h" "d < nDecls h" using assms(1) by (simp_all add: ready_def)
  show ?thesis unfolding AddLocal_var_def
    by (intro wp wp_IterateShadowedVariables [OF r(1,2)] wp_insertNew [OF constructs_variables(2) r(1,3)]
        wp_PropagateBinding assms(3) grown_refl)
      (use r assms(2) in \<open>auto simp: ready_def\<close>)
qed

lemma wp_AddLocal_lexical:
  assumes "ready h s d" and "\<And>b k. grown h k \<Longrightarrow> Q b k"
  shows "wpM F (AddLocal_lexical s cur d n fl) h Q"
proof -
  have r: "wfHeap h" "s < nScopes h" "d < nDecls h" using assms(1) by (simp_all add: ready_def)
  show ?thesis unfolding AddLocal_lexical_def
    by (intro wp wp_IterateShadowedVariables [OF r(1,2)] wp_insertNew [OF constructs_variables(1) r(1,3)]
        assms(2) grown_refl r)
qed

lemma wp_AddLocal:
  assumes "ready h s d" and "\<And>b k. grown h k \<Longrightarrow> Q b k"
  shows "wpM F (AddLocal s cur d) h Q"
  unfolding AddLocal_def
  by (rule wp_bind, rule wp_getDecl)
    (auto split: declType.splits intro!: wp_AddLocal_var wp_AddLocal_lexical wp_insertTrue assms)

lemma wp_AddParam:
  assumes "ready h s d" and "\<And>b k. grown h k \<Longrightarrow> Q b k"
  shows "wpM F (AddParam s cur d fl) h Q"
proof -
  have r: "wfHeap h" "s < nScopes h" "d < nDecls h" using assms(1) by (simp_all add: ready_def)
  have step: "wpM F (thenM (modScope s (\<lambda>sc. sc\<lparr>sParams := sParams sc @ [v]\<rparr>))
       (thenM (insertBinding s (dName (decls h d)) (Some v)) (ret True))) k Q"
    if k: "grown h k" "v < nVars k" "vDecl (vars k v) = d" for v k
  proof -
    let ?k = "k\<lparr>scopes := (scopes k)(s := (scopes k s)\<lparr>sParams := sParams (scopes k s) @ [v]\<rparr>)\<rparr>"
    have "wfScope k s" using ready_grown [OF assms(1) k(1)] by (simp add: ready_def wfHeap_def)
    then have "wfHeap ?k" using k(1) by (intro wf_modScope) (auto simp: grown_def wfScope_def Let_def)
    then have g: "grown h ?k" using k(1) by (auto simp: grown_def sameTree_def)
    then show ?thesis using k(2,3) grown_decl [OF k(1) r(3)]
      by (intro wp wp_insertBinding assms(2)) (auto simp: grown_def intro: sameTree_trans)
  qed
  show ?thesis unfolding AddParam_def
    by (intro wp assms(2) grown_refl r wp_constructs [OF constructs_variables(1) r(1,3)] step)
qed

lemma wp_AddVar:
  assumes "ready h s d" and "current h d cur" and "\<And>fl. constructs (new d fl) d"
    and "\<And>b k. grown h k \<Longrightarrow> Q b k"
  shows "wpM F (AddVar new s cur d) h Q"
proof -
  have r: "wfHeap h" "s < nScopes h" "d < nDecls h" using assms(1) by (simp_all add: ready_def)
  show ?thesis unfolding AddVar_def
    by (rule wp_case_option)
      (use assms(2) in \<open>auto simp: current_def split: declType.splits
        intro!: wp wp_ResetVariable wp_insertTrue [OF assms(3,1)] r assms(4) grown_refl\<close>)
qed

lemma wp_AddFunction:
  assumes "ready h s d" and "current h d cur" and "\<And>fl. constructs (new d fl) d"
    and "\<And>b k. grown h k \<Longrightarrow> Q b k"
  shows "wpM F (AddFunction new s cur d ext) h Q"
proof -
  have r: "wfHeap h" "s < nScopes h" "d < nDecls h" using assms(1) by (simp_all add: ready_def)
  show ?thesis unfolding AddFunction_def
    by (rule wp_case_option)
      (use assms(2) in \<open>auto simp: current_def
        intro!: wp wp_ResetVariable wp_insertTrue [OF assms(3,1)] r assms(4) grown_refl\<close>)
qed

lemma wp_AddLexical:
  assumes "ready h s d" and "\<And>b k. grown h k \<Longrightarrow> Q b k"
  shows "wpM F (AddLexical s cur d) h Q"
proof -
  have r: "wfHeap h" "s < nScopes h" "d < nDecls h" using assms(1) by (simp_all add: ready_def)
  show ?thesis unfolding AddLexical_def
    by (intro wp wp_insertNew [OF constructs_variables(1) r(1,3)] assms(2) grown_refl r)
qed

lemma wp_AddTSBinding:
  assumes "ready h s d" and "\<And>b k. grown h k \<Longrightarrow> Q b k"
  shows "wpM F (AddTSBinding s d fl) h Q"
  unfolding AddTSBinding_def by (intro wp_insertTrue [OF constructs_variables(1) assms(1)] assms(2))

lemma wp_FunctionScope_AddBinding:
  assumes "ready h s d" and "current h d cur" and "\<And>fl. constructs (new d fl) d"
    and "\<And>b k. grown h k \<Longrightarrow> Q b k"
  shows "wpM F (FunctionScope_AddBinding new s cur d ext) h Q"
  unfolding FunctionScope_AddBinding_def
  by (rule wp_bind, rule wp_getDecl)
    (auto split: declType.splits intro!: wp_AddVar wp_AddFunction wp_AddLexical wp_AddTSBinding wp_insertTrue assms)

lemma wp_AddImport:
  assumes "ready h s d" and "dNode (decls h d) \<noteq> None" and "\<And>b k. grown h k \<Longrightarrow> Q b k"
  shows "wpM F (AddImport s cur d) h Q"
proof -
  have r: "wfHeap h" "s < nScopes h" "d < nDecls h" using assms(1) by (simp_all add: ready_def)
  have step: "wpM F (insertBinding s (dName (decls h d)) (Some v))
      (k\<lparr>vars := (vars k)(v := (vars k v)\<lparr>exoticName := nm\<rparr>)\<rparr>) (\<lambda>_ t. wpM F (ret True) t Q)"
    if k: "grown h k" "v < nVars k" "vDecl (vars k v) = d" for v k nm
  proof -
    let ?k = "k\<lparr>vars := (vars k)(v := (vars k v)\<lparr>exoticName := nm\<rparr>)\<rparr>"
    have "wfHeap ?k" using k ready_grown [OF assms(1) k(1)] by (intro wf_modVar) (auto simp: grown_def ready_def)
    then have "grown h ?k" using k(1) by (auto simp: grown_def sameTree_def)
    then show ?thesis using k(2,3) grown_decl [OF k(1) r(3)]
      by (intro wp wp_insertBinding assms(3)) (auto simp: grown_def intro: sameTree_trans)
  qed
  show ?thesis unfolding AddImport_def
    by (intro wp assms(2,3) grown_refl r wp_insertNew [OF constructs_variables(1) r(1,3)]
        wp_constructs [OF constructs_variables(3) r(1,3)] step assms(1))
qed

lemma wp_AddBinding:
  assumes "ready h s d" and "current h d cur"
    and "sClass (scopes h s) \<notin> {ParamScope, FunctionParamScope}"
    and "dType (decls h d) = DECL_IMPORT \<Longrightarrow> dNode (decls h d) \<noteq> None"
    and "\<And>b k. grown h k \<Longrightarrow> Q b k"
  shows "wpM F (AddBinding s cur d ext) h Q"
proof -
  have r: "wfHeap h" "s < nScopes h" using assms(1) by (simp_all add: ready_def)
  note local = wp_AddLocal [of h s d Q F cur, OF assms(1,5)]
  note func = wp_FunctionScope_AddBinding [of h s d cur _ Q F ext, OF assms(1,2) _ assms(5)]
  have catch: "wpM F (CatchScope_AddBinding s cur d) h Q" if "sClass (scopes h s) = CatchScope"
    unfolding CatchScope_AddBinding_def using wfHeapD(4) [OF r that]
    by (intro wp local assms(5) grown_refl r) auto
  have module: "wpM F (ModuleScope_AddBinding s cur d ext) h Q"
    unfolding ModuleScope_AddBinding_def
    by (intro wp wp_AddImport [OF assms(1)] func constructs_variables assms(4,5) grown_refl r)
  show ?thesis unfolding AddBinding_def
    by (rule wp_bind, rule wp_getScope)
      (use assms(3) in \<open>auto split: scopeClass.splits intro!: catch module local func
        wp_AddParam [OF assms(1)] assms(5)\<close>)
qed

lemma push_grown:
  assumes "ready h s d"
  shows "grown h (h\<lparr>scopes := (scopes h)(s := (scopes h s)\<lparr>sDecls := sDecls (scopes h s) @ [d]\<rparr>)\<rparr>)"
proof -
  have "wfHeap h" "wfScope h s" "d < nDecls h" using assms by (simp_all add: ready_def wfHeap_def)
  then have "wfHeap (h\<lparr>scopes := (scopes h)(s := (scopes h s)\<lparr>sDecls := sDecls (scopes h s) @ [d]\<rparr>)\<rparr>)"
    by (intro wf_modScope) (auto simp: wfScope_def Let_def)
  then show ?thesis by (simp add: grown_def sameTree_def)
qed

text \<open>What an accepted or rejected declaration needs of its scope.\<close>

definition declarable :: "heap \<Rightarrow> scopeId \<Rightarrow> declId \<Rightarrow> bool" where
  "declarable h s d \<longleftrightarrow> ready h s d \<and> sClass (scopes h s) \<notin> {ParamScope, FunctionParamScope}
     \<and> (dType (decls h d) = DECL_IMPORT \<longrightarrow> dNode (decls h d) \<noteq> None)"

lemma wp_AddDecl:
  assumes "declarable h s d" and "\<And>b k. grown h k \<Longrightarrow> Q b k"
  shows "wpM F (AddDecl s d ext) h Q"
proof -
  have r: "ready h s d" and c: "sClass (scopes h s) \<notin> {ParamScope, FunctionParamScope}"
    and i: "dType (decls h d) = DECL_IMPORT \<Longrightarrow> dNode (decls h d) \<noteq> None"
    using assms(1) by (simp_all add: declarable_def)
  let ?k = "h\<lparr>scopes := (scopes h)(s := (scopes h s)\<lparr>sDecls := sDecls (scopes h s) @ [d]\<rparr>)\<rparr>"
  note g = push_grown [OF r]
  have k: "ready ?k s d" by (rule ready_grown [OF r g])
  then have cur: "current ?k d (FindLocal (scopes ?k s) (dName (decls ?k d)) RB_BINDINGS)"
    using wfHeap_lookup [of ?k s "dName (decls ?k d)"] by (auto simp: current_def FindLocal_bindings ready_def)
  have "wpM F (AddBinding s (FindLocal (scopes ?k s) (dName (decls ?k d)) RB_BINDINGS) d ext) ?k Q"
    by (rule wp_AddBinding [OF k cur]) (use c i in \<open>auto intro: assms(2) grown_trans [OF g]\<close>)
  then show ?thesis unfolding AddDecl_def AddDeclWith_def pushDecl_def
    by (intro wp) simp
qed

end
