(* ===== verification/ScopeSpec.thy ===== *)
theory ScopeSpec
  imports ScopeProps
begin

text \<open>
  The properties of scopes: lookup as a search through the nesting of scopes, the invariant under
  declarations, which declarations are accepted, and the slots of captured variables.
\<close>

section \<open>Scope operations never throw\<close>

definition quiet :: "'a heapM \<Rightarrow> bool" where
  "quiet m \<longleftrightarrow> (\<forall>h e. m h \<noteq> Throw e)"

named_theorems quiet_intros

lemma quiet_basic [quiet_intros]:
  "quiet (ret a)" "quiet out_of_fuel" "quiet (\<lambda>_. Undefined)" "quiet (getM g)" "quiet (modifyM f)"
  "quiet (getScope s)" "quiet (modScope s k)" "quiet (getVar v)" "quiet (modVar v l)" "quiet (getDecl d)"
  "quiet (allocVar x)" "quiet (allocDecl dc)" "quiet (allocScope sc)"
  by (simp_all add: quiet_def run_defs getScope_def modScope_def getVar_def modVar_def getDecl_def
      allocVar_def allocDecl_def allocScope_def)

lemma quiet_deref [quiet_intros]: "quiet (deref p)"
  by (cases p) (simp_all add: quiet_def deref_def readM_def)

lemma quiet_bind [quiet_intros]: "quiet m \<Longrightarrow> (\<And>a. quiet (f a)) \<Longrightarrow> quiet (bindM m f)"
  by (auto simp: quiet_def bindM_def split: res.splits)

lemma quiet_then [quiet_intros]: "quiet m \<Longrightarrow> quiet k \<Longrightarrow> quiet (thenM m k)"
  by (simp add: thenM_def quiet_bind)

lemma quiet_if [quiet_intros]: "quiet m \<Longrightarrow> quiet k \<Longrightarrow> quiet (if b then m else k)"
  by simp

lemma quiet_option [quiet_intros]: "quiet m \<Longrightarrow> (\<And>a. quiet (f a)) \<Longrightarrow> quiet (case x of None \<Rightarrow> m | Some a \<Rightarrow> f a)"
  by (cases x) simp_all

lemma quiet_prod [quiet_intros]: "(\<And>a b. quiet (f a b)) \<Longrightarrow> quiet (case x of (a, b) \<Rightarrow> f a b)"
  by (cases x) simp

lemma quiet_walk: "(\<And>n. quiet (loop n)) \<Longrightarrow> quiet (walk loop)"
  by (simp add: quiet_def walk_def)

lemma quiet_Iterate_loop: "quiet (IterateShadowedVariables_loop n it x visitor)"
  by (induction n arbitrary: it) (auto intro!: quiet_intros)

lemma quiet_Enclosing_loop: "quiet (EnclosingVariableScope_loop n it)"
  by (induction n arbitrary: it) (auto intro!: quiet_intros)

lemma quiet_walks [quiet_intros]:
  "quiet (IterateShadowedVariables s x visitor)" "quiet (EnclosingVariableScope s)"
  by (simp_all add: IterateShadowedVariables_def EnclosingVariableScope_def quiet_walk quiet_Iterate_loop
      quiet_Enclosing_loop)

lemma quiet_variables [quiet_intros]:
  "quiet (LocalVariable d fl)" "quiet (GlobalVariable d fl)" "quiet (ModuleVariable d fl)"
  "quiet (EnumVariable d b)" "quiet (insertBinding s n p)" "quiet (ResetVariable v d fl)" "quiet (AddFlag v fl)"
  unfolding LocalVariable_def GlobalVariable_def ModuleVariable_def EnumVariable_def insertBinding_def
    ResetVariable_def AddFlag_def
  by (intro quiet_intros)+

lemma quiet_insertNew [quiet_intros]: "quiet new \<Longrightarrow> quiet (insertNew s d new)"
  unfolding insertNew_def by (intro quiet_intros)

lemma quiet_AddLocal [quiet_intros]: "quiet (AddLocal s cur d)"
  unfolding AddLocal_def AddLocal_var_def AddLocal_lexical_def PropagateBinding_def
  by (intro quiet_intros) (auto split: declType.splits intro!: quiet_intros)

lemma quiet_AddParam [quiet_intros]: "quiet (AddParam s cur d fl)"
  unfolding AddParam_def by (intro quiet_intros)

lemma quiet_FunctionScope_AddBinding [quiet_intros]:
  "(\<And>d fl. quiet (new d fl)) \<Longrightarrow> quiet (FunctionScope_AddBinding new s cur d ext)"
  unfolding FunctionScope_AddBinding_def AddVar_def AddFunction_def AddTSBinding_def AddLexical_def
  by (rule quiet_bind, rule quiet_basic) (auto split: declType.splits intro!: quiet_intros)

lemma quiet_AddBinding: "quiet (AddBinding s cur d ext)"
proof -
  have "quiet (ModuleScope_AddBinding s cur d ext)" "quiet (CatchScope_AddBinding s cur d)"
    unfolding ModuleScope_AddBinding_def CatchScope_AddBinding_def AddImport_def
    by (intro quiet_intros)+
  then show ?thesis unfolding AddBinding_def
    by (intro quiet_intros) (auto split: scopeClass.splits intro!: quiet_intros)
qed

lemma quiet_AddDecl: "quiet (AddDecl s d ext)"
  unfolding AddDecl_def AddDeclWith_def pushDecl_def by (intro quiet_intros quiet_AddBinding)

section \<open>Declarations\<close>

lemma AddDecl_grown:
  assumes "declarable h s d"
  shows "\<exists>accepted k. AddDecl s d ext h = Ok (accepted, k) \<and> wfHeap k \<and> sameTree h k"
proof -
  have "wpM False (AddDecl s d ext) h (\<lambda>b k. grown h k)" by (rule wp_AddDecl [OF assms])
  from wpM_total [OF this] show ?thesis
    using quiet_AddDecl [of s d ext] by (auto simp: grown_def quiet_def)
qed

text \<open>
  C8: declaring a name runs to its end in every scope that can take declarations (parameter scopes are
  filled otherwise): it returns whether the declaration was accepted, and it keeps the invariant of the
  arena and the shape of the scope tree.
\<close>

theorem add_decl_keeps_invariant:
  assumes "declarable h s d"
  shows "\<exists>accepted k. AddDecl s d ext h = Ok (accepted, k) \<and> wfHeap k \<and> sameTree h k"
  by (rule AddDecl_grown [OF assms])

section \<open>Lookup\<close>

text \<open>The scopes a lookup visits, innermost first.\<close>

function scopeChain :: "heap \<Rightarrow> scopeId \<Rightarrow> scopeId list" where
  "scopeChain h s = s # (case sParent (scopes h s) of None \<Rightarrow> []
     | Some p \<Rightarrow> if p < s then scopeChain h p else [])"
  by auto
termination by (relation "measure snd") auto

declare scopeChain.simps [simp del]

text \<open>A lookup as a search through the chain: the first scope that binds the name; the levels count the
  variable scopes, and those with a lexical environment, that were left behind.\<close>

definition chainFind :: "heap \<Rightarrow> scopeId list \<Rightarrow> name \<Rightarrow> u32 \<Rightarrow> u32 \<Rightarrow> u32 \<Rightarrow> scopeFindResult" where
  "chainFind h ss n options l ll =
    (let inner = takeWhile (\<lambda>t. FindLocal (scopes h t) n options = None) ss;
         crossed = filter (\<lambda>t. IsVariableScope (scopes h t)) inner
     in case drop (length inner) ss of
          [] \<Rightarrow> \<lparr>frName = n, frScope = None, frLevel = 0, frLexLevel = 0, frVariable = None\<rparr>
        | t # _ \<Rightarrow> \<lparr>frName = n, frScope = Some t, frLevel = l + of_nat (length crossed),
            frLexLevel = ll + of_nat (length (filter (\<lambda>t. NeedLexEnv (scopes h t)) crossed)),
            frVariable = FindLocal (scopes h t) n options\<rparr>)"

lemma chainFind_hit:
  "FindLocal (scopes h t) n options = Some v \<Longrightarrow> chainFind h (t # ss) n options l ll =
    \<lparr>frName = n, frScope = Some t, frLevel = l, frLexLevel = ll, frVariable = Some v\<rparr>"
  by (simp add: chainFind_def Let_def)

lemma chainFind_miss:
  "FindLocal (scopes h t) n options = None \<Longrightarrow> chainFind h (t # ss) n options l ll =
    chainFind h ss n options (if IsVariableScope (scopes h t) then l + 1 else l)
      (if IsVariableScope (scopes h t) \<and> NeedLexEnv (scopes h t) then ll + 1 else ll)"
  by (auto simp: chainFind_def Let_def split: list.splits)

lemma Find_loop_chain:
  assumes "wfHeap h" and "s < nScopes h" and "s < k"
  shows "Find_loop (Suc k) (Some s) n options l ll h = Ok (chainFind h (scopeChain h s) n options l ll, h)"
  using assms(2,3)
proof (induction s arbitrary: k l ll rule: less_induct)
  case (less s)
  then obtain k' where k: "k = Suc k'" by (cases k) auto
  note chain = scopeChain.simps [of h s]
  show ?case
  proof (cases "FindLocal (scopes h s) n options")
    case (Some v)
    then show ?thesis by (simp add: chain chainFind_hit run_defs getScope_def)
  next
    case None
    show ?thesis
    proof (cases "sParent (scopes h s)")
      case root: None
      then show ?thesis using None
        by (simp add: chain chainFind_miss run_defs getScope_def k) (simp add: chainFind_def)
    next
      case (Some p)
      then have p: "p < s" "p < nScopes h" "p < k'"
        using wfHeapD(1) [OF assms(1) less.prems(1)] less.prems k by force+
      show ?thesis using None Some less.IH [OF p]
        by (simp add: chain p(1) chainFind_miss run_defs getScope_def k del: Find_loop.simps(2))
          (simp add: run_defs getScope_def)
    qed
  qed
qed

lemma Find_chain:
  assumes "wfHeap h" and "s < nScopes h"
  shows "Find s n options h = Ok (chainFind h (scopeChain h s) n options 0 0, h)"
  using Find_loop_chain [OF assms, of "nScopes h" n options 0 0] assms(2)
  by (simp add: Find_def walk_def)

text \<open>
  C7: \<open>Find\<close> is a search through the enclosing scopes: it returns the innermost scope that binds the
  name, the variable bound there, the number of variable scopes in between and how many of them have a
  lexical environment; nothing is found when no enclosing scope binds the name.
\<close>

theorem find_is_chain_search:
  assumes "wfHeap h" and "s < nScopes h"
  shows "Find s n options h = Ok (chainFind h (scopeChain h s) n options 0 0, h)"
  by (rule Find_chain [OF assms])

section \<open>Declarations in blocks\<close>

text \<open>The scopes \<open>IterateShadowedVariables\<close> visits: up to the enclosing function, module or global scope.\<close>

function shadowChain :: "heap \<Rightarrow> scopeId \<Rightarrow> scopeId list" where
  "shadowChain h s = s # (if IsFunctionVariableScope (scopes h s) then []
     else case sParent (scopes h s) of None \<Rightarrow> [] | Some p \<Rightarrow> if p < s then shadowChain h p else [])"
  by auto
termination by (relation "measure snd") (auto split: if_splits)

declare shadowChain.simps [simp del]

definition seen :: "heap \<Rightarrow> name \<Rightarrow> (variable \<Rightarrow> bool) \<Rightarrow> scopeId \<Rightarrow> bool" where
  "seen h x visitor t \<longleftrightarrow> (case lookup (scopes h t) x of None \<Rightarrow> False | Some v \<Rightarrow> visitor (vars h v))"

lemma Iterate_loop_chain:
  assumes "wfHeap h" and "s < nScopes h" and "s < k"
  shows "IterateShadowedVariables_loop (Suc k) (Some s) x visitor h =
    Ok ((case find (seen h x visitor) (shadowChain h s) of Some t \<Rightarrow> (t, True)
         | None \<Rightarrow> (last (shadowChain h s), False)), h)"
  using assms(2,3)
proof (induction s arbitrary: k rule: less_induct)
  case (less s)
  then obtain k' where k: "k = Suc k'" by (cases k) auto
  note chain = shadowChain.simps [of h s]
  note step = IterateShadowedVariables_loop.simps(2) [of k "Some s"]
  have iter: "IterateShadowedVariables_loop (Suc k) (Some s) x visitor h =
      (if seen h x visitor s then Ok ((s, True), h)
       else if IsFunctionVariableScope (scopes h s) then Ok ((s, False), h)
       else IterateShadowedVariables_loop k (sParent (scopes h s)) x visitor h)"
    by (simp add: step run_defs deref_def getScope_def FindLocal_bindings seen_def)
  show ?case
  proof (cases "seen h x visitor s \<or> IsFunctionVariableScope (scopes h s)")
    case True
    then show ?thesis by (auto simp: iter chain simp del: IterateShadowedVariables_loop.simps)
  next
    case False
    then obtain p where Some: "sParent (scopes h s) = Some p"
      using wfHeapD(2) [OF assms(1) less.prems(1)] by (cases "sParent (scopes h s)") auto
    then have p: "p < s" "p < nScopes h" "p < k'"
      using wfHeapD(1) [OF assms(1) less.prems(1)] less.prems k by force+
    have "shadowChain h p \<noteq> []" by (simp add: shadowChain.simps)
    then show ?thesis using False Some less.IH [OF p] unfolding iter
      by (simp add: chain p(1) k split: option.splits del: IterateShadowedVariables_loop.simps)
  qed
qed

lemma Iterate_chain:
  assumes "wfHeap h" and "s < nScopes h"
  shows "IterateShadowedVariables s x visitor h =
    Ok ((case find (seen h x visitor) (shadowChain h s) of Some t \<Rightarrow> (t, True)
         | None \<Rightarrow> (last (shadowChain h s), False)), h)"
  using Iterate_loop_chain [OF assms, of "nScopes h" x visitor] assms(2)
  by (simp add: IterateShadowedVariables_def walk_def)

text \<open>\<open>let\<close> and \<open>const\<close> in a block: refused when the block binds the name, or when a \<open>var\<close> declared in
  a block binds it further out.\<close>

definition blockClass :: "scopeClass \<Rightarrow> bool" where
  "blockClass c \<longleftrightarrow> c \<in> {LocalScope, LoopScope, LoopDeclarationScope}"

definition blockAccepts :: "heap \<Rightarrow> scopeId \<Rightarrow> name \<Rightarrow> bool" where
  "blockAccepts h s n \<longleftrightarrow> lookup (scopes h s) n = None
     \<and> (\<forall>t \<in> set (shadowChain h s). \<not> seen h n (HasFlag VF_LEXICAL_VAR) t)"

lemma lookup_bind:
  "lookup (sc'\<lparr>sBindings := bindInsert n (Some v) (sBindings sc)\<rparr>) m =
    (if m = n \<and> map_of (sBindings sc) n = None then Some v else lookup sc m)"
  by (simp add: lookup_def vm.get_ins)

definition pushed :: "heap \<Rightarrow> scopeId \<Rightarrow> declId \<Rightarrow> heap" where
  "pushed h s d = h\<lparr>scopes := (scopes h)(s := (scopes h s)\<lparr>sDecls := sDecls (scopes h s) @ [d]\<rparr>)\<rparr>"

lemma pushed_simps [simp]:
  "vars (pushed h s d) = vars h" "nVars (pushed h s d) = nVars h" "decls (pushed h s d) = decls h"
  "nDecls (pushed h s d) = nDecls h" "nScopes (pushed h s d) = nScopes h"
  "sBindings (scopes (pushed h s d) t) = sBindings (scopes h t)"
  "lookup (scopes (pushed h s d) t) = lookup (scopes h t)"
  "sClass (scopes (pushed h s d) t) = sClass (scopes h t)"
  "sParent (scopes (pushed h s d) t) = sParent (scopes h t)"
  "Type (scopes (pushed h s d) t) = Type (scopes h t)"
  "IsFunctionVariableScope (scopes (pushed h s d) t) = IsFunctionVariableScope (scopes h t)"
proof -
  show ty: "Type (scopes (pushed h s d) t) = Type (scopes h t)"
    by (rule Type_cong) (simp_all add: pushed_def)
  then show "IsFunctionVariableScope (scopes (pushed h s d) t) = IsFunctionVariableScope (scopes h t)"
    by (simp add: IsFunctionVariableScope_def)
qed (simp_all add: pushed_def fun_eq_iff lookup_def)

lemma pushed_chain [simp]: "shadowChain (pushed h s d) t = shadowChain h t"
proof (induction t rule: less_induct)
  case (less t)
  then show ?case
    by (simp add: shadowChain.simps [of _ t] split: option.splits)
qed

lemma pushed_seen [simp]: "seen (pushed h s d) x visitor = seen h x visitor"
  by (simp add: seen_def fun_eq_iff cong: option.case_cong)

lemma AddDecl_pushed:
  "AddDecl s d ext h = AddBinding s (lookup (scopes h s) (dName (decls h d))) d ext (pushed h s d)"
  by (simp add: AddDecl_def AddDeclWith_def pushDecl_def run_defs modScope_def getDecl_def getScope_def
      FindLocal_bindings pushed_def lookup_def)

lemma pushed_wf: "ready h s d \<Longrightarrow> wfHeap (pushed h s d)"
  using push_grown [of h s d] by (simp add: grown_def pushed_def)

lemma find_seen: "find P xs = None \<longleftrightarrow> (\<forall>x \<in> set xs. \<not> P x)"
  by (auto simp: find_None_iff)

lemma block_let:
  assumes "ready h s d" and "blockClass (sClass (scopes h s))" and "dType (decls h d) \<in> {DECL_LET, DECL_CONST}"
    and "dName (decls h d) = n"
  shows "\<exists>k. AddDecl s d ext h = Ok (blockAccepts h s n, k)
    \<and> (\<forall>t m. lookup (scopes k t) m =
          (if blockAccepts h s n \<and> t = s \<and> m = n then Some (nVars h) else lookup (scopes h t) m))
    \<and> (blockAccepts h s n \<longrightarrow> vDecl (vars k (nVars h)) = d)
    \<and> (\<forall>v < nVars h. vars k v = vars h v)"
proof -
  let ?p = "pushed h s d"
  have r: "wfHeap h" "s < nScopes h" using assms(1) by (simp_all add: ready_def)
  have add: "AddDecl s d ext h = AddLocal_lexical s (lookup (scopes h s) n) d n VF_NONE ?p"
    using assms(2,3,4)
    by (auto simp: AddDecl_pushed AddBinding_def blockClass_def AddLocal_def run_defs getScope_def getDecl_def)
  note it = Iterate_chain [OF pushed_wf [OF assms(1)], of s n "HasFlag VF_LEXICAL_VAR", simplified, OF r(2)]
  show ?thesis
  proof (cases "blockAccepts h s n")
    case True
    then have l: "lookup (scopes h s) n = None" and "find (seen h n (HasFlag VF_LEXICAL_VAR)) (shadowChain h s) = None"
      by (simp_all add: blockAccepts_def find_seen)
    moreover have "map_of (sBindings (scopes h s)) n = None"
      using l wfHeapD(3) [OF r, of n] by (fastforce simp: lookup_def split: option.splits)
    ultimately show ?thesis using True assms(4)
      by (auto simp: add AddLocal_lexical_def it run_defs insertNew_def getDecl_def LocalVariable_def
          allocVar_def insertBinding_def modScope_def lookup_bind bareVariable_def)
  next
    case False
    then have "AddLocal_lexical s (lookup (scopes h s) n) d n VF_NONE ?p = Ok (False, ?p)"
      by (auto simp: blockAccepts_def AddLocal_lexical_def it run_defs find_seen split: option.splits)
    then show ?thesis using False by (simp add: add)
  qed
qed

text \<open>
  C9: \<open>let\<close> and \<open>const\<close> in a block: the declaration is accepted exactly when the block does not bind the
  name and no scope up to the enclosing function binds it by a \<open>var\<close> that was declared in a block; then
  the block, and no other scope, binds the name to a fresh variable of the declaration.  A refused
  declaration changes no binding; no existing variable is touched.
\<close>

theorem block_let_declaration:
  assumes "ready h s d" and "blockClass (sClass (scopes h s))" and "dType (decls h d) \<in> {DECL_LET, DECL_CONST}"
    and "dName (decls h d) = n"
  shows "\<exists>k. AddDecl s d ext h = Ok (blockAccepts h s n, k)
    \<and> (\<forall>t m. lookup (scopes k t) m =
          (if blockAccepts h s n \<and> t = s \<and> m = n then Some (nVars h) else lookup (scopes h t) m))
    \<and> (blockAccepts h s n \<longrightarrow> vDecl (vars k (nVars h)) = d)
    \<and> (\<forall>v < nVars h. vars k v = vars h v)"
  by (rule block_let [OF assms])

text \<open>A \<open>var\<close> in a block, inside a function: it ends up in the function scope, flagged.\<close>

lemma block_var:
  assumes "ready h s d" and "blockClass (sClass (scopes h s))" and "dType (decls h d) = DECL_VAR"
    and "dName (decls h d) = n" and "\<forall>t \<in> set (shadowChain h s). \<not> seen h n (\<lambda>v. \<not> HasFlag VF_VAR v) t"
    and "t = last (shadowChain h s)" and "Type (scopes h t) \<noteq> ST_GLOBAL"
    and "t < nScopes h"
  shows "lookup (scopes h t) n = None \<Longrightarrow> \<exists>k. AddDecl s d ext h = Ok (True, k)
      \<and> lookup (scopes k t) n = Some (nVars h)
      \<and> vars k (nVars h) = bareVariable VT_LOCAL d (VF_HOIST_VAR OR VF_LEXICAL_VAR)
      \<and> (\<forall>u m. (u, m) \<noteq> (t, n) \<longrightarrow> lookup (scopes k u) m = lookup (scopes h u) m)"
    and "lookup (scopes h t) n = Some v \<Longrightarrow> \<exists>k. AddDecl s d ext h = Ok (True, k)
      \<and> vars k = (vars h)(v := (vars h v)\<lparr>vDecl := d, vFlags := VF_HOIST_VAR OR VF_LEXICAL_VAR\<rparr>)
      \<and> (\<forall>u m. lookup (scopes k u) m = lookup (scopes h u) m)"
proof -
  let ?p = "pushed h s d"
  have r: "wfHeap h" "s < nScopes h" using assms(1) by (simp_all add: ready_def)
  have add: "AddDecl s d ext h = AddLocal_var s d n ?p"
    using assms(2,3,4)
    by (auto simp: AddDecl_pushed AddBinding_def blockClass_def AddLocal_def run_defs getScope_def getDecl_def)
  have no: "find (seen h n (\<lambda>v. \<not> HasFlag VF_VAR v)) (shadowChain h s) = None"
    using assms(5) by (simp add: find_seen)
  note it = Iterate_chain [OF pushed_wf [OF assms(1)], of s n "\<lambda>v. \<not> HasFlag VF_VAR v", simplified, OF r(2)]
  have run: "AddDecl s d ext h = bindM (PropagateBinding t n d (VF_HOIST_VAR OR VF_LEXICAL_VAR)) (\<lambda>_. ret True) ?p"
    using assms(6,7) by (simp add: add AddLocal_var_def it no bindM_def getScope_def getM_def thenM_def)
  show "\<exists>k. AddDecl s d ext h = Ok (True, k) \<and> lookup (scopes k t) n = Some (nVars h)
      \<and> vars k (nVars h) = bareVariable VT_LOCAL d (VF_HOIST_VAR OR VF_LEXICAL_VAR)
      \<and> (\<forall>u m. (u, m) \<noteq> (t, n) \<longrightarrow> lookup (scopes k u) m = lookup (scopes h u) m)"
    if l: "lookup (scopes h t) n = None"
  proof -
    have "map_of (sBindings (scopes h t)) n = None"
      using l wfHeapD(3) [OF r(1) assms(8), of n] by (fastforce simp: lookup_def split: option.splits)
    then show ?thesis using l assms(3)
      by (auto simp: run run_defs PropagateBinding_def getScope_def LocalVariable_def getDecl_def allocVar_def
          insertBinding_def modScope_def lookup_bind)
  qed
  show "\<exists>k. AddDecl s d ext h = Ok (True, k)
      \<and> vars k = (vars h)(v := (vars h v)\<lparr>vDecl := d, vFlags := VF_HOIST_VAR OR VF_LEXICAL_VAR\<rparr>)
      \<and> (\<forall>u m. lookup (scopes k u) m = lookup (scopes h u) m)"
    if l: "lookup (scopes h t) n = Some v"
  proof -
    have "map_of (sBindings (scopes h t)) n = Some (Some v)"
      using l by (auto simp: lookup_def split: option.splits)
    then show ?thesis
      by (simp add: run run_defs PropagateBinding_def getScope_def deref_def ResetVariable_def modVar_def)
  qed
qed

text \<open>A block directly inside a function.\<close>

definition bodyBlock :: "heap \<Rightarrow> scopeId \<Rightarrow> scopeId \<Rightarrow> bool" where
  "bodyBlock h f b \<longleftrightarrow> b < nScopes h \<and> sClass (scopes h b) = LocalScope \<and> sParent (scopes h b) = Some f
     \<and> sClass (scopes h f) = FunctionScope"

lemma bodyBlock_chain:
  assumes "wfHeap h" and "bodyBlock h f b"
  shows "shadowChain h b = [b, f]" and "f < b"
proof -
  show f: "f < b" using assms wfHeapD(1) [OF assms(1)] by (auto simp: bodyBlock_def)
  have "\<not> IsFunctionVariableScope (scopes h b)" "IsFunctionVariableScope (scopes h f)"
    using assms(2) by (simp_all add: bodyBlock_def IsFunctionVariableScope_def Type_def less_eq_scopeType_def)
  then show "shadowChain h b = [b, f]"
    using assms(2) f by (simp add: shadowChain.simps bodyBlock_def)
qed

lemma bodyBlock_same: "bodyBlock h f b \<Longrightarrow> sameTree h k \<Longrightarrow> bodyBlock k f b"
  by (simp add: bodyBlock_def sameTree_def)

text \<open>
  C33: a \<open>var\<close> in one block of a function body wrongly forbids a \<open>let\<close> of the same name in another block
  of it: \<open>function f() { { var x; } { let x; } }\<close> is reported as a redeclaration, although the second
  block does not contain the \<open>var\<close>.
\<close>

theorem var_blocks_let_in_sibling:
  assumes "wfHeap h" and "bodyBlock h f b1" and "bodyBlock h f b2" and "b1 \<noteq> b2"
    and "\<forall>s \<in> {f, b1, b2}. lookup (scopes h s) n = None"
    and "d1 < nDecls h" and "dType (decls h d1) = DECL_VAR" and "dName (decls h d1) = n"
    and "d2 < nDecls h" and "dType (decls h d2) = DECL_LET" and "dName (decls h d2) = n"
  shows "\<exists>k k'. AddDecl b1 d1 ext h = Ok (True, k) \<and> AddDecl b2 d2 ext k = Ok (False, k')
    \<and> lookup (scopes k b2) n = None"
proof -
  have r1: "ready h b1 d1" using assms(1,2,6) by (simp add: ready_def bodyBlock_def)
  have lc: "shadowChain h b1 = [b1, f]" "f < b1" using bodyBlock_chain [OF assms(1,2)] by simp_all
  have t: "Type (scopes h f) \<noteq> ST_GLOBAL" "f < nScopes h"
    using assms(2) lc(2) by (simp_all add: bodyBlock_def Type_def)
  have bc: "blockClass (sClass (scopes h b1))" "f = last (shadowChain h b1)"
    using assms(2) by (simp_all add: blockClass_def bodyBlock_def lc)
  have unseen: "\<forall>t \<in> set (shadowChain h b1). \<not> seen h n (\<lambda>v. \<not> HasFlag VF_VAR v) t"
    using assms(5) by (simp add: lc seen_def)
  have "lookup (scopes h f) n = None" using assms(5) by simp
  from block_var(1) [OF r1 bc(1) assms(7,8) unseen bc(2) t this, of ext]
  obtain k where k: "AddDecl b1 d1 ext h = Ok (True, k)" "lookup (scopes k f) n = Some (nVars h)"
      "vars k (nVars h) = bareVariable VT_LOCAL d1 (VF_HOIST_VAR OR VF_LEXICAL_VAR)"
      "\<forall>u m. (u, m) \<noteq> (f, n) \<longrightarrow> lookup (scopes k u) m = lookup (scopes h u) m"
    by blast
  have "declarable h b1 d1" using r1 assms(2,7) by (simp add: declarable_def bodyBlock_def)
  then have g: "wfHeap k" "sameTree h k"
    using AddDecl_grown [of h b1 d1 ext] k(1) by auto
  have b2: "bodyBlock k f b2" by (rule bodyBlock_same [OF assms(3) g(2)])
  then have r2: "ready k b2 d2" using g assms(9) by (auto simp: ready_def bodyBlock_def sameTree_def)
  have d2: "decls k d2 = decls h d2" using g(2) assms(9) by (simp add: sameTree_def)
  have "seen k n (HasFlag VF_LEXICAL_VAR) f"
    by (simp add: seen_def k(2,3) HasFlag_def bareVariable_def)
  then have "\<not> blockAccepts k b2 n"
    using bodyBlock_chain(1) [OF g(1) b2] by (simp add: blockAccepts_def)
  then have "\<exists>k'. AddDecl b2 d2 ext k = Ok (False, k')"
    using block_let [OF r2, of n ext] b2 d2 assms(10,11)
    by (auto simp: blockClass_def bodyBlock_def)
  moreover have "b2 \<noteq> f" using bodyBlock_chain(2) [OF assms(1,3)] by simp
  ultimately show ?thesis using k(1,4) assms(5) by auto
qed

text \<open>
  A \<open>var\<close> that redeclares a parameter keeps the parameter's variable when it stands at the top of the
  function body, but inside a block it replaces the declaration and marks the variable as hoisted, so
  that the prologue of the function sets the parameter to \<open>undefined\<close>.
\<close>

theorem nested_var_resets_parameter:
  assumes "wfHeap h" and "bodyBlock h f b" and "lookup (scopes h b) n = None"
    and "lookup (scopes h f) n = Some v" and "dType (decls h (vDecl (vars h v))) = DECL_PARAM"
    and "vFlags (vars h v) = VF_VAR"
    and "d < nDecls h" and "dType (decls h d) = DECL_VAR" and "dName (decls h d) = n"
  shows "(\<exists>k. AddDecl f d ext h = Ok (True, k) \<and> vars k v = vars h v)
    \<and> (\<exists>k. AddDecl b d ext h = Ok (True, k) \<and> dType (decls k (vDecl (vars k v))) = DECL_VAR
         \<and> HasFlag VF_HOIST (vars k v) \<and> \<not> HasFlag VF_HOIST (vars h v))"
proof -
  have lc: "shadowChain h b = [b, f]" "f < b" using bodyBlock_chain [OF assms(1,2)] by simp_all
  have r: "ready h b d" "ready h f d" using assms(1,2,7) lc(2) by (simp_all add: ready_def bodyBlock_def)
  have t: "Type (scopes h f) \<noteq> ST_GLOBAL" "f < nScopes h"
    using assms(2) lc(2) by (simp_all add: bodyBlock_def Type_def)
  have bc: "blockClass (sClass (scopes h b))" "f = last (shadowChain h b)"
    using assms(2) by (simp_all add: blockClass_def bodyBlock_def lc)
  have unseen: "\<forall>t \<in> set (shadowChain h b). \<not> seen h n (\<lambda>v. \<not> HasFlag VF_VAR v) t"
    using assms(3,4,6) by (simp add: lc seen_def HasFlag_def)
  from block_var(2) [OF r(1) bc(1) assms(8,9) unseen bc(2) t assms(4), of ext]
  obtain k where k: "AddDecl b d ext h = Ok (True, k)"
      "vars k = (vars h)(v := (vars h v)\<lparr>vDecl := d, vFlags := VF_HOIST_VAR OR VF_LEXICAL_VAR\<rparr>)"
    by blast
  have "declarable h b d" using r(1) assms(2,8) by (simp add: declarable_def bodyBlock_def)
  then have "sameTree h k" using AddDecl_grown [of h b d ext] k(1) by auto
  then have "decls k d = decls h d" using assms(7) by (simp add: sameTree_def)
  then have inner: "dType (decls k (vDecl (vars k v))) = DECL_VAR \<and> HasFlag VF_HOIST (vars k v)
      \<and> \<not> HasFlag VF_HOIST (vars h v)"
    using assms(6,8) by (simp add: k(2) HasFlag_def)
  have "AddDecl f d ext h = Ok (True, pushed h f d)"
    using assms(2,4,5,8,9) by (simp add: AddDecl_pushed AddBinding_def FunctionScope_AddBinding_def AddVar_def
        run_defs getScope_def getDecl_def getVar_def bodyBlock_def)
  then show ?thesis using k(1) inner by auto
qed

section \<open>Captured variables\<close>

definition enclosing :: "heap \<Rightarrow> scopeId \<Rightarrow> scopeId option" where
  "enclosing h s = find (\<lambda>t. IsVariableScope (scopes h t)) (scopeChain h s)"

lemma Enclosing_loop_chain:
  assumes "wfHeap h" and "s < nScopes h" and "s < k"
  shows "EnclosingVariableScope_loop (Suc k) (Some s) h = Ok (enclosing h s, h)"
  using assms(2,3)
proof (induction s arbitrary: k rule: less_induct)
  case (less s)
  then obtain k' where k: "k = Suc k'" by (cases k) auto
  show ?case
  proof (cases "IsVariableScope (scopes h s)")
    case True
    then show ?thesis by (simp add: enclosing_def scopeChain.simps run_defs getScope_def)
  next
    case False
    then have "\<not> IsFunctionVariableScope (scopes h s)" using function_is_variable by blast
    then obtain p where Some: "sParent (scopes h s) = Some p"
      using wfHeapD(2) [OF assms(1) less.prems(1)] by (cases "sParent (scopes h s)") auto
    then have p: "p < s" "p < nScopes h" "p < k'"
      using wfHeapD(1) [OF assms(1) less.prems(1)] less.prems k by force+
    have "enclosing h s = enclosing h p"
      using False Some p(1) by (simp add: enclosing_def scopeChain.simps [of h s])
    moreover have "EnclosingVariableScope_loop (Suc k) (Some s) h = EnclosingVariableScope_loop k (Some p) h"
      using False Some by (simp add: EnclosingVariableScope_loop.simps(2) [of k] run_defs getScope_def
          del: EnclosingVariableScope_loop.simps)
    ultimately show ?thesis using less.IH [OF p] by (simp add: k del: EnclosingVariableScope_loop.simps)
  qed
qed

lemma Enclosing_chain:
  assumes "wfHeap h" and "s < nScopes h"
  shows "EnclosingVariableScope s h = Ok (enclosing h s, h)"
  using Enclosing_loop_chain [OF assms, of "nScopes h"] assms(2)
  by (simp add: EnclosingVariableScope_def walk_def)

lemma enclosing_ex:
  assumes "wfHeap h" and "s < nScopes h"
  shows "\<exists>e. enclosing h s = Some e"
proof -
  have "wpM False (EnclosingVariableScope s) h (\<lambda>e k. \<exists>x. e = Some x)"
    by (rule wp_EnclosingVariableScope [OF assms]) simp
  then show ?thesis by (simp add: wpM_def Enclosing_chain [OF assms])
qed

text \<open>Only the slot counters of scopes and the flags and registers of variables differ.\<close>

definition sameShape :: "heap \<Rightarrow> heap \<Rightarrow> bool" where
  "sameShape h k \<longleftrightarrow> nScopes k = nScopes h \<and> nVars k = nVars h \<and> nDecls k = nDecls h \<and> decls k = decls h
     \<and> (\<forall>s. \<exists>i. scopes k s = (scopes h s)\<lparr>slotIndex := i\<rparr>)
     \<and> (\<forall>v. vDecl (vars k v) = vDecl (vars h v))"

lemma sameShapeD:
  assumes "sameShape h k"
  shows "sParent (scopes k s) = sParent (scopes h s)" "IsVariableScope (scopes k s) = IsVariableScope (scopes h s)"
    "sClass (scopes k s) = sClass (scopes h s)" "sBindings (scopes k s) = sBindings (scopes h s)"
    "IsFunctionVariableScope (scopes k s) = IsFunctionVariableScope (scopes h s)"
    "sDecls (scopes k s) = sDecls (scopes h s)" "paramScope (scopes k s) = paramScope (scopes h s)"
proof -
  obtain i where i: "scopes k s = (scopes h s)\<lparr>slotIndex := i\<rparr>" using assms by (auto simp: sameShape_def)
  then have "Type (scopes k s) = Type (scopes h s)" by (intro Type_cong) simp_all
  then show "sParent (scopes k s) = sParent (scopes h s)" "IsVariableScope (scopes k s) = IsVariableScope (scopes h s)"
    "sClass (scopes k s) = sClass (scopes h s)" "sBindings (scopes k s) = sBindings (scopes h s)"
    "IsFunctionVariableScope (scopes k s) = IsFunctionVariableScope (scopes h s)"
    "sDecls (scopes k s) = sDecls (scopes h s)" "paramScope (scopes k s) = paramScope (scopes h s)"
    using i by (simp_all add: IsVariableScope_def IsFunctionVariableScope_def)
qed

lemma sameShape_wf:
  assumes "sameShape h k" and "wfHeap h"
  shows "wfHeap k"
proof -
  have "wfBinding k = wfBinding h"
    using assms(1) by (auto simp: sameShape_def wfBinding_def fun_eq_iff split: option.splits)
  then have "wfScope k s = wfScope h s" for s
    using assms(1) by (simp add: wfScope_def Let_def sameShapeD [OF assms(1)] sameShape_def cong: option.case_cong)
  then show ?thesis using assms by (simp add: wfHeap_def sameShape_def)
qed

lemma sameShape_enclosing:
  assumes "sameShape h k"
  shows "enclosing k s = enclosing h s"
proof -
  have "scopeChain k s = scopeChain h s"
  proof (induction s rule: less_induct)
    case (less s)
    then show ?case
      by (simp add: scopeChain.simps [of _ s] sameShapeD(1) [OF assms] split: option.splits)
  qed
  then show ?thesis by (simp add: enclosing_def sameShapeD(2) [OF assms])
qed

text \<open>What one \<open>SetLexical\<close> does.\<close>

definition bindSlot :: "heap \<Rightarrow> varId \<Rightarrow> scopeId \<Rightarrow> heap" where
  "bindSlot h v e = h\<lparr>
     scopes := (scopes h)(e := (scopes h e)\<lparr>slotIndex := slotIndex (scopes h e) + 1\<rparr>),
     vars := (vars h)(v := (vars h v)\<lparr>vFlags := vFlags (vars h v) OR VF_LEXICAL_BOUND, vreg := slotIndex (scopes h e)\<rparr>)\<rparr>"

lemma SetLexical_step:
  assumes "wfHeap h" and "s < nScopes h" and "enclosing h s = Some e"
  shows "SetLexical v s h = Ok ((), if vType (vars h v) = VT_LOCAL \<and> \<not> LexicalBound (vars h v)
    then bindSlot h v e else h)"
  using assms(3)
  by (auto simp: SetLexical_def run_defs getVar_def Enclosing_chain [OF assms(1,2)] deref_def NextSlot_def
      getScope_def modScope_def BindLexEnvSlot_def AddFlag_def modVar_def bindSlot_def)

lemma bindSlot_shape: "sameShape h (bindSlot h v e)"
proof -
  have "scopes (bindSlot h v e) s = (scopes h s)\<lparr>slotIndex := slotIndex (scopes (bindSlot h v e) s)\<rparr>" for s
    by (cases "s = e") (simp_all add: bindSlot_def)
  then have "\<exists>i. scopes (bindSlot h v e) s = (scopes h s)\<lparr>slotIndex := i\<rparr>" for s by blast
  then show ?thesis by (simp add: sameShape_def bindSlot_def)
qed

lemma sameShape_refl: "sameShape h h"
proof -
  have "scopes h s = (scopes h s)\<lparr>slotIndex := slotIndex (scopes h s)\<rparr>" for s by simp
  then show ?thesis unfolding sameShape_def by metis
qed

lemma sameShape_trans:
  assumes "sameShape h k" and "sameShape k l"
  shows "sameShape h l"
proof -
  have "\<exists>i. scopes l s = (scopes h s)\<lparr>slotIndex := i\<rparr>" for s
  proof -
    obtain i j where "scopes k s = (scopes h s)\<lparr>slotIndex := i\<rparr>" "scopes l s = (scopes k s)\<lparr>slotIndex := j\<rparr>"
      using assms unfolding sameShape_def by blast
    then have "scopes l s = (scopes h s)\<lparr>slotIndex := j\<rparr>" by simp
    then show ?thesis by blast
  qed
  then show ?thesis using assms by (simp add: sameShape_def)
qed

text \<open>Capturing a list of variables, each bound in its scope \<open>home\<close>; a variable may be captured again.\<close>

primrec captures :: "(varId \<Rightarrow> scopeId) \<Rightarrow> varId list \<Rightarrow> unit heapM" where
  "captures home [] = ret ()"
| "captures home (v # vs) = thenM (SetLexical v (home v)) (captures home vs)"

text \<open>The slots of the captured variables \<open>V\<close>: below the counter of their environment, and different.\<close>

definition slotsOk :: "heap \<Rightarrow> (varId \<Rightarrow> scopeId) \<Rightarrow> varId set \<Rightarrow> bool" where
  "slotsOk k home V \<longleftrightarrow>
    (\<forall>v \<in> V. LexicalBound (vars k v) \<and> (\<forall>e. enclosing k (home v) = Some e \<longrightarrow> vreg (vars k v) < slotIndex (scopes k e)))
    \<and> (\<forall>v \<in> V. \<forall>w \<in> V. v \<noteq> w \<longrightarrow> enclosing k (home v) = enclosing k (home w) \<longrightarrow> vreg (vars k v) \<noteq> vreg (vars k w))"

lemma HasFlag_or: "HasFlag f (x\<lparr>vFlags := vFlags x OR f, vreg := r\<rparr>) \<longleftrightarrow> f \<noteq> 0"
  by (simp add: HasFlag_def word_bw_comms word_bw_lcs)

lemma slotsOk_bindSlot:
  assumes ok: "slotsOk k home V" and e: "enclosing k (home v) = Some e" and v: "v \<notin> V"
    and room: "unat (slotIndex (scopes k e)) + 1 < 2 ^ 32"
  shows "slotsOk (bindSlot k v e) home (insert v V)"
proof -
  let ?b = "bindSlot k v e"
  have enc: "enclosing ?b s = enclosing k s" for s by (rule sameShape_enclosing [OF bindSlot_shape])
  have up: "slotIndex (scopes k e) < slotIndex (scopes k e) + 1"
    using room by (simp add: word_less_nat_alt unat_word_ariths)
  have slot: "slotIndex (scopes ?b e) = slotIndex (scopes k e) + 1"
    "\<And>f. f \<noteq> e \<Longrightarrow> slotIndex (scopes ?b f) = slotIndex (scopes k f)" by (simp_all add: bindSlot_def)
  have old: "vars ?b w = vars k w" if "w \<in> V" for w using that v by (auto simp: bindSlot_def)
  have new: "LexicalBound (vars ?b v)" "vreg (vars ?b v) = slotIndex (scopes k e)"
    by (simp_all add: bindSlot_def LexicalBound_def HasFlag_or)
  have below: "vreg (vars k w) < slotIndex (scopes k f)" if "w \<in> V" "enclosing k (home w) = Some f" for w f
    using ok that by (simp add: slotsOk_def)
  have "vreg (vars ?b w) < slotIndex (scopes ?b f)" if "w \<in> insert v V" "enclosing k (home w) = Some f" for w f
    using that e new(2) up slot below [of w f] old [of w] by (cases "f = e") (auto intro: less_trans)
  moreover have fresh: "vreg (vars k w) \<noteq> slotIndex (scopes k e)"
    if "w \<in> V" "enclosing k (home w) = enclosing k (home v)" for w
    using below [OF that(1), of e] that(2) e by auto
  have "vreg (vars ?b x) \<noteq> vreg (vars ?b y)"
    if "x \<in> insert v V" "y \<in> insert v V" "x \<noteq> y" "enclosing k (home x) = enclosing k (home y)" for x y
    using that ok new(2) fresh [of x] fresh [of y] old by (auto simp: slotsOk_def)
  moreover have "LexicalBound (vars ?b w)" if "w \<in> insert v V" for w
    using that new(1) ok old by (auto simp: slotsOk_def)
  ultimately show ?thesis by (simp add: slotsOk_def enc)
qed

lemma captures_slots:
  assumes "sameShape h k" and "wfHeap h" and "\<And>v. v \<in> set vs \<Longrightarrow> home v < nScopes h"
    and "\<And>v. v \<in> set vs - V \<Longrightarrow> vType (vars k v) = VT_LOCAL \<and> \<not> LexicalBound (vars k v)"
    and "slotsOk k home V"
    and "\<And>e. unat (slotIndex (scopes k e)) + length vs < 2 ^ 32"
  shows "\<exists>l. captures home vs k = Ok ((), l) \<and> sameShape h l \<and> slotsOk l home (V \<union> set vs)"
  using assms(1,3-)
proof (induction vs arbitrary: k V)
  case Nil
  then show ?case by (simp add: ret_def)
next
  case (Cons v vs)
  have wk: "wfHeap k" by (rule sameShape_wf [OF Cons.prems(1) assms(2)])
  have hv: "home v < nScopes k" using Cons.prems(1,2) by (simp add: sameShape_def)
  obtain e where e: "enclosing k (home v) = Some e" using enclosing_ex [OF wk hv] by blast
  note step = SetLexical_step [OF wk hv e, of v]
  show ?case
  proof (cases "v \<in> V")
    case True
    then have "LexicalBound (vars k v)" using Cons.prems(4) by (simp add: slotsOk_def)
    moreover have "\<exists>l. captures home vs k = Ok ((), l) \<and> sameShape h l \<and> slotsOk l home (V \<union> set vs)"
      using Cons.prems by (intro Cons.IH) (auto simp: less_Suc_eq intro: Suc_lessD)
    ultimately show ?thesis using True step by (simp add: run_defs insert_absorb)
  next
    case False
    let ?b = "bindSlot k v e"
    have "SetLexical v (home v) k = Ok ((), ?b)" using step False Cons.prems(3) by simp
    moreover have "slotsOk ?b home (insert v V)"
      using Cons.prems(5) [of e] by (intro slotsOk_bindSlot Cons.prems(4) e False) simp
    then have "\<exists>l. captures home vs ?b = Ok ((), l) \<and> sameShape h l \<and> slotsOk l home (insert v V \<union> set vs)"
    proof (intro Cons.IH)
      show "sameShape h ?b" by (rule sameShape_trans [OF Cons.prems(1) bindSlot_shape])
      show "unat (slotIndex (scopes ?b f)) + length vs < 2 ^ 32" for f
        using Cons.prems(5) [of f] by (cases "f = e") (simp_all add: bindSlot_def unat_word_ariths)
    qed (use Cons.prems(2,3) in \<open>auto simp: bindSlot_def\<close>)
    ultimately show ?thesis by (simp add: run_defs)
  qed
qed

text \<open>
  C10: capturing runs to its end and gives every captured variable a slot of its own: the slot lies below
  the counter of the environment the variable lives in, and no two captured variables of one environment
  share a slot, however often and in whatever order the variables are captured.
\<close>

theorem captured_slots_distinct:
  assumes "wfHeap h" and "\<forall>v \<in> set vs. home v < nScopes h"
    and "\<forall>v \<in> set vs. vType (vars h v) = VT_LOCAL \<and> \<not> LexicalBound (vars h v)"
    and "\<forall>e. unat (slotIndex (scopes h e)) + length vs < 2 ^ 32"
  shows "\<exists>k. captures home vs h = Ok ((), k) \<and> wfHeap k \<and> slotsOk k home (set vs)"
proof -
  have "\<exists>k. captures home vs h = Ok ((), k) \<and> sameShape h k \<and> slotsOk k home ({} \<union> set vs)"
    using assms by (intro captures_slots sameShape_refl) (auto simp: slotsOk_def)
  then show ?thesis using sameShape_wf assms(1) by auto
qed

section \<open>Exports\<close>

text \<open>The names \<open>ExportAnalysis\<close> looks at: \<open>export * as n\<close>, and the export names of the declarations of an
  export without a source whose local name is bound in the module scope.\<close>

definition boundExports :: "heap \<Rightarrow> scopeId \<Rightarrow> declId list \<Rightarrow> name list" where
  "boundExports h s ds =
    map (\<lambda>d. dExport (decls h d)) (filter (\<lambda>d. lookup (scopes h s) (dName (decls h d)) \<noteq> None) ds)"

lemma boundExports_simps [simp]:
  "boundExports h s [] = []"
  "boundExports h s (d # ds) = (if lookup (scopes h s) (dName (decls h d)) = None then boundExports h s ds
     else dExport (decls h d) # boundExports h s ds)"
  by (simp_all add: boundExports_def)

fun exportNames :: "heap \<Rightarrow> scopeId \<Rightarrow> (astRef \<times> declId list) list \<Rightarrow> name list" where
  "exportNames h s [] = []"
| "exportNames h s ((node, ds) # es) =
    (case node of
       ExportAllDeclaration _ None \<Rightarrow> []
     | ExportAllDeclaration _ (Some n) \<Rightarrow> [n]
     | ExportNamedDeclaration _ True \<Rightarrow> []
     | _ \<Rightarrow> boundExports h s ds)
    @ exportNames h s es"

text \<open>What the analysis reads stays.\<close>

definition sameExports :: "scopeId \<Rightarrow> heap \<Rightarrow> heap \<Rightarrow> bool" where
  "sameExports s h k \<longleftrightarrow> decls k = decls h \<and> sBindings (scopes k s) = sBindings (scopes h s)"

lemma sameExports_lookup: "sameExports s h k \<Longrightarrow> lookup (scopes k s) = lookup (scopes h s)"
  by (simp add: sameExports_def lookup_def fun_eq_iff)

lemma ExportDecls_step:
  "lookup (scopes k s) (dName (decls k d)) = Some v \<Longrightarrow> dExport (decls k d) \<notin> E \<Longrightarrow>
    \<exists>l. sameExports s k l \<and> ExportDecls_loop s E (d # ds) k = ExportDecls_loop s (insert (dExport (decls k d)) E) ds l"
proof -
  assume a: "lookup (scopes k s) (dName (decls k d)) = Some v" "dExport (decls k d) \<notin> E"
  let ?l = "k\<lparr>vars := (vars k)(v := (vars k v)\<lparr>vFlags := vFlags (vars k v) OR VF_LOCAL_EXPORT\<rparr>),
    scopes := (scopes k)(s := (scopes k s)\<lparr>localExports := localExports (scopes k s) @ [(v, dExport (decls k d))]\<rparr>)\<rparr>"
  let ?m = "if vType (vars k v) = VT_MODULE then k else ?l"
  have "ExportDecls_loop s E (d # ds) k = ExportDecls_loop s (insert (dExport (decls k d)) E) ds ?m"
    using a by (simp add: run_defs getDecl_def getScope_def FindLocal_bindings getVar_def AddFlag_def modVar_def
        modScope_def)
  moreover have "sameExports s k ?m" by (simp add: sameExports_def)
  ultimately show ?thesis by blast
qed

lemma ExportDecls_exact:
  assumes "sameExports s h k"
  shows "\<exists>l. sameExports s h l \<and> ExportDecls_loop s E ds k =
    Ok (if distinct (boundExports h s ds) \<and> set (boundExports h s ds) \<inter> E = {}
        then Some (E \<union> set (boundExports h s ds)) else None, l)"
  using assms
proof (induction ds arbitrary: k E)
  case Nil
  then show ?case by (auto simp: ret_def)
next
  case (Cons d ds)
  let ?x = "dExport (decls h d)" and ?ns = "boundExports h s ds"
  have dk: "decls k = decls h" and lk: "lookup (scopes k s) = lookup (scopes h s)"
    using Cons.prems sameExports_lookup [OF Cons.prems] by (simp_all add: sameExports_def)
  show ?case
  proof (cases "lookup (scopes h s) (dName (decls h d))")
    case None
    then have "ExportDecls_loop s E (d # ds) k = ExportDecls_loop s E ds k"
      by (simp add: run_defs getDecl_def getScope_def FindLocal_bindings dk lk)
    then show ?thesis using None Cons.IH [OF Cons.prems, of E]
      by (auto simp del: ExportDecls_loop.simps split: if_splits)
  next
    case (Some v)
    show ?thesis
    proof (cases "dExport (decls h d) \<in> E")
      case True
      then have "ExportDecls_loop s E (d # ds) k = Ok (None, k)"
        using Some by (simp add: run_defs getDecl_def getScope_def FindLocal_bindings dk lk)
      then show ?thesis using True Some Cons.prems by auto
    next
      case False
      then obtain l where l: "sameExports s k l"
          "ExportDecls_loop s E (d # ds) k = ExportDecls_loop s (insert (dExport (decls h d)) E) ds l"
        using ExportDecls_step [of k s d v E ds] Some dk lk by auto
      have "sameExports s h l" using l(1) Cons.prems by (simp add: sameExports_def)
      from Cons.IH [OF this, of "insert ?x E"] obtain m where m: "sameExports s h m"
          "ExportDecls_loop s (insert ?x E) ds l =
            Ok (if distinct ?ns \<and> set ?ns \<inter> insert ?x E = {} then Some (insert ?x E \<union> set ?ns) else None, m)"
        by blast
      have eqs: "(distinct ?ns \<and> set ?ns \<inter> insert ?x E = {}) = (distinct (?x # ?ns) \<and> set (?x # ?ns) \<inter> E = {})"
        "insert ?x E \<union> set ?ns = E \<union> set (?x # ?ns)" "boundExports h s (d # ds) = ?x # ?ns"
        using False Some by auto
      have "ExportDecls_loop s E (d # ds) k = ExportDecls_loop s (insert ?x E) ds l" by (rule l(2))
      then show ?thesis using m(1) unfolding m(2) eqs by (intro exI conjI)
    qed
  qed
qed

lemma Exports_exact:
  assumes "sameExports s h k"
  shows "\<exists>l. Exports_loop s E es k = Ok (distinct (exportNames h s es) \<and> set (exportNames h s es) \<inter> E = {}, l)"
  using assms
proof (induction es arbitrary: k E)
  case (Cons e es)
  obtain node ds where e: "e = (node, ds)" by (cases e)
  note IH = Cons.IH [OF Cons.prems]
  let ?ns = "boundExports h s ds"
  obtain l where l: "sameExports s h l" "ExportDecls_loop s E ds k =
      Ok (if distinct ?ns \<and> set ?ns \<inter> E = {} then Some (E \<union> set ?ns) else None, l)"
    using ExportDecls_exact [OF Cons.prems, of E ds] by blast
  have plain: "\<exists>l. bindM (ExportDecls_loop s E ds) (\<lambda>r. case r of None \<Rightarrow> ret False
      | Some exported \<Rightarrow> Exports_loop s exported es) k
    = Ok (distinct (?ns @ exportNames h s es) \<and> set (?ns @ exportNames h s es) \<inter> E = {}, l)"
  proof (cases "distinct ?ns \<and> set ?ns \<inter> E = {}")
    case True
    then show ?thesis using Cons.IH [OF l(1), of "E \<union> set ?ns"] l(2) by (auto simp: bindM_def)
  next
    case False
    then show ?thesis using l(2) by (auto simp: run_defs)
  qed
  show ?case
  proof (cases node)
    case (ExportAllDeclaration i n)
    then show ?thesis using IH [of E] IH [of "insert (the n) E"] e by (cases n) (auto simp: ret_def)
  next
    case (ExportNamedDeclaration i source)
    then show ?thesis using plain IH [of E] e by (cases source) simp_all
  qed (use plain e in simp_all)
qed (simp add: ret_def)

text \<open>
  C32: the analysis of a module's exports runs to its end and accepts exactly when no name is exported
  twice among the names it looks at.  Those are not all: a re-export \<open>export {a} from 'm'\<close> is skipped, so
  a name exported by two re-exports is accepted.
\<close>

theorem exports_accepted_iff_distinct:
  "\<exists>k. ExportAnalysis s h = Ok (distinct (exportNames h s (sExports (scopes h s))), k)"
  using Exports_exact [of s h h "{}" "sExports (scopes h s)"]
  by (simp add: ExportAnalysis_def run_defs getScope_def sameExports_def)

section \<open>Examples\<close>

text \<open>
  A program with a function: the global scope 0 with its parameter scope 1, the parameter scope 2 and the
  scope 3 of a function with a parameter \<open>p\<close> (variable 0), and two blocks 4 and 5 in its body.
  Declarations 0 and 3 are \<open>var x\<close> and \<open>var p\<close>, 1 is \<open>let x\<close>, 2 is the parameter.
\<close>

definition demo :: heap where
  "demo = \<lparr>
     scopes = (\<lambda>s. if s = 0 then (newScope GlobalScope None)\<lparr>paramScope := Some 1\<rparr>
       else if s = 1 then newScope FunctionParamScope (Some 0)
       else if s = 2 then (newScope FunctionParamScope (Some 0))
         \<lparr>sDecls := [2], sParams := [0], sBindings := [([0x70], Some 0)], functionScope := Some 3\<rparr>
       else if s = 3 then (newScope FunctionScope (Some 2))\<lparr>sBindings := [([0x70], Some 0)], paramScope := Some 2\<rparr>
       else newScope LocalScope (Some 3)),
     nScopes = 6,
     vars = (\<lambda>_. bareVariable VT_LOCAL 2 VF_VAR), nVars = 1,
     decls = (\<lambda>d. if d = 0 then newDecl DECL_VAR [0x78] else if d = 1 then newDecl DECL_LET [0x78]
       else if d = 2 then newDecl DECL_PARAM [0x70] else newDecl DECL_VAR [0x70]),
     nDecls = 4\<rparr>"

lemma wfHeap_code: "wfHeap h \<longleftrightarrow> list_all (wfScope h) [0..<nScopes h]
    \<and> list_all (\<lambda>v. vDecl (vars h v) < nDecls h) [0..<nVars h]"
  by (auto simp: wfHeap_def list_all_iff)

lemma demo_wf: "wfHeap demo"
  unfolding wfHeap_code by code_simp

lemma demo_blocks: "bodyBlock demo 3 4" "bodyBlock demo 3 5"
  by (simp_all add: bodyBlock_def demo_def newScope_def)

theorem add_decl_keeps_invariant_witness:
  "\<exists>accepted k. AddDecl 4 1 JS demo = Ok (accepted, k) \<and> wfHeap k \<and> sameTree demo k"
proof (rule add_decl_keeps_invariant)
  show "declarable demo 4 1"
    using demo_wf by (simp add: declarable_def ready_def) (simp add: demo_def newScope_def newDecl_def)
qed

theorem find_is_chain_search_witness:
  "Find 4 [0x70] RB_BINDINGS demo = Ok (chainFind demo (scopeChain demo 4) [0x70] RB_BINDINGS 0 0, demo)"
  by (rule find_is_chain_search [OF demo_wf]) (simp add: demo_def)

theorem block_let_declaration_witness:
  "\<exists>k. AddDecl 4 1 JS demo = Ok (blockAccepts demo 4 [0x78], k)"
proof -
  have "ready demo 4 1" using demo_wf by (simp add: ready_def) (simp add: demo_def)
  from block_let_declaration [OF this, of "[0x78]" JS] show ?thesis
    by (auto simp: demo_def newScope_def newDecl_def blockClass_def)
qed

theorem var_blocks_let_in_sibling_witness:
  "\<exists>k k'. AddDecl 4 0 JS demo = Ok (True, k) \<and> AddDecl 5 1 JS k = Ok (False, k')"
proof -
  have "\<forall>s \<in> {3, 4, 5}. lookup (scopes demo s) [0x78] = None"
    by (simp add: demo_def lookup_def newScope_def)
  from var_blocks_let_in_sibling [OF demo_wf demo_blocks _ this, of 0 1 JS] show ?thesis
    by (auto simp: demo_def newDecl_def)
qed

theorem nested_var_resets_parameter_witness:
  "\<exists>k. AddDecl 4 3 JS demo = Ok (True, k) \<and> dType (decls k (vDecl (vars k 0))) = DECL_VAR"
proof -
  have "lookup (scopes demo 4) [0x70] = None" "lookup (scopes demo 3) [0x70] = Some 0"
    by (simp_all add: demo_def lookup_def newScope_def)
  from nested_var_resets_parameter [OF demo_wf demo_blocks(1) this, of 3 JS] show ?thesis
    by (auto simp: demo_def newDecl_def bareVariable_def)
qed

theorem captured_slots_distinct_witness:
  "\<exists>k. captures (\<lambda>_. 3) [0] demo = Ok ((), k) \<and> wfHeap k \<and> slotsOk k (\<lambda>_. 3) {0}"
  using captured_slots_distinct [OF demo_wf, of "[0]" "\<lambda>_. 3"]
  by (simp add: demo_def newScope_def bareVariable_def LexicalBound_def HasFlag_def)

end
