(* ===== verification/BinderSpec.thy ===== *)
theory BinderSpec
  imports Binder ScopeSpec
begin

text \<open>
  The properties of the binder: the scope it is in is restored by every part of the traversal, every
  identifier is bound to the variable a search of the scope chain gives, internal function names are
  unique, and two places where the pass goes wrong.
\<close>

section \<open>Scope discipline\<close>

text \<open>A part of the pass that, when it returns, leaves the pass in the scope it started in, and only adds
  functions to the list.\<close>

definition disciplined :: "'a bindM \<Rightarrow> bool" where
  "disciplined m \<longleftrightarrow> (\<forall>s a t. m s = Ok (a, t) \<longrightarrow>
     bScope t = bScope s \<and> topScope t = topScope s \<and> (\<exists>fs. functionScopes t = functionScopes s @ fs))"

named_theorems disc

lemma disc_basic [disc]: "disciplined (ret a)" "disciplined out_of_fuel" "disciplined (getM g)" "disciplined (raise e)"
  by (simp_all add: disciplined_def run_defs)

lemma disc_deref [disc]: "disciplined (deref p)"
  by (cases p) (simp_all add: disciplined_def deref_def readM_def)

lemma disc_onHeap [disc]: "disciplined (onHeap m)"
  by (auto simp: disciplined_def onHeap_def split: res.splits)

lemma disc_bind [disc]: "disciplined m \<Longrightarrow> (\<And>a. disciplined (f a)) \<Longrightarrow> disciplined (bindM m f)"
  by (fastforce simp: disciplined_def bindM_def split: res.splits)

lemma disc_then [disc]: "disciplined m \<Longrightarrow> disciplined k \<Longrightarrow> disciplined (thenM m k)"
  by (simp add: thenM_def disc_bind)

lemma disc_if [disc]: "(b \<Longrightarrow> disciplined m) \<Longrightarrow> (\<not> b \<Longrightarrow> disciplined k) \<Longrightarrow> disciplined (if b then m else k)"
  by simp

lemma disc_option [disc]:
  "disciplined m \<Longrightarrow> (\<And>a. x = Some a \<Longrightarrow> disciplined (f a)) \<Longrightarrow> disciplined (case x of None \<Rightarrow> m | Some a \<Rightarrow> f a)"
  by (cases x) simp_all

lemma disc_prod [disc]: "(\<And>a b. disciplined (f a b)) \<Longrightarrow> disciplined (case x of (a, b) \<Rightarrow> f a b)"
  by (cases x) simp

text \<open>A scope that is entered is left.\<close>

lemma disc_inScope [disc]: "disciplined m \<Longrightarrow> disciplined (inScope sc m)"
  by (fastforce simp: disciplined_def inScope_def run_defs split: res.splits)

lemma disc_helpers [disc]:
  "disciplined (scopeOf sc)" "disciplined (enclosingScope sc)" "disciplined (addScopeFlag sc fl)"
  "disciplined (paramScopeOf sc)" "disciplined (declScopeOf sc)" "disciplined (initLocal n)"
  "disciplined (initFound n)" "disciplined (LookupReference n)" "disciplined (declareArguments it sc)"
  unfolding scopeOf_def enclosingScope_def addScopeFlag_def paramScopeOf_def declScopeOf_def initLocal_def
    initFound_def LookupReference_def declareArguments_def
  by (intro disc)+

lemma disc_InstantiateArguments_loop: "disciplined (InstantiateArguments_loop n it)"
  by (induction n arbitrary: it) (auto intro!: disc)

lemma disc_InstantiateArguments [disc]: "disciplined InstantiateArguments"
proof -
  have "disciplined (\<lambda>s. InstantiateArguments_loop (Suc (nScopes (bHeap s))) (Some sc) s)" for sc
    using disc_InstantiateArguments_loop by (auto simp: disciplined_def simp del: InstantiateArguments_loop.simps)
  then show ?thesis unfolding InstantiateArguments_def by (intro disc)
qed

lemma disc_bindIdent [disc]: "disciplined (bindIdent i v)"
  by (simp add: disciplined_def bindIdent_def modifyM_def)

lemma disc_LookupIdentReference [disc]: "disciplined (LookupIdentReference i n)"
  unfolding LookupIdentReference_def by (intro disc)

lemma disc_BuildScriptFunction [disc]: "disciplined (BuildScriptFunction sc path f arrow)"
proof -
  have "disciplined (modifyM (\<lambda>s. s\<lparr>functionScopes := functionScopes s @ [x]\<rparr>))" for x
    by (simp add: disciplined_def modifyM_def)
  then show ?thesis unfolding BuildScriptFunction_def BuildFunction_def by (intro disc)
qed

lemma disc_Resolve [disc]:
  "disciplined (ResolveReference path node)" "disciplined (ResolveAll path ns)" "disciplined (Resolve_opt path opt)"
  "disciplined (BuildVarDeclaratorId path node)" "disciplined (BuildIds path ns)"
  by (induction path node and path ns and path opt and path node and path ns
      rule: ResolveReference_ResolveAll_Resolve_opt_BuildVarDeclaratorId_BuildIds.induct)
    (auto intro!: disc)

text \<open>
  C12: the traversal is disciplined: resolving any node, whatever scopes it enters on the way, ends (when
  it returns) in the scope it started from, with the same top scope, and has only appended functions to
  the list of functions.
\<close>

theorem resolve_restores_scope:
  assumes "ResolveReference path node s = Ok ((), t)"
  shows "bScope t = bScope s \<and> topScope t = topScope s \<and> (\<exists>fs. functionScopes t = functionScopes s @ fs)"
  using disc_Resolve(1) assms unfolding disciplined_def by blast

section \<open>Internal function names\<close>

definition decimalValue :: "name \<Rightarrow> nat" where
  "decimalValue s = foldl (\<lambda>v c. v * 10 + (unat c - 48)) 0 s"

lemma digit_byte: "n < 10 \<Longrightarrow> unat (of_nat (0x30 + n) :: byte) = 48 + n"
  by (simp add: unat_word_ariths unat_of_nat)

lemma decimalBytes_value: "decimalValue (decimalBytes n) = n"
proof (induction n rule: decimalBytes.induct)
  case (1 n)
  show ?case
  proof (cases "n < 10")
    case True
    then show ?thesis using digit_byte [of n] by (simp add: decimalBytes.simps decimalValue_def)
  next
    case False
    then show ?thesis using 1 digit_byte [of "n mod 10"]
      by (simp add: decimalBytes.simps [of n] decimalValue_def)
  qed
qed

lemma decimalBytes_digits: "c \<in> set (decimalBytes n) \<Longrightarrow> isDigitByte c"
proof (induction n rule: decimalBytes.induct)
  case (1 n)
  have "isDigitByte (of_nat (0x30 + n mod 10))"
    using digit_byte [of "n mod 10"] by (simp add: isDigitByte_def word_le_nat_alt)
  then show ?case using 1 by (cases "n < 10") (auto simp: decimalBytes.simps [of n])
qed

lemma last_separator:
  assumes "xs @ c # us = ys @ c # vs" and "c \<notin> set us" and "c \<notin> set vs"
  shows "us = vs"
proof -
  have "takeWhile (\<lambda>x. x \<noteq> c) (rev (xs @ c # us)) = rev us" "takeWhile (\<lambda>x. x \<noteq> c) (rev (ys @ c # vs)) = rev vs"
    using assms(2,3) by (simp_all add: takeWhile_append)
  then show ?thesis using assms(1) by simp
qed

lemma internalFunctionName_inj:
  assumes "internalFunctionName n i = internalFunctionName m j"
  shows "i = j"
proof -
  have d: "0x5F \<notin> set (decimalBytes k)" for k
    using decimalBytes_digits [of "0x5F" k] by (auto simp: isDigitByte_def)
  have u: "asciiText ''_'' = [0x5F]" by (simp add: asciiText_def)
  have "decimalBytes i = decimalBytes j"
    by (rule last_separator [OF _ d d, of "asciiText ''func_'' @ n" i "asciiText ''func_'' @ m" j])
      (use assms in \<open>simp add: internalFunctionName_def u\<close>)
  then show ?thesis using decimalBytes_value by metis
qed

text \<open>
  Functions get different internal names: two calls of \<open>BuildFunction\<close> made when the list of
  functions had different lengths name their functions differently, whatever the source calls them
  (a name may contain underscores and digits).
\<close>

theorem internal_names_unique:
  assumes "BuildFunction sc f n s = Ok ((), s')" and "BuildFunction sc' f' n' t = Ok ((), t')"
    and "length (functionScopes s) \<noteq> length (functionScopes t)"
  shows "internalName (scopes (bHeap s') sc) \<noteq> internalName (scopes (bHeap t') sc')"
proof -
  have "internalName (scopes (bHeap s') sc) = internalFunctionName n (length (functionScopes s))"
    "internalName (scopes (bHeap t') sc') = internalFunctionName n' (length (functionScopes t))"
    using assms(1,2) by (auto simp: BuildFunction_def run_defs onHeap_def modScope_def)
  then show ?thesis using assms(3) internalFunctionName_inj by metis
qed

section \<open>Function names\<close>

text \<open>
  Naming the function in \<open>{[true]: function () {}}\<close> runs into \<open>UNREACHABLE()\<close>: the key counts as
  constant, computed or not, but \<open>LiteralToPropName\<close> has no case for a boolean literal.
\<close>

theorem boolean_key_unreachable:
  "FunctionName (FunctionExpression f # Property PK_INIT True (BooleanLiteral b) v # path)
     (ScriptFunctionNode i sc arrow False None params body) = None"
  by (simp add: FunctionName_def nameFromContext_def IsConstantPropertyKey_def LiteralToPropName_def)

section \<open>References\<close>

lemma onHeap_Ok: "m (bHeap s) = Ok (a, h) \<Longrightarrow> onHeap m s = Ok (a, s\<lparr>bHeap := h\<rparr>)"
  by (simp add: onHeap_def)

lemma chainFind_variable:
  assumes "frVariable (chainFind h ss n options l ll) = Some v"
  shows "\<exists>t \<in> set ss. frScope (chainFind h ss n options l ll) = Some t \<and> FindLocal (scopes h t) n options = Some v"
  using assms
proof (induction ss arbitrary: l ll)
  case (Cons t ss)
  then show ?case
    by (cases "FindLocal (scopes h t) n options") (force simp: chainFind_hit chainFind_miss)+
qed (simp add: chainFind_def)

lemma chainFind_level: "frVariable (chainFind h ss n options l ll) = None \<Longrightarrow> frLevel (chainFind h ss n options l ll) = 0"
proof (induction ss arbitrary: l ll)
  case (Cons t ss)
  then show ?case by (cases "FindLocal (scopes h t) n options") (simp_all add: chainFind_hit chainFind_miss)
qed (simp add: chainFind_def)

lemma scopeChain_bound:
  assumes "wfHeap h" and "s < nScopes h"
  shows "t \<in> set (scopeChain h s) \<Longrightarrow> t < nScopes h"
  using assms(2)
proof (induction s rule: less_induct)
  case (less s)
  then show ?case by (subst (asm) (2) scopeChain.simps) (auto split: option.splits if_splits)
qed

lemma HasFlag_initialized:
  "HasFlag VF_INITIALIZED (x\<lparr>vFlags := vFlags x OR VF_LEXICAL_BOUND, vreg := r\<rparr>) = HasFlag VF_INITIALIZED x"
  by (simp add: HasFlag_def bit.conj_disj_distrib2)

text \<open>
  C11: a reference is bound to what the scope chain says: \<open>LookupIdentReference\<close> always ends; the
  identifier gets the variable of the innermost enclosing scope that binds the name (none if there is
  none); a local variable of another function is captured, i.e. lexically bound, and a variable found
  without leaving a variable scope is left as it is; the identifier is marked for a TDZ check when the
  variable is a \<open>let\<close> or \<open>const\<close> that is not initialised.
\<close>

theorem reference_bound_by_chain:
  assumes "wfHeap (bHeap s)" and "bScope s < nScopes (bHeap s)" and "n \<noteq> FUNCTION_ARGUMENTS"
    and "res = chainFind (bHeap s) (scopeChain (bHeap s) (bScope s)) n RB_BINDINGS 0 0"
  shows "\<exists>t. LookupIdentReference i n s = Ok ((), t)
    \<and> identVar t i = (case frVariable res of None \<Rightarrow> identVar s i | Some v \<Rightarrow> Some v)
    \<and> (\<forall>v. frVariable res = Some v \<longrightarrow>
         (identTdz t i \<longleftrightarrow> identTdz s i \<or> needsTdz (bHeap s) v)
         \<and> (frLevel res = 0 \<longrightarrow> bHeap t = bHeap s)
         \<and> (frLevel res \<noteq> 0 \<and> vType (vars (bHeap s) v) = VT_LOCAL \<longrightarrow> LexicalBound (vars (bHeap t) v)))"
proof -
  let ?h = "bHeap s"
  have f: "onHeap (Find (bScope s) n RB_BINDINGS) s = Ok (res, s)"
    using Find_chain [OF assms(1,2), of n RB_BINDINGS] by (simp add: onHeap_def assms(4))
  show ?thesis
  proof (cases "frVariable res")
    case None
    then have "frLevel res = 0" using assms(4) chainFind_level by simp
    then show ?thesis using assms(3) f None by (simp add: LookupIdentReference_def run_defs)
  next
    case (Some v)
    obtain t where t: "t \<in> set (scopeChain ?h (bScope s))" "frScope res = Some t"
      using chainFind_variable [of ?h "scopeChain ?h (bScope s)" n RB_BINDINGS 0 0 v] Some assms(4) by auto
    have tb: "t < nScopes ?h" using scopeChain_bound [OF assms(1,2) t(1)] .
    obtain e where e: "enclosing ?h t = Some e" using enclosing_ex [OF assms(1) tb] by blast
    note set = SetLexical_step [OF assms(1) tb e, of v]
    show ?thesis
    proof (cases "frLevel res = 0")
      case True
      then show ?thesis using assms(3) f Some by (simp add: LookupIdentReference_def run_defs bindIdent_def)
    next
      case False
      let ?k = "if vType (vars ?h v) = VT_LOCAL \<and> \<not> LexicalBound (vars ?h v) then bindSlot ?h v e else ?h"
      have run: "LookupIdentReference i n s = bindIdent i v (s\<lparr>bHeap := ?k\<rparr>)"
        using assms(3) f Some False t(2) set by (simp add: LookupIdentReference_def run_defs deref_def onHeap_def)
      have tdz: "needsTdz ?k v = needsTdz ?h v"
        by (simp add: needsTdz_def bindSlot_def HasFlag_initialized)
      have "vType (vars ?h v) = VT_LOCAL \<longrightarrow> LexicalBound (vars ?k v)"
        by (simp add: bindSlot_def LexicalBound_def HasFlag_or)
      then show ?thesis using False Some tdz unfolding run by (simp add: bindIdent_def modifyM_def)
    qed
  qed
qed

section \<open>Arrow functions in default parameters\<close>

lemma onHeapD: "onHeap m s = Ok (a, t) \<Longrightarrow> \<exists>h. m (bHeap s) = Ok (a, h) \<and> t = s\<lparr>bHeap := h\<rparr>"
  by (auto simp: onHeap_def split: res.splits)

lemma bindM_Ok: "bindM m f s = Ok (b, u) \<longleftrightarrow> (\<exists>a t. m s = Ok (a, t) \<and> f a t = Ok (b, u))"
  by (auto simp: bindM_def split: res.splits)

lemma thenM_Ok: "thenM m k s = Ok (b, u) \<longleftrightarrow> (\<exists>a t. m s = Ok (a, t) \<and> k t = Ok (b, u))"
  by (simp add: thenM_def bindM_Ok)

text \<open>The hidden parameters of a function are bound in its function scope only.\<close>

definition bindsOnly :: "scopeId \<Rightarrow> binderState \<Rightarrow> binderState \<Rightarrow> bool" where
  "bindsOnly f s t \<longleftrightarrow> bScope t = bScope s
     \<and> (\<forall>x. x \<noteq> f \<longrightarrow> sBindings (scopes (bHeap t) x) = sBindings (scopes (bHeap s) x))"

lemma AddMandatoryParam_binds:
  assumes "AddMandatoryParam n s = Ok ((), t)"
  shows "bindsOnly (bScope s) s t"
  using assms
  by (cases "paramScope (scopes (bHeap s) (bScope s))")
    (auto simp: AddMandatoryParam_def run_defs onHeap_def paramScopeOf_def scopeOf_def deref_def allocDecl_def
      LocalVariable_def getDecl_def allocVar_def modScope_def insertBinding_def getScope_def bindsOnly_def
      newDecl_def)

lemma AddMandatoryParams_binds:
  assumes "AddMandatoryParams ns s = Ok ((), t)"
  shows "bindsOnly (bScope s) s t"
proof -
  have "AddMandatoryParams_rev ms s = Ok ((), t) \<Longrightarrow> bindsOnly (bScope s) s t" for ms
  proof (induction ms arbitrary: s)
    case (Cons n ms)
    then obtain u where u: "AddMandatoryParam n s = Ok ((), u)" "AddMandatoryParams_rev ms u = Ok ((), t)"
      by (auto simp: thenM_Ok)
    then show ?case using AddMandatoryParam_binds [OF u(1)] Cons.IH [OF u(2)] by (simp add: bindsOnly_def)
  qed (simp add: bindsOnly_def ret_def)
  then show ?thesis using assms by (simp add: AddMandatoryParams_def)
qed

text \<open>
  C34: an arrow function in a default parameter captures the wrong \<open>this\<close>.  The scopes around it are its
  own two, the parameter scope \<open>fp\<close> of the function \<open>f\<close>, and then the scope \<open>g\<close> around \<open>f\<close>.  Adding the
  hidden parameters of \<open>f\<close> does not bind \<open>this\<close> in \<open>fp\<close>; so the lookup of \<open>this\<close> that
  \<open>AddMandatoryParams\<close> makes for the arrow function captures the variable of \<open>g\<close>, the \<open>this\<close> of the
  function around \<open>f\<close>.
\<close>

theorem default_parameter_arrow_this:
  assumes "AddMandatoryParams FUNCTION_MANDATORY_PARAMS r = Ok ((), s)" and "bScope r \<noteq> fp"
    and "lookup (scopes (bHeap r) fp) MANDATORY_PARAM_THIS = None"
    and "wfHeap (bHeap s)" and "bScope u = a" and "bHeap u = bHeap s" and "a < nScopes (bHeap s)"
    and "scopeChain (bHeap s) a = a # ap # fp # g # rest"
    and "IsVariableScope (scopes (bHeap s) a)" and "\<not> IsVariableScope (scopes (bHeap s) ap)"
    and "\<not> IsVariableScope (scopes (bHeap s) fp)"
    and "lookup (scopes (bHeap s) a) MANDATORY_PARAM_THIS = None"
    and "lookup (scopes (bHeap s) ap) MANDATORY_PARAM_THIS = None"
    and "lookup (scopes (bHeap s) g) MANDATORY_PARAM_THIS = Some v"
    and "vType (vars (bHeap s) v) = VT_LOCAL"
  shows "\<exists>t. LookupReference MANDATORY_PARAM_THIS u = Ok ((), t) \<and> LexicalBound (vars (bHeap t) v)"
proof -
  let ?h = "bHeap s" and ?n = MANDATORY_PARAM_THIS
  have "sBindings (scopes ?h fp) = sBindings (scopes (bHeap r) fp)"
    using AddMandatoryParams_binds [OF assms(1)] assms(2) by (auto simp: bindsOnly_def)
  then have fp: "lookup (scopes ?h fp) ?n = None" using assms(3) by (simp add: lookup_def)
  let ?res = "\<lparr>frName = ?n, frScope = Some g, frLevel = 1,
    frLexLevel = (if NeedLexEnv (scopes ?h a) then 1 else 0), frVariable = Some v\<rparr>"
  have "chainFind ?h (scopeChain ?h a) ?n RB_BINDINGS 0 0 = ?res"
    using assms(8-14) fp by (simp add: chainFind_miss chainFind_hit FindLocal_bindings)
  then have f: "onHeap (Find (bScope u) ?n RB_BINDINGS) u = Ok (?res, u)"
    using Find_chain [OF assms(4,7), of ?n RB_BINDINGS] by (simp add: onHeap_def assms(5,6))
  have g: "g < nScopes ?h" using scopeChain_bound [OF assms(4,7), of g] assms(8) by simp
  obtain e where e: "enclosing ?h g = Some e" using enclosing_ex [OF assms(4) g] by blast
  note set = SetLexical_step [OF assms(4) g e, of v]
  have "LookupReference ?n u = Ok ((), u\<lparr>bHeap := if LexicalBound (vars ?h v) then ?h else bindSlot ?h v e\<rparr>)"
    using f set assms(6,15) by (auto simp: LookupReference_def run_defs deref_def onHeap_def)
  then show ?thesis by (auto simp: bindSlot_def LexicalBound_def HasFlag_or)
qed

text \<open>
  The program \<open>function f(g = () => this) {}\<close>: the global scope 0 and its parameter scope 1, the parameter
  scope 2 of \<open>f\<close>, the scopes 3 and 4 of the arrow function, and the scope 5 of \<open>f\<close>.  Variable 0 is the
  parameter, variable 1 the \<open>this\<close> of the program.
\<close>

definition defaultParam :: heap where
  "defaultParam = \<lparr>
     scopes = (\<lambda>s. if s = 0 then (newScope GlobalScope None)
           \<lparr>paramScope := Some 1, sBindings := [(MANDATORY_PARAM_THIS, Some 1)]\<rparr>
         else if s = 1 then newScope FunctionParamScope (Some 0)
         else if s = 2 then (newScope FunctionParamScope (Some 0))
           \<lparr>sDecls := [0], sParams := [0], sBindings := [([0x67], Some 0)], functionScope := Some 5\<rparr>
         else if s = 3 then (newScope FunctionParamScope (Some 2))\<lparr>functionScope := Some 4\<rparr>
         else if s = 4 then (newScope FunctionScope (Some 3))\<lparr>paramScope := Some 3, sNode := Some (ScriptFunction 1 True)\<rparr>
         else (newScope FunctionScope (Some 2))\<lparr>paramScope := Some 2, sBindings := [([0x67], Some 0)],
           sNode := Some (ScriptFunction 0 False)\<rparr>),
     nScopes = 6, vars = (\<lambda>v. bareVariable VT_LOCAL v VF_VAR), nVars = 2,
     decls = (\<lambda>d. newDecl DECL_PARAM (if d = 0 then [0x67] else MANDATORY_PARAM_THIS)), nDecls = 2\<rparr>"

definition defaultParamState :: "scopeId \<Rightarrow> heap \<Rightarrow> binderState" where
  "defaultParamState sc h = \<lparr>bHeap = h, topScope = 0, bScope = sc, functionScopes = [],
     identVar = (\<lambda>_. None), identTdz = (\<lambda>_. False)\<rparr>"

lemma wfHeap_sParams:
  "wfHeap h \<Longrightarrow> wfHeap (h\<lparr>scopes := (scopes h)(p := (scopes h p)\<lparr>sParams := ps\<rparr>)\<rparr>)"
  if "p < nScopes h"
proof -
  assume w: "wfHeap h"
  then have "wfScope h p" using that by (simp add: wfHeap_def)
  then show ?thesis using w by (intro wf_modScope) (auto simp: wfScope_def Let_def)
qed

lemma AddMandatoryParam_run:
  assumes "wfHeap (bHeap s)" and "paramScope (scopes (bHeap s) (bScope s)) = Some p" and "p < nScopes (bHeap s)"
  shows "\<exists>t. AddMandatoryParam n s = Ok ((), t) \<and> wfHeap (bHeap t) \<and> bScope t = bScope s \<and> sameTree (bHeap s) (bHeap t)"
proof -
  let ?h = "bHeap s"
  let ?h1 = "?h\<lparr>decls := (decls ?h)(nDecls ?h := newDecl DECL_PARAM n), nDecls := Suc (nDecls ?h)\<rparr>"
  let ?x = "bareVariable VT_LOCAL (nDecls ?h) VF_VAR"
  let ?h2 = "?h1\<lparr>vars := (vars ?h1)(nVars ?h1 := ?x), nVars := Suc (nVars ?h1)\<rparr>"
  let ?h3 = "?h2\<lparr>scopes := (scopes ?h2)(p := (scopes ?h2 p)\<lparr>sParams := nVars ?h # sParams (scopes ?h2 p)\<rparr>)\<rparr>"
  let ?sc = "scopes ?h3 (bScope s)"
  let ?h4 = "?h3\<lparr>scopes := (scopes ?h3)(bScope s := ?sc\<lparr>sBindings := bindInsert n (Some (nVars ?h)) (sBindings ?sc)\<rparr>)\<rparr>"
  have "wfHeap ?h1" by (rule wf_newDecl [OF assms(1)])
  then have "wfHeap ?h2" by (rule wf_newVar) (simp add: bareVariable_def)
  then have "wfHeap ?h3" using assms(3) by (intro wfHeap_sParams) simp_all
  then have "wfHeap ?h4" by (rule wf_bind) (simp_all add: bareVariable_def newDecl_def)
  moreover have "AddMandatoryParam n s = Ok ((), s\<lparr>bHeap := ?h4\<rparr>)"
    using assms(2) by (simp add: AddMandatoryParam_def run_defs onHeap_def paramScopeOf_def scopeOf_def deref_def
        allocDecl_def LocalVariable_def getDecl_def allocVar_def modScope_def insertBinding_def getScope_def newDecl_def)
  moreover have "sameTree ?h ?h4" by (simp add: sameTree_def)
  ultimately show ?thesis by auto
qed

lemma AddMandatoryParams_run:
  assumes "wfHeap (bHeap s)" and "paramScope (scopes (bHeap s) (bScope s)) = Some p" and "p < nScopes (bHeap s)"
  shows "\<exists>t. AddMandatoryParams ns s = Ok ((), t) \<and> wfHeap (bHeap t) \<and> sameTree (bHeap s) (bHeap t)"
proof -
  have "\<exists>t. AddMandatoryParams_rev ms s = Ok ((), t) \<and> wfHeap (bHeap t) \<and> sameTree (bHeap s) (bHeap t)" for ms
    using assms
  proof (induction ms arbitrary: s)
    case (Cons n ms)
    obtain u where u: "AddMandatoryParam n s = Ok ((), u)" "wfHeap (bHeap u)" "bScope u = bScope s"
        "sameTree (bHeap s) (bHeap u)"
      using AddMandatoryParam_run [OF Cons.prems] by blast
    then have "paramScope (scopes (bHeap u) (bScope u)) = Some p" "p < nScopes (bHeap u)"
      using Cons.prems by (simp_all add: sameTree_def)
    from Cons.IH [OF u(2) this] show ?case using u(1,4) sameTree_trans by (auto simp: run_defs)
  qed (simp add: ret_def)
  then show ?thesis by (simp add: AddMandatoryParams_def)
qed

lemma sameTree_chain: "sameTree h k \<Longrightarrow> scopeChain k s = scopeChain h s"
proof (induction s rule: less_induct)
  case (less s)
  then show ?case by (simp add: scopeChain.simps [of _ s] sameTree_def split: option.splits)
qed

lemma defaultParam_wf: "wfHeap defaultParam"
  unfolding wfHeap_code by code_simp

lemma defaultParam_chain: "scopeChain defaultParam 4 = [4, 3, 2, 0]"
  by (simp add: scopeChain.simps defaultParam_def newScope_def)

theorem default_parameter_arrow_this_witness:
  "\<exists>s t. AddMandatoryParams FUNCTION_MANDATORY_PARAMS (defaultParamState 5 defaultParam) = Ok ((), s)
    \<and> LookupReference MANDATORY_PARAM_THIS (s\<lparr>bScope := 4\<rparr>) = Ok ((), t)
    \<and> LexicalBound (vars (bHeap t) 1)"
proof -
  let ?r = "defaultParamState 5 defaultParam"
  have "wfHeap (bHeap ?r)" "paramScope (scopes (bHeap ?r) (bScope ?r)) = Some 2" "2 < nScopes (bHeap ?r)"
    by (simp_all add: defaultParamState_def defaultParam_wf) (simp_all add: defaultParam_def)
  from AddMandatoryParams_run [OF this, of FUNCTION_MANDATORY_PARAMS] obtain s where
    s: "AddMandatoryParams FUNCTION_MANDATORY_PARAMS ?r = Ok ((), s)" "wfHeap (bHeap s)" "sameTree defaultParam (bHeap s)"
    by (auto simp: defaultParamState_def)
  have b: "sBindings (scopes (bHeap s) x) = sBindings (scopes defaultParam x)" if "x \<noteq> 5" for x
    using AddMandatoryParams_binds [OF s(1)] that by (simp add: bindsOnly_def defaultParamState_def)
  have v: "vType (vars (bHeap s) 1) = VT_LOCAL"
    using s(1)
    by (simp add: AddMandatoryParams_def FUNCTION_MANDATORY_PARAMS_def AddMandatoryParam_def run_defs onHeap_def
        paramScopeOf_def scopeOf_def deref_def allocDecl_def LocalVariable_def getDecl_def allocVar_def modScope_def
        insertBinding_def getScope_def newDecl_def defaultParamState_def defaultParam_def)
      (auto simp: bareVariable_def)
  have ty: "Type (scopes (bHeap s) x) = Type (scopes defaultParam x)" for x by (rule sameTree_Type [OF s(3)])
  have n: "MANDATORY_PARAM_THIS \<noteq> [0x67]" by (simp add: MANDATORY_PARAM_THIS_def asciiText_def)
  have "\<exists>t. LookupReference MANDATORY_PARAM_THIS (s\<lparr>bScope := 4\<rparr>) = Ok ((), t) \<and> LexicalBound (vars (bHeap t) 1)"
  proof (rule default_parameter_arrow_this [OF s(1) _ _ s(2), of 2 _ 4 3 0 "[]"])
    show "scopeChain (bHeap s) 4 = [4, 3, 2, 0]" using sameTree_chain [OF s(3)] defaultParam_chain by simp
    show "4 < nScopes (bHeap s)" using s(3) by (simp add: sameTree_def) (simp add: defaultParam_def)
    show "IsVariableScope (scopes (bHeap s) 4)" "\<not> IsVariableScope (scopes (bHeap s) 3)"
      "\<not> IsVariableScope (scopes (bHeap s) 2)"
      by (simp_all add: IsVariableScope_def ty)
        (simp_all add: defaultParam_def newScope_def Type_def less_scopeType_def)
    show "lookup (scopes (bHeap s) 0) MANDATORY_PARAM_THIS = Some 1"
      "lookup (scopes (bHeap s) 3) MANDATORY_PARAM_THIS = None"
      "lookup (scopes (bHeap s) 4) MANDATORY_PARAM_THIS = None"
      by (simp_all add: lookup_def b) (simp_all add: defaultParam_def newScope_def)
    show "lookup (scopes (bHeap ?r) 2) MANDATORY_PARAM_THIS = None"
      using n by (simp add: lookup_def defaultParamState_def defaultParam_def newScope_def)
  qed (use v in \<open>simp_all add: defaultParamState_def\<close>)
  then show ?thesis using s(1) by blast
qed

section \<open>Examples\<close>

definition demoState :: binderState where
  "demoState = defaultParamState 4 demo"

theorem resolve_restores_scope_witness:
  "\<exists>t. ResolveReference [] (BlockStatement 5 []) demoState = Ok ((), t) \<and> bScope t = 4"
proof -
  have "ResolveReference [] (BlockStatement 5 []) demoState = Ok ((), demoState)"
    by (simp add: inScope_def run_defs demoState_def defaultParamState_def)
  from resolve_restores_scope [OF this] this show ?thesis by (simp add: demoState_def defaultParamState_def)
qed

theorem internal_names_unique_witness:
  "\<exists>s t. BuildFunction 3 None [0x61] demoState = Ok ((), s) \<and> BuildFunction 3 None [0x61] s = Ok ((), t)
    \<and> internalName (scopes (bHeap s) 3) \<noteq> internalName (scopes (bHeap t) 3)"
proof -
  obtain s t where s: "BuildFunction 3 None [0x61] demoState = Ok ((), s)" "BuildFunction 3 None [0x61] s = Ok ((), t)"
    "length (functionScopes demoState) \<noteq> length (functionScopes s)"
    by (simp add: BuildFunction_def run_defs onHeap_def modScope_def demoState_def defaultParamState_def)
  then show ?thesis using internal_names_unique [OF s] by blast
qed

theorem reference_bound_by_chain_witness:
  "\<exists>t. LookupIdentReference 7 [0x70] demoState = Ok ((), t) \<and> identVar t 7 = Some 0"
proof -
  have h: "wfHeap (bHeap demoState)" "bScope demoState < nScopes (bHeap demoState)" "[0x70] \<noteq> FUNCTION_ARGUMENTS"
    by (simp_all add: demoState_def defaultParamState_def demo_wf FUNCTION_ARGUMENTS_def asciiText_def)
      (simp add: demo_def)
  have "frVariable (chainFind demo (scopeChain demo 4) [0x70] RB_BINDINGS 0 0) = Some 0"
    by (simp add: scopeChain.simps demo_def newScope_def chainFind_def FindLocal_def lookup_def)
  then show ?thesis using reference_bound_by_chain [OF h refl, of 7]
    by (auto simp: demoState_def defaultParamState_def)
qed

end
