(* ===== verification/IRNode.thy ===== *)
theory IRNode
  imports LexerState Names
begin

text \<open>
  \<open>ir/irnode.h\<close> and what \<open>compiler/templates/isa.h.erb\<close> generates: the instructions of a function before
  they go to the assembler.

  The instruction set is described by a file of the runtime that is not part of the repository; the
  generated class of an instruction is a mnemonic with a list of operands, and its formats are a
  parameter.  \<open>opcode\<close> lists the mnemonics the compiler emits, by the names of their classes.  A node of the
  syntax tree is a number; \<open>FIRST_NODE_OF_FUNCTION\<close> is the pointer that stands for
  none, \<open>nullNode\<close> the null pointer.
\<close>

section \<open>Formats\<close>

type_synonym vreg = u16
type_synonym nodeRef = nat

abbreviation (input) FIRST_NODE_OF_FUNCTION :: nodeRef where "FIRST_NODE_OF_FUNCTION \<equiv> 0"
abbreviation (input) nullNode :: nodeRef where "nullNode \<equiv> 1"

datatype operandKind = OK_SRC_VREG | OK_DST_VREG | OK_SRC_DST_VREG | OK_IMM | OK_ID | OK_STRING_ID | OK_LABEL

record formatItem =
  itemKind :: operandKind
  bitwidth :: nat

type_synonym format = "formatItem list"

definition IsVReg :: "formatItem \<Rightarrow> bool" where
  "IsVReg item \<longleftrightarrow> itemKind item \<in> {OK_SRC_VREG, OK_DST_VREG, OK_SRC_DST_VREG}"

section \<open>Instructions\<close>

text \<open>A mnemonic is a number, its place in this list.\<close>

type_synonym opcode = nat

abbreviation (input) EcmaAdd2dyn :: opcode where "EcmaAdd2dyn \<equiv> 0"
abbreviation (input) EcmaAnd2dyn :: opcode where "EcmaAnd2dyn \<equiv> 1"
abbreviation (input) EcmaAshr2dyn :: opcode where "EcmaAshr2dyn \<equiv> 2"
abbreviation (input) EcmaAsyncfunctionawait :: opcode where "EcmaAsyncfunctionawait \<equiv> 3"
abbreviation (input) EcmaAsyncfunctionenter :: opcode where "EcmaAsyncfunctionenter \<equiv> 4"
abbreviation (input) EcmaAsyncfunctionreject :: opcode where "EcmaAsyncfunctionreject \<equiv> 5"
abbreviation (input) EcmaAsyncfunctionresolve :: opcode where "EcmaAsyncfunctionresolve \<equiv> 6"
abbreviation (input) EcmaAsyncgeneratorreject :: opcode where "EcmaAsyncgeneratorreject \<equiv> 7"
abbreviation (input) EcmaAsyncgeneratorresolve :: opcode where "EcmaAsyncgeneratorresolve \<equiv> 8"
abbreviation (input) EcmaCall0dyn :: opcode where "EcmaCall0dyn \<equiv> 9"
abbreviation (input) EcmaCall1dyn :: opcode where "EcmaCall1dyn \<equiv> 10"
abbreviation (input) EcmaCall2dyn :: opcode where "EcmaCall2dyn \<equiv> 11"
abbreviation (input) EcmaCall3dyn :: opcode where "EcmaCall3dyn \<equiv> 12"
abbreviation (input) EcmaCallirangedyn :: opcode where "EcmaCallirangedyn \<equiv> 13"
abbreviation (input) EcmaCallithisrangedyn :: opcode where "EcmaCallithisrangedyn \<equiv> 14"
abbreviation (input) EcmaCallspreaddyn :: opcode where "EcmaCallspreaddyn \<equiv> 15"
abbreviation (input) EcmaCloseiterator :: opcode where "EcmaCloseiterator \<equiv> 16"
abbreviation (input) EcmaCopydataproperties :: opcode where "EcmaCopydataproperties \<equiv> 17"
abbreviation (input) EcmaCopylexenvdyn :: opcode where "EcmaCopylexenvdyn \<equiv> 18"
abbreviation (input) EcmaCopymodule :: opcode where "EcmaCopymodule \<equiv> 19"
abbreviation (input) EcmaCopyrestargs :: opcode where "EcmaCopyrestargs \<equiv> 20"
abbreviation (input) EcmaCreatearraywithbuffer :: opcode where "EcmaCreatearraywithbuffer \<equiv> 21"
abbreviation (input) EcmaCreateasyncgeneratorobj :: opcode where "EcmaCreateasyncgeneratorobj \<equiv> 22"
abbreviation (input) EcmaCreateemptyarray :: opcode where "EcmaCreateemptyarray \<equiv> 23"
abbreviation (input) EcmaCreateemptyobject :: opcode where "EcmaCreateemptyobject \<equiv> 24"
abbreviation (input) EcmaCreategeneratorobj :: opcode where "EcmaCreategeneratorobj \<equiv> 25"
abbreviation (input) EcmaCreateiterresultobj :: opcode where "EcmaCreateiterresultobj \<equiv> 26"
abbreviation (input) EcmaCreateobjecthavingmethod :: opcode where "EcmaCreateobjecthavingmethod \<equiv> 27"
abbreviation (input) EcmaCreateobjectwithbuffer :: opcode where "EcmaCreateobjectwithbuffer \<equiv> 28"
abbreviation (input) EcmaCreateobjectwithexcludedkeys :: opcode where "EcmaCreateobjectwithexcludedkeys \<equiv> 29"
abbreviation (input) EcmaDecdyn :: opcode where "EcmaDecdyn \<equiv> 30"
abbreviation (input) EcmaDefineasyncfunc :: opcode where "EcmaDefineasyncfunc \<equiv> 31"
abbreviation (input) EcmaDefineasyncgeneratorfunc :: opcode where "EcmaDefineasyncgeneratorfunc \<equiv> 32"
abbreviation (input) EcmaDefineclasswithbuffer :: opcode where "EcmaDefineclasswithbuffer \<equiv> 33"
abbreviation (input) EcmaDefinefuncdyn :: opcode where "EcmaDefinefuncdyn \<equiv> 34"
abbreviation (input) EcmaDefinegeneratorfunc :: opcode where "EcmaDefinegeneratorfunc \<equiv> 35"
abbreviation (input) EcmaDefinegettersetterbyvalue :: opcode where "EcmaDefinegettersetterbyvalue \<equiv> 36"
abbreviation (input) EcmaDefinemethod :: opcode where "EcmaDefinemethod \<equiv> 37"
abbreviation (input) EcmaDefinencfuncdyn :: opcode where "EcmaDefinencfuncdyn \<equiv> 38"
abbreviation (input) EcmaDelobjprop :: opcode where "EcmaDelobjprop \<equiv> 39"
abbreviation (input) EcmaDiv2dyn :: opcode where "EcmaDiv2dyn \<equiv> 40"
abbreviation (input) EcmaEqdyn :: opcode where "EcmaEqdyn \<equiv> 41"
abbreviation (input) EcmaExpdyn :: opcode where "EcmaExpdyn \<equiv> 42"
abbreviation (input) EcmaGetasynciterator :: opcode where "EcmaGetasynciterator \<equiv> 43"
abbreviation (input) EcmaGetiterator :: opcode where "EcmaGetiterator \<equiv> 44"
abbreviation (input) EcmaGetmethod :: opcode where "EcmaGetmethod \<equiv> 45"
abbreviation (input) EcmaGetnextpropname :: opcode where "EcmaGetnextpropname \<equiv> 46"
abbreviation (input) EcmaGetpropiterator :: opcode where "EcmaGetpropiterator \<equiv> 47"
abbreviation (input) EcmaGetresumemode :: opcode where "EcmaGetresumemode \<equiv> 48"
abbreviation (input) EcmaGettemplateobject :: opcode where "EcmaGettemplateobject \<equiv> 49"
abbreviation (input) EcmaGetunmappedargs :: opcode where "EcmaGetunmappedargs \<equiv> 50"
abbreviation (input) EcmaGreaterdyn :: opcode where "EcmaGreaterdyn \<equiv> 51"
abbreviation (input) EcmaGreatereqdyn :: opcode where "EcmaGreatereqdyn \<equiv> 52"
abbreviation (input) EcmaImportmodule :: opcode where "EcmaImportmodule \<equiv> 53"
abbreviation (input) EcmaIncdyn :: opcode where "EcmaIncdyn \<equiv> 54"
abbreviation (input) EcmaInstanceofdyn :: opcode where "EcmaInstanceofdyn \<equiv> 55"
abbreviation (input) EcmaIscoercible :: opcode where "EcmaIscoercible \<equiv> 56"
abbreviation (input) EcmaIsindyn :: opcode where "EcmaIsindyn \<equiv> 57"
abbreviation (input) EcmaIstrue :: opcode where "EcmaIstrue \<equiv> 58"
abbreviation (input) EcmaIsundefined :: opcode where "EcmaIsundefined \<equiv> 59"
abbreviation (input) EcmaJfalse :: opcode where "EcmaJfalse \<equiv> 60"
abbreviation (input) EcmaJtrue :: opcode where "EcmaJtrue \<equiv> 61"
abbreviation (input) EcmaLdfalse :: opcode where "EcmaLdfalse \<equiv> 62"
abbreviation (input) EcmaLdglobal :: opcode where "EcmaLdglobal \<equiv> 63"
abbreviation (input) EcmaLdglobalvar :: opcode where "EcmaLdglobalvar \<equiv> 64"
abbreviation (input) EcmaLdhole :: opcode where "EcmaLdhole \<equiv> 65"
abbreviation (input) EcmaLdhomeobject :: opcode where "EcmaLdhomeobject \<equiv> 66"
abbreviation (input) EcmaLdinfinity :: opcode where "EcmaLdinfinity \<equiv> 67"
abbreviation (input) EcmaLdlexenvdyn :: opcode where "EcmaLdlexenvdyn \<equiv> 68"
abbreviation (input) EcmaLdlexvardyn :: opcode where "EcmaLdlexvardyn \<equiv> 69"
abbreviation (input) EcmaLdmodvarbyname :: opcode where "EcmaLdmodvarbyname \<equiv> 70"
abbreviation (input) EcmaLdnan :: opcode where "EcmaLdnan \<equiv> 71"
abbreviation (input) EcmaLdnull :: opcode where "EcmaLdnull \<equiv> 72"
abbreviation (input) EcmaLdobjbyindex :: opcode where "EcmaLdobjbyindex \<equiv> 73"
abbreviation (input) EcmaLdobjbyname :: opcode where "EcmaLdobjbyname \<equiv> 74"
abbreviation (input) EcmaLdobjbyvalue :: opcode where "EcmaLdobjbyvalue \<equiv> 75"
abbreviation (input) EcmaLdsuperbyname :: opcode where "EcmaLdsuperbyname \<equiv> 76"
abbreviation (input) EcmaLdsuperbyvalue :: opcode where "EcmaLdsuperbyvalue \<equiv> 77"
abbreviation (input) EcmaLdsymbol :: opcode where "EcmaLdsymbol \<equiv> 78"
abbreviation (input) EcmaLdtrue :: opcode where "EcmaLdtrue \<equiv> 79"
abbreviation (input) EcmaLdundefined :: opcode where "EcmaLdundefined \<equiv> 80"
abbreviation (input) EcmaLessdyn :: opcode where "EcmaLessdyn \<equiv> 81"
abbreviation (input) EcmaLesseqdyn :: opcode where "EcmaLesseqdyn \<equiv> 82"
abbreviation (input) EcmaMod2dyn :: opcode where "EcmaMod2dyn \<equiv> 83"
abbreviation (input) EcmaMul2dyn :: opcode where "EcmaMul2dyn \<equiv> 84"
abbreviation (input) EcmaNegate :: opcode where "EcmaNegate \<equiv> 85"
abbreviation (input) EcmaNegdyn :: opcode where "EcmaNegdyn \<equiv> 86"
abbreviation (input) EcmaNewlexenvdyn :: opcode where "EcmaNewlexenvdyn \<equiv> 87"
abbreviation (input) EcmaNewobjdynrange :: opcode where "EcmaNewobjdynrange \<equiv> 88"
abbreviation (input) EcmaNewobjspreaddyn :: opcode where "EcmaNewobjspreaddyn \<equiv> 89"
abbreviation (input) EcmaNotdyn :: opcode where "EcmaNotdyn \<equiv> 90"
abbreviation (input) EcmaNoteqdyn :: opcode where "EcmaNoteqdyn \<equiv> 91"
abbreviation (input) EcmaOr2dyn :: opcode where "EcmaOr2dyn \<equiv> 92"
abbreviation (input) EcmaPoplexenvdyn :: opcode where "EcmaPoplexenvdyn \<equiv> 93"
abbreviation (input) EcmaResumegenerator :: opcode where "EcmaResumegenerator \<equiv> 94"
abbreviation (input) EcmaRethrowdyn :: opcode where "EcmaRethrowdyn \<equiv> 95"
abbreviation (input) EcmaReturnDyn :: opcode where "EcmaReturnDyn \<equiv> 96"
abbreviation (input) EcmaReturnundefined :: opcode where "EcmaReturnundefined \<equiv> 97"
abbreviation (input) EcmaSetgeneratorstate :: opcode where "EcmaSetgeneratorstate \<equiv> 98"
abbreviation (input) EcmaSetobjectwithproto :: opcode where "EcmaSetobjectwithproto \<equiv> 99"
abbreviation (input) EcmaShl2dyn :: opcode where "EcmaShl2dyn \<equiv> 100"
abbreviation (input) EcmaShr2dyn :: opcode where "EcmaShr2dyn \<equiv> 101"
abbreviation (input) EcmaStarrayspread :: opcode where "EcmaStarrayspread \<equiv> 102"
abbreviation (input) EcmaStgloballet :: opcode where "EcmaStgloballet \<equiv> 103"
abbreviation (input) EcmaStglobalvar :: opcode where "EcmaStglobalvar \<equiv> 104"
abbreviation (input) EcmaStlexvardyn :: opcode where "EcmaStlexvardyn \<equiv> 105"
abbreviation (input) EcmaStmodulevar :: opcode where "EcmaStmodulevar \<equiv> 106"
abbreviation (input) EcmaStobjbyindex :: opcode where "EcmaStobjbyindex \<equiv> 107"
abbreviation (input) EcmaStobjbyname :: opcode where "EcmaStobjbyname \<equiv> 108"
abbreviation (input) EcmaStobjbyvalue :: opcode where "EcmaStobjbyvalue \<equiv> 109"
abbreviation (input) EcmaStownbyindex :: opcode where "EcmaStownbyindex \<equiv> 110"
abbreviation (input) EcmaStownbyname :: opcode where "EcmaStownbyname \<equiv> 111"
abbreviation (input) EcmaStownbyvalue :: opcode where "EcmaStownbyvalue \<equiv> 112"
abbreviation (input) EcmaStricteqdyn :: opcode where "EcmaStricteqdyn \<equiv> 113"
abbreviation (input) EcmaStrictnoteqdyn :: opcode where "EcmaStrictnoteqdyn \<equiv> 114"
abbreviation (input) EcmaStsuperbyname :: opcode where "EcmaStsuperbyname \<equiv> 115"
abbreviation (input) EcmaStsuperbyvalue :: opcode where "EcmaStsuperbyvalue \<equiv> 116"
abbreviation (input) EcmaSub2dyn :: opcode where "EcmaSub2dyn \<equiv> 117"
abbreviation (input) EcmaSupercall :: opcode where "EcmaSupercall \<equiv> 118"
abbreviation (input) EcmaSupercallspread :: opcode where "EcmaSupercallspread \<equiv> 119"
abbreviation (input) EcmaSuspendasyncgenerator :: opcode where "EcmaSuspendasyncgenerator \<equiv> 120"
abbreviation (input) EcmaSuspendgenerator :: opcode where "EcmaSuspendgenerator \<equiv> 121"
abbreviation (input) EcmaThrowconstassignment :: opcode where "EcmaThrowconstassignment \<equiv> 122"
abbreviation (input) EcmaThrowdyn :: opcode where "EcmaThrowdyn \<equiv> 123"
abbreviation (input) EcmaThrowifnotobject :: opcode where "EcmaThrowifnotobject \<equiv> 124"
abbreviation (input) EcmaThrowifsupernotcorrectcall :: opcode where "EcmaThrowifsupernotcorrectcall \<equiv> 125"
abbreviation (input) EcmaThrowpatternnoncoercible :: opcode where "EcmaThrowpatternnoncoercible \<equiv> 126"
abbreviation (input) EcmaThrowthrownotexists :: opcode where "EcmaThrowthrownotexists \<equiv> 127"
abbreviation (input) EcmaThrowundefinedifhole :: opcode where "EcmaThrowundefinedifhole \<equiv> 128"
abbreviation (input) EcmaToboolean :: opcode where "EcmaToboolean \<equiv> 129"
abbreviation (input) EcmaTonumber :: opcode where "EcmaTonumber \<equiv> 130"
abbreviation (input) EcmaTryldglobalbyname :: opcode where "EcmaTryldglobalbyname \<equiv> 131"
abbreviation (input) EcmaTrystglobalbyname :: opcode where "EcmaTrystglobalbyname \<equiv> 132"
abbreviation (input) EcmaTypeofdyn :: opcode where "EcmaTypeofdyn \<equiv> 133"
abbreviation (input) EcmaXor2dyn :: opcode where "EcmaXor2dyn \<equiv> 134"
abbreviation (input) FldaiDyn :: opcode where "FldaiDyn \<equiv> 135"
abbreviation (input) Jmp :: opcode where "Jmp \<equiv> 136"
abbreviation (input) LdaDyn :: opcode where "LdaDyn \<equiv> 137"
abbreviation (input) LdaStr :: opcode where "LdaStr \<equiv> 138"
abbreviation (input) LdaiDyn :: opcode where "LdaiDyn \<equiv> 139"
abbreviation (input) MovDyn :: opcode where "MovDyn \<equiv> 140"
abbreviation (input) StaDyn :: opcode where "StaDyn \<equiv> 141"

text \<open>A label remembers the node of the instruction before its allocation; its identity is its number.\<close>

datatype label = Label (labelNode: nodeRef) (labelId: nat)

definition LABEL_PREFIX :: string where "LABEL_PREFIX = ''LABEL_''"

datatype operand = Reg vreg | Float double | Imm int | Str name | Lbl label

datatype irNode = LabelInsn label | Insn nodeRef opcode "operand list"

primrec Node :: "irNode \<Rightarrow> nodeRef" where
  "Node (LabelInsn l) = labelNode l"
| "Node (Insn node op args) = node"

text \<open>\<open>Registers\<close> gives pointers to the register operands, in order; \<open>setRegisters\<close> writes through them.\<close>

definition operandRegs :: "operand list \<Rightarrow> vreg list" where
  "operandRegs args = concat (map (\<lambda>a. case a of Reg r \<Rightarrow> [r] | _ \<Rightarrow> []) args)"

primrec Registers :: "irNode \<Rightarrow> vreg list" where
  "Registers (LabelInsn l) = []"
| "Registers (Insn node op args) = operandRegs args"

fun setOperandRegs :: "operand list \<Rightarrow> vreg list \<Rightarrow> operand list" where
  "setOperandRegs (Reg r # args) (r' # rs) = Reg r' # setOperandRegs args rs"
| "setOperandRegs (Reg r # args) [] = Reg r # args"
| "setOperandRegs (a # args) rs = a # setOperandRegs args rs"
| "setOperandRegs [] rs = []"

primrec setRegisters :: "irNode \<Rightarrow> vreg list \<Rightarrow> irNode" where
  "setRegisters (LabelInsn l) rs = LabelInsn l"
| "setRegisters (Insn node op args) rs = Insn node op (setOperandRegs args rs)"

text \<open>What \<open>Transform\<close> hands to the assembler: the operands by kind, names as modified UTF-8 is left to it.\<close>

definition operandLabels :: "operand list \<Rightarrow> label list" where
  "operandLabels args = concat (map (\<lambda>a. case a of Lbl l \<Rightarrow> [l] | _ \<Rightarrow> []) args)"

definition operandNames :: "operand list \<Rightarrow> name list" where
  "operandNames args = concat (map (\<lambda>a. case a of Str n \<Rightarrow> [n] | _ \<Rightarrow> []) args)"

section \<open>Lemmas\<close>

lemma operandRegs_simps [simp]:
  "operandRegs [] = []"
  "operandRegs (Reg r # args) = r # operandRegs args"
  "operandRegs (Float d # args) = operandRegs args"
  "operandRegs (Imm i # args) = operandRegs args"
  "operandRegs (Str n # args) = operandRegs args"
  "operandRegs (Lbl l # args) = operandRegs args"
  by (simp_all add: operandRegs_def)

lemma setOperandRegs_length [simp]: "length (setOperandRegs args rs) = length args"
  by (induction args rs rule: setOperandRegs.induct) auto

lemma operandRegs_set: "length rs = length (operandRegs args) \<Longrightarrow> operandRegs (setOperandRegs args rs) = rs"
  by (induction args rs rule: setOperandRegs.induct) auto

lemma Registers_set: "length rs = length (Registers ins) \<Longrightarrow> Registers (setRegisters ins rs) = rs"
  by (cases ins) (auto simp: operandRegs_set)

lemma setOperandRegs_same [simp]: "setOperandRegs args (operandRegs args) = args"
  by (induction args) (auto split: operand.splits simp: operandRegs_def)

end
