(* ===== verification/AstNode.thy ===== *)
theory AstNode
  imports IRNode
begin

text \<open>
  The syntax tree as the compiler sees it (\<open>ir/expressions\<close>, \<open>ir/statements\<close>, \<open>ir/base\<close>, \<open>ir/module\<close>), and the
  functions of \<open>util/helpers.cpp\<close> that climb it.

  A node is known by its number; \<open>nodeOf\<close> gives the object a number stands for and \<open>parentOf\<close> its parent.
  The constructors are the classes of the source, with the members the compiler reads; the nodes of
  TypeScript types, which it never compiles, are \<open>OtherNode\<close>.  The chain of parents of a node ends within
  \<open>nNodes\<close> steps.
\<close>

section \<open>Doubles\<close>

text \<open>The integer a double is equal to, by its bits: \<open>(-1) ^ sign * mantissa * 2 ^ (exponent - 1075)\<close>.\<close>

definition doubleExponent :: "double \<Rightarrow> nat" where
  "doubleExponent d = unat (drop_bit 52 d AND 0x7FF)"

definition doubleFraction :: "double \<Rightarrow> nat" where
  "doubleFraction d = unat (d AND 0xFFFFFFFFFFFFF)"

definition isnan :: "double \<Rightarrow> bool" where
  "isnan d \<longleftrightarrow> doubleExponent d = 0x7FF \<and> doubleFraction d \<noteq> 0"

definition isfinite :: "double \<Rightarrow> bool" where
  "isfinite d \<longleftrightarrow> doubleExponent d \<noteq> 0x7FF"

definition doubleInteger :: "double \<Rightarrow> int option" where
  "doubleInteger d =
    (let e = doubleExponent d;
         m = (if e = 0 then doubleFraction d else doubleFraction d + 2 ^ 52);
         x = max e 1;
         n = (if 1075 \<le> x then Some (m * 2 ^ (x - 1075))
              else if 2 ^ (1075 - x) dvd m then Some (m div 2 ^ (1075 - x)) else None)
     in if e = 0x7FF then None else map_option (\<lambda>k. if bit d 63 then - int k else int k) n)"

text \<open>\<open>Helpers::IsIndex\<close> and \<open>IsInteger<int32_t>\<close> with the number the cast gives.\<close>

definition IsIndex :: "double \<Rightarrow> bool" where
  "IsIndex d = (case doubleInteger d of None \<Rightarrow> False | Some k \<Rightarrow> 0 \<le> k \<and> k < 4294967295)"

definition IsInteger32 :: "double \<Rightarrow> bool" where
  "IsInteger32 d = (case doubleInteger d of None \<Rightarrow> False | Some k \<Rightarrow> \<bar>k\<bar> \<le> 2147483647)"

definition doubleToInt :: "double \<Rightarrow> int" where
  "doubleToInt d = (case doubleInteger d of None \<Rightarrow> 0 | Some k \<Rightarrow> k)"

section \<open>Nodes\<close>

record scriptFunction =
  sfScope :: scopeId
  sfParams :: "nodeRef list"
  sfBody :: nodeRef
  sfGenerator :: bool
  sfAsync :: bool
  sfArrow :: bool
  sfConstructor :: bool
  sfMethod :: bool

datatype methodKind = MK_CONSTRUCTOR | MK_METHOD | MK_GET | MK_SET
datatype propKind = PROP_INIT | PROP_GET | PROP_SET | PROP_PROTO
datatype declarationKind = VDK_CONST | VDK_LET | VDK_VAR

datatype expression =
    ArrayExpression "nodeRef list"
  | ArrayPattern "nodeRef list" bool
  | ArrowFunctionExpression nodeRef
  | AssignmentExpression tokenType nodeRef nodeRef
  | AssignmentPattern nodeRef nodeRef
  | AwaitExpression "nodeRef option"
  | BinaryExpression tokenType nodeRef nodeRef
  | CallExpression nodeRef "nodeRef list"
  | ChainExpression nodeRef
  | ClassExpression nodeRef
  | ConditionalExpression nodeRef nodeRef nodeRef
  | FunctionExpression nodeRef
  | Identifier name bool \<comment> \<open>name, TDZ mark\<close>
  | ImportExpression
  | MemberExpression nodeRef nodeRef bool \<comment> \<open>object, property, computed\<close>
  | MetaProperty bool \<comment> \<open>\<open>new.target\<close>, otherwise \<open>import.meta\<close>\<close>
  | NewExpression nodeRef "nodeRef list"
  | ObjectExpression "nodeRef list"
  | ObjectPattern "nodeRef list" bool
  | OmittedExpression
  | SequenceExpression "nodeRef list"
  | SuperExpression
  | TaggedTemplateExpression nodeRef nodeRef
  | TemplateLiteral "nodeRef list" "nodeRef list" \<comment> \<open>quasis, expressions\<close>
  | ThisExpression
  | UnaryExpression tokenType nodeRef
  | UpdateExpression tokenType bool nodeRef \<comment> \<open>operator, prefix, argument\<close>
  | YieldExpression bool "nodeRef option"

datatype literal =
    BigIntLiteral
  | BooleanLiteral bool
  | NullLiteral
  | NumberLiteral double name
  | RegExpLiteral name name
  | StringLiteral name

datatype statement =
    BlockStatement scopeId "nodeRef list"
  | BreakStatement "name option"
  | ClassDeclaration nodeRef
  | ContinueStatement "name option"
  | DebuggerStatement
  | DoWhileStatement scopeId nodeRef nodeRef \<comment> \<open>scope, body, test\<close>
  | EmptyStatement
  | ExpressionStatement nodeRef
  | ForInStatement scopeId nodeRef nodeRef nodeRef
  | ForOfStatement scopeId nodeRef nodeRef nodeRef bool
  | ForUpdateStatement scopeId "nodeRef option" "nodeRef option" "nodeRef option" nodeRef
    \<comment> \<open>scope, init, test, update, body\<close>
  | FunctionDeclaration nodeRef
  | IfStatement nodeRef nodeRef "nodeRef option"
  | LabelledStatement name nodeRef
  | ReturnStatement "nodeRef option"
  | SwitchCaseStatement "nodeRef option" "nodeRef list"
  | SwitchStatement scopeId nodeRef "nodeRef list"
  | ThrowStatement nodeRef
  | TryStatement nodeRef "nodeRef option" "nodeRef option"
  | VariableDeclaration declarationKind "nodeRef list"
  | VariableDeclarator nodeRef "nodeRef option"
  | WhileStatement scopeId nodeRef nodeRef

datatype baseNode =
    CatchClause scopeId "nodeRef option" nodeRef
  | ClassDefinition scopeId "nodeRef option" "nodeRef option" nodeRef "nodeRef list"
    \<comment> \<open>scope, name, super class, constructor, body\<close>
  | ClassProperty nodeRef "nodeRef option"
  | MethodDefinition methodKind nodeRef nodeRef bool bool \<comment> \<open>kind, key, value, static, computed\<close>
  | Property propKind nodeRef nodeRef bool bool \<comment> \<open>kind, key, value, method, computed\<close>
  | ScriptFunctionNode scriptFunction
  | SpreadElement nodeRef
  | RestElement nodeRef
  | TemplateElement name name \<comment> \<open>raw, cooked\<close>

datatype moduleNode =
    ExportAllDeclNode name
  | ExportDefaultDeclNode nodeRef
  | ExportNamedDeclNode "nodeRef option" "name option"
  | ImportDeclNode name
  | SpecifierNode

datatype node = Expr expression | Literal literal | Stmt statement | Base baseNode | Module moduleNode | OtherNode

record astTable =
  nodeOf :: "nodeRef \<Rightarrow> node"
  parentOf :: "nodeRef \<Rightarrow> nodeRef option"
  nNodes :: nat

section \<open>Kinds of nodes\<close>

definition IsSpreadElement :: "node \<Rightarrow> bool" where
  "IsSpreadElement n = (case n of Base (SpreadElement _) \<Rightarrow> True | _ \<Rightarrow> False)"

definition IsRestElement :: "node \<Rightarrow> bool" where
  "IsRestElement n = (case n of Base (RestElement _) \<Rightarrow> True | _ \<Rightarrow> False)"

definition IsOmittedExpression :: "node \<Rightarrow> bool" where
  "IsOmittedExpression n \<longleftrightarrow> n = Expr OmittedExpression"

definition IsSuperExpression :: "node \<Rightarrow> bool" where
  "IsSuperExpression n \<longleftrightarrow> n = Expr SuperExpression"

definition IsTdzIdentifier :: "node \<Rightarrow> bool" where
  "IsTdzIdentifier n = (case n of Expr (Identifier _ tdz) \<Rightarrow> tdz | _ \<Rightarrow> False)"

definition scriptFunctionOf :: "astTable \<Rightarrow> nodeRef \<Rightarrow> scriptFunction option" where
  "scriptFunctionOf t n = (case nodeOf t n of Base (ScriptFunctionNode f) \<Rightarrow> Some f | _ \<Rightarrow> None)"

definition IsProgram :: "astTable \<Rightarrow> nodeRef \<Rightarrow> bool" where
  "IsProgram t n \<longleftrightarrow> parentOf t n = None"

text \<open>\<open>FormalParamsLength\<close>\<close>

fun FormalParamsLength :: "astTable \<Rightarrow> nodeRef list \<Rightarrow> nat" where
  "FormalParamsLength t [] = 0"
| "FormalParamsLength t (p # ps) =
    (case nodeOf t p of Base (RestElement _) \<Rightarrow> 0 | Expr (AssignmentPattern _ _) \<Rightarrow> 0
     | _ \<Rightarrow> Suc (FormalParamsLength t ps))"

section \<open>Climbing the tree\<close>

text \<open>\<open>GetContainingFunction\<close>: the nearest function above a node.\<close>

fun ContainingFunction_loop :: "nat \<Rightarrow> astTable \<Rightarrow> nodeRef option \<Rightarrow> nodeRef option" where
  "ContainingFunction_loop 0 t it = None"
| "ContainingFunction_loop (Suc k) t it =
    (case it of None \<Rightarrow> None
     | Some p \<Rightarrow> if scriptFunctionOf t p \<noteq> None then Some p else ContainingFunction_loop k t (parentOf t p))"

definition containingFunction :: "astTable \<Rightarrow> nodeRef \<Rightarrow> nodeRef option" where
  "containingFunction t n = ContainingFunction_loop (Suc (nNodes t)) t (parentOf t n)"

fun ContainingConstructor_loop :: "nat \<Rightarrow> astTable \<Rightarrow> nodeRef option \<Rightarrow> nodeRef option" where
  "ContainingConstructor_loop 0 t it = None"
| "ContainingConstructor_loop (Suc k) t it =
    (case it of None \<Rightarrow> None
     | Some f \<Rightarrow> (case scriptFunctionOf t f of
           None \<Rightarrow> None
         | Some sf \<Rightarrow> if sfConstructor sf then Some f
                     else if \<not> sfArrow sf then None
                     else ContainingConstructor_loop k t (containingFunction t f)))"

definition containingConstructor :: "astTable \<Rightarrow> nodeRef \<Rightarrow> nodeRef option" where
  "containingConstructor t n = ContainingConstructor_loop (Suc (nNodes t)) t (containingFunction t n)"

section \<open>Literals\<close>

datatype literalTag = TAG_ACCESSOR | TAG_METHOD | TAG_GENERATOR_METHOD | TAG_ASYNC_GENERATOR_METHOD

text \<open>The literals a literal buffer holds: those of the source and those the compiler makes.\<close>

datatype literalItem = LitNode literal | LitString name | LitNull | LitNumber nat | LitTagged literalTag name

definition constantLiteral :: "node \<Rightarrow> literal option" where
  "constantLiteral n =
    (case n of
       Literal (NumberLiteral d s) \<Rightarrow> Some (NumberLiteral d s)
     | Literal (StringLiteral s) \<Rightarrow> Some (StringLiteral s)
     | Literal (BooleanLiteral b) \<Rightarrow> Some (BooleanLiteral b)
     | Literal NullLiteral \<Rightarrow> Some NullLiteral
     | _ \<Rightarrow> None)"

text \<open>\<open>IsConstantPropertyKey\<close>, \<open>IsSpecialPropertyKey\<close> and \<open>LiteralToPropName\<close> on nodes; a key that is neither a name nor a
  literal of these kinds is \<open>UNREACHABLE()\<close>.\<close>

definition constantPropertyKey :: "node \<Rightarrow> bool \<Rightarrow> bool" where
  "constantPropertyKey n isComputed =
    (case n of
       Expr (Identifier _ _) \<Rightarrow> \<not> isComputed
     | _ \<Rightarrow> constantLiteral n \<noteq> None)"

definition specialPropertyKey :: "node \<Rightarrow> bool" where
  "specialPropertyKey n =
    (case n of Literal (StringLiteral s) \<Rightarrow> s = asciiText ''prototype'' \<or> s = asciiText ''constructor'' | _ \<Rightarrow> False)"

definition propertyKeyName :: "node \<Rightarrow> name option" where
  "propertyKeyName n =
    (case n of
       Expr (Identifier s _) \<Rightarrow> Some s
     | Literal (StringLiteral s) \<Rightarrow> Some s
     | Literal (NumberLiteral _ s) \<Rightarrow> Some s
     | Literal NullLiteral \<Rightarrow> Some (asciiText ''null'')
     | _ \<Rightarrow> None)"

section \<open>Lemmas\<close>

text \<open>The doubles of small numbers.\<close>

lemma doubleInteger_examples:
  "doubleInteger 0x4045000000000000 = Some 42"
  "doubleInteger 0x3FE0000000000000 = None"
  "doubleInteger 0xC000000000000000 = Some (- 2)"
  "doubleInteger 0x7FF0000000000000 = None"
  by (simp_all add: doubleInteger_def doubleExponent_def doubleFraction_def)

end
