(* ===== verification/RegAlloc.thy ===== *)
theory RegAlloc
  imports AstNode
begin

text \<open>
  The state of the bytecode generator (\<open>compiler/core/pandagen.h\<close>), register scopes
  (\<open>compiler/core/regScope.cpp\<close>) and the allocators through which every instruction is emitted
  (\<open>compiler/core/regAllocator.h\<close>, \<open>regAllocator.cpp\<close>).

  The generator hands out registers without a bound; an instruction whose format has too few bits for
  a register is surrounded by moves.  The allocators keep the number of registers moved so far
  (\<open>spillIndex\<close>), the first free register (\<open>regEnd\<close>) and the number of registers the format can name
  (\<open>limit\<close>).
\<close>

section \<open>State\<close>

record catchTable =
  tryBegin :: label
  tryEnd :: label
  catchBegin :: label
  catchEnd :: label
  ctDepth :: nat

record labelTarget =
  breakLabel :: name
  breakTarget :: "label option"
  continueLabel :: name
  continueTarget :: "label option"

datatype iteratorType = SYNC | ASYNC

record iterator =
  itNode :: nodeRef
  itMethod :: vreg
  itIterator :: vreg
  itNextResult :: vreg
  itType :: iteratorType

text \<open>
  The subclasses of \<open>DynamicContext\<close>.  A \<open>LabelContext\<close> may own a label, which its destructor sets; a
  \<open>LexEnvContext\<close> has a scope and a catch table if its loop has a lexical environment; a \<open>TryContext\<close> has
  the statement, the catch table, the register of its finalizer and its two flags, \<open>hasFinalizer\<close> and
  \<open>inFinalizer\<close>.  A context is on the stack before its catch table is made.
\<close>

datatype contextClass =
    LabelContext "(label \<times> nodeRef) option"
  | LexEnvContext "scopeId option" "catchTable option"
  | IteratorContext iterator "catchTable option"
  | TryContext "nodeRef option" "catchTable option" vreg bool bool

record dynamicContext =
  ctxClass :: contextClass
  ctxTarget :: labelTarget

datatype builderType = NORMAL | GENERATOR | ASYNC_FUNCTION | ASYNC_GENERATOR

record functionBuilder =
  builderKind :: builderType
  builderCatch :: "catchTable option"
  funcObj :: vreg
  handleReturn :: bool

record raState =
  spillIndex :: vreg
  regEnd :: vreg
  limit :: nat

text \<open>
  \<open>PandaGen\<close>, with what it reads of its surroundings: the instruction formats, the tree, the arena of
  scopes.  The contexts are a stack whose top is the last element, the environments one whose top is
  the first; a literal buffer is filed with its index.
\<close>

record pandaGen =
  isa :: "opcode \<Rightarrow> format list"
  ast :: astTable
  pgHeap :: heap
  isDebug :: bool
  rootNode :: nodeRef
  pgTopScope :: scopeId
  pgScope :: scopeId
  insns :: "irNode list"
  usedRegs :: u32
  totalRegs :: u32
  labelCount :: nat
  strings :: "name set"
  catchList :: "catchTable list"
  buffStorage :: "(nat \<times> literalItem option list) list"
  literalIndex :: nat
  envScopes :: "vreg list"
  contexts :: "dynamicContext list"
  builder :: "functionBuilder option"
  ra :: raState
  rra :: raState
  scopeStart :: "scopeId \<Rightarrow> irNode option"
  scopeEnd :: "scopeId \<Rightarrow> irNode option"
  variableDebugInfo :: "scopeId list"
  firstStmt :: "nodeRef option"

definition newAllocator :: raState where
  "newAllocator = \<lparr>spillIndex = 0, regEnd = 0, limit = 0\<rparr>"

text \<open>The constructor of \<open>PandaGen\<close>; the number of literal buffers comes from the context all functions share.\<close>

definition newPandaGen ::
  "(opcode \<Rightarrow> format list) \<Rightarrow> astTable \<Rightarrow> heap \<Rightarrow> bool \<Rightarrow> nodeRef \<Rightarrow> scopeId \<Rightarrow> nat \<Rightarrow> pandaGen" where
  "newPandaGen formats tree h debug root sc literals =
    \<lparr>isa = formats, ast = tree, pgHeap = h, isDebug = debug, rootNode = root, pgTopScope = sc, pgScope = sc,
     insns = [], usedRegs = 0, totalRegs = 0, labelCount = 0, strings = {}, catchList = [], buffStorage = [],
     literalIndex = literals, envScopes = [], contexts = [], builder = None, ra = newAllocator, rra = newAllocator,
     scopeStart = (\<lambda>_. None), scopeEnd = (\<lambda>_. None), variableDebugInfo = [], firstStmt = None\<rparr>"

datatype compileError = Unimplemented

type_synonym 'a pgM = "(pandaGen, compileError, 'a) comp"

section \<open>Registers\<close>

text \<open>\<open>AllocReg\<close> counts in 32 bits and gives 16.\<close>

definition NextReg :: "pandaGen \<Rightarrow> vreg" where
  "NextReg g = ucast (usedRegs g)"

definition takeReg :: "pandaGen \<Rightarrow> pandaGen" where
  "takeReg g = g\<lparr>usedRegs := usedRegs g + 1\<rparr>"

definition AllocReg :: "vreg pgM" where
  "AllocReg = bindM (getM NextReg) (\<lambda>r. thenM (modifyM takeReg) (ret r))"

text \<open>\<open>RegScope\<close>: its destructor frees the registers taken since.\<close>

definition endRegScope :: "u32 \<Rightarrow> pandaGen \<Rightarrow> pandaGen" where
  "endRegScope base g = g\<lparr>totalRegs := max (totalRegs g) (usedRegs g), usedRegs := base\<rparr>"

definition inRegScope :: "'a pgM \<Rightarrow> 'a pgM" where
  "inRegScope m = bindM (getM usedRegs) (\<lambda>base. bindM m (\<lambda>a. thenM (modifyM (endRegScope base)) (ret a)))"

lemma unat_pred_less: "w \<noteq> 0 \<Longrightarrow> unat (w - 1) < unat (w :: 'a::len word)"
  by (metis diff_less less_one unat_gt_0 unat_minus_one word_neq_0_conv)

section \<open>The allocators\<close>

definition PushBack :: "irNode \<Rightarrow> pandaGen \<Rightarrow> pandaGen" where
  "PushBack ins g = g\<lparr>insns := insns g @ [ins]\<rparr>"

abbreviation Move :: "nodeRef \<Rightarrow> vreg \<Rightarrow> vreg \<Rightarrow> irNode" where
  "Move node vd vs \<equiv> Insn node MovDyn [Reg vd, Reg vs]"

definition Spill :: "nodeRef \<Rightarrow> vreg \<Rightarrow> raState \<Rightarrow> pandaGen \<Rightarrow> vreg \<times> raState \<times> pandaGen" where
  "Spill node reg a g =
    (let spillReg = NextReg g; origin = spillIndex a
     in (origin, a\<lparr>spillIndex := spillIndex a + 1\<rparr>,
         PushBack (Move node origin reg) (PushBack (Move node spillReg origin) (takeReg g))))"

definition Restore :: "nodeRef \<Rightarrow> raState \<Rightarrow> pandaGen \<Rightarrow> raState \<times> pandaGen" where
  "Restore node a g =
    (let spillReg = spillIndex a - 1; origin = regEnd a + spillReg
     in (a\<lparr>spillIndex := spillReg\<rparr>, PushBack (Move node origin spillReg) g))"

function RestoreAll :: "nodeRef \<Rightarrow> raState \<Rightarrow> pandaGen \<Rightarrow> raState \<times> pandaGen" where
  "RestoreAll node a g =
    (if spillIndex a = 0 then (a, g)
     else RestoreAll node (fst (Restore node a g)) (snd (Restore node a g)))"
  by auto
termination
  by (relation "measure (\<lambda>(node, a, g). unat (spillIndex a))") (auto simp: Restore_def Let_def unat_pred_less)

declare RestoreAll.simps [simp del]

text \<open>A format limits the registers by its first register operand; one without leaves the limit as it was.\<close>

definition formatLimit :: "format \<Rightarrow> nat \<Rightarrow> nat" where
  "formatLimit items lim = (case find IsVReg items of None \<Rightarrow> lim | Some item \<Rightarrow> 2 ^ bitwidth item)"

definition IsRegisterCorrect :: "nat \<Rightarrow> vreg \<Rightarrow> bool" where
  "IsRegisterCorrect lim reg \<longleftrightarrow> unat reg < lim"

fun CheckFormats :: "format list \<Rightarrow> vreg list \<Rightarrow> nat \<Rightarrow> bool \<times> nat" where
  "CheckFormats [] regs lim = (False, lim)"
| "CheckFormats (f # fs) regs lim =
    (let lim = formatLimit f lim
     in if list_all (IsRegisterCorrect lim) regs then (True, lim) else CheckFormats fs regs lim)"

definition CheckRegIndices :: "pandaGen \<Rightarrow> irNode \<Rightarrow> bool \<times> nat" where
  "CheckRegIndices g ins =
    (case ins of LabelInsn _ \<Rightarrow> (False, 0) | Insn _ op _ \<Rightarrow> CheckFormats (isa g op) (Registers ins) 0)"

text \<open>The loop over the register operands: those the format can name stay.\<close>

fun SpillIncorrect :: "nodeRef \<Rightarrow> vreg list \<Rightarrow> raState \<Rightarrow> pandaGen \<Rightarrow> vreg list \<times> raState \<times> pandaGen" where
  "SpillIncorrect node [] a g = ([], a, g)"
| "SpillIncorrect node (r # rs) a g =
    (if IsRegisterCorrect (limit a) r
     then (case SpillIncorrect node rs a g of (rs', b, k) \<Rightarrow> (r # rs', b, k))
     else (case Spill node r a g of (r', b, k) \<Rightarrow>
           case SpillIncorrect node rs b k of (rs', c, l) \<Rightarrow> (r' # rs', c, l)))"

definition Run :: "irNode \<Rightarrow> raState \<Rightarrow> pandaGen \<Rightarrow> raState \<times> pandaGen" where
  "Run ins a g =
    (let (ok, lim) = CheckRegIndices g ins; a = a\<lparr>limit := lim\<rparr>
     in if ok then (a, PushBack ins g)
        else let (rs, b, k) = SpillIncorrect (Node ins) (Registers ins) (a\<lparr>regEnd := NextReg g\<rparr>) g;
                 (c, l) = RestoreAll (Node ins) b (PushBack (setRegisters ins rs) k)
             in (c, endRegScope (usedRegs g) l))"

section \<open>Ranges\<close>

text \<open>
  \<open>RangeRegAllocator\<close>: the last register operand is the start of a range of \<open>argCount\<close> registers; every
  operand and every register of the range is spilled.  The loop compares a 16-bit register with a
  64-bit bound: it visits at most \<open>2 ^ 16\<close> registers or never ends.
\<close>

primrec SpillAll :: "nodeRef \<Rightarrow> vreg list \<Rightarrow> raState \<Rightarrow> pandaGen \<Rightarrow> vreg list \<times> raState \<times> pandaGen" where
  "SpillAll node [] a g = ([], a, g)"
| "SpillAll node (r # rs) a g =
    (case Spill node r a g of (r', b, k) \<Rightarrow> case SpillAll node rs b k of (rs', c, l) \<Rightarrow> (r' # rs', c, l))"

fun SpillRange_loop :: "nat \<Rightarrow> nodeRef \<Rightarrow> vreg \<Rightarrow> nat \<Rightarrow> raState \<Rightarrow> pandaGen \<Rightarrow> (raState \<times> pandaGen) option" where
  "SpillRange_loop 0 node rangeStart rangeEnd a g = None"
| "SpillRange_loop (Suc n) node rangeStart rangeEnd a g =
    (if unat rangeStart = rangeEnd then Some (a, g)
     else (case Spill node rangeStart a g of (_, b, k) \<Rightarrow> SpillRange_loop n node (rangeStart + 1) rangeEnd b k))"

definition RangeRun :: "irNode \<Rightarrow> vreg \<Rightarrow> nat \<Rightarrow> raState \<Rightarrow> pandaGen \<Rightarrow> (compileError, raState \<times> pandaGen) res" where
  "RangeRun ins rangeStart argCount a g =
    (let (ok, lim) = CheckRegIndices g ins; a = a\<lparr>limit := lim\<rparr>
     in if ok then Ok (a, PushBack ins g)
        else if Registers ins = [] then Undefined
        else let (rs, b, k) = SpillAll (Node ins) (butlast (Registers ins)) (a\<lparr>regEnd := NextReg g\<rparr>) g;
                 (r, b, k) = Spill (Node ins) rangeStart b k
             in (case SpillRange_loop (2 ^ 16) (Node ins) (rangeStart + 1) (unat rangeStart + argCount) b k of
                   None \<Rightarrow> NoFuel
                 | Some (c, l) \<Rightarrow>
                     let (d, m) = RestoreAll (Node ins) c (PushBack (setRegisters ins (rs @ [r])) l)
                     in Ok (d, endRegScope (usedRegs g) m)))"

section \<open>Emission\<close>

text \<open>\<open>sa_.Emit\<close>, \<open>ra_.Emit\<close> and \<open>rra_.Emit\<close>\<close>

definition saEmit :: "nodeRef \<Rightarrow> opcode \<Rightarrow> operand list \<Rightarrow> unit pgM" where
  "saEmit node op args = modifyM (PushBack (Insn node op args))"

definition raEmit :: "nodeRef \<Rightarrow> opcode \<Rightarrow> operand list \<Rightarrow> unit pgM" where
  "raEmit node op args = modifyM (\<lambda>g. let (a, k) = Run (Insn node op args) (ra g) g in k\<lparr>ra := a\<rparr>)"

definition rraEmit :: "nodeRef \<Rightarrow> vreg \<Rightarrow> nat \<Rightarrow> opcode \<Rightarrow> operand list \<Rightarrow> unit pgM" where
  "rraEmit node rangeStart argCount op args =
    (\<lambda>g. case RangeRun (Insn node op args) rangeStart argCount (rra g) g of
       Ok (a, k) \<Rightarrow> Ok ((), k\<lparr>rra := a\<rparr>) | Throw e \<Rightarrow> Throw e | Undefined \<Rightarrow> Undefined | NoFuel \<Rightarrow> NoFuel)"

text \<open>\<open>SimpleAllocator\<close>: labels.\<close>

definition lastNode :: "pandaGen \<Rightarrow> nodeRef" where
  "lastNode g = (if insns g = [] then FIRST_NODE_OF_FUNCTION else Node (last (insns g)))"

definition AllocLabel :: "label pgM" where
  "AllocLabel =
    bindM (getM (\<lambda>g. Label (lastNode g) (labelCount g))) (\<lambda>l.
      thenM (modifyM (\<lambda>g. g\<lparr>labelCount := labelCount g + 1\<rparr>)) (ret l))"

definition SetLabel :: "label \<Rightarrow> unit pgM" where
  "SetLabel l = modifyM (PushBack (LabelInsn l))"

text \<open>\<open>FrontAllocator\<close>: what is emitted while it lives goes before the rest.\<close>

definition atFront :: "'a pgM \<Rightarrow> 'a pgM" where
  "atFront m =
    bindM (getM insns) (\<lambda>rest. thenM (modifyM (\<lambda>g. g\<lparr>insns := []\<rparr>))
      (bindM m (\<lambda>a. thenM (modifyM (\<lambda>g. g\<lparr>insns := insns g @ rest\<rparr>)) (ret a))))"

end
