(* ===== verification/PandaGen.thy ===== *)
theory PandaGen
  imports RegAlloc
begin

text \<open>
  \<open>compiler/core/pandagen.cpp\<close>: the methods that emit instructions.

  Each definition is the method of its name; \<open>node\<close> is the node the instructions are filed under.  A name
  that becomes an operand is also put into \<open>strings\<close>, the table the emitter writes out.
\<close>

section \<open>Vocabulary\<close>


text \<open>Statements in a row.\<close>

primrec seqM :: "unit pgM list \<Rightarrow> unit pgM" where
  "seqM [] = ret ()"
| "seqM (m # ms) = thenM m (seqM ms)"

primrec forM :: "('a \<Rightarrow> unit pgM) \<Rightarrow> 'a list \<Rightarrow> unit pgM" where
  "forM f [] = ret ()"
| "forM f (x # xs) = thenM (f x) (forM f xs)"

definition whenM :: "bool \<Rightarrow> unit pgM \<Rightarrow> unit pgM" where
  "whenM b m = (if b then m else ret ())"

definition unimplemented :: "'a pgM" where
  "unimplemented = raise Unimplemented"

definition undefinedM :: "'a pgM" where
  "undefinedM s = Undefined"

definition getNode :: "nodeRef \<Rightarrow> node pgM" where
  "getNode n = getM (\<lambda>g. nodeOf (ast g) n)"

text \<open>Reading the arena of scopes; the lookups used throw nothing.\<close>

definition onScopes :: "'a heapM \<Rightarrow> 'a pgM" where
  "onScopes m g = (case m (pgHeap g) of Ok (a, h) \<Rightarrow> Ok (a, g\<lparr>pgHeap := h\<rparr>) | Throw _ \<Rightarrow> Undefined
                   | Undefined \<Rightarrow> Undefined | NoFuel \<Rightarrow> NoFuel)"

definition scopeAt :: "scopeId \<Rightarrow> scope pgM" where
  "scopeAt sc = onScopes (getScope sc)"

definition findName :: "name \<Rightarrow> scopeFindResult pgM" where
  "findName n = bindM (getM pgScope) (\<lambda>sc. onScopes (Find sc n RB_BINDINGS))"

definition addString :: "name \<Rightarrow> unit pgM" where
  "addString n = modifyM (\<lambda>g. g\<lparr>strings := insert n (strings g)\<rparr>)"

text \<open>An instruction with a name among its operands, and the entry for the name.\<close>

definition saNamed :: "nodeRef \<Rightarrow> opcode \<Rightarrow> name \<Rightarrow> unit pgM" where
  "saNamed node op n = thenM (saEmit node op [Str n]) (addString n)"

definition raNamed :: "nodeRef \<Rightarrow> opcode \<Rightarrow> name \<Rightarrow> operand list \<Rightarrow> unit pgM" where
  "raNamed node op n args = thenM (raEmit node op (Str n # args)) (addString n)"

section \<open>Accumulator, constants and moves\<close>

definition StoreAccumulator :: "nodeRef \<Rightarrow> vreg \<Rightarrow> unit pgM" where
  "StoreAccumulator node r = raEmit node StaDyn [Reg r]"

definition LoadAccumulator :: "nodeRef \<Rightarrow> vreg \<Rightarrow> unit pgM" where
  "LoadAccumulator node r = raEmit node LdaDyn [Reg r]"

definition LoadAccumulatorString :: "nodeRef \<Rightarrow> name \<Rightarrow> unit pgM" where
  "LoadAccumulatorString node str = saNamed node LdaStr str"

definition LoadAccumulatorFloat :: "nodeRef \<Rightarrow> double \<Rightarrow> unit pgM" where
  "LoadAccumulatorFloat node num = saEmit node FldaiDyn [Float num]"

definition LoadAccumulatorInt :: "nodeRef \<Rightarrow> int \<Rightarrow> unit pgM" where
  "LoadAccumulatorInt node num = saEmit node LdaiDyn [Imm num]"

datatype jsConstant = JS_NAN | JS_HOLE | JS_INFINITY | JS_UNDEFINED | JS_NULL | JS_TRUE | JS_FALSE | JS_SYMBOL | JS_GLOBAL

primrec constantOp :: "jsConstant \<Rightarrow> opcode" where
  "constantOp JS_NAN = EcmaLdnan"
| "constantOp JS_HOLE = EcmaLdhole"
| "constantOp JS_INFINITY = EcmaLdinfinity"
| "constantOp JS_UNDEFINED = EcmaLdundefined"
| "constantOp JS_NULL = EcmaLdnull"
| "constantOp JS_TRUE = EcmaLdtrue"
| "constantOp JS_FALSE = EcmaLdfalse"
| "constantOp JS_SYMBOL = EcmaLdsymbol"
| "constantOp JS_GLOBAL = EcmaLdglobal"

definition LoadConst :: "nodeRef \<Rightarrow> jsConstant \<Rightarrow> unit pgM" where
  "LoadConst node c = saEmit node (constantOp c) []"

definition StoreConst :: "nodeRef \<Rightarrow> vreg \<Rightarrow> jsConstant \<Rightarrow> unit pgM" where
  "StoreConst node r c = seqM [LoadConst node c, StoreAccumulator node r]"

definition MoveVreg :: "nodeRef \<Rightarrow> vreg \<Rightarrow> vreg \<Rightarrow> unit pgM" where
  "MoveVreg node vd vs = raEmit node MovDyn [Reg vd, Reg vs]"

section \<open>Globals and properties\<close>

definition TryLoadGlobalByName :: "nodeRef \<Rightarrow> name \<Rightarrow> unit pgM" where
  "TryLoadGlobalByName node n = saNamed node EcmaTryldglobalbyname n"

definition TryStoreGlobalByName :: "nodeRef \<Rightarrow> name \<Rightarrow> unit pgM" where
  "TryStoreGlobalByName node n = saNamed node EcmaTrystglobalbyname n"

definition LoadGlobalVar :: "nodeRef \<Rightarrow> name \<Rightarrow> unit pgM" where
  "LoadGlobalVar node n = saNamed node EcmaLdglobalvar n"

definition StoreGlobalVar :: "nodeRef \<Rightarrow> name \<Rightarrow> unit pgM" where
  "StoreGlobalVar node n = saNamed node EcmaStglobalvar n"

definition StoreGlobalLet :: "nodeRef \<Rightarrow> name \<Rightarrow> unit pgM" where
  "StoreGlobalLet node n = saNamed node EcmaStgloballet n"

definition LoadObjByName :: "nodeRef \<Rightarrow> vreg \<Rightarrow> name \<Rightarrow> unit pgM" where
  "LoadObjByName node obj prop = raNamed node EcmaLdobjbyname prop [Reg obj]"

definition StoreObjByName :: "nodeRef \<Rightarrow> vreg \<Rightarrow> name \<Rightarrow> unit pgM" where
  "StoreObjByName node obj prop = raNamed node EcmaStobjbyname prop [Reg obj]"

definition LoadObjByIndex :: "nodeRef \<Rightarrow> vreg \<Rightarrow> int \<Rightarrow> unit pgM" where
  "LoadObjByIndex node obj index = raEmit node EcmaLdobjbyindex [Imm index, Reg obj]"

definition LoadObjByValue :: "nodeRef \<Rightarrow> vreg \<Rightarrow> vreg \<Rightarrow> unit pgM" where
  "LoadObjByValue node obj prop = raEmit node EcmaLdobjbyvalue [Reg obj, Reg prop]"

definition StoreObjByValue :: "nodeRef \<Rightarrow> vreg \<Rightarrow> vreg \<Rightarrow> unit pgM" where
  "StoreObjByValue node obj prop = raEmit node EcmaStobjbyvalue [Reg obj, Reg prop]"

definition StoreObjByIndex :: "nodeRef \<Rightarrow> vreg \<Rightarrow> int \<Rightarrow> unit pgM" where
  "StoreObjByIndex node obj index = raEmit node EcmaStobjbyindex [Imm index, Reg obj]"

definition StOwnByName :: "nodeRef \<Rightarrow> vreg \<Rightarrow> name \<Rightarrow> unit pgM" where
  "StOwnByName node obj prop = raNamed node EcmaStownbyname prop [Reg obj]"

definition StOwnByValue :: "nodeRef \<Rightarrow> vreg \<Rightarrow> vreg \<Rightarrow> unit pgM" where
  "StOwnByValue node obj prop = raEmit node EcmaStownbyvalue [Reg obj, Reg prop]"

definition StOwnByIndex :: "nodeRef \<Rightarrow> vreg \<Rightarrow> int \<Rightarrow> unit pgM" where
  "StOwnByIndex node obj index = raEmit node EcmaStownbyindex [Imm index, Reg obj]"

text \<open>A property operand is a register, an index or a name.\<close>

definition propertyAccess ::
  "(vreg \<Rightarrow> unit pgM) \<Rightarrow> (int \<Rightarrow> unit pgM) \<Rightarrow> (name \<Rightarrow> unit pgM) \<Rightarrow> operand \<Rightarrow> unit pgM" where
  "propertyAccess byValue byIndex byName prop =
    (case prop of Reg r \<Rightarrow> byValue r | Imm i \<Rightarrow> byIndex i | Str n \<Rightarrow> byName n | _ \<Rightarrow> undefinedM)"

definition LoadObjProperty :: "nodeRef \<Rightarrow> vreg \<Rightarrow> operand \<Rightarrow> unit pgM" where
  "LoadObjProperty node obj prop =
    propertyAccess (LoadObjByValue node obj) (LoadObjByIndex node obj) (LoadObjByName node obj) prop"

definition StoreObjProperty :: "nodeRef \<Rightarrow> vreg \<Rightarrow> operand \<Rightarrow> unit pgM" where
  "StoreObjProperty node obj prop =
    propertyAccess (StoreObjByValue node obj) (StoreObjByIndex node obj) (StoreObjByName node obj) prop"

definition StoreOwnProperty :: "nodeRef \<Rightarrow> vreg \<Rightarrow> operand \<Rightarrow> unit pgM" where
  "StoreOwnProperty node obj prop =
    propertyAccess (StOwnByValue node obj) (StOwnByIndex node obj) (StOwnByName node obj) prop"

definition DeleteObjProperty :: "nodeRef \<Rightarrow> vreg \<Rightarrow> operand \<Rightarrow> unit pgM" where
  "DeleteObjProperty node obj prop =
    propertyAccess
      (\<lambda>r. raEmit node EcmaDelobjprop [Reg obj, Reg r])
      (\<lambda>i. thenM (LoadAccumulatorInt node i) (bindM AllocReg (\<lambda>r.
         seqM [StoreAccumulator node r, raEmit node EcmaDelobjprop [Reg obj, Reg r]])))
      (\<lambda>n. thenM (LoadAccumulatorString node n) (bindM AllocReg (\<lambda>r.
         seqM [StoreAccumulator node r, raEmit node EcmaDelobjprop [Reg obj, Reg r]])))
      prop"

definition StSuperByName :: "nodeRef \<Rightarrow> vreg \<Rightarrow> name \<Rightarrow> unit pgM" where
  "StSuperByName node obj key = raNamed node EcmaStsuperbyname key [Reg obj]"

definition LdSuperByName :: "nodeRef \<Rightarrow> vreg \<Rightarrow> name \<Rightarrow> unit pgM" where
  "LdSuperByName node obj key = raNamed node EcmaLdsuperbyname key [Reg obj]"

definition StSuperByValue :: "nodeRef \<Rightarrow> vreg \<Rightarrow> vreg \<Rightarrow> unit pgM" where
  "StSuperByValue node obj prop = raEmit node EcmaStsuperbyvalue [Reg obj, Reg prop]"

definition LdSuperByValue :: "nodeRef \<Rightarrow> vreg \<Rightarrow> vreg \<Rightarrow> unit pgM" where
  "LdSuperByValue node obj prop = raEmit node EcmaLdsuperbyvalue [Reg obj, Reg prop]"

definition StoreSuperProperty :: "nodeRef \<Rightarrow> vreg \<Rightarrow> operand \<Rightarrow> unit pgM" where
  "StoreSuperProperty node obj prop =
    propertyAccess (StSuperByValue node obj)
      (\<lambda>i. inRegScope (bindM AllocReg (\<lambda>property. bindM AllocReg (\<lambda>value.
         seqM [StoreAccumulator node value, LoadAccumulatorInt node i, StoreAccumulator node property,
               LoadAccumulator node value, StSuperByValue node obj property]))))
      (StSuperByName node obj) prop"

definition LoadSuperProperty :: "nodeRef \<Rightarrow> vreg \<Rightarrow> operand \<Rightarrow> unit pgM" where
  "LoadSuperProperty node obj prop =
    propertyAccess (LdSuperByValue node obj)
      (\<lambda>i. inRegScope (thenM (LoadAccumulatorInt node i) (bindM AllocReg (\<lambda>property.
         seqM [StoreAccumulator node property, LdSuperByValue node obj property]))))
      (LdSuperByName node obj) prop"

section \<open>Operators\<close>

text \<open>An operator that has no instruction is \<open>UNREACHABLE()\<close>.\<close>

definition Branch :: "nodeRef \<Rightarrow> label \<Rightarrow> unit pgM" where
  "Branch node l = saEmit node Jmp [Lbl l]"

definition BranchIfTrue :: "nodeRef \<Rightarrow> label \<Rightarrow> unit pgM" where
  "BranchIfTrue node l = saEmit node EcmaJtrue [Lbl l]"

definition BranchIfFalse :: "nodeRef \<Rightarrow> label \<Rightarrow> unit pgM" where
  "BranchIfFalse node l = saEmit node EcmaJfalse [Lbl l]"

definition BranchIfUndefined :: "nodeRef \<Rightarrow> label \<Rightarrow> unit pgM" where
  "BranchIfUndefined node l = seqM [saEmit node EcmaIsundefined [], BranchIfTrue node l]"

definition BranchIfNotUndefined :: "nodeRef \<Rightarrow> label \<Rightarrow> unit pgM" where
  "BranchIfNotUndefined node l = seqM [saEmit node EcmaIsundefined [], BranchIfFalse node l]"

definition BranchIfNotTrue :: "nodeRef \<Rightarrow> label \<Rightarrow> unit pgM" where
  "BranchIfNotTrue node l = seqM [saEmit node EcmaIstrue [], BranchIfFalse node l]"

definition BranchIfCoercible :: "nodeRef \<Rightarrow> label \<Rightarrow> unit pgM" where
  "BranchIfCoercible node l = seqM [saEmit node EcmaIscoercible [], BranchIfTrue node l]"

definition comparisonOp :: "tokenType \<Rightarrow> opcode option" where
  "comparisonOp op =
    (if op = PUNCTUATOR_EQUAL then Some EcmaEqdyn
     else if op = PUNCTUATOR_NOT_EQUAL then Some EcmaNoteqdyn
     else if op = PUNCTUATOR_STRICT_EQUAL then Some EcmaStricteqdyn
     else if op = PUNCTUATOR_NOT_STRICT_EQUAL then Some EcmaStrictnoteqdyn
     else if op = PUNCTUATOR_LESS_THAN then Some EcmaLessdyn
     else if op = PUNCTUATOR_LESS_THAN_EQUAL then Some EcmaLesseqdyn
     else if op = PUNCTUATOR_GREATER_THAN then Some EcmaGreaterdyn
     else if op = PUNCTUATOR_GREATER_THAN_EQUAL then Some EcmaGreatereqdyn
     else None)"

definition Condition :: "nodeRef \<Rightarrow> tokenType \<Rightarrow> vreg \<Rightarrow> label \<Rightarrow> unit pgM" where
  "Condition node op lhs ifFalse =
    (case comparisonOp op of None \<Rightarrow> undefinedM
     | Some i \<Rightarrow> seqM [raEmit node i [Reg lhs], BranchIfFalse node ifFalse])"

definition Unary :: "nodeRef \<Rightarrow> tokenType \<Rightarrow> vreg \<Rightarrow> unit pgM" where
  "Unary node op r =
    (if op = PUNCTUATOR_PLUS then raEmit node EcmaTonumber [Reg r]
     else if op = PUNCTUATOR_MINUS then raEmit node EcmaNegdyn [Reg r]
     else if op = PUNCTUATOR_TILDE then raEmit node EcmaNotdyn [Reg r]
     else if op = PUNCTUATOR_EXCLAMATION_MARK then saEmit node EcmaNegate []
     else if op = PUNCTUATOR_PLUS_PLUS then raEmit node EcmaIncdyn [Reg r]
     else if op = PUNCTUATOR_MINUS_MINUS then raEmit node EcmaDecdyn [Reg r]
     else if op = KEYW_VOID \<or> op = KEYW_DELETE then LoadConst node JS_UNDEFINED
     else undefinedM)"

definition arithmeticOp :: "tokenType \<Rightarrow> opcode option" where
  "arithmeticOp op =
    (if op = PUNCTUATOR_PLUS \<or> op = PUNCTUATOR_PLUS_EQUAL then Some EcmaAdd2dyn
     else if op = PUNCTUATOR_MINUS \<or> op = PUNCTUATOR_MINUS_EQUAL then Some EcmaSub2dyn
     else if op = PUNCTUATOR_MULTIPLY \<or> op = PUNCTUATOR_MULTIPLY_EQUAL then Some EcmaMul2dyn
     else if op = PUNCTUATOR_DIVIDE \<or> op = PUNCTUATOR_DIVIDE_EQUAL then Some EcmaDiv2dyn
     else if op = PUNCTUATOR_MOD \<or> op = PUNCTUATOR_MOD_EQUAL then Some EcmaMod2dyn
     else if op = PUNCTUATOR_EXPONENTIATION_EQUAL \<or> op = PUNCTUATOR_EXPONENTIATION then Some EcmaExpdyn
     else if op = PUNCTUATOR_LEFT_SHIFT \<or> op = PUNCTUATOR_LEFT_SHIFT_EQUAL then Some EcmaShl2dyn
     else if op = PUNCTUATOR_RIGHT_SHIFT \<or> op = PUNCTUATOR_RIGHT_SHIFT_EQUAL then Some EcmaShr2dyn
     else if op = PUNCTUATOR_UNSIGNED_RIGHT_SHIFT \<or> op = PUNCTUATOR_UNSIGNED_RIGHT_SHIFT_EQUAL then Some EcmaAshr2dyn
     else if op = PUNCTUATOR_BITWISE_AND \<or> op = PUNCTUATOR_BITWISE_AND_EQUAL then Some EcmaAnd2dyn
     else if op = PUNCTUATOR_BITWISE_OR \<or> op = PUNCTUATOR_BITWISE_OR_EQUAL then Some EcmaOr2dyn
     else if op = PUNCTUATOR_BITWISE_XOR \<or> op = PUNCTUATOR_BITWISE_XOR_EQUAL then Some EcmaXor2dyn
     else if op = KEYW_IN then Some EcmaIsindyn
     else if op = KEYW_INSTANCEOF then Some EcmaInstanceofdyn
     else None)"

definition Binary :: "nodeRef \<Rightarrow> tokenType \<Rightarrow> vreg \<Rightarrow> unit pgM" where
  "Binary node op lhs =
    (case comparisonOp op of Some i \<Rightarrow> raEmit node i [Reg lhs]
     | None \<Rightarrow> (case arithmeticOp op of Some i \<Rightarrow> raEmit node i [Reg lhs]
       | None \<Rightarrow> if op = PUNCTUATOR_NULLISH_COALESCING \<or> op = PUNCTUATOR_LOGICAL_NULLISH_EQUAL
                then unimplemented else undefinedM))"

section \<open>Throwing, returning, calling\<close>

definition EmitThrow :: "nodeRef \<Rightarrow> unit pgM" where
  "EmitThrow node = saEmit node EcmaThrowdyn []"

definition EmitRethrow :: "nodeRef \<Rightarrow> unit pgM" where
  "EmitRethrow node = saEmit node EcmaRethrowdyn []"

definition EmitReturn :: "nodeRef \<Rightarrow> unit pgM" where
  "EmitReturn node = saEmit node EcmaReturnDyn []"

definition EmitReturnUndefined :: "nodeRef \<Rightarrow> unit pgM" where
  "EmitReturnUndefined node = saEmit node EcmaReturnundefined []"

text \<open>Calls whose arguments are a range of registers, and those with up to three arguments.\<close>

definition CallThis :: "nodeRef \<Rightarrow> vreg \<Rightarrow> nat \<Rightarrow> unit pgM" where
  "CallThis node startReg argCount =
    rraEmit node startReg (argCount + 2) EcmaCallithisrangedyn [Imm (int argCount), Reg startReg]"

definition Call :: "nodeRef \<Rightarrow> vreg \<Rightarrow> nat \<Rightarrow> unit pgM" where
  "Call node startReg argCount =
    (if argCount = 0 then raEmit node EcmaCall0dyn [Reg startReg]
     else if argCount = 1 then raEmit node EcmaCall1dyn [Reg startReg, Reg (startReg + 1)]
     else if argCount = 2 then raEmit node EcmaCall2dyn [Reg startReg, Reg (startReg + 1), Reg (startReg + 2)]
     else if argCount = 3 then
       raEmit node EcmaCall3dyn [Reg startReg, Reg (startReg + 1), Reg (startReg + 2), Reg (startReg + 3)]
     else rraEmit node startReg (argCount + 1) EcmaCallirangedyn [Imm (int argCount), Reg startReg])"

definition SuperCall :: "nodeRef \<Rightarrow> vreg \<Rightarrow> nat \<Rightarrow> unit pgM" where
  "SuperCall node startReg argCount =
    rraEmit node startReg argCount EcmaSupercall [Imm (int argCount), Reg startReg]"

definition SuperCallSpread :: "nodeRef \<Rightarrow> vreg \<Rightarrow> unit pgM" where
  "SuperCallSpread node vs = raEmit node EcmaSupercallspread [Reg vs]"

definition NewObject :: "nodeRef \<Rightarrow> vreg \<Rightarrow> nat \<Rightarrow> unit pgM" where
  "NewObject node startReg argCount =
    rraEmit node startReg argCount EcmaNewobjdynrange [Imm (int argCount), Reg startReg]"

definition CallSpread :: "nodeRef \<Rightarrow> vreg \<Rightarrow> vreg \<Rightarrow> vreg \<Rightarrow> unit pgM" where
  "CallSpread node func thisReg args = raEmit node EcmaCallspreaddyn [Reg func, Reg thisReg, Reg args]"

definition NewObjSpread :: "nodeRef \<Rightarrow> vreg \<Rightarrow> vreg \<Rightarrow> unit pgM" where
  "NewObjSpread node obj target = raEmit node EcmaNewobjspreaddyn [Reg obj, Reg target]"

section \<open>Values and conversions\<close>

definition LoadHomeObject :: "nodeRef \<Rightarrow> unit pgM" where
  "LoadHomeObject node = saEmit node EcmaLdhomeobject []"

definition TypeOf :: "nodeRef \<Rightarrow> unit pgM" where
  "TypeOf node = saEmit node EcmaTypeofdyn []"

definition GetUnmappedArgs :: "nodeRef \<Rightarrow> unit pgM" where
  "GetUnmappedArgs node = saEmit node EcmaGetunmappedargs []"

definition NegateAcc :: "nodeRef \<Rightarrow> unit pgM" where
  "NegateAcc node = saEmit node EcmaNegate []"

definition ToBoolean :: "nodeRef \<Rightarrow> unit pgM" where
  "ToBoolean node = saEmit node EcmaToboolean []"

definition ToNumber :: "nodeRef \<Rightarrow> vreg \<Rightarrow> unit pgM" where
  "ToNumber node arg = raEmit node EcmaTonumber [Reg arg]"

definition GetMethod :: "nodeRef \<Rightarrow> vreg \<Rightarrow> name \<Rightarrow> unit pgM" where
  "GetMethod node obj n = raNamed node EcmaGetmethod n [Reg obj]"

section \<open>Generators and async functions\<close>

abbreviation (input) SUSPENDED_YIELD :: int where "SUSPENDED_YIELD \<equiv> 2"
abbreviation (input) COMPLETED :: int where "COMPLETED \<equiv> 4"

definition CreateGeneratorObj :: "nodeRef \<Rightarrow> vreg \<Rightarrow> unit pgM" where
  "CreateGeneratorObj node r = raEmit node EcmaCreategeneratorobj [Reg r]"

definition CreateAsyncGeneratorObj :: "nodeRef \<Rightarrow> vreg \<Rightarrow> unit pgM" where
  "CreateAsyncGeneratorObj node r = raEmit node EcmaCreateasyncgeneratorobj [Reg r]"

definition CreateIterResultObject :: "nodeRef \<Rightarrow> bool \<Rightarrow> unit pgM" where
  "CreateIterResultObject node finished =
    raEmit node EcmaCreateiterresultobj [Imm (if finished then 1 else 0)]"

definition SuspendGenerator :: "nodeRef \<Rightarrow> vreg \<Rightarrow> unit pgM" where
  "SuspendGenerator node r = raEmit node EcmaSuspendgenerator [Reg r]"

definition SuspendAsyncGenerator :: "nodeRef \<Rightarrow> vreg \<Rightarrow> unit pgM" where
  "SuspendAsyncGenerator node r = raEmit node EcmaSuspendasyncgenerator [Reg r]"

definition GeneratorYield :: "nodeRef \<Rightarrow> vreg \<Rightarrow> unit pgM" where
  "GeneratorYield node r = raEmit node EcmaSetgeneratorstate [Reg r, Imm SUSPENDED_YIELD]"

definition GeneratorComplete :: "nodeRef \<Rightarrow> vreg \<Rightarrow> unit pgM" where
  "GeneratorComplete node r = raEmit node EcmaSetgeneratorstate [Reg r, Imm COMPLETED]"

definition ResumeGenerator :: "nodeRef \<Rightarrow> vreg \<Rightarrow> unit pgM" where
  "ResumeGenerator node r = raEmit node EcmaResumegenerator [Reg r]"

definition GetResumeMode :: "nodeRef \<Rightarrow> vreg \<Rightarrow> unit pgM" where
  "GetResumeMode node r = raEmit node EcmaGetresumemode [Reg r]"

definition AsyncFunctionEnter :: "nodeRef \<Rightarrow> unit pgM" where
  "AsyncFunctionEnter node = saEmit node EcmaAsyncfunctionenter []"

definition AsyncFunctionAwait :: "nodeRef \<Rightarrow> vreg \<Rightarrow> unit pgM" where
  "AsyncFunctionAwait node r = raEmit node EcmaAsyncfunctionawait [Reg r]"

definition AsyncFunctionResolve :: "nodeRef \<Rightarrow> vreg \<Rightarrow> unit pgM" where
  "AsyncFunctionResolve node r = raEmit node EcmaAsyncfunctionresolve [Reg r]"

definition AsyncFunctionReject :: "nodeRef \<Rightarrow> vreg \<Rightarrow> unit pgM" where
  "AsyncFunctionReject node r = raEmit node EcmaAsyncfunctionreject [Reg r]"

definition AsyncGeneratorResolve :: "nodeRef \<Rightarrow> vreg \<Rightarrow> unit pgM" where
  "AsyncGeneratorResolve node r = raEmit node EcmaAsyncgeneratorresolve [Reg r]"

definition AsyncGeneratorReject :: "nodeRef \<Rightarrow> vreg \<Rightarrow> unit pgM" where
  "AsyncGeneratorReject node r = raEmit node EcmaAsyncgeneratorreject [Reg r]"

section \<open>Objects, arrays, classes\<close>

definition GetTemplateObject :: "nodeRef \<Rightarrow> vreg \<Rightarrow> unit pgM" where
  "GetTemplateObject node r = raEmit node EcmaGettemplateobject [Reg r]"

definition CopyRestArgs :: "nodeRef \<Rightarrow> nat \<Rightarrow> unit pgM" where
  "CopyRestArgs node index = saEmit node EcmaCopyrestargs [Imm (int index)]"

definition GetPropIterator :: "nodeRef \<Rightarrow> unit pgM" where
  "GetPropIterator node = saEmit node EcmaGetpropiterator []"

definition GetNextPropName :: "nodeRef \<Rightarrow> vreg \<Rightarrow> unit pgM" where
  "GetNextPropName node iter = raEmit node EcmaGetnextpropname [Reg iter]"

definition CreateEmptyObject :: "nodeRef \<Rightarrow> unit pgM" where
  "CreateEmptyObject node = saEmit node EcmaCreateemptyobject []"

definition CreateObjectWithBuffer :: "nodeRef \<Rightarrow> nat \<Rightarrow> unit pgM" where
  "CreateObjectWithBuffer node idx = saEmit node EcmaCreateobjectwithbuffer [Imm (int idx)]"

definition SetObjectWithProto :: "nodeRef \<Rightarrow> vreg \<Rightarrow> vreg \<Rightarrow> unit pgM" where
  "SetObjectWithProto node proto obj = raEmit node EcmaSetobjectwithproto [Reg proto, Reg obj]"

definition CopyDataProperties :: "nodeRef \<Rightarrow> vreg \<Rightarrow> vreg \<Rightarrow> unit pgM" where
  "CopyDataProperties node dst src = raEmit node EcmaCopydataproperties [Reg dst, Reg src]"

definition DefineGetterSetterByValue :: "nodeRef \<Rightarrow> vreg \<Rightarrow> vreg \<Rightarrow> vreg \<Rightarrow> vreg \<Rightarrow> bool \<Rightarrow> unit pgM" where
  "DefineGetterSetterByValue node obj n getter setter setName =
    seqM [LoadConst node (if setName then JS_TRUE else JS_FALSE),
          raEmit node EcmaDefinegettersetterbyvalue [Reg obj, Reg n, Reg getter, Reg setter]]"

definition CreateEmptyArray :: "nodeRef \<Rightarrow> unit pgM" where
  "CreateEmptyArray node = saEmit node EcmaCreateemptyarray []"

definition CreateArrayWithBuffer :: "nodeRef \<Rightarrow> nat \<Rightarrow> unit pgM" where
  "CreateArrayWithBuffer node idx = saEmit node EcmaCreatearraywithbuffer [Imm (int idx)]"

definition StoreArraySpread :: "nodeRef \<Rightarrow> vreg \<Rightarrow> vreg \<Rightarrow> unit pgM" where
  "StoreArraySpread node arr index = raEmit node EcmaStarrayspread [Reg arr, Reg index]"

definition CreateObjectWithExcludedKeys :: "nodeRef \<Rightarrow> vreg \<Rightarrow> vreg \<Rightarrow> nat \<Rightarrow> unit pgM" where
  "CreateObjectWithExcludedKeys node obj argStart argCount =
    (let start = (if argCount = 0 then obj else argStart)
     in rraEmit node start argCount EcmaCreateobjectwithexcludedkeys [Imm (int argCount), Reg obj, Reg start])"

definition DefineClassWithBuffer :: "nodeRef \<Rightarrow> name \<Rightarrow> nat \<Rightarrow> vreg \<Rightarrow> vreg \<Rightarrow> unit pgM" where
  "DefineClassWithBuffer node ctorId litIdx lexenv base =
    raNamed node EcmaDefineclasswithbuffer ctorId [Imm (int litIdx), Reg lexenv, Reg base]"

text \<open>\<open>AddLiteralBuffer\<close>: the buffer gets the next index of the program.\<close>

definition AddLiteralBuffer :: "literalItem option list \<Rightarrow> nat pgM" where
  "AddLiteralBuffer buf =
    bindM (getM literalIndex) (\<lambda>i.
      thenM (modifyM (\<lambda>g. g\<lparr>buffStorage := buffStorage g @ [(i, buf)], literalIndex := i + 1\<rparr>)) (ret i))"

section \<open>Checks, iterators, modules\<close>

definition ThrowIfNotObject :: "nodeRef \<Rightarrow> unit pgM" where
  "ThrowIfNotObject node = raEmit node EcmaThrowifnotobject []"

definition ThrowThrowNotExist :: "nodeRef \<Rightarrow> unit pgM" where
  "ThrowThrowNotExist node = saEmit node EcmaThrowthrownotexists []"

definition GetIterator :: "nodeRef \<Rightarrow> unit pgM" where
  "GetIterator node = saEmit node EcmaGetiterator []"

definition GetAsyncIterator :: "nodeRef \<Rightarrow> unit pgM" where
  "GetAsyncIterator node = saEmit node EcmaGetasynciterator []"

definition ThrowObjectNonCoercible :: "nodeRef \<Rightarrow> unit pgM" where
  "ThrowObjectNonCoercible node = saEmit node EcmaThrowpatternnoncoercible []"

definition CloseIterator :: "nodeRef \<Rightarrow> vreg \<Rightarrow> unit pgM" where
  "CloseIterator node iter = raEmit node EcmaCloseiterator [Reg iter]"

definition ImportModule :: "nodeRef \<Rightarrow> name \<Rightarrow> unit pgM" where
  "ImportModule node n = saNamed node EcmaImportmodule n"

definition LoadModuleVariable :: "nodeRef \<Rightarrow> vreg \<Rightarrow> name \<Rightarrow> unit pgM" where
  "LoadModuleVariable node m n = raNamed node EcmaLdmodvarbyname n [Reg m]"

definition StoreModuleVar :: "nodeRef \<Rightarrow> name \<Rightarrow> unit pgM" where
  "StoreModuleVar node n = saNamed node EcmaStmodulevar n"

definition CopyModule :: "nodeRef \<Rightarrow> vreg \<Rightarrow> unit pgM" where
  "CopyModule node m = raEmit node EcmaCopymodule [Reg m]"

section \<open>Lexical environments\<close>

definition LoadLexicalVar :: "nodeRef \<Rightarrow> u32 \<Rightarrow> u32 \<Rightarrow> unit pgM" where
  "LoadLexicalVar node level slot = saEmit node EcmaLdlexvardyn [Imm (uint level), Imm (uint slot)]"

definition StoreLexicalVar :: "nodeRef \<Rightarrow> u32 \<Rightarrow> u32 \<Rightarrow> unit pgM" where
  "StoreLexicalVar node level slot = raEmit node EcmaStlexvardyn [Imm (uint level), Imm (uint slot)]"

definition ThrowIfSuperNotCorrectCall :: "nodeRef \<Rightarrow> int \<Rightarrow> unit pgM" where
  "ThrowIfSuperNotCorrectCall node num = saEmit node EcmaThrowifsupernotcorrectcall [Imm num]"

definition ThrowUndefinedIfHole :: "nodeRef \<Rightarrow> name \<Rightarrow> unit pgM" where
  "ThrowUndefinedIfHole node n = raNamed node EcmaThrowundefinedifhole n []"

definition ThrowConstAssignment :: "nodeRef \<Rightarrow> name \<Rightarrow> unit pgM" where
  "ThrowConstAssignment node n = raNamed node EcmaThrowconstassignment n []"

definition PopLexEnv :: "nodeRef \<Rightarrow> unit pgM" where
  "PopLexEnv node = saEmit node EcmaPoplexenvdyn []"

definition CopyLexEnv :: "nodeRef \<Rightarrow> unit pgM" where
  "CopyLexEnv node = saEmit node EcmaCopylexenvdyn []"

definition NewLexEnv :: "nodeRef \<Rightarrow> u32 \<Rightarrow> unit pgM" where
  "NewLexEnv node num = saEmit node EcmaNewlexenvdyn [Imm (uint num)]"

definition LdLexEnv :: "nodeRef \<Rightarrow> unit pgM" where
  "LdLexEnv node = saEmit node EcmaLdlexenvdyn []"

text \<open>The register of the innermost environment; a function always has one.\<close>

definition LexEnv :: "vreg pgM" where
  "LexEnv = readM (\<lambda>g. case envScopes g of [] \<Rightarrow> None | r # _ \<Rightarrow> Some r)"

definition CreateObjectHavingMethod :: "nodeRef \<Rightarrow> nat \<Rightarrow> unit pgM" where
  "CreateObjectHavingMethod node idx =
    bindM LexEnv (\<lambda>r. seqM [LoadAccumulator node r, saEmit node EcmaCreateobjecthavingmethod [Imm (int idx)]])"

definition DefineFunction :: "nodeRef \<Rightarrow> scriptFunction \<Rightarrow> name \<Rightarrow> unit pgM" where
  "DefineFunction node f n =
    bindM LexEnv (\<lambda>r.
      seqM [if sfAsync f then
              (if sfGenerator f then raEmit node EcmaDefineasyncgeneratorfunc [Str n, Reg r]
               else raEmit node EcmaDefineasyncfunc [Str n, Reg r])
            else if sfGenerator f then raEmit node EcmaDefinegeneratorfunc [Str n, Reg r]
            else if sfArrow f then seqM [LoadHomeObject node, raEmit node EcmaDefinencfuncdyn [Str n, Reg r]]
            else if sfMethod f then raEmit node EcmaDefinemethod [Str n, Reg r]
            else raEmit node EcmaDefinefuncdyn [Str n, Reg r],
            addString n])"

end
