(* ===== verification/VarAccess.thy ===== *)
theory VarAccess
  imports PandaGen
begin

text \<open>
  Access to variables: \<open>compiler/base/lexenv.cpp\<close>, \<open>base/hoisting.cpp\<close>, the methods of \<open>PandaGen\<close> that use
  them, the constructors of \<open>core/regScope.cpp\<close> that give registers to the variables of a scope, and
  \<open>core/moduleContext.cpp\<close>.

  A variable lives in a register or, once captured, in a slot of a lexical environment; a loop over the
  bindings of a scope visits them in the order the model keeps them, where the code has the order of
  a hash table.  An instruction filed as the start or end of a scope for the debugger is kept by value.
\<close>

section \<open>Reading variables and declarations\<close>

primrec refNode :: "astRef \<Rightarrow> nodeRef" where
  "refNode (ImportNamespaceSpecifier n) = n"
| "refNode (ExportAllDeclaration n s) = n"
| "refNode (ExportNamedDeclaration n b) = n"
| "refNode (ScriptFunction n b) = n"
| "refNode (astRef.OtherNode n) = n"

definition nodeOrNull :: "astRef option \<Rightarrow> nodeRef" where
  "nodeOrNull r = (case r of None \<Rightarrow> nullNode | Some x \<Rightarrow> refNode x)"

definition varAt :: "varId \<Rightarrow> variable pgM" where
  "varAt v = onScopes (getVar v)"

definition declAt :: "declId \<Rightarrow> decl pgM" where
  "declAt d = onScopes (getDecl d)"

definition declOf :: "varId \<Rightarrow> decl pgM" where
  "declOf v = bindM (varAt v) (\<lambda>x. declAt (vDecl x))"

definition Name :: "varId \<Rightarrow> name pgM" where
  "Name v = bindM (declOf v) (\<lambda>d. ret (dName d))"

definition LexIdx :: "variable \<Rightarrow> u32" where
  "LexIdx x = vreg x"

definition Vreg :: "variable \<Rightarrow> vreg" where
  "Vreg x = ucast (vreg x)"

definition BindVReg :: "varId \<Rightarrow> vreg \<Rightarrow> unit pgM" where
  "BindVReg v r = onScopes (modVar v (\<lambda>x. x\<lparr>vreg := ucast r\<rparr>))"

definition currentScope :: "scope pgM" where
  "currentScope = bindM (getM pgScope) scopeAt"

definition CheckTdz :: "nodeRef \<Rightarrow> bool pgM" where
  "CheckTdz n = bindM (getNode n) (\<lambda>x. ret (IsTdzIdentifier x))"

definition CheckConstAssignment :: "nodeRef \<Rightarrow> varId \<Rightarrow> unit pgM" where
  "CheckConstAssignment node v =
    bindM (declOf v) (\<lambda>d. whenM (dType d = DECL_CONST) (bindM (Name v) (ThrowConstAssignment node)))"

section \<open>Loading\<close>

definition ExpandLoadLexVar :: "nodeRef \<Rightarrow> scopeFindResult \<Rightarrow> varId \<Rightarrow> unit pgM" where
  "ExpandLoadLexVar node res v =
    bindM (varAt v) (\<lambda>x.
      thenM (LoadLexicalVar node (frLexLevel res) (LexIdx x))
            (bindM (Name v) (ThrowUndefinedIfHole node)))"

definition ExpandLoadNormalVar :: "nodeRef \<Rightarrow> varId \<Rightarrow> unit pgM" where
  "ExpandLoadNormalVar node v =
    bindM (varAt v) (\<lambda>x. bindM (CheckTdz node) (\<lambda>tdz.
      if tdz then thenM (LoadConst node JS_HOLE) (bindM (Name v) (ThrowUndefinedIfHole node))
      else LoadAccumulator node (Vreg x)))"

definition LoadAccFromLexEnv :: "nodeRef \<Rightarrow> scopeFindResult \<Rightarrow> unit pgM" where
  "LoadAccFromLexEnv node res =
    bindM (deref (frVariable res)) (\<lambda>v. bindM (varAt v) (\<lambda>x.
      if LexicalBound x then ExpandLoadLexVar node res v else ExpandLoadNormalVar node v))"

text \<open>A name that is not bound is looked up in the global object at run time.\<close>

definition LoadVar :: "nodeRef \<Rightarrow> scopeFindResult \<Rightarrow> unit pgM" where
  "LoadVar node res =
    (case frVariable res of
       None \<Rightarrow> TryLoadGlobalByName node (frName res)
     | Some v \<Rightarrow> bindM (varAt v) (\<lambda>x.
         if vType x = VT_GLOBAL then bindM (Name v) (LoadGlobalVar node)
         else if vType x = VT_MODULE then LoadModuleVariable node (Vreg x) (exoticName x)
         else LoadAccFromLexEnv node res))"

section \<open>Storing\<close>

text \<open>The exported names of a local variable, other than \<open>default\<close>.\<close>

definition StoreLocalExport :: "nodeRef \<Rightarrow> varId \<Rightarrow> unit pgM" where
  "StoreLocalExport node v =
    bindM (varAt v) (\<lambda>x. bindM currentScope (\<lambda>sc.
      whenM (HasFlag VF_LOCAL_EXPORT x \<and> sClass sc = ModuleScope)
        (forM (\<lambda>n. whenM (n \<noteq> asciiText ''default'') (StoreModuleVar node n))
              (map snd (filter (\<lambda>e. fst e = v) (localExports sc))))))"

definition ExpandStoreLexVar :: "nodeRef \<Rightarrow> scopeFindResult \<Rightarrow> varId \<Rightarrow> bool \<Rightarrow> unit pgM" where
  "ExpandStoreLexVar node res v isDecl =
    bindM (declOf v) (\<lambda>d. bindM (varAt v) (\<lambda>x.
      seqM [whenM (IsLetOrConstDecl d \<and> \<not> isDecl)
              (inRegScope (bindM AllocReg (\<lambda>value.
                 seqM [StoreAccumulator node value,
                       ExpandLoadLexVar node res v,
                       whenM (dType d = DECL_CONST) (bindM (Name v) (ThrowConstAssignment node)),
                       LoadAccumulator node value]))),
            StoreLexicalVar node (frLexLevel res) (LexIdx x),
            StoreLocalExport node v]))"

definition ExpandStoreNormalVar :: "nodeRef \<Rightarrow> varId \<Rightarrow> bool \<Rightarrow> unit pgM" where
  "ExpandStoreNormalVar node v isDecl =
    bindM (varAt v) (\<lambda>x.
      seqM [whenM (\<not> isDecl)
              (thenM (bindM (CheckTdz node) (\<lambda>tdz.
                        whenM tdz (thenM (LoadConst node JS_HOLE) (bindM (Name v) (ThrowUndefinedIfHole node)))))
                     (CheckConstAssignment node v)),
            StoreAccumulator node (Vreg x),
            StoreLocalExport node v])"

definition StoreAccToLexEnv :: "nodeRef \<Rightarrow> scopeFindResult \<Rightarrow> bool \<Rightarrow> unit pgM" where
  "StoreAccToLexEnv node res isDecl =
    bindM (deref (frVariable res)) (\<lambda>v. bindM (varAt v) (\<lambda>x.
      if LexicalBound x then ExpandStoreLexVar node res v isDecl else ExpandStoreNormalVar node v isDecl))"

definition StoreVar :: "nodeRef \<Rightarrow> scopeFindResult \<Rightarrow> bool \<Rightarrow> unit pgM" where
  "StoreVar node res isDeclaration =
    (case frVariable res of
       None \<Rightarrow> TryStoreGlobalByName node (frName res)
     | Some v \<Rightarrow> bindM (varAt v) (\<lambda>x.
         if vType x = VT_GLOBAL then bindM (Name v) (StoreGlobalVar node)
         else if vType x = VT_MODULE then bindM (Name v) (ThrowConstAssignment node)
         else StoreAccToLexEnv node res isDeclaration))"

section \<open>The hidden parameters\<close>

definition GetFunctionObject :: "nodeRef \<Rightarrow> unit pgM" where
  "GetFunctionObject node = bindM (findName MANDATORY_PARAM_FUNC) (LoadAccFromLexEnv node)"

definition GetNewTarget :: "nodeRef \<Rightarrow> unit pgM" where
  "GetNewTarget node = bindM (findName MANDATORY_PARAM_NEW_TARGET) (LoadAccFromLexEnv node)"

definition GetThis :: "nodeRef \<Rightarrow> unit pgM" where
  "GetThis node = bindM (findName MANDATORY_PARAM_THIS) (LoadAccFromLexEnv node)"

definition SetThis :: "nodeRef \<Rightarrow> unit pgM" where
  "SetThis node = bindM (findName MANDATORY_PARAM_THIS) (\<lambda>res. StoreAccToLexEnv node res True)"

definition LoadAccFromArgs :: "nodeRef \<Rightarrow> unit pgM" where
  "LoadAccFromArgs node =
    bindM currentScope (\<lambda>sc.
      whenM (sFlags sc AND VSF_USE_ARGS \<noteq> 0)
        (bindM (findName FUNCTION_ARGUMENTS) (\<lambda>res.
           seqM [GetUnmappedArgs node, StoreAccToLexEnv node res True])))"

text \<open>A \<open>return\<close> in a constructor gives \<open>this\<close> for undefined.\<close>

definition ValidateClassDirectReturn :: "nodeRef \<Rightarrow> unit pgM" where
  "ValidateClassDirectReturn node =
    bindM (getM ast) (\<lambda>t.
      case containingFunction t node of
        None \<Rightarrow> ret ()
      | Some f \<Rightarrow> whenM (case scriptFunctionOf t f of None \<Rightarrow> False | Some sf \<Rightarrow> sfConstructor sf)
          (inRegScope (bindM AllocReg (\<lambda>value.
             thenM (StoreAccumulator node value)
               (bindM AllocLabel (\<lambda>notUndefined. bindM AllocLabel (\<lambda>condEnd.
                  seqM [BranchIfNotUndefined node notUndefined,
                        GetThis f,
                        ThrowIfSuperNotCorrectCall f 0,
                        Branch node condEnd,
                        SetLabel notUndefined,
                        LoadAccumulator node value,
                        SetLabel condEnd])))))))"

section \<open>Hoisting\<close>

definition bindingResult :: "name \<Rightarrow> scopeId \<Rightarrow> varId \<Rightarrow> scopeFindResult" where
  "bindingResult n sc v = \<lparr>frName = n, frScope = Some sc, frLevel = 0, frLexLevel = 0, frVariable = Some v\<rparr>"

definition HoistVar :: "varId \<Rightarrow> decl \<Rightarrow> unit pgM" where
  "HoistVar v d =
    bindM (getM pgScope) (\<lambda>s. bindM (scopeAt s) (\<lambda>sc.
      let node = nodeOrNull (dNode d)
      in if sClass sc = GlobalScope then seqM [LoadConst node JS_UNDEFINED, StoreGlobalVar node (dName d)]
         else seqM [LoadConst node JS_UNDEFINED, StoreAccToLexEnv node (bindingResult (dName d) s v) True]))"

definition HoistFunction :: "varId \<Rightarrow> decl \<Rightarrow> unit pgM" where
  "HoistFunction v d =
    bindM (deref (dNode d)) (\<lambda>r. bindM (getM ast) (\<lambda>t. bindM (deref (scriptFunctionOf t (refNode r))) (\<lambda>f.
      bindM (getM pgScope) (\<lambda>s. bindM (scopeAt s) (\<lambda>sc. bindM (scopeAt (sfScope f)) (\<lambda>fs.
        if sClass sc = GlobalScope then
          thenM (DefineFunction (refNode r) f (internalName fs)) (bindM (Name v) (StoreGlobalVar (refNode r)))
        else seqM [DefineFunction (refNode r) f (internalName fs),
                   StoreAccToLexEnv (refNode r) (bindingResult (dName d) s v) True]))))))"

definition HoistBinding :: "varId option \<Rightarrow> unit pgM" where
  "HoistBinding b =
    bindM (deref b) (\<lambda>v. bindM (varAt v) (\<lambda>x. bindM (declOf v) (\<lambda>d.
      whenM (HasFlag VF_HOIST x) (if dType d = DECL_VAR then HoistVar v d else HoistFunction v d))))"

definition Hoist :: "unit pgM" where
  "Hoist = bindM currentScope (\<lambda>sc. forM HoistBinding (map snd (sBindings sc)))"

section \<open>Modules\<close>

definition CompileImportDecl :: "scopeId \<Rightarrow> vreg \<Rightarrow> declId \<Rightarrow> unit pgM" where
  "CompileImportDecl s moduleReg d =
    bindM (declAt d) (\<lambda>dc. bindM (scopeAt s) (\<lambda>sc.
      bindM (deref (FindLocal sc (dName dc) RB_BINDINGS)) (\<lambda>v. bindM (varAt v) (\<lambda>x.
        if vType x \<noteq> VT_MODULE
        then StoreAccToLexEnv (nodeOrNull (dNode dc)) (bindingResult (dName dc) s v) True
        else BindVReg v moduleReg))))"

definition CompileImport :: "scopeId \<Rightarrow> astRef \<times> declId list \<Rightarrow> unit pgM" where
  "CompileImport s imp =
    (let node = refNode (fst imp)
     in bindM (getNode node) (\<lambda>x. case x of
          Module (ImportDeclNode source) \<Rightarrow>
            thenM (ImportModule node source)
              (bindM AllocReg (\<lambda>moduleReg.
                 thenM (StoreAccumulator node moduleReg) (forM (CompileImportDecl s moduleReg) (snd imp))))
        | _ \<Rightarrow> undefinedM))"

text \<open>The source of a declaration that exports from another module.\<close>

definition exportSource :: "node \<Rightarrow> name option" where
  "exportSource n =
    (case n of Module (ExportAllDeclNode source) \<Rightarrow> Some source
     | Module (ExportNamedDeclNode _ source) \<Rightarrow> source
     | _ \<Rightarrow> None)"

definition CompileExport :: "astRef \<times> declId list \<Rightarrow> unit pgM" where
  "CompileExport ex =
    (let node = refNode (fst ex)
     in bindM (getNode node) (\<lambda>x. case exportSource x of
          None \<Rightarrow> ret ()
        | Some source \<Rightarrow>
            thenM (ImportModule node source)
              (bindM AllocReg (\<lambda>moduleReg.
                 thenM (StoreAccumulator node moduleReg)
                   (case x of
                      Module (ExportAllDeclNode _) \<Rightarrow>
                        (case snd ex of [] \<Rightarrow> undefinedM
                         | d # _ \<Rightarrow> bindM (declAt d) (\<lambda>dc. StoreModuleVar node (dExport dc)))
                    | _ \<Rightarrow>
                        thenM (CopyModule node moduleReg)
                          (forM (\<lambda>d. bindM (declAt d) (\<lambda>dc.
                             seqM [LoadObjByName (nodeOrNull (dNode dc)) moduleReg (dName dc),
                                   StoreModuleVar (nodeOrNull (dNode dc)) (dExport dc)]))
                             (snd ex)))))))"

definition ModuleContext_Compile :: "scopeId \<Rightarrow> unit pgM" where
  "ModuleContext_Compile s =
    bindM (scopeAt s) (\<lambda>sc. seqM [forM (CompileImport s) (sImports sc), forM CompileExport (sExports sc)])"

section \<open>Register scopes\<close>

text \<open>In a debug build the borders of a scope are the instruction last, or first, emitted.\<close>

definition lastInsn :: "irNode pgM" where
  "lastInsn = readM (\<lambda>g. if insns g = [] then None else Some (last (insns g)))"

definition firstInsn :: "irNode pgM" where
  "firstInsn = readM (\<lambda>g. if insns g = [] then None else Some (hd (insns g)))"

definition SetScopeStart :: "scopeId \<Rightarrow> irNode \<Rightarrow> unit pgM" where
  "SetScopeStart s ins = modifyM (\<lambda>g. g\<lparr>scopeStart := (scopeStart g)(s \<mapsto> ins)\<rparr>)"

definition SetScopeEnd :: "scopeId \<Rightarrow> irNode \<Rightarrow> unit pgM" where
  "SetScopeEnd s ins = modifyM (\<lambda>g. g\<lparr>scopeEnd := (scopeEnd g)(s \<mapsto> ins)\<rparr>)"

definition addDebugScope :: "scopeId \<Rightarrow> unit pgM" where
  "addDebugScope s = modifyM (\<lambda>g. g\<lparr>variableDebugInfo := variableDebugInfo g @ [s]\<rparr>)"

definition whenDebug :: "unit pgM \<Rightarrow> unit pgM" where
  "whenDebug m = bindM (getM isDebug) (\<lambda>b. whenM b m)"

definition DebuggerCloseScope :: "unit pgM" where
  "DebuggerCloseScope = whenDebug (bindM (getM pgScope) (\<lambda>s. bindM lastInsn (SetScopeEnd s)))"

definition setScope :: "scopeId \<Rightarrow> unit pgM" where
  "setScope s = modifyM (\<lambda>g. g\<lparr>pgScope := s\<rparr>)"

text \<open>A variable that is not captured gets a register.\<close>

definition bindRegister :: "varId \<Rightarrow> unit pgM" where
  "bindRegister v =
    bindM (varAt v) (\<lambda>x. whenM (\<not> LexicalBound x \<and> vType x = VT_LOCAL) (bindM AllocReg (BindVReg v)))"

text \<open>\<open>LocalRegScope\<close>: what runs in \<open>m\<close> lives in the scope; its destructor restores the one before.\<close>

definition inLocalRegScope :: "scopeId \<Rightarrow> 'a pgM \<Rightarrow> 'a pgM" where
  "inLocalRegScope s m =
    inRegScope (bindM (getM pgScope) (\<lambda>prev.
      thenM (seqM [setScope s,
                   bindM (scopeAt s) (\<lambda>sc. forM (\<lambda>b. bindM (deref b) bindRegister) (map snd (sBindings sc))),
                   whenDebug (thenM (bindM lastInsn (SetScopeStart s)) (addDebugScope s)),
                   Hoist])
        (bindM m (\<lambda>a. thenM (seqM [DebuggerCloseScope, setScope prev]) (ret a)))))"

text \<open>\<open>ScopeContext\<close>\<close>

definition inScopeContext :: "scopeId \<Rightarrow> 'a pgM \<Rightarrow> 'a pgM" where
  "inScopeContext s m =
    bindM (getM pgScope) (\<lambda>prev. thenM (setScope s) (bindM m (\<lambda>a. thenM (setScope prev) (ret a))))"

text \<open>\<open>EnvScope\<close>: \<open>Initialize\<close> and the destructor.\<close>

definition pushEnv :: "vreg \<Rightarrow> unit pgM" where
  "pushEnv r = modifyM (\<lambda>g. g\<lparr>envScopes := r # envScopes g\<rparr>)"

definition popEnv :: "unit pgM" where
  "popEnv = modifyM (\<lambda>g. g\<lparr>envScopes := tl (envScopes g)\<rparr>)"

text \<open>\<open>FunctionRegScope\<close>: parameters first, then the register of the environment, then the variables.\<close>

definition bindParam :: "varId \<Rightarrow> unit pgM" where
  "bindParam p =
    bindM AllocReg (\<lambda>r. bindM (varAt p) (\<lambda>x. whenM (\<not> LexicalBound x) (BindVReg p r)))"

definition bindFunctionVariable :: "varId option \<Rightarrow> unit pgM" where
  "bindFunctionVariable b =
    bindM (deref b) (\<lambda>v. bindM (declOf v) (\<lambda>d. whenM (dType d \<noteq> DECL_PARAM) (bindRegister v)))"

definition inFunctionRegScope :: "'a pgM \<Rightarrow> 'a pgM" where
  "inFunctionRegScope m =
    inRegScope (bindM (getM pgScope) (\<lambda>s. bindM (scopeAt s) (\<lambda>sc.
      bindM (deref (paramScope sc)) (\<lambda>p. bindM (scopeAt p) (\<lambda>ps.
        thenM (seqM [forM bindParam (sParams ps),
                     bindM AllocReg pushEnv,
                     forM bindFunctionVariable (map snd (sBindings sc)),
                     whenDebug (addDebugScope s),
                     bindM (getM rootNode) LoadAccFromArgs,
                     whenM (sClass sc = ModuleScope) (ModuleContext_Compile s),
                     Hoist])
          (bindM m (\<lambda>a.
             thenM (seqM [whenDebug (bindM (getM pgTopScope) (\<lambda>top. bindM firstInsn (SetScopeStart top))),
                          DebuggerCloseScope,
                          popEnv])
               (ret a))))))))"

text \<open>The prologue of a function, put in front of its code once that is known.\<close>

definition CopyFunctionArgument :: "nodeRef \<Rightarrow> vreg \<Rightarrow> varId \<Rightarrow> unit pgM" where
  "CopyFunctionArgument node targetReg p =
    bindM (varAt p) (\<lambda>x.
      if LexicalBound x then seqM [LoadAccumulator node targetReg, StoreLexicalVar node 0 (LexIdx x)]
      else raEmit node MovDyn [Reg (Vreg x), Reg targetReg])"

primrec CopyFunctionArguments_loop :: "nodeRef \<Rightarrow> vreg \<Rightarrow> varId list \<Rightarrow> unit pgM" where
  "CopyFunctionArguments_loop node targetReg [] = ret ()"
| "CopyFunctionArguments_loop node targetReg (p # ps) =
    thenM (CopyFunctionArgument node targetReg p) (CopyFunctionArguments_loop node (targetReg + 1) ps)"

definition CopyFunctionArguments :: "nodeRef \<Rightarrow> unit pgM" where
  "CopyFunctionArguments node =
    atFront (bindM (getM totalRegs) (\<lambda>total. bindM (getM pgTopScope) (\<lambda>top. bindM (scopeAt top) (\<lambda>sc.
      bindM (deref (paramScope sc)) (\<lambda>p. bindM (scopeAt p) (\<lambda>ps.
        CopyFunctionArguments_loop node (ucast total) (sParams ps)))))))"

definition InitializeLexEnv :: "nodeRef \<Rightarrow> vreg \<Rightarrow> unit pgM" where
  "InitializeLexEnv node lexEnv =
    atFront (bindM (getM pgTopScope) (\<lambda>top. bindM (scopeAt top) (\<lambda>sc.
      seqM [if NeedLexEnv sc then NewLexEnv node (slotIndex sc) else LdLexEnv node,
            StoreAccumulator node lexEnv])))"

end
