(* ===== verification/Contexts.thy ===== *)
theory Contexts
  imports VarAccess
begin

text \<open>
  The stack of contexts that statements push (\<open>compiler/core/dynamicContext.cpp\<close>, \<open>labelTarget.cpp\<close>,
  \<open>envScope.h\<close>), catch tables (\<open>base/catchTable.cpp\<close>), iterators (\<open>base/iterators.cpp\<close>), the function
  builders (\<open>compiler/function\<close>) and the jumps out of contexts (\<open>PandaGen::ControlFlowChangeBreak\<close>,
  \<open>ControlFlowChangeContinue\<close>).

  A jump runs what the contexts it leaves ask for: the finalizer of a \<open>try\<close>, the closing of an iterator,
  the removal of a lexical environment.  Where the code calls the virtual \<open>Compile\<close> of a node, a
  definition takes it from \<open>calls\<close>; so it does with \<open>Await\<close>, which leaves contexts that may await, and with
  \<open>Destructuring::Compile\<close>, which stores to references that may be patterns.  The
  recursion is closed where all nodes are known.
\<close>

section \<open>Calls of what is defined later\<close>

record calls =
  compileNode :: "nodeRef \<Rightarrow> unit pgM"
  awaitCall :: "nodeRef \<Rightarrow> unit pgM"
  destructCall :: "nodeRef \<Rightarrow> unit pgM"

section \<open>Labels\<close>

definition BREAK_LABEL :: name where "BREAK_LABEL = asciiText ''#b''"
definition CONTINUE_LABEL :: name where "CONTINUE_LABEL = asciiText ''#c''"

text \<open>The constructors of \<open>LabelTarget\<close>.\<close>

definition newLabelTarget :: "labelTarget pgM" where
  "newLabelTarget = bindM AllocLabel (\<lambda>b. bindM AllocLabel (\<lambda>c.
     ret \<lparr>breakLabel = BREAK_LABEL, breakTarget = Some b, continueLabel = CONTINUE_LABEL, continueTarget = Some c\<rparr>))"

definition namedTarget :: "label option \<Rightarrow> name \<Rightarrow> labelTarget" where
  "namedTarget target n = \<lparr>breakLabel = n, breakTarget = target, continueLabel = n, continueTarget = None\<rparr>"

definition noTarget :: labelTarget where
  "noTarget = \<lparr>breakLabel = [], breakTarget = None, continueLabel = [], continueTarget = None\<rparr>"

section \<open>The stack\<close>

definition pushContext :: "contextClass \<Rightarrow> labelTarget \<Rightarrow> unit pgM" where
  "pushContext c t = modifyM (\<lambda>g. g\<lparr>contexts := contexts g @ [\<lparr>ctxClass = c, ctxTarget = t\<rparr>]\<rparr>)"

definition popContext :: "unit pgM" where
  "popContext = modifyM (\<lambda>g. g\<lparr>contexts := butlast (contexts g)\<rparr>)"

definition setContext :: "nat \<Rightarrow> dynamicContext \<Rightarrow> unit pgM" where
  "setContext i c = modifyM (\<lambda>g. g\<lparr>contexts := (contexts g)[i := c]\<rparr>)"

definition setTopContext :: "contextClass \<Rightarrow> labelTarget \<Rightarrow> unit pgM" where
  "setTopContext c t =
    modifyM (\<lambda>g. g\<lparr>contexts := (contexts g)[length (contexts g) - 1 := \<lparr>ctxClass = c, ctxTarget = t\<rparr>]\<rparr>)"

primrec HasTryCatch :: "contextClass \<Rightarrow> bool" where
  "HasTryCatch (LabelContext l) = False"
| "HasTryCatch (LexEnvContext s ct) = (s \<noteq> None)"
| "HasTryCatch (IteratorContext it ct) = True"
| "HasTryCatch (TryContext stmt ct r hasFinalizer inFinalizer) = True"

definition HasFinalizer :: "contextClass \<Rightarrow> bool" where
  "HasFinalizer c = (case c of TryContext _ _ _ hasFinalizer _ \<Rightarrow> hasFinalizer | _ \<Rightarrow> HasTryCatch c)"

definition CheckControlFlowChange :: "bool pgM" where
  "CheckControlFlowChange = getM (\<lambda>g. list_ex (\<lambda>c. HasFinalizer (ctxClass c)) (contexts g))"

definition TryDepth :: "pandaGen \<Rightarrow> nat" where
  "TryDepth g = length (filter (\<lambda>c. HasTryCatch (ctxClass c)) (contexts g))"

definition CreateCatchTable :: "catchTable pgM" where
  "CreateCatchTable = bindM (getM TryDepth) (\<lambda>depth.
     bindM AllocLabel (\<lambda>tb. bindM AllocLabel (\<lambda>te. bindM AllocLabel (\<lambda>cb. bindM AllocLabel (\<lambda>ce.
       let ct = \<lparr>tryBegin = tb, tryEnd = te, catchBegin = cb, catchEnd = ce, ctDepth = depth\<rparr>
       in thenM (modifyM (\<lambda>g. g\<lparr>catchList := catchList g @ [ct]\<rparr>)) (ret ct))))))"

text \<open>\<open>LabelContext\<close> with a given target, and that of a labelled statement, which has a target of its own
  if the statement is a block.\<close>

definition inLabelContext :: "labelTarget \<Rightarrow> 'a pgM \<Rightarrow> 'a pgM" where
  "inLabelContext t m =
    thenM (pushContext (LabelContext None) t) (bindM m (\<lambda>a. thenM popContext (ret a)))"

definition inLabelledContext :: "nodeRef \<Rightarrow> name \<Rightarrow> bool \<Rightarrow> 'a pgM \<Rightarrow> 'a pgM" where
  "inLabelledContext stmt n isBlock m =
    thenM (pushContext (LabelContext None) (namedTarget None n))
      (if isBlock then
         bindM AllocLabel (\<lambda>l.
           thenM (setTopContext (LabelContext (Some (l, stmt))) (namedTarget (Some l) n))
             (bindM m (\<lambda>a. thenM (seqM [SetLabel l, popContext]) (ret a))))
       else bindM m (\<lambda>a. thenM popContext (ret a)))"

definition scopeNode :: "scopeId \<Rightarrow> nodeRef pgM" where
  "scopeNode s = bindM (scopeAt s) (\<lambda>sc. ret (nodeOrNull (sNode sc)))"

text \<open>\<open>LexEnvContext\<close>, of a loop that has a lexical environment or not: its destructor catches what leaves
  the loop, removes the environment and throws on.\<close>

definition inLexEnvContext :: "scopeId option \<Rightarrow> labelTarget \<Rightarrow> 'a pgM \<Rightarrow> 'a pgM" where
  "inLexEnvContext loopEnv t m =
    thenM (pushContext (LexEnvContext loopEnv None) t)
      (case loopEnv of
         None \<Rightarrow> bindM m (\<lambda>a. thenM popContext (ret a))
       | Some s \<Rightarrow> bindM CreateCatchTable (\<lambda>ct. bindM (scopeNode s) (\<lambda>node.
           thenM (seqM [setTopContext (LexEnvContext loopEnv (Some ct)) t, SetLabel (tryBegin ct)])
             (bindM m (\<lambda>a.
                thenM (seqM [SetLabel (tryEnd ct), Branch node (catchEnd ct),
                             SetLabel (catchBegin ct), PopLexEnv node, EmitThrow node,
                             SetLabel (catchEnd ct), PopLexEnv node,
                             popContext])
                  (ret a))))))"

definition finallyBlock :: "astTable \<Rightarrow> nodeRef \<Rightarrow> nodeRef option" where
  "finallyBlock t stmt = (case nodeOf t stmt of Stmt (TryStatement _ _ f) \<Rightarrow> f | _ \<Rightarrow> None)"

text \<open>\<open>TryContext\<close>; what runs in it gets its catch table and the register of its finalizer.\<close>

definition inTryContext :: "nodeRef option \<Rightarrow> bool \<Rightarrow> (catchTable \<Rightarrow> vreg \<Rightarrow> 'a pgM) \<Rightarrow> 'a pgM" where
  "inTryContext stmt hasFinalizer m =
    thenM (pushContext (TryContext stmt None 0 hasFinalizer False) noTarget)
      (bindM CreateCatchTable (\<lambda>ct.
         thenM (setTopContext (TryContext stmt (Some ct) 0 hasFinalizer False) noTarget)
           (bindM (getM ast) (\<lambda>t.
              bindM (case stmt of
                  None \<Rightarrow> ret 0
                | Some n \<Rightarrow>
                    if \<not> hasFinalizer \<or> finallyBlock t n = None then ret 0
                    else bindM AllocReg (\<lambda>r.
                      thenM (seqM [setTopContext (TryContext stmt (Some ct) r hasFinalizer False) noTarget,
                                   StoreConst n r JS_UNDEFINED])
                        (ret r))) (\<lambda>r.
                bindM (m ct r) (\<lambda>a. thenM popContext (ret a)))))))"

text \<open>\<open>EmitFinalizer\<close> of the context at a place of the stack.\<close>

definition EmitFinalizer :: "calls \<Rightarrow> nat \<Rightarrow> unit pgM" where
  "EmitFinalizer c i =
    bindM (getM (\<lambda>g. contexts g ! i)) (\<lambda>x. bindM (getM ast) (\<lambda>t.
      case ctxClass x of
        TryContext stmt ct r hasFinalizer inFinalizer \<Rightarrow>
          if \<not> hasFinalizer \<or> inFinalizer then ret ()
          else bindM (deref stmt) (\<lambda>n.
            case finallyBlock t n of
              None \<Rightarrow> ret ()
            | Some f \<Rightarrow>
                seqM [setContext i (x\<lparr>ctxClass := TryContext stmt ct r hasFinalizer True\<rparr>),
                      compileNode c f,
                      setContext i (x\<lparr>ctxClass := TryContext stmt ct r hasFinalizer False\<rparr>)])
      | _ \<Rightarrow> undefinedM))"

section \<open>Returning, by kind of function\<close>

definition theBuilder :: "functionBuilder pgM" where
  "theBuilder = bindM (getM builder) deref"

definition catchTableOf :: "functionBuilder \<Rightarrow> catchTable pgM" where
  "catchTableOf b = deref (builderCatch b)"

definition DirectReturn :: "nodeRef \<Rightarrow> unit pgM" where
  "DirectReturn node =
    bindM theBuilder (\<lambda>b. case builderKind b of
        NORMAL \<Rightarrow> EmitReturn node
      | GENERATOR \<Rightarrow> seqM [GeneratorComplete node (funcObj b), CreateIterResultObject node True, EmitReturn node]
      | ASYNC_FUNCTION \<Rightarrow> seqM [AsyncFunctionResolve node (funcObj b), EmitReturn node]
      | ASYNC_GENERATOR \<Rightarrow> seqM [AsyncGeneratorResolve node (funcObj b), EmitReturn node])"

definition rootIsConstructor :: "pandaGen \<Rightarrow> bool" where
  "rootIsConstructor g =
    (case scriptFunctionOf (ast g) (rootNode g) of None \<Rightarrow> False | Some f \<Rightarrow> sfConstructor f)"

definition ImplicitReturn :: "nodeRef \<Rightarrow> unit pgM" where
  "ImplicitReturn node =
    bindM theBuilder (\<lambda>b. case builderKind b of
        NORMAL \<Rightarrow> bindM (getM rootIsConstructor) (\<lambda>ctor. bindM (getM rootNode) (\<lambda>root.
          if ctor then seqM [GetThis root, ThrowIfSuperNotCorrectCall root 0, EmitReturn node]
          else EmitReturnUndefined node))
      | _ \<Rightarrow> seqM [LoadConst node JS_UNDEFINED, DirectReturn node])"

text \<open>The register of the hidden parameter that holds the function itself.\<close>

definition FunctionReg :: "nodeRef \<Rightarrow> vreg pgM" where
  "FunctionReg node =
    bindM (getM ast) (\<lambda>t. bindM (deref (scriptFunctionOf t node)) (\<lambda>f.
      bindM (onScopes (Find (sfScope f) MANDATORY_PARAM_FUNC RB_BINDINGS)) (\<lambda>res.
        bindM (deref (frVariable res)) (\<lambda>v. bindM (varAt v) (\<lambda>x. ret (Vreg x))))))"

definition Prepare :: "nodeRef \<Rightarrow> unit pgM" where
  "Prepare node =
    bindM theBuilder (\<lambda>b. case builderKind b of
        NORMAL \<Rightarrow> ret ()
      | ASYNC_FUNCTION \<Rightarrow>
          seqM [AsyncFunctionEnter node, StoreAccumulator node (funcObj b),
                bindM (catchTableOf b) (\<lambda>ct. SetLabel (tryBegin ct))]
      | kind \<Rightarrow>
          bindM (FunctionReg node) (\<lambda>callee.
            seqM [if kind = GENERATOR then CreateGeneratorObj node callee else CreateAsyncGeneratorObj node callee,
                  StoreAccumulator node (funcObj b),
                  SuspendGenerator node (funcObj b),
                  bindM (catchTableOf b) (\<lambda>ct. SetLabel (tryBegin ct))]))"

definition CleanUp :: "nodeRef \<Rightarrow> unit pgM" where
  "CleanUp node =
    bindM theBuilder (\<lambda>b. case builderKind b of
        NORMAL \<Rightarrow> ret ()
      | kind \<Rightarrow>
          bindM (catchTableOf b) (\<lambda>ct.
            seqM [SetLabel (tryEnd ct), SetLabel (catchBegin ct),
                  case kind of
                    GENERATOR \<Rightarrow> seqM [GeneratorComplete node (funcObj b), EmitThrow node]
                  | ASYNC_FUNCTION \<Rightarrow> seqM [AsyncFunctionReject node (funcObj b), EmitReturn node]
                  | _ \<Rightarrow> seqM [AsyncGeneratorReject node (funcObj b), EmitReturn node],
                  SetLabel (catchEnd ct)]))"

text \<open>\<open>FunctionInit\<close>: the builder takes a register for the generator or promise.\<close>

definition builderTypeOf :: "pandaGen \<Rightarrow> builderType" where
  "builderTypeOf g =
    (case scriptFunctionOf (ast g) (rootNode g) of
       None \<Rightarrow> NORMAL
     | Some f \<Rightarrow> if sfAsync f then (if sfGenerator f then ASYNC_GENERATOR else ASYNC_FUNCTION)
                else if sfGenerator f then GENERATOR else NORMAL)"

definition FunctionInit :: "catchTable option \<Rightarrow> unit pgM" where
  "FunctionInit ct =
    bindM (getM builderTypeOf) (\<lambda>kind. bindM AllocReg (\<lambda>r.
      modifyM (\<lambda>g. g\<lparr>builder := Some \<lparr>builderKind = kind, builderCatch = ct, funcObj = r, handleReturn = False\<rparr>\<rparr>)))"

definition FunctionHasFinalizer :: "bool pgM" where
  "FunctionHasFinalizer = getM (\<lambda>g.
     case scriptFunctionOf (ast g) (rootNode g) of None \<Rightarrow> False | Some f \<Rightarrow> sfAsync f \<or> sfGenerator f)"

section \<open>Iterators\<close>

definition newIterator :: "nodeRef \<Rightarrow> iteratorType \<Rightarrow> iterator pgM" where
  "newIterator node type =
    bindM AllocReg (\<lambda>method. bindM AllocReg (\<lambda>iter. bindM AllocReg (\<lambda>nextResult.
      thenM (seqM [if type = ASYNC then GetAsyncIterator node else GetIterator node,
                   StoreAccumulator node iter,
                   LoadObjByName node iter (asciiText ''next''),
                   StoreAccumulator node method,
                   ThrowIfNotObject node])
        (ret \<lparr>itNode = node, itMethod = method, itIterator = iter, itNextResult = nextResult, itType = type\<rparr>))))"

definition IteratorGetMethod :: "iterator \<Rightarrow> name \<Rightarrow> unit pgM" where
  "IteratorGetMethod it n =
    seqM [GetMethod (itNode it) (itIterator it) n, StoreAccumulator (itNode it) (itMethod it)]"

definition CallMethodWithValue :: "iterator \<Rightarrow> unit pgM" where
  "CallMethodWithValue it = CallThis (itNode it) (itMethod it) 2"

definition CallMethod :: "iterator \<Rightarrow> unit pgM" where
  "CallMethod it = CallThis (itNode it) (itMethod it) 1"

definition IteratorNext :: "calls \<Rightarrow> iterator \<Rightarrow> unit pgM" where
  "IteratorNext c it =
    seqM [CallMethod it,
          whenM (itType it = ASYNC) (awaitCall c (itNode it)),
          ThrowIfNotObject (itNode it),
          StoreAccumulator (itNode it) (itNextResult it)]"

definition Complete :: "iterator \<Rightarrow> unit pgM" where
  "Complete it = seqM [LoadObjByName (itNode it) (itNextResult it) (asciiText ''done''), ToBoolean (itNode it)]"

definition IteratorValue :: "iterator \<Rightarrow> unit pgM" where
  "IteratorValue it = LoadObjByName (itNode it) (itNextResult it) (asciiText ''value'')"

text \<open>\<open>Close\<close>: an asynchronous iterator is closed within two catch tables, one around the call of \<open>return\<close>.\<close>

definition CloseInner :: "calls \<Rightarrow> iterator \<Rightarrow> vreg \<Rightarrow> vreg \<Rightarrow> unit pgM" where
  "CloseInner c it innerResult innerResultType =
    (let node = itNode it in
     inTryContext None False (\<lambda>ct _.
       seqM [SetLabel (tryBegin ct),
             CallMethod it,
             awaitCall c node,
             StoreAccumulator node innerResult,
             SetLabel (tryEnd ct),
             Branch node (catchEnd ct),
             SetLabel (catchBegin ct),
             StoreAccumulator node innerResult,
             StoreAccumulator node innerResultType,
             SetLabel (catchEnd ct)]))"

definition CloseAsync :: "calls \<Rightarrow> iterator \<Rightarrow> bool \<Rightarrow> unit pgM" where
  "CloseAsync c it abruptCompletion =
    (let node = itNode it in
     inRegScope (bindM AllocReg (\<lambda>completion. bindM AllocReg (\<lambda>innerResult. bindM AllocReg (\<lambda>innerResultType.
       thenM (seqM [StoreAccumulator node completion, StoreConst node innerResultType JS_HOLE])
         (inTryContext None False (\<lambda>ct _. bindM AllocLabel (\<lambda>returnExits.
            seqM [SetLabel (tryBegin ct),
                  IteratorGetMethod it (asciiText ''return''),
                  BranchIfNotUndefined node returnExits,
                  LoadAccumulator node completion,
                  if abruptCompletion then EmitThrow node else DirectReturn node,
                  SetLabel returnExits,
                  CloseInner c it innerResult innerResultType,
                  SetLabel (tryEnd ct),
                  Branch node (catchEnd ct),
                  SetLabel (catchBegin ct),
                  StoreAccumulator node innerResult,
                  StoreAccumulator node innerResultType,
                  SetLabel (catchEnd ct),
                  if abruptCompletion
                  then seqM [LoadAccumulator node completion, EmitThrow node]
                  else seqM [LoadAccumulator node innerResultType, EmitRethrow node],
                  LoadAccumulator node innerResult,
                  ThrowIfNotObject node]))))))))"

definition Close :: "calls \<Rightarrow> iterator \<Rightarrow> bool \<Rightarrow> unit pgM" where
  "Close c it abruptCompletion =
    (if itType it = SYNC then
       seqM [whenM (\<not> abruptCompletion) (LoadConst (itNode it) JS_HOLE), CloseIterator (itNode it) (itIterator it)]
     else CloseAsync c it abruptCompletion)"

text \<open>\<open>IteratorContext\<close>: its destructor closes the iterator when something is thrown.\<close>

definition inIteratorContext :: "calls \<Rightarrow> iterator \<Rightarrow> labelTarget \<Rightarrow> 'a pgM \<Rightarrow> 'a pgM" where
  "inIteratorContext c it t m =
    thenM (pushContext (IteratorContext it None) t)
      (bindM CreateCatchTable (\<lambda>ct.
         thenM (seqM [setTopContext (IteratorContext it (Some ct)) t, SetLabel (tryBegin ct)])
           (bindM m (\<lambda>a.
              thenM (seqM [SetLabel (tryEnd ct), Branch (itNode it) (catchEnd ct),
                           SetLabel (catchBegin ct), Close c it True,
                           SetLabel (catchEnd ct), popContext])
                (ret a)))))"

text \<open>\<open>DestructuringIterator\<close>; the subclass for a rest element leaves the loop when the iterator is done.\<close>

record destructuringIterator =
  diIterator :: iterator
  diDone :: vreg
  diResult :: vreg

definition newDestructuringIterator :: "nodeRef \<Rightarrow> destructuringIterator pgM" where
  "newDestructuringIterator node =
    bindM (newIterator node SYNC) (\<lambda>it. bindM AllocReg (\<lambda>finished. bindM AllocReg (\<lambda>result.
      thenM (seqM [StoreConst node finished JS_FALSE, StoreConst node result JS_UNDEFINED])
        (ret \<lparr>diIterator = it, diDone = finished, diResult = result\<rparr>))))"

definition OnIterDone :: "nodeRef \<Rightarrow> label option \<Rightarrow> unit pgM" where
  "OnIterDone node doneTarget =
    (case doneTarget of None \<Rightarrow> LoadConst node JS_UNDEFINED | Some l \<Rightarrow> Branch node l)"

definition Step :: "calls \<Rightarrow> destructuringIterator \<Rightarrow> label option \<Rightarrow> unit pgM" where
  "Step c di doneTarget =
    (let it = diIterator di; node = itNode it in
     inTryContext None False (\<lambda>ct _. bindM AllocLabel (\<lambda>normalClose. bindM AllocLabel (\<lambda>noClose.
       seqM [SetLabel (tryBegin ct),
             IteratorNext c it,
             Complete it,
             StoreAccumulator node (diDone di),
             BranchIfFalse node normalClose,
             StoreConst node (diDone di) JS_TRUE,
             LoadConst node JS_UNDEFINED,
             OnIterDone node doneTarget,
             Branch node noClose,
             SetLabel normalClose,
             IteratorValue it,
             StoreAccumulator node (diResult di),
             SetLabel noClose,
             SetLabel (tryEnd ct),
             Branch node (catchEnd ct),
             SetLabel (catchBegin ct),
             StoreAccumulator node (diResult di),
             StoreConst node (diDone di) JS_TRUE,
             LoadAccumulator node (diResult di),
             EmitThrow node,
             SetLabel (catchEnd ct)]))))"

section \<open>Leaving contexts\<close>

datatype controlFlowChange = CONTINUE | BREAK

text \<open>\<open>AbortContext\<close> of the context at a place of the stack.\<close>

definition AbortContext :: "calls \<Rightarrow> nat \<Rightarrow> controlFlowChange \<Rightarrow> name \<Rightarrow> unit pgM" where
  "AbortContext c i change targetLabel =
    bindM (getM (\<lambda>g. contexts g ! i)) (\<lambda>x.
      case ctxClass x of
        LabelContext _ \<Rightarrow> ret ()
      | LexEnvContext loopEnv _ \<Rightarrow>
          (case loopEnv of None \<Rightarrow> ret ()
           | Some s \<Rightarrow> whenM (change = BREAK) (bindM (scopeNode s) PopLexEnv))
      | IteratorContext it _ \<Rightarrow>
          if change = CONTINUE \<and> continueLabel (ctxTarget x) = targetLabel then ret () else Close c it False
      | TryContext _ _ _ _ _ \<Rightarrow> EmitFinalizer c i)"

text \<open>From the innermost context outwards, until one has the label; the target is that of the last context
  on the way that has one.\<close>

primrec ControlFlowChange_loop ::
  "calls \<Rightarrow> controlFlowChange \<Rightarrow> name \<Rightarrow> nat \<Rightarrow> label option \<Rightarrow> (label option) pgM" where
  "ControlFlowChange_loop c change labelName 0 target = ret target"
| "ControlFlowChange_loop c change labelName (Suc i) target =
    thenM (AbortContext c i change labelName)
      (bindM (getM (\<lambda>g. ctxTarget (contexts g ! i))) (\<lambda>t.
         let (contextLabel, contextTarget) =
               (if change = BREAK then (breakLabel t, breakTarget t) else (continueLabel t, continueTarget t));
             target = (if contextTarget \<noteq> None then contextTarget else target)
         in if contextLabel = labelName then ret target
            else ControlFlowChange_loop c change labelName i target))"

definition ControlFlowChangeBreak :: "calls \<Rightarrow> name option \<Rightarrow> (label option) pgM" where
  "ControlFlowChangeBreak c l =
    bindM (getM (\<lambda>g. length (contexts g))) (\<lambda>n.
      ControlFlowChange_loop c BREAK (case l of None \<Rightarrow> BREAK_LABEL | Some s \<Rightarrow> s) n None)"

definition ControlFlowChangeContinue :: "calls \<Rightarrow> name option \<Rightarrow> (label option) pgM" where
  "ControlFlowChangeContinue c l =
    bindM (getM (\<lambda>g. length (contexts g))) (\<lambda>n.
      ControlFlowChange_loop c CONTINUE (case l of None \<Rightarrow> CONTINUE_LABEL | Some s \<Rightarrow> s) n None)"

section \<open>Suspension\<close>

abbreviation (input) RESUME_RETURN :: int where "RESUME_RETURN \<equiv> 0"
abbreviation (input) RESUME_THROW :: int where "RESUME_THROW \<equiv> 1"
abbreviation (input) RESUME_NEXT :: int where "RESUME_NEXT \<equiv> 2"

definition resumeGenerator :: "nodeRef \<Rightarrow> vreg \<Rightarrow> vreg \<Rightarrow> vreg \<Rightarrow> unit pgM" where
  "resumeGenerator node obj completionType completionValue =
    seqM [ResumeGenerator node obj, StoreAccumulator node completionValue,
          GetResumeMode node obj, StoreAccumulator node completionType]"

definition SuspendResumeExecution :: "nodeRef \<Rightarrow> vreg \<Rightarrow> vreg \<Rightarrow> vreg \<Rightarrow> unit pgM" where
  "SuspendResumeExecution node obj completionType completionValue =
    seqM [SuspendGenerator node obj, resumeGenerator node obj completionType completionValue]"

definition AsyncYield :: "nodeRef \<Rightarrow> vreg \<Rightarrow> vreg \<Rightarrow> vreg \<Rightarrow> unit pgM" where
  "AsyncYield node obj completionType completionValue =
    seqM [GeneratorYield node obj, SuspendAsyncGenerator node obj,
          resumeGenerator node obj completionType completionValue]"

definition setHandleReturn :: "bool \<Rightarrow> unit pgM" where
  "setHandleReturn b = modifyM (\<lambda>g. g\<lparr>builder := map_option (\<lambda>x. x\<lparr>handleReturn := b\<rparr>) (builder g)\<rparr>)"

definition breakAll :: "calls \<Rightarrow> unit pgM" where
  "breakAll c = bindM (ControlFlowChangeBreak c None) (\<lambda>_. ret ())"

text \<open>Comparing the way the function was resumed.\<close>

definition unlessResumed :: "nodeRef \<Rightarrow> int \<Rightarrow> vreg \<Rightarrow> label \<Rightarrow> unit pgM" where
  "unlessResumed node mode completionType l =
    seqM [LoadAccumulatorInt node mode, Condition node PUNCTUATOR_EQUAL completionType l]"

definition HandleCompletion :: "calls \<Rightarrow> nodeRef \<Rightarrow> vreg \<Rightarrow> vreg \<Rightarrow> unit pgM" where
  "HandleCompletion c node completionType completionValue =
    thenM (LoadAccumulatorInt node RESUME_RETURN)
      (bindM AllocLabel (\<lambda>notRet.
        thenM (seqM [Condition node PUNCTUATOR_EQUAL completionType notRet,
                     bindM theBuilder (\<lambda>b. whenM (\<not> handleReturn b)
                       (seqM [setHandleReturn True, breakAll c, setHandleReturn False])),
                     LoadAccumulator node completionValue,
                     DirectReturn node,
                     SetLabel notRet,
                     LoadAccumulatorInt node RESUME_THROW])
          (bindM AllocLabel (\<lambda>notThrow.
             seqM [Condition node PUNCTUATOR_EQUAL completionType notThrow,
                   LoadAccumulator node completionValue,
                   EmitThrow node,
                   SetLabel notThrow,
                   LoadAccumulator node completionValue]))))"

text \<open>\<open>Await\<close>; in a function that is not asynchronous it is \<open>Unimplemented()\<close>.\<close>

definition Await :: "calls \<Rightarrow> nodeRef \<Rightarrow> unit pgM" where
  "Await c node =
    bindM theBuilder (\<lambda>b.
      if builderKind b = NORMAL then unimplemented
      else inRegScope (bindM AllocReg (\<lambda>completionType. bindM AllocReg (\<lambda>completionValue.
        seqM [AsyncFunctionAwait node (funcObj b),
              SuspendResumeExecution node (funcObj b) completionType completionValue,
              HandleCompletion c node completionType completionValue]))))"

definition YieldGenerator :: "calls \<Rightarrow> nodeRef \<Rightarrow> vreg \<Rightarrow> unit pgM" where
  "YieldGenerator c node obj =
    inRegScope (bindM AllocReg (\<lambda>completionType. bindM AllocReg (\<lambda>completionValue.
      seqM [CreateIterResultObject node False,
            GeneratorYield node obj,
            SuspendResumeExecution node obj completionType completionValue,
            HandleCompletion c node completionType completionValue])))"

definition YieldAsyncGenerator :: "calls \<Rightarrow> nodeRef \<Rightarrow> vreg \<Rightarrow> unit pgM" where
  "YieldAsyncGenerator c node obj =
    thenM (Await c node)
      (inRegScope (bindM AllocReg (\<lambda>completionType. bindM AllocReg (\<lambda>completionValue.
        thenM (AsyncYield node obj completionType completionValue)
          (bindM AllocLabel (\<lambda>notReturn. bindM AllocLabel (\<lambda>normal. bindM AllocLabel (\<lambda>notThrow.
            seqM [unlessResumed node RESUME_RETURN completionType notReturn,
                  LoadAccumulator node completionValue,
                  AsyncFunctionAwait node obj,
                  SuspendResumeExecution node obj completionType completionValue,
                  unlessResumed node RESUME_THROW completionType normal,
                  LoadAccumulator node completionValue,
                  EmitThrow node,
                  SetLabel normal,
                  breakAll c,
                  LoadAccumulator node completionValue,
                  DirectReturn node,
                  SetLabel notReturn,
                  unlessResumed node RESUME_THROW completionType notThrow,
                  LoadAccumulator node completionValue,
                  EmitThrow node,
                  SetLabel notThrow,
                  LoadAccumulator node completionValue]))))))))"

text \<open>\<open>Yield\<close> of the builder; a builder that is not a generator's has none.\<close>

definition Yield :: "calls \<Rightarrow> nodeRef \<Rightarrow> unit pgM" where
  "Yield c node =
    bindM theBuilder (\<lambda>b. case builderKind b of
        GENERATOR \<Rightarrow> YieldGenerator c node (funcObj b)
      | ASYNC_GENERATOR \<Rightarrow> YieldAsyncGenerator c node (funcObj b)
      | _ \<Rightarrow> undefinedM)"

definition GeneratorKind :: "functionBuilder \<Rightarrow> iteratorType" where
  "GeneratorKind b = (if builderKind b = ASYNC_GENERATOR then ASYNC else SYNC)"

section \<open>Delegation\<close>

text \<open>\<open>yield*\<close>, in the parts of its loop: what was received decides the method to call, the result is awaited
  and yielded on, and the loop ends with the value of the inner iterator.\<close>

record yieldStar =
  ysIterator :: iterator
  receivedValue :: vreg
  receivedType :: vreg
  nextMethod :: vreg
  exitReturn :: vreg
  loopStart :: label
  returnCompletion :: label
  throwCompletion :: label
  callMethodLabel :: label
  normalOrThrowCompletion :: label
  iteratorComplete :: label

definition awaitIfAsync :: "calls \<Rightarrow> nodeRef \<Rightarrow> functionBuilder \<Rightarrow> unit pgM" where
  "awaitIfAsync c node b = whenM (GeneratorKind b = ASYNC) (Await c node)"

definition YieldStar_received :: "calls \<Rightarrow> nodeRef \<Rightarrow> functionBuilder \<Rightarrow> yieldStar \<Rightarrow> unit pgM" where
  "YieldStar_received c node b y =
    (let it = ysIterator y in
     seqM [LoadAccumulatorInt node RESUME_NEXT,
           Condition node PUNCTUATOR_STRICT_EQUAL (receivedType y) (throwCompletion y),
           MoveVreg node (itMethod it) (nextMethod y),
           Branch node (callMethodLabel y),
           SetLabel (throwCompletion y),
           LoadAccumulatorInt node RESUME_THROW,
           Condition node PUNCTUATOR_STRICT_EQUAL (receivedType y) (returnCompletion y),
           IteratorGetMethod it (asciiText ''throw''),
           BranchIfNotUndefined node (callMethodLabel y),
           Close c it False,
           ThrowThrowNotExist node,
           SetLabel (returnCompletion y),
           StoreConst node (exitReturn y) JS_TRUE,
           IteratorGetMethod it (asciiText ''return''),
           BranchIfNotUndefined node (callMethodLabel y),
           breakAll c,
           LoadAccumulator node (receivedValue y),
           awaitIfAsync c node b,
           DirectReturn node])"

definition YieldStar_call :: "calls \<Rightarrow> nodeRef \<Rightarrow> functionBuilder \<Rightarrow> yieldStar \<Rightarrow> unit pgM" where
  "YieldStar_call c node b y =
    (let it = ysIterator y in
     seqM [SetLabel (callMethodLabel y),
           CallMethodWithValue it,
           awaitIfAsync c node b,
           StoreAccumulator node (receivedValue y),
           ThrowIfNotObject node,
           Complete it,
           BranchIfTrue node (iteratorComplete y),
           LoadAccumulator node (receivedValue y)])"

definition YieldStar_yield :: "calls \<Rightarrow> nodeRef \<Rightarrow> functionBuilder \<Rightarrow> yieldStar \<Rightarrow> unit pgM" where
  "YieldStar_yield c node b y =
    (let obj = funcObj b; type = receivedType y; val = receivedValue y in
     if GeneratorKind b = ASYNC then
       seqM [IteratorValue (ysIterator y),
             Await c node,
             AsyncYield node obj type val,
             unlessResumed node RESUME_RETURN type (loopStart y),
             LoadAccumulator node val,
             AsyncFunctionAwait node obj,
             SuspendResumeExecution node obj type val,
             unlessResumed node RESUME_THROW type (returnCompletion y)]
     else seqM [GeneratorYield node obj, SuspendResumeExecution node obj type val])"

definition YieldStar_complete :: "calls \<Rightarrow> nodeRef \<Rightarrow> yieldStar \<Rightarrow> unit pgM" where
  "YieldStar_complete c node y =
    (let it = ysIterator y in
     seqM [SetLabel (iteratorComplete y),
           LoadAccumulator node (exitReturn y),
           BranchIfFalse node (normalOrThrowCompletion y),
           IteratorValue it,
           bindM CheckControlFlowChange (\<lambda>b. whenM b
             (seqM [StoreAccumulator node (receivedValue y), breakAll c, LoadAccumulator node (receivedValue y)])),
           DirectReturn node,
           SetLabel (normalOrThrowCompletion y),
           IteratorValue it])"

definition newYieldStar :: "nodeRef \<Rightarrow> functionBuilder \<Rightarrow> yieldStar pgM" where
  "newYieldStar node b =
    bindM AllocLabel (\<lambda>start. bindM AllocLabel (\<lambda>retCompletion. bindM AllocLabel (\<lambda>thrCompletion.
    bindM AllocLabel (\<lambda>callLabel. bindM AllocLabel (\<lambda>normalCompletion. bindM AllocLabel (\<lambda>itComplete.
    bindM (newIterator node (GeneratorKind b)) (\<lambda>it.
    bindM AllocReg (\<lambda>type. bindM AllocReg (\<lambda>method. bindM AllocReg (\<lambda>exitReg.
      ret \<lparr>ysIterator = it, receivedValue = itNextResult it, receivedType = type, nextMethod = method,
           exitReturn = exitReg, loopStart = start, returnCompletion = retCompletion,
           throwCompletion = thrCompletion, callMethodLabel = callLabel,
           normalOrThrowCompletion = normalCompletion, iteratorComplete = itComplete\<rparr>))))))))))"

definition YieldStar :: "calls \<Rightarrow> nodeRef \<Rightarrow> unit pgM" where
  "YieldStar c node =
    bindM theBuilder (\<lambda>b. inRegScope (bindM (newYieldStar node b) (\<lambda>y.
      seqM [StoreConst node (receivedValue y) JS_UNDEFINED,
            LoadAccumulatorInt node RESUME_NEXT,
            StoreAccumulator node (receivedType y),
            MoveVreg node (nextMethod y) (itMethod (ysIterator y)),
            SetLabel (loopStart y),
            StoreConst node (exitReturn y) JS_FALSE,
            YieldStar_received c node b y,
            YieldStar_call c node b y,
            YieldStar_yield c node b y,
            Branch node (loopStart y),
            YieldStar_complete c node y])))"

end
