(* ===== verification/Patterns.thy ===== *)
theory Patterns
  imports Contexts
begin

text \<open>
  What statements and expressions are put together from: references (\<open>compiler/base/lreference.cpp\<close>),
  destructuring (\<open>base/destructuring.cpp\<close>), conditions (\<open>base/condition.cpp\<close>), \<open>switch\<close>
  (\<open>core/switchBuilder.cpp\<close>), template objects (\<open>base/literals.cpp\<close>), property keys and arrays
  (\<open>core/pandagen.cpp\<close>) and the lexical environments of loops (\<open>core/envScope.cpp\<close>).
\<close>

section \<open>Property keys\<close>

text \<open>A key that has to be computed is the register 0.\<close>

definition ToNamedPropertyKey :: "node \<Rightarrow> bool \<Rightarrow> operand" where
  "ToNamedPropertyKey prop isComputed =
    (if \<not> isComputed then (case prop of Expr (Identifier n _) \<Rightarrow> Str n | _ \<Rightarrow> Reg 0)
     else (case prop of
         Literal (StringLiteral s) \<Rightarrow>
           if s = asciiText ''__proto__'' then Reg 0
           else if GetIndex s \<noteq> INVALID_INDEX then Imm (GetIndex s) else Str s
       | Literal (NumberLiteral d s) \<Rightarrow> if IsIndex d then Imm (doubleToInt d) else Str s
       | _ \<Rightarrow> Reg 0))"

definition ToPropertyKey :: "calls \<Rightarrow> nodeRef \<Rightarrow> bool \<Rightarrow> operand pgM" where
  "ToPropertyKey c prop isComputed =
    bindM (getNode prop) (\<lambda>x. case ToNamedPropertyKey x isComputed of
        Reg _ \<Rightarrow> bindM AllocReg (\<lambda>r. thenM (seqM [compileNode c prop, StoreAccumulator prop r]) (ret (Reg r)))
      | key \<Rightarrow> ret key)"

definition LoadPropertyKey :: "calls \<Rightarrow> nodeRef \<Rightarrow> bool \<Rightarrow> vreg pgM" where
  "LoadPropertyKey c prop isComputed =
    bindM (getNode prop) (\<lambda>x.
      thenM (case ToNamedPropertyKey x isComputed of
               Str s \<Rightarrow> LoadAccumulatorString prop s
             | Imm i \<Rightarrow> LoadAccumulatorInt prop i
             | _ \<Rightarrow> compileNode c prop)
        (bindM AllocReg (\<lambda>r. thenM (StoreAccumulator prop r) (ret r))))"

section \<open>Arrays\<close>

text \<open>The constants in front go to a literal buffer, the elements up to the first spread to their index, the
  rest to an index that is counted at run time.\<close>

definition isConstantExpr :: "node \<Rightarrow> bool" where
  "isConstantExpr n \<longleftrightarrow> constantLiteral n \<noteq> None"

primrec StoreElements_loop ::
  "calls \<Rightarrow> astTable \<Rightarrow> vreg \<Rightarrow> nat \<Rightarrow> nodeRef list \<Rightarrow> (nat \<times> nodeRef list) pgM" where
  "StoreElements_loop c t obj i [] = ret (i, [])"
| "StoreElements_loop c t obj i (e # es) =
    (if IsOmittedExpression (nodeOf t e) then StoreElements_loop c t obj (i + 1) es
     else if IsSpreadElement (nodeOf t e) then ret (i, e # es)
     else thenM (seqM [compileNode c e, StOwnByIndex e obj (int i)]) (StoreElements_loop c t obj (i + 1) es))"

definition spreadArgument :: "node \<Rightarrow> nodeRef option" where
  "spreadArgument n = (case n of Base (SpreadElement a) \<Rightarrow> Some a | _ \<Rightarrow> None)"

definition SpreadElement_step :: "calls \<Rightarrow> astTable \<Rightarrow> nodeRef \<Rightarrow> vreg \<Rightarrow> vreg \<Rightarrow> nodeRef \<Rightarrow> unit pgM" where
  "SpreadElement_step c t node obj idxReg e =
    (case spreadArgument (nodeOf t e) of
       Some a \<Rightarrow>
         seqM [compileNode c a, StoreArraySpread e obj idxReg,
               LoadObjByName node obj (asciiText ''length''), StoreAccumulator e idxReg]
     | None \<Rightarrow>
         seqM [whenM (\<not> IsOmittedExpression (nodeOf t e)) (seqM [compileNode c e, StOwnByValue e obj idxReg]),
               Unary e PUNCTUATOR_PLUS_PLUS idxReg,
               StoreAccumulator e idxReg])"

definition CreateArray_rest ::
  "calls \<Rightarrow> astTable \<Rightarrow> nodeRef \<Rightarrow> nodeRef list \<Rightarrow> vreg \<Rightarrow> nat \<Rightarrow> nodeRef list \<Rightarrow> unit pgM" where
  "CreateArray_rest c t node elements obj i rest =
    (let hasSpread = (rest \<noteq> []) in
     inRegScope
       (thenM
         (if hasSpread then
            bindM AllocReg (\<lambda>idxReg.
              seqM [LoadAccumulatorInt node (int i), StoreAccumulator node idxReg,
                    forM (SpreadElement_step c t node obj idxReg) rest])
          else ret ())
         (seqM [whenM (IsOmittedExpression (nodeOf t (last elements)))
                  (seqM [whenM (\<not> hasSpread) (LoadAccumulatorInt node (int i)),
                         StOwnByName node obj (asciiText ''length'')]),
                LoadAccumulator node obj])))"

definition CreateArray :: "calls \<Rightarrow> nodeRef \<Rightarrow> nodeRef list \<Rightarrow> vreg \<Rightarrow> unit pgM" where
  "CreateArray c node elements obj =
    (if elements = [] then seqM [CreateEmptyArray node, StoreAccumulator node obj]
     else bindM (getM ast) (\<lambda>t.
       let consts = takeWhile (\<lambda>e. isConstantExpr (nodeOf t e)) elements;
           buf = map (\<lambda>e. map_option LitNode (constantLiteral (nodeOf t e))) consts
       in thenM (if buf = [] then CreateEmptyArray node
                 else bindM (AddLiteralBuffer buf) (CreateArrayWithBuffer node))
            (thenM (StoreAccumulator node obj)
              (if length consts = length elements then ret ()
               else bindM (StoreElements_loop c t obj (length consts) (drop (length consts) elements))
                      (\<lambda>(i, rest). CreateArray_rest c t node elements obj i rest)))))"

section \<open>Lexical environments of loops\<close>

text \<open>\<open>LoopEnvScope\<close>: the environment of a scope that needs one, with the bindings that have the flag copied
  from the environment around it.\<close>

definition needEnv :: "scopeId \<Rightarrow> (scopeId option) pgM" where
  "needEnv s = bindM (scopeAt s) (\<lambda>sc. ret (if IsVariableScope sc \<and> NeedLexEnv sc then Some s else None))"

definition CopyBinding :: "nodeRef \<Rightarrow> scopeId option \<Rightarrow> u32 \<Rightarrow> varId option \<Rightarrow> unit pgM" where
  "CopyBinding node parent flag b =
    bindM (deref b) (\<lambda>v. bindM (varAt v) (\<lambda>x.
      whenM (HasFlag flag x)
        (bindM (deref parent) (\<lambda>p. bindM (scopeNode p) (\<lambda>parentNode.
           seqM [LoadLexicalVar node 1 (LexIdx x), StoreLexicalVar parentNode 0 (LexIdx x)])))))"

definition CopyBindings :: "scopeId \<Rightarrow> u32 \<Rightarrow> vreg pgM" where
  "CopyBindings s flag =
    bindM AllocReg (\<lambda>r. bindM (scopeAt s) (\<lambda>sc. bindM (scopeNode s) (\<lambda>node.
      thenM (seqM [pushEnv r, NewLexEnv node (slotIndex sc), StoreAccumulator node r,
                   forM (CopyBinding node (sParent sc) flag) (map snd (sBindings sc))])
        (ret r))))"

text \<open>The order of destruction: the context, the register scope, the environment.  What runs in it gets the
  scope and the register of the environment, if there is one.\<close>

definition loopEnvironment :: "scopeId option \<Rightarrow> u32 \<Rightarrow> (scopeId \<times> vreg) option pgM" where
  "loopEnvironment e flag =
    (case e of None \<Rightarrow> ret None | Some s \<Rightarrow> bindM (CopyBindings s flag) (\<lambda>r. ret (Some (s, r))))"

definition inLoopEnv ::
  "scopeId \<Rightarrow> bool \<Rightarrow> labelTarget \<Rightarrow> u32 \<Rightarrow> ((scopeId \<times> vreg) option \<Rightarrow> 'a pgM) \<Rightarrow> 'a pgM" where
  "inLoopEnv s enterScope t flag m =
    bindM (needEnv s) (\<lambda>e.
      bindM ((if enterScope then inLocalRegScope s else inRegScope)
               (inLexEnvContext e t (bindM (loopEnvironment e flag) m))) (\<lambda>a.
        thenM (whenM (e \<noteq> None) popEnv) (ret a)))"

definition CopyPetIterationCtx :: "(scopeId \<times> vreg) option \<Rightarrow> unit pgM" where
  "CopyPetIterationCtx e =
    (case e of None \<Rightarrow> ret ()
     | Some (s, r) \<Rightarrow> bindM (scopeNode s) (\<lambda>node. seqM [CopyLexEnv node, StoreAccumulator node r]))"

section \<open>Conditions\<close>

definition conditionOperator :: "tokenType \<Rightarrow> bool" where
  "conditionOperator op \<longleftrightarrow> comparisonOp op \<noteq> None"

text \<open>A comparison is merged with the jump; \<open>&&\<close>, \<open>||\<close> and \<open>!\<close> jump without making a value.\<close>

definition Condition_Compile :: "calls \<Rightarrow> nodeRef \<Rightarrow> label \<Rightarrow> unit pgM" where
  "Condition_Compile c expr falseLabel =
    bindM (getNode expr) (\<lambda>x.
      let general = seqM [compileNode c expr, ToBoolean expr, BranchIfFalse expr falseLabel]
      in case x of
        Expr (BinaryExpression op l r) \<Rightarrow>
          if conditionOperator op then
            inRegScope (bindM AllocReg (\<lambda>lhs.
              seqM [compileNode c l, StoreAccumulator expr lhs, compileNode c r,
                    Condition expr op lhs falseLabel]))
          else if op = PUNCTUATOR_LOGICAL_AND then
            seqM [compileNode c l, ToBoolean expr, BranchIfFalse expr falseLabel,
                  compileNode c r, ToBoolean expr, BranchIfFalse expr falseLabel]
          else if op = PUNCTUATOR_LOGICAL_OR then
            bindM AllocLabel (\<lambda>endLabel.
              seqM [compileNode c l, ToBoolean expr, BranchIfTrue expr endLabel,
                    compileNode c r, ToBoolean expr, BranchIfFalse expr falseLabel,
                    SetLabel endLabel])
          else general
      | Expr (UnaryExpression op arg) \<Rightarrow>
          if op = PUNCTUATOR_EXCLAMATION_MARK
          then seqM [compileNode c arg, NegateAcc expr, BranchIfFalse expr falseLabel]
          else general
      | _ \<Rightarrow> general)"

section \<open>Switch\<close>

record switchBuilder =
  sbEnd :: label
  caseLabels :: "label list"

primrec AllocLabels :: "nat \<Rightarrow> (label list) pgM" where
  "AllocLabels 0 = ret []"
| "AllocLabels (Suc n) = bindM AllocLabel (\<lambda>l. bindM (AllocLabels n) (\<lambda>ls. ret (l # ls)))"

text \<open>\<open>SwitchBuilder\<close>: the label after the statement is set by its destructor, then the context is popped.\<close>

definition inSwitchBuilder :: "nat \<Rightarrow> (switchBuilder \<Rightarrow> 'a pgM) \<Rightarrow> 'a pgM" where
  "inSwitchBuilder cases m =
    bindM AllocLabel (\<lambda>l.
      inLabelContext (namedTarget (Some l) BREAK_LABEL)
        (bindM (AllocLabels cases) (\<lambda>ls.
           bindM (m \<lparr>sbEnd = l, caseLabels = ls\<rparr>) (\<lambda>a. thenM (SetLabel l) (ret a)))))"

definition JumpIfCase :: "calls \<Rightarrow> vreg \<Rightarrow> nodeRef \<Rightarrow> nodeRef \<Rightarrow> label \<Rightarrow> unit pgM" where
  "JumpIfCase c tag caseNode test caseLabel =
    seqM [compileNode c test, Condition caseNode PUNCTUATOR_NOT_STRICT_EQUAL tag caseLabel]"

definition JumpToDefault :: "nodeRef \<Rightarrow> label \<Rightarrow> unit pgM" where
  "JumpToDefault caseNode caseLabel = Branch caseNode caseLabel"

definition CompileTagOfSwitch :: "calls \<Rightarrow> nodeRef \<Rightarrow> vreg \<Rightarrow> unit pgM" where
  "CompileTagOfSwitch c discriminant tag =
    seqM [compileNode c discriminant, StoreAccumulator discriminant tag]"

definition CompileCaseStatements :: "calls \<Rightarrow> nodeRef list \<Rightarrow> unit pgM" where
  "CompileCaseStatements c stmts = forM (compileNode c) stmts"

definition switchBreak :: "nodeRef \<Rightarrow> switchBuilder \<Rightarrow> unit pgM" where
  "switchBreak stmt sb = Branch stmt (sbEnd sb)"

section \<open>Template objects\<close>

definition StoreQuasi :: "vreg \<Rightarrow> vreg \<Rightarrow> vreg \<Rightarrow> nat \<times> nodeRef \<Rightarrow> unit pgM" where
  "StoreQuasi indexReg rawArr cookedArr =
    (\<lambda>(i, element). bindM (getNode element) (\<lambda>x. case x of
       Base (TemplateElement raw cooked) \<Rightarrow>
         seqM [LoadAccumulatorInt element (int i), StoreAccumulator element indexReg,
               LoadAccumulatorString element raw, StoreObjByValue element rawArr indexReg,
               LoadAccumulatorString element cooked, StoreObjByValue element cookedArr indexReg]
     | _ \<Rightarrow> undefinedM))"

definition TemplateObject :: "nodeRef \<Rightarrow> nodeRef \<Rightarrow> nodeRef list \<Rightarrow> unit pgM" where
  "TemplateObject lit quasi quasis =
    inRegScope (bindM AllocReg (\<lambda>templateArg. bindM AllocReg (\<lambda>indexReg.
      bindM AllocReg (\<lambda>rawArr. bindM AllocReg (\<lambda>cookedArr.
        seqM [CreateEmptyArray quasi, StoreAccumulator quasi rawArr,
              CreateEmptyArray quasi, StoreAccumulator quasi cookedArr,
              forM (StoreQuasi indexReg rawArr cookedArr) (zip [0..<length quasis] quasis),
              CreateEmptyArray lit, StoreAccumulator lit templateArg,
              LoadAccumulatorInt lit 0, StoreAccumulator lit indexReg,
              LoadAccumulator lit rawArr, StoreObjByValue lit templateArg indexReg,
              LoadAccumulatorInt lit 1, StoreAccumulator lit indexReg,
              LoadAccumulator lit cookedArr, StoreObjByValue lit templateArg indexReg,
              GetTemplateObject lit templateArg])))))"

section \<open>References\<close>

datatype referenceKind = MEMBER | VAR_OR_GLOBAL | DESTRUCTURING

record lReference =
  lrNode :: nodeRef
  lrKind :: referenceKind
  lrResult :: scopeFindResult
  lrObj :: vreg
  lrProp :: operand
  lrIsDeclaration :: bool

definition noResult :: scopeFindResult where
  "noResult = \<lparr>frName = [], frScope = None, frLevel = 0, frLexLevel = 0, frVariable = None\<rparr>"

text \<open>\<open>MemberExpression::CompileObject\<close> and \<open>CompileKey\<close>\<close>

definition CompileObject :: "calls \<Rightarrow> nodeRef \<Rightarrow> nodeRef \<Rightarrow> vreg \<Rightarrow> unit pgM" where
  "CompileObject c member obj dest = seqM [compileNode c obj, StoreAccumulator member dest]"

definition CompileKey :: "calls \<Rightarrow> nodeRef \<Rightarrow> bool \<Rightarrow> operand pgM" where
  "CompileKey c property computed = ToPropertyKey c property computed"

definition newLReference :: "calls \<Rightarrow> nodeRef \<Rightarrow> bool \<Rightarrow> referenceKind \<Rightarrow> scopeFindResult \<Rightarrow> lReference pgM" where
  "newLReference c node isDeclaration kind res =
    (let ref = \<lparr>lrNode = node, lrKind = kind, lrResult = res, lrObj = 0, lrProp = Reg 0,
                lrIsDeclaration = isDeclaration\<rparr>
     in if kind \<noteq> MEMBER then ret ref
        else bindM AllocReg (\<lambda>obj. bindM (getNode node) (\<lambda>x. case x of
          Expr (MemberExpression object property computed) \<Rightarrow>
            thenM (CompileObject c node object obj)
              (bindM (CompileKey c property computed) (\<lambda>prop. ret (ref\<lparr>lrObj := obj, lrProp := prop\<rparr>)))
        | _ \<Rightarrow> undefinedM)))"

definition memberObject :: "node \<Rightarrow> nodeRef option" where
  "memberObject x = (case x of Expr (MemberExpression object _ _) \<Rightarrow> Some object | _ \<Rightarrow> None)"

definition GetValue :: "lReference \<Rightarrow> unit pgM" where
  "GetValue ref =
    (case lrKind ref of
       VAR_OR_GLOBAL \<Rightarrow> LoadVar (lrNode ref) (lrResult ref)
     | MEMBER \<Rightarrow> LoadObjProperty (lrNode ref) (lrObj ref) (lrProp ref)
     | DESTRUCTURING \<Rightarrow> undefinedM)"

definition SetValue :: "calls \<Rightarrow> lReference \<Rightarrow> unit pgM" where
  "SetValue c ref =
    (case lrKind ref of
       VAR_OR_GLOBAL \<Rightarrow> StoreVar (lrNode ref) (lrResult ref) (lrIsDeclaration ref)
     | MEMBER \<Rightarrow> bindM (getM ast) (\<lambda>t.
         bindM (deref (memberObject (nodeOf t (lrNode ref)))) (\<lambda>object.
           if IsSuperExpression (nodeOf t object) then StoreSuperProperty (lrNode ref) (lrObj ref) (lrProp ref)
           else StoreObjProperty (lrNode ref) (lrObj ref) (lrProp ref)))
     | DESTRUCTURING \<Rightarrow> destructCall c (lrNode ref))"

text \<open>\<open>CreateLRef\<close> descends to what is assigned; a node has at most \<open>nNodes\<close> nodes below it.\<close>

fun CreateLRef_loop :: "nat \<Rightarrow> calls \<Rightarrow> nodeRef \<Rightarrow> bool \<Rightarrow> lReference pgM" where
  "CreateLRef_loop 0 c node isDeclaration = out_of_fuel"
| "CreateLRef_loop (Suc k) c node isDeclaration =
    bindM (getM ast) (\<lambda>t. case nodeOf t node of
        Expr (Identifier n _) \<Rightarrow>
          bindM (findName n) (newLReference c node isDeclaration VAR_OR_GLOBAL)
      | Expr (MemberExpression _ _ _) \<Rightarrow> newLReference c node False MEMBER noResult
      | Stmt (VariableDeclaration _ (d # _)) \<Rightarrow>
          (case nodeOf t d of Stmt (VariableDeclarator target _) \<Rightarrow> CreateLRef_loop k c target True
           | _ \<Rightarrow> undefinedM)
      | Stmt (VariableDeclarator target _) \<Rightarrow> CreateLRef_loop k c target True
      | Expr (ArrayPattern _ _) \<Rightarrow> newLReference c node isDeclaration DESTRUCTURING noResult
      | Expr (ObjectPattern _ _) \<Rightarrow> newLReference c node isDeclaration DESTRUCTURING noResult
      | Expr (AssignmentPattern target _) \<Rightarrow> CreateLRef_loop k c target True
      | Base (RestElement target) \<Rightarrow> CreateLRef_loop k c target True
      | _ \<Rightarrow> undefinedM)"

definition CreateLRef :: "calls \<Rightarrow> nodeRef \<Rightarrow> bool \<Rightarrow> lReference pgM" where
  "CreateLRef c node isDeclaration =
    bindM (getM (\<lambda>g. nNodes (ast g))) (\<lambda>n. CreateLRef_loop (Suc n) c node isDeclaration)"

section \<open>Destructuring\<close>

text \<open>The target of an element and its default value.\<close>

definition targetOf :: "astTable \<Rightarrow> nodeRef \<Rightarrow> nodeRef \<times> nodeRef option" where
  "targetOf t e = (case nodeOf t e of Expr (AssignmentPattern l r) \<Rightarrow> (l, Some r) | _ \<Rightarrow> (e, None))"

text \<open>The value in the accumulator, kept in a register, or the default if it is undefined.\<close>

definition withDefault :: "calls \<Rightarrow> nodeRef \<Rightarrow> vreg \<Rightarrow> nodeRef option \<Rightarrow> (label \<times> label) pgM \<Rightarrow> unit pgM" where
  "withDefault c element value init labels =
    (case init of None \<Rightarrow> ret ()
     | Some d \<Rightarrow> bindM labels (\<lambda>(getDefault, store).
         seqM [BranchIfUndefined element getDefault,
               LoadAccumulator element value,
               Branch element store,
               SetLabel getDefault,
               compileNode c d,
               SetLabel store]))"

definition GenRestElement :: "calls \<Rightarrow> nodeRef \<Rightarrow> destructuringIterator \<Rightarrow> bool \<Rightarrow> unit pgM" where
  "GenRestElement c restElement iter isDeclaration =
    bindM AllocReg (\<lambda>arr. bindM AllocReg (\<lambda>index. bindM AllocLabel (\<lambda>continue. bindM AllocLabel (\<lambda>finished.
      bindM (CreateLRef c restElement isDeclaration) (\<lambda>lref.
        seqM [CreateEmptyArray restElement,
              StoreAccumulator restElement arr,
              LoadAccumulatorInt restElement 0,
              StoreAccumulator restElement index,
              SetLabel continue,
              Step c iter (Some finished),
              StoreObjByValue restElement arr index,
              LoadAccumulatorInt restElement 1,
              Binary restElement PUNCTUATOR_PLUS index,
              StoreAccumulator restElement index,
              Branch restElement continue,
              SetLabel finished,
              LoadAccumulator restElement arr,
              SetValue c lref])))))"

primrec GenElements_loop ::
  "calls \<Rightarrow> astTable \<Rightarrow> destructuringIterator \<Rightarrow> bool \<Rightarrow> nodeRef list \<Rightarrow> unit pgM" where
  "GenElements_loop c t iter isDeclaration [] = ret ()"
| "GenElements_loop c t iter isDeclaration (e # es) =
    (if IsRestElement (nodeOf t e) then inRegScope (GenRestElement c e iter isDeclaration)
     else thenM
       (inRegScope
         (if IsOmittedExpression (nodeOf t e) then Step c iter None
          else let (target, init) = targetOf t e in
            bindM (CreateLRef c target isDeclaration) (\<lambda>lref.
              seqM [Step c iter None,
                    withDefault c e (diResult iter) init
                      (bindM AllocLabel (\<lambda>assignValue. bindM AllocLabel (\<lambda>defaultInit.
                         ret (defaultInit, assignValue)))),
                    SetValue c lref])))
       (GenElements_loop c t iter isDeclaration es))"

definition GenArray :: "calls \<Rightarrow> nodeRef \<Rightarrow> nodeRef list \<Rightarrow> bool \<Rightarrow> unit pgM" where
  "GenArray c array elements isDeclaration =
    bindM (newDestructuringIterator array) (\<lambda>iter.
      let it = diIterator iter in
      if elements = [] then Close c it False
      else inTryContext None False (\<lambda>ct _. bindM (getM ast) (\<lambda>t.
        thenM (seqM [SetLabel (tryBegin ct),
                     GenElements_loop c t iter isDeclaration elements,
                     SetLabel (tryEnd ct),
                     LoadAccumulator array (diDone iter),
                     BranchIfTrue array (catchEnd ct),
                     Close c it False,
                     Branch array (catchEnd ct)])
          (bindM AllocLabel (\<lambda>l.
             seqM [SetLabel (catchBegin ct),
                   StoreAccumulator array (diResult iter),
                   LoadAccumulator array (diDone iter),
                   BranchIfTrue array l,
                   LoadAccumulator array (diResult iter),
                   Close c it True,
                   SetLabel l,
                   LoadAccumulator array (diResult iter),
                   EmitThrow array,
                   SetLabel (catchEnd ct)])))))"

definition propertyParts :: "node \<Rightarrow> (nodeRef \<times> nodeRef) option" where
  "propertyParts x = (case x of Base (Property _ key value _ _) \<Rightarrow> Some (key, value) | _ \<Rightarrow> None)"

definition GenObjectProperty :: "calls \<Rightarrow> bool \<Rightarrow> nodeRef \<Rightarrow> vreg \<Rightarrow> vreg \<Rightarrow> unit pgM" where
  "GenObjectProperty c isDeclaration element value propReg =
    inRegScope (bindM AllocReg (\<lambda>loadedValue. bindM (getM ast) (\<lambda>t.
      bindM (deref (propertyParts (nodeOf t element))) (\<lambda>(key, propValue).
        let (target, init) = targetOf t propValue in
        thenM (seqM [case nodeOf t key of
                       Expr (Identifier n _) \<Rightarrow> LoadAccumulatorString key n
                     | _ \<Rightarrow> compileNode c key,
                     StoreAccumulator key propReg])
          (bindM (CreateLRef c target isDeclaration) (\<lambda>lref.
             seqM [LoadObjByValue element value propReg,
                   StoreAccumulator element loadedValue,
                   withDefault c element loadedValue init
                     (bindM AllocLabel (\<lambda>getDefault. bindM AllocLabel (\<lambda>store. ret (getDefault, store)))),
                   SetValue c lref]))))))"

primrec GenObjectWithRest_loop ::
  "calls \<Rightarrow> astTable \<Rightarrow> bool \<Rightarrow> vreg \<Rightarrow> vreg \<Rightarrow> nat \<Rightarrow> nodeRef list \<Rightarrow> unit pgM" where
  "GenObjectWithRest_loop c t isDeclaration rhs propStart n [] = ret ()"
| "GenObjectWithRest_loop c t isDeclaration rhs propStart n (e # es) =
    (if IsRestElement (nodeOf t e) then
       inRegScope (bindM (CreateLRef c e isDeclaration) (\<lambda>lref.
         seqM [CreateObjectWithExcludedKeys e rhs propStart (n - 1), SetValue c lref]))
     else bindM AllocReg (\<lambda>propReg.
       thenM (GenObjectProperty c isDeclaration e rhs propReg)
             (GenObjectWithRest_loop c t isDeclaration rhs propStart n es)))"

definition GenObjectWithRest :: "calls \<Rightarrow> nodeRef list \<Rightarrow> bool \<Rightarrow> vreg \<Rightarrow> unit pgM" where
  "GenObjectWithRest c properties isDeclaration rhs =
    inRegScope (bindM (getM NextReg) (\<lambda>propStart. bindM (getM ast) (\<lambda>t.
      GenObjectWithRest_loop c t isDeclaration rhs propStart (length properties) properties)))"

definition GenObject :: "calls \<Rightarrow> nodeRef \<Rightarrow> nodeRef list \<Rightarrow> bool \<Rightarrow> vreg \<Rightarrow> unit pgM" where
  "GenObject c object properties isDeclaration rhs =
    bindM (getM ast) (\<lambda>t.
      let hasRest = (properties \<noteq> [] \<and> IsRestElement (nodeOf t (last properties))) in
      thenM (whenM (properties = [] \<or> hasRest)
               (bindM AllocLabel (\<lambda>notNullish.
                  seqM [LoadAccumulator object rhs,
                        BranchIfCoercible object notNullish,
                        ThrowObjectNonCoercible object,
                        SetLabel notNullish])))
        (if hasRest then GenObjectWithRest c properties isDeclaration rhs
         else forM (\<lambda>e. inRegScope (bindM AllocReg (GenObjectProperty c isDeclaration e rhs))) properties))"

definition Destructuring_Compile :: "calls \<Rightarrow> nodeRef \<Rightarrow> unit pgM" where
  "Destructuring_Compile c pattern =
    inRegScope (bindM AllocReg (\<lambda>rhs. bindM (getNode pattern) (\<lambda>x.
      seqM [StoreAccumulator pattern rhs,
            case x of
              Expr (ArrayPattern elements isDeclaration) \<Rightarrow> GenArray c pattern elements isDeclaration
            | Expr (ObjectPattern properties isDeclaration) \<Rightarrow> GenObject c pattern properties isDeclaration rhs
            | _ \<Rightarrow> undefinedM,
            LoadAccumulator pattern rhs])))"

end
