(* ===== verification/BitSet.thy ===== *)
theory BitSet
  imports Prelude
begin

text \<open>
  \<open>util/bitset.h\<close> and \<open>bitset.cpp\<close>: a set of positions below a size, a bit each in an array of bytes.

  Reading or writing outside the array is undefined: \<open>None\<close>.  The locale \<open>position_set\<close> is what the
  compiler of object literals and classes relies on, and \<open>bits\<close> its interpretation on the code's array.
\<close>

section \<open>The array\<close>

record bitSet =
  bsData :: "byte list"
  bsSize :: nat

abbreviation (input) shiftOffset :: nat where "shiftOffset \<equiv> 3"
abbreviation (input) shiftMask :: nat where "shiftMask \<equiv> 7"

definition DataSize :: "nat \<Rightarrow> nat" where
  "DataSize n = drop_bit shiftOffset n + 1"

definition newBitSet :: "nat \<Rightarrow> bitSet" where
  "newBitSet n = \<lparr>bsData = replicate (DataSize n) 0, bsSize = n\<rparr>"

definition ClearBits :: "bitSet \<Rightarrow> bool \<Rightarrow> bitSet" where
  "ClearBits b value = b\<lparr>bsData := replicate (DataSize (bsSize b)) (if value then push_bit 8 1 - 1 else 0)\<rparr>"

definition SetBitTo :: "bitSet \<Rightarrow> nat \<Rightarrow> bool \<Rightarrow> bitSet option" where
  "SetBitTo b pos value =
    (let idx = drop_bit shiftOffset pos; slot = pos AND shiftMask; xs = bsData b
     in if length xs \<le> idx then None
        else Some (b\<lparr>bsData :=
               xs[idx := (if value then xs ! idx OR push_bit slot 1 else xs ! idx AND NOT (push_bit slot 1))]\<rparr>))"

definition SetBit :: "bitSet \<Rightarrow> nat \<Rightarrow> bitSet option" where
  "SetBit b pos = SetBitTo b pos True"

definition TestBit :: "bitSet \<Rightarrow> nat \<Rightarrow> bool option" where
  "TestBit b pos =
    (let idx = drop_bit shiftOffset pos; slot = pos AND shiftMask
     in if length (bsData b) \<le> idx then None else Some (bsData b ! idx AND push_bit slot 1 \<noteq> 0))"

section \<open>The interface\<close>

locale position_set =
  fixes new_set :: "nat \<Rightarrow> 's"
    and clear_set :: "'s \<Rightarrow> bool \<Rightarrow> 's"
    and put :: "'s \<Rightarrow> nat \<Rightarrow> bool \<Rightarrow> 's option"
    and has :: "'s \<Rightarrow> nat \<Rightarrow> bool option"
    and members :: "'s \<Rightarrow> nat set"
    and sized :: "nat \<Rightarrow> 's \<Rightarrow> bool"
  assumes new_sized: "sized n (new_set n)"
    and new_members: "members (new_set n) = {}"
    and clear_sized: "sized n s \<Longrightarrow> sized n (clear_set s v)"
    and clear_members: "sized n s \<Longrightarrow> members (clear_set s v) = (if v then {..<n} else {})"
    and put_some: "sized n s \<Longrightarrow> pos < n \<Longrightarrow> \<exists>s'. put s pos v = Some s'"
    and put_sized: "sized n s \<Longrightarrow> pos < n \<Longrightarrow> put s pos v = Some s' \<Longrightarrow> sized n s'"
    and put_members: "sized n s \<Longrightarrow> pos < n \<Longrightarrow> put s pos v = Some s' \<Longrightarrow>
      members s' = (if v then insert pos (members s) else members s - {pos})"
    and has_iff: "sized n s \<Longrightarrow> pos < n \<Longrightarrow> has s pos = Some (pos \<in> members s)"
begin

text \<open>Putting positions one after the other.\<close>

primrec put_all :: "'s \<Rightarrow> (nat \<times> bool) list \<Rightarrow> 's option" where
  "put_all s [] = Some s"
| "put_all s (x # xs) = (case put s (fst x) (snd x) of None \<Rightarrow> None | Some s' \<Rightarrow> put_all s' xs)"

primrec final_members :: "nat set \<Rightarrow> (nat \<times> bool) list \<Rightarrow> nat set" where
  "final_members A [] = A"
| "final_members A (x # xs) = final_members (if snd x then insert (fst x) A else A - {fst x}) xs"

lemma put_all_members:
  assumes "sized n s" and "\<forall>x \<in> set xs. fst x < n"
  shows "\<exists>s'. put_all s xs = Some s' \<and> sized n s' \<and> members s' = final_members (members s) xs"
  using assms
proof (induction xs arbitrary: s)
  case Nil
  then show ?case by simp
next
  case (Cons x xs)
  then have n: "fst x < n" by simp
  obtain s1 where s1: "put s (fst x) (snd x) = Some s1" using put_some [OF Cons.prems(1) n] by blast
  show ?case
    using Cons.IH [OF put_sized [OF Cons.prems(1) n s1]] Cons.prems(2)
    by (simp add: s1 put_members [OF Cons.prems(1) n s1])
qed

lemma put_all_has:
  assumes "\<forall>x \<in> set xs. fst x < n" and "pos < n"
  shows "\<exists>s'. put_all (new_set n) xs = Some s' \<and> has s' pos = Some (pos \<in> final_members {} xs)"
  using put_all_members [OF new_sized assms(1)] has_iff [OF _ assms(2)] by (auto simp: new_members)

end

section \<open>The array is a set\<close>

definition bitMembers :: "bitSet \<Rightarrow> nat set" where
  "bitMembers b = {pos. pos < bsSize b \<and> bit (bsData b ! (pos div 8)) (pos mod 8)}"

definition bitSized :: "nat \<Rightarrow> bitSet \<Rightarrow> bool" where
  "bitSized n b \<longleftrightarrow> bsSize b = n \<and> length (bsData b) = DataSize n"

lemma index_slot: "drop_bit 3 (pos::nat) = pos div 8" "pos AND 7 = pos mod (8::nat)"
proof -
  have "pos AND 7 = take_bit 3 pos" by (simp add: take_bit_eq_mask mask_eq_exp_minus_1)
  then show "pos AND 7 = pos mod (8::nat)" by (simp add: take_bit_eq_mod)
qed (simp add: drop_bit_eq_div)

lemma in_array: "pos < n \<Longrightarrow> pos div 8 < DataSize n"
  by (simp add: DataSize_def index_slot div_le_mono le_imp_less_Suc)

lemma byte_bit: "slot < 8 \<Longrightarrow> bit (2 ^ slot :: byte) k \<longleftrightarrow> k = slot"
  by (auto simp: bit_exp_iff)

lemma test_byte: "slot < 8 \<Longrightarrow> (w AND 2 ^ slot = 0) \<longleftrightarrow> \<not> bit (w::byte) slot"
  by (rule and_exp_eq_0_iff_not_bit)

lemma same_slot: "pos div 8 = p div 8 \<Longrightarrow> pos mod 8 = p mod (8::nat) \<longleftrightarrow> pos = p"
  by (metis div_mult_mod_eq)

lemma byte_mask: "k < 8 \<Longrightarrow> bit (255 :: byte) k"
proof -
  assume "k < 8"
  moreover have "(255 :: byte) = mask 8" by (simp add: mask_eq_exp_minus_1)
  ultimately show ?thesis by (simp only: bit_mask_iff) simp
qed

lemma set_byte:
  assumes "slot < 8"
  shows "bit (w OR 2 ^ slot) k \<longleftrightarrow> k = slot \<or> bit (w::byte) k"
    and "bit (w AND NOT (2 ^ slot)) k \<longleftrightarrow> k \<noteq> slot \<and> bit (w::byte) k"
  using assms by (auto simp: bit_or_iff bit_and_iff bit_not_iff byte_bit dest: bit_imp_le_length)

lemma SetBitTo_in_range:
  assumes "bitSized n b" and "pos < n"
  shows "\<exists>b'. SetBitTo b pos v = Some b'"
  using assms in_array [OF assms(2)] by (auto simp: SetBitTo_def bitSized_def index_slot Let_def)

lemma SetBitTo_effect:
  assumes "bitSized n b" and "pos < n" and "SetBitTo b pos v = Some b'"
  shows "bitSized n b'" and "bitMembers b' = (if v then insert pos (bitMembers b) else bitMembers b - {pos})"
proof -
  have l: "pos div 8 < length (bsData b)" using assms(1) in_array [OF assms(2)] by (simp add: bitSized_def)
  have s: "pos mod 8 < 8" by simp
  have b': "b' = b\<lparr>bsData := (bsData b)[pos div 8 :=
      (if v then bsData b ! (pos div 8) OR push_bit (pos mod 8) 1
       else bsData b ! (pos div 8) AND NOT (push_bit (pos mod 8) 1))]\<rparr>"
    using assms(3) l by (simp add: SetBitTo_def index_slot Let_def)
  show "bitSized n b'" using assms(1) by (simp add: b' bitSized_def)
  have "bit (bsData b' ! (p div 8)) (p mod 8) \<longleftrightarrow>
      (if p = pos then v else bit (bsData b ! (p div 8)) (p mod 8))" for p
  proof (cases "p div 8 = pos div 8")
    case True
    then show ?thesis using l by (simp add: b' set_byte [OF s] same_slot [OF True])
  next
    case False
    then show ?thesis by (auto simp: b')
  qed
  then show "bitMembers b' = (if v then insert pos (bitMembers b) else bitMembers b - {pos})"
    using assms(1,2) by (auto simp: bitMembers_def b' bitSized_def)
qed

lemma TestBit_member: "bitSized n b \<Longrightarrow> pos < n \<Longrightarrow> TestBit b pos = Some (pos \<in> bitMembers b)"
  using in_array [of pos n] by (simp add: TestBit_def bitSized_def index_slot Let_def test_byte bitMembers_def)

lemma cleared_byte: "pos < n \<Longrightarrow> replicate (DataSize n) w ! (pos div 8) = w"
  by (simp add: in_array)

interpretation bits: position_set newBitSet ClearBits SetBitTo TestBit bitMembers bitSized
proof unfold_locales
  fix n s v pos s'
  show "bitSized n (newBitSet n)" by (simp add: bitSized_def newBitSet_def)
  show "bitMembers (newBitSet n) = {}" by (simp add: bitMembers_def newBitSet_def cleared_byte)
  assume s: "bitSized n s"
  show "bitSized n (ClearBits s v)" using s by (simp add: bitSized_def ClearBits_def)
  show "bitMembers (ClearBits s v) = (if v then {..<n} else {})"
  proof -
    have "bit (bsData (ClearBits s v) ! (p div 8)) (p mod 8) \<longleftrightarrow> v" if "p < n" for p
      using s that by (simp add: ClearBits_def bitSized_def cleared_byte byte_mask del: push_bit_of_1)
    then show ?thesis using s by (auto simp: bitMembers_def bitSized_def ClearBits_def)
  qed
  assume pos: "pos < n"
  show "\<exists>s'. SetBitTo s pos v = Some s'" by (rule SetBitTo_in_range [OF s pos])
  show "TestBit s pos = Some (pos \<in> bitMembers s)" by (rule TestBit_member [OF s pos])
  assume e: "SetBitTo s pos v = Some s'"
  show "bitSized n s'" by (rule SetBitTo_effect(1) [OF s pos e])
  show "bitMembers s' = (if v then insert pos (bitMembers s) else bitMembers s - {pos})"
    by (rule SetBitTo_effect(2) [OF s pos e])
qed

text \<open>C40: after any sequence of writes to positions below its size, a bit set of the code answers for every
  position below its size, no read or write having left its array of bytes, and the answer is that of the
  abstract set the writes make: the last write to the position counts, an unwritten position is absent.\<close>

theorem bit_set_is_a_set:
  assumes "\<forall>x \<in> set xs. fst x < n" and "pos < n"
  shows "\<exists>b. bits.put_all (newBitSet n) xs = Some b \<and> TestBit b pos = Some (pos \<in> bits.final_members {} xs)"
  by (rule bits.put_all_has [OF assms])

lemma bit_set_is_a_set_witness:
  "\<exists>b. bits.put_all (newBitSet 12) [(3, True), (11, True), (3, False)] = Some b \<and>
       TestBit b 11 = Some (11 \<in> bits.final_members {} [(3, True), (11, True), (3, False)])"
  using bit_set_is_a_set [of "[(3, True), (11, True), (3, False)]" 12 11] by simp

end
