(* ===== verification/Expressions.thy ===== *)
theory Expressions
  imports Patterns BitSet
begin

text \<open>
  The \<open>Compile\<close> methods of expressions (\<open>ir/expressions\<close>, \<open>ir/base/classDefinition.cpp\<close>,
  \<open>ir/base/metaProperty.cpp\<close>): a definition for each class, with the node itself and the members it reads.
\<close>

section \<open>Literals\<close>

definition NumberLiteral_Compile :: "nodeRef \<Rightarrow> double \<Rightarrow> unit pgM" where
  "NumberLiteral_Compile node d =
    (if isnan d then LoadConst node JS_NAN
     else if \<not> isfinite d then LoadConst node JS_INFINITY
     else if IsInteger32 d then LoadAccumulatorInt node (doubleToInt d)
     else LoadAccumulatorFloat node d)"

definition RegExpLiteral_Compile :: "nodeRef \<Rightarrow> name \<Rightarrow> name \<Rightarrow> unit pgM" where
  "RegExpLiteral_Compile node pattern flags =
    inRegScope (bindM AllocReg (\<lambda>ctor. bindM AllocReg (\<lambda>newTarget. bindM AllocReg (\<lambda>patternReg.
      seqM [TryLoadGlobalByName node (asciiText ''RegExp''),
            StoreAccumulator node ctor,
            StoreAccumulator node newTarget,
            LoadAccumulatorString node pattern,
            StoreAccumulator node patternReg,
            if flags \<noteq> [] then
              bindM AllocReg (\<lambda>flag.
                seqM [LoadAccumulatorString node flags, StoreAccumulator node flag, NewObject node ctor 4])
            else NewObject node ctor 3]))))"

definition Literal_Compile :: "nodeRef \<Rightarrow> literal \<Rightarrow> unit pgM" where
  "Literal_Compile node l =
    (case l of
       BigIntLiteral \<Rightarrow> unimplemented
     | BooleanLiteral b \<Rightarrow> LoadConst node (if b then JS_TRUE else JS_FALSE)
     | NullLiteral \<Rightarrow> LoadConst node JS_NULL
     | NumberLiteral d _ \<Rightarrow> NumberLiteral_Compile node d
     | RegExpLiteral pattern flags \<Rightarrow> RegExpLiteral_Compile node pattern flags
     | StringLiteral s \<Rightarrow> LoadAccumulatorString node s)"

section \<open>Names and members\<close>

definition Identifier_Compile :: "nodeRef \<Rightarrow> name \<Rightarrow> unit pgM" where
  "Identifier_Compile node n =
    bindM (findName n) (\<lambda>res.
      if frVariable res \<noteq> None then LoadVar node res
      else if n = asciiText ''NaN'' then LoadConst node JS_NAN
      else if n = asciiText ''Infinity'' then LoadConst node JS_INFINITY
      else if n = asciiText ''globalThis'' then LoadConst node JS_GLOBAL
      else if n = asciiText ''undefined'' then LoadConst node JS_UNDEFINED
      else TryLoadGlobalByName node n)"

definition MemberExpression_CompileTo :: "calls \<Rightarrow> nodeRef \<Rightarrow> nodeRef \<Rightarrow> nodeRef \<Rightarrow> bool \<Rightarrow> vreg \<Rightarrow> unit pgM" where
  "MemberExpression_CompileTo c node object property computed objReg =
    thenM (CompileObject c node object objReg)
      (bindM (CompileKey c property computed) (\<lambda>prop. bindM (getNode object) (\<lambda>x.
         if IsSuperExpression x then LoadSuperProperty node objReg prop else LoadObjProperty node objReg prop)))"

definition MemberExpression_Compile :: "calls \<Rightarrow> nodeRef \<Rightarrow> nodeRef \<Rightarrow> nodeRef \<Rightarrow> bool \<Rightarrow> unit pgM" where
  "MemberExpression_Compile c node object property computed =
    inRegScope (bindM AllocReg (MemberExpression_CompileTo c node object property computed))"

definition checkSuperCalled :: "nodeRef \<Rightarrow> unit pgM" where
  "checkSuperCalled node =
    bindM (getM ast) (\<lambda>t. whenM (containingConstructor t node \<noteq> None) (ThrowIfSuperNotCorrectCall node 0))"

definition SuperExpression_Compile :: "nodeRef \<Rightarrow> unit pgM" where
  "SuperExpression_Compile node = seqM [GetThis node, checkSuperCalled node]"

definition ThisExpression_Compile :: "nodeRef \<Rightarrow> unit pgM" where
  "ThisExpression_Compile node =
    seqM [bindM (findName MANDATORY_PARAM_THIS) (LoadAccFromLexEnv node), checkSuperCalled node]"

definition MetaProperty_Compile :: "nodeRef \<Rightarrow> bool \<Rightarrow> unit pgM" where
  "MetaProperty_Compile node isNewTarget = (if isNewTarget then GetNewTarget node else unimplemented)"

section \<open>Functions\<close>

definition FunctionExpression_Compile :: "nodeRef \<Rightarrow> unit pgM" where
  "FunctionExpression_Compile func =
    bindM (getM ast) (\<lambda>t. bindM (deref (scriptFunctionOf t func)) (\<lambda>f.
      bindM (scopeAt (sfScope f)) (\<lambda>sc. DefineFunction func f (internalName sc))))"

section \<open>Operators\<close>

text \<open>\<open>IsLogical\<close> compares the numbers of token types: the three logical operators are the first.\<close>

definition IsLogical :: "tokenType \<Rightarrow> bool" where
  "IsLogical op \<longleftrightarrow> op \<le> PUNCTUATOR_LOGICAL_AND"

definition BinaryExpression_CompileLogical :: "calls \<Rightarrow> nodeRef \<Rightarrow> tokenType \<Rightarrow> nodeRef \<Rightarrow> nodeRef \<Rightarrow> unit pgM" where
  "BinaryExpression_CompileLogical c node op l r =
    inRegScope (bindM AllocReg (\<lambda>lhs.
      if op = PUNCTUATOR_NULLISH_COALESCING then unimplemented
      else bindM AllocLabel (\<lambda>skipRight. bindM AllocLabel (\<lambda>endLabel.
        seqM [compileNode c l,
              StoreAccumulator node lhs,
              ToBoolean node,
              if op = PUNCTUATOR_LOGICAL_AND then BranchIfFalse node skipRight else BranchIfTrue node skipRight,
              compileNode c r,
              Branch node endLabel,
              SetLabel skipRight,
              LoadAccumulator node lhs,
              SetLabel endLabel]))))"

definition BinaryExpression_Compile :: "calls \<Rightarrow> nodeRef \<Rightarrow> tokenType \<Rightarrow> nodeRef \<Rightarrow> nodeRef \<Rightarrow> unit pgM" where
  "BinaryExpression_Compile c node op l r =
    (if IsLogical op then BinaryExpression_CompileLogical c node op l r
     else inRegScope (bindM AllocReg (\<lambda>lhs.
       seqM [compileNode c l, StoreAccumulator node lhs, compileNode c r, Binary node op lhs])))"

definition AssignmentExpression_Compile :: "calls \<Rightarrow> nodeRef \<Rightarrow> tokenType \<Rightarrow> nodeRef \<Rightarrow> nodeRef \<Rightarrow> unit pgM" where
  "AssignmentExpression_Compile c node op l r =
    inRegScope (bindM (CreateLRef c l False) (\<lambda>lref.
      thenM (if op = PUNCTUATOR_LOGICAL_AND_EQUAL \<or> op = PUNCTUATOR_LOGICAL_OR_EQUAL then unimplemented
             else if op \<noteq> PUNCTUATOR_SUBSTITUTION then
               bindM AllocReg (\<lambda>lhsReg.
                 seqM [GetValue lref, StoreAccumulator l lhsReg, compileNode c r, Binary node op lhsReg])
             else compileNode c r)
        (SetValue c lref)))"

definition ConditionalExpression_Compile :: "calls \<Rightarrow> nodeRef \<Rightarrow> nodeRef \<Rightarrow> nodeRef \<Rightarrow> nodeRef \<Rightarrow> unit pgM" where
  "ConditionalExpression_Compile c node test consequent alternate =
    bindM AllocLabel (\<lambda>falseLabel. bindM AllocLabel (\<lambda>endLabel.
      seqM [Condition_Compile c test falseLabel,
            compileNode c consequent,
            Branch node endLabel,
            SetLabel falseLabel,
            compileNode c alternate,
            SetLabel endLabel]))"

definition deletesGlobal :: "scopeFindResult \<Rightarrow> bool pgM" where
  "deletesGlobal res =
    (case frVariable res of
       None \<Rightarrow> ret True
     | Some v \<Rightarrow> bindM (deref (frScope res)) (\<lambda>s. bindM (scopeAt s) (\<lambda>sc. bindM (varAt v) (\<lambda>x.
         ret (sClass sc = GlobalScope \<and> vType x = VT_GLOBAL)))))"

definition CompileDelete :: "calls \<Rightarrow> nodeRef \<Rightarrow> nodeRef \<Rightarrow> unit pgM" where
  "CompileDelete c node arg =
    bindM (getNode arg) (\<lambda>x. case x of
      Expr (Identifier n _) \<Rightarrow>
        bindM (findName n) (\<lambda>res. bindM (deletesGlobal res) (\<lambda>b.
          if b then
            inRegScope (bindM AllocReg (\<lambda>variable. bindM AllocReg (\<lambda>global.
              seqM [LoadConst node JS_GLOBAL, StoreAccumulator node global,
                    LoadAccumulatorString node n, StoreAccumulator node variable,
                    DeleteObjProperty node global (Reg variable)])))
          else LoadConst node JS_FALSE))
    | Expr (MemberExpression object property computed) \<Rightarrow>
        inRegScope (bindM AllocReg (\<lambda>obj.
          thenM (CompileObject c arg object obj)
            (bindM (CompileKey c property computed) (DeleteObjProperty node obj))))
    | _ \<Rightarrow> seqM [compileNode c arg, LoadConst node JS_TRUE])"

definition CompileTypeof :: "calls \<Rightarrow> nodeRef \<Rightarrow> nodeRef \<Rightarrow> unit pgM" where
  "CompileTypeof c node arg =
    bindM (getNode arg) (\<lambda>x. case x of
      Expr (Identifier n _) \<Rightarrow>
        bindM (findName n) (\<lambda>res.
          if frVariable res = None then
            inRegScope (bindM AllocReg (\<lambda>global.
              seqM [LoadConst node JS_GLOBAL, StoreAccumulator node global, LoadObjByName node global n]))
          else LoadVar arg res)
    | _ \<Rightarrow> compileNode c arg)"

definition UnaryExpression_Compile :: "calls \<Rightarrow> nodeRef \<Rightarrow> tokenType \<Rightarrow> nodeRef \<Rightarrow> unit pgM" where
  "UnaryExpression_Compile c node op arg =
    (if op = KEYW_DELETE then CompileDelete c node arg
     else if op = KEYW_TYPEOF then seqM [CompileTypeof c node arg, TypeOf node]
     else if op = KEYW_VOID then seqM [compileNode c arg, LoadConst node JS_UNDEFINED]
     else seqM [compileNode c arg,
                inRegScope (bindM AllocReg (\<lambda>r. seqM [StoreAccumulator node r, Unary node op r]))])"

definition UpdateExpression_Compile :: "calls \<Rightarrow> nodeRef \<Rightarrow> tokenType \<Rightarrow> bool \<Rightarrow> nodeRef \<Rightarrow> unit pgM" where
  "UpdateExpression_Compile c node op isPrefix arg =
    inRegScope (bindM AllocReg (\<lambda>r. bindM (CreateLRef c arg False) (\<lambda>lref.
      seqM [GetValue lref, StoreAccumulator node r, Unary node op r, SetValue c lref,
            whenM (\<not> isPrefix) (ToNumber node r)])))"

definition argumentOrUndefined :: "calls \<Rightarrow> nodeRef \<Rightarrow> nodeRef option \<Rightarrow> unit pgM" where
  "argumentOrUndefined c node arg =
    (case arg of Some a \<Rightarrow> compileNode c a | None \<Rightarrow> LoadConst node JS_UNDEFINED)"

definition AwaitExpression_Compile :: "calls \<Rightarrow> nodeRef \<Rightarrow> nodeRef option \<Rightarrow> unit pgM" where
  "AwaitExpression_Compile c node arg = inRegScope (seqM [argumentOrUndefined c node arg, Await c node])"

definition YieldExpression_Compile :: "calls \<Rightarrow> nodeRef \<Rightarrow> bool \<Rightarrow> nodeRef option \<Rightarrow> unit pgM" where
  "YieldExpression_Compile c node delegate arg =
    inRegScope (seqM [argumentOrUndefined c node arg, if delegate then YieldStar c node else Yield c node])"

section \<open>Calls\<close>

definition ContainSpread :: "astTable \<Rightarrow> nodeRef list \<Rightarrow> bool" where
  "ContainSpread t args \<longleftrightarrow> list_ex (\<lambda>a. IsSpreadElement (nodeOf t a)) args"

definition CreateSpreadArguments :: "calls \<Rightarrow> nodeRef \<Rightarrow> nodeRef list \<Rightarrow> vreg pgM" where
  "CreateSpreadArguments c node args =
    bindM AllocReg (\<lambda>argsObj. thenM (CreateArray c node args argsObj) (ret argsObj))"

text \<open>\<open>super(...)\<close>: a call without arguments names a register that holds undefined.\<close>

definition CompileSuperArguments :: "calls \<Rightarrow> nodeRef \<Rightarrow> nodeRef list \<Rightarrow> unit pgM" where
  "CompileSuperArguments c node args =
    inRegScope
      (bindM (if args = [] then
                bindM AllocReg (\<lambda>r.
                  thenM (seqM [LoadConst node JS_UNDEFINED, StoreAccumulator node r]) (ret r))
              else getM NextReg) (\<lambda>argStart.
         seqM [forM (\<lambda>a. bindM AllocReg (\<lambda>arg. seqM [compileNode c a, StoreAccumulator a arg])) args,
               GetFunctionObject node,
               SuperCall node argStart (length args)]))"

definition CompileSuperCall :: "calls \<Rightarrow> nodeRef \<Rightarrow> nodeRef list \<Rightarrow> bool \<Rightarrow> unit pgM" where
  "CompileSuperCall c node args containsSpread =
    thenM (if containsSpread then
             inRegScope (bindM (CreateSpreadArguments c node args) (\<lambda>argsObj.
               seqM [GetFunctionObject node, SuperCallSpread node argsObj]))
           else CompileSuperArguments c node args)
      (bindM AllocReg (\<lambda>newThis.
         seqM [StoreAccumulator node newThis, GetThis node, ThrowIfSuperNotCorrectCall node 1,
               LoadAccumulator node newThis, SetThis node]))"

text \<open>The function called, and its receiver if it is a member.\<close>

definition CompileCallee :: "calls \<Rightarrow> nodeRef \<Rightarrow> (vreg option) pgM" where
  "CompileCallee c callee =
    bindM (getNode callee) (\<lambda>x. case x of
      Expr (MemberExpression object property computed) \<Rightarrow>
        bindM AllocReg (\<lambda>thisReg.
          thenM (inRegScope (MemberExpression_CompileTo c callee object property computed thisReg))
            (ret (Some thisReg)))
    | _ \<Rightarrow> thenM (compileNode c callee) (ret None))"

definition CompileArguments :: "calls \<Rightarrow> nodeRef list \<Rightarrow> unit pgM" where
  "CompileArguments c args =
    forM (\<lambda>a. thenM (compileNode c a) (bindM AllocReg (StoreAccumulator a))) args"

definition CallExpression_Compile :: "calls \<Rightarrow> nodeRef \<Rightarrow> nodeRef \<Rightarrow> nodeRef list \<Rightarrow> unit pgM" where
  "CallExpression_Compile c node callee args =
    inRegScope (bindM (getM ast) (\<lambda>t.
      let containsSpread = ContainSpread t args in
      if IsSuperExpression (nodeOf t callee) then CompileSuperCall c node args containsSpread
      else bindM AllocReg (\<lambda>calleeReg. bindM (CompileCallee c callee) (\<lambda>this.
        thenM (StoreAccumulator node calleeReg)
          (if containsSpread then
             bindM (case this of
                 Some r \<Rightarrow> ret r
               | None \<Rightarrow> bindM AllocReg (\<lambda>r.
                   thenM (seqM [LoadConst node JS_UNDEFINED, StoreAccumulator node r]) (ret r))) (\<lambda>thisReg.
               bindM (CreateSpreadArguments c node args) (CallSpread node calleeReg thisReg))
           else
             thenM (CompileArguments c args)
               (if this \<noteq> None then CallThis node calleeReg (length args + 1)
                else Call node calleeReg (length args)))))))"

definition NewExpression_Compile :: "calls \<Rightarrow> nodeRef \<Rightarrow> nodeRef \<Rightarrow> nodeRef list \<Rightarrow> unit pgM" where
  "NewExpression_Compile c node callee args =
    inRegScope (bindM AllocReg (\<lambda>ctor. bindM AllocReg (\<lambda>newTarget. bindM (getM ast) (\<lambda>t.
      thenM (seqM [compileNode c callee, StoreAccumulator node ctor, StoreAccumulator node newTarget])
        (if \<not> ContainSpread t args then
           seqM [forM (\<lambda>a. bindM AllocReg (\<lambda>arg. seqM [compileNode c a, StoreAccumulator node arg])) args,
                 NewObject node ctor (length args + 2)]
         else bindM AllocReg (\<lambda>argsObj.
           seqM [CreateArray c node args argsObj, NewObjSpread node ctor newTarget]))))))"

definition templateParts :: "node \<Rightarrow> (nodeRef list \<times> nodeRef list) option" where
  "templateParts x = (case x of Expr (TemplateLiteral quasis exprs) \<Rightarrow> Some (quasis, exprs) | _ \<Rightarrow> None)"

definition TaggedTemplate_Compile :: "calls \<Rightarrow> nodeRef \<Rightarrow> nodeRef \<Rightarrow> nodeRef \<Rightarrow> unit pgM" where
  "TaggedTemplate_Compile c node tag quasi =
    inRegScope (bindM AllocReg (\<lambda>callee. bindM (CompileCallee c tag) (\<lambda>this. bindM (getNode quasi) (\<lambda>x.
      bindM (deref (templateParts x)) (\<lambda>(quasis, exprs).
        thenM (seqM [StoreAccumulator node callee, TemplateObject node quasi quasis])
          (thenM (bindM AllocReg (StoreAccumulator node))
            (thenM (CompileArguments c exprs)
              (if this \<noteq> None then CallThis node callee (length exprs + 2)
               else Call node callee (length exprs + 1)))))))))"

section \<open>Templates, sequences, arrays\<close>

definition rawText :: "node \<Rightarrow> name option" where
  "rawText x = (case x of Base (TemplateElement raw _) \<Rightarrow> Some raw | _ \<Rightarrow> None)"

definition LoadQuasi :: "nodeRef \<Rightarrow> nodeRef \<Rightarrow> unit pgM" where
  "LoadQuasi node quasi =
    bindM (getNode quasi) (\<lambda>x. bindM (deref (rawText x)) (LoadAccumulatorString node))"

text \<open>The loop takes \<open>total - 1\<close> steps, an expression and a text in turn; running out of either is undefined.\<close>

fun Template_loop :: "nat \<Rightarrow> calls \<Rightarrow> nodeRef \<Rightarrow> vreg \<Rightarrow> bool \<Rightarrow> nodeRef list \<Rightarrow> nodeRef list \<Rightarrow> unit pgM" where
  "Template_loop 0 c node lhs isQuasi quasis exprs = ret ()"
| "Template_loop (Suc n) c node lhs True (q # quasis) exprs =
    thenM (seqM [StoreAccumulator q lhs, LoadQuasi node q, Binary q PUNCTUATOR_PLUS lhs])
      (Template_loop n c node lhs False quasis exprs)"
| "Template_loop (Suc n) c node lhs False quasis (e # exprs) =
    thenM (seqM [StoreAccumulator e lhs, compileNode c e, Binary e PUNCTUATOR_PLUS lhs])
      (Template_loop n c node lhs True quasis exprs)"
| "Template_loop (Suc n) c node lhs isQuasi quasis exprs = undefinedM"

definition TemplateLiteral_Compile :: "calls \<Rightarrow> nodeRef \<Rightarrow> nodeRef list \<Rightarrow> nodeRef list \<Rightarrow> unit pgM" where
  "TemplateLiteral_Compile c node quasis exprs =
    (case quasis of
       [] \<Rightarrow> undefinedM
     | q # qs \<Rightarrow>
         seqM [LoadQuasi node q,
               inRegScope (bindM AllocReg (\<lambda>lhs.
                 Template_loop (length quasis + length exprs - 1) c node lhs False qs exprs))])"

definition SequenceExpression_Compile :: "calls \<Rightarrow> nodeRef list \<Rightarrow> unit pgM" where
  "SequenceExpression_Compile c es = forM (compileNode c) es"

definition ArrayExpression_Compile :: "calls \<Rightarrow> nodeRef \<Rightarrow> nodeRef list \<Rightarrow> unit pgM" where
  "ArrayExpression_Compile c node elements = inRegScope (bindM AllocReg (CreateArray c node elements))"

section \<open>Object literals\<close>

text \<open>The properties with constant keys go to a literal buffer: the name, then the value or a place for it;
  \<open>compiled\<close> marks those whose value needs no code.\<close>

record literalState =
  lsBuffer :: "literalItem option list"
  lsNames :: "name \<rightharpoonup> nat"
  lsSeenComputed :: bool
  lsHasMethod :: bool
  lsCompiled :: bitSet

definition EmitCreateObjectWithBuffer :: "nodeRef \<Rightarrow> literalItem option list \<Rightarrow> bool \<Rightarrow> unit pgM" where
  "EmitCreateObjectWithBuffer node buf hasMethod =
    (if buf = [] then CreateEmptyObject node
     else bindM (AddLiteralBuffer buf) (\<lambda>i.
       if hasMethod then CreateObjectHavingMethod node i else CreateObjectWithBuffer node i))"

definition functionOfValue :: "astTable \<Rightarrow> nodeRef \<Rightarrow> scriptFunction option" where
  "functionOfValue t value =
    (case nodeOf t value of Expr (FunctionExpression f) \<Rightarrow> scriptFunctionOf t f | _ \<Rightarrow> None)"

definition methodTag :: "scriptFunction \<Rightarrow> literalTag" where
  "methodTag f =
    (if sfGenerator f then (if sfAsync f then TAG_ASYNC_GENERATOR_METHOD else TAG_GENERATOR_METHOD)
     else TAG_METHOD)"

definition CreateLiteral ::
  "astTable \<Rightarrow> propKind \<Rightarrow> nodeRef \<Rightarrow> bool \<Rightarrow> bitSet \<Rightarrow> nat \<Rightarrow> (literalItem \<times> bitSet) pgM" where
  "CreateLiteral t kind value isMethod compiled propIndex =
    (case constantLiteral (nodeOf t value) of
       Some l \<Rightarrow> bindM (deref (SetBit compiled propIndex)) (\<lambda>b. ret (LitNode l, b))
     | None \<Rightarrow>
         if kind \<noteq> PROP_INIT then ret (LitTagged TAG_ACCESSOR [], compiled)
         else if isMethod then
           bindM (deref (functionOfValue t value)) (\<lambda>f. bindM (deref (SetBit compiled propIndex)) (\<lambda>b.
             bindM (scopeAt (sfScope f)) (\<lambda>sc. ret (LitTagged (methodTag f) (internalName sc), b))))
         else ret (LitNull, compiled))"

text \<open>Adding a name gives its place, and whether it is new; a new name after a computed key ends the loop.\<close>

definition addName :: "name \<Rightarrow> literalState \<Rightarrow> (nat \<times> literalState) option" where
  "addName n st =
    (case lsNames st n of
       Some pos \<Rightarrow> Some (pos, st)
     | None \<Rightarrow>
         if lsSeenComputed st then None
         else Some (length (lsBuffer st),
                    st\<lparr>lsNames := (lsNames st)(n \<mapsto> length (lsBuffer st)),
                       lsBuffer := lsBuffer st @ [Some (LitString n), None]\<rparr>))"

definition putLiteral :: "nat \<Rightarrow> literalItem \<Rightarrow> literalState \<Rightarrow> literalState" where
  "putLiteral pos item st = st\<lparr>lsBuffer := (lsBuffer st)[pos + 1 := Some item]\<rparr>"

primrec StaticProperties_loop ::
  "astTable \<Rightarrow> (nat \<times> nodeRef) list \<Rightarrow> literalState \<Rightarrow> literalState pgM" where
  "StaticProperties_loop t [] st = ret st"
| "StaticProperties_loop t (ip # ips) st =
    (case nodeOf t (snd ip) of
       Base (SpreadElement _) \<Rightarrow> StaticProperties_loop t ips (st\<lparr>lsSeenComputed := True\<rparr>)
     | Base (Property kind key value isMethod computed) \<Rightarrow>
         if \<not> constantPropertyKey (nodeOf t key) computed \<or> kind = PROP_PROTO
         then StaticProperties_loop t ips (st\<lparr>lsSeenComputed := True\<rparr>)
         else bindM (deref (propertyKeyName (nodeOf t key))) (\<lambda>n.
           case addName n st of
             None \<Rightarrow> ret st
           | Some (pos, st) \<Rightarrow>
               bindM (CreateLiteral t kind value isMethod (lsCompiled st) (fst ip)) (\<lambda>(item, b).
                 StaticProperties_loop t ips
                   (putLiteral pos item (st\<lparr>lsHasMethod := lsHasMethod st \<or> isMethod, lsCompiled := b\<rparr>))))
     | _ \<Rightarrow> undefinedM)"

definition numbered :: "'a list \<Rightarrow> (nat \<times> 'a) list" where
  "numbered xs = zip [0..<length xs] xs"

definition newLiteralState :: "nat \<Rightarrow> literalState" where
  "newLiteralState n = \<lparr>lsBuffer = [], lsNames = Map.empty, lsSeenComputed = False, lsHasMethod = False,
                        lsCompiled = newBitSet n\<rparr>"

definition CompileStaticProperties :: "nodeRef \<Rightarrow> nodeRef list \<Rightarrow> bitSet pgM" where
  "CompileStaticProperties node properties =
    bindM (getM ast) (\<lambda>t.
      bindM (StaticProperties_loop t (numbered properties) (newLiteralState (length properties))) (\<lambda>st.
        thenM (EmitCreateObjectWithBuffer node (lsBuffer st) (lsHasMethod st)) (ret (lsCompiled st))))"

definition CompileAccessor :: "calls \<Rightarrow> nodeRef \<Rightarrow> propKind \<Rightarrow> nodeRef \<Rightarrow> nodeRef \<Rightarrow> bool \<Rightarrow> vreg \<Rightarrow> unit pgM" where
  "CompileAccessor c node kind key value computed objReg =
    bindM (LoadPropertyKey c key computed) (\<lambda>keyReg. bindM AllocReg (\<lambda>undef.
      thenM (seqM [LoadConst node JS_UNDEFINED, StoreAccumulator node undef])
        (bindM AllocReg (\<lambda>accessor.
           seqM [LoadAccumulator value objReg,
                 compileNode c value,
                 StoreAccumulator value accessor,
                 if kind = PROP_GET then DefineGetterSetterByValue node objReg keyReg accessor undef computed
                 else DefineGetterSetterByValue node objReg keyReg undef accessor computed]))))"

definition CompileRemainingProperty :: "calls \<Rightarrow> astTable \<Rightarrow> nodeRef \<Rightarrow> vreg \<Rightarrow> nodeRef \<Rightarrow> unit pgM" where
  "CompileRemainingProperty c t node objReg p =
    inRegScope
      (case nodeOf t p of
         Base (SpreadElement arg) \<Rightarrow>
           bindM AllocReg (\<lambda>srcObj.
             seqM [compileNode c arg, StoreAccumulator p srcObj, CopyDataProperties p objReg srcObj])
       | Base (Property kind key value isMethod computed) \<Rightarrow>
           if kind = PROP_GET \<or> kind = PROP_SET then CompileAccessor c node kind key value computed objReg
           else if kind = PROP_INIT then
             bindM (ToPropertyKey c key computed) (\<lambda>keyOp.
               seqM [whenM isMethod (LoadAccumulator value objReg),
                     compileNode c value,
                     StoreOwnProperty node objReg keyOp])
           else
             thenM (compileNode c value)
               (bindM AllocReg (\<lambda>proto.
                  seqM [StoreAccumulator node proto, SetObjectWithProto node proto objReg]))
       | _ \<Rightarrow> undefinedM)"

definition CompileRemainingProperties :: "calls \<Rightarrow> nodeRef \<Rightarrow> nodeRef list \<Rightarrow> bitSet \<Rightarrow> vreg \<Rightarrow> unit pgM" where
  "CompileRemainingProperties c node properties compiled objReg =
    bindM (getM ast) (\<lambda>t.
      seqM [forM (\<lambda>(i, p). bindM (deref (TestBit compiled i)) (\<lambda>b.
                   whenM (\<not> b) (CompileRemainingProperty c t node objReg p))) (numbered properties),
            LoadAccumulator node objReg])"

definition ObjectExpression_Compile :: "calls \<Rightarrow> nodeRef \<Rightarrow> nodeRef list \<Rightarrow> unit pgM" where
  "ObjectExpression_Compile c node properties =
    (if properties = [] then CreateEmptyObject node
     else bindM (CompileStaticProperties node properties) (\<lambda>compiled.
       inRegScope (bindM AllocReg (\<lambda>objReg.
         seqM [StoreAccumulator node objReg,
               CompileRemainingProperties c node properties compiled objReg]))))"

section \<open>Classes\<close>

definition CompileHeritageClause :: "calls \<Rightarrow> nodeRef \<Rightarrow> nodeRef option \<Rightarrow> vreg pgM" where
  "CompileHeritageClause c node superClass =
    bindM AllocReg (\<lambda>baseReg.
      thenM (seqM [case superClass of Some s \<Rightarrow> compileNode c s | None \<Rightarrow> LoadConst node JS_HOLE,
                   StoreAccumulator node baseReg])
        (ret baseReg))"

definition InitializeClassName :: "calls \<Rightarrow> nodeRef option \<Rightarrow> unit pgM" where
  "InitializeClassName c ident =
    (case ident of None \<Rightarrow> ret () | Some i \<Rightarrow> bindM (CreateLRef c i True) (SetValue c))"

text \<open>Methods with constant keys, static ones in a buffer of their own that is put behind the other.  The two
  literal states share the marks and the flag of the first.\<close>

definition classLiteral ::
  "astTable \<Rightarrow> methodKind \<Rightarrow> nodeRef \<Rightarrow> nat \<Rightarrow> bitSet \<Rightarrow> (literalItem \<times> bitSet) pgM" where
  "classLiteral t kind value i compiled =
    (case kind of
       MK_METHOD \<Rightarrow>
         bindM (deref (functionOfValue t value)) (\<lambda>f. bindM (scopeAt (sfScope f)) (\<lambda>sc.
           bindM (deref (SetBit compiled i)) (\<lambda>b. ret (LitTagged TAG_METHOD (internalName sc), b))))
     | MK_GET \<Rightarrow> ret (LitNull, compiled)
     | MK_SET \<Rightarrow> ret (LitNull, compiled)
     | MK_CONSTRUCTOR \<Rightarrow> undefinedM)"

definition withMarks :: "literalState \<Rightarrow> literalState \<Rightarrow> literalState" where
  "withMarks st new = st\<lparr>lsSeenComputed := lsSeenComputed new, lsCompiled := lsCompiled new\<rparr>"

primrec ClassProperties_loop ::
  "astTable \<Rightarrow> (nat \<times> nodeRef) list \<Rightarrow> literalState \<Rightarrow> literalState \<Rightarrow> (literalState \<times> literalState) pgM" where
  "ClassProperties_loop t [] st static = ret (st, static)"
| "ClassProperties_loop t (ip # ips) st static =
    (case nodeOf t (snd ip) of
       Base (MethodDefinition kind key value isStatic computed) \<Rightarrow>
         if \<not> constantPropertyKey (nodeOf t key) computed \<or> (computed \<and> specialPropertyKey (nodeOf t key))
         then ClassProperties_loop t ips (st\<lparr>lsSeenComputed := True\<rparr>) static
         else bindM (deref (propertyKeyName (nodeOf t key))) (\<lambda>n.
           case addName n (withMarks (if isStatic then static else st) st) of
             None \<Rightarrow> ret (st, static)
           | Some (pos, used) \<Rightarrow>
               bindM (classLiteral t kind value (fst ip) (lsCompiled used)) (\<lambda>(item, b).
                 let used = putLiteral pos item (used\<lparr>lsCompiled := b\<rparr>)
                 in if isStatic then ClassProperties_loop t ips (withMarks st used) used
                    else ClassProperties_loop t ips used static))
     | _ \<Rightarrow> ClassProperties_loop t ips st static)"

definition CreateClassStaticProperties :: "nodeRef list \<Rightarrow> (nat \<times> bitSet) pgM" where
  "CreateClassStaticProperties body =
    bindM (getM ast) (\<lambda>t.
      bindM (ClassProperties_loop t (numbered body) (newLiteralState (length body)) (newLiteralState 0)) (\<lambda>(st, static).
        let litPairs = length (lsBuffer st) div 2
        in bindM (AddLiteralBuffer (lsBuffer st @ lsBuffer static @ [Some (LitNumber litPairs)])) (\<lambda>i.
             ret (i, lsCompiled st))))"

definition CompileMissingProperty ::
  "calls \<Rightarrow> astTable \<Rightarrow> nodeRef \<Rightarrow> vreg \<Rightarrow> methodKind \<Rightarrow> nodeRef \<Rightarrow> nodeRef \<Rightarrow> bool \<Rightarrow> unit pgM" where
  "CompileMissingProperty c t node dest kind key value computed =
    inRegScope
      (case kind of
         MK_METHOD \<Rightarrow>
           bindM (ToPropertyKey c key computed) (\<lambda>keyOp.
             seqM [LoadAccumulator node dest,
                   compileNode c value,
                   StoreOwnProperty (case parentOf t value of None \<Rightarrow> nullNode | Some p \<Rightarrow> p) dest keyOp])
       | MK_CONSTRUCTOR \<Rightarrow> undefinedM
       | _ \<Rightarrow>
           bindM (LoadPropertyKey c key computed) (\<lambda>keyReg. bindM AllocReg (\<lambda>undef.
             thenM (seqM [LoadConst node JS_UNDEFINED, StoreAccumulator node undef, LoadAccumulator node dest])
               (bindM AllocReg (\<lambda>accessor.
                  seqM [compileNode c value,
                        StoreAccumulator value accessor,
                        if kind = MK_GET then DefineGetterSetterByValue node dest keyReg accessor undef computed
                        else DefineGetterSetterByValue node dest keyReg undef accessor computed])))))"

definition CompileMissingProperties :: "calls \<Rightarrow> nodeRef \<Rightarrow> nodeRef list \<Rightarrow> bitSet \<Rightarrow> vreg \<Rightarrow> unit pgM" where
  "CompileMissingProperties c node body compiled classReg =
    bindM AllocReg (\<lambda>protoReg. bindM (getM ast) (\<lambda>t.
      seqM [LoadObjByName node classReg (asciiText ''prototype''),
            StoreAccumulator node protoReg,
            forM (\<lambda>(i, p). case nodeOf t p of
                Base (MethodDefinition kind key value isStatic computed) \<Rightarrow>
                  bindM (deref (TestBit compiled i)) (\<lambda>b. whenM (\<not> b)
                    (CompileMissingProperty c t node (if isStatic then classReg else protoReg) kind key value computed))
              | _ \<Rightarrow> ret ()) (numbered body),
            LoadAccumulator node classReg]))"

definition ctorFunction :: "astTable \<Rightarrow> nodeRef \<Rightarrow> scriptFunction option" where
  "ctorFunction t ctor =
    (case nodeOf t ctor of Base (MethodDefinition _ _ value _ _) \<Rightarrow> functionOfValue t value | _ \<Rightarrow> None)"

definition identName :: "astTable \<Rightarrow> nodeRef \<Rightarrow> name option" where
  "identName t n = (case nodeOf t n of Expr (Identifier s _) \<Rightarrow> Some s | _ \<Rightarrow> None)"

definition ClassDefinition_Compile ::
  "calls \<Rightarrow> nodeRef \<Rightarrow> scopeId \<Rightarrow> nodeRef option \<Rightarrow> nodeRef option \<Rightarrow> nodeRef \<Rightarrow> nodeRef list \<Rightarrow> unit pgM" where
  "ClassDefinition_Compile c node s ident superClass ctor body =
    inRegScope (bindM AllocReg (\<lambda>classReg. bindM LexEnv (\<lambda>lexenv. inLocalRegScope s
      (bindM (CompileHeritageClause c node superClass) (\<lambda>baseReg. bindM (getM ast) (\<lambda>t.
        bindM (deref (ctorFunction t ctor)) (\<lambda>f. bindM (scopeAt (sfScope f)) (\<lambda>fs.
        bindM (CreateClassStaticProperties body) (\<lambda>(bufIdx, compiled).
        bindM (scopeAt s) (\<lambda>sc. bindM (deref (sParent sc)) (\<lambda>p. bindM (scopeAt p) (\<lambda>ps.
          seqM [DefineClassWithBuffer node (internalName fs) bufIdx lexenv baseReg,
                case ident of
                  None \<Rightarrow> ret ()
                | Some i \<Rightarrow> whenM (sClass ps = GlobalScope)
                    (bindM (deref (identName t i)) (StoreGlobalLet node)),
                StoreAccumulator node classReg,
                InitializeClassName c ident,
                CompileMissingProperties c node body compiled classReg]))))))))))))"

end
