(* ===== verification/Statements.thy ===== *)
theory Statements
  imports Expressions
begin

text \<open>
  The \<open>Compile\<close> methods of statements (\<open>ir/statements\<close>, \<open>ir/base/catchClause.cpp\<close>, \<open>ir/module\<close>), the
  dispatch on the class of a node, and the compilation of a function (\<open>compiler/core/function.cpp\<close>).

  The recursion over the tree, through the contexts and through patterns takes a bound, the depth of calls.
\<close>

section \<open>Simple statements\<close>

definition BlockStatement_Compile :: "calls \<Rightarrow> scopeId \<Rightarrow> nodeRef list \<Rightarrow> unit pgM" where
  "BlockStatement_Compile c s stmts = inLocalRegScope s (forM (compileNode c) stmts)"

text \<open>A branch needs a target: without one the instruction would hold a null label.\<close>

definition BreakStatement_Compile :: "calls \<Rightarrow> nodeRef \<Rightarrow> name option \<Rightarrow> unit pgM" where
  "BreakStatement_Compile c node l =
    bindM (ControlFlowChangeBreak c l) (\<lambda>t. bindM (deref t) (Branch node))"

definition ContinueStatement_Compile :: "calls \<Rightarrow> nodeRef \<Rightarrow> name option \<Rightarrow> unit pgM" where
  "ContinueStatement_Compile c node l =
    bindM (ControlFlowChangeContinue c l) (\<lambda>t. bindM (deref t) (Branch node))"

definition ThrowStatement_Compile :: "calls \<Rightarrow> nodeRef \<Rightarrow> nodeRef \<Rightarrow> unit pgM" where
  "ThrowStatement_Compile c node arg = seqM [compileNode c arg, EmitThrow node]"

definition isBlock :: "node \<Rightarrow> bool" where
  "isBlock x = (case x of Stmt (BlockStatement _ _) \<Rightarrow> True | _ \<Rightarrow> False)"

definition LabelledStatement_Compile :: "calls \<Rightarrow> nodeRef \<Rightarrow> name \<Rightarrow> nodeRef \<Rightarrow> unit pgM" where
  "LabelledStatement_Compile c node l body =
    bindM (getNode body) (\<lambda>x. inLabelledContext node l (isBlock x) (compileNode c body))"

definition IfStatement_Compile :: "calls \<Rightarrow> nodeRef \<Rightarrow> nodeRef \<Rightarrow> nodeRef \<Rightarrow> nodeRef option \<Rightarrow> unit pgM" where
  "IfStatement_Compile c node test consequent alternate =
    bindM AllocLabel (\<lambda>consequentEnd.
      thenM (seqM [Condition_Compile c test consequentEnd, compileNode c consequent])
        (case alternate of
           None \<Rightarrow> SetLabel consequentEnd
         | Some a \<Rightarrow> bindM AllocLabel (\<lambda>statementEnd. bindM lastInsn (\<lambda>ins.
             seqM [Branch (Node ins) statementEnd,
                   SetLabel consequentEnd,
                   compileNode c a,
                   SetLabel statementEnd]))))"

definition ReturnStatement_Compile :: "calls \<Rightarrow> nodeRef \<Rightarrow> nodeRef option \<Rightarrow> unit pgM" where
  "ReturnStatement_Compile c node arg =
    seqM [argumentOrUndefined c node arg,
          bindM CheckControlFlowChange (\<lambda>b. whenM b
            (inRegScope (bindM AllocReg (\<lambda>r.
               seqM [StoreAccumulator node r, breakAll c, LoadAccumulator node r])))),
          if arg \<noteq> None then seqM [ValidateClassDirectReturn node, DirectReturn node] else ImplicitReturn node]"

section \<open>Declarations\<close>

definition VariableDeclaration_Compile :: "calls \<Rightarrow> nodeRef list \<Rightarrow> unit pgM" where
  "VariableDeclaration_Compile c declarators = forM (compileNode c) declarators"

definition isCatchClause :: "node \<Rightarrow> bool" where
  "isCatchClause x = (case x of Base (CatchClause _ _ _) \<Rightarrow> True | _ \<Rightarrow> False)"

definition declarationKindOf :: "node \<Rightarrow> declarationKind option" where
  "declarationKindOf x = (case x of Stmt (VariableDeclaration k _) \<Rightarrow> Some k | _ \<Rightarrow> None)"

definition VariableDeclarator_Compile :: "calls \<Rightarrow> nodeRef \<Rightarrow> nodeRef \<Rightarrow> nodeRef option \<Rightarrow> unit pgM" where
  "VariableDeclarator_Compile c node target init =
    bindM (CreateLRef c target True) (\<lambda>lref. bindM (getM ast) (\<lambda>t.
      bindM (deref (parentOf t node)) (\<lambda>d. bindM (deref (declarationKindOf (nodeOf t d))) (\<lambda>kind.
        case init of
          Some i \<Rightarrow> seqM [compileNode c i, SetValue c lref]
        | None \<Rightarrow>
            if kind = VDK_VAR then ret ()
            else seqM [whenM (kind = VDK_LET)
                         (bindM (deref (parentOf t d)) (\<lambda>p.
                            whenM (\<not> isCatchClause (nodeOf t p)) (LoadConst node JS_UNDEFINED))),
                       SetValue c lref]))))"

definition ClassDeclaration_Compile :: "calls \<Rightarrow> nodeRef \<Rightarrow> unit pgM" where
  "ClassDeclaration_Compile c def =
    bindM (getNode def) (\<lambda>x. case x of
      Base (ClassDefinition _ (Some ident) _ _ _) \<Rightarrow>
        bindM (CreateLRef c ident True) (\<lambda>lref. seqM [compileNode c def, SetValue c lref])
    | _ \<Rightarrow> undefinedM)"

section \<open>Loops\<close>

definition DoWhileStatement_Compile :: "calls \<Rightarrow> nodeRef \<Rightarrow> scopeId \<Rightarrow> nodeRef \<Rightarrow> nodeRef \<Rightarrow> unit pgM" where
  "DoWhileStatement_Compile c node s body test =
    bindM AllocLabel (\<lambda>startLabel. bindM newLabelTarget (\<lambda>t.
      bindM (deref (continueTarget t)) (\<lambda>continueLbl. bindM (deref (breakTarget t)) (\<lambda>breakLbl.
        seqM [SetLabel startLabel,
              inLocalRegScope s (inLabelContext t (compileNode c body)),
              SetLabel continueLbl,
              Condition_Compile c test breakLbl,
              Branch node startLabel,
              SetLabel breakLbl]))))"

definition WhileStatement_Compile :: "calls \<Rightarrow> nodeRef \<Rightarrow> scopeId \<Rightarrow> nodeRef \<Rightarrow> nodeRef \<Rightarrow> unit pgM" where
  "WhileStatement_Compile c node s test body =
    bindM newLabelTarget (\<lambda>t.
      bindM (deref (continueTarget t)) (\<lambda>continueLbl. bindM (deref (breakTarget t)) (\<lambda>breakLbl.
        seqM [SetLabel continueLbl,
              Condition_Compile c test breakLbl,
              inLocalRegScope s (inLabelContext t (compileNode c body)),
              Branch node continueLbl,
              SetLabel breakLbl])))"

text \<open>\<open>scope_->DeclScope()\<close> and its \<open>InitScope()\<close>.\<close>

definition declScopeOf :: "scopeId \<Rightarrow> scopeId pgM" where
  "declScopeOf s = bindM (scopeAt s) (\<lambda>sc. deref (declScope sc))"

definition initScopeOf :: "scopeId \<Rightarrow> scopeId pgM" where
  "initScopeOf d = bindM (scopeAt d) (\<lambda>sc. deref (InitScope sc d))"

definition ForUpdateStatement_Compile ::
  "calls \<Rightarrow> nodeRef \<Rightarrow> scopeId \<Rightarrow> nodeRef option \<Rightarrow> nodeRef option \<Rightarrow> nodeRef option \<Rightarrow> nodeRef \<Rightarrow> unit pgM" where
  "ForUpdateStatement_Compile c node s init test update body =
    bindM (declScopeOf s) (\<lambda>d. bindM (initScopeOf d) (\<lambda>i. inLocalRegScope i
      (thenM (case init of None \<Rightarrow> ret () | Some x \<Rightarrow> compileNode c x)
        (bindM AllocLabel (\<lambda>startLabel. bindM newLabelTarget (\<lambda>t.
          bindM (deref (continueTarget t)) (\<lambda>continueLbl. bindM (deref (breakTarget t)) (\<lambda>breakLbl.
            inLoopEnv d False noTarget VF_LOOP_DECL (\<lambda>_.
              inLoopEnv s False t VF_PER_ITERATION (\<lambda>loopEnv.
                seqM [SetLabel startLabel,
                      inLocalRegScope s
                        (seqM [case test of None \<Rightarrow> ret () | Some x \<Rightarrow> Condition_Compile c x breakLbl,
                               compileNode c body,
                               SetLabel continueLbl,
                               CopyPetIterationCtx loopEnv]),
                      case update of None \<Rightarrow> ret () | Some x \<Rightarrow> compileNode c x,
                      Branch node startLabel,
                      SetLabel breakLbl]))))))))))"

definition ForInStatement_Compile :: "calls \<Rightarrow> nodeRef \<Rightarrow> scopeId \<Rightarrow> nodeRef \<Rightarrow> nodeRef \<Rightarrow> nodeRef \<Rightarrow> unit pgM" where
  "ForInStatement_Compile c node s leftNode rightNode body =
    bindM newLabelTarget (\<lambda>t.
      bindM (deref (continueTarget t)) (\<lambda>continueLbl. bindM (deref (breakTarget t)) (\<lambda>breakLbl.
        inRegScope (bindM AllocReg (\<lambda>iter. bindM AllocReg (\<lambda>propName.
          thenM (seqM [compileNode c rightNode,
                       GetPropIterator node,
                       StoreAccumulator node iter,
                       SetLabel continueLbl,
                       GetNextPropName node iter,
                       StoreAccumulator node propName,
                       BranchIfUndefined node breakLbl])
            (bindM (declScopeOf s) (\<lambda>d. bindM (initScopeOf d) (\<lambda>i. inLocalRegScope i
              (bindM (CreateLRef c leftNode False) (\<lambda>lref.
                thenM (seqM [LoadAccumulator node propName, SetValue c lref])
                  (inLoopEnv d False noTarget VF_LOOP_DECL (\<lambda>_.
                     seqM [inLoopEnv s True t VF_PER_ITERATION (\<lambda>_. compileNode c body),
                           Branch node continueLbl,
                           SetLabel breakLbl])))))))))))))"

definition ForOfStatement_Compile ::
  "calls \<Rightarrow> nodeRef \<Rightarrow> scopeId \<Rightarrow> nodeRef \<Rightarrow> nodeRef \<Rightarrow> nodeRef \<Rightarrow> bool \<Rightarrow> unit pgM" where
  "ForOfStatement_Compile c node s leftNode rightNode body isAwait =
    bindM (declScopeOf s) (\<lambda>d. bindM (initScopeOf d) (\<lambda>i. inLocalRegScope i
      (thenM (compileNode c rightNode)
        (bindM newLabelTarget (\<lambda>t.
          bindM (deref (continueTarget t)) (\<lambda>continueLbl. bindM (deref (breakTarget t)) (\<lambda>breakLbl.
            bindM (newIterator node (if isAwait then ASYNC else SYNC)) (\<lambda>iter.
              thenM (seqM [SetLabel continueLbl, IteratorNext c iter, Complete iter, BranchIfTrue node breakLbl])
                (bindM AllocReg (\<lambda>val.
                  thenM (seqM [IteratorValue iter, StoreAccumulator node val])
                    (bindM (CreateLRef c leftNode False) (\<lambda>lref.
                      seqM [inIteratorContext c iter t
                              (thenM (seqM [LoadAccumulator node val, SetValue c lref])
                                (inLoopEnv d False noTarget VF_LOOP_DECL (\<lambda>_.
                                   inLoopEnv s True noTarget VF_PER_ITERATION (\<lambda>_. compileNode c body)))),
                            Branch node continueLbl,
                            SetLabel breakLbl]))))))))))))"

section \<open>Switch\<close>

definition caseParts :: "node \<Rightarrow> (nodeRef option \<times> nodeRef list) option" where
  "caseParts x = (case x of Stmt (SwitchCaseStatement test stmts) \<Rightarrow> Some (test, stmts) | _ \<Rightarrow> None)"

text \<open>The tests in order; the result is the index of the last clause without one, or 0.\<close>

primrec SwitchTests_loop ::
  "calls \<Rightarrow> astTable \<Rightarrow> vreg \<Rightarrow> (nat \<times> nodeRef \<times> label) list \<Rightarrow> nat \<Rightarrow> nat pgM" where
  "SwitchTests_loop c t tag [] defaultIndex = ret defaultIndex"
| "SwitchTests_loop c t tag (x # xs) defaultIndex =
    bindM (deref (caseParts (nodeOf t (fst (snd x))))) (\<lambda>(test, _).
      case test of
        None \<Rightarrow> SwitchTests_loop c t tag xs (fst x)
      | Some e \<Rightarrow> thenM (JumpIfCase c tag (fst (snd x)) e (snd (snd x))) (SwitchTests_loop c t tag xs defaultIndex))"

definition SwitchStatement_Compile :: "calls \<Rightarrow> nodeRef \<Rightarrow> scopeId \<Rightarrow> nodeRef \<Rightarrow> nodeRef list \<Rightarrow> unit pgM" where
  "SwitchStatement_Compile c node s discriminant cases =
    inLocalRegScope s (bindM (getM ast) (\<lambda>t.
      inSwitchBuilder (length cases) (\<lambda>sb.
        let clauses = zip cases (caseLabels sb) in
        bindM AllocReg (\<lambda>tag.
          thenM (CompileTagOfSwitch c discriminant tag)
            (bindM (SwitchTests_loop c t tag (numbered clauses) 0) (\<lambda>defaultIndex.
               seqM [if 0 < defaultIndex then JumpToDefault (cases ! defaultIndex) (caseLabels sb ! defaultIndex)
                     else switchBreak node sb,
                     forM (\<lambda>(caseNode, l). bindM (deref (caseParts (nodeOf t caseNode))) (\<lambda>(_, stmts).
                       seqM [SetLabel l, CompileCaseStatements c stmts])) clauses]))))))"

section \<open>Try\<close>

definition CatchClause_Compile :: "calls \<Rightarrow> scopeId \<Rightarrow> nodeRef option \<Rightarrow> nodeRef \<Rightarrow> unit pgM" where
  "CatchClause_Compile c s param body =
    bindM (scopeAt s) (\<lambda>sc. bindM (deref (paramScope sc)) (\<lambda>p. inLocalRegScope p
      (seqM [case param of None \<Rightarrow> ret () | Some x \<Rightarrow> bindM (CreateLRef c x True) (SetValue c),
             compileNode c body])))"

definition CompileFinally :: "calls \<Rightarrow> nodeRef \<Rightarrow> catchTable \<Rightarrow> vreg \<Rightarrow> unit pgM" where
  "CompileFinally c node ct finalizerRun =
    inRegScope (bindM AllocReg (\<lambda>exc.
      thenM (seqM [StoreConst node exc JS_HOLE,
                   Branch node (catchEnd ct),
                   SetLabel (catchBegin ct),
                   StoreAccumulator node exc,
                   SetLabel (catchEnd ct)])
        (bindM AllocLabel (\<lambda>l.
           seqM [LoadAccumulator node finalizerRun,
                 BranchIfNotUndefined node l,
                 StoreAccumulator node finalizerRun,
                 bindM (getM (\<lambda>g. length (contexts g))) (\<lambda>n. EmitFinalizer c (n - 1)),
                 SetLabel l,
                 LoadAccumulator node exc,
                 EmitRethrow node]))))"

text \<open>The block within its inner table, with the catch clause or a throw for what it throws.\<close>

definition CompileTryBlock :: "calls \<Rightarrow> nodeRef \<Rightarrow> nodeRef \<Rightarrow> unit pgM \<Rightarrow> unit pgM" where
  "CompileTryBlock c node block handler =
    inTryContext (Some node) False (\<lambda>inner _.
      seqM [SetLabel (tryBegin inner),
            compileNode c block,
            SetLabel (tryEnd inner),
            Branch node (catchEnd inner),
            SetLabel (catchBegin inner),
            handler,
            SetLabel (catchEnd inner)])"

definition CompileTryWithFinally :: "calls \<Rightarrow> nodeRef \<Rightarrow> nodeRef \<Rightarrow> unit pgM \<Rightarrow> unit pgM" where
  "CompileTryWithFinally c node block handler =
    inTryContext (Some node) True (\<lambda>ct finalizerRun.
      seqM [SetLabel (tryBegin ct),
            CompileTryBlock c node block handler,
            SetLabel (tryEnd ct),
            CompileFinally c node ct finalizerRun])"

definition CompileTryCatchFinally :: "calls \<Rightarrow> nodeRef \<Rightarrow> nodeRef \<Rightarrow> nodeRef \<Rightarrow> unit pgM" where
  "CompileTryCatchFinally c node block catchClause =
    CompileTryWithFinally c node block (compileNode c catchClause)"

definition CompileTryFinally :: "calls \<Rightarrow> nodeRef \<Rightarrow> nodeRef \<Rightarrow> unit pgM" where
  "CompileTryFinally c node block = CompileTryWithFinally c node block (EmitThrow node)"

definition CompileTryCatch :: "calls \<Rightarrow> nodeRef \<Rightarrow> nodeRef \<Rightarrow> nodeRef \<Rightarrow> unit pgM" where
  "CompileTryCatch c node block catchClause =
    inTryContext (Some node) True (\<lambda>ct _.
      seqM [SetLabel (tryBegin ct),
            compileNode c block,
            SetLabel (tryEnd ct),
            Branch node (catchEnd ct),
            SetLabel (catchBegin ct),
            compileNode c catchClause,
            SetLabel (catchEnd ct)])"

definition TryStatement_Compile ::
  "calls \<Rightarrow> nodeRef \<Rightarrow> nodeRef \<Rightarrow> nodeRef option \<Rightarrow> nodeRef option \<Rightarrow> unit pgM" where
  "TryStatement_Compile c node block catchClause finalizer =
    (case (finalizer, catchClause) of
       (Some _, Some cc) \<Rightarrow> CompileTryCatchFinally c node block cc
     | (Some _, None) \<Rightarrow> CompileTryFinally c node block
     | (None, Some cc) \<Rightarrow> CompileTryCatch c node block cc
     | (None, None) \<Rightarrow> undefinedM)"

section \<open>Dispatch\<close>

text \<open>An optional chain, \<open>debugger\<close> and nodes that only parts of others are compile to nothing.\<close>

definition Expression_Compile :: "calls \<Rightarrow> nodeRef \<Rightarrow> expression \<Rightarrow> unit pgM" where
  "Expression_Compile c node e =
    (case e of
       ArrayExpression es \<Rightarrow> ArrayExpression_Compile c node es
     | ArrayPattern es _ \<Rightarrow> ArrayExpression_Compile c node es
     | ArrowFunctionExpression f \<Rightarrow> FunctionExpression_Compile f
     | AssignmentExpression op l r \<Rightarrow> AssignmentExpression_Compile c node op l r
     | AssignmentPattern l r \<Rightarrow> AssignmentExpression_Compile c node PUNCTUATOR_SUBSTITUTION l r
     | AwaitExpression arg \<Rightarrow> AwaitExpression_Compile c node arg
     | BinaryExpression op l r \<Rightarrow> BinaryExpression_Compile c node op l r
     | CallExpression callee args \<Rightarrow> CallExpression_Compile c node callee args
     | ChainExpression _ \<Rightarrow> ret ()
     | ClassExpression def \<Rightarrow> compileNode c def
     | ConditionalExpression test l r \<Rightarrow> ConditionalExpression_Compile c node test l r
     | FunctionExpression f \<Rightarrow> FunctionExpression_Compile f
     | Identifier n _ \<Rightarrow> Identifier_Compile node n
     | ImportExpression \<Rightarrow> unimplemented
     | MemberExpression object property computed \<Rightarrow> MemberExpression_Compile c node object property computed
     | MetaProperty isNewTarget \<Rightarrow> MetaProperty_Compile node isNewTarget
     | NewExpression callee args \<Rightarrow> NewExpression_Compile c node callee args
     | ObjectExpression ps \<Rightarrow> ObjectExpression_Compile c node ps
     | ObjectPattern ps _ \<Rightarrow> ObjectExpression_Compile c node ps
     | OmittedExpression \<Rightarrow> ret ()
     | SequenceExpression es \<Rightarrow> SequenceExpression_Compile c es
     | SuperExpression \<Rightarrow> SuperExpression_Compile node
     | TaggedTemplateExpression tag quasi \<Rightarrow> TaggedTemplate_Compile c node tag quasi
     | TemplateLiteral quasis es \<Rightarrow> TemplateLiteral_Compile c node quasis es
     | ThisExpression \<Rightarrow> ThisExpression_Compile node
     | UnaryExpression op arg \<Rightarrow> UnaryExpression_Compile c node op arg
     | UpdateExpression op isPrefix arg \<Rightarrow> UpdateExpression_Compile c node op isPrefix arg
     | YieldExpression delegate arg \<Rightarrow> YieldExpression_Compile c node delegate arg)"

definition Statement_Compile :: "calls \<Rightarrow> nodeRef \<Rightarrow> statement \<Rightarrow> unit pgM" where
  "Statement_Compile c node st =
    (case st of
       BlockStatement s stmts \<Rightarrow> BlockStatement_Compile c s stmts
     | BreakStatement l \<Rightarrow> BreakStatement_Compile c node l
     | ClassDeclaration def \<Rightarrow> ClassDeclaration_Compile c def
     | ContinueStatement l \<Rightarrow> ContinueStatement_Compile c node l
     | DebuggerStatement \<Rightarrow> ret ()
     | DoWhileStatement s body test \<Rightarrow> DoWhileStatement_Compile c node s body test
     | EmptyStatement \<Rightarrow> ret ()
     | ExpressionStatement e \<Rightarrow> compileNode c e
     | ForInStatement s l r body \<Rightarrow> ForInStatement_Compile c node s l r body
     | ForOfStatement s l r body isAwait \<Rightarrow> ForOfStatement_Compile c node s l r body isAwait
     | ForUpdateStatement s init test update body \<Rightarrow> ForUpdateStatement_Compile c node s init test update body
     | FunctionDeclaration _ \<Rightarrow> ret ()
     | IfStatement test consequent alternate \<Rightarrow> IfStatement_Compile c node test consequent alternate
     | LabelledStatement l body \<Rightarrow> LabelledStatement_Compile c node l body
     | ReturnStatement arg \<Rightarrow> ReturnStatement_Compile c node arg
     | SwitchCaseStatement _ _ \<Rightarrow> ret ()
     | SwitchStatement s discriminant cases \<Rightarrow> SwitchStatement_Compile c node s discriminant cases
     | ThrowStatement arg \<Rightarrow> ThrowStatement_Compile c node arg
     | TryStatement block catchClause finalizer \<Rightarrow> TryStatement_Compile c node block catchClause finalizer
     | VariableDeclaration _ ds \<Rightarrow> VariableDeclaration_Compile c ds
     | VariableDeclarator target init \<Rightarrow> VariableDeclarator_Compile c node target init
     | WhileStatement s test body \<Rightarrow> WhileStatement_Compile c node s test body)"

definition Base_Compile :: "calls \<Rightarrow> nodeRef \<Rightarrow> baseNode \<Rightarrow> unit pgM" where
  "Base_Compile c node b =
    (case b of
       CatchClause s param body \<Rightarrow> CatchClause_Compile c s param body
     | ClassDefinition s ident superClass ctor body \<Rightarrow> ClassDefinition_Compile c node s ident superClass ctor body
     | _ \<Rightarrow> ret ())"

definition Module_Compile :: "calls \<Rightarrow> nodeRef \<Rightarrow> moduleNode \<Rightarrow> unit pgM" where
  "Module_Compile c node m =
    (case m of
       ExportDefaultDeclNode d \<Rightarrow> seqM [compileNode c d, StoreModuleVar node (asciiText ''default'')]
     | ExportNamedDeclNode (Some d) _ \<Rightarrow> compileNode c d
     | _ \<Rightarrow> ret ())"

definition CompileNode :: "calls \<Rightarrow> nodeRef \<Rightarrow> unit pgM" where
  "CompileNode c n =
    bindM (getNode n) (\<lambda>x. case x of
        Expr e \<Rightarrow> Expression_Compile c n e
      | Literal l \<Rightarrow> Literal_Compile n l
      | Stmt st \<Rightarrow> Statement_Compile c n st
      | Base b \<Rightarrow> Base_Compile c n b
      | Module m \<Rightarrow> Module_Compile c n m
      | OtherNode \<Rightarrow> ret ())"

text \<open>Each call of the recursion takes one from the bound.\<close>

primrec callsAt :: "nat \<Rightarrow> calls" where
  "callsAt 0 = \<lparr>compileNode = (\<lambda>_. out_of_fuel), awaitCall = (\<lambda>_. out_of_fuel), destructCall = (\<lambda>_. out_of_fuel)\<rparr>"
| "callsAt (Suc k) =
    \<lparr>compileNode = CompileNode (callsAt k), awaitCall = Await (callsAt k),
     destructCall = Destructuring_Compile (callsAt k)\<rparr>"

definition Compile :: "nat \<Rightarrow> nodeRef \<Rightarrow> unit pgM" where
  "Compile k n = compileNode (callsAt k) n"

end
