(* ===== verification/FunctionCompile.thy ===== *)
theory FunctionCompile
  imports Statements
begin

text \<open>
  \<open>compiler/core/function.cpp\<close>: the compilation of a function or of the top level of a program.

  The prologue that copies the arguments and makes the lexical environment is put in front of the code
  once the number of registers is known.  \<open>std::sort\<close> leaves the order of catch tables of the same depth
  open; the model keeps it.
\<close>

definition isReturn :: "node \<Rightarrow> bool" where
  "isReturn x = (case x of Stmt (ReturnStatement _) \<Rightarrow> True | _ \<Rightarrow> False)"

definition SetFirstStmt :: "nodeRef \<Rightarrow> unit pgM" where
  "SetFirstStmt n = modifyM (\<lambda>g. g\<lparr>firstStmt := Some n\<rparr>)"

definition blockStatements :: "node \<Rightarrow> (nodeRef list) option" where
  "blockStatements x = (case x of Stmt (BlockStatement _ stmts) \<Rightarrow> Some stmts | _ \<Rightarrow> None)"

definition CompileSourceBlock :: "calls \<Rightarrow> nodeRef \<Rightarrow> unit pgM" where
  "CompileSourceBlock c block =
    bindM (getM ast) (\<lambda>t. bindM (deref (blockStatements (nodeOf t block))) (\<lambda>stmts.
      seqM [SetFirstStmt (if stmts = [] then block else hd stmts),
            forM (compileNode c) stmts,
            whenM (\<not> list_ex (\<lambda>s. isReturn (nodeOf t s)) stmts)
              (ImplicitReturn (if stmts = [] then block else last stmts))]))"

abbreviation (input) MANDATORY_PARAMS_NUMBER :: nat where "MANDATORY_PARAMS_NUMBER \<equiv> 3"

text \<open>A parameter with a default value, a pattern, or both; a plain one needs no code.\<close>

definition CompileDefaultParameter :: "calls \<Rightarrow> nodeRef \<Rightarrow> lReference \<Rightarrow> vreg \<Rightarrow> nodeRef \<Rightarrow> unit pgM" where
  "CompileDefaultParameter c func ref paramReg init =
    inRegScope (thenM (LoadAccumulator func paramReg)
      (bindM AllocLabel (\<lambda>nonDefault.
        if lrKind ref = DESTRUCTURING then
          bindM AllocLabel (\<lambda>loadParam.
            seqM [BranchIfNotUndefined func loadParam,
                  compileNode c init,
                  Branch func nonDefault,
                  SetLabel loadParam,
                  LoadAccumulator func paramReg,
                  SetLabel nonDefault,
                  SetValue c ref])
        else
          seqM [BranchIfNotUndefined func nonDefault,
                compileNode c init,
                SetValue c ref,
                SetLabel nonDefault])))"

definition CompileParameter :: "calls \<Rightarrow> nodeRef \<Rightarrow> nat \<Rightarrow> nat \<times> nodeRef \<Rightarrow> unit pgM" where
  "CompileParameter c func count ip =
    bindM (CreateLRef c (snd ip) True) (\<lambda>ref. bindM (getNode (snd ip)) (\<lambda>x.
      let paramReg = of_nat (MANDATORY_PARAMS_NUMBER + fst ip) in
      case x of
        Expr (AssignmentPattern _ init) \<Rightarrow> CompileDefaultParameter c func ref paramReg init
      | _ \<Rightarrow>
          if IsRestElement x then seqM [CopyRestArgs (snd ip) (count - 1), SetValue c ref]
          else if lrKind ref = DESTRUCTURING then seqM [LoadAccumulator func paramReg, SetValue c ref]
          else ret ()))"

definition CompileFunctionParameterDeclaration :: "calls \<Rightarrow> nodeRef \<Rightarrow> scriptFunction \<Rightarrow> unit pgM" where
  "CompileFunctionParameterDeclaration c func f =
    bindM (scopeAt (sfScope f)) (\<lambda>sc. bindM (deref (paramScope sc)) (\<lambda>p.
      inScopeContext p (forM (CompileParameter c func (length (sfParams f))) (numbered (sfParams f)))))"

text \<open>The class a constructor belongs to is three nodes up.\<close>

definition classBodyAround :: "astTable \<Rightarrow> nodeRef \<Rightarrow> (nodeRef list) option" where
  "classBodyAround t func =
    (case parentOf t func of None \<Rightarrow> None
     | Some a \<Rightarrow> (case parentOf t a of None \<Rightarrow> None
       | Some b \<Rightarrow> (case parentOf t b of None \<Rightarrow> None
         | Some d \<Rightarrow> (case nodeOf t d of Base (ClassDefinition _ _ _ _ body) \<Rightarrow> Some body | _ \<Rightarrow> None))))"

definition CompileInstanceField :: "calls \<Rightarrow> astTable \<Rightarrow> vreg \<Rightarrow> nodeRef \<Rightarrow> unit pgM" where
  "CompileInstanceField c t thisReg stmt =
    (case nodeOf t stmt of
       Base (ClassProperty key value) \<Rightarrow>
         seqM [case value of
                 None \<Rightarrow> LoadConst stmt JS_UNDEFINED
               | Some v \<Rightarrow> inRegScope (compileNode c v),
               case nodeOf t key of
                 Expr (Identifier n _) \<Rightarrow> StoreObjByName stmt thisReg n
               | _ \<Rightarrow> unimplemented]
     | _ \<Rightarrow> ret ())"

definition CompileInstanceFields :: "calls \<Rightarrow> nodeRef \<Rightarrow> unit pgM" where
  "CompileInstanceFields c func =
    bindM (getM ast) (\<lambda>t. bindM (deref (classBodyAround t func)) (\<lambda>body.
      inRegScope (bindM AllocReg (\<lambda>thisReg.
        seqM [GetThis func, StoreAccumulator func thisReg, forM (CompileInstanceField c t thisReg) body]))))"

definition isExpressionNode :: "node \<Rightarrow> bool" where
  "isExpressionNode x = (case x of Expr _ \<Rightarrow> True | Literal _ \<Rightarrow> True | _ \<Rightarrow> False)"

text \<open>A named function expression binds its own name.\<close>

definition StoreFunctionName :: "nodeRef \<Rightarrow> unit pgM" where
  "StoreFunctionName func =
    bindM (getM pgTopScope) (\<lambda>top. bindM (scopeAt top) (\<lambda>sc. bindM (deref (paramScope sc)) (\<lambda>p.
      bindM (scopeAt p) (\<lambda>ps. case nameVar ps of
        None \<Rightarrow> ret ()
      | Some v \<Rightarrow> inRegScope (seqM [GetFunctionObject func,
          bindM (Name v) (\<lambda>n. bindM (onScopes (Find p n RB_BINDINGS)) (\<lambda>res. StoreAccToLexEnv func res True))])))))"

definition CompileFunction :: "calls \<Rightarrow> unit pgM" where
  "CompileFunction c =
    bindM (getM rootNode) (\<lambda>func. bindM (getM ast) (\<lambda>t. bindM (deref (scriptFunctionOf t func)) (\<lambda>f.
      seqM [whenM (sfConstructor f) (CompileInstanceFields c func),
            StoreFunctionName func,
            CompileFunctionParameterDeclaration c func f,
            Prepare func,
            if isExpressionNode (nodeOf t (sfBody f)) then seqM [compileNode c (sfBody f), DirectReturn func]
            else CompileSourceBlock c (sfBody f),
            CleanUp func])))"

definition CompileFunctionOrProgram :: "calls \<Rightarrow> vreg pgM" where
  "CompileFunctionOrProgram c =
    inFunctionRegScope (bindM (getM pgTopScope) (\<lambda>top. bindM (scopeAt top) (\<lambda>sc.
      bindM FunctionHasFinalizer (\<lambda>fin.
        thenM (if fin then
                 inTryContext None False (\<lambda>ct _. seqM [FunctionInit (Some ct), CompileFunction c])
               else seqM [FunctionInit None,
                          if sClass sc = FunctionScope then CompileFunction c
                          else bindM (getM rootNode) (CompileSourceBlock c)])
          LexEnv))))"

definition SortCatchTables :: "unit pgM" where
  "SortCatchTables = modifyM (\<lambda>g. g\<lparr>catchList := sort_key (\<lambda>ct. - int (ctDepth ct)) (catchList g)\<rparr>)"

definition Function_Compile :: "nat \<Rightarrow> unit pgM" where
  "Function_Compile k =
    bindM (CompileFunctionOrProgram (callsAt k)) (\<lambda>lexEnv. bindM (getM rootNode) (\<lambda>root.
      seqM [CopyFunctionArguments root, InitializeLexEnv root lexEnv, SortCatchTables]))"

end
