(* ===== verification/Preserves.thy ===== *)
theory Preserves
  imports Scope
begin

text \<open>
  What a computation may do to its state, as a relation between the state before and the one after.

  \<open>pres R m\<close>: whenever \<open>m\<close> returns, the two states are in \<open>R\<close>.  The locale \<open>transition\<close> has the rules of the
  monad for every preorder; a collection of rules, \<open>pres\<close>, then takes a method of the parser or of the generator
  apart.
\<close>

named_theorems pres \<open>rules for \<open>pres\<close>\<close>

definition pres :: "('s \<Rightarrow> 's \<Rightarrow> bool) \<Rightarrow> ('s, 'e, 'a) comp \<Rightarrow> bool" where
  "pres R m \<longleftrightarrow> (\<forall>s a t. m s = Ok (a, t) \<longrightarrow> R s t)"

lemma presI: "(\<And>s a t. m s = Ok (a, t) \<Longrightarrow> R s t) \<Longrightarrow> pres R m"
  by (auto simp: pres_def)

lemma presD: "pres R m \<Longrightarrow> m s = Ok (a, t) \<Longrightarrow> R s t"
  by (auto simp: pres_def)

lemma bindM_OkE:
  assumes "bindM m f s = Ok (b, u)"
  obtains a t where "m s = Ok (a, t)" "f a t = Ok (b, u)"
  using assms by (auto simp: bindM_def split: res.splits)

lemma bindM_assoc: "bindM (bindM m f) h = bindM m (\<lambda>a. bindM (f a) h)"
  by (rule ext) (auto simp: bindM_def split: res.splits)

lemma bindM_ret [simp]: "bindM (ret a) f = f a"
  by (rule ext) (simp add: bindM_def ret_def)

lemma thenM_OkE:
  assumes "thenM m k s = Ok (b, u)"
  obtains a t where "m s = Ok (a, t)" "k t = Ok (b, u)"
  using assms by (auto simp: thenM_def elim: bindM_OkE)

lemma modify_Ok [simp]: "modifyM f s = Ok (a, t) \<longleftrightarrow> t = f s"
  by (auto simp: modifyM_def)

lemma get_Ok [simp]: "getM f s = Ok (a, t) \<longleftrightarrow> a = f s \<and> t = s"
  by (auto simp: getM_def)

lemma ret_Ok [simp]: "ret x s = Ok (a, t) \<longleftrightarrow> a = x \<and> t = s"
  by (auto simp: ret_def)

section \<open>The rules of the monad\<close>

locale transition =
  fixes R :: "'s \<Rightarrow> 's \<Rightarrow> bool"
  assumes R_refl: "R s s" and R_trans: "R s t \<Longrightarrow> R t u \<Longrightarrow> R s u"
begin

lemma pres_ret [pres]: "pres R (ret a)"
  by (auto simp: pres_def ret_def R_refl)

lemma pres_raise [pres]: "pres R (raise e)"
  by (simp add: pres_def raise_def)

lemma pres_get [pres]: "pres R (getM f)"
  by (auto simp: pres_def getM_def R_refl)

lemma pres_read [pres]: "pres R (readM f)"
  by (auto simp: pres_def readM_def R_refl split: option.splits)

lemma pres_deref [pres]: "pres R (deref p)"
  by (simp add: deref_def pres_read)

lemma pres_fuel [pres]: "pres R out_of_fuel"
  by (simp add: pres_def out_of_fuel_def)

lemma pres_bind [pres]: "pres R m \<Longrightarrow> (\<And>a. pres R (f a)) \<Longrightarrow> pres R (bindM m f)"
  by (rule presI) (blast elim: bindM_OkE dest: presD intro: R_trans)

lemma pres_then [pres]: "pres R m \<Longrightarrow> pres R k \<Longrightarrow> pres R (thenM m k)"
  by (simp add: thenM_def pres_bind)

lemma pres_modify: "(\<And>s. R s (f s)) \<Longrightarrow> pres R (modifyM f)"
  by (rule presI) simp

end

text \<open>Computations that leave the state alone.\<close>

interpretation unchanged: transition "(=)"
  by unfold_locales auto

section \<open>Case distinctions\<close>

lemma pres_if [pres]: "(b \<Longrightarrow> pres R m) \<Longrightarrow> (\<not> b \<Longrightarrow> pres R k) \<Longrightarrow> pres R (if b then m else k)"
  by simp

lemma pres_let [pres]: "(\<And>y. y = x \<Longrightarrow> pres R (f y)) \<Longrightarrow> pres R (let y = x in f y)"
  by simp

lemma pres_option [pres]:
  "(x = None \<Longrightarrow> pres R m) \<Longrightarrow> (\<And>y. x = Some y \<Longrightarrow> pres R (f y)) \<Longrightarrow>
   pres R (case x of None \<Rightarrow> m | Some y \<Rightarrow> f y)"
  by (cases x) auto

lemma pres_list [pres]:
  "(x = [] \<Longrightarrow> pres R m) \<Longrightarrow> (\<And>y ys. x = y # ys \<Longrightarrow> pres R (f y ys)) \<Longrightarrow>
   pres R (case x of [] \<Rightarrow> m | y # ys \<Rightarrow> f y ys)"
  by (cases x) auto

lemma pres_prod [pres]: "(\<And>y z. x = (y, z) \<Longrightarrow> pres R (f y z)) \<Longrightarrow> pres R (case x of (y, z) \<Rightarrow> f y z)"
  by (cases x) auto

end
