(* ===== verification/Transition.thy ===== *)
theory Transition
  imports FunctionCompile Preserves
begin

text \<open>
  The rules of the collection \<open>pres\<close> for the generator: its monad, and the distinctions on the tree it reads.
\<close>

section \<open>The rules of the generator\<close>

locale generator = transition R for R :: "pandaGen \<Rightarrow> pandaGen \<Rightarrow> bool"
begin

lemma pres_seqM_Nil [pres]: "pres R (seqM [])"
  by (simp add: pres_ret)

lemma pres_seqM_Cons [pres]: "pres R m \<Longrightarrow> pres R (seqM ms) \<Longrightarrow> pres R (seqM (m # ms))"
  by (simp add: pres_then)

lemma pres_forM [pres]: "(\<And>x. pres R (f x)) \<Longrightarrow> pres R (forM f xs)"
  by (induction xs) (auto intro: pres_ret pres_then)

lemma pres_whenM [pres]: "(b \<Longrightarrow> pres R m) \<Longrightarrow> pres R (whenM b m)"
  by (auto simp: whenM_def intro: pres_ret)

lemma pres_undefinedM [pres]: "pres R undefinedM"
  by (simp add: pres_def undefinedM_def)

lemma pres_unimplemented [pres]: "pres R unimplemented"
  by (simp add: unimplemented_def pres_raise)

lemma pres_getNode [pres]: "pres R (getNode n)"
  by (simp add: getNode_def pres_get)

lemma pres_onScopes [pres]: "pres (=) m \<Longrightarrow> pres R (onScopes m)"
  by (rule presI) (auto simp: onScopes_def R_refl split: res.splits dest: presD)

end

text \<open>A distinction on a datatype holds a rule for each constructor.\<close>

lemma pres_operand [pres]:
  "(\<And>a. pres R (f1 a)) \<Longrightarrow> (\<And>a. pres R (f2 a)) \<Longrightarrow> (\<And>a. pres R (f3 a)) \<Longrightarrow> (\<And>a. pres R (f4 a)) \<Longrightarrow>
   (\<And>a. pres R (f5 a)) \<Longrightarrow> pres R (case_operand f1 f2 f3 f4 f5 x)"
  by (cases x) auto

lemma pres_node [pres]:
  "(\<And>a. pres R (f1 a)) \<Longrightarrow> (\<And>a. pres R (f2 a)) \<Longrightarrow> (\<And>a. pres R (f3 a)) \<Longrightarrow> (\<And>a. pres R (f4 a)) \<Longrightarrow>
   (\<And>a. pres R (f5 a)) \<Longrightarrow> pres R f6 \<Longrightarrow> pres R (case_node f1 f2 f3 f4 f5 f6 x)"
  by (cases x) auto

lemma pres_expression [pres]:
  "(\<And>a. pres R (f1 a)) \<Longrightarrow> (\<And>a b. pres R (f2 a b)) \<Longrightarrow>
   (\<And>a. pres R (f3 a)) \<Longrightarrow> (\<And>a b c. pres R (f4 a b c)) \<Longrightarrow>
   (\<And>a b. pres R (f5 a b)) \<Longrightarrow> (\<And>a. pres R (f6 a)) \<Longrightarrow>
   (\<And>a b c. pres R (f7 a b c)) \<Longrightarrow> (\<And>a b. pres R (f8 a b)) \<Longrightarrow>
   (\<And>a. pres R (f9 a)) \<Longrightarrow> (\<And>a. pres R (f10 a)) \<Longrightarrow>
   (\<And>a b c. pres R (f11 a b c)) \<Longrightarrow> (\<And>a. pres R (f12 a)) \<Longrightarrow>
   (\<And>a b. pres R (f13 a b)) \<Longrightarrow> pres R f14 \<Longrightarrow> (\<And>a b c. pres R (f15 a b c)) \<Longrightarrow>
   (\<And>a. pres R (f16 a)) \<Longrightarrow> (\<And>a b. pres R (f17 a b)) \<Longrightarrow>
   (\<And>a. pres R (f18 a)) \<Longrightarrow> (\<And>a b. pres R (f19 a b)) \<Longrightarrow>
   pres R f20 \<Longrightarrow> (\<And>a. pres R (f21 a)) \<Longrightarrow> pres R f22 \<Longrightarrow>
   (\<And>a b. pres R (f23 a b)) \<Longrightarrow> (\<And>a b. pres R (f24 a b)) \<Longrightarrow>
   pres R f25 \<Longrightarrow> (\<And>a b. pres R (f26 a b)) \<Longrightarrow> (\<And>a b c. pres R (f27 a b c)) \<Longrightarrow>
   (\<And>a b. pres R (f28 a b)) \<Longrightarrow>
   pres R (case_expression f1 f2 f3 f4 f5 f6 f7 f8 f9 f10 f11 f12 f13 f14 f15 f16 f17 f18 f19 f20 f21 f22 f23 f24 f25 f26 f27 f28 x)"
  by (cases x) simp_all

lemma pres_statement [pres]:
  "(\<And>a b. pres R (f1 a b)) \<Longrightarrow> (\<And>a. pres R (f2 a)) \<Longrightarrow>
   (\<And>a. pres R (f3 a)) \<Longrightarrow> (\<And>a. pres R (f4 a)) \<Longrightarrow>
   pres R f5 \<Longrightarrow> (\<And>a b c. pres R (f6 a b c)) \<Longrightarrow>
   pres R f7 \<Longrightarrow> (\<And>a. pres R (f8 a)) \<Longrightarrow> (\<And>a b c d. pres R (f9 a b c d)) \<Longrightarrow>
   (\<And>a b c d e. pres R (f10 a b c d e)) \<Longrightarrow> (\<And>a b c d e. pres R (f11 a b c d e)) \<Longrightarrow>
   (\<And>a. pres R (f12 a)) \<Longrightarrow> (\<And>a b c. pres R (f13 a b c)) \<Longrightarrow>
   (\<And>a b. pres R (f14 a b)) \<Longrightarrow> (\<And>a. pres R (f15 a)) \<Longrightarrow>
   (\<And>a b. pres R (f16 a b)) \<Longrightarrow> (\<And>a b c. pres R (f17 a b c)) \<Longrightarrow>
   (\<And>a. pres R (f18 a)) \<Longrightarrow> (\<And>a b c. pres R (f19 a b c)) \<Longrightarrow>
   (\<And>a b. pres R (f20 a b)) \<Longrightarrow> (\<And>a b. pres R (f21 a b)) \<Longrightarrow>
   (\<And>a b c. pres R (f22 a b c)) \<Longrightarrow>
   pres R (case_statement f1 f2 f3 f4 f5 f6 f7 f8 f9 f10 f11 f12 f13 f14 f15 f16 f17 f18 f19 f20 f21 f22 x)"
  by (cases x) simp_all

lemma pres_baseNode [pres]:
  "(\<And>a b c. pres R (f1 a b c)) \<Longrightarrow> (\<And>a b c d e. pres R (f2 a b c d e)) \<Longrightarrow>
   (\<And>a b. pres R (f3 a b)) \<Longrightarrow> (\<And>a b c d e. pres R (f4 a b c d e)) \<Longrightarrow>
   (\<And>a b c d e. pres R (f5 a b c d e)) \<Longrightarrow> (\<And>a. pres R (f6 a)) \<Longrightarrow>
   (\<And>a. pres R (f7 a)) \<Longrightarrow> (\<And>a. pres R (f8 a)) \<Longrightarrow>
   (\<And>a b. pres R (f9 a b)) \<Longrightarrow>
   pres R (case_baseNode f1 f2 f3 f4 f5 f6 f7 f8 f9 x)"
  by (cases x) simp_all

lemma pres_moduleNode [pres]:
  "(\<And>a. pres R (f1 a)) \<Longrightarrow> (\<And>a. pres R (f2 a)) \<Longrightarrow>
   (\<And>a b. pres R (f3 a b)) \<Longrightarrow> (\<And>a. pres R (f4 a)) \<Longrightarrow>
   pres R f5 \<Longrightarrow>
   pres R (case_moduleNode f1 f2 f3 f4 f5 x)"
  by (cases x) simp_all

lemma pres_literal [pres]:
  "pres R f1 \<Longrightarrow> (\<And>a. pres R (f2 a)) \<Longrightarrow> pres R f3 \<Longrightarrow>
   (\<And>a b. pres R (f4 a b)) \<Longrightarrow> (\<And>a b. pres R (f5 a b)) \<Longrightarrow>
   (\<And>a. pres R (f6 a)) \<Longrightarrow>
   pres R (case_literal f1 f2 f3 f4 f5 f6 x)"
  by (cases x) simp_all

end
