(* ===== verification/Growth.thy ===== *)
theory Growth
  imports Transition "HOL-Library.Sublist"
begin

text \<open>
  What every method of the generator does to its state, \<open>grows\<close>: the scope, the environments, the contexts
  and the builder are as before; variables keep their declarations, flags and slots; code, catch tables
  and literal buffers are only appended to; every name in the new code is in the table of strings.

  The first part is about the primitives, \<open>emits\<close>; the rest goes through the methods with the rules of
  \<open>pres\<close>.  The locale \<open>recursive_calls\<close> is what a method relies on when it calls the compilation of a node;
  it is interpreted on the recursion of the generator.
\<close>

section \<open>Names in code\<close>

primrec irNames :: "irNode \<Rightarrow> name set" where
  "irNames (LabelInsn l) = {}"
| "irNames (Insn node op args) = set (operandNames args)"

definition codeNames :: "irNode list \<Rightarrow> name set" where
  "codeNames xs = (\<Union>x \<in> set xs. irNames x)"

lemma codeNames_simps [simp]:
  "codeNames [] = {}" "codeNames (x # xs) = irNames x \<union> codeNames xs"
  "codeNames (xs @ ys) = codeNames xs \<union> codeNames ys"
  by (auto simp: codeNames_def)

lemma operandNames_simps [simp]:
  "operandNames [] = []"
  "operandNames (Reg r # args) = operandNames args"
  "operandNames (Float d # args) = operandNames args"
  "operandNames (Imm i # args) = operandNames args"
  "operandNames (Str n # args) = n # operandNames args"
  "operandNames (Lbl l # args) = operandNames args"
  by (simp_all add: operandNames_def)

lemma operandNames_setRegs [simp]: "operandNames (setOperandRegs args rs) = operandNames args"
  by (induction args rs rule: setOperandRegs.induct) (auto simp: operandNames_def)

lemma irNames_setRegisters [simp]: "irNames (setRegisters ins rs) = irNames ins"
  by (cases ins) auto

section \<open>Emission\<close>

text \<open>What emission leaves alone.\<close>

definition frameOf where
  "frameOf g = (isa g, ast g, isDebug g, rootNode g, pgTopScope g)"

definition others where
  "others g = (frameOf g, builder g, envScopes g, contexts g, pgScope g, pgHeap g, strings g, labelCount g,
     catchList g, buffStorage g)"

definition emits :: "name set \<Rightarrow> pandaGen \<Rightarrow> pandaGen \<Rightarrow> bool" where
  "emits N g k \<longleftrightarrow> others k = others g \<and> totalRegs g \<le> totalRegs k \<and>
    (\<exists>is. insns k = insns g @ is \<and> codeNames is \<subseteq> N)"

lemma emits_refl [simp]: "emits N g g"
  by (auto simp: emits_def)

lemma emits_trans: "emits N g k \<Longrightarrow> emits N k l \<Longrightarrow> emits N g l"
  by (fastforce simp: emits_def)

lemma emits_PushBack: "emits N g k \<Longrightarrow> irNames ins \<subseteq> N \<Longrightarrow> emits N g (PushBack ins k)"
  by (auto simp: emits_def others_def frameOf_def PushBack_def)

lemma emits_takeReg: "emits N g k \<Longrightarrow> emits N g (takeReg k)"
  by (auto simp: emits_def others_def frameOf_def takeReg_def)

lemma emits_endRegScope: "emits N g k \<Longrightarrow> emits N g (endRegScope b k)"
  by (auto simp: emits_def others_def frameOf_def endRegScope_def max.coboundedI1)

lemma emits_allocators: "emits N g k \<Longrightarrow> emits N g (k\<lparr>ra := a\<rparr>)" "emits N g k \<Longrightarrow> emits N g (k\<lparr>rra := a\<rparr>)"
  by (auto simp: emits_def others_def frameOf_def)

lemmas emits_steps = emits_PushBack emits_takeReg emits_endRegScope emits_allocators

lemma emits_Spill: "Spill node r a g = (r', b, k) \<Longrightarrow> emits N g k"
  by (auto simp: Spill_def Let_def intro!: emits_steps)

lemma emits_Restore: "Restore node a g = (b, k) \<Longrightarrow> emits N g k"
  by (auto simp: Restore_def Let_def intro!: emits_steps)

lemma emits_RestoreAll: "RestoreAll node a g = (b, k) \<Longrightarrow> emits N g k"
proof (induction node a g rule: RestoreAll.induct)
  case (1 node a g)
  show ?case
  proof (cases "spillIndex a = 0")
    case True
    then show ?thesis using "1.prems" by (simp add: RestoreAll.simps)
  next
    case False
    obtain c l where r: "Restore node a g = (c, l)" by fastforce
    have "emits N l k" using "1.IH" [OF False] "1.prems" False by (simp add: RestoreAll.simps [of node a g] r)
    then show ?thesis using emits_Restore [OF r] emits_trans by blast
  qed
qed

lemma emits_SpillIncorrect: "SpillIncorrect node rs a g = (qs, b, k) \<Longrightarrow> emits N g k"
proof (induction node rs a g arbitrary: qs b k rule: SpillIncorrect.induct)
  case (2 node r rs a g)
  then show ?case
    by (fastforce split: if_splits prod.splits intro: emits_trans emits_Spill)
qed simp

lemma emits_SpillAll: "SpillAll node rs a g = (qs, b, k) \<Longrightarrow> emits N g k"
  by (induction rs arbitrary: a g qs b k) (fastforce split: prod.splits intro: emits_trans emits_Spill)+

lemma emits_SpillRange: "SpillRange_loop n node r e a g = Some (b, k) \<Longrightarrow> emits N g k"
  by (induction n node r e a g rule: SpillRange_loop.induct)
    (fastforce split: if_splits prod.splits intro: emits_trans emits_Spill)+

lemma emit_with_restore:
  assumes "emits (irNames ins) g k" "RestoreAll node a (PushBack (setRegisters ins rs) k) = (b, l)"
  shows "emits (irNames ins) g l"
proof (rule emits_trans)
  show "emits (irNames ins) g (PushBack (setRegisters ins rs) k)" using assms(1) by (simp add: emits_PushBack)
  show "emits (irNames ins) (PushBack (setRegisters ins rs) k) l" using assms(2) by (rule emits_RestoreAll)
qed

lemma emits_Run: "Run ins a g = (b, k) \<Longrightarrow> emits (irNames ins) g k"
  unfolding Run_def Let_def
  by (auto split: prod.splits if_splits intro!: emits_steps elim!: emit_with_restore [rotated] intro: emits_SpillIncorrect)

lemma emits_RangeRun: "RangeRun ins s n a g = Ok (b, k) \<Longrightarrow> emits (irNames ins) g k"
  unfolding RangeRun_def Let_def
  by (auto split: prod.splits if_splits option.splits intro!: emits_steps elim!: emit_with_restore [rotated]
      intro: emits_trans [OF emits_SpillAll emits_trans [OF emits_Spill emits_SpillRange]])

lemma emits_saEmit: "saEmit node op args g = Ok (u, k) \<Longrightarrow> emits (set (operandNames args)) g k"
  by (auto simp: saEmit_def intro!: emits_PushBack)

lemma emits_raEmit: "raEmit node op args g = Ok (u, k) \<Longrightarrow> emits (set (operandNames args)) g k"
  by (auto simp: raEmit_def split: prod.splits dest!: emits_Run intro: emits_trans emits_allocators)

lemma emits_rraEmit: "rraEmit node s n op args g = Ok (u, k) \<Longrightarrow> emits (set (operandNames args)) g k"
  by (auto simp: rraEmit_def split: res.splits dest!: emits_RangeRun intro: emits_trans emits_allocators)

lemma emits_mono: "emits M g k \<Longrightarrow> M \<subseteq> N \<Longrightarrow> emits N g k"
  by (auto simp: emits_def)

interpretation emission: generator "emits N" for N
  by unfold_locales (auto intro: emits_trans)

lemma emission_rules:
  "set (operandNames args) \<subseteq> N \<Longrightarrow> pres (emits N) (saEmit node op args)"
  "set (operandNames args) \<subseteq> N \<Longrightarrow> pres (emits N) (raEmit node op args)"
  by (auto intro!: presI dest!: emits_saEmit emits_raEmit elim: emits_mono)

section \<open>The relation\<close>

text \<open>Variables get registers, unless they are captured: then the number is a slot and stays.\<close>

definition sameBinding :: "heap \<Rightarrow> heap \<Rightarrow> bool" where
  "sameBinding h k \<longleftrightarrow> scopes k = scopes h \<and> decls k = decls h \<and>
    nScopes k = nScopes h \<and> nVars k = nVars h \<and> nDecls k = nDecls h \<and>
    (\<forall>v. (vars k v)\<lparr>vreg := 0\<rparr> = (vars h v)\<lparr>vreg := 0\<rparr> \<and>
         (LexicalBound (vars h v) \<longrightarrow> vreg (vars k v) = vreg (vars h v)))"

definition appended :: "pandaGen \<Rightarrow> pandaGen \<Rightarrow> bool" where
  "appended g k \<longleftrightarrow> (\<exists>is. insns k = insns g @ is \<and> codeNames is \<subseteq> strings k) \<and>
    strings g \<subseteq> strings k \<and> labelCount g \<le> labelCount k \<and> prefix (catchList g) (catchList k) \<and>
    prefix (buffStorage g) (buffStorage k) \<and> totalRegs g \<le> totalRegs k"

text \<open>Where the generator is: the scope, the environments, the contexts and the builder.  \<open>E\<close> relates the
  environments and \<open>C\<close> the contexts: they are the same, or, in the middle of a statement, changed at
  the top.\<close>

definition grows ::
  "(vreg list \<Rightarrow> vreg list \<Rightarrow> bool) \<Rightarrow> (dynamicContext list \<Rightarrow> dynamicContext list \<Rightarrow> bool) \<Rightarrow>
   (scopeId \<Rightarrow> scopeId \<Rightarrow> bool) \<Rightarrow> pandaGen \<Rightarrow> pandaGen \<Rightarrow> bool" where
  "grows E C S g k \<longleftrightarrow> frameOf k = frameOf g \<and> builder k = builder g \<and> E (envScopes g) (envScopes k) \<and>
    C (contexts g) (contexts k) \<and> S (pgScope g) (pgScope k) \<and> sameBinding (pgHeap g) (pgHeap k) \<and> appended g k"

abbreviation keeps :: "pandaGen \<Rightarrow> pandaGen \<Rightarrow> bool" where
  "keeps \<equiv> grows (=) (=) (=)"

lemma sameBinding_refl [simp]: "sameBinding h h"
  by (simp add: sameBinding_def)

lemma same_LexicalBound:
  assumes "x\<lparr>vreg := 0\<rparr> = y\<lparr>vreg := 0\<rparr>"
  shows "LexicalBound x = LexicalBound y"
  using arg_cong [OF assms, of vFlags] by (simp add: LexicalBound_def HasFlag_def)

lemma sameBinding_trans: "sameBinding h k \<Longrightarrow> sameBinding k l \<Longrightarrow> sameBinding h l"
  unfolding sameBinding_def using same_LexicalBound by metis

lemma appended_refl [simp]: "appended g g"
  by (auto simp: appended_def)

lemma appended_trans: "appended g k \<Longrightarrow> appended k l \<Longrightarrow> appended g l"
  by (fastforce simp: appended_def intro: prefix_order.trans order.trans)

text \<open>Steps compose, with what they do to the environments, the contexts and the scope.\<close>

lemma grows_compose:
  assumes "grows E C S g k" "grows E' C' S' k l"
    and "\<And>x y z. E x y \<Longrightarrow> E' y z \<Longrightarrow> E'' x z" "\<And>x y z. C x y \<Longrightarrow> C' y z \<Longrightarrow> C'' x z"
    and "\<And>x y z. S x y \<Longrightarrow> S' y z \<Longrightarrow> S'' x z"
  shows "grows E'' C'' S'' g l"
  using assms by (auto simp: grows_def intro: sameBinding_trans appended_trans)

lemma grows_then: "grows E C S g k \<Longrightarrow> keeps k l \<Longrightarrow> grows E C S g l"
  by (erule (1) grows_compose) auto

lemma then_grows: "keeps g k \<Longrightarrow> grows E C S k l \<Longrightarrow> grows E C S g l"
  by (erule (1) grows_compose) auto

lemma grows_bind:
  assumes "pres (grows E C S) m" "\<And>a. pres (grows E' C' S') (f a)"
    and "\<And>x y z. E x y \<Longrightarrow> E' y z \<Longrightarrow> E'' x z" "\<And>x y z. C x y \<Longrightarrow> C' y z \<Longrightarrow> C'' x z"
    and "\<And>x y z. S x y \<Longrightarrow> S' y z \<Longrightarrow> S'' x z"
  shows "pres (grows E'' C'' S'') (bindM m f)"
  by (rule presI, erule bindM_OkE) (rule grows_compose [OF presD [OF assms(1)] presD [OF assms(2)] assms(3-5)])

interpretation growth: generator keeps
  by unfold_locales (auto simp: grows_def intro: sameBinding_trans appended_trans)

section \<open>Primitives\<close>

text \<open>Emission of code with names, once the names are in the table.\<close>

lemma emits_named:
  assumes "emits N g k"
  shows "keeps g (k\<lparr>strings := N \<union> strings k\<rparr>)"
  using assms by (auto simp: emits_def others_def grows_def appended_def frameOf_def)

lemma emits_keeps: "emits {} g k \<Longrightarrow> keeps g k"
  by (auto simp: emits_def others_def grows_def appended_def)

lemma pres_saEmit [pres]: "operandNames args = [] \<Longrightarrow> pres keeps (saEmit node op args)"
  by (rule presI) (metis emits_keeps empty_set emits_saEmit)

lemma pres_raEmit [pres]: "operandNames args = [] \<Longrightarrow> pres keeps (raEmit node op args)"
  by (rule presI) (metis emits_keeps empty_set emits_raEmit)

lemma pres_rraEmit [pres]: "operandNames args = [] \<Longrightarrow> pres keeps (rraEmit node s n op args)"
  by (rule presI) (metis emits_keeps empty_set emits_rraEmit)

lemma named_keeps: "pres (emits {n}) m \<Longrightarrow> pres keeps (thenM m (addString n))"
proof (rule presI)
  fix g u k
  assume m: "pres (emits {n}) m" and "thenM m (addString n) g = Ok (u, k)"
  then obtain v l where "m g = Ok (v, l)" and k: "k = l\<lparr>strings := insert n (strings l)\<rparr>"
    by (auto simp: addString_def elim: thenM_OkE)
  with emits_named [OF presD [OF m]] show "keeps g k" by simp
qed

lemma pres_saNamed [pres]: "pres keeps (saNamed node op n)"
  unfolding saNamed_def by (intro named_keeps emission_rules) simp

lemma pres_raNamed [pres]: "operandNames args = [] \<Longrightarrow> pres keeps (raNamed node op n args)"
  unfolding raNamed_def by (intro named_keeps emission_rules) simp

lemma pres_addString [pres]: "pres keeps (addString n)"
  by (rule presI) (auto simp: addString_def grows_def frameOf_def appended_def)

lemma keeps_regs: "keeps g (takeReg g)" "keeps g (endRegScope b g)" "keeps g (g\<lparr>ra := a\<rparr>)" "keeps g (g\<lparr>rra := a\<rparr>)"
  by (rule emits_keeps, simp add: emits_steps)+

lemma pres_AllocReg [pres]: "pres keeps AllocReg"
  unfolding AllocReg_def by (intro pres growth.pres_modify keeps_regs)

lemma pres_inRegScope: "pres (grows E C S) m \<Longrightarrow> pres (grows E C S) (inRegScope m)"
  unfolding inRegScope_def
  by (rule presI) (auto elim!: bindM_OkE thenM_OkE dest!: presD intro!: grows_then [OF _ keeps_regs(2)])

lemmas pres_keeps_inRegScope [pres] = pres_inRegScope [where E = "(=)" and C = "(=)" and S = "(=)"]

lemma pres_AllocLabel [pres]: "pres keeps AllocLabel"
  unfolding AllocLabel_def
  by (intro pres growth.pres_modify) (auto simp: grows_def frameOf_def appended_def)

lemma pres_SetLabel [pres]: "pres keeps (SetLabel l)"
  unfolding SetLabel_def by (intro growth.pres_modify emits_keeps emits_PushBack) simp_all

lemma pres_AddLiteralBuffer [pres]: "pres keeps (AddLiteralBuffer buf)"
  unfolding AddLiteralBuffer_def by (rule presI) (auto simp: grows_def frameOf_def appended_def elim!: bindM_OkE thenM_OkE)

text \<open>Reading the arena.\<close>

lemma pres_getScope [pres]: "pres (=) (getScope s)" "pres (=) (getVar v)" "pres (=) (getDecl d)"
  by (simp_all add: getScope_def getVar_def getDecl_def unchanged.pres_get)

lemma pres_Find_loop: "pres (=) (Find_loop k it n options l x)"
  by (induction k arbitrary: it l x) (simp_all add: unchanged.pres_fuel, intro pres pres_getScope)

lemma pres_Find [pres]: "pres (=) (Find s n options)"
  by (auto simp: Find_def walk_def simp del: Find_loop.simps intro!: presI dest: presD [OF pres_Find_loop])

lemma pres_scopeAt [pres]: "pres keeps (scopeAt s)" "pres keeps (findName n)"
  by (auto simp: scopeAt_def findName_def intro!: pres)

end
