(* ===== verification/GrowthCode.thy ===== *)
theory GrowthCode
  imports Growth
begin

text \<open>
  The methods that emit instructions and those that access variables keep the place of the generator.
\<close>

section \<open>Instructions\<close>

lemma pres_propertyAccess [pres]:
  "(\<And>r. pres keeps (f r)) \<Longrightarrow> (\<And>i. pres keeps (g i)) \<Longrightarrow> (\<And>n. pres keeps (h n)) \<Longrightarrow>
   pres keeps (propertyAccess f g h prop)"
  unfolding propertyAccess_def by (intro pres)

lemma keeps_accumulator_constants_and_moves [pres]:
  "pres keeps (StoreAccumulator node r)" "pres keeps (LoadAccumulator node r)"
  "pres keeps (LoadAccumulatorString node str)" "pres keeps (LoadAccumulatorFloat node num)"
  "pres keeps (LoadAccumulatorInt node num')" "pres keeps (LoadConst node c)" "pres keeps (StoreConst node r c)"
  "pres keeps (MoveVreg node vd vs)"
  unfolding StoreAccumulator_def LoadAccumulator_def LoadAccumulatorString_def LoadAccumulatorFloat_def
    LoadAccumulatorInt_def LoadConst_def StoreConst_def MoveVreg_def
  by ((intro pres; simp)+)


lemma keeps_globals_and_properties [pres]:
  "pres keeps (TryLoadGlobalByName node n)" "pres keeps (TryStoreGlobalByName node n)"
  "pres keeps (LoadGlobalVar node n)" "pres keeps (StoreGlobalVar node n)" "pres keeps (StoreGlobalLet node n)"
  "pres keeps (LoadObjByName node obj prop)" "pres keeps (StoreObjByName node obj prop)"
  "pres keeps (LoadObjByIndex node obj index)" "pres keeps (LoadObjByValue node obj prop')"
  "pres keeps (StoreObjByValue node obj prop')" "pres keeps (StoreObjByIndex node obj index)"
  "pres keeps (StOwnByName node obj prop)" "pres keeps (StOwnByValue node obj prop')"
  "pres keeps (StOwnByIndex node obj index)" "pres keeps (LoadObjProperty node obj prop'')"
  "pres keeps (StoreObjProperty node obj prop'')" "pres keeps (StoreOwnProperty node obj prop'')"
  "pres keeps (DeleteObjProperty node obj prop'')" "pres keeps (StSuperByName node obj key)"
  "pres keeps (LdSuperByName node obj key)" "pres keeps (StSuperByValue node obj prop')"
  "pres keeps (LdSuperByValue node obj prop')" "pres keeps (StoreSuperProperty node obj prop'')"
  "pres keeps (LoadSuperProperty node obj prop'')"
  unfolding TryLoadGlobalByName_def TryStoreGlobalByName_def LoadGlobalVar_def StoreGlobalVar_def
    StoreGlobalLet_def LoadObjByName_def StoreObjByName_def LoadObjByIndex_def LoadObjByValue_def
    StoreObjByValue_def StoreObjByIndex_def StOwnByName_def StOwnByValue_def StOwnByIndex_def
    LoadObjProperty_def StoreObjProperty_def StoreOwnProperty_def DeleteObjProperty_def StSuperByName_def
    LdSuperByName_def StSuperByValue_def LdSuperByValue_def StoreSuperProperty_def LoadSuperProperty_def
  by ((intro pres; simp)+)


lemma keeps_operators [pres]:
  "pres keeps (Branch node l)" "pres keeps (BranchIfTrue node l)" "pres keeps (BranchIfFalse node l)"
  "pres keeps (BranchIfUndefined node l)" "pres keeps (BranchIfNotUndefined node l)"
  "pres keeps (BranchIfNotTrue node l)" "pres keeps (BranchIfCoercible node l)"
  "pres keeps (Condition node op lhs ifFalse)" "pres keeps (Unary node op r)" "pres keeps (Binary node op lhs)"
  unfolding Branch_def BranchIfTrue_def BranchIfFalse_def BranchIfUndefined_def BranchIfNotUndefined_def
    BranchIfNotTrue_def BranchIfCoercible_def Condition_def Unary_def Binary_def
  by ((intro pres; simp)+)


lemma keeps_throwing_returning_calling [pres]:
  "pres keeps (EmitThrow node)" "pres keeps (EmitRethrow node)" "pres keeps (EmitReturn node)"
  "pres keeps (EmitReturnUndefined node)" "pres keeps (CallThis node startReg argCount)"
  "pres keeps (Call node startReg argCount)" "pres keeps (SuperCall node startReg argCount)"
  "pres keeps (SuperCallSpread node vs)" "pres keeps (NewObject node startReg argCount)"
  "pres keeps (CallSpread node func thisReg args)" "pres keeps (NewObjSpread node obj target)"
  unfolding EmitThrow_def EmitRethrow_def EmitReturn_def EmitReturnUndefined_def CallThis_def Call_def
    SuperCall_def SuperCallSpread_def NewObject_def CallSpread_def NewObjSpread_def
  by ((intro pres; simp)+)


lemma keeps_values_and_conversions [pres]:
  "pres keeps (LoadHomeObject node)" "pres keeps (TypeOf node)" "pres keeps (GetUnmappedArgs node)"
  "pres keeps (NegateAcc node)" "pres keeps (ToBoolean node)" "pres keeps (ToNumber node arg)"
  "pres keeps (GetMethod node obj n)"
  unfolding LoadHomeObject_def TypeOf_def GetUnmappedArgs_def NegateAcc_def ToBoolean_def ToNumber_def
    GetMethod_def
  by ((intro pres; simp)+)


lemma keeps_generators_and_async_functions [pres]:
  "pres keeps (CreateGeneratorObj node r)" "pres keeps (CreateAsyncGeneratorObj node r)"
  "pres keeps (CreateIterResultObject node finished)" "pres keeps (SuspendGenerator node r)"
  "pres keeps (SuspendAsyncGenerator node r)" "pres keeps (GeneratorYield node r)"
  "pres keeps (GeneratorComplete node r)" "pres keeps (ResumeGenerator node r)"
  "pres keeps (GetResumeMode node r)" "pres keeps (AsyncFunctionEnter node)"
  "pres keeps (AsyncFunctionAwait node r)" "pres keeps (AsyncFunctionResolve node r)"
  "pres keeps (AsyncFunctionReject node r)" "pres keeps (AsyncGeneratorResolve node r)"
  "pres keeps (AsyncGeneratorReject node r)"
  unfolding CreateGeneratorObj_def CreateAsyncGeneratorObj_def CreateIterResultObject_def SuspendGenerator_def
    SuspendAsyncGenerator_def GeneratorYield_def GeneratorComplete_def ResumeGenerator_def GetResumeMode_def
    AsyncFunctionEnter_def AsyncFunctionAwait_def AsyncFunctionResolve_def AsyncFunctionReject_def
    AsyncGeneratorResolve_def AsyncGeneratorReject_def
  by ((intro pres; simp)+)


lemma keeps_objects_arrays_classes [pres]:
  "pres keeps (GetTemplateObject node r)" "pres keeps (CopyRestArgs node index)"
  "pres keeps (GetPropIterator node)" "pres keeps (GetNextPropName node iter)"
  "pres keeps (CreateEmptyObject node)" "pres keeps (CreateObjectWithBuffer node idx)"
  "pres keeps (SetObjectWithProto node proto obj)" "pres keeps (CopyDataProperties node dst src)"
  "pres keeps (DefineGetterSetterByValue node obj n getter setter setName)" "pres keeps (CreateEmptyArray node)"
  "pres keeps (CreateArrayWithBuffer node idx)" "pres keeps (StoreArraySpread node arr index')"
  "pres keeps (CreateObjectWithExcludedKeys node obj argStart argCount)"
  "pres keeps (DefineClassWithBuffer node ctorId litIdx lexenv base)"
  unfolding GetTemplateObject_def CopyRestArgs_def GetPropIterator_def GetNextPropName_def CreateEmptyObject_def
    CreateObjectWithBuffer_def SetObjectWithProto_def CopyDataProperties_def DefineGetterSetterByValue_def
    CreateEmptyArray_def CreateArrayWithBuffer_def StoreArraySpread_def CreateObjectWithExcludedKeys_def
    DefineClassWithBuffer_def
  by ((intro pres; simp)+)


lemma keeps_checks_iterators_modules [pres]:
  "pres keeps (ThrowIfNotObject node)" "pres keeps (ThrowThrowNotExist node)" "pres keeps (GetIterator node)"
  "pres keeps (GetAsyncIterator node)" "pres keeps (ThrowObjectNonCoercible node)"
  "pres keeps (CloseIterator node iter)" "pres keeps (ImportModule node n)"
  "pres keeps (LoadModuleVariable node m n)" "pres keeps (StoreModuleVar node n)"
  "pres keeps (CopyModule node m)"
  unfolding ThrowIfNotObject_def ThrowThrowNotExist_def GetIterator_def GetAsyncIterator_def
    ThrowObjectNonCoercible_def CloseIterator_def ImportModule_def LoadModuleVariable_def StoreModuleVar_def
    CopyModule_def
  by ((intro pres; simp)+)


lemma keeps_lexical_environments [pres]:
  "pres keeps (LoadLexicalVar node level slot)" "pres keeps (StoreLexicalVar node level slot)"
  "pres keeps (ThrowIfSuperNotCorrectCall node num)" "pres keeps (ThrowUndefinedIfHole node n)"
  "pres keeps (ThrowConstAssignment node n)" "pres keeps (PopLexEnv node)" "pres keeps (CopyLexEnv node)"
  "pres keeps (NewLexEnv node num')" "pres keeps (LdLexEnv node)" "pres keeps LexEnv"
  "pres keeps (CreateObjectHavingMethod node idx)"
  unfolding LoadLexicalVar_def StoreLexicalVar_def ThrowIfSuperNotCorrectCall_def ThrowUndefinedIfHole_def
    ThrowConstAssignment_def PopLexEnv_def CopyLexEnv_def NewLexEnv_def LdLexEnv_def LexEnv_def
    CreateObjectHavingMethod_def
  by ((intro pres; simp)+)


text \<open>The name of a function is in the table after whichever instruction defines it.\<close>

lemma keeps_DefineFunction [pres]: "pres keeps (DefineFunction node f n)"
proof -
  let ?define = "\<lambda>r. if sfAsync f then
      (if sfGenerator f then raEmit node EcmaDefineasyncgeneratorfunc [Str n, Reg r]
       else raEmit node EcmaDefineasyncfunc [Str n, Reg r])
    else if sfGenerator f then raEmit node EcmaDefinegeneratorfunc [Str n, Reg r]
    else if sfArrow f then seqM [LoadHomeObject node, raEmit node EcmaDefinencfuncdyn [Str n, Reg r]]
    else if sfMethod f then raEmit node EcmaDefinemethod [Str n, Reg r]
    else raEmit node EcmaDefinefuncdyn [Str n, Reg r]"
  have "pres (emits {n}) (?define r)" for r
    unfolding LoadHomeObject_def by (intro pres emission_rules; simp)
  then have "pres keeps (thenM (?define r) (addString n))" for r by (rule named_keeps)
  moreover have "DefineFunction node f n = bindM LexEnv (\<lambda>r. thenM (thenM (?define r) (addString n)) (ret ()))"
    by (simp add: DefineFunction_def thenM_def bindM_assoc)
  ultimately show ?thesis by (simp add: growth.pres_bind growth.pres_then growth.pres_ret keeps_lexical_environments)
qed

section \<open>Variables\<close>

lemma keeps_reading_variables_and_declarations [pres]:
  "pres keeps (varAt v)" "pres keeps (declAt d)" "pres keeps (declOf v)" "pres keeps (Name v)"
  "pres keeps currentScope" "pres keeps (CheckTdz n)" "pres keeps (CheckConstAssignment node v)"
  unfolding varAt_def declAt_def declOf_def Name_def currentScope_def CheckTdz_def CheckConstAssignment_def
  by ((intro pres; simp)+)

lemma keeps_loading [pres]:
  "pres keeps (ExpandLoadLexVar node res v)" "pres keeps (ExpandLoadNormalVar node v)"
  "pres keeps (LoadAccFromLexEnv node res)" "pres keeps (LoadVar node res)"
  unfolding ExpandLoadLexVar_def ExpandLoadNormalVar_def LoadAccFromLexEnv_def LoadVar_def
  by ((intro pres; simp)+)

lemma keeps_storing [pres]:
  "pres keeps (StoreLocalExport node v)" "pres keeps (ExpandStoreLexVar node res v isDecl)"
  "pres keeps (ExpandStoreNormalVar node v isDecl)" "pres keeps (StoreAccToLexEnv node res isDecl)"
  "pres keeps (StoreVar node res isDeclaration)"
  unfolding StoreLocalExport_def ExpandStoreLexVar_def ExpandStoreNormalVar_def StoreAccToLexEnv_def
    StoreVar_def
  by ((intro pres; simp)+)

lemma keeps_the_hidden_parameters [pres]:
  "pres keeps (GetFunctionObject node)" "pres keeps (GetNewTarget node)" "pres keeps (GetThis node)"
  "pres keeps (SetThis node)" "pres keeps (LoadAccFromArgs node)" "pres keeps (ValidateClassDirectReturn node)"
  unfolding GetFunctionObject_def GetNewTarget_def GetThis_def SetThis_def LoadAccFromArgs_def
    ValidateClassDirectReturn_def
  by ((intro pres; simp)+)

lemma keeps_hoisting [pres]:
  "pres keeps (HoistVar v d)" "pres keeps (HoistFunction v d)" "pres keeps (HoistBinding b)" "pres keeps Hoist"
  unfolding HoistVar_def HoistFunction_def HoistBinding_def Hoist_def
  by ((intro pres; simp)+)

lemma keeps_debug [pres]:
  "pres keeps (SetScopeStart s ins)" "pres keeps (SetScopeEnd s ins)" "pres keeps (addDebugScope s)"
  unfolding SetScopeStart_def SetScopeEnd_def addDebugScope_def
  by (intro growth.pres_modify; simp add: grows_def frameOf_def appended_def)+

lemma keeps_whenDebug [pres]: "pres keeps m \<Longrightarrow> pres keeps (whenDebug m)"
  unfolding whenDebug_def by (intro pres)

lemma keeps_register_scopes [pres]:
  "pres keeps lastInsn" "pres keeps firstInsn" "pres keeps DebuggerCloseScope"
  unfolding lastInsn_def firstInsn_def DebuggerCloseScope_def
  by ((intro pres; simp)+)

text \<open>A variable gets a register only if it is not captured, so slots stay.\<close>

lemma bindRegister_result:
  "bindRegister v g = Ok ((), if \<not> LexicalBound (vars (pgHeap g) v) \<and> vType (vars (pgHeap g) v) = VT_LOCAL
     then (takeReg g)\<lparr>pgHeap := (pgHeap g)\<lparr>vars := (vars (pgHeap g))
       (v := (vars (pgHeap g) v)\<lparr>vreg := ucast (NextReg g)\<rparr>)\<rparr>\<rparr>
     else g)"
  by (simp add: bindRegister_def varAt_def getVar_def onScopes_def whenM_def AllocReg_def BindVReg_def modVar_def
      takeReg_def bindM_def thenM_def getM_def modifyM_def ret_def)

lemma keeps_bindRegister [pres]: "pres keeps (bindRegister v)"
  by (rule presI)
    (auto simp: bindRegister_result grows_def frameOf_def appended_def sameBinding_def takeReg_def split: if_splits)

end
