(* ===== verification/GrowthContexts.thy ===== *)
theory GrowthContexts
  imports GrowthCode
begin

text \<open>
  Scopes and contexts are entered and left in pairs: what runs between sees another scope, or one context
  more; after it the generator is where it was.
\<close>

section \<open>Scopes\<close>

abbreviation anyScope :: "pandaGen \<Rightarrow> pandaGen \<Rightarrow> bool" where
  "anyScope \<equiv> grows (=) (=) (\<lambda>_ _. True)"

interpretation scopes: generator anyScope
  by unfold_locales (auto simp: grows_def intro: sameBinding_trans appended_trans)

lemma any_keeps: "pres keeps m \<Longrightarrow> pres anyScope m"
  by (auto simp: pres_def grows_def)

lemma any_setScope: "pres anyScope (setScope s)"
  unfolding setScope_def by (rule scopes.pres_modify) (simp add: grows_def frameOf_def appended_def)

lemma grows_setScope:
  assumes "grows (=) (=) (\<lambda>_ _. True) g l" "grows E (=) (=) l k"
  shows "grows E (=) (=) g (k\<lparr>pgScope := pgScope g\<rparr>)"
  using assms by (auto simp: grows_def frameOf_def appended_def intro: sameBinding_trans prefix_order.trans order.trans)

lemma scope_bracket:
  assumes "pres anyScope enter" "pres (grows E (=) (=)) m" "pres keeps leave"
  shows "pres (grows E (=) (=))
    (bindM (getM pgScope) (\<lambda>prev. thenM enter (bindM m (\<lambda>a. thenM leave (thenM (setScope prev) (ret a))))))"
proof (rule presI)
  fix g a k
  assume "bindM (getM pgScope) (\<lambda>prev. thenM enter (bindM m (\<lambda>a. thenM leave (thenM (setScope prev) (ret a))))) g
    = Ok (a, k)"
  then obtain u v l l' l'' where "enter g = Ok (u, l)" "m l = Ok (a, l')" "leave l' = Ok (v, l'')"
    and k: "k = l''\<lparr>pgScope := pgScope g\<rparr>"
    by (auto simp: setScope_def elim!: bindM_OkE thenM_OkE)
  then have "anyScope g l" "grows E (=) (=) l l'" "keeps l' l''" using assms by (auto dest: presD)
  then show "grows E (=) (=) g k" unfolding k using grows_setScope grows_then by blast
qed

text \<open>A scope of registers takes them, marks its start for the debugger and hoists what it declares.\<close>

lemma pres_inLocalRegScope:
  assumes "pres (grows E (=) (=)) m"
  shows "pres (grows E (=) (=)) (inLocalRegScope s m)"
proof -
  let ?enter = "seqM [setScope s,
      bindM (scopeAt s) (\<lambda>sc. forM (\<lambda>b. bindM (deref b) bindRegister) (map snd (sBindings sc))),
      whenDebug (thenM (bindM lastInsn (SetScopeStart s)) (addDebugScope s)), Hoist]"
  have "pres anyScope ?enter" by (intro scopes.pres_seqM_Cons scopes.pres_seqM_Nil any_setScope any_keeps pres)
  note b = scope_bracket [OF this assms, of DebuggerCloseScope]
  have "pres (grows E (=) (=)) (bindM (getM pgScope) (\<lambda>prev. thenM ?enter
    (bindM m (\<lambda>a. thenM (seqM [DebuggerCloseScope, setScope prev]) (ret a)))))"
    using b by (simp add: thenM_def bindM_assoc keeps_register_scopes)
  then show ?thesis unfolding inLocalRegScope_def by (rule pres_inRegScope)
qed

lemmas keeps_inLocalRegScope [pres] = pres_inLocalRegScope [where E = "(=)"]

lemma keeps_inScopeContext [pres]: "pres keeps m \<Longrightarrow> pres keeps (inScopeContext s m)"
  using scope_bracket [of "setScope s" "(=)" m "ret ()"]
  by (simp add: inScopeContext_def thenM_def any_setScope growth.pres_ret)

section \<open>The stack of contexts\<close>

definition sameBelow :: "'a list \<Rightarrow> 'a list \<Rightarrow> bool" where
  "sameBelow xs ys \<longleftrightarrow> butlast ys = butlast xs \<and> (ys = [] \<longleftrightarrow> xs = [])"

abbreviation onTop :: "(vreg list \<Rightarrow> vreg list \<Rightarrow> bool) \<Rightarrow> pandaGen \<Rightarrow> pandaGen \<Rightarrow> bool" where
  "onTop E \<equiv> grows E sameBelow (=)"

text \<open>The rest of a statement from inside its context: when it returns the context is gone.\<close>

abbreviation leaves :: "(vreg list \<Rightarrow> vreg list \<Rightarrow> bool) \<Rightarrow> pandaGen \<Rightarrow> pandaGen \<Rightarrow> bool" where
  "leaves E \<equiv> grows E (\<lambda>xs ys. ys = butlast xs) (=)"

interpretation contexts: generator "onTop (=)"
  by unfold_locales (auto simp: grows_def sameBelow_def intro: sameBinding_trans appended_trans)

lemma top_keeps: "pres (grows E (=) (=)) m \<Longrightarrow> pres (onTop E) m"
  by (auto simp: pres_def grows_def sameBelow_def)

lemma top_setTopContext: "pres (onTop (=)) (setTopContext c t)"
  unfolding setTopContext_def
  by (rule contexts.pres_modify) (auto simp: grows_def frameOf_def appended_def sameBelow_def butlast_list_update)

lemma leaves_popContext: "pres (leaves (=)) (popContext)"
  unfolding popContext_def by (rule presI) (simp add: grows_def frameOf_def appended_def)

text \<open>Steps that stay inside, then steps that leave.\<close>

lemma leaves_bind:
  "pres (onTop E) m \<Longrightarrow> (\<And>a. pres (leaves (=)) (f a)) \<Longrightarrow> pres (leaves E) (bindM m f)"
  by (erule grows_bind, assumption) (auto simp: sameBelow_def)

lemma leaves_bind_inside:
  "pres (onTop (=)) m \<Longrightarrow> (\<And>a. pres (leaves E) (f a)) \<Longrightarrow> pres (leaves E) (bindM m f)"
  by (erule grows_bind, assumption) (auto simp: sameBelow_def)

lemma pushed_leaves: "pres (leaves E) m \<Longrightarrow> pres (grows E (=) (=)) (thenM (pushContext c t) m)"
  by (rule presI) (auto simp: pushContext_def grows_def frameOf_def appended_def elim!: thenM_OkE dest!: presD)

lemma leaves_then_inside:
  "pres (onTop (=)) m \<Longrightarrow> pres (leaves E) k \<Longrightarrow> pres (leaves E) (thenM m k)"
  unfolding thenM_def by (rule leaves_bind_inside)

lemma leaves_then_ret: "pres (leaves E) m \<Longrightarrow> pres (leaves E) (thenM m (ret a))"
  unfolding thenM_def by (erule grows_bind, rule growth.pres_ret) auto

lemma leaves_seqM_Cons: "pres (onTop (=)) m \<Longrightarrow> pres (leaves E) (seqM ms) \<Longrightarrow> pres (leaves E) (seqM (m # ms))"
  by (simp add: leaves_then_inside)

lemma leaves_seqM_pop: "pres (leaves (=)) (seqM [popContext])"
  using leaves_then_ret [OF leaves_popContext] by simp

lemmas leaving = leaves_then_ret [OF leaves_popContext] leaves_seqM_pop leaves_seqM_Cons leaves_then_ret
  top_setTopContext

lemmas inside = top_keeps [where E = "(=)"]

lemma keeps_CreateCatchTable [pres]: "pres keeps CreateCatchTable"
  unfolding CreateCatchTable_def
  by (intro pres growth.pres_modify) (simp add: grows_def frameOf_def appended_def)

lemma keeps_labels [pres]: "pres keeps newLabelTarget" "pres keeps (scopeNode s)" "pres keeps CheckControlFlowChange"
  unfolding newLabelTarget_def scopeNode_def CheckControlFlowChange_def by (intro pres)+

lemma pres_inLabelContext:
  assumes "pres (grows E (=) (=)) m"
  shows "pres (grows E (=) (=)) (inLabelContext t m)"
  unfolding inLabelContext_def
  by (rule pushed_leaves, rule leaves_bind [OF top_keeps [OF assms]]) (intro leaving inside)

lemmas keeps_inLabelContext [pres] = pres_inLabelContext [where E = "(=)"]

lemma keeps_inLabelledContext [pres]:
  assumes "pres keeps m"
  shows "pres keeps (inLabelledContext stmt n block m)"
proof (cases block)
  case True
  then show ?thesis unfolding inLabelledContext_def
    by (auto intro!: pushed_leaves leaves_bind_inside leaving leaves_then_inside inside pres assms)
next
  case False
  then show ?thesis using keeps_inLabelContext [OF assms, of "namedTarget None n"]
    by (simp add: inLabelContext_def inLabelledContext_def)
qed

text \<open>The context of a loop; the body may leave an environment on the stack.\<close>

lemma pres_inLexEnvContext:
  assumes "pres (grows E (=) (=)) m"
  shows "pres (grows E (=) (=)) (inLexEnvContext loopEnv t m)"
proof (cases loopEnv)
  case None
  then show ?thesis using pres_inLabelContext [OF assms]
    unfolding inLexEnvContext_def
    by (auto intro!: pushed_leaves leaves_bind [OF top_keeps [OF assms]] leaving inside)
next
  case (Some s)
  show ?thesis unfolding inLexEnvContext_def Some option.case
    by (intro pushed_leaves leaves_bind_inside [of CreateCatchTable] leaves_bind_inside [of "scopeNode s"]
        leaving leaves_then_inside leaves_bind [OF top_keeps [OF assms]] contexts.pres_seqM_Cons
        contexts.pres_seqM_Nil inside pres)
qed

text \<open>A \<open>try\<close>: the context learns its catch table and the register of its finalizer.\<close>

lemma keeps_inTryContext [pres]:
  assumes "\<And>ct r. pres keeps (m ct r)"
  shows "pres keeps (inTryContext stmt hasFinalizer m)"
  unfolding inTryContext_def
  by (intro pushed_leaves leaving leaves_bind_inside leaves_then_inside contexts.pres_bind contexts.pres_then
      contexts.pres_seqM_Cons contexts.pres_seqM_Nil contexts.pres_ret pres_if pres_option inside pres assms)

section \<open>Builders and iterators\<close>

lemma pres_builderKind [pres]:
  "pres R f1 \<Longrightarrow> pres R f2 \<Longrightarrow> pres R f3 \<Longrightarrow> pres R f4 \<Longrightarrow> pres R (case_builderType f1 f2 f3 f4 x)"
  by (cases x) simp_all

lemma pres_contextClass [pres]:
  "(\<And>a. pres R (f1 a)) \<Longrightarrow> (\<And>a b. pres R (f2 a b)) \<Longrightarrow> (\<And>a b. pres R (f3 a b)) \<Longrightarrow>
   (\<And>a b c d e. pres R (f4 a b c d e)) \<Longrightarrow> pres R (case_contextClass f1 f2 f3 f4 x)"
  by (cases x) simp_all

lemma keeps_returning [pres]:
  "pres keeps theBuilder" "pres keeps (catchTableOf b)" "pres keeps (DirectReturn node)"
  "pres keeps (ImplicitReturn node)" "pres keeps (FunctionReg node)" "pres keeps (Prepare node)"
  "pres keeps (CleanUp node)" "pres keeps FunctionHasFinalizer"
  unfolding theBuilder_def catchTableOf_def DirectReturn_def ImplicitReturn_def FunctionReg_def Prepare_def
    CleanUp_def FunctionHasFinalizer_def
  by ((intro pres; simp)+)

lemma keeps_iterators [pres]:
  "pres keeps (newIterator node type)" "pres keeps (IteratorGetMethod it n)"
  "pres keeps (CallMethodWithValue it)" "pres keeps (CallMethod it)" "pres keeps (Complete it)"
  "pres keeps (IteratorValue it)" "pres keeps (newDestructuringIterator node)"
  "pres keeps (OnIterDone node doneTarget)"
  unfolding newIterator_def IteratorGetMethod_def CallMethodWithValue_def CallMethod_def Complete_def
    IteratorValue_def newDestructuringIterator_def OnIterDone_def
  by ((intro pres; simp)+)

lemma keeps_suspension [pres]:
  "pres keeps (resumeGenerator node obj completionType completionValue)"
  "pres keeps (SuspendResumeExecution node obj completionType completionValue)"
  "pres keeps (AsyncYield node obj completionType completionValue)"
  "pres keeps (unlessResumed node mode completionType l)"
  unfolding resumeGenerator_def SuspendResumeExecution_def AsyncYield_def unlessResumed_def
  by ((intro pres; simp)+)

lemma keeps_newYieldStar [pres]:
  "pres keeps (newYieldStar node b)"
  unfolding newYieldStar_def
  by ((intro pres; simp)+)

section \<open>Calls of what is defined later\<close>

text \<open>What a method relies on when it compiles a node, awaits or assigns to a pattern.\<close>

locale recursive_calls =
  fixes c :: calls
  assumes compileNode_keeps: "pres keeps (compileNode c n)"
    and awaitCall_keeps: "pres keeps (awaitCall c n)"
    and destructCall_keeps: "pres keeps (destructCall c n)"
begin

lemmas calls_keep [pres] = compileNode_keeps awaitCall_keeps destructCall_keeps

lemma keeps_closing [pres]:
  "pres keeps (IteratorNext c it)" "pres keeps (CloseInner c it innerResult innerResultType)"
  "pres keeps (CloseAsync c it abruptCompletion)" "pres keeps (Close c it abruptCompletion)"
  unfolding IteratorNext_def CloseInner_def CloseAsync_def Close_def
  by ((intro pres; simp)+)

lemma keeps_Step [pres]:
  "pres keeps (Step c di doneTarget)"
  unfolding Step_def
  by ((intro pres; simp)+)

lemma keeps_inIteratorContext [pres]:
  assumes "pres keeps m"
  shows "pres keeps (inIteratorContext c it t m)"
  unfolding inIteratorContext_def
  by (intro pushed_leaves leaving leaves_bind_inside leaves_then_inside contexts.pres_seqM_Cons
      contexts.pres_seqM_Nil inside pres assms)

text \<open>A finalizer is compiled with its context marked; the mark is removed.\<close>

lemma keeps_EmitFinalizer [pres]: "pres keeps (EmitFinalizer c i)"
proof (rule presI)
  fix g u k
  assume run: "EmitFinalizer c i g = Ok (u, k)"
  show "keeps g k"
  proof (cases "k = g")
    case False
    let ?x = "contexts g ! i"
    obtain stmt ct r f where x: "ctxClass ?x = TryContext stmt ct r True False"
      and body: "seqM [setContext i (?x\<lparr>ctxClass := TryContext stmt ct r True True\<rparr>), compileNode c f,
         setContext i (?x\<lparr>ctxClass := TryContext stmt ct r True False\<rparr>)] g = Ok (u, k)"
      using run False
      by (auto simp: EmitFinalizer_def undefinedM_def deref_def readM_def elim!: bindM_OkE
          split: contextClass.splits if_splits option.splits)
    have same: "?x\<lparr>ctxClass := TryContext stmt ct r True False\<rparr> = ?x" using x by simp
    obtain v l where "compileNode c f (g\<lparr>contexts := (contexts g)[i := ?x\<lparr>ctxClass := TryContext stmt ct r True True\<rparr>]\<rparr>)
        = Ok (v, l)" and k: "k = l\<lparr>contexts := (contexts l)[i := ?x]\<rparr>"
      using body by (auto simp: setContext_def same elim!: thenM_OkE)
    then have l: "keeps (g\<lparr>contexts := (contexts g)[i := ?x\<lparr>ctxClass := TryContext stmt ct r True True\<rparr>]\<rparr>) l"
      by (blast dest: presD [OF compileNode_keeps])
    then have "contexts l = (contexts g)[i := ?x\<lparr>ctxClass := TryContext stmt ct r True True\<rparr>]"
      by (simp add: grows_def)
    with l show ?thesis unfolding k by (auto simp: grows_def frameOf_def appended_def)
  qed (simp add: growth.R_refl)
qed

lemma keeps_leaving_contexts [pres]:
  "pres keeps (AbortContext c i change targetLabel)"
  unfolding AbortContext_def
  by ((intro pres; simp)+)

lemma keeps_ControlFlowChange_loop [pres]: "pres keeps (ControlFlowChange_loop c change labelName n target)"
  by (induction n arbitrary: target) (simp add: growth.pres_ret, simp only: ControlFlowChange_loop.simps, intro pres)

lemma keeps_jumps [pres]:
  "pres keeps (ControlFlowChangeBreak c l)" "pres keeps (ControlFlowChangeContinue c l)"
  "pres keeps (breakAll c)"
  unfolding ControlFlowChangeBreak_def ControlFlowChangeContinue_def breakAll_def
  by ((intro pres; simp)+)

text \<open>The mark that a return is handled is set while the contexts are left.\<close>

lemma handled_return:
  assumes "pres keeps m"
  shows "pres keeps (bindM theBuilder (\<lambda>b. whenM (\<not> handleReturn b)
    (seqM [setHandleReturn True, m, setHandleReturn False])))"
proof (rule presI)
  fix g u k
  assume run: "bindM theBuilder (\<lambda>b. whenM (\<not> handleReturn b)
    (seqM [setHandleReturn True, m, setHandleReturn False])) g = Ok (u, k)"
  then obtain b where b: "builder g = Some b"
    by (auto simp: theBuilder_def deref_def readM_def elim!: bindM_OkE split: option.splits)
  show "keeps g k"
  proof (cases "handleReturn b")
    case True
    then show ?thesis using run b
      by (auto simp: theBuilder_def deref_def readM_def whenM_def growth.R_refl elim!: bindM_OkE)
  next
    case False
    then obtain v l where "m (g\<lparr>builder := Some (b\<lparr>handleReturn := True\<rparr>)\<rparr>) = Ok (v, l)"
      and k: "k = l\<lparr>builder := map_option (\<lambda>x. x\<lparr>handleReturn := False\<rparr>) (builder l)\<rparr>"
      using run b by (auto simp: theBuilder_def deref_def readM_def whenM_def setHandleReturn_def
          elim!: bindM_OkE thenM_OkE)
    then have "keeps (g\<lparr>builder := Some (b\<lparr>handleReturn := True\<rparr>)\<rparr>) l" using assms by (auto dest: presD)
    then show ?thesis using b False unfolding k by (auto simp: grows_def frameOf_def appended_def)
  qed
qed

lemma keeps_completion [pres]:
  "pres keeps (HandleCompletion c node completionType completionValue)"
  unfolding HandleCompletion_def
  by (intro pres handled_return)

lemma keeps_yield [pres]:
  "pres keeps (Await c node)" "pres keeps (YieldGenerator c node obj)"
  "pres keeps (YieldAsyncGenerator c node obj)" "pres keeps (Yield c node)"
  unfolding Await_def YieldGenerator_def YieldAsyncGenerator_def Yield_def
  by ((intro pres; simp)+)

lemma keeps_delegation [pres]:
  "pres keeps (awaitIfAsync c node b)" "pres keeps (YieldStar_received c node b y)"
  "pres keeps (YieldStar_call c node b y)" "pres keeps (YieldStar_yield c node b y)"
  "pres keeps (YieldStar_complete c node y)" "pres keeps (YieldStar c node)"
  unfolding awaitIfAsync_def YieldStar_received_def YieldStar_call_def YieldStar_yield_def
    YieldStar_complete_def YieldStar_def
  by ((intro pres; simp)+)

end

end
