(* ===== verification/GrowthCompile.thy ===== *)
theory GrowthCompile
  imports GrowthContexts
begin

text \<open>
  Every construct keeps the place of the generator: the methods of \<open>Patterns\<close>, \<open>Expressions\<close> and
  \<open>Statements\<close>, then the recursion over the tree.
\<close>

section \<open>Loop environments\<close>

abbreviation oneMore :: "pandaGen \<Rightarrow> pandaGen \<Rightarrow> bool" where
  "oneMore \<equiv> grows (\<lambda>xs ys. \<exists>r. ys = r # xs) (=) (=)"

lemma oneMore_pushEnv: "pres oneMore (pushEnv r)"
  unfolding pushEnv_def by (rule presI) (simp add: grows_def frameOf_def appended_def)

lemma oneMore_before: "pres keeps m \<Longrightarrow> (\<And>a. pres oneMore (f a)) \<Longrightarrow> pres oneMore (bindM m f)"
  by (erule grows_bind, assumption) auto

lemma oneMore_after: "pres oneMore m \<Longrightarrow> (\<And>a. pres keeps (f a)) \<Longrightarrow> pres oneMore (bindM m f)"
  by (erule grows_bind, assumption) auto

lemma keeps_copying [pres]:
  "pres keeps (needEnv s)" "pres keeps (CopyBinding node parent flag b)" "pres keeps (CopyPetIterationCtx e)"
  unfolding needEnv_def CopyBinding_def CopyPetIterationCtx_def
  by ((intro pres; simp)+)

lemma oneMore_CopyBindings: "pres oneMore (CopyBindings s flag)"
  unfolding CopyBindings_def seqM.simps thenM_def bindM_assoc
  by (intro oneMore_before [of AllocReg] oneMore_before [of "scopeAt s"] oneMore_before [of "scopeNode s"]
      oneMore_after [OF oneMore_pushEnv] pres)

lemma keeps_inLoopEnv [pres]:
  assumes "\<And>e. pres keeps (m e)"
  shows "pres keeps (inLoopEnv s enterScope t flag m)"
proof -
  let ?scope = "if enterScope then inLocalRegScope s else inRegScope"
  have "pres keeps (bindM (?scope (inLexEnvContext e t (bindM (loopEnvironment e flag) m)))
      (\<lambda>a. thenM (whenM (e \<noteq> None) popEnv) (ret a)))" for e
  proof (cases e)
    case None
    then show ?thesis
      by (auto simp: loopEnvironment_def whenM_def intro!: growth.pres_bind growth.pres_then growth.pres_ret
          keeps_inLocalRegScope pres_inRegScope pres_inLexEnvContext assms)
  next
    case (Some r)
    then have "pres oneMore (bindM (loopEnvironment e flag) m)"
      by (auto simp: loopEnvironment_def bindM_assoc intro!: oneMore_after oneMore_CopyBindings assms)
    then have inside: "pres oneMore (?scope (inLexEnvContext e t (bindM (loopEnvironment e flag) m)))"
      by (auto intro: pres_inLocalRegScope pres_inRegScope pres_inLexEnvContext)
    have leave: "pres (grows (\<lambda>xs ys. ys = tl xs) (=) (=)) (thenM popEnv (ret a))" for a :: 'a
      by (rule presI) (auto simp: popEnv_def grows_def frameOf_def appended_def elim!: thenM_OkE)
    have "pres keeps (bindM (?scope (inLexEnvContext e t (bindM (loopEnvironment e flag) m)))
        (\<lambda>a. thenM popEnv (ret a)))"
      by (rule grows_bind [OF inside leave]) auto
    then show ?thesis using Some by (simp add: whenM_def)
  qed
  then show ?thesis unfolding inLoopEnv_def by (rule growth.pres_bind [OF keeps_copying(1)])
qed

section \<open>Constructs\<close>

context recursive_calls
begin

lemma keeps_keys [pres]:
  "pres keeps (ToPropertyKey c prop isComputed)" "pres keeps (LoadPropertyKey c prop isComputed)"
  unfolding ToPropertyKey_def LoadPropertyKey_def
  by ((intro pres; simp)+)

lemma keeps_arrays [pres]:
  "pres keeps (SpreadElement_step c t node obj idxReg e)"
  "pres keeps (CreateArray_rest c t node elements obj i rest)"
  unfolding SpreadElement_step_def CreateArray_rest_def
  by ((intro pres; simp)+)

lemma keeps_StoreElements_loop [pres]: "pres keeps (StoreElements_loop c t obj i xs)"
  by (induction xs arbitrary: i) (simp add: growth.pres_ret, simp only: StoreElements_loop.simps, intro pres)

lemma keeps_CreateArray [pres]:
  "pres keeps (CreateArray c node elements obj)"
  unfolding CreateArray_def
  by ((intro pres; simp)+)

lemma keeps_Condition_Compile [pres]:
  "pres keeps (Condition_Compile c expr falseLabel)"
  unfolding Condition_Compile_def
  by ((intro pres; simp)+)

lemma keeps_AllocLabels [pres]: "pres keeps (AllocLabels n)"
  by (induction n) (simp_all add: growth.pres_ret, intro pres)

lemma keeps_inSwitchBuilder [pres]: "(\<And>sb. pres keeps (m sb)) \<Longrightarrow> pres keeps (inSwitchBuilder cases m)"
  unfolding inSwitchBuilder_def by (intro pres)

lemma keeps_switch [pres]:
  "pres keeps (JumpIfCase c tag caseNode test caseLabel)" "pres keeps (JumpToDefault caseNode caseLabel)"
  "pres keeps (CompileTagOfSwitch c discriminant tag)" "pres keeps (CompileCaseStatements c stmts)"
  "pres keeps (switchBreak stmt sb)"
  unfolding JumpIfCase_def JumpToDefault_def CompileTagOfSwitch_def CompileCaseStatements_def switchBreak_def
  by ((intro pres; simp)+)

lemma keeps_StoreQuasi [pres]: "pres keeps (StoreQuasi indexReg rawArr cookedArr x)"
  unfolding StoreQuasi_def by (intro pres)

lemma keeps_TemplateObject [pres]:
  "pres keeps (TemplateObject lit quasi quasis)"
  unfolding TemplateObject_def
  by ((intro pres; simp)+)

lemma pres_referenceKind [pres]:
  "pres R f1 \<Longrightarrow> pres R f2 \<Longrightarrow> pres R f3 \<Longrightarrow> pres R (case_referenceKind f1 f2 f3 x)"
  by (cases x) simp_all

lemma keeps_references [pres]:
  "pres keeps (CompileObject c member obj dest)" "pres keeps (CompileKey c property computed)"
  "pres keeps (newLReference c node isDeclaration kind res)" "pres keeps (GetValue ref)"
  "pres keeps (SetValue c ref)"
  unfolding CompileObject_def CompileKey_def newLReference_def GetValue_def SetValue_def
  by ((intro pres; simp)+)

lemma keeps_CreateLRef_loop [pres]: "pres keeps (CreateLRef_loop k c n isDeclaration)"
  by (induction k arbitrary: n isDeclaration) (simp_all add: growth.pres_fuel, intro pres)

lemma keeps_CreateLRef [pres]:
  "pres keeps (CreateLRef c node isDeclaration)"
  unfolding CreateLRef_def
  by ((intro pres; simp)+)

lemma keeps_withDefault [pres]: "pres keeps labels \<Longrightarrow> pres keeps (withDefault c element val init labels)"
  unfolding withDefault_def by (intro pres)

lemma keeps_GenRestElement [pres]:
  "pres keeps (GenRestElement c restElement iter isDeclaration)"
  unfolding GenRestElement_def
  by ((intro pres; simp)+)

lemma keeps_GenElements_loop [pres]: "pres keeps (GenElements_loop c t iter isDeclaration es)"
  by (induction es) (simp add: growth.pres_ret, simp only: GenElements_loop.simps, intro pres)

lemma keeps_GenArray [pres]:
  "pres keeps (GenArray c array elements isDeclaration)"
  "pres keeps (GenObjectProperty c isDeclaration element value propReg)"
  unfolding GenArray_def GenObjectProperty_def
  by ((intro pres; simp)+)

lemma keeps_GenObjectWithRest_loop [pres]:
  "pres keeps (GenObjectWithRest_loop c t isDeclaration rhs propStart n es)"
  by (induction es) (simp add: growth.pres_ret, simp only: GenObjectWithRest_loop.simps, intro pres)

lemma keeps_GenObject [pres]:
  "pres keeps (GenObjectWithRest c properties isDeclaration rhs)"
  "pres keeps (GenObject c object properties isDeclaration rhs)" "pres keeps (Destructuring_Compile c pattern)"
  unfolding GenObjectWithRest_def GenObject_def Destructuring_Compile_def
  by ((intro pres; simp)+)

text \<open>Expressions.\<close>

lemma keeps_literals [pres]:
  "pres keeps (NumberLiteral_Compile node d)" "pres keeps (RegExpLiteral_Compile node pattern flags)"
  "pres keeps (Literal_Compile node l)"
  unfolding NumberLiteral_Compile_def RegExpLiteral_Compile_def Literal_Compile_def
  by ((intro pres; simp)+)

lemma keeps_names_and_members [pres]:
  "pres keeps (Identifier_Compile node n)"
  "pres keeps (MemberExpression_CompileTo c node object property computed objReg)"
  "pres keeps (MemberExpression_Compile c node object property computed)" "pres keeps (checkSuperCalled node)"
  "pres keeps (SuperExpression_Compile node)" "pres keeps (ThisExpression_Compile node)"
  "pres keeps (MetaProperty_Compile node isNewTarget)" "pres keeps (FunctionExpression_Compile func)"
  unfolding Identifier_Compile_def MemberExpression_CompileTo_def MemberExpression_Compile_def
    checkSuperCalled_def SuperExpression_Compile_def ThisExpression_Compile_def MetaProperty_Compile_def
    FunctionExpression_Compile_def
  by ((intro pres; simp)+)

lemma keeps_binary [pres]:
  "pres keeps (BinaryExpression_CompileLogical c node op l r)"
  "pres keeps (BinaryExpression_Compile c node op l r)" "pres keeps (AssignmentExpression_Compile c node op l r)"
  "pres keeps (ConditionalExpression_Compile c node test consequent alternate)"
  unfolding BinaryExpression_CompileLogical_def BinaryExpression_Compile_def AssignmentExpression_Compile_def
    ConditionalExpression_Compile_def
  by ((intro pres; simp)+)

lemma keeps_unary [pres]:
  "pres keeps (deletesGlobal res)" "pres keeps (CompileDelete c node arg)"
  "pres keeps (CompileTypeof c node arg)" "pres keeps (UnaryExpression_Compile c node op arg)"
  "pres keeps (UpdateExpression_Compile c node op isPrefix arg)" "pres keeps (argumentOrUndefined c node arg')"
  "pres keeps (AwaitExpression_Compile c node arg')" "pres keeps (YieldExpression_Compile c node delegate arg')"
  unfolding deletesGlobal_def CompileDelete_def CompileTypeof_def UnaryExpression_Compile_def
    UpdateExpression_Compile_def argumentOrUndefined_def AwaitExpression_Compile_def YieldExpression_Compile_def
  by ((intro pres; simp)+)

lemma keeps_calls [pres]:
  "pres keeps (CreateSpreadArguments c node args)" "pres keeps (CompileSuperArguments c node args)"
  "pres keeps (CompileSuperCall c node args containsSpread)" "pres keeps (CompileCallee c callee)"
  "pres keeps (CompileArguments c args)" "pres keeps (CallExpression_Compile c node callee args)"
  "pres keeps (NewExpression_Compile c node callee args)" "pres keeps (TaggedTemplate_Compile c node tag quasi)"
  unfolding CreateSpreadArguments_def CompileSuperArguments_def CompileSuperCall_def CompileCallee_def
    CompileArguments_def CallExpression_Compile_def NewExpression_Compile_def TaggedTemplate_Compile_def
  by ((intro pres; simp)+)

lemma keeps_LoadQuasi [pres]:
  "pres keeps (LoadQuasi node quasi)"
  unfolding LoadQuasi_def
  by ((intro pres; simp)+)

lemma keeps_Template_loop [pres]: "pres keeps (Template_loop k c node lhs isQuasi quasis exprs)"
proof (induction k arbitrary: isQuasi quasis exprs)
  case 0
  then show ?case by (simp add: growth.pres_ret)
next
  case (Suc k)
  then show ?case
    by (cases isQuasi; cases quasis; cases exprs) (simp_all only: Template_loop.simps, (intro pres Suc)+)
qed

lemma keeps_templates [pres]:
  "pres keeps (TemplateLiteral_Compile c node quasis exprs)" "pres keeps (SequenceExpression_Compile c es)"
  "pres keeps (ArrayExpression_Compile c node elements)"
  unfolding TemplateLiteral_Compile_def SequenceExpression_Compile_def ArrayExpression_Compile_def
  by ((intro pres; simp)+)

lemma pres_methodKind [pres]:
  "pres R f1 \<Longrightarrow> pres R f2 \<Longrightarrow> pres R f3 \<Longrightarrow> pres R f4 \<Longrightarrow> pres R (case_methodKind f1 f2 f3 f4 x)"
  by (cases x) simp_all

lemma keeps_literal_items [pres]:
  "pres keeps (EmitCreateObjectWithBuffer node buf hasMethod)"
  "pres keeps (CreateLiteral t kind value isMethod compiled propIndex)"
  "pres keeps (classLiteral t kind' value i compiled)"
  unfolding EmitCreateObjectWithBuffer_def CreateLiteral_def classLiteral_def
  by ((intro pres; simp)+)

lemma keeps_StaticProperties_loop [pres]: "pres keeps (StaticProperties_loop t ips st)"
  by (induction ips arbitrary: st) (simp add: growth.pres_ret, simp only: StaticProperties_loop.simps, intro pres)

lemma keeps_ClassProperties_loop [pres]: "pres keeps (ClassProperties_loop t ips st static)"
  by (induction ips arbitrary: st static) (simp add: growth.pres_ret, simp only: ClassProperties_loop.simps, intro pres)

lemma keeps_objects [pres]:
  "pres keeps (CompileStaticProperties node properties)"
  "pres keeps (CompileAccessor c node kind key value computed objReg)"
  "pres keeps (CompileRemainingProperty c t node objReg p)"
  "pres keeps (CompileRemainingProperties c node properties compiled objReg)"
  "pres keeps (ObjectExpression_Compile c node properties)"
  unfolding CompileStaticProperties_def CompileAccessor_def CompileRemainingProperty_def
    CompileRemainingProperties_def ObjectExpression_Compile_def
  by ((intro pres; simp)+)

lemma keeps_classes [pres]:
  "pres keeps (CompileHeritageClause c node superClass)" "pres keeps (InitializeClassName c ident)"
  "pres keeps (CreateClassStaticProperties body)"
  "pres keeps (CompileMissingProperty c t node dest kind key value computed)"
  "pres keeps (CompileMissingProperties c node body compiled classReg)"
  "pres keeps (ClassDefinition_Compile c node s ident superClass ctor body)"
  unfolding CompileHeritageClause_def InitializeClassName_def CreateClassStaticProperties_def
    CompileMissingProperty_def CompileMissingProperties_def ClassDefinition_Compile_def
  by ((intro pres; simp)+)

text \<open>Statements.\<close>

lemma keeps_simple_statements [pres]:
  "pres keeps (BlockStatement_Compile c s stmts)" "pres keeps (BreakStatement_Compile c node l)"
  "pres keeps (ContinueStatement_Compile c node l)" "pres keeps (ThrowStatement_Compile c node arg)"
  "pres keeps (LabelledStatement_Compile c node l' body)"
  "pres keeps (IfStatement_Compile c node test consequent alternate)"
  "pres keeps (ReturnStatement_Compile c node arg')" "pres keeps (VariableDeclaration_Compile c declarators)"
  "pres keeps (VariableDeclarator_Compile c node target init)" "pres keeps (ClassDeclaration_Compile c def)"
  unfolding BlockStatement_Compile_def BreakStatement_Compile_def ContinueStatement_Compile_def
    ThrowStatement_Compile_def LabelledStatement_Compile_def IfStatement_Compile_def ReturnStatement_Compile_def
    VariableDeclaration_Compile_def VariableDeclarator_Compile_def ClassDeclaration_Compile_def
  by ((intro pres; simp)+)

lemma keeps_loops [pres]:
  "pres keeps (DoWhileStatement_Compile c node s body test)"
  "pres keeps (WhileStatement_Compile c node s test body)" "pres keeps (declScopeOf s)"
  "pres keeps (initScopeOf d)" "pres keeps (ForUpdateStatement_Compile c node s init test' update body)"
  "pres keeps (ForInStatement_Compile c node s leftNode rightNode body)"
  "pres keeps (ForOfStatement_Compile c node s leftNode rightNode body isAwait)"
  unfolding DoWhileStatement_Compile_def WhileStatement_Compile_def declScopeOf_def initScopeOf_def
    ForUpdateStatement_Compile_def ForInStatement_Compile_def ForOfStatement_Compile_def
  by ((intro pres; simp)+)

lemma keeps_SwitchTests_loop [pres]: "pres keeps (SwitchTests_loop c t tag xs defaultIndex)"
  by (induction xs arbitrary: defaultIndex) (simp add: growth.pres_ret, simp only: SwitchTests_loop.simps, intro pres)

lemma keeps_SwitchStatement_Compile [pres]:
  "pres keeps (SwitchStatement_Compile c node s discriminant cases)"
  unfolding SwitchStatement_Compile_def
  by ((intro pres; simp)+)

lemma keeps_CatchClause_Compile [pres]:
  "pres keeps (CatchClause_Compile c s param body)" "pres keeps (CompileFinally c node ct finalizerRun)"
  unfolding CatchClause_Compile_def CompileFinally_def
  by ((intro pres; simp)+)

lemma keeps_try_blocks [pres]:
  "pres keeps handler \<Longrightarrow> pres keeps (CompileTryBlock c node block handler)"
  "pres keeps handler \<Longrightarrow> pres keeps (CompileTryWithFinally c node block handler)"
  unfolding CompileTryBlock_def CompileTryWithFinally_def by (intro pres; assumption)+

lemma keeps_TryStatement_Compile [pres]:
  "pres keeps (CompileTryCatchFinally c node block catchClause)" "pres keeps (CompileTryFinally c node block)"
  "pres keeps (CompileTryCatch c node block catchClause)"
  "pres keeps (TryStatement_Compile c node block catchClause' finalizer)"
  unfolding CompileTryCatchFinally_def CompileTryFinally_def CompileTryCatch_def TryStatement_Compile_def
  by ((intro pres; simp)+)

text \<open>Dispatch.\<close>

lemma keeps_Expression_Compile [pres]:
  "pres keeps (Expression_Compile c node e)"
  unfolding Expression_Compile_def
  by ((intro pres; simp)+)

lemma keeps_Statement_Compile [pres]:
  "pres keeps (Statement_Compile c node st)"
  unfolding Statement_Compile_def
  by ((intro pres; simp)+)

lemma keeps_Base_Compile [pres]:
  "pres keeps (Base_Compile c node b)"
  unfolding Base_Compile_def
  by ((intro pres; simp)+)

lemma keeps_Module_Compile [pres]:
  "pres keeps (Module_Compile c node m)"
  unfolding Module_Compile_def
  by ((intro pres; simp)+)

lemma keeps_CompileNode [pres]:
  "pres keeps (CompileNode c n)"
  unfolding CompileNode_def
  by ((intro pres; simp)+)

lemma keeps_dispatch [pres]:
  "pres keeps (CompileNode c n)" "pres keeps (Await c n)" "pres keeps (Destructuring_Compile c n)"
  by (intro pres)+

end

section \<open>The recursion\<close>

lemma recursive_calls_callsAt: "recursive_calls (callsAt k)"
proof (induction k)
  case 0
  then show ?case by unfold_locales (simp_all add: growth.pres_fuel)
next
  case (Suc k)
  then show ?case
    by unfold_locales (simp_all add: recursive_calls.keeps_dispatch)
qed

interpretation compilation: recursive_calls "callsAt k" for k
  by (rule recursive_calls_callsAt)

lemma keeps_Compile: "pres keeps (Compile k n)"
  unfolding Compile_def by (rule compilation.compileNode_keeps)

end
