(* ===== verification/RegAllocSpec.thy ===== *)
theory RegAllocSpec
  imports RegAlloc
begin

text \<open>
  What the register allocators do.  \<open>spillMoves\<close>, \<open>renamed\<close> and \<open>restoreMoves\<close> describe the instructions they
  emit; \<open>runMoves\<close> executes moves on a register file, so that "the instruction sees the operands it was
  given" is a statement about register files.
\<close>

section \<open>The shape of the emitted code\<close>

fun spillMoves :: "nodeRef \<Rightarrow> nat \<Rightarrow> nat \<Rightarrow> vreg list \<Rightarrow> irNode list" where
  "spillMoves node e i [] = []"
| "spillMoves node e i (r # rs) =
    Move node (of_nat e) (of_nat i) # Move node (of_nat i) r # spillMoves node (Suc e) (Suc i) rs"

fun renamed :: "nat \<Rightarrow> nat \<Rightarrow> vreg list \<Rightarrow> vreg list" where
  "renamed lim i [] = []"
| "renamed lim i (r # rs) =
    (if IsRegisterCorrect lim r then r # renamed lim i rs else of_nat i # renamed lim (Suc i) rs)"

fun restoreMoves :: "nodeRef \<Rightarrow> vreg \<Rightarrow> nat \<Rightarrow> irNode list" where
  "restoreMoves node e 0 = []"
| "restoreMoves node e (Suc i) = Move node (e + of_nat i) (of_nat i) # restoreMoves node e i"

abbreviation incorrect :: "nat \<Rightarrow> vreg list \<Rightarrow> vreg list" where
  "incorrect lim rs \<equiv> filter (\<lambda>r. \<not> IsRegisterCorrect lim r) rs"

lemma renamed_length [simp]: "length (renamed lim i rs) = length rs"
  by (induction lim i rs rule: renamed.induct) auto

lemma spillMoves_length [simp]: "length (spillMoves node e i rs) = 2 * length rs"
  by (induction node e i rs rule: spillMoves.induct) auto

lemma spillMoves_append:
  "spillMoves node e i (rs @ qs) = spillMoves node e i rs @ spillMoves node (e + length rs) (i + length rs) qs"
  by (induction node e i rs rule: spillMoves.induct) auto

lemma ucast_add: "(ucast (w + v :: u32) :: u16) = ucast w + ucast v"
proof (transfer)
  fix w v :: int
  have m: "x mod 4294967296 mod 65536 = x mod 65536" for x :: int by (simp add: mod_mod_cancel)
  show "take_bit LENGTH(16) (take_bit LENGTH(32) (w + v)) =
      take_bit LENGTH(16) (take_bit LENGTH(32) w + take_bit LENGTH(32) v)"
    by (simp add: take_bit_eq_mod m) (metis m mod_add_eq)
qed
lemma ucast_of_nat16: "(ucast (of_nat n :: u32) :: u16) = of_nat n"
  by (induction n) (simp_all add: ucast_add)
lemma NextReg_takeReg: "NextReg (takeReg g) = NextReg g + 1"
  by (simp add: NextReg_def takeReg_def ucast_add)

lemma unat_reg: "n < 2 ^ 16 \<Longrightarrow> unat (of_nat n :: vreg) = n"
  by (simp add: unsigned_of_nat take_bit_nat_eq_self)

lemma reg_eq_iff: "m < 2 ^ 16 \<Longrightarrow> n < 2 ^ 16 \<Longrightarrow> (of_nat m :: vreg) = of_nat n \<longleftrightarrow> m = n"
  by (metis unat_reg)

lemma reg_eq_0: "0 < n \<Longrightarrow> n < 2 ^ 16 \<Longrightarrow> (of_nat n :: vreg) \<noteq> 0"
  by (metis unat_reg unat_0 less_not_refl)

lemma Spill_shape:
  assumes "NextReg g = of_nat e" and "spillIndex a = of_nat i"
  shows "Spill node r a g = (of_nat i, a\<lparr>spillIndex := of_nat (Suc i)\<rparr>,
    g\<lparr>insns := insns g @ [Move node (of_nat e) (of_nat i), Move node (of_nat i) r], usedRegs := usedRegs g + 1\<rparr>)"
  using assms by (simp add: Spill_def Let_def PushBack_def takeReg_def)

lemma SpillIncorrect_shape:
  assumes "NextReg g = of_nat e" and "spillIndex a = of_nat i"
  shows "SpillIncorrect node rs a g =
    (renamed (limit a) i rs, a\<lparr>spillIndex := of_nat (i + length (incorrect (limit a) rs))\<rparr>,
     g\<lparr>insns := insns g @ spillMoves node e i (incorrect (limit a) rs),
       usedRegs := usedRegs g + of_nat (length (incorrect (limit a) rs))\<rparr>)"
  using assms
proof (induction rs arbitrary: e i a g)
  case Nil
  then show ?case by simp
next
  case (Cons r rs)
  show ?case
  proof (cases "IsRegisterCorrect (limit a) r")
    case True
    then show ?thesis using Cons.IH[OF Cons.prems] by simp
  next
    case False
    let ?a = "a\<lparr>spillIndex := of_nat (Suc i)\<rparr>"
    let ?g = "g\<lparr>insns := insns g @ [Move node (of_nat e) (of_nat i), Move node (of_nat i) r], usedRegs := usedRegs g + 1\<rparr>"
    have n: "NextReg ?g = of_nat (Suc e)" using Cons.prems(1) by (simp add: NextReg_def ucast_add)
    show ?thesis using False Cons.IH[of ?g "Suc e" ?a "Suc i"] n
      by (simp add: Spill_shape[OF Cons.prems] algebra_simps)
  qed
qed

lemma RestoreAll_shape:
  "i < 2 ^ 16 \<Longrightarrow> spillIndex a = of_nat i \<Longrightarrow>
    RestoreAll node a g = (a\<lparr>spillIndex := 0\<rparr>, g\<lparr>insns := insns g @ restoreMoves node (regEnd a) i\<rparr>)"
proof (induction i arbitrary: a g)
  case 0
  then show ?case by (subst RestoreAll.simps) simp
next
  case (Suc i)
  have "(of_nat (Suc i) :: u16) \<noteq> 0" using Suc.prems(1) using reg_eq_0[of "Suc i"] Suc.prems(1) by simp
  then show ?case using Suc by (subst RestoreAll.simps) (simp add: Restore_def Let_def PushBack_def)
qed

definition fits :: "pandaGen \<Rightarrow> irNode \<Rightarrow> bool" where
  "fits g ins = fst (CheckRegIndices g ins)"

definition lastLimit :: "pandaGen \<Rightarrow> irNode \<Rightarrow> nat" where
  "lastLimit g ins = snd (CheckRegIndices g ins)"

lemma Run_fits: "fits g ins \<Longrightarrow> Run ins a g = (a\<lparr>limit := lastLimit g ins\<rparr>, PushBack ins g)"
  by (cases "CheckRegIndices g ins") (simp add: Run_def fits_def lastLimit_def)

lemma Run_spills:
  assumes "\<not> fits g ins" and "spillIndex a = 0" and "bad = incorrect (lastLimit g ins) (Registers ins)"
    and "length bad < 2 ^ 16"
  shows "Run ins a g =
    (a\<lparr>limit := lastLimit g ins, regEnd := NextReg g, spillIndex := 0\<rparr>,
     g\<lparr>insns := insns g @ spillMoves (Node ins) (unat (NextReg g)) 0 bad
          @ [setRegisters ins (renamed (lastLimit g ins) 0 (Registers ins))]
          @ restoreMoves (Node ins) (NextReg g) (length bad),
       totalRegs := max (totalRegs g) (usedRegs g + of_nat (length bad))\<rparr>)"
proof -
  obtain ok lim where c: "CheckRegIndices g ins = (ok, lim)" by (cases "CheckRegIndices g ins")
  let ?a = "a\<lparr>limit := lim, regEnd := NextReg g\<rparr>"
  have s: "SpillIncorrect (Node ins) (Registers ins) ?a g =
    (renamed lim 0 (Registers ins), ?a\<lparr>spillIndex := of_nat (length bad)\<rparr>,
     g\<lparr>insns := insns g @ spillMoves (Node ins) (unat (NextReg g)) 0 bad, usedRegs := usedRegs g + of_nat (length bad)\<rparr>)"
    using SpillIncorrect_shape[of g "unat (NextReg g)" ?a 0 "Node ins" "Registers ins"] assms(2,3) c
    by (simp add: lastLimit_def)
  show ?thesis
    using assms(1) c by (simp add: Run_def fits_def lastLimit_def s PushBack_def endRegScope_def
        RestoreAll_shape[OF assms(4)] max.commute)
qed

section \<open>Executing moves\<close>

definition stepMove :: "irNode \<Rightarrow> (vreg \<Rightarrow> 'v) \<Rightarrow> vreg \<Rightarrow> 'v" where
  "stepMove ins rf = (case ins of Insn _ op [Reg d, Reg s] \<Rightarrow> if op = MovDyn then rf(d := rf s) else rf | _ \<Rightarrow> rf)"

definition runMoves :: "irNode list \<Rightarrow> (vreg \<Rightarrow> 'v) \<Rightarrow> vreg \<Rightarrow> 'v" where
  "runMoves code rf = fold stepMove code rf"

lemma runMoves_simps [simp]:
  "runMoves [] rf = rf"
  "runMoves (Move node d s # code) rf = runMoves code (rf(d := rf s))"
  "runMoves (code @ code') rf = runMoves code' (runMoves code rf)"
  by (simp_all add: runMoves_def stepMove_def)

text \<open>Registers by number: the register \<open>r\<close> lies in the \<open>n\<close> registers from \<open>i\<close>.\<close>

definition within :: "nat \<Rightarrow> nat \<Rightarrow> vreg \<Rightarrow> bool" where
  "within i n r \<longleftrightarrow> i \<le> unat r \<and> unat r < i + n"

lemma spillMoves_run:
  assumes "i + length rs \<le> e" and "e + length rs \<le> 2 ^ 16"
    and "\<forall>j < length rs. unat (rs ! j) < e \<and> \<not> within i j (rs ! j)"
  shows "(\<forall>j < length rs. runMoves (spillMoves node e i rs) rf (of_nat (i + j)) = rf (rs ! j))
    \<and> (\<forall>j < length rs. runMoves (spillMoves node e i rs) rf (of_nat (e + j)) = rf (of_nat (i + j)))
    \<and> (\<forall>r. \<not> within i (length rs) r \<and> \<not> within e (length rs) r \<longrightarrow> runMoves (spillMoves node e i rs) rf r = rf r)"
  using assms
proof (induction rs arbitrary: e i rf)
  case Nil
  then show ?case by simp
next
  case (Cons q rs)
  define rf' where "rf' = (rf(of_nat e := rf (of_nat i)))(of_nat i := rf q)"
  have e: "unat (of_nat e :: vreg) = e" and i: "unat (of_nat i :: vreg) = i"
    using Cons.prems by (auto intro!: unat_reg)
  have q: "q \<noteq> of_nat e" using Cons.prems(3) e by force
  have old: "rf' r = rf r" if "unat r \<noteq> e" and "unat r \<noteq> i" for r
    using that e i by (auto simp: rf'_def)
  have prem: "\<forall>j < length rs. unat (rs ! j) < Suc e \<and> \<not> within (Suc i) j (rs ! j)"
    using Cons.prems(3) by (fastforce simp: within_def)
  note IH = Cons.IH[of "Suc i" "Suc e" rf', OF _ _ prem]
  have run: "runMoves (spillMoves node e i (q # rs)) rf = runMoves (spillMoves node (Suc e) (Suc i) rs) rf'"
    using q by (simp add: rf'_def)
  have first: "runMoves (spillMoves node (Suc e) (Suc i) rs) rf' r = rf' r" if "unat r = i \<or> unat r = e" for r
    using IH Cons.prems that by (auto simp: within_def)
  have regs: "rf' (rs ! j) = rf (rs ! j)" if "j < length rs" for j
    using Cons.prems(3) that by (intro old) (force simp: within_def dest: spec[of _ "Suc j"])+
  have low: "rf' (of_nat (Suc i + j)) = rf (of_nat (Suc i + j))" if "j < length rs" for j
    using Cons.prems(1,2) that by (intro old) (simp_all add: unat_reg del: of_nat_Suc of_nat_add)
  show ?case
  proof (intro conjI allI impI)
    fix j assume j: "j < length (q # rs)"
    show "runMoves (spillMoves node e i (q # rs)) rf (of_nat (i + j)) = rf ((q # rs) ! j)"
    proof (cases j)
      case 0 then show ?thesis unfolding run using first[of "of_nat i"] i 0 by (simp add: rf'_def)
    next
      case (Suc k) then show ?thesis unfolding run using IH Cons.prems j regs[of k] by auto
    qed
    show "runMoves (spillMoves node e i (q # rs)) rf (of_nat (e + j)) = rf (of_nat (i + j))"
    proof (cases j)
      case 0
      have "e \<noteq> i" using Cons.prems by simp
      then show ?thesis unfolding run using first[of "of_nat e"] e i 0 by (auto simp: rf'_def)
    next
      case (Suc k) then show ?thesis unfolding run using IH Cons.prems j low[of k] by auto
    qed
  next
    fix r assume r: "\<not> within i (length (q # rs)) r \<and> \<not> within e (length (q # rs)) r"
    then have "unat r \<noteq> e" "unat r \<noteq> i" by (auto simp: within_def)
    moreover have "\<not> within (Suc i) (length rs) r \<and> \<not> within (Suc e) (length rs) r" using r by (auto simp: within_def)
    ultimately show "runMoves (spillMoves node e i (q # rs)) rf r = rf r" unfolding run using IH Cons.prems old[of r] by simp
  qed
qed

lemma renamed_run:
  assumes "\<forall>j < length (incorrect lim rs). f (of_nat (i + j)) = h (incorrect lim rs ! j)"
    and "\<forall>r \<in> set rs. IsRegisterCorrect lim r \<longrightarrow> f r = h r"
  shows "map f (renamed lim i rs) = map h rs"
  using assms
proof (induction lim i rs rule: renamed.induct)
  case (1 lim i)
  then show ?case by simp
next
  case (2 lim i r rs)
  show ?case
  proof (cases "IsRegisterCorrect lim r")
    case True
    then show ?thesis using 2 by simp
  next
    case False
    have "f (of_nat i) = h r" using 2(3) False by force
    moreover have "\<forall>j < length (incorrect lim rs). f (of_nat (Suc i + j)) = h (incorrect lim rs ! j)"
    proof (intro allI impI)
      fix j assume "j < length (incorrect lim rs)"
      then show "f (of_nat (Suc i + j)) = h (incorrect lim rs ! j)" using 2(3)[rule_format, of "Suc j"] False by simp
    qed
    ultimately show ?thesis using 2(2)[OF False] 2(4) False by simp
  qed
qed

lemma renamed_fits:
  "i + length (incorrect lim rs) \<le> lim \<Longrightarrow> i + length (incorrect lim rs) \<le> 2 ^ 16 \<Longrightarrow>
    \<forall>r \<in> set (renamed lim i rs). unat r < lim"
proof (induction lim i rs rule: renamed.induct)
  case (1 lim i)
  then show ?case by simp
next
  case (2 lim i r rs)
  show ?case
  proof (cases "IsRegisterCorrect lim r")
    case True
    then have "renamed lim i (r # rs) = r # renamed lim i rs" and "incorrect lim (r # rs) = incorrect lim rs" by simp_all
    then show ?thesis using 2(1)[OF True] 2(3,4) True unfolding IsRegisterCorrect_def by (metis set_ConsD)
  next
    case False
    then have "renamed lim i (r # rs) = of_nat i # renamed lim (Suc i) rs"
      and n: "length (incorrect lim (r # rs)) = Suc (length (incorrect lim rs))" by simp_all
    moreover have "unat (of_nat i :: vreg) < lim" using 2(3,4) unat_reg[of i] n by linarith
    moreover have "\<forall>r \<in> set (renamed lim (Suc i) rs). unat r < lim" using 2(2)[OF False] 2(3,4) n by linarith
    ultimately show ?thesis by (metis set_ConsD)
  qed
qed

lemma restoreMoves_run:
  "e + n \<le> 2 ^ 16 \<Longrightarrow> \<not> within e n r \<Longrightarrow> runMoves (restoreMoves node (of_nat e) n) rf r = rf r"
proof (induction n arbitrary: rf)
  case 0
  then show ?case by simp
next
  case (Suc n)
  have "r \<noteq> of_nat (e + n)" using Suc.prems by (auto simp: within_def unat_reg simp del: of_nat_add)
  moreover have "\<not> within e n r" using Suc.prems by (auto simp: within_def)
  ultimately show ?case using Suc.IH Suc.prems(1) by simp
qed

text \<open>An instruction that needs spilling, in a frame that has room for it.\<close>

definition spillable :: "pandaGen \<Rightarrow> irNode \<Rightarrow> nat \<Rightarrow> bool" where
  "spillable g ins n \<longleftrightarrow> \<not> fits g ins \<and> n \<le> lastLimit g ins \<and> unat (NextReg g) + n \<le> 2 ^ 16 \<and> n < 2 ^ 16
    \<and> (\<forall>r \<in> set (Registers ins). unat r < unat (NextReg g))"

definition spilledRegs :: "pandaGen \<Rightarrow> irNode \<Rightarrow> vreg list" where
  "spilledRegs g ins = incorrect (lastLimit g ins) (Registers ins)"

lemma spillable_moves:
  assumes "spillable g ins (length (spilledRegs g ins))"
  shows "0 + length (spilledRegs g ins) \<le> unat (NextReg g)"
    and "\<forall>j < length (spilledRegs g ins). unat (spilledRegs g ins ! j) < unat (NextReg g) \<and> \<not> within 0 j (spilledRegs g ins ! j)"
proof -
  let ?bad = "spilledRegs g ins"
  have b: "lastLimit g ins \<le> unat (?bad ! j) \<and> unat (?bad ! j) < unat (NextReg g)" if "j < length ?bad" for j
    using nth_mem[OF that] assms by (auto simp: spilledRegs_def IsRegisterCorrect_def spillable_def)
  show "0 + length ?bad \<le> unat (NextReg g)"
    using b[of 0] assms by (cases "length ?bad") (auto simp: spillable_def)
  show "\<forall>j < length ?bad. unat (?bad ! j) < unat (NextReg g) \<and> \<not> within 0 j (?bad ! j)"
    using b assms by (force simp: within_def spillable_def)
qed

lemma Run_emits:
  assumes "spillable g ins (length (spilledRegs g ins))" and "spillIndex a = 0"
  obtains b k where "Run ins a g = (b, k)" and "spillIndex b = 0"
    and "k = g\<lparr>insns := insns g @ spillMoves (Node ins) (unat (NextReg g)) 0 (spilledRegs g ins)
          @ [setRegisters ins (renamed (lastLimit g ins) 0 (Registers ins))]
          @ restoreMoves (Node ins) (NextReg g) (length (spilledRegs g ins)),
       totalRegs := max (totalRegs g) (usedRegs g + of_nat (length (spilledRegs g ins)))\<rparr>"
  using assms Run_spills[OF _ assms(2) spilledRegs_def] by (simp add: spillable_def)

section \<open>Ranges\<close>

lemma upt_shift: "[s + k..<s + l] = map (\<lambda>j. s + j) [k..<l]" for s :: nat
proof (induction l)
  case (Suc l)
  then show ?case by (cases "k \<le> l") simp_all
qed simp

lemma SpillAll_shape:
  assumes "NextReg g = of_nat e" and "spillIndex a = of_nat i"
  shows "SpillAll node rs a g =
    (map of_nat [i..<i + length rs], a\<lparr>spillIndex := of_nat (i + length rs)\<rparr>,
     g\<lparr>insns := insns g @ spillMoves node e i rs, usedRegs := usedRegs g + of_nat (length rs)\<rparr>)"
  using assms
proof (induction rs arbitrary: e i a g)
  case Nil
  then show ?case by simp
next
  case (Cons r rs)
  let ?a = "a\<lparr>spillIndex := of_nat (Suc i)\<rparr>"
  let ?g = "g\<lparr>insns := insns g @ [Move node (of_nat e) (of_nat i), Move node (of_nat i) r], usedRegs := usedRegs g + 1\<rparr>"
  have n: "NextReg ?g = of_nat (Suc e)" using Cons.prems(1) by (simp add: NextReg_def ucast_add)
  have up: "[i..<i + length (r # rs)] = i # [Suc i..<Suc i + length rs]" by (simp add: upt_conv_Cons del: upt_Suc)
  show ?case using Cons.IH[of ?g "Suc e" ?a "Suc i"] n
    unfolding up by (simp add: Spill_shape[OF Cons.prems] algebra_simps del: upt_Suc)
qed

lemma SpillRange_shape:
  assumes "NextReg g = of_nat e" and "spillIndex a = of_nat i" and "d < fuel"
    and "unat (of_nat (s + d) :: vreg) = rangeEnd" and "\<forall>j < d. unat (of_nat (s + j) :: vreg) \<noteq> rangeEnd"
  shows "SpillRange_loop fuel node (of_nat s) rangeEnd a g =
    Some (a\<lparr>spillIndex := of_nat (i + d)\<rparr>,
     g\<lparr>insns := insns g @ spillMoves node e i (map of_nat [s..<s + d]), usedRegs := usedRegs g + of_nat d\<rparr>)"
  using assms
proof (induction d arbitrary: fuel s e i a g)
  case 0
  then show ?case by (cases fuel) simp_all
next
  case (Suc d)
  obtain n where fuel: "fuel = Suc n" "d < n" using Suc.prems(3) by (cases fuel) auto
  let ?a = "a\<lparr>spillIndex := of_nat (Suc i)\<rparr>"
  let ?g = "g\<lparr>insns := insns g @ [Move node (of_nat e) (of_nat i), Move node (of_nat i) (of_nat s)], usedRegs := usedRegs g + 1\<rparr>"
  have n: "NextReg ?g = of_nat (Suc e)" using Suc.prems(1) by (simp add: NextReg_def ucast_add)
  have ne: "unat (of_nat s :: vreg) \<noteq> rangeEnd" using Suc.prems(5)[rule_format, of 0] by simp
  have "\<forall>j < d. unat (of_nat (Suc s + j) :: vreg) \<noteq> rangeEnd"
  proof (intro allI impI)
    fix j assume "j < d"
    then show "unat (of_nat (Suc s + j) :: vreg) \<noteq> rangeEnd" using Suc.prems(5)[rule_format, of "Suc j"] by simp
  qed
  then have "SpillRange_loop n node (of_nat (Suc s)) rangeEnd ?a ?g =
    Some (?a\<lparr>spillIndex := of_nat (Suc i + d)\<rparr>,
      ?g\<lparr>insns := insns ?g @ spillMoves node (Suc e) (Suc i) (map of_nat [Suc s..<Suc s + d]),
         usedRegs := usedRegs ?g + of_nat d\<rparr>)"
    using Suc.IH[of ?g "Suc e" ?a "Suc i" n "Suc s"] n fuel(2) Suc.prems(4) by simp
  moreover have "SpillRange_loop fuel node (of_nat s) rangeEnd a g = SpillRange_loop n node (of_nat (Suc s)) rangeEnd ?a ?g"
    using ne by (simp add: fuel(1) Spill_shape[OF Suc.prems(1,2)] algebra_simps)
  moreover have "[s..<s + Suc d] = s # [Suc s..<Suc s + d]" by (simp add: upt_conv_Cons)
  ultimately show ?case by (simp add: algebra_simps)
qed

text \<open>The registers a range instruction spills, and the code around it.\<close>

definition rangeRegs :: "irNode \<Rightarrow> vreg \<Rightarrow> nat \<Rightarrow> vreg list" where
  "rangeRegs ins start n = butlast (Registers ins) @ map (\<lambda>j. start + of_nat j) [0..<n]"

lemma map_of_nat_shift: "map of_nat [unat s..<unat s + n] = map (\<lambda>j. (s :: vreg) + of_nat j) [0..<n]"
proof -
  have "[unat s..<unat s + n] = map (\<lambda>j. unat s + j) [0..<n]" using upt_shift[of "unat s" 0 n] by simp
  then show ?thesis by (simp add: o_def)
qed

lemma RangeRun_spills:
  assumes "\<not> fits g ins" and "Registers ins \<noteq> []" and "spillIndex a = 0" and "d < 2 ^ 16"
    and "unat (of_nat (unat start + 1 + d) :: vreg) = unat start + n"
    and "\<forall>j < d. unat (of_nat (unat start + 1 + j) :: vreg) \<noteq> unat start + n"
  defines "m \<equiv> length (Registers ins) - 1"
  shows "\<exists>c. RangeRun ins start n a g =
    (let (b, l) = RestoreAll (Node ins) (c\<lparr>regEnd := NextReg g, spillIndex := of_nat (m + 1 + d)\<rparr>)
          (g\<lparr>usedRegs := usedRegs g + of_nat (m + 1 + d),
             insns := insns g @ spillMoves (Node ins) (unat (NextReg g)) 0 (rangeRegs ins start (Suc d))
              @ [setRegisters ins (map of_nat [0..<m + 1])]\<rparr>)
     in Ok (b, endRegScope (usedRegs g) l))"
proof -
  obtain ok lim where c: "CheckRegIndices g ins = (ok, lim)" by (cases "CheckRegIndices g ins")
  let ?e = "unat (NextReg g)" and ?nd = "Node ins"
  let ?a = "a\<lparr>limit := lim, regEnd := NextReg g\<rparr>"
  let ?g1 = "g\<lparr>insns := insns g @ spillMoves ?nd ?e 0 (butlast (Registers ins)), usedRegs := usedRegs g + of_nat m\<rparr>"
  let ?g2 = "g\<lparr>insns := insns g @ spillMoves ?nd ?e 0 (butlast (Registers ins) @ [start]), usedRegs := usedRegs g + of_nat (m + 1)\<rparr>"
  have s1: "SpillAll ?nd (butlast (Registers ins)) ?a g =
      (map of_nat [0..<m], ?a\<lparr>spillIndex := of_nat m\<rparr>, ?g1)"
    using SpillAll_shape[of g ?e ?a 0 ?nd "butlast (Registers ins)"] assms(3) by (simp add: m_def)
  have n1: "NextReg ?g1 = of_nat (?e + m)" by (simp add: NextReg_def ucast_add ucast_of_nat16)
  have s2: "Spill ?nd start (?a\<lparr>spillIndex := of_nat m\<rparr>) ?g1 = (of_nat m, ?a\<lparr>spillIndex := of_nat (m + 1)\<rparr>, ?g2)"
    using Spill_shape[OF n1, of "?a\<lparr>spillIndex := of_nat m\<rparr>" m] by (simp add: spillMoves_append m_def add.commute)
  have n2: "NextReg ?g2 = of_nat (?e + (m + 1))" by (simp add: NextReg_def ucast_add ucast_of_nat16 add.assoc add.commute)
  have s3: "SpillRange_loop (2 ^ 16) ?nd (start + 1) (unat start + n) (?a\<lparr>spillIndex := of_nat (m + 1)\<rparr>) ?g2 =
    Some (?a\<lparr>spillIndex := of_nat (m + 1 + d)\<rparr>, ?g2\<lparr>insns := insns ?g2 @ spillMoves ?nd (?e + (m + 1)) (m + 1)
        (map of_nat [unat start + 1..<unat start + 1 + d]), usedRegs := usedRegs ?g2 + of_nat d\<rparr>)"
    using SpillRange_shape[OF n2, of "?a\<lparr>spillIndex := of_nat (m + 1)\<rparr>" "m + 1" d "2 ^ 16" "unat start + 1" "unat start + n" ?nd]
      assms(4-6) by (simp add: add.commute del: upt_Suc)
  have "map of_nat [unat start + 1..<unat start + 1 + d] = map (\<lambda>j. start + of_nat j) [1..<Suc d]"
  proof -
    have "[unat start + 1..<unat start + 1 + d] = map (\<lambda>j. unat start + j) [1..<Suc d]"
      using upt_shift[of "unat start" 1 "Suc d"] by (simp del: upt_Suc)
    then show ?thesis by (simp add: o_def)
  qed
  then have regs: "rangeRegs ins start (Suc d) =
      (butlast (Registers ins) @ [start]) @ map of_nat [unat start + 1..<unat start + 1 + d]"
    by (simp add: rangeRegs_def upt_conv_Cons[of 0 "Suc d"] del: upt_Suc)
  have code: "insns ?g2 @ spillMoves ?nd (?e + (m + 1)) (m + 1) (map of_nat [unat start + 1..<unat start + 1 + d])
      = insns g @ spillMoves ?nd ?e 0 (rangeRegs ins start (Suc d))"
    unfolding regs by (subst (2) spillMoves_append) (use assms(2) in \<open>simp add: m_def\<close>)
  show ?thesis
    using assms(1,2) c unfolding RangeRun_def
    by (intro exI[of _ ?a]) (simp add: fits_def s1 s2 s3[simplified] code[simplified] PushBack_def add.assoc)
qed

section \<open>Properties\<close>

text \<open>
  C37: when an instruction names registers its formats cannot encode, the allocator surrounds it by
  moves such that every register operand of the emitted instruction can be encoded, and the values the
  instruction reads are those of the operands it was given, provided the operands that are not spilled
  lie above the low registers the moves overwrite.  The registers taken are given back, and the frame
  is counted as large as the spill area.
\<close>

theorem spilled_instruction_sees_operands:
  assumes "n = length (spilledRegs g ins)" and "spillable g ins n" and "spillIndex a = 0"
    and "\<forall>r \<in> set (Registers ins). unat r < lastLimit g ins \<longrightarrow> n \<le> unat r"
  shows "\<exists>pre rs post b k. Run ins a g = (b, k) \<and> insns k = insns g @ pre @ [setRegisters ins rs] @ post
    \<and> (\<forall>r \<in> set (Registers (setRegisters ins rs)). unat r < lastLimit g ins)
    \<and> (\<forall>rf :: vreg \<Rightarrow> 'v. map (runMoves pre rf) (Registers (setRegisters ins rs)) = map rf (Registers ins))
    \<and> usedRegs k = usedRegs g \<and> totalRegs k = max (totalRegs g) (usedRegs g + of_nat n) \<and> spillIndex b = 0"
proof -
  let ?lim = "lastLimit g ins" and ?pre = "spillMoves (Node ins) (unat (NextReg g)) 0 (spilledRegs g ins)"
  let ?rs = "renamed ?lim 0 (Registers ins)"
  obtain b k where run: "Run ins a g = (b, k)" "spillIndex b = 0"
    "k = g\<lparr>insns := insns g @ ?pre @ [setRegisters ins ?rs] @ restoreMoves (Node ins) (NextReg g) n,
       totalRegs := max (totalRegs g) (usedRegs g + of_nat n)\<rparr>"
    using Run_emits[of g ins a] assms(1-3) by metis
  note moves = spillable_moves[of g ins, folded assms(1), OF assms(2)]
  have regs: "Registers (setRegisters ins ?rs) = ?rs" by (simp add: Registers_set)
  have "\<forall>r \<in> set ?rs. unat r < ?lim"
    using renamed_fits[of 0 ?lim "Registers ins"] assms(1,2) by (simp add: spilledRegs_def spillable_def)
  moreover have "map (runMoves ?pre rf) ?rs = map rf (Registers ins)" for rf :: "vreg \<Rightarrow> 'v"
  proof (rule renamed_run)
    have e: "unat (NextReg g) + length (spilledRegs g ins) \<le> 2 ^ 16" using assms(1,2) by (simp add: spillable_def)
    note run' = spillMoves_run[OF moves(1)[unfolded assms(1)] e, folded assms(1), OF moves(2), of "Node ins" rf]
    show "\<forall>j < length (incorrect ?lim (Registers ins)). runMoves ?pre rf (of_nat (0 + j)) = rf (incorrect ?lim (Registers ins) ! j)"
      using run' assms(1) by (simp add: spilledRegs_def)
    show "\<forall>r \<in> set (Registers ins). IsRegisterCorrect ?lim r \<longrightarrow> runMoves ?pre rf r = rf r"
      using run' assms(2,4) by (fastforce simp: within_def IsRegisterCorrect_def spillable_def)
  qed
  ultimately show ?thesis using run by (intro exI[of _ ?pre] exI[of _ ?rs] exI[of _ "restoreMoves (Node ins) (NextReg g) n"]
        exI[of _ b] exI[of _ k]) (simp add: regs)
qed

text \<open>
  C38: \<open>Restore\<close> does not restore.  Its moves go from the low registers to the spill area instead of
  back: after the whole sequence the low registers hold the operands that were spilled, and what they
  held before is lost, even when the instruction itself writes no register.
\<close>

theorem restore_does_not_restore:
  assumes "n = length (spilledRegs g ins)" and "spillable g ins n" and "spillIndex a = 0" and "j < n"
  shows "\<exists>pre main post b k. Run ins a g = (b, k) \<and> insns k = insns g @ pre @ [main] @ post
    \<and> (\<forall>rf :: vreg \<Rightarrow> 'v. runMoves post (runMoves pre rf) (of_nat j) = rf (spilledRegs g ins ! j))"
proof -
  let ?lim = "lastLimit g ins" and ?pre = "spillMoves (Node ins) (unat (NextReg g)) 0 (spilledRegs g ins)"
  let ?rs = "renamed ?lim 0 (Registers ins)" and ?post = "restoreMoves (Node ins) (NextReg g) n"
  obtain b k where run: "Run ins a g = (b, k)" "k = g\<lparr>insns := insns g @ ?pre @ [setRegisters ins ?rs] @ ?post,
       totalRegs := max (totalRegs g) (usedRegs g + of_nat n)\<rparr>"
    using Run_emits[of g ins a] assms(1-3) by metis
  note moves = spillable_moves[of g ins, folded assms(1), OF assms(2)]
  have e: "unat (NextReg g) + n \<le> 2 ^ 16" "n < 2 ^ 16" using assms(2) by (simp_all add: spillable_def)
  have low: "\<not> within (unat (NextReg g)) n (of_nat j)" using moves(1) assms(4) e by (simp add: within_def unat_reg)
  have "runMoves ?post (runMoves ?pre rf) (of_nat j) = rf (spilledRegs g ins ! j)" for rf :: "vreg \<Rightarrow> 'v"
    using restoreMoves_run[OF e(1) low, of "Node ins" "runMoves ?pre rf"] assms(1,4)
      spillMoves_run[of 0 "spilledRegs g ins" "unat (NextReg g)" "Node ins" rf, folded assms(1)] moves e by simp
  then show ?thesis using run by (intro exI[of _ ?pre] exI[of _ "setRegisters ins ?rs"] exI[of _ ?post] exI[of _ b] exI[of _ k]) simp
qed

text \<open>
  C39: a range instruction sees its operands: every operand before the range, and every register of the
  range, is copied into consecutive low registers, in order, before the instruction reads them.  The
  operands must lie above the place they are copied to, as those of every caller do.
\<close>

theorem range_instruction_sees_operands:
  assumes "\<not> fits g ins" and "spillIndex a = 0" and "Registers ins = rs @ [start]" and "0 < n"
    and "\<forall>j < length rs. j \<le> unat (rs ! j) \<and> unat (rs ! j) < unat (NextReg g)"
    and "length rs \<le> unat start" and "unat start + n \<le> unat (NextReg g)"
    and "unat (NextReg g) + length rs + n < 2 ^ 16"
  shows "\<exists>pre post b k. RangeRun ins start n a g = Ok (b, k)
    \<and> insns k = insns g @ pre @ [setRegisters ins (map of_nat [0..<length rs + 1])] @ post
    \<and> (\<forall>rf :: vreg \<Rightarrow> 'v. (\<forall>j < length rs. runMoves pre rf (of_nat j) = rf (rs ! j))
         \<and> (\<forall>j < n. runMoves pre rf (of_nat (length rs + j)) = rf (start + of_nat j)))
    \<and> usedRegs k = usedRegs g \<and> spillIndex b = 0"
proof -
  let ?e = "unat (NextReg g)" and ?regs = "rs @ map (\<lambda>j. start + of_nat j) [0..<n]"
  let ?pre = "spillMoves (Node ins) ?e 0 ?regs"
  have d: "unat (of_nat (unat start + 1 + j) :: vreg) = unat start + 1 + j" if "j < n" for j
    using that assms(7,8) by (intro unat_reg) simp
  have range: "rangeRegs ins start (Suc (n - 1)) = ?regs" using assms(3,4) by (simp add: rangeRegs_def)
  obtain c where c: "RangeRun ins start n a g =
    (let (b, l) = RestoreAll (Node ins) (c\<lparr>regEnd := NextReg g, spillIndex := of_nat (length rs + n)\<rparr>)
          (g\<lparr>usedRegs := usedRegs g + of_nat (length rs + n), insns := insns g @ ?pre
              @ [setRegisters ins (map of_nat [0..<length rs + 1])]\<rparr>)
     in Ok (b, endRegScope (usedRegs g) l))"
  proof -
    have ne: "Registers ins \<noteq> []" and k: "n - 1 < 2 ^ 16" using assms(3,8) by simp_all
    have last: "unat (of_nat (unat start + 1 + (n - 1)) :: vreg) = unat start + n" using d[of "n - 1"] assms(4) by simp
    have before: "\<forall>j < n - 1. unat (of_nat (unat start + 1 + j) :: vreg) \<noteq> unat start + n"
    proof (intro allI impI)
      fix j assume "j < n - 1"
      then show "unat (of_nat (unat start + 1 + j) :: vreg) \<noteq> unat start + n" using d[of j] by linarith
    qed
    have l: "length (Registers ins) - 1 + 1 = length rs + 1" using assms(3) by simp
    have m: "length rs + 1 + (n - 1) = length rs + n" using assms(4) by simp
    show ?thesis using RangeRun_spills[OF assms(1) ne assms(2) k last before, unfolded range l m] that by blast
  qed
  have run: "RangeRun ins start n a g =
     Ok (c\<lparr>regEnd := NextReg g, spillIndex := 0\<rparr>, endRegScope (usedRegs g)
        (g\<lparr>usedRegs := usedRegs g + of_nat (length rs + n), insns := insns g @ ?pre
              @ [setRegisters ins (map of_nat [0..<length rs + 1])] @ restoreMoves (Node ins) (NextReg g) (length rs + n)\<rparr>))"
    unfolding c using assms(8)
    by (subst RestoreAll_shape[of "length rs + n"]) (simp_all del: upt_Suc)
  have nth: "?regs ! j = (if j < length rs then rs ! j else start + of_nat (j - length rs))" if "j < length rs + n" for j
  proof (cases "j < length rs")
    case False
    then have "[0..<n] ! (j - length rs) = j - length rs" using that by (simp add: nth_upt)
    then show ?thesis using False that by (simp add: nth_append del: of_nat_diff)
  qed (simp add: nth_append)
  have up: "unat (start + of_nat j) = unat start + j" if "j < n" for j
    using that assms(7,8) unat_reg[of "unat start + j"] by simp
  have low: "\<forall>j < length ?regs. unat (?regs ! j) < ?e \<and> \<not> within 0 j (?regs ! j)"
  proof (intro allI impI)
    fix j assume "j < length ?regs"
    then show "unat (?regs ! j) < ?e \<and> \<not> within 0 j (?regs ! j)"
      using assms(5-7) up[of "j - length rs"] by (auto simp: within_def nth)
  qed
  have "(\<forall>j < length rs. runMoves ?pre rf (of_nat j) = rf (rs ! j))
      \<and> (\<forall>j < n. runMoves ?pre rf (of_nat (length rs + j)) = rf (start + of_nat j))" for rf :: "vreg \<Rightarrow> 'v"
    using spillMoves_run[OF _ _ low, of "Node ins" rf] assms(6-8) by (auto simp: nth simp del: map_append of_nat_add)
  then show ?thesis unfolding run by (simp add: endRegScope_def del: upt_Suc) blast
qed

text \<open>
  An empty range is not empty.  \<open>super()\<close> without arguments asks for a range of no registers; when its
  register needs spilling, the loop \<open>while (rangeStart != rangeEnd)\<close> starts beyond its end and wraps around:
  the allocator spills all 65536 registers, 131072 moves for one instruction.
\<close>

theorem empty_range_spills_everything:
  assumes "\<not> fits g ins" and "spillIndex a = 0" and "Registers ins \<noteq> []" and "length (Registers ins) \<le> 5"
  shows "\<exists>code b k. RangeRun ins start 0 a g = Ok (b, k) \<and> insns k = insns g @ code \<and> 2 ^ 17 < length code"
proof -
  let ?m = "length (Registers ins) - 1" and ?d = "2 ^ 16 - 1 :: nat"
  have wrap: "unat (of_nat (unat start + 1 + ?d) :: vreg) = unat start + 0"
  proof -
    have "(of_nat (2 ^ 16) :: vreg) = 0" by (subst word_of_nat_eq_0_iff) simp
    then have "(of_nat (unat start + 2 ^ 16) :: vreg) = start" by (simp only: of_nat_add of_nat_unat ucast_id add_0_right)
    moreover have "unat start + 1 + ?d = unat start + 2 ^ 16" by simp
    ultimately show ?thesis by (simp only: add_0_right)
  qed
  have before: "\<forall>j < ?d. unat (of_nat (unat start + 1 + j) :: vreg) \<noteq> unat start + 0"
  proof (intro allI impI)
    fix j :: nat assume j: "j < ?d"
    have "(of_nat (j + 1) :: vreg) \<noteq> 0" using reg_eq_0[of "j + 1"] j by (simp del: of_nat_add)
    then have "start + of_nat (j + 1) \<noteq> start" by simp
    moreover have "(of_nat (unat start + 1 + j) :: vreg) = start + of_nat (j + 1)" by (simp add: add.commute)
    ultimately show "unat (of_nat (unat start + 1 + j) :: vreg) \<noteq> unat start + 0" by (metis add_0_right word_unat_eq_iff)
  qed
  have idx: "(of_nat (?m + 1 + ?d) :: vreg) = of_nat ?m"
    using word_of_nat_eq_iff[of "?m + 1 + ?d" ?m, where 'a = 16] by (simp add: take_bit_eq_mod)
  obtain c where c: "RangeRun ins start 0 a g =
    (let (b, l) = RestoreAll (Node ins) (c\<lparr>regEnd := NextReg g, spillIndex := of_nat ?m\<rparr>)
          (g\<lparr>usedRegs := usedRegs g + of_nat (?m + 1 + ?d), insns := insns g
              @ spillMoves (Node ins) (unat (NextReg g)) 0 (rangeRegs ins start (Suc ?d))
              @ [setRegisters ins (map of_nat [0..<?m + 1])]\<rparr>)
     in Ok (b, endRegScope (usedRegs g) l))"
    using RangeRun_spills[OF assms(1,3,2) _ wrap before, unfolded idx] by auto
  have "length (rangeRegs ins start (Suc ?d)) = ?m + 2 ^ 16" by (simp add: rangeRegs_def)
  then show ?thesis unfolding c using assms(4)
    by (subst RestoreAll_shape[of ?m]) (simp_all add: endRegScope_def del: upt_Suc)
qed

section \<open>Witnesses\<close>

text \<open>A function of 300 registers whose instructions have 8-bit register operands.\<close>

definition emptyTable :: astTable where
  "emptyTable = \<lparr>nodeOf = (\<lambda>_. OtherNode), parentOf = (\<lambda>_. None), nNodes = 0\<rparr>"

definition emptyHeap :: heap where
  "emptyHeap = \<lparr>scopes = (\<lambda>_. newScope GlobalScope None), nScopes = 1, vars = (\<lambda>_. bareVariable VT_LOCAL 0 VF_NONE),
     nVars = 0, decls = (\<lambda>_. newDecl DECL_NONE []), nDecls = 0\<rparr>"

definition wideFunction :: pandaGen where
  "wideFunction = (newPandaGen (\<lambda>_. [[\<lparr>itemKind = OK_SRC_VREG, bitwidth = 8\<rparr>]]) emptyTable emptyHeap False 0 0 0)
     \<lparr>usedRegs := 300, totalRegs := 300\<rparr>"

lemma wideFunction_facts:
  "fits wideFunction (Insn 2 op args) \<longleftrightarrow> (\<forall>r \<in> set (operandRegs args). unat r < 256)"
  "lastLimit wideFunction (Insn 2 op args) = 256"
  "NextReg wideFunction = 300"
  by (simp_all add: fits_def lastLimit_def CheckRegIndices_def wideFunction_def newPandaGen_def formatLimit_def
      IsVReg_def IsRegisterCorrect_def list_all_iff NextReg_def)

abbreviation loadWide :: irNode where "loadWide \<equiv> Insn 2 EcmaLdobjbyvalue [Reg 299, Reg 3]"

lemma newAllocator_idle: "spillIndex newAllocator = 0"
  by (simp add: newAllocator_def)

lemma loadWide_spills:
  "spilledRegs wideFunction loadWide = [299]" "spillable wideFunction loadWide 1"
  by (simp_all add: spilledRegs_def spillable_def wideFunction_facts IsRegisterCorrect_def)

lemma loadWide_length: "1 = length (spilledRegs wideFunction loadWide)"
  by (simp add: loadWide_spills)

lemma spilled_instruction_sees_operands_witness:
  "\<exists>pre rs post b k. Run loadWide newAllocator wideFunction = (b, k)
    \<and> insns k = insns wideFunction @ pre @ [setRegisters loadWide rs] @ post
    \<and> map (runMoves pre unat) (Registers (setRegisters loadWide rs)) = [299, 3]
    \<and> usedRegs k = 300"
proof -
  have above: "\<forall>r \<in> set (Registers loadWide). unat r < lastLimit wideFunction loadWide \<longrightarrow> 1 \<le> unat r"
    by (simp add: wideFunction_facts)
  obtain pre rs post b k where "Run loadWide newAllocator wideFunction = (b, k)"
    "insns k = insns wideFunction @ pre @ [setRegisters loadWide rs] @ post"
    "\<forall>rf :: vreg \<Rightarrow> nat. map (runMoves pre rf) (Registers (setRegisters loadWide rs)) = map rf (Registers loadWide)"
    "usedRegs k = usedRegs wideFunction"
    using spilled_instruction_sees_operands[OF loadWide_length loadWide_spills(2) newAllocator_idle above, where 'v = nat]
    by blast
  moreover have "usedRegs wideFunction = 300" "map unat (Registers loadWide) = [299, 3]" by (simp_all add: wideFunction_def)
  ultimately show ?thesis by metis
qed

lemma restore_does_not_restore_witness:
  "\<exists>pre main post b k. Run loadWide newAllocator wideFunction = (b, k)
    \<and> insns k = insns wideFunction @ pre @ [main] @ post
    \<and> runMoves post (runMoves pre unat) 0 = (299 :: nat)"
proof -
  obtain pre main post b k where "Run loadWide newAllocator wideFunction = (b, k)"
    "insns k = insns wideFunction @ pre @ [main] @ post"
    and v: "\<forall>rf :: vreg \<Rightarrow> nat. runMoves post (runMoves pre rf) (of_nat 0) = rf (spilledRegs wideFunction loadWide ! 0)"
    using restore_does_not_restore[OF loadWide_length loadWide_spills(2) newAllocator_idle zero_less_one, where 'v = nat]
    by blast
  moreover have "runMoves post (runMoves pre unat) 0 = (299 :: nat)"
    using v[rule_format, of unat] by (simp add: loadWide_spills)
  ultimately show ?thesis by blast
qed

abbreviation callWide :: irNode where "callWide \<equiv> Insn 2 EcmaCallirangedyn [Imm 4, Reg 290]"

lemma range_instruction_sees_operands_witness:
  "\<exists>pre post b k. RangeRun callWide 290 5 newAllocator wideFunction = Ok (b, k)
    \<and> insns k = insns wideFunction @ pre @ [setRegisters callWide [0]] @ post
    \<and> runMoves pre unat 4 = (294 :: nat)"
proof -
  have p: "\<not> fits wideFunction callWide" "Registers callWide = [] @ [290]" "(0::nat) < 5"
    "\<forall>j < length ([] :: vreg list). j \<le> unat ([] ! j :: vreg) \<and> unat ([] ! j :: vreg) < unat (NextReg wideFunction)"
    "length ([] :: vreg list) \<le> unat (290 :: vreg)" "unat (290 :: vreg) + 5 \<le> unat (NextReg wideFunction)"
    "unat (NextReg wideFunction) + length ([] :: vreg list) + 5 < 2 ^ 16"
    by (simp_all add: wideFunction_facts)
  obtain pre post b k where "RangeRun callWide 290 5 newAllocator wideFunction = Ok (b, k)"
    "insns k = insns wideFunction @ pre @ [setRegisters callWide (map of_nat [0..<length ([] :: vreg list) + 1])] @ post"
    and v: "\<forall>rf :: vreg \<Rightarrow> nat. \<forall>j < 5. runMoves pre rf (of_nat (length ([] :: vreg list) + j)) = rf (290 + of_nat j)"
    using range_instruction_sees_operands[OF p(1) newAllocator_idle p(2-), where 'v = nat] by blast
  moreover have "runMoves pre unat 4 = (294 :: nat)" using v[rule_format, of 4 unat] by simp
  ultimately show ?thesis by (intro exI[of _ pre] exI[of _ post] exI[of _ b] exI[of _ k]) simp
qed

lemma empty_range_spills_everything_witness:
  "\<exists>code b k. RangeRun (Insn 2 EcmaSupercall [Imm 0, Reg 299]) 299 0 newAllocator wideFunction = Ok (b, k)
    \<and> insns k = insns wideFunction @ code \<and> 2 ^ 17 < length code"
  by (rule empty_range_spills_everything) (simp_all add: wideFunction_facts newAllocator_idle)

end
