(* ===== verification/GeneratorSpec.thy ===== *)
theory GeneratorSpec
  imports GrowthCompile RegAllocSpec
begin

text \<open>
  What the compilation of a node or a function guarantees: where it leaves the generator, what its code
  refers to, and where jumps go.
\<close>

section \<open>The place of the generator\<close>

text \<open>C13: compiling any node, whatever it contains, leaves the generator in the scope, with the lexical
  environments, the stack of contexts and the function builder it started with; the declarations and the
  tree are untouched, a captured variable keeps its slot, and code, catch tables and literal buffers
  are only added to.\<close>

theorem compile_keeps_place:
  assumes "Compile k n g = Ok (u, h)"
  shows "pgScope h = pgScope g \<and> envScopes h = envScopes g \<and> contexts h = contexts g \<and> builder h = builder g
    \<and> ast h = ast g \<and> rootNode h = rootNode g \<and> scopes (pgHeap h) = scopes (pgHeap g) \<and> decls (pgHeap h) = decls (pgHeap g)
    \<and> (\<forall>v. (vars (pgHeap h) v)\<lparr>vreg := 0\<rparr> = (vars (pgHeap g) v)\<lparr>vreg := 0\<rparr>
         \<and> (\<not> LexicalBound (vars (pgHeap g) v) \<or> vreg (vars (pgHeap h) v) = vreg (vars (pgHeap g) v)))
    \<and> (\<exists>code tables buffers. insns h = insns g @ code \<and> catchList h = catchList g @ tables
         \<and> buffStorage h = buffStorage g @ buffers)
    \<and> strings g \<subseteq> strings h \<and> labelCount g \<le> labelCount h"
  using presD [OF keeps_Compile assms]
  by (auto simp: grows_def frameOf_def appended_def sameBinding_def prefix_def)

section \<open>Names\<close>

text \<open>For a whole function the code is put together from pieces: only the names are followed.\<close>

definition tracks :: "pandaGen \<Rightarrow> pandaGen \<Rightarrow> bool" where
  "tracks g k \<longleftrightarrow> codeNames (insns k) \<subseteq> codeNames (insns g) \<union> strings k \<and> strings g \<subseteq> strings k"

interpretation tracked: generator tracks
  by unfold_locales (auto simp: tracks_def)

lemma tracks_grows: "pres (grows E C S) m \<Longrightarrow> pres tracks m"
  by (fastforce simp: pres_def grows_def appended_def tracks_def)

lemmas tracks_keeps = tracks_grows [of "(=)" "(=)" "(=)"]

lemma tracks_other:
  "(\<And>g. insns (f g) = insns g \<and> strings (f g) = strings g) \<Longrightarrow> pres tracks (modifyM f)"
  by (rule tracked.pres_modify) (auto simp: tracks_def)

lemma tracks_inRegScope: "pres tracks m \<Longrightarrow> pres tracks (inRegScope m)"
  unfolding inRegScope_def
  by (intro tracked.pres_bind tracked.pres_then tracked.pres_get tracked.pres_ret tracks_other)
    (simp_all add: endRegScope_def)

lemma tracks_atFront:
  assumes "pres tracks m"
  shows "pres tracks (atFront m)"
proof (rule presI)
  fix g a k
  assume "atFront m g = Ok (a, k)"
  then obtain l where "m (g\<lparr>insns := []\<rparr>) = Ok (a, l)" and k: "k = l\<lparr>insns := insns l @ insns g\<rparr>"
    by (auto simp: atFront_def elim!: bindM_OkE thenM_OkE)
  then have "tracks (g\<lparr>insns := []\<rparr>) l" using assms by (auto dest: presD)
  then show "tracks g k" unfolding k by (auto simp: tracks_def)
qed

lemma tracks_contexts: "pres tracks (pushContext c t)" "pres tracks popContext" "pres tracks (setTopContext c t)"
  unfolding pushContext_def popContext_def setTopContext_def by (intro tracks_other; simp)+

lemma tracks_inTryContext:
  assumes "\<And>ct r. pres tracks (m ct r)"
  shows "pres tracks (inTryContext stmt hasFinalizer m)"
  unfolding inTryContext_def
  by (intro tracks_contexts assms tracked.pres_bind tracked.pres_then tracked.pres_seqM_Cons tracked.pres_seqM_Nil
      pres_if pres_option tracked.pres_ret tracked.pres_get tracks_keeps pres)

context recursive_calls
begin

lemma keeps_SetFirstStmt [pres]: "pres keeps (SetFirstStmt n)"
  unfolding SetFirstStmt_def by (rule growth.pres_modify) (simp add: grows_def frameOf_def appended_def)

lemma keeps_bodies [pres]:
  "pres keeps (CompileSourceBlock c block)" "pres keeps (CompileDefaultParameter c func ref paramReg init)"
  "pres keeps (CompileParameter c func count ip)" "pres keeps (CompileFunctionParameterDeclaration c func f)"
  "pres keeps (CompileInstanceField c t thisReg stmt)" "pres keeps (CompileInstanceFields c func)"
  "pres keeps (StoreFunctionName func)" "pres keeps (CompileFunction c)"
  unfolding CompileSourceBlock_def CompileDefaultParameter_def CompileParameter_def
    CompileFunctionParameterDeclaration_def CompileInstanceField_def CompileInstanceFields_def
    StoreFunctionName_def CompileFunction_def
  by ((intro pres; simp)+)

end

lemma tracks_onScopes: "pres tracks (onScopes m)"
  by (rule presI) (auto simp: onScopes_def tracks_def split: res.splits)

lemmas tracked_steps = tracks_onScopes tracks_inRegScope tracks_atFront tracks_inTryContext
  tracked.pres_bind tracked.pres_then tracked.pres_seqM_Cons tracked.pres_seqM_Nil tracked.pres_ret tracked.pres_get
  tracked.pres_forM tracked.pres_whenM tracked.pres_deref tracked.pres_undefinedM pres_if pres_let pres_option pres_list
  pres_prod pres_node pres_moduleNode

lemma tracks_imports:
  "pres tracks (BindVReg v r)" "pres tracks (CompileImportDecl s moduleReg d)"
  "pres tracks (CompileImport s imp)"
  unfolding BindVReg_def CompileImportDecl_def CompileImport_def
  by ((intro tracked_steps tracks_keeps pres)+)

lemma tracks_exports:
  "pres tracks (CompileExport ex)"
  unfolding CompileExport_def
  by ((intro tracked_steps tracks_keeps pres)+)

lemma tracks_modules:
  "pres tracks (ModuleContext_Compile s)"
  unfolding ModuleContext_Compile_def
  by ((intro tracked_steps tracks_imports tracks_exports tracks_keeps pres)+)

lemma tracks_environments: "pres tracks (pushEnv r)" "pres tracks popEnv" "pres tracks (FunctionInit ct)"
  unfolding pushEnv_def popEnv_def FunctionInit_def by (intro tracked_steps tracks_other tracks_keeps pres; simp)+

lemma tracks_parameters:
  "pres tracks (bindParam p)" "pres tracks (bindFunctionVariable b)"
  "pres tracks (CopyFunctionArgument node targetReg p)"
  unfolding bindParam_def bindFunctionVariable_def CopyFunctionArgument_def
  by ((intro tracked_steps tracks_imports tracks_keeps pres; simp?)+)

lemma tracks_CopyFunctionArguments_loop: "pres tracks (CopyFunctionArguments_loop node r ps)"
  by (induction ps arbitrary: r) (simp add: tracked.pres_ret, simp only: CopyFunctionArguments_loop.simps,
    intro tracked.pres_then tracks_parameters)

lemma tracks_prologue:
  "pres tracks (CopyFunctionArguments node)" "pres tracks (InitializeLexEnv node lexEnv)"
  unfolding CopyFunctionArguments_def InitializeLexEnv_def
  by ((intro tracked_steps tracks_CopyFunctionArguments_loop tracks_keeps pres)+)

lemma tracks_inFunctionRegScope:
  assumes "pres tracks m"
  shows "pres tracks (inFunctionRegScope m)"
  unfolding inFunctionRegScope_def
  by (intro assms tracked_steps tracks_parameters tracks_modules tracks_environments tracks_keeps pres)

lemma tracks_Function_Compile: "pres tracks (Function_Compile k)"
  unfolding Function_Compile_def CompileFunctionOrProgram_def SortCatchTables_def
  by (intro tracked_steps tracks_inFunctionRegScope tracks_environments tracks_prologue tracks_other
      tracks_keeps compilation.keeps_bodies pres; simp)

text \<open>C17: when a function has been compiled, every name an instruction of its code mentions, the prologue
  included, is in the table of strings that is written out with it, and its catch tables come innermost
  first.\<close>

theorem function_registers_names:
  assumes "Function_Compile k (newPandaGen formats tree heap debug root sc literals) = Ok (u, h)"
  shows "(\<Union>x \<in> set (insns h). irNames x) \<subseteq> strings h \<and>
    sorted_wrt (\<lambda>a b. ctDepth b \<le> ctDepth a) (catchList h)"
proof -
  have "tracks (newPandaGen formats tree heap debug root sc literals) h"
    using presD [OF tracks_Function_Compile assms] .
  then have "codeNames (insns h) \<subseteq> strings h" by (simp add: tracks_def newPandaGen_def)
  moreover have "sorted_wrt (\<lambda>a b. ctDepth b \<le> ctDepth a) (catchList h)"
  proof -
    obtain g where "h = g\<lparr>catchList := sort_key (\<lambda>ct. - int (ctDepth ct)) (catchList g)\<rparr>"
      using assms by (auto simp: Function_Compile_def SortCatchTables_def elim!: bindM_OkE thenM_OkE)
    then have "sorted (map (\<lambda>ct. - int (ctDepth ct)) (catchList h))" by simp
    then show ?thesis by (simp add: sorted_map)
  qed
  ultimately show ?thesis by (simp add: codeNames_def)
qed

section \<open>Jumps\<close>

definition labelAt :: "controlFlowChange \<Rightarrow> dynamicContext \<Rightarrow> name" where
  "labelAt change x = (if change = BREAK then breakLabel (ctxTarget x) else continueLabel (ctxTarget x))"

definition targetAt :: "controlFlowChange \<Rightarrow> dynamicContext \<Rightarrow> label option" where
  "targetAt change x = (if change = BREAK then breakTarget (ctxTarget x) else continueTarget (ctxTarget x))"

text \<open>The target nearest to the context with the label, from there inwards.\<close>

definition nearestTarget :: "controlFlowChange \<Rightarrow> dynamicContext list \<Rightarrow> label option" where
  "nearestTarget change xs =
    (case find (\<lambda>x. targetAt change x \<noteq> None) xs of None \<Rightarrow> None | Some x \<Rightarrow> targetAt change x)"

lemma nearestTarget_simps [simp]:
  "nearestTarget change [] = None"
  "nearestTarget change (x # xs) = (if targetAt change x \<noteq> None then targetAt change x else nearestTarget change xs)"
  by (simp_all add: nearestTarget_def)

lemma nearestTarget_append:
  "nearestTarget change (xs @ ys) = (if nearestTarget change xs \<noteq> None then nearestTarget change xs else nearestTarget change ys)"
  by (induction xs) auto

lemma ControlFlowChange_step:
  assumes "ControlFlowChange_loop (callsAt k) change n (Suc i) target g = Ok (t, h)"
  obtains l where "contexts l = contexts g"
    "if labelAt change (contexts g ! i) = n
     then t = (if targetAt change (contexts g ! i) \<noteq> None then targetAt change (contexts g ! i) else target)
     else ControlFlowChange_loop (callsAt k) change n i
       (if targetAt change (contexts g ! i) \<noteq> None then targetAt change (contexts g ! i) else target) l = Ok (t, h)"
proof -
  obtain u l where a: "AbortContext (callsAt k) i change n g = Ok (u, l)"
    and r: "(let (contextLabel, contextTarget) = (if change = BREAK
          then (breakLabel (ctxTarget (contexts l ! i)), breakTarget (ctxTarget (contexts l ! i)))
          else (continueLabel (ctxTarget (contexts l ! i)), continueTarget (ctxTarget (contexts l ! i))));
        target = if contextTarget \<noteq> None then contextTarget else target
      in if contextLabel = n then ret target else ControlFlowChange_loop (callsAt k) change n i target) l = Ok (t, h)"
    using assms by (auto elim!: bindM_OkE thenM_OkE)
  have c: "contexts l = contexts g" using presD [OF compilation.keeps_leaving_contexts a] by (simp add: grows_def)
  show thesis
    using r unfolding c
    by (intro that [OF c]) (auto simp: labelAt_def targetAt_def Let_def simp del: ControlFlowChange_loop.simps split: if_splits)
qed

lemma ControlFlowChange_loop_target:
  assumes "ControlFlowChange_loop (callsAt k) change n (Suc (length (outer @ inner))) target g = Ok (t, h)"
    "contexts g = outer @ x # inner @ rest" "labelAt change x = n" "\<forall>y \<in> set inner. labelAt change y \<noteq> n"
  shows "t = (if nearestTarget change (x # inner) \<noteq> None then nearestTarget change (x # inner) else target)"
  using assms
proof (induction inner arbitrary: target g rest rule: rev_induct)
  case Nil
  then show ?case by (elim ControlFlowChange_step) (auto split: if_splits)
next
  case (snoc y inner)
  have y: "contexts g ! length (outer @ inner @ [y]) = y"
    using snoc.prems(2) nth_append_length [of "outer @ x # inner" y rest] by simp
  obtain l where l: "contexts l = contexts g" "ControlFlowChange_loop (callsAt k) change n (length (outer @ inner @ [y]))
      (if targetAt change y \<noteq> None then targetAt change y else target) l = Ok (t, h)"
    using ControlFlowChange_step [OF snoc.prems(1)] snoc.prems(4) unfolding y by (metis in_set_conv_decomp append_assoc)
  moreover have "length (outer @ inner @ [y]) = Suc (length (outer @ inner))" by simp
  ultimately have "t = (if nearestTarget change (x # inner) \<noteq> None then nearestTarget change (x # inner)
      else if targetAt change y \<noteq> None then targetAt change y else target)"
    using snoc.IH [of _ l "y # rest"] snoc.prems by (simp del: ControlFlowChange_loop.simps)
  then show ?case using nearestTarget_append [of change "x # inner" "[y]"] by (auto split: if_splits)
qed

text \<open>C14: a \<open>break\<close> or \<open>continue\<close> goes where its label says: if \<open>x\<close> is the innermost context with the
  label, the target is that of \<open>x\<close>, or, when \<open>x\<close> has none (a labelled loop), that of the nearest context
  inside \<open>x\<close>.  What is emitted to leave the contexts, finalizers and the closing of iterators included,
  does not change it, and the stack of contexts is as before.\<close>

theorem jump_goes_to_label:
  assumes "(change = BREAK \<and> ControlFlowChangeBreak (callsAt k) (Some n) g = Ok (t, h))
      \<or> (change = CONTINUE \<and> ControlFlowChangeContinue (callsAt k) (Some n) g = Ok (t, h))"
    and "contexts g = outer @ x # inner" and "labelAt change x = n" and "\<forall>y \<in> set inner. labelAt change y \<noteq> n"
  shows "t = nearestTarget change (x # inner) \<and> contexts h = contexts g"
proof -
  let ?i = "length (outer @ inner)"
  have len: "length (contexts g) = Suc ?i" using assms(2) by simp
  have "ControlFlowChange_loop (callsAt k) change n (Suc ?i) None g = Ok (t, h)"
    using assms(1) len unfolding ControlFlowChangeBreak_def ControlFlowChangeContinue_def
    by (auto simp del: ControlFlowChange_loop.simps elim!: bindM_OkE)
  moreover from this have "contexts h = contexts g"
    using presD [OF compilation.keeps_ControlFlowChange_loop] by (fastforce simp: grows_def)
  ultimately show ?thesis
    using ControlFlowChange_loop_target [of k change n outer inner None g t h x "[]"] assms(2-4)
    by (auto simp del: ControlFlowChange_loop.simps)
qed

text \<open>C18: a \<open>return\<close> inside a loop does not run the finalizers of the \<open>try\<close> statements around the loop, nor
  close the iterators there.  \<open>return\<close> leaves its contexts by a \<open>break\<close> without label, which stops at the
  innermost loop: nothing is emitted for the contexts \<open>outer\<close>, although the test before it found one
  that has a finalizer.\<close>

theorem return_in_loop_skips_finalizers:
  assumes "contexts g = outer @ [\<lparr>ctxClass = LabelContext l, ctxTarget = t\<rparr>]" and "breakLabel t = BREAK_LABEL"
    and "\<exists>x \<in> set outer. HasFinalizer (ctxClass x)"
  shows "CheckControlFlowChange g = Ok (True, g) \<and> breakAll (callsAt k) g = Ok ((), g)"
proof -
  have "ControlFlowChange_loop (callsAt k) BREAK BREAK_LABEL (Suc (length outer)) None g = Ok (breakTarget t, g)"
    using assms(1,2) by (simp add: AbortContext_def bindM_def thenM_def getM_def ret_def nth_append)
  then have "breakAll (callsAt k) g = Ok ((), g)"
    using assms(1) by (simp add: breakAll_def ControlFlowChangeBreak_def bindM_def getM_def ret_def
        del: ControlFlowChange_loop.simps)
  moreover have "CheckControlFlowChange g = Ok (True, g)"
    using assms by (auto simp: CheckControlFlowChange_def getM_def list_ex_iff)
  ultimately show ?thesis by simp
qed

section \<open>A program\<close>

text \<open>\<open>x ? "a" : "b"\<close> at the top level.\<close>

definition exampleNodes :: "nodeRef \<Rightarrow> node" where
  "exampleNodes n =
    (if n = 2 then Stmt (BlockStatement 0 [3])
     else if n = 3 then Stmt (ExpressionStatement 4)
     else if n = 4 then Expr (ConditionalExpression 5 6 7)
     else if n = 5 then Expr (Identifier (asciiText ''x'') False)
     else if n = 6 then Literal (StringLiteral (asciiText ''a''))
     else if n = 7 then Literal (StringLiteral (asciiText ''b''))
     else OtherNode)"

definition exampleProgram :: pandaGen where
  "exampleProgram = newPandaGen (\<lambda>_. []) \<lparr>nodeOf = exampleNodes, parentOf = (\<lambda>_. None), nNodes = 8\<rparr>
     (emptyHeap\<lparr>scopes := (\<lambda>_. (newScope GlobalScope None)\<lparr>paramScope := Some 0\<rparr>)\<rparr>) False 2 0 0"

lemma example_compiles: "case Compile 5 4 exampleProgram of Ok _ \<Rightarrow> True | _ \<Rightarrow> False"
  by code_simp

lemma example_function: "case Function_Compile 5 exampleProgram of Ok _ \<Rightarrow> True | _ \<Rightarrow> False"
  by code_simp

lemma compile_keeps_place_witness:
  "\<exists>h code. Compile 5 4 exampleProgram = Ok ((), h) \<and> contexts h = [] \<and> pgScope h = 0
    \<and> insns h = insns exampleProgram @ code \<and> strings exampleProgram \<subseteq> strings h"
proof -
  obtain h where h: "Compile 5 4 exampleProgram = Ok ((), h)"
    using example_compiles by (auto split: res.splits)
  have "contexts exampleProgram = []" "pgScope exampleProgram = 0"
    by (simp_all add: exampleProgram_def newPandaGen_def)
  with compile_keeps_place [OF h] h show ?thesis by auto
qed

lemma function_registers_names_witness:
  "\<exists>h. Function_Compile 5 exampleProgram = Ok ((), h) \<and> (\<Union>x \<in> set (insns h). irNames x) \<subseteq> strings h"
proof -
  obtain h where h: "Function_Compile 5 exampleProgram = Ok ((), h)"
    using example_function by (auto split: res.splits)
  with function_registers_names [of 5 _ _ _ _ _ _ _ "()" h] show ?thesis unfolding exampleProgram_def by blast
qed

text \<open>A labelled loop with another loop inside: \<open>continue\<close> with the label goes to the outer loop.\<close>

definition nestedLoops :: pandaGen where
  "nestedLoops = exampleProgram\<lparr>contexts :=
     [\<lparr>ctxClass = LabelContext None, ctxTarget = namedTarget None (asciiText ''a'')\<rparr>,
      \<lparr>ctxClass = LabelContext None, ctxTarget = \<lparr>breakLabel = BREAK_LABEL, breakTarget = Some (Label 0 2),
         continueLabel = CONTINUE_LABEL, continueTarget = Some (Label 0 3)\<rparr>\<rparr>,
      \<lparr>ctxClass = LabelContext None, ctxTarget = \<lparr>breakLabel = BREAK_LABEL, breakTarget = Some (Label 0 4),
         continueLabel = CONTINUE_LABEL, continueTarget = Some (Label 0 5)\<rparr>\<rparr>]\<rparr>"

lemma jump_goes_to_label_witness:
  "\<exists>h. ControlFlowChangeContinue (callsAt 3) (Some (asciiText ''a'')) nestedLoops = Ok (Some (Label 0 3), h)
     \<and> contexts h = contexts nestedLoops"
proof -
  let ?run = "ControlFlowChangeContinue (callsAt 3) (Some (asciiText ''a'')) nestedLoops"
  have "case ?run of Ok _ \<Rightarrow> True | _ \<Rightarrow> False" by code_simp
  then obtain t h where r: "?run = Ok (t, h)" by (auto split: res.splits)
  have c: "contexts nestedLoops = [] @ hd (contexts nestedLoops) # tl (contexts nestedLoops)"
    by (simp add: nestedLoops_def)
  have "labelAt CONTINUE (hd (contexts nestedLoops)) = asciiText ''a''"
    by (simp add: nestedLoops_def labelAt_def namedTarget_def)
  moreover have "\<forall>y \<in> set (tl (contexts nestedLoops)). labelAt CONTINUE y \<noteq> asciiText ''a''"
    by (simp add: nestedLoops_def labelAt_def CONTINUE_LABEL_def asciiText_def)
  ultimately have "t = nearestTarget CONTINUE (hd (contexts nestedLoops) # tl (contexts nestedLoops))
      \<and> contexts h = contexts nestedLoops"
    by (intro jump_goes_to_label [OF _ c]) (use r in auto)
  moreover have "nearestTarget CONTINUE (hd (contexts nestedLoops) # tl (contexts nestedLoops)) = Some (Label 0 3)"
    by (simp add: nestedLoops_def targetAt_def namedTarget_def)
  ultimately show ?thesis using r by simp
qed

text \<open>A \<open>try\<close> with a finalizer, a loop in it, and a \<open>return\<close> in the loop.\<close>

definition loopInTry :: pandaGen where
  "loopInTry = exampleProgram\<lparr>contexts :=
     [\<lparr>ctxClass = TryContext (Some 3) None 0 True False, ctxTarget = noTarget\<rparr>,
      \<lparr>ctxClass = LabelContext None, ctxTarget = \<lparr>breakLabel = BREAK_LABEL, breakTarget = Some (Label 0 2),
         continueLabel = CONTINUE_LABEL, continueTarget = Some (Label 0 3)\<rparr>\<rparr>]\<rparr>"

lemma return_in_loop_skips_finalizers_witness:
  "CheckControlFlowChange loopInTry = Ok (True, loopInTry) \<and> breakAll (callsAt 3) loopInTry = Ok ((), loopInTry)"
proof (rule return_in_loop_skips_finalizers)
  show "contexts loopInTry = [\<lparr>ctxClass = TryContext (Some 3) None 0 True False, ctxTarget = noTarget\<rparr>] @
      [\<lparr>ctxClass = LabelContext None, ctxTarget = \<lparr>breakLabel = BREAK_LABEL, breakTarget = Some (Label 0 2),
         continueLabel = CONTINUE_LABEL, continueTarget = Some (Label 0 3)\<rparr>\<rparr>]"
    by (simp add: loopInTry_def)
qed (simp_all add: HasFinalizer_def)

end
