(* ===== verification/ConditionSpec.thy ===== *)
theory ConditionSpec
  imports Transition RegAllocSpec
begin

text \<open>
  What the code of a condition computes, on a machine with an accumulator and registers.

  A jump skips to its label, further down in the code; if the label is not there the code is left by the
  jump.  What the other instructions do is the runtime's business, and a parameter: \<open>effect\<close>.
\<close>

section \<open>The machine\<close>

record 'v machine =
  acc :: 'v
  regs :: "vreg \<Rightarrow> 'v"

record 'v runtime =
  effect :: "opcode \<Rightarrow> operand list \<Rightarrow> 'v machine \<Rightarrow> 'v machine"
  isTrue :: "'v \<Rightarrow> bool"
  isFalse :: "'v \<Rightarrow> bool"

definition jumps :: "'v runtime \<Rightarrow> opcode \<Rightarrow> 'v machine \<Rightarrow> bool" where
  "jumps e op s \<longleftrightarrow> op = Jmp \<or> op = EcmaJtrue \<and> isTrue e (acc s) \<or> op = EcmaJfalse \<and> isFalse e (acc s)"

definition stays :: "'v runtime \<Rightarrow> opcode \<Rightarrow> operand list \<Rightarrow> 'v machine \<Rightarrow> 'v machine" where
  "stays e op args s = (if op \<in> {Jmp, EcmaJtrue, EcmaJfalse} then s else effect e op args s)"

text \<open>\<open>run e code j s\<close>: \<open>j\<close> is the label on the way to which the machine is, if it is jumping.\<close>

primrec run :: "'v runtime \<Rightarrow> irNode list \<Rightarrow> label option \<Rightarrow> 'v machine \<Rightarrow> label option \<times> 'v machine" where
  "run e [] j s = (j, s)"
| "run e (x # xs) j s =
    (case j of
       Some l \<Rightarrow> run e xs (if x = LabelInsn l then None else j) s
     | None \<Rightarrow> (case x of
         LabelInsn l \<Rightarrow> run e xs None s
       | Insn node op args \<Rightarrow>
           if jumps e op s then run e xs (case operandLabels args of [] \<Rightarrow> None | l # _ \<Rightarrow> Some l) s
           else run e xs None (stays e op args s)))"

lemma run_append: "run e (xs @ ys) j s = (case run e xs j s of (k, t) \<Rightarrow> run e ys k t)"
  by (induction xs arbitrary: j s) (auto split: option.splits irNode.splits list.splits)

lemma operandLabels_simps [simp]: "operandLabels [] = []" "operandLabels [Lbl l] = [l]"
  by (simp_all add: operandLabels_def)

section \<open>Code that computes\<close>

text \<open>Compiling \<open>n\<close> emits code that runs through, changes the machine by \<open>f\<close>, and has no label that
  existed before.\<close>

definition computes :: "'v runtime \<Rightarrow> astTable \<Rightarrow> calls \<Rightarrow> nodeRef \<Rightarrow> ('v machine \<Rightarrow> 'v machine) \<Rightarrow> bool" where
  "computes e t c n f \<longleftrightarrow> (\<forall>g. ast g = t \<longrightarrow> (\<exists>h code. compileNode c n g = Ok ((), h) \<and> insns h = insns g @ code \<and>
     ast h = ast g \<and> labelCount g \<le> labelCount h \<and> (\<forall>s. run e code None s = (None, f s)) \<and>
     (\<forall>l s. labelId l < labelCount g \<longrightarrow> run e code (Some l) s = (Some l, s))))"

text \<open>The same for a piece of the generator.  Labels below \<open>b\<close> exist before it; \<open>f\<close> says how a machine
  passes through its code, on the way to a label or not.\<close>

type_synonym 'v passage = "label option \<Rightarrow> 'v machine \<Rightarrow> label option \<times> 'v machine"

definition known :: "nat \<Rightarrow> label option \<Rightarrow> bool" where
  "known b j \<longleftrightarrow> (case j of None \<Rightarrow> True | Some l \<Rightarrow> labelId l < b)"

definition produces :: "'v runtime \<Rightarrow> astTable \<Rightarrow> nat \<Rightarrow> unit pgM \<Rightarrow> 'v passage \<Rightarrow> bool" where
  "produces e t b m f \<longleftrightarrow> (\<forall>g. ast g = t \<longrightarrow> b \<le> labelCount g \<longrightarrow> (\<exists>h code. m g = Ok ((), h) \<and> insns h = insns g @ code \<and>
     ast h = ast g \<and> labelCount g \<le> labelCount h \<and>
     (\<forall>j s. known b j \<longrightarrow> run e code j s = f j s \<and> known b (fst (f j s)))))"

definition passing :: "('v machine \<Rightarrow> 'v machine) \<Rightarrow> 'v passage" where
  "passing F j s = (case j of None \<Rightarrow> (None, F s) | Some l \<Rightarrow> (Some l, s))"

definition branching :: "('v machine \<Rightarrow> bool) \<Rightarrow> label \<Rightarrow> 'v passage" where
  "branching P l j s = (case j of None \<Rightarrow> (if P s then Some l else None, s) | Some k \<Rightarrow> (Some k, s))"

definition placing :: "label \<Rightarrow> 'v passage" where
  "placing l j s = (if j = Some l then None else j, s)"

fun inRow :: "'v passage list \<Rightarrow> 'v passage" where
  "inRow [] j s = (j, s)"
| "inRow (f # fs) j s = (case f j s of (k, t) \<Rightarrow> inRow fs k t)"

lemmas passages = passing_def branching_def placing_def

lemma producesI:
  assumes "\<And>g. ast g = t \<Longrightarrow> b \<le> labelCount g \<Longrightarrow> \<exists>h code. m g = Ok ((), h) \<and> insns h = insns g @ code \<and> ast h = ast g
     \<and> labelCount g \<le> labelCount h \<and> (\<forall>j s. known b j \<longrightarrow> run e code j s = f j s \<and> known b (fst (f j s)))"
  shows "produces e t b m f"
  using assms by (simp add: produces_def)

lemma producesE:
  assumes "produces e t b m f" "ast g = t" "b \<le> labelCount g"
  obtains h code where "m g = Ok ((), h)" "insns h = insns g @ code" "ast h = ast g" "labelCount g \<le> labelCount h"
    "\<And>j s. known b j \<Longrightarrow> run e code j s = f j s" "\<And>j s. known b j \<Longrightarrow> known b (fst (f j s))"
  using assms unfolding produces_def by blast

lemma produces_node:
  assumes "computes e t c n F"
  shows "produces e t b (compileNode c n) (passing F)"
proof (rule producesI)
  fix g :: pandaGen
  assume t: "ast g = t" and b: "b \<le> labelCount g"
  obtain h code where h: "compileNode c n g = Ok ((), h)" "insns h = insns g @ code" "ast h = ast g"
    "labelCount g \<le> labelCount h" "\<And>s. run e code None s = (None, F s)"
    "\<And>l s. labelId l < labelCount g \<Longrightarrow> run e code (Some l) s = (Some l, s)"
    using assms t unfolding computes_def by blast
  have "run e code j s = passing F j s \<and> known b (fst (passing F j s))" if "known b j" for j s
    using h(5,6) that b by (auto simp: passing_def known_def split: option.splits)
  with h show "\<exists>h code. compileNode c n g = Ok ((), h) \<and> insns h = insns g @ code \<and> ast h = ast g \<and>
      labelCount g \<le> labelCount h \<and> (\<forall>j s. known b j \<longrightarrow> run e code j s = passing F j s \<and> known b (fst (passing F j s)))"
    by blast
qed

lemma produces_emit:
  "op \<notin> {Jmp, EcmaJtrue, EcmaJfalse} \<Longrightarrow> produces e t b (saEmit node op []) (passing (effect e op []))"
  by (rule producesI) (auto simp: saEmit_def modifyM_def PushBack_def passages known_def jumps_def stays_def
      split: option.splits)

lemma produces_branch:
  "op \<in> {Jmp, EcmaJtrue, EcmaJfalse} \<Longrightarrow> labelId l < b \<Longrightarrow>
   produces e t b (saEmit node op [Lbl l]) (branching (jumps e op) l)"
  by (rule producesI) (auto simp: saEmit_def modifyM_def PushBack_def passages known_def stays_def split: option.splits)

lemma produces_SetLabel: "produces e t b (SetLabel l) (placing l)"
  by (rule producesI) (auto simp: SetLabel_def modifyM_def PushBack_def passages known_def split: option.splits)

lemma produces_Nil: "produces e t b (seqM []) (inRow [])"
  by (rule producesI) (simp add: ret_def)

lemma produces_Cons:
  assumes "produces e t b m f" "produces e t b (seqM ms) (inRow fs)"
  shows "produces e t b (seqM (m # ms)) (inRow (f # fs))"
proof (rule producesI)
  fix g :: pandaGen
  assume t: "ast g = t" and b: "b \<le> labelCount g"
  with assms(1) obtain h code where 1: "m g = Ok ((), h)" "insns h = insns g @ code" "ast h = ast g"
    "labelCount g \<le> labelCount h" "\<And>j s. known b j \<Longrightarrow> run e code j s = f j s"
    "\<And>j s. known b j \<Longrightarrow> known b (fst (f j s))"
    by (metis producesE)
  with b t have "b \<le> labelCount h" "ast h = t" by simp_all
  with assms(2) obtain k more where 2: "seqM ms h = Ok ((), k)" "insns k = insns h @ more" "ast k = ast h"
    "labelCount h \<le> labelCount k" "\<And>j s. known b j \<Longrightarrow> run e more j s = inRow fs j s"
    "\<And>j s. known b j \<Longrightarrow> known b (fst (inRow fs j s))"
    by (metis producesE)
  have "run e (code @ more) j s = inRow (f # fs) j s \<and> known b (fst (inRow (f # fs) j s))" if "known b j" for j s
  proof (cases "f j s")
    case (Pair k s')
    then have "known b k" using 1(6) [OF that, of s] by simp
    then show ?thesis using 1(5) [OF that, of s] 2(5,6) [of k s'] Pair by (simp add: run_append)
  qed
  with 1 2 show "\<exists>h code. seqM (m # ms) g = Ok ((), h) \<and> insns h = insns g @ code \<and> ast h = ast g \<and>
      labelCount g \<le> labelCount h \<and> (\<forall>j s. known b j \<longrightarrow> run e code j s = inRow (f # fs) j s \<and> known b (fst (inRow (f # fs) j s)))"
    by (intro exI [of _ k] exI [of _ "code @ more"]) (simp add: thenM_def bindM_def)
qed

text \<open>A label of its own: nothing that comes from outside is on the way to it.\<close>

lemma produces_AllocLabel:
  assumes "\<And>l b'. b \<le> labelId l \<Longrightarrow> labelId l < b' \<Longrightarrow> produces e t b' (m l) (f l)"
    and "\<And>l j s. b \<le> labelId l \<Longrightarrow> known b j \<Longrightarrow> f l j s = f' j s \<and> known b (fst (f' j s))"
  shows "produces e t b (bindM AllocLabel m) f'"
proof (rule producesI)
  fix g :: pandaGen
  assume t: "ast g = t" and b: "b \<le> labelCount g"
  let ?l = "Label (lastNode g) (labelCount g)" and ?g = "g\<lparr>labelCount := labelCount g + 1\<rparr>"
  have "produces e t (labelCount g + 1) (m ?l) (f ?l)" using assms(1) [of ?l "labelCount g + 1"] b by simp
  moreover have "labelCount g + 1 \<le> labelCount ?g" "ast ?g = t" using t by simp_all
  ultimately obtain h code where 1: "m ?l ?g = Ok ((), h)" "insns h = insns ?g @ code" "ast h = ast ?g"
    "labelCount ?g \<le> labelCount h" "\<And>j s. known (labelCount g + 1) j \<Longrightarrow> run e code j s = f ?l j s"
    by (metis producesE)
  have "known (labelCount g + 1) j" if "known b j" for j
    using that b by (auto simp: known_def split: option.splits)
  with 1 assms(2) [of ?l] b show "\<exists>h code. bindM AllocLabel m g = Ok ((), h) \<and> insns h = insns g @ code \<and> ast h = ast g \<and>
      labelCount g \<le> labelCount h \<and> (\<forall>j s. known b j \<longrightarrow> run e code j s = f' j s \<and> known b (fst (f' j s)))"
    by (intro exI [of _ h] exI [of _ code])
      (simp add: AllocLabel_def bindM_def thenM_def getM_def modifyM_def ret_def)
qed

lemma produces_getNode: "produces e t b (f (nodeOf t n)) F \<Longrightarrow> produces e t b (bindM (getNode n) f) F"
  by (simp add: produces_def getNode_def bindM_def getM_def)

section \<open>Conditions\<close>

text \<open>The reference: the operands from left to right, as far as they decide.\<close>

definition testBy :: "'v runtime \<Rightarrow> opcode \<Rightarrow> 'v machine \<Rightarrow> bool \<times> 'v machine" where
  "testBy e op s = (let s' = effect e op [] s in (isTrue e (acc s'), s'))"

definition evalCondition ::
  "'v runtime \<Rightarrow> (nodeRef \<Rightarrow> 'v machine \<Rightarrow> 'v machine) \<Rightarrow> nodeRef \<Rightarrow> node \<Rightarrow> 'v machine \<Rightarrow> bool \<times> 'v machine" where
  "evalCondition e E n x s =
    (case x of
       Expr (BinaryExpression op l r) \<Rightarrow>
         if op = PUNCTUATOR_LOGICAL_AND then
           (case testBy e EcmaToboolean (E l s) of (b, s') \<Rightarrow>
              if b then testBy e EcmaToboolean (E r s') else (False, s'))
         else if op = PUNCTUATOR_LOGICAL_OR then
           (case testBy e EcmaToboolean (E l s) of (b, s') \<Rightarrow>
              if b then (True, s') else testBy e EcmaToboolean (E r s'))
         else testBy e EcmaToboolean (E n s)
     | Expr (UnaryExpression op arg) \<Rightarrow>
         if op = PUNCTUATOR_EXCLAMATION_MARK then testBy e EcmaNegate (E arg s) else testBy e EcmaToboolean (E n s)
     | _ \<Rightarrow> testBy e EcmaToboolean (E n s))"

text \<open>What the runtime documents: conversion to a boolean, and negation, give true or false.\<close>

definition givesBooleans :: "'v runtime \<Rightarrow> bool" where
  "givesBooleans e \<longleftrightarrow> (\<forall>s. \<forall>op \<in> {EcmaToboolean, EcmaNegate}.
     isFalse e (acc (effect e op [] s)) = (\<not> isTrue e (acc (effect e op [] s))))"

definition isComparison :: "node \<Rightarrow> bool" where
  "isComparison x = (case x of Expr (BinaryExpression op _ _) \<Rightarrow> conditionOperator op | _ \<Rightarrow> False)"

definition deciding :: "('v machine \<Rightarrow> bool \<times> 'v machine) \<Rightarrow> label \<Rightarrow> 'v passage" where
  "deciding C l j s = (case j of None \<Rightarrow> (if fst (C s) then None else Some l, snd (C s)) | Some k \<Rightarrow> (Some k, s))"

lemma produces_change:
  assumes "produces e t b m f" "\<And>j s. known b j \<Longrightarrow> f j s = f' j s"
  shows "produces e t b m f'"
  using assms unfolding produces_def by metis

lemmas producing = produces_Cons produces_Nil produces_node produces_emit produces_branch produces_SetLabel

lemmas emissions = ToBoolean_def NegateAcc_def BranchIfFalse_def BranchIfTrue_def Branch_def

lemma Condition_Compile_produces:
  assumes "givesBooleans e" "\<And>n. computes e t c n (E n)" "labelId l < b" "\<not> isComparison (nodeOf t n)"
  shows "produces e t b (Condition_Compile c n l) (deciding (evalCondition e E n (nodeOf t n)) l)"
proof -
  let ?x = "nodeOf t n"
  have general: "produces e t b (seqM [compileNode c n, ToBoolean n, BranchIfFalse n l])
      (deciding (\<lambda>s. testBy e EcmaToboolean (E n s)) l)"
    unfolding emissions
    by (rule produces_change, (rule producing assms(2,3) | simp; fail)+)
      (use assms(1) in \<open>auto simp: passages deciding_def testBy_def givesBooleans_def jumps_def Let_def split: option.splits\<close>)
  have conj: "produces e t b (seqM [compileNode c x, ToBoolean n, BranchIfFalse n l,
        compileNode c y, ToBoolean n, BranchIfFalse n l])
      (deciding (\<lambda>s. case testBy e EcmaToboolean (E x s) of (b, s') \<Rightarrow>
         if b then testBy e EcmaToboolean (E y s') else (False, s')) l)" for x y
    unfolding emissions
    by (rule produces_change, (rule producing assms(2,3) | simp; fail)+)
      (use assms(1) in \<open>auto simp: passages deciding_def testBy_def givesBooleans_def jumps_def Let_def split: option.splits\<close>)
  have neg: "produces e t b (seqM [compileNode c x, NegateAcc n, BranchIfFalse n l])
      (deciding (\<lambda>s. testBy e EcmaNegate (E x s)) l)" for x
    unfolding emissions
    by (rule produces_change, (rule producing assms(2,3) | simp; fail)+)
      (use assms(1) in \<open>auto simp: passages deciding_def testBy_def givesBooleans_def jumps_def Let_def split: option.splits\<close>)
  have disj: "produces e t b (bindM AllocLabel (\<lambda>endLabel.
        seqM [compileNode c x, ToBoolean n, BranchIfTrue n endLabel,
              compileNode c y, ToBoolean n, BranchIfFalse n l, SetLabel endLabel]))
      (deciding (\<lambda>s. case testBy e EcmaToboolean (E x s) of (b, s') \<Rightarrow>
         if b then (True, s') else testBy e EcmaToboolean (E y s')) l)" for x y
  proof (rule produces_AllocLabel)
    fix k b'
    assume "b \<le> labelId k" "labelId k < b'"
    then show "produces e t b' (seqM [compileNode c x, ToBoolean n, BranchIfTrue n k,
          compileNode c y, ToBoolean n, BranchIfFalse n l, SetLabel k])
        (inRow [passing (E x), passing (effect e EcmaToboolean []), branching (jumps e EcmaJtrue) k,
           passing (E y), passing (effect e EcmaToboolean []), branching (jumps e EcmaJfalse) l, placing k])"
      unfolding emissions using assms(3)
      by (intro producing assms(2)) simp_all
  next
    fix k j s
    assume "b \<le> labelId k" "known b j"
    then show "inRow [passing (E x), passing (effect e EcmaToboolean []), branching (jumps e EcmaJtrue) k,
           passing (E y), passing (effect e EcmaToboolean []), branching (jumps e EcmaJfalse) l, placing k] j s =
        deciding (\<lambda>s. case testBy e EcmaToboolean (E x s) of (b, s') \<Rightarrow>
           if b then (True, s') else testBy e EcmaToboolean (E y s')) l j s \<and>
        known b (fst (deciding (\<lambda>s. case testBy e EcmaToboolean (E x s) of (b, s') \<Rightarrow>
           if b then (True, s') else testBy e EcmaToboolean (E y s')) l j s))"
      using assms(1,3)
      by (auto simp: passages deciding_def testBy_def givesBooleans_def jumps_def Let_def known_def split: option.splits)
  qed
  show ?thesis
    unfolding Condition_Compile_def Let_def
    using assms(4) general conj neg disj
    by (intro produces_getNode)
      (auto simp: evalCondition_def [abs_def] isComparison_def simp del: seqM.simps split: node.splits expression.splits)
qed


lemma ConditionalExpression_produces:
  assumes "givesBooleans e" "\<And>n. computes e t c n (E n)" "\<not> isComparison (nodeOf t test)"
  shows "produces e t b (ConditionalExpression_Compile c node test x y)
    (passing (\<lambda>s. case evalCondition e E test (nodeOf t test) s of (b, s') \<Rightarrow> if b then E x s' else E y s'))"
proof -
  let ?C = "evalCondition e E test (nodeOf t test)"
  let ?F = "\<lambda>s. case ?C s of (b, s') \<Rightarrow> if b then E x s' else E y s'"
  let ?row = "\<lambda>falseLabel endLabel. inRow [deciding ?C falseLabel, passing (E x), branching (jumps e Jmp) endLabel,
     placing falseLabel, passing (E y), placing endLabel]"
  let ?entered = "\<lambda>falseLabel j s. case j of None \<Rightarrow> (None, ?F s)
     | Some k \<Rightarrow> if k = falseLabel then (None, E y s) else (Some k, s)"
  show ?thesis
    unfolding ConditionalExpression_Compile_def
  proof (rule produces_AllocLabel [where f = ?entered])
    fix falseLabel b'
    assume f: "b \<le> labelId falseLabel" "labelId falseLabel < b'"
    show "produces e t b' (bindM AllocLabel (\<lambda>endLabel. seqM [Condition_Compile c test falseLabel, compileNode c x,
        Branch node endLabel, SetLabel falseLabel, compileNode c y, SetLabel endLabel])) (?entered falseLabel)"
    proof (rule produces_AllocLabel [where f = "?row falseLabel"])
      fix endLabel b''
      assume "b' \<le> labelId endLabel" "labelId endLabel < b''"
      then show "produces e t b'' (seqM [Condition_Compile c test falseLabel, compileNode c x,
          Branch node endLabel, SetLabel falseLabel, compileNode c y, SetLabel endLabel]) (?row falseLabel endLabel)"
        unfolding emissions using f
        by (intro producing Condition_Compile_produces assms) simp_all
    next
      fix endLabel j and s :: "'a machine"
      assume "b' \<le> labelId endLabel" "known b' j"
      then show "?row falseLabel endLabel j s = ?entered falseLabel j s \<and> known b' (fst (?entered falseLabel j s))"
        using f by (auto simp: passages deciding_def jumps_def known_def split: option.splits prod.splits)
    qed
  next
    fix falseLabel j and s :: "'a machine"
    assume "b \<le> labelId falseLabel" "known b j"
    then show "?entered falseLabel j s = passing ?F j s \<and> known b (fst (passing ?F j s))"
      by (auto simp: passing_def known_def split: option.splits)
  qed
qed


section \<open>A runtime\<close>

text \<open>Numbers, with 0 for false; node \<open>n\<close> compiles to the constant \<open>n\<close>, and node 2 is \<open>0 && 5\<close>.\<close>

definition numbers :: "int runtime" where
  "numbers = \<lparr>effect = (\<lambda>op args s.
       if op = LdaiDyn then (case args of [Imm i] \<Rightarrow> s\<lparr>acc := i\<rparr> | _ \<Rightarrow> s)
       else if op = EcmaToboolean then s\<lparr>acc := if acc s = 0 then 0 else 1\<rparr>
       else if op = EcmaNegate then s\<lparr>acc := if acc s = 0 then 1 else 0\<rparr> else s),
     isTrue = (\<lambda>v. v = 1), isFalse = (\<lambda>v. v = 0)\<rparr>"

definition constants :: calls where
  "constants = \<lparr>compileNode = (\<lambda>n. LoadAccumulatorInt n (int n)), awaitCall = (\<lambda>_. out_of_fuel), destructCall = (\<lambda>_. out_of_fuel)\<rparr>"

definition conjunction :: pandaGen where
  "conjunction = (newPandaGen (\<lambda>_. []) \<lparr>nodeOf = (\<lambda>n. if n = 2 then Expr (BinaryExpression PUNCTUATOR_LOGICAL_AND 0 5)
     else OtherNode), parentOf = (\<lambda>_. None), nNodes = 6\<rparr> emptyHeap False 0 0 0)\<lparr>labelCount := 4\<rparr>"

lemma numbers_booleans: "givesBooleans numbers"
  by (auto simp: givesBooleans_def numbers_def)

lemma constants_compute: "\<forall>n. computes numbers t constants n (\<lambda>s. s\<lparr>acc := int n\<rparr>)"
  by (auto simp: computes_def constants_def LoadAccumulatorInt_def saEmit_def modifyM_def PushBack_def
      numbers_def jumps_def stays_def)

lemma conjunction_facts: "labelCount conjunction = 4"
  "nodeOf (ast conjunction) 2 = Expr (BinaryExpression PUNCTUATOR_LOGICAL_AND 0 5)"
  "\<not> isComparison (nodeOf (ast conjunction) 2)"
  by (simp_all add: conjunction_def newPandaGen_def isComparison_def conditionOperator_def comparisonOp_def)



end
