(* ===== verification/Ast.thy ===== *)
theory Ast
  imports Binder
begin

text \<open>
  The syntax tree the parser builds (\<open>ir/astNode.h\<close>, \<open>ir/expression.h\<close> and the classes under \<open>ir/base\<close>,
  \<open>ir/expressions\<close>, \<open>ir/statements\<close>, \<open>ir/module\<close> and \<open>ir/ts\<close>), with the methods that turn an expression into
  a pattern and validate literals.

  Nodes live in an arena and are changed after they are built: an operator that binds tighter steals
  the operand of a node, an expression becomes a pattern, a parenthesis widens a range.  The arena is
  the record \<open>nodeTable\<close>; a pointer is the number of a node, and one the code tests for null an option.
  Some results the code never tests may be null nevertheless: they are \<open>nullNode\<close>, the number no node has,
  and reading or changing it is undefined.  A node has
  the members of \<open>AstNode\<close> and \<open>Expression\<close> and, as its body, the members of its class; the constructors
  are the classes.  The two types that share a class (\<open>AST_NODE_REINTERPRET_MAPPING\<close>) are two constructors.
  Using a node as a class it is not is undefined.
\<close>

section \<open>Classes\<close>

type_synonym nodeId = nat

text \<open>\<open>ModifierFlags\<close>\<close>

abbreviation (input) MF_NONE :: u32 where "MF_NONE \<equiv> 0"
abbreviation (input) MF_STATIC :: u32 where "MF_STATIC \<equiv> 1"
abbreviation (input) MF_ASYNC :: u32 where "MF_ASYNC \<equiv> 2"
abbreviation (input) MF_PUBLIC :: u32 where "MF_PUBLIC \<equiv> 4"
abbreviation (input) MF_PROTECTED :: u32 where "MF_PROTECTED \<equiv> 8"
abbreviation (input) MF_PRIVATE :: u32 where "MF_PRIVATE \<equiv> 0x10"
abbreviation (input) MF_DECLARE :: u32 where "MF_DECLARE \<equiv> 0x20"
abbreviation (input) MF_READONLY :: u32 where "MF_READONLY \<equiv> 0x40"
abbreviation (input) MF_OPTIONAL :: u32 where "MF_OPTIONAL \<equiv> 0x80"
abbreviation (input) MF_DEFINITE :: u32 where "MF_DEFINITE \<equiv> 0x100"
abbreviation (input) MF_ABSTRACT :: u32 where "MF_ABSTRACT \<equiv> 0x200"
abbreviation (input) MF_ACCESS :: u32 where "MF_ACCESS \<equiv> 0x1C"
abbreviation (input) MF_ALL :: u32 where "MF_ALL \<equiv> 0x27F"
abbreviation (input) MF_ALLOWED_IN_CTOR_PARAMETER :: u32 where "MF_ALLOWED_IN_CTOR_PARAMETER \<equiv> 0x5C"

text \<open>\<open>ScriptFunctionFlags\<close>\<close>

abbreviation (input) SF_GENERATOR :: u32 where "SF_GENERATOR \<equiv> 1"
abbreviation (input) SF_ASYNC :: u32 where "SF_ASYNC \<equiv> 2"
abbreviation (input) SF_ARROW :: u32 where "SF_ARROW \<equiv> 4"
abbreviation (input) SF_EXPRESSION :: u32 where "SF_EXPRESSION \<equiv> 8"
abbreviation (input) SF_OVERLOAD :: u32 where "SF_OVERLOAD \<equiv> 0x10"
abbreviation (input) SF_CONSTRUCTOR :: u32 where "SF_CONSTRUCTOR \<equiv> 0x20"
abbreviation (input) SF_METHOD :: u32 where "SF_METHOD \<equiv> 0x40"

text \<open>\<open>IdentifierFlags\<close>\<close>

abbreviation (input) IF_OPTIONAL :: u32 where "IF_OPTIONAL \<equiv> 1"
abbreviation (input) IF_REFERENCE :: u32 where "IF_REFERENCE \<equiv> 2"

datatype methodDefinitionKind = MDK_CONSTRUCTOR | MDK_METHOD | MDK_GET | MDK_SET
datatype tsOperatorType = TSOP_READONLY | TSOP_KEYOF | TSOP_UNIQUE
datatype mappedOption = MO_NO_OPTS | MO_PLUS | MO_MINUS
datatype accessibilityOption = AO_NO_OPTS | AO_PUBLIC | AO_PRIVATE | AO_PROTECTED
datatype varDeclKind = VD_CONST | VD_LET | VD_VAR

record identifierNode =
  iName :: name
  iTypeAnnotation :: "nodeId option"
  iFlags :: u32
  iDecorators :: "nodeId list"

text \<open>The members of \<open>ArrayExpression\<close> and of \<open>ObjectExpression\<close>: elements or properties.\<close>

record patternNode =
  pElements :: "nodeId list"
  pTypeAnnotation :: "nodeId option"
  pIsDeclaration :: bool
  pTrailingComma :: bool
  pOptional :: bool

datatype expressionNode =
    ArrayExpression patternNode
  | ArrayPattern patternNode
  | ArrowFunctionExpression nodeId
  | AssignmentExpression nodeId nodeId tokenType
  | AssignmentPattern nodeId nodeId tokenType
  | AwaitExpression nodeId
  | BinaryExpression nodeId nodeId tokenType
  | CallExpression nodeId "nodeId list" "nodeId option" bool \<comment> \<open>callee, arguments, type parameters, optional\<close>
  | ChainExpression nodeId
  | ClassExpression nodeId
  | ConditionalExpression nodeId nodeId nodeId
  | FunctionExpression nodeId
  | Identifier identifierNode
  | ImportExpression nodeId
  | MemberExpression nodeId nodeId bool bool \<comment> \<open>object, property, computed (element access), optional\<close>
  | MetaProperty bool \<comment> \<open>\<open>new.target\<close>, otherwise \<open>import.meta\<close>\<close>
  | NewExpression nodeId "nodeId list"
  | ObjectExpression patternNode
  | ObjectPattern patternNode
  | OmittedExpression
  | SequenceExpression "nodeId list"
  | SuperExpression
  | TaggedTemplateExpression nodeId nodeId "nodeId option"
  | TemplateLiteral "nodeId list" "nodeId list" \<comment> \<open>quasis, expressions\<close>
  | ThisExpression
  | UnaryExpression nodeId tokenType
  | UpdateExpression nodeId tokenType bool \<comment> \<open>argument, operator, prefix\<close>
  | YieldExpression "nodeId option" bool

datatype literalNode =
    BigIntLiteral name
  | BooleanLiteral bool
  | NullLiteral
  | NumberLiteral double name
  | RegExpLiteral name name
  | StringLiteral name

record scriptFunctionNode =
  fScope :: scopeId
  fIdent :: "nodeId option"
  fParams :: "nodeId list"
  fTypeParams :: "nodeId option"
  fBody :: "nodeId option"
  fReturnType :: "nodeId option"
  fFlags :: u32
  fDeclare :: bool

record classNode =
  cScope :: scopeId
  cIdent :: "nodeId option"
  cTypeParams :: "nodeId option"
  cSuperTypeParams :: "nodeId option"
  cImplements :: "nodeId list"
  cCtor :: nodeId
  cSuperClass :: "nodeId option"
  cBody :: "nodeId list"
  cIndexSignatures :: "nodeId list"
  cDeclare :: bool
  cAbstract :: bool

record methodNode =
  mKind :: methodDefinitionKind
  mKey :: nodeId
  mValue :: nodeId
  mModifiers :: u32
  mOverloads :: "nodeId list"
  mDecorators :: "nodeId list"
  mComputed :: bool

record propertyNode =
  pKind :: propertyKind
  pKey :: nodeId
  pValue :: nodeId
  pMethod :: bool
  pShorthand :: bool
  pComputed :: bool

datatype partNode =
    CatchClause scopeId "nodeId option" nodeId
  | ClassDefinition classNode
  | ClassProperty nodeId "nodeId option" "nodeId option" u32 "nodeId list" bool bool
    \<comment> \<open>key, value, type, modifiers, decorators, computed, definite\<close>
  | Decorator nodeId
  | MethodDefinition methodNode
  | Property propertyNode
  | ScriptFunctionNode scriptFunctionNode
  | SpreadElement nodeId "nodeId option" \<comment> \<open>argument, type\<close>
  | RestElement nodeId "nodeId option"
  | TemplateElement name name \<comment> \<open>raw, cooked\<close>

datatype statementNode =
    BlockStatement scopeId "nodeId list"
  | BreakStatement "nodeId option"
  | ClassDeclaration nodeId "nodeId list"
  | ContinueStatement "nodeId option"
  | DebuggerStatement
  | DoWhileStatement scopeId nodeId nodeId \<comment> \<open>scope, body, test\<close>
  | EmptyStatement
  | ExpressionStatement nodeId
  | ForInStatement scopeId nodeId nodeId nodeId
  | ForOfStatement scopeId nodeId nodeId nodeId bool
  | ForUpdateStatement scopeId "nodeId option" "nodeId option" "nodeId option" nodeId
    \<comment> \<open>scope, init, test, update, body\<close>
  | FunctionDeclaration nodeId
  | IfStatement nodeId nodeId "nodeId option"
  | LabelledStatement nodeId nodeId
  | ReturnStatement "nodeId option"
  | SwitchCaseStatement "nodeId option" "nodeId list"
  | SwitchStatement scopeId nodeId "nodeId list"
  | ThrowStatement nodeId
  | TryStatement nodeId "nodeId option" "nodeId option"
  | VariableDeclaration varDeclKind "nodeId list" bool
  | VariableDeclarator nodeId "nodeId option"
  | WhileStatement scopeId nodeId nodeId \<comment> \<open>scope, test, body\<close>

datatype moduleNode =
    ExportAllDeclNode nodeId "nodeId option"
  | ExportDefaultDeclNode nodeId bool
  | ExportNamedDeclNode "nodeId option" "nodeId option" "nodeId list" \<comment> \<open>declaration, source, specifiers\<close>
  | ExportSpecifierNode nodeId nodeId \<comment> \<open>local, exported\<close>
  | ImportDeclNode nodeId "nodeId list"
  | ImportDefaultSpecifierNode nodeId
  | ImportNamespaceSpecifierNode nodeId
  | ImportSpecifierNode nodeId nodeId \<comment> \<open>imported, local\<close>

datatype tsTypeNode =
    TSAnyKeyword | TSBigintKeyword | TSBooleanKeyword | TSNeverKeyword | TSNullKeyword | TSNumberKeyword
  | TSObjectKeyword | TSStringKeyword | TSUndefinedKeyword | TSUnknownKeyword | TSVoidKeyword | TSThisType
  | TSArrayType nodeId
  | TSConditionalType nodeId nodeId nodeId nodeId
  | TSConstructorType scopeId "nodeId list" "nodeId option" nodeId bool
    \<comment> \<open>scope, parameters, type parameters, return type, abstract\<close>
  | TSFunctionType scopeId "nodeId list" "nodeId option" nodeId
  | TSImportType nodeId "nodeId option" "nodeId option" bool \<comment> \<open>parameter, type parameters, qualifier, typeof\<close>
  | TSIndexedAccessType nodeId nodeId
  | TSInferType nodeId
  | TSIntersectionType "nodeId list"
  | TSLiteralType nodeId
  | TSMappedType nodeId "nodeId option" mappedOption mappedOption
  | TSNamedTupleMember nodeId nodeId bool
  | TSParenthesizedType nodeId
  | TSQualifiedName nodeId nodeId
  | TSTupleType "nodeId list"
  | TSTypeLiteral "nodeId list"
  | TSTypeOperator nodeId tsOperatorType
  | TSTypeParameter nodeId "nodeId option" "nodeId option"
  | TSTypeParameterDeclaration scopeId "nodeId list" nat
  | TSTypeParameterInstantiation "nodeId list"
  | TSTypePredicate nodeId "nodeId option" bool
  | TSTypeQuery nodeId
  | TSTypeReference nodeId "nodeId option"
  | TSUnionType "nodeId list"

datatype tsNode =
    TSAsExpression nodeId nodeId bool
  | TSClassImplements nodeId "nodeId option"
  | TSEnumDeclaration scopeId nodeId "nodeId list" bool
  | TSEnumMember nodeId "nodeId option"
  | TSExternalModuleReference nodeId
  | TSImportEqualsDeclaration nodeId nodeId bool
  | TSIndexSignature nodeId nodeId bool
  | TSInterfaceBody "nodeId list"
  | TSInterfaceDeclaration scopeId nodeId "nodeId option" nodeId "nodeId list"
  | TSInterfaceHeritage nodeId "nodeId option"
  | TSMethodSignature scopeId "nodeId option" "nodeId option" "nodeId list" "nodeId option" bool bool
    \<comment> \<open>scope, key, type parameters, parameters, return type, computed, optional\<close>
  | TSModuleBlock scopeId "nodeId list"
  | TSModuleDeclaration scopeId nodeId "nodeId option" bool bool \<comment> \<open>scope, name, body, declare, global\<close>
  | TSNonNullExpression nodeId
  | TSParameterProperty accessibilityOption nodeId bool bool bool
  | TSPrivateIdentifier nodeId "nodeId option" "nodeId option"
  | TSPropertySignature "nodeId option" "nodeId option" bool bool bool
    \<comment> \<open>key, type, computed, optional, readonly\<close>
  | TSSignatureDeclaration scopeId bool "nodeId option" "nodeId list" "nodeId option"
    \<comment> \<open>scope, construct signature, type parameters, parameters, return type\<close>
  | TSTypeAliasDeclaration nodeId "nodeId option" nodeId bool
  | TSTypeAssertion nodeId nodeId

datatype nodeBody = Expr expressionNode | Lit literalNode | Part partNode | Stmt statementNode
  | Mod moduleNode | TsType tsTypeNode | Ts tsNode

record node =
  nStart :: sourcePosition
  nEnd :: sourcePosition
  nGrouped :: bool
  nBody :: nodeBody

section \<open>The arena\<close>

record nodeTable =
  nodeAt :: "nodeId \<Rightarrow> node"
  nodeCount :: nat

text \<open>What an \<open>Error\<close> may be: the parser's, the lexer's or a redeclaration.\<close>

datatype parseError = SyntaxError string u64 u64 | LexError lexError | Redeclaration binderError | RegExpSyntax string

type_synonym 'a nodeM = "(nodeTable, parseError, 'a) comp"

definition newNode :: "nodeBody \<Rightarrow> node" where
  "newNode b = \<lparr>nStart = noPosition, nEnd = noPosition, nGrouped = False, nBody = b\<rparr>"

definition nullNode :: nodeId where
  "nullNode = 0"

definition orNull :: "nodeId option \<Rightarrow> nodeId" where
  "orNull n = (case n of None \<Rightarrow> nullNode | Some x \<Rightarrow> x)"

definition emptyTable :: nodeTable where
  "emptyTable = \<lparr>nodeAt = (\<lambda>_. newNode (Expr OmittedExpression)), nodeCount = 1\<rparr>"

definition allocNode :: "nodeBody \<Rightarrow> nodeId nodeM" where
  "allocNode b t = Ok (nodeCount t, t\<lparr>nodeAt := (nodeAt t)(nodeCount t := newNode b), nodeCount := Suc (nodeCount t)\<rparr>)"

definition getNode :: "nodeId \<Rightarrow> node nodeM" where
  "getNode n = readM (\<lambda>t. if n = nullNode then None else Some (nodeAt t n))"

definition modNode :: "nodeId \<Rightarrow> (node \<Rightarrow> node) \<Rightarrow> unit nodeM" where
  "modNode n f = thenM (getNode n) (modifyM (\<lambda>t. t\<lparr>nodeAt := (nodeAt t)(n := f (nodeAt t n))\<rparr>))"

definition bodyOf :: "nodeId \<Rightarrow> nodeBody nodeM" where
  "bodyOf n = bindM (getNode n) (\<lambda>x. ret (nBody x))"

definition setBody :: "nodeId \<Rightarrow> nodeBody \<Rightarrow> unit nodeM" where
  "setBody n b = modNode n (\<lambda>x. x\<lparr>nBody := b\<rparr>)"

definition SetRange :: "nodeId \<Rightarrow> sourcePosition \<Rightarrow> sourcePosition \<Rightarrow> unit nodeM" where
  "SetRange n start end' = modNode n (\<lambda>x. x\<lparr>nStart := start, nEnd := end'\<rparr>)"

definition SetStart :: "nodeId \<Rightarrow> sourcePosition \<Rightarrow> unit nodeM" where
  "SetStart n start = modNode n (\<lambda>x. x\<lparr>nStart := start\<rparr>)"

definition SetGrouped :: "nodeId \<Rightarrow> unit nodeM" where
  "SetGrouped n = modNode n (\<lambda>x. x\<lparr>nGrouped := True\<rparr>)"

definition StartOf :: "nodeId \<Rightarrow> sourcePosition nodeM" where
  "StartOf n = bindM (getNode n) (\<lambda>x. ret (nStart x))"

definition EndOf :: "nodeId \<Rightarrow> sourcePosition nodeM" where
  "EndOf n = bindM (getNode n) (\<lambda>x. ret (nEnd x))"

definition IsGrouped :: "nodeId \<Rightarrow> bool nodeM" where
  "IsGrouped n = bindM (getNode n) (\<lambda>x. ret (nGrouped x))"

text \<open>A test of the class of a node.\<close>

definition isKind :: "(nodeBody \<Rightarrow> bool) \<Rightarrow> nodeId \<Rightarrow> bool nodeM" where
  "isKind P n = bindM (bodyOf n) (\<lambda>b. ret (P b))"

definition undefinedM :: "('s, 'e, 'a) comp" where
  "undefinedM = readM (\<lambda>_. None)"

section \<open>Methods of the classes\<close>

definition isIdentifier :: "nodeBody \<Rightarrow> bool" where
  "isIdentifier b = (case b of Expr (Identifier _) \<Rightarrow> True | _ \<Rightarrow> False)"

definition isMemberExpression :: "nodeBody \<Rightarrow> bool" where
  "isMemberExpression b = (case b of Expr (MemberExpression _ _ _ _) \<Rightarrow> True | _ \<Rightarrow> False)"

definition isBinaryExpression :: "nodeBody \<Rightarrow> bool" where
  "isBinaryExpression b = (case b of Expr (BinaryExpression _ _ _) \<Rightarrow> True | _ \<Rightarrow> False)"

definition isArrayPattern :: "nodeBody \<Rightarrow> bool" where
  "isArrayPattern b = (case b of Expr (ArrayPattern _) \<Rightarrow> True | _ \<Rightarrow> False)"

definition isObjectPattern :: "nodeBody \<Rightarrow> bool" where
  "isObjectPattern b = (case b of Expr (ObjectPattern _) \<Rightarrow> True | _ \<Rightarrow> False)"

definition isRestElement :: "nodeBody \<Rightarrow> bool" where
  "isRestElement b = (case b of Part (RestElement _ _) \<Rightarrow> True | _ \<Rightarrow> False)"

definition isAssignmentExpression :: "nodeBody \<Rightarrow> bool" where
  "isAssignmentExpression b = (case b of Expr (AssignmentExpression _ _ _) \<Rightarrow> True | _ \<Rightarrow> False)"

definition isAssignmentPattern :: "nodeBody \<Rightarrow> bool" where
  "isAssignmentPattern b = (case b of Expr (AssignmentPattern _ _ _) \<Rightarrow> True | _ \<Rightarrow> False)"

definition isTSNonNullExpression :: "nodeBody \<Rightarrow> bool" where
  "isTSNonNullExpression b = (case b of Ts (TSNonNullExpression _) \<Rightarrow> True | _ \<Rightarrow> False)"

definition isStringLiteral :: "nodeBody \<Rightarrow> bool" where
  "isStringLiteral b = (case b of Lit (StringLiteral _) \<Rightarrow> True | _ \<Rightarrow> False)"

definition isNumberLiteral :: "nodeBody \<Rightarrow> bool" where
  "isNumberLiteral b = (case b of Lit (NumberLiteral _ _) \<Rightarrow> True | _ \<Rightarrow> False)"

definition newIdentifier :: "name \<Rightarrow> identifierNode" where
  "newIdentifier n = \<lparr>iName = n, iTypeAnnotation = None, iFlags = 0, iDecorators = []\<rparr>"

text \<open>The constructor of \<open>ArrayExpression\<close> and \<open>ObjectExpression\<close>.\<close>

definition newPattern :: "nodeId list \<Rightarrow> bool \<Rightarrow> patternNode" where
  "newPattern es trailingComma = \<lparr>pElements = es, pTypeAnnotation = None, pIsDeclaration = False,
     pTrailingComma = trailingComma, pOptional = False\<rparr>"

text \<open>An update of the identifier or of the pattern a node is; \<open>SetTsTypeAnnotation\<close> of other classes is
  \<open>UNREACHABLE()\<close>.\<close>

definition modIdentifier :: "nodeId \<Rightarrow> (identifierNode \<Rightarrow> identifierNode) \<Rightarrow> unit nodeM" where
  "modIdentifier n f = bindM (bodyOf n) (\<lambda>b.
     case b of Expr (Identifier i) \<Rightarrow> setBody n (Expr (Identifier (f i))) | _ \<Rightarrow> undefinedM)"

definition SetReference :: "nodeId \<Rightarrow> unit nodeM" where
  "SetReference n = modIdentifier n (\<lambda>i. i\<lparr>iFlags := iFlags i OR IF_REFERENCE\<rparr>)"

definition IdentifierName :: "nodeId \<Rightarrow> name nodeM" where
  "IdentifierName n = bindM (bodyOf n) (\<lambda>b. case b of Expr (Identifier i) \<Rightarrow> ret (iName i) | _ \<Rightarrow> undefinedM)"

definition modPattern :: "nodeId \<Rightarrow> (patternNode \<Rightarrow> patternNode) \<Rightarrow> unit nodeM" where
  "modPattern n f = bindM (bodyOf n) (\<lambda>b. case b of
     Expr (ArrayExpression p) \<Rightarrow> setBody n (Expr (ArrayExpression (f p)))
   | Expr (ArrayPattern p) \<Rightarrow> setBody n (Expr (ArrayPattern (f p)))
   | Expr (ObjectExpression p) \<Rightarrow> setBody n (Expr (ObjectExpression (f p)))
   | Expr (ObjectPattern p) \<Rightarrow> setBody n (Expr (ObjectPattern (f p)))
   | _ \<Rightarrow> undefinedM)"

definition SetDeclaration :: "nodeId \<Rightarrow> unit nodeM" where
  "SetDeclaration n = modPattern n (\<lambda>p. p\<lparr>pIsDeclaration := True\<rparr>)"

definition SetOptional :: "nodeId \<Rightarrow> unit nodeM" where
  "SetOptional n = bindM (bodyOf n) (\<lambda>b.
     case b of Expr (Identifier _) \<Rightarrow> modIdentifier n (\<lambda>i. i\<lparr>iFlags := iFlags i OR IF_OPTIONAL\<rparr>)
     | _ \<Rightarrow> modPattern n (\<lambda>p. p\<lparr>pOptional := True\<rparr>))"

definition SetTsTypeAnnotation :: "nodeId \<Rightarrow> nodeId option \<Rightarrow> unit nodeM" where
  "SetTsTypeAnnotation n t = bindM (bodyOf n) (\<lambda>b. case b of
     Expr (Identifier _) \<Rightarrow> modIdentifier n (\<lambda>i. i\<lparr>iTypeAnnotation := t\<rparr>)
   | Part (SpreadElement a _) \<Rightarrow> setBody n (Part (SpreadElement a t))
   | Part (RestElement a _) \<Rightarrow> setBody n (Part (RestElement a t))
   | _ \<Rightarrow> modPattern n (\<lambda>p. p\<lparr>pTypeAnnotation := t\<rparr>))"

text \<open>\<open>BinaryExpression::SetLeft\<close>\<close>

definition SetLeft :: "nodeId \<Rightarrow> nodeId \<Rightarrow> unit nodeM" where
  "SetLeft n l = bindM (bodyOf n) (\<lambda>b. case b of
     Expr (BinaryExpression _ r opr) \<Rightarrow>
       thenM (setBody n (Expr (BinaryExpression l r opr))) (bindM (StartOf l) (SetStart n))
   | _ \<Rightarrow> undefinedM)"

definition IsLogical :: "tokenType \<Rightarrow> bool" where
  "IsLogical opr \<longleftrightarrow> opr \<le> PUNCTUATOR_LOGICAL_AND"

definition IsAccessorKind :: "propertyKind \<Rightarrow> bool" where
  "IsAccessorKind k \<longleftrightarrow> k = PK_GET \<or> k = PK_SET"

definition AddFunctionFlag :: "nodeId \<Rightarrow> u32 \<Rightarrow> unit nodeM" where
  "AddFunctionFlag n flag = bindM (bodyOf n) (\<lambda>b. case b of
     Part (ScriptFunctionNode f) \<Rightarrow> setBody n (Part (ScriptFunctionNode (f\<lparr>fFlags := fFlags f OR flag\<rparr>)))
   | _ \<Rightarrow> undefinedM)"

definition SetFunctionIdent :: "nodeId \<Rightarrow> nodeId \<Rightarrow> unit nodeM" where
  "SetFunctionIdent n ident = bindM (bodyOf n) (\<lambda>b. case b of
     Part (ScriptFunctionNode f) \<Rightarrow> setBody n (Part (ScriptFunctionNode (f\<lparr>fIdent := Some ident\<rparr>)))
   | _ \<Rightarrow> undefinedM)"

definition functionNode :: "nodeId \<Rightarrow> scriptFunctionNode nodeM" where
  "functionNode n = bindM (bodyOf n) (\<lambda>b. case b of Part (ScriptFunctionNode f) \<Rightarrow> ret f | _ \<Rightarrow> undefinedM)"

section \<open>From expressions to patterns\<close>

text \<open>
  \<open>ConvertibleToArrayPattern\<close> and the methods it calls turn a tree into a pattern as far as they get and
  answer whether it is one.  They call each other down the tree through the record \<open>conversions\<close>, whose
  depth the number of nodes bounds.
\<close>

record conversions =
  toArrayPattern :: "nodeId \<Rightarrow> bool nodeM"
  toObjectPattern :: "nodeId \<Rightarrow> bool nodeM"
  toAssignmentPattern :: "nodeId \<Rightarrow> bool \<Rightarrow> bool nodeM"
  toRest :: "nodeId \<Rightarrow> bool \<Rightarrow> bool \<Rightarrow> bool nodeM"

definition ConventibleToPatternProperty :: "conversions \<Rightarrow> nodeId \<Rightarrow> bool nodeM" where
  "ConventibleToPatternProperty c n = bindM (bodyOf n) (\<lambda>b. case b of
     Part (Property p) \<Rightarrow>
       if IsAccessorKind (pKind p) \<or> pMethod p then ret False
       else bindM (bodyOf (pValue p)) (\<lambda>v. case v of
           Expr (ObjectExpression _) \<Rightarrow> toObjectPattern c (pValue p)
         | Expr (ArrayExpression _) \<Rightarrow> toArrayPattern c (pValue p)
         | Expr (AssignmentExpression _ _ _) \<Rightarrow> toAssignmentPattern c (pValue p) True
         | Expr (MetaProperty _) \<Rightarrow> ret False
         | _ \<Rightarrow> ret True)
   | _ \<Rightarrow> undefinedM)"

text \<open>The loop over the elements; the spread element is convertible in the last place only.\<close>

fun patternElements :: "conversions \<Rightarrow> bool \<Rightarrow> patternNode \<Rightarrow> bool \<Rightarrow> nodeId list \<Rightarrow> bool nodeM" where
  "patternElements c isObject p restFound [] = ret True"
| "patternElements c isObject p restFound (it # rest) =
    bindM (bodyOf it) (\<lambda>b.
    bindM (case b of
        Expr (ArrayExpression _) \<Rightarrow> toArrayPattern c it
      | Part (SpreadElement _ _) \<Rightarrow>
          if \<not> restFound \<and> it = last (pElements p) \<and> \<not> pTrailingComma p
          then toRest c it (pIsDeclaration p) (\<not> isObject) else ret False
      | Expr (ObjectExpression _) \<Rightarrow> toObjectPattern c it
      | Expr (AssignmentExpression _ _ _) \<Rightarrow> toAssignmentPattern c it True
      | Expr (MetaProperty _) \<Rightarrow> ret False
      | Expr (ChainExpression _) \<Rightarrow> ret False
      | Expr (SequenceExpression _) \<Rightarrow> ret False
      | Part (Property _) \<Rightarrow> if isObject then ConventibleToPatternProperty c it else ret True
      | _ \<Rightarrow> ret True) (\<lambda>ok.
      if \<not> ok then ret False
      else patternElements c isObject p (restFound \<or> (case b of Part (SpreadElement _ _) \<Rightarrow> True | _ \<Rightarrow> False)) rest))"

definition ConvertibleToArrayPattern :: "conversions \<Rightarrow> nodeId \<Rightarrow> bool nodeM" where
  "ConvertibleToArrayPattern c n = bindM (bodyOf n) (\<lambda>b. case b of
     Expr (ArrayExpression p) \<Rightarrow>
       bindM (patternElements c False p False (pElements p)) (\<lambda>ok.
         thenM (setBody n (Expr (ArrayPattern p))) (ret ok))
   | Expr (ArrayPattern p) \<Rightarrow> patternElements c False p False (pElements p)
   | _ \<Rightarrow> undefinedM)"

definition ConvertibleToObjectPattern :: "conversions \<Rightarrow> nodeId \<Rightarrow> bool nodeM" where
  "ConvertibleToObjectPattern c n = bindM (bodyOf n) (\<lambda>b. case b of
     Expr (ObjectExpression p) \<Rightarrow>
       bindM (patternElements c True p False (pElements p)) (\<lambda>ok.
         thenM (setBody n (Expr (ObjectPattern p))) (ret ok))
   | Expr (ObjectPattern p) \<Rightarrow> patternElements c True p False (pElements p)
   | _ \<Rightarrow> undefinedM)"

text \<open>
  The second half of the method looks at the right side when it is an assignment itself; the other cases
  of its \<open>switch\<close> cannot be reached.
\<close>

definition ConvertibleToAssignmentPattern :: "conversions \<Rightarrow> nodeId \<Rightarrow> bool \<Rightarrow> bool nodeM" where
  "ConvertibleToAssignmentPattern c n mustBePattern = bindM (bodyOf n) (\<lambda>b. case b of
     Expr (AssignmentExpression l r opr) \<Rightarrow>
       bindM (bodyOf l) (\<lambda>lb.
       bindM (case lb of
           Expr (ArrayExpression _) \<Rightarrow> toArrayPattern c l
         | Part (SpreadElement _ _) \<Rightarrow> if mustBePattern then toRest c l False True else ret False
         | Expr (ObjectExpression _) \<Rightarrow> toObjectPattern c l
         | Expr (AssignmentExpression _ _ _) \<Rightarrow> toAssignmentPattern c l mustBePattern
         | Expr (MetaProperty _) \<Rightarrow> ret False
         | Expr (ChainExpression _) \<Rightarrow> ret False
         | _ \<Rightarrow> ret True) (\<lambda>ok.
       thenM (if mustBePattern then setBody n (Expr (AssignmentPattern l r opr)) else ret ())
       (bindM (bodyOf r) (\<lambda>rb. case rb of
           Expr (AssignmentExpression _ _ _) \<Rightarrow> toAssignmentPattern c r False
         | _ \<Rightarrow> ret ok))))
   | _ \<Rightarrow> undefinedM)"

definition ConvertibleToRest :: "conversions \<Rightarrow> nodeId \<Rightarrow> bool \<Rightarrow> bool \<Rightarrow> bool nodeM" where
  "ConvertibleToRest c n isDeclaration allowPattern = bindM (bodyOf n) (\<lambda>b. case b of
     Part (SpreadElement a t) \<Rightarrow>
       bindM (bodyOf a) (\<lambda>ab.
       bindM (case ab of
           Expr (ArrayExpression _) \<Rightarrow> if allowPattern then toArrayPattern c a else ret False
         | Expr (ObjectExpression _) \<Rightarrow> if allowPattern then toObjectPattern c a else ret False
         | Expr (MetaProperty _) \<Rightarrow> ret False
         | Expr (ChainExpression _) \<Rightarrow> ret False
         | Expr (AssignmentExpression _ _ _) \<Rightarrow> ret False
         | Expr (MemberExpression _ _ _ _) \<Rightarrow> ret (\<not> isDeclaration)
         | _ \<Rightarrow> ret True) (\<lambda>ok. thenM (setBody n (Part (RestElement a t))) (ret ok)))
   | _ \<Rightarrow> undefinedM)"

definition conversionsFrom :: "conversions \<Rightarrow> conversions" where
  "conversionsFrom c = \<lparr>toArrayPattern = ConvertibleToArrayPattern c,
     toObjectPattern = ConvertibleToObjectPattern c,
     toAssignmentPattern = ConvertibleToAssignmentPattern c,
     toRest = ConvertibleToRest c\<rparr>"

primrec conversionsAt :: "nat \<Rightarrow> conversions" where
  "conversionsAt 0 = \<lparr>toArrayPattern = \<lambda>_. out_of_fuel, toObjectPattern = \<lambda>_. out_of_fuel,
     toAssignmentPattern = \<lambda>_ _. out_of_fuel, toRest = \<lambda>_ _ _. out_of_fuel\<rparr>"
| "conversionsAt (Suc k) = conversionsFrom (conversionsAt k)"

definition converting :: "(conversions \<Rightarrow> 'a nodeM) \<Rightarrow> 'a nodeM" where
  "converting m t = m (conversionsAt (Suc (nodeCount t))) t"

section \<open>Validation of literals\<close>

text \<open>\<open>ValidationInfo\<close>: the message and its position, or nothing.\<close>

type_synonym validationInfo = "(string \<times> sourcePosition) option"

record validations =
  validArray :: "nodeId \<Rightarrow> validationInfo nodeM"
  validObject :: "nodeId \<Rightarrow> validationInfo nodeM"

definition arrayOrObject :: "validations \<Rightarrow> nodeId \<Rightarrow> validationInfo nodeM" where
  "arrayOrObject v n = bindM (bodyOf n) (\<lambda>b. case b of
     Expr (ObjectExpression _) \<Rightarrow> validObject v n
   | Expr (ArrayExpression _) \<Rightarrow> validArray v n
   | _ \<Rightarrow> ret None)"

definition SpreadElement_ValidateExpression :: "validations \<Rightarrow> nodeId \<Rightarrow> validationInfo nodeM" where
  "SpreadElement_ValidateExpression v n = bindM (bodyOf n) (\<lambda>b. case b of
     Part (SpreadElement a _) \<Rightarrow> arrayOrObject v a | _ \<Rightarrow> undefinedM)"

definition currentIsProto :: "nodeBody \<Rightarrow> bool" where
  "currentIsProto key = (case key of
     Expr (Identifier i) \<Rightarrow> iName i = asciiText ''__proto__''
   | Lit (StringLiteral s) \<Rightarrow> s = asciiText ''__proto__''
   | _ \<Rightarrow> False)"

definition Property_ValidateExpression :: "validations \<Rightarrow> nodeId \<Rightarrow> validationInfo nodeM" where
  "Property_ValidateExpression v n = bindM (bodyOf n) (\<lambda>b. case b of
     Part (Property p) \<Rightarrow>
       thenM (if \<not> pComputed p \<and> \<not> pMethod p \<and> \<not> IsAccessorKind (pKind p) \<and> \<not> pShorthand p then
                bindM (bodyOf (pKey p)) (\<lambda>k.
                  if currentIsProto k then setBody n (Part (Property (p\<lparr>pKind := PK_PROTO\<rparr>))) else ret ())
              else ret ())
       (bindM (bodyOf (pValue p)) (\<lambda>vb.
          if isAssignmentPattern vb then
            bindM (StartOf (pValue p)) (\<lambda>pos. ret (Some (''Invalid shorthand property initializer.'', pos)))
          else arrayOrObject v (pValue p)))
   | _ \<Rightarrow> undefinedM)"

fun arrayElements :: "validations \<Rightarrow> nodeId list \<Rightarrow> validationInfo nodeM" where
  "arrayElements v [] = ret None"
| "arrayElements v (it # rest) =
    bindM (bodyOf it) (\<lambda>b.
    bindM (case b of
        Expr (ObjectExpression _) \<Rightarrow> validObject v it
      | Expr (ArrayExpression _) \<Rightarrow> validArray v it
      | Expr (AssignmentExpression l _ _) \<Rightarrow> arrayOrObject v l
      | Part (SpreadElement _ _) \<Rightarrow> SpreadElement_ValidateExpression v it
      | _ \<Rightarrow> ret None) (\<lambda>info. if info \<noteq> None then ret info else arrayElements v rest))"

definition ArrayExpression_ValidateExpression :: "validations \<Rightarrow> nodeId \<Rightarrow> validationInfo nodeM" where
  "ArrayExpression_ValidateExpression v n = bindM (bodyOf n) (\<lambda>b. case b of
     Expr (ArrayExpression p) \<Rightarrow> arrayElements v (pElements p)
   | Expr (ArrayPattern p) \<Rightarrow> arrayElements v (pElements p)
   | _ \<Rightarrow> undefinedM)"

fun objectProperties :: "validations \<Rightarrow> bool \<Rightarrow> nodeId list \<Rightarrow> validationInfo nodeM" where
  "objectProperties v foundProto [] = ret None"
| "objectProperties v foundProto (it # rest) =
    bindM (bodyOf it) (\<lambda>b. case b of
        Expr (ObjectExpression _) \<Rightarrow> bindM (StartOf it) (\<lambda>pos. ret (Some (''Unexpected token.'', pos)))
      | Expr (ArrayExpression _) \<Rightarrow> bindM (StartOf it) (\<lambda>pos. ret (Some (''Unexpected token.'', pos)))
      | Part (SpreadElement _ _) \<Rightarrow> bindM (SpreadElement_ValidateExpression v it) (\<lambda>info.
          if info \<noteq> None then ret info else objectProperties v foundProto rest)
      | Part (Property p) \<Rightarrow> bindM (Property_ValidateExpression v it) (\<lambda>info.
          bindM (bodyOf it) (\<lambda>b'.
            if (case b' of Part (Property q) \<Rightarrow> pKind q = PK_PROTO | _ \<Rightarrow> False) then
              if foundProto then bindM (StartOf (pKey p)) (\<lambda>pos.
                ret (Some (''Duplicate __proto__ fields are not allowed in object literals'', pos)))
              else if info \<noteq> None then ret info else objectProperties v True rest
            else if info \<noteq> None then ret info else objectProperties v foundProto rest))
      | _ \<Rightarrow> objectProperties v foundProto rest)"

definition ObjectExpression_ValidateExpression :: "validations \<Rightarrow> nodeId \<Rightarrow> validationInfo nodeM" where
  "ObjectExpression_ValidateExpression v n = bindM (bodyOf n) (\<lambda>b. case b of
     Expr (ObjectExpression p) \<Rightarrow> objectProperties v False (pElements p)
   | Expr (ObjectPattern p) \<Rightarrow> objectProperties v False (pElements p)
   | _ \<Rightarrow> undefinedM)"

definition validationsFrom :: "validations \<Rightarrow> validations" where
  "validationsFrom v = \<lparr>validArray = ArrayExpression_ValidateExpression v,
     validObject = ObjectExpression_ValidateExpression v\<rparr>"

primrec validationsAt :: "nat \<Rightarrow> validations" where
  "validationsAt 0 = \<lparr>validArray = \<lambda>_. out_of_fuel, validObject = \<lambda>_. out_of_fuel\<rparr>"
| "validationsAt (Suc k) = validationsFrom (validationsAt k)"

definition validating :: "(validations \<Rightarrow> 'a nodeM) \<Rightarrow> 'a nodeM" where
  "validating m t = m (validationsAt (Suc (nodeCount t))) t"

end
