(* ===== verification/AstTree.thy ===== *)
theory AstTree
  imports Ast
begin

text \<open>
  The traversals of the tree: \<open>Iterate\<close> of every class under \<open>ir\<close>, and the tree the binder walks when the
  parser hands it a node of its arena.
\<close>

section \<open>Children\<close>

text \<open>The nodes \<open>Iterate\<close> calls back with, in its order; a pointer that is null is left out.\<close>

definition maybe :: "'a option \<Rightarrow> 'a list" where
  "maybe x = (case x of None \<Rightarrow> [] | Some a \<Rightarrow> [a])"

primrec iterateExpression :: "expressionNode \<Rightarrow> nodeId list" where
  "iterateExpression (ArrayExpression p) = pElements p @ maybe (pTypeAnnotation p)"
| "iterateExpression (ArrayPattern p) = pElements p @ maybe (pTypeAnnotation p)"
| "iterateExpression (ArrowFunctionExpression f) = [f]"
| "iterateExpression (AssignmentExpression l r _) = [l, r]"
| "iterateExpression (AssignmentPattern l r _) = [l, r]"
| "iterateExpression (AwaitExpression a) = [a]"
| "iterateExpression (BinaryExpression l r _) = [l, r]"
| "iterateExpression (CallExpression callee args typeParams _) = callee # maybe typeParams @ args"
| "iterateExpression (ChainExpression e) = [e]"
| "iterateExpression (ClassExpression def) = [def]"
| "iterateExpression (ConditionalExpression test cons alt) = [test, cons, alt]"
| "iterateExpression (FunctionExpression f) = [f]"
| "iterateExpression (Identifier i) = maybe (iTypeAnnotation i) @ iDecorators i"
| "iterateExpression (ImportExpression source) = [source]"
| "iterateExpression (MemberExpression obj prop _ _) = [obj, prop]"
| "iterateExpression (MetaProperty _) = []"
| "iterateExpression (NewExpression callee args) = callee # args"
| "iterateExpression (ObjectExpression p) = pElements p @ maybe (pTypeAnnotation p)"
| "iterateExpression (ObjectPattern p) = pElements p @ maybe (pTypeAnnotation p)"
| "iterateExpression OmittedExpression = []"
| "iterateExpression (SequenceExpression es) = es"
| "iterateExpression SuperExpression = []"
| "iterateExpression (TaggedTemplateExpression tag quasi typeParams) = maybe typeParams @ [tag, quasi]"
| "iterateExpression (TemplateLiteral quasis es) = es @ quasis"
| "iterateExpression ThisExpression = []"
| "iterateExpression (UnaryExpression a _) = [a]"
| "iterateExpression (UpdateExpression a _ _) = [a]"
| "iterateExpression (YieldExpression a _) = maybe a"

primrec iteratePart :: "partNode \<Rightarrow> nodeId list" where
  "iteratePart (CatchClause _ param body) = maybe param @ [body]"
| "iteratePart (ClassDefinition c) =
    maybe (cIdent c) @ maybe (cTypeParams c) @ maybe (cSuperClass c) @ maybe (cSuperTypeParams c) @ cImplements c
    @ cCtor c # cBody c @ cIndexSignatures c"
| "iteratePart (ClassProperty key val ty _ decorators _ _) = key # maybe val @ maybe ty @ decorators"
| "iteratePart (Decorator e) = [e]"
| "iteratePart (MethodDefinition m) = mKey m # mValue m # mOverloads m @ mDecorators m"
| "iteratePart (Property p) = [pKey p, pValue p]"
| "iteratePart (ScriptFunctionNode f) = maybe (fIdent f) @ maybe (fTypeParams f) @ fParams f @ maybe (fBody f)"
| "iteratePart (SpreadElement a ty) = a # maybe ty"
| "iteratePart (RestElement a ty) = a # maybe ty"
| "iteratePart (TemplateElement _ _) = []"

primrec iterateStatement :: "statementNode \<Rightarrow> nodeId list" where
  "iterateStatement (BlockStatement _ stmts) = stmts"
| "iterateStatement (BreakStatement ident) = maybe ident"
| "iterateStatement (ClassDeclaration def decorators) = def # decorators"
| "iterateStatement (ContinueStatement ident) = maybe ident"
| "iterateStatement DebuggerStatement = []"
| "iterateStatement (DoWhileStatement _ body test) = [body, test]"
| "iterateStatement EmptyStatement = []"
| "iterateStatement (ExpressionStatement e) = [e]"
| "iterateStatement (ForInStatement _ l r body) = [l, r, body]"
| "iterateStatement (ForOfStatement _ l r body _) = [l, r, body]"
| "iterateStatement (ForUpdateStatement _ init test update body) = maybe init @ maybe test @ maybe update @ [body]"
| "iterateStatement (FunctionDeclaration f) = [f]"
| "iterateStatement (IfStatement test cons alt) = test # cons # maybe alt"
| "iterateStatement (LabelledStatement ident body) = [ident, body]"
| "iterateStatement (ReturnStatement arg) = maybe arg"
| "iterateStatement (SwitchCaseStatement test stmts) = maybe test @ stmts"
| "iterateStatement (SwitchStatement _ discriminant cases) = discriminant # cases"
| "iterateStatement (ThrowStatement arg) = [arg]"
| "iterateStatement (TryStatement block catch finalizer) = block # maybe catch @ maybe finalizer"
| "iterateStatement (VariableDeclaration _ declarators _) = declarators"
| "iterateStatement (VariableDeclarator ident init) = ident # maybe init"
| "iterateStatement (WhileStatement _ test body) = [test, body]"

primrec iterateModule :: "moduleNode \<Rightarrow> nodeId list" where
  "iterateModule (ExportAllDeclNode source exported) = source # maybe exported"
| "iterateModule (ExportDefaultDeclNode dcl _) = [dcl]"
| "iterateModule (ExportNamedDeclNode dcl source specifiers) =
    (case dcl of Some d \<Rightarrow> [d] | None \<Rightarrow> maybe source @ specifiers)"
| "iterateModule (ExportSpecifierNode loc exported) = [loc, exported]"
| "iterateModule (ImportDeclNode source specifiers) = source # specifiers"
| "iterateModule (ImportDefaultSpecifierNode loc) = [loc]"
| "iterateModule (ImportNamespaceSpecifierNode loc) = [loc]"
| "iterateModule (ImportSpecifierNode imported loc) = [loc, imported]"

definition iterateTsType :: "tsTypeNode \<Rightarrow> nodeId list" where
  "iterateTsType x = (case x of
     TSArrayType e \<Rightarrow> [e]
   | TSConditionalType check ext t f \<Rightarrow> [check, ext, t, f]
   | TSConstructorType _ params typeParams ty _ \<Rightarrow> maybe typeParams @ params @ [ty]
   | TSFunctionType _ params typeParams ty \<Rightarrow> maybe typeParams @ params @ [ty]
   | TSImportType param typeParams qualifier _ \<Rightarrow> param # maybe typeParams @ maybe qualifier
   | TSIndexedAccessType obj index \<Rightarrow> [obj, index]
   | TSInferType p \<Rightarrow> [p]
   | TSIntersectionType ts \<Rightarrow> ts
   | TSLiteralType l \<Rightarrow> [l]
   | TSMappedType p ty _ _ \<Rightarrow> p # maybe ty
   | TSNamedTupleMember label e _ \<Rightarrow> [label, e]
   | TSParenthesizedType ty \<Rightarrow> [ty]
   | TSQualifiedName l r \<Rightarrow> [l, r]
   | TSTupleType ts \<Rightarrow> ts
   | TSTypeLiteral ms \<Rightarrow> ms
   | TSTypeOperator ty _ \<Rightarrow> [ty]
   | TSTypeParameter n constraint dflt \<Rightarrow> n # maybe constraint @ maybe dflt
   | TSTypeParameterDeclaration _ ps _ \<Rightarrow> ps
   | TSTypeParameterInstantiation ps \<Rightarrow> ps
   | TSTypePredicate p ty _ \<Rightarrow> p # maybe ty
   | TSTypeQuery e \<Rightarrow> [e]
   | TSTypeReference n typeParams \<Rightarrow> maybe typeParams @ [n]
   | TSUnionType ts \<Rightarrow> ts
   | _ \<Rightarrow> [])"

text \<open>The key of a signature may be null, where \<open>Iterate\<close> calls back with it nevertheless: \<open>None\<close>.\<close>

primrec iterateTs :: "tsNode \<Rightarrow> nodeId list option" where
  "iterateTs (TSAsExpression e ty _) = Some [e, ty]"
| "iterateTs (TSClassImplements e typeParams) = Some (e # maybe typeParams)"
| "iterateTs (TSEnumDeclaration _ key members _) = Some (key # members)"
| "iterateTs (TSEnumMember key init) = Some (key # maybe init)"
| "iterateTs (TSExternalModuleReference e) = Some [e]"
| "iterateTs (TSImportEqualsDeclaration i ref _) = Some [i, ref]"
| "iterateTs (TSIndexSignature param ty _) = Some [param, ty]"
| "iterateTs (TSInterfaceBody ms) = Some ms"
| "iterateTs (TSInterfaceDeclaration _ i typeParams body ext) = Some (i # maybe typeParams @ body # ext)"
| "iterateTs (TSInterfaceHeritage e typeParams) = Some (e # maybe typeParams)"
| "iterateTs (TSMethodSignature _ key typeParams params ty _ _) =
    map_option (\<lambda>k. k # maybe typeParams @ params @ maybe ty) key"
| "iterateTs (TSModuleBlock _ stmts) = Some stmts"
| "iterateTs (TSModuleDeclaration _ n body _ _) = Some (n # maybe body)"
| "iterateTs (TSNonNullExpression e) = Some [e]"
| "iterateTs (TSParameterProperty _ p _ _ _) = Some [p]"
| "iterateTs (TSPrivateIdentifier key val ty) = Some (key # maybe val @ maybe ty)"
| "iterateTs (TSPropertySignature key ty _ _ _) = map_option (\<lambda>k. k # maybe ty) key"
| "iterateTs (TSSignatureDeclaration _ _ typeParams params ty) = Some (maybe typeParams @ params @ maybe ty)"
| "iterateTs (TSTypeAliasDeclaration i typeParams ty _) = Some (i # maybe typeParams @ [ty])"
| "iterateTs (TSTypeAssertion ty e) = Some [ty, e]"

definition Iterate :: "nodeBody \<Rightarrow> nodeId list option" where
  "Iterate b = (case b of Expr e \<Rightarrow> Some (iterateExpression e) | Lit _ \<Rightarrow> Some [] | Part p \<Rightarrow> Some (iteratePart p)
     | Stmt s \<Rightarrow> Some (iterateStatement s) | Mod m \<Rightarrow> Some (iterateModule m) | TsType t \<Rightarrow> Some (iterateTsType t)
     | Ts t \<Rightarrow> iterateTs t)"

section \<open>The binder's view\<close>

text \<open>\<open>None\<close> where the binder would follow a pointer that is null, or is not of the class it takes it for.\<close>

fun allOf :: "'a option list \<Rightarrow> 'a list option" where
  "allOf [] = Some []"
| "allOf (x # xs) = (case (x, allOf xs) of (Some a, Some as) \<Rightarrow> Some (a # as) | _ \<Rightarrow> None)"

definition optTree :: "('a \<Rightarrow> 'b option) \<Rightarrow> 'a option \<Rightarrow> 'b option option" where
  "optTree f x = (case x of None \<Rightarrow> Some None | Some a \<Rightarrow> map_option Some (f a))"

definition nameAt :: "nodeTable \<Rightarrow> nodeId \<Rightarrow> name option" where
  "nameAt t n = (case nBody (nodeAt t n) of Expr (Identifier i) \<Rightarrow> Some (iName i) | _ \<Rightarrow> None)"

definition declaratorTree :: "(nodeId \<Rightarrow> ast option) \<Rightarrow> nodeTable \<Rightarrow> bool \<Rightarrow> nodeId \<Rightarrow> ast option" where
  "declaratorTree tree t isVar n = (case nBody (nodeAt t n) of
     Stmt (VariableDeclarator ident init) \<Rightarrow>
       Option.bind (tree ident) (\<lambda>i. map_option (ast.VariableDeclarator isVar i) (optTree tree init))
   | _ \<Rightarrow> None)"

definition functionTree :: "(nodeId \<Rightarrow> ast option) \<Rightarrow> nodeTable \<Rightarrow> nodeId \<Rightarrow> scriptFunctionNode \<Rightarrow> ast option" where
  "functionTree tree t n f =
    Option.bind (optTree (nameAt t) (fIdent f)) (\<lambda>ident.
    Option.bind (allOf (map tree (fParams f))) (\<lambda>params.
    Option.bind (Option.bind (fBody f) tree) (\<lambda>body.
      Some (ast.ScriptFunctionNode n (fScope f) (fFlags f AND SF_ARROW \<noteq> 0) (fFlags f AND SF_CONSTRUCTOR \<noteq> 0)
        ident params body))))"

definition classTree :: "(nodeId \<Rightarrow> ast option) \<Rightarrow> nodeTable \<Rightarrow> classNode \<Rightarrow> ast option" where
  "classTree tree t c =
    Option.bind (optTree (\<lambda>i. map_option (Pair i) (nameAt t i)) (cIdent c)) (\<lambda>ident.
    Option.bind (optTree tree (cSuperClass c)) (\<lambda>super.
    Option.bind (tree (cCtor c)) (\<lambda>ctor.
    Option.bind (allOf (map tree (cBody c))) (\<lambda>body.
      Some (ast.ClassDefinition (cScope c) ident super ctor body)))))"

definition otherTree :: "(nodeId \<Rightarrow> ast option) \<Rightarrow> nodeBody \<Rightarrow> ast option" where
  "otherTree tree b = Option.bind (Iterate b) (\<lambda>cs. map_option OtherAst (allOf (map tree cs)))"

definition expressionTree :: "(nodeId \<Rightarrow> ast option) \<Rightarrow> nodeId \<Rightarrow> expressionNode \<Rightarrow> ast option" where
  "expressionTree tree n e =
    (let many = (\<lambda>ns. allOf (map tree ns));
         two = (\<lambda>f a b. Option.bind (tree a) (\<lambda>x. map_option (f x) (tree b)))
     in case e of
       Identifier i \<Rightarrow> map_option (ast.Identifier n (iName i) (iFlags i AND IF_REFERENCE \<noteq> 0))
         (many (iterateExpression e))
     | SuperExpression \<Rightarrow> Some (ast.SuperExpression [])
     | ObjectPattern p \<Rightarrow> Option.bind (many (pElements p)) (\<lambda>ps.
         map_option (ast.ObjectPattern ps) (many (maybe (pTypeAnnotation p))))
     | ArrayPattern p \<Rightarrow> Option.bind (many (pElements p)) (\<lambda>ps.
         map_option (ast.ArrayPattern ps) (many (maybe (pTypeAnnotation p))))
     | AssignmentPattern l r _ \<Rightarrow> two ast.AssignmentPattern l r
     | AssignmentExpression l r _ \<Rightarrow> two ast.AssignmentExpression l r
     | FunctionExpression f \<Rightarrow> map_option ast.FunctionExpression (tree f)
     | _ \<Rightarrow> otherTree tree (Expr e))"

definition literalTree :: "literalNode \<Rightarrow> ast" where
  "literalTree l = (case l of
     StringLiteral s \<Rightarrow> ast.StringLiteral s
   | NumberLiteral _ s \<Rightarrow> ast.NumberLiteral s
   | BooleanLiteral b \<Rightarrow> ast.BooleanLiteral b
   | NullLiteral \<Rightarrow> ast.NullLiteral
   | _ \<Rightarrow> OtherAst [])"

definition partTree :: "(nodeId \<Rightarrow> ast option) \<Rightarrow> nodeTable \<Rightarrow> nodeId \<Rightarrow> partNode \<Rightarrow> ast option" where
  "partTree tree t n x =
    (let many = (\<lambda>ns. allOf (map tree ns));
         two = (\<lambda>f a b. Option.bind (tree a) (\<lambda>x. map_option (f x) (tree b)))
     in case x of
       CatchClause sc param body \<Rightarrow> Option.bind (optTree tree param) (\<lambda>p.
         map_option (ast.CatchClause sc p) (tree body))
     | ClassDefinition c \<Rightarrow> classTree tree t c
     | ClassProperty _ _ _ _ _ _ _ \<Rightarrow> map_option ast.ClassProperty (many (iteratePart x))
     | MethodDefinition m \<Rightarrow> Option.bind (many (mOverloads m @ mDecorators m)) (\<lambda>rest.
         two (\<lambda>k v. ast.MethodDefinition k v rest) (mKey m) (mValue m))
     | Property p \<Rightarrow> two (ast.Property (pKind p) (pComputed p)) (pKey p) (pValue p)
     | ScriptFunctionNode f \<Rightarrow> functionTree tree t n f
     | SpreadElement a ty \<Rightarrow> Option.bind (tree a) (\<lambda>y. map_option (ast.SpreadElement y) (many (maybe ty)))
     | RestElement a ty \<Rightarrow> Option.bind (tree a) (\<lambda>y. map_option (ast.RestElement y) (many (maybe ty)))
     | _ \<Rightarrow> otherTree tree (Part x))"

definition statementTree :: "(nodeId \<Rightarrow> ast option) \<Rightarrow> nodeTable \<Rightarrow> statementNode \<Rightarrow> ast option" where
  "statementTree tree t s =
    (let many = (\<lambda>ns. allOf (map tree ns));
         two = (\<lambda>f a b. Option.bind (tree a) (\<lambda>x. map_option (f x) (tree b)))
     in case s of
       BlockStatement sc stmts \<Rightarrow> map_option (ast.BlockStatement sc) (many stmts)
     | ClassDeclaration def decorators \<Rightarrow> Option.bind (tree def) (\<lambda>d.
         map_option (ast.ClassDeclaration d) (many decorators))
     | DoWhileStatement sc body test \<Rightarrow> two (ast.DoWhileStatement sc) body test
     | ForInStatement sc l r body \<Rightarrow> Option.bind (tree l) (\<lambda>a. two (ast.ForInOfStatement sc a) r body)
     | ForOfStatement sc l r body _ \<Rightarrow> Option.bind (tree l) (\<lambda>a. two (ast.ForInOfStatement sc a) r body)
     | ForUpdateStatement sc init test update body \<Rightarrow>
         Option.bind (optTree tree init) (\<lambda>i. Option.bind (optTree tree test) (\<lambda>ts.
         Option.bind (optTree tree update) (\<lambda>u. map_option (ast.ForUpdateStatement sc i ts u) (tree body))))
     | FunctionDeclaration f \<Rightarrow> map_option ast.FunctionDeclaration (tree f)
     | SwitchStatement sc _ _ \<Rightarrow> map_option (ast.SwitchStatement sc) (many (iterateStatement s))
     | VariableDeclaration k ds _ \<Rightarrow> map_option OtherAst (allOf (map (declaratorTree tree t (k = VD_VAR)) ds))
     | WhileStatement sc test body \<Rightarrow> two (ast.WhileStatement sc) test body
     | _ \<Rightarrow> otherTree tree (Stmt s))"

text \<open>A tree has no more levels than the arena has nodes.\<close>

primrec treeOf :: "nat \<Rightarrow> nodeTable \<Rightarrow> nodeId \<Rightarrow> ast option" where
  "treeOf 0 t n = None"
| "treeOf (Suc k) t n = (if n = nullNode then None else case nBody (nodeAt t n) of
     Expr e \<Rightarrow> expressionTree (treeOf k t) n e
   | Lit l \<Rightarrow> Some (literalTree l)
   | Part x \<Rightarrow> partTree (treeOf k t) t n x
   | Stmt s \<Rightarrow> statementTree (treeOf k t) t s
   | b \<Rightarrow> otherTree (treeOf k t) b)"

definition binderTree :: "nodeId \<Rightarrow> ast nodeM" where
  "binderTree n = readM (\<lambda>t. treeOf (Suc (nodeCount t)) t n)"

text \<open>What \<open>AddParamDecl\<close> reads of a parameter: the pattern, without default values and keys.\<close>

primrec paramTree :: "nat \<Rightarrow> nodeTable \<Rightarrow> nodeId \<Rightarrow> ast option" where
  "paramTree 0 t n = None"
| "paramTree (Suc k) t n = (if n = nullNode then None else case nBody (nodeAt t n) of
     Expr (Identifier i) \<Rightarrow> Some (ast.Identifier n (iName i) (iFlags i AND IF_REFERENCE \<noteq> 0) [])
   | Expr (ObjectPattern p) \<Rightarrow> map_option (\<lambda>ps. ast.ObjectPattern ps []) (allOf (map (paramTree k t) (pElements p)))
   | Expr (ArrayPattern p) \<Rightarrow> map_option (\<lambda>ps. ast.ArrayPattern ps []) (allOf (map (paramTree k t) (pElements p)))
   | Expr (AssignmentPattern l _ _) \<Rightarrow> map_option (\<lambda>x. ast.AssignmentPattern x (OtherAst [])) (paramTree k t l)
   | Part (Property p) \<Rightarrow> map_option (ast.Property (pKind p) (pComputed p) (OtherAst [])) (paramTree k t (pValue p))
   | Part (RestElement a _) \<Rightarrow> map_option (\<lambda>x. ast.RestElement x []) (paramTree k t a)
   | _ \<Rightarrow> Some (OtherAst []))"

definition patternTree :: "nodeId \<Rightarrow> ast nodeM" where
  "patternTree n = readM (\<lambda>t. paramTree (Suc (nodeCount t)) t n)"

end
