(* ===== verification/ParserState.thy ===== *)
theory ParserState
  imports AstTree Lexer
begin

text \<open>
  \<open>parser/parserFlags.h\<close>, \<open>parser/context/parserContext.*\<close>, \<open>parser/program/program.*\<close> and the parts of
  \<open>parserImpl.h\<close> and \<open>parserImpl.cpp\<close> every parsing method uses: the parser object, its contexts, error
  reporting and tokens.

  \<open>ParserImpl\<close> is the record \<open>parser\<close>: the lexer, the binder of the program, the arena of nodes and
  \<open>context_\<close> with the chain of its \<open>prev_\<close>, which lives on the stack of the callers.  The lexer reads the
  status of the context it was made with, which is \<open>context_\<close>.  The parsing methods call each other through
  the record \<open>parseCalls\<close> wherever that closes a cycle; \<open>ParseProgram\<close> ties the knot.
\<close>

section \<open>Flags\<close>

text \<open>\<open>ParserStatus\<close>\<close>

abbreviation (input) PS_NO_OPTS :: u32 where "PS_NO_OPTS \<equiv> 0"
abbreviation (input) PS_FUNCTION :: u32 where "PS_FUNCTION \<equiv> 0x2"
abbreviation (input) PS_ARROW_FUNCTION :: u32 where "PS_ARROW_FUNCTION \<equiv> 0x4"
abbreviation (input) PS_GENERATOR_FUNCTION :: u32 where "PS_GENERATOR_FUNCTION \<equiv> 0x8"
abbreviation (input) PS_ASYNC_FUNCTION :: u32 where "PS_ASYNC_FUNCTION \<equiv> 0x10"
abbreviation (input) PS_CONSTRUCTOR_FUNCTION :: u32 where "PS_CONSTRUCTOR_FUNCTION \<equiv> 0x20"
abbreviation (input) PS_FUNCTION_PARAM :: u32 where "PS_FUNCTION_PARAM \<equiv> 0x40"
abbreviation (input) PS_ACCESSOR_FUNCTION :: u32 where "PS_ACCESSOR_FUNCTION \<equiv> 0x100"
abbreviation (input) PS_FUNCTION_DECLARATION :: u32 where "PS_FUNCTION_DECLARATION \<equiv> 0x200"
abbreviation (input) PS_ALLOW_SUPER :: u32 where "PS_ALLOW_SUPER \<equiv> 0x400"
abbreviation (input) PS_ALLOW_SUPER_CALL :: u32 where "PS_ALLOW_SUPER_CALL \<equiv> 0x800"
abbreviation (input) PS_DISALLOW_AWAIT :: u32 where "PS_DISALLOW_AWAIT \<equiv> 0x1000"
abbreviation (input) PS_ALLOW_YIELD :: u32 where "PS_ALLOW_YIELD \<equiv> 0x2000"
abbreviation (input) PS_IN_ITERATION :: u32 where "PS_IN_ITERATION \<equiv> 0x4000"
abbreviation (input) PS_IN_LABELED :: u32 where "PS_IN_LABELED \<equiv> 0x8000"
abbreviation (input) PS_EXPORT_DEFAULT_REACHED :: u32 where "PS_EXPORT_DEFAULT_REACHED \<equiv> 0x10000"
abbreviation (input) PS_HAS_COMPLEX_PARAM :: u32 where "PS_HAS_COMPLEX_PARAM \<equiv> 0x20000"
abbreviation (input) PS_IN_SWITCH :: u32 where "PS_IN_SWITCH \<equiv> 0x40000"
abbreviation (input) PS_MODULE :: u32 where "PS_MODULE \<equiv> 0x80000"
abbreviation (input) PS_ALLOW_NEW_TARGET :: u32 where "PS_ALLOW_NEW_TARGET \<equiv> 0x100000"
abbreviation (input) PS_IN_EXTENDS :: u32 where "PS_IN_EXTENDS \<equiv> 0x200000"
abbreviation (input) PS_ALLOW_THIS_TYPE :: u32 where "PS_ALLOW_THIS_TYPE \<equiv> 0x400000"
abbreviation (input) PS_IN_METHOD_DEFINITION :: u32 where "PS_IN_METHOD_DEFINITION \<equiv> 0x800000"
abbreviation (input) PS_IN_AMBIENT_CONTEXT :: u32 where "PS_IN_AMBIENT_CONTEXT \<equiv> 0x1000000"
abbreviation (input) PS_IN_CLASS_BODY :: u32 where "PS_IN_CLASS_BODY \<equiv> 0x2000000"
abbreviation (input) PS_IN_DECORATOR :: u32 where "PS_IN_DECORATOR \<equiv> 0x4000000"

text \<open>What a new context keeps of the status it is made from.\<close>

abbreviation (input) PS_INHERITED :: u32 where "PS_INHERITED \<equiv> 0x2780002"

text \<open>\<open>ExpressionParseFlags\<close>\<close>

abbreviation (input) EF_NO_OPTS :: u32 where "EF_NO_OPTS \<equiv> 0"
abbreviation (input) EF_ACCEPT_COMMA :: u32 where "EF_ACCEPT_COMMA \<equiv> 1"
abbreviation (input) EF_ACCEPT_REST :: u32 where "EF_ACCEPT_REST \<equiv> 2"
abbreviation (input) EF_EXP_DISALLOW_AS :: u32 where "EF_EXP_DISALLOW_AS \<equiv> 4"
abbreviation (input) EF_DISALLOW_YIELD :: u32 where "EF_DISALLOW_YIELD \<equiv> 0x10"
abbreviation (input) EF_STOP_AT_IN :: u32 where "EF_STOP_AT_IN \<equiv> 0x20"
abbreviation (input) EF_ALLOW_TS_PARAM_TOKEN :: u32 where "EF_ALLOW_TS_PARAM_TOKEN \<equiv> 0x40"
abbreviation (input) EF_MUST_BE_PATTERN :: u32 where "EF_MUST_BE_PATTERN \<equiv> 0x80"
abbreviation (input) EF_POTENTIALLY_IN_PATTERN :: u32 where "EF_POTENTIALLY_IN_PATTERN \<equiv> 0x100"
abbreviation (input) EF_OBJECT_PATTERN :: u32 where "EF_OBJECT_PATTERN \<equiv> 0x200"
abbreviation (input) EF_IN_REST :: u32 where "EF_IN_REST \<equiv> 0x400"

text \<open>\<open>TypeAnnotationParsingOptions\<close>\<close>

abbreviation (input) TO_NO_OPTS :: u32 where "TO_NO_OPTS \<equiv> 0"
abbreviation (input) TO_IN_UNION :: u32 where "TO_IN_UNION \<equiv> 1"
abbreviation (input) TO_ALLOW_CONST :: u32 where "TO_ALLOW_CONST \<equiv> 2"
abbreviation (input) TO_IN_INTERSECTION :: u32 where "TO_IN_INTERSECTION \<equiv> 4"
abbreviation (input) TO_RESTRICT_EXTENDS :: u32 where "TO_RESTRICT_EXTENDS \<equiv> 8"
abbreviation (input) TO_THROW_ERROR :: u32 where "TO_THROW_ERROR \<equiv> 0x10"
abbreviation (input) TO_CAN_BE_TS_TYPE_PREDICATE :: u32 where "TO_CAN_BE_TS_TYPE_PREDICATE \<equiv> 0x20"
abbreviation (input) TO_BREAK_AT_NEW_LINE :: u32 where "TO_BREAK_AT_NEW_LINE \<equiv> 0x40"

text \<open>\<open>VariableParsingFlags\<close> and \<open>StatementParsingFlags\<close>\<close>

abbreviation (input) VP_NO_OPTS :: u32 where "VP_NO_OPTS \<equiv> 0"
abbreviation (input) VP_NO_SKIP_VAR_KIND :: u32 where "VP_NO_SKIP_VAR_KIND \<equiv> 1"
abbreviation (input) VP_ACCEPT_CONST_NO_INIT :: u32 where "VP_ACCEPT_CONST_NO_INIT \<equiv> 2"
abbreviation (input) VP_DISALLOW_INIT :: u32 where "VP_DISALLOW_INIT \<equiv> 4"
abbreviation (input) VP_VAR :: u32 where "VP_VAR \<equiv> 8"
abbreviation (input) VP_LET :: u32 where "VP_LET \<equiv> 0x10"
abbreviation (input) VP_CONST :: u32 where "VP_CONST \<equiv> 0x20"
abbreviation (input) VP_STOP_AT_IN :: u32 where "VP_STOP_AT_IN \<equiv> 0x40"

abbreviation (input) SP_NONE :: u32 where "SP_NONE \<equiv> 0"
abbreviation (input) SP_ALLOW_LEXICAL :: u32 where "SP_ALLOW_LEXICAL \<equiv> 1"
abbreviation (input) SP_GLOBAL :: u32 where "SP_GLOBAL \<equiv> 2"
abbreviation (input) SP_IF_ELSE :: u32 where "SP_IF_ELSE \<equiv> 4"
abbreviation (input) SP_LABELLED :: u32 where "SP_LABELLED \<equiv> 8"
abbreviation (input) SP_STMT_LEXICAL_SCOPE_NEEDED :: u32 where "SP_STMT_LEXICAL_SCOPE_NEEDED \<equiv> 0xC"
abbreviation (input) SP_STMT_GLOBAL_LEXICAL :: u32 where "SP_STMT_GLOBAL_LEXICAL \<equiv> 3"

definition has :: "u32 \<Rightarrow> u32 \<Rightarrow> bool" where
  "has flags flag \<longleftrightarrow> flags AND flag \<noteq> 0"

section \<open>State\<close>

text \<open>
  Two members of declarations that only the parser and the checker use are kept here: the scope of an
  \<open>EnumLiteralDecl\<close>, and the nodes that \<open>InterfaceDecl::Add\<close> collects.
\<close>

record parser =
  psLexer :: lexer
  psBinder :: binderState
  psNodes :: nodeTable
  psStatus :: u32
  psLabel :: name
  psPrev :: "(u32 \<times> name) list"
  psEnumScope :: "declId \<Rightarrow> scopeId option"
  psInterfaces :: "declId \<Rightarrow> nodeId list"

type_synonym 'a parseM = "(parser, parseError, 'a) comp"

text \<open>Run a computation on a part of the state.\<close>

definition within :: "('s \<Rightarrow> 't) \<Rightarrow> ('t \<Rightarrow> 's \<Rightarrow> 's) \<Rightarrow> ('e \<Rightarrow> 'f) \<Rightarrow> ('t, 'e, 'a) comp \<Rightarrow> ('s, 'f, 'a) comp" where
  "within get put err m s = (case m (get s) of Ok (a, t) \<Rightarrow> Ok (a, put t s) | Throw e \<Rightarrow> Throw (err e)
     | Undefined \<Rightarrow> Undefined | NoFuel \<Rightarrow> NoFuel)"

definition lexerOf :: "parser \<Rightarrow> lexer" where
  "lexerOf s = (psLexer s)\<lparr>env := (env (psLexer s))\<lparr>eIsAsync := has (psStatus s) PS_ASYNC_FUNCTION,
     eDisallowAwait := has (psStatus s) PS_DISALLOW_AWAIT, eAllowYield := has (psStatus s) PS_ALLOW_YIELD\<rparr>\<rparr>"

definition onLexer :: "'a lexM \<Rightarrow> 'a parseM" where
  "onLexer = within lexerOf (\<lambda>l s. s\<lparr>psLexer := l\<rparr>) LexError"

definition onBinder :: "'a bindM \<Rightarrow> 'a parseM" where
  "onBinder = within psBinder (\<lambda>b s. s\<lparr>psBinder := b\<rparr>) Redeclaration"

definition onScopes :: "'a heapM \<Rightarrow> 'a parseM" where
  "onScopes m = onBinder (onHeap m)"

definition onNodes :: "'a nodeM \<Rightarrow> 'a parseM" where
  "onNodes = within psNodes (\<lambda>t s. s\<lparr>psNodes := t\<rparr>) id"

text \<open>Statements in order; a statement under a condition.\<close>

fun inOrder :: "('s, 'e, unit) comp list \<Rightarrow> ('s, 'e, unit) comp" where
  "inOrder [] = ret ()"
| "inOrder (m # ms) = thenM m (inOrder ms)"

definition whenM :: "bool \<Rightarrow> ('s, 'e, unit) comp \<Rightarrow> ('s, 'e, unit) comp" where
  "whenM b m = (if b then m else ret ())"

section \<open>Program and source\<close>

definition sourceOf :: "parser \<Rightarrow> byte list" where
  "sourceOf s = sv (iterator (psLexer s))"

definition extensionOf :: "parser \<Rightarrow> scriptExtension" where
  "extensionOf s = eExtension (env (psLexer s))"

definition Extension :: "scriptExtension parseM" where
  "Extension = getM extensionOf"

definition isTs :: "bool parseM" where
  "isTs = getM (\<lambda>s. extensionOf s = TS)"

text \<open>\<open>Program::SetKind\<close>\<close>

definition SetKind :: "bool \<Rightarrow> unit parseM" where
  "SetKind isModule = onBinder (InitTopScope isModule)"

section \<open>Errors\<close>

definition ThrowSyntaxErrorAt :: "string \<Rightarrow> sourcePosition \<Rightarrow> 'a parseM" where
  "ThrowSyntaxErrorAt message pos s = (case LineIndex (sourceOf s) of
     Ok es \<Rightarrow> (case GetLocation es pos of
         Some loc \<Rightarrow> Throw (SyntaxError message (slLine loc) (slCol loc)) | None \<Rightarrow> Undefined)
   | NoFuel \<Rightarrow> NoFuel
   | _ \<Rightarrow> Undefined)"

definition GetToken :: "token parseM" where
  "GetToken = getM (\<lambda>s. tok (psLexer s))"

definition ThrowSyntaxError :: "string \<Rightarrow> 'a parseM" where
  "ThrowSyntaxError message = bindM GetToken (\<lambda>t. ThrowSyntaxErrorAt message (locStart t))"

definition throwIf :: "bool \<Rightarrow> string \<Rightarrow> unit parseM" where
  "throwIf b message = (if b then ThrowSyntaxError message else ret ())"

text \<open>The message that names the token; a token without a name is \<open>UNREACHABLE()\<close>.\<close>

definition throwExpected :: "bool \<Rightarrow> tokenType \<Rightarrow> unit parseM" where
  "throwExpected b t = (if \<not> b then ret () else case TokenToString t of
     Some s \<Rightarrow> ThrowSyntaxError ([CHR 0x27] @ s @ [CHR 0x27] @ '' expected.'') | None \<Rightarrow> undefinedM)"

section \<open>Tokens\<close>

definition tokenType :: "tokenType parseM" where
  "tokenType = getM (\<lambda>s. tokType (tok (psLexer s)))"

definition tokenKeyword :: "tokenType parseM" where
  "tokenKeyword = getM (\<lambda>s. keywordType (tok (psLexer s)))"

definition tokenStart :: "sourcePosition parseM" where
  "tokenStart = getM (\<lambda>s. locStart (tok (psLexer s)))"

definition tokenEnd :: "sourcePosition parseM" where
  "tokenEnd = getM (\<lambda>s. locEnd (tok (psLexer s)))"

definition tokenIdent :: "name parseM" where
  "tokenIdent = getM (\<lambda>s. tokSrc (tok (psLexer s)))"

definition atNewLine :: "bool parseM" where
  "atNewLine = getM (\<lambda>s. NewLine (tok (psLexer s)))"

definition at :: "tokenType \<Rightarrow> bool parseM" where
  "at t = getM (\<lambda>s. tokType (tok (psLexer s)) = t)"

definition atAny :: "tokenType list \<Rightarrow> bool parseM" where
  "atAny ts = getM (\<lambda>s. tokType (tok (psLexer s)) \<in> set ts)"

definition atKeyword :: "tokenType \<Rightarrow> bool parseM" where
  "atKeyword t = getM (\<lambda>s. keywordType (tok (psLexer s)) = t)"

definition tokenHas :: "u32 \<Rightarrow> bool parseM" where
  "tokenHas flag = getM (\<lambda>s. hasFlag (tok (psLexer s)) flag)"

text \<open>The token has the type, or the method throws.\<close>

definition expect :: "tokenType \<Rightarrow> string \<Rightarrow> unit parseM" where
  "expect t message = bindM (at t) (\<lambda>ok. throwIf (\<not> ok) message)"

definition expectAny :: "tokenType list \<Rightarrow> string \<Rightarrow> unit parseM" where
  "expectAny ts message = bindM (atAny ts) (\<lambda>ok. throwIf (\<not> ok) message)"

definition advance :: "unit parseM" where
  "advance = onLexer (NextToken 0)"

definition advanceIdent :: "unit parseM" where
  "advanceIdent = onLexer (NextToken NTF_KEYWORD_TO_IDENT)"

definition Lookahead :: "char32 parseM" where
  "Lookahead = onLexer lexPeek"

definition savePosition :: "lexerPosition parseM" where
  "savePosition = onLexer Save"

definition rewindTo :: "lexerPosition \<Rightarrow> unit parseM" where
  "rewindTo p = onLexer (Rewind p)"

text \<open>Every round of a loop of the parser reads a token, so the bytes that are left bound the rounds.\<close>

definition bounded :: "(nat \<Rightarrow> 'a parseM) \<Rightarrow> 'a parseM" where
  "bounded loop s = loop (left (iterator (psLexer s)) + 3) s"

section \<open>Nodes\<close>

definition AllocNode :: "nodeBody \<Rightarrow> nodeId parseM" where
  "AllocNode b = onNodes (allocNode b)"

text \<open>\<open>AllocNode\<close> followed by \<open>SetRange\<close>; with the range of the current token.\<close>

definition makeNode :: "nodeBody \<Rightarrow> sourcePosition \<Rightarrow> sourcePosition \<Rightarrow> nodeId parseM" where
  "makeNode b start end' = bindM (AllocNode b) (\<lambda>n. thenM (onNodes (SetRange n start end')) (ret n))"

definition makeTokenNode :: "nodeBody \<Rightarrow> nodeId parseM" where
  "makeTokenNode b = bindM GetToken (\<lambda>t. makeNode b (locStart t) (locEnd t))"

definition startOf :: "nodeId \<Rightarrow> sourcePosition parseM" where
  "startOf n = onNodes (StartOf n)"

definition endOf :: "nodeId \<Rightarrow> sourcePosition parseM" where
  "endOf n = onNodes (EndOf n)"

definition nodeIs :: "(nodeBody \<Rightarrow> bool) \<Rightarrow> nodeId \<Rightarrow> bool parseM" where
  "nodeIs P n = onNodes (isKind P n)"

definition identName :: "nodeId \<Rightarrow> name parseM" where
  "identName n = onNodes (IdentifierName n)"

text \<open>The current identifier as a node, with the range of the token.\<close>

definition makeIdentifier :: "nodeId parseM" where
  "makeIdentifier = bindM tokenIdent (\<lambda>n. makeTokenNode (Expr (Identifier (newIdentifier n))))"

definition makeReference :: "nodeId parseM" where
  "makeReference = bindM makeIdentifier (\<lambda>n. thenM (onNodes (SetReference n)) (ret n))"

text \<open>A number or bigint literal from the current token.\<close>

definition makeNumber :: "nodeId parseM" where
  "makeNumber = bindM GetToken (\<lambda>t.
     makeTokenNode (Lit (if hasFlag t TF_NUMBER_BIGINT then BigIntLiteral (tokSrc t)
                         else NumberLiteral (number t) (tokSrc t))))"

definition makeString :: "nodeId parseM" where
  "makeString = bindM tokenIdent (\<lambda>s. makeTokenNode (Lit (StringLiteral s)))"

section \<open>Contexts\<close>

definition Status :: "u32 parseM" where
  "Status = getM psStatus"

definition statusHas :: "u32 \<Rightarrow> bool parseM" where
  "statusHas flag = getM (\<lambda>s. has (psStatus s) flag)"

definition setStatus :: "u32 \<Rightarrow> unit parseM" where
  "setStatus st = modifyM (\<lambda>s. s\<lparr>psStatus := st\<rparr>)"

definition addStatus :: "u32 \<Rightarrow> unit parseM" where
  "addStatus flags = modifyM (\<lambda>s. s\<lparr>psStatus := psStatus s OR flags\<rparr>)"

definition dropStatus :: "u32 \<Rightarrow> unit parseM" where
  "dropStatus flags = modifyM (\<lambda>s. s\<lparr>psStatus := psStatus s AND NOT flags\<rparr>)"

text \<open>
  \<open>SavedStatusContext\<close>: the destructor clears the saved bits when there are none, which clears nothing.
\<close>

definition savedStatus :: "u32 \<Rightarrow> 'a parseM \<Rightarrow> 'a parseM" where
  "savedStatus status m =
    bindM (getM (\<lambda>s. psStatus s AND status)) (\<lambda>saved.
    thenM (addStatus status)
    (bindM m (\<lambda>a. thenM (whenM (saved = 0) (dropStatus saved)) (ret a))))"

text \<open>\<open>SavedParserContext\<close> with the constructor of \<open>ParserContext\<close> it calls.\<close>

definition savedContext :: "u32 \<Rightarrow> name \<Rightarrow> 'a parseM \<Rightarrow> 'a parseM" where
  "savedContext newStatus label m =
    bindM (getM (\<lambda>s. (psStatus s, psLabel s, psPrev s))) (\<lambda>(st, lb, prev).
    thenM (modifyM (\<lambda>s. s\<lparr>psStatus := (st AND PS_INHERITED) OR newStatus, psLabel := label, psPrev := (st, lb) # prev\<rparr>))
    (bindM m (\<lambda>a. thenM (modifyM (\<lambda>s. s\<lparr>psStatus := st, psLabel := lb, psPrev := prev\<rparr>)) (ret a))))"

text \<open>\<open>FindLabel\<close> walks up the contexts that have a label; it gives the status of the one it finds.\<close>

fun FindLabel_in :: "name \<Rightarrow> (u32 \<times> name) list \<Rightarrow> u32 option" where
  "FindLabel_in n [] = None"
| "FindLabel_in n ((st, lb) # rest) = (if lb = [] then None else if lb = n then Some st else FindLabel_in n rest)"

definition FindLabel :: "name \<Rightarrow> (u32 option) parseM" where
  "FindLabel n = getM (\<lambda>s. FindLabel_in n ((psStatus s, psLabel s) # psPrev s))"

section \<open>Scopes\<close>

definition currentScope :: "scopeId parseM" where
  "currentScope = getM (\<lambda>s. bScope (psBinder s))"

text \<open>\<open>LexicalScope::Enter\<close> and, for a scope of a given class, the constructor of \<open>LexicalScope\<close>.\<close>

definition enterScope :: "scopeId \<Rightarrow> 'a parseM \<Rightarrow> 'a parseM" where
  "enterScope sc m =
    bindM currentScope (\<lambda>prev. thenM (onBinder (modifyM (\<lambda>b. b\<lparr>bScope := sc\<rparr>)))
      (bindM m (\<lambda>a. thenM (onBinder (modifyM (\<lambda>b. b\<lparr>bScope := prev\<rparr>))) (ret a))))"

definition lexicalScope :: "scopeClass \<Rightarrow> (scopeId \<Rightarrow> 'a parseM) \<Rightarrow> 'a parseM" where
  "lexicalScope c m =
    bindM currentScope (\<lambda>p. bindM (onScopes (allocScope (newScope c (Some p)))) (\<lambda>sc. enterScope sc (m sc)))"

definition BindNode :: "scopeId \<Rightarrow> astRef \<Rightarrow> unit parseM" where
  "BindNode sc ref = onScopes (modScope sc (\<lambda>x. x\<lparr>sNode := Some ref\<rparr>))"

definition bindDecl :: "declId \<Rightarrow> astRef \<Rightarrow> unit parseM" where
  "bindDecl d ref = onScopes (bindNode ref d)"

definition addDecl :: "sourcePosition \<Rightarrow> decl \<Rightarrow> declId parseM" where
  "addDecl pos dc = bindM (getM (\<lambda>s. (sourceOf s, extensionOf s))) (\<lambda>(src, ext). onBinder (Binder_AddDecl src ext pos dc))"

definition ThrowRedeclarationAt :: "sourcePosition \<Rightarrow> name \<Rightarrow> 'a parseM" where
  "ThrowRedeclarationAt pos n = bindM (getM sourceOf) (\<lambda>src. onBinder (ThrowRedeclaration src pos n))"

definition addTsDecl :: "sourcePosition \<Rightarrow> decl \<Rightarrow> declId parseM" where
  "addTsDecl pos dc = bindM (getM (\<lambda>s. (sourceOf s, extensionOf s))) (\<lambda>(src, ext). onBinder (Binder_AddTsDecl src ext pos dc))"

text \<open>\<open>Binder()->AddParamDecl\<close> on a node of the arena.\<close>

definition refStart :: "nodeTable \<Rightarrow> astRef \<Rightarrow> sourcePosition" where
  "refStart t ref = nStart (nodeAt t (case ref of ImportNamespaceSpecifier i \<Rightarrow> i | ExportAllDeclaration i _ \<Rightarrow> i
     | ExportNamedDeclaration i _ \<Rightarrow> i | ScriptFunction i _ \<Rightarrow> i | OtherNode i \<Rightarrow> i))"

definition addParamDecl :: "nodeId \<Rightarrow> declId parseM" where
  "addParamDecl n = bindM (onNodes (patternTree n)) (\<lambda>tree.
     bindM (getM (\<lambda>s. (sourceOf s, psNodes s))) (\<lambda>(src, t).
       onBinder (Binder_AddParamDecl src (refStart t) (OtherNode n) tree)))"

text \<open>\<open>FunctionParameterContext\<close> and \<open>IterationContext\<close>\<close>

definition functionParameterContext :: "(scopeId \<Rightarrow> 'a parseM) \<Rightarrow> 'a parseM" where
  "functionParameterContext m = savedStatus PS_FUNCTION_PARAM (lexicalScope FunctionParamScope m)"

definition iterationContext :: "scopeClass \<Rightarrow> (scopeId \<Rightarrow> 'a parseM) \<Rightarrow> 'a parseM" where
  "iterationContext c m = savedStatus PS_IN_ITERATION (lexicalScope c m)"

text \<open>\<open>FunctionContext\<close>: the flags of the function its status asks for.\<close>

definition functionContextFlags :: "u32 \<Rightarrow> u32" where
  "functionContextFlags newStatus =
    ((if has newStatus PS_GENERATOR_FUNCTION then SF_GENERATOR else 0)
     OR (if has newStatus PS_ASYNC_FUNCTION then SF_ASYNC else 0)
     OR (if has newStatus PS_CONSTRUCTOR_FUNCTION then SF_CONSTRUCTOR else 0))"

text \<open>\<open>ArrowFunctionContext\<close> gives its body the flags of the arrow function.\<close>

definition arrowInitialFlags :: "u32 \<Rightarrow> u32" where
  "arrowInitialFlags st = PS_FUNCTION OR PS_ARROW_FUNCTION OR (st AND (PS_ALLOW_SUPER OR PS_ALLOW_SUPER_CALL))"

definition arrowFunctionContext :: "bool \<Rightarrow> (u32 \<Rightarrow> 'a parseM) \<Rightarrow> 'a parseM" where
  "arrowFunctionContext isAsync m = bindM Status (\<lambda>st.
     savedContext (arrowInitialFlags st) []
       (m (functionContextFlags (arrowInitialFlags st) OR (if isAsync then SF_ASYNC else 0) OR SF_ARROW)))"

section \<open>Recursive calls\<close>

text \<open>The methods that are called before they are defined.  A type annotation comes with its options, which
  the method changes, and may be absent.\<close>

record parseCalls =
  cExpression :: "u32 \<Rightarrow> nodeId parseM"
  cLeftHandSide :: "u32 \<Rightarrow> nodeId parseM"
  cMember :: "bool \<Rightarrow> u32 \<Rightarrow> nodeId parseM"
  cUnary :: "u32 \<Rightarrow> nodeId parseM"
  cAssignment :: "nodeId \<Rightarrow> u32 \<Rightarrow> nodeId parseM"
  cPatternElement :: "u32 \<Rightarrow> bool \<Rightarrow> bool \<Rightarrow> nodeId parseM"
  cTypeAnnotation :: "u32 \<Rightarrow> (nodeId option \<times> u32) parseM"
  cTypeElement :: "nodeId option \<Rightarrow> u32 \<Rightarrow> (nodeId option \<times> u32) parseM"
  cFunctionParams :: "bool \<Rightarrow> (nodeId list) parseM"
  cClassDefinition :: "bool \<Rightarrow> bool \<Rightarrow> bool \<Rightarrow> bool \<Rightarrow> nodeId parseM"
  cStatement :: "u32 \<Rightarrow> nodeId parseM"
  cStatementList :: "u32 \<Rightarrow> (nodeId list) parseM"

text \<open>A type annotation whose options are not read again; it may be null only where the method says so.\<close>

definition typeWith :: "parseCalls \<Rightarrow> u32 \<Rightarrow> (nodeId option) parseM" where
  "typeWith c options = bindM (cTypeAnnotation c options) (\<lambda>(t, _). ret t)"

definition theType :: "parseCalls \<Rightarrow> u32 \<Rightarrow> nodeId parseM" where
  "theType c options = bindM (typeWith c options) (\<lambda>t. ret (orNull t))"

text \<open>An optional colon and type, in TypeScript only or everywhere.\<close>

definition colonType :: "parseCalls \<Rightarrow> u32 \<Rightarrow> (nodeId option) parseM" where
  "colonType c options = bindM (at PUNCTUATOR_COLON) (\<lambda>colon.
     if colon then thenM advance (typeWith c options) else ret None)"

definition tsColonType :: "parseCalls \<Rightarrow> u32 \<Rightarrow> (nodeId option) parseM" where
  "tsColonType c options = bindM isTs (\<lambda>ts. if ts then colonType c options else ret None)"

end
