(* ===== verification/TypeParser.thy ===== *)
theory TypeParser
  imports ParserState
begin

text \<open>
  The type annotations of TypeScript: the methods \<open>ParseTs...\<close> of \<open>parser/parserImpl.cpp\<close> from
  \<open>CurrentLiteralIsBasicType\<close> to \<open>ParseTsBasicType\<close>, and type parameters and arguments.

  A method takes the recursive calls \<open>c\<close> first.  Parameters passed by pointer come back with the result:
  the options of an annotation, the kind of a tuple.  Methods that may return null return an option.
\<close>

section \<open>Basic types\<close>

definition CurrentLiteralIsBasicType :: "bool parseM" where
  "CurrentLiteralIsBasicType =
    bindM tokenKeyword (\<lambda>k.
    (ret (k \<in> {KEYW_ANY, KEYW_BOOLEAN, KEYW_NUMBER, KEYW_STRING, KEYW_UNKNOWN, KEYW_UNDEFINED, KEYW_NEVER, KEYW_OBJECT, KEYW_BIGINT})))"

definition CurrentIsBasicType :: "bool parseM" where
  "CurrentIsBasicType =
    bindM tokenType (\<lambda>t.
    (if t \<in> {PUNCTUATOR_MINUS, LITERAL_NUMBER, LITERAL_STRING, LITERAL_FALSE, LITERAL_TRUE, LITERAL_NULL, KEYW_VOID} then
      (ret True)
    else
    (if t = LITERAL_IDENT then
      (CurrentLiteralIsBasicType)
    else
    (ret False))))"

definition ParseTsConstExpression :: "nodeId parseM" where
  "ParseTsConstExpression =
    bindM makeReference (\<lambda>ident.
    bindM (makeTokenNode (TsType (TSTypeReference ident None))) (\<lambda>typeReference.
    thenM advance
    (bindM (atAny [PUNCTUATOR_COMMA, PUNCTUATOR_SEMI_COLON, EOS, PUNCTUATOR_RIGHT_SQUARE_BRACKET]) (\<lambda>t1.
    bindM (tokenHas TF_NEW_LINE) (\<lambda>t2.
    thenM (throwIf (\<not> t1 \<and> \<not> t2) ''Unexpected token.'')
    ((ret typeReference)))))))"

text \<open>The literal of a literal type, or the keyword that names the type.\<close>

definition basicTypeNode :: "nodeBody parseM" where
  "basicTypeNode =
    bindM tokenType (\<lambda>k.
    bindM tokenKeyword (\<lambda>kw.
    (if k = LITERAL_NUMBER then
      bindM makeNumber (\<lambda>l.
      (ret (TsType (TSLiteralType l))))
    else
    (if k = LITERAL_STRING then
      bindM makeString (\<lambda>l.
      (ret (TsType (TSLiteralType l))))
    else
    (if k = LITERAL_TRUE then
      bindM (makeTokenNode (Lit (BooleanLiteral True))) (\<lambda>l.
      (ret (TsType (TSLiteralType l))))
    else
    (if k = LITERAL_FALSE then
      bindM (makeTokenNode (Lit (BooleanLiteral False))) (\<lambda>l.
      (ret (TsType (TSLiteralType l))))
    else
    (if kw = KEYW_ANY then
      (ret (TsType TSAnyKeyword))
    else
    (if kw = KEYW_BOOLEAN then
      (ret (TsType TSBooleanKeyword))
    else
    (if kw = KEYW_NUMBER then
      (ret (TsType TSNumberKeyword))
    else
    (if kw = KEYW_STRING then
      (ret (TsType TSStringKeyword))
    else
    (if kw = KEYW_UNKNOWN then
      (ret (TsType TSUnknownKeyword))
    else
    (if kw = KEYW_VOID then
      (ret (TsType TSVoidKeyword))
    else
    (if kw = LITERAL_NULL then
      (ret (TsType TSNullKeyword))
    else
    (if kw = KEYW_UNDEFINED then
      (ret (TsType TSUndefinedKeyword))
    else
    (if kw = KEYW_NEVER then
      (ret (TsType TSNeverKeyword))
    else
    (if kw = KEYW_OBJECT then
      (ret (TsType TSObjectKeyword))
    else
    (if kw = KEYW_BIGINT then
      (ret (TsType TSBigintKeyword))
    else
    (ThrowSyntaxError ''Unexpected type''))))))))))))))))))"

definition ParseTsBasicType :: "nodeId parseM" where
  "ParseTsBasicType =
    thenM (bindM (at PUNCTUATOR_MINUS) (\<lambda>t1.
    whenM (t1)
      (thenM advance
      ((expect LITERAL_NUMBER ''Type expected'')))))
    (bindM basicTypeNode (\<lambda>b.
    bindM (makeTokenNode b) (\<lambda>n.
    thenM advance
    ((ret n)))))"

section \<open>Lookahead\<close>

definition IsStartOfMappedType :: "bool parseM" where
  "IsStartOfMappedType =
    bindM savePosition (\<lambda>pos.
    thenM advance
    (bindM (atAny [PUNCTUATOR_MINUS, PUNCTUATOR_PLUS]) (\<lambda>t1.
    (if t1 then
      thenM advance
      (bindM (atKeyword KEYW_READONLY) (\<lambda>result.
      thenM (rewindTo pos)
      ((ret result))))
    else
    thenM (bindM (atKeyword KEYW_READONLY) (\<lambda>t2.
    whenM (t2)
      ((advance))))
    (bindM (at PUNCTUATOR_LEFT_SQUARE_BRACKET) (\<lambda>t3.
    (if \<not> t3 then
      thenM (rewindTo pos)
      ((ret False))
    else
    thenM advance
    (bindM (at LITERAL_IDENT) (\<lambda>t4.
    (if \<not> t4 then
      thenM (rewindTo pos)
      ((ret False))
    else
    thenM advance
    (bindM (at KEYW_IN) (\<lambda>result.
    thenM (rewindTo pos)
    ((ret result))))))))))))))"

definition IsStartOfTsTypePredicate :: "bool parseM" where
  "IsStartOfTsTypePredicate =
    bindM savePosition (\<lambda>pos.
    bindM (atKeyword KEYW_ASSERTS) (\<lambda>isAsserts.
    thenM (whenM (isAsserts)
      ((advance)))
    (bindM (atAny [LITERAL_IDENT, KEYW_THIS]) (\<lambda>t1.
    (if \<not> t1 then
      thenM (rewindTo pos)
      ((ret False))
    else
    (if isAsserts then
      thenM (rewindTo pos)
      ((ret True))
    else
    thenM advance
    (bindM (atKeyword KEYW_IS) (\<lambda>result.
    thenM (rewindTo pos)
    ((ret result))))))))))"

definition IsStartOfAbstractConstructorType :: "bool parseM" where
  "IsStartOfAbstractConstructorType =
    bindM (atKeyword KEYW_ABSTRACT) (\<lambda>t1.
    (if \<not> t1 then
      (ret False)
    else
    bindM savePosition (\<lambda>pos.
    thenM advance
    (bindM (at KEYW_NEW) (\<lambda>result.
    thenM (rewindTo pos)
    ((ret result)))))))"

section \<open>Type arguments and parameters\<close>

text \<open>The token after an argument: a comma goes on, a shift is cut back to a single \<open>>\<close>.\<close>

primrec TypeArguments_loop :: "parseCalls \<Rightarrow> bool \<Rightarrow> nat \<Rightarrow> nodeId list \<Rightarrow> (nodeId list option) parseM" where
  "TypeArguments_loop c throwError 0 ps = out_of_fuel"
| "TypeArguments_loop c throwError (Suc n) ps =
    bindM (at PUNCTUATOR_GREATER_THAN) (\<lambda>t1.
    (if t1 then
      (ret (Some ps))
    else
    bindM (typeWith c (if throwError then TO_THROW_ERROR else TO_NO_OPTS)) (\<lambda>param.
    (if param = None then
      (ret None)
    else
    (let ps = ps @ [the param] in
    bindM tokenType (\<lambda>t.
    (if t = PUNCTUATOR_COMMA then
      thenM advance
      ((TypeArguments_loop c throwError n ps))
    else
    (if t = PUNCTUATOR_RIGHT_SHIFT then
      thenM (onLexer (BackwardToken PUNCTUATOR_GREATER_THAN 1))
      ((TypeArguments_loop c throwError n ps))
    else
    (if t = PUNCTUATOR_UNSIGNED_RIGHT_SHIFT then
      thenM (onLexer (BackwardToken PUNCTUATOR_GREATER_THAN 2))
      ((TypeArguments_loop c throwError n ps))
    else
    (if t = PUNCTUATOR_GREATER_THAN then
      (TypeArguments_loop c throwError n ps)
    else
    thenM (throwIf (throwError) ([CHR 0x27] @ ''>'' @ [CHR 0x27] @ '' expected''))
    ((ret None))))))))))))"

definition ParseTsTypeParameterInstantiation :: "parseCalls \<Rightarrow> bool \<Rightarrow> (nodeId option) parseM" where
  "ParseTsTypeParameterInstantiation c throwError =
    bindM tokenStart (\<lambda>startLoc.
    thenM advance
    (bindM (bounded (\<lambda>n. TypeArguments_loop c throwError n [])) (\<lambda>params.
    (if params = None then
      (ret None)
    else
    bindM tokenEnd (\<lambda>endLoc.
    thenM advance
    (bindM (makeNode (TsType (TSTypeParameterInstantiation (the params))) startLoc endLoc) (\<lambda>inst.
    (ret (Some inst)))))))))"

definition CheckTypeNameIsReserved :: "name \<Rightarrow> bool" where
  "CheckTypeNameIsReserved paramName =
    (paramName : asciiText ` {''number'', ''any'', ''unknown'', ''never'', ''bigint'', ''boolean'', ''string'', ''void'', ''object''})"

definition ParseTsTypeParameter :: "parseCalls \<Rightarrow> bool \<Rightarrow> bool \<Rightarrow> (nodeId option) parseM" where
  "ParseTsTypeParameter c throwError addBinding =
    bindM tokenStart (\<lambda>startLoc.
    bindM (at LITERAL_IDENT) (\<lambda>t1.
    (if \<not> t1 then
      thenM (throwIf (throwError) ''Type parameter declaration expected'')
      ((ret None))
    else
    bindM tokenIdent (\<lambda>ident.
    (if CheckTypeNameIsReserved ident then
      thenM (throwIf (throwError) ''Invalid type parameter name'')
      ((ret None))
    else
    bindM (AllocNode (Expr (Identifier (newIdentifier ident)))) (\<lambda>paramIdent.
    bindM tokenStart (\<lambda>pos.
    thenM (whenM (addBinding)
      (bindM (addDecl pos (newDecl DECL_LET ident)) (\<lambda>d.
      (ret ()))))
    (bindM tokenEnd (\<lambda>t2.
    thenM (onNodes (SetRange paramIdent pos t2))
    (thenM advance
    ((let options = (if throwError then TO_THROW_ERROR else TO_NO_OPTS) in
    bindM (
      bindM (at KEYW_EXTENDS) (\<lambda>t3.
      (if t3 then
        thenM advance
        ((cTypeAnnotation c options))
      else
      (ret ((None, options)))))) (\<lambda>(constraint, options).
    bindM (
      bindM (at PUNCTUATOR_SUBSTITUTION) (\<lambda>t4.
      (if t4 then
        thenM advance
        ((cTypeAnnotation c options))
      else
      (ret ((None, options)))))) (\<lambda>(defaultType, options).
    bindM tokenEnd (\<lambda>t5.
    bindM (makeNode (TsType (TSTypeParameter paramIdent constraint defaultType)) startLoc t5) (\<lambda>typeParam.
    (ret (Some typeParam))))))))))))))))))"

definition hasDefaultType :: "nodeBody \<Rightarrow> bool" where
  "hasDefaultType b =
    (case b of TsType (TSTypeParameter _ _ d) \<Rightarrow> d \<noteq> None | _ \<Rightarrow> False)"

primrec TypeParameters_loop :: "parseCalls \<Rightarrow> bool \<Rightarrow> nat \<Rightarrow> nodeId list \<Rightarrow> bool \<Rightarrow> nat \<Rightarrow> ((nodeId list \<times> nat) option) parseM" where
  "TypeParameters_loop c throwError 0 ps seenDefault required = out_of_fuel"
| "TypeParameters_loop c throwError (Suc n) ps seenDefault required =
    bindM (at PUNCTUATOR_GREATER_THAN) (\<lambda>t1.
    (if t1 then
      (ret (Some (ps, required)))
    else
    bindM (ParseTsTypeParameter c throwError True) (\<lambda>param.
    (if param = None then
      (ret None)
    else
    bindM (nodeIs hasDefaultType (the param)) (\<lambda>hasDefault.
    thenM (throwIf (\<not> hasDefault \<and> seenDefault) ''Required type parameters may not follow optional type parameters.'')
    ((let required = (if hasDefault then required else Suc required) in
    (let ps = ps @ [the param] in
    bindM (at PUNCTUATOR_COMMA) (\<lambda>t2.
    (if t2 then
      thenM advance
      ((TypeParameters_loop c throwError n ps (seenDefault \<or> hasDefault) required))
    else
    bindM (at PUNCTUATOR_GREATER_THAN) (\<lambda>t3.
    (if \<not> t3 then
      thenM (throwIf (throwError) ([CHR 0x27] @ ''>'' @ [CHR 0x27] @ '' expected''))
      ((ret None))
    else
    (TypeParameters_loop c throwError n ps (seenDefault \<or> hasDefault) required)))))))))))))"

definition ParseTsTypeParameterDeclaration :: "parseCalls \<Rightarrow> bool \<Rightarrow> (nodeId option) parseM" where
  "ParseTsTypeParameterDeclaration c throwError =
    (lexicalScope LocalScope (\<lambda>sc.
      bindM tokenStart (\<lambda>startLoc.
      thenM advance
      (bindM (bounded (\<lambda>n. TypeParameters_loop c throwError n [] False 0)) (\<lambda>found.
      (if found = None then
        (ret None)
      else
      (let (params, required) = the found in
      thenM (throwIf (params = []) ''Type parameter list cannot be empty.'')
      (bindM tokenEnd (\<lambda>endLoc.
      thenM advance
      (bindM (makeNode (TsType (TSTypeParameterDeclaration sc params required)) startLoc endLoc) (\<lambda>dcl.
      thenM (BindNode sc (OtherNode dcl))
      ((ret (Some dcl))))))))))))))"

section \<open>References\<close>

primrec QualifiedReference_loop :: "nat \<Rightarrow> nodeId \<Rightarrow> nodeId parseM" where
  "QualifiedReference_loop 0 typeName = out_of_fuel"
| "QualifiedReference_loop (Suc n) typeName =
    thenM advance
    (thenM (expect LITERAL_IDENT ''Identifier expected'')
    (bindM makeIdentifier (\<lambda>propName.
    bindM (startOf typeName) (\<lambda>t1.
    bindM tokenEnd (\<lambda>t2.
    bindM (makeNode (TsType (TSQualifiedName typeName propName)) t1 t2) (\<lambda>qualified.
    thenM advance
    (bindM (at PUNCTUATOR_PERIOD) (\<lambda>t3.
    (if t3 then
      (QualifiedReference_loop n qualified)
    else
    (ret qualified))))))))))"

definition ParseTsQualifiedReference :: "nodeId \<Rightarrow> nodeId parseM" where
  "ParseTsQualifiedReference typeName =
    bindM (startOf typeName) (\<lambda>startLoc.
    bindM (bounded (\<lambda>n. QualifiedReference_loop n typeName)) (\<lambda>qualified.
    bindM tokenEnd (\<lambda>t1.
    thenM (onNodes (SetRange qualified startLoc t1))
    ((ret qualified)))))"

primrec IndexAccess_loop :: "parseCalls \<Rightarrow> nat \<Rightarrow> nodeId \<Rightarrow> nodeId parseM" where
  "IndexAccess_loop c 0 typeName = out_of_fuel"
| "IndexAccess_loop c (Suc n) typeName =
    thenM advance
    (bindM (theType c TO_THROW_ERROR) (\<lambda>indexType.
    thenM (expect PUNCTUATOR_RIGHT_SQUARE_BRACKET ([CHR 0x27] @ '']'' @ [CHR 0x27] @ '' exprected''))
    (thenM advance
    (bindM (startOf typeName) (\<lambda>t1.
    bindM tokenEnd (\<lambda>t2.
    bindM (makeNode (TsType (TSIndexedAccessType typeName indexType)) t1 t2) (\<lambda>access.
    bindM (at PUNCTUATOR_LEFT_SQUARE_BRACKET) (\<lambda>t3.
    bindM Lookahead (\<lambda>t4.
    (if t3 \<and> t4 \<noteq> LEX_CHAR_RIGHT_SQUARE then
      (IndexAccess_loop c n access)
    else
    (ret access)))))))))))"

definition ParseTsIndexAccessType :: "parseCalls \<Rightarrow> nodeId \<Rightarrow> nodeId parseM" where
  "ParseTsIndexAccessType c typeName =
    (bounded (\<lambda>n. IndexAccess_loop c n typeName))"

definition isStringLiteralType :: "nodeTable \<Rightarrow> nodeBody \<Rightarrow> bool" where
  "isStringLiteralType t b =
    (case b of TsType (TSLiteralType l) \<Rightarrow> isStringLiteral (nBody (nodeAt t l)) | _ \<Rightarrow> False)"

definition ParseTsImportType :: "parseCalls \<Rightarrow> sourcePosition \<Rightarrow> bool \<Rightarrow> nodeId parseM" where
  "ParseTsImportType c startLoc isTypeof =
    thenM advance
    (thenM (expect PUNCTUATOR_LEFT_PARENTHESIS ([CHR 0x27] @ ''('' @ [CHR 0x27] @ '' expected''))
    (thenM advance
    (bindM (theType c TO_THROW_ERROR) (\<lambda>param.
    bindM (getM psNodes) (\<lambda>table.
    bindM (nodeIs (isStringLiteralType table) param) (\<lambda>t1.
    thenM (throwIf (\<not> t1) ''String literal expected'')
    (thenM (expect PUNCTUATOR_RIGHT_PARENTHESIS ([CHR 0x27] @ '')'' @ [CHR 0x27] @ '' expected''))
    (thenM advance
    (bindM (
      bindM (at PUNCTUATOR_PERIOD) (\<lambda>t2.
      (if t2 then
        thenM advance
        (thenM (expect LITERAL_IDENT ''Identifier expected'')
        (bindM makeIdentifier (\<lambda>ident.
        thenM advance
        (bindM (at PUNCTUATOR_PERIOD) (\<lambda>t3.
        (if t3 then
          bindM (ParseTsQualifiedReference ident) (\<lambda>q.
          (ret (Some q)))
        else
        (ret (Some ident))))))))
      else
      (ret None)))) (\<lambda>qualifier.
    bindM (
      bindM (atAny [PUNCTUATOR_LEFT_SHIFT, PUNCTUATOR_LESS_THAN]) (\<lambda>t4.
      (if t4 then
        thenM (bindM (at PUNCTUATOR_LEFT_SHIFT) (\<lambda>t5.
        whenM (t5)
          ((onLexer (BackwardToken PUNCTUATOR_LESS_THAN 1)))))
        ((ParseTsTypeParameterInstantiation c True))
      else
      (ret None)))) (\<lambda>typeParams.
    bindM tokenEnd (\<lambda>t6.
    (makeNode (TsType (TSImportType param typeParams qualifier isTypeof)) startLoc t6)))))))))))))"

definition ParseTsTypeReferenceOrQuery :: "parseCalls \<Rightarrow> bool \<Rightarrow> nodeId parseM" where
  "ParseTsTypeReferenceOrQuery c parseQuery =
    bindM tokenStart (\<lambda>referenceStart.
    thenM (whenM (parseQuery)
      ((advance)))
    (bindM (at KEYW_IMPORT) (\<lambda>t1.
    (if parseQuery \<and> t1 then
      (ParseTsImportType c referenceStart True)
    else
    bindM (at LITERAL_IDENT) (\<lambda>t2.
    thenM (throwIf (parseQuery \<and> \<not> t2) ''Identifier expected.'')
    (bindM makeIdentifier (\<lambda>ident.
    thenM (
      bindM Lookahead (\<lambda>t3.
      (if t3 = LEX_CHAR_LESS_THAN then
        (onLexer (ForwardToken PUNCTUATOR_LESS_THAN 1))
      else
      (advance))))
    (bindM (
      bindM (at PUNCTUATOR_PERIOD) (\<lambda>t4.
      (if t4 then
        (ParseTsQualifiedReference ident)
      else
      (ret ident)))) (\<lambda>typeName.
    bindM (
      bindM (at PUNCTUATOR_LESS_THAN) (\<lambda>t5.
      (if t5 then
        thenM (throwIf (parseQuery) ''Unexpected token.'')
        ((ParseTsTypeParameterInstantiation c True))
      else
      (ret None)))) (\<lambda>typeParams.
    (let reference = (if parseQuery then TSTypeQuery typeName else TSTypeReference typeName typeParams) in
    bindM (at PUNCTUATOR_LEFT_SQUARE_BRACKET) (\<lambda>t6.
    bindM Lookahead (\<lambda>t7.
    (if t6 \<and> t7 \<noteq> LEX_CHAR_RIGHT_SQUARE then
      bindM tokenEnd (\<lambda>t8.
      bindM (makeNode (TsType reference) referenceStart t8) (\<lambda>obj.
      (ParseTsIndexAccessType c obj)))
    else
    bindM (endOf typeName) (\<lambda>t9.
    (makeNode (TsType reference) referenceStart t9))))))))))))))))"

definition ParseTsIdentifierReference :: "parseCalls \<Rightarrow> nodeId parseM" where
  "ParseTsIdentifierReference c =
    bindM CurrentLiteralIsBasicType (\<lambda>t1.
    bindM Lookahead (\<lambda>t2.
    (if t1 \<and> t2 \<noteq> LEX_CHAR_DOT then
      (ParseTsBasicType)
    else
    (ParseTsTypeReferenceOrQuery c False))))"

definition isArrayOrTupleType :: "nodeBody \<Rightarrow> bool" where
  "isArrayOrTupleType b =
    (case b of TsType (TSArrayType _) \<Rightarrow> True | TsType (TSTupleType _) \<Rightarrow> True | _ \<Rightarrow> False)"

definition ParseTsTypeOperatorOrTypeReference :: "parseCalls \<Rightarrow> nodeId parseM" where
  "ParseTsTypeOperatorOrTypeReference c =
    bindM (atKeyword KEYW_READONLY) (\<lambda>t1.
    (if t1 then
      bindM tokenStart (\<lambda>start.
      thenM advance
      (bindM (theType c TO_THROW_ERROR) (\<lambda>ty.
      bindM (nodeIs isArrayOrTupleType ty) (\<lambda>t2.
      thenM (throwIf (\<not> t2) ([CHR 0x27] @ ''readonly'' @ [CHR 0x27] @ '' type modifier is only permitted on array and tuple literal types.''))
      (bindM (endOf ty) (\<lambda>t3.
      (makeNode (TsType (TSTypeOperator ty TSOP_READONLY)) start t3)))))))
    else
    bindM (atKeyword KEYW_KEYOF) (\<lambda>t4.
    (if t4 then
      bindM tokenStart (\<lambda>start.
      thenM advance
      (bindM (theType c TO_THROW_ERROR) (\<lambda>ty.
      bindM (endOf ty) (\<lambda>t5.
      (makeNode (TsType (TSTypeOperator ty TSOP_KEYOF)) start t5)))))
    else
    bindM (atKeyword KEYW_INFER) (\<lambda>t6.
    (if t6 then
      bindM (statusHas PS_IN_EXTENDS) (\<lambda>t7.
      thenM (throwIf (\<not> t7) ([CHR 0x27] @ ''infer'' @ [CHR 0x27] @ '' declarations are only permitted in the '' @ [CHR 0x27] @ ''extends'' @ [CHR 0x27] @ '' clause of a conditional type.''))
      (bindM tokenStart (\<lambda>start.
      thenM advance
      (bindM (ParseTsTypeParameter c True False) (\<lambda>param.
      bindM tokenEnd (\<lambda>t8.
      (makeNode (TsType (TSInferType (orNull param))) start t8)))))))
    else
    (ParseTsIdentifierReference c)))))))"

section \<open>Predicates and this\<close>

definition ParseTsTypePredicate :: "parseCalls \<Rightarrow> nodeId parseM" where
  "ParseTsTypePredicate c =
    bindM savePosition (\<lambda>pos.
    bindM tokenStart (\<lambda>startPos.
    bindM (atKeyword KEYW_ASSERTS) (\<lambda>asserts.
    bindM (
      (if asserts then
        thenM advance
        (bindM (atKeyword KEYW_IS) (\<lambda>t1.
        (if t1 then
          thenM (rewindTo pos)
          ((ret False))
        else
        (ret True))))
      else
      (ret False))) (\<lambda>isAsserts.
    bindM tokenIdent (\<lambda>n.
    bindM (at LITERAL_IDENT) (\<lambda>t2.
    bindM (makeTokenNode (if t2 then Expr (Identifier (newIdentifier n)) else TsType TSThisType)) (\<lambda>parameterName.
    thenM advance
    (bindM (atKeyword KEYW_IS) (\<lambda>t3.
    (if isAsserts \<and> \<not> t3 then
      bindM (endOf parameterName) (\<lambda>t4.
      (makeNode (TsType (TSTypePredicate parameterName None isAsserts)) startPos t4))
    else
    thenM advance
    (bindM (theType c TO_THROW_ERROR) (\<lambda>ty.
    bindM (endOf ty) (\<lambda>endPos.
    (makeNode (TsType (TSTypePredicate parameterName (Some ty) isAsserts)) startPos endPos))))))))))))))"

definition ParseTsThisType :: "bool \<Rightarrow> nodeId parseM" where
  "ParseTsThisType throwError =
    bindM (statusHas PS_ALLOW_THIS_TYPE) (\<lambda>t1.
    thenM (throwIf (throwError \<and> \<not> t1) (''A '' @ [CHR 0x27] @ ''this'' @ [CHR 0x27] @ '' type is available only in a non-static member of a class or interface.''))
    (bindM (makeTokenNode (TsType TSThisType)) (\<lambda>n.
    thenM advance
    ((ret n)))))"

definition ParseTsTypeReferenceOrTsTypePredicate :: "parseCalls \<Rightarrow> nodeId option \<Rightarrow> bool \<Rightarrow> (nodeId option) parseM" where
  "ParseTsTypeReferenceOrTsTypePredicate c typeAnnotation canBeTsTypePredicate =
    (if typeAnnotation \<noteq> None then
      (ret None)
    else
    bindM (
      (if canBeTsTypePredicate then
        (IsStartOfTsTypePredicate)
      else
      (ret False))) (\<lambda>isPredicate.
    bindM (
      (if isPredicate then
        (ParseTsTypePredicate c)
      else
      (ParseTsTypeOperatorOrTypeReference c))) (\<lambda>ty.
    (ret (Some ty)))))"

definition ParseTsThisTypeOrTsTypePredicate :: "parseCalls \<Rightarrow> nodeId option \<Rightarrow> bool \<Rightarrow> bool \<Rightarrow> (nodeId option) parseM" where
  "ParseTsThisTypeOrTsTypePredicate c typeAnnotation canBeTsTypePredicate throwError =
    (if typeAnnotation \<noteq> None then
      (ret None)
    else
    bindM (
      (if canBeTsTypePredicate then
        (IsStartOfTsTypePredicate)
      else
      (ret False))) (\<lambda>isPredicate.
    bindM (
      (if isPredicate then
        (ParseTsTypePredicate c)
      else
      (ParseTsThisType throwError))) (\<lambda>ty.
    (ret (Some ty)))))"

section \<open>Conditional types, tuples, arrays, unions\<close>

definition ParseTsConditionalType :: "parseCalls \<Rightarrow> nodeId \<Rightarrow> bool \<Rightarrow> nodeId parseM" where
  "ParseTsConditionalType c checkType restrictExtends =
    thenM (throwIf (restrictExtends) ([CHR 0x27] @ ''?'' @ [CHR 0x27] @ '' expected.''))
    (bindM (startOf checkType) (\<lambda>startLoc.
    thenM advance
    (bindM Status (\<lambda>saved.
    thenM (addStatus PS_IN_EXTENDS)
    (bindM (cTypeAnnotation c (TO_THROW_ERROR OR TO_RESTRICT_EXTENDS)) (\<lambda>(extendsType, options).
    thenM (setStatus saved)
    (thenM (expect PUNCTUATOR_QUESTION_MARK ([CHR 0x27] @ ''?'' @ [CHR 0x27] @ '' expected.''))
    (thenM advance
    (bindM (cTypeAnnotation c (options AND NOT TO_RESTRICT_EXTENDS)) (\<lambda>(trueType, options).
    thenM (expect PUNCTUATOR_COLON ([CHR 0x27] @ '':'' @ [CHR 0x27] @ '' expected.''))
    (thenM advance
    (bindM (theType c options) (\<lambda>falseType.
    bindM (endOf falseType) (\<lambda>endLoc.
    (makeNode (TsType (TSConditionalType checkType (orNull extendsType) (orNull trueType) falseType)) startLoc endLoc)))))))))))))))"

datatype tsTupleKind = TK_NONE | TK_NAMED | TK_DEFAULT

text \<open>One element of a tuple, with the kind of the tuple and whether an element was optional.\<close>

definition ParseTsTupleElement :: "parseCalls \<Rightarrow> tsTupleKind \<Rightarrow> bool \<Rightarrow> (nodeId option \<times> tsTupleKind \<times> bool) parseM" where
  "ParseTsTupleElement c kind seenOptional =
    bindM tokenStart (\<lambda>elementStart.
    bindM (
      bindM (at LITERAL_IDENT) (\<lambda>t1.
      (if t1 then
        bindM CurrentLiteralIsBasicType (\<lambda>t2.
        (ret (\<not> t2)))
      else
      (ret False)))) (\<lambda>named.
    bindM (
      (if named then
        bindM makeIdentifier (\<lambda>elementIdent.
        bindM (
          bindM Lookahead (\<lambda>t3.
          (if t3 \<in> {LEX_CHAR_COLON, LEX_CHAR_QUESTION} then
            thenM (throwIf (kind = TK_DEFAULT) ''Tuple members must all have names or all not have names'')
            (thenM advance
            (bindM (at PUNCTUATOR_QUESTION_MARK) (\<lambda>isOptional.
            thenM (
              (if isOptional then
                (advance)
              else
              (throwIf (seenOptional) ''A required element cannot follow an optional element'')))
            (thenM (expect PUNCTUATOR_COLON ([CHR 0x27] @ '':'' @ [CHR 0x27] @ '' expected''))
            (thenM advance
            (bindM (cTypeAnnotation c TO_THROW_ERROR) (\<lambda>(elementType, options).
            bindM (AllocNode (TsType (TSNamedTupleMember elementIdent (orNull elementType) isOptional))) (\<lambda>element.
            (ret ((element, TK_NAMED, seenOptional \<or> isOptional, options)))))))))))
          else
          bindM (ParseTsTypeReferenceOrQuery c False) (\<lambda>element.
          (ret ((element, kind, seenOptional, TO_THROW_ERROR))))))) (\<lambda>(element, kind, seenOptional, options).
        bindM (atAny [PUNCTUATOR_COMMA, PUNCTUATOR_RIGHT_SQUARE_BRACKET]) (\<lambda>t4.
        (if \<not> t4 then
          bindM (cTypeElement c (Some element) options) (\<lambda>(element, options).
          (ret ((element, kind, seenOptional))))
        else
        (ret ((Some element, kind, seenOptional)))))))
      else
      thenM (throwIf (kind = TK_NAMED) ''Tuple members must all have names or all not have names'')
      (bindM (typeWith c TO_THROW_ERROR) (\<lambda>element.
      (ret ((element, TK_DEFAULT, seenOptional))))))) (\<lambda>(element, kind, seenOptional).
    thenM (whenM (element \<noteq> None)
      (bindM tokenEnd (\<lambda>t5.
      (onNodes (SetRange (the element) elementStart t5)))))
    ((ret ((element, kind, seenOptional)))))))"

primrec TupleType_loop :: "parseCalls \<Rightarrow> nat \<Rightarrow> tsTupleKind \<Rightarrow> bool \<Rightarrow> nodeId list \<Rightarrow> (nodeId list) parseM" where
  "TupleType_loop c 0 kind seenOptional es = out_of_fuel"
| "TupleType_loop c (Suc n) kind seenOptional es =
    bindM (at PUNCTUATOR_RIGHT_SQUARE_BRACKET) (\<lambda>t1.
    (if t1 then
      (ret es)
    else
    bindM (ParseTsTupleElement c kind seenOptional) (\<lambda>(element, kind, seenOptional).
    (let es = es @ [orNull element] in
    bindM (at PUNCTUATOR_RIGHT_SQUARE_BRACKET) (\<lambda>t2.
    (if t2 then
      (ret es)
    else
    thenM (expect PUNCTUATOR_COMMA ([CHR 0x27] @ '','' @ [CHR 0x27] @ '' expected.''))
    (thenM advance
    ((TupleType_loop c n kind seenOptional es)))))))))"

definition ParseTsTupleType :: "parseCalls \<Rightarrow> nodeId parseM" where
  "ParseTsTupleType c =
    bindM tokenStart (\<lambda>tupleStart.
    thenM advance
    (bindM (bounded (\<lambda>n. TupleType_loop c n TK_NONE False [])) (\<lambda>elements.
    bindM tokenEnd (\<lambda>tupleEnd.
    thenM advance
    ((makeNode (TsType (TSTupleType elements)) tupleStart tupleEnd))))))"

definition ParseTsArrayType :: "nodeId \<Rightarrow> nodeId parseM" where
  "ParseTsArrayType elementType =
    thenM advance
    (thenM (expect PUNCTUATOR_RIGHT_SQUARE_BRACKET ([CHR 0x27] @ '']'' @ [CHR 0x27] @ '' expected''))
    (bindM tokenEnd (\<lambda>endLoc.
    thenM advance
    (bindM (startOf elementType) (\<lambda>t1.
    (makeNode (TsType (TSArrayType elementType)) t1 endLoc))))))"

text \<open>The operands of a union or an intersection; the options are shared by all of them.\<close>

primrec Operands_loop :: "parseCalls \<Rightarrow> tokenType \<Rightarrow> nat \<Rightarrow> u32 \<Rightarrow> nodeId list \<Rightarrow> (nodeId list) parseM" where
  "Operands_loop c operator 0 options ts = out_of_fuel"
| "Operands_loop c operator (Suc n) options ts =
    bindM (at operator) (\<lambda>t1.
    (if \<not> t1 then
      (ret ts)
    else
    thenM advance
    (bindM (cTypeAnnotation c options) (\<lambda>(t, options).
    (Operands_loop c operator n options (ts @ [orNull t]))))))"

definition ParseTsUnionType :: "parseCalls \<Rightarrow> nodeId option \<Rightarrow> bool \<Rightarrow> nodeId parseM" where
  "ParseTsUnionType c ty restrictExtends =
    (let options = TO_THROW_ERROR OR TO_IN_UNION OR (if restrictExtends then TO_RESTRICT_EXTENDS else 0) in
    bindM (case ty of Some t \<Rightarrow> startOf t | None \<Rightarrow> tokenStart) (\<lambda>startLoc.
    bindM (bounded (\<lambda>n. Operands_loop c PUNCTUATOR_BITWISE_OR n options (maybe ty))) (\<lambda>types.
    bindM (if types = [] then undefinedM else endOf (last types)) (\<lambda>endLoc.
    (makeNode (TsType (TSUnionType types)) startLoc endLoc)))))"

definition ParseTsIntersectionType :: "parseCalls \<Rightarrow> nodeId option \<Rightarrow> bool \<Rightarrow> bool \<Rightarrow> nodeId parseM" where
  "ParseTsIntersectionType c ty inUnion restrictExtends =
    (let options = TO_THROW_ERROR OR TO_IN_INTERSECTION OR (if restrictExtends then TO_RESTRICT_EXTENDS else 0) OR (if inUnion then TO_IN_UNION else 0) in
    bindM (case ty of Some t \<Rightarrow> startOf t | None \<Rightarrow> tokenStart) (\<lambda>startLoc.
    bindM (bounded (\<lambda>n. Operands_loop c PUNCTUATOR_BITWISE_AND n options (maybe ty))) (\<lambda>types.
    bindM (if types = [] then undefinedM else endOf (last types)) (\<lambda>endLoc.
    (makeNode (TsType (TSIntersectionType types)) startLoc endLoc)))))"

section \<open>Function types\<close>

definition ParseTsFunctionType :: "parseCalls \<Rightarrow> sourcePosition \<Rightarrow> bool \<Rightarrow> bool \<Rightarrow> bool \<Rightarrow> (nodeId option) parseM" where
  "ParseTsFunctionType c startLoc isConstructionType throwError abstractConstructor =
    bindM (at PUNCTUATOR_LESS_THAN) (\<lambda>isGeneric.
    bindM (
      (if isGeneric then
        (ParseTsTypeParameterDeclaration c throwError)
      else
      (ret None))) (\<lambda>typeParams.
    bindM (
      (if isGeneric then
        bindM (at PUNCTUATOR_LEFT_PARENTHESIS) (\<lambda>ok.
        (ret (\<not> ok)))
      else
      (ret False))) (\<lambda>missing.
    (if missing then
      thenM (throwIf (throwError) ([CHR 0x27] @ ''('' @ [CHR 0x27] @ '' expected''))
      ((ret None))
    else
    (functionParameterContext (\<lambda>paramScope.
      bindM (cFunctionParams c True) (\<lambda>params.
      thenM (expect PUNCTUATOR_ARROW ([CHR 0x27] @ ''=>'' @ [CHR 0x27] @ '' expected''))
      (thenM advance
      (bindM (theType c (TO_THROW_ERROR OR TO_CAN_BE_TS_TYPE_PREDICATE)) (\<lambda>returnType.
      bindM (endOf returnType) (\<lambda>endLoc.
      bindM (makeNode (TsType (if isConstructionType then TSConstructorType paramScope params typeParams returnType abstractConstructor else TSFunctionType paramScope params typeParams returnType)) startLoc endLoc) (\<lambda>funcType.
      thenM (BindNode paramScope (OtherNode funcType))
      ((ret (Some funcType)))))))))))))))"

definition ParseTsParenthesizedOrFunctionType :: "parseCalls \<Rightarrow> nodeId option \<Rightarrow> bool \<Rightarrow> (nodeId option) parseM" where
  "ParseTsParenthesizedOrFunctionType c typeAnnotation throwError =
    (if typeAnnotation \<noteq> None then
      (ret None)
    else
    bindM tokenStart (\<lambda>typeStart.
    bindM (atKeyword KEYW_ABSTRACT) (\<lambda>abstractConstructor.
    thenM (whenM (abstractConstructor)
      ((advance)))
    (bindM (at KEYW_NEW) (\<lambda>isConstructionType.
    thenM (whenM (isConstructionType)
      (thenM advance
      ((expectAny [PUNCTUATOR_LEFT_PARENTHESIS, PUNCTUATOR_LESS_THAN] ([CHR 0x27] @ ''('' @ [CHR 0x27] @ '' expected'')))))
    (bindM (at PUNCTUATOR_LESS_THAN) (\<lambda>t1.
    (if t1 \<or> isConstructionType then
      (ParseTsFunctionType c typeStart isConstructionType throwError abstractConstructor)
    else
    bindM savePosition (\<lambda>startPos.
    thenM advance
    (bindM Lookahead (\<lambda>nextCp.
    bindM CurrentIsBasicType (\<lambda>t2.
    bindM (at PUNCTUATOR_RIGHT_PARENTHESIS) (\<lambda>t3.
    (if nextCp \<in> {LEX_CHAR_COMMA, LEX_CHAR_QUESTION, LEX_CHAR_COLON} \<or> (\<not> t2 \<and> t3) then
      thenM (rewindTo startPos)
      ((ParseTsFunctionType c typeStart False throwError False))
    else
    bindM (typeWith c TO_NO_OPTS) (\<lambda>ty.
    (if ty = None then
      thenM (rewindTo startPos)
      ((ParseTsFunctionType c typeStart False throwError False))
    else
    bindM (at PUNCTUATOR_RIGHT_PARENTHESIS) (\<lambda>t4.
    thenM (throwIf (throwError \<and> \<not> t4) ([CHR 0x27] @ '')'' @ [CHR 0x27] @ '' expected''))
    (bindM tokenEnd (\<lambda>endLoc.
    thenM advance
    (bindM (at PUNCTUATOR_ARROW) (\<lambda>t5.
    (if t5 then
      thenM (rewindTo startPos)
      ((ParseTsFunctionType c typeStart False throwError False))
    else
    bindM (makeNode (TsType (TSParenthesizedType (the ty))) typeStart endLoc) (\<lambda>result.
    (ret (Some result)))))))))))))))))))))))))"

section \<open>Mapped types and literals\<close>

definition ParseTsMappedTypeParameter :: "parseCalls \<Rightarrow> nodeId parseM" where
  "ParseTsMappedTypeParameter c =
    bindM tokenStart (\<lambda>startLoc.
    bindM makeIdentifier (\<lambda>paramName.
    thenM advance
    (thenM advance
    (bindM (theType c TO_THROW_ERROR) (\<lambda>constraint.
    bindM (endOf constraint) (\<lambda>endLoc.
    (makeNode (TsType (TSTypeParameter paramName (Some constraint) None)) startLoc endLoc)))))))"

text \<open>The message names the token that is expected.\<close>

definition ParseMappedOption :: "tokenType \<Rightarrow> mappedOption parseM" where
  "ParseMappedOption t =
    bindM tokenType (\<lambda>k.
    bindM tokenKeyword (\<lambda>kw.
    (if k \<noteq> PUNCTUATOR_MINUS \<and> k \<noteq> PUNCTUATOR_PLUS \<and> kw \<noteq> t \<and> k \<noteq> t then
      (ret MO_NO_OPTS)
    else
    (let result = (if k = PUNCTUATOR_MINUS then MO_MINUS else MO_PLUS) in
    thenM (whenM (k \<in> {PUNCTUATOR_MINUS, PUNCTUATOR_PLUS})
      ((advance)))
    (bindM (atKeyword t) (\<lambda>t1.
    bindM (at t) (\<lambda>t2.
    thenM (throwExpected (\<not> t1 \<and> \<not> t2) t)
    (thenM advance
    ((ret result))))))))))"

definition ParseTsMappedType :: "parseCalls \<Rightarrow> nodeId parseM" where
  "ParseTsMappedType c =
    bindM tokenStart (\<lambda>startLoc.
    thenM advanceIdent
    (bindM (ParseMappedOption KEYW_READONLY) (\<lambda>readonly.
    thenM advance
    (bindM (ParseTsMappedTypeParameter c) (\<lambda>typeParameter.
    thenM (expect PUNCTUATOR_RIGHT_SQUARE_BRACKET ([CHR 0x27] @ '']'' @ [CHR 0x27] @ '' expected''))
    (thenM advance
    (bindM (ParseMappedOption PUNCTUATOR_QUESTION_MARK) (\<lambda>isOptional.
    bindM (colonType c TO_THROW_ERROR) (\<lambda>typeAnnotation.
    thenM (expectAny [PUNCTUATOR_SEMI_COLON, PUNCTUATOR_RIGHT_BRACE] ([CHR 0x27] @ '';'' @ [CHR 0x27] @ '' expected''))
    (thenM (bindM (at PUNCTUATOR_SEMI_COLON) (\<lambda>t1.
    whenM (t1)
      ((advance))))
    (thenM (expect PUNCTUATOR_RIGHT_BRACE ([CHR 0x27] @ ''}'' @ [CHR 0x27] @ '' expected''))
    (bindM tokenEnd (\<lambda>t2.
    bindM (makeNode (TsType (TSMappedType typeParameter typeAnnotation readonly isOptional)) startLoc t2) (\<lambda>mappedType.
    thenM advance
    ((ret mappedType))))))))))))))))"

definition isNumberOrStringKeyword :: "nodeBody \<Rightarrow> bool" where
  "isNumberOrStringKeyword b =
    (b = TsType TSNumberKeyword \<or> b = TsType TSStringKeyword)"

text \<open>The key, whether it is computed, whether there is none (a signature), and whether it is an index.\<close>

definition ParseTsTypeLiteralOrInterfaceKey :: "parseCalls \<Rightarrow> (nodeId option \<times> bool \<times> bool \<times> bool) parseM" where
  "ParseTsTypeLiteralOrInterfaceKey c =
    bindM tokenType (\<lambda>t.
    bindM tokenKeyword (\<lambda>kw.
    bindM Lookahead (\<lambda>la.
    (if t = LITERAL_IDENT \<and> (kw \<noteq> KEYW_NEW \<or> (la \<noteq> LEX_CHAR_LEFT_PAREN \<and> la \<noteq> LEX_CHAR_LESS_THAN)) then
      bindM makeIdentifier (\<lambda>key.
      thenM advance
      ((ret ((Some key, False, False, False)))))
    else
    (if t = LITERAL_NUMBER then
      bindM makeNumber (\<lambda>key.
      thenM advance
      ((ret ((Some key, False, False, False)))))
    else
    (if t = LITERAL_STRING then
      bindM makeString (\<lambda>key.
      thenM advance
      ((ret ((Some key, False, False, False)))))
    else
    (if t = PUNCTUATOR_LEFT_SQUARE_BRACKET then
      thenM advance
      (bindM (
        bindM (at LITERAL_IDENT) (\<lambda>t1.
        bindM Lookahead (\<lambda>t2.
        (if t1 \<and> t2 = LEX_CHAR_COLON then
          bindM makeIdentifier (\<lambda>key.
          thenM advance
          (thenM (expect PUNCTUATOR_COLON ([CHR 0x27] @ '':'' @ [CHR 0x27] @ '' expected''))
          (thenM advance
          (bindM (theType c TO_THROW_ERROR) (\<lambda>ty.
          bindM (nodeIs isNumberOrStringKeyword ty) (\<lambda>t3.
          thenM (throwIf (\<not> t3) (''An index signature parameter type must be either '' @ [CHR 0x27] @ ''string'' @ [CHR 0x27] @ '' or '' @ [CHR 0x27] @ ''number'' @ [CHR 0x27]))
          (thenM (onNodes (SetTsTypeAnnotation key (Some ty)))
          ((ret ((key, True)))))))))))
        else
        bindM (cExpression c EF_NO_OPTS) (\<lambda>key.
        (ret ((key, False)))))))) (\<lambda>(key, isIndex).
      thenM (expect PUNCTUATOR_RIGHT_SQUARE_BRACKET ([CHR 0x27] @ '']'' @ [CHR 0x27] @ '' expected''))
      (thenM advance
      ((ret ((Some key, True, False, isIndex)))))))
    else
    thenM (throwIf (t \<noteq> PUNCTUATOR_LEFT_PARENTHESIS \<and> t \<noteq> PUNCTUATOR_LESS_THAN \<and> kw \<noteq> KEYW_NEW) ''Unexpected token'')
    ((ret ((None, False, True, False)))))))))))"

text \<open>A member with parameters, from its opening parenthesis on.\<close>

definition signatureMember :: "parseCalls \<Rightarrow> nodeId option \<Rightarrow> nodeId option \<Rightarrow> bool \<Rightarrow> bool \<Rightarrow> bool \<Rightarrow> bool \<Rightarrow> nodeId parseM" where
  "signatureMember c key typeParams signature isConstruct computed isOptional =
    (functionParameterContext (\<lambda>paramScope.
      bindM (cFunctionParams c True) (\<lambda>params.
      bindM (colonType c (TO_THROW_ERROR OR TO_CAN_BE_TS_TYPE_PREDICATE)) (\<lambda>returnType.
      bindM (AllocNode (Ts (if signature then TSSignatureDeclaration paramScope isConstruct typeParams params returnType else TSMethodSignature paramScope key typeParams params returnType computed isOptional))) (\<lambda>member.
      thenM (BindNode paramScope (OtherNode member))
      ((ret member)))))))"

definition ParseTsTypeLiteralOrInterfaceMember :: "parseCalls \<Rightarrow> nodeId parseM" where
  "ParseTsTypeLiteralOrInterfaceMember c =
    bindM tokenStart (\<lambda>memberStart.
    bindM Lookahead (\<lambda>la.
    bindM (
      bindM (atKeyword KEYW_READONLY) (\<lambda>t1.
      (if t1 then
        (ret (la \<notin> {LEX_CHAR_LEFT_PAREN, LEX_CHAR_COLON, LEX_CHAR_COMMA, LEX_CHAR_LESS_THAN, LEX_CHAR_SEMICOLON}))
      else
      (ret False)))) (\<lambda>readonly.
    thenM (whenM (readonly)
      ((advance)))
    (bindM (ParseTsTypeLiteralOrInterfaceKey c) (\<lambda>(key, computed, signature, isIndex).
    bindM (at PUNCTUATOR_QUESTION_MARK) (\<lambda>isOptional.
    thenM (whenM (isOptional)
      (thenM (throwIf (isIndex) ([CHR 0x27] @ '';'' @ [CHR 0x27] @ '' expected''))
      ((advance))))
    (bindM (
      (if signature then
        (atKeyword KEYW_NEW)
      else
      (ret False))) (\<lambda>isConstruct.
    thenM (whenM (isConstruct)
      (thenM advance
      ((expectAny [PUNCTUATOR_LEFT_PARENTHESIS, PUNCTUATOR_LESS_THAN] ([CHR 0x27] @ ''('' @ [CHR 0x27] @ '' expected'')))))
    (bindM (
      bindM (at PUNCTUATOR_LESS_THAN) (\<lambda>t2.
      (if t2 then
        thenM (throwIf (isIndex) ([CHR 0x27] @ '';'' @ [CHR 0x27] @ '' expected''))
        (bindM (ParseTsTypeParameterDeclaration c True) (\<lambda>dcl.
        thenM (expect PUNCTUATOR_LEFT_PARENTHESIS ([CHR 0x27] @ ''('' @ [CHR 0x27] @ '' expected''))
        ((ret dcl))))
      else
      (ret None)))) (\<lambda>typeParams.
    bindM (
      bindM (at PUNCTUATOR_LEFT_PARENTHESIS) (\<lambda>t3.
      (if t3 \<and> \<not> isIndex then
        bindM (signatureMember c key typeParams signature isConstruct computed isOptional) (\<lambda>m.
        (ret ((Some m, None))))
      else
      bindM (at PUNCTUATOR_COLON) (\<lambda>t4.
      (if t4 then
        thenM advance
        (bindM (typeWith c (TO_THROW_ERROR OR TO_BREAK_AT_NEW_LINE)) (\<lambda>ty.
        (ret ((None, ty)))))
      else
      (if isIndex then
        (ThrowSyntaxErrorAt ''An index signature must have a type annotation.'' memberStart)
      else
      (ret ((None, None))))))))) (\<lambda>(member, typeAnnotation).
    bindM (case member of Some m \<Rightarrow> (if readonly then ThrowSyntaxErrorAt ([CHR 0x27] @ ''readonly'' @ [CHR 0x27] @ '' modifier can only appear on a property declaration or index signature.'') memberStart else ret m) | None \<Rightarrow> AllocNode (Ts (if isIndex then TSIndexSignature (orNull key) (orNull typeAnnotation) readonly else TSPropertySignature key typeAnnotation computed isOptional readonly))) (\<lambda>m.
    bindM tokenEnd (\<lambda>t5.
    thenM (onNodes (SetRange m memberStart t5))
    ((ret m)))))))))))))))"

primrec TypeLiteral_loop :: "parseCalls \<Rightarrow> nat \<Rightarrow> nodeId list \<Rightarrow> (nodeId list) parseM" where
  "TypeLiteral_loop c 0 ms = out_of_fuel"
| "TypeLiteral_loop c (Suc n) ms =
    bindM (at PUNCTUATOR_RIGHT_BRACE) (\<lambda>t1.
    (if t1 then
      (ret ms)
    else
    bindM (ParseTsTypeLiteralOrInterfaceMember c) (\<lambda>member.
    (let ms = ms @ [member] in
    bindM (at PUNCTUATOR_RIGHT_BRACE) (\<lambda>t2.
    (if t2 then
      (ret ms)
    else
    bindM (atAny [PUNCTUATOR_COMMA, PUNCTUATOR_SEMI_COLON]) (\<lambda>t3.
    (if \<not> t3 then
      bindM atNewLine (\<lambda>t4.
      thenM (throwIf (\<not> t4) ([CHR 0x27] @ '','' @ [CHR 0x27] @ '' expected''))
      (thenM (bindM GetToken (\<lambda>t5.
      whenM (IsKeyword t5)
        ((onLexer (setType LITERAL_IDENT)))))
      ((TypeLiteral_loop c n ms))))
    else
    thenM advanceIdent
    ((TypeLiteral_loop c n ms))))))))))"

definition ParseTsTypeLiteralOrInterface :: "parseCalls \<Rightarrow> (nodeId list) parseM" where
  "ParseTsTypeLiteralOrInterface c =
    thenM advanceIdent
    ((bounded (\<lambda>n. TypeLiteral_loop c n [])))"

definition ParseTsTypeLiteralOrTsMappedType :: "parseCalls \<Rightarrow> nodeId option \<Rightarrow> (nodeId option) parseM" where
  "ParseTsTypeLiteralOrTsMappedType c typeAnnotation =
    (if typeAnnotation \<noteq> None then
      (ret None)
    else
    bindM IsStartOfMappedType (\<lambda>t1.
    (if t1 then
      bindM (ParseTsMappedType c) (\<lambda>m.
      (ret (Some m)))
    else
    bindM tokenStart (\<lambda>bodyStart.
    bindM (ParseTsTypeLiteralOrInterface c) (\<lambda>members.
    bindM tokenEnd (\<lambda>bodyEnd.
    thenM advance
    (bindM (makeNode (TsType (TSTypeLiteral members)) bodyStart bodyEnd) (\<lambda>literalType.
    (ret (Some literalType))))))))))"

section \<open>Type annotations\<close>

text \<open>The end of the method: without an element there is an error if one is required.\<close>

definition noTypeElement :: "nodeId option \<Rightarrow> u32 \<Rightarrow> (nodeId option \<times> u32) parseM" where
  "noTypeElement typeAnnotation options =
    thenM (throwIf (typeAnnotation = None \<and> has options TO_THROW_ERROR) ''Type expected'')
    ((ret ((None, options))))"

definition typeElement :: "u32 \<Rightarrow> (nodeId option) parseM \<Rightarrow> (nodeId option \<times> u32) parseM" where
  "typeElement options m =
    bindM m (\<lambda>element.
    (ret ((element, options))))"

definition ParseTsTypeAnnotationElement :: "parseCalls \<Rightarrow> nodeId option \<Rightarrow> u32 \<Rightarrow> (nodeId option \<times> u32) parseM" where
  "ParseTsTypeAnnotationElement c typeAnnotation options =
    bindM tokenType (\<lambda>t.
    (let stop = noTypeElement typeAnnotation options in
    (let some = (\<lambda>m. bindM m (\<lambda>x. ret (Some x, options))) in
    (if t = PUNCTUATOR_BITWISE_OR then
      (if has options (TO_IN_UNION OR TO_IN_INTERSECTION) then
        (stop)
      else
      (some (ParseTsUnionType c typeAnnotation (has options TO_RESTRICT_EXTENDS))))
    else
    (if t = PUNCTUATOR_BITWISE_AND then
      (if has options TO_IN_INTERSECTION then
        (stop)
      else
      (some (ParseTsIntersectionType c typeAnnotation (has options TO_IN_UNION) (has options TO_RESTRICT_EXTENDS))))
    else
    (if t \<in> {PUNCTUATOR_LESS_THAN, PUNCTUATOR_LEFT_PARENTHESIS, KEYW_NEW} then
      (typeElement options (ParseTsParenthesizedOrFunctionType c typeAnnotation (has options TO_THROW_ERROR)))
    else
    (if t = PUNCTUATOR_LEFT_SQUARE_BRACKET then
      ((case typeAnnotation of Some ty \<Rightarrow> bindM Lookahead (\<lambda>la. if la = LEX_CHAR_RIGHT_SQUARE then some (ParseTsArrayType ty) else some (ParseTsIndexAccessType c ty)) | None \<Rightarrow> some (ParseTsTupleType c)))
    else
    (if t = PUNCTUATOR_LEFT_BRACE then
      (typeElement options (ParseTsTypeLiteralOrTsMappedType c typeAnnotation))
    else
    (if t \<in> {PUNCTUATOR_MINUS, LITERAL_NUMBER, LITERAL_STRING, LITERAL_FALSE, LITERAL_TRUE, LITERAL_NULL, KEYW_VOID} then
      (if typeAnnotation \<noteq> None then
        (stop)
      else
      (some ParseTsBasicType))
    else
    (if t = KEYW_TYPEOF then
      (if typeAnnotation \<noteq> None then
        (stop)
      else
      (some (ParseTsTypeReferenceOrQuery c True)))
    else
    (if t = KEYW_IMPORT then
      (if typeAnnotation \<noteq> None then
        (stop)
      else
      bindM tokenStart (\<lambda>start.
      (some (ParseTsImportType c start False))))
    else
    (if t = KEYW_CONST then
      (if \<not> (has options TO_ALLOW_CONST) then
        (stop)
      else
      bindM ParseTsConstExpression (\<lambda>ty.
      (ret ((Some ty, options AND NOT TO_ALLOW_CONST)))))
    else
    (if t = LITERAL_IDENT then
      bindM IsStartOfAbstractConstructorType (\<lambda>t1.
      (if t1 then
        (typeElement options (ParseTsParenthesizedOrFunctionType c typeAnnotation (has options TO_THROW_ERROR)))
      else
      (typeElement options (ParseTsTypeReferenceOrTsTypePredicate c typeAnnotation (has options TO_CAN_BE_TS_TYPE_PREDICATE)))))
    else
    (if t = KEYW_EXTENDS then
      (if has options (TO_IN_UNION OR TO_IN_INTERSECTION) then
        (stop)
      else
      ((case typeAnnotation of None \<Rightarrow> some (ParseTsIdentifierReference c) | Some ty \<Rightarrow> some (ParseTsConditionalType c ty (has options TO_RESTRICT_EXTENDS)))))
    else
    (if t = KEYW_THIS then
      (typeElement options (ParseTsThisTypeOrTsTypePredicate c typeAnnotation (has options TO_CAN_BE_TS_TYPE_PREDICATE) (has options TO_THROW_ERROR)))
    else
    (stop))))))))))))))))"

primrec TypeAnnotation_loop :: "parseCalls \<Rightarrow> nat \<Rightarrow> nodeId option \<Rightarrow> u32 \<Rightarrow> (nodeId option \<times> u32) parseM" where
  "TypeAnnotation_loop c 0 typeAnnotation options = out_of_fuel"
| "TypeAnnotation_loop c (Suc n) typeAnnotation options =
    bindM (ParseTsTypeAnnotationElement c typeAnnotation options) (\<lambda>(element, options).
    (let options = options AND NOT TO_CAN_BE_TS_TYPE_PREDICATE in
    (if element = None then
      (ret ((typeAnnotation, options)))
    else
    bindM atNewLine (\<lambda>t1.
    (if has options TO_BREAK_AT_NEW_LINE \<and> t1 then
      (ret ((element, options)))
    else
    (TypeAnnotation_loop c n element options))))))"

definition ParseTsTypeAnnotation :: "parseCalls \<Rightarrow> u32 \<Rightarrow> (nodeId option \<times> u32) parseM" where
  "ParseTsTypeAnnotation c options =
    (bounded (\<lambda>n. TypeAnnotation_loop c n None options))"

end
