(* ===== verification/PatternParser.thy ===== *)
theory PatternParser
  imports TypeParser
begin

text \<open>
  Patterns, parameters and functions: the methods of \<open>parser/parserImpl.cpp\<close> and \<open>parser/expressionParser.cpp\<close>
  for decorators, modifiers, spread elements, array and object literals with the patterns they may be,
  parameters and \<open>ParseFunction\<close>.
\<close>

section \<open>Helpers\<close>

text \<open>The result of a helper that throws at a position of its own.\<close>

definition throwAt :: "bool \<Rightarrow> string \<Rightarrow> sourcePosition \<Rightarrow> unit parseM" where
  "throwAt cond message pos =
    ((if cond then ThrowSyntaxErrorAt message pos else ret ()))"

text \<open>A validation that failed.\<close>

definition throwInfo :: "validationInfo \<Rightarrow> unit parseM" where
  "throwInfo info =
    ((case info of None \<Rightarrow> ret () | Some (message, pos) \<Rightarrow> ThrowSyntaxErrorAt message pos))"

text \<open>A node that has the range of another one.\<close>

definition makeNodeLike :: "nodeBody \<Rightarrow> nodeId \<Rightarrow> nodeId parseM" where
  "makeNodeLike b n =
    bindM (startOf n) (\<lambda>t1.
    bindM (endOf n) (\<lambda>t2.
    (makeNode b t1 t2)))"

definition setStart :: "nodeId \<Rightarrow> sourcePosition \<Rightarrow> unit parseM" where
  "setStart n pos =
    (onNodes (SetStart n pos))"

definition bodyNow :: "nodeId \<Rightarrow> nodeBody parseM" where
  "bodyNow n =
    (onNodes (bodyOf n))"

text \<open>The recursion over a tree is bounded by the number of its nodes.\<close>

definition overTree :: "(nat \<Rightarrow> 'a parseM) \<Rightarrow> 'a parseM" where
  "overTree m =
    bindM (getM (\<lambda>s. nodeCount (psNodes s))) (\<lambda>count.
    (m (Suc count)))"

definition CarryPatternFlags :: "u32 \<Rightarrow> u32" where
  "CarryPatternFlags flags =
    (flags AND (EF_POTENTIALLY_IN_PATTERN OR EF_OBJECT_PATTERN))"

section \<open>Decorators and modifiers\<close>

definition ParseDecorator :: "parseCalls \<Rightarrow> nodeId parseM" where
  "ParseDecorator c =
    bindM tokenStart (\<lambda>start.
    thenM advance
    (bindM (cLeftHandSide c EF_NO_OPTS) (\<lambda>expr.
    bindM (endOf expr) (\<lambda>t1.
    (makeNode (Part (Decorator expr)) start t1)))))"

primrec Decorators_loop :: "parseCalls \<Rightarrow> nat \<Rightarrow> nodeId list \<Rightarrow> (nodeId list) parseM" where
  "Decorators_loop c 0 ds = out_of_fuel"
| "Decorators_loop c (Suc n) ds =
    bindM (at PUNCTUATOR_AT) (\<lambda>t1.
    (if \<not> t1 then
      (ret ds)
    else
    bindM (ParseDecorator c) (\<lambda>d.
    (Decorators_loop c n (ds @ [d])))))"

definition ParseDecorators :: "parseCalls \<Rightarrow> (nodeId list) parseM" where
  "ParseDecorators c =
    bindM Status (\<lambda>saved.
    thenM (addStatus PS_IN_DECORATOR)
    (bindM (bounded (\<lambda>n. Decorators_loop c n [])) (\<lambda>decorators.
    bindM (at LITERAL_IDENT) (\<lambda>t1.
    bindM (if t1 then atKeyword KEYW_DECLARE else ret False) (\<lambda>isDeclare.
    thenM (bindM (at KEYW_CLASS) (\<lambda>t2.
    bindM (statusHas PS_IN_CLASS_BODY) (\<lambda>t3.
    bindM (at KEYW_EXPORT) (\<lambda>t4.
    whenM (decorators \<noteq> [] \<and> \<not> t2 \<and> \<not> t3 \<and> \<not> t4 \<and> \<not> isDeclare)
      (bindM (startOf (hd decorators)) (\<lambda>t5.
      (ThrowSyntaxErrorAt ''Decorators are not valid here.'' t5)))))))
    (thenM (setStatus saved)
    ((ret decorators))))))))"

definition IsModifierKind :: "token \<Rightarrow> bool" where
  "IsModifierKind t =
    (tokType t = LITERAL_IDENT \<and> keywordType t \<in> {KEYW_PUBLIC, KEYW_PRIVATE, KEYW_PROTECTED, KEYW_STATIC, KEYW_ASYNC, KEYW_ABSTRACT, KEYW_DECLARE, KEYW_READONLY})"

text \<open>The flag of a modifier and the flags of those that may follow it.\<close>

definition modifierOf :: "tokenType \<Rightarrow> (u32 \<times> u32) option" where
  "modifierOf k =
    (let access = MF_ASYNC OR MF_STATIC OR MF_READONLY OR MF_DECLARE OR MF_ABSTRACT in
     if k = KEYW_PUBLIC then Some (MF_PUBLIC, access)
     else if k = KEYW_PRIVATE then Some (MF_PRIVATE, access)
     else if k = KEYW_PROTECTED then Some (MF_PROTECTED, access)
     else if k = KEYW_STATIC then Some (MF_STATIC, MF_ASYNC OR MF_READONLY OR MF_DECLARE OR MF_ABSTRACT)
     else if k = KEYW_ASYNC then Some (MF_ASYNC, MF_READONLY OR MF_DECLARE OR MF_ABSTRACT)
     else if k = KEYW_ABSTRACT then Some (MF_ABSTRACT, MF_ACCESS OR MF_ASYNC OR MF_STATIC OR MF_READONLY OR MF_DECLARE)
     else if k = KEYW_DECLARE then Some (MF_DECLARE, MF_ACCESS OR MF_ASYNC OR MF_STATIC OR MF_READONLY)
     else if k = KEYW_READONLY then Some (MF_READONLY, MF_ASYNC OR MF_DECLARE OR MF_ABSTRACT)
     else None)"

definition ThrowParameterModifierError :: "u32 \<Rightarrow> unit parseM" where
  "ThrowParameterModifierError status =
    (let modifier = (if has status MF_STATIC then ''static'' else if has status MF_ASYNC then ''async'' else ''declare'') in
    (ThrowSyntaxError ([CHR 0x27] @ modifier @ ([CHR 0x27] @ '' modifier cannot appear on a parameter.''))))"

definition mayBeModifier :: "scriptExtension \<Rightarrow> char32 \<Rightarrow> bool" where
  "mayBeModifier ext nextCp =
    ((ext = JS \<and> nextCp \<noteq> LEX_CHAR_LEFT_PAREN) \<or> (ext = TS \<and> nextCp \<notin> {LEX_CHAR_EQUALS, LEX_CHAR_SEMICOLON, LEX_CHAR_LEFT_PAREN}))"

primrec Modifiers_loop :: "nat \<Rightarrow> u32 \<Rightarrow> u32 \<Rightarrow> u32 parseM" where
  "Modifiers_loop 0 result prev = out_of_fuel"
| "Modifiers_loop (Suc n) result prev =
    bindM GetToken (\<lambda>t.
    (if \<not> IsModifierKind t then
      (ret result)
    else
    bindM Lookahead (\<lambda>nextCp.
    bindM Extension (\<lambda>t1.
    (if \<not> mayBeModifier t1 nextCp then
      (ret result)
    else
    thenM (throwIf (hasFlag t TF_HAS_ESCAPE) ''Keyword must not contain escaped characters'')
    (bindM (deref (modifierOf (keywordType t))) (\<lambda>(actual, following).
    (if nextCp \<in> {LEX_CHAR_COLON, LEX_CHAR_COMMA, LEX_CHAR_RIGHT_PAREN, LEX_CHAR_QUESTION, LEX_CHAR_RIGHT_BRACE, LEX_CHAR_LESS_THAN} then
      (ret result)
    else
    bindM savePosition (\<lambda>pos.
    thenM advanceIdent
    (thenM (whenM (\<not> has prev actual)
      (thenM (rewindTo pos)
      ((ThrowSyntaxError ''Unexpected modifier''))))
    (thenM (whenM (has result actual)
      (thenM (rewindTo pos)
      ((ThrowSyntaxError ''Duplicated modifier is not allowed''))))
    (thenM (bindM (statusHas PS_CONSTRUCTOR_FUNCTION) (\<lambda>t2.
    whenM (t2 \<and> has actual (NOT MF_ALLOWED_IN_CTOR_PARAMETER))
      (thenM (rewindTo pos)
      ((ThrowParameterModifierError actual)))))
    ((Modifiers_loop n (result OR actual) following))))))))))))))"

definition ParseModifiers :: "u32 parseM" where
  "ParseModifiers =
    (bounded (\<lambda>n. Modifiers_loop n MF_NONE MF_ALL))"

section \<open>Parameters of TypeScript and spread elements\<close>

definition ParsePotentialTsFunctionParameter :: "parseCalls \<Rightarrow> u32 \<Rightarrow> nodeId \<Rightarrow> bool \<Rightarrow> unit parseM" where
  "ParsePotentialTsFunctionParameter c flags returnNode isDeclare =
    bindM isTs (\<lambda>t1.
    bindM (statusHas PS_FUNCTION_PARAM) (\<lambda>t2.
    (if \<not> t1 \<or> \<not> t2 then
      (ret (()))
    else
    bindM (nodeIs isIdentifier returnNode) (\<lambda>isIdent.
    bindM (nodeIs (\<lambda>b. isArrayPattern b \<or> isObjectPattern b) returnNode) (\<lambda>isPattern.
    bindM (
      bindM (at PUNCTUATOR_QUESTION_MARK) (\<lambda>t3.
      (if t3 then
        thenM (throwIf (has flags EF_IN_REST) ''A rest parameter cannot be optional'')
        (thenM (throwIf (\<not> isDeclare \<and> isPattern) ''A binding pattern parameter cannot be optional in an implementation signature'')
        (thenM (whenM (isIdent \<or> isPattern)
          ((onNodes (SetOptional returnNode))))
        (thenM advance
        ((ret True)))))
      else
      (ret False)))) (\<lambda>isOptional.
    thenM (bindM (at PUNCTUATOR_COLON) (\<lambda>t4.
    whenM (t4)
      (thenM advance
      (bindM (typeWith c TO_THROW_ERROR) (\<lambda>ty.
      (onNodes (SetTsTypeAnnotation returnNode ty)))))))
    (bindM (at PUNCTUATOR_SUBSTITUTION) (\<lambda>t5.
    whenM (t5)
      (thenM (throwIf (has flags EF_IN_REST) ''A rest parameter cannot have an initializer'')
      ((throwIf (isIdent \<and> isOptional) ''Parameter cannot have question mark and initializer'')))))))))))"

definition ParseSpreadElement :: "parseCalls \<Rightarrow> u32 \<Rightarrow> nodeId parseM" where
  "ParseSpreadElement c flags =
    bindM tokenStart (\<lambda>startLocation.
    (let inPattern = has flags EF_MUST_BE_PATTERN in
    thenM advance
    (bindM (
      (if inPattern then
        bindM (cPatternElement c EF_IN_REST True False) (\<lambda>argument.
        bindM (nodeIs isIdentifier argument) (\<lambda>t1.
        thenM (throwIf (has flags EF_OBJECT_PATTERN \<and> \<not> t1) ''RestParameter must be followed by an identifier in declaration contexts'')
        ((ret argument))))
      else
      (cExpression c flags))) (\<lambda>argument.
    bindM (colonType c TO_THROW_ERROR) (\<lambda>typeAnnotation.
    bindM (nodeIs isAssignmentExpression argument) (\<lambda>t2.
    thenM (throwIf (inPattern \<and> t2) ''RestParameter does not support an initializer'')
    (bindM (case typeAnnotation of Some ty \<Rightarrow> endOf ty | None \<Rightarrow> endOf argument) (\<lambda>endLoc.
    (let kind = (if inPattern then RestElement else SpreadElement) in
    (makeNode (Part (kind argument typeAnnotation)) startLocation endLoc))))))))))"

section \<open>Array literals\<close>

text \<open>A parameter of an arrow function that has not been read yet may have an annotation.\<close>

definition potentialParameter :: "parseCalls \<Rightarrow> u32 \<Rightarrow> nodeId \<Rightarrow> unit parseM" where
  "potentialParameter c flags n =
    bindM tokenType (\<lambda>t.
    bindM isTs (\<lambda>t1.
    whenM (t1 \<and> has flags EF_ALLOW_TS_PARAM_TOKEN \<and> IsTsParamToken t)
      (thenM (addStatus PS_FUNCTION_PARAM)
      ((ParsePotentialTsFunctionParameter c EF_NO_OPTS n False)))))"

primrec ArrayElements_loop :: "parseCalls \<Rightarrow> bool \<Rightarrow> sourcePosition \<Rightarrow> nat \<Rightarrow> nodeId list \<Rightarrow> (nodeId list \<times> bool) parseM" where
  "ArrayElements_loop c inPattern startLoc 0 es = out_of_fuel"
| "ArrayElements_loop c inPattern startLoc (Suc n) es =
    bindM (at PUNCTUATOR_RIGHT_SQUARE_BRACKET) (\<lambda>t1.
    (if t1 then
      (ret ((es, False)))
    else
    bindM (at PUNCTUATOR_COMMA) (\<lambda>t2.
    (if t2 then
      bindM (makeTokenNode (Expr OmittedExpression)) (\<lambda>omitted.
      thenM advance
      ((ArrayElements_loop c inPattern startLoc n (es @ [omitted]))))
    else
    bindM (
      (if inPattern then
        (cPatternElement c EF_NO_OPTS True False)
      else
      bindM (at PUNCTUATOR_PERIOD_PERIOD_PERIOD) (\<lambda>t3.
      (if t3 then
        (ParseSpreadElement c EF_POTENTIALLY_IN_PATTERN)
      else
      (cExpression c EF_POTENTIALLY_IN_PATTERN))))) (\<lambda>element.
    bindM (nodeIs isRestElement element) (\<lambda>containsRest.
    (let es = es @ [element] in
    bindM (at PUNCTUATOR_COMMA) (\<lambda>t4.
    (if t4 then
      thenM (throwAt containsRest ''Rest element must be last element'' startLoc)
      (thenM advance
      (bindM (at PUNCTUATOR_RIGHT_SQUARE_BRACKET) (\<lambda>t5.
      (if t5 then
        (ret ((es, True)))
      else
      (ArrayElements_loop c inPattern startLoc n es)))))
    else
    thenM (expect PUNCTUATOR_RIGHT_SQUARE_BRACKET (''Unexpected token, expected '' @ [CHR 0x27] @ '','' @ [CHR 0x27] @ '' or '' @ [CHR 0x27] @ '']'' @ [CHR 0x27]))
    ((ArrayElements_loop c inPattern startLoc n es)))))))))))"

text \<open>The checks at the end of an array or object literal that is not nested in another one.\<close>

definition checkLiteral :: "u32 \<Rightarrow> bool \<Rightarrow> (nodeId \<Rightarrow> bool nodeM) \<Rightarrow> (nodeId \<Rightarrow> validationInfo nodeM) \<Rightarrow> nodeId \<Rightarrow> unit parseM" where
  "checkLiteral flags inPattern convertible validate n =
    bindM (at PUNCTUATOR_SUBSTITUTION) (\<lambda>assigned.
    whenM (\<not> has flags EF_POTENTIALLY_IN_PATTERN)
      (bindM (if assigned then onNodes (convertible n) else ret True) (\<lambda>ok.
      (if \<not> ok then
        bindM (startOf n) (\<lambda>t1.
        (ThrowSyntaxErrorAt ''Invalid left-hand side in array destructuring pattern'' t1))
      else
      (if \<not> inPattern \<and> \<not> assigned then
        bindM (onNodes (validate n)) (\<lambda>info.
        (throwInfo info))
      else
      ret ())))))"

definition convertArray :: "nodeId \<Rightarrow> bool nodeM" where
  "convertArray n = converting (\<lambda>k. ConvertibleToArrayPattern k n)"

definition convertObject :: "nodeId \<Rightarrow> bool nodeM" where
  "convertObject n = converting (\<lambda>k. ConvertibleToObjectPattern k n)"

definition validateArray :: "nodeId \<Rightarrow> validationInfo nodeM" where
  "validateArray n = validating (\<lambda>k. ArrayExpression_ValidateExpression k n)"

definition validateObject :: "nodeId \<Rightarrow> validationInfo nodeM" where
  "validateObject n = validating (\<lambda>k. ObjectExpression_ValidateExpression k n)"

definition ParseArrayExpression :: "parseCalls \<Rightarrow> u32 \<Rightarrow> nodeId parseM" where
  "ParseArrayExpression c flags =
    bindM tokenStart (\<lambda>startLoc.
    thenM advance
    ((let inPattern = has flags EF_MUST_BE_PATTERN in
    bindM (bounded (\<lambda>n. ArrayElements_loop c inPattern startLoc n [])) (\<lambda>(elements, trailingComma).
    (let kind = (if inPattern then ArrayPattern else ArrayExpression) in
    bindM tokenEnd (\<lambda>t1.
    bindM (makeNode (Expr (kind (newPattern elements trailingComma))) startLoc t1) (\<lambda>node.
    thenM advance
    (thenM (whenM (inPattern)
      ((onNodes (SetDeclaration node))))
    (thenM (potentialParameter c flags node)
    (thenM (checkLiteral flags inPattern convertArray validateArray node)
    ((ret node))))))))))))"

section \<open>Properties\<close>

definition CheckPropertyKeyAsycModifier :: "u32 \<Rightarrow> u32 parseM" where
  "CheckPropertyKeyAsycModifier methodStatus =
    bindM savePosition (\<lambda>asyncPos.
    thenM advance
    (bindM (atAny [PUNCTUATOR_LEFT_PARENTHESIS, PUNCTUATOR_COLON, PUNCTUATOR_COMMA, PUNCTUATOR_RIGHT_BRACE]) (\<lambda>t1.
    (if t1 then
      thenM (rewindTo asyncPos)
      ((ret methodStatus))
    else
    bindM atNewLine (\<lambda>t2.
    thenM (throwIf (t2) (''Async methods cannot have a line terminator between '' @ [CHR 0x27] @ ''async'' @ [CHR 0x27] @ '' and the property name''))
    ((ret (methodStatus OR PS_ASYNC_FUNCTION))))))))"

definition IsAccessorDelimiter :: "char32 \<Rightarrow> bool" where
  "IsAccessorDelimiter cp =
    (cp \<in> {LEX_CHAR_LEFT_PAREN, LEX_CHAR_COLON, LEX_CHAR_COMMA, LEX_CHAR_RIGHT_BRACE})"

definition IsShorthandDelimiter :: "char32 \<Rightarrow> bool" where
  "IsShorthandDelimiter cp =
    (cp \<in> {LEX_CHAR_EQUALS, LEX_CHAR_COMMA, LEX_CHAR_RIGHT_BRACE})"

definition ValidateAccessor :: "u32 \<Rightarrow> token \<Rightarrow> unit parseM" where
  "ValidateAccessor flags t =
    thenM (throwIf (has flags EF_MUST_BE_PATTERN) ''Unexpected token'')
    ((throwIf (hasFlag t TF_HAS_ESCAPE) ''Keyword must not contain escaped characters''))"

definition newProperty :: "propertyKind \<Rightarrow> nodeId \<Rightarrow> nodeId \<Rightarrow> bool \<Rightarrow> bool \<Rightarrow> propertyNode" where
  "newProperty kind key val isMethod isComputed =
    \<lparr>pKind = kind, pKey = key, pValue = val, pMethod = isMethod, pShorthand = False, pComputed = isComputed\<rparr>"

definition shorthandProperty :: "nodeId \<Rightarrow> nodeId \<Rightarrow> propertyNode" where
  "shorthandProperty key val =
    \<lparr>pKind = PK_INIT, pKey = key, pValue = val, pMethod = False, pShorthand = True, pComputed = False\<rparr>"

definition ParseShorthandProperty :: "parseCalls \<Rightarrow> lexerPosition \<Rightarrow> nodeId parseM" where
  "ParseShorthandProperty c startPos =
    bindM Lookahead (\<lambda>nextCp.
    bindM tokenKeyword (\<lambda>keyword.
    thenM (rewindTo startPos)
    (thenM advance
    (bindM tokenStart (\<lambda>start.
    thenM (expect LITERAL_IDENT ''Expected an identifier'')
    (bindM tokenKeyword (\<lambda>kw.
    thenM (throwIf (KEYW_PRIVATE \<le> kw \<and> kw \<le> KEYW_DECLARE) '' Unexpected reserved word'')
    (bindM makeIdentifier (\<lambda>key.
    bindM makeReference (\<lambda>value.
    bindM (
      (if nextCp = LEX_CHAR_EQUALS then
        thenM (throwIf (keyword = KEYW_EVAL) (''eval can'' @ [CHR 0x27] @ ''t be defined or assigned to in strict mode code''))
        (thenM advance
        (thenM advance
        (bindM (cExpression c EF_NO_OPTS) (\<lambda>rightNode.
        bindM (endOf rightNode) (\<lambda>e.
        bindM (startOf value) (\<lambda>t1.
        bindM (makeNode (Expr (AssignmentPattern value rightNode PUNCTUATOR_SUBSTITUTION)) t1 e) (\<lambda>n.
        (ret ((n, e))))))))))
      else
      bindM tokenEnd (\<lambda>e.
      thenM advance
      ((ret ((value, e))))))) (\<lambda>(value, endPos).
    (makeNode (Part (Property (shorthandProperty key value))) start endPos))))))))))))"

text \<open>True: the property is a shorthand.  The kind and the status of the method come back with it.\<close>

definition ParsePropertyModifiers :: "u32 \<Rightarrow> u32 \<Rightarrow> (bool \<times> propertyKind \<times> u32) parseM" where
  "ParsePropertyModifiers flags methodStatus =
    bindM (
      bindM (getM (\<lambda>s. IsAsyncModifier (tok (psLexer s)))) (\<lambda>t1.
      (if t1 then
        (CheckPropertyKeyAsycModifier methodStatus)
      else
      (ret methodStatus)))) (\<lambda>methodStatus.
    bindM (
      bindM (at PUNCTUATOR_MULTIPLY) (\<lambda>t2.
      (if t2 then
        thenM (throwIf (has flags EF_MUST_BE_PATTERN) ''Unexpected token'')
        (thenM advance
        ((ret (methodStatus OR PS_GENERATOR_FUNCTION))))
      else
      (ret methodStatus)))) (\<lambda>methodStatus.
    bindM GetToken (\<lambda>t.
    bindM Lookahead (\<lambda>nextCp.
    (let accessor = keywordType t \<in> {KEYW_GET, KEYW_SET} \<and> \<not> IsAccessorDelimiter nextCp in
    (if accessor then
      thenM (ValidateAccessor flags t)
      (thenM advanceIdent
      ((ret ((False, if keywordType t = KEYW_GET then PK_GET else PK_SET, methodStatus)))))
    else
    (ret ((IsShorthandDelimiter nextCp \<and> \<not> has methodStatus PS_ASYNC_FUNCTION, PK_INIT, methodStatus)))))))))"

definition ParseGeneratorPropertyModifier :: "u32 \<Rightarrow> u32 \<Rightarrow> u32 parseM" where
  "ParseGeneratorPropertyModifier flags methodStatus =
    thenM (throwIf (has flags EF_MUST_BE_PATTERN) ''Unexpected token'')
    (thenM advanceIdent
    ((ret (methodStatus OR PS_GENERATOR_FUNCTION))))"

definition ParsePropertyKey :: "parseCalls \<Rightarrow> u32 \<Rightarrow> nodeId parseM" where
  "ParsePropertyKey c flags =
    bindM tokenType (\<lambda>t.
    bindM (
      (if t = LITERAL_IDENT then
        (makeIdentifier)
      else
      (if t = LITERAL_STRING then
        (makeString)
      else
      (if t = LITERAL_NUMBER then
        (makeNumber)
      else
      (if t = PUNCTUATOR_LEFT_SQUARE_BRACKET then
        thenM advance
        (bindM (cExpression c (flags OR EF_ACCEPT_COMMA)) (\<lambda>key.
        thenM (expect PUNCTUATOR_RIGHT_SQUARE_BRACKET (''Unexpected token, expected '' @ [CHR 0x27] @ '']'' @ [CHR 0x27]))
        ((ret key))))
      else
      (ThrowSyntaxError ''Unexpected token in property key'')))))) (\<lambda>key.
    thenM advance
    ((ret key))))"

section \<open>Blocks, parameters and functions\<close>

text \<open>ParseBlockStatement with the scope of the block, and with a scope of its own.\<close>

definition ParseBlockStatement :: "parseCalls \<Rightarrow> scopeId \<Rightarrow> nodeId parseM" where
  "ParseBlockStatement c sc =
    bindM tokenStart (\<lambda>startLoc.
    thenM advance
    (bindM (cStatementList c SP_ALLOW_LEXICAL) (\<lambda>statements.
    thenM (expect PUNCTUATOR_RIGHT_BRACE (''Expected a '' @ [CHR 0x27] @ ''}'' @ [CHR 0x27]))
    (bindM tokenEnd (\<lambda>t1.
    bindM (makeNode (Stmt (BlockStatement sc statements)) startLoc t1) (\<lambda>blockNode.
    thenM (BindNode sc (OtherNode blockNode))
    (thenM advance
    ((ret blockNode)))))))))"

definition ParseLocalBlockStatement :: "parseCalls \<Rightarrow> nodeId parseM" where
  "ParseLocalBlockStatement c =
    (lexicalScope LocalScope (\<lambda>sc.
      (ParseBlockStatement c sc)))"

definition CreateTsParameterProperty :: "nodeId \<Rightarrow> u32 \<Rightarrow> nodeBody parseM" where
  "CreateTsParameterProperty parameter modifiers =
    (let accessibility = (if has modifiers MF_PRIVATE then AO_PRIVATE else if has modifiers MF_PUBLIC then AO_PUBLIC else if has modifiers MF_PROTECTED then AO_PROTECTED else AO_NO_OPTS) in
    (ret (Ts (TSParameterProperty accessibility parameter (has modifiers MF_READONLY) (has modifiers MF_STATIC) False))))"

text \<open>A pattern, or a pattern with a default value.\<close>

definition isBindingPattern :: "nodeTable \<Rightarrow> nodeBody \<Rightarrow> bool" where
  "isBindingPattern t b =
    (isArrayPattern b \<or> isObjectPattern b \<or> (case b of Expr (AssignmentPattern l _ _) \<Rightarrow> isArrayPattern (nBody (nodeAt t l)) \<or> isObjectPattern (nBody (nodeAt t l)) | _ \<Rightarrow> False))"

definition ParseFunctionParameter :: "parseCalls \<Rightarrow> bool \<Rightarrow> nodeId parseM" where
  "ParseFunctionParameter c isDeclare =
    thenM (bindM isTs (\<lambda>t1.
    bindM (atKeyword KEYW_THIS) (\<lambda>t2.
    whenM (t1 \<and> t2)
      ((onLexer (setType LITERAL_IDENT))))))
    (bindM tokenStart (\<lambda>parameterStart.
    bindM ParseModifiers (\<lambda>modifiers.
    bindM (statusHas PS_CONSTRUCTOR_FUNCTION) (\<lambda>t3.
    thenM (throwAt (\<not> t3 \<and> modifiers \<noteq> MF_NONE) ''A parameter property is only allowed in a constructor implementation.'' parameterStart)
    (bindM GetToken (\<lambda>t.
    thenM (throwIf (tokType t = LITERAL_IDENT \<and> keywordType t \<in> {KEYW_ARGUMENTS, KEYW_EVAL}) ([CHR 0x27] @ ''eval'' @ [CHR 0x27] @ '' or '' @ [CHR 0x27] @ ''arguments'' @ [CHR 0x27] @ '' can'' @ [CHR 0x27] @ ''t be defined or assigned to in strict mode code''))
    (bindM (cPatternElement c EF_NO_OPTS True isDeclare) (\<lambda>parameter.
    bindM (nodeIs isRestElement parameter) (\<lambda>isRest.
    thenM (throwAt (modifiers \<noteq> MF_NONE \<and> isRest) ''A parameter property cannot be declared using a rest parameter.'' parameterStart)
    (bindM (getM psNodes) (\<lambda>table.
    bindM (nodeIs (isBindingPattern table) parameter) (\<lambda>isPattern.
    thenM (throwAt (modifiers \<noteq> MF_NONE \<and> isPattern) ''A parameter property may not be declared using a binding pattern.'' parameterStart)
    (bindM (
      (if modifiers \<noteq> MF_NONE then
        bindM (CreateTsParameterProperty parameter modifiers) (\<lambda>b.
        bindM (endOf parameter) (\<lambda>t4.
        (makeNode b parameterStart t4)))
      else
      (ret parameter))) (\<lambda>parameter.
    bindM (addParamDecl parameter) (\<lambda>dcl.
    (ret parameter))))))))))))))))"

text \<open>The answer is whether an optional parameter has been seen.\<close>

definition ValidateFunctionParam :: "nodeId list \<Rightarrow> nodeId \<Rightarrow> bool \<Rightarrow> bool parseM" where
  "ValidateFunctionParam params parameter seenOptional =
    bindM (bodyNow parameter) (\<lambda>b.
    bindM Extension (\<lambda>ext.
    (if \<not> isIdentifier b then
      thenM (addStatus PS_HAS_COMPLEX_PARAM)
      ((if \<not> isRestElement b then
        (ret seenOptional)
      else
      bindM (at PUNCTUATOR_RIGHT_PARENTHESIS) (\<lambda>t1.
      thenM (throwIf (ext = JS \<and> \<not> t1) ''Rest parameter must be last formal parameter'')
      (bindM (at PUNCTUATOR_RIGHT_PARENTHESIS) (\<lambda>t2.
      thenM (throwIf (ext \<noteq> JS \<and> \<not> t2) ''A rest parameter must be last in parameter list'')
      ((ret seenOptional)))))))
    else
    (if ext \<noteq> TS then
      (ret seenOptional)
    else
    (let currentIsOptional = (case b of Expr (Identifier i) \<Rightarrow> has (iFlags i) IF_OPTIONAL | _ \<Rightarrow> False) in
    thenM (throwIf (seenOptional \<and> \<not> currentIsOptional) ''A required parameter cannot follow an optional parameter'')
    (bindM (identName parameter) (\<lambda>paramName.
    thenM (whenM (paramName = asciiText ''this'')
      (thenM (throwIf (params \<noteq> []) (''A '' @ [CHR 0x27] @ ''this'' @ [CHR 0x27] @ '' parameter must be the first parameter''))
      (bindM (statusHas PS_CONSTRUCTOR_FUNCTION) (\<lambda>t3.
      thenM (throwIf (t3) (''A constructor cannot have a '' @ [CHR 0x27] @ ''this'' @ [CHR 0x27] @ '' parameter''))
      (bindM (statusHas PS_ARROW_FUNCTION) (\<lambda>t4.
      thenM (throwIf (t4) (''An arrow function cannot have a '' @ [CHR 0x27] @ ''this'' @ [CHR 0x27] @ '' parameter''))
      (bindM (statusHas PS_ACCESSOR_FUNCTION) (\<lambda>t5.
      (throwIf (t5) ([CHR 0x27] @ ''get'' @ [CHR 0x27] @ '' and '' @ [CHR 0x27] @ ''set'' @ [CHR 0x27] @ '' accessors cannot declare '' @ [CHR 0x27] @ ''this'' @ [CHR 0x27] @ '' parameters''))))))))))
    (bindM (statusHas PS_CONSTRUCTOR_FUNCTION) (\<lambda>t6.
    thenM (throwIf (paramName = asciiText ''constructor'' \<and> t6) ([CHR 0x27] @ ''constructor'' @ [CHR 0x27] @ '' cannot be used as a parameter property name''))
    ((ret (seenOptional \<or> currentIsOptional))))))))))))"

primrec FunctionParams_loop :: "parseCalls \<Rightarrow> bool \<Rightarrow> nat \<Rightarrow> bool \<Rightarrow> nodeId list \<Rightarrow> (nodeId list) parseM" where
  "FunctionParams_loop c isDeclare 0 seenOptional params = out_of_fuel"
| "FunctionParams_loop c isDeclare (Suc n) seenOptional params =
    bindM (at PUNCTUATOR_RIGHT_PARENTHESIS) (\<lambda>t1.
    (if t1 then
      (ret params)
    else
    bindM (ParseFunctionParameter c isDeclare) (\<lambda>parameter.
    bindM (ValidateFunctionParam params parameter seenOptional) (\<lambda>seenOptional.
    thenM (expectAny [PUNCTUATOR_COMMA, PUNCTUATOR_RIGHT_PARENTHESIS] '', expected'')
    (thenM (bindM (at PUNCTUATOR_COMMA) (\<lambda>t2.
    whenM (t2)
      ((advance))))
    ((FunctionParams_loop c isDeclare n seenOptional (params @ [parameter]))))))))"

definition ParseFunctionParams :: "parseCalls \<Rightarrow> bool \<Rightarrow> (nodeId list) parseM" where
  "ParseFunctionParams c isDeclare =
    thenM advance
    (bindM (bounded (\<lambda>n. FunctionParams_loop c isDeclare n False [])) (\<lambda>params.
    thenM advance
    ((ret params))))"

fun ValidateTsFunctionOverloadParams :: "nodeId list \<Rightarrow> unit parseM" where
  "ValidateTsFunctionOverloadParams [] = ret ()"
| "ValidateTsFunctionOverloadParams (it # rest) =
    bindM (nodeIs isAssignmentPattern it) (\<lambda>bad. bindM (startOf it) (\<lambda>pos.
    thenM (throwAt bad ''A parameter initializer is only allowed in a function or constructor implementation.'' pos)
      (ValidateTsFunctionOverloadParams rest)))"

definition newFunction ::
  "scopeId \<Rightarrow> nodeId list \<Rightarrow> nodeId option \<Rightarrow> nodeId option \<Rightarrow> nodeId option \<Rightarrow> u32 \<Rightarrow> bool \<Rightarrow> scriptFunctionNode" where
  "newFunction sc params typeParams body returnType flags isDeclare =
    \<lparr>fScope = sc, fIdent = None, fParams = params, fTypeParams = typeParams, fBody = body,
     fReturnType = returnType, fFlags = flags, fDeclare = isDeclare\<rparr>"

text \<open>The scope of the parameters and the scope of the body refer to each other and to the function.\<close>

definition joinScopes :: "scopeId \<Rightarrow> scopeId \<Rightarrow> unit parseM" where
  "joinScopes funScope parScope =
    thenM (onScopes (BindParamScope funScope parScope))
    ((onScopes (BindFunctionScope parScope funScope)))"

definition bindFunctionNode :: "scopeId \<Rightarrow> scopeId \<Rightarrow> nodeId \<Rightarrow> u32 \<Rightarrow> unit parseM" where
  "bindFunctionNode funScope parScope funcNode flags =
    (let ref = ScriptFunction funcNode (has flags SF_ARROW) in
    thenM (BindNode funScope ref)
    ((BindNode parScope ref)))"

text \<open>The body or its absence: the body, the end, the flags and whether the declaration lets the function be ambient.\<close>

definition ParseFunctionBody :: "parseCalls \<Rightarrow> u32 \<Rightarrow> bool \<Rightarrow> u32 \<Rightarrow> nodeId list \<Rightarrow> scopeId \<Rightarrow> (nodeId option \<times> sourcePosition \<times> u32 \<times> bool) parseM" where
  "ParseFunctionBody c newStatus isDeclare flags params funScope =
    bindM tokenEnd (\<lambda>endLoc.
    thenM (
      (if has newStatus PS_ASYNC_FUNCTION then
        (dropStatus PS_DISALLOW_AWAIT)
      else
      (addStatus PS_DISALLOW_AWAIT)))
    (thenM (whenM (has newStatus PS_GENERATOR_FUNCTION)
      ((addStatus PS_ALLOW_YIELD)))
    (bindM (at PUNCTUATOR_LEFT_BRACE) (\<lambda>t1.
    (if \<not> t1 then
      bindM isTs (\<lambda>t2.
      (if t2 \<and> has newStatus PS_FUNCTION_DECLARATION then
        thenM (ValidateTsFunctionOverloadParams params)
        ((ret ((None, endLoc, flags OR SF_OVERLOAD, True))))
      else
      bindM (statusHas PS_IN_METHOD_DEFINITION) (\<lambda>t3.
      thenM (throwIf (\<not> isDeclare \<and> \<not> t3) (''Unexpected token, expected '' @ [CHR 0x27] @ ''{'' @ [CHR 0x27]))
      ((ret ((None, endLoc, flags OR SF_OVERLOAD, False)))))))
    else
    thenM (throwIf (isDeclare) ''An implementation cannot be declared in ambient contexts.'')
    (bindM (ParseBlockStatement c funScope) (\<lambda>body.
    bindM (endOf body) (\<lambda>e.
    (ret ((Some body, e, flags, True)))))))))))"

definition ParseFunction :: "parseCalls \<Rightarrow> u32 \<Rightarrow> bool \<Rightarrow> nodeId parseM" where
  "ParseFunction c newStatus isDeclare =
    (let contextStatus = newStatus OR PS_FUNCTION OR PS_ALLOW_NEW_TARGET in
    (let flags = functionContextFlags contextStatus in
    (savedContext contextStatus [] (
      (functionParameterContext (\<lambda>parScope.
        bindM tokenStart (\<lambda>startLoc.
        bindM (
          bindM isTs (\<lambda>t1.
          bindM (at PUNCTUATOR_LESS_THAN) (\<lambda>t2.
          (if t1 \<and> t2 then
            (ParseTsTypeParameterDeclaration c True)
          else
          (ret None))))) (\<lambda>typeParamDecl.
        thenM (expect PUNCTUATOR_LEFT_PARENTHESIS (''Unexpected token, expected '' @ [CHR 0x27] @ ''('' @ [CHR 0x27]))
        (thenM (whenM (has newStatus (PS_ASYNC_FUNCTION OR PS_FUNCTION_DECLARATION))
          ((addStatus PS_DISALLOW_AWAIT)))
        (bindM (ParseFunctionParams c isDeclare) (\<lambda>params.
        bindM (tsColonType c (TO_THROW_ERROR OR TO_CAN_BE_TS_TYPE_PREDICATE)) (\<lambda>returnType.
        (lexicalScope FunctionScope (\<lambda>funScope.
          thenM (joinScopes funScope parScope)
          (bindM (ParseFunctionBody c newStatus isDeclare flags params funScope) (\<lambda>(body, endLoc, flags, letDeclare).
          bindM (AllocNode (Part (ScriptFunctionNode (newFunction funScope params typeParamDecl body returnType flags (isDeclare \<and> letDeclare))))) (\<lambda>funcNode.
          thenM (bindFunctionNode funScope parScope funcNode flags)
          (thenM (onNodes (SetRange funcNode startLoc endLoc))
          ((ret funcNode))))))))))))))))))))"

section \<open>Object literals\<close>

definition ParsePropertyValue :: "parseCalls \<Rightarrow> propertyKind \<Rightarrow> u32 \<Rightarrow> u32 \<Rightarrow> nodeId parseM" where
  "ParsePropertyValue c propertyKind methodStatus flags =
    (let inPattern = has flags EF_MUST_BE_PATTERN in
    (if \<not> has methodStatus PS_FUNCTION \<and> \<not> IsAccessorKind propertyKind then
      thenM (expect PUNCTUATOR_COLON (''Unexpected token, expected '' @ [CHR 0x27] @ '':'' @ [CHR 0x27]))
      (thenM advance
      ((if \<not> inPattern then
        (cExpression c flags)
      else
      (cPatternElement c EF_NO_OPTS True False))))
    else
    thenM (throwIf (inPattern) (''Object pattern can'' @ [CHR 0x27] @ ''t contain methods''))
    (bindM (ParseFunction c (methodStatus OR PS_FUNCTION OR PS_ALLOW_SUPER) False) (\<lambda>method.
    thenM (onNodes (AddFunctionFlag method SF_METHOD))
    (bindM (onNodes (functionNode method)) (\<lambda>f.
    bindM (makeNodeLike (Expr (FunctionExpression method)) method) (\<lambda>value.
    thenM (throwIf (propertyKind = PK_SET \<and> length (fParams f) \<noteq> 1) ''Setter must have exactly one formal parameter'')
    (thenM (throwIf (propertyKind = PK_GET \<and> fParams f \<noteq> []) ''Getter must not have formal parameters'')
    ((ret value))))))))))"

definition ParsePropertyDefinition :: "parseCalls \<Rightarrow> u32 \<Rightarrow> nodeId parseM" where
  "ParsePropertyDefinition c flags =
    bindM savePosition (\<lambda>startPos.
    thenM advanceIdent
    (bindM tokenStart (\<lambda>start.
    bindM (at PUNCTUATOR_PERIOD_PERIOD_PERIOD) (\<lambda>t1.
    (if t1 then
      (ParseSpreadElement c flags)
    else
    bindM (
      bindM (at LITERAL_IDENT) (\<lambda>t2.
      (if t2 then
        (ParsePropertyModifiers flags PS_NO_OPTS)
      else
      bindM (at PUNCTUATOR_MULTIPLY) (\<lambda>t3.
      (if t3 then
        bindM (ParseGeneratorPropertyModifier flags PS_NO_OPTS) (\<lambda>st.
        (ret ((False, PK_INIT, st))))
      else
      (ret ((False, PK_INIT, PS_NO_OPTS)))))))) (\<lambda>(shorthand, propertyKind, methodStatus).
    (if shorthand then
      (ParseShorthandProperty c startPos)
    else
    bindM (at PUNCTUATOR_LEFT_SQUARE_BRACKET) (\<lambda>isComputed.
    bindM (ParsePropertyKey c flags) (\<lambda>key.
    (let accessor = IsAccessorKind propertyKind in
    bindM (
      (if accessor then
        (ret False)
      else
      (atAny [PUNCTUATOR_LEFT_PARENTHESIS, PUNCTUATOR_LESS_THAN]))) (\<lambda>isMethod.
    thenM (throwIf (\<not> isMethod \<and> has methodStatus (PS_GENERATOR_FUNCTION OR PS_ASYNC_FUNCTION)) ''Unexpected identifier'')
    ((let methodStatus = (if isMethod then methodStatus OR PS_FUNCTION OR PS_ALLOW_SUPER else methodStatus) in
    (let propertyKind = (if isMethod then PK_INIT else propertyKind) in
    bindM (ParsePropertyValue c propertyKind methodStatus flags) (\<lambda>value.
    bindM (endOf value) (\<lambda>t4.
    (makeNode (Part (Property (newProperty propertyKind key value (methodStatus \<noteq> PS_NO_OPTS) isComputed))) start t4)))))))))))))))))"

definition ParsePropertyEnd :: "bool parseM" where
  "ParsePropertyEnd =
    thenM (expectAny [PUNCTUATOR_COMMA, PUNCTUATOR_RIGHT_BRACE] (''Unexpected token, expected '' @ [CHR 0x27] @ '','' @ [CHR 0x27] @ '' or '' @ [CHR 0x27] @ ''}'' @ [CHR 0x27]))
    (bindM (
      bindM (at PUNCTUATOR_COMMA) (\<lambda>t1.
      (if t1 then
        bindM Lookahead (\<lambda>t2.
        (ret (t2 = LEX_CHAR_RIGHT_BRACE)))
      else
      (ret False)))) (\<lambda>trailing.
    thenM (whenM (trailing)
      ((advance)))
    ((ret trailing))))"

primrec Properties_loop :: "parseCalls \<Rightarrow> u32 \<Rightarrow> nat \<Rightarrow> nodeId list \<Rightarrow> bool \<Rightarrow> (nodeId list \<times> bool) parseM" where
  "Properties_loop c flags 0 properties trailingComma = out_of_fuel"
| "Properties_loop c flags (Suc n) properties trailingComma =
    bindM (at PUNCTUATOR_RIGHT_BRACE) (\<lambda>t1.
    (if t1 then
      (ret ((properties, trailingComma)))
    else
    bindM (ParsePropertyDefinition c (flags OR EF_POTENTIALLY_IN_PATTERN)) (\<lambda>property.
    bindM ParsePropertyEnd (\<lambda>trailingComma.
    (Properties_loop c flags n (properties @ [property]) trailingComma)))))"

definition ParseObjectExpression :: "parseCalls \<Rightarrow> u32 \<Rightarrow> nodeId parseM" where
  "ParseObjectExpression c flags =
    bindM tokenStart (\<lambda>start.
    (let inPattern = has flags EF_MUST_BE_PATTERN in
    thenM (bindM Lookahead (\<lambda>t1.
    whenM (t1 = LEX_CHAR_RIGHT_BRACE)
      ((advance))))
    (bindM (bounded (\<lambda>n. Properties_loop c flags n [] False)) (\<lambda>(properties, trailingComma).
    (let kind = (if inPattern then ObjectPattern else ObjectExpression) in
    bindM tokenEnd (\<lambda>t2.
    bindM (makeNode (Expr (kind (newPattern properties trailingComma))) start t2) (\<lambda>node.
    thenM advance
    (thenM (whenM (inPattern)
      ((onNodes (SetDeclaration node))))
    (thenM (potentialParameter c flags node)
    (thenM (checkLiteral flags inPattern convertObject validateObject node)
    ((ret node))))))))))))"

section \<open>Pattern elements\<close>

definition ParsePatternElement :: "parseCalls \<Rightarrow> u32 \<Rightarrow> bool \<Rightarrow> bool \<Rightarrow> nodeId parseM" where
  "ParsePatternElement c flags allowDefault isDeclare =
    bindM (
      bindM (statusHas PS_IN_METHOD_DEFINITION) (\<lambda>t1.
      (if t1 then
        (ParseDecorators c)
      else
      (ret ([]))))) (\<lambda>decorators.
    bindM tokenType (\<lambda>t.
    bindM (
      (if t = PUNCTUATOR_LEFT_SQUARE_BRACKET then
        (ParseArrayExpression c EF_MUST_BE_PATTERN)
      else
      (if t = PUNCTUATOR_PERIOD_PERIOD_PERIOD then
        thenM (throwIf (has flags EF_IN_REST) ''Unexpected token'')
        ((ParseSpreadElement c EF_MUST_BE_PATTERN))
      else
      (if t = PUNCTUATOR_LEFT_BRACE then
        (ParseObjectExpression c (EF_MUST_BE_PATTERN OR EF_OBJECT_PATTERN))
      else
      (if t = LITERAL_IDENT then
        bindM makeReference (\<lambda>n.
        thenM (onNodes (modIdentifier n (\<lambda>i. i\<lparr>iDecorators := decorators\<rparr>)))
        (thenM (whenM (decorators \<noteq> [])
          (bindM (startOf (hd decorators)) (\<lambda>t2.
          (setStart n t2))))
        (thenM advance
        ((ret n)))))
      else
      (ThrowSyntaxError ''Unexpected token, expected an identifier.'')))))) (\<lambda>returnNode.
    thenM (ParsePotentialTsFunctionParameter c flags returnNode isDeclare)
    (bindM (at PUNCTUATOR_SUBSTITUTION) (\<lambda>t3.
    (if \<not> t3 then
      (ret returnNode)
    else
    thenM (throwIf (has flags EF_IN_REST) (''Unexpected token, expected '' @ [CHR 0x27] @ '')'' @ [CHR 0x27]))
    (thenM (throwIf (\<not> allowDefault) ''Invalid destructuring assignment target'')
    (thenM advance
    (bindM (statusHas PS_GENERATOR_FUNCTION) (\<lambda>t4.
    bindM (at KEYW_YIELD) (\<lambda>t5.
    thenM (throwIf (t4 \<and> t5) ''Yield is not allowed in generator parameters'')
    (bindM (cExpression c EF_NO_OPTS) (\<lambda>rightNode.
    bindM (startOf returnNode) (\<lambda>t6.
    bindM (endOf rightNode) (\<lambda>t7.
    (makeNode (Expr (AssignmentPattern returnNode rightNode PUNCTUATOR_SUBSTITUTION)) t6 t7))))))))))))))))"

end
