(* ===== verification/ExprParser.thy ===== *)
theory ExprParser
  imports PatternParser
begin

text \<open>
  Expressions: \<open>parser/expressionParser.cpp\<close> from \<open>ParseYieldExpression\<close> to \<open>ParseFunctionExpression\<close>, with the
  validation of assignment targets and of arrow parameters in \<open>parserImpl.cpp\<close>.

  An operator expression is read from the right: the right operand of a binary operator is a whole
  expression, and \<open>ParseBinaryExpression\<close> then moves the operator down the left edge of the tree it got
  (\<open>amendBinary\<close>).
\<close>

section \<open>Validation of targets\<close>

definition ValidateLvalueAssignmentTarget :: "nodeId \<Rightarrow> unit parseM" where
  "ValidateLvalueAssignmentTarget node =
    bindM (bodyNow node) (\<lambda>b.
    (if isIdentifier b then
      bindM tokenKeyword (\<lambda>k.
      thenM (throwIf (k = KEYW_ARGUMENTS) (''Assigning to '' @ [CHR 0x27] @ ''arguments'' @ [CHR 0x27] @ '' in strict mode is invalid''))
      ((throwIf (k = KEYW_EVAL) (''Assigning to '' @ [CHR 0x27] @ ''eval'' @ [CHR 0x27] @ '' in strict mode is invalid''))))
    else
    (throwIf (\<not> isMemberExpression b) ''Invalid left-hand side in assignment expression'')))"

definition isArrayExpression :: "nodeBody \<Rightarrow> bool" where
  "isArrayExpression b =
    (case b of Expr (ArrayExpression _) \<Rightarrow> True | _ \<Rightarrow> False)"

definition isObjectExpression :: "nodeBody \<Rightarrow> bool" where
  "isObjectExpression b =
    (case b of Expr (ObjectExpression _) \<Rightarrow> True | _ \<Rightarrow> False)"

definition ValidateAssignmentTarget :: "u32 \<Rightarrow> nodeId \<Rightarrow> unit parseM" where
  "ValidateAssignmentTarget flags node =
    bindM (bodyNow node) (\<lambda>b.
    (if isArrayPattern b \<or> isObjectPattern b then
      (ret (()))
    else
    (if (isArrayExpression b \<or> isObjectExpression b) \<and> has flags EF_POTENTIALLY_IN_PATTERN then
      (ret (()))
    else
    (ValidateLvalueAssignmentTarget node))))"

primrec ValidateArrowParameterBindings :: "nat \<Rightarrow> nodeId \<Rightarrow> unit parseM" where
  "ValidateArrowParameterBindings 0 node = out_of_fuel"
| "ValidateArrowParameterBindings (Suc k) node =
    bindM (bodyNow node) (\<lambda>b. case b of
      Expr (Identifier i) \<Rightarrow>
        bindM (statusHas PS_ASYNC_FUNCTION) (\<lambda>async. bindM (startOf node) (\<lambda>pos.
          throwAt (async \<and> iName i = asciiText ''await'')
            ([CHR 0x27] @ ''await'' @ [CHR 0x27] @ '' in formal parameter is invalid.'') pos))
    | Expr OmittedExpression \<Rightarrow> ret ()
    | Part (RestElement a _) \<Rightarrow> ValidateArrowParameterBindings k a
    | Part (Property _) \<Rightarrow> ret ()
    | Expr (ObjectPattern p) \<Rightarrow> inOrder (map (ValidateArrowParameterBindings k) (pElements p))
    | Expr (ArrayPattern p) \<Rightarrow> inOrder (map (ValidateArrowParameterBindings k) (pElements p))
    | Expr (AssignmentPattern l _ _) \<Rightarrow> ValidateArrowParameterBindings k l
    | _ \<Rightarrow> ThrowSyntaxError ''Unexpected ArrowParameter element'')"

definition validateBindings :: "nodeId \<Rightarrow> unit parseM" where
  "validateBindings node =
    (overTree (\<lambda>k. ValidateArrowParameterBindings k node))"

text \<open>The default value of a parameter.\<close>

definition ValidateArrowDefault :: "nodeId \<Rightarrow> nodeId \<Rightarrow> u32 parseM" where
  "ValidateArrowDefault expr rhs =
    bindM (bodyNow rhs) (\<lambda>b.
    thenM (throwIf ((case b of Expr (YieldExpression _ _) \<Rightarrow> True | _ \<Rightarrow> False)) ''yield is not allowed in arrow function parameters'')
    (thenM (throwIf ((case b of Expr (AwaitExpression _) \<Rightarrow> True | _ \<Rightarrow> False)) ''await is not allowed in arrow function parameters'')
    (bindM (onNodes (converting (\<lambda>k. ConvertibleToAssignmentPattern k expr True))) (\<lambda>ok.
    thenM (throwIf (\<not> ok) ''Invalid destructuring assignment target'')
    (thenM (validateBindings expr)
    ((ret PS_HAS_COMPLEX_PARAM)))))))"

text \<open>A parameter of an arrow function; the answer is the status it adds.\<close>

definition ValidateArrowParameter :: "nodeId \<Rightarrow> u32 parseM" where
  "ValidateArrowParameter expr =
    bindM (bodyNow expr) (\<lambda>b.
    ((case b of Part (SpreadElement a _) \<Rightarrow> thenM (bindM (onNodes (converting (\<lambda>k. ConvertibleToRest k expr True True))) (\<lambda>ok. throwIf (\<not> ok) ''Invalid rest element.'')) (thenM (validateBindings a) (ret PS_HAS_COMPLEX_PARAM)) | Part (RestElement a _) \<Rightarrow> thenM (validateBindings a) (ret PS_HAS_COMPLEX_PARAM) | Expr (Identifier i) \<Rightarrow> thenM (throwIf (iName i = asciiText ''arguments'') (''Binding '' @ [CHR 0x27] @ ''arguments'' @ [CHR 0x27] @ '' in strict mode is invalid'')) (thenM (throwIf (iName i = asciiText ''eval'') (''Binding '' @ [CHR 0x27] @ ''eval'' @ [CHR 0x27] @ '' in strict mode is invalid'')) (thenM (validateBindings expr) (ret PS_NO_OPTS))) | Expr (ObjectExpression _) \<Rightarrow> thenM (bindM (onNodes (convertObject expr)) (\<lambda>ok. throwIf (\<not> ok) ''Invalid destructuring assignment target'')) (thenM (validateBindings expr) (ret PS_HAS_COMPLEX_PARAM)) | Expr (ArrayExpression _) \<Rightarrow> thenM (bindM (onNodes (convertArray expr)) (\<lambda>ok. throwIf (\<not> ok) ''Invalid destructuring assignment target'')) (thenM (validateBindings expr) (ret PS_HAS_COMPLEX_PARAM)) | Expr (AssignmentExpression _ r _) \<Rightarrow> ValidateArrowDefault expr r | _ \<Rightarrow> ThrowSyntaxError ''Insufficient formal parameter in arrow function.'')))"

section \<open>Arrow functions\<close>

record arrowFunctionDescriptor =
  afParams :: "nodeId list"
  afParamScope :: scopeId
  afStartLoc :: sourcePosition
  afNewStatus :: u32

definition ParseArrowFunctionExpressionBody :: "parseCalls \<Rightarrow> u32 \<Rightarrow> scopeId \<Rightarrow> arrowFunctionDescriptor \<Rightarrow> nodeId option \<Rightarrow> nodeId option \<Rightarrow> nodeId parseM" where
  "ParseArrowFunctionExpressionBody c flags funScope desc typeParamDecl returnType =
    thenM (addStatus (afNewStatus desc))
    (thenM (joinScopes funScope (afParamScope desc))
    (thenM advance
    (bindM tokenStart (\<lambda>bodyStart.
    bindM (
      bindM (at PUNCTUATOR_LEFT_BRACE) (\<lambda>t1.
      (if \<not> t1 then
        bindM (cExpression c EF_NO_OPTS) (\<lambda>body.
        bindM (endOf body) (\<lambda>e.
        (ret ((body, e, flags OR SF_EXPRESSION)))))
      else
      thenM advance
      (bindM (cStatementList c SP_ALLOW_LEXICAL) (\<lambda>statements.
      bindM tokenEnd (\<lambda>t2.
      bindM (makeNode (Stmt (BlockStatement funScope statements)) bodyStart t2) (\<lambda>body.
      thenM (expect PUNCTUATOR_RIGHT_BRACE (''Expected a '' @ [CHR 0x27] @ ''}'' @ [CHR 0x27]))
      (thenM advance
      (bindM (endOf body) (\<lambda>e.
      (ret ((body, e, flags))))))))))))) (\<lambda>(body, endLoc, flags).
    bindM (makeNode (Part (ScriptFunctionNode (newFunction funScope (afParams desc) typeParamDecl (Some body) returnType flags False))) (afStartLoc desc) endLoc) (\<lambda>funcNode.
    thenM (bindFunctionNode funScope (afParamScope desc) funcNode flags)
    ((makeNodeLike (Expr (ArrowFunctionExpression funcNode)) funcNode))))))))"

fun ValidateArrowParameters :: "nodeId list \<Rightarrow> u32 \<Rightarrow> u32 parseM" where
  "ValidateArrowParameters [] st = ret st"
| "ValidateArrowParameters (it # rest) st =
    bindM (ValidateArrowParameter it) (\<lambda>new. ValidateArrowParameters rest (st OR new))"

fun addParamDecls :: "nodeId list \<Rightarrow> unit parseM" where
  "addParamDecls [] = ret ()"
| "addParamDecls (p # ps) = bindM (addParamDecl p) (\<lambda>_. addParamDecls ps)"

text \<open>The parameters leave the sequence or the call they were read as.\<close>

definition ConvertToArrowParameter :: "nodeId option \<Rightarrow> bool \<Rightarrow> scopeId \<Rightarrow> arrowFunctionDescriptor parseM" where
  "ConvertToArrowParameter expr isAsync parScope =
    (let arrowStatus = (if isAsync then PS_ASYNC_FUNCTION else PS_NO_OPTS) in
    (if expr = None then
      bindM tokenStart (\<lambda>start.
      (ret (\<lparr>afParams = [], afParamScope = parScope, afStartLoc = start, afNewStatus = arrowStatus\<rparr>)))
    else
    (let expr = the expr in
    bindM (bodyNow expr) (\<lambda>b.
    bindM (case b of Expr (SequenceExpression es) \<Rightarrow> bindM (ValidateArrowParameters es arrowStatus) (\<lambda>st. thenM (onNodes (setBody expr (Expr (SequenceExpression [])))) (ret (es, st))) | Expr (CallExpression callee args ty opt) \<Rightarrow> if isAsync then bindM (ValidateArrowParameters args arrowStatus) (\<lambda>st. thenM (onNodes (setBody expr (Expr (CallExpression callee [] ty opt)))) (ret (args, st))) else ThrowSyntaxError ''Unexpected token, arrow (=>)'' | _ \<Rightarrow> if isRestElement b \<or> isIdentifier b \<or> isObjectExpression b \<or> isAssignmentExpression b \<or> isArrayExpression b then bindM (ValidateArrowParameter expr) (\<lambda>st. ret ([expr], arrowStatus OR st)) else ThrowSyntaxError ''Unexpected token, arrow (=>)'') (\<lambda>(params, arrowStatus).
    thenM (addParamDecls params)
    (bindM (startOf expr) (\<lambda>start.
    (ret (\<lparr>afParams = params, afParamScope = parScope, afStartLoc = start, afNewStatus = arrowStatus\<rparr>)))))))))"

definition ParseArrowFunctionExpression :: "parseCalls \<Rightarrow> nodeId option \<Rightarrow> nodeId option \<Rightarrow> nodeId option \<Rightarrow> bool \<Rightarrow> nodeId parseM" where
  "ParseArrowFunctionExpression c expr typeParamDecl returnType isAsync =
    bindM atNewLine (\<lambda>t1.
    thenM (throwIf (t1) (''expected '' @ [CHR 0x27] @ ''=>'' @ [CHR 0x27] @ '' on the same line after an argument list, got line terminator''))
    ((arrowFunctionContext isAsync (\<lambda>flags.
      (functionParameterContext (\<lambda>parScope.
        bindM (ConvertToArrowParameter expr isAsync parScope) (\<lambda>desc.
        (lexicalScope FunctionScope (\<lambda>funScope.
          (ParseArrowFunctionExpressionBody c flags funScope desc typeParamDecl returnType))))))))))"

text \<open>Null: the type parameters do not begin a generic arrow function.\<close>

definition hasComplexParam :: "nodeTable \<Rightarrow> nodeId list \<Rightarrow> bool" where
  "hasComplexParam t params =
    (list_ex (\<lambda>p. \<not> isIdentifier (nBody (nodeAt t p))) params)"

definition ParseTsGenericArrowFunction :: "parseCalls \<Rightarrow> (nodeId option) parseM" where
  "ParseTsGenericArrowFunction c =
    (arrowFunctionContext False (\<lambda>flags.
      bindM tokenStart (\<lambda>startLoc.
      bindM (ParseTsTypeParameterDeclaration c False) (\<lambda>typeParamDecl.
      bindM (at PUNCTUATOR_LEFT_PARENTHESIS) (\<lambda>t1.
      (if \<not> t1 then
        (ret None)
      else
      (functionParameterContext (\<lambda>parScope.
        bindM (ParseFunctionParams c True) (\<lambda>params.
        bindM (getM psNodes) (\<lambda>table.
        (let arrowStatus = (if hasComplexParam table params then PS_HAS_COMPLEX_PARAM else PS_NO_OPTS) in
        bindM (colonType c TO_THROW_ERROR) (\<lambda>returnType.
        bindM (at PUNCTUATOR_ARROW) (\<lambda>t2.
        (if \<not> t2 then
          (ret None)
        else
        (let desc = \<lparr>afParams = params, afParamScope = parScope, afStartLoc = startLoc, afNewStatus = arrowStatus\<rparr> in
        (lexicalScope FunctionScope (\<lambda>funScope.
          bindM (ParseArrowFunctionExpressionBody c flags funScope desc typeParamDecl returnType) (\<lambda>f.
          (ret (Some f))))))))))))))))))))"

section \<open>Type assertions and parentheses\<close>

text \<open>The null of a missing \<open>>\<close> is not tested by the callers.\<close>

definition ParseTsTypeAssertion :: "parseCalls \<Rightarrow> nodeId parseM" where
  "ParseTsTypeAssertion c =
    bindM tokenStart (\<lambda>start.
    thenM advance
    (bindM (theType c TO_THROW_ERROR) (\<lambda>ty.
    bindM (at PUNCTUATOR_GREATER_THAN) (\<lambda>t1.
    (if \<not> t1 then
      (ret nullNode)
    else
    thenM advance
    (bindM (cExpression c EF_NO_OPTS) (\<lambda>expression.
    bindM tokenEnd (\<lambda>t2.
    (makeNode (Ts (TSTypeAssertion ty expression)) start t2)))))))))"

definition ParseCoverParenthesizedExpressionAndArrowParameterList :: "parseCalls \<Rightarrow> nodeId parseM" where
  "ParseCoverParenthesizedExpressionAndArrowParameterList c =
    bindM tokenStart (\<lambda>start.
    thenM advance
    (bindM (at PUNCTUATOR_PERIOD_PERIOD_PERIOD) (\<lambda>t1.
    (if t1 then
      bindM (ParseSpreadElement c EF_MUST_BE_PATTERN) (\<lambda>restElement.
      thenM (onNodes (SetGrouped restElement))
      (thenM (setStart restElement start)
      (bindM tokenType (\<lambda>t.
      thenM (bindM isTs (\<lambda>t2.
      whenM (t2 \<and> IsTsParamToken t)
        ((ParsePotentialTsFunctionParameter c EF_IN_REST restElement False))))
      (thenM (expect PUNCTUATOR_RIGHT_PARENTHESIS ''Rest parameter must be last formal parameter'')
      (thenM advance
      (bindM (tsColonType c TO_THROW_ERROR) (\<lambda>returnType.
      thenM (expect PUNCTUATOR_ARROW ''Unexpected token'')
      ((ParseArrowFunctionExpression c (Some restElement) None returnType False))))))))))
    else
    bindM (at PUNCTUATOR_RIGHT_PARENTHESIS) (\<lambda>t3.
    (if t3 then
      thenM advance
      (bindM (tsColonType c TO_THROW_ERROR) (\<lambda>returnType.
      thenM (expect PUNCTUATOR_ARROW ''Unexpected token'')
      (bindM (ParseArrowFunctionExpression c None None returnType False) (\<lambda>arrowExpr.
      thenM (setStart arrowExpr start)
      (bindM (bodyNow arrowExpr) (\<lambda>b.
      thenM (case b of Expr (ArrowFunctionExpression f) \<Rightarrow> setStart f start | _ \<Rightarrow> undefinedM)
      ((ret arrowExpr))))))))
    else
    bindM (cExpression c (EF_ACCEPT_COMMA OR EF_ACCEPT_REST OR EF_POTENTIALLY_IN_PATTERN OR EF_ALLOW_TS_PARAM_TOKEN)) (\<lambda>expr.
    thenM (expect PUNCTUATOR_RIGHT_PARENTHESIS (''Unexpected token, expected '' @ [CHR 0x27] @ '')'' @ [CHR 0x27]))
    (thenM (onNodes (SetGrouped expr))
    (bindM tokenEnd (\<lambda>t4.
    thenM (onNodes (SetRange expr start t4))
    (thenM advance
    (bindM isTs (\<lambda>t5.
    bindM (statusHas PS_FUNCTION_PARAM) (\<lambda>t6.
    bindM (at PUNCTUATOR_COLON) (\<lambda>t7.
    (if \<not> t5 \<or> \<not> (t6 \<or> t7) then
      (ret expr)
    else
    thenM (dropStatus PS_FUNCTION_PARAM)
    (bindM savePosition (\<lambda>startPos.
    bindM (colonType c (NOT TO_THROW_ERROR)) (\<lambda>returnType.
    bindM (at PUNCTUATOR_ARROW) (\<lambda>t8.
    (if \<not> t8 then
      thenM (rewindTo startPos)
      ((ret expr))
    else
    (ParseArrowFunctionExpression c (Some expr) None returnType False))))))))))))))))))))))"

text \<open>The check is declared and defined; nothing calls it.\<close>

primrec CheckInvalidDestructuring :: "nat \<Rightarrow> nodeId \<Rightarrow> unit parseM" where
  "CheckInvalidDestructuring 0 obj = out_of_fuel"
| "CheckInvalidDestructuring (Suc k) obj =
    bindM (bodyNow obj) (\<lambda>b. bindM (deref (Iterate b)) (\<lambda>children.
      inOrder (map (\<lambda>child. bindM (bodyNow child) (\<lambda>cb.
        if isAssignmentPattern cb then ThrowSyntaxError ''Invalid property initializer''
        else if isRestElement cb \<or> isObjectExpression cb \<or> (case cb of Part (Property _) \<Rightarrow> True | _ \<Rightarrow> False)
        then CheckInvalidDestructuring k child
        else ret ())) children)))"

definition ValidateParenthesizedExpression :: "nodeId \<Rightarrow> unit parseM" where
  "ValidateParenthesizedExpression lhs =
    bindM (bodyNow lhs) (\<lambda>b.
    (if isArrayExpression b then
      bindM (onNodes (validateArray lhs)) (\<lambda>info.
      (throwInfo info))
    else
    (if isObjectExpression b then
      bindM (onNodes (validateObject lhs)) (\<lambda>info.
      (throwInfo info))
    else
    (if isAssignmentExpression b then
      bindM (onNodes (converting (\<lambda>k. ConvertibleToAssignmentPattern k lhs False))) (\<lambda>ok.
      (throwIf (\<not> ok) ''Invalid left-hand side in assignment expression''))
    else
    (throwIf ((case b of Part (SpreadElement _ _) \<Rightarrow> True | _ \<Rightarrow> False)) ''Invalid left-hand side in assignment expression'')))))"

section \<open>Template literals\<close>

primrec TemplateLiteral_loop :: "parseCalls \<Rightarrow> nat \<Rightarrow> nodeId list \<Rightarrow> nodeId list \<Rightarrow> (nodeId list \<times> nodeId list) parseM" where
  "TemplateLiteral_loop c 0 quasis expressions = out_of_fuel"
| "TemplateLiteral_loop c (Suc n) quasis expressions =
    thenM (onLexer ResetTokenEnd)
    (bindM savePosition (\<lambda>startPos.
    thenM (onLexer (ScanString LEX_CHAR_BACK_TICK))
    (bindM tokenIdent (\<lambda>cooked.
    thenM (rewindTo startPos)
    (bindM (onLexer ScanTemplateString) (\<lambda>ts.
    bindM (getM (\<lambda>s. lline (psLexer s))) (\<lambda>line.
    bindM (makeNode (Part (TemplateElement (tstr ts) cooked)) \<lparr>pindex = of_nat (ipos (iterator startPos)), pline = lline startPos\<rparr> \<lparr>pindex = of_nat (tend ts), pline = line\<rparr>) (\<lambda>element.
    (let quasis = quasis @ [element] in
    (if \<not> scanExpression ts then
      thenM (onLexer ScanTemplateStringEnd)
      ((ret ((quasis, expressions))))
    else
    thenM (onLexer PushTemplateContext)
    (thenM advance
    (bindM (cExpression c EF_NO_OPTS) (\<lambda>expression.
    thenM (onLexer PopTemplateContext)
    (thenM (expect PUNCTUATOR_RIGHT_BRACE (''Unexpected token, expected '' @ [CHR 0x27] @ ''}'' @ [CHR 0x27] @ ''.''))
    ((TemplateLiteral_loop c n quasis (expressions @ [expression])))))))))))))))))"

definition ParseTemplateLiteral :: "parseCalls \<Rightarrow> nodeId parseM" where
  "ParseTemplateLiteral c =
    bindM tokenStart (\<lambda>startLoc.
    bindM (bounded (\<lambda>n. TemplateLiteral_loop c n [] [])) (\<lambda>(quasis, expressions).
    bindM tokenEnd (\<lambda>t1.
    bindM (makeNode (Expr (TemplateLiteral quasis expressions)) startLoc t1) (\<lambda>templateNode.
    thenM advance
    ((ret templateNode))))))"

section \<open>Calls and members\<close>

primrec NewArguments_loop :: "parseCalls \<Rightarrow> nat \<Rightarrow> nodeId list \<Rightarrow> (nodeId list) parseM" where
  "NewArguments_loop c 0 arguments = out_of_fuel"
| "NewArguments_loop c (Suc n) arguments =
    bindM (at PUNCTUATOR_RIGHT_PARENTHESIS) (\<lambda>t1.
    (if t1 then
      (ret arguments)
    else
    bindM (
      bindM (at PUNCTUATOR_PERIOD_PERIOD_PERIOD) (\<lambda>t2.
      (if t2 then
        (ParseSpreadElement c EF_NO_OPTS)
      else
      (cExpression c EF_NO_OPTS)))) (\<lambda>argument.
    thenM (bindM (at PUNCTUATOR_COMMA) (\<lambda>t3.
    whenM (t3)
      ((advance))))
    (bindM (at EOS) (\<lambda>t4.
    thenM (throwIf (t4) ''Unexpected token in argument parsing'')
    ((NewArguments_loop c n (arguments @ [argument]))))))))"

text \<open>The callee of \<open>new\<close> is a member expression that leaves the arguments alone.\<close>

definition ParseNewExpression :: "parseCalls \<Rightarrow> nodeId parseM" where
  "ParseNewExpression c =
    bindM tokenStart (\<lambda>start.
    thenM advance
    (bindM (cMember c True EF_NO_OPTS) (\<lambda>callee.
    bindM (nodeIs (\<lambda>b. case b of Expr (ImportExpression _) \<Rightarrow> True | _ \<Rightarrow> False) callee) (\<lambda>isImport.
    bindM (onNodes (IsGrouped callee)) (\<lambda>t1.
    thenM (throwIf (isImport \<and> \<not> t1) ''Cannot use new with import(...)'')
    (bindM (at PUNCTUATOR_LEFT_PARENTHESIS) (\<lambda>t2.
    (if \<not> t2 then
      bindM (endOf callee) (\<lambda>t3.
      (makeNode (Expr (NewExpression callee [])) start t3))
    else
    thenM advance
    (bindM (bounded (\<lambda>n. NewArguments_loop c n [])) (\<lambda>arguments.
    bindM tokenEnd (\<lambda>t4.
    bindM (makeNode (Expr (NewExpression callee arguments)) start t4) (\<lambda>newExprNode.
    thenM advance
    ((ret newExprNode))))))))))))))"

text \<open>Two tokens may have been read when the answer is null.\<close>

definition ParsePotentialNewTarget :: "(nodeId option) parseM" where
  "ParsePotentialNewTarget =
    bindM GetToken (\<lambda>t.
    bindM Lookahead (\<lambda>t1.
    (if t1 \<noteq> LEX_CHAR_DOT then
      (ret None)
    else
    thenM advance
    (thenM advance
    (bindM tokenIdent (\<lambda>ident.
    bindM (at LITERAL_IDENT) (\<lambda>t2.
    (if \<not> t2 \<or> ident \<noteq> asciiText ''target'' then
      (ret None)
    else
    bindM (statusHas PS_ALLOW_NEW_TARGET) (\<lambda>t3.
    thenM (throwIf (\<not> t3) ([CHR 0x27] @ ''new.Target'' @ [CHR 0x27] @ '' is not allowed here''))
    (bindM (tokenHas TF_HAS_ESCAPE) (\<lambda>t4.
    thenM (throwIf (t4) ([CHR 0x27] @ ''new.Target'' @ [CHR 0x27] @ '' must not contain escaped characters''))
    (bindM (makeNode (Expr (MetaProperty True)) (locStart t) (locEnd t)) (\<lambda>metaProperty.
    thenM advance
    ((ret (Some metaProperty))))))))))))))))"

definition ParseImportExpression :: "parseCalls \<Rightarrow> nodeId parseM" where
  "ParseImportExpression c =
    bindM tokenStart (\<lambda>startLoc.
    bindM tokenEnd (\<lambda>endLoc.
    thenM advance
    (bindM (at PUNCTUATOR_PERIOD) (\<lambda>t1.
    (if t1 then
      bindM (statusHas PS_MODULE) (\<lambda>t2.
      thenM (throwIf (\<not> t2) ([CHR 0x27] @ ''import.Meta'' @ [CHR 0x27] @ '' may appear only with '' @ [CHR 0x27] @ ''sourceType: module'' @ [CHR 0x27]))
      (thenM advance
      (bindM (at LITERAL_IDENT) (\<lambda>t3.
      bindM (atKeyword KEYW_META) (\<lambda>t4.
      thenM (throwIf (\<not> t3 \<or> \<not> t4) ''The only valid meta property for import is import.Meta'')
      (bindM (makeNode (Expr (MetaProperty False)) startLoc endLoc) (\<lambda>metaProperty.
      thenM advance
      ((ret metaProperty)))))))))
    else
    thenM (expect PUNCTUATOR_LEFT_PARENTHESIS ''Unexpected token'')
    (thenM advance
    (bindM (cExpression c EF_NO_OPTS) (\<lambda>source.
    thenM (expect PUNCTUATOR_RIGHT_PARENTHESIS ''Unexpected token'')
    (bindM tokenEnd (\<lambda>t5.
    bindM (makeNode (Expr (ImportExpression source)) startLoc t5) (\<lambda>importExpression.
    thenM advance
    ((ret importExpression)))))))))))))"

text \<open>The name of a function expression is read in the status of the outer function; an \<open>async\<close> function reads it in its own.\<close>

definition ParseFunctionName :: "u32 \<Rightarrow> (nodeId option \<times> u32) parseM" where
  "ParseFunctionName newStatus =
    bindM Status (\<lambda>saved.
    thenM (whenM (has newStatus PS_ASYNC_FUNCTION)
      ((addStatus (PS_DISALLOW_AWAIT OR PS_ASYNC_FUNCTION))))
    (thenM advance
    (bindM (
      bindM (at PUNCTUATOR_MULTIPLY) (\<lambda>t1.
      (if t1 then
        thenM advance
        ((ret (newStatus OR PS_GENERATOR_FUNCTION)))
      else
      (ret newStatus)))) (\<lambda>newStatus.
    bindM Extension (\<lambda>ext.
    bindM (
      bindM (at PUNCTUATOR_LEFT_PARENTHESIS) (\<lambda>t2.
      bindM (atAny [PUNCTUATOR_LEFT_PARENTHESIS, PUNCTUATOR_LESS_THAN]) (\<lambda>t3.
      (if (ext = JS \<and> \<not> t2) \<or> (ext = TS \<and> \<not> t3) then
        thenM (expect LITERAL_IDENT ''Expected an identifier.'')
        (bindM tokenKeyword (\<lambda>t4.
        thenM (throwIf (KEYW_ARGUMENTS \<le> t4) ''Unexpected reserved word in strict mode.'')
        (bindM makeIdentifier (\<lambda>ident.
        thenM advance
        ((ret (Some ident)))))))
      else
      (ret None))))) (\<lambda>ident.
    thenM (setStatus saved)
    ((ret ((ident, newStatus))))))))))"

definition ParseFunctionExpression :: "parseCalls \<Rightarrow> u32 \<Rightarrow> nodeId parseM" where
  "ParseFunctionExpression c newStatus =
    bindM tokenStart (\<lambda>startLoc.
    bindM (
      (if has newStatus PS_ARROW_FUNCTION then
        (ret ((None, newStatus)))
      else
      (ParseFunctionName newStatus))) (\<lambda>(ident, newStatus).
    bindM (ParseFunction c newStatus False) (\<lambda>f.
    thenM (setStart f startLoc)
    (thenM (whenM (ident \<noteq> None)
      (bindM (onNodes (functionNode f)) (\<lambda>fn.
      bindM (onScopes (getScope (fScope fn))) (\<lambda>sc.
      bindM (deref (paramScope sc)) (\<lambda>p.
      bindM (identName (the ident)) (\<lambda>n.
      thenM (onScopes (BindName p n))
      ((onNodes (SetFunctionIdent f (the ident))))))))))
    ((makeNodeLike (Expr (FunctionExpression f)) f))))))"

section \<open>Primary expressions\<close>

text \<open>The errors of the pattern become errors of the parser; a pattern the parser cannot leave is \<open>NoFuel\<close>.\<close>

definition checkRegExp :: "regExp \<Rightarrow> unit parseM" where
  "checkRegExp regexp =
    bindM (getM (\<lambda>s. eIcu (env (psLexer s)))) (\<lambda>ic.
    ((case ParsePattern (5 * length (rePattern regexp) + 4) (RegExpParser ic (rePattern regexp) (reFlags regexp)) of Ok _ \<Rightarrow> ret () | Throw message \<Rightarrow> ThrowSyntaxError message | Undefined \<Rightarrow> undefinedM | NoFuel \<Rightarrow> out_of_fuel)))"

definition tokenLiteral :: "nodeBody \<Rightarrow> nodeId parseM" where
  "tokenLiteral b =
    bindM (makeTokenNode b) (\<lambda>n.
    thenM advance
    ((ret n)))"

definition ParseSuper :: "nodeId parseM" where
  "ParseSuper =
    bindM (tokenLiteral (Expr SuperExpression)) (\<lambda>superExpr.
    bindM (atAny [PUNCTUATOR_PERIOD, PUNCTUATOR_LEFT_SQUARE_BRACKET]) (\<lambda>t1.
    bindM (statusHas PS_ALLOW_SUPER) (\<lambda>t2.
    (if t1 \<and> t2 then
      (ret superExpr)
    else
    bindM (at PUNCTUATOR_LEFT_PARENTHESIS) (\<lambda>t3.
    bindM (statusHas PS_ALLOW_SUPER_CALL) (\<lambda>t4.
    (if t3 \<and> t4 then
      (ret superExpr)
    else
    (ThrowSyntaxError ''Unexpected super keyword''))))))))"

definition ParsePrimaryExpression :: "parseCalls \<Rightarrow> u32 \<Rightarrow> nodeId parseM" where
  "ParsePrimaryExpression c flags =
    bindM tokenType (\<lambda>t.
    (if t = KEYW_IMPORT then
      (ParseImportExpression c)
    else
    (if t = LITERAL_IDENT then
      bindM makeReference (\<lambda>identNode.
      thenM advance
      (thenM (potentialParameter c flags identNode)
      ((ret identNode))))
    else
    (if t = LITERAL_TRUE then
      (tokenLiteral (Lit (BooleanLiteral True)))
    else
    (if t = LITERAL_FALSE then
      (tokenLiteral (Lit (BooleanLiteral False)))
    else
    (if t = LITERAL_NULL then
      (tokenLiteral (Lit NullLiteral))
    else
    (if t = LITERAL_NUMBER then
      bindM makeNumber (\<lambda>n.
      thenM advance
      ((ret n)))
    else
    (if t = LITERAL_STRING then
      bindM makeString (\<lambda>n.
      thenM advance
      ((ret n)))
    else
    (if t \<in> {PUNCTUATOR_DIVIDE, PUNCTUATOR_DIVIDE_EQUAL} then
      thenM (onLexer ResetTokenEnd)
      (bindM (onLexer ScanRegExp) (\<lambda>regexp.
      thenM (checkRegExp regexp)
      ((tokenLiteral (Lit (RegExpLiteral (rePattern regexp) (reFlagsStr regexp)))))))
    else
    (if t = PUNCTUATOR_LEFT_SQUARE_BRACKET then
      (ParseArrayExpression c (CarryPatternFlags flags))
    else
    (if t = PUNCTUATOR_LEFT_PARENTHESIS then
      (ParseCoverParenthesizedExpressionAndArrowParameterList c)
    else
    (if t = PUNCTUATOR_LEFT_BRACE then
      (ParseObjectExpression c (CarryPatternFlags flags))
    else
    (if t = KEYW_FUNCTION then
      (ParseFunctionExpression c PS_NO_OPTS)
    else
    (if t = KEYW_CLASS then
      bindM tokenStart (\<lambda>startLoc.
      bindM (cClassDefinition c False True False False) (\<lambda>classDefinition.
      bindM (endOf classDefinition) (\<lambda>t1.
      (makeNode (Expr (ClassExpression classDefinition)) startLoc t1))))
    else
    (if t = KEYW_THIS then
      (tokenLiteral (Expr ThisExpression))
    else
    (if t = KEYW_SUPER then
      (ParseSuper)
    else
    (if t = KEYW_NEW then
      bindM ParsePotentialNewTarget (\<lambda>newTarget.
      ((case newTarget of Some n \<Rightarrow> ret n | None \<Rightarrow> ParseNewExpression c)))
    else
    (if t = PUNCTUATOR_BACK_TICK then
      (ParseTemplateLiteral c)
    else
    (ThrowSyntaxError ''Primary expression expected'')))))))))))))))))))"

section \<open>Calls\<close>

primrec Arguments_loop :: "parseCalls \<Rightarrow> bool \<Rightarrow> nat \<Rightarrow> nodeId list \<Rightarrow> (nodeId list) parseM" where
  "Arguments_loop c isAsync 0 arguments = out_of_fuel"
| "Arguments_loop c isAsync (Suc n) arguments =
    bindM (at PUNCTUATOR_RIGHT_PARENTHESIS) (\<lambda>t1.
    (if t1 then
      (ret arguments)
    else
    bindM (
      bindM (at PUNCTUATOR_PERIOD_PERIOD_PERIOD) (\<lambda>t2.
      (if t2 then
        (ParseSpreadElement c EF_NO_OPTS)
      else
      (cExpression c (if isAsync then EF_ALLOW_TS_PARAM_TOKEN else EF_NO_OPTS))))) (\<lambda>argument.
    thenM (
      bindM (at PUNCTUATOR_COMMA) (\<lambda>t3.
      (if t3 then
        (advance)
      else
      (expect PUNCTUATOR_RIGHT_PARENTHESIS (''Expected a '' @ [CHR 0x27] @ '')'' @ [CHR 0x27])))))
    ((Arguments_loop c isAsync n (arguments @ [argument]))))))"

primrec CallExpression_loop :: "parseCalls \<Rightarrow> bool \<Rightarrow> nat \<Rightarrow> nodeId \<Rightarrow> bool \<Rightarrow> nodeId parseM" where
  "CallExpression_loop c isAsync 0 callee isOptionalChain = out_of_fuel"
| "CallExpression_loop c isAsync (Suc n) callee isOptionalChain =
    thenM advance
    (bindM (bounded (\<lambda>n. Arguments_loop c isAsync n [])) (\<lambda>arguments.
    bindM (startOf callee) (\<lambda>t1.
    bindM tokenEnd (\<lambda>t2.
    bindM (makeNode (Expr (CallExpression callee arguments None isOptionalChain)) t1 t2) (\<lambda>callExpr.
    thenM advance
    (bindM (at PUNCTUATOR_LEFT_PARENTHESIS) (\<lambda>t3.
    (if t3 then
      (CallExpression_loop c isAsync n callExpr False)
    else
    (ret callExpr)))))))))"

definition ParseCallExpression :: "parseCalls \<Rightarrow> nodeId \<Rightarrow> bool \<Rightarrow> bool \<Rightarrow> nodeId parseM" where
  "ParseCallExpression c callee isOptionalChain isAsync =
    (bounded (\<lambda>n. CallExpression_loop c isAsync n callee isOptionalChain))"

text \<open>Null when none of the three forms follows.\<close>

definition ParseOptionalChain :: "parseCalls \<Rightarrow> nodeId \<Rightarrow> nodeId parseM" where
  "ParseOptionalChain c leftSide =
    bindM tokenType (\<lambda>t.
    bindM (
      (if t = LITERAL_IDENT then
        bindM makeReference (\<lambda>ident.
        bindM (startOf leftSide) (\<lambda>t3.
        bindM (endOf ident) (\<lambda>t4.
        bindM (makeNode (Expr (MemberExpression leftSide ident False True)) t3 t4) (\<lambda>m.
        thenM advance
        ((ret m))))))
      else
      (if t = PUNCTUATOR_LEFT_SQUARE_BRACKET then
        thenM advance
        (bindM (cExpression c EF_ACCEPT_COMMA) (\<lambda>property.
        thenM (expect PUNCTUATOR_RIGHT_SQUARE_BRACKET ''Unexpected token'')
        (bindM (startOf leftSide) (\<lambda>t1.
        bindM tokenEnd (\<lambda>t2.
        bindM (makeNode (Expr (MemberExpression leftSide property True True)) t1 t2) (\<lambda>m.
        thenM advance
        ((ret m))))))))
      else
      (if t = PUNCTUATOR_LEFT_PARENTHESIS then
        (ParseCallExpression c leftSide True False)
      else
      (ret nullNode))))) (\<lambda>result.
    bindM (at PUNCTUATOR_BACK_TICK) (\<lambda>t5.
    thenM (throwIf (t = PUNCTUATOR_BACK_TICK \<or> t5) ''Tagged Template Literals are not allowed in optionalChain'')
    ((ret result)))))"

section \<open>Expressions that begin with async\<close>

text \<open>The call or the parameters after \<open>async\<close>; the arrow function if there is one, and the expression read so far.\<close>

definition ParseAsyncCall :: "parseCalls \<Rightarrow> nodeId \<Rightarrow> sourcePosition \<Rightarrow> nodeId option \<Rightarrow> (nodeId option \<times> nodeId) parseM" where
  "ParseAsyncCall c returnExpression startLoc typeParamDecl =
    bindM (ParseCallExpression c returnExpression False True) (\<lambda>callExpression.
    bindM (tsColonType c TO_THROW_ERROR) (\<lambda>returnType.
    bindM (at PUNCTUATOR_ARROW) (\<lambda>t1.
    (if t1 then
      bindM (ParseArrowFunctionExpression c (Some callExpression) typeParamDecl returnType True) (\<lambda>arrow.
      thenM (setStart arrow startLoc)
      ((ret ((Some arrow, returnExpression)))))
    else
    bindM isTs (\<lambda>t2.
    thenM (throwIf (t2 \<and> (returnType \<noteq> None \<or> typeParamDecl \<noteq> None)) ([CHR 0x27] @ ''=>'' @ [CHR 0x27] @ '' expected''))
    ((ret ((None, callExpression)))))))))"

definition ParsePotentialArrowExpression :: "parseCalls \<Rightarrow> nodeId \<Rightarrow> sourcePosition \<Rightarrow> (nodeId option \<times> nodeId) parseM" where
  "ParsePotentialArrowExpression c returnExpression startLoc =
    bindM tokenType (\<lambda>t.
    bindM isTs (\<lambda>ts.
    (if t = KEYW_FUNCTION then
      bindM (ParseFunctionExpression c PS_ASYNC_FUNCTION) (\<lambda>f.
      thenM (setStart f startLoc)
      ((ret ((None, f)))))
    else
    (if t = LITERAL_IDENT then
      bindM (ParsePrimaryExpression c EF_NO_OPTS) (\<lambda>identRef.
      thenM (expect PUNCTUATOR_ARROW (''Unexpected token, expected '' @ [CHR 0x27] @ ''=>'' @ [CHR 0x27]))
      (bindM (ParseArrowFunctionExpression c (Some identRef) None None True) (\<lambda>arrow.
      thenM (setStart arrow startLoc)
      ((ret ((Some arrow, returnExpression)))))))
    else
    (if t = PUNCTUATOR_ARROW then
      bindM (ParseArrowFunctionExpression c (Some returnExpression) None None True) (\<lambda>arrow.
      thenM (setStart arrow startLoc)
      ((ret ((Some arrow, returnExpression)))))
    else
    (if t = PUNCTUATOR_LESS_THAN \<and> ts then
      bindM savePosition (\<lambda>savedPos.
      bindM (ParseTsTypeParameterDeclaration c False) (\<lambda>typeParamDecl.
      (if typeParamDecl = None then
        thenM (rewindTo savedPos)
        ((ret ((None, returnExpression))))
      else
      thenM (expect PUNCTUATOR_LEFT_PARENTHESIS ([CHR 0x27] @ ''('' @ [CHR 0x27] @ '' expected''))
      ((ParseAsyncCall c returnExpression startLoc typeParamDecl)))))
    else
    (if t = PUNCTUATOR_LEFT_PARENTHESIS then
      (ParseAsyncCall c returnExpression startLoc None)
    else
    (ret ((None, returnExpression))))))))))"

section \<open>Member expressions\<close>

text \<open>True: the type arguments do not belong to a call.\<close>

definition SetTypeParams :: "nodeId \<Rightarrow> nodeId \<Rightarrow> unit parseM" where
  "SetTypeParams n typeParams = bindM (bodyNow n) (\<lambda>b. case b of
     Expr (CallExpression callee args _ opt) \<Rightarrow> onNodes (setBody n (Expr (CallExpression callee args (Some typeParams) opt)))
   | _ \<Rightarrow> undefinedM)"

definition ParsePotentialTsGenericFunctionCall :: "parseCalls \<Rightarrow> nodeId \<Rightarrow> sourcePosition \<Rightarrow> bool \<Rightarrow> (bool \<times> nodeId) parseM" where
  "ParsePotentialTsGenericFunctionCall c returnExpression startLoc ignoreCallExpression =
    bindM isTs (\<lambda>t1.
    bindM Lookahead (\<lambda>t2.
    (if \<not> t1 \<or> t2 = LEX_CHAR_LESS_THAN then
      (ret ((True, returnExpression)))
    else
    bindM savePosition (\<lambda>savedPos.
    thenM (bindM (at PUNCTUATOR_LEFT_SHIFT) (\<lambda>t3.
    whenM (t3)
      ((onLexer (BackwardToken PUNCTUATOR_LESS_THAN 1)))))
    (bindM (ParseTsTypeParameterInstantiation c False) (\<lambda>typeParams.
    (if typeParams = None then
      thenM (rewindTo savedPos)
      ((ret ((True, returnExpression))))
    else
    bindM (at EOS) (\<lambda>t4.
    thenM (throwIf (t4) ([CHR 0x27] @ ''('' @ [CHR 0x27] @ '' or '' @ [CHR 0x27] @ ''`'' @ [CHR 0x27] @ '' expected''))
    (bindM (at PUNCTUATOR_LEFT_PARENTHESIS) (\<lambda>t5.
    (if t5 then
      (if \<not> ignoreCallExpression then
        bindM (ParseCallExpression c returnExpression False False) (\<lambda>call.
        thenM (SetTypeParams call (the typeParams))
        ((ret ((False, call)))))
      else
      (ret ((True, returnExpression))))
    else
    bindM (at PUNCTUATOR_BACK_TICK) (\<lambda>t6.
    (if t6 then
      bindM (ParseTemplateLiteral c) (\<lambda>quasi.
      bindM (endOf quasi) (\<lambda>t7.
      bindM (makeNode (Expr (TaggedTemplateExpression returnExpression quasi typeParams)) startLoc t7) (\<lambda>tagged.
      (ret ((False, tagged))))))
    else
    thenM (rewindTo savedPos)
    ((ret ((True, returnExpression)))))))))))))))))"

definition ParsePropertyAccess :: "nodeId \<Rightarrow> nodeId parseM" where
  "ParsePropertyAccess returnExpression =
    thenM advanceIdent
    (bindM tokenStart (\<lambda>memberStart.
    bindM (
      bindM isTs (\<lambda>t1.
      (if t1 then
        (at PUNCTUATOR_HASH_MARK)
      else
      (ret False)))) (\<lambda>isPrivate.
    thenM (whenM (isPrivate)
      (bindM (statusHas PS_IN_CLASS_BODY) (\<lambda>t2.
      thenM (throwIf (\<not> t2) ''Private identifiers are not allowed outside class bodies.'')
      ((advanceIdent)))))
    (thenM (expect LITERAL_IDENT ''Expected an identifier'')
    (bindM makeIdentifier (\<lambda>identNode.
    bindM (
      (if isPrivate then
        bindM (endOf identNode) (\<lambda>t3.
        (makeNode (Ts (TSPrivateIdentifier identNode None None)) memberStart t3))
      else
      (ret identNode))) (\<lambda>property.
    bindM (startOf returnExpression) (\<lambda>t4.
    bindM (endOf property) (\<lambda>t5.
    bindM (makeNode (Expr (MemberExpression returnExpression property False False)) t4 t5) (\<lambda>member.
    thenM advance
    ((ret member))))))))))))"

primrec PostPrimary_loop :: "parseCalls \<Rightarrow> sourcePosition \<Rightarrow> bool \<Rightarrow> nat \<Rightarrow> nodeId \<Rightarrow> bool \<Rightarrow> (nodeId \<times> bool) parseM" where
  "PostPrimary_loop c startLoc ignoreCallExpression 0 returnExpression isChain = out_of_fuel"
| "PostPrimary_loop c startLoc ignoreCallExpression (Suc n) returnExpression isChain =
    bindM tokenType (\<lambda>t.
    (if t = PUNCTUATOR_QUESTION_DOT then
      thenM advanceIdent
      (bindM (ParseOptionalChain c returnExpression) (\<lambda>e.
      (PostPrimary_loop c startLoc ignoreCallExpression n e True)))
    else
    (if t = PUNCTUATOR_PERIOD then
      bindM (ParsePropertyAccess returnExpression) (\<lambda>e.
      (PostPrimary_loop c startLoc ignoreCallExpression n e isChain))
    else
    (if t = PUNCTUATOR_LEFT_SQUARE_BRACKET then
      bindM (statusHas PS_IN_DECORATOR) (\<lambda>t5.
      (if t5 then
        (ret ((returnExpression, isChain)))
      else
      thenM advance
      (bindM (cExpression c EF_ACCEPT_COMMA) (\<lambda>property.
      thenM (expect PUNCTUATOR_RIGHT_SQUARE_BRACKET ''Unexpected token'')
      (bindM (startOf returnExpression) (\<lambda>t6.
      bindM tokenEnd (\<lambda>t7.
      bindM (makeNode (Expr (MemberExpression returnExpression property True False)) t6 t7) (\<lambda>e.
      thenM advance
      ((PostPrimary_loop c startLoc ignoreCallExpression n e isChain))))))))))
    else
    (if t \<in> {PUNCTUATOR_LEFT_SHIFT, PUNCTUATOR_LESS_THAN} then
      bindM (ParsePotentialTsGenericFunctionCall c returnExpression startLoc ignoreCallExpression) (\<lambda>(shouldBreak, e).
      (if shouldBreak then
        (ret ((e, isChain)))
      else
      (PostPrimary_loop c startLoc ignoreCallExpression n e isChain)))
    else
    (if t = PUNCTUATOR_BACK_TICK then
      bindM (ParseTemplateLiteral c) (\<lambda>quasi.
      bindM (endOf quasi) (\<lambda>t4.
      bindM (makeNode (Expr (TaggedTemplateExpression returnExpression quasi None)) startLoc t4) (\<lambda>e.
      (PostPrimary_loop c startLoc ignoreCallExpression n e isChain))))
    else
    (if t = PUNCTUATOR_LEFT_PARENTHESIS \<and> \<not> ignoreCallExpression then
      bindM (ParseCallExpression c returnExpression False False) (\<lambda>e.
      (PostPrimary_loop c startLoc ignoreCallExpression n e isChain))
    else
    bindM isTs (\<lambda>t1.
    bindM atNewLine (\<lambda>t2.
    (if t = PUNCTUATOR_EXCLAMATION_MARK \<and> t1 \<and> returnExpression \<noteq> nullNode \<and> \<not> t2 then
      bindM tokenEnd (\<lambda>t3.
      bindM (makeNode (Ts (TSNonNullExpression returnExpression)) startLoc t3) (\<lambda>e.
      thenM advance
      ((PostPrimary_loop c startLoc ignoreCallExpression n e isChain))))
    else
    (ret ((returnExpression, isChain)))))))))))))"

definition ParsePostPrimaryExpression :: "parseCalls \<Rightarrow> nodeId \<Rightarrow> sourcePosition \<Rightarrow> bool \<Rightarrow> (nodeId \<times> bool) parseM" where
  "ParsePostPrimaryExpression c primaryExpr startLoc ignoreCallExpression =
    (bounded (\<lambda>n. PostPrimary_loop c startLoc ignoreCallExpression n primaryExpr False))"

definition isUpdateTarget :: "nodeBody \<Rightarrow> bool" where
  "isUpdateTarget b =
    (isMemberExpression b \<or> isIdentifier b \<or> isTSNonNullExpression b)"

text \<open>\<open>eval\<close> and \<open>arguments\<close> cannot be assigned to.\<close>

definition checkUpdatedName :: "nodeId \<Rightarrow> unit parseM" where
  "checkUpdatedName n =
    bindM (bodyNow n) (\<lambda>b.
    ((case b of Expr (Identifier i) \<Rightarrow> thenM (throwIf (iName i = asciiText ''eval'') (''Assigning to '' @ [CHR 0x27] @ ''eval'' @ [CHR 0x27] @ '' in strict mode is invalid'')) (throwIf (iName i = asciiText ''arguments'') (''Assigning to '' @ [CHR 0x27] @ ''arguments'' @ [CHR 0x27] @ '' in strict mode is invalid'')) | _ \<Rightarrow> ret ())))"

definition ValidateUpdateExpression :: "nodeId \<Rightarrow> bool \<Rightarrow> unit parseM" where
  "ValidateUpdateExpression returnExpression isChain =
    bindM (nodeIs isUpdateTarget returnExpression) (\<lambda>t1.
    thenM (throwIf (\<not> t1 \<or> isChain) ''Invalid left-hand side operator.'')
    ((checkUpdatedName returnExpression)))"

definition ParseMemberExpression :: "parseCalls \<Rightarrow> bool \<Rightarrow> u32 \<Rightarrow> nodeId parseM" where
  "ParseMemberExpression c ignoreCallExpression flags =
    bindM (getM (\<lambda>s. IsAsyncModifier (tok (psLexer s)))) (\<lambda>isAsync.
    bindM tokenStart (\<lambda>startLoc.
    bindM (ParsePrimaryExpression c flags) (\<lambda>primary.
    bindM atNewLine (\<lambda>newLine.
    bindM (
      (if newLine then
        (nodeIs (\<lambda>b. case b of Expr (ArrowFunctionExpression _) \<Rightarrow> True | _ \<Rightarrow> False) primary)
      else
      (ret False))) (\<lambda>isArrow.
    (if isArrow then
      (ret primary)
    else
    bindM (
      (if isAsync \<and> \<not> newLine then
        (ParsePotentialArrowExpression c primary startLoc)
      else
      (ret ((None, primary))))) (\<lambda>(arrow, returnExpression).
    (if arrow \<noteq> None then
      (ret (the arrow))
    else
    bindM (ParsePostPrimaryExpression c returnExpression startLoc ignoreCallExpression) (\<lambda>(returnExpression, isChain).
    bindM tokenType (\<lambda>t.
    bindM (
      bindM atNewLine (\<lambda>t1.
      (if \<not> t1 \<and> IsUpdateToken t then
        bindM (startOf returnExpression) (\<lambda>start.
        thenM (ValidateUpdateExpression returnExpression isChain)
        (bindM tokenEnd (\<lambda>t2.
        bindM (makeNode (Expr (UpdateExpression returnExpression t False)) start t2) (\<lambda>e.
        thenM advance
        ((ret e))))))
      else
      (ret returnExpression)))) (\<lambda>returnExpression.
    (if isChain then
      bindM (endOf returnExpression) (\<lambda>t3.
      (makeNode (Expr (ChainExpression returnExpression)) startLoc t3))
    else
    (ret returnExpression)))))))))))))"

definition ParseLeftHandSideExpression :: "parseCalls \<Rightarrow> u32 \<Rightarrow> nodeId parseM" where
  "ParseLeftHandSideExpression c flags =
    (ParseMemberExpression c False flags)"

section \<open>Unary and binary operators\<close>

definition currentIsUnary :: "bool parseM" where
  "currentIsUnary =
    (getM (\<lambda>s. IsUnary (tok (psLexer s))))"

definition ParseUnaryOrPrefixUpdateExpression :: "parseCalls \<Rightarrow> u32 \<Rightarrow> nodeId parseM" where
  "ParseUnaryOrPrefixUpdateExpression c flags =
    bindM currentIsUnary (\<lambda>t1.
    (if \<not> t1 then
      (ParseLeftHandSideExpression c flags)
    else
    bindM tokenType (\<lambda>operatorType.
    bindM tokenStart (\<lambda>start.
    thenM advance
    (bindM (
      bindM currentIsUnary (\<lambda>t2.
      (if t2 then
        (cUnary c EF_NO_OPTS)
      else
      (ParseLeftHandSideExpression c EF_NO_OPTS)))) (\<lambda>argument.
    thenM (whenM (IsUpdateToken operatorType)
      (bindM (nodeIs isUpdateTarget argument) (\<lambda>t3.
      thenM (throwIf (\<not> t3) ''Invalid left-hand side in prefix operation'')
      ((checkUpdatedName argument)))))
    (bindM (nodeIs isIdentifier argument) (\<lambda>t4.
    thenM (throwIf (operatorType = KEYW_DELETE \<and> t4) ''Deleting local variable in strict mode'')
    ((let b = (if IsUpdateToken operatorType then UpdateExpression argument operatorType True else if operatorType = KEYW_AWAIT then AwaitExpression argument else UnaryExpression argument operatorType) in
    bindM (endOf argument) (\<lambda>t5.
    (makeNode (Expr b) start t5))))))))))))"

definition GetOperatorPrecedence :: "tokenType \<Rightarrow> nat" where
  "GetOperatorPrecedence t =
    (if t = PUNCTUATOR_NULLISH_COALESCING then 1
     else if t = PUNCTUATOR_LOGICAL_OR then 2
     else if t \<in> {PUNCTUATOR_LOGICAL_AND, PUNCTUATOR_BITWISE_OR} then 3
     else if t = PUNCTUATOR_BITWISE_XOR then 4
     else if t = PUNCTUATOR_BITWISE_AND then 5
     else if t \<in> {PUNCTUATOR_EQUAL, PUNCTUATOR_NOT_EQUAL, PUNCTUATOR_STRICT_EQUAL, PUNCTUATOR_NOT_STRICT_EQUAL} then 6
     else if t \<in> {PUNCTUATOR_LESS_THAN, PUNCTUATOR_LESS_THAN_EQUAL, PUNCTUATOR_GREATER_THAN,
       PUNCTUATOR_GREATER_THAN_EQUAL, KEYW_INSTANCEOF, KEYW_IN} then 7
     else if t \<in> {PUNCTUATOR_LEFT_SHIFT, PUNCTUATOR_RIGHT_SHIFT, PUNCTUATOR_UNSIGNED_RIGHT_SHIFT} then 8
     else if t \<in> {PUNCTUATOR_PLUS, PUNCTUATOR_MINUS} then 9
     else if t \<in> {PUNCTUATOR_MULTIPLY, PUNCTUATOR_DIVIDE, PUNCTUATOR_MOD} then 10
     else 11)"

text \<open>The test reads the operator of the expression on the right and whether it is in parentheses.\<close>

definition amendsOperator :: "tokenType \<Rightarrow> bool \<Rightarrow> tokenType \<Rightarrow> bool" where
  "amendsOperator opr grouped operatorType \<longleftrightarrow>
    GetOperatorPrecedence opr \<le> GetOperatorPrecedence operatorType \<and> \<not> grouped
    \<and> (operatorType \<noteq> PUNCTUATOR_EXPONENTIATION \<or> opr \<noteq> PUNCTUATOR_EXPONENTIATION)"

definition binaryParts :: "nodeId \<Rightarrow> (nodeId \<times> nodeId \<times> tokenType) nodeM" where
  "binaryParts n = bindM (bodyOf n) (\<lambda>b. case b of Expr (BinaryExpression l r opr) \<Rightarrow> ret (l, r, opr) | _ \<Rightarrow> undefinedM)"

definition ShouldBinaryExpressionBeAmended :: "nodeId \<Rightarrow> tokenType \<Rightarrow> bool nodeM" where
  "ShouldBinaryExpressionBeAmended n operatorType =
    bindM (binaryParts n) (\<lambda>(l, r, opr). bindM (IsGrouped n) (\<lambda>grouped. ret (amendsOperator opr grouped operatorType)))"

text \<open>
  The loop goes down the left edge; it stops at the last operator that binds no tighter, with the parent of
  the one it looked at last.
\<close>

primrec Amend_loop :: "nat \<Rightarrow> nodeId \<Rightarrow> tokenType \<Rightarrow> nodeId \<Rightarrow> nodeId \<Rightarrow> bool \<Rightarrow> (nodeId \<times> nodeId \<times> bool) nodeM" where
  "Amend_loop 0 lhs operatorType be parent shouldBeAmended = out_of_fuel"
| "Amend_loop (Suc k) lhs operatorType be parent shouldBeAmended =
    bindM (binaryParts be) (\<lambda>(l, r, opr).
    bindM (isKind isBinaryExpression l) (\<lambda>deeper.
      if deeper \<and> shouldBeAmended then
        bindM (StartOf lhs) (\<lambda>start. thenM (SetStart be start)
        (bindM (ShouldBinaryExpressionBeAmended l operatorType) (\<lambda>should.
          Amend_loop k lhs operatorType l be should)))
      else ret (be, parent, shouldBeAmended)))"

text \<open>The new expression takes the left operand of the operator the loop stopped at, or the one it could not enter.\<close>

definition joinLeft :: "nodeId \<Rightarrow> tokenType \<Rightarrow> nodeId \<Rightarrow> unit nodeM" where
  "joinLeft lhs operatorType n =
    bindM (binaryParts n) (\<lambda>(l, r, opr).
    bindM (allocNode (Expr (BinaryExpression lhs l operatorType))) (\<lambda>new.
    bindM (StartOf lhs) (\<lambda>start. bindM (EndOf l) (\<lambda>end'.
    thenM (SetRange new start end') (SetLeft n new)))))"

definition amendBinary :: "nodeId \<Rightarrow> tokenType \<Rightarrow> nodeId \<Rightarrow> unit nodeM" where
  "amendBinary lhs operatorType rightExpr =
    bindM (getM nodeCount) (\<lambda>count.
    bindM (Amend_loop (Suc count) lhs operatorType rightExpr nullNode True) (\<lambda>(be, parent, shouldBeAmended).
      joinLeft lhs operatorType (if shouldBeAmended then be else parent)))"

definition newBinary :: "nodeId \<Rightarrow> nodeId \<Rightarrow> tokenType \<Rightarrow> nodeId nodeM" where
  "newBinary lhs rightExpr operatorType =
    bindM (EndOf rightExpr) (\<lambda>endPos. bindM (allocNode (Expr (BinaryExpression lhs rightExpr operatorType))) (\<lambda>n.
    bindM (StartOf lhs) (\<lambda>start. thenM (SetRange n start endPos) (ret n))))"

text \<open>The operator that is in \<open>rightExpr\<close>, if it is a binary expression.\<close>

definition binaryOperator :: "nodeBody \<Rightarrow> tokenType option" where
  "binaryOperator b = (case b of Expr (BinaryExpression _ _ opr) \<Rightarrow> Some opr | _ \<Rightarrow> None)"

definition nullishMix :: string where
  "nullishMix = ''Nullish coalescing operator ?? requires parens when mixing with logical operators.''"

text \<open>Put the operator where it belongs in the expression on its right; the answer is the root.\<close>

definition placeOperator :: "nodeId \<Rightarrow> tokenType \<Rightarrow> nodeId \<Rightarrow> nodeId parseM" where
  "placeOperator lhs operatorType rightExpr =
    bindM (bodyNow rightExpr) (\<lambda>b.
    bindM (onNodes (IsGrouped rightExpr)) (\<lambda>grouped.
    (if isBinaryExpression b \<and> amendsOperator (the (binaryOperator b)) grouped operatorType then
      thenM (whenM (operatorType \<in> {PUNCTUATOR_LOGICAL_OR, PUNCTUATOR_LOGICAL_AND} \<and> binaryOperator b = Some PUNCTUATOR_NULLISH_COALESCING)
        ((ThrowSyntaxError nullishMix)))
      (thenM (onNodes (amendBinary lhs operatorType rightExpr))
      ((ret rightExpr)))
    else
    thenM (whenM (operatorType = PUNCTUATOR_NULLISH_COALESCING \<and> isBinaryExpression b \<and> IsLogical (the (binaryOperator b)) \<and> \<not> grouped)
      ((ThrowSyntaxError nullishMix)))
    ((onNodes (newBinary lhs rightExpr operatorType))))))"

definition ParseBinaryExpression :: "parseCalls \<Rightarrow> nodeId \<Rightarrow> nodeId parseM" where
  "ParseBinaryExpression c lhs =
    bindM tokenType (\<lambda>operatorType.
    bindM (nodeIs (\<lambda>b. case b of Expr (UnaryExpression _ _) \<Rightarrow> True | _ \<Rightarrow> False) lhs) (\<lambda>isUnary.
    bindM (onNodes (IsGrouped lhs)) (\<lambda>t1.
    thenM (throwIf (operatorType = PUNCTUATOR_EXPONENTIATION \<and> isUnary \<and> \<not> t1) ''Illegal expression. Wrap left hand side or entire exponentiation in parentheses.'')
    (thenM advance
    (bindM (cExpression c EF_DISALLOW_YIELD) (\<lambda>rightExpr.
    bindM (bodyNow rightExpr) (\<lambda>b.
    bindM (onNodes (IsGrouped rightExpr)) (\<lambda>grouped.
    ((case b of Expr (ConditionalExpression test cons alt) \<Rightarrow> if grouped then placeOperator lhs operatorType rightExpr else bindM (placeOperator lhs operatorType test) (\<lambda>newTest. bindM (startOf newTest) (\<lambda>start. thenM (setStart rightExpr start) (thenM (onNodes (setBody rightExpr (Expr (ConditionalExpression newTest cons alt)))) (ret rightExpr)))) | _ \<Rightarrow> placeOperator lhs operatorType rightExpr))))))))))"

section \<open>Assignments, sequences and expressions\<close>

definition assignmentOperators :: "tokenType set" where
  "assignmentOperators = {PUNCTUATOR_UNSIGNED_RIGHT_SHIFT_EQUAL, PUNCTUATOR_RIGHT_SHIFT_EQUAL,
     PUNCTUATOR_LEFT_SHIFT_EQUAL, PUNCTUATOR_PLUS_EQUAL, PUNCTUATOR_MINUS_EQUAL, PUNCTUATOR_MULTIPLY_EQUAL,
     PUNCTUATOR_DIVIDE_EQUAL, PUNCTUATOR_MOD_EQUAL, PUNCTUATOR_BITWISE_AND_EQUAL, PUNCTUATOR_BITWISE_OR_EQUAL,
     PUNCTUATOR_BITWISE_XOR_EQUAL, PUNCTUATOR_LOGICAL_AND_EQUAL, PUNCTUATOR_LOGICAL_OR_EQUAL,
     PUNCTUATOR_LOGICAL_NULLISH_EQUAL, PUNCTUATOR_EXPONENTIATION_EQUAL}"

definition binaryOperators :: "tokenType set" where
  "binaryOperators = {PUNCTUATOR_NULLISH_COALESCING, PUNCTUATOR_LOGICAL_OR, PUNCTUATOR_LOGICAL_AND,
     PUNCTUATOR_BITWISE_OR, PUNCTUATOR_BITWISE_XOR, PUNCTUATOR_BITWISE_AND, PUNCTUATOR_EQUAL,
     PUNCTUATOR_NOT_EQUAL, PUNCTUATOR_STRICT_EQUAL, PUNCTUATOR_NOT_STRICT_EQUAL, PUNCTUATOR_LESS_THAN,
     PUNCTUATOR_LESS_THAN_EQUAL, PUNCTUATOR_GREATER_THAN, PUNCTUATOR_GREATER_THAN_EQUAL,
     PUNCTUATOR_LEFT_SHIFT, PUNCTUATOR_RIGHT_SHIFT, PUNCTUATOR_UNSIGNED_RIGHT_SHIFT, PUNCTUATOR_PLUS,
     PUNCTUATOR_MINUS, PUNCTUATOR_MULTIPLY, PUNCTUATOR_DIVIDE, PUNCTUATOR_MOD, KEYW_INSTANCEOF,
     PUNCTUATOR_EXPONENTIATION}"

definition ParseAssignment :: "parseCalls \<Rightarrow> nodeId \<Rightarrow> u32 \<Rightarrow> nodeId parseM" where
  "ParseAssignment c lhs flags =
    bindM tokenType (\<lambda>operatorType.
    thenM advance
    (bindM (cExpression c (CarryPatternFlags flags)) (\<lambda>rhs.
    bindM (startOf lhs) (\<lambda>t1.
    bindM (endOf rhs) (\<lambda>t2.
    (makeNode (Expr (AssignmentExpression lhs rhs operatorType)) t1 t2))))))"

definition ParseConditional :: "parseCalls \<Rightarrow> nodeId \<Rightarrow> nodeId parseM" where
  "ParseConditional c test =
    thenM advance
    (bindM (cExpression c EF_NO_OPTS) (\<lambda>consequent.
    thenM (expect PUNCTUATOR_COLON (''Unexpected token, expected '' @ [CHR 0x27] @ '':'' @ [CHR 0x27]))
    (thenM advance
    (bindM (cExpression c EF_NO_OPTS) (\<lambda>alternate.
    bindM (startOf test) (\<lambda>t1.
    bindM (endOf alternate) (\<lambda>t2.
    (makeNode (Expr (ConditionalExpression test consequent alternate)) t1 t2))))))))"

definition ParseAssignmentExpression :: "parseCalls \<Rightarrow> nodeId \<Rightarrow> u32 \<Rightarrow> nodeId parseM" where
  "ParseAssignmentExpression c lhs flags =
    bindM tokenType (\<lambda>t.
    thenM (bindM (onNodes (IsGrouped lhs)) (\<lambda>t1.
    whenM (t \<noteq> PUNCTUATOR_ARROW \<and> t1)
      (bindM (bodyNow lhs) (\<lambda>b.
      ((case b of Expr (SequenceExpression es) \<Rightarrow> inOrder (map ValidateParenthesizedExpression es) | _ \<Rightarrow> ValidateParenthesizedExpression lhs))))))
    ((if t = PUNCTUATOR_QUESTION_MARK then
      (ParseConditional c lhs)
    else
    (if t = PUNCTUATOR_ARROW then
      bindM atNewLine (\<lambda>t2.
      thenM (throwIf (t2) (''Uncaught SyntaxError: expected expression, got '' @ [CHR 0x27] @ ''=>'' @ [CHR 0x27]))
      ((ParseArrowFunctionExpression c (Some lhs) None None False)))
    else
    (if (t = KEYW_IN \<and> \<not> has flags EF_STOP_AT_IN) \<or> t : binaryOperators then
      bindM (ParseBinaryExpression c lhs) (\<lambda>be.
      (cAssignment c be EF_NO_OPTS))
    else
    (if t = PUNCTUATOR_SUBSTITUTION then
      thenM (ValidateAssignmentTarget flags lhs)
      ((ParseAssignment c lhs flags))
    else
    (if t : assignmentOperators then
      thenM (ValidateLvalueAssignmentTarget lhs)
      ((ParseAssignment c lhs flags))
    else
    (ret lhs))))))))"

primrec Sequence_loop :: "parseCalls \<Rightarrow> bool \<Rightarrow> bool \<Rightarrow> nat \<Rightarrow> nodeId list \<Rightarrow> (nodeId list) parseM" where
  "Sequence_loop c acceptRest acceptTsParam 0 es = out_of_fuel"
| "Sequence_loop c acceptRest acceptTsParam (Suc n) es =
    bindM (at PUNCTUATOR_COMMA) (\<lambda>t1.
    (if \<not> t1 then
      (ret es)
    else
    thenM advance
    (bindM (at PUNCTUATOR_PERIOD_PERIOD_PERIOD) (\<lambda>t2.
    (if acceptRest \<and> t2 then
      bindM (ParseSpreadElement c EF_MUST_BE_PATTERN) (\<lambda>expr.
      (ret (es @ [expr])))
    else
    bindM (
      bindM (at PUNCTUATOR_RIGHT_PARENTHESIS) (\<lambda>t3.
      (if t3 then
        (onLexer CheckArrow)
      else
      (ret False)))) (\<lambda>arrow.
    (if arrow then
      (ret es)
    else
    bindM (cExpression c (if acceptTsParam then EF_ALLOW_TS_PARAM_TOKEN else EF_NO_OPTS)) (\<lambda>expr.
    (Sequence_loop c acceptRest acceptTsParam n (es @ [expr]))))))))))"

definition ParseSequenceExpression :: "parseCalls \<Rightarrow> nodeId \<Rightarrow> bool \<Rightarrow> bool \<Rightarrow> nodeId parseM" where
  "ParseSequenceExpression c startExpr acceptRest acceptTsParam =
    bindM (startOf startExpr) (\<lambda>start.
    bindM (bounded (\<lambda>n. Sequence_loop c acceptRest acceptTsParam n [startExpr])) (\<lambda>es.
    bindM (endOf (last es)) (\<lambda>t1.
    (makeNode (Expr (SequenceExpression es)) start t1))))"

definition ParsePotentialExpressionSequence :: "parseCalls \<Rightarrow> nodeId \<Rightarrow> u32 \<Rightarrow> nodeId parseM" where
  "ParsePotentialExpressionSequence c expr flags =
    bindM (at PUNCTUATOR_COMMA) (\<lambda>t1.
    (if t1 \<and> has flags EF_ACCEPT_COMMA then
      (ParseSequenceExpression c expr (has flags EF_ACCEPT_REST) False)
    else
    (ret expr)))"

definition ParseYieldExpression :: "parseCalls \<Rightarrow> nodeId parseM" where
  "ParseYieldExpression c =
    bindM tokenStart (\<lambda>startLoc.
    bindM tokenEnd (\<lambda>endLoc.
    bindM (tokenHas TF_HAS_ESCAPE) (\<lambda>t1.
    thenM (throwIf (t1) ''Unexpected identifier'')
    (thenM advance
    (bindM atNewLine (\<lambda>newLine.
    bindM tokenType (\<lambda>t.
    bindM (
      (if t = PUNCTUATOR_MULTIPLY \<and> \<not> newLine then
        thenM advance
        (bindM (cExpression c EF_NO_OPTS) (\<lambda>argument.
        bindM (endOf argument) (\<lambda>e.
        (ret ((Some argument, True, e))))))
      else
      (if \<not> newLine \<and> t \<notin> {PUNCTUATOR_RIGHT_BRACE, PUNCTUATOR_RIGHT_PARENTHESIS, PUNCTUATOR_RIGHT_SQUARE_BRACKET, PUNCTUATOR_COMMA, PUNCTUATOR_SEMI_COLON, PUNCTUATOR_COLON, EOS} then
        bindM (cExpression c EF_NO_OPTS) (\<lambda>argument.
        bindM (endOf argument) (\<lambda>e.
        (ret ((Some argument, False, e)))))
      else
      (ret ((None, False, endLoc)))))) (\<lambda>(argument, isDelegate, endLoc).
    (makeNode (Expr (YieldExpression argument isDelegate)) startLoc endLoc)))))))))"

text \<open>A reference to \<open>const\<close>.\<close>

definition isConstReference :: "nodeTable \<Rightarrow> nodeBody \<Rightarrow> bool" where
  "isConstReference t b =
    (case b of TsType (TSTypeReference n _) \<Rightarrow> nameAt t n = Some (asciiText ''const'') | _ \<Rightarrow> False)"

definition continuesAs :: "u32 \<Rightarrow> bool parseM" where
  "continuesAs flags =
    bindM isTs (\<lambda>t1.
    bindM (at LITERAL_IDENT) (\<lambda>t2.
    bindM (atKeyword KEYW_AS) (\<lambda>t3.
    (ret (t1 \<and> t2 \<and> t3 \<and> \<not> has flags EF_EXP_DISALLOW_AS)))))"

primrec TsAs_loop :: "parseCalls \<Rightarrow> u32 \<Rightarrow> nat \<Rightarrow> nodeId \<Rightarrow> nodeId parseM" where
  "TsAs_loop c flags 0 expr = out_of_fuel"
| "TsAs_loop c flags (Suc n) expr =
    thenM advance
    (bindM (theType c (TO_THROW_ERROR OR TO_ALLOW_CONST)) (\<lambda>ty.
    bindM (getM psNodes) (\<lambda>table.
    bindM (nodeIs (isConstReference table) ty) (\<lambda>isConst.
    bindM (startOf expr) (\<lambda>t1.
    bindM tokenEnd (\<lambda>t2.
    bindM (makeNode (Ts (TSAsExpression expr ty isConst)) t1 t2) (\<lambda>asExpr.
    bindM (continuesAs flags) (\<lambda>t3.
    (if t3 then
      (TsAs_loop c flags n asExpr)
    else
    (ret asExpr))))))))))"

definition ParseTsAsExpression :: "parseCalls \<Rightarrow> nodeId \<Rightarrow> u32 \<Rightarrow> nodeId parseM" where
  "ParseTsAsExpression c expr flags =
    (bounded (\<lambda>n. TsAs_loop c flags n expr))"

definition ParseExpression :: "parseCalls \<Rightarrow> u32 \<Rightarrow> nodeId parseM" where
  "ParseExpression c flags =
    bindM (at KEYW_YIELD) (\<lambda>t1.
    (if t1 \<and> \<not> has flags EF_DISALLOW_YIELD then
      bindM (ParseYieldExpression c) (\<lambda>yieldExpr.
      (ParsePotentialExpressionSequence c yieldExpr flags))
    else
    bindM isTs (\<lambda>t2.
    bindM (at PUNCTUATOR_LESS_THAN) (\<lambda>t3.
    (if t2 \<and> t3 then
      bindM savePosition (\<lambda>startPos.
      bindM (ParseTsGenericArrowFunction c) (\<lambda>expr.
      ((case expr of Some e \<Rightarrow> ret e | None \<Rightarrow> thenM (rewindTo startPos) (ParseTsTypeAssertion c)))))
    else
    bindM (ParseUnaryOrPrefixUpdateExpression c flags) (\<lambda>unary.
    bindM (ParseAssignmentExpression c unary flags) (\<lambda>assignment.
    bindM atNewLine (\<lambda>t4.
    (if t4 then
      (ret assignment)
    else
    bindM (continuesAs flags) (\<lambda>t5.
    (if t5 then
      (ParseTsAsExpression c assignment flags)
    else
    bindM (at PUNCTUATOR_COMMA) (\<lambda>t6.
    (if t6 \<and> has flags EF_ACCEPT_COMMA then
      (ParseSequenceExpression c assignment (has flags EF_ACCEPT_REST) (has flags EF_ALLOW_TS_PARAM_TOKEN))
    else
    (ret assignment))))))))))))))"

end
