(* ===== verification/ClassParser.thy ===== *)
theory ClassParser
  imports ExprParser
begin

text \<open>
  Classes and enums: the methods of \<open>parser/parserImpl.cpp\<close> from \<open>CheckAccessorPair\<close> to \<open>ParseEnumDeclaration\<close>.

  \<open>ClassElmentDescriptor\<close> is the record \<open>classElement\<close>; two of its members, \<open>methodStart\<close> and \<open>classField\<close>,
  are written and never read, and are left out.  The methods that take it by pointer return it.
\<close>

section \<open>Class elements\<close>

record classElement =
  ceKind :: methodDefinitionKind
  ceStatus :: u32
  ceModifiers :: u32
  cePropStart :: sourcePosition
  cePrivate :: bool
  ceSuper :: bool
  ceGenerator :: bool
  ceInvalidComputed :: bool
  ceComputed :: bool
  ceIndexSignature :: bool
  ceMethod :: bool

text \<open>The declaration of the class being read, which its elements look at.\<close>

type_synonym classBody = "nodeId list"

definition GetAccessability :: "u32 \<Rightarrow> u32" where
  "GetAccessability modifiers =
    (if has modifiers MF_PUBLIC then MF_PUBLIC else if has modifiers MF_PRIVATE then MF_PRIVATE
     else if has modifiers MF_PROTECTED then MF_PROTECTED else MF_NONE)"

definition keyIsSame :: "nodeBody \<Rightarrow> nodeBody \<Rightarrow> bool" where
  "keyIsSame key propName =
    (case (key, propName) of
       (Expr (Identifier i), Expr (Identifier j)) \<Rightarrow> iName i = iName j
     | (Lit (NumberLiteral d _), Lit (NumberLiteral e _)) \<Rightarrow> d = e
     | (Lit (StringLiteral s), Lit (StringLiteral t)) \<Rightarrow> s = t
     | _ \<Rightarrow> False)"

text \<open>The accessibility of a getter must not be less than the one of the setter; the flags are compared as numbers.\<close>

definition accessorMismatch :: "u32 \<Rightarrow> u32 \<Rightarrow> bool" where
  "accessorMismatch setAccess getAccess \<longleftrightarrow>
    (setAccess = MF_NONE \<and> MF_PUBLIC < getAccess) \<or> (setAccess \<noteq> MF_NONE \<and> setAccess < getAccess)"

text \<open>One element of the class against an accessor of the same name.\<close>

definition CheckAccessor :: "nodeId \<Rightarrow> nodeBody \<Rightarrow> methodDefinitionKind \<Rightarrow> u32 \<Rightarrow> bool \<Rightarrow> sourcePosition \<Rightarrow> unit parseM" where
  "CheckAccessor it propName methodKind access hasDecorator errorInfo =
    bindM (bodyNow it) (\<lambda>b.
    ((case b of Part (MethodDefinition m) \<Rightarrow> if \<not> hasDecorator \<and> mKind m \<noteq> methodKind then ret () else bindM (bodyNow (mKey m)) (\<lambda>key. if \<not> keyIsSame key propName then ret () else thenM (throwAt (hasDecorator \<and> mKind m \<in> {MDK_GET, MDK_SET} \<and> mDecorators m \<noteq> []) ''Decorators cannot be applied to multiple get/set accessors of the same name.'' errorInfo) (if mKind m \<noteq> methodKind then ret () else let other = GetAccessability (mModifiers m); setAccess = (if methodKind = MDK_GET then access else other); getAccess = (if methodKind = MDK_GET then other else access) in bindM (startOf (mKey m)) (\<lambda>pos. throwAt (accessorMismatch setAccess getAccess) ''A get accessor must be at least as accessible as the setter'' pos))) | _ \<Rightarrow> ret ())))"

definition CheckAccessorPair ::
  "nodeId list \<Rightarrow> nodeId \<Rightarrow> methodDefinitionKind \<Rightarrow> u32 \<Rightarrow> bool \<Rightarrow> sourcePosition \<Rightarrow> unit parseM" where
  "CheckAccessorPair properties propName methodKind access hasDecorator errorInfo =
    bindM (bodyNow propName) (\<lambda>key.
      inOrder (map (\<lambda>it. CheckAccessor it key methodKind access hasDecorator errorInfo) properties))"

definition ThrowIfPrivateIdent :: "classElement \<Rightarrow> string \<Rightarrow> unit parseM" where
  "ThrowIfPrivateIdent desc message =
    ((if cePrivate desc then ThrowSyntaxError message else ret ()))"

definition ParseClassKeyModifiers :: "classElement \<Rightarrow> classElement parseM" where
  "ParseClassKeyModifiers desc =
    bindM GetToken (\<lambda>t.
    (if tokType t \<noteq> LITERAL_IDENT then
      (ret desc)
    else
    bindM Lookahead (\<lambda>nextCp.
    bindM Extension (\<lambda>t1.
    (if \<not> mayBeModifier t1 nextCp \<or> keywordType t \<notin> {KEYW_GET, KEYW_SET} then
      (ret desc)
    else
    (let getter = (keywordType t = KEYW_GET) in
    thenM (throwIf (cePrivate desc \<and> getter) ''Private identifier can not be getter'')
    (thenM (throwIf (cePrivate desc \<and> \<not> getter) ''Private identifier can not be setter'')
    (thenM (throwIf (hasFlag t TF_HAS_ESCAPE) ''Keyword must not contain escaped characters'')
    (thenM advanceIdent
    ((ret (desc\<lparr>ceKind := if getter then MDK_GET else MDK_SET\<rparr>))))))))))))"

definition ValidateClassKey :: "classElement \<Rightarrow> classElement parseM" where
  "ValidateClassKey desc =
    (let accessor = (ceKind desc \<in> {MDK_GET, MDK_SET}) in
    (let isAsync = has (ceModifiers desc) MF_ASYNC in
    (let isStatic = has (ceModifiers desc) MF_STATIC in
    thenM (throwIf (isAsync \<and> accessor) ''Async method can not be getter nor setter'')
    (bindM tokenIdent (\<lambda>n.
    (if n = asciiText ''constructor'' then
      thenM (ThrowIfPrivateIdent desc ''Private identifier can not be constructor'')
      ((if \<not> isStatic then
        thenM (throwIf (isAsync \<or> accessor \<or> ceGenerator desc) ''Constructor can not be special method'')
        ((ret (desc\<lparr>ceKind := MDK_CONSTRUCTOR, ceStatus := ceStatus desc OR PS_CONSTRUCTOR_FUNCTION OR (if ceSuper desc then PS_ALLOW_SUPER_CALL else 0)\<rparr>)))
      else
      bindM isTs (\<lambda>t1.
      thenM (throwIf (t1) ''Static modifier can not appear on a constructor'')
      ((ret desc)))))
    else
    thenM (throwIf (n = asciiText ''prototype'' \<and> isStatic) ''Classes may not have static property named prototype'')
    ((ret desc))))))))"

text \<open>A key of an index signature, after \<open>[\<close>.\<close>

definition ParseIndexSignatureKey :: "parseCalls \<Rightarrow> nodeId parseM" where
  "ParseIndexSignatureKey c =
    bindM makeIdentifier (\<lambda>propName.
    thenM advance
    (thenM (expect PUNCTUATOR_COLON ([CHR 0x27] @ '':'' @ [CHR 0x27] @ '' expected''))
    (thenM advance
    (bindM (theType c TO_THROW_ERROR) (\<lambda>ty.
    bindM (nodeIs (\<lambda>b. case b of TsType TSNumberKeyword \<Rightarrow> True | TsType TSStringKeyword \<Rightarrow> True | _ \<Rightarrow> False) ty) (\<lambda>ok.
    thenM (throwIf (\<not> ok) (''An index signature parameter type must be either '' @ [CHR 0x27] @ ''string'' @ [CHR 0x27] @ '' or '' @ [CHR 0x27] @ ''number'' @ [CHR 0x27]))
    (thenM (onNodes (SetTsTypeAnnotation propName (Some ty)))
    (thenM (expect PUNCTUATOR_RIGHT_SQUARE_BRACKET ([CHR 0x27] @ '']'' @ [CHR 0x27] @ '' expected''))
    (thenM advanceIdent
    ((ret propName)))))))))))"

text \<open>A computed name must be a literal or a property of \<open>Symbol\<close>.\<close>

definition validComputedName :: "nodeTable \<Rightarrow> nodeBody \<Rightarrow> bool" where
  "validComputedName t b =
    (isNumberLiteral b \<or> isStringLiteral b \<or> (case b of Expr (MemberExpression obj _ _ _) \<Rightarrow> nameAt t obj = Some (asciiText ''Symbol'') | _ \<Rightarrow> False))"

definition ParseClassKey :: "parseCalls \<Rightarrow> classElement \<Rightarrow> (nodeId \<times> classElement) parseM" where
  "ParseClassKey c desc =
    bindM GetToken (\<lambda>tk.
    thenM (whenM (IsKeyword tk)
      ((onLexer (setType LITERAL_IDENT))))
    (bindM tokenType (\<lambda>t.
    (if t = PUNCTUATOR_LEFT_SQUARE_BRACKET then
      thenM (ThrowIfPrivateIdent desc ''Unexpected character in private identifier'')
      (thenM advance
      (bindM isTs (\<lambda>t1.
      bindM (at LITERAL_IDENT) (\<lambda>t2.
      bindM Lookahead (\<lambda>t3.
      (if t1 \<and> t2 \<and> t3 = LEX_CHAR_COLON then
        bindM (ParseIndexSignatureKey c) (\<lambda>propName.
        (ret ((propName, desc\<lparr>ceIndexSignature := True\<rparr>))))
      else
      bindM (cExpression c EF_ACCEPT_COMMA) (\<lambda>propName.
      bindM (bodyNow propName) (\<lambda>b.
      bindM (getM psNodes) (\<lambda>table.
      bindM isTs (\<lambda>ts.
      (let desc = desc\<lparr>ceComputed := True, ceInvalidComputed := if ts then (\<not> validComputedName table b) else ceInvalidComputed desc\<rparr> in
      thenM (expect PUNCTUATOR_RIGHT_SQUARE_BRACKET (''Unexpected token, expected '' @ [CHR 0x27] @ '']'' @ [CHR 0x27]))
      (thenM advanceIdent
      ((ret ((propName, desc))))))))))))))))
    else
    bindM (
      (if t = LITERAL_IDENT then
        bindM (ValidateClassKey desc) (\<lambda>desc.
        bindM makeIdentifier (\<lambda>n.
        (ret ((n, desc)))))
      else
      (if t = LITERAL_STRING then
        thenM (ThrowIfPrivateIdent desc ''Private identifier name can not be string'')
        (bindM makeString (\<lambda>n.
        (ret ((n, desc)))))
      else
      (if t = LITERAL_NUMBER then
        thenM (ThrowIfPrivateIdent desc ''Private identifier name can not be number'')
        (bindM makeNumber (\<lambda>n.
        (ret ((n, desc)))))
      else
      (ThrowSyntaxError ''Unexpected token in class property''))))) (\<lambda>(propName, desc).
    thenM advanceIdent
    ((ret ((propName, desc)))))))))"

text \<open>The status of the method; it is not changed when a field of a JavaScript class returns early.\<close>

definition methodStatus :: "classElement \<Rightarrow> u32" where
  "methodStatus desc =
    (ceStatus desc OR (if has (ceModifiers desc) MF_ASYNC then PS_ASYNC_FUNCTION else 0) OR (if ceGenerator desc then PS_GENERATOR_FUNCTION else 0))"

definition ValidateClassMethodStart :: "classElement \<Rightarrow> nodeId option \<Rightarrow> classElement parseM" where
  "ValidateClassMethodStart desc typeAnnotation =
    bindM Extension (\<lambda>ext.
    bindM tokenType (\<lambda>t.
    (if ext = JS \<and> t \<noteq> PUNCTUATOR_LEFT_PARENTHESIS then
      (ret desc)
    else
    (let desc = (if ext = JS then desc\<lparr>ceMethod := True\<rparr> else desc) in
    thenM (throwIf (ext = TS \<and> t = PUNCTUATOR_LEFT_PARENTHESIS \<and> cePrivate desc) ''A method cannot be named with a private identifier'')
    ((let isMethod = (typeAnnotation = None \<and> t \<in> {PUNCTUATOR_LEFT_PARENTHESIS, PUNCTUATOR_LESS_THAN}) in
    bindM (
      (if ext \<noteq> TS then
        (ret desc)
      else
      (if isMethod then
        thenM (throwIf (has (ceModifiers desc) (MF_DECLARE OR MF_READONLY)) ''Class method can not be declare nor readonly'')
        ((ret (desc\<lparr>ceMethod := True\<rparr>)))
      else
      thenM (throwIf (has (ceModifiers desc) MF_ASYNC \<or> ceGenerator desc) (''Expected '' @ [CHR 0x27] @ ''('' @ [CHR 0x27]))
      (thenM (throwIf (ceInvalidComputed desc) ''Computed property name must refer to a symbol or literal expression whos value is number or string'')
      ((ret desc)))))) (\<lambda>desc.
    (ret (desc\<lparr>ceStatus := methodStatus desc\<rparr>)))))))))"

definition checkAccessors :: "classElement \<Rightarrow> nodeId list \<Rightarrow> nodeId \<Rightarrow> methodDefinitionKind \<Rightarrow> bool \<Rightarrow> sourcePosition \<Rightarrow> unit parseM" where
  "checkAccessors desc properties propName other hasDecorator errorInfo =
    bindM isTs (\<lambda>t1.
    whenM (t1 \<and> \<not> has (ceModifiers desc) MF_STATIC)
      ((CheckAccessorPair properties propName other (GetAccessability (ceModifiers desc)) hasDecorator errorInfo)))"

definition ValidateClassSetter :: "classElement \<Rightarrow> nodeId list \<Rightarrow> nodeId \<Rightarrow> scriptFunctionNode \<Rightarrow> bool \<Rightarrow> sourcePosition \<Rightarrow> unit parseM" where
  "ValidateClassSetter desc properties propName f hasDecorator errorInfo =
    thenM (throwIf (length (fParams f) \<noteq> 1) ''Setter must have exactly one formal parameter'')
    ((checkAccessors desc properties propName MDK_GET hasDecorator errorInfo))"

definition ValidateClassGetter :: "classElement \<Rightarrow> nodeId list \<Rightarrow> nodeId \<Rightarrow> scriptFunctionNode \<Rightarrow> bool \<Rightarrow> sourcePosition \<Rightarrow> unit parseM" where
  "ValidateClassGetter desc properties propName f hasDecorator errorInfo =
    thenM (throwIf (fParams f \<noteq> []) ''Getter must not have formal parameters'')
    ((checkAccessors desc properties propName MDK_SET hasDecorator errorInfo))"

definition newMethod ::
  "methodDefinitionKind \<Rightarrow> nodeId \<Rightarrow> nodeId \<Rightarrow> u32 \<Rightarrow> nodeId list \<Rightarrow> bool \<Rightarrow> methodNode" where
  "newMethod kind key val modifiers decorators isComputed =
    \<lparr>mKind = kind, mKey = key, mValue = val, mModifiers = modifiers, mOverloads = [],
     mDecorators = decorators, mComputed = isComputed\<rparr>"

definition ParseClassMethod :: "parseCalls \<Rightarrow> classElement \<Rightarrow> nodeId list \<Rightarrow> nodeId \<Rightarrow> nodeId list \<Rightarrow> bool \<Rightarrow> (nodeId \<times> sourcePosition) parseM" where
  "ParseClassMethod c desc properties propName decorators isDeclare =
    bindM isTs (\<lambda>ts.
    (let accessor = (ceKind desc \<in> {MDK_GET, MDK_SET}) in
    (let newStatus = (if ts then ceStatus desc OR (if accessor then PS_ACCESSOR_FUNCTION else 0) OR PS_IN_METHOD_DEFINITION else ceStatus desc) in
    thenM (throwIf (isDeclare \<and> has newStatus PS_ASYNC_FUNCTION) ([CHR 0x27] @ ''async'' @ [CHR 0x27] @ '' modifier cannot be used in an ambient context.''))
    (thenM (throwIf (isDeclare \<and> ceGenerator desc) ''Generators are not allowed in an ambient context.'')
    (bindM (ParseFunction c newStatus isDeclare) (\<lambda>func.
    bindM (onNodes (functionNode func)) (\<lambda>f.
    thenM (whenM (has (fFlags f) SF_OVERLOAD \<and> decorators \<noteq> [])
      (bindM (startOf (hd decorators)) (\<lambda>t1.
      (ThrowSyntaxErrorAt ''A decorator can only decorate a method implementation, not an overload.'' t1))))
    (bindM (makeNodeLike (Expr (FunctionExpression func)) func) (\<lambda>funcExpr.
    bindM (startOf (if decorators = [] then func else hd decorators)) (\<lambda>errorInfo.
    thenM (
      (if ceKind desc = MDK_SET then
        (ValidateClassSetter desc properties propName f (decorators \<noteq> []) errorInfo)
      else
      (if ceKind desc = MDK_GET then
        (ValidateClassGetter desc properties propName f (decorators \<noteq> []) errorInfo)
      else
      ret ())))
    (bindM (endOf func) (\<lambda>propEnd.
    thenM (onNodes (AddFunctionFlag func SF_METHOD))
    (bindM (makeNodeLike (Part (MethodDefinition (newMethod (ceKind desc) propName funcExpr (ceModifiers desc) decorators (ceComputed desc)))) funcExpr) (\<lambda>method.
    (ret ((method, propEnd)))))))))))))))))"

definition ParseClassProperty :: "parseCalls \<Rightarrow> classElement \<Rightarrow> nodeId list \<Rightarrow> nodeId \<Rightarrow> nodeId option \<Rightarrow> nodeId list \<Rightarrow> bool \<Rightarrow> nodeId parseM" where
  "ParseClassProperty c desc properties propName typeAnnotation decorators isDeclare =
    bindM (endOf propName) (\<lambda>propEnd.
    (if ceMethod desc then
      bindM (ParseClassMethod c desc properties propName decorators isDeclare) (\<lambda>(property, propEnd).
      thenM (onNodes (SetRange property (cePropStart desc) propEnd))
      ((ret property)))
    else
    bindM (
      bindM (at PUNCTUATOR_SUBSTITUTION) (\<lambda>t1.
      (if t1 then
        thenM advance
        (thenM (throwIf (isDeclare) ''Initializers are not allowed in ambient contexts.'')
        (bindM (cExpression c EF_NO_OPTS) (\<lambda>value.
        bindM (endOf value) (\<lambda>e.
        (ret ((Some value, e)))))))
      else
      (ret ((None, propEnd)))))) (\<lambda>(value, propEnd).
    bindM Extension (\<lambda>ext.
    thenM (throwIf (ext = JS \<and> cePrivate desc) ''Private js fields are not supported'')
    (bindM (
      (if cePrivate desc then
        bindM (endOf propName) (\<lambda>t2.
        (makeNode (Ts (TSPrivateIdentifier propName value typeAnnotation)) (cePropStart desc) t2))
      else
      (ret propName))) (\<lambda>key.
    (makeNode (Part (ClassProperty key value typeAnnotation (ceModifiers desc) decorators (ceComputed desc) (has (ceModifiers desc) MF_DEFINITE))) (cePropStart desc) propEnd)))))))"

definition CheckClassGeneratorMethod :: "classElement \<Rightarrow> classElement parseM" where
  "CheckClassGeneratorMethod desc =
    bindM (at PUNCTUATOR_MULTIPLY) (\<lambda>t1.
    (if \<not> t1 then
      (ret desc)
    else
    thenM (ThrowIfPrivateIdent desc ''Unexpected character in private identifier'')
    (thenM advanceIdent
    ((ret (desc\<lparr>ceGenerator := True\<rparr>))))))"

definition CheckClassPrivateIdentifier :: "classElement \<Rightarrow> classElement parseM" where
  "CheckClassPrivateIdentifier desc =
    bindM (at PUNCTUATOR_HASH_MARK) (\<lambda>t1.
    (if \<not> t1 then
      (ret desc)
    else
    bindM Extension (\<lambda>ext.
    thenM (throwIf (ext = JS) ''JS private class fields are not supported.'')
    ((if ext = AS then
      (ret desc)
    else
    thenM (throwIf (ceModifiers desc \<noteq> MF_NONE) ''Unexpected modifier on private identifier'')
    (thenM advanceIdent
    ((ret (desc\<lparr>cePrivate := True\<rparr>)))))))))"

definition ParseClassKeyAnnotation :: "parseCalls \<Rightarrow> (nodeId option) parseM" where
  "ParseClassKeyAnnotation c =
    (tsColonType c (TO_THROW_ERROR OR TO_BREAK_AT_NEW_LINE))"

text \<open>The suffix \<open>?\<close> or \<open>!\<close> of a key.\<close>

definition ParseClassKeySuffix :: "classElement \<Rightarrow> classElement parseM" where
  "ParseClassKeySuffix desc =
    bindM isTs (\<lambda>ts.
    bindM (at PUNCTUATOR_QUESTION_MARK) (\<lambda>t1.
    (if ts \<and> t1 then
      thenM (throwIf (ceIndexSignature desc) ([CHR 0x27] @ '';'' @ [CHR 0x27] @ '' expected''))
      (thenM (throwIf (ceKind desc = MDK_CONSTRUCTOR) ([CHR 0x27] @ ''('' @ [CHR 0x27] @ '' expected''))
      (thenM advance
      ((ret (desc\<lparr>ceModifiers := ceModifiers desc OR MF_OPTIONAL\<rparr>)))))
    else
    bindM (at PUNCTUATOR_EXCLAMATION_MARK) (\<lambda>t2.
    (if ts \<and> t2 then
      bindM Lookahead (\<lambda>t3.
      thenM (throwIf (ceIndexSignature desc \<or> t3 \<noteq> LEX_CHAR_COLON) ([CHR 0x27] @ '';'' @ [CHR 0x27] @ '' expected''))
      (thenM advance
      ((ret (desc\<lparr>ceModifiers := ceModifiers desc OR MF_DEFINITE\<rparr>)))))
    else
    (ret desc))))))"

definition rejectDecorators :: "nodeId list \<Rightarrow> unit parseM" where
  "rejectDecorators decorators =
    whenM (decorators \<noteq> [])
      (bindM (startOf (hd decorators)) (\<lambda>t1.
      (ThrowSyntaxErrorAt ''Decorators are not valid here.'' t1)))"

text \<open>A method whose function has a body.\<close>

definition isImplementation :: "nodeId \<Rightarrow> bool parseM" where
  "isImplementation property =
    bindM (bodyNow property) (\<lambda>b.
    ((case b of Part (MethodDefinition m) \<Rightarrow> bindM (bodyNow (mValue m)) (\<lambda>v. case v of Expr (FunctionExpression f) \<Rightarrow> bindM (onNodes (functionNode f)) (\<lambda>fn. ret (fBody fn \<noteq> None)) | _ \<Rightarrow> undefinedM) | _ \<Rightarrow> ret False)))"

text \<open>The element, and the index signatures with the one it adds.\<close>

definition ParseClassElement :: "parseCalls \<Rightarrow> nodeId list \<Rightarrow> nodeId list \<Rightarrow> bool \<Rightarrow> bool \<Rightarrow> bool \<Rightarrow> (nodeId \<times> nodeId list) parseM" where
  "ParseClassElement c properties indexSignatures hasSuper isDeclare isAbstract =
    bindM tokenStart (\<lambda>propStart.
    bindM (ParseDecorators c) (\<lambda>decorators.
    bindM ParseModifiers (\<lambda>modifiers.
    (let desc = \<lparr>ceKind = MDK_METHOD, ceStatus = PS_ALLOW_SUPER, ceModifiers = modifiers, cePropStart = propStart, cePrivate = False, ceSuper = hasSuper, ceGenerator = False, ceInvalidComputed = False, ceComputed = False, ceIndexSignature = False, ceMethod = False\<rparr> in
    thenM (throwIf (has modifiers MF_ABSTRACT \<and> \<not> isAbstract) ''Abstract methods can only appear within an abstract class.'')
    (bindM (CheckClassPrivateIdentifier desc) (\<lambda>desc.
    bindM (CheckClassGeneratorMethod desc) (\<lambda>desc.
    bindM (ParseClassKeyModifiers desc) (\<lambda>desc.
    thenM (whenM (\<not> has (ceModifiers desc) MF_STATIC)
      ((addStatus PS_ALLOW_THIS_TYPE)))
    (bindM (ParseClassKey c desc) (\<lambda>(propName, desc).
    thenM (whenM (ceKind desc = MDK_CONSTRUCTOR)
      ((rejectDecorators decorators)))
    (bindM (ParseClassKeySuffix desc) (\<lambda>desc.
    bindM (ParseClassKeyAnnotation c) (\<lambda>typeAnnotation.
    bindM (
      (if ceIndexSignature desc then
        thenM (rejectDecorators decorators)
        (thenM (throwIf (typeAnnotation = None) ''An index signature must have a type annotation'')
        (bindM (startOf propName) (\<lambda>t1.
        bindM (endOf (the typeAnnotation)) (\<lambda>t2.
        bindM (makeNode (Ts (TSIndexSignature propName (the typeAnnotation) (has (ceModifiers desc) MF_READONLY))) t1 t2) (\<lambda>sig.
        bindM (AllocNode (Stmt EmptyStatement)) (\<lambda>property.
        (ret ((property, indexSignatures @ [sig])))))))))
      else
      bindM (ValidateClassMethodStart desc typeAnnotation) (\<lambda>desc.
      bindM (ParseClassProperty c desc properties propName typeAnnotation decorators (isDeclare \<or> has (ceModifiers desc) MF_DECLARE)) (\<lambda>property.
      (ret ((property, indexSignatures))))))) (\<lambda>(property, indexSignatures).
    bindM (isImplementation property) (\<lambda>implemented.
    bindM (atAny [PUNCTUATOR_SEMI_COLON, PUNCTUATOR_RIGHT_BRACE]) (\<lambda>t3.
    bindM atNewLine (\<lambda>t4.
    thenM (throwIf (\<not> t3 \<and> \<not> t4 \<and> \<not> implemented) ([CHR 0x27] @ '';'' @ [CHR 0x27] @ '' expected.''))
    (thenM (bindM (at PUNCTUATOR_SEMI_COLON) (\<lambda>t5.
    whenM (t5)
      ((advanceIdent))))
    (thenM (dropStatus PS_ALLOW_THIS_TYPE)
    ((ret ((property, indexSignatures)))))))))))))))))))))))"

section \<open>Class definitions\<close>

text \<open>The parameters of the implicit constructor of a derived class and the call of \<open>super\<close> in its body; these nodes have no ranges.\<close>

definition implicitSuperCall :: "scopeId \<Rightarrow> (nodeId list \<times> nodeId list) parseM" where
  "implicitSuperCall pScope =
    (let args = asciiText ''args'' in
    bindM (AllocNode (Expr (Identifier (newIdentifier args)))) (\<lambda>i.
    bindM (AllocNode (Part (RestElement i None))) (\<lambda>rest.
    bindM (onNodes (patternTree rest)) (\<lambda>tree.
    (let (n, pattern) = ParamName tree 0 in
    thenM (onScopes (AddParamDecl pScope (OtherNode rest) n pattern []))
    (bindM (AllocNode (Expr SuperExpression)) (\<lambda>superExpr.
    bindM (AllocNode (Expr (Identifier (newIdentifier args)))) (\<lambda>j.
    bindM (AllocNode (Part (SpreadElement j None))) (\<lambda>spread.
    bindM (AllocNode (Expr (CallExpression superExpr [spread] None False))) (\<lambda>call.
    bindM (AllocNode (Stmt (ExpressionStatement call))) (\<lambda>stmt.
    (ret (([rest], [stmt]))))))))))))))"

definition CreateImplicitConstructor :: "bool \<Rightarrow> nodeId parseM" where
  "CreateImplicitConstructor hasSuper =
    bindM currentScope (\<lambda>cur.
    bindM (onScopes (allocScope (newScope FunctionParamScope (Some cur)))) (\<lambda>pScope.
    bindM (onScopes (allocScope (newScope FunctionScope (Some pScope)))) (\<lambda>fScp.
    bindM (
      (if hasSuper then
        (implicitSuperCall pScope)
      else
      (ret (([], []))))) (\<lambda>(params, statements).
    bindM (AllocNode (Stmt (BlockStatement fScp statements))) (\<lambda>body.
    bindM (AllocNode (Part (ScriptFunctionNode (newFunction fScp params None (Some body) None SF_CONSTRUCTOR False)))) (\<lambda>func.
    thenM (bindFunctionNode fScp pScope func SF_CONSTRUCTOR)
    (thenM (joinScopes fScp pScope)
    (bindM (AllocNode (Expr (FunctionExpression func))) (\<lambda>funcExpr.
    bindM (AllocNode (Expr (Identifier (newIdentifier (asciiText ''constructor''))))) (\<lambda>key.
    (AllocNode (Part (MethodDefinition (newMethod MDK_CONSTRUCTOR key funcExpr MF_NONE [] False))))))))))))))"

definition SetIdentNodeInClassDefinition :: "nodeId parseM" where
  "SetIdentNodeInClassDefinition =
    bindM tokenKeyword (\<lambda>k.
    thenM (throwIf (KEYW_STATIC \<le> k) ''Unexpected reserved word'')
    (bindM (statusHas PS_MODULE) (\<lambda>t1.
    thenM (throwIf (k = KEYW_AWAIT \<and> t1) ''Unexpected reserved word'')
    (bindM tokenIdent (\<lambda>n.
    bindM tokenStart (\<lambda>t2.
    bindM (addDecl t2 (newDecl DECL_CONST n)) (\<lambda>dcl.
    bindM makeIdentifier (\<lambda>identNode.
    thenM advance
    ((ret identNode))))))))))"

primrec Implements_loop :: "parseCalls \<Rightarrow> nat \<Rightarrow> nodeId list \<Rightarrow> (nodeId list) parseM" where
  "Implements_loop c 0 impls = out_of_fuel"
| "Implements_loop c (Suc n) impls =
    bindM (at PUNCTUATOR_LEFT_BRACE) (\<lambda>t1.
    (if t1 then
      (ret impls)
    else
    bindM tokenStart (\<lambda>implStart.
    thenM (expect LITERAL_IDENT ''Identifier expected'')
    (bindM makeIdentifier (\<lambda>ident.
    thenM advance
    (bindM (
      bindM (at PUNCTUATOR_PERIOD) (\<lambda>t2.
      (if t2 then
        (ParseTsQualifiedReference ident)
      else
      (ret ident)))) (\<lambda>expr.
    thenM (bindM (at PUNCTUATOR_LEFT_SHIFT) (\<lambda>t3.
    whenM (t3)
      ((onLexer (BackwardToken PUNCTUATOR_LESS_THAN 1)))))
    (bindM (
      bindM (atAny [PUNCTUATOR_LESS_THAN, PUNCTUATOR_LEFT_SHIFT]) (\<lambda>t4.
      (if t4 then
        (ParseTsTypeParameterInstantiation c True)
      else
      (ret None)))) (\<lambda>typeParams.
    bindM tokenEnd (\<lambda>t5.
    bindM (makeNode (Ts (TSClassImplements expr typeParams)) implStart t5) (\<lambda>impl.
    (let impls = impls @ [impl] in
    bindM (at PUNCTUATOR_COMMA) (\<lambda>t6.
    (if t6 then
      thenM advance
      ((Implements_loop c n impls))
    else
    thenM (expect PUNCTUATOR_LEFT_BRACE ([CHR 0x27] @ '','' @ [CHR 0x27] @ '' expected''))
    ((Implements_loop c n impls))))))))))))))))"

definition isConstructor :: "nodeBody \<Rightarrow> bool" where
  "isConstructor b =
    (case b of Part (MethodDefinition m) \<Rightarrow> mKind m = MDK_CONSTRUCTOR | _ \<Rightarrow> False)"

definition isEmptyStatement :: "nodeBody \<Rightarrow> bool" where
  "isEmptyStatement b =
    (case b of Stmt EmptyStatement \<Rightarrow> True | _ \<Rightarrow> False)"

text \<open>The constructor, the properties and the index signatures of a class body.\<close>

primrec ClassBody_loop :: "parseCalls \<Rightarrow> bool \<Rightarrow> bool \<Rightarrow> bool \<Rightarrow> nat \<Rightarrow> nodeId option \<Rightarrow> nodeId list \<Rightarrow> nodeId list \<Rightarrow> (nodeId option \<times> nodeId list \<times> nodeId list) parseM" where
  "ClassBody_loop c hasSuper isDeclare isAbstract 0 ctor properties indexSignatures = out_of_fuel"
| "ClassBody_loop c hasSuper isDeclare isAbstract (Suc n) ctor properties indexSignatures =
    bindM (at PUNCTUATOR_RIGHT_BRACE) (\<lambda>t1.
    (if t1 then
      (ret ((ctor, properties, indexSignatures)))
    else
    bindM (at PUNCTUATOR_SEMI_COLON) (\<lambda>t2.
    (if t2 then
      thenM advance
      ((ClassBody_loop c hasSuper isDeclare isAbstract n ctor properties indexSignatures))
    else
    bindM (ParseClassElement c properties indexSignatures hasSuper isDeclare isAbstract) (\<lambda>(property, indexSignatures).
    bindM (bodyNow property) (\<lambda>b.
    (if isEmptyStatement b then
      (ClassBody_loop c hasSuper isDeclare isAbstract n ctor properties indexSignatures)
    else
    (if isConstructor b then
      thenM (whenM (ctor \<noteq> None)
        (bindM (startOf property) (\<lambda>t3.
        (ThrowSyntaxErrorAt ''Multiple constructor implementations are not allowed.'' t3))))
      ((ClassBody_loop c hasSuper isDeclare isAbstract n (Some property) properties indexSignatures))
    else
    (ClassBody_loop c hasSuper isDeclare isAbstract n ctor (properties @ [property]) indexSignatures)))))))))"

text \<open>The heritage of a class: super class, its type arguments, and the interfaces.\<close>

definition ParseClassHeritage :: "parseCalls \<Rightarrow> (nodeId option \<times> nodeId option \<times> nodeId list) parseM" where
  "ParseClassHeritage c =
    bindM isTs (\<lambda>ts.
    bindM (
      bindM (at KEYW_EXTENDS) (\<lambda>t1.
      (if t1 then
        thenM advance
        (bindM (cLeftHandSide c EF_NO_OPTS) (\<lambda>e.
        (ret (Some e))))
      else
      (ret None)))) (\<lambda>superClass.
    bindM (
      bindM (atAny [PUNCTUATOR_LESS_THAN, PUNCTUATOR_LEFT_SHIFT]) (\<lambda>t2.
      (if ts \<and> t2 then
        thenM (bindM (at PUNCTUATOR_LEFT_SHIFT) (\<lambda>t3.
        whenM (t3)
          ((onLexer (BackwardToken PUNCTUATOR_LESS_THAN 1)))))
        ((ParseTsTypeParameterInstantiation c True))
      else
      (ret None)))) (\<lambda>superTypeParams.
    bindM (
      bindM (atKeyword KEYW_IMPLEMENTS) (\<lambda>t4.
      (if ts \<and> t4 then
        thenM advance
        (bindM (bounded (\<lambda>n. Implements_loop c n [])) (\<lambda>impls.
        thenM (throwIf (impls = []) ''Implements clause can not be empty'')
        ((ret impls))))
      else
      (ret ([]))))) (\<lambda>impls.
    (ret ((superClass, superTypeParams, impls)))))))"

definition ParseClassDefinition :: "parseCalls \<Rightarrow> bool \<Rightarrow> bool \<Rightarrow> bool \<Rightarrow> bool \<Rightarrow> nodeId parseM" where
  "ParseClassDefinition c isDeclaration idRequired isDeclare isAbstract =
    bindM tokenStart (\<lambda>startLoc.
    thenM advance
    ((lexicalScope LocalScope (\<lambda>classScope.
      bindM (
        bindM (at LITERAL_IDENT) (\<lambda>t1.
        (if t1 then
          bindM SetIdentNodeInClassDefinition (\<lambda>n.
          (ret (Some n)))
        else
        thenM (throwIf (isDeclaration \<and> idRequired) ''Unexpected token, expected an identifier.'')
        ((ret None))))) (\<lambda>identNode.
      bindM (
        bindM isTs (\<lambda>t2.
        bindM (at PUNCTUATOR_LESS_THAN) (\<lambda>t3.
        (if t2 \<and> t3 then
          (ParseTsTypeParameterDeclaration c True)
        else
        (ret None))))) (\<lambda>typeParamDecl.
      bindM (ParseClassHeritage c) (\<lambda>(superClass, superTypeParams, impls).
      thenM (expect PUNCTUATOR_LEFT_BRACE (''Unexpected token, expected '' @ [CHR 0x27] @ ''{'' @ [CHR 0x27]))
      (bindM Status (\<lambda>saved.
      thenM (addStatus PS_IN_CLASS_BODY)
      (bindM tokenStart (\<lambda>bodyStart.
      thenM advanceIdent
      ((let hasSuper = (superClass \<noteq> None) in
      bindM (bounded (\<lambda>n. ClassBody_loop c hasSuper isDeclare isAbstract n None [] [])) (\<lambda>(ctor, properties, indexSignatures).
      thenM (setStatus saved)
      (bindM tokenEnd (\<lambda>bodyEnd.
      bindM (case ctor of Some m \<Rightarrow> ret m | None \<Rightarrow> bindM (CreateImplicitConstructor hasSuper) (\<lambda>m. thenM (onNodes (SetRange m startLoc bodyEnd)) (ret m))) (\<lambda>ctor.
      thenM advance
      ((makeNode (Part (ClassDefinition \<lparr>cScope = classScope, cIdent = identNode, cTypeParams = typeParamDecl, cSuperTypeParams = superTypeParams, cImplements = impls, cCtor = ctor, cSuperClass = superClass, cBody = properties, cIndexSignatures = indexSignatures, cDeclare = isDeclare, cAbstract = isAbstract\<rparr>)) bodyStart bodyEnd)))))))))))))))))))"

section \<open>Enums\<close>

primrec EnumMembers_loop :: "parseCalls \<Rightarrow> nat \<Rightarrow> nodeId list \<Rightarrow> (nodeId list) parseM" where
  "EnumMembers_loop c 0 members = out_of_fuel"
| "EnumMembers_loop c (Suc n) members =
    bindM (at PUNCTUATOR_RIGHT_BRACE) (\<lambda>t1.
    (if t1 then
      (ret members)
    else
    bindM tokenStart (\<lambda>keyStart.
    bindM (
      bindM (at LITERAL_IDENT) (\<lambda>t2.
      (if t2 then
        bindM tokenIdent (\<lambda>n.
        bindM (addDecl keyStart (newDecl DECL_ENUM n)) (\<lambda>dcl.
        bindM makeIdentifier (\<lambda>key.
        thenM advance
        ((ret ((key, dcl)))))))
      else
      bindM (at LITERAL_STRING) (\<lambda>t3.
      (if t3 then
        bindM tokenIdent (\<lambda>n.
        bindM (addDecl keyStart (newDecl DECL_ENUM n)) (\<lambda>dcl.
        bindM makeString (\<lambda>key.
        thenM advance
        ((ret ((key, dcl)))))))
      else
      (ThrowSyntaxError ''Unexpected token in enum member'')))))) (\<lambda>(key, dcl).
    bindM tokenStart (\<lambda>initStart.
    bindM (
      bindM (at PUNCTUATOR_SUBSTITUTION) (\<lambda>t4.
      (if t4 then
        thenM advance
        (bindM tokenStart (\<lambda>start.
        bindM (cExpression c EF_NO_OPTS) (\<lambda>e.
        (ret ((Some e, start))))))
      else
      (ret ((None, initStart)))))) (\<lambda>(init, initStart).
    bindM (AllocNode (Ts (TSEnumMember key init))) (\<lambda>member.
    thenM (bindDecl dcl (OtherNode member))
    (bindM tokenEnd (\<lambda>t5.
    thenM (onNodes (SetRange member initStart t5))
    (thenM (bindM (at PUNCTUATOR_COMMA) (\<lambda>t6.
    whenM (t6)
      ((advanceIdent))))
    ((EnumMembers_loop c n (members @ [member])))))))))))))"

definition ParseEnumMembers :: "parseCalls \<Rightarrow> nodeId \<Rightarrow> sourcePosition \<Rightarrow> bool \<Rightarrow> nodeId parseM" where
  "ParseEnumMembers c key enumStart isConst =
    thenM (expect PUNCTUATOR_LEFT_BRACE ([CHR 0x27] @ ''{'' @ [CHR 0x27] @ '' expected''))
    (thenM advanceIdent
    (bindM (bounded (\<lambda>n. EnumMembers_loop c n [])) (\<lambda>members.
    bindM currentScope (\<lambda>sc.
    bindM tokenEnd (\<lambda>t1.
    bindM (makeNode (Ts (TSEnumDeclaration sc key members isConst)) enumStart t1) (\<lambda>enumDeclaration.
    thenM (BindNode sc (OtherNode enumDeclaration))
    (thenM advance
    ((ret enumDeclaration)))))))))"

text \<open>\<open>bindings.find\<close>: the entry of a name in the scope, whose variable may be null.\<close>

definition findBinding :: "name \<Rightarrow> (varId option option) parseM" where
  "findBinding n =
    bindM currentScope (\<lambda>sc.
    bindM (onScopes (getScope sc)) (\<lambda>scp.
    (ret (map_of (sBindings scp) n))))"

definition declarationOf :: "varId option \<Rightarrow> (declId \<times> decl) parseM" where
  "declarationOf v =
    bindM (deref v) (\<lambda>vid.
    bindM (onScopes (getVar vid)) (\<lambda>var.
    bindM (onScopes (getDecl (vDecl var))) (\<lambda>dcl.
    (ret ((vDecl var, dcl))))))"

definition ParseEnumDeclaration :: "parseCalls \<Rightarrow> bool \<Rightarrow> nodeId parseM" where
  "ParseEnumDeclaration c isConst =
    bindM tokenStart (\<lambda>enumStart.
    thenM advance
    (thenM (expect LITERAL_IDENT ''Identifier expected'')
    (bindM tokenIdent (\<lambda>ident.
    bindM makeIdentifier (\<lambda>key.
    thenM advance
    (bindM (findBinding (ToTSBinding ident)) (\<lambda>found.
    bindM tokenStart (\<lambda>pos.
    ((case found of None \<Rightarrow> bindM (addTsDecl pos ((newDecl DECL_ENUM_LITERAL (ToTSBinding ident))\<lparr>dIsConst := isConst\<rparr>)) (\<lambda>d. lexicalScope LocalScope (\<lambda>sc. thenM (modifyM (\<lambda>s. s\<lparr>psEnumScope := (psEnumScope s)(d := Some sc)\<rparr>)) (ParseEnumMembers c key enumStart isConst))) | Some v \<Rightarrow> bindM (declarationOf v) (\<lambda>(d, dc). if dType dc \<noteq> DECL_ENUM_LITERAL \<or> isConst \<noteq> dIsConst dc then ThrowRedeclarationAt pos ident else bindM (bindM (getM (\<lambda>s. psEnumScope s d)) deref) (\<lambda>sc. enterScope sc (ParseEnumMembers c key enumStart isConst)))))))))))))"

end
