(* ===== verification/StmtParser.thy ===== *)
theory StmtParser
  imports ClassParser
begin

text \<open>
  Statements: \<open>parser/statementParser.cpp\<close> up to \<open>ParseWhileStatement\<close>, with the declarations of TypeScript.

  Nested statements and statement lists are the calls \<open>cStatement\<close> and \<open>cStatementList\<close>.
\<close>

section \<open>Semicolons and declarations\<close>

definition SetEnd :: "nodeId \<Rightarrow> sourcePosition \<Rightarrow> unit nodeM" where
  "SetEnd n end' = modNode n (\<lambda>x. x\<lparr>nEnd := end'\<rparr>)"

definition ConsumeSemicolon :: "nodeId \<Rightarrow> unit parseM" where
  "ConsumeSemicolon statement =
    bindM (at PUNCTUATOR_SEMI_COLON) (\<lambda>t1.
    (if t1 then
      bindM tokenEnd (\<lambda>t4.
      thenM (onNodes (SetEnd statement t4))
      ((advance)))
    else
    bindM atNewLine (\<lambda>t2.
    bindM (atAny [EOS, PUNCTUATOR_RIGHT_BRACE]) (\<lambda>t3.
    (throwIf (\<not> t2 \<and> \<not> t3) ''Unexpected token'')))))"

definition CheckDeclare :: "unit parseM" where
  "CheckDeclare =
    bindM (statusHas PS_IN_AMBIENT_CONTEXT) (\<lambda>t1.
    thenM (throwIf (t1) (''A '' @ [CHR 0x27] @ ''declare'' @ [CHR 0x27] @ '' modifier cannot be used in an already ambient context.''))
    (thenM advance
    (bindM GetToken (\<lambda>t.
    (throwIf (\<not> (tokType t \<in> {KEYW_VAR, KEYW_LET, KEYW_CONST, KEYW_FUNCTION, KEYW_CLASS} \<or> (tokType t = LITERAL_IDENT \<and> keywordType t \<in> {KEYW_TYPE, KEYW_MODULE, KEYW_GLOBAL, KEYW_NAMESPACE, KEYW_ENUM, KEYW_ABSTRACT, KEYW_INTERFACE}))) ''Unexpected token.'')))))"

definition CheckFunctionDeclaration :: "u32 \<Rightarrow> unit parseM" where
  "CheckFunctionDeclaration flags =
    thenM (throwIf (has flags SP_LABELLED) ''In strict mode code, functions can only be declared at top level, inside a block, or as the body of an if statement'')
    (whenM (\<not> has flags SP_ALLOW_LEXICAL)
      (thenM (throwIf (\<not> has flags (SP_IF_ELSE OR SP_LABELLED)) ''Lexical declaration is not allowed in single statement context'')
      (bindM Lookahead (\<lambda>t1.
      (throwIf (t1 = LEX_CHAR_ASTERISK) ''Generators can only be declared at the top level or inside a block'')))))"

definition lexicalAllowed :: "u32 \<Rightarrow> unit parseM" where
  "lexicalAllowed flags =
    (throwIf (\<not> has flags SP_ALLOW_LEXICAL) ''Lexical declaration is not allowed in single statement context'')"

section \<open>Variables\<close>

definition ValidateDeclaratorId :: "unit parseM" where
  "ValidateDeclaratorId =
    bindM tokenKeyword (\<lambda>k.
    bindM (statusHas PS_IN_AMBIENT_CONTEXT) (\<lambda>t1.
    (if t1 then
      (ret (()))
    else
    bindM (statusHas PS_MODULE) (\<lambda>t2.
    thenM (throwIf (k = KEYW_AWAIT \<and> t2) ([CHR 0x27] @ ''await'' @ [CHR 0x27] @ '' is not permitted as an identifier in module code''))
    (thenM (throwIf (k = KEYW_EVAL) (''Binding '' @ [CHR 0x27] @ ''eval'' @ [CHR 0x27] @ '' in strict mode is invalid''))
    (thenM (throwIf (k = KEYW_ARGUMENTS) (''Binding '' @ [CHR 0x27] @ ''arguments'' @ [CHR 0x27] @ '' in strict mode is invalid''))
    (thenM (throwIf (k = KEYW_LET) ''let is disallowed as a lexically bound name'')
    ((throwIf (k \<in> {KEYW_STATIC, KEYW_IMPLEMENTS, KEYW_INTERFACE, KEYW_PACKAGE, KEYW_PRIVATE, KEYW_PROTECTED, KEYW_PUBLIC, KEYW_YIELD}) ''Unexpected reserved word'')))))))))"

definition ParseVariableDeclaratorInitializer :: "parseCalls \<Rightarrow> nodeId \<Rightarrow> u32 \<Rightarrow> sourcePosition \<Rightarrow> bool \<Rightarrow> nodeId parseM" where
  "ParseVariableDeclaratorInitializer c init flags startLoc isDeclare =
    thenM (throwIf (has flags VP_DISALLOW_INIT) ''for-await-of loop variable declaration may not have an initializer'')
    (thenM advance
    (thenM (throwIf (isDeclare \<and> \<not> has flags VP_CONST) ''Initializers are not allowed in ambient contexts.'')
    (bindM (cExpression c (if has flags VP_STOP_AT_IN then EF_STOP_AT_IN else EF_NO_OPTS)) (\<lambda>initializer.
    bindM (endOf initializer) (\<lambda>t1.
    (makeNode (Stmt (VariableDeclarator init (Some initializer))) startLoc t1))))))"

text \<open>The declarations of the names a pattern binds; each is bound to the pattern.\<close>

primrec declareBindings :: "sourcePosition \<Rightarrow> declType \<Rightarrow> nodeId \<Rightarrow> (nat \<times> name) list \<Rightarrow> unit parseM" where
  "declareBindings pos ty init [] = ret ()"
| "declareBindings pos ty init (b # bs) =
    bindM (addDecl pos (newDecl ty (snd b))) (\<lambda>d.
    thenM (bindDecl d (OtherNode init)) (declareBindings pos ty init bs))"

text \<open>An optional type of a binding, in TypeScript.\<close>

definition bindingType :: "parseCalls \<Rightarrow> nodeId \<Rightarrow> unit parseM" where
  "bindingType c n =
    bindM isTs (\<lambda>t1.
    bindM (at PUNCTUATOR_COLON) (\<lambda>t2.
    whenM (t1 \<and> t2)
      (thenM advance
      (bindM (typeWith c TO_THROW_ERROR) (\<lambda>ty.
      (onNodes (SetTsTypeAnnotation n ty)))))))"

definition ParseDeclaratorId :: "parseCalls \<Rightarrow> u32 \<Rightarrow> nodeId parseM" where
  "ParseDeclaratorId c flags =
    bindM GetToken (\<lambda>t.
    (if tokType t = LITERAL_IDENT then
      thenM ValidateDeclaratorId
      (thenM (throwIf (\<not> has flags VP_VAR \<and> keywordType t = KEYW_LET) ''let is disallowed as a lexically bound name'')
      (bindM makeIdentifier (\<lambda>ident.
      thenM advance
      ((ret ident)))))
    else
    (if tokType t = PUNCTUATOR_LEFT_SQUARE_BRACKET then
      (ParseArrayExpression c EF_MUST_BE_PATTERN)
    else
    (if tokType t = PUNCTUATOR_LEFT_BRACE then
      (ParseObjectExpression c EF_MUST_BE_PATTERN)
    else
    (ThrowSyntaxError ''Unexpected token in variable declaration'')))))"

definition ParseVariableDeclarator :: "parseCalls \<Rightarrow> u32 \<Rightarrow> bool \<Rightarrow> nodeId parseM" where
  "ParseVariableDeclarator c flags isDeclare =
    bindM tokenStart (\<lambda>startLoc.
    bindM (ParseDeclaratorId c flags) (\<lambda>init.
    thenM (bindingType c init)
    (bindM (
      bindM (at PUNCTUATOR_SUBSTITUTION) (\<lambda>t1.
      (if t1 then
        (ParseVariableDeclaratorInitializer c init flags startLoc isDeclare)
      else
      bindM (statusHas PS_IN_AMBIENT_CONTEXT) (\<lambda>t2.
      thenM (throwIf (\<not> isDeclare \<and> has flags VP_CONST \<and> \<not> has flags VP_ACCEPT_CONST_NO_INIT \<and> \<not> t2) ''Missing initializer in const declaration'')
      (bindM (endOf init) (\<lambda>t3.
      (makeNode (Stmt (VariableDeclarator init None)) startLoc t3))))))) (\<lambda>declarator.
    bindM (onNodes (patternTree init)) (\<lambda>tree.
    thenM (declareBindings startLoc (if has flags VP_VAR then DECL_VAR else if has flags VP_LET then DECL_LET else DECL_CONST) init (CollectBindingNames tree))
    ((ret declarator)))))))"

primrec Declarators_loop :: "parseCalls \<Rightarrow> u32 \<Rightarrow> bool \<Rightarrow> nat \<Rightarrow> nodeId list \<Rightarrow> (nodeId list) parseM" where
  "Declarators_loop c flags isDeclare 0 ds = out_of_fuel"
| "Declarators_loop c flags isDeclare (Suc n) ds =
    bindM (ParseVariableDeclarator c flags isDeclare) (\<lambda>d.
    bindM (at PUNCTUATOR_COMMA) (\<lambda>t1.
    (if t1 then
      thenM advance
      ((Declarators_loop c flags isDeclare n (ds @ [d])))
    else
    (ret (ds @ [d])))))"

definition ParseVariableDeclaration :: "parseCalls \<Rightarrow> u32 \<Rightarrow> bool \<Rightarrow> nodeId parseM" where
  "ParseVariableDeclaration c flags isDeclare =
    bindM tokenStart (\<lambda>startLoc.
    thenM (whenM (\<not> has flags VP_NO_SKIP_VAR_KIND)
      ((advance)))
    (bindM isTs (\<lambda>t1.
    bindM (atKeyword KEYW_ENUM) (\<lambda>t2.
    (if t1 \<and> t2 then
      thenM (throwIf (\<not> has flags VP_CONST) ''Variable declaration expected.'')
      ((ParseEnumDeclaration c True))
    else
    bindM (bounded (\<lambda>n. Declarators_loop c flags isDeclare n [])) (\<lambda>declarators.
    (let kind = (if has flags VP_LET then VD_LET else if has flags VP_CONST then VD_CONST else VD_VAR) in
    bindM (endOf (last declarators)) (\<lambda>t3.
    (makeNode (Stmt (VariableDeclaration kind declarators isDeclare)) startLoc t3)))))))))"

definition ParseVarStatement :: "parseCalls \<Rightarrow> bool \<Rightarrow> nodeId parseM" where
  "ParseVarStatement c isDeclare =
    bindM (ParseVariableDeclaration c VP_VAR isDeclare) (\<lambda>variableDecl.
    thenM (ConsumeSemicolon variableDecl)
    ((ret variableDecl)))"

definition ParseLetStatement :: "parseCalls \<Rightarrow> u32 \<Rightarrow> bool \<Rightarrow> nodeId parseM" where
  "ParseLetStatement c flags isDeclare =
    thenM (lexicalAllowed flags)
    (bindM (ParseVariableDeclaration c VP_LET isDeclare) (\<lambda>variableDecl.
    thenM (ConsumeSemicolon variableDecl)
    ((ret variableDecl))))"

definition ParseConstStatement :: "parseCalls \<Rightarrow> u32 \<Rightarrow> bool \<Rightarrow> nodeId parseM" where
  "ParseConstStatement c flags isDeclare =
    thenM (lexicalAllowed flags)
    (bindM tokenStart (\<lambda>constVarStart.
    thenM advance
    (bindM (atKeyword KEYW_ENUM) (\<lambda>t1.
    (if t1 then
      bindM isTs (\<lambda>t2.
      thenM (throwIf (\<not> t2) ''Unexpected token'')
      ((ParseEnumDeclaration c True)))
    else
    bindM (ParseVariableDeclaration c (VP_CONST OR VP_NO_SKIP_VAR_KIND) isDeclare) (\<lambda>variableDecl.
    thenM (setStart variableDecl constVarStart)
    (thenM (ConsumeSemicolon variableDecl)
    ((ret variableDecl)))))))))"

section \<open>Simple statements\<close>

definition ParseEmptyStatement :: "nodeId parseM" where
  "ParseEmptyStatement =
    (tokenLiteral (Stmt EmptyStatement))"

definition ParseDebuggerStatement :: "nodeId parseM" where
  "ParseDebuggerStatement =
    bindM (tokenLiteral (Stmt DebuggerStatement)) (\<lambda>n.
    thenM (ConsumeSemicolon n)
    ((ret n)))"

definition illegalBreak :: "bool \<Rightarrow> unit parseM" where
  "illegalBreak allowBreak =
    bindM Extension (\<lambda>ext.
    thenM (throwIf (\<not> allowBreak \<and> ext = JS) ''Illegal break statement'')
    ((throwIf (\<not> allowBreak \<and> ext = TS) (''A '' @ [CHR 0x27] @ ''break'' @ [CHR 0x27] @ '' statement can only be used within an enclosing iteration or switch statement''))))"

text \<open>The first branch also takes a line break, where it reads a token too many; the second one is left with the brace.\<close>

definition ParseBreakStatement :: "nodeId parseM" where
  "ParseBreakStatement =
    bindM (statusHas (PS_IN_ITERATION OR PS_IN_SWITCH)) (\<lambda>allowBreak.
    bindM isTs (\<lambda>t1.
    bindM (statusHas PS_FUNCTION) (\<lambda>t2.
    thenM (throwIf (t1 \<and> t2 \<and> \<not> allowBreak) ''Jump target cannot cross function boundary'')
    (bindM tokenStart (\<lambda>startLoc.
    bindM tokenEnd (\<lambda>endLoc.
    thenM advance
    (bindM (atAny [PUNCTUATOR_SEMI_COLON, EOS]) (\<lambda>t3.
    bindM atNewLine (\<lambda>t4.
    (if t3 \<or> t4 then
      thenM (illegalBreak allowBreak)
      (bindM tokenEnd (\<lambda>t5.
      bindM (makeNode (Stmt (BreakStatement None)) startLoc t5) (\<lambda>n.
      thenM advance
      ((ret n)))))
    else
    bindM (at PUNCTUATOR_RIGHT_BRACE) (\<lambda>t6.
    (if t6 then
      thenM (illegalBreak allowBreak)
      ((makeNode (Stmt (BreakStatement None)) startLoc endLoc))
    else
    thenM (expect LITERAL_IDENT ''Unexpected token.'')
    (bindM tokenIdent (\<lambda>label.
    bindM (FindLabel label) (\<lambda>found.
    thenM (throwIf (found = None) ''Undefined label'')
    (bindM makeIdentifier (\<lambda>ident.
    bindM tokenEnd (\<lambda>t7.
    bindM (makeNode (Stmt (BreakStatement (Some ident))) startLoc t7) (\<lambda>n.
    thenM advance
    (thenM (ConsumeSemicolon n)
    ((ret n))))))))))))))))))))))"

definition ParseContinueStatement :: "nodeId parseM" where
  "ParseContinueStatement =
    bindM Status (\<lambda>st.
    bindM Extension (\<lambda>ext.
    thenM (throwIf (ext = TS \<and> st AND (PS_FUNCTION OR PS_IN_ITERATION OR PS_IN_SWITCH) = PS_FUNCTION) ''Jump target cannot cross function boundary'')
    (thenM (throwIf (\<not> has st PS_IN_ITERATION \<and> ext = JS) ''Illegal continue statement'')
    (thenM (throwIf (\<not> has st PS_IN_ITERATION \<and> ext = TS) (''A '' @ [CHR 0x27] @ ''continue'' @ [CHR 0x27] @ '' statement can only be used within an enclosing iteration statement''))
    (bindM tokenStart (\<lambda>startLoc.
    bindM tokenEnd (\<lambda>endLoc.
    thenM advance
    (bindM (at PUNCTUATOR_SEMI_COLON) (\<lambda>t1.
    (if t1 then
      bindM tokenEnd (\<lambda>t2.
      bindM (makeNode (Stmt (ContinueStatement None)) startLoc t2) (\<lambda>n.
      thenM advance
      ((ret n))))
    else
    bindM atNewLine (\<lambda>t3.
    bindM (atAny [EOS, PUNCTUATOR_RIGHT_BRACE]) (\<lambda>t4.
    (if t3 \<or> t4 then
      (makeNode (Stmt (ContinueStatement None)) startLoc endLoc)
    else
    thenM (expect LITERAL_IDENT ''Unexpected token.'')
    (bindM tokenIdent (\<lambda>label.
    bindM (FindLabel label) (\<lambda>found.
    thenM (throwIf (\<not> (case found of Some labelStatus \<Rightarrow> has labelStatus PS_IN_ITERATION | None \<Rightarrow> False)) ''Undefined label'')
    (bindM makeIdentifier (\<lambda>ident.
    bindM tokenEnd (\<lambda>t5.
    bindM (makeNode (Stmt (ContinueStatement (Some ident))) startLoc t5) (\<lambda>n.
    thenM advance
    (thenM (ConsumeSemicolon n)
    ((ret n)))))))))))))))))))))))"

definition ParseReturnStatement :: "parseCalls \<Rightarrow> nodeId parseM" where
  "ParseReturnStatement c =
    bindM (statusHas PS_FUNCTION) (\<lambda>t1.
    thenM (throwIf (\<not> t1) ''return keyword should be used in function body'')
    (bindM tokenStart (\<lambda>startLoc.
    bindM tokenEnd (\<lambda>endLoc.
    thenM advance
    (bindM (atAny [PUNCTUATOR_SEMI_COLON, PUNCTUATOR_RIGHT_BRACE, EOS]) (\<lambda>t2.
    bindM (if t2 then ret True else atNewLine) (\<lambda>none.
    bindM (
      (if none then
        (ret ((None, endLoc)))
      else
      bindM (cExpression c EF_ACCEPT_COMMA) (\<lambda>e.
      bindM (endOf e) (\<lambda>pos.
      (ret ((Some e, pos))))))) (\<lambda>(argument, endLoc).
    bindM (makeNode (Stmt (ReturnStatement argument)) startLoc endLoc) (\<lambda>n.
    thenM (ConsumeSemicolon n)
    ((ret n)))))))))))"

definition ParseThrowStatement :: "parseCalls \<Rightarrow> nodeId parseM" where
  "ParseThrowStatement c =
    bindM tokenStart (\<lambda>startLoc.
    thenM advance
    (bindM atNewLine (\<lambda>newLine.
    bindM Extension (\<lambda>ext.
    thenM (throwIf (newLine \<and> ext = JS) ''Illegal newline after throw'')
    (thenM (throwIf (newLine \<and> ext = TS) ''Line break not permitted here'')
    (bindM (cExpression c EF_ACCEPT_COMMA) (\<lambda>e.
    bindM (endOf e) (\<lambda>t1.
    bindM (makeNode (Stmt (ThrowStatement e)) startLoc t1) (\<lambda>n.
    thenM (ConsumeSemicolon n)
    ((ret n)))))))))))"

section \<open>Functions and classes\<close>

text \<open>A generator declaration also takes \<open>await\<close> for its name.\<close>

definition ParseFunctionDeclaration :: "parseCalls \<Rightarrow> bool \<Rightarrow> u32 \<Rightarrow> bool \<Rightarrow> nodeId parseM" where
  "ParseFunctionDeclaration c canBeAnonymous newStatus isDeclare =
    bindM tokenStart (\<lambda>startLoc.
    thenM advance
    (bindM (
      bindM (at PUNCTUATOR_MULTIPLY) (\<lambda>t1.
      (if t1 then
        thenM advance
        ((ret (newStatus OR PS_GENERATOR_FUNCTION)))
      else
      (ret newStatus)))) (\<lambda>newStatus.
    bindM (atAny [LITERAL_IDENT, KEYW_AWAIT]) (\<lambda>named.
    (if \<not> named \<and> canBeAnonymous then
      bindM (ParseFunction c newStatus isDeclare) (\<lambda>f.
      thenM (setStart f startLoc)
      ((makeNodeLike (Stmt (FunctionDeclaration f)) f)))
    else
    thenM (throwIf (\<not> named) (''Unexpected token, expected identifier after '' @ [CHR 0x27] @ ''function'' @ [CHR 0x27] @ '' keyword''))
    (bindM tokenKeyword (\<lambda>t2.
    thenM (throwIf (KEYW_ARGUMENTS \<le> t2) ''Unexpected reserved word in strict mode.'')
    (bindM tokenIdent (\<lambda>ident.
    bindM makeIdentifier (\<lambda>identNode.
    thenM advance
    (bindM (ParseFunction c (newStatus OR PS_FUNCTION_DECLARATION) isDeclare) (\<lambda>f.
    thenM (onNodes (SetFunctionIdent f identNode))
    (thenM (setStart f startLoc)
    (bindM (makeNodeLike (Stmt (FunctionDeclaration f)) f) (\<lambda>funcDecl.
    bindM (onNodes (functionNode f)) (\<lambda>fn.
    (if \<not> has (fFlags fn) SF_OVERLOAD then
      bindM (startOf identNode) (\<lambda>pos.
      bindM (addDecl pos ((newDecl DECL_FUNC ident)\<lparr>dNode := Some (ScriptFunction f (has (fFlags fn) SF_ARROW))\<rparr>)) (\<lambda>d.
      (ret funcDecl)))
    else
    thenM (bindM (at PUNCTUATOR_SEMI_COLON) (\<lambda>t3.
    whenM (t3)
      ((advance))))
    ((ret funcDecl)))))))))))))))))))"

definition ParseFunctionStatement :: "parseCalls \<Rightarrow> u32 \<Rightarrow> bool \<Rightarrow> nodeId parseM" where
  "ParseFunctionStatement c flags isDeclare =
    thenM (CheckFunctionDeclaration flags)
    ((if \<not> has flags SP_STMT_LEXICAL_SCOPE_NEEDED then
      (ParseFunctionDeclaration c False PS_NO_OPTS isDeclare)
    else
    (lexicalScope LocalScope (\<lambda>sc.
      bindM (ParseFunctionDeclaration c False PS_NO_OPTS isDeclare) (\<lambda>funcDecl.
      bindM (makeNodeLike (Stmt (BlockStatement sc [funcDecl])) funcDecl) (\<lambda>localBlock.
      thenM (BindNode sc (OtherNode localBlock))
      ((ret funcDecl))))))))"

definition ParseExpressionStatement :: "parseCalls \<Rightarrow> u32 \<Rightarrow> nodeId parseM" where
  "ParseExpressionStatement c flags =
    bindM savePosition (\<lambda>startPos.
    bindM Status (\<lambda>saved.
    (let start = locStart (tok startPos) in
    bindM (
      (if IsAsyncModifier (tok startPos) then
        thenM (addStatus PS_ASYNC_FUNCTION)
        (thenM advance
        (bindM (at KEYW_FUNCTION) (\<lambda>isFunction.
        bindM atNewLine (\<lambda>newLine.
        (if isFunction \<and> \<not> newLine then
          (ret True)
        else
        thenM (rewindTo startPos)
        ((ret False)))))))
      else
      (ret False))) (\<lambda>isAsync.
    (if isAsync then
      thenM (lexicalAllowed flags)
      (bindM (ParseFunctionDeclaration c False PS_ASYNC_FUNCTION False) (\<lambda>functionDecl.
      thenM (setStart functionDecl start)
      ((ret functionDecl))))
    else
    bindM (cExpression c EF_ACCEPT_COMMA) (\<lambda>exprNode.
    thenM (setStatus saved)
    (bindM (endOf exprNode) (\<lambda>t1.
    bindM (makeNode (Stmt (ExpressionStatement exprNode)) start t1) (\<lambda>n.
    thenM (ConsumeSemicolon n)
    ((ret n)))))))))))"

text \<open>The name of a class declaration may be missing only after \<open>export default\<close>, where it is read nevertheless.\<close>

definition ParseClassDeclaration :: "parseCalls \<Rightarrow> bool \<Rightarrow> nodeId list \<Rightarrow> bool \<Rightarrow> bool \<Rightarrow> nodeId parseM" where
  "ParseClassDeclaration c idRequired decorators isDeclare isAbstract =
    bindM tokenStart (\<lambda>startLoc.
    bindM (cClassDefinition c True idRequired isDeclare isAbstract) (\<lambda>cdef.
    bindM (bodyNow cdef) (\<lambda>b.
    bindM (case b of Part (ClassDefinition cd) \<Rightarrow> deref (cIdent cd) | _ \<Rightarrow> undefinedM) (\<lambda>ident.
    bindM (identName ident) (\<lambda>n.
    bindM (startOf ident) (\<lambda>t1.
    bindM (addDecl t1 (newDecl DECL_LET n)) (\<lambda>d.
    thenM (bindDecl d (OtherNode cdef))
    (bindM (endOf cdef) (\<lambda>t2.
    (makeNode (Stmt (ClassDeclaration cdef decorators)) startLoc t2))))))))))"

definition ParseClassStatement :: "parseCalls \<Rightarrow> u32 \<Rightarrow> bool \<Rightarrow> nodeId list \<Rightarrow> bool \<Rightarrow> nodeId parseM" where
  "ParseClassStatement c flags isDeclare decorators isAbstract =
    thenM (lexicalAllowed flags)
    ((ParseClassDeclaration c True decorators isDeclare isAbstract))"

section \<open>Declarations of TypeScript\<close>

text \<open>A name that is the name of a type.\<close>

definition rejectReservedName :: "string \<Rightarrow> unit parseM" where
  "rejectReservedName message =
    bindM GetToken (\<lambda>t.
    ((if \<not> IsReservedTypeName t then ret () else case TokenToString (keywordType t) of Some s \<Rightarrow> ThrowSyntaxError (message @ [CHR 0x27] @ s @ [CHR 0x27]) | None \<Rightarrow> undefinedM)))"

definition ParseTsTypeAliasDeclaration :: "parseCalls \<Rightarrow> bool \<Rightarrow> nodeId parseM" where
  "ParseTsTypeAliasDeclaration c isDeclare =
    bindM tokenStart (\<lambda>typeStart.
    thenM advance
    (thenM (expect LITERAL_IDENT ''Identifier expected'')
    (thenM (rejectReservedName ''Type alias name cannot be '')
    (bindM tokenIdent (\<lambda>ident.
    bindM tokenStart (\<lambda>t1.
    bindM (addTsDecl t1 (newDecl DECL_TYPE_ALIAS (ToTSBinding ident))) (\<lambda>d.
    bindM makeIdentifier (\<lambda>i.
    thenM advance
    (bindM (
      bindM (at PUNCTUATOR_LESS_THAN) (\<lambda>t2.
      (if t2 then
        (ParseTsTypeParameterDeclaration c True)
      else
      (ret None)))) (\<lambda>typeParamDecl.
    thenM (expect PUNCTUATOR_SUBSTITUTION ([CHR 0x27] @ ''='' @ [CHR 0x27] @ '' expected''))
    (thenM advance
    (bindM (theType c TO_THROW_ERROR) (\<lambda>ty.
    bindM tokenEnd (\<lambda>t3.
    bindM (makeNode (Ts (TSTypeAliasDeclaration i typeParamDecl ty isDeclare)) typeStart t3) (\<lambda>n.
    thenM (bindDecl d (OtherNode n))
    ((ret n)))))))))))))))))"

primrec Heritage_loop :: "parseCalls \<Rightarrow> nat \<Rightarrow> nodeId list \<Rightarrow> (nodeId list) parseM" where
  "Heritage_loop c 0 es = out_of_fuel"
| "Heritage_loop c (Suc n) es =
    thenM (expect LITERAL_IDENT ''Identifier expected'')
    (bindM tokenStart (\<lambda>heritageStart.
    bindM tokenEnd (\<lambda>heritageEnd.
    bindM makeIdentifier (\<lambda>ident.
    thenM (
      bindM Lookahead (\<lambda>t1.
      (if t1 = LEX_CHAR_LESS_THAN then
        (onLexer (ForwardToken PUNCTUATOR_LESS_THAN 1))
      else
      (advance))))
    (bindM (
      bindM (at PUNCTUATOR_PERIOD) (\<lambda>t2.
      (if t2 then
        (ParseTsQualifiedReference ident)
      else
      (ret ident)))) (\<lambda>expr.
    bindM (
      bindM (at PUNCTUATOR_LESS_THAN) (\<lambda>t3.
      (if t3 then
        bindM (ParseTsTypeParameterInstantiation c True) (\<lambda>inst.
        bindM (endOf (orNull inst)) (\<lambda>e.
        (ret ((inst, e)))))
      else
      (ret ((None, heritageEnd)))))) (\<lambda>(typeParams, heritageEnd).
    bindM (makeNode (Ts (TSInterfaceHeritage expr typeParams)) heritageStart heritageEnd) (\<lambda>heritage.
    (let es = es @ [heritage] in
    bindM (at PUNCTUATOR_LEFT_BRACE) (\<lambda>t4.
    (if t4 then
      (ret es)
    else
    thenM (expect PUNCTUATOR_COMMA ([CHR 0x27] @ '','' @ [CHR 0x27] @ '' expected''))
    (thenM advance
    ((Heritage_loop c n es))))))))))))))"

text \<open>The declaration an interface is added to; a new one unless the scope has it.\<close>

definition interfaceDeclaration :: "name \<Rightarrow> (declId \<times> bool) parseM" where
  "interfaceDeclaration ident =
    bindM (findBinding (ToTSBinding ident)) (\<lambda>found.
    bindM tokenStart (\<lambda>pos.
    ((case found of None \<Rightarrow> bindM (addTsDecl pos (newDecl DECL_INTERFACE (ToTSBinding ident))) (\<lambda>d. ret (d, True)) | Some v \<Rightarrow> bindM (declarationOf v) (\<lambda>(d, dc). if dType dc \<noteq> DECL_INTERFACE then ThrowRedeclarationAt pos ident else ret (d, False))))))"

definition ParseTsInterfaceDeclaration :: "parseCalls \<Rightarrow> nodeId parseM" where
  "ParseTsInterfaceDeclaration c =
    thenM (addStatus PS_ALLOW_THIS_TYPE)
    (bindM tokenStart (\<lambda>interfaceStart.
    thenM advance
    (thenM (expect LITERAL_IDENT ''Identifier expected'')
    (thenM (rejectReservedName ''Interface name cannot be '')
    (bindM tokenIdent (\<lambda>ident.
    bindM (interfaceDeclaration ident) (\<lambda>(d, isNew).
    bindM makeIdentifier (\<lambda>i.
    thenM advance
    ((lexicalScope LocalScope (\<lambda>sc.
      bindM (
        bindM isTs (\<lambda>t1.
        bindM (at PUNCTUATOR_LESS_THAN) (\<lambda>t2.
        (if t1 \<and> t2 then
          (ParseTsTypeParameterDeclaration c True)
        else
        (ret None))))) (\<lambda>typeParamDecl.
      bindM (
        bindM (atKeyword KEYW_EXTENDS) (\<lambda>t3.
        (if t3 then
          thenM advance
          ((bounded (\<lambda>n. Heritage_loop c n [])))
        else
        (ret ([]))))) (\<lambda>extended.
      bindM tokenStart (\<lambda>bodyStart.
      bindM (ParseTsTypeLiteralOrInterface c) (\<lambda>members.
      bindM tokenEnd (\<lambda>t4.
      bindM (makeNode (Ts (TSInterfaceBody members)) bodyStart t4) (\<lambda>body.
      bindM tokenEnd (\<lambda>t5.
      bindM (makeNode (Ts (TSInterfaceDeclaration sc i typeParamDecl body extended)) interfaceStart t5) (\<lambda>n.
      thenM (
        (if isNew then
          (bindDecl d (OtherNode n))
        else
        (modifyM (\<lambda>s. s\<lparr>psInterfaces := (psInterfaces s)(d := psInterfaces s d @ [n])\<rparr>))))
      (thenM advance
      (thenM (dropStatus PS_ALLOW_THIS_TYPE)
      ((ret n)))))))))))))))))))))))"

definition ParseModuleReference :: "nodeId parseM" where
  "ParseModuleReference =
    bindM (
      bindM (at LITERAL_IDENT) (\<lambda>t1.
      bindM (atKeyword KEYW_REQUIRE) (\<lambda>t2.
      (if t1 \<and> t2 then
        bindM Lookahead (\<lambda>t3.
        (ret (t3 = LEX_CHAR_LEFT_PAREN)))
      else
      (ret False))))) (\<lambda>isRequire.
    (if isRequire then
      bindM tokenStart (\<lambda>start.
      thenM advance
      (thenM advance
      (thenM (expect LITERAL_STRING ''String literal expected.'')
      (bindM makeString (\<lambda>lit.
      thenM advance
      (thenM (expect PUNCTUATOR_RIGHT_PARENTHESIS ([CHR 0x27] @ '')'' @ [CHR 0x27] @ '' expected.''))
      (bindM tokenEnd (\<lambda>t5.
      bindM (makeNode (Ts (TSExternalModuleReference lit)) start t5) (\<lambda>n.
      thenM advance
      ((ret n)))))))))))
    else
    bindM makeIdentifier (\<lambda>ident.
    thenM advance
    (bindM (at PUNCTUATOR_PERIOD) (\<lambda>t4.
    (if t4 then
      (ParseTsQualifiedReference ident)
    else
    (ret ident)))))))"

definition ParseTsImportEqualsDeclaration :: "sourcePosition \<Rightarrow> bool \<Rightarrow> nodeId parseM" where
  "ParseTsImportEqualsDeclaration startLoc isExport =
    thenM advance
    (thenM (expect LITERAL_IDENT ''Unexpected token'')
    (bindM makeIdentifier (\<lambda>i.
    thenM advance
    (thenM (expect PUNCTUATOR_SUBSTITUTION ([CHR 0x27] @ ''='' @ [CHR 0x27] @ '' expected''))
    (thenM advance
    (thenM (expect LITERAL_IDENT ''identifier expected'')
    (bindM ParseModuleReference (\<lambda>ref.
    bindM tokenEnd (\<lambda>t1.
    bindM (makeNode (Ts (TSImportEqualsDeclaration i ref isExport)) startLoc t1) (\<lambda>n.
    thenM (ConsumeSemicolon n)
    ((ret n))))))))))))"

definition ParseTsModuleBlock :: "parseCalls \<Rightarrow> nodeId parseM" where
  "ParseTsModuleBlock c =
    (lexicalScope LocalScope (\<lambda>sc.
      thenM (expect PUNCTUATOR_LEFT_BRACE ([CHR 0x27] @ ''{'' @ [CHR 0x27] @ '' expected.''))
      (bindM tokenStart (\<lambda>startLoc.
      thenM advance
      (bindM (cStatementList c SP_ALLOW_LEXICAL) (\<lambda>statements.
      thenM (expect PUNCTUATOR_RIGHT_BRACE (''Expected a '' @ [CHR 0x27] @ ''}'' @ [CHR 0x27]))
      (bindM tokenEnd (\<lambda>t1.
      bindM (makeNode (Ts (TSModuleBlock sc statements)) startLoc t1) (\<lambda>blockNode.
      thenM (BindNode sc (OtherNode blockNode))
      (thenM advance
      ((ret blockNode))))))))))))"

text \<open>Each name of a dotted namespace has a declaration and a scope of its own.\<close>

primrec ParseTsModuleOrNamespaceDelaration :: "parseCalls \<Rightarrow> nat \<Rightarrow> sourcePosition \<Rightarrow> bool \<Rightarrow> nodeId parseM" where
  "ParseTsModuleOrNamespaceDelaration c 0 startLoc isDeclare = out_of_fuel"
| "ParseTsModuleOrNamespaceDelaration c (Suc n) startLoc isDeclare =
    thenM (expect LITERAL_IDENT ''Identifier expected'')
    (bindM tokenIdent (\<lambda>ident.
    bindM tokenStart (\<lambda>t1.
    bindM (addDecl t1 (newDecl DECL_VAR ident)) (\<lambda>d.
    bindM makeIdentifier (\<lambda>identNode.
    thenM advance
    (bindM Status (\<lambda>saved.
    thenM (whenM (isDeclare)
      ((addStatus PS_IN_AMBIENT_CONTEXT)))
    ((lexicalScope LocalScope (\<lambda>sc.
      bindM (
        bindM (at PUNCTUATOR_PERIOD) (\<lambda>t2.
        (if t2 then
          thenM advance
          (bindM tokenStart (\<lambda>moduleStart.
          (ParseTsModuleOrNamespaceDelaration c n moduleStart False)))
        else
        (ParseTsModuleBlock c)))) (\<lambda>body.
      thenM (setStatus saved)
      (bindM tokenEnd (\<lambda>t3.
      bindM (makeNode (Ts (TSModuleDeclaration sc identNode (Some body) isDeclare False)) startLoc t3) (\<lambda>moduleDecl.
      thenM (BindNode sc (OtherNode moduleDecl))
      (thenM (bindDecl d (OtherNode moduleDecl))
      ((ret moduleDecl)))))))))))))))))"

definition ParseTsAmbientExternalModuleDeclaration :: "parseCalls \<Rightarrow> sourcePosition \<Rightarrow> bool \<Rightarrow> nodeId parseM" where
  "ParseTsAmbientExternalModuleDeclaration c startLoc isDeclare =
    bindM (atKeyword KEYW_GLOBAL) (\<lambda>isGlobal.
    bindM (
      (if isGlobal then
        (makeIdentifier)
      else
      bindM (statusHas PS_IN_AMBIENT_CONTEXT) (\<lambda>t1.
      thenM (throwIf (\<not> isDeclare \<and> \<not> t1) ''Only ambient modules can use quoted names'')
      ((makeString))))) (\<lambda>n.
    thenM advance
    ((lexicalScope LocalScope (\<lambda>sc.
      bindM (
        bindM (at PUNCTUATOR_LEFT_BRACE) (\<lambda>t2.
        (if t2 then
          bindM (ParseTsModuleBlock c) (\<lambda>b.
          (ret (Some b)))
        else
        thenM (expect PUNCTUATOR_SEMI_COLON ([CHR 0x27] @ '';'' @ [CHR 0x27] @ '' expected''))
        (thenM advance
        ((ret None)))))) (\<lambda>body.
      bindM tokenEnd (\<lambda>t3.
      bindM (makeNode (Ts (TSModuleDeclaration sc n body isDeclare isGlobal)) startLoc t3) (\<lambda>moduleDecl.
      thenM (BindNode sc (OtherNode moduleDecl))
      ((ret moduleDecl))))))))))"

definition ParseTsModuleDeclaration :: "parseCalls \<Rightarrow> bool \<Rightarrow> nodeId parseM" where
  "ParseTsModuleDeclaration c isDeclare =
    bindM tokenStart (\<lambda>startLoc.
    thenM (addStatus PS_MODULE)
    (bindM tokenKeyword (\<lambda>k.
    (if k = KEYW_GLOBAL then
      (ParseTsAmbientExternalModuleDeclaration c startLoc isDeclare)
    else
    thenM advance
    (bindM (at LITERAL_STRING) (\<lambda>t1.
    (if k \<noteq> KEYW_NAMESPACE \<and> t1 then
      (ParseTsAmbientExternalModuleDeclaration c startLoc isDeclare)
    else
    (bounded (\<lambda>n. ParseTsModuleOrNamespaceDelaration c n startLoc isDeclare)))))))))"

text \<open>A module declaration, in an ambient context when it is declared.\<close>

definition ParseModuleStatement :: "parseCalls \<Rightarrow> bool \<Rightarrow> nodeId parseM" where
  "ParseModuleStatement c isDeclare =
    bindM Status (\<lambda>saved.
    thenM (whenM (isDeclare)
      ((addStatus PS_IN_AMBIENT_CONTEXT)))
    (bindM (ParseTsModuleDeclaration c isDeclare) (\<lambda>n.
    thenM (setStatus saved)
    ((ret n)))))"

section \<open>Loops\<close>

definition ParseDoWhileStatement :: "parseCalls \<Rightarrow> nodeId parseM" where
  "ParseDoWhileStatement c =
    (iterationContext LoopScope (\<lambda>sc.
      bindM tokenStart (\<lambda>startLoc.
      thenM advance
      (bindM (cStatement c SP_NONE) (\<lambda>body.
      thenM (expect KEYW_WHILE (''Missing '' @ [CHR 0x27] @ ''while'' @ [CHR 0x27] @ '' keyword in a '' @ [CHR 0x27] @ ''DoWhileStatement'' @ [CHR 0x27]))
      (thenM advance
      (thenM (expect PUNCTUATOR_LEFT_PARENTHESIS (''Missing left parenthesis in a '' @ [CHR 0x27] @ ''DoWhileStatement'' @ [CHR 0x27]))
      (thenM advance
      (bindM (cExpression c EF_ACCEPT_COMMA) (\<lambda>test.
      thenM (expect PUNCTUATOR_RIGHT_PARENTHESIS (''Missing right parenthesis in a '' @ [CHR 0x27] @ ''DoWhileStatement'' @ [CHR 0x27]))
      (bindM tokenEnd (\<lambda>t1.
      bindM (makeNode (Stmt (DoWhileStatement sc body test)) startLoc t1) (\<lambda>n.
      thenM (BindNode sc (OtherNode n))
      (thenM advance
      (thenM (bindM (at PUNCTUATOR_SEMI_COLON) (\<lambda>t2.
      whenM (t2)
        (bindM tokenEnd (\<lambda>t3.
        thenM (onNodes (SetEnd n t3))
        ((advance))))))
      ((ret n)))))))))))))))))"

definition ParseWhileStatement :: "parseCalls \<Rightarrow> nodeId parseM" where
  "ParseWhileStatement c =
    bindM tokenStart (\<lambda>startLoc.
    thenM advance
    (thenM (expect PUNCTUATOR_LEFT_PARENTHESIS (''Unexpected token, expected '' @ [CHR 0x27] @ ''('' @ [CHR 0x27]))
    (thenM advance
    (bindM (cExpression c EF_ACCEPT_COMMA) (\<lambda>test.
    thenM (expect PUNCTUATOR_RIGHT_PARENTHESIS (''Unexpected token, expected '' @ [CHR 0x27] @ '')'' @ [CHR 0x27]))
    (thenM advance
    ((iterationContext LoopScope (\<lambda>sc.
      bindM (cStatement c SP_NONE) (\<lambda>body.
      bindM (endOf body) (\<lambda>t1.
      bindM (makeNode (Stmt (WhileStatement sc test body)) startLoc t1) (\<lambda>n.
      thenM (BindNode sc (OtherNode n))
      ((ret n))))))))))))))"

datatype forStatementKind = FOR_UPDATE | FOR_IN | FOR_OF

text \<open>The two expressions after the first semicolon of a \<open>for\<close> statement.\<close>

definition ParseForTest :: "parseCalls \<Rightarrow> (nodeId option) parseM" where
  "ParseForTest c =
    bindM (at PUNCTUATOR_SEMI_COLON) (\<lambda>t1.
    (if t1 then
      thenM advance
      ((ret None))
    else
    bindM (cExpression c EF_ACCEPT_COMMA) (\<lambda>e.
    thenM (expect PUNCTUATOR_SEMI_COLON (''Unexpected token, expected '' @ [CHR 0x27] @ '';'' @ [CHR 0x27] @ '' in '' @ [CHR 0x27] @ ''ForStatement'' @ [CHR 0x27] @ ''.''))
    (thenM advance
    ((ret (Some e)))))))"

definition ParseForStep :: "parseCalls \<Rightarrow> (nodeId option) parseM" where
  "ParseForStep c =
    bindM (at PUNCTUATOR_RIGHT_PARENTHESIS) (\<lambda>t1.
    (if t1 then
      (ret None)
    else
    bindM (cExpression c EF_ACCEPT_COMMA) (\<lambda>e.
    (ret (Some e)))))"

definition ParseForUpdate :: "parseCalls \<Rightarrow> bool \<Rightarrow> (nodeId option \<times> nodeId option) parseM" where
  "ParseForUpdate c isAwait =
    thenM (throwIf (isAwait) ''Unexpected token'')
    (bindM (ParseForTest c) (\<lambda>rightNode.
    bindM (ParseForStep c) (\<lambda>updateNode.
    (ret ((rightNode, updateNode))))))"

text \<open>The expression after \<open>in\<close> or \<open>of\<close>.\<close>

definition ParseForRight :: "parseCalls \<Rightarrow> u32 \<Rightarrow> (forStatementKind \<times> nodeId) parseM" where
  "ParseForRight c exprFlags =
    bindM (at KEYW_IN) (\<lambda>isIn.
    thenM advance
    (bindM (cExpression c (if isIn then EF_ACCEPT_COMMA else exprFlags)) (\<lambda>e.
    (ret ((if isIn then FOR_IN else FOR_OF, e))))))"

definition atInOrOf :: "bool parseM" where
  "atInOrOf =
    bindM (at KEYW_IN) (\<lambda>t1.
    bindM (atKeyword KEYW_OF) (\<lambda>t2.
    (ret (t1 \<or> t2))))"

text \<open>The first declarator of a declaration has an initializer.\<close>

definition firstInitialized :: "nodeId \<Rightarrow> bool parseM" where
  "firstInitialized initNode =
    bindM (bodyNow initNode) (\<lambda>b.
    ((case b of Stmt (VariableDeclaration _ (d # _) _) \<Rightarrow> bindM (bodyNow d) (\<lambda>db. case db of Stmt (VariableDeclarator _ init) \<Rightarrow> ret (init \<noteq> None) | _ \<Rightarrow> undefinedM) | _ \<Rightarrow> undefinedM)))"

definition ParseForInOf_declaration :: "parseCalls \<Rightarrow> nodeId \<Rightarrow> u32 \<Rightarrow> bool \<Rightarrow> (forStatementKind \<times> nodeId option \<times> nodeId option) parseM" where
  "ParseForInOf_declaration c initNode exprFlags isAwait =
    bindM atInOrOf (\<lambda>t1.
    (if t1 then
      bindM (at KEYW_IN) (\<lambda>isIn.
      bindM (firstInitialized initNode) (\<lambda>initialized.
      thenM (throwIf (isIn \<and> initialized) ''for-in loop variable declaration may not have an initializer'')
      (thenM (throwIf (\<not> isIn \<and> initialized) ''for-of loop variable declaration may not have an initializer'')
      (bindM (ParseForRight c exprFlags) (\<lambda>(kind, rightNode).
      (ret ((kind, Some rightNode, None))))))))
    else
    thenM (throwIf (isAwait) ''Unexpected token'')
    (bindM (at PUNCTUATOR_RIGHT_PARENTHESIS) (\<lambda>t2.
    thenM (throwIf (t2) (''Invalid left-hand side in '' @ [CHR 0x27] @ ''For[In/Of]Statement'' @ [CHR 0x27]))
    (bindM (ParseForTest c) (\<lambda>rightNode.
    bindM (ParseForStep c) (\<lambda>updateNode.
    (ret ((FOR_UPDATE, rightNode, updateNode))))))))))"

text \<open>A conditional whose last operand ends in \<open>in\<close>.\<close>

definition endsInIn :: "nodeTable \<Rightarrow> nodeBody \<Rightarrow> bool" where
  "endsInIn t b =
    (case b of Expr (ConditionalExpression _ _ alt) \<Rightarrow> (case nBody (nodeAt t alt) of Expr (BinaryExpression _ _ opr) \<Rightarrow> opr = KEYW_IN | _ \<Rightarrow> False) | _ \<Rightarrow> False)"

definition validForTarget :: "nodeId \<Rightarrow> bool parseM" where
  "validForTarget leftNode =
    bindM (bodyNow leftNode) (\<lambda>b.
    (if isIdentifier b \<or> isMemberExpression b then
      (ret True)
    else
    (if isArrayExpression b then
      (onNodes (convertArray leftNode))
    else
    (if isObjectExpression b then
      (onNodes (convertObject leftNode))
    else
    (ret False)))))"

definition ParseForInOf_expression :: "parseCalls \<Rightarrow> nodeId \<Rightarrow> u32 \<Rightarrow> bool \<Rightarrow> (forStatementKind \<times> nodeId \<times> nodeId option \<times> nodeId option) parseM" where
  "ParseForInOf_expression c leftNode exprFlags isAwait =
    bindM atInOrOf (\<lambda>t1.
    (if t1 then
      bindM (validForTarget leftNode) (\<lambda>isValid.
      thenM (whenM (\<not> isValid)
        ((ValidateLvalueAssignmentTarget leftNode)))
      (bindM (ParseForRight c exprFlags) (\<lambda>(kind, rightNode).
      (ret ((kind, leftNode, Some rightNode, None))))))
    else
    thenM (throwIf (isAwait) ''Unexpected token'')
    (bindM (ParseAssignmentExpression c leftNode EF_NO_OPTS) (\<lambda>expr.
    bindM (
      bindM (at PUNCTUATOR_COMMA) (\<lambda>t2.
      (if t2 then
        (ParseSequenceExpression c expr False False)
      else
      (ret expr)))) (\<lambda>initNode.
    bindM (getM psNodes) (\<lambda>table.
    bindM (nodeIs (endsInIn table) initNode) (\<lambda>t3.
    thenM (throwIf (t3) ''Invalid left-hand side in for-in statement'')
    (bindM (at PUNCTUATOR_RIGHT_PARENTHESIS) (\<lambda>t4.
    thenM (throwIf (t4) (''Invalid left-hand side in '' @ [CHR 0x27] @ ''For[In/Of]Statement'' @ [CHR 0x27]))
    (thenM (expect PUNCTUATOR_SEMI_COLON (''Unexpected token, expected '' @ [CHR 0x27] @ '';'' @ [CHR 0x27] @ '' in '' @ [CHR 0x27] @ ''ForStatement'' @ [CHR 0x27] @ ''.''))
    (thenM advance
    (bindM (ParseForTest c) (\<lambda>rightNode.
    bindM (ParseForStep c) (\<lambda>updateNode.
    (ret ((FOR_UPDATE, initNode, rightNode, updateNode)))))))))))))))))"

text \<open>What precedes the loop scope: a declaration, the left side of an expression, or a semicolon.\<close>

datatype forInit = ForDeclaration nodeId | ForExpression nodeId | ForNothing

definition ParseForInit :: "parseCalls \<Rightarrow> u32 \<Rightarrow> bool \<Rightarrow> forInit parseM" where
  "ParseForInit c varFlags isAwait =
    bindM tokenType (\<lambda>t.
    (if t \<in> {KEYW_VAR, KEYW_LET, KEYW_CONST} then
      (let kindFlags = (if t = KEYW_VAR then VP_VAR else if t = KEYW_LET then VP_LET else VP_CONST OR VP_ACCEPT_CONST_NO_INIT) in
      bindM (ParseVariableDeclaration c (varFlags OR kindFlags) False) (\<lambda>n.
      (ret (ForDeclaration n))))
    else
    (if t = PUNCTUATOR_SEMI_COLON then
      thenM (throwIf (isAwait) ''Unexpected token'')
      (thenM advance
      ((ret ForNothing)))
    else
    bindM (ParseUnaryOrPrefixUpdateExpression c EF_POTENTIALLY_IN_PATTERN) (\<lambda>n.
    (ret (ForExpression n))))))"

text \<open>A declaration that a semicolon follows, or that has several declarators, belongs to a loop with an update.\<close>

definition declarationCanBeForInOf :: "nodeId \<Rightarrow> bool parseM" where
  "declarationCanBeForInOf n =
    bindM (at PUNCTUATOR_SEMI_COLON) (\<lambda>t1.
    (if t1 then
      thenM advance
      ((ret False))
    else
    bindM (bodyNow n) (\<lambda>b.
    ((case b of Stmt (VariableDeclaration _ ds _) \<Rightarrow> ret (length ds = 1) | _ \<Rightarrow> undefinedM)))))"

definition ParseForHead :: "parseCalls \<Rightarrow> forInit \<Rightarrow> bool \<Rightarrow>
    (forStatementKind \<times> nodeId option \<times> nodeId option \<times> nodeId option) parseM" where
  "ParseForHead c init isAwait =
    (case init of
       ForDeclaration n \<Rightarrow> bindM (declarationCanBeForInOf n) (\<lambda>canBeForInOf.
         if canBeForInOf then bindM (ParseForInOf_declaration c n EF_NO_OPTS isAwait) (\<lambda>(kind, r, u). ret (kind, Some n, r, u))
         else bindM (ParseForUpdate c isAwait) (\<lambda>(r, u). ret (FOR_UPDATE, Some n, r, u)))
     | ForExpression n \<Rightarrow> bindM (ParseForInOf_expression c n EF_NO_OPTS isAwait) (\<lambda>(kind, i, r, u). ret (kind, Some i, r, u))
     | ForNothing \<Rightarrow> bindM (ParseForUpdate c isAwait) (\<lambda>(r, u). ret (FOR_UPDATE, None, r, u)))"

text \<open>The statement of a kind; the sides of \<open>in\<close> and \<open>of\<close> are there.\<close>

definition forStatementNode :: "forStatementKind \<Rightarrow> scopeId \<Rightarrow> nodeId option \<Rightarrow> nodeId option \<Rightarrow> nodeId option \<Rightarrow> nodeId \<Rightarrow> bool \<Rightarrow> statementNode" where
  "forStatementNode kind sc init rhs update body isAwait =
    (case kind of FOR_UPDATE \<Rightarrow> ForUpdateStatement sc init rhs update body
     | FOR_IN \<Rightarrow> ForInStatement sc (orNull init) (orNull rhs) body
     | FOR_OF \<Rightarrow> ForOfStatement sc (orNull init) (orNull rhs) body isAwait)"

definition ParseForStatement :: "parseCalls \<Rightarrow> nodeId parseM" where
  "ParseForStatement c =
    bindM tokenStart (\<lambda>startLoc.
    thenM advance
    (bindM (at KEYW_AWAIT) (\<lambda>isAwait.
    thenM (whenM (isAwait)
      ((advance)))
    ((let varFlags = (if isAwait then VP_STOP_AT_IN OR VP_DISALLOW_INIT else VP_STOP_AT_IN) in
    thenM (expect PUNCTUATOR_LEFT_PARENTHESIS (''Missing left parenthesis in a '' @ [CHR 0x27] @ ''ForStatement'' @ [CHR 0x27]))
    (thenM advance
    ((lexicalScope LoopDeclarationScope (\<lambda>declarationScope.
      bindM (ParseForInit c varFlags isAwait) (\<lambda>init.
      (iterationContext LoopScope (\<lambda>sc.
        thenM (onScopes (BindDecls sc declarationScope))
        (bindM (ParseForHead c init isAwait) (\<lambda>(kind, initNode, rightNode, updateNode).
        thenM (expect PUNCTUATOR_RIGHT_PARENTHESIS (''Unexpected token, expected '' @ [CHR 0x27] @ '')'' @ [CHR 0x27] @ '' in '' @ [CHR 0x27] @ ''ForStatement'' @ [CHR 0x27] @ ''.''))
        (thenM advance
        (bindM (cStatement c SP_NONE) (\<lambda>body.
        bindM (endOf body) (\<lambda>t1.
        bindM (makeNode (Stmt (forStatementNode kind sc initNode rightNode updateNode body isAwait)) startLoc t1) (\<lambda>n.
        thenM (BindNode sc (OtherNode n))
        (thenM (BindNode declarationScope (OtherNode n))
        ((ret n))))))))))))))))))))))"

section \<open>Branches and exceptions\<close>

definition ParseIfStatement :: "parseCalls \<Rightarrow> nodeId parseM" where
  "ParseIfStatement c =
    bindM tokenStart (\<lambda>startLoc.
    thenM advance
    (thenM (expect PUNCTUATOR_LEFT_PARENTHESIS (''Missing left parenthesis in an '' @ [CHR 0x27] @ ''IfStatement'' @ [CHR 0x27]))
    (thenM advance
    (bindM (cExpression c EF_ACCEPT_COMMA) (\<lambda>test.
    thenM (expect PUNCTUATOR_RIGHT_PARENTHESIS (''Missing right parenthesis in an '' @ [CHR 0x27] @ ''IfStatement'' @ [CHR 0x27]))
    (thenM advance
    (bindM (cStatement c (SP_IF_ELSE OR SP_ALLOW_LEXICAL)) (\<lambda>consequent.
    bindM isTs (\<lambda>t1.
    bindM (nodeIs isEmptyStatement consequent) (\<lambda>t2.
    thenM (throwIf (t1 \<and> t2) ''The body of an if statement cannot be the empty statement'')
    (bindM (
      bindM (at KEYW_ELSE) (\<lambda>t3.
      (if t3 then
        thenM advance
        (bindM (cStatement c (SP_IF_ELSE OR SP_ALLOW_LEXICAL)) (\<lambda>s.
        (ret (Some s))))
      else
      (ret None)))) (\<lambda>alternate.
    bindM (endOf (case alternate of Some s \<Rightarrow> s | None \<Rightarrow> consequent)) (\<lambda>endLoc.
    (makeNode (Stmt (IfStatement test consequent alternate)) startLoc endLoc))))))))))))))"

definition ParseLabelledStatement :: "parseCalls \<Rightarrow> lexerPosition \<Rightarrow> nodeId parseM" where
  "ParseLabelledStatement c pos =
    (let labelToken = tok pos in
    bindM (atKeyword KEYW_AWAIT) (\<lambda>t1.
    bindM (statusHas PS_MODULE) (\<lambda>t2.
    thenM (throwAt (t1 \<and> t2) ([CHR 0x27] @ ''await'' @ [CHR 0x27] @ '' is a reserved identifier in module code'') (locStart labelToken))
    (bindM (FindLabel (tokSrc labelToken)) (\<lambda>found.
    thenM (throwAt (found \<noteq> None) ''Label already declared'' (locStart labelToken))
    ((savedContext PS_IN_LABELED (tokSrc labelToken) (
      bindM (makeNode (Expr (Identifier (newIdentifier (tokSrc labelToken)))) (locStart labelToken) (locEnd labelToken)) (\<lambda>ident.
      thenM advance
      (bindM (cStatement c SP_LABELLED) (\<lambda>body.
      bindM (endOf body) (\<lambda>t3.
      (makeNode (Stmt (LabelledStatement ident body)) (locStart labelToken) t3)))))))))))))"

primrec Consequents_loop :: "parseCalls \<Rightarrow> nat \<Rightarrow> nodeId list \<Rightarrow> sourcePosition \<Rightarrow> (nodeId list \<times> sourcePosition) parseM" where
  "Consequents_loop c 0 consequents endLoc = out_of_fuel"
| "Consequents_loop c (Suc n) consequents endLoc =
    bindM (atAny [KEYW_CASE, KEYW_DEFAULT, PUNCTUATOR_RIGHT_BRACE]) (\<lambda>t1.
    (if t1 then
      (ret ((consequents, endLoc)))
    else
    bindM (cStatement c SP_ALLOW_LEXICAL) (\<lambda>s.
    bindM (endOf s) (\<lambda>e.
    (Consequents_loop c n (consequents @ [s]) e)))))"

definition ParseSwitchCaseStatement :: "parseCalls \<Rightarrow> bool \<Rightarrow> (nodeId \<times> bool) parseM" where
  "ParseSwitchCaseStatement c seenDefault =
    bindM tokenStart (\<lambda>caseStart.
    bindM tokenType (\<lambda>t.
    bindM isTs (\<lambda>ts.
    bindM (
      (if t = KEYW_CASE then
        thenM advance
        (bindM (cExpression c EF_ACCEPT_COMMA) (\<lambda>e.
        (ret ((Some e, seenDefault)))))
      else
      (if t = KEYW_DEFAULT then
        thenM (throwIf (seenDefault \<and> ts) (''A '' @ [CHR 0x27] @ ''default'' @ [CHR 0x27] @ '' clause cannot appear more than once in a '' @ [CHR 0x27] @ ''switch'' @ [CHR 0x27] @ '' statement''))
        (thenM (throwIf (seenDefault \<and> \<not> ts) ''Multiple default clauses.'')
        (thenM advance
        ((ret ((None, True))))))
      else
      (ThrowSyntaxError (''Unexpected token, expected '' @ [CHR 0x27] @ ''case'' @ [CHR 0x27] @ '' or '' @ [CHR 0x27] @ ''default'' @ [CHR 0x27] @ ''.''))))) (\<lambda>(test, seenDefault).
    thenM (expect PUNCTUATOR_COLON (''Unexpected token, expected '' @ [CHR 0x27] @ '':'' @ [CHR 0x27]))
    (bindM tokenEnd (\<lambda>caseEnd.
    thenM advance
    (bindM (bounded (\<lambda>n. Consequents_loop c n [] caseEnd)) (\<lambda>(consequents, caseEnd).
    bindM (makeNode (Stmt (SwitchCaseStatement test consequents)) caseStart caseEnd) (\<lambda>n.
    (ret ((n, seenDefault))))))))))))"

primrec SwitchCases_loop :: "parseCalls \<Rightarrow> nat \<Rightarrow> bool \<Rightarrow> nodeId list \<Rightarrow> (nodeId list) parseM" where
  "SwitchCases_loop c 0 seenDefault cs = out_of_fuel"
| "SwitchCases_loop c (Suc n) seenDefault cs =
    bindM (at PUNCTUATOR_RIGHT_BRACE) (\<lambda>t1.
    (if t1 then
      (ret cs)
    else
    bindM (ParseSwitchCaseStatement c seenDefault) (\<lambda>(k, seenDefault).
    (SwitchCases_loop c n seenDefault (cs @ [k])))))"

definition ParseSwitchStatement :: "parseCalls \<Rightarrow> nodeId parseM" where
  "ParseSwitchStatement c =
    bindM tokenStart (\<lambda>startLoc.
    thenM advance
    (thenM (expect PUNCTUATOR_LEFT_PARENTHESIS (''Unexpected token, expected '' @ [CHR 0x27] @ ''('' @ [CHR 0x27]))
    (thenM advance
    (bindM (cExpression c EF_ACCEPT_COMMA) (\<lambda>discriminant.
    thenM (expect PUNCTUATOR_RIGHT_PARENTHESIS (''Unexpected token, expected '' @ [CHR 0x27] @ '')'' @ [CHR 0x27]))
    (thenM advance
    ((savedStatus PS_IN_SWITCH (
      thenM (expect PUNCTUATOR_LEFT_BRACE (''Unexpected token, expected '' @ [CHR 0x27] @ ''{'' @ [CHR 0x27]))
      (thenM advance
      ((lexicalScope LocalScope (\<lambda>sc.
        bindM (bounded (\<lambda>n. SwitchCases_loop c n False [])) (\<lambda>cs.
        bindM tokenEnd (\<lambda>t1.
        bindM (makeNode (Stmt (SwitchStatement sc discriminant cs)) startLoc t1) (\<lambda>n.
        thenM (BindNode sc (OtherNode n))
        (thenM advance
        ((ret n)))))))))))))))))))"

definition ParseCatchParam :: "parseCalls \<Rightarrow> (nodeId option) parseM" where
  "ParseCatchParam c =
    bindM (at PUNCTUATOR_LEFT_PARENTHESIS) (\<lambda>t1.
    (if \<not> t1 then
      (ret None)
    else
    thenM advance
    (bindM GetToken (\<lambda>t.
    bindM (
      (if tokType t = LITERAL_IDENT then
        thenM (throwIf (keywordType t = KEYW_EVAL) (''Binding '' @ [CHR 0x27] @ ''eval'' @ [CHR 0x27] @ '' in strict mode is invalid''))
        (thenM (throwIf (keywordType t = KEYW_ARGUMENTS) (''Binding '' @ [CHR 0x27] @ ''arguments'' @ [CHR 0x27] @ '' in strict mode is invalid''))
        (bindM makeIdentifier (\<lambda>ident.
        thenM advance
        ((ret ident)))))
      else
      (if tokType t = PUNCTUATOR_LEFT_SQUARE_BRACKET then
        (ParseArrayExpression c EF_MUST_BE_PATTERN)
      else
      (if tokType t = PUNCTUATOR_LEFT_BRACE then
        (ParseObjectExpression c EF_MUST_BE_PATTERN)
      else
      (ThrowSyntaxError ''Unexpected token in catch parameter''))))) (\<lambda>param.
    bindM (addParamDecl param) (\<lambda>dcl.
    thenM (bindingType c param)
    (bindM isTs (\<lambda>t2.
    bindM (at PUNCTUATOR_SUBSTITUTION) (\<lambda>t3.
    thenM (throwIf (t2 \<and> t3) ''Catch clause variable cannot have an initializer'')
    (thenM (expect PUNCTUATOR_RIGHT_PARENTHESIS (''Unexpected token, expected '' @ [CHR 0x27] @ '')'' @ [CHR 0x27]))
    (thenM advance
    ((ret (Some param))))))))))))))"

definition ParseCatchClause :: "parseCalls \<Rightarrow> nodeId parseM" where
  "ParseCatchClause c =
    bindM tokenStart (\<lambda>catchStart.
    thenM advance
    ((lexicalScope CatchParamScope (\<lambda>pScope.
      bindM (ParseCatchParam c) (\<lambda>param.
      thenM (whenM (param \<noteq> None)
        ((BindNode pScope (OtherNode (the param)))))
      (thenM (expect PUNCTUATOR_LEFT_BRACE (''Unexpected token, expected '' @ [CHR 0x27] @ ''{'' @ [CHR 0x27]))
      ((lexicalScope CatchScope (\<lambda>sc.
        thenM (onScopes (AssignParamScope sc pScope))
        (bindM (ParseBlockStatement c sc) (\<lambda>catchBlock.
        bindM (endOf catchBlock) (\<lambda>t1.
        bindM (makeNode (Part (CatchClause sc param catchBlock)) catchStart t1) (\<lambda>n.
        thenM (BindNode sc (OtherNode n))
        ((ret n)))))))))))))))"

definition ParseTryStatement :: "parseCalls \<Rightarrow> nodeId parseM" where
  "ParseTryStatement c =
    bindM tokenStart (\<lambda>startLoc.
    bindM tokenEnd (\<lambda>endLoc.
    thenM advance
    (thenM (expect PUNCTUATOR_LEFT_BRACE (''Unexpected token, expected '' @ [CHR 0x27] @ ''{'' @ [CHR 0x27]))
    (bindM (ParseLocalBlockStatement c) (\<lambda>body.
    thenM (expectAny [KEYW_CATCH, KEYW_FINALLY] ''Missing catch or finally clause'')
    (bindM (
      bindM (at KEYW_CATCH) (\<lambda>t1.
      (if t1 then
        bindM (ParseCatchClause c) (\<lambda>n.
        bindM (endOf n) (\<lambda>e.
        (ret ((Some n, e)))))
      else
      (ret ((None, endLoc)))))) (\<lambda>(catchClause, endLoc).
    bindM (
      bindM (at KEYW_FINALLY) (\<lambda>t2.
      (if t2 then
        thenM advance
        (thenM (expect PUNCTUATOR_LEFT_BRACE (''Unexpected token, expected '' @ [CHR 0x27] @ ''{'' @ [CHR 0x27]))
        (bindM (ParseLocalBlockStatement c) (\<lambda>n.
        bindM (endOf n) (\<lambda>e.
        (ret ((Some n, e)))))))
      else
      (ret ((None, endLoc)))))) (\<lambda>(finallyClause, endLoc).
    (makeNode (Stmt (TryStatement body catchClause finallyClause)) startLoc endLoc)))))))))"

definition ParsePotentialExpressionStatement :: "parseCalls \<Rightarrow> u32 \<Rightarrow> bool \<Rightarrow> nodeId parseM" where
  "ParsePotentialExpressionStatement c flags isDeclare =
    bindM Lookahead (\<lambda>t1.
    (if t1 = LEX_CHAR_COLON then
      bindM savePosition (\<lambda>pos.
      thenM advance
      ((ParseLabelledStatement c pos)))
    else
    bindM tokenKeyword (\<lambda>k.
    bindM isTs (\<lambda>ts.
    (if ts \<and> k = KEYW_ENUM then
      (ParseEnumDeclaration c False)
    else
    (if ts \<and> k = KEYW_TYPE then
      (ParseTsTypeAliasDeclaration c isDeclare)
    else
    (if ts \<and> k = KEYW_INTERFACE then
      (ParseTsInterfaceDeclaration c)
    else
    (ParseExpressionStatement c flags))))))))"

end
