(* ===== verification/Parser.thy ===== *)
theory Parser
  imports StmtParser
begin

text \<open>
  Modules, statements and programs: the exports and imports of \<open>parser/statementParser.cpp\<close>, \<open>ParseStatement\<close>
  with the lists of statements, and \<open>ParseProgram\<close>, \<open>ParseScript\<close> and \<open>ParseModule\<close> of \<open>parser/parserImpl.cpp\<close>.

  \<open>callsAt\<close> ties the recursive calls: a call at depth \<open>k\<close> makes calls at depth \<open>k - 1\<close>, and a program is
  parsed at a depth of three calls for every byte that is left.  The maps of \<open>ExportDeclarationContext\<close> are walked in the order in
  which names were declared; the container of the code has an order of its own.
\<close>

section \<open>Exports\<close>

text \<open>\<open>AsModuleScope\<close> of a scope that is no module scope is undefined.\<close>

definition moduleScope :: "scopeId parseM" where
  "moduleScope =
    bindM currentScope (\<lambda>sc.
    bindM (onScopes (getScope sc)) (\<lambda>scp.
    ((if sClass scp = ModuleScope then ret sc else undefinedM))))"

definition savedBindings :: "((name \<times> varId option) list) parseM" where
  "savedBindings =
    bindM currentScope (\<lambda>sc.
    bindM (onScopes (getScope sc)) (\<lambda>scp.
    (ret (sBindings scp))))"

definition exportDecl :: "name \<Rightarrow> name \<Rightarrow> astRef option \<Rightarrow> decl" where
  "exportDecl exported localName node = (newDecl DECL_EXPORT localName)\<lparr>dExport := exported, dNode := node\<rparr>"

definition importDecl :: "name \<Rightarrow> name \<Rightarrow> astRef \<Rightarrow> decl" where
  "importDecl imported localName node = (newDecl DECL_IMPORT localName)\<lparr>dImport := imported, dNode := Some node\<rparr>"

text \<open>The local exports of the names that are new in the scope; the position is read only by an error.\<close>

primrec bindNewExports :: "(name \<times> varId option) list \<Rightarrow> name option \<Rightarrow> (name \<times> varId option) list \<Rightarrow> (declId list) parseM" where
  "bindNewExports saved exportName [] = ret []"
| "bindNewExports saved exportName (b # bs) =
    (if map_of saved (fst b) \<noteq> None then bindNewExports saved exportName bs
     else bindM (deref (snd b)) (\<lambda>v.
       thenM (onScopes (AddFlag v VF_LOCAL_EXPORT))
       (bindM (declarationOf (Some v)) (\<lambda>(d, dc).
        bindM (getM psNodes) (\<lambda>t.
        bindM (addDecl (case dNode dc of Some r \<Rightarrow> refStart t r | None \<Rightarrow> noPosition)
            (exportDecl (case exportName of Some n \<Rightarrow> n | None \<Rightarrow> fst b) (fst b) None)) (\<lambda>e.
        bindM (bindNewExports saved exportName bs) (\<lambda>ds. ret (e # ds))))))))"

text \<open>The function of a function declaration, which gives its name to a default export.\<close>

definition defaultDecl :: "nodeId \<Rightarrow> decl parseM" where
  "defaultDecl rhs =
    bindM (bodyNow rhs) (\<lambda>b.
    ((case b of Stmt (FunctionDeclaration f) \<Rightarrow> bindM (onNodes (functionNode f)) (\<lambda>fn. ret ((newDecl DECL_FUNC (asciiText ''*default*''))\<lparr>dNode := Some (ScriptFunction f (has (fFlags fn) SF_ARROW))\<rparr>)) | _ \<Rightarrow> ret (newDecl DECL_CONST (asciiText ''*default*'')))))"

text \<open>\<open>BindExportDecl\<close> with the bindings that were saved before the declaration was parsed.\<close>

definition BindExportDecl :: "(name \<times> varId option) list \<Rightarrow> nodeId \<Rightarrow> nodeId option \<Rightarrow> astRef \<Rightarrow> unit parseM" where
  "BindExportDecl saved node rhs ref =
    bindM savedBindings (\<lambda>now.
    thenM (whenM (rhs \<noteq> None \<and> length now = length saved)
      (bindM (defaultDecl (the rhs)) (\<lambda>dcl.
      bindM (startOf (the rhs)) (\<lambda>pos.
      bindM (addDecl pos dcl) (\<lambda>d.
      (ret ()))))))
    (bindM savedBindings (\<lambda>now.
    bindM (bindNewExports saved (if rhs = None then None else Some (asciiText ''default'')) now) (\<lambda>ds.
    bindM moduleScope (\<lambda>sc.
    (onScopes (AddExportDecls sc ref ds)))))))"

text \<open>The declaration after \<open>export default\<close>, and whether a semicolon follows it.\<close>

definition ParseDefaultExported :: "parseCalls \<Rightarrow> nodeId list \<Rightarrow> (nodeId \<times> bool) parseM" where
  "ParseDefaultExported c decorators =
    bindM GetToken (\<lambda>t.
    bindM isTs (\<lambda>ts.
    (if tokType t = KEYW_FUNCTION then
      bindM (ParseFunctionDeclaration c True PS_NO_OPTS False) (\<lambda>n.
      (ret ((n, False))))
    else
    (if tokType t = KEYW_CLASS then
      bindM (ParseClassDeclaration c False decorators False False) (\<lambda>n.
      (ret ((n, False))))
    else
    (if IsAsyncModifier t then
      thenM advance
      (bindM (ParseFunctionDeclaration c False PS_ASYNC_FUNCTION False) (\<lambda>n.
      (ret ((n, False)))))
    else
    (if ts \<and> keywordType t = KEYW_INTERFACE then
      bindM (ParseTsInterfaceDeclaration c) (\<lambda>n.
      (ret ((n, False))))
    else
    bindM (cExpression c EF_NO_OPTS) (\<lambda>n.
    (ret ((n, True))))))))))"

definition ParseExportDefaultDeclaration :: "parseCalls \<Rightarrow> sourcePosition \<Rightarrow> nodeId list \<Rightarrow> bool \<Rightarrow> nodeId parseM" where
  "ParseExportDefaultDeclaration c startLoc decorators isExportEquals =
    thenM advance
    (thenM (bindM (at KEYW_CLASS) (\<lambda>t1.
    bindM (statusHas PS_IN_CLASS_BODY) (\<lambda>t2.
    whenM (decorators \<noteq> [] \<and> \<not> t1 \<and> \<not> t2)
      ((rejectDecorators decorators)))))
    (bindM savedBindings (\<lambda>saved.
    bindM (ParseDefaultExported c decorators) (\<lambda>(declNode, eatSemicolon).
    bindM (endOf declNode) (\<lambda>t3.
    bindM (makeNode (Mod (ExportDefaultDeclNode declNode isExportEquals)) startLoc t3) (\<lambda>n.
    thenM (BindExportDecl saved n (Some declNode) (OtherNode n))
    (thenM (whenM (eatSemicolon)
      ((ConsumeSemicolon n)))
    ((ret n)))))))))"

definition ParseNamedExport :: "token \<Rightarrow> nodeId parseM" where
  "ParseNamedExport exportedToken =
    thenM (throwIf (tokType exportedToken \<noteq> LITERAL_IDENT) ''Unexpected token, expected an identifier.'')
    ((makeNode (Expr (Identifier (newIdentifier (tokSrc exportedToken)))) (locStart exportedToken) (locEnd exportedToken)))"

definition ParseFromClause :: "bool \<Rightarrow> nodeId parseM" where
  "ParseFromClause requireFrom =
    thenM (
      bindM (atKeyword KEYW_FROM) (\<lambda>t1.
      (if t1 then
        (advance)
      else
      (throwIf (requireFrom) ''Unexpected token.''))))
    (thenM (expect LITERAL_STRING ''Unexpected token.'')
    (bindM makeString (\<lambda>source.
    thenM advance
    ((ret source)))))"

definition ParseExportAllDeclaration :: "sourcePosition \<Rightarrow> nodeId parseM" where
  "ParseExportAllDeclaration startLoc =
    thenM advanceIdent
    (bindM (
      bindM (atKeyword KEYW_AS) (\<lambda>t1.
      (if t1 then
        thenM advanceIdent
        (bindM GetToken (\<lambda>t.
        bindM (ParseNamedExport t) (\<lambda>n.
        thenM advance
        ((ret (Some n))))))
      else
      (ret None)))) (\<lambda>exported.
    bindM (ParseFromClause True) (\<lambda>source.
    bindM (endOf source) (\<lambda>t2.
    bindM (makeNode (Mod (ExportAllDeclNode source exported)) startLoc t2) (\<lambda>n.
    bindM (case exported of Some e \<Rightarrow> bindM (identName e) (\<lambda>x. ret (Some x)) | None \<Rightarrow> ret None) (\<lambda>exportedName.
    (let star = asciiText ''*'' in
    bindM (addDecl startLoc (exportDecl (case exportedName of Some x \<Rightarrow> x | None \<Rightarrow> star) star None)) (\<lambda>d.
    bindM moduleScope (\<lambda>sc.
    thenM (onScopes (AddExportDecl sc (ExportAllDeclaration n exportedName) d))
    (thenM (ConsumeSemicolon n)
    ((ret n))))))))))))"

primrec ExportSpecifiers_loop :: "sourcePosition \<Rightarrow> nat \<Rightarrow> nodeId list \<Rightarrow> declId list \<Rightarrow> (nodeId list \<times> declId list) parseM" where
  "ExportSpecifiers_loop startLoc 0 specifiers ds = out_of_fuel"
| "ExportSpecifiers_loop startLoc (Suc n) specifiers ds =
    bindM (at PUNCTUATOR_RIGHT_BRACE) (\<lambda>t1.
    (if t1 then
      (ret ((specifiers, ds)))
    else
    thenM (expect LITERAL_IDENT ''Unexpected token'')
    (bindM GetToken (\<lambda>localToken.
    bindM makeIdentifier (\<lambda>loc.
    thenM advance
    (bindM (
      bindM (atKeyword KEYW_AS) (\<lambda>t2.
      (if t2 then
        thenM advanceIdent
        (bindM GetToken (\<lambda>t.
        bindM (ParseNamedExport t) (\<lambda>e.
        thenM advance
        ((ret e)))))
      else
      (ParseNamedExport localToken)))) (\<lambda>exported.
    bindM (startOf loc) (\<lambda>t3.
    bindM (endOf exported) (\<lambda>t4.
    bindM (makeNode (Mod (ExportSpecifierNode loc exported)) t3 t4) (\<lambda>specifier.
    bindM (identName exported) (\<lambda>exportedName.
    bindM (addDecl startLoc (exportDecl exportedName (tokSrc localToken) (Some (OtherNode specifier)))) (\<lambda>d.
    thenM (bindM (at PUNCTUATOR_COMMA) (\<lambda>t5.
    whenM (t5)
      ((advanceIdent))))
    ((ExportSpecifiers_loop startLoc n (specifiers @ [specifier]) (ds @ [d])))))))))))))))"

definition ParseExportNamedSpecifiers :: "sourcePosition \<Rightarrow> nodeId parseM" where
  "ParseExportNamedSpecifiers startLoc =
    thenM advanceIdent
    (bindM (bounded (\<lambda>n. ExportSpecifiers_loop startLoc n [] [])) (\<lambda>(specifiers, ds).
    bindM tokenEnd (\<lambda>endPos.
    thenM advance
    (bindM (
      bindM (atKeyword KEYW_FROM) (\<lambda>t1.
      (if t1 then
        bindM (ParseFromClause True) (\<lambda>s.
        (ret (Some s)))
      else
      (ret None)))) (\<lambda>source.
    bindM (makeNode (Mod (ExportNamedDeclNode None source specifiers)) startLoc endPos) (\<lambda>n.
    bindM moduleScope (\<lambda>sc.
    thenM (onScopes (AddExportDecls sc (ExportNamedDeclaration n (source \<noteq> None)) ds))
    (thenM (ConsumeSemicolon n)
    ((ret n))))))))))"

text \<open>A declaration that only TypeScript has, if the keyword begins one.\<close>

definition ParseTsExported :: "parseCalls \<Rightarrow> bool \<Rightarrow> (nodeId option) parseM" where
  "ParseTsExported c isDeclare =
    bindM tokenKeyword (\<lambda>k.
    bindM isTs (\<lambda>ts.
    bindM (at LITERAL_IDENT) (\<lambda>ident.
    (if \<not> ts \<or> \<not> ident then
      (ret None)
    else
    (if k = KEYW_LET then
      bindM (ParseVariableDeclaration c VP_LET isDeclare) (\<lambda>n.
      (ret (Some n)))
    else
    (if k = KEYW_ENUM then
      bindM (ParseEnumDeclaration c False) (\<lambda>n.
      (ret (Some n)))
    else
    (if k = KEYW_INTERFACE then
      bindM (ParseTsInterfaceDeclaration c) (\<lambda>n.
      (ret (Some n)))
    else
    (if k = KEYW_TYPE then
      bindM (ParseTsTypeAliasDeclaration c isDeclare) (\<lambda>n.
      (ret (Some n)))
    else
    (if k \<in> {KEYW_GLOBAL, KEYW_MODULE, KEYW_NAMESPACE} then
      bindM (ParseModuleStatement c isDeclare) (\<lambda>n.
      (ret (Some n)))
    else
    (ret None))))))))))"

definition ParseExported :: "parseCalls \<Rightarrow> nodeId list \<Rightarrow> bool \<Rightarrow> nodeId parseM" where
  "ParseExported c decorators isDeclare =
    bindM GetToken (\<lambda>t.
    (if tokType t = KEYW_VAR then
      (ParseVariableDeclaration c VP_VAR isDeclare)
    else
    (if tokType t = KEYW_CONST then
      (ParseVariableDeclaration c VP_CONST isDeclare)
    else
    (if tokType t = KEYW_LET then
      (ParseVariableDeclaration c VP_LET isDeclare)
    else
    (if tokType t = KEYW_FUNCTION then
      (ParseFunctionDeclaration c False PS_NO_OPTS isDeclare)
    else
    (if tokType t = KEYW_CLASS then
      (ParseClassDeclaration c True decorators isDeclare False)
    else
    bindM (ParseTsExported c isDeclare) (\<lambda>dcl.
    ((case dcl of Some n \<Rightarrow> ret n | None \<Rightarrow> thenM (throwIf (\<not> IsAsyncModifier t) ''Unexpected token'') (thenM advance (ParseFunctionDeclaration c False PS_ASYNC_FUNCTION False)))))))))))"

definition isVariableDeclaration :: "nodeBody \<Rightarrow> bool" where
  "isVariableDeclaration b =
    (case b of Stmt (VariableDeclaration _ _ _) \<Rightarrow> True | _ \<Rightarrow> False)"

definition ParseNamedExportDeclaration :: "parseCalls \<Rightarrow> sourcePosition \<Rightarrow> nodeId list \<Rightarrow> nodeId parseM" where
  "ParseNamedExportDeclaration c startLoc decorators =
    bindM (
      bindM isTs (\<lambda>t1.
      bindM (atKeyword KEYW_DECLARE) (\<lambda>t2.
      (if t1 \<and> t2 then
        thenM CheckDeclare
        ((ret True))
      else
      (ret False))))) (\<lambda>isDeclare.
    thenM (bindM (at KEYW_CLASS) (\<lambda>t3.
    bindM (statusHas PS_IN_CLASS_BODY) (\<lambda>t4.
    whenM (decorators \<noteq> [] \<and> \<not> t3 \<and> \<not> t4)
      ((rejectDecorators decorators)))))
    (bindM savedBindings (\<lambda>saved.
    bindM (ParseExported c decorators isDeclare) (\<lambda>dcl.
    thenM (bindM (nodeIs isVariableDeclaration dcl) (\<lambda>t5.
    whenM (t5)
      ((ConsumeSemicolon dcl))))
    (bindM (endOf dcl) (\<lambda>t6.
    bindM (makeNode (Mod (ExportNamedDeclNode (Some dcl) None [])) startLoc t6) (\<lambda>n.
    thenM (BindExportDecl saved n None (ExportNamedDeclaration n False))
    ((ret n)))))))))"

text \<open>
  Imports and exports of JavaScript belong to the top level of a module.  The last check of an export in
  TypeScript reads the parent of the declaration, which is not set yet, so that it never throws.
\<close>

definition checkModuleStatement :: "u32 \<Rightarrow> unit parseM" where
  "checkModuleStatement flags =
    bindM Extension (\<lambda>ext.
    thenM (throwIf (ext = JS \<and> \<not> has flags SP_GLOBAL) ([CHR 0x27] @ ''import'' @ [CHR 0x27] @ '' and '' @ [CHR 0x27] @ ''export'' @ [CHR 0x27] @ '' may only appear at the top level''))
    (bindM (statusHas PS_MODULE) (\<lambda>t1.
    (throwIf (ext = JS \<and> \<not> t1) ([CHR 0x27] @ ''import'' @ [CHR 0x27] @ '' and '' @ [CHR 0x27] @ ''export'' @ [CHR 0x27] @ '' may appear only with '' @ [CHR 0x27] @ ''sourceType: module'' @ [CHR 0x27])))))"

definition ParseExportDeclaration :: "parseCalls \<Rightarrow> u32 \<Rightarrow> nodeId list \<Rightarrow> nodeId parseM" where
  "ParseExportDeclaration c flags decorators =
    thenM (checkModuleStatement flags)
    (bindM tokenStart (\<lambda>startLoc.
    thenM advance
    (bindM tokenType (\<lambda>t.
    bindM isTs (\<lambda>ts.
    (if t = KEYW_DEFAULT then
      (ParseExportDefaultDeclaration c startLoc decorators False)
    else
    (if t = PUNCTUATOR_MULTIPLY then
      (ParseExportAllDeclaration startLoc)
    else
    (if t = PUNCTUATOR_LEFT_BRACE then
      (ParseExportNamedSpecifiers startLoc)
    else
    (if t = KEYW_IMPORT then
      (ParseTsImportEqualsDeclaration startLoc True)
    else
    (if t = PUNCTUATOR_SUBSTITUTION \<and> ts then
      (ParseExportDefaultDeclaration c startLoc decorators True)
    else
    (ParseNamedExportDeclaration c startLoc decorators)))))))))))"

section \<open>Imports\<close>

definition ParseNamedImport :: "token \<Rightarrow> nodeId parseM" where
  "ParseNamedImport importedToken =
    thenM (throwIf (tokType importedToken \<noteq> LITERAL_IDENT) ''Unexpected token'')
    (thenM (throwIf (keywordType importedToken = KEYW_EVAL) (''Binding '' @ [CHR 0x27] @ ''eval'' @ [CHR 0x27] @ '' in strict mode is invalid''))
    (thenM (throwIf (keywordType importedToken = KEYW_ARGUMENTS) (''Binding '' @ [CHR 0x27] @ ''arguments'' @ [CHR 0x27] @ '' in strict mode is invalid''))
    ((makeNode (Expr (Identifier (newIdentifier (tokSrc importedToken)))) (locStart importedToken) (locEnd importedToken)))))"

definition ParseNameSpaceImport :: "nodeId parseM" where
  "ParseNameSpaceImport =
    bindM tokenStart (\<lambda>namespaceStart.
    thenM advance
    (bindM (atKeyword KEYW_AS) (\<lambda>t1.
    thenM (throwIf (\<not> t1) ''Unexpected token.'')
    (thenM advance
    (bindM GetToken (\<lambda>t.
    bindM (ParseNamedImport t) (\<lambda>loc.
    bindM tokenEnd (\<lambda>t2.
    bindM (makeNode (Mod (ImportNamespaceSpecifierNode loc)) namespaceStart t2) (\<lambda>specifier.
    bindM (addDecl namespaceStart (importDecl (asciiText ''*'') (tokSrc t) (ImportNamespaceSpecifier specifier))) (\<lambda>d.
    thenM advance
    ((ret specifier))))))))))))"

primrec ImportSpecifiers_loop :: "nat \<Rightarrow> nodeId list \<Rightarrow> (nodeId list) parseM" where
  "ImportSpecifiers_loop 0 specifiers = out_of_fuel"
| "ImportSpecifiers_loop (Suc n) specifiers =
    bindM (at PUNCTUATOR_RIGHT_BRACE) (\<lambda>t1.
    (if t1 then
      (ret specifiers)
    else
    thenM (expect LITERAL_IDENT ''Unexpected token'')
    (bindM GetToken (\<lambda>importedToken.
    bindM makeIdentifier (\<lambda>imported.
    thenM advance
    (bindM (
      bindM (atKeyword KEYW_AS) (\<lambda>t2.
      (if t2 then
        thenM advance
        (bindM GetToken (\<lambda>t.
        bindM (ParseNamedImport t) (\<lambda>l.
        thenM advance
        ((ret l)))))
      else
      (ParseNamedImport importedToken)))) (\<lambda>loc.
    bindM (startOf imported) (\<lambda>t3.
    bindM (endOf loc) (\<lambda>t4.
    bindM (makeNode (Mod (ImportSpecifierNode imported loc)) t3 t4) (\<lambda>specifier.
    bindM (identName loc) (\<lambda>localName.
    bindM (startOf imported) (\<lambda>pos.
    bindM (addDecl pos (importDecl (tokSrc importedToken) localName (OtherNode specifier))) (\<lambda>d.
    thenM (bindM (at PUNCTUATOR_COMMA) (\<lambda>t5.
    whenM (t5)
      ((advanceIdent))))
    ((ImportSpecifiers_loop n (specifiers @ [specifier]))))))))))))))))"

definition ParseNamedImportSpecifiers :: "(nodeId list) parseM" where
  "ParseNamedImportSpecifiers =
    thenM advanceIdent
    (bindM (bounded (\<lambda>n. ImportSpecifiers_loop n [])) (\<lambda>specifiers.
    thenM advance
    ((ret specifiers))))"

datatype importHead = ImportEquals nodeId | ImportSpecifiers "nodeId list"

text \<open>The specifier of a default import; one token more is read after the name than the name has.\<close>

definition ParseImportDefaultSpecifier :: "importHead parseM" where
  "ParseImportDefaultSpecifier =
    bindM GetToken (\<lambda>t.
    bindM (ParseNamedImport t) (\<lambda>loc.
    thenM advance
    (bindM isTs (\<lambda>t1.
    bindM (at PUNCTUATOR_SUBSTITUTION) (\<lambda>t2.
    (if t1 \<and> t2 then
      thenM advance
      (thenM (expect LITERAL_IDENT ''identifier expected'')
      (bindM ParseModuleReference (\<lambda>ref.
      bindM (AllocNode (Ts (TSImportEqualsDeclaration loc ref False))) (\<lambda>n.
      (ret (ImportEquals n))))))
    else
    bindM (makeNodeLike (Mod (ImportDefaultSpecifierNode loc)) loc) (\<lambda>specifier.
    bindM (startOf loc) (\<lambda>pos.
    bindM (addDecl pos (importDecl (asciiText ''default'') (tokSrc t) (OtherNode specifier))) (\<lambda>d.
    thenM advance
    (thenM (bindM (at PUNCTUATOR_COMMA) (\<lambda>t3.
    whenM (t3)
      ((advance))))
    ((ret (ImportSpecifiers [specifier])))))))))))))"

definition ParseOtherSpecifiers :: "nodeId list \<Rightarrow> importHead parseM" where
  "ParseOtherSpecifiers specifiers =
    bindM (at PUNCTUATOR_MULTIPLY) (\<lambda>t1.
    (if t1 then
      bindM ParseNameSpaceImport (\<lambda>s.
      (ret (ImportSpecifiers (specifiers @ [s]))))
    else
    bindM (at PUNCTUATOR_LEFT_BRACE) (\<lambda>t2.
    (if t2 then
      bindM ParseNamedImportSpecifiers (\<lambda>ss.
      (ret (ImportSpecifiers (specifiers @ ss))))
    else
    (ret (ImportSpecifiers specifiers))))))"

definition ParseImportSpecifiers :: "importHead parseM" where
  "ParseImportSpecifiers =
    bindM (at LITERAL_IDENT) (\<lambda>t1.
    (if t1 then
      bindM ParseImportDefaultSpecifier (\<lambda>head.
      ((case head of ImportEquals n \<Rightarrow> ret head | ImportSpecifiers ss \<Rightarrow> ParseOtherSpecifiers ss)))
    else
    (ParseOtherSpecifiers [])))"

text \<open>\<open>BindImportDecl\<close>: the declarations of the names that are new in the scope.\<close>

primrec newImports :: "(name \<times> varId option) list \<Rightarrow> (name \<times> varId option) list \<Rightarrow> (declId list) parseM" where
  "newImports saved [] = ret []"
| "newImports saved (b # bs) =
    (if map_of saved (fst b) \<noteq> None then newImports saved bs
     else bindM (declarationOf (snd b)) (\<lambda>(d, dc). bindM (newImports saved bs) (\<lambda>ds. ret (d # ds))))"

definition BindImportDecl :: "(name \<times> varId option) list \<Rightarrow> nodeId \<Rightarrow> unit parseM" where
  "BindImportDecl saved node =
    bindM savedBindings (\<lambda>now.
    bindM (newImports saved now) (\<lambda>ds.
    bindM moduleScope (\<lambda>sc.
    (onScopes (AddImportDecl sc (OtherNode node) ds)))))"

definition finishImport :: "(name \<times> varId option) list \<Rightarrow> sourcePosition \<Rightarrow> nodeId list \<Rightarrow> bool \<Rightarrow> nodeId parseM" where
  "finishImport saved startLoc specifiers requireFrom =
    bindM (ParseFromClause requireFrom) (\<lambda>source.
    bindM (endOf source) (\<lambda>t1.
    bindM (makeNode (Mod (ImportDeclNode source specifiers)) startLoc t1) (\<lambda>n.
    thenM (BindImportDecl saved n)
    (thenM (ConsumeSemicolon n)
    ((ret n))))))"

definition ParseImportDeclaration :: "parseCalls \<Rightarrow> u32 \<Rightarrow> nodeId parseM" where
  "ParseImportDeclaration c flags =
    bindM savedBindings (\<lambda>saved.
    thenM (checkModuleStatement flags)
    (bindM Lookahead (\<lambda>t1.
    (if t1 \<in> {LEX_CHAR_LEFT_PAREN, LEX_CHAR_DOT} then
      (ParseExpressionStatement c SP_NONE)
    else
    bindM tokenStart (\<lambda>startLoc.
    thenM advance
    (bindM (at LITERAL_STRING) (\<lambda>t2.
    (if t2 then
      (finishImport saved startLoc [] False)
    else
    bindM ParseImportSpecifiers (\<lambda>head.
    ((case head of ImportEquals n \<Rightarrow> bindM tokenEnd (\<lambda>e. thenM (onNodes (SetRange n startLoc e)) (thenM (ConsumeSemicolon n) (ret n))) | ImportSpecifiers ss \<Rightarrow> finishImport saved startLoc ss True)))))))))))"

section \<open>Statements\<close>

definition ParseStatementOf :: "parseCalls \<Rightarrow> u32 \<Rightarrow> bool \<Rightarrow> nodeId list \<Rightarrow> nodeId parseM" where
  "ParseStatementOf c flags isDeclare decorators =
    bindM tokenType (\<lambda>t.
    (if t = PUNCTUATOR_LEFT_BRACE then
      (ParseLocalBlockStatement c)
    else
    (if t = PUNCTUATOR_SEMI_COLON then
      (ParseEmptyStatement)
    else
    (if t = KEYW_EXPORT then
      (ParseExportDeclaration c flags decorators)
    else
    (if t = KEYW_IMPORT then
      (ParseImportDeclaration c flags)
    else
    (if t = KEYW_FUNCTION then
      (ParseFunctionStatement c flags isDeclare)
    else
    (if t = KEYW_CLASS then
      (ParseClassStatement c flags isDeclare decorators False)
    else
    (if t = KEYW_VAR then
      (ParseVarStatement c isDeclare)
    else
    (if t = KEYW_LET then
      (ParseLetStatement c flags isDeclare)
    else
    (if t = KEYW_CONST then
      (ParseConstStatement c flags isDeclare)
    else
    (if t = KEYW_IF then
      (ParseIfStatement c)
    else
    (if t = KEYW_DO then
      (ParseDoWhileStatement c)
    else
    (if t = KEYW_FOR then
      (ParseForStatement c)
    else
    (if t = KEYW_TRY then
      (ParseTryStatement c)
    else
    (if t = KEYW_WHILE then
      (ParseWhileStatement c)
    else
    (if t = KEYW_BREAK then
      (ParseBreakStatement)
    else
    (if t = KEYW_CONTINUE then
      (ParseContinueStatement)
    else
    (if t = KEYW_THROW then
      (ParseThrowStatement c)
    else
    (if t = KEYW_RETURN then
      (ParseReturnStatement c)
    else
    (if t = KEYW_SWITCH then
      (ParseSwitchStatement c)
    else
    (if t = KEYW_DEBUGGER then
      (ParseDebuggerStatement)
    else
    (if t = LITERAL_IDENT then
      (ParsePotentialExpressionStatement c flags isDeclare)
    else
    (ParseExpressionStatement c flags)))))))))))))))))))))))"

text \<open>The statements of TypeScript look at the keyword of the token, whatever the type of the token is.\<close>

definition ParseStatement :: "parseCalls \<Rightarrow> u32 \<Rightarrow> nodeId parseM" where
  "ParseStatement c flags =
    bindM (ParseDecorators c) (\<lambda>decorators.
    bindM isTs (\<lambda>ts.
    bindM (
      bindM (atKeyword KEYW_DECLARE) (\<lambda>t1.
      (if ts \<and> t1 then
        thenM CheckDeclare
        ((ret True))
      else
      (ret False)))) (\<lambda>isDeclare.
    bindM tokenKeyword (\<lambda>k.
    (if ts \<and> k = KEYW_ABSTRACT then
      thenM advance
      (thenM (expect KEYW_CLASS ''abstract modifier can only appear on a class, method, or property declaration.'')
      ((ParseClassStatement c flags isDeclare decorators True)))
    else
    (if ts \<and> k \<in> {KEYW_GLOBAL, KEYW_MODULE, KEYW_NAMESPACE} then
      (ParseModuleStatement c isDeclare)
    else
    (ParseStatementOf c flags isDeclare decorators)))))))"

text \<open>One directive; the answer is whether the statement is one.\<close>

definition ParseDirective :: "parseCalls \<Rightarrow> (nodeId \<times> bool) parseM" where
  "ParseDirective c =
    bindM tokenIdent (\<lambda>str.
    bindM Status (\<lambda>st.
    thenM (throwIf (st AND (PS_CONSTRUCTOR_FUNCTION OR PS_HAS_COMPLEX_PARAM) = PS_HAS_COMPLEX_PARAM \<and> str = asciiText ''use strict'') (''Illegal '' @ [CHR 0x27] @ ''use strict'' @ [CHR 0x27] @ '' directive in function with non-simple parameter list''))
    (bindM (cExpression c EF_ACCEPT_COMMA) (\<lambda>e.
    bindM (nodeIs isStringLiteral e) (\<lambda>isDirective.
    bindM (makeNodeLike (Stmt (ExpressionStatement e)) e) (\<lambda>n.
    thenM (ConsumeSemicolon n)
    ((ret ((n, isDirective))))))))))"

primrec ParseDirectivePrologue :: "parseCalls \<Rightarrow> nat \<Rightarrow> nodeId list \<Rightarrow> (nodeId list) parseM" where
  "ParseDirectivePrologue c 0 statements = out_of_fuel"
| "ParseDirectivePrologue c (Suc n) statements =
    bindM (at LITERAL_STRING) (\<lambda>t1.
    (if \<not> t1 then
      (ret statements)
    else
    bindM (ParseDirective c) (\<lambda>(s, isDirective).
    (if isDirective then
      (ParseDirectivePrologue c n (statements @ [s]))
    else
    (ret (statements @ [s]))))))"

primrec Statements_loop :: "parseCalls \<Rightarrow> u32 \<Rightarrow> nat \<Rightarrow> nodeId list \<Rightarrow> (nodeId list) parseM" where
  "Statements_loop c flags 0 statements = out_of_fuel"
| "Statements_loop c flags (Suc n) statements =
    bindM (at (if has flags SP_GLOBAL then EOS else PUNCTUATOR_RIGHT_BRACE)) (\<lambda>t1.
    (if t1 then
      (ret statements)
    else
    bindM (ParseStatement c flags) (\<lambda>s.
    (Statements_loop c flags n (statements @ [s])))))"

definition ParseStatementList :: "parseCalls \<Rightarrow> u32 \<Rightarrow> (nodeId list) parseM" where
  "ParseStatementList c flags =
    bindM (bounded (\<lambda>n. ParseDirectivePrologue c n [])) (\<lambda>statements.
    (bounded (\<lambda>n. Statements_loop c flags n statements)))"

section \<open>Programs\<close>

definition callsFrom :: "parseCalls \<Rightarrow> parseCalls" where
  "callsFrom c = \<lparr>cExpression = ParseExpression c,
     cLeftHandSide = ParseLeftHandSideExpression c, cMember = ParseMemberExpression c,
     cUnary = ParseUnaryOrPrefixUpdateExpression c, cAssignment = ParseAssignmentExpression c,
     cPatternElement = ParsePatternElement c, cTypeAnnotation = ParseTsTypeAnnotation c,
     cTypeElement = ParseTsTypeAnnotationElement c, cFunctionParams = ParseFunctionParams c,
     cClassDefinition = ParseClassDefinition c, cStatement = ParseStatement c,
     cStatementList = ParseStatementList c\<rparr>"

primrec callsAt :: "nat \<Rightarrow> parseCalls" where
  "callsAt 0 = \<lparr>cExpression = \<lambda>_. out_of_fuel, cLeftHandSide = \<lambda>_. out_of_fuel, cMember = \<lambda>_ _. out_of_fuel,
     cUnary = \<lambda>_. out_of_fuel, cAssignment = \<lambda>_ _. out_of_fuel, cPatternElement = \<lambda>_ _ _. out_of_fuel,
     cTypeAnnotation = \<lambda>_. out_of_fuel, cTypeElement = \<lambda>_ _. out_of_fuel, cFunctionParams = \<lambda>_. out_of_fuel,
     cClassDefinition = \<lambda>_ _ _ _. out_of_fuel, cStatement = \<lambda>_. out_of_fuel, cStatementList = \<lambda>_. out_of_fuel\<rparr>"
| "callsAt (Suc k) = callsFrom (callsAt k)"

text \<open>The depth: every third call reads a token.\<close>

definition withCalls :: "(parseCalls \<Rightarrow> 'a parseM) \<Rightarrow> 'a parseM" where
  "withCalls m s = m (callsAt (3 * left (iterator (psLexer s)) + 9)) s"

text \<open>The binder runs on the tree of the program.\<close>

definition IdentifierAnalysisOf :: "nodeId \<Rightarrow> nodeId list \<Rightarrow> unit parseM" where
  "IdentifierAnalysisOf program statements =
    bindM (onNodes (binderTree program)) (\<lambda>root.
    ((case root of ast.BlockStatement _ children \<Rightarrow> onBinder (IdentifierAnalysis root children) | _ \<Rightarrow> undefinedM)))"

definition ParseProgram :: "bool \<Rightarrow> nodeId parseM" where
  "ParseProgram isModule =
    bindM tokenStart (\<lambda>startLoc.
    thenM advance
    (thenM (SetKind isModule)
    (bindM (withCalls (\<lambda>c. ParseStatementList c SP_STMT_GLOBAL_LEXICAL)) (\<lambda>statements.
    bindM currentScope (\<lambda>sc.
    bindM (AllocNode (Stmt (BlockStatement sc statements))) (\<lambda>blockStmt.
    thenM (BindNode sc (OtherNode blockStmt))
    (bindM tokenEnd (\<lambda>t1.
    thenM (onNodes (SetRange blockStmt startLoc t1))
    (thenM (IdentifierAnalysisOf blockStmt statements)
    ((ret blockStmt)))))))))))"

definition ParseModuleProgram :: "nodeId parseM" where
  "ParseModuleProgram =
    thenM (addStatus PS_MODULE)
    (bindM (ParseProgram True) (\<lambda>program.
    bindM (onBinder (getM topScope)) (\<lambda>top.
    bindM (onScopes (ExportAnalysis top)) (\<lambda>ok.
    thenM (throwIf (\<not> ok) ''Invalid exported binding'')
    ((ret program))))))"

definition startHeap :: heap where
  "startHeap = \<lparr>scopes = (\<lambda>_. newScope GlobalScope None), nScopes = 0, vars = (\<lambda>_. bareVariable VT_LOCAL 0 VF_NONE),
     nVars = 0, decls = (\<lambda>_. newDecl DECL_NONE []), nDecls = 0\<rparr>"

definition emptyBinder :: binderState where
  "emptyBinder = \<lparr>bHeap = startHeap, topScope = 0, bScope = 0, functionScopes = [], identVar = \<lambda>_. None, identTdz = \<lambda>_. False\<rparr>"

text \<open>The constructors of \<open>ParserImpl\<close> and of the lexer.\<close>

definition newParser :: "lexer \<Rightarrow> parser" where
  "newParser l = \<lparr>psLexer = l, psBinder = emptyBinder, psNodes = emptyTable, psStatus = PS_NO_OPTS, psLabel = [],
     psPrev = [], psEnumScope = \<lambda>_. None, psInterfaces = \<lambda>_. []\<rparr>"

definition runParser :: "nodeId parseM \<Rightarrow> lexEnv \<Rightarrow> byte list \<Rightarrow> (parseError, nodeId \<times> parser) res" where
  "runParser m e source = (case newLexer e source of Ok l \<Rightarrow> m (newParser l) | Throw x \<Rightarrow> Throw (LexError x)
     | Undefined \<Rightarrow> Undefined | NoFuel \<Rightarrow> NoFuel)"

definition ParseScript :: "lexEnv \<Rightarrow> byte list \<Rightarrow> (parseError, nodeId \<times> parser) res" where
  "ParseScript = runParser (ParseProgram False)"

definition ParseModule :: "lexEnv \<Rightarrow> byte list \<Rightarrow> (parseError, nodeId \<times> parser) res" where
  "ParseModule = runParser ParseModuleProgram"

end
