(* ===== verification/Discipline.thy ===== *)
theory Discipline
  imports Parser BinderSpec Preserves
begin

text \<open>
  What every method of the parser leaves as it found it when it returns: the scope the binder is in, the top
  scope, the label of the context and the contexts around it.  The arena of nodes only grows.

  The methods call each other through the record \<open>parseCalls\<close>; the locale \<open>parsing\<close> assumes that the calls keep
  these things, and in it every method does.  The locale is interpreted on the calls of every depth.
\<close>

section \<open>Distinctions on the tree\<close>

lemma pres_expressionNode [pres]:
  "(\<And>a. pres R (f1 a)) \<Longrightarrow> (\<And>a. pres R (f2 a)) \<Longrightarrow> (\<And>a. pres R (f3 a)) \<Longrightarrow> (\<And>a b c. pres R (f4 a b c)) \<Longrightarrow>
   (\<And>a b c. pres R (f5 a b c)) \<Longrightarrow> (\<And>a. pres R (f6 a)) \<Longrightarrow> (\<And>a b c. pres R (f7 a b c)) \<Longrightarrow>
   (\<And>a b c d. pres R (f8 a b c d)) \<Longrightarrow> (\<And>a. pres R (f9 a)) \<Longrightarrow> (\<And>a. pres R (f10 a)) \<Longrightarrow>
   (\<And>a b c. pres R (f11 a b c)) \<Longrightarrow> (\<And>a. pres R (f12 a)) \<Longrightarrow> (\<And>a. pres R (f13 a)) \<Longrightarrow> (\<And>a. pres R (f14 a)) \<Longrightarrow>
   (\<And>a b c d. pres R (f15 a b c d)) \<Longrightarrow> (\<And>a. pres R (f16 a)) \<Longrightarrow> (\<And>a b. pres R (f17 a b)) \<Longrightarrow>
   (\<And>a. pres R (f18 a)) \<Longrightarrow> (\<And>a. pres R (f19 a)) \<Longrightarrow> pres R f20 \<Longrightarrow> (\<And>a. pres R (f21 a)) \<Longrightarrow> pres R f22 \<Longrightarrow>
   (\<And>a b c. pres R (f23 a b c)) \<Longrightarrow> (\<And>a b. pres R (f24 a b)) \<Longrightarrow> pres R f25 \<Longrightarrow> (\<And>a b. pres R (f26 a b)) \<Longrightarrow>
   (\<And>a b c. pres R (f27 a b c)) \<Longrightarrow> (\<And>a b. pres R (f28 a b)) \<Longrightarrow>
   pres R (case_expressionNode f1 f2 f3 f4 f5 f6 f7 f8 f9 f10 f11 f12 f13 f14 f15 f16 f17 f18 f19 f20 f21 f22
      f23 f24 f25 f26 f27 f28 x)"
  by (cases x) simp_all

lemma pres_literalNode [pres]:
  "(\<And>a. pres R (f1 a)) \<Longrightarrow> (\<And>a. pres R (f2 a)) \<Longrightarrow> pres R f3 \<Longrightarrow> (\<And>a b. pres R (f4 a b)) \<Longrightarrow>
   (\<And>a b. pres R (f5 a b)) \<Longrightarrow> (\<And>a. pres R (f6 a)) \<Longrightarrow>
   pres R (case_literalNode f1 f2 f3 f4 f5 f6 x)"
  by (cases x) simp_all

lemma pres_partNode [pres]:
  "(\<And>a b c. pres R (f1 a b c)) \<Longrightarrow> (\<And>a. pres R (f2 a)) \<Longrightarrow> (\<And>a b c d e f g. pres R (f3 a b c d e f g)) \<Longrightarrow>
   (\<And>a. pres R (f4 a)) \<Longrightarrow> (\<And>a. pres R (f5 a)) \<Longrightarrow> (\<And>a. pres R (f6 a)) \<Longrightarrow> (\<And>a. pres R (f7 a)) \<Longrightarrow>
   (\<And>a b. pres R (f8 a b)) \<Longrightarrow> (\<And>a b. pres R (f9 a b)) \<Longrightarrow> (\<And>a b. pres R (f10 a b)) \<Longrightarrow>
   pres R (case_partNode f1 f2 f3 f4 f5 f6 f7 f8 f9 f10 x)"
  by (cases x) simp_all

lemma pres_statementNode [pres]:
  "(\<And>a b. pres R (f1 a b)) \<Longrightarrow> (\<And>a. pres R (f2 a)) \<Longrightarrow> (\<And>a b. pres R (f3 a b)) \<Longrightarrow> (\<And>a. pres R (f4 a)) \<Longrightarrow>
   pres R f5 \<Longrightarrow> (\<And>a b c. pres R (f6 a b c)) \<Longrightarrow> pres R f7 \<Longrightarrow> (\<And>a. pres R (f8 a)) \<Longrightarrow>
   (\<And>a b c d. pres R (f9 a b c d)) \<Longrightarrow> (\<And>a b c d e. pres R (f10 a b c d e)) \<Longrightarrow>
   (\<And>a b c d e. pres R (f11 a b c d e)) \<Longrightarrow> (\<And>a. pres R (f12 a)) \<Longrightarrow> (\<And>a b c. pres R (f13 a b c)) \<Longrightarrow>
   (\<And>a b. pres R (f14 a b)) \<Longrightarrow> (\<And>a. pres R (f15 a)) \<Longrightarrow> (\<And>a b. pres R (f16 a b)) \<Longrightarrow>
   (\<And>a b c. pres R (f17 a b c)) \<Longrightarrow> (\<And>a. pres R (f18 a)) \<Longrightarrow> (\<And>a b c. pres R (f19 a b c)) \<Longrightarrow>
   (\<And>a b c. pres R (f20 a b c)) \<Longrightarrow> (\<And>a b. pres R (f21 a b)) \<Longrightarrow> (\<And>a b c. pres R (f22 a b c)) \<Longrightarrow>
   pres R (case_statementNode f1 f2 f3 f4 f5 f6 f7 f8 f9 f10 f11 f12 f13 f14 f15 f16 f17 f18 f19 f20 f21 f22 x)"
  by (cases x) simp_all

lemma pres_moduleBody [pres]:
  "(\<And>a b. pres R (f1 a b)) \<Longrightarrow> (\<And>a b. pres R (f2 a b)) \<Longrightarrow> (\<And>a b c. pres R (f3 a b c)) \<Longrightarrow>
   (\<And>a b. pres R (f4 a b)) \<Longrightarrow> (\<And>a b. pres R (f5 a b)) \<Longrightarrow> (\<And>a. pres R (f6 a)) \<Longrightarrow> (\<And>a. pres R (f7 a)) \<Longrightarrow>
   (\<And>a b. pres R (f8 a b)) \<Longrightarrow>
   pres R (case_moduleNode f1 f2 f3 f4 f5 f6 f7 f8 x)"
  by (cases x) simp_all

lemma pres_tsTypeNode [pres]:
  "pres R f1 \<Longrightarrow> pres R f2 \<Longrightarrow> pres R f3 \<Longrightarrow> pres R f4 \<Longrightarrow> pres R f5 \<Longrightarrow> pres R f6 \<Longrightarrow> pres R f7 \<Longrightarrow> pres R f8 \<Longrightarrow>
   pres R f9 \<Longrightarrow> pres R f10 \<Longrightarrow> pres R f11 \<Longrightarrow> pres R f12 \<Longrightarrow> (\<And>a. pres R (f13 a)) \<Longrightarrow>
   (\<And>a b c d. pres R (f14 a b c d)) \<Longrightarrow> (\<And>a b c d e. pres R (f15 a b c d e)) \<Longrightarrow>
   (\<And>a b c d. pres R (f16 a b c d)) \<Longrightarrow> (\<And>a b c d. pres R (f17 a b c d)) \<Longrightarrow> (\<And>a b. pres R (f18 a b)) \<Longrightarrow>
   (\<And>a. pres R (f19 a)) \<Longrightarrow> (\<And>a. pres R (f20 a)) \<Longrightarrow> (\<And>a. pres R (f21 a)) \<Longrightarrow> (\<And>a b c d. pres R (f22 a b c d)) \<Longrightarrow>
   (\<And>a b c. pres R (f23 a b c)) \<Longrightarrow> (\<And>a. pres R (f24 a)) \<Longrightarrow> (\<And>a b. pres R (f25 a b)) \<Longrightarrow> (\<And>a. pres R (f26 a)) \<Longrightarrow>
   (\<And>a. pres R (f27 a)) \<Longrightarrow> (\<And>a b. pres R (f28 a b)) \<Longrightarrow> (\<And>a b c. pres R (f29 a b c)) \<Longrightarrow>
   (\<And>a b c. pres R (f30 a b c)) \<Longrightarrow> (\<And>a. pres R (f31 a)) \<Longrightarrow> (\<And>a b c. pres R (f32 a b c)) \<Longrightarrow>
   (\<And>a. pres R (f33 a)) \<Longrightarrow> (\<And>a b. pres R (f34 a b)) \<Longrightarrow> (\<And>a. pres R (f35 a)) \<Longrightarrow>
   pres R (case_tsTypeNode f1 f2 f3 f4 f5 f6 f7 f8 f9 f10 f11 f12 f13 f14 f15 f16 f17 f18 f19 f20 f21 f22 f23
      f24 f25 f26 f27 f28 f29 f30 f31 f32 f33 f34 f35 x)"
  by (cases x) simp_all

lemma pres_tsNode [pres]:
  "(\<And>a b c. pres R (f1 a b c)) \<Longrightarrow> (\<And>a b. pres R (f2 a b)) \<Longrightarrow> (\<And>a b c d. pres R (f3 a b c d)) \<Longrightarrow>
   (\<And>a b. pres R (f4 a b)) \<Longrightarrow> (\<And>a. pres R (f5 a)) \<Longrightarrow> (\<And>a b c. pres R (f6 a b c)) \<Longrightarrow>
   (\<And>a b c. pres R (f7 a b c)) \<Longrightarrow> (\<And>a. pres R (f8 a)) \<Longrightarrow> (\<And>a b c d e. pres R (f9 a b c d e)) \<Longrightarrow>
   (\<And>a b. pres R (f10 a b)) \<Longrightarrow> (\<And>a b c d e f g. pres R (f11 a b c d e f g)) \<Longrightarrow> (\<And>a b. pres R (f12 a b)) \<Longrightarrow>
   (\<And>a b c d e. pres R (f13 a b c d e)) \<Longrightarrow> (\<And>a. pres R (f14 a)) \<Longrightarrow> (\<And>a b c d e. pres R (f15 a b c d e)) \<Longrightarrow>
   (\<And>a b c. pres R (f16 a b c)) \<Longrightarrow> (\<And>a b c d e. pres R (f17 a b c d e)) \<Longrightarrow>
   (\<And>a b c d e. pres R (f18 a b c d e)) \<Longrightarrow> (\<And>a b c d. pres R (f19 a b c d)) \<Longrightarrow> (\<And>a b. pres R (f20 a b)) \<Longrightarrow>
   pres R (case_tsNode f1 f2 f3 f4 f5 f6 f7 f8 f9 f10 f11 f12 f13 f14 f15 f16 f17 f18 f19 f20 x)"
  by (cases x) simp_all

lemma pres_nodeBody [pres]:
  "(\<And>a. pres R (f1 a)) \<Longrightarrow> (\<And>a. pres R (f2 a)) \<Longrightarrow> (\<And>a. pres R (f3 a)) \<Longrightarrow> (\<And>a. pres R (f4 a)) \<Longrightarrow>
   (\<And>a. pres R (f5 a)) \<Longrightarrow> (\<And>a. pres R (f6 a)) \<Longrightarrow> (\<And>a. pres R (f7 a)) \<Longrightarrow>
   pres R (case_nodeBody f1 f2 f3 f4 f5 f6 f7 x)"
  by (cases x) simp_all

section \<open>Relations\<close>

definition moreNodes :: "nodeTable \<Rightarrow> nodeTable \<Rightarrow> bool" where
  "moreNodes t u \<longleftrightarrow> nodeCount t \<le> nodeCount u"

definition placed :: "parser \<Rightarrow> parser \<Rightarrow> bool" where
  "placed s t \<longleftrightarrow> bScope (psBinder t) = bScope (psBinder s) \<and> topScope (psBinder t) = topScope (psBinder s)
     \<and> psLabel t = psLabel s \<and> psPrev t = psPrev s \<and> moreNodes (psNodes s) (psNodes t)"

interpretation arena: transition moreNodes
  by unfold_locales (auto simp: moreNodes_def)

interpretation place: transition placed
  by unfold_locales (auto simp: placed_def moreNodes_def)

lemma pres_res [pres]:
  "(\<And>x. pres R (f x)) \<Longrightarrow> (\<And>e. pres R (g e)) \<Longrightarrow> pres R h \<Longrightarrow> pres R k \<Longrightarrow> pres R (case_res f g h k r)"
  by (cases r) simp_all

lemma pres_forInit [pres]:
  "(\<And>n. pres R (f n)) \<Longrightarrow> (\<And>n. pres R (g n)) \<Longrightarrow> pres R h \<Longrightarrow> pres R (case_forInit f g h x)"
  by (cases x) simp_all

lemma pres_importHead [pres]:
  "(\<And>n. pres R (f n)) \<Longrightarrow> (\<And>ns. pres R (g ns)) \<Longrightarrow> pres R (case_importHead f g x)"
  by (cases x) simp_all

lemma pres_undefined [pres]: "pres R undefinedM"
  by (simp add: pres_def undefinedM_def readM_def)

section \<open>The arena\<close>

lemma grown_allocNode [pres]: "pres moreNodes (allocNode b)"
  by (auto simp: pres_def allocNode_def moreNodes_def)

lemma grown_getNode [pres]: "pres moreNodes (getNode n)"
  unfolding getNode_def by (intro pres)

lemma grown_modNode [pres]: "pres moreNodes (modNode n f)"
  unfolding modNode_def by (intro pres arena.pres_modify) (simp add: moreNodes_def)

lemma place_bodyOf [pres]:
  "pres moreNodes (bodyOf n)" "pres moreNodes (setBody n b)" "pres moreNodes (SetRange n start end')"
  "pres moreNodes (SetStart n start)" "pres moreNodes (SetGrouped n)" "pres moreNodes (StartOf n)"
  unfolding bodyOf_def setBody_def SetRange_def SetStart_def SetGrouped_def StartOf_def
  by (intro pres disc; simp?)+

lemma place_EndOf [pres]:
  "pres moreNodes (EndOf n)" "pres moreNodes (IsGrouped n)" "pres moreNodes (isKind P n)" "pres moreNodes (modIdentifier n f)"
  unfolding EndOf_def IsGrouped_def isKind_def modIdentifier_def
  by (intro pres disc; simp?)+

lemma place_SetReference [pres]:
  "pres moreNodes (SetReference n)" "pres moreNodes (IdentifierName n)" "pres moreNodes (modPattern n f)"
  unfolding SetReference_def IdentifierName_def modPattern_def
  by (intro pres disc; simp?)+

lemma place_SetDeclaration [pres]:
  "pres moreNodes (SetDeclaration n)" "pres moreNodes (SetOptional n)" "pres moreNodes (SetTsTypeAnnotation n t)"
  "pres moreNodes (SetLeft n l)" "pres moreNodes (AddFunctionFlag n flag)" "pres moreNodes (SetFunctionIdent n ident)"
  unfolding SetDeclaration_def SetOptional_def SetTsTypeAnnotation_def SetLeft_def AddFunctionFlag_def
    SetFunctionIdent_def
  by (intro pres disc; simp?)+

lemma place_functionNode [pres]:
  "pres moreNodes (functionNode n)"
  unfolding functionNode_def
  by (intro pres disc; simp?)

text \<open>The methods that convert and validate a tree call each other.\<close>

locale conversion =
  fixes c :: conversions and v :: validations
  assumes calls [pres]: "pres moreNodes (toArrayPattern c n)" "pres moreNodes (toObjectPattern c n)"
      "pres moreNodes (toAssignmentPattern c n b)" "pres moreNodes (toRest c n b b')"
    and checks [pres]: "pres moreNodes (validArray v n)" "pres moreNodes (validObject v n)"
begin

lemma conversions_grow [pres]:
  "pres moreNodes (ConventibleToPatternProperty c n)" "pres moreNodes (ConvertibleToAssignmentPattern c n b)"
  "pres moreNodes (ConvertibleToRest c n b b')" "pres moreNodes (arrayOrObject v n)"
  unfolding ConventibleToPatternProperty_def ConvertibleToAssignmentPattern_def ConvertibleToRest_def
    arrayOrObject_def
  by (intro pres)+

lemma pattern_elements_grow [pres]: "pres moreNodes (patternElements c isObject p restFound ns)"
  by (induction ns arbitrary: restFound) (simp_all only: patternElements.simps, (intro pres; simp?)+)

lemma patterns_grow [pres]:
  "pres moreNodes (ConvertibleToArrayPattern c n)" "pres moreNodes (ConvertibleToObjectPattern c n)"
  "pres moreNodes (SpreadElement_ValidateExpression v n)" "pres moreNodes (Property_ValidateExpression v n)"
  unfolding ConvertibleToArrayPattern_def ConvertibleToObjectPattern_def SpreadElement_ValidateExpression_def
    Property_ValidateExpression_def
  by (intro pres)+

lemma elements_grow [pres]: "pres moreNodes (arrayElements v ns)" "pres moreNodes (objectProperties v found ns)"
proof -
  show "pres moreNodes (arrayElements v ns)"
    by (induction ns) (simp_all only: arrayElements.simps, (intro pres; simp?)+)
  show "pres moreNodes (objectProperties v found ns)"
    by (induction ns arbitrary: found) (simp_all only: objectProperties.simps, (intro pres; simp?)+)
qed

lemma literals_grow [pres]:
  "pres moreNodes (ArrayExpression_ValidateExpression v n)" "pres moreNodes (ObjectExpression_ValidateExpression v n)"
  unfolding ArrayExpression_ValidateExpression_def ObjectExpression_ValidateExpression_def by (intro pres)+

end

lemma conversion_step: "conversion c v \<Longrightarrow> conversion (conversionsFrom c) (validationsFrom v)"
  by unfold_locales (simp_all add: conversionsFrom_def validationsFrom_def conversion.conversions_grow
      conversion.patterns_grow conversion.literals_grow)

interpretation converter: conversion "conversionsAt k" "validationsAt k" for k
proof (induction k)
  case 0
  show ?case by unfold_locales (simp_all add: arena.pres_fuel)
next
  case (Suc k)
  then show ?case by (simp add: conversion_step)
qed

lemma pres_converting [pres]: "(\<And>k. pres R (m (conversionsAt k))) \<Longrightarrow> pres R (converting m)"
  by (auto simp: pres_def converting_def simp del: conversionsAt.simps)

lemma pres_validating [pres]: "(\<And>k. pres R (m (validationsAt k))) \<Longrightarrow> pres R (validating m)"
  by (auto simp: pres_def validating_def simp del: validationsAt.simps)

section \<open>The state of the parser\<close>

lemma placed_onLexer [pres]: "pres placed (onLexer m)"
  by (auto simp: pres_def onLexer_def within_def placed_def moreNodes_def split: res.splits)

lemma placed_onBinder [pres]: "disciplined m \<Longrightarrow> pres placed (onBinder m)"
  by (auto simp: pres_def onBinder_def within_def placed_def moreNodes_def disciplined_def split: res.splits)

lemma placed_onScopes [pres]: "pres placed (onScopes m)"
  unfolding onScopes_def by (intro placed_onBinder disc)

lemma placed_onNodes [pres]: "pres moreNodes m \<Longrightarrow> pres placed (onNodes m)"
  by (auto simp: pres_def onNodes_def within_def placed_def split: res.splits)

lemma placed_inOrder [pres]: "(\<And>x. pres placed (f x)) \<Longrightarrow> pres placed (inOrder (map f xs))"
  by (induction xs) (simp_all add: place.pres_ret place.pres_then)

lemma placed_whenM [pres]: "(b \<Longrightarrow> pres placed m) \<Longrightarrow> pres placed (whenM b m)"
  by (simp add: whenM_def place.pres_ret)

lemma placed_modify:
  "(\<And>s. psBinder (f s) = psBinder s \<and> psLabel (f s) = psLabel s \<and> psPrev (f s) = psPrev s
     \<and> psNodes (f s) = psNodes s) \<Longrightarrow> pres placed (modifyM f)"
  by (rule place.pres_modify) (simp add: placed_def moreNodes_def)

lemma placed_declarations [pres]:
  "pres placed (modifyM (\<lambda>s. s\<lparr>psEnumScope := f s\<rparr>))" "pres placed (modifyM (\<lambda>s. s\<lparr>psInterfaces := g s\<rparr>))"
  by (rule placed_modify, simp)+

lemma placed_throw [pres]: "pres placed (ThrowSyntaxErrorAt message pos)"
  by (auto simp: pres_def ThrowSyntaxErrorAt_def split: res.splits option.splits)

lemma placed_bounded [pres]: "(\<And>n. pres placed (loop n)) \<Longrightarrow> pres placed (bounded loop)"
  by (auto simp: pres_def bounded_def)

lemma placed_status [pres]: "pres placed (setStatus st)" "pres placed (addStatus st)" "pres placed (dropStatus st)"
  unfolding setStatus_def addStatus_def dropStatus_def by (rule placed_modify, simp)+

lemma placed_savedStatus [pres]: "pres placed m \<Longrightarrow> pres placed (savedStatus st m)"
  unfolding savedStatus_def by (intro pres)

text \<open>A context that is entered is left, and so is a scope.\<close>

lemma placed_savedContext [pres]: "pres placed m \<Longrightarrow> pres placed (savedContext st label m)"
  by (fastforce simp: pres_def savedContext_def placed_def run_defs split: res.splits)

lemma placed_enterScope [pres]: "pres placed m \<Longrightarrow> pres placed (enterScope sc m)"
  by (fastforce simp: pres_def enterScope_def currentScope_def onBinder_def within_def placed_def run_defs
      split: res.splits)

lemma placed_lexicalScope [pres]: "(\<And>sc. pres placed (m sc)) \<Longrightarrow> pres placed (lexicalScope c m)"
  unfolding lexicalScope_def currentScope_def by (intro pres)

lemma throw_disciplined [disc]: "disciplined (ThrowRedeclaration source pos n)"
  by (auto simp: disciplined_def ThrowRedeclaration_def split: res.splits option.splits)

lemma declarations_disciplined [disc]:
  "disciplined (Binder_AddDecl source ext pos dc)" "disciplined (Binder_AddTsDecl source ext pos dc)"
  "disciplined (Binder_AddParamDecl source posOf ref param)"
  unfolding Binder_AddDecl_def Binder_AddTsDecl_def Binder_AddParamDecl_def Let_def by (intro disc)+

lemma trees_grow [pres]: "pres moreNodes (patternTree n)" "pres moreNodes (binderTree n)"
  unfolding patternTree_def binderTree_def by (intro pres)+

lemma place_Extension [pres]:
  "pres placed Extension" "pres placed isTs" "pres placed GetToken"
  unfolding Extension_def isTs_def GetToken_def
  by (intro pres disc; simp?)+

lemma place_ThrowSyntaxError [pres]:
  "pres placed (ThrowSyntaxError message)"
  unfolding ThrowSyntaxError_def
  by (intro pres disc; simp?)

lemma place_throwIf [pres]:
  "pres placed (throwIf b message)" "pres placed (throwExpected b t)" "pres placed tokenType"
  "pres placed tokenKeyword" "pres placed tokenStart" "pres placed tokenEnd"
  unfolding throwIf_def throwExpected_def tokenType_def tokenKeyword_def tokenStart_def tokenEnd_def
  by (intro pres disc; simp?)+

lemma place_tokenIdent [pres]:
  "pres placed tokenIdent" "pres placed atNewLine" "pres placed (at t)" "pres placed (atAny ts)"
  "pres placed (atKeyword t)" "pres placed (tokenHas flag)"
  unfolding tokenIdent_def atNewLine_def at_def atAny_def atKeyword_def tokenHas_def
  by (intro pres disc; simp?)+

lemma place_expect [pres]:
  "pres placed (expect t message)" "pres placed (expectAny ts message)" "pres placed advance"
  "pres placed advanceIdent" "pres placed Lookahead" "pres placed savePosition"
  unfolding expect_def expectAny_def advance_def advanceIdent_def Lookahead_def savePosition_def
  by (intro pres disc; simp?)+

lemma place_rewindTo [pres]:
  "pres placed (rewindTo p)" "pres placed (AllocNode b)"
  unfolding rewindTo_def AllocNode_def
  by (intro pres disc; simp?)+

lemma place_makeNode [pres]:
  "pres placed (makeNode b start end')"
  unfolding makeNode_def
  by (intro pres disc; simp?)

lemma place_makeTokenNode [pres]:
  "pres placed (makeTokenNode b)" "pres placed (startOf n)" "pres placed (endOf n)" "pres placed (nodeIs P n)"
  "pres placed (identName n)"
  unfolding makeTokenNode_def startOf_def endOf_def nodeIs_def identName_def
  by (intro pres disc; simp?)+

lemma place_makeIdentifier [pres]:
  "pres placed makeIdentifier"
  unfolding makeIdentifier_def
  by (intro pres disc; simp?)

lemma place_makeReference [pres]:
  "pres placed makeReference" "pres placed makeNumber" "pres placed makeString" "pres placed Status"
  "pres placed (statusHas flag)" "pres placed (FindLabel n)"
  unfolding makeReference_def makeNumber_def makeString_def Status_def statusHas_def FindLabel_def
  by (intro pres disc; simp?)+

lemma place_currentScope [pres]:
  "pres placed currentScope" "pres placed (BindNode sc ref)" "pres placed (bindDecl d ref)"
  "pres placed (addDecl pos dc)" "pres placed (ThrowRedeclarationAt pos n)" "pres placed (addTsDecl pos dc)"
  unfolding currentScope_def BindNode_def bindDecl_def addDecl_def ThrowRedeclarationAt_def addTsDecl_def
  by (intro pres disc; simp?)+

lemma place_addParamDecl [pres]:
  "pres placed (addParamDecl n)"
  unfolding addParamDecl_def
  by (intro pres disc; simp?)

lemma placed_contexts [pres]:
  "(\<And>sc. pres placed (m sc)) \<Longrightarrow> pres placed (functionParameterContext m)"
  "(\<And>sc. pres placed (m sc)) \<Longrightarrow> pres placed (iterationContext cl m)"
  "(\<And>fl. pres placed (m' fl)) \<Longrightarrow> pres placed (arrowFunctionContext isAsync m')"
  unfolding functionParameterContext_def iterationContext_def arrowFunctionContext_def by (intro pres; simp?)+

section \<open>The calls\<close>

locale parsing =
  fixes c :: parseCalls
  assumes placed_calls [pres]: "pres placed (cExpression c fl)" "pres placed (cLeftHandSide c fl)"
      "pres placed (cMember c ign fl)" "pres placed (cUnary c fl)" "pres placed (cAssignment c n fl)"
      "pres placed (cPatternElement c fl b1 b2)" "pres placed (cTypeAnnotation c fl)"
      "pres placed (cTypeElement c n' fl)" "pres placed (cFunctionParams c b1)"
      "pres placed (cClassDefinition c b1 b2 b3 b4)" "pres placed (cStatement c fl)"
      "pres placed (cStatementList c fl)"
begin

lemma placed_types [pres]:
  "pres placed (typeWith c options)" "pres placed (theType c options)" "pres placed (colonType c options)"
  "pres placed (tsColonType c options)"
proof -
  show w: "pres placed (typeWith c options)" for options
    unfolding typeWith_def by (intro pres)
  show "pres placed (theType c options)" "pres placed (colonType c options)" "pres placed (tsColonType c options)"
    unfolding theType_def tsColonType_def colonType_def by (intro pres w)+
qed

lemma place_CurrentLiteralIsBasicType [pres]:
  "pres placed CurrentLiteralIsBasicType"
  unfolding CurrentLiteralIsBasicType_def
  by (intro pres disc; simp?)

lemma place_CurrentIsBasicType [pres]:
  "pres placed CurrentIsBasicType" "pres placed ParseTsConstExpression" "pres placed basicTypeNode"
  unfolding CurrentIsBasicType_def ParseTsConstExpression_def basicTypeNode_def
  by (intro pres disc; simp?)+

lemma place_ParseTsBasicType [pres]:
  "pres placed ParseTsBasicType" "pres placed IsStartOfMappedType" "pres placed IsStartOfTsTypePredicate"
  "pres placed IsStartOfAbstractConstructorType"
  unfolding ParseTsBasicType_def IsStartOfMappedType_def IsStartOfTsTypePredicate_def
    IsStartOfAbstractConstructorType_def
  by (intro pres disc; simp?)+

lemma place_TypeArguments_loop [pres]: "pres placed (TypeArguments_loop c throwError n ps)"
  by (induction n arbitrary: throwError ps) (simp_all only: TypeArguments_loop.simps Let_def, (intro pres disc; simp?)+)

lemma place_ParseTsTypeParameterInstantiation [pres]:
  "pres placed (ParseTsTypeParameterInstantiation c throwError)"
  "pres placed (ParseTsTypeParameter c throwError addBinding)"
  unfolding ParseTsTypeParameterInstantiation_def ParseTsTypeParameter_def Let_def
  by (intro pres disc; simp?)+

lemma place_TypeParameters_loop [pres]: "pres placed (TypeParameters_loop c throwError n ps seenDefault required)"
  by (induction n arbitrary: throwError ps seenDefault required) (simp_all only: TypeParameters_loop.simps Let_def, (intro pres disc; simp?)+)

lemma place_ParseTsTypeParameterDeclaration [pres]:
  "pres placed (ParseTsTypeParameterDeclaration c throwError)"
  unfolding ParseTsTypeParameterDeclaration_def Let_def
  by (intro pres disc; simp?)

lemma place_QualifiedReference_loop [pres]: "pres placed (QualifiedReference_loop n typeName)"
  by (induction n arbitrary: typeName) (simp_all only: QualifiedReference_loop.simps, (intro pres disc; simp?)+)

lemma place_ParseTsQualifiedReference [pres]:
  "pres placed (ParseTsQualifiedReference typeName)"
  unfolding ParseTsQualifiedReference_def
  by (intro pres disc; simp?)

lemma place_IndexAccess_loop [pres]: "pres placed (IndexAccess_loop c n typeName)"
  by (induction n arbitrary: typeName) (simp_all only: IndexAccess_loop.simps, (intro pres disc; simp?)+)

lemma place_ParseTsIndexAccessType [pres]:
  "pres placed (ParseTsIndexAccessType c typeName)" "pres placed (ParseTsImportType c startLoc isTypeof)"
  unfolding ParseTsIndexAccessType_def ParseTsImportType_def
  by (intro pres disc; simp?)+

lemma place_ParseTsTypeReferenceOrQuery [pres]:
  "pres placed (ParseTsTypeReferenceOrQuery c parseQuery)"
  unfolding ParseTsTypeReferenceOrQuery_def Let_def
  by (intro pres disc; simp?)

lemma place_ParseTsIdentifierReference [pres]:
  "pres placed (ParseTsIdentifierReference c)"
  unfolding ParseTsIdentifierReference_def
  by (intro pres disc; simp?)

lemma place_ParseTsTypeOperatorOrTypeReference [pres]:
  "pres placed (ParseTsTypeOperatorOrTypeReference c)" "pres placed (ParseTsTypePredicate c)"
  "pres placed (ParseTsThisType throwError)"
  unfolding ParseTsTypeOperatorOrTypeReference_def ParseTsTypePredicate_def ParseTsThisType_def
  by (intro pres disc; simp?)+

lemma place_ParseTsTypeReferenceOrTsTypePredicate [pres]:
  "pres placed (ParseTsTypeReferenceOrTsTypePredicate c typeAnnotation canBeTsTypePredicate)"
  "pres placed (ParseTsThisTypeOrTsTypePredicate c typeAnnotation canBeTsTypePredicate throwError)"
  "pres placed (ParseTsConditionalType c checkType restrictExtends)"
  "pres placed (ParseTsTupleElement c kind seenOptional)"
  unfolding ParseTsTypeReferenceOrTsTypePredicate_def ParseTsThisTypeOrTsTypePredicate_def
    ParseTsConditionalType_def ParseTsTupleElement_def
  by (intro pres disc; simp?)+

lemma place_TupleType_loop [pres]: "pres placed (TupleType_loop c n kind seenOptional es)"
  by (induction n arbitrary: kind seenOptional es) (simp_all only: TupleType_loop.simps Let_def, (intro pres disc; simp?)+)

lemma place_ParseTsTupleType [pres]:
  "pres placed (ParseTsTupleType c)" "pres placed (ParseTsArrayType elementType)"
  unfolding ParseTsTupleType_def ParseTsArrayType_def
  by (intro pres disc; simp?)+

lemma place_Operands_loop [pres]: "pres placed (Operands_loop c operator n options ts)"
  by (induction n arbitrary: operator options ts) (simp_all only: Operands_loop.simps, (intro pres disc; simp?)+)

lemma place_ParseTsUnionType [pres]:
  "pres placed (ParseTsUnionType c ty restrictExtends)"
  "pres placed (ParseTsIntersectionType c ty inUnion restrictExtends)"
  "pres placed (ParseTsFunctionType c startLoc isConstructionType throwError abstractConstructor)"
  unfolding ParseTsUnionType_def ParseTsIntersectionType_def ParseTsFunctionType_def Let_def
  by (intro pres disc; simp?)+

lemma place_ParseTsParenthesizedOrFunctionType [pres]:
  "pres placed (ParseTsParenthesizedOrFunctionType c typeAnnotation throwError)"
  "pres placed (ParseTsMappedTypeParameter c)" "pres placed (ParseMappedOption t)"
  unfolding ParseTsParenthesizedOrFunctionType_def ParseTsMappedTypeParameter_def ParseMappedOption_def Let_def
  by (intro pres disc; simp?)+

lemma place_ParseTsMappedType [pres]:
  "pres placed (ParseTsMappedType c)" "pres placed (ParseTsTypeLiteralOrInterfaceKey c)"
  "pres placed (signatureMember c key typeParams signature isConstruct computed isOptional)"
  unfolding ParseTsMappedType_def ParseTsTypeLiteralOrInterfaceKey_def signatureMember_def
  by (intro pres disc; simp?)+

lemma place_ParseTsTypeLiteralOrInterfaceMember [pres]:
  "pres placed (ParseTsTypeLiteralOrInterfaceMember c)"
  unfolding ParseTsTypeLiteralOrInterfaceMember_def
  by (intro pres disc; simp?)

lemma place_TypeLiteral_loop [pres]: "pres placed (TypeLiteral_loop c n ms)"
  by (induction n arbitrary: ms) (simp_all only: TypeLiteral_loop.simps Let_def, (intro pres disc; simp?)+)

lemma place_ParseTsTypeLiteralOrInterface [pres]:
  "pres placed (ParseTsTypeLiteralOrInterface c)"
  unfolding ParseTsTypeLiteralOrInterface_def
  by (intro pres disc; simp?)

lemma place_ParseTsTypeLiteralOrTsMappedType [pres]:
  "pres placed (ParseTsTypeLiteralOrTsMappedType c typeAnnotation)"
  "pres placed (noTypeElement typeAnnotation options)"
  unfolding ParseTsTypeLiteralOrTsMappedType_def noTypeElement_def
  by (intro pres disc; simp?)+

lemma place_typeElement [pres]: "pres placed m \<Longrightarrow> pres placed (typeElement options m)"
  unfolding typeElement_def by (intro pres)

lemma place_ParseTsTypeAnnotationElement [pres]:
  "pres placed (ParseTsTypeAnnotationElement c typeAnnotation options)"
  unfolding ParseTsTypeAnnotationElement_def Let_def
  by (intro pres disc; simp?)

lemma place_TypeAnnotation_loop [pres]: "pres placed (TypeAnnotation_loop c n typeAnnotation options)"
  by (induction n arbitrary: typeAnnotation options) (simp_all only: TypeAnnotation_loop.simps Let_def, (intro pres disc; simp?)+)

lemma place_ParseTsTypeAnnotation [pres]:
  "pres placed (ParseTsTypeAnnotation c options)"
  unfolding ParseTsTypeAnnotation_def
  by (intro pres disc; simp?)

end

end
