(* ===== verification/DisciplineParser.thy ===== *)
theory DisciplineParser
  imports Discipline
begin

text \<open>The methods of the parser keep the scope and the context.\<close>

lemma placed_overTree [pres]: "(\<And>n. pres placed (m n)) \<Longrightarrow> pres placed (overTree m)"
  unfolding overTree_def by (intro pres)

lemma placed_checkLiteral [pres]:
  "(\<And>n. pres moreNodes (f n)) \<Longrightarrow> (\<And>n. pres moreNodes (g n)) \<Longrightarrow> pres placed (checkLiteral flags inPattern f g n)"
  unfolding checkLiteral_def throwInfo_def throwAt_def by (intro pres; simp?)+

context parsing
begin

lemma place_throwAt [pres]:
  "pres placed (throwAt cond message pos)" "pres placed (throwInfo info)" "pres placed (makeNodeLike b n)"
  "pres placed (setStart n pos)" "pres placed (bodyNow n)" "pres placed (ParseDecorator c)"
  unfolding throwAt_def throwInfo_def makeNodeLike_def setStart_def bodyNow_def ParseDecorator_def
  by (intro pres disc; simp?)+

lemma place_Decorators_loop [pres]: "pres placed (Decorators_loop c n ds)"
  by (induction n arbitrary: ds) (simp_all only: Decorators_loop.simps, (intro pres disc; simp?)+)

lemma place_ParseDecorators [pres]:
  "pres placed (ParseDecorators c)" "pres placed (ThrowParameterModifierError status)"
  unfolding ParseDecorators_def ThrowParameterModifierError_def Let_def
  by (intro pres disc; simp?)+

lemma place_Modifiers_loop [pres]: "pres placed (Modifiers_loop n result prev)"
  by (induction n arbitrary: result prev) (simp_all only: Modifiers_loop.simps, (intro pres disc; simp?)+)

lemma place_ParseModifiers [pres]:
  "pres placed ParseModifiers" "pres placed (ParsePotentialTsFunctionParameter c flags returnNode isDeclare)"
  "pres placed (ParseSpreadElement c flags)"
  unfolding ParseModifiers_def ParsePotentialTsFunctionParameter_def ParseSpreadElement_def Let_def
  by (intro pres disc; simp?)+

lemma place_potentialParameter [pres]:
  "pres placed (potentialParameter c flags n)"
  unfolding potentialParameter_def
  by (intro pres disc; simp?)

lemma place_ArrayElements_loop [pres]: "pres placed (ArrayElements_loop c inPattern startLoc n es)"
  by (induction n arbitrary: inPattern startLoc es) (simp_all only: ArrayElements_loop.simps Let_def, (intro pres disc; simp?)+)

lemma place_convertArray [pres]:
  "pres moreNodes (convertArray n)" "pres moreNodes (convertObject n)" "pres moreNodes (validateArray n)"
  "pres moreNodes (validateObject n)"
  unfolding convertArray_def convertObject_def validateArray_def validateObject_def
  by (intro pres disc; simp?)+

lemma place_ParseArrayExpression [pres]:
  "pres placed (ParseArrayExpression c flags)" "pres placed (CheckPropertyKeyAsycModifier st)"
  "pres placed (ValidateAccessor flags t)" "pres placed (ParseShorthandProperty c startPos)"
  unfolding ParseArrayExpression_def CheckPropertyKeyAsycModifier_def ValidateAccessor_def
    ParseShorthandProperty_def Let_def
  by (intro pres disc; simp?)+

lemma place_ParsePropertyModifiers [pres]:
  "pres placed (ParsePropertyModifiers flags st)" "pres placed (ParseGeneratorPropertyModifier flags st)"
  "pres placed (ParsePropertyKey c flags)" "pres placed (ParseBlockStatement c sc)"
  unfolding ParsePropertyModifiers_def ParseGeneratorPropertyModifier_def ParsePropertyKey_def
    ParseBlockStatement_def Let_def
  by (intro pres disc; simp?)+

lemma place_ParseLocalBlockStatement [pres]:
  "pres placed (ParseLocalBlockStatement c)" "pres placed (CreateTsParameterProperty parameter modifiers)"
  unfolding ParseLocalBlockStatement_def CreateTsParameterProperty_def Let_def
  by (intro pres disc; simp?)+

lemma place_ParseFunctionParameter [pres]:
  "pres placed (ParseFunctionParameter c isDeclare)"
  "pres placed (ValidateFunctionParam params parameter seenOptional)"
  unfolding ParseFunctionParameter_def ValidateFunctionParam_def Let_def
  by (intro pres disc; simp?)+

lemma place_FunctionParams_loop [pres]: "pres placed (FunctionParams_loop c isDeclare n seenOptional params)"
  by (induction n arbitrary: isDeclare seenOptional params) (simp_all only: FunctionParams_loop.simps, (intro pres disc; simp?)+)

lemma place_ParseFunctionParams [pres]:
  "pres placed (ParseFunctionParams c isDeclare)"
  unfolding ParseFunctionParams_def
  by (intro pres disc; simp?)

lemma place_ValidateTsFunctionOverloadParams [pres]: "pres placed (ValidateTsFunctionOverloadParams xs)"
  by (induction xs) (simp_all only: ValidateTsFunctionOverloadParams.simps, (intro pres disc; simp?)+)

lemma place_joinScopes [pres]:
  "pres placed (joinScopes funScope parScope)"
  "pres placed (bindFunctionNode funScope parScope funcNode flags)"
  "pres placed (ParseFunctionBody c newStatus isDeclare flags params funScope)"
  unfolding joinScopes_def bindFunctionNode_def ParseFunctionBody_def Let_def
  by (intro pres disc; simp?)+

lemma place_ParseFunction [pres]:
  "pres placed (ParseFunction c newStatus isDeclare)"
  unfolding ParseFunction_def Let_def
  by (intro pres disc; simp?)

lemma place_ParsePropertyValue [pres]:
  "pres placed (ParsePropertyValue c propertyKind st flags)"
  unfolding ParsePropertyValue_def Let_def
  by (intro pres disc; simp?)

lemma place_ParsePropertyDefinition [pres]:
  "pres placed (ParsePropertyDefinition c flags)" "pres placed ParsePropertyEnd"
  unfolding ParsePropertyDefinition_def ParsePropertyEnd_def Let_def
  by (intro pres disc; simp?)+

lemma place_Properties_loop [pres]: "pres placed (Properties_loop c flags n properties trailingComma)"
  by (induction n arbitrary: flags properties trailingComma) (simp_all only: Properties_loop.simps, (intro pres disc; simp?)+)

lemma place_ParseObjectExpression [pres]:
  "pres placed (ParseObjectExpression c flags)"
  unfolding ParseObjectExpression_def Let_def
  by (intro pres disc; simp?)

lemma place_ParsePatternElement [pres]:
  "pres placed (ParsePatternElement c flags allowDefault isDeclare)"
  unfolding ParsePatternElement_def
  by (intro pres disc; simp?)
lemma place_ValidateLvalueAssignmentTarget [pres]:
  "pres placed (ValidateLvalueAssignmentTarget node)"
  unfolding ValidateLvalueAssignmentTarget_def
  by (intro pres disc; simp?)

lemma place_ValidateAssignmentTarget [pres]:
  "pres placed (ValidateAssignmentTarget flags node)"
  unfolding ValidateAssignmentTarget_def
  by (intro pres disc; simp?)

lemma place_ValidateArrowParameterBindings [pres]: "pres placed (ValidateArrowParameterBindings n node)"
  by (induction n arbitrary: node) (simp_all only: ValidateArrowParameterBindings.simps, (intro pres disc; simp?)+)

lemma place_validateBindings [pres]:
  "pres placed (validateBindings node)"
  unfolding validateBindings_def
  by (intro pres disc; simp?)

lemma place_ValidateArrowDefault [pres]:
  "pres placed (ValidateArrowDefault expr rhs)"
  unfolding ValidateArrowDefault_def
  by (intro pres disc; simp?)

lemma place_ValidateArrowParameter [pres]:
  "pres placed (ValidateArrowParameter expr)"
  "pres placed (ParseArrowFunctionExpressionBody c flags funScope desc typeParamDecl returnType)"
  unfolding ValidateArrowParameter_def ParseArrowFunctionExpressionBody_def
  by (intro pres disc; simp?)+

lemma place_ValidateArrowParameters [pres]: "pres placed (ValidateArrowParameters xs st)"
  by (induction xs arbitrary: st) (simp_all only: ValidateArrowParameters.simps, (intro pres disc; simp?)+)

lemma place_addParamDecls [pres]: "pres placed (addParamDecls xs)"
  by (induction xs) (simp_all only: addParamDecls.simps, (intro pres disc; simp?)+)

lemma place_ConvertToArrowParameter [pres]:
  "pres placed (ConvertToArrowParameter expr isAsync parScope)"
  unfolding ConvertToArrowParameter_def Let_def
  by (intro pres disc; simp?)

lemma place_ParseArrowFunctionExpression [pres]:
  "pres placed (ParseArrowFunctionExpression c expr typeParamDecl returnType isAsync)"
  "pres placed (ParseTsGenericArrowFunction c)" "pres placed (ParseTsTypeAssertion c)"
  unfolding ParseArrowFunctionExpression_def ParseTsGenericArrowFunction_def ParseTsTypeAssertion_def Let_def
  by (intro pres disc; simp?)+

lemma place_ParseCoverParenthesizedExpressionAndArrowParameterList [pres]:
  "pres placed (ParseCoverParenthesizedExpressionAndArrowParameterList c)"
  unfolding ParseCoverParenthesizedExpressionAndArrowParameterList_def
  by (intro pres disc; simp?)

lemma place_CheckInvalidDestructuring [pres]: "pres placed (CheckInvalidDestructuring n obj)"
  by (induction n arbitrary: obj) (simp_all only: CheckInvalidDestructuring.simps, (intro pres disc; simp?)+)

lemma place_ValidateParenthesizedExpression [pres]:
  "pres placed (ValidateParenthesizedExpression lhs)"
  unfolding ValidateParenthesizedExpression_def
  by (intro pres disc; simp?)

lemma place_TemplateLiteral_loop [pres]: "pres placed (TemplateLiteral_loop c n quasis expressions)"
  by (induction n arbitrary: quasis expressions) (simp_all only: TemplateLiteral_loop.simps Let_def, (intro pres disc; simp?)+)

lemma place_ParseTemplateLiteral [pres]:
  "pres placed (ParseTemplateLiteral c)"
  unfolding ParseTemplateLiteral_def
  by (intro pres disc; simp?)

lemma place_NewArguments_loop [pres]: "pres placed (NewArguments_loop c n arguments)"
  by (induction n arbitrary: arguments) (simp_all only: NewArguments_loop.simps, (intro pres disc; simp?)+)

lemma place_ParseNewExpression [pres]:
  "pres placed (ParseNewExpression c)" "pres placed ParsePotentialNewTarget"
  "pres placed (ParseImportExpression c)" "pres placed (ParseFunctionName newStatus)"
  unfolding ParseNewExpression_def ParsePotentialNewTarget_def ParseImportExpression_def ParseFunctionName_def
  by (intro pres disc; simp?)+

lemma place_ParseFunctionExpression [pres]:
  "pres placed (ParseFunctionExpression c newStatus)" "pres placed (checkRegExp regexp)"
  "pres placed (tokenLiteral b)"
  unfolding ParseFunctionExpression_def checkRegExp_def tokenLiteral_def
  by (intro pres disc; simp?)+

lemma place_ParseSuper [pres]:
  "pres placed ParseSuper"
  unfolding ParseSuper_def
  by (intro pres disc; simp?)

lemma place_ParsePrimaryExpression [pres]:
  "pres placed (ParsePrimaryExpression c flags)"
  unfolding ParsePrimaryExpression_def
  by (intro pres disc; simp?)

lemma place_Arguments_loop [pres]: "pres placed (Arguments_loop c isAsync n arguments)"
  by (induction n arbitrary: isAsync arguments) (simp_all only: Arguments_loop.simps, (intro pres disc; simp?)+)

lemma place_CallExpression_loop [pres]: "pres placed (CallExpression_loop c isAsync n callee isOptionalChain)"
  by (induction n arbitrary: isAsync callee isOptionalChain) (simp_all only: CallExpression_loop.simps, (intro pres disc; simp?)+)

lemma place_ParseCallExpression [pres]:
  "pres placed (ParseCallExpression c callee isOptionalChain isAsync)"
  unfolding ParseCallExpression_def
  by (intro pres disc; simp?)

lemma place_ParseOptionalChain [pres]:
  "pres placed (ParseOptionalChain c leftSide)"
  "pres placed (ParseAsyncCall c returnExpression startLoc typeParamDecl)"
  unfolding ParseOptionalChain_def ParseAsyncCall_def
  by (intro pres disc; simp?)+

lemma place_ParsePotentialArrowExpression [pres]:
  "pres placed (ParsePotentialArrowExpression c returnExpression startLoc)"
  "pres placed (SetTypeParams n typeParams)"
  unfolding ParsePotentialArrowExpression_def SetTypeParams_def
  by (intro pres disc; simp?)+

lemma place_ParsePotentialTsGenericFunctionCall [pres]:
  "pres placed (ParsePotentialTsGenericFunctionCall c returnExpression startLoc ignoreCallExpression)"
  "pres placed (ParsePropertyAccess returnExpression)"
  unfolding ParsePotentialTsGenericFunctionCall_def ParsePropertyAccess_def
  by (intro pres disc; simp?)+

lemma place_PostPrimary_loop [pres]: "pres placed (PostPrimary_loop c startLoc ignoreCallExpression n returnExpression isChain)"
  by (induction n arbitrary: startLoc ignoreCallExpression returnExpression isChain) (simp_all only: PostPrimary_loop.simps, (intro pres disc; simp?)+)

lemma place_ParsePostPrimaryExpression [pres]:
  "pres placed (ParsePostPrimaryExpression c primaryExpr startLoc ignoreCallExpression)"
  "pres placed (checkUpdatedName n)"
  unfolding ParsePostPrimaryExpression_def checkUpdatedName_def
  by (intro pres disc; simp?)+

lemma place_ValidateUpdateExpression [pres]:
  "pres placed (ValidateUpdateExpression returnExpression isChain)"
  unfolding ValidateUpdateExpression_def
  by (intro pres disc; simp?)

lemma place_ParseMemberExpression [pres]:
  "pres placed (ParseMemberExpression c ignoreCallExpression flags)"
  unfolding ParseMemberExpression_def
  by (intro pres disc; simp?)

lemma place_ParseLeftHandSideExpression [pres]:
  "pres placed (ParseLeftHandSideExpression c flags)" "pres placed currentIsUnary"
  unfolding ParseLeftHandSideExpression_def currentIsUnary_def
  by (intro pres disc; simp?)+

lemma place_ParseUnaryOrPrefixUpdateExpression [pres]:
  "pres placed (ParseUnaryOrPrefixUpdateExpression c flags)" "pres moreNodes (binaryParts n)"
  unfolding ParseUnaryOrPrefixUpdateExpression_def binaryParts_def Let_def
  by (intro pres disc; simp?)+

lemma place_ShouldBinaryExpressionBeAmended [pres]:
  "pres moreNodes (ShouldBinaryExpressionBeAmended n operatorType)"
  unfolding ShouldBinaryExpressionBeAmended_def
  by (intro pres disc; simp?)

lemma place_Amend_loop [pres]: "pres moreNodes (Amend_loop n lhs operatorType be parent shouldBeAmended)"
  by (induction n arbitrary: lhs operatorType be parent shouldBeAmended) (simp_all only: Amend_loop.simps, (intro pres disc; simp?)+)

lemma place_joinLeft [pres]:
  "pres moreNodes (joinLeft lhs operatorType n)"
  unfolding joinLeft_def
  by (intro pres disc; simp?)

lemma place_amendBinary [pres]:
  "pres moreNodes (amendBinary lhs operatorType rightExpr)" "pres moreNodes (newBinary lhs rightExpr operatorType)"
  unfolding amendBinary_def newBinary_def
  by (intro pres disc; simp?)+

lemma place_placeOperator [pres]:
  "pres placed (placeOperator lhs operatorType rightExpr)"
  unfolding placeOperator_def
  by (intro pres disc; simp?)

lemma place_ParseBinaryExpression [pres]:
  "pres placed (ParseBinaryExpression c lhs)" "pres placed (ParseAssignment c lhs flags)"
  "pres placed (ParseConditional c test)"
  unfolding ParseBinaryExpression_def ParseAssignment_def ParseConditional_def
  by (intro pres disc; simp?)+

lemma place_ParseAssignmentExpression [pres]:
  "pres placed (ParseAssignmentExpression c lhs flags)"
  unfolding ParseAssignmentExpression_def
  by (intro pres disc; simp?)

lemma place_Sequence_loop [pres]: "pres placed (Sequence_loop c acceptRest acceptTsParam n es)"
  by (induction n arbitrary: acceptRest acceptTsParam es) (simp_all only: Sequence_loop.simps, (intro pres disc; simp?)+)

lemma place_ParseSequenceExpression [pres]:
  "pres placed (ParseSequenceExpression c startExpr acceptRest acceptTsParam)"
  unfolding ParseSequenceExpression_def
  by (intro pres disc; simp?)

lemma place_ParsePotentialExpressionSequence [pres]:
  "pres placed (ParsePotentialExpressionSequence c expr flags)" "pres placed (ParseYieldExpression c)"
  "pres placed (continuesAs flags)"
  unfolding ParsePotentialExpressionSequence_def ParseYieldExpression_def continuesAs_def
  by (intro pres disc; simp?)+

lemma place_TsAs_loop [pres]: "pres placed (TsAs_loop c flags n expr)"
  by (induction n arbitrary: flags expr) (simp_all only: TsAs_loop.simps, (intro pres disc; simp?)+)

lemma place_ParseTsAsExpression [pres]:
  "pres placed (ParseTsAsExpression c expr flags)"
  unfolding ParseTsAsExpression_def
  by (intro pres disc; simp?)

lemma place_ParseExpression [pres]:
  "pres placed (ParseExpression c flags)"
  unfolding ParseExpression_def
  by (intro pres disc; simp?)
lemma place_CheckAccessor [pres]:
  "pres placed (CheckAccessor it propName methodKind access hasDecorator errorInfo)"
  unfolding CheckAccessor_def Let_def
  by (intro pres disc; simp?)

lemma place_CheckAccessorPair [pres]:
  "pres placed (CheckAccessorPair properties propName methodKind access hasDecorator errorInfo)"
  "pres placed (ThrowIfPrivateIdent desc message)" "pres placed (ParseClassKeyModifiers desc)"
  unfolding CheckAccessorPair_def ThrowIfPrivateIdent_def ParseClassKeyModifiers_def Let_def
  by (intro pres disc; simp?)+

lemma place_ValidateClassKey [pres]:
  "pres placed (ValidateClassKey desc)" "pres placed (ParseIndexSignatureKey c)"
  unfolding ValidateClassKey_def ParseIndexSignatureKey_def Let_def
  by (intro pres disc; simp?)+

lemma place_ParseClassKey [pres]:
  "pres placed (ParseClassKey c desc)" "pres placed (ValidateClassMethodStart desc typeAnnotation)"
  "pres placed (checkAccessors desc properties propName other hasDecorator errorInfo)"
  unfolding ParseClassKey_def ValidateClassMethodStart_def checkAccessors_def Let_def
  by (intro pres disc; simp?)+

lemma place_ValidateClassSetter [pres]:
  "pres placed (ValidateClassSetter desc properties propName f hasDecorator errorInfo)"
  "pres placed (ValidateClassGetter desc properties propName f hasDecorator errorInfo)"
  unfolding ValidateClassSetter_def ValidateClassGetter_def
  by (intro pres disc; simp?)+

lemma place_ParseClassMethod [pres]:
  "pres placed (ParseClassMethod c desc properties propName decorators isDeclare)"
  unfolding ParseClassMethod_def Let_def
  by (intro pres disc; simp?)

lemma place_ParseClassProperty [pres]:
  "pres placed (ParseClassProperty c desc properties propName typeAnnotation decorators isDeclare)"
  "pres placed (CheckClassGeneratorMethod desc)" "pres placed (CheckClassPrivateIdentifier desc)"
  "pres placed (ParseClassKeyAnnotation c)" "pres placed (ParseClassKeySuffix desc)"
  "pres placed (rejectDecorators decorators)"
  unfolding ParseClassProperty_def CheckClassGeneratorMethod_def CheckClassPrivateIdentifier_def
    ParseClassKeyAnnotation_def ParseClassKeySuffix_def rejectDecorators_def
  by (intro pres disc; simp?)+

lemma place_isImplementation [pres]:
  "pres placed (isImplementation property)"
  unfolding isImplementation_def
  by (intro pres disc; simp?)

lemma place_ParseClassElement [pres]:
  "pres placed (ParseClassElement c properties indexSignatures hasSuper isDeclare isAbstract)"
  "pres placed (implicitSuperCall pScope)"
  unfolding ParseClassElement_def implicitSuperCall_def Let_def
  by (intro pres disc; simp?)+

lemma place_CreateImplicitConstructor [pres]:
  "pres placed (CreateImplicitConstructor hasSuper)" "pres placed SetIdentNodeInClassDefinition"
  unfolding CreateImplicitConstructor_def SetIdentNodeInClassDefinition_def
  by (intro pres disc; simp?)+

lemma place_Implements_loop [pres]: "pres placed (Implements_loop c n impls)"
  by (induction n arbitrary: impls) (simp_all only: Implements_loop.simps Let_def, (intro pres disc; simp?)+)

lemma place_ClassBody_loop [pres]: "pres placed (ClassBody_loop c hasSuper isDeclare isAbstract n ctor properties indexSignatures)"
  by (induction n arbitrary: hasSuper isDeclare isAbstract ctor properties indexSignatures) (simp_all only: ClassBody_loop.simps, (intro pres disc; simp?)+)

lemma place_ParseClassHeritage [pres]:
  "pres placed (ParseClassHeritage c)"
  unfolding ParseClassHeritage_def
  by (intro pres disc; simp?)

lemma place_ParseClassDefinition [pres]:
  "pres placed (ParseClassDefinition c isDeclaration idRequired isDeclare isAbstract)"
  unfolding ParseClassDefinition_def Let_def
  by (intro pres disc; simp?)

lemma place_EnumMembers_loop [pres]: "pres placed (EnumMembers_loop c n members)"
  by (induction n arbitrary: members) (simp_all only: EnumMembers_loop.simps, (intro pres disc; simp?)+)

lemma place_ParseEnumMembers [pres]:
  "pres placed (ParseEnumMembers c key enumStart isConst)" "pres placed (findBinding n)"
  "pres placed (declarationOf v)"
  unfolding ParseEnumMembers_def findBinding_def declarationOf_def
  by (intro pres disc; simp?)+

lemma place_ParseEnumDeclaration [pres]:
  "pres placed (ParseEnumDeclaration c isConst)"
  unfolding ParseEnumDeclaration_def
  by (intro pres disc; simp?)
lemma place_SetEnd [pres]:
  "pres moreNodes (SetEnd n end')"
  unfolding SetEnd_def
  by (intro pres disc; simp?)

lemma place_ConsumeSemicolon [pres]:
  "pres placed (ConsumeSemicolon statement)" "pres placed CheckDeclare"
  "pres placed (CheckFunctionDeclaration flags)" "pres placed (lexicalAllowed flags)"
  "pres placed ValidateDeclaratorId"
  "pres placed (ParseVariableDeclaratorInitializer c init flags startLoc isDeclare)"
  unfolding ConsumeSemicolon_def CheckDeclare_def CheckFunctionDeclaration_def lexicalAllowed_def
    ValidateDeclaratorId_def ParseVariableDeclaratorInitializer_def Let_def
  by (intro pres disc; simp?)+

lemma place_declareBindings [pres]: "pres placed (declareBindings pos ty init xs)"
  by (induction xs arbitrary: pos ty init) (simp_all only: declareBindings.simps, (intro pres disc; simp?)+)

lemma place_bindingType [pres]:
  "pres placed (bindingType c n)" "pres placed (ParseDeclaratorId c flags)"
  unfolding bindingType_def ParseDeclaratorId_def Let_def
  by (intro pres disc; simp?)+

lemma place_ParseVariableDeclarator [pres]:
  "pres placed (ParseVariableDeclarator c flags isDeclare)"
  unfolding ParseVariableDeclarator_def
  by (intro pres disc; simp?)

lemma place_Declarators_loop [pres]: "pres placed (Declarators_loop c flags isDeclare n ds)"
  by (induction n arbitrary: flags isDeclare ds) (simp_all only: Declarators_loop.simps, (intro pres disc; simp?)+)

lemma place_ParseVariableDeclaration [pres]:
  "pres placed (ParseVariableDeclaration c flags isDeclare)"
  unfolding ParseVariableDeclaration_def Let_def
  by (intro pres disc; simp?)

lemma place_ParseVarStatement [pres]:
  "pres placed (ParseVarStatement c isDeclare)" "pres placed (ParseLetStatement c flags isDeclare)"
  "pres placed (ParseConstStatement c flags isDeclare)" "pres placed ParseEmptyStatement"
  "pres placed ParseDebuggerStatement" "pres placed (illegalBreak allowBreak)"
  unfolding ParseVarStatement_def ParseLetStatement_def ParseConstStatement_def ParseEmptyStatement_def
    ParseDebuggerStatement_def illegalBreak_def
  by (intro pres disc; simp?)+

lemma place_ParseBreakStatement [pres]:
  "pres placed ParseBreakStatement" "pres placed ParseContinueStatement" "pres placed (ParseReturnStatement c)"
  "pres placed (ParseThrowStatement c)"
  "pres placed (ParseFunctionDeclaration c canBeAnonymous newStatus isDeclare)"
  unfolding ParseBreakStatement_def ParseContinueStatement_def ParseReturnStatement_def ParseThrowStatement_def
    ParseFunctionDeclaration_def
  by (intro pres disc; simp?)+

lemma place_ParseFunctionStatement [pres]:
  "pres placed (ParseFunctionStatement c flags isDeclare)" "pres placed (ParseExpressionStatement c flags)"
  "pres placed (ParseClassDeclaration c idRequired decorators isDeclare isAbstract)"
  unfolding ParseFunctionStatement_def ParseExpressionStatement_def ParseClassDeclaration_def Let_def
  by (intro pres disc; simp?)+

lemma place_ParseClassStatement [pres]:
  "pres placed (ParseClassStatement c flags isDeclare decorators isAbstract)"
  "pres placed (rejectReservedName message)"
  unfolding ParseClassStatement_def rejectReservedName_def
  by (intro pres disc; simp?)+

lemma place_ParseTsTypeAliasDeclaration [pres]:
  "pres placed (ParseTsTypeAliasDeclaration c isDeclare)"
  unfolding ParseTsTypeAliasDeclaration_def
  by (intro pres disc; simp?)

lemma place_Heritage_loop [pres]: "pres placed (Heritage_loop c n es)"
  by (induction n arbitrary: es) (simp_all only: Heritage_loop.simps Let_def, (intro pres disc; simp?)+)

lemma place_interfaceDeclaration [pres]:
  "pres placed (interfaceDeclaration ident)"
  unfolding interfaceDeclaration_def
  by (intro pres disc; simp?)

lemma place_ParseTsInterfaceDeclaration [pres]:
  "pres placed (ParseTsInterfaceDeclaration c)" "pres placed ParseModuleReference"
  unfolding ParseTsInterfaceDeclaration_def ParseModuleReference_def
  by (intro pres disc; simp?)+

lemma place_ParseTsImportEqualsDeclaration [pres]:
  "pres placed (ParseTsImportEqualsDeclaration startLoc isExport)" "pres placed (ParseTsModuleBlock c)"
  unfolding ParseTsImportEqualsDeclaration_def ParseTsModuleBlock_def
  by (intro pres disc; simp?)+

lemma place_ParseTsModuleOrNamespaceDelaration [pres]: "pres placed (ParseTsModuleOrNamespaceDelaration c n startLoc isDeclare)"
  by (induction n arbitrary: startLoc isDeclare) (simp_all only: ParseTsModuleOrNamespaceDelaration.simps, (intro pres disc; simp?)+)

lemma place_ParseTsAmbientExternalModuleDeclaration [pres]:
  "pres placed (ParseTsAmbientExternalModuleDeclaration c startLoc isDeclare)"
  unfolding ParseTsAmbientExternalModuleDeclaration_def
  by (intro pres disc; simp?)

lemma place_ParseTsModuleDeclaration [pres]:
  "pres placed (ParseTsModuleDeclaration c isDeclare)"
  unfolding ParseTsModuleDeclaration_def
  by (intro pres disc; simp?)

lemma place_ParseModuleStatement [pres]:
  "pres placed (ParseModuleStatement c isDeclare)" "pres placed (ParseDoWhileStatement c)"
  "pres placed (ParseWhileStatement c)" "pres placed (ParseForTest c)" "pres placed (ParseForStep c)"
  unfolding ParseModuleStatement_def ParseDoWhileStatement_def ParseWhileStatement_def ParseForTest_def
    ParseForStep_def
  by (intro pres disc; simp?)+

lemma place_ParseForUpdate [pres]:
  "pres placed (ParseForUpdate c isAwait)" "pres placed (ParseForRight c exprFlags)" "pres placed atInOrOf"
  "pres placed (firstInitialized initNode)"
  unfolding ParseForUpdate_def ParseForRight_def atInOrOf_def firstInitialized_def
  by (intro pres disc; simp?)+

lemma place_ParseForInOf_declaration [pres]:
  "pres placed (ParseForInOf_declaration c initNode exprFlags isAwait)" "pres placed (validForTarget leftNode)"
  unfolding ParseForInOf_declaration_def validForTarget_def
  by (intro pres disc; simp?)+

lemma place_ParseForInOf_expression [pres]:
  "pres placed (ParseForInOf_expression c leftNode exprFlags isAwait)"
  "pres placed (ParseForInit c varFlags isAwait)" "pres placed (declarationCanBeForInOf n)"
  unfolding ParseForInOf_expression_def ParseForInit_def declarationCanBeForInOf_def Let_def
  by (intro pres disc; simp?)+

lemma place_ParseForHead [pres]:
  "pres placed (ParseForHead c init isAwait)"
  unfolding ParseForHead_def
  by (intro pres disc; simp?)

lemma place_ParseForStatement [pres]:
  "pres placed (ParseForStatement c)" "pres placed (ParseIfStatement c)"
  "pres placed (ParseLabelledStatement c pos)"
  unfolding ParseForStatement_def ParseIfStatement_def ParseLabelledStatement_def Let_def
  by (intro pres disc; simp?)+

lemma place_Consequents_loop [pres]: "pres placed (Consequents_loop c n consequents endLoc)"
  by (induction n arbitrary: consequents endLoc) (simp_all only: Consequents_loop.simps, (intro pres disc; simp?)+)

lemma place_ParseSwitchCaseStatement [pres]:
  "pres placed (ParseSwitchCaseStatement c seenDefault)"
  unfolding ParseSwitchCaseStatement_def
  by (intro pres disc; simp?)

lemma place_SwitchCases_loop [pres]: "pres placed (SwitchCases_loop c n seenDefault cs)"
  by (induction n arbitrary: seenDefault cs) (simp_all only: SwitchCases_loop.simps, (intro pres disc; simp?)+)

lemma place_ParseSwitchStatement [pres]:
  "pres placed (ParseSwitchStatement c)" "pres placed (ParseCatchParam c)"
  unfolding ParseSwitchStatement_def ParseCatchParam_def
  by (intro pres disc; simp?)+

lemma place_ParseCatchClause [pres]:
  "pres placed (ParseCatchClause c)"
  unfolding ParseCatchClause_def
  by (intro pres disc; simp?)

lemma place_ParseTryStatement [pres]:
  "pres placed (ParseTryStatement c)" "pres placed (ParsePotentialExpressionStatement c flags isDeclare)"
  unfolding ParseTryStatement_def ParsePotentialExpressionStatement_def
  by (intro pres disc; simp?)+
lemma place_moduleScope [pres]:
  "pres placed moduleScope" "pres placed savedBindings"
  unfolding moduleScope_def savedBindings_def
  by (intro pres disc; simp?)+

lemma place_bindNewExports [pres]: "pres placed (bindNewExports saved exportName xs)"
  by (induction xs arbitrary: saved exportName) (simp_all only: bindNewExports.simps, (intro pres disc; simp?)+)

lemma place_defaultDecl [pres]:
  "pres placed (defaultDecl rhs)"
  unfolding defaultDecl_def
  by (intro pres disc; simp?)

lemma place_BindExportDecl [pres]:
  "pres placed (BindExportDecl saved node rhs ref)" "pres placed (ParseDefaultExported c decorators)"
  unfolding BindExportDecl_def ParseDefaultExported_def
  by (intro pres disc; simp?)+

lemma place_ParseExportDefaultDeclaration [pres]:
  "pres placed (ParseExportDefaultDeclaration c startLoc decorators isExportEquals)"
  "pres placed (ParseNamedExport exportedToken)" "pres placed (ParseFromClause requireFrom)"
  unfolding ParseExportDefaultDeclaration_def ParseNamedExport_def ParseFromClause_def
  by (intro pres disc; simp?)+

lemma place_ParseExportAllDeclaration [pres]:
  "pres placed (ParseExportAllDeclaration startLoc)"
  unfolding ParseExportAllDeclaration_def Let_def
  by (intro pres disc; simp?)

lemma place_ExportSpecifiers_loop [pres]: "pres placed (ExportSpecifiers_loop startLoc n specifiers ds)"
  by (induction n arbitrary: startLoc specifiers ds) (simp_all only: ExportSpecifiers_loop.simps, (intro pres disc; simp?)+)

lemma place_ParseExportNamedSpecifiers [pres]:
  "pres placed (ParseExportNamedSpecifiers startLoc)" "pres placed (ParseTsExported c isDeclare)"
  unfolding ParseExportNamedSpecifiers_def ParseTsExported_def
  by (intro pres disc; simp?)+

lemma place_ParseExported [pres]:
  "pres placed (ParseExported c decorators isDeclare)"
  unfolding ParseExported_def
  by (intro pres disc; simp?)

lemma place_ParseNamedExportDeclaration [pres]:
  "pres placed (ParseNamedExportDeclaration c startLoc decorators)" "pres placed (checkModuleStatement flags)"
  unfolding ParseNamedExportDeclaration_def checkModuleStatement_def
  by (intro pres disc; simp?)+

lemma place_ParseExportDeclaration [pres]:
  "pres placed (ParseExportDeclaration c flags decorators)" "pres placed (ParseNamedImport importedToken)"
  unfolding ParseExportDeclaration_def ParseNamedImport_def
  by (intro pres disc; simp?)+

lemma place_ParseNameSpaceImport [pres]:
  "pres placed ParseNameSpaceImport"
  unfolding ParseNameSpaceImport_def
  by (intro pres disc; simp?)

lemma place_ImportSpecifiers_loop [pres]: "pres placed (ImportSpecifiers_loop n specifiers)"
  by (induction n arbitrary: specifiers) (simp_all only: ImportSpecifiers_loop.simps, (intro pres disc; simp?)+)

lemma place_ParseNamedImportSpecifiers [pres]:
  "pres placed ParseNamedImportSpecifiers" "pres placed ParseImportDefaultSpecifier"
  unfolding ParseNamedImportSpecifiers_def ParseImportDefaultSpecifier_def
  by (intro pres disc; simp?)+

lemma place_ParseOtherSpecifiers [pres]:
  "pres placed (ParseOtherSpecifiers specifiers)"
  unfolding ParseOtherSpecifiers_def
  by (intro pres disc; simp?)

lemma place_ParseImportSpecifiers [pres]:
  "pres placed ParseImportSpecifiers"
  unfolding ParseImportSpecifiers_def
  by (intro pres disc; simp?)

lemma place_newImports [pres]: "pres placed (newImports saved xs)"
  by (induction xs arbitrary: saved) (simp_all only: newImports.simps, (intro pres disc; simp?)+)

lemma place_BindImportDecl [pres]:
  "pres placed (BindImportDecl saved node)"
  unfolding BindImportDecl_def
  by (intro pres disc; simp?)

lemma place_finishImport [pres]:
  "pres placed (finishImport saved startLoc specifiers requireFrom)"
  unfolding finishImport_def
  by (intro pres disc; simp?)

lemma place_ParseImportDeclaration [pres]:
  "pres placed (ParseImportDeclaration c flags)"
  unfolding ParseImportDeclaration_def
  by (intro pres disc; simp?)

lemma place_ParseStatementOf [pres]:
  "pres placed (ParseStatementOf c flags isDeclare decorators)"
  unfolding ParseStatementOf_def
  by (intro pres disc; simp?)

lemma place_ParseStatement [pres]:
  "pres placed (ParseStatement c flags)" "pres placed (ParseDirective c)"
  unfolding ParseStatement_def ParseDirective_def
  by (intro pres disc; simp?)+

lemma place_ParseDirectivePrologue [pres]: "pres placed (ParseDirectivePrologue c n statements)"
  by (induction n arbitrary: statements) (simp_all only: ParseDirectivePrologue.simps, (intro pres disc; simp?)+)

lemma place_Statements_loop [pres]: "pres placed (Statements_loop c flags n statements)"
  by (induction n arbitrary: flags statements) (simp_all only: Statements_loop.simps, (intro pres disc; simp?)+)

lemma place_ParseStatementList [pres]:
  "pres placed (ParseStatementList c flags)"
  unfolding ParseStatementList_def
  by (intro pres disc; simp?)

end

section \<open>Every depth of the calls\<close>

lemma parsing_step: "parsing c \<Longrightarrow> parsing (callsFrom c)"
  by unfold_locales (simp_all add: callsFrom_def parsing.place_ParseExpression parsing.place_ParseLeftHandSideExpression
      parsing.place_ParseMemberExpression parsing.place_ParseUnaryOrPrefixUpdateExpression
      parsing.place_ParseAssignmentExpression parsing.place_ParsePatternElement parsing.place_ParseTsTypeAnnotation
      parsing.place_ParseTsTypeAnnotationElement parsing.place_ParseFunctionParams
      parsing.place_ParseClassDefinition parsing.place_ParseStatement parsing.place_ParseStatementList)

interpretation at_depth: parsing "callsAt k" for k
proof (induction k)
  case 0
  show ?case by unfold_locales (simp_all add: place.pres_fuel)
next
  case (Suc k)
  then show ?case by (simp add: parsing_step)
qed

lemma placed_withCalls [pres]: "(\<And>k. pres placed (m (callsAt k))) \<Longrightarrow> pres placed (withCalls m)"
  by (auto simp: pres_def withCalls_def simp del: callsAt.simps)

section \<open>The analysis of identifiers\<close>

lemma disc_modify: "(\<And>s. bScope (f s) = bScope s \<and> topScope (f s) = topScope s \<and> functionScopes (f s) = functionScopes s)
    \<Longrightarrow> disciplined (modifyM f)"
  by (simp add: disciplined_def modifyM_def)

lemma disc_BuildFunction [disc]: "disciplined (BuildFunction sc node n)"
proof -
  have "disciplined (modifyM (\<lambda>s. s\<lparr>functionScopes := functionScopes s @ [x]\<rparr>))" for x
    by (simp add: disciplined_def modifyM_def)
  then show ?thesis unfolding BuildFunction_def by (intro disc)
qed

lemma disc_AddMandatoryParam [disc]: "disciplined (AddMandatoryParam n)"
  unfolding AddMandatoryParam_def by (intro disc)

lemma disc_AddMandatoryParams_rev: "disciplined (AddMandatoryParams_rev ns)"
  by (induction ns) (simp_all add: disc)

lemma disc_mandatory_params [disc]: "disciplined (AddMandatoryParams ns)" "disciplined (AddArrowParams sc path)"
proof -
  show m: "disciplined (AddMandatoryParams ns)" for ns
    by (simp add: AddMandatoryParams_def disc_AddMandatoryParams_rev)
  show "disciplined (AddArrowParams sc path)"
    unfolding AddArrowParams_def by (intro disc m)
qed

lemma disc_AddAllMandatoryParams [disc]: "disciplined (AddAllMandatoryParams fs)"
  by (induction fs) (simp_all only: AddAllMandatoryParams.simps, (intro disc; simp?)+)

lemma disc_IdentifierAnalysis [disc]: "disciplined (IdentifierAnalysis root children)"
  unfolding IdentifierAnalysis_def AddProgramParams_def by (intro disc)

end
