(* ===== verification/ParserRuns.thy ===== *)
theory ParserRuns
  imports Parser LexerSpec
begin

text \<open>
  Runs of the parser on short sources.  They hold for any recursive calls, so nothing depends on the depth.
\<close>

definition returned :: "('e, 'a) res \<Rightarrow> bool" where
  "returned r \<longleftrightarrow> (case r of Ok _ \<Rightarrow> True | _ \<Rightarrow> False)"

definition rejection :: "(parseError, 'a) res \<Rightarrow> (string \<times> u64 \<times> u64) option" where
  "rejection r = (case r of Throw (SyntaxError message line col) \<Rightarrow> Some (message, line, col) | _ \<Rightarrow> None)"

lemma returnedE: "returned r \<Longrightarrow> (\<And>a. r = Ok a \<Longrightarrow> thesis) \<Longrightarrow> thesis"
  by (auto simp: returned_def split: res.splits)

lemma throw_never_ok: "ThrowSyntaxError message s \<noteq> Ok (a, t)"
  by (auto simp: ThrowSyntaxError_def ThrowSyntaxErrorAt_def run_defs split: option.splits res.splits prod.splits)

lemma throw_stops: "thenM (ThrowSyntaxError message) m s \<noteq> Ok (a, t)"
  by (auto simp: thenM_def bindM_def throw_never_ok split: res.splits)

definition programStart :: "bool \<Rightarrow> sourcePosition parseM" where
  "programStart isModule = bindM tokenStart (\<lambda>l. thenM advance (thenM (SetKind isModule) (ret l)))"

definition programEnd :: "sourcePosition \<Rightarrow> nodeId list \<Rightarrow> nodeId parseM" where
  "programEnd startLoc statements =
    bindM currentScope (\<lambda>sc.
    bindM (AllocNode (Stmt (BlockStatement sc statements))) (\<lambda>blockStmt.
    thenM (BindNode sc (OtherNode blockStmt))
    (bindM tokenEnd (\<lambda>t1.
    thenM (onNodes (SetRange blockStmt startLoc t1))
    (thenM (IdentifierAnalysisOf blockStmt statements)
    (ret blockStmt))))))"

text \<open>The program with the recursive calls as an argument.\<close>

definition programFrom :: "parseCalls \<Rightarrow> bool \<Rightarrow> nodeId parseM" where
  "programFrom c isModule =
    bindM (programStart isModule) (\<lambda>l. bindM (ParseStatementList c SP_STMT_GLOBAL_LEXICAL) (programEnd l))"

lemma ParseProgram_parts:
  "ParseProgram isModule =
    bindM (programStart isModule) (\<lambda>l. bindM (withCalls (\<lambda>c. ParseStatementList c SP_STMT_GLOBAL_LEXICAL)) (programEnd l))"
  by (rule ext) (simp add: ParseProgram_def programStart_def programEnd_def thenM_def bindM_def ret_def split: res.split)

lemma ParseProgram_from:
  "\<exists>k. ParseProgram isModule s = programFrom (callsFrom (callsFrom (callsAt k))) isModule s"
proof (cases "programStart isModule s")
  case (Ok p)
  have "withCalls m (snd p) = m (callsFrom (callsFrom (callsAt (3 * left (iterator (psLexer (snd p))) + 7)))) (snd p)"
    for m :: "parseCalls \<Rightarrow> nodeId list parseM"
    by (simp add: withCalls_def numeral_eq_Suc)
  then show ?thesis using Ok
    by (intro exI [of _ "3 * left (iterator (psLexer (snd p))) + 7"])
      (cases p, simp add: ParseProgram_parts programFrom_def bindM_def)
qed (simp_all add: ParseProgram_parts programFrom_def bindM_def)

lemma script_run:
  assumes "\<And>c. P (runParser (programFrom (callsFrom (callsFrom c)) False) e src)"
  shows "P (ParseScript e src)"
proof (cases "newLexer e src")
  case (Ok l)
  obtain k where "ParseProgram False (newParser l) = programFrom (callsFrom (callsFrom (callsAt k))) False (newParser l)"
    using ParseProgram_from by blast
  then show ?thesis using assms [of "callsAt k"] Ok by (simp add: ParseScript_def runParser_def)
qed (use assms in \<open>simp_all add: ParseScript_def runParser_def\<close>)

text \<open>A module that its first part rejects.\<close>

lemma module_rejected:
  assumes run: "\<And>c. rejection (runParser (thenM (addStatus PS_MODULE) (programFrom (callsFrom (callsFrom c)) True)) e src) = Some x"
  shows "rejection (ParseModule e src) = Some x"
proof (cases "newLexer e src")
  case (Ok l)
  let ?s = "newParser l\<lparr>psStatus := PS_MODULE\<rparr>"
  obtain k where "ParseProgram True ?s = programFrom (callsFrom (callsFrom (callsAt k))) True ?s"
    using ParseProgram_from by blast
  then have "rejection (ParseProgram True ?s) = Some x"
    using run [of "callsAt k"] Ok by (simp add: runParser_def addStatus_def run_defs newParser_def)
  then show ?thesis using Ok
    by (auto simp: ParseModule_def runParser_def ParseModuleProgram_def addStatus_def run_defs newParser_def rejection_def
        split: res.splits)
qed (use run in \<open>simp_all add: ParseModule_def runParser_def rejection_def\<close>)

section \<open>Runs\<close>

definition importDefault :: "byte list" where
  "importDefault = asciiText (''import a from '' @ [CHR 0x22, CHR ''b'', CHR 0x22])"

definition labelledContinue :: "byte list" where
  "labelledContinue = asciiText ''for(;;)a:continue''"

text \<open>The statements of a program, without the binder.\<close>

definition statementsOf :: "parseCalls \<Rightarrow> nodeId parseM" where
  "statementsOf c = bindM (programStart False) (\<lambda>l. bindM (ParseStatementList c SP_STMT_GLOBAL_LEXICAL) (\<lambda>ss. ret (hd (ss @ [0]))))"

text \<open>A parser in a loop, at a \<open>break\<close> or \<open>continue\<close> that a line break follows and a statement.\<close>

definition atLineEnd :: "parser \<Rightarrow> bool" where
  "atLineEnd s \<longleftrightarrow> has (psStatus s) PS_IN_ITERATION \<and> extensionOf s = JS \<and> (case advance s of
     Ok (_, t) \<Rightarrow> NewLine (tok (psLexer t)) \<and> tokType (tok (psLexer t)) \<notin> {PUNCTUATOR_SEMI_COLON, EOS, PUNCTUATOR_RIGHT_BRACE}
   | _ \<Rightarrow> False)"

lemma empty_statement_run:
  "returned (runParser (thenM advance (ParseStatement c SP_NONE)) (testEnv JS) (asciiText '';''))"
  by code_simp

lemma empty_program_run:
  "returned (runParser (programFrom c False) (testEnv JS) (asciiText '';''))"
  by code_simp

lemma import_default_run:
  "rejection (runParser (thenM (addStatus PS_MODULE) (programFrom c True)) (testEnv JS) importDefault) = Some (''Unexpected token.'', 1, 18)"
  by code_simp

lemma break_run:
  "rejection (runParser (programFrom c False) (testEnv JS) (asciiText ''break'')) = Some (''Illegal break statement'', 1, 6)"
  by code_simp

lemma loop_break_run:
  "returned (runParser (statementsOf (callsFrom c)) (testEnv JS) (asciiText ''for(;;);break''))"
  by code_simp

lemma label_continue_run:
  "rejection (runParser (programFrom (callsFrom (callsFrom c)) False) (testEnv JS) labelledContinue) =
    Some (''Illegal continue statement'', 1, 10)"
  by code_simp

lemma line_end_run:
  "(case runParser (thenM (addStatus PS_IN_ITERATION) (thenM advance (ret 0))) (testEnv JS) (asciiText (''break'' @ [CHR 0x0A] @ ''a'')) of
     Ok (_, s) \<Rightarrow> atLineEnd s | _ \<Rightarrow> False)"
  by code_simp

end
