(* ===== verification/ParserSpec.thy ===== *)
theory ParserSpec
  imports DisciplineParser ParserRuns
begin

text \<open>
  The properties of the parser as a whole.
\<close>

section \<open>Scopes and contexts\<close>

lemma placedD: "pres placed m \<Longrightarrow> m s = Ok (a, t) \<Longrightarrow> placed s t"
  by (rule presD)

lemma onBinder_Ok: "onBinder m s = Ok (a, t) \<longleftrightarrow> (\<exists>b. m (psBinder s) = Ok (a, b) \<and> t = s\<lparr>psBinder := b\<rparr>)"
  by (auto simp: onBinder_def within_def split: res.splits)

lemma onNodes_Ok: "onNodes m s = Ok (a, t) \<longleftrightarrow> (\<exists>u. m (psNodes s) = Ok (a, u) \<and> t = s\<lparr>psNodes := u\<rparr>)"
  by (auto simp: onNodes_def within_def split: res.splits)

lemma SetKind_Ok: "SetKind isModule s = Ok (a, t) \<Longrightarrow> bScope (psBinder t) = topScope (psBinder t)
    \<and> psLabel t = psLabel s \<and> psPrev t = psPrev s"
  by (auto simp: SetKind_def onBinder_Ok InitTopScope_def elim!: bindM_OkE)

lemma SetRange_body: "SetRange n a b t = Ok (x, u) \<Longrightarrow> nBody (nodeAt u m) = nBody (nodeAt t m)"
  by (auto simp: SetRange_def modNode_def getNode_def readM_def elim!: bindM_OkE thenM_OkE split: if_splits)

lemma IdentifierAnalysisOf_Ok:
  assumes "IdentifierAnalysisOf n stmts s = Ok (a, t)"
  shows "psNodes t = psNodes s \<and> placed s t"
proof -
  from assms obtain root s' where "onNodes (binderTree n) s = Ok (root, s')"
      and t: "(case root of ast.BlockStatement _ children \<Rightarrow> onBinder (IdentifierAnalysis root children) | _ \<Rightarrow> undefinedM) s'
        = Ok (a, t)"
    unfolding IdentifierAnalysisOf_def by (elim bindM_OkE)
  then have "s' = s" by (auto simp: onNodes_Ok binderTree_def readM_def split: option.splits)
  moreover obtain sc children where "root = ast.BlockStatement sc children"
    using t by (cases root) (simp_all add: undefinedM_def readM_def)
  ultimately have r: "onBinder (IdentifierAnalysis root children) s = Ok (a, t)" using t by simp
  have "placed s t" using r by (rule placedD [rotated]) (intro pres disc)
  with r show ?thesis by (auto simp: onBinder_Ok)
qed

lemma ParseProgram_block:
  assumes "ParseProgram isModule s = Ok (n, t)"
  obtains stmts where "nBody (nodeAt (psNodes t) n) = Stmt (BlockStatement (topScope (psBinder t)) stmts)"
    "bScope (psBinder t) = topScope (psBinder t)" "psLabel t = psLabel s" "psPrev t = psPrev s"
proof -
  from assms obtain a0 s0 a1 s1 a2 s2 statements s3 sc s4 s5 a5 s6 a6 s7 a7 s8 a8 s9 where
    run: "tokenStart s = Ok (a0, s0)" "advance s0 = Ok (a1, s1)" "SetKind isModule s1 = Ok (a2, s2)"
      "withCalls (\<lambda>c. ParseStatementList c SP_STMT_GLOBAL_LEXICAL) s2 = Ok (statements, s3)"
      "currentScope s3 = Ok (sc, s4)" "AllocNode (Stmt (BlockStatement sc statements)) s4 = Ok (n, s5)"
      "BindNode sc (OtherNode n) s5 = Ok (a5, s6)" "tokenEnd s6 = Ok (a6, s7)"
      "onNodes (SetRange n a0 a6) s7 = Ok (a7, s8)" "IdentifierAnalysisOf n statements s8 = Ok (a8, s9)" "t = s9"
    unfolding ParseProgram_def by (elim bindM_OkE thenM_OkE) simp
  have "placed s2 s3"
    using run(4) by (rule placedD [rotated]) (intro pres at_depth.place_ParseStatementList)
  moreover have "sc = bScope (psBinder s3)" "s4 = s3"
    using run(5) by (simp_all add: currentScope_def)
  moreover have "nBody (nodeAt (psNodes s5) n) = Stmt (BlockStatement sc statements)" "placed s4 s5"
    using run(6) by (auto simp: AllocNode_def onNodes_Ok allocNode_def newNode_def placed_def moreNodes_def)
  moreover have "placed s5 s6"
    using run(7) by (rule placedD [rotated]) (intro pres)
  moreover have "psNodes s6 = psNodes s5"
    using run(7) by (auto simp: BindNode_def onScopes_def onBinder_Ok)
  moreover have "s7 = s6"
    using run(8) by (simp add: tokenEnd_def)
  moreover have "placed s7 s8"
    using run(9) by (rule placedD [rotated]) (intro pres)
  moreover have "nBody (nodeAt (psNodes s8) n) = nBody (nodeAt (psNodes s7) n)"
    using run(9) by (auto simp: onNodes_Ok SetRange_body)
  moreover have "psNodes s9 = psNodes s8" "placed s8 s9"
    using IdentifierAnalysisOf_Ok [OF run(10)] by simp_all
  moreover have "placed s0 s1"
    using run(2) by (rule placedD [rotated]) (intro pres)
  moreover have "bScope (psBinder s2) = topScope (psBinder s2)" "psLabel s2 = psLabel s" "psPrev s2 = psPrev s"
    using SetKind_Ok [OF run(3)] run(1) \<open>placed s0 s1\<close> by (auto simp: tokenStart_def placed_def)
  ultimately show ?thesis
    using run(11) by (intro that [of statements]) (simp_all add: placed_def)
qed

section \<open>Contexts\<close>

lemma advance_status: "advance s = Ok (a, t) \<Longrightarrow> psStatus t = psStatus s \<and> psNodes t = psNodes s"
  by (auto simp: advance_def onLexer_def within_def split: res.splits)

lemma savedStatus_adds: "savedStatus st m = thenM (addStatus st) m"
proof
  fix s :: parser
  have "psStatus s AND st = 0 \<Longrightarrow> dropStatus 0 t = Ok ((), t)" for t
    by (simp add: dropStatus_def run_defs)
  then show "savedStatus st m s = thenM (addStatus st) m s"
    by (auto simp: savedStatus_def addStatus_def whenM_def run_defs split: res.splits)
qed

lemma continue_without_loop:
  "\<not> has (psStatus s) PS_IN_ITERATION \<Longrightarrow> extensionOf s \<noteq> AS \<Longrightarrow> ParseContinueStatement s \<noteq> Ok r"
  by (cases "extensionOf s"; cases r)
    (auto simp: ParseContinueStatement_def throwIf_def run_defs Status_def Extension_def throw_never_ok split: res.splits)

section \<open>The properties\<close>

text \<open>
  C3: parsing a statement, of whatever kind and at whatever depth, ends in the scope it began in, under the same
  label and in the same contexts, whatever was entered in between, and only adds nodes to the arena.
\<close>

theorem statement_restores_place:
  assumes "ParseStatement (callsAt k) flags s = Ok (n, t)"
  shows "bScope (psBinder t) = bScope (psBinder s) \<and> topScope (psBinder t) = topScope (psBinder s)
    \<and> psLabel t = psLabel s \<and> psPrev t = psPrev s \<and> nodeCount (psNodes s) \<le> nodeCount (psNodes t)"
  using presD [OF at_depth.place_ParseStatement(1) assms] by (simp add: placed_def moreNodes_def)

theorem statement_restores_place_witness:
  "\<exists>s n t. ParseStatement (callsAt 3) SP_NONE s = Ok (n, t) \<and> bScope (psBinder t) = bScope (psBinder s)
    \<and> nodeCount (psNodes s) \<le> nodeCount (psNodes t)"
proof -
  obtain l r where "newLexer (testEnv JS) (asciiText '';'') = Ok l" "thenM advance (ParseStatement (callsAt 3) SP_NONE) (newParser l) = Ok r"
    using empty_statement_run [of "callsAt 3"] by (auto simp: returned_def runParser_def split: res.splits)
  then obtain s n t where "ParseStatement (callsAt 3) SP_NONE s = Ok (n, t)"
    by (cases r) (auto elim!: thenM_OkE)
  then show ?thesis using statement_restores_place by blast
qed

text \<open>
  C4: the tree of a program is a block of the top scope, and when the parser is done it stands in the top scope
  again, with no label and no context left open.
\<close>

theorem program_is_block:
  assumes "ParseScript e source = Ok (n, s) \<or> ParseModule e source = Ok (n, s)"
  shows "(\<exists>stmts. nBody (nodeAt (psNodes s) n) = Stmt (BlockStatement (topScope (psBinder s)) stmts))
    \<and> bScope (psBinder s) = topScope (psBinder s) \<and> psLabel s = [] \<and> psPrev s = []"
  using assms
proof
  assume "ParseScript e source = Ok (n, s)"
  then obtain l where "ParseProgram False (newParser l) = Ok (n, s)"
    by (auto simp: ParseScript_def runParser_def split: res.splits)
  then show ?thesis by (rule ParseProgram_block) (simp add: newParser_def)
next
  assume "ParseModule e source = Ok (n, s)"
  then obtain l where "ParseModuleProgram (newParser l) = Ok (n, s)"
    by (auto simp: ParseModule_def runParser_def split: res.splits)
  then obtain a0 s0 s1 top s2 ok s3 a4 s4 where run: "addStatus PS_MODULE (newParser l) = Ok (a0, s0)"
      "ParseProgram True s0 = Ok (n, s1)" "onBinder (getM topScope) s1 = Ok (top, s2)"
      "onScopes (ExportAnalysis top) s2 = Ok (ok, s3)" "throwIf (\<not> ok) ''Invalid exported binding'' s3 = Ok (a4, s4)" "s = s4"
    unfolding ParseModuleProgram_def by (elim bindM_OkE thenM_OkE) simp
  moreover have "placed s2 s3"
    using run(4) by (rule placedD [rotated]) (intro pres)
  moreover have "psNodes s3 = psNodes s2"
    using run(4) by (auto simp: onScopes_def onBinder_Ok)
  moreover have "s4 = s3"
    using run(5) by (auto simp: throwIf_def ThrowSyntaxError_def ThrowSyntaxErrorAt_def elim!: bindM_OkE
        split: if_splits res.splits option.splits)
  moreover have "s2 = s1" "psLabel s0 = []" "psPrev s0 = []"
    using run(1,3) by (auto simp: onBinder_Ok addStatus_def newParser_def)
  ultimately have eqs: "psNodes s = psNodes s1" "placed s1 s" "psLabel s0 = []" "psPrev s0 = []"
    using run(6) by simp_all
  show ?thesis
    by (rule ParseProgram_block [OF run(2)]) (use eqs in \<open>simp add: placed_def\<close>)
qed
theorem program_is_block_witness:
  "\<exists>n s stmts. ParseScript (testEnv JS) (asciiText '';'') = Ok (n, s)
    \<and> nBody (nodeAt (psNodes s) n) = Stmt (BlockStatement (topScope (psBinder s)) stmts) \<and> psPrev s = []"
proof -
  have "returned (ParseScript (testEnv JS) (asciiText '';''))"
    by (rule script_run) (rule empty_program_run)
  then obtain n s where "ParseScript (testEnv JS) (asciiText '';'') = Ok (n, s)"
    by (auto simp: returned_def split: res.splits)
  then show ?thesis using program_is_block [of "testEnv JS" "asciiText '';''" n s] by blast
qed

text \<open>
  C23: the status that \<open>SavedStatusContext\<close> sets is never taken back, because the destructor clears the flags of the
  saved value, which is none. A loop leaves the mark of a loop behind: a lone \<open>break\<close> is rejected, and the
  statements of \<open>for(;;);break\<close> are accepted.
\<close>

theorem loop_status_leaks:
  "iterationContext cl m = thenM (addStatus PS_IN_ITERATION) (lexicalScope cl m)
   \<and> rejection (ParseScript (testEnv JS) (asciiText ''break'')) = Some (''Illegal break statement'', 1, 6)
   \<and> returned (runParser (statementsOf (callsFrom c)) (testEnv JS) (asciiText ''for(;;);break''))"
proof (intro conjI)
  show "iterationContext cl m = thenM (addStatus PS_IN_ITERATION) (lexicalScope cl m)"
    by (simp add: iterationContext_def savedStatus_adds)
  show "rejection (ParseScript (testEnv JS) (asciiText ''break'')) = Some (''Illegal break statement'', 1, 6)"
    by (rule script_run) (rule break_run)
qed (rule loop_break_run)



text \<open>
  C25: at a line break \<open>continue\<close> ends before the next token, and \<open>break\<close> skips it, so that the next statement
  loses its first token.
\<close>

theorem break_swallows_token:
  assumes "atLineEnd s" "advance s = Ok (a, t)"
  shows "\<exists>from until. ParseContinueStatement s = makeNode (Stmt (ContinueStatement None)) (locStart (tok (psLexer s))) until t
    \<and> ParseBreakStatement s = bindM (makeNode (Stmt (BreakStatement None)) from (locEnd (tok (psLexer t)))) (\<lambda>n. thenM advance (ret n)) t"
proof -
  have s: "has (psStatus s) PS_IN_ITERATION" "extensionOf s = JS" "NewLine (tok (psLexer t))"
      "tokType (tok (psLexer t)) \<notin> {PUNCTUATOR_SEMI_COLON, EOS, PUNCTUATOR_RIGHT_BRACE}"
    using assms by (simp_all add: atLineEnd_def)
  have "psStatus s AND PS_IN_ITERATION = (psStatus s AND (PS_IN_ITERATION OR PS_IN_SWITCH)) AND PS_IN_ITERATION"
    by (simp add: and.assoc)
  then have loop: "has (psStatus s) (PS_IN_ITERATION OR PS_IN_SWITCH)"
    using s(1) unfolding has_def by (metis and_zero_eq and.commute)
  have "ParseContinueStatement s = makeNode (Stmt (ContinueStatement None)) (locStart (tok (psLexer s))) (locEnd (tok (psLexer s))) t"
    using s assms(2) by (simp add: ParseContinueStatement_def Status_def Extension_def throwIf_def run_defs tokenStart_def tokenEnd_def
        at_def atNewLine_def atAny_def)
  moreover have "ParseBreakStatement s = bindM (makeNode (Stmt (BreakStatement None)) (locStart (tok (psLexer s))) (locEnd (tok (psLexer t))))
      (\<lambda>n. thenM advance (ret n)) t"
    using s loop assms(2) by (simp add: ParseBreakStatement_def illegalBreak_def statusHas_def isTs_def Extension_def throwIf_def
        run_defs tokenStart_def tokenEnd_def at_def atNewLine_def atAny_def)
  ultimately show ?thesis by blast
qed

theorem break_swallows_token_witness:
  "\<exists>s t from until. ParseBreakStatement s =
    bindM (makeNode (Stmt (BreakStatement None)) from until) (\<lambda>n. thenM advance (ret n)) t \<and> advance s = Ok ((), t)"
proof -
  obtain s where s: "atLineEnd s"
    using line_end_run by (auto split: res.splits)
  then obtain t where t: "advance s = Ok ((), t)"
    by (auto simp: atLineEnd_def split: res.splits)
  show ?thesis using break_swallows_token [OF s t] t by blast
qed

end
