(* ===== verification/Precedence.thy ===== *)
theory Precedence
  imports Parser
begin

text \<open>
  Binary operators.  The right operand of an operator is read first, as a whole expression, and the operator
  is then moved down its left edge; the tree that results is compared with the one the precedences ask for.

  \<open>opTree\<close> is an expression of binary operators over operands, with the nodes of the arena it stands for;
  \<open>reps\<close> says that the arena holds it.  A binary expression in parentheses is an operand.
\<close>

section \<open>Trees of operators\<close>

datatype opTree = Operand nodeId | Operator nodeId opTree tokenType opTree

fun root :: "opTree \<Rightarrow> nodeId" where
  "root (Operand n) = n"
| "root (Operator n l opr r) = n"

fun nodesOf :: "opTree \<Rightarrow> nodeId list" where
  "nodesOf (Operand n) = [n]"
| "nodesOf (Operator n l opr r) = n # nodesOf l @ nodesOf r"

text \<open>What is written: operands and operators from left to right.\<close>

fun written :: "opTree \<Rightarrow> (nodeId + tokenType) list" where
  "written (Operand n) = [Inl n]"
| "written (Operator n l opr r) = written l @ Inr opr # written r"

definition operandBody :: "nodeBody \<Rightarrow> bool \<Rightarrow> bool" where
  "operandBody b grouped \<longleftrightarrow> (case b of Expr (BinaryExpression l r opr) \<Rightarrow> grouped \<and> l \<noteq> nullNode | _ \<Rightarrow> True)"

fun reps :: "nodeTable \<Rightarrow> opTree \<Rightarrow> bool" where
  "reps t (Operand n) \<longleftrightarrow> n \<noteq> nullNode \<and> operandBody (nBody (nodeAt t n)) (nGrouped (nodeAt t n))"
| "reps t (Operator n l opr r) \<longleftrightarrow> n \<noteq> nullNode \<and> \<not> nGrouped (nodeAt t n)
     \<and> nBody (nodeAt t n) = Expr (BinaryExpression (root l) (root r) opr) \<and> reps t l \<and> reps t r"

text \<open>An expression that stands in the arena, with nodes of its own.\<close>

definition stands :: "nodeTable \<Rightarrow> opTree \<Rightarrow> bool" where
  "stands t e \<longleftrightarrow> reps t e \<and> distinct (nodesOf e) \<and> (\<forall>n \<in> set (nodesOf e). n < nodeCount t)"

text \<open>The operator \<open>opr\<close> with the left operand \<open>x\<close>, as the new node \<open>new\<close>, in front of an expression.\<close>

fun insertOp :: "nodeId \<Rightarrow> tokenType \<Rightarrow> nodeId \<Rightarrow> opTree \<Rightarrow> opTree" where
  "insertOp x opr new (Operand n) = Operator new (Operand x) opr (Operand n)"
| "insertOp x opr new (Operator n l o' r) =
    (if amendsOperator o' False opr then Operator n (insertOp x opr new l) o' r
     else Operator new (Operand x) opr (Operator n l o' r))"

section \<open>The arena\<close>

lemma node_runs [simp]:
  "n \<noteq> nullNode \<Longrightarrow> getNode n t = Ok (nodeAt t n, t)"
  "n \<noteq> nullNode \<Longrightarrow> modNode n f t = Ok ((), t\<lparr>nodeAt := (nodeAt t)(n := f (nodeAt t n))\<rparr>)"
  "n \<noteq> nullNode \<Longrightarrow> bodyOf n t = Ok (nBody (nodeAt t n), t)"
  "n \<noteq> nullNode \<Longrightarrow> IsGrouped n t = Ok (nGrouped (nodeAt t n), t)"
  "n \<noteq> nullNode \<Longrightarrow> StartOf n t = Ok (nStart (nodeAt t n), t)"
  "n \<noteq> nullNode \<Longrightarrow> EndOf n t = Ok (nEnd (nodeAt t n), t)"
  "n \<noteq> nullNode \<Longrightarrow> isKind P n t = Ok (P (nBody (nodeAt t n)), t)"
  by (simp_all add: getNode_def modNode_def bodyOf_def IsGrouped_def StartOf_def EndOf_def isKind_def run_defs)

lemma root_nonnull: "reps t e \<Longrightarrow> root e \<noteq> nullNode"
  by (cases e) auto

lemma root_in_nodes: "root e \<in> set (nodesOf e)"
  by (cases e) auto

text \<open>Only the bodies and the parentheses of the nodes matter.\<close>

lemma reps_cong:
  assumes "\<And>n. n \<in> set (nodesOf e) \<Longrightarrow> nBody (nodeAt u n) = nBody (nodeAt t n) \<and> nGrouped (nodeAt u n) = nGrouped (nodeAt t n)"
  shows "reps u e = reps t e"
  using assms by (induction e) auto

lemma binaryParts_run:
  "n \<noteq> nullNode \<Longrightarrow> nBody (nodeAt t n) = Expr (BinaryExpression l r opr) \<Longrightarrow> binaryParts n t = Ok ((l, r, opr), t)"
  by (simp add: binaryParts_def run_defs)

lemma should_amend_run:
  "n \<noteq> nullNode \<Longrightarrow> nBody (nodeAt t n) = Expr (BinaryExpression l r opr) \<Longrightarrow>
   ShouldBinaryExpressionBeAmended n opr' t = Ok (amendsOperator opr (nGrouped (nodeAt t n)) opr', t)"
  by (simp add: ShouldBinaryExpressionBeAmended_def binaryParts_run run_defs)

text \<open>\<open>frame t u ns\<close>: outside of \<open>ns\<close> the bodies and the parentheses of the nodes are what they were.\<close>

definition frame :: "nodeTable \<Rightarrow> nodeTable \<Rightarrow> nodeId set \<Rightarrow> bool" where
  "frame t u ns \<longleftrightarrow> (\<forall>n. n \<notin> ns \<longrightarrow> nBody (nodeAt u n) = nBody (nodeAt t n) \<and> nGrouped (nodeAt u n) = nGrouped (nodeAt t n))"

lemma joinLeft_run:
  assumes "n \<noteq> nullNode" "x \<noteq> nullNode" "l \<noteq> nullNode" "nodeCount t \<noteq> nullNode" "n \<noteq> nodeCount t"
    and "nBody (nodeAt t n) = Expr (BinaryExpression l r opr)"
  obtains u where "joinLeft x opr' n t = Ok ((), u)" "nodeCount u = Suc (nodeCount t)" "frame t u {n, nodeCount t}"
    "nBody (nodeAt u (nodeCount t)) = Expr (BinaryExpression x l opr')" "\<not> nGrouped (nodeAt u (nodeCount t))"
    "nBody (nodeAt u n) = Expr (BinaryExpression (nodeCount t) r opr)" "nGrouped (nodeAt u n) = nGrouped (nodeAt t n)"
proof -
  define new where "new = nodeCount t"
  have "\<exists>u. joinLeft x opr' n t = Ok ((), u) \<and> nodeCount u = Suc new \<and> frame t u {n, new}
      \<and> nBody (nodeAt u new) = Expr (BinaryExpression x l opr') \<and> \<not> nGrouped (nodeAt u new)
      \<and> nBody (nodeAt u n) = Expr (BinaryExpression new r opr) \<and> nGrouped (nodeAt u n) = nGrouped (nodeAt t n)"
    using assms unfolding new_def [symmetric]
    by (simp add: joinLeft_def binaryParts_run run_defs allocNode_def SetRange_def SetLeft_def setBody_def SetStart_def
        newNode_def frame_def new_def [symmetric])
  then show ?thesis using that unfolding new_def by blast
qed

section \<open>The loop\<close>

definition amendFrom :: "nat \<Rightarrow> nodeId \<Rightarrow> tokenType \<Rightarrow> nodeId \<Rightarrow> nodeId \<Rightarrow> bool \<Rightarrow> unit nodeM" where
  "amendFrom k x opr n parent should =
    bindM (Amend_loop k x opr n parent should) (\<lambda>(be, parent, should). joinLeft x opr (if should then be else parent))"

lemma amend_here:
  assumes "n \<noteq> nullNode" "nBody (nodeAt t n) = Expr (BinaryExpression l r opr)" "l \<noteq> nullNode"
    and "\<not> isBinaryExpression (nBody (nodeAt t l)) \<or> \<not> should"
  shows "amendFrom (Suc k) x opr' n parent should t = joinLeft x opr' (if should then n else parent) t"
  using assms by (auto simp: amendFrom_def binaryParts_run run_defs)

lemma amend_deeper:
  assumes "n \<noteq> nullNode" "x \<noteq> nullNode" "nBody (nodeAt t n) = Expr (BinaryExpression l r opr)" "l \<noteq> nullNode" "l \<noteq> n"
    and "nBody (nodeAt t l) = Expr (BinaryExpression l' r' ol)"
  shows "amendFrom (Suc k) x opr' n parent True t =
    amendFrom k x opr' l n (amendsOperator ol (nGrouped (nodeAt t l)) opr')
      (t\<lparr>nodeAt := (nodeAt t)(n := (nodeAt t n)\<lparr>nStart := nStart (nodeAt t x)\<rparr>)\<rparr>)"
proof -
  let ?u = "t\<lparr>nodeAt := (nodeAt t)(n := (nodeAt t n)\<lparr>nStart := nStart (nodeAt t x)\<rparr>)\<rparr>"
  have "ShouldBinaryExpressionBeAmended l opr' ?u = Ok (amendsOperator ol (nGrouped (nodeAt t l)) opr', ?u)"
    using assms by (subst should_amend_run) auto
  then show ?thesis
    using assms by (simp add: amendFrom_def binaryParts_run run_defs isBinaryExpression_def SetStart_def)
qed

text \<open>The loop has fuel for the left edge.\<close>

fun leftEdge :: "opTree \<Rightarrow> nat" where
  "leftEdge (Operand n) = 1"
| "leftEdge (Operator n l opr r) = Suc (leftEdge l)"

lemma leftEdge_nodes: "leftEdge e \<le> length (nodesOf e)"
  by (induction e) auto

text \<open>\<open>fresh t e x\<close>: the next node of the arena and the operand \<open>x\<close> are none of the nodes of \<open>e\<close>.\<close>

definition fresh :: "nodeTable \<Rightarrow> opTree \<Rightarrow> nodeId \<Rightarrow> bool" where
  "fresh t e x \<longleftrightarrow> reps t e \<and> distinct (nodesOf e) \<and> reps t (Operand x) \<and> x \<notin> set (nodesOf e)
     \<and> nodeCount t \<notin> set (nodesOf e) \<and> nodeCount t \<noteq> nullNode \<and> x \<noteq> nodeCount t"

definition atStart :: "nodeId \<Rightarrow> nodeId \<Rightarrow> nodeTable \<Rightarrow> nodeTable" where
  "atStart n x t = t\<lparr>nodeAt := (nodeAt t)(n := (nodeAt t n)\<lparr>nStart := nStart (nodeAt t x)\<rparr>)\<rparr>"

lemma atStart_simps [simp]:
  "nBody (nodeAt (atStart n x t) m) = nBody (nodeAt t m)" "nGrouped (nodeAt (atStart n x t) m) = nGrouped (nodeAt t m)"
  "nodeCount (atStart n x t) = nodeCount t" "frame (atStart n x t) u ns \<longleftrightarrow> frame t u ns"
  by (auto simp: atStart_def frame_def)

lemma reps_atStart [simp]: "reps (atStart n x t) e = reps t e"
  by (rule reps_cong) simp

lemma fresh_atStart [simp]: "fresh (atStart n x t) e y = fresh t e y"
  unfolding fresh_def by (simp del: reps.simps)

lemma frame_mono: "frame t u ns \<Longrightarrow> ns \<subseteq> ms \<Longrightarrow> frame t u ms"
  unfolding frame_def by blast

lemma reps_frame: "frame t u ns \<Longrightarrow> set (nodesOf e) \<inter> ns = {} \<Longrightarrow> reps u e = reps t e"
  by (rule reps_cong) (auto simp: frame_def)

lemma join_reps:
  assumes "fresh t (Operator n l o' r) x"
  shows "\<exists>u. joinLeft x opr n t = Ok ((), u) \<and> nodeCount u = Suc (nodeCount t)
    \<and> reps u (Operator n (Operator (nodeCount t) (Operand x) opr l) o' r) \<and> frame t u {n, nodeCount t}"
proof -
  have facts: "n \<noteq> nullNode" "x \<noteq> nullNode" "root l \<noteq> nullNode" "nodeCount t \<noteq> nullNode" "n \<noteq> nodeCount t"
      "nBody (nodeAt t n) = Expr (BinaryExpression (root l) (root r) o')"
    using assms root_nonnull by (auto simp: fresh_def)
  obtain u where u: "joinLeft x opr n t = Ok ((), u)" "nodeCount u = Suc (nodeCount t)" "frame t u {n, nodeCount t}"
    "nBody (nodeAt u (nodeCount t)) = Expr (BinaryExpression x (root l) opr)" "\<not> nGrouped (nodeAt u (nodeCount t))"
    "nBody (nodeAt u n) = Expr (BinaryExpression (nodeCount t) (root r) o')" "nGrouped (nodeAt u n) = nGrouped (nodeAt t n)"
    by (rule joinLeft_run [OF facts])
  have "reps u e \<longleftrightarrow> reps t e" if "e = l \<or> e = r \<or> e = Operand x" for e
    by (rule reps_frame [OF u(3)]) (use assms that in \<open>auto simp: fresh_def\<close>)
  then have "reps u l" "reps u r" "reps u (Operand x)"
    using assms unfolding fresh_def reps.simps(2) by blast+
  then have "reps u (Operator n (Operator (nodeCount t) (Operand x) opr l) o' r)"
    using u(4-7) facts(1,4) assms by (simp add: fresh_def)
  with u show ?thesis by blast
qed

lemma amend_inserts:
  assumes "fresh t (Operator n l o' r) x" "leftEdge (Operator n l o' r) \<le> k" "amendsOperator o' False opr"
  shows "\<exists>u. amendFrom k x opr n parent True t = Ok ((), u) \<and> nodeCount u = Suc (nodeCount t)
    \<and> reps u (insertOp x opr (nodeCount t) (Operator n l o' r))
    \<and> frame t u (insert (nodeCount t) (set (nodesOf (Operator n l o' r))))"
  using assms
proof (induction l arbitrary: n o' r k t parent)
  case (Operand m)
  then obtain k' where k: "k = Suc (Suc k')" by (cases k; cases "k - 1") auto
  have n: "n \<noteq> nullNode" "x \<noteq> nullNode" "nBody (nodeAt t n) = Expr (BinaryExpression m (root r) o')" "m \<noteq> nullNode" "m \<noteq> n"
    using Operand.prems(1) by (auto simp: fresh_def)
  have "amendFrom k x opr n parent True t = joinLeft x opr n t
      \<or> amendFrom k x opr n parent True t = joinLeft x opr n (atStart n x t)"
  proof (cases "isBinaryExpression (nBody (nodeAt t m))")
    case False
    then show ?thesis using amend_here [OF n(1,3,4)] k by auto
  next
    case True
    then obtain l' r' ol where m: "nBody (nodeAt t m) = Expr (BinaryExpression l' r' ol)" "nGrouped (nodeAt t m)" "l' \<noteq> nullNode"
      using Operand.prems(1) by (auto simp: fresh_def operandBody_def isBinaryExpression_def split: nodeBody.splits expressionNode.splits)
    have "amendFrom k x opr n parent True t = amendFrom (Suc k') x opr m n False (atStart n x t)"
      using amend_deeper [OF n m(1)] m(2) k by (simp add: atStart_def amendsOperator_def)
    also have "\<dots> = joinLeft x opr n (atStart n x t)"
      by (subst amend_here [of m _ l' r' ol]) (use m n(4) in auto)
    finally show ?thesis by simp
  qed
  moreover have "fresh (atStart n x t) (Operator n (Operand m) o' r) x" using Operand.prems(1) by simp
  ultimately obtain u where "amendFrom k x opr n parent True t = Ok ((), u)" "nodeCount u = Suc (nodeCount t)"
      "reps u (Operator n (Operator (nodeCount t) (Operand x) opr (Operand m)) o' r)" "frame t u {n, nodeCount t}"
    using join_reps [OF Operand.prems(1), of opr] join_reps [of "atStart n x t" n "Operand m" o' r x opr] by auto
  then show ?case using Operand.prems(3) frame_mono by fastforce
next
  case (Operator m l1 o1 l2)
  let ?l = "Operator m l1 o1 l2"
  obtain k' where k: "k = Suc (Suc k')" using Operator.prems(2) by (cases k; cases "k - 1") auto
  have n: "n \<noteq> nullNode" "x \<noteq> nullNode" "nBody (nodeAt t n) = Expr (BinaryExpression m (root r) o')" "m \<noteq> nullNode" "m \<noteq> n"
    and m: "nBody (nodeAt t m) = Expr (BinaryExpression (root l1) (root l2) o1)" "\<not> nGrouped (nodeAt t m)"
    using Operator.prems(1) by (auto simp: fresh_def)
  have step: "amendFrom k x opr n parent True t =
      amendFrom (Suc k') x opr m n (amendsOperator o1 False opr) (atStart n x t)"
    using amend_deeper [OF n m(1)] m(2) k by (simp add: atStart_def)
  have fr: "fresh (atStart n x t) (Operator n ?l o' r) x" "fresh (atStart n x t) ?l x"
    using Operator.prems(1) by (auto simp: fresh_def)
  show ?case
  proof (cases "amendsOperator o1 False opr")
    case True
    have "leftEdge ?l \<le> Suc k'" using Operator.prems(2) k by simp
    from Operator.IH(1) [OF fr(2) this True, of n] obtain u where
      u: "amendFrom (Suc k') x opr m n True (atStart n x t) = Ok ((), u)" "nodeCount u = Suc (nodeCount t)"
        "reps u (insertOp x opr (nodeCount t) ?l)" "frame t u (insert (nodeCount t) (set (nodesOf ?l)))"
      by (auto simp del: insertOp.simps)
    have "reps u r" using reps_frame [OF u(4), of r] Operator.prems(1) by (auto simp: fresh_def)
    moreover have "nBody (nodeAt u n) = nBody (nodeAt t n)" "nGrouped (nodeAt u n) = nGrouped (nodeAt t n)"
      using u(4) Operator.prems(1) by (auto simp: fresh_def frame_def)
    moreover have "root (insertOp x opr (nodeCount t) ?l) = m" using True by simp
    ultimately have "reps u (insertOp x opr (nodeCount t) (Operator n ?l o' r))"
      using Operator.prems(1,3) u(3) n by (simp add: fresh_def)
    moreover have "frame t u (insert (nodeCount t) (set (nodesOf (Operator n ?l o' r))))"
      using u(4) by (auto intro: frame_mono)
    ultimately show ?thesis using step True u(1,2) by (simp del: insertOp.simps)
  next
    case False
    have "amendFrom (Suc k') x opr m n False (atStart n x t) = joinLeft x opr n (atStart n x t)"
      by (subst amend_here [of m _ "root l1" "root l2" o1]) (use m n(4) Operator.prems(1) root_nonnull in \<open>auto simp: fresh_def\<close>)
    then show ?thesis using step False join_reps [OF fr(1), of opr] Operator.prems(3) frame_mono by fastforce
  qed
qed

end
