(* ===== verification/PrecedenceSpec.thy ===== *)
theory PrecedenceSpec
  imports Precedence ParserRuns
begin

section \<open>Placing an operator\<close>

lemma within_Ok: "m (psNodes s) = Ok (a, t) \<Longrightarrow> onNodes m s = Ok (a, s\<lparr>psNodes := t\<rparr>)"
  by (simp add: onNodes_def within_def)

lemma place_runs:
  assumes "n \<noteq> nullNode"
  shows "bodyNow n s = Ok (nBody (nodeAt (psNodes s) n), s)" "onNodes (IsGrouped n) s = Ok (nGrouped (nodeAt (psNodes s) n), s)"
  using assms by (simp_all add: bodyNow_def onNodes_def within_def)

lemma newBinary_run:
  assumes "fresh t e x"
  shows "\<exists>u. newBinary x (root e) opr t = Ok (nodeCount t, u) \<and> nodeCount u = Suc (nodeCount t)
    \<and> reps u (Operator (nodeCount t) (Operand x) opr e) \<and> frame t u {nodeCount t}"
proof -
  define new where "new = nodeCount t"
  have n: "root e \<noteq> nullNode" "x \<noteq> nullNode" "new \<noteq> nullNode" "x \<noteq> new" "root e \<noteq> new"
    using assms root_nonnull [of t e] root_in_nodes [of e] by (auto simp: fresh_def new_def)
  have "\<exists>u. newBinary x (root e) opr t = Ok (new, u) \<and> nodeCount u = Suc new \<and> frame t u {new}
      \<and> nBody (nodeAt u new) = Expr (BinaryExpression x (root e) opr) \<and> \<not> nGrouped (nodeAt u new)"
    using n by (simp add: newBinary_def run_defs allocNode_def SetRange_def newNode_def frame_def new_def [symmetric])
  then obtain u where u: "newBinary x (root e) opr t = Ok (new, u)" "nodeCount u = Suc new" "frame t u {new}"
      "nBody (nodeAt u new) = Expr (BinaryExpression x (root e) opr)" "\<not> nGrouped (nodeAt u new)"
    by blast
  have "reps u f \<longleftrightarrow> reps t f" if "f = e \<or> f = Operand x" for f
    by (rule reps_frame [OF u(3)]) (use assms that in \<open>auto simp: fresh_def new_def\<close>)
  then have "reps u e" "reps u (Operand x)"
    using assms unfolding fresh_def by blast+
  with u n show ?thesis unfolding new_def by auto
qed

lemma stands_fresh:
  assumes "stands t e" "reps t (Operand x)" "x < nodeCount t" "x \<notin> set (nodesOf e)"
  shows "fresh t e x"
  using assms root_in_nodes [of e] by (auto simp: fresh_def stands_def nullNode_def)

lemma stands_leftEdge:
  assumes "stands t e"
  shows "leftEdge e \<le> Suc (nodeCount t)"
proof -
  have "set (nodesOf e) \<subseteq> {..<nodeCount t}"
    using assms by (auto simp: stands_def)
  then have "length (nodesOf e) \<le> nodeCount t"
    using card_mono [of "{..<nodeCount t}" "set (nodesOf e)"] assms by (simp add: distinct_card stands_def)
  then show ?thesis using leftEdge_nodes [of e] by simp
qed

lemma amendBinary_run:
  assumes "stands t (Operator n l o' r)" "fresh t (Operator n l o' r) x" "amendsOperator o' False opr"
  shows "\<exists>u. amendBinary x opr n t = Ok ((), u) \<and> nodeCount u = Suc (nodeCount t)
    \<and> reps u (insertOp x opr (nodeCount t) (Operator n l o' r))
    \<and> frame t u (insert (nodeCount t) (set (nodesOf (Operator n l o' r))))"
  using amend_inserts [OF assms(2) stands_leftEdge [OF assms(1)] assms(3), of nullNode]
  by (simp add: amendBinary_def amendFrom_def run_defs del: insertOp.simps)

lemma insert_nodes: "set (nodesOf (insertOp x opr new e)) = {new, x} \<union> set (nodesOf e)"
  by (induction e) auto

lemma insert_distinct:
  "distinct (nodesOf e) \<Longrightarrow> new \<noteq> x \<Longrightarrow> {new, x} \<inter> set (nodesOf e) = {} \<Longrightarrow> distinct (nodesOf (insertOp x opr new e))"
  by (induction e) (auto simp: insert_nodes)

lemma insert_written: "written (insertOp x opr new e) = Inl x # Inr opr # written e"
  by (induction e) auto

text \<open>The mixes of \<open>??\<close> with \<open>||\<close> and \<open>&&\<close> the parser looks for.\<close>

fun mixesNullish :: "tokenType \<Rightarrow> opTree \<Rightarrow> bool" where
  "mixesNullish opr (Operand n) \<longleftrightarrow> False"
| "mixesNullish opr (Operator n l o' r) \<longleftrightarrow>
    (if amendsOperator o' False opr
     then opr \<in> {PUNCTUATOR_LOGICAL_OR, PUNCTUATOR_LOGICAL_AND} \<and> o' = PUNCTUATOR_NULLISH_COALESCING
     else opr = PUNCTUATOR_NULLISH_COALESCING \<and> IsLogical o')"

lemma binary_or_operand:
  assumes "reps t (Operand n)" "nBody (nodeAt t n) = b"
  shows "\<not> isBinaryExpression b \<or> nGrouped (nodeAt t n)"
  using assms by (auto simp: operandBody_def isBinaryExpression_def split: nodeBody.splits expressionNode.splits)

lemma placeOperator_run:
  assumes "stands (psNodes s) e" "reps (psNodes s) (Operand x)" "x < nodeCount (psNodes s)" "x \<notin> set (nodesOf e)"
  shows "if mixesNullish opr e then \<nexists>r. placeOperator x opr (root e) s = Ok r
    else \<exists>u. placeOperator x opr (root e) s = Ok (root (insertOp x opr (nodeCount (psNodes s)) e), s\<lparr>psNodes := u\<rparr>)
      \<and> stands u (insertOp x opr (nodeCount (psNodes s)) e)
      \<and> frame (psNodes s) u (insert (nodeCount (psNodes s)) (set (nodesOf e)))"
proof -
  let ?t = "psNodes s"
  note fr = stands_fresh [OF assms]
  have nonnull: "root e \<noteq> nullNode" using assms(1) by (auto simp: stands_def root_nonnull)
  have stand: "stands u (insertOp x opr (nodeCount ?t) e)"
    if "reps u (insertOp x opr (nodeCount ?t) e)" "nodeCount u = Suc (nodeCount ?t)" for u
    using that assms(1,3) fr by (auto simp: stands_def fresh_def insert_nodes less_Suc_eq intro!: insert_distinct)
  show ?thesis
  proof (cases e)
    case (Operand m)
    have "\<not> isBinaryExpression (nBody (nodeAt ?t m)) \<or> nGrouped (nodeAt ?t m)"
      using assms(1) Operand by (intro binary_or_operand) (auto simp: stands_def)
    then have "placeOperator x opr m s = onNodes (newBinary x m opr) s"
      using nonnull Operand by (auto simp: placeOperator_def place_runs run_defs amendsOperator_def whenM_def)
    then show ?thesis
      using newBinary_run [OF fr, of opr] stand Operand by (auto simp: within_Ok intro: frame_mono)
  next
    case (Operator n l o' r)
    have b: "nBody (nodeAt ?t n) = Expr (BinaryExpression (root l) (root r) o')" "\<not> nGrouped (nodeAt ?t n)" "n \<noteq> nullNode"
      using assms(1) Operator by (simp_all add: stands_def)
    have run: "placeOperator x opr n s = (if amendsOperator o' False opr then
        thenM (whenM (opr \<in> {PUNCTUATOR_LOGICAL_OR, PUNCTUATOR_LOGICAL_AND} \<and> o' = PUNCTUATOR_NULLISH_COALESCING)
          (ThrowSyntaxError nullishMix)) (thenM (onNodes (amendBinary x opr n)) (ret n)) s
        else thenM (whenM (opr = PUNCTUATOR_NULLISH_COALESCING \<and> IsLogical o') (ThrowSyntaxError nullishMix))
          (onNodes (newBinary x n opr)) s)"
      using b by (simp add: placeOperator_def place_runs run_defs isBinaryExpression_def binaryOperator_def)
    show ?thesis
    proof (cases "mixesNullish opr e")
      case True
      then have "\<nexists>r. placeOperator x opr n s = Ok r"
        using Operator unfolding run by (auto simp: whenM_def throw_stops split: if_splits)
      then show ?thesis using True Operator by simp
    next
      case no: False
      show ?thesis
      proof (cases "amendsOperator o' False opr")
        case True
        obtain u where u: "amendBinary x opr n ?t = Ok ((), u)" "nodeCount u = Suc (nodeCount ?t)"
            "reps u (insertOp x opr (nodeCount ?t) e)" "frame ?t u (insert (nodeCount ?t) (set (nodesOf e)))"
          using amendBinary_run [of ?t n l o' r x opr] assms(1) fr True Operator by (auto simp del: insertOp.simps reps.simps)
        have "placeOperator x opr n s = Ok (n, s\<lparr>psNodes := u\<rparr>)"
          using no True Operator u(1) unfolding run by (auto simp: whenM_def run_defs within_Ok)
        then show ?thesis using stand [OF u(3,2)] u(4) no True Operator by auto
      next
        case False
        then have "placeOperator x opr n s = onNodes (newBinary x n opr) s"
          using no Operator unfolding run by (auto simp: whenM_def run_defs)
        then show ?thesis
          using newBinary_run [OF fr, of opr] stand Operator False no by (auto simp: within_Ok intro: frame_mono)
      qed
    qed
  qed
qed

section \<open>Precedence\<close>

definition binaryTokens :: "tokenType set" where
  "binaryTokens = insert KEYW_IN binaryOperators"

text \<open>Of two operators in this order, the first takes the operand between them.\<close>

definition bindsFirst :: "tokenType \<Rightarrow> tokenType \<Rightarrow> bool" where
  "bindsFirst o1 o2 \<longleftrightarrow> GetOperatorPrecedence o1 > GetOperatorPrecedence o2
     \<or> GetOperatorPrecedence o1 = GetOperatorPrecedence o2 \<and> o1 \<noteq> PUNCTUATOR_EXPONENTIATION"

definition operatorsOf :: "opTree \<Rightarrow> tokenType set" where
  "operatorsOf e = {opr. Inr opr \<in> set (written e)}"

lemma operatorsOf_simps [simp]:
  "operatorsOf (Operand n) = {}" "operatorsOf (Operator n l opr r) = insert opr (operatorsOf l \<union> operatorsOf r)"
  by (auto simp: operatorsOf_def)

text \<open>An expression grouped by precedence: the operators on the left of each operator bind before it, and it before none on its right.\<close>

fun byPrecedence :: "opTree \<Rightarrow> bool" where
  "byPrecedence (Operand n) \<longleftrightarrow> True"
| "byPrecedence (Operator n l opr r) \<longleftrightarrow> byPrecedence l \<and> byPrecedence r
     \<and> (\<forall>o1 \<in> operatorsOf l. bindsFirst o1 opr) \<and> (\<forall>o2 \<in> operatorsOf r. \<not> bindsFirst opr o2)"

text \<open>The expression without the numbers of its operators.\<close>

fun bare :: "opTree \<Rightarrow> opTree" where
  "bare (Operand n) = Operand n"
| "bare (Operator n l opr r) = Operator nullNode (bare l) opr (bare r)"

lemma written_Operand: "written e = [Inl n] \<Longrightarrow> e = Operand n"
  by (cases e) (auto simp: append_eq_Cons_conv)

lemma split_at:
  "xs @ a # ys = xs' @ b # ys' \<Longrightarrow> xs = xs' \<and> a = b \<and> ys = ys' \<or> a \<in> set xs' \<and> b \<in> set ys \<or> b \<in> set xs \<and> a \<in> set ys'"
proof (induction xs arbitrary: xs')
  case Nil
  then show ?case by (cases xs') auto
next
  case (Cons c xs)
  then show ?case by (cases xs') auto
qed

lemma split_at_operator:
  assumes "written l @ Inr o1 # written r = written l' @ Inr o2 # written r'"
  shows "written l = written l' \<and> o1 = o2 \<and> written r = written r'
    \<or> o1 \<in> operatorsOf l' \<and> o2 \<in> operatorsOf r \<or> o2 \<in> operatorsOf l \<and> o1 \<in> operatorsOf r'"
  using split_at [OF assms] by (auto simp: operatorsOf_def)

lemma byPrecedence_unique:
  "byPrecedence e \<Longrightarrow> byPrecedence f \<Longrightarrow> written e = written f \<Longrightarrow> bare e = bare f"
proof (induction e arbitrary: f)
  case (Operand n)
  then show ?case using written_Operand [of f n] by simp
next
  case (Operator n l opr r)
  show ?case
  proof (cases f)
    case (Operand m)
    then show ?thesis using written_Operand [of "Operator n l opr r" m] Operator.prems(3) by simp
  next
    case f: (Operator m l' opr' r')
    have "written l = written l' \<and> opr = opr' \<and> written r = written r'"
      using split_at_operator [of l opr r l' opr' r'] Operator.prems f by auto
    then show ?thesis using Operator.IH [of l'] Operator.IH(2) [of r'] Operator.prems f by auto
  qed
qed

lemma highest: "opr \<in> binaryTokens \<Longrightarrow> GetOperatorPrecedence opr \<le> 11 \<and> (GetOperatorPrecedence opr = 11 \<longleftrightarrow> opr = PUNCTUATOR_EXPONENTIATION)"
  unfolding binaryTokens_def binaryOperators_def GetOperatorPrecedence_def by auto

lemma amends_bindsFirst: "amendsOperator o2 False o1 \<longleftrightarrow> bindsFirst o1 o2" if "o1 \<in> binaryTokens" "o2 \<in> binaryTokens"
  using highest [OF that(1)] highest [OF that(2)] by (auto simp: amendsOperator_def bindsFirst_def)

lemma bindsFirst_trans:
  assumes "opr \<in> binaryTokens" "o' \<in> binaryTokens" "o1 \<in> binaryTokens" "\<not> bindsFirst opr o'"
  shows "bindsFirst o1 o' \<Longrightarrow> \<not> bindsFirst opr o1" "\<not> bindsFirst o' o1 \<Longrightarrow> \<not> bindsFirst opr o1"
  using highest [OF assms(1)] highest [OF assms(2)] highest [OF assms(3)] assms(4)
  by (auto simp: bindsFirst_def)

lemma insert_operators: "operatorsOf (insertOp x opr new e) = insert opr (operatorsOf e)"
  by (auto simp: operatorsOf_def insert_written)

lemma insert_byPrecedence:
  assumes "byPrecedence e" "insert opr (operatorsOf e) \<subseteq> binaryTokens"
  shows "byPrecedence (insertOp x opr new e)"
  using assms
proof (induction e)
  case (Operator n l o' r)
  have toks: "opr \<in> binaryTokens" "o' \<in> binaryTokens" "operatorsOf l \<subseteq> binaryTokens" "operatorsOf r \<subseteq> binaryTokens"
    using Operator.prems(2) by auto
  have "\<not> bindsFirst opr o1" if "\<not> bindsFirst opr o'" "o1 \<in> operatorsOf l \<union> operatorsOf r" for o1
    using bindsFirst_trans [of opr o' o1] that toks Operator.prems(1) by auto
  then show ?case
    using Operator.IH(1) Operator.prems toks by (auto simp: amends_bindsFirst insert_operators)
qed simp

section \<open>The precedences of the language\<close>

text \<open>
  The levels of the grammar of ECMAScript, from \<open>LogicalORExpression\<close> to \<open>ExponentiationExpression\<close>; the
  grammar does not mix \<open>??\<close> with the logical operators.
\<close>

definition grammarLevels :: "tokenType list list" where
  "grammarLevels = [[PUNCTUATOR_NULLISH_COALESCING], [PUNCTUATOR_LOGICAL_OR], [PUNCTUATOR_LOGICAL_AND],
     [PUNCTUATOR_BITWISE_OR], [PUNCTUATOR_BITWISE_XOR], [PUNCTUATOR_BITWISE_AND],
     [PUNCTUATOR_EQUAL, PUNCTUATOR_NOT_EQUAL, PUNCTUATOR_STRICT_EQUAL, PUNCTUATOR_NOT_STRICT_EQUAL],
     [PUNCTUATOR_LESS_THAN, PUNCTUATOR_GREATER_THAN, PUNCTUATOR_LESS_THAN_EQUAL, PUNCTUATOR_GREATER_THAN_EQUAL,
      KEYW_INSTANCEOF, KEYW_IN],
     [PUNCTUATOR_LEFT_SHIFT, PUNCTUATOR_RIGHT_SHIFT, PUNCTUATOR_UNSIGNED_RIGHT_SHIFT],
     [PUNCTUATOR_PLUS, PUNCTUATOR_MINUS], [PUNCTUATOR_MULTIPLY, PUNCTUATOR_DIVIDE, PUNCTUATOR_MOD],
     [PUNCTUATOR_EXPONENTIATION]]"

definition grammarLevel :: "tokenType \<Rightarrow> nat" where
  "grammarLevel opr = length (takeWhile (\<lambda>ops. opr \<notin> set ops) grammarLevels)"

text \<open>Operators of one level group from the left, but \<open>**\<close> from the right.\<close>

definition grammarFirst :: "tokenType \<Rightarrow> tokenType \<Rightarrow> bool" where
  "grammarFirst o1 o2 \<longleftrightarrow> grammarLevel o2 < grammarLevel o1
     \<or> grammarLevel o1 = grammarLevel o2 \<and> o1 \<noteq> PUNCTUATOR_EXPONENTIATION"

lemma grammarLevel_precedence:
  "opr \<in> binaryTokens \<Longrightarrow>
   Suc (grammarLevel opr) = GetOperatorPrecedence opr + (if GetOperatorPrecedence opr < 3 \<or> opr = PUNCTUATOR_LOGICAL_AND then 0 else 1)
   \<and> (GetOperatorPrecedence opr = 3 \<longleftrightarrow> opr = PUNCTUATOR_LOGICAL_AND \<or> opr = PUNCTUATOR_BITWISE_OR)"
  unfolding binaryTokens_def binaryOperators_def GetOperatorPrecedence_def grammarLevel_def grammarLevels_def
  by auto

section \<open>The properties\<close>

text \<open>A parser that has read \<open>b + c\<close>, the operands at 3 and 4 and the operator at 5, after the operand 2.\<close>

definition sampleTree :: opTree where
  "sampleTree = Operator 5 (Operand 3) PUNCTUATOR_PLUS (Operand 4)"

definition sampleState :: parser where
  "sampleState = (newParser (startLexer (testEnv JS) []))\<lparr>psNodes := emptyTable\<lparr>nodeCount := 6,
     nodeAt := (nodeAt emptyTable)(5 := newNode (Expr (BinaryExpression 3 4 PUNCTUATOR_PLUS)))\<rparr>\<rparr>"

lemma sample_stands: "stands (psNodes sampleState) sampleTree" "reps (psNodes sampleState) (Operand 2)"
  "nodeCount (psNodes sampleState) = 6"
  by (simp_all add: stands_def sampleState_def sampleTree_def emptyTable_def newNode_def nullNode_def operandBody_def)

lemma sample_insert: "insertOp 2 PUNCTUATOR_MULTIPLY 6 sampleTree
    = Operator 5 (Operator 6 (Operand 2) PUNCTUATOR_MULTIPLY (Operand 3)) PUNCTUATOR_PLUS (Operand 4)"
  "\<not> mixesNullish PUNCTUATOR_MULTIPLY sampleTree" "root sampleTree = 5" "2 \<notin> set (nodesOf sampleTree)"
  by (simp_all add: sampleTree_def amendsOperator_def GetOperatorPrecedence_def)

text \<open>
  C5: placing an operator before an expression that stands in the arena is the insertion on trees: the
  answer is the root of the new tree, the tree stands in the arena with one more node, and no other node
  changes. A mix of nullish and logical operators is an error.
\<close>

theorem place_operator_refines:
  assumes "stands (psNodes s) e" "reps (psNodes s) (Operand x)" "x < nodeCount (psNodes s)" "x \<notin> set (nodesOf e)"
  shows "if mixesNullish opr e then \<nexists>r. placeOperator x opr (root e) s = Ok r
    else \<exists>u. placeOperator x opr (root e) s = Ok (root (insertOp x opr (nodeCount (psNodes s)) e), s\<lparr>psNodes := u\<rparr>)
      \<and> stands u (insertOp x opr (nodeCount (psNodes s)) e)
      \<and> frame (psNodes s) u (insert (nodeCount (psNodes s)) (set (nodesOf e)))"
  using assms by (rule placeOperator_run)

theorem place_operator_refines_witness:
  "\<exists>u. placeOperator 2 PUNCTUATOR_MULTIPLY 5 sampleState = Ok (5, sampleState\<lparr>psNodes := u\<rparr>)
    \<and> stands u (Operator 5 (Operator 6 (Operand 2) PUNCTUATOR_MULTIPLY (Operand 3)) PUNCTUATOR_PLUS (Operand 4))"
  using place_operator_refines [OF sample_stands(1,2), of PUNCTUATOR_MULTIPLY]
  by (simp add: sample_stands(3) sample_insert) blast

text \<open>
  C6: if the expression on the right is grouped by precedence, so is the one that results from placing an
  operator before it; it is what was written with the operator and the operand in front, and the only
  expression of these operands and operators that is grouped by precedence.
\<close>

theorem operators_grouped_by_precedence:
  assumes "stands (psNodes s) e" "reps (psNodes s) (Operand x)" "x < nodeCount (psNodes s)" "x \<notin> set (nodesOf e)"
    and "byPrecedence e" "insert opr (operatorsOf e) \<subseteq> binaryTokens"
    and "placeOperator x opr (root e) s = Ok (n, t)"
  shows "\<exists>f. n = root f \<and> stands (psNodes t) f \<and> byPrecedence f \<and> written f = Inl x # Inr opr # written e
    \<and> (\<forall>f'. byPrecedence f' \<and> written f' = written f \<longrightarrow> bare f' = bare f)"
proof -
  let ?f = "insertOp x opr (nodeCount (psNodes s)) e"
  have f: "n = root ?f" "stands (psNodes t) ?f"
    using placeOperator_run [OF assms(1-4), of opr] assms(7) by (auto split: if_splits)
  moreover have "byPrecedence ?f" by (rule insert_byPrecedence [OF assms(5,6)])
  ultimately show ?thesis using byPrecedence_unique insert_written by blast
qed

theorem operators_grouped_by_precedence_witness:
  "\<exists>n t f. placeOperator 2 PUNCTUATOR_MULTIPLY 5 sampleState = Ok (n, t) \<and> n = root f \<and> stands (psNodes t) f \<and> byPrecedence f
    \<and> written f = [Inl 2, Inr PUNCTUATOR_MULTIPLY, Inl 3, Inr PUNCTUATOR_PLUS, Inl 4]"
proof -
  obtain u where u: "placeOperator 2 PUNCTUATOR_MULTIPLY 5 sampleState = Ok (5, sampleState\<lparr>psNodes := u\<rparr>)"
    using placeOperator_run [OF sample_stands(1,2), of PUNCTUATOR_MULTIPLY]
    by (simp add: sample_stands(3) sample_insert) blast
  show ?thesis
    using operators_grouped_by_precedence [OF sample_stands(1,2), of PUNCTUATOR_MULTIPLY 5 "sampleState\<lparr>psNodes := u\<rparr>"] u
    by (auto simp: sample_stands(3) sample_insert(3,4)) (auto simp: sampleTree_def binaryTokens_def binaryOperators_def)
qed

text \<open>
  C22: the test that moves an operator to the left agrees with the grammar of ECMAScript for every pair of
  operators but one: the code puts \<open>&&\<close> and \<open>|\<close> on one level, so that in \<open>a && b | c\<close> the \<open>&&\<close> takes \<open>b\<close>,
  which the grammar gives to the \<open>|\<close>.
\<close>

theorem precedence_is_grammar:
  assumes "o1 \<in> binaryTokens" "o2 \<in> binaryTokens"
  shows "(amendsOperator o2 False o1 \<longleftrightarrow> grammarFirst o1 o2) \<longleftrightarrow> \<not> (o1 = PUNCTUATOR_LOGICAL_AND \<and> o2 = PUNCTUATOR_BITWISE_OR)"
proof -
  define p1 p2 g1 g2 where "p1 = GetOperatorPrecedence o1" "p2 = GetOperatorPrecedence o2"
    "g1 = grammarLevel o1" "g2 = grammarLevel o2"
  note defs = this
  have "Suc g1 = p1 + (if p1 < 3 \<or> o1 = PUNCTUATOR_LOGICAL_AND then 0 else 1)"
      "Suc g2 = p2 + (if p2 < 3 \<or> o2 = PUNCTUATOR_LOGICAL_AND then 0 else 1)"
      "p1 = 3 \<longleftrightarrow> o1 = PUNCTUATOR_LOGICAL_AND \<or> o1 = PUNCTUATOR_BITWISE_OR"
      "p2 = 3 \<longleftrightarrow> o2 = PUNCTUATOR_LOGICAL_AND \<or> o2 = PUNCTUATOR_BITWISE_OR"
    unfolding defs using grammarLevel_precedence assms by blast+
  then have "(p2 < p1 \<or> p1 = p2 \<and> o1 \<noteq> PUNCTUATOR_EXPONENTIATION) = (g2 < g1 \<or> g1 = g2 \<and> o1 \<noteq> PUNCTUATOR_EXPONENTIATION)
      \<longleftrightarrow> \<not> (o1 = PUNCTUATOR_LOGICAL_AND \<and> o2 = PUNCTUATOR_BITWISE_OR)"
    by (cases "o1 = PUNCTUATOR_LOGICAL_AND"; cases "o2 = PUNCTUATOR_LOGICAL_AND"; cases "o1 = PUNCTUATOR_BITWISE_OR";
        cases "o2 = PUNCTUATOR_BITWISE_OR"; cases "p1 < 3"; cases "p2 < 3"; simp) auto
  then show ?thesis
    unfolding amends_bindsFirst [OF assms] bindsFirst_def grammarFirst_def defs .
qed

theorem precedence_is_grammar_witness:
  "amendsOperator PUNCTUATOR_BITWISE_OR False PUNCTUATOR_LOGICAL_AND \<noteq> grammarFirst PUNCTUATOR_LOGICAL_AND PUNCTUATOR_BITWISE_OR"
  using precedence_is_grammar [of PUNCTUATOR_LOGICAL_AND PUNCTUATOR_BITWISE_OR]
  by (simp add: binaryTokens_def binaryOperators_def)

end
