(* ===== verification/Spec2Isabelle.thy ===== *)
theory Spec2Isabelle
  imports RegExpSpec SourceLoc KeywordSpec BinderSpec GeneratorSpec ConditionSpec ParserSpec PrecedenceSpec
begin

text \<open>
  A verification library for \<open>es2panda\<close>, the compiler from ECMAScript and TypeScript to Panda bytecode
  (\<open>src/es2panda\<close>).

  \<^bold>\<open>How the program works.\<close>  The driver reads a source file; the lexer turns it into tokens on demand of
  the recursive-descent parser, which builds the syntax tree and, while it does so, the scopes with their
  declarations.  The binder then resolves every identifier to a variable and captures the variables
  of outer functions.  The checker types TypeScript.  The compiler takes one function at a time: each
  node of the tree has a method \<open>Compile\<close> that calls the emission methods of \<open>PandaGen\<close>; these append
  instructions over unbounded registers, through a register allocator that spills the operands an
  instruction format cannot encode.  The emitter hands the result to the assembler of the runtime.

  \<^bold>\<open>Theories and code.\<close>
  \<^item> \<open>Prelude\<close>: the result type of code that may throw, read undefined memory or exhaust its bound
    (\<open>Ok\<close>, \<open>Throw\<close>, \<open>Undefined\<close>, \<open>NoFuel\<close>), its state monad, the weakest precondition \<open>wp\<close> and its rules.
  \<^item> \<open>UString\<close>: \<open>util/ustring.h\<close>, \<open>ustring.cpp\<close>: UTF-8 strings, their iterator, encoders, escaping.
  \<^item> \<open>Letters\<close>: \<open>lexer/token/letters.h\<close>; \<open>Ascii\<close>: lemmas on ASCII text.
  \<^item> \<open>RegExp\<close>: \<open>lexer/regexp/regexp.cpp\<close>, every method of the validator of regular expressions;
    \<open>RegExpProps\<close> and \<open>RegExpSpec\<close>: its bounds, its termination and what it accepts.
  \<^item> \<open>SourceLoc\<close>: \<open>lexer/token/sourceLocation.cpp\<close>: the line table and the position lookup.
  \<^item> \<open>Tokens\<close>: \<open>token.h\<close>, \<open>token.cpp\<close>, \<open>tokenType.h\<close>.
  \<^item> \<open>LexerState\<close>, \<open>LexerScan\<close>, \<open>Keywords\<close>, \<open>Lexer\<close>: \<open>lexer/lexer.h\<close>, \<open>lexer.cpp\<close>, \<open>keywordsUtil.cpp\<close> and the
    keyword scanners generated from \<open>lexer/scripts/keywords.rb\<close>: a record for the lexer, one definition
    for each method.  \<open>LexerWp\<close>: one rule for each method; \<open>LexerSpec\<close>, \<open>KeywordSpec\<close>: the theorems.
  \<^item> \<open>Scope\<close>: \<open>binder/scope.h\<close>, \<open>scope.cpp\<close>, \<open>variable.*\<close>, \<open>declaration.h\<close>, \<open>variableFlags.h\<close>: the arena of
    scopes, variables and declarations, its objects named by number, with virtual calls dispatched on
    the class of a scope.  \<open>ScopeProps\<close>: the invariant of the arena and a rule for each operation;
    \<open>ScopeSpec\<close>: what lookup, declaration, capture and export analysis do.
  \<^item> \<open>Helpers\<close>: the syntax tree as the binder reads it and \<open>util/helpers.cpp\<close>.
  \<^item> \<open>Binder\<close>: \<open>binder/binder.h\<close>, \<open>binder.cpp\<close>: the resolution pass; \<open>BinderSpec\<close>: its theorems.
  \<^item> \<open>Ast\<close>: the nodes under \<open>ir/\<close> as the parser builds them, in an arena that names them by number, with the
    methods that change them and turn literals into patterns; \<open>AstTree\<close>: the order in which \<open>Iterate\<close> visits
    the children, and the tree the binder reads.
  \<^item> \<open>ParserState\<close>: \<open>parser/context/parserContext.*\<close>, \<open>program/program.*\<close> and the inline methods of
    \<open>parserImpl.h\<close>: a record of the lexer, the binder, the arena, the status and the label, with the contexts
    around.  \<open>TypeParser\<close>, \<open>PatternParser\<close>, \<open>ExprParser\<close>, \<open>ClassParser\<close>, \<open>StmtParser\<close>, \<open>Parser\<close>: \<open>parserImpl.cpp\<close>,
    \<open>expressionParser.cpp\<close>, \<open>statementParser.cpp\<close>, one definition for each method.
  \<^item> \<open>Preserves\<close>, \<open>Discipline\<close>, \<open>DisciplineParser\<close>: relations every method keeps, as locales; the recursive
    calls interpret them at every depth.  \<open>ParserRuns\<close>: runs on short sources, for any recursive calls;
    \<open>ParserSpec\<close>: the theorems; \<open>Precedence\<close>, \<open>PrecedenceSpec\<close>: the loop that places a binary operator, and
    the tree it gives.
  \<^item> \<open>Names\<close>: the names \<open>util/helpers.cpp\<close> makes from numbers; \<open>BitSet\<close>: \<open>util/bitset.*\<close>.
  \<^item> \<open>IRNode\<close>: \<open>ir/irnode.h\<close>, the instructions the generator emits and the formats that bound their
    registers; \<open>AstNode\<close>: the nodes under \<open>ir/\<close> as the generator reads them.
  \<^item> \<open>RegAlloc\<close>: \<open>compiler/core/regAllocator.*\<close>; \<open>RegAllocSpec\<close>: what a spilled instruction reads.
  \<^item> \<open>PandaGen\<close>, \<open>VarAccess\<close>: \<open>compiler/core/pandagen.*\<close>, \<open>regScope.cpp\<close>, \<open>moduleContext.cpp\<close>,
    \<open>base/hoisting.cpp\<close>, \<open>base/lexenv.cpp\<close>: a record for the generator, one definition for each method.
  \<^item> \<open>Contexts\<close>: \<open>dynamicContext.*\<close>, \<open>envScope.*\<close>, \<open>labelTarget.*\<close>, \<open>base/catchTable.cpp\<close>, \<open>base/iterators.cpp\<close>
    and the builders under \<open>compiler/function\<close>.
  \<^item> \<open>Patterns\<close>: conditions, literals, \<open>switch\<close>, references and destructuring (\<open>compiler/base\<close>);
    \<open>Expressions\<close>, \<open>Statements\<close>: the \<open>Compile\<close> methods under \<open>ir/\<close>; \<open>FunctionCompile\<close>: \<open>compiler/core/function.cpp\<close>.
  \<^item> \<open>Transition\<close>, \<open>Growth\<close>, \<open>GrowthCode\<close>, \<open>GrowthContexts\<close>, \<open>GrowthCompile\<close>: what every method of the
    generator preserves, as locales that its methods interpret; \<open>GeneratorSpec\<close>: the theorems on it;
    \<open>ConditionSpec\<close>: an abstract machine and the correctness of the code of conditions on it.

  \<^bold>\<open>What the lemmas show.\<close>  The lexer and the validator never read outside well-formed source and always
  end, but for the loops named in the theorems; text conversion is total and round-trips; positions
  are exact on ASCII source; the keyword search is exact on sorted tables.  The operations on scopes
  always end and keep the invariant of the arena; lookup is a search of the scope chain; slots of
  captured variables are distinct; the resolution pass restores its scope and binds each reference to
  what the chain says.  The parser ends a statement in the scope and the contexts it began it in; the
  operators of an expression end up grouped by precedence.  Compiling a node only appends to the code and the tables, registers every name an
  instruction mentions, and leaves scope, environment and context as they were; a jump goes to the
  context its label names; the code of a condition computes its short-circuit evaluation; the moves
  before a spilled instruction bring it its operands.  Theorems that state a defect say so in their text.

  \<^bold>\<open>Bounds.\<close>  A loop of the code that a structural recursion does not give has a bound as its first
  argument, and reaching it is the value \<open>NoFuel\<close>.  The lexer's loops get the length of the source plus
  a constant, since each round reads a character; the walks up the scope chain get the number of
  scopes, since a parent is older than its child; the theorems show that these bounds are never
  reached.  The validator takes its bound as an argument, because one of its loops does not end.  The
  \<open>Compile\<close> methods call each other through the record \<open>calls\<close>; \<open>callsAt k\<close> allows \<open>k\<close> nested calls, and the
  theorems hold for every \<open>k\<close>.  The methods of the parser do the same; a program gets three nested calls
  for each byte that is left, and nine more, and a loop over tokens (\<open>bounded\<close>) gets the bytes that are left, and three.  That this
  is enough is not proved: the theorems on the parser are about runs that return, or are runs.  A walk of
  the tree gets the number of nodes, as does the loop that places an operator, for which it is proved
  to be enough.  The loop that spills an empty range gets \<open>2 ^ 16\<close> rounds, the number
  of registers.

  \<^bold>\<open>Parameters.\<close>  The properties of code points (ICU), the conversion of number texts (\<open>std::stold\<close>) and the
  floating-point comparisons of its results are arguments of the definitions that use them; the
  theorems hold for all of them.  The formats of instructions are generated from the runtime's description
  and are the argument \<open>isa\<close>; the abstract machine of \<open>ConditionSpec\<close> has the effect of an instruction and
  the truth of a value as arguments.

  \<^bold>\<open>Conventions.\<close>  \<open>char\<close> is signed.  A call of \<open>ASSERT\<close> is absent, as in a release build; reading through a
  null pointer, \<open>UNREACHABLE()\<close> and reading outside a buffer are \<open>Undefined\<close> (or \<open>None\<close>).  The value
  \<open>LexicalScope::Enter\<close> returns is taken to be constructed in place, as compilers do.  The arena never
  runs out of memory.  Arguments of calls are evaluated from left to right; a hash table is the list of
  its entries in the order of insertion; \<open>std::sort\<close> is stable; a jump to a null label is \<open>Undefined\<close>.
  A pointer that may be null is an option, or the number \<open>nullNode\<close> where the code never tests it.  Evaluated on the sources of
  \<open>src/es2panda/test/parser\<close>, the parser of the model agrees with the expected files in every case of
  JavaScript, in acceptance, message, position and kinds of nodes, and in those of TypeScript but for
  positions that are older than the licence header and for tests of overloads the code no longer has.
  A destructor is the end of the bracket that models its object (\<open>inLocalRegScope\<close>, \<open>inTryContext\<close>).

  \<^bold>\<open>Not modelled.\<close>  The JSON dump of the tree; three methods of the parser that nothing calls
  (\<open>IsPropertyKeysAreSame\<close>, \<open>IsMemberExpressionsAreSame\<close>, \<open>IsMethodDefinitionsAreSame\<close>); the checker and the TypeScript types, the
  numbering of inline cache slots, the emitter and debug information (their target, the assembler of
  the runtime, is not part of the repository; nor is it for \<open>src/ts2panda/ts2abc\<close>), threads, the command line;
  \<open>src/ts2panda\<close>, a second compiler in TypeScript.
\<close>

end
